(* ===== verification/Prelude.thy ===== *)
theory Prelude
  imports Main "HOL-Library.List_Lexorder" "HOL-Library.Char_ord"
begin

section \<open>Shared vocabulary: exceptions, results and Python strings\<close>

text \<open>
  What every component of the model uses: the exceptions the sources raise, the result type of a
  pure Python function that may raise, and the string operations of the language.

  A Python \<open>str\<close> is modelled by its UTF-8 encoding, an Isabelle \<open>string\<close> whose characters are
  bytes; a Python \<open>bytes\<close> object is a \<open>string\<close> as well.  Under this reading \<open>encode("utf-8")\<close> is
  the identity, \<open>decode\<close> is a validity test, the code point order of \<open>sorted\<close> is the byte order,
  and a comparison with an ASCII literal is a comparison of bytes.
\<close>

named_theorems frame_rules \<open>operations that leave the file tree of the world unchanged\<close>
named_theorems result_simps \<open>success of a composed computation as success of its steps\<close>
named_theorems eval_simps \<open>definitions unfolded when a concrete instance is evaluated\<close>

subsection \<open>Exceptions\<close>

datatype failure_kind = INTEGRITY | MATERIAL_CONFLICT_KIND | PERSISTENCE

text \<open>
  One constructor per exception class the sources raise, with the arguments the class carries.
  \<open>StdError c\<close> is an exception of the standard library, \<open>c\<close> its class name; its message is not
  modelled.
\<close>

datatype pyexc =
    ValueError string
  | TypeError string
  | RuntimeError string
  | PermissionError string
  | InvalidTransition string
  | GuardRejected string "string list"
  | StageExecutionFailure failure_kind string
  | ImmutableGenerationError string
  | PersistenceValidationError string
  | PersistencePublishError string
  | AuditValidationError string
  | RecoveryValidationError string
  | HistoryValidationError string
  | UncertainExecutionOutcome bool string
  | StdError string

fun exc_class :: "pyexc \<Rightarrow> string" where
  "exc_class (ValueError m) = ''ValueError''"
| "exc_class (TypeError m) = ''TypeError''"
| "exc_class (RuntimeError m) = ''RuntimeError''"
| "exc_class (PermissionError m) = ''PermissionError''"
| "exc_class (InvalidTransition m) = ''InvalidTransition''"
| "exc_class (GuardRejected m g) = ''GuardRejected''"
| "exc_class (StageExecutionFailure k m) = ''StageExecutionFailure''"
| "exc_class (ImmutableGenerationError m) = ''ImmutableGenerationError''"
| "exc_class (PersistenceValidationError m) = ''PersistenceValidationError''"
| "exc_class (PersistencePublishError m) = ''PersistencePublishError''"
| "exc_class (AuditValidationError m) = ''AuditValidationError''"
| "exc_class (RecoveryValidationError m) = ''RecoveryValidationError''"
| "exc_class (HistoryValidationError m) = ''HistoryValidationError''"
| "exc_class (UncertainExecutionOutcome b m) = ''UncertainExecutionOutcome''"
| "exc_class (StdError c) = c"

fun exc_str :: "pyexc \<Rightarrow> string" where
  "exc_str (ValueError m) = m"
| "exc_str (TypeError m) = m"
| "exc_str (RuntimeError m) = m"
| "exc_str (PermissionError m) = m"
| "exc_str (InvalidTransition m) = m"
| "exc_str (GuardRejected m g) = m"
| "exc_str (StageExecutionFailure k m) = m"
| "exc_str (ImmutableGenerationError m) = m"
| "exc_str (PersistenceValidationError m) = m"
| "exc_str (PersistencePublishError m) = m"
| "exc_str (AuditValidationError m) = m"
| "exc_str (RecoveryValidationError m) = m"
| "exc_str (HistoryValidationError m) = m"
| "exc_str (UncertainExecutionOutcome b m) = m"
| "exc_str (StdError c) = c"

subsection \<open>Results of pure functions\<close>

type_synonym 'a res = "pyexc + 'a"

definition bindE :: "'a res \<Rightarrow> ('a \<Rightarrow> 'b res) \<Rightarrow> 'b res" where
  "bindE m k = (case m of Inl e \<Rightarrow> Inl e | Inr x \<Rightarrow> k x)"

definition raise_if :: "bool \<Rightarrow> pyexc \<Rightarrow> unit res" where
  "raise_if c e = (if c then Inl e else Inr ())"

fun mapE :: "('a \<Rightarrow> 'b res) \<Rightarrow> 'a list \<Rightarrow> 'b list res" where
  "mapE f [] = Inr []"
| "mapE f (x # xs) = bindE (f x) (\<lambda>y. bindE (mapE f xs) (\<lambda>ys. Inr (y # ys)))"

lemma bindE_simps [simp]: "bindE (Inl e) k = Inl e" "bindE (Inr x) k = k x"
  by (simp_all add: bindE_def)

lemma bindE_Inr [result_simps]: "bindE m k = Inr y \<longleftrightarrow> (\<exists>x. m = Inr x \<and> k x = Inr y)"
  by (cases m) auto

lemma bindE_Inl [result_simps]:
  "bindE m k = Inl e \<longleftrightarrow> m = Inl e \<or> (\<exists>x. m = Inr x \<and> k x = Inl e)"
  by (cases m) auto

lemma raise_if_simps [simp]:
  "raise_if True e = Inl e" "raise_if False e = Inr ()"
  "raise_if c e = Inr u \<longleftrightarrow> \<not> c" "raise_if c e = Inl e' \<longleftrightarrow> c \<and> e' = e"
  by (auto simp: raise_if_def)

lemma mapE_Inr: "mapE f xs = Inr ys \<longleftrightarrow> list_all2 (\<lambda>x y. f x = Inr y) xs ys"
  by (induction xs arbitrary: ys) (auto simp: result_simps list_all2_Cons1)

lemma mapE_id: "(\<And>x. x \<in> set xs \<Longrightarrow> f x = Inr x) \<Longrightarrow> mapE f xs = Inr xs"
  by (induction xs) auto

lemma mapE_image: "mapE f xs = Inr ys \<Longrightarrow> y \<in> set ys \<Longrightarrow> \<exists>x \<in> set xs. f x = Inr y"
  by (induction xs arbitrary: ys) (auto simp: bindE_Inr)

lemma mapE_length: "mapE f xs = Inr ys \<Longrightarrow> length ys = length xs"
  by (simp add: mapE_Inr list_all2_lengthD)

subsection \<open>Strings\<close>

text \<open>
  \<open>blank s\<close> is \<open>not s.strip()\<close>: \<open>s\<close> holds only white space.  Python's white space is the ASCII
  characters 9-13 and 28-32 and the code points U+0085, U+00A0, U+1680, U+2000-U+200A, U+2028,
  U+2029, U+202F, U+205F and U+3000, which take two or three bytes.
\<close>

definition code :: "char \<Rightarrow> nat" where
  "code c = of_char c"

definition space1 :: "char \<Rightarrow> bool" where
  "space1 a \<longleftrightarrow> (9 \<le> code a \<and> code a \<le> 13) \<or> (28 \<le> code a \<and> code a \<le> 32)"

definition space2 :: "char \<Rightarrow> char \<Rightarrow> bool" where
  "space2 a b \<longleftrightarrow> code a = 194 \<and> (code b = 133 \<or> code b = 160)"

definition space3 :: "char \<Rightarrow> char \<Rightarrow> char \<Rightarrow> bool" where
  "space3 a b c \<longleftrightarrow>
     (code a = 225 \<and> code b = 154 \<and> code c = 128) \<or>
     (code a = 226 \<and> code b = 128 \<and> (128 \<le> code c \<and> code c \<le> 138 \<or> code c = 168 \<or> code c = 169 \<or> code c = 175)) \<or>
     (code a = 226 \<and> code b = 129 \<and> code c = 159) \<or>
     (code a = 227 \<and> code b = 128 \<and> code c = 128)"

fun lstrip :: "string \<Rightarrow> string" where
  "lstrip (a # b # c # s) =
     (if space1 a then lstrip (b # c # s) else if space2 a b then lstrip (c # s)
      else if space3 a b c then lstrip s else a # b # c # s)"
| "lstrip [a, b] = (if space1 a then lstrip [b] else if space2 a b then [] else [a, b])"
| "lstrip [a] = (if space1 a then [] else [a])"
| "lstrip [] = []"

text \<open>Stripping on the right reads the bytes of each character backwards.\<close>

fun rstrip_rev :: "string \<Rightarrow> string" where
  "rstrip_rev (c # b # a # s) =
     (if space1 c then rstrip_rev (b # a # s) else if space2 b c then rstrip_rev (a # s)
      else if space3 a b c then rstrip_rev s else c # b # a # s)"
| "rstrip_rev [b, a] = (if space1 b then rstrip_rev [a] else if space2 a b then [] else [b, a])"
| "rstrip_rev [a] = (if space1 a then [] else [a])"
| "rstrip_rev [] = []"

definition strip :: "string \<Rightarrow> string" where
  "strip s = rev (rstrip_rev (rev (lstrip s)))"

definition blank :: "string \<Rightarrow> bool" where
  "blank s \<longleftrightarrow> lstrip s = []"

lemma blank_Nil [simp]: "blank []"
  by (simp add: blank_def)

lemma not_blank_not_Nil: "\<not> blank s \<Longrightarrow> s \<noteq> []"
  by auto

text \<open>A string that starts with a printing ASCII character is not blank.\<close>

definition printing :: "char \<Rightarrow> bool" where
  "printing c \<longleftrightarrow> 33 \<le> code c \<and> code c < 127"

lemma lstrip_printing: "printing c \<Longrightarrow> lstrip (c # s) = c # s"
  by (cases "(c # s)" rule: lstrip.cases) (auto simp: printing_def space1_def space2_def space3_def)

lemma printing_not_blank: "printing c \<Longrightarrow> \<not> blank (c # s)"
  by (simp add: blank_def lstrip_printing)

lemma blank_Cons_code [simp]:
  "33 \<le> (of_char c :: nat) \<Longrightarrow> (of_char c :: nat) < 127 \<Longrightarrow> blank (c # s) \<longleftrightarrow> False"
  by (auto intro!: printing_not_blank simp: printing_def code_def)

definition newline :: char where
  "newline = CHR 0x0A"

definition hex_digit :: "char \<Rightarrow> bool" where
  "hex_digit c \<longleftrightarrow> (48 \<le> code c \<and> code c \<le> 57) \<or> (65 \<le> code c \<and> code c \<le> 70) \<or> (97 \<le> code c \<and> code c \<le> 102)"

definition lower_hex_digit :: "char \<Rightarrow> bool" where
  "lower_hex_digit c \<longleftrightarrow> (48 \<le> code c \<and> code c \<le> 57) \<or> (97 \<le> code c \<and> code c \<le> 102)"

text \<open>\<open>str.lower\<close> on ASCII letters; the sources apply it to hexadecimal digests only.\<close>

definition lower_char :: "char \<Rightarrow> char" where
  "lower_char c = (if 65 \<le> code c \<and> code c \<le> 90 then char_of (code c + 32) else c)"

definition lower :: "string \<Rightarrow> string" where
  "lower s = map lower_char s"

definition hex64 :: "string \<Rightarrow> bool" where
  "hex64 s \<longleftrightarrow> length s = 64 \<and> list_all hex_digit s"

definition lower_hex64 :: "string \<Rightarrow> bool" where
  "lower_hex64 s \<longleftrightarrow> length s = 64 \<and> list_all lower_hex_digit s"

lemma code_char_of: "n < 256 \<Longrightarrow> code (char_of n) = n"
  by (simp add: code_def)

lemma lower_hex_digit_hex [simp]: "lower_hex_digit c \<Longrightarrow> hex_digit c"
  by (auto simp: lower_hex_digit_def hex_digit_def)

lemma lower_char_lower_hex [simp]: "lower_hex_digit c \<Longrightarrow> lower_char c = c"
  by (auto simp: lower_hex_digit_def lower_char_def)

lemma lower_char_hex: "hex_digit c \<Longrightarrow> lower_hex_digit (lower_char c)"
  by (auto simp: hex_digit_def lower_hex_digit_def lower_char_def code_char_of)

lemma length_lower [simp]: "length (lower s) = length s"
  by (simp add: lower_def)

lemma lower_hex64_hex64: "lower_hex64 s \<Longrightarrow> hex64 s"
  by (auto simp: lower_hex64_def hex64_def list_all_iff)

lemma lower_lower_hex64: "lower_hex64 s \<Longrightarrow> lower s = s"
  by (simp add: lower_hex64_def lower_def list_all_iff map_idI)

lemma hex64_lower: "hex64 s \<Longrightarrow> lower_hex64 (lower s)"
  by (auto simp: lower_hex64_def hex64_def list_all_iff lower_def intro: lower_char_hex)

lemma hex_digit_printing: "hex_digit c \<Longrightarrow> printing c"
  by (auto simp: hex_digit_def printing_def)

lemma hex64_not_blank: "hex64 s \<Longrightarrow> \<not> blank s"
  by (cases s) (auto simp: hex64_def dest!: hex_digit_printing dest: printing_not_blank)

subsection \<open>Validation helpers of the data classes\<close>

text \<open>
  \<open>_required\<close> and \<open>_sha256\<close>/\<open>_hash\<close> are repeated in several modules with the same body.  The test
  \<open>isinstance(value, str)\<close> holds for every value of the model's type \<open>string\<close>.
\<close>

definition required :: "string \<Rightarrow> string \<Rightarrow> string res" where
  "required name v =
     (if blank v then Inl (ValueError (name @ '' must be a non-empty string'')) else Inr v)"

fun requireds :: "(string \<times> string) list \<Rightarrow> unit res" where
  "requireds [] = Inr ()"
| "requireds ((n, v) # r) = bindE (required n v) (\<lambda>_. requireds r)"

definition hash_field :: "string \<Rightarrow> string \<Rightarrow> string res" where
  "hash_field name v =
     bindE (required name v) (\<lambda>v.
     if hex64 v then Inr (lower v)
     else Inl (ValueError (name @ '' must be a 64-character hexadecimal SHA-256'')))"

definition hash_field_opt :: "string \<Rightarrow> string option \<Rightarrow> string option res" where
  "hash_field_opt name v =
     (case v of None \<Rightarrow> Inr None | Some h \<Rightarrow> bindE (hash_field name h) (\<lambda>h. Inr (Some h)))"

definition required_opt :: "string \<Rightarrow> string option \<Rightarrow> unit res" where
  "required_opt name v = (case v of None \<Rightarrow> Inr () | Some s \<Rightarrow> bindE (required name s) (\<lambda>_. Inr ()))"

definition unique_ids :: "string \<Rightarrow> string list \<Rightarrow> string list res" where
  "unique_ids name vs =
     (if vs = [] then Inl (ValueError (name @ '' must not be empty''))
      else bindE (mapE (required name) vs) (\<lambda>_.
        if \<not> distinct vs then Inl (ValueError (name @ '' must contain unique values''))
        else Inr vs))"

lemma required_Inr [result_simps]: "required n v = Inr u \<longleftrightarrow> \<not> blank v \<and> u = v"
  by (auto simp: required_def)

lemma requireds_Inr [result_simps]: "requireds xs = Inr u \<longleftrightarrow> list_all (\<lambda>(n, v). \<not> blank v) xs"
  by (induction xs rule: requireds.induct) (auto simp: result_simps)

lemma hash_field_Inr [result_simps]: "hash_field n v = Inr u \<longleftrightarrow> hex64 v \<and> u = lower v"
  by (auto simp: hash_field_def result_simps hex64_not_blank)

lemma hash_field_opt_Inr [result_simps]:
  "hash_field_opt n v = Inr u \<longleftrightarrow> (\<forall>h. v = Some h \<longrightarrow> hex64 h) \<and> u = map_option lower v"
  by (auto simp: hash_field_opt_def result_simps split: option.splits)

lemma required_opt_Inr [result_simps]:
  "required_opt n v = Inr u \<longleftrightarrow> (\<forall>s. v = Some s \<longrightarrow> \<not> blank s)"
  by (auto simp: required_opt_def result_simps split: option.splits)

lemma mapE_required_Inr [result_simps]:
  "mapE (required n) vs = Inr us \<longleftrightarrow> us = vs \<and> list_all (\<lambda>v. \<not> blank v) vs"
  by (induction vs arbitrary: us) (auto simp: result_simps)

lemma mapE_hash_Inr [result_simps]:
  "mapE (hash_field n) vs = Inr us \<longleftrightarrow> us = map lower vs \<and> list_all hex64 vs"
  by (induction vs arbitrary: us) (auto simp: result_simps)

lemma unique_ids_Inr [result_simps]:
  "unique_ids n vs = Inr us \<longleftrightarrow> us = vs \<and> vs \<noteq> [] \<and> distinct vs \<and> list_all (\<lambda>v. \<not> blank v) vs"
  by (auto simp: unique_ids_def result_simps)

lemma lower_hex64_fixed [simp]: "list_all lower_hex64 hs \<Longrightarrow> map lower hs = hs"
  by (simp add: list_all_iff map_idI lower_lower_hex64)

subsection \<open>Joining, ordering and printing\<close>

fun join :: "string \<Rightarrow> string list \<Rightarrow> string" where
  "join sep [] = []"
| "join sep [x] = x"
| "join sep (x # y # r) = x @ sep @ join sep (y # r)"

text \<open>\<open>tuple(sorted(a - b))\<close> on sets of strings.\<close>

definition sorted_diff :: "string set \<Rightarrow> string set \<Rightarrow> string list" where
  "sorted_diff a b = sorted_list_of_set (a - b)"

lemma sorted_diff_Nil [simp]: "finite a \<Longrightarrow> sorted_diff a b = [] \<longleftrightarrow> a \<subseteq> b"
  by (auto simp: sorted_diff_def)

text \<open>\<open>list(dict.fromkeys(xs))\<close>: the first occurrence of each element, in order.\<close>

fun dedup_acc :: "'a list \<Rightarrow> 'a list \<Rightarrow> 'a list" where
  "dedup_acc seen [] = []"
| "dedup_acc seen (x # xs) =
     (if x \<in> set seen then dedup_acc seen xs else x # dedup_acc (x # seen) xs)"

definition dedup :: "'a list \<Rightarrow> 'a list" where
  "dedup xs = dedup_acc [] xs"

lemma set_dedup_acc: "set (dedup_acc seen xs) = set xs - set seen"
  by (induction seen xs rule: dedup_acc.induct) auto

lemma set_dedup [simp]: "set (dedup xs) = set xs"
  by (simp add: dedup_def set_dedup_acc)

lemma dedup_acc_distinct: "distinct (dedup_acc seen xs)"
  by (induction seen xs rule: dedup_acc.induct) (auto simp: set_dedup_acc)

lemma distinct_dedup [simp]: "distinct (dedup xs)"
  by (simp add: dedup_def dedup_acc_distinct)

lemma dedup_Nil_iff [simp]: "dedup xs = [] \<longleftrightarrow> xs = []"
  using set_dedup [of xs] by (cases xs) (auto simp: dedup_def)

definition digit_char :: "nat \<Rightarrow> char" where
  "digit_char d = char_of (48 + d)"

fun show_nat :: "nat \<Rightarrow> string" where
  "show_nat n = (if n < 10 then [digit_char n] else show_nat (n div 10) @ [digit_char (n mod 10)])"

declare show_nat.simps [simp del]

definition show_int :: "int \<Rightarrow> string" where
  "show_int i = (if i < 0 then ''-'' @ show_nat (nat (- i)) else show_nat (nat i))"

definition is_digit :: "char \<Rightarrow> bool" where
  "is_digit c \<longleftrightarrow> 48 \<le> code c \<and> code c \<le> 57"

definition digit_val :: "char \<Rightarrow> nat" where
  "digit_val c = code c - 48"

lemma is_digit_digit_char [simp]: "d < 10 \<Longrightarrow> is_digit (digit_char d)"
  by (simp add: is_digit_def digit_char_def code_char_of)

lemma digit_val_digit_char [simp]: "d < 10 \<Longrightarrow> digit_val (digit_char d) = d"
  by (simp add: digit_val_def digit_char_def code_char_of)

text \<open>Reading a run of digits from the left.\<close>

definition read_nat :: "string \<Rightarrow> nat" where
  "read_nat s = foldl (\<lambda>n c. 10 * n + digit_val c) 0 s"

lemma read_nat_snoc: "read_nat (s @ [c]) = 10 * read_nat s + digit_val c"
  by (simp add: read_nat_def)

lemma show_nat_not_Nil [simp]: "show_nat n \<noteq> []"
  by (subst show_nat.simps) simp

lemma show_nat_digits: "list_all is_digit (show_nat n)"
proof (induction n rule: show_nat.induct)
  case (1 n)
  then show ?case by (subst show_nat.simps) simp
qed

lemma read_show_nat [simp]: "read_nat (show_nat n) = n"
proof (induction n rule: show_nat.induct)
  case (1 n)
  show ?case
  proof (cases "n < 10")
    case True
    then show ?thesis by (subst show_nat.simps) (simp add: read_nat_def)
  next
    case False
    with 1 have "read_nat (show_nat (n div 10)) = n div 10" by simp
    with False show ?thesis by (subst show_nat.simps) (simp add: read_nat_snoc)
  qed
qed

lemma show_nat_inj: "show_nat m = show_nat n \<longleftrightarrow> m = n"
  by (metis read_show_nat)

end
