(* ===== verification/PyTime.thy ===== *)
theory PyTime
  imports Prelude "HOL-Library.Monad_Syntax"
begin

section \<open>Dates and timestamps\<close>

text \<open>
  The part of Python's \<open>datetime\<close> module the sources use: \<open>date\<close> values compared with \<open>>\<close>,
  timestamps that must be time-zone aware, \<open>isoformat\<close> and \<open>fromisoformat\<close>.  A timestamp keeps its
  UTC offset in seconds, \<open>None\<close> for a naive one.  \<open>fromisoformat\<close> reads the shapes \<open>isoformat\<close>
  writes; the other ISO 8601 shapes Python accepts are rejected here.
\<close>

subsection \<open>Dates\<close>

datatype date = Date (d_year: nat) (d_month: nat) (d_day: nat)

instantiation date :: linorder
begin

definition less_eq_date :: "date \<Rightarrow> date \<Rightarrow> bool" where
  "less_eq_date a b \<longleftrightarrow>
     d_year a < d_year b \<or> d_year a = d_year b \<and>
       (d_month a < d_month b \<or> d_month a = d_month b \<and> d_day a \<le> d_day b)"

definition less_date :: "date \<Rightarrow> date \<Rightarrow> bool" where
  "less_date a b \<longleftrightarrow>
     d_year a < d_year b \<or> d_year a = d_year b \<and>
       (d_month a < d_month b \<or> d_month a = d_month b \<and> d_day a < d_day b)"

instance
proof
  fix a b c :: date
  show "a < b \<longleftrightarrow> a \<le> b \<and> \<not> b \<le> a"
    by (auto simp: less_eq_date_def less_date_def)
  show "a \<le> a" by (simp add: less_eq_date_def)
  show "a \<le> b \<Longrightarrow> b \<le> c \<Longrightarrow> a \<le> c" by (auto simp: less_eq_date_def)
  show "a \<le> b \<Longrightarrow> b \<le> a \<Longrightarrow> a = b" by (auto simp: less_eq_date_def date.expand)
  show "a \<le> b \<or> b \<le> a" by (auto simp: less_eq_date_def)
qed

end

subsection \<open>Timestamps\<close>

record datetime =
  dt_year :: nat
  dt_month :: nat
  dt_day :: nat
  dt_hour :: nat
  dt_minute :: nat
  dt_second :: nat
  dt_micro :: nat
  dt_offset :: "int option"

definition aware :: "datetime \<Rightarrow> bool" where
  "aware d \<longleftrightarrow> dt_offset d \<noteq> None"

definition aware_field :: "string \<Rightarrow> datetime \<Rightarrow> datetime res" where
  "aware_field name d =
     (if aware d then Inr d else Inl (ValueError (name @ '' must be timezone-aware'')))"

lemma aware_field_Inr [result_simps]: "aware_field n d = Inr u \<longleftrightarrow> aware d \<and> u = d"
  by (auto simp: aware_field_def)

definition leap :: "nat \<Rightarrow> bool" where
  "leap y \<longleftrightarrow> 4 dvd y \<and> (\<not> 100 dvd y \<or> 400 dvd y)"

definition days_in_month :: "nat \<Rightarrow> nat \<Rightarrow> nat" where
  "days_in_month y m =
     (if m = 2 then (if leap y then 29 else 28) else if m \<in> {4, 6, 9, 11} then 30 else 31)"

definition valid_datetime :: "datetime \<Rightarrow> bool" where
  "valid_datetime d \<longleftrightarrow>
     1 \<le> dt_year d \<and> dt_year d \<le> 9999 \<and> 1 \<le> dt_month d \<and> dt_month d \<le> 12 \<and>
     1 \<le> dt_day d \<and> dt_day d \<le> days_in_month (dt_year d) (dt_month d) \<and>
     dt_hour d < 24 \<and> dt_minute d < 60 \<and> dt_second d < 60 \<and> dt_micro d < 1000000 \<and>
     (case dt_offset d of None \<Rightarrow> True | Some off \<Rightarrow> \<bar>off\<bar> < 86400)"

definition pad :: "nat \<Rightarrow> nat \<Rightarrow> string" where
  "pad w n = replicate (w - length (show_nat n)) (CHR ''0'') @ show_nat n"

definition iso_offset :: "int option \<Rightarrow> string" where
  "iso_offset z =
     (case z of None \<Rightarrow> []
      | Some off \<Rightarrow>
          let a = nat \<bar>off\<bar> in
          (if off < 0 then ''-'' else ''+'') @ pad 2 (a div 3600) @ '':'' @ pad 2 (a div 60 mod 60) @
          (if a mod 60 = 0 then [] else '':'' @ pad 2 (a mod 60)))"

definition isoformat :: "datetime \<Rightarrow> string" where
  "isoformat d =
     pad 4 (dt_year d) @ ''-'' @ pad 2 (dt_month d) @ ''-'' @ pad 2 (dt_day d) @ ''T'' @
     pad 2 (dt_hour d) @ '':'' @ pad 2 (dt_minute d) @ '':'' @ pad 2 (dt_second d) @
     (if dt_micro d = 0 then [] else ''.'' @ pad 6 (dt_micro d)) @ iso_offset (dt_offset d)"

definition take_num :: "nat \<Rightarrow> string \<Rightarrow> (nat \<times> string) option" where
  "take_num w s =
     (if length (take w s) = w \<and> list_all is_digit (take w s)
      then Some (read_nat (take w s), drop w s) else None)"

fun expect :: "char \<Rightarrow> string \<Rightarrow> string option" where
  "expect c (d # s) = (if d = c then Some s else None)"
| "expect c [] = None"

definition read_seconds :: "string \<Rightarrow> (nat \<times> string) option" where
  "read_seconds s = (case expect CHR '':'' s of None \<Rightarrow> Some (0, s) | Some s \<Rightarrow> take_num 2 s)"

definition read_micro :: "string \<Rightarrow> (nat \<times> string) option" where
  "read_micro s = (case expect CHR ''.'' s of None \<Rightarrow> Some (0, s) | Some s \<Rightarrow> take_num 6 s)"

definition read_offset :: "string \<Rightarrow> (int option \<times> string) option" where
  "read_offset s =
     (case s of [] \<Rightarrow> Some (None, [])
      | c # r \<Rightarrow>
         if c \<noteq> CHR ''+'' \<and> c \<noteq> CHR ''-'' then None else
         do { (h, r) \<leftarrow> take_num 2 r; r \<leftarrow> expect CHR '':'' r; (m, r) \<leftarrow> take_num 2 r;
              (sec, r) \<leftarrow> read_seconds r;
              Some (Some ((if c = CHR ''-'' then -1 else 1) * int (h * 3600 + m * 60 + sec)), r) })"

definition fromisoformat :: "string \<Rightarrow> datetime option" where
  "fromisoformat s =
     do { (y, s) \<leftarrow> take_num 4 s; s \<leftarrow> expect CHR ''-'' s; (mo, s) \<leftarrow> take_num 2 s;
          s \<leftarrow> expect CHR ''-'' s; (d, s) \<leftarrow> take_num 2 s; s \<leftarrow> expect CHR ''T'' s;
          (h, s) \<leftarrow> take_num 2 s; s \<leftarrow> expect CHR '':'' s; (mi, s) \<leftarrow> take_num 2 s;
          s \<leftarrow> expect CHR '':'' s; (sec, s) \<leftarrow> take_num 2 s; (us, s) \<leftarrow> read_micro s;
          (off, s) \<leftarrow> read_offset s;
          let t = \<lparr>dt_year = y, dt_month = mo, dt_day = d, dt_hour = h, dt_minute = mi,
                   dt_second = sec, dt_micro = us, dt_offset = off\<rparr> in
          if s = [] \<and> valid_datetime t then Some t else None }"

subsection \<open>Reading back what was written\<close>

lemma length_show_nat: "n < 10 ^ w \<Longrightarrow> 0 < w \<Longrightarrow> length (show_nat n) \<le> w"
proof (induction n arbitrary: w rule: show_nat.induct)
  case (1 n)
  show ?case
  proof (cases "n < 10")
    case True
    with 1 show ?thesis by (subst show_nat.simps) simp
  next
    case False
    with "1.prems" obtain v where v: "w = Suc v" "0 < v"
      by (cases w; cases "w - 1") auto
    with "1.prems" have "n div 10 < 10 ^ v" by simp
    with "1.IH" [OF False, of v] v have "length (show_nat (n div 10)) \<le> v" by simp
    with False v show ?thesis by (subst show_nat.simps) simp
  qed
qed

lemma length_pad: "n < 10 ^ w \<Longrightarrow> 0 < w \<Longrightarrow> length (pad w n) = w"
  using length_show_nat [of n w] by (simp add: pad_def)

lemma read_nat_zeros: "read_nat (replicate k (CHR ''0'') @ s) = read_nat s"
proof (induction k)
  case (Suc k)
  have "read_nat (CHR ''0'' # t) = read_nat t" for t
    by (simp add: read_nat_def digit_val_def code_def)
  with Suc show ?case by simp
qed simp

lemma pad_digits: "list_all is_digit (pad w n)"
  by (auto simp: pad_def show_nat_digits list_all_iff is_digit_def code_def
      dest: show_nat_digits [unfolded list_all_iff, rule_format])

lemma take_num_pad [simp]:
  assumes "n < 10 ^ w" "0 < w"
  shows "take_num w (pad w n @ r) = Some (n, r)"
  using assms pad_digits [of w n] by (simp add: take_num_def length_pad) (simp add: pad_def read_nat_zeros)

lemma expect_not:
  assumes "\<And>d r. s = d # r \<Longrightarrow> d \<noteq> c"
  shows "expect c s = None"
  using assms by (cases s) auto

lemma read_seconds_pad:
  "n < 60 \<Longrightarrow> read_seconds (if n = 0 then [] else '':'' @ pad 2 n) = Some (n, [])"
  using take_num_pad [of n 2 "[]"] by (simp add: read_seconds_def)

lemma read_offset_iso:
  assumes "case z of None \<Rightarrow> True | Some off \<Rightarrow> \<bar>off\<bar> < 86400"
  shows "read_offset (iso_offset z) = Some (z, [])"
proof (cases z)
  case None
  then show ?thesis by (simp add: iso_offset_def read_offset_def)
next
  case (Some off)
  define a where "a = nat \<bar>off\<bar>"
  from assms Some have a: "a < 86400" by (simp add: a_def)
  then have h: "a div 3600 < 10 ^ 2" and m: "a div 60 mod 60 < 10 ^ 2" by auto
  have "a div 3600 = a div 60 div 60"
    by (simp add: div_mult2_eq [symmetric])
  then have "(a div 3600) * 3600 + (a div 60 mod 60) * 60 + a mod 60 = a"
    using div_mult_mod_eq [of a 60] div_mult_mod_eq [of "a div 60" 60] by linarith
  moreover have "(if off < 0 then -1 else 1) * int a = off" by (simp add: a_def)
  ultimately show ?thesis
    using h m read_seconds_pad [of "a mod 60"] Some
    by (auto simp: iso_offset_def read_offset_def a_def [symmetric] Let_def simp flip: of_nat_mult of_nat_add)
qed

lemma read_micro_pad:
  assumes "n < 1000000" "\<And>d r. s = d # r \<Longrightarrow> d \<noteq> CHR ''.''"
  shows "read_micro ((if n = 0 then [] else ''.'' @ pad 6 n) @ s) = Some (n, s)"
  using take_num_pad [of n 6 s] assms expect_not [of s "CHR ''.''"] by (auto simp: read_micro_def)

lemma iso_offset_first: "iso_offset z = d # r \<Longrightarrow> d \<noteq> CHR ''.''"
  by (auto simp: iso_offset_def Let_def split: option.splits if_splits)

theorem fromisoformat_isoformat:
  assumes "valid_datetime d"
  shows "fromisoformat (isoformat d) = Some d"
proof -
  let ?off = "iso_offset (dt_offset d)"
  have off: "read_offset ?off = Some (dt_offset d, [])"
    using assms by (intro read_offset_iso) (simp add: valid_datetime_def)
  have us: "read_micro ((if dt_micro d = 0 then [] else ''.'' @ pad 6 (dt_micro d)) @ ?off)
      = Some (dt_micro d, ?off)"
    using assms by (intro read_micro_pad) (auto simp: valid_datetime_def dest: iso_offset_first)
  have day: "dt_day d < 10 ^ 2"
    using assms by (auto simp: valid_datetime_def days_in_month_def split: if_splits)
  show ?thesis
    using assms off us day
    by (simp add: fromisoformat_def isoformat_def valid_datetime_def)
qed

end
