(* ===== verification/Core.thy ===== *)
theory Core
  imports PyTime
begin

section \<open>Core data model\<close>

text \<open>
  The schema primitives of \<open>galia2/core.py\<close>: the state enumerations and the frozen data classes.
  A data class is a record; its \<open>__post_init__\<close>, which validates the fields and normalises digests
  to lower case, is a function \<open>..._post_init\<close> from the raw record to the stored one or an exception.
  Building an object is running that function; \<open>dataclasses.replace\<close> is a record update followed
  by it.  The locale \<open>data_class\<close> states what makes this a sound reading: validating a stored object
  again changes nothing, so an object can be rebuilt or replaced without surprises.
\<close>

subsection \<open>State enumerations\<close>

datatype case_state =
    Case_OPEN | Case_SCOPED | Case_ACTIVE_RESEARCH | Case_PARTIAL_FINDINGS | Case_EVIDENCE_CONVERGENCE
  | Case_AUTHORITY_REVIEW | Case_CANONICALIZED | Case_SUSPENDED | Case_BLOCKED | Case_REOPENED
  | Case_SUPERSEDED

datatype stage_state =
    DISCOVERED | INGESTED | NORMALIZED | DERIVED | VALIDATED | AUTHORITY_HOLD | HUMAN_SELECTED
  | PROMOTION_READY | CANONICAL | QUARANTINED | DISCREPANCY_REVIEW | RECOVERY_INTAKE | REOPENED

fun stage_state_value :: "stage_state \<Rightarrow> string" where
  "stage_state_value DISCOVERED = ''DISCOVERED''"
| "stage_state_value INGESTED = ''INGESTED''"
| "stage_state_value NORMALIZED = ''NORMALIZED''"
| "stage_state_value DERIVED = ''DERIVED''"
| "stage_state_value VALIDATED = ''VALIDATED''"
| "stage_state_value AUTHORITY_HOLD = ''AUTHORITY_HOLD''"
| "stage_state_value HUMAN_SELECTED = ''HUMAN_SELECTED''"
| "stage_state_value PROMOTION_READY = ''PROMOTION_READY''"
| "stage_state_value CANONICAL = ''CANONICAL''"
| "stage_state_value QUARANTINED = ''QUARANTINED''"
| "stage_state_value DISCREPANCY_REVIEW = ''DISCREPANCY_REVIEW''"
| "stage_state_value RECOVERY_INTAKE = ''RECOVERY_INTAKE''"
| "stage_state_value REOPENED = ''REOPENED''"

datatype claim_type = OBSERVED_CLAIM | DERIVED_CLAIM | INTERPRETIVE_CLAIM

datatype evidence_state =
    Ev_UNVERIFIED | Ev_SUPPORTED | Ev_CORROBORATED | Ev_CONTESTED | Ev_SUPERSEDED | Ev_CANONICAL

datatype authority_state =
    Auth_NONE | Auth_HOLD | Auth_HUMAN_SELECTED | Auth_PROMOTION_READY | Auth_CANONICAL

fun authority_state_value :: "authority_state \<Rightarrow> string" where
  "authority_state_value Auth_NONE = ''NONE''"
| "authority_state_value Auth_HOLD = ''AUTHORITY_HOLD''"
| "authority_state_value Auth_HUMAN_SELECTED = ''HUMAN_SELECTED''"
| "authority_state_value Auth_PROMOTION_READY = ''PROMOTION_READY''"
| "authority_state_value Auth_CANONICAL = ''CANONICAL''"

datatype discrepancy_state = Disc_OPEN | Disc_EXPLAINED | Disc_RESOLVED | Disc_SUPERSEDED

subsection \<open>Data classes\<close>

record gcase =
  cs_case_id :: string
  cs_title :: string
  cs_scope :: string
  cs_state :: case_state
  cs_created_at :: datetime
  cs_constitution :: string
  cs_canonical_commit :: "string option"

definition case_post_init :: "gcase \<Rightarrow> gcase res" where
  "case_post_init c =
     bindE (requireds [(''case_id'', cs_case_id c), (''title'', cs_title c), (''scope'', cs_scope c),
                       (''governing_constitution_version'', cs_constitution c)]) (\<lambda>_.
     bindE (aware_field ''created_at'' (cs_created_at c)) (\<lambda>_.
     bindE (required_opt ''canonical_commit'' (cs_canonical_commit c)) (\<lambda>_. Inr c)))"

record stage =
  st_stage_id :: string
  st_case_id :: string
  st_stage_type :: string
  st_state :: stage_state
  st_dependencies :: "string list"
  st_input_refs :: "string list"
  st_output_refs :: "string list"
  st_blocking_holds :: "string list"

definition stage_post_init :: "stage \<Rightarrow> stage res" where
  "stage_post_init s =
     bindE (requireds [(''stage_id'', st_stage_id s), (''case_id'', st_case_id s),
                       (''stage_type'', st_stage_type s)]) (\<lambda>_.
     bindE (raise_if (st_stage_id s \<in> set (st_dependencies s))
              (ValueError ''stage cannot depend on itself'')) (\<lambda>_. Inr s))"

record source_artifact =
  sa_artifact_id :: string
  sa_repository :: string
  sa_repository_ref :: string
  sa_document_date :: "date option"
  sa_event_date_hint :: "date option"
  sa_sha256 :: string
  sa_provenance_state :: string
  sa_immutable :: bool

definition source_artifact_post_init :: "source_artifact \<Rightarrow> source_artifact res" where
  "source_artifact_post_init a =
     bindE (requireds [(''artifact_id'', sa_artifact_id a), (''repository'', sa_repository a),
                       (''repository_ref'', sa_repository_ref a),
                       (''provenance_state'', sa_provenance_state a)]) (\<lambda>_.
     bindE (hash_field ''sha256'' (sa_sha256 a)) (\<lambda>h.
     bindE (raise_if (\<not> sa_immutable a) (ValueError ''SourceArtifact must remain immutable'')) (\<lambda>_.
     Inr (a\<lparr>sa_sha256 := h\<rparr>))))"

record derivation =
  de_derivation_id :: string
  de_parent_artifact_id :: string
  de_derivation_type :: string
  de_engine_version :: string
  de_prompt_version :: string
  de_execution_attempt_id :: string
  de_output_hash :: string

definition derivation_post_init :: "derivation \<Rightarrow> derivation res" where
  "derivation_post_init d =
     bindE (requireds [(''derivation_id'', de_derivation_id d),
                       (''parent_artifact_id'', de_parent_artifact_id d),
                       (''derivation_type'', de_derivation_type d),
                       (''engine_version'', de_engine_version d),
                       (''prompt_version'', de_prompt_version d),
                       (''execution_attempt_id'', de_execution_attempt_id d)]) (\<lambda>_.
     bindE (hash_field ''output_hash'' (de_output_hash d)) (\<lambda>h.
     Inr (d\<lparr>de_output_hash := h\<rparr>)))"

record claim =
  cl_claim_id :: string
  cl_case_id :: string
  cl_subject :: string
  cl_predicate :: string
  cl_object :: string
  cl_valid_from :: "date option"
  cl_valid_to :: "date option"
  cl_claim_type :: claim_type
  cl_evidence_state :: evidence_state
  cl_authority_state :: authority_state

definition claim_post_init :: "claim \<Rightarrow> claim res" where
  "claim_post_init c =
     bindE (requireds [(''claim_id'', cl_claim_id c), (''case_id'', cl_case_id c),
                       (''subject'', cl_subject c), (''predicate'', cl_predicate c),
                       (''object'', cl_object c)]) (\<lambda>_.
     bindE (raise_if (case (cl_valid_from c, cl_valid_to c) of (Some a, Some b) \<Rightarrow> b < a | _ \<Rightarrow> False)
              (ValueError ''valid_from cannot be after valid_to'')) (\<lambda>_. Inr c))"

record evidence_link =
  el_evidence_link_id :: string
  el_claim_id :: string
  el_artifact_id :: string
  el_relationship :: string
  el_directness :: string
  el_independence_group :: string

definition evidence_link_post_init :: "evidence_link \<Rightarrow> evidence_link res" where
  "evidence_link_post_init e =
     bindE (requireds [(''evidence_link_id'', el_evidence_link_id e), (''claim_id'', el_claim_id e),
                       (''artifact_id'', el_artifact_id e), (''relationship'', el_relationship e),
                       (''directness'', el_directness e),
                       (''independence_group'', el_independence_group e)]) (\<lambda>_. Inr e)"

record discrepancy =
  di_discrepancy_id :: string
  di_objects :: "string list"
  di_type :: string
  di_materiality :: string
  di_state :: discrepancy_state
  di_resolution_refs :: "string list"

definition discrepancy_post_init :: "discrepancy \<Rightarrow> discrepancy res" where
  "discrepancy_post_init d =
     bindE (requireds [(''discrepancy_id'', di_discrepancy_id d), (''type'', di_type d),
                       (''materiality'', di_materiality d)]) (\<lambda>_.
     bindE (raise_if (length (di_objects d) < 2)
              (ValueError ''discrepancy requires at least two compared objects'')) (\<lambda>_.
     bindE (raise_if (\<not> distinct (di_objects d))
              (ValueError ''discrepancy objects must be unique'')) (\<lambda>_. Inr d)))"

record authority_decision =
  ad_decision_id :: string
  ad_target_id :: string
  ad_reviewer :: string
  ad_decision :: string
  ad_scope :: string
  ad_evidence_snapshot :: "string list"
  ad_timestamp :: datetime

definition authority_decision_post_init :: "authority_decision \<Rightarrow> authority_decision res" where
  "authority_decision_post_init d =
     bindE (requireds [(''decision_id'', ad_decision_id d), (''target_id'', ad_target_id d),
                       (''reviewer'', ad_reviewer d), (''decision'', ad_decision d),
                       (''scope'', ad_scope d)]) (\<lambda>_.
     bindE (aware_field ''timestamp'' (ad_timestamp d)) (\<lambda>_.
     bindE (raise_if (ad_evidence_snapshot d = [])
              (ValueError ''authority decision requires an evidence snapshot'')) (\<lambda>_. Inr d)))"

record receipt =
  rc_receipt_id :: string
  rc_operation :: string
  rc_input_commit :: "string option"
  rc_input_hashes :: "string list"
  rc_output_commit :: "string option"
  rc_output_hashes :: "string list"
  rc_policy_version :: string
  rc_actor :: string
  rc_timestamp :: datetime
  rc_result :: string

definition receipt_post_init :: "receipt \<Rightarrow> receipt res" where
  "receipt_post_init r =
     bindE (requireds [(''receipt_id'', rc_receipt_id r), (''operation'', rc_operation r),
                       (''policy_version'', rc_policy_version r), (''actor'', rc_actor r),
                       (''result'', rc_result r)]) (\<lambda>_.
     bindE (aware_field ''timestamp'' (rc_timestamp r)) (\<lambda>_.
     bindE (required_opt ''input_commit'' (rc_input_commit r)) (\<lambda>_.
     bindE (required_opt ''output_commit'' (rc_output_commit r)) (\<lambda>_.
     bindE (mapE (hash_field ''input_hash'') (rc_input_hashes r)) (\<lambda>ih.
     bindE (mapE (hash_field ''output_hash'') (rc_output_hashes r)) (\<lambda>oh.
     Inr (r\<lparr>rc_input_hashes := ih, rc_output_hashes := oh\<rparr>)))))))"

lemmas core_post_init_defs =
  case_post_init_def stage_post_init_def source_artifact_post_init_def derivation_post_init_def
  claim_post_init_def evidence_link_post_init_def discrepancy_post_init_def
  authority_decision_post_init_def receipt_post_init_def

subsection \<open>Validation is stable\<close>

locale data_class =
  fixes init :: "'a \<Rightarrow> 'a res"
  assumes stable: "init x = Inr y \<Longrightarrow> init y = Inr y"
begin

lemma rebuild: "init x = Inr y \<Longrightarrow> bindE (init x) init = init x"
  by (simp add: stable)

lemma rebuild_all: "mapE init xs = Inr ys \<Longrightarrow> mapE init ys = Inr ys"
  by (auto simp: mapE_Inr list_all2_conv_all_nth intro: stable)

lemma twice: "mapE init xs = Inr ys \<Longrightarrow> y \<in> set ys \<Longrightarrow> init y = Inr y"
  by (auto simp: mapE_Inr list_all2_conv_all_nth in_set_conv_nth intro: stable)

end

lemma map_lower_idem [simp]: "list_all hex64 hs \<Longrightarrow> map lower (map lower hs) = map lower hs"
  by (auto simp: list_all_iff lower_lower_hex64 hex64_lower)

lemma hex64_lower_hex64 [simp]: "hex64 h \<Longrightarrow> hex64 (lower h)" "hex64 h \<Longrightarrow> lower (lower h) = lower h"
  by (simp_all add: lower_hex64_hex64 hex64_lower lower_lower_hex64)

interpretation case_data: data_class case_post_init
  by unfold_locales (auto simp: case_post_init_def result_simps)

interpretation stage_data: data_class stage_post_init
  by unfold_locales (auto simp: stage_post_init_def result_simps)

interpretation artifact_data: data_class source_artifact_post_init
  by unfold_locales (auto simp: source_artifact_post_init_def result_simps)

interpretation derivation_data: data_class derivation_post_init
  by unfold_locales (auto simp: derivation_post_init_def result_simps)

interpretation claim_data: data_class claim_post_init
  by unfold_locales (auto simp: claim_post_init_def result_simps)

interpretation evidence_data: data_class evidence_link_post_init
  by unfold_locales (auto simp: evidence_link_post_init_def result_simps)

interpretation discrepancy_data: data_class discrepancy_post_init
  by unfold_locales (auto simp: discrepancy_post_init_def result_simps)

interpretation decision_data: data_class authority_decision_post_init
  by unfold_locales (auto simp: authority_decision_post_init_def result_simps)

interpretation receipt_data: data_class receipt_post_init
  by unfold_locales
    (auto simp: receipt_post_init_def result_simps list_all_iff lower_lower_hex64 hex64_lower)

subsection \<open>What a stored object satisfies\<close>

definition receipt_ok :: "receipt \<Rightarrow> bool" where
  "receipt_ok r \<longleftrightarrow>
     \<not> blank (rc_receipt_id r) \<and> \<not> blank (rc_operation r) \<and> \<not> blank (rc_policy_version r) \<and>
     \<not> blank (rc_actor r) \<and> \<not> blank (rc_result r) \<and> aware (rc_timestamp r) \<and>
     pred_option (\<lambda>c. \<not> blank c) (rc_input_commit r) \<and> pred_option (\<lambda>c. \<not> blank c) (rc_output_commit r) \<and>
     list_all lower_hex64 (rc_input_hashes r) \<and> list_all lower_hex64 (rc_output_hashes r)"

lemma receipt_post_init_ok: "receipt_post_init r = Inr r' \<Longrightarrow> receipt_ok r'"
  by (auto simp: receipt_post_init_def receipt_ok_def result_simps list_all_iff hex64_lower
      pred_option_def split: option.splits)

lemma receipt_post_init_Inr [result_simps]:
  "receipt_post_init r = Inr r' \<longleftrightarrow>
     r' = r\<lparr>rc_input_hashes := map lower (rc_input_hashes r), rc_output_hashes := map lower (rc_output_hashes r)\<rparr> \<and>
     \<not> blank (rc_receipt_id r) \<and> \<not> blank (rc_operation r) \<and> \<not> blank (rc_policy_version r) \<and>
     \<not> blank (rc_actor r) \<and> \<not> blank (rc_result r) \<and> aware (rc_timestamp r) \<and>
     (\<forall>c. rc_input_commit r = Some c \<longrightarrow> \<not> blank c) \<and> (\<forall>c. rc_output_commit r = Some c \<longrightarrow> \<not> blank c) \<and>
     list_all hex64 (rc_input_hashes r) \<and> list_all hex64 (rc_output_hashes r)"
  by (auto simp: receipt_post_init_def result_simps)

lemma receipt_post_init_stored:
  "receipt_post_init r = Inr r' \<Longrightarrow> receipt_ok r' \<and>
     r' = r\<lparr>rc_input_hashes := map lower (rc_input_hashes r), rc_output_hashes := map lower (rc_output_hashes r)\<rparr>"
  using receipt_post_init_ok [of r r'] by (simp add: receipt_post_init_Inr)

lemma stage_post_init_Inr [result_simps]:
  "stage_post_init s = Inr s' \<longleftrightarrow>
     s' = s \<and> \<not> blank (st_stage_id s) \<and> \<not> blank (st_case_id s) \<and> \<not> blank (st_stage_type s) \<and>
     st_stage_id s \<notin> set (st_dependencies s)"
  by (auto simp: stage_post_init_def result_simps)

lemma claim_post_init_Inr [result_simps]:
  "claim_post_init c = Inr c' \<longleftrightarrow>
     c' = c \<and> \<not> blank (cl_claim_id c) \<and> \<not> blank (cl_case_id c) \<and> \<not> blank (cl_subject c) \<and>
     \<not> blank (cl_predicate c) \<and> \<not> blank (cl_object c) \<and>
     (\<forall>a b. cl_valid_from c = Some a \<and> cl_valid_to c = Some b \<longrightarrow> a \<le> b)"
  by (auto simp: claim_post_init_def result_simps not_less split: option.splits)

lemma discrepancy_post_init_Inr [result_simps]:
  "discrepancy_post_init d = Inr d' \<longleftrightarrow>
     d' = d \<and> \<not> blank (di_discrepancy_id d) \<and> \<not> blank (di_type d) \<and> \<not> blank (di_materiality d) \<and>
     2 \<le> length (di_objects d) \<and> distinct (di_objects d)"
  by (auto simp: discrepancy_post_init_def result_simps)

end
