(* ===== verification/Machines.thy ===== *)
theory Machines
  imports Prelude
begin

section \<open>State machines with guarded steps\<close>

text \<open>
  Runs of a deterministic machine whose step may be refused, and what two contracts give:
  an invariant that every accepted step keeps, and a rank that every accepted step lowers, which
  bounds the length of every run.  The stage machine and the migration state machine are instances.
\<close>

fun run_steps :: "('s \<Rightarrow> 'e \<Rightarrow> 's res) \<Rightarrow> 's \<Rightarrow> 'e list \<Rightarrow> 's res" where
  "run_steps step s [] = Inr s"
| "run_steps step s (e # es) = bindE (step s e) (\<lambda>s'. run_steps step s' es)"

lemma run_steps_append:
  "run_steps step s (es @ fs) = bindE (run_steps step s es) (\<lambda>t. run_steps step t fs)"
proof (induction es arbitrary: s)
  case (Cons e es)
  then show ?case by (cases "step s e") auto
qed simp

inductive reaches :: "('s \<Rightarrow> 'e \<Rightarrow> 's res) \<Rightarrow> 's \<Rightarrow> 's \<Rightarrow> bool" for step where
  here: "reaches step s s"
| more: "step s e = Inr t \<Longrightarrow> reaches step t u \<Longrightarrow> reaches step s u"

lemma run_steps_reaches: "run_steps step s es = Inr t \<Longrightarrow> reaches step s t"
  by (induction es arbitrary: s) (auto simp: result_simps intro: reaches.intros)

lemma reaches_run_steps: "reaches step s t \<Longrightarrow> \<exists>es. run_steps step s es = Inr t"
proof (induction rule: reaches.induct)
  case (here s)
  have "run_steps step s [] = Inr s" by simp
  then show ?case by blast
next
  case (more s e t u)
  then obtain es where "run_steps step t es = Inr u" by blast
  with more(1) have "run_steps step s (e # es) = Inr u" by simp
  then show ?case by blast
qed

locale machine_invariant =
  fixes step :: "'s \<Rightarrow> 'e \<Rightarrow> 's res" and inv :: "'s \<Rightarrow> bool"
  assumes kept: "inv s \<Longrightarrow> step s e = Inr t \<Longrightarrow> inv t"
begin

lemma reachable_inv: "reaches step s t \<Longrightarrow> inv s \<Longrightarrow> inv t"
  by (induction rule: reaches.induct) (auto intro: kept)

lemma run_inv: "run_steps step s es = Inr t \<Longrightarrow> inv s \<Longrightarrow> inv t"
  by (blast intro: reachable_inv run_steps_reaches)

end

locale ranked_machine =
  fixes step :: "'s \<Rightarrow> 'e \<Rightarrow> 's res" and rank :: "'s \<Rightarrow> nat"
  assumes lowers: "step s e = Inr t \<Longrightarrow> rank t < rank s"
begin

lemma run_rank: "run_steps step s es = Inr t \<Longrightarrow> rank t + length es \<le> rank s"
proof (induction es arbitrary: s)
  case (Cons e es)
  then obtain u where u: "step s e = Inr u" "run_steps step u es = Inr t"
    by (auto simp: result_simps)
  from Cons.IH [OF u(2)] lowers [OF u(1)] show ?case by simp
qed simp

lemma reaches_rank: "reaches step s t \<Longrightarrow> rank t \<le> rank s"
  by (induction rule: reaches.induct) (auto dest: lowers)

lemma no_return: "step s e = Inr t \<Longrightarrow> \<not> reaches step t s"
  using lowers reaches_rank by fastforce

end

end
