(* ===== verification/StateMachine.thy ===== *)
theory StateMachine
  imports Core Machines
begin

section \<open>Stage state machine\<close>

text \<open>
  \<open>galia2/state_machine.py\<close>: the table of primary rules, fail-closed routing into the isolated
  states, guard evaluation and the transition itself.  The lemmas show what the table amounts to:
  it is deterministic, the defensive test against forbidden transitions never fires, the isolated
  states are absorbing, every run is finite, and only one sequence of events leads from a discovered
  stage to a canonical one.
\<close>

datatype transition_event =
    INGEST_CONFIRMED | NORMALIZATION_COMPLETE | DERIVATION_COMPLETE | VALIDATION_PASSED
  | PLACE_AUTHORITY_HOLD | HUMAN_SELECTION_RECORDED | PREFLIGHT_PASSED | PROMOTION_AUTHORIZED
  | INTEGRITY_FAILURE | MATERIAL_CONFLICT | PERSISTENCE_FAILURE | NEW_MATERIAL_EVIDENCE

fun event_value :: "transition_event \<Rightarrow> string" where
  "event_value INGEST_CONFIRMED = ''INGEST_CONFIRMED''"
| "event_value NORMALIZATION_COMPLETE = ''NORMALIZATION_COMPLETE''"
| "event_value DERIVATION_COMPLETE = ''DERIVATION_COMPLETE''"
| "event_value VALIDATION_PASSED = ''VALIDATION_PASSED''"
| "event_value PLACE_AUTHORITY_HOLD = ''PLACE_AUTHORITY_HOLD''"
| "event_value HUMAN_SELECTION_RECORDED = ''HUMAN_SELECTION_RECORDED''"
| "event_value PREFLIGHT_PASSED = ''PREFLIGHT_PASSED''"
| "event_value PROMOTION_AUTHORIZED = ''PROMOTION_AUTHORIZED''"
| "event_value INTEGRITY_FAILURE = ''INTEGRITY_FAILURE''"
| "event_value MATERIAL_CONFLICT = ''MATERIAL_CONFLICT''"
| "event_value PERSISTENCE_FAILURE = ''PERSISTENCE_FAILURE''"
| "event_value NEW_MATERIAL_EVIDENCE = ''NEW_MATERIAL_EVIDENCE''"

record transition_rule_t =
  tr_from :: stage_state
  tr_event :: transition_event
  tr_to :: stage_state
  tr_required :: "string set"
  tr_human_boundary :: bool
  tr_description :: string

record transition_decision =
  td_stage_id :: string
  td_case_id :: string
  td_from :: stage_state
  td_event :: transition_event
  td_to :: stage_state
  td_satisfied :: "string set"
  td_required :: "string set"
  td_human_boundary :: bool

definition primary_rules :: "transition_rule_t list" where
  "primary_rules = [
     \<lparr>tr_from = DISCOVERED, tr_event = INGEST_CONFIRMED, tr_to = INGESTED,
      tr_required = {''source_artifact_valid''}, tr_human_boundary = False,
      tr_description = ''A discovered source may enter ingest only after artifact validation.''\<rparr>,
     \<lparr>tr_from = INGESTED, tr_event = NORMALIZATION_COMPLETE, tr_to = NORMALIZED,
      tr_required = {''lineage_complete''}, tr_human_boundary = False,
      tr_description = ''Normalization requires complete lineage to the ingested input.''\<rparr>,
     \<lparr>tr_from = NORMALIZED, tr_event = DERIVATION_COMPLETE, tr_to = DERIVED,
      tr_required = {''output_hash_valid''}, tr_human_boundary = False,
      tr_description = ''Derived output must be content-addressable before advancing.''\<rparr>,
     \<lparr>tr_from = DERIVED, tr_event = VALIDATION_PASSED, tr_to = VALIDATED,
      tr_required = {''required_validations_passed''}, tr_human_boundary = False,
      tr_description = ''Execution success alone cannot create a validated result.''\<rparr>,
     \<lparr>tr_from = VALIDATED, tr_event = PLACE_AUTHORITY_HOLD, tr_to = AUTHORITY_HOLD,
      tr_required = {''evidence_snapshot_present''}, tr_human_boundary = False,
      tr_description = ''Validated material enters an explicit authority hold before human selection.''\<rparr>,
     \<lparr>tr_from = AUTHORITY_HOLD, tr_event = HUMAN_SELECTION_RECORDED, tr_to = HUMAN_SELECTED,
      tr_required = {''human_decision_present''}, tr_human_boundary = True,
      tr_description = ''Only an explicit human authority decision can clear AUTHORITY_HOLD.''\<rparr>,
     \<lparr>tr_from = HUMAN_SELECTED, tr_event = PREFLIGHT_PASSED, tr_to = PROMOTION_READY,
      tr_required = {''preflight_passed'', ''rollback_target_verified''}, tr_human_boundary = False,
      tr_description = ''Promotion readiness requires preflight and a verified rollback target.''\<rparr>,
     \<lparr>tr_from = PROMOTION_READY, tr_event = PROMOTION_AUTHORIZED, tr_to = CANONICAL,
      tr_required = {''promotion_authorization_present'', ''authorization_matches_target''},
      tr_human_boundary = True,
      tr_description = ''Canonical promotion requires explicit authorization bound to the target.''\<rparr>,
     \<lparr>tr_from = CANONICAL, tr_event = NEW_MATERIAL_EVIDENCE, tr_to = REOPENED,
      tr_required = {''new_material_evidence''}, tr_human_boundary = False,
      tr_description = ''Canonical history may be reopened without destructive overwrite.''\<rparr>]"

fun failure_target :: "transition_event \<Rightarrow> stage_state option" where
  "failure_target INTEGRITY_FAILURE = Some QUARANTINED"
| "failure_target MATERIAL_CONFLICT = Some DISCREPANCY_REVIEW"
| "failure_target PERSISTENCE_FAILURE = Some RECOVERY_INTAKE"
| "failure_target _ = None"

fun failure_guards :: "transition_event \<Rightarrow> string set" where
  "failure_guards INTEGRITY_FAILURE = {''integrity_failure_confirmed''}"
| "failure_guards MATERIAL_CONFLICT = {''material_conflict_confirmed''}"
| "failure_guards PERSISTENCE_FAILURE = {''persistence_failure_confirmed''}"
| "failure_guards _ = {}"

definition failure_source_states :: "stage_state set" where
  "failure_source_states =
     {DISCOVERED, INGESTED, NORMALIZED, DERIVED, VALIDATED, AUTHORITY_HOLD, HUMAN_SELECTED,
      PROMOTION_READY, CANONICAL, REOPENED}"

text \<open>A dictionary comprehension keeps the last rule of a key.\<close>

definition rule_index :: "stage_state \<Rightarrow> transition_event \<Rightarrow> transition_rule_t option" where
  "rule_index s e = map_of (rev (map (\<lambda>r. ((tr_from r, tr_event r), r)) primary_rules)) (s, e)"

definition forbidden_direct_transitions :: "(stage_state \<times> stage_state) set" where
  "forbidden_direct_transitions =
     {(DERIVED, CANONICAL), (VALIDATED, CANONICAL), (AUTHORITY_HOLD, CANONICAL),
      (RECOVERY_INTAKE, CANONICAL), (QUARANTINED, CANONICAL), (DISCREPANCY_REVIEW, CANONICAL)}"

definition transition_rule :: "stage_state \<Rightarrow> transition_event \<Rightarrow> transition_rule_t res" where
  "transition_rule s e =
     (case rule_index s e of
        Some r \<Rightarrow> Inr r
      | None \<Rightarrow>
         (case failure_target e of
            Some t \<Rightarrow>
              if s \<in> failure_source_states then
                Inr \<lparr>tr_from = s, tr_event = e, tr_to = t, tr_required = failure_guards e,
                     tr_human_boundary = False,
                     tr_description = ''Fail-closed routing into an isolated review/recovery state.''\<rparr>
              else Inl (InvalidTransition (''event '' @ event_value e @ '' is not valid from state '' @ stage_state_value s))
          | None \<Rightarrow>
              Inl (InvalidTransition (''event '' @ event_value e @ '' is not valid from state '' @ stage_state_value s))))"

definition evaluate_transition ::
  "stage \<Rightarrow> transition_event \<Rightarrow> string set \<Rightarrow> transition_decision res" where
  "evaluate_transition s e guards =
     bindE (transition_rule (st_state s) e) (\<lambda>rule.
     let missing = sorted_diff (tr_required rule) guards in
     if missing \<noteq> [] then
       Inl (GuardRejected
              (''transition '' @ stage_state_value (st_state s) @ '' --'' @ event_value e @ ''--> '' @
               stage_state_value (tr_to rule) @ '' rejected; missing guards: '' @ join '', '' missing)
              missing)
     else if (st_state s, tr_to rule) \<in> forbidden_direct_transitions then
       Inl (InvalidTransition
              (''forbidden direct transition '' @ stage_state_value (st_state s) @ '' -> '' @
               stage_state_value (tr_to rule)))
     else Inr \<lparr>td_stage_id = st_stage_id s, td_case_id = st_case_id s, td_from = st_state s,
               td_event = e, td_to = tr_to rule, td_satisfied = guards, td_required = tr_required rule,
               td_human_boundary = tr_human_boundary rule\<rparr>)"

definition apply_transition ::
  "stage \<Rightarrow> transition_event \<Rightarrow> string set \<Rightarrow> (stage \<times> transition_decision) res" where
  "apply_transition s e guards =
     bindE (evaluate_transition s e guards) (\<lambda>d.
     bindE (stage_post_init (s\<lparr>st_state := td_to d\<rparr>)) (\<lambda>s'. Inr (s', d)))"

definition allowed_events :: "stage_state \<Rightarrow> transition_event list" where
  "allowed_events s =
     dedup (map tr_event (filter (\<lambda>r. tr_from r = s) primary_rules) @
            (if s \<in> failure_source_states then [INTEGRITY_FAILURE, MATERIAL_CONFLICT, PERSISTENCE_FAILURE]
             else []))"

text \<open>The machine proper: one step is an event together with the guards offered with it.\<close>

definition stage_step :: "stage \<Rightarrow> transition_event \<times> string set \<Rightarrow> stage res" where
  "stage_step s eg = bindE (apply_transition s (fst eg) (snd eg)) (\<lambda>r. Inr (fst r))"

subsection \<open>The table\<close>

lemma failure_guards_finite [simp]: "finite (failure_guards e)"
  by (cases e) auto

lemma stage_state_UNIV: "(UNIV :: stage_state set) = {DISCOVERED, INGESTED, NORMALIZED, DERIVED,
    VALIDATED, AUTHORITY_HOLD, HUMAN_SELECTED, PROMOTION_READY, CANONICAL, QUARANTINED,
    DISCREPANCY_REVIEW, RECOVERY_INTAKE, REOPENED}"
  by (auto intro: stage_state.exhaust)

lemma rule_index_Some:
  "rule_index s e = Some r \<Longrightarrow> r \<in> set primary_rules \<and> tr_from r = s \<and> tr_event r = e"
  unfolding rule_index_def by (auto dest!: map_of_SomeD)

text \<open>The eight events that lead to \<open>CANONICAL\<close>, with the guards each one requires.\<close>

definition promotion_path :: "(transition_event \<times> string set) list" where
  "promotion_path =
     [(INGEST_CONFIRMED, {''source_artifact_valid''}),
      (NORMALIZATION_COMPLETE, {''lineage_complete''}),
      (DERIVATION_COMPLETE, {''output_hash_valid''}),
      (VALIDATION_PASSED, {''required_validations_passed''}),
      (PLACE_AUTHORITY_HOLD, {''evidence_snapshot_present''}),
      (HUMAN_SELECTION_RECORDED, {''human_decision_present''}),
      (PREFLIGHT_PASSED, {''preflight_passed'', ''rollback_target_verified''}),
      (PROMOTION_AUTHORIZED, {''promotion_authorization_present'', ''authorization_matches_target''})]"

fun stage_rank :: "stage_state \<Rightarrow> nat" where
  "stage_rank DISCOVERED = 10"
| "stage_rank INGESTED = 9"
| "stage_rank NORMALIZED = 8"
| "stage_rank DERIVED = 7"
| "stage_rank VALIDATED = 6"
| "stage_rank AUTHORITY_HOLD = 5"
| "stage_rank HUMAN_SELECTED = 4"
| "stage_rank PROMOTION_READY = 3"
| "stage_rank CANONICAL = 2"
| "stage_rank REOPENED = 1"
| "stage_rank QUARANTINED = 0"
| "stage_rank DISCREPANCY_REVIEW = 0"
| "stage_rank RECOVERY_INTAKE = 0"

definition rule_sound :: "transition_rule_t \<Rightarrow> bool" where
  "rule_sound r \<longleftrightarrow>
     finite (tr_required r) \<and> tr_required r \<noteq> {} \<and>
     (tr_from r, tr_to r) \<notin> forbidden_direct_transitions \<and>
     stage_rank (tr_to r) < stage_rank (tr_from r) \<and>
     (tr_human_boundary r \<longleftrightarrow> tr_event r \<in> {HUMAN_SELECTION_RECORDED, PROMOTION_AUTHORIZED})"

lemma primary_rules_sound: "list_all rule_sound primary_rules"
  by (simp add: primary_rules_def rule_sound_def forbidden_direct_transitions_def)

lemma failure_rule_sound:
  assumes "failure_target e = Some t" "s \<in> failure_source_states"
  shows "rule_sound \<lparr>tr_from = s, tr_event = e, tr_to = t, tr_required = failure_guards e,
           tr_human_boundary = False, tr_description = x\<rparr>"
  using assms
  by (cases e) (auto simp: rule_sound_def failure_source_states_def forbidden_direct_transitions_def)

lemma transition_rule_Inr:
  assumes "transition_rule s e = Inr r"
  shows "tr_from r = s \<and> tr_event r = e \<and> rule_sound r"
  using assms primary_rules_sound failure_rule_sound
  by (auto simp: transition_rule_def list_all_iff dest!: rule_index_Some split: option.splits if_splits)

lemma evaluate_transition_Inr [result_simps]:
  "evaluate_transition s e g = Inr d \<longleftrightarrow>
     (\<exists>r. transition_rule (st_state s) e = Inr r \<and> tr_required r \<subseteq> g \<and>
        d = \<lparr>td_stage_id = st_stage_id s, td_case_id = st_case_id s, td_from = st_state s,
             td_event = e, td_to = tr_to r, td_satisfied = g, td_required = tr_required r,
             td_human_boundary = tr_human_boundary r\<rparr>)"
proof (cases "transition_rule (st_state s) e")
  case (Inr r)
  then have "tr_from r = st_state s" "rule_sound r" by (auto dest: transition_rule_Inr)
  then have "finite (tr_required r)" "(st_state s, tr_to r) \<notin> forbidden_direct_transitions"
    by (auto simp: rule_sound_def)
  with Inr show ?thesis by (auto simp: evaluate_transition_def Let_def)
qed (simp add: evaluate_transition_def)

lemma apply_transition_Inr [result_simps]:
  "apply_transition s e g = Inr (s', d) \<longleftrightarrow>
     evaluate_transition s e g = Inr d \<and> stage_post_init s = Inr s \<and> s' = s\<lparr>st_state := td_to d\<rparr>"
  by (auto simp: apply_transition_def result_simps)

lemma stage_step_Inr [result_simps]:
  "stage_step s eg = Inr s' \<longleftrightarrow> (\<exists>d. apply_transition s (fst eg) (snd eg) = Inr (s', d))"
  by (auto simp: stage_step_def bindE_Inr)

subsection \<open>Runs of a stage\<close>

interpretation stage_ranked: ranked_machine stage_step "\<lambda>s. stage_rank (st_state s)"
  by unfold_locales (auto simp: result_simps rule_sound_def dest!: transition_rule_Inr)

interpretation stage_identity: machine_invariant stage_step "\<lambda>s. s\<lparr>st_state := DISCOVERED\<rparr> = s0" for s0
  by unfold_locales (auto simp: result_simps)

inductive_cases stage_reaches_cases: "reaches stage_step s t"

lemma primary_rules_index: "r \<in> set primary_rules \<Longrightarrow> rule_index (tr_from r) (tr_event r) = Some r"
proof -
  have "distinct (map fst (rev (map (\<lambda>r. ((tr_from r, tr_event r), r)) primary_rules)))"
    by (simp add: primary_rules_def)
  moreover assume "r \<in> set primary_rules"
  ultimately show ?thesis unfolding rule_index_def by (intro map_of_is_SomeI) auto
qed

text \<open>A rule that does not leave the promotion path follows it by one step.\<close>

definition follows_path :: "transition_rule_t \<Rightarrow> bool" where
  "follows_path r \<longleftrightarrow>
     stage_rank (tr_to r) < 2 \<or>
     stage_rank (tr_from r) = Suc (stage_rank (tr_to r)) \<and> 3 \<le> stage_rank (tr_from r) \<and>
     (tr_event r, tr_required r) = promotion_path ! (10 - stage_rank (tr_from r))"

lemma primary_rules_follow: "list_all follows_path primary_rules"
  by (simp add: primary_rules_def follows_path_def promotion_path_def)

lemma rule_follows: "transition_rule s e = Inr r \<Longrightarrow> follows_path r"
  using primary_rules_follow
  by (cases e) (auto simp: transition_rule_def list_all_iff follows_path_def [of "\<lparr>tr_from = x, tr_event = y, tr_to = z, tr_required = u, tr_human_boundary = v, tr_description = w\<rparr>" for x y z u v w]
      dest!: rule_index_Some split: option.splits if_splits)

text \<open>Rules into the two states behind the human boundary.\<close>

definition boundary_guarded :: "transition_rule_t \<Rightarrow> bool" where
  "boundary_guarded r \<longleftrightarrow>
     (tr_human_boundary r \<longleftrightarrow> tr_to r \<in> {HUMAN_SELECTED, CANONICAL}) \<and>
     (tr_event r = HUMAN_SELECTION_RECORDED \<longleftrightarrow> tr_to r = HUMAN_SELECTED) \<and>
     (tr_event r = PROMOTION_AUTHORIZED \<longleftrightarrow> tr_to r = CANONICAL) \<and>
     (tr_to r = HUMAN_SELECTED \<longrightarrow>
        tr_from r = AUTHORITY_HOLD \<and> tr_required r = {''human_decision_present''}) \<and>
     (tr_to r = CANONICAL \<longrightarrow>
        tr_from r = PROMOTION_READY \<and>
        tr_required r = {''promotion_authorization_present'', ''authorization_matches_target''})"

lemma rule_boundary:
  assumes "transition_rule s e = Inr r"
  shows "boundary_guarded r"
proof -
  have "list_all boundary_guarded primary_rules"
    by (simp add: primary_rules_def boundary_guarded_def)
  with assms show ?thesis
    by (cases e) (auto simp: transition_rule_def list_all_iff
        boundary_guarded_def [of "\<lparr>tr_from = x, tr_event = y, tr_to = z, tr_required = u, tr_human_boundary = v, tr_description = w\<rparr>" for x y z u v w]
        dest!: rule_index_Some split: option.splits if_splits)
qed

lemma path_rule_exists:
  assumes "3 \<le> stage_rank s"
  shows "\<exists>r. transition_rule s (fst (promotion_path ! (10 - stage_rank s))) = Inr r \<and>
             tr_required r = snd (promotion_path ! (10 - stage_rank s)) \<and>
             Suc (stage_rank (tr_to r)) = stage_rank s"
proof -
  have "\<exists>r \<in> set primary_rules. tr_from r = s \<and> 2 \<le> stage_rank (tr_to r)"
    using assms by (cases s) (simp_all add: primary_rules_def)
  then obtain r where r: "r \<in> set primary_rules" "tr_from r = s" "2 \<le> stage_rank (tr_to r)" by blast
  then have rule: "transition_rule s (tr_event r) = Inr r"
    using primary_rules_index [OF r(1)] by (simp add: transition_rule_def)
  with r show ?thesis using rule_follows [OF rule]
    by (auto simp: follows_path_def intro!: exI [of _ r]) (metis fst_conv snd_conv)+
qed

lemma rank_2: "stage_rank s = 2 \<longleftrightarrow> s = CANONICAL"
  by (cases s) auto

lemma stage_rank_le: "stage_rank s \<le> 10"
  by (cases s) auto

abbreviation offers :: "transition_event \<times> string set \<Rightarrow> transition_event \<times> string set \<Rightarrow> bool" where
  "offers given needed \<equiv> fst given = fst needed \<and> snd needed \<subseteq> snd given"

lemma promotion_path_length: "length promotion_path = 8"
  by (simp add: promotion_path_def)

lemma drop_path:
  "3 \<le> n \<Longrightarrow> n \<le> 10 \<Longrightarrow>
     drop (10 - n) promotion_path = promotion_path ! (10 - n) # drop (10 - (n - 1)) promotion_path"
  using Cons_nth_drop_Suc [of "10 - n" promotion_path] Suc_diff_le [of n 10]
  by (simp add: promotion_path_length)

lemma run_to_canonical:
  assumes "run_steps stage_step s es = Inr t" "st_state t = CANONICAL"
  shows "2 \<le> stage_rank (st_state s) \<and>
    list_all2 offers es (drop (10 - stage_rank (st_state s)) promotion_path)"
  using assms
proof (induction es arbitrary: s)
  case Nil
  then show ?case by (simp add: promotion_path_def)
next
  case (Cons eg es)
  then obtain u where u: "stage_step s eg = Inr u" "run_steps stage_step u es = Inr t"
    by (auto simp: result_simps)
  from Cons.IH [OF u(2) Cons.prems(2)] have ih: "2 \<le> stage_rank (st_state u)"
    "list_all2 offers es (drop (10 - stage_rank (st_state u)) promotion_path)" by auto
  from u(1) obtain r where r: "transition_rule (st_state s) (fst eg) = Inr r"
    "tr_required r \<subseteq> snd eg" "st_state u = tr_to r"
    by (auto simp: result_simps)
  then have "follows_path r" "tr_from r = st_state s" "tr_event r = fst eg"
    by (auto dest: rule_follows transition_rule_Inr)
  with ih(1) r have f: "stage_rank (st_state s) = Suc (stage_rank (st_state u))"
    "3 \<le> stage_rank (st_state s)" "offers eg (promotion_path ! (10 - stage_rank (st_state s)))"
    by (auto simp: follows_path_def prod_eq_iff)
  then show ?case using ih drop_path [of "stage_rank (st_state s)"] stage_rank_le [of "st_state s"] by simp
qed

lemma run_along_path:
  assumes "2 \<le> stage_rank (st_state s)" "stage_post_init s = Inr s"
    "list_all2 offers es (drop (10 - stage_rank (st_state s)) promotion_path)"
  shows "run_steps stage_step s es = Inr (s\<lparr>st_state := CANONICAL\<rparr>)"
  using assms
proof (induction es arbitrary: s)
  case Nil
  then have "stage_rank (st_state s) = 2" by (auto simp: promotion_path_def)
  then show ?case by (simp add: rank_2)
next
  case (Cons eg es)
  let ?n = "stage_rank (st_state s)"
  have "?n \<noteq> 2" using Cons.prems(3) by (auto simp: promotion_path_def)
  with Cons.prems(1) have n: "3 \<le> ?n" by simp
  have "drop (10 - ?n) promotion_path = promotion_path ! (10 - ?n) # drop (10 - (?n - 1)) promotion_path"
    by (rule drop_path [OF n stage_rank_le])
  with Cons.prems(3) have eg: "offers eg (promotion_path ! (10 - ?n))"
    and es: "list_all2 offers es (drop (10 - (?n - 1)) promotion_path)" by simp_all
  from path_rule_exists [OF n] eg obtain r where
    r: "transition_rule (st_state s) (fst eg) = Inr r" "tr_required r \<subseteq> snd eg"
      "Suc (stage_rank (tr_to r)) = ?n" by auto
  define u where "u = s\<lparr>st_state := tr_to r\<rparr>"
  from r(3) have "?n - 1 = stage_rank (st_state u)" by (simp add: u_def)
  with es have es': "list_all2 offers es (drop (10 - stage_rank (st_state u)) promotion_path)" by metis
  have "stage_step s eg = Inr u"
    using r Cons.prems(2) by (auto simp: result_simps u_def)
  moreover have "run_steps stage_step u es = Inr (u\<lparr>st_state := CANONICAL\<rparr>)"
    using r n es' Cons.prems(2) by (intro Cons.IH) (auto simp: u_def result_simps)
  ultimately show ?case by (simp add: u_def)
qed

subsection \<open>Properties\<close>

text \<open>A concrete stage and a run of it, for the witnesses.\<close>

definition example_stage :: stage where
  "example_stage = \<lparr>st_stage_id = ''stage-1'', st_case_id = ''case-1'', st_stage_type = ''ingest'',
     st_state = DISCOVERED, st_dependencies = [], st_input_refs = [], st_output_refs = [],
     st_blocking_holds = []\<rparr>"

lemma example_stage_valid: "stage_post_init example_stage = Inr example_stage"
  by (simp add: example_stage_def stage_post_init_Inr)

lemma promotion_path_offered: "list_all2 offers promotion_path promotion_path"
  by (simp add: list_all2_same)

lemma example_run: "run_steps stage_step example_stage promotion_path = Inr (example_stage\<lparr>st_state := CANONICAL\<rparr>)"
  by (rule run_along_path)
    (simp_all add: example_stage_valid promotion_path_offered, simp_all add: example_stage_def promotion_path_offered)

text \<open>C1. A valid discovered stage becomes canonical by exactly one sequence of events: the eight of
  the promotion path in order, among them the recorded human selection, the preflight and the
  promotion authorization, each offered with at least the guards its rule requires.  Every such run
  succeeds and changes nothing but the state.\<close>

theorem canonical_only_by_promotion_path:
  assumes "st_state s = DISCOVERED" "stage_post_init s = Inr s"
  shows "run_steps stage_step s es = Inr t \<and> st_state t = CANONICAL \<longleftrightarrow>
           t = s\<lparr>st_state := CANONICAL\<rparr> \<and> list_all2 offers es promotion_path"
  using assms run_to_canonical [of s es t] run_along_path [of s es] by fastforce

theorem canonical_only_by_promotion_path_witness:
  "run_steps stage_step example_stage promotion_path = Inr (example_stage\<lparr>st_state := CANONICAL\<rparr>) \<and>
   (\<forall>t. \<not> (run_steps stage_step example_stage [(INGEST_CONFIRMED, UNIV)] = Inr t \<and> st_state t = CANONICAL))"
proof -
  have "st_state example_stage = DISCOVERED" by (simp add: example_stage_def)
  note exact = canonical_only_by_promotion_path [OF this example_stage_valid]
  have "\<not> list_all2 offers [(INGEST_CONFIRMED, UNIV)] promotion_path"
    by (auto simp: promotion_path_length dest: list_all2_lengthD)
  with exact [of "[(INGEST_CONFIRMED, UNIV)]"] exact [of promotion_path "example_stage\<lparr>st_state := CANONICAL\<rparr>"]
    promotion_path_offered
  show ?thesis by blast
qed

text \<open>C2. Every accepted transition lowers the rank of the stage, so a run makes at most ten
  transitions, never returns to a state it has left, and a stage that was quarantined, sent to
  discrepancy review or to recovery intake admits no transition at all.\<close>

theorem stage_runs_are_finite:
  "(\<forall>es t. run_steps stage_step s es = Inr t \<longrightarrow> length es \<le> 10 \<and>
     (st_state s \<in> {QUARANTINED, DISCREPANCY_REVIEW, RECOVERY_INTAKE} \<longrightarrow> es = [])) \<and>
   (\<forall>eg t. stage_step s eg = Inr t \<longrightarrow> \<not> reaches stage_step t s)"
  using stage_ranked.run_rank [of s] stage_rank_le [of "st_state s"] stage_ranked.no_return [of s]
  by fastforce

theorem stage_runs_are_finite_witness:
  "length promotion_path \<le> 10 \<and>
   (\<exists>t. stage_step example_stage (hd promotion_path) = Inr t \<and> \<not> reaches stage_step t example_stage)"
proof -
  have "promotion_path = hd promotion_path # tl promotion_path" by (simp add: promotion_path_def)
  with example_run obtain t where "stage_step example_stage (hd promotion_path) = Inr t"
    by (metis run_steps.simps(2) bindE_Inr)
  then show ?thesis using stage_runs_are_finite [of example_stage] example_run by blast
qed

text \<open>A transition decision that crosses the human boundary is a recorded human selection out of
  the authority hold with the human decision present, or an authorized promotion out of
  \<open>PROMOTION_READY\<close> with an authorization present and matching; no other decision enters
  \<open>HUMAN_SELECTED\<close> or \<open>CANONICAL\<close>, and no decision is a forbidden direct transition.\<close>

theorem human_boundary_is_guarded:
  assumes "evaluate_transition s e g = Inr d"
  shows "(td_human_boundary d \<longleftrightarrow> td_to d \<in> {HUMAN_SELECTED, CANONICAL}) \<and>
    (td_to d = HUMAN_SELECTED \<longrightarrow> td_from d = AUTHORITY_HOLD \<and> ''human_decision_present'' \<in> g) \<and>
    (td_to d = CANONICAL \<longrightarrow> td_from d = PROMOTION_READY \<and>
       {''promotion_authorization_present'', ''authorization_matches_target''} \<subseteq> g) \<and>
    (td_from d, td_to d) \<notin> forbidden_direct_transitions"
proof -
  from assms obtain r where r: "transition_rule (st_state s) e = Inr r" "tr_required r \<subseteq> g"
    "td_from d = st_state s" "td_to d = tr_to r" "td_human_boundary d = tr_human_boundary r"
    by (auto simp: evaluate_transition_Inr)
  from r(1) have from_s: "tr_from r = st_state s" and "(tr_from r, tr_to r) \<notin> forbidden_direct_transitions"
    by (auto simp: rule_sound_def dest: transition_rule_Inr)
  moreover have "boundary_guarded r" using r(1) by (rule rule_boundary)
  ultimately show ?thesis using r(2-) unfolding boundary_guarded_def by (metis insert_subset)
qed

theorem human_boundary_is_guarded_witness:
  "(DERIVED, td_to \<lparr>td_stage_id = ''stage-1'', td_case_id = ''case-1'', td_from = DERIVED,
      td_event = VALIDATION_PASSED, td_to = VALIDATED, td_satisfied = {''required_validations_passed''},
      td_required = {''required_validations_passed''}, td_human_boundary = False\<rparr>)
    \<notin> forbidden_direct_transitions"
  using human_boundary_is_guarded [of "example_stage\<lparr>st_state := DERIVED\<rparr>" VALIDATION_PASSED
      "{''required_validations_passed''}"]
  by (simp add: evaluate_transition_Inr transition_rule_def rule_index_def primary_rules_def example_stage_def)

text \<open>What a caller learns from a refused transition: an event with no rule in the current state
  is an \<open>InvalidTransition\<close>; otherwise the refusal is a \<open>GuardRejected\<close> that lists exactly the
  missing guards, in order and without repetition.\<close>

theorem refused_transition_reports:
  assumes "evaluate_transition s e g = Inl x"
  shows "(case transition_rule (st_state s) e of
            Inl y \<Rightarrow> x = y \<and> exc_class x = ''InvalidTransition''
          | Inr r \<Rightarrow> \<exists>msg missing. x = GuardRejected msg missing \<and> sorted missing \<and> distinct missing \<and>
                       missing \<noteq> [] \<and> set missing = tr_required r - g)"
proof (cases "transition_rule (st_state s) e")
  case (Inl y)
  moreover from Inl have "exc_class y = ''InvalidTransition''"
    by (auto simp: transition_rule_def split: option.splits if_splits)
  ultimately show ?thesis using assms by (simp add: evaluate_transition_def)
next
  case (Inr r)
  then have "tr_from r = st_state s" "rule_sound r" by (auto dest: transition_rule_Inr)
  then have "finite (tr_required r)" "(st_state s, tr_to r) \<notin> forbidden_direct_transitions"
    by (auto simp: rule_sound_def)
  with Inr assms show ?thesis
    by (auto simp: evaluate_transition_def Let_def sorted_diff_def split: if_splits)
qed

theorem refused_transition_reports_witness:
  "(case evaluate_transition (example_stage\<lparr>st_state := HUMAN_SELECTED\<rparr>) PREFLIGHT_PASSED {''preflight_passed''} of
      Inl x \<Rightarrow> exc_class x = ''GuardRejected'' | Inr d \<Rightarrow> False)"
proof -
  have rule: "transition_rule HUMAN_SELECTED PREFLIGHT_PASSED = Inr (primary_rules ! 6)"
    by (simp add: transition_rule_def rule_index_def primary_rules_def)
  have need: "tr_required (primary_rules ! 6) = {''preflight_passed'', ''rollback_target_verified''}"
    by (simp add: primary_rules_def)
  have "evaluate_transition (example_stage\<lparr>st_state := HUMAN_SELECTED\<rparr>) PREFLIGHT_PASSED {''preflight_passed''} \<noteq> Inr d" for d
    by (auto simp: evaluate_transition_Inr rule need)
  then obtain x where x: "evaluate_transition (example_stage\<lparr>st_state := HUMAN_SELECTED\<rparr>) PREFLIGHT_PASSED {''preflight_passed''} = Inl x"
    by (metis sum.exhaust)
  have "\<exists>msg missing. x = GuardRejected msg missing"
    using refused_transition_reports [OF x] rule
    by (auto simp del: insert_iff split: sum.splits)
  then show ?thesis unfolding x by auto
qed

text \<open>\<open>allowed_events\<close> lists, without repetition, exactly the events for which the state has a
  transition rule.\<close>

theorem allowed_events_exact:
  "distinct (allowed_events s) \<and> (e \<in> set (allowed_events s) \<longleftrightarrow> (\<exists>r. transition_rule s e = Inr r))"
proof -
  have "(\<exists>r. transition_rule s e = Inr r) \<longleftrightarrow>
      (\<exists>r \<in> set primary_rules. tr_from r = s \<and> tr_event r = e) \<or>
      failure_target e \<noteq> None \<and> s \<in> failure_source_states"
    by (auto simp: transition_rule_def split: option.splits if_splits
        dest: rule_index_Some primary_rules_index)
  moreover have "failure_target e \<noteq> None \<longleftrightarrow> e \<in> {INTEGRITY_FAILURE, MATERIAL_CONFLICT, PERSISTENCE_FAILURE}"
    by (cases e) auto
  moreover have "e \<in> set (allowed_events s) \<longleftrightarrow>
      (\<exists>r \<in> set primary_rules. tr_from r = s \<and> tr_event r = e) \<or>
      s \<in> failure_source_states \<and> e \<in> {INTEGRITY_FAILURE, MATERIAL_CONFLICT, PERSISTENCE_FAILURE}"
    unfolding allowed_events_def by (auto simp del: insert_iff)
  moreover have "distinct (allowed_events s)" by (simp add: allowed_events_def)
  ultimately show ?thesis by blast
qed

end
