(* ===== verification/Effects.thy ===== *)
theory Effects
  imports PyTime
begin

section \<open>The world: clock, identifiers and the file system\<close>

text \<open>
  Stateful code is a function of the \<open>world\<close>.  The world holds the file tree, a counter of the calls
  made to the outside so far (\<open>w_tick\<close>), and what the outside answers: \<open>w_uuid n\<close> is the text of the
  \<open>uuid4()\<close> drawn at tick \<open>n\<close>, and \<open>w_fault n\<close> tells whether the system call made at tick \<open>n\<close> fails,
  a failing write after how many bytes.  A clock or an identifier factory passed to a constructor is
  a function of the tick, so two calls may answer differently.

  Paths are absolute, as lists of names; there are no symbolic links, permissions or name length
  limits, and a process never loses what it wrote (no crash; \<open>fsync\<close> matters only when it fails).
\<close>

type_synonym path = "string list"

datatype node = Dir | File string

type_synonym fs = "(path \<times> node) list"

record world =
  w_tick :: nat
  w_fs :: fs
  w_uuid :: "nat \<Rightarrow> string"
  w_fault :: "nat \<Rightarrow> nat option"

type_synonym 'a io = "world \<Rightarrow> 'a res \<times> world"

subsection \<open>Sequencing\<close>

definition ret :: "'a \<Rightarrow> 'a io" where
  "ret x w = (Inr x, w)"

definition throw :: "pyexc \<Rightarrow> 'a io" where
  "throw e w = (Inl e, w)"

definition lift :: "'a res \<Rightarrow> 'a io" where
  "lift r w = (r, w)"

definition bindI :: "'a io \<Rightarrow> ('a \<Rightarrow> 'b io) \<Rightarrow> 'b io" where
  "bindI m k w = (case m w of (Inl e, w') \<Rightarrow> (Inl e, w') | (Inr x, w') \<Rightarrow> k x w')"

definition catch :: "'a io \<Rightarrow> (pyexc \<Rightarrow> 'a io) \<Rightarrow> 'a io" where
  "catch m h w = (case m w of (Inl e, w') \<Rightarrow> h e w' | (Inr x, w') \<Rightarrow> (Inr x, w'))"

definition attempt :: "'a io \<Rightarrow> 'a res io" where
  \<comment> \<open>\<open>try: ... except Exception\<close>: the exception becomes a value\<close>
  "attempt m w = (case m w of (r, w') \<Rightarrow> (Inr r, w'))"

definition throw_if :: "bool \<Rightarrow> pyexc \<Rightarrow> unit io" where
  "throw_if c e = (if c then throw e else ret ())"

fun forI :: "('a \<Rightarrow> unit io) \<Rightarrow> 'a list \<Rightarrow> unit io" where
  "forI f [] = ret ()"
| "forI f (x # xs) = bindI (f x) (\<lambda>_. forI f xs)"

definition call :: "(nat \<Rightarrow> 'a) \<Rightarrow> 'a io" where
  \<comment> \<open>a call to a clock or to an identifier factory\<close>
  "call f w = (Inr (f (w_tick w)), w\<lparr>w_tick := Suc (w_tick w)\<rparr>)"

definition uuid4 :: "string io" where
  "uuid4 w = (Inr (w_uuid w (w_tick w)), w\<lparr>w_tick := Suc (w_tick w)\<rparr>)"

definition observe :: "(fs \<Rightarrow> 'a) \<Rightarrow> 'a io" where
  "observe f w = (Inr (f (w_fs w)), w)"

lemma io_simps [simp]:
  "ret x w = (Inr x, w)" "throw e w = (Inl e, w)" "lift r w = (r, w)"
  "observe f w = (Inr (f (w_fs w)), w)"
  by (simp_all add: ret_def throw_def lift_def observe_def)

lemma bindI_Inr [result_simps]:
  "bindI m k w = (Inr y, w') \<longleftrightarrow> (\<exists>x v. m w = (Inr x, v) \<and> k x v = (Inr y, w'))"
  by (auto simp: bindI_def split: prod.splits sum.splits)

lemma bindI_Inl [result_simps]:
  "bindI m k w = (Inl e, w') \<longleftrightarrow>
     m w = (Inl e, w') \<or> (\<exists>x v. m w = (Inr x, v) \<and> k x v = (Inl e, w'))"
  by (auto simp: bindI_def split: prod.splits sum.splits)

lemma bindI_result:
  "bindI m k w = (r, w') \<longleftrightarrow>
     (\<exists>e. m w = (Inl e, w') \<and> r = Inl e) \<or> (\<exists>x v. m w = (Inr x, v) \<and> k x v = (r, w'))"
  by (auto simp: bindI_def split: prod.splits sum.splits)

lemma catch_result:
  "catch m h w = (r, w') \<longleftrightarrow>
     (\<exists>x. m w = (Inr x, w') \<and> r = Inr x) \<or> (\<exists>e v. m w = (Inl e, v) \<and> h e v = (r, w'))"
  by (auto simp: catch_def split: prod.splits sum.splits)

lemma call_result: "call f w = (r, w') \<longleftrightarrow> r = Inr (f (w_tick w)) \<and> w' = w\<lparr>w_tick := Suc (w_tick w)\<rparr>"
  by (auto simp: call_def)

lemma uuid4_result: "uuid4 w = (r, w') \<longleftrightarrow> r = Inr (w_uuid w (w_tick w)) \<and> w' = w\<lparr>w_tick := Suc (w_tick w)\<rparr>"
  by (auto simp: uuid4_def)

lemma throw_if_result: "throw_if b e w = (r, w') \<longleftrightarrow> w' = w \<and> r = (if b then Inl e else Inr ())"
  by (auto simp: throw_if_def)

lemma bindI_run [simp]:
  "m w = (Inr x, v) \<Longrightarrow> bindI m k w = k x v" "m w = (Inl e, v) \<Longrightarrow> bindI m k w = (Inl e, v)"
  by (simp_all add: bindI_def)

lemma catch_Inr [result_simps]:
  "catch m h w = (Inr y, w') \<longleftrightarrow>
     m w = (Inr y, w') \<or> (\<exists>e v. m w = (Inl e, v) \<and> h e v = (Inr y, w'))"
  by (auto simp: catch_def split: prod.splits sum.splits)

lemma catch_run [simp]:
  "m w = (Inr x, v) \<Longrightarrow> catch m h w = (Inr x, v)" "m w = (Inl e, v) \<Longrightarrow> catch m h w = h e v"
  by (simp_all add: catch_def)

lemma attempt_Inr [result_simps]: "attempt m w = (Inr r, w') \<longleftrightarrow> m w = (r, w')"
  by (auto simp: attempt_def split: prod.splits)

lemma attempt_not_Inl [simp]: "attempt m w \<noteq> (Inl e, w')"
  by (auto simp: attempt_def split: prod.splits)

lemma attempt_run [simp]: "m w = (r, w') \<Longrightarrow> attempt m w = (Inr r, w')"
  by (simp add: attempt_def)

lemma throw_if_Inr [result_simps]: "throw_if c e w = (Inr u, w') \<longleftrightarrow> \<not> c \<and> w' = w"
  by (auto simp: throw_if_def)

lemma throw_if_simps [simp]: "throw_if True e w = (Inl e, w)" "throw_if False e w = (Inr (), w)"
  by (simp_all add: throw_if_def)

lemma call_Inr [result_simps]:
  "call f w = (Inr x, w') \<longleftrightarrow> x = f (w_tick w) \<and> w' = w\<lparr>w_tick := Suc (w_tick w)\<rparr>"
  by (auto simp: call_def)

lemma call_not_Inl [simp]: "call f w \<noteq> (Inl e, w')" "uuid4 w \<noteq> (Inl e, w')"
  by (simp_all add: call_def uuid4_def)

lemma uuid4_Inr [result_simps]:
  "uuid4 w = (Inr x, w') \<longleftrightarrow> x = w_uuid w (w_tick w) \<and> w' = w\<lparr>w_tick := Suc (w_tick w)\<rparr>"
  by (auto simp: uuid4_def)

subsection \<open>What a computation may do to the file tree\<close>

text \<open>
  \<open>keeps R m\<close>: whatever the world and whether it returns or raises, \<open>m\<close> relates the file tree before
  to the one after by \<open>R\<close>.  For a preorder \<open>R\<close> this composes; the locale proves it once, for the
  relation "unchanged" here and for the store's and the ledger's own relations later.
\<close>

definition keeps :: "(fs \<Rightarrow> fs \<Rightarrow> bool) \<Rightarrow> 'a io \<Rightarrow> bool" where
  "keeps R m \<longleftrightarrow> (\<forall>w. R (w_fs w) (w_fs (snd (m w))))"

lemma keepsD: "keeps R m \<Longrightarrow> m w = (r, w') \<Longrightarrow> R (w_fs w) (w_fs w')"
  unfolding keeps_def by (metis snd_conv)

lemma keepsI: "(\<And>w r w'. m w = (r, w') \<Longrightarrow> R (w_fs w) (w_fs w')) \<Longrightarrow> keeps R m"
  unfolding keeps_def by (metis prod.collapse)

locale effect_preorder =
  fixes R :: "fs \<Rightarrow> fs \<Rightarrow> bool"
  assumes same: "R s s"
    and step: "R s t \<Longrightarrow> R t u \<Longrightarrow> R s u"
begin

lemma keeps_pure: "keeps R (ret x)" "keeps R (throw e)" "keeps R (lift r)" "keeps R (observe f)"
  "keeps R (call c)" "keeps R uuid4" "keeps R (throw_if b e)"
  "keeps R (Pair z)"
  by (simp_all add: keeps_def same call_def uuid4_def throw_if_def)

lemma keeps_bind:
  assumes "keeps R m" and "\<And>x. keeps R (k x)"
  shows "keeps R (bindI m k)"
proof (rule keepsI)
  fix w r w'
  assume run: "bindI m k w = (r, w')"
  obtain r1 v where m: "m w = (r1, v)" by (cases "m w")
  with assms(1) have first: "R (w_fs w) (w_fs v)" by (rule keepsD)
  show "R (w_fs w) (w_fs w')"
  proof (cases r1)
    case (Inl x)
    with run m first show ?thesis by simp
  next
    case (Inr x)
    with run m have "k x v = (r, w')" by simp
    with assms(2) have "R (w_fs v) (w_fs w')" by (rule keepsD)
    with first show ?thesis by (rule step)
  qed
qed

lemma keeps_bind_result:
  assumes "keeps R m" and "\<And>w x w'. m w = (Inr x, w') \<Longrightarrow> keeps R (k x)"
  shows "keeps R (bindI m k)"
proof (rule keepsI)
  fix w r w'
  assume run: "bindI m k w = (r, w')"
  obtain r1 v where m: "m w = (r1, v)" by (cases "m w")
  with assms(1) have first: "R (w_fs w) (w_fs v)" by (rule keepsD)
  show "R (w_fs w) (w_fs w')"
  proof (cases r1)
    case (Inl x)
    with run m first show ?thesis by simp
  next
    case (Inr x)
    with run m have "k x v = (r, w')" by simp
    moreover from Inr m have "keeps R (k x)" using assms(2) by simp
    ultimately have "R (w_fs v) (w_fs w')" by (blast dest: keepsD)
    with first show ?thesis by (rule step)
  qed
qed

lemma keeps_catch:
  assumes "keeps R m" and "\<And>x. keeps R (h x)"
  shows "keeps R (catch m h)"
proof (rule keepsI)
  fix w r w'
  assume run: "catch m h w = (r, w')"
  obtain r1 v where m: "m w = (r1, v)" by (cases "m w")
  with assms(1) have first: "R (w_fs w) (w_fs v)" by (rule keepsD)
  show "R (w_fs w) (w_fs w')"
  proof (cases r1)
    case (Inr x)
    with run m first show ?thesis by simp
  next
    case (Inl x)
    with run m have "h x v = (r, w')" by simp
    with assms(2) have "R (w_fs v) (w_fs w')" by (rule keepsD)
    with first show ?thesis by (rule step)
  qed
qed

lemma keeps_attempt: "keeps R m \<Longrightarrow> keeps R (attempt m)"
  by (auto simp: keeps_def attempt_def split: prod.splits) (metis snd_conv)

lemma keeps_for: "(\<And>x. x \<in> set xs \<Longrightarrow> keeps R (f x)) \<Longrightarrow> keeps R (forI f xs)"
  by (induction xs) (auto simp: keeps_pure keeps_bind)

end

interpretation unchanged: effect_preorder "(=)"
  by unfold_locales auto

lemmas [frame_rules] = unchanged.keeps_pure unchanged.keeps_bind unchanged.keeps_catch unchanged.keeps_attempt unchanged.keeps_for

lemma keeps_split [frame_rules]:
  "(b \<Longrightarrow> keeps R m) \<Longrightarrow> (\<not> b \<Longrightarrow> keeps R n) \<Longrightarrow> keeps R (if b then m else n)"
  "(z = None \<Longrightarrow> keeps R m) \<Longrightarrow> (\<And>x. z = Some x \<Longrightarrow> keeps R (k x)) \<Longrightarrow> keeps R (case z of None \<Rightarrow> m | Some x \<Rightarrow> k x)"
  "(\<And>e. r = Inl e \<Longrightarrow> keeps R (p e)) \<Longrightarrow> (\<And>x. r = Inr x \<Longrightarrow> keeps R (q x)) \<Longrightarrow> keeps R (case r of Inl e \<Rightarrow> p e | Inr x \<Rightarrow> q x)"
  by (auto split: option.splits sum.splits)

lemma keeps_same: "keeps (=) m \<Longrightarrow> m w = (r, w') \<Longrightarrow> w_fs w' = w_fs w"
  by (auto dest: keepsD)

subsection \<open>What a computation leaves to its environment\<close>

text \<open>The answers of \<open>uuid4\<close> and the fault plan are the environment's: no computation changes them.\<close>

named_theorems env_rules \<open>computations that leave the environment of the world alone\<close>

definition env_kept :: "'a io \<Rightarrow> bool" where
  "env_kept m \<longleftrightarrow> (\<forall>w. w_uuid (snd (m w)) = w_uuid w \<and> w_fault (snd (m w)) = w_fault w)"

lemma env_keptD: "env_kept m \<Longrightarrow> m w = (r, w') \<Longrightarrow> w_uuid w' = w_uuid w \<and> w_fault w' = w_fault w"
  unfolding env_kept_def by (metis snd_conv)

lemma env_pure [env_rules]: "env_kept (ret x)" "env_kept (throw e)" "env_kept (lift r)" "env_kept (observe f)"
  "env_kept (call c)" "env_kept uuid4" "env_kept (throw_if b e)" "env_kept (Pair z)"
  by (simp_all add: env_kept_def call_def uuid4_def throw_if_def)

lemma env_bind [env_rules]: "env_kept m \<Longrightarrow> (\<And>x. env_kept (k x)) \<Longrightarrow> env_kept (bindI m k)"
  by (auto simp: env_kept_def bindI_def split: prod.splits sum.splits) (metis snd_conv)+

lemma env_catch [env_rules]: "env_kept m \<Longrightarrow> (\<And>e. env_kept (h e)) \<Longrightarrow> env_kept (catch m h)"
  by (auto simp: env_kept_def catch_def split: prod.splits sum.splits) (metis snd_conv)+

lemma env_for [env_rules]: "(\<And>x. env_kept (f x)) \<Longrightarrow> env_kept (forI f xs)"
  by (induction xs) (auto intro: env_rules)

lemma env_split [env_rules]:
  "(b \<Longrightarrow> env_kept m) \<Longrightarrow> (\<not> b \<Longrightarrow> env_kept n) \<Longrightarrow> env_kept (if b then m else n)"
  "(z = None \<Longrightarrow> env_kept m) \<Longrightarrow> (\<And>x. z = Some x \<Longrightarrow> env_kept (k x)) \<Longrightarrow> env_kept (case z of None \<Rightarrow> m | Some x \<Rightarrow> k x)"
  by (auto split: option.splits)

text \<open>Reading without failures: \<open>m\<close> returns \<open>x\<close> on the tree \<open>fs\<close> and leaves it as it is.\<close>

definition quiet :: "world \<Rightarrow> bool" where
  "quiet w \<longleftrightarrow> w_fault w = (\<lambda>n. None)"

definition yields :: "fs \<Rightarrow> 'a io \<Rightarrow> 'a \<Rightarrow> bool" where
  "yields fs m x \<longleftrightarrow> (\<forall>w. w_fs w = fs \<and> quiet w \<longrightarrow> (\<exists>w'. m w = (Inr x, w') \<and> w_fs w' = fs \<and> quiet w'))"

lemma yields_pure: "yields fs (ret x) x" "yields fs (lift (Inr x)) x" "yields fs (observe f) (f fs)"
  "\<not> b \<Longrightarrow> yields fs (throw_if b e) ()"
  by (auto simp: yields_def)

lemma yields_lift: "r = Inr x \<Longrightarrow> yields fs (lift r) x"
  by (simp add: yields_pure)

lemma yields_bind: "yields fs m x \<Longrightarrow> yields fs (k x) y \<Longrightarrow> yields fs (bindI m k) y"
  unfolding yields_def by (metis bindI_run(1))

lemma yields_catch: "yields fs m x \<Longrightarrow> yields fs (catch m h) x"
  unfolding yields_def by (metis catch_run(1))

lemma yields_for: "(\<And>x. x \<in> set xs \<Longrightarrow> yields fs (f x) ()) \<Longrightarrow> yields fs (forI f xs) ()"
  by (induction xs) (auto intro: yields_pure yields_bind)

subsection \<open>A world without failures\<close>

definition example_time :: "nat \<Rightarrow> datetime" where
  "example_time n =
     \<lparr>dt_year = 2026, dt_month = 1, dt_day = 2, dt_hour = 3, dt_minute = 4, dt_second = 5,
      dt_micro = 0, dt_offset = Some 0\<rparr>"

definition example_id :: "string \<Rightarrow> nat \<Rightarrow> string" where
  "example_id prefix n = prefix @ ''-'' @ show_nat n"

definition quiet_world :: "fs \<Rightarrow> world" where
  "quiet_world fs = \<lparr>w_tick = 0, w_fs = fs, w_uuid = example_id ''uuid'', w_fault = (\<lambda>n. None)\<rparr>"

lemma quiet_world_simps [simp]:
  "w_tick (quiet_world fs) = 0" "w_fs (quiet_world fs) = fs" "w_uuid (quiet_world fs) = example_id ''uuid''"
  "w_fault (quiet_world fs) = (\<lambda>n. None)"
  by (simp_all add: quiet_world_def)

lemma example_time_aware [simp]: "aware (example_time n)" "valid_datetime (example_time n)"
  by (simp_all add: example_time_def aware_def valid_datetime_def days_in_month_def)

end
