(* ===== verification/Orchestrator.thy ===== *)
theory Orchestrator
  imports StateMachine Effects
begin

section \<open>Stage orchestrator\<close>

text \<open>
  \<open>galia2/orchestrator.py\<close>: one attempt to execute a stage.  The executor and the validators are
  arguments of the call; each is a computation on the world that may raise any exception, and may
  return an object of another type (\<open>Other_object\<close>), which the code tests for.  The lemmas classify
  the outcomes: blocked before anything ran, routed into an isolated state by a failure, or advanced
  by the state machine with the guards that were collected.
\<close>

datatype orchestration_status = ADVANCED | ROUTED_FAILURE | BLOCKED

fun failure_kind_value :: "failure_kind \<Rightarrow> string" where
  "failure_kind_value INTEGRITY = ''INTEGRITY''"
| "failure_kind_value MATERIAL_CONFLICT_KIND = ''MATERIAL_CONFLICT''"
| "failure_kind_value PERSISTENCE = ''PERSISTENCE''"

fun failure_event :: "failure_kind \<Rightarrow> transition_event" where
  "failure_event INTEGRITY = INTEGRITY_FAILURE"
| "failure_event MATERIAL_CONFLICT_KIND = MATERIAL_CONFLICT"
| "failure_event PERSISTENCE = PERSISTENCE_FAILURE"

fun failure_guard :: "failure_kind \<Rightarrow> string" where
  "failure_guard INTEGRITY = ''integrity_failure_confirmed''"
| "failure_guard MATERIAL_CONFLICT_KIND = ''material_conflict_confirmed''"
| "failure_guard PERSISTENCE = ''persistence_failure_confirmed''"

record stage_execution =
  se_output_refs :: "string list"
  se_output_hashes :: "string list"
  se_guards :: "string set"

record stage_validation =
  sv_passed :: bool
  sv_guards :: "string set"
  sv_failure_kind :: failure_kind
  sv_message :: string

record run_context =
  rx_input_commit :: "string option"
  rx_input_hashes :: "string list"
  rx_completed :: "string set"
  rx_guards :: "string set"

record orchestration_outcome =
  oo_stage :: stage
  oo_status :: orchestration_status
  oo_receipt :: receipt
  oo_decision :: "transition_decision option"
  oo_execution :: "stage_execution option"
  oo_reason :: string

datatype 'a returned = Returned 'a | Other_object

type_synonym executor = "stage \<Rightarrow> run_context \<Rightarrow> stage_execution returned io"
type_synonym validator = "stage \<Rightarrow> stage_execution \<Rightarrow> run_context \<Rightarrow> stage_validation returned io"

definition default_context :: run_context where
  "default_context = \<lparr>rx_input_commit = None, rx_input_hashes = [], rx_completed = {}, rx_guards = {}\<rparr>"

record orchestrator =
  or_policy_version :: string
  or_actor :: string
  or_clock :: "nat \<Rightarrow> datetime"
  or_receipt_id :: "nat \<Rightarrow> string"

definition orchestrator_init :: "orchestrator \<Rightarrow> orchestrator res" where
  "orchestrator_init o' =
     bindE (raise_if (blank (or_policy_version o')) (ValueError ''policy_version must be non-empty'')) (\<lambda>_.
     bindE (raise_if (blank (or_actor o')) (ValueError ''actor must be non-empty'')) (\<lambda>_. Inr o'))"

definition orchestrator_receipt ::
  "orchestrator \<Rightarrow> stage \<Rightarrow> transition_event \<Rightarrow> run_context \<Rightarrow> string list \<Rightarrow> string \<Rightarrow> receipt io" where
  "orchestrator_receipt o' s e ctx output_hashes result =
     bindI (call (or_receipt_id o')) (\<lambda>rid.
     bindI (call (or_clock o')) (\<lambda>now.
     lift (receipt_post_init
       \<lparr>rc_receipt_id = rid, rc_operation = ''STAGE:'' @ st_stage_type s @ '':'' @ event_value e,
        rc_input_commit = rx_input_commit ctx, rc_input_hashes = rx_input_hashes ctx,
        rc_output_commit = None, rc_output_hashes = output_hashes,
        rc_policy_version = or_policy_version o', rc_actor = or_actor o', rc_timestamp = now,
        rc_result = result\<rparr>)))"

definition blocked_outcome ::
  "orchestrator \<Rightarrow> stage \<Rightarrow> transition_event \<Rightarrow> run_context \<Rightarrow> string \<Rightarrow> orchestration_outcome io" where
  "blocked_outcome o' s e ctx reason =
     bindI (orchestrator_receipt o' s e ctx [] (''BLOCKED:'' @ reason)) (\<lambda>r.
     ret \<lparr>oo_stage = s, oo_status = BLOCKED, oo_receipt = r, oo_decision = None,
          oo_execution = None, oo_reason = reason\<rparr>)"

definition route_failure ::
  "orchestrator \<Rightarrow> stage \<Rightarrow> transition_event \<Rightarrow> failure_kind \<Rightarrow> run_context \<Rightarrow> stage_execution option \<Rightarrow>
     string \<Rightarrow> orchestration_outcome io" where
  "route_failure o' s e kind ctx execution reason =
     bindI (lift (apply_transition s (failure_event kind) {failure_guard kind})) (\<lambda>(routed, d).
     bindI (orchestrator_receipt o' s e ctx
              (case execution of None \<Rightarrow> [] | Some ex \<Rightarrow> se_output_hashes ex)
              (''ROUTED_FAILURE:'' @ failure_kind_value kind @ '':'' @ stage_state_value (td_from d) @
               ''->'' @ stage_state_value (td_to d) @ '':'' @ reason)) (\<lambda>r.
     ret \<lparr>oo_stage = routed, oo_status = ROUTED_FAILURE, oo_receipt = r, oo_decision = Some d,
          oo_execution = execution, oo_reason = reason\<rparr>))"

definition advance_stage ::
  "orchestrator \<Rightarrow> stage \<Rightarrow> transition_event \<Rightarrow> run_context \<Rightarrow> stage_execution \<Rightarrow> string set \<Rightarrow>
     orchestration_outcome io" where
  \<comment> \<open>the end of \<open>run_stage\<close>, once every validator has passed\<close>
  "advance_stage o' s e ctx ex guards =
     bindI (lift (stage_post_init (s\<lparr>st_output_refs := se_output_refs ex\<rparr>))) (\<lambda>s'.
     bindI (lift (apply_transition s' e guards)) (\<lambda>(updated, d).
     bindI (orchestrator_receipt o' s e ctx (se_output_hashes ex)
              (''PASS:'' @ stage_state_value (td_from d) @ ''->'' @ stage_state_value (td_to d))) (\<lambda>r.
     ret \<lparr>oo_stage = updated, oo_status = ADVANCED, oo_receipt = r, oo_decision = Some d,
          oo_execution = Some ex, oo_reason = []\<rparr>)))"

fun run_validators ::
  "orchestrator \<Rightarrow> stage \<Rightarrow> transition_event \<Rightarrow> run_context \<Rightarrow> stage_execution \<Rightarrow> string set \<Rightarrow>
     validator list \<Rightarrow> orchestration_outcome io" where
  "run_validators o' s e ctx ex guards [] = advance_stage o' s e ctx ex guards"
| "run_validators o' s e ctx ex guards (v # vs) =
     bindI (v s ex ctx) (\<lambda>r.
     case r of
       Other_object \<Rightarrow> throw (TypeError ''validator must return StageValidation'')
     | Returned val \<Rightarrow>
         if sv_passed val then run_validators o' s e ctx ex (guards \<union> sv_guards val) vs
         else
           bindI (lift (stage_post_init (s\<lparr>st_output_refs := se_output_refs ex\<rparr>))) (\<lambda>s'.
           route_failure o' s' e (sv_failure_kind val) ctx (Some ex)
             (if sv_message val = [] then ''validator rejected stage output'' else sv_message val)))"

fun executor_failure :: "pyexc \<Rightarrow> failure_kind \<times> string" where
  \<comment> \<open>the two \<open>except\<close> clauses: the failure kind and the reason recorded\<close>
  "executor_failure (StageExecutionFailure kind msg) = (kind, msg)"
| "executor_failure x =
     (INTEGRITY, ''untyped executor failure: '' @ exc_class x @ '': '' @ exc_str x)"

definition checked_executor :: "executor \<Rightarrow> stage \<Rightarrow> run_context \<Rightarrow> stage_execution io" where
  "checked_executor executor s ctx =
     bindI (executor s ctx) (\<lambda>r.
       case r of Returned ex \<Rightarrow> ret ex
       | Other_object \<Rightarrow> throw (TypeError ''executor must return StageExecution''))"

definition run_stage ::
  "orchestrator \<Rightarrow> stage \<Rightarrow> transition_event \<Rightarrow> executor \<Rightarrow> validator list \<Rightarrow> run_context \<Rightarrow>
     orchestration_outcome io" where
  "run_stage o' s e executor validators ctx =
     (let missing = sorted_diff (set (st_dependencies s)) (rx_completed ctx) in
      if missing \<noteq> [] then blocked_outcome o' s e ctx (''missing dependencies: '' @ join '', '' missing)
      else if st_blocking_holds s \<noteq> [] then
        blocked_outcome o' s e ctx (''blocking holds: '' @ join '', '' (st_blocking_holds s))
      else
        bindI (attempt (checked_executor executor s ctx)) (\<lambda>r.
        case r of
          Inl x \<Rightarrow> route_failure o' s e (fst (executor_failure x)) ctx None (snd (executor_failure x))
        | Inr ex \<Rightarrow> run_validators o' s e ctx ex (rx_guards ctx \<union> se_guards ex) validators))"

lemma returned_case_Inr [result_simps]:
  "(case x of Returned y \<Rightarrow> f y | Other_object \<Rightarrow> throw z) w = (Inr u, w') \<longleftrightarrow>
     (\<exists>y. x = Returned y \<and> f y w = (Inr u, w'))"
  by (cases x) auto

subsection \<open>Receipts\<close>

definition p3_receipt :: "orchestrator \<Rightarrow> run_context \<Rightarrow> receipt \<Rightarrow> bool" where
  \<comment> \<open>what every receipt of the orchestrator says: nothing was persisted, and by whom\<close>
  "p3_receipt o' ctx r \<longleftrightarrow>
     receipt_ok r \<and> rc_output_commit r = None \<and> rc_input_commit r = rx_input_commit ctx \<and>
     rc_policy_version r = or_policy_version o' \<and> rc_actor r = or_actor o'"

lemma orchestrator_receipt_ok:
  "orchestrator_receipt o' s e ctx hs res w = (Inr r, w') \<Longrightarrow> p3_receipt o' ctx r"
  by (auto simp: orchestrator_receipt_def p3_receipt_def result_simps receipt_ok_def
      list_all_iff hex64_lower pred_option_def split: option.splits)

lemma orchestrator_receipt_frame [frame_rules]: "keeps (=) (orchestrator_receipt o' s e ctx hs res)"
  unfolding orchestrator_receipt_def by (intro frame_rules)

lemma route_failure_frame [frame_rules]: "keeps (=) (route_failure o' s e k ctx ex reason)"
  unfolding route_failure_def split_def by (intro frame_rules)

lemma advance_stage_frame [frame_rules]: "keeps (=) (advance_stage o' s e ctx ex g)"
  unfolding advance_stage_def split_def by (intro frame_rules)

lemma run_validators_frame:
  "(\<And>v a b c. v \<in> set vs \<Longrightarrow> keeps (=) (v a b c)) \<Longrightarrow> keeps (=) (run_validators o' s e ctx ex g vs)"
proof (induction vs arbitrary: g)
  case Nil
  then show ?case by (simp add: frame_rules)
next
  case (Cons v vs)
  then show ?case by (auto intro!: frame_rules split: returned.splits)
qed

subsection \<open>Outcomes\<close>

text \<open>All validators ran and passed, collecting guards: the relation the loop implements.\<close>

inductive passes ::
  "stage \<Rightarrow> stage_execution \<Rightarrow> run_context \<Rightarrow> validator list \<Rightarrow> string set \<Rightarrow> world \<Rightarrow> string set \<Rightarrow> world \<Rightarrow> bool"
  for s ex ctx where
  passed_all: "passes s ex ctx [] g w g w"
| passed_one: "v s ex ctx w = (Inr (Returned val), w1) \<Longrightarrow> sv_passed val \<Longrightarrow>
    passes s ex ctx vs (g \<union> sv_guards val) w1 g' w' \<Longrightarrow> passes s ex ctx (v # vs) g w g' w'"

inductive_simps passes_simps:
  "passes s ex ctx [] g w g' w'" "passes s ex ctx (v # vs) g w g' w'"

definition isolated_states :: "stage_state set" where
  "isolated_states = {QUARANTINED, DISCREPANCY_REVIEW, RECOVERY_INTAKE}"

lemma failure_event_isolates:
  "transition_rule s (failure_event k) = Inr r \<Longrightarrow>
     tr_to r \<in> isolated_states \<and> failure_target (failure_event k) = Some (tr_to r) \<and>
     tr_required r = {failure_guard k} \<and> \<not> tr_human_boundary r"
proof -
  have "list_all (\<lambda>r. failure_target (tr_event r) = None) primary_rules"
    by (simp add: primary_rules_def)
  moreover have "failure_target (failure_event k) \<noteq> None" by (cases k) simp_all
  ultimately have none: "rule_index s (failure_event k) = None"
    using rule_index_Some [of s "failure_event k"] unfolding list_all_iff
    by (metis not_None_eq)
  then show "transition_rule s (failure_event k) = Inr r \<Longrightarrow> ?thesis"
    by (cases k) (auto simp: transition_rule_def isolated_states_def split: if_splits)
qed

lemma route_failure_Inr:
  assumes "route_failure o' s e k ctx ex reason w = (Inr out, w')"
  shows "oo_status out = ROUTED_FAILURE \<and> st_state (oo_stage out) \<in> isolated_states \<and>
    failure_target (failure_event k) = Some (st_state (oo_stage out)) \<and>
    oo_stage out = s\<lparr>st_state := st_state (oo_stage out)\<rparr> \<and>
    oo_execution out = ex \<and> oo_reason out = reason \<and> p3_receipt o' ctx (oo_receipt out) \<and>
    (\<exists>d. oo_decision out = Some d \<and> td_event d = failure_event k \<and> \<not> td_human_boundary d)"
proof -
  from assms obtain routed d hs res v where d: "apply_transition s (failure_event k) {failure_guard k} = Inr (routed, d)"
    and rc: "orchestrator_receipt o' s e ctx hs res w = (Inr (oo_receipt out), v)"
    and out: "oo_stage out = routed" "oo_status out = ROUTED_FAILURE" "oo_decision out = Some d"
      "oo_execution out = ex" "oo_reason out = reason"
    by (auto simp: route_failure_def bindI_Inr split_def)
  from d obtain r where r: "transition_rule (st_state s) (failure_event k) = Inr r" "routed = s\<lparr>st_state := tr_to r\<rparr>"
    "td_event d = failure_event k" "td_human_boundary d = tr_human_boundary r"
    by (auto simp: apply_transition_Inr evaluate_transition_Inr)
  with out orchestrator_receipt_ok [OF rc] failure_event_isolates [OF r(1)] show ?thesis by simp
qed

lemma advance_stage_Inr:
  assumes "advance_stage o' s e ctx ex g w = (Inr out, w')"
  shows "oo_status out = ADVANCED \<and> oo_execution out = Some ex \<and> p3_receipt o' ctx (oo_receipt out) \<and>
    (\<exists>d. oo_decision out = Some d \<and> evaluate_transition s e g = Inr d \<and>
       oo_stage out = s\<lparr>st_output_refs := se_output_refs ex, st_state := td_to d\<rparr>)"
  using assms
  by (auto simp: advance_stage_def result_simps split_def dest!: orchestrator_receipt_ok)

lemma run_validators_Inr:
  assumes "run_validators o' s e ctx ex g vs w = (Inr out, w')"
  shows "oo_execution out = Some ex \<and> p3_receipt o' ctx (oo_receipt out) \<and>
    (oo_status out = ROUTED_FAILURE \<and> st_state (oo_stage out) \<in> isolated_states \<and>
       (\<exists>d. oo_decision out = Some d \<and> \<not> td_human_boundary d) \<or>
     oo_status out = ADVANCED \<and>
       (\<exists>d g' v. oo_decision out = Some d \<and> passes s ex ctx vs g w g' v \<and>
          evaluate_transition s e g' = Inr d \<and>
          oo_stage out = s\<lparr>st_output_refs := se_output_refs ex, st_state := td_to d\<rparr>))"
  using assms
proof (induction vs arbitrary: g w)
  case Nil
  with advance_stage_Inr [of o' s e ctx ex g w out w'] passed_all [of s ex ctx g w]
  show ?case by (simp, blast)
next
  case (Cons v vs)
  then obtain val u where v: "v s ex ctx w = (Inr (Returned val), u)"
    by (auto simp: result_simps)
  show ?case
  proof (cases "sv_passed val")
    case True
    with v Cons.prems have "run_validators o' s e ctx ex (g \<union> sv_guards val) vs u = (Inr out, w')"
      by (auto simp: result_simps)
    from Cons.IH [OF this] show ?thesis by (blast intro: passed_one [of v, OF v True])
  next
    case False
    with v Cons.prems show ?thesis by (auto simp: result_simps dest: route_failure_Inr)
  qed
qed

lemma blocked_outcome_Inr:
  assumes "blocked_outcome o' s e ctx reason w = (Inr out, w')"
  shows "oo_status out = BLOCKED \<and> oo_stage out = s \<and> oo_decision out = None \<and>
    oo_execution out = None \<and> p3_receipt o' ctx (oo_receipt out) \<and> w_fs w' = w_fs w"
  using assms orchestrator_receipt_frame [THEN keeps_same]
  by (auto simp: blocked_outcome_def result_simps dest: orchestrator_receipt_ok)

subsection \<open>Properties\<close>

text \<open>The identifiers and clocks of a working installation, and a context whose hashes are digests.\<close>

definition orchestrator_works :: "orchestrator \<Rightarrow> bool" where
  "orchestrator_works o' \<longleftrightarrow>
     \<not> blank (or_policy_version o') \<and> \<not> blank (or_actor o') \<and>
     (\<forall>n. \<not> blank (or_receipt_id o' n)) \<and> (\<forall>n. aware (or_clock o' n))"

definition context_ok :: "run_context \<Rightarrow> bool" where
  "context_ok ctx \<longleftrightarrow> list_all hex64 (rx_input_hashes ctx) \<and> pred_option (\<lambda>c. \<not> blank c) (rx_input_commit ctx)"

lemma orchestrator_receipt_works:
  assumes "orchestrator_works o'" "context_ok ctx" "list_all hex64 hs" "\<not> blank res"
  shows "\<exists>r. orchestrator_receipt o' s e ctx hs res w = (Inr r, w\<lparr>w_tick := w_tick w + 2\<rparr>)"
  using assms
  by (auto simp: orchestrator_receipt_def result_simps orchestrator_works_def context_ok_def
      pred_option_def)

lemma failure_rule: "s \<in> failure_source_states \<Longrightarrow>
  \<exists>r. transition_rule s (failure_event k) = Inr r \<and> tr_required r = {failure_guard k}"
proof -
  assume "s \<in> failure_source_states"
  then have "\<exists>r. transition_rule s (failure_event k) = Inr r"
    by (cases k) (auto simp: transition_rule_def split: option.splits)
  then show ?thesis using failure_event_isolates by blast
qed

lemma route_failure_works:
  assumes "orchestrator_works o'" "context_ok ctx" "stage_post_init s = Inr s"
    "st_state s \<in> failure_source_states" "\<And>x. ex = Some x \<Longrightarrow> list_all hex64 (se_output_hashes x)"
  shows "\<exists>out. route_failure o' s e k ctx ex reason w = (Inr out, w\<lparr>w_tick := w_tick w + 2\<rparr>)"
proof -
  obtain r where "transition_rule (st_state s) (failure_event k) = Inr r" "tr_required r = {failure_guard k}"
    using failure_rule assms(4) by blast
  then obtain s' d where d: "apply_transition s (failure_event k) {failure_guard k} = Inr (s', d)"
    using assms(3) by (auto simp: apply_transition_Inr evaluate_transition_Inr)
  obtain x where "orchestrator_receipt o' s e ctx (case ex of None \<Rightarrow> [] | Some ex \<Rightarrow> se_output_hashes ex)
      (''ROUTED_FAILURE:'' @ failure_kind_value k @ '':'' @ stage_state_value (td_from d) @
         ''->'' @ stage_state_value (td_to d) @ '':'' @ reason) w = (Inr x, w\<lparr>w_tick := w_tick w + 2\<rparr>)"
    using orchestrator_receipt_works [OF assms(1,2), of "case ex of None \<Rightarrow> [] | Some ex \<Rightarrow> se_output_hashes ex"] assms(5)
    by (cases ex) fastforce+
  with d show ?thesis by (simp add: route_failure_def)
qed

definition example_orchestrator :: orchestrator where
  "example_orchestrator = \<lparr>or_policy_version = ''p3-v1'', or_actor = ''ci'', or_clock = example_time,
     or_receipt_id = example_id ''receipt''\<rparr>"

definition crashing_executor :: executor where
  "crashing_executor s ctx = throw (ValueError ''boom'')"

lemma example_orchestrator_works: "orchestrator_works example_orchestrator"
  by (simp add: orchestrator_works_def example_orchestrator_def example_id_def)

lemma crashing_executor_raises:
  "checked_executor crashing_executor s ctx w = (Inl (ValueError ''boom''), w)"
  by (simp add: checked_executor_def crashing_executor_def bindI_def)

lemma default_context_ok: "context_ok default_context"
  by (simp add: context_ok_def default_context_def)

lemma example_failure: "\<exists>out w'. run_stage example_orchestrator example_stage INGEST_CONFIRMED crashing_executor []
    default_context (quiet_world []) = (Inr out, w') \<and> oo_status out = ROUTED_FAILURE"
proof -
  have "st_state example_stage \<in> failure_source_states"
    by (simp add: example_stage_def failure_source_states_def)
  from route_failure_works [OF example_orchestrator_works default_context_ok example_stage_valid this, of None]
  obtain out where "route_failure example_orchestrator example_stage INGEST_CONFIRMED INTEGRITY default_context
      None (snd (executor_failure (ValueError ''boom''))) (quiet_world []) =
      (Inr out, (quiet_world [])\<lparr>w_tick := w_tick (quiet_world []) + 2\<rparr>)" by blast
  then show ?thesis
    by (auto simp: run_stage_def example_stage_def crashing_executor_raises dest: route_failure_Inr)
qed

text \<open>C3. Every outcome of \<open>run_stage\<close> is one of three.  A blocked stage is returned unchanged
  without a decision, exactly because a dependency is missing or a hold is set.  A routed failure
  leaves the stage in an isolated state and crosses no human boundary.  An advanced stage had its
  dependencies, no hold, an executor that returned, validators that all passed, and the decision is
  the state machine's for precisely the guards of the context, the execution and the validations.\<close>

theorem run_stage_outcomes:
  assumes "run_stage o' s e executor vs ctx w = (Inr out, w')"
  shows "(case oo_status out of
      BLOCKED \<Rightarrow> oo_stage out = s \<and> oo_decision out = None \<and>
        (\<not> set (st_dependencies s) \<subseteq> rx_completed ctx \<or> st_blocking_holds s \<noteq> [])
    | ROUTED_FAILURE \<Rightarrow> st_state (oo_stage out) \<in> isolated_states \<and>
        (\<exists>d. oo_decision out = Some d \<and> \<not> td_human_boundary d)
    | ADVANCED \<Rightarrow> set (st_dependencies s) \<subseteq> rx_completed ctx \<and> st_blocking_holds s = [] \<and>
        (\<exists>ex w1 g w2 d. executor s ctx w = (Inr (Returned ex), w1) \<and>
           passes s ex ctx vs (rx_guards ctx \<union> se_guards ex) w1 g w2 \<and>
           evaluate_transition s e g = Inr d \<and> oo_decision out = Some d \<and> oo_execution out = Some ex \<and>
           oo_stage out = s\<lparr>st_output_refs := se_output_refs ex, st_state := td_to d\<rparr>))
    \<and> p3_receipt o' ctx (oo_receipt out)"
proof (cases "set (st_dependencies s) \<subseteq> rx_completed ctx \<and> st_blocking_holds s = []")
  case False
  then show ?thesis using assms
    by (auto simp: run_stage_def Let_def dest!: blocked_outcome_Inr split: if_splits)
next
  case True
  with assms obtain r u where r: "checked_executor executor s ctx w = (r, u)"
    by (auto simp: run_stage_def result_simps)
  show ?thesis
  proof (cases r)
    case (Inl x)
    with r True assms have "route_failure o' s e (fst (executor_failure x)) ctx None (snd (executor_failure x)) u = (Inr out, w')"
      by (simp add: run_stage_def)
    then show ?thesis by (auto dest: route_failure_Inr)
  next
    case (Inr ex)
    with r have "executor s ctx w = (Inr (Returned ex), u)"
      by (auto simp: checked_executor_def result_simps)
    moreover from Inr r True assms
    have "run_validators o' s e ctx ex (rx_guards ctx \<union> se_guards ex) vs u = (Inr out, w')"
      by (simp add: run_stage_def)
    then have "oo_status out \<in> {ROUTED_FAILURE, ADVANCED}" by (auto dest: run_validators_Inr)
    moreover note run_validators_Inr [OF \<open>run_validators _ _ _ _ _ _ _ _ = _\<close>]
    ultimately show ?thesis using True by (elim insertE emptyE) (simp, simp, blast)
  qed
qed

theorem run_stage_outcomes_witness:
  "\<exists>out w'. run_stage example_orchestrator example_stage INGEST_CONFIRMED crashing_executor []
     default_context (quiet_world []) = (Inr out, w') \<and>
     st_state (oo_stage out) \<in> isolated_states \<and> rc_output_commit (oo_receipt out) = None"
proof -
  obtain out w' where run: "run_stage example_orchestrator example_stage INGEST_CONFIRMED crashing_executor []
      default_context (quiet_world []) = (Inr out, w')" "oo_status out = ROUTED_FAILURE"
    using example_failure by blast
  with run_stage_outcomes [OF run(1)] show ?thesis by (auto simp: p3_receipt_def)
qed

text \<open>An executor that raises any exception, or returns something that is not a
  \<open>StageExecution\<close>, never stops \<open>run_stage\<close> and never advances the stage: in a working installation
  the call returns, with the stage in the isolated state of the failure kind (an untyped exception
  counts as an integrity failure) and the exception recorded as the reason.\<close>

theorem failing_executor_is_routed:
  assumes "set (st_dependencies s) \<subseteq> rx_completed ctx" "st_blocking_holds s = []"
    and "checked_executor executor s ctx w = (Inl x, w1)"
    and "stage_post_init s = Inr s" "st_state s \<in> failure_source_states"
    and "orchestrator_works o'" "context_ok ctx"
  shows "\<exists>out. run_stage o' s e executor vs ctx w = (Inr out, w1\<lparr>w_tick := w_tick w1 + 2\<rparr>) \<and>
    oo_status out = ROUTED_FAILURE \<and> oo_execution out = None \<and>
    Some (st_state (oo_stage out)) = failure_target (failure_event (fst (executor_failure x))) \<and>
    oo_reason out = snd (executor_failure x)"
proof -
  obtain out where out: "route_failure o' s e (fst (executor_failure x)) ctx None (snd (executor_failure x)) w1
      = (Inr out, w1\<lparr>w_tick := w_tick w1 + 2\<rparr>)"
    using route_failure_works [OF assms(6,7,4,5), of None] by blast
  moreover have "run_stage o' s e executor vs ctx w = (Inr out, w1\<lparr>w_tick := w_tick w1 + 2\<rparr>)"
    using assms(1-3) out by (simp add: run_stage_def)
  ultimately show ?thesis using route_failure_Inr [OF out] by auto
qed

theorem failing_executor_is_routed_witness:
  "\<exists>out w'. run_stage example_orchestrator example_stage INGEST_CONFIRMED crashing_executor []
     default_context (quiet_world []) = (Inr out, w') \<and> st_state (oo_stage out) = QUARANTINED \<and>
     oo_reason out = ''untyped executor failure: ValueError: boom''"
proof -
  from failing_executor_is_routed [OF _ _ crashing_executor_raises _ _ example_orchestrator_works
      default_context_ok, of example_stage INGEST_CONFIRMED "[]" "quiet_world []"]
  show ?thesis
    by (force simp: example_stage_def result_simps failure_source_states_def)
qed

text \<open>The orchestrator itself writes nothing: if the executor and the validators leave the file
  tree alone, so does the whole call, whether it returns or raises.\<close>

theorem run_stage_keeps_files:
  assumes "\<And>a b. keeps (=) (executor a b)" "\<And>v a b c. v \<in> set vs \<Longrightarrow> keeps (=) (v a b c)"
  shows "keeps (=) (run_stage o' s e executor vs ctx)"
proof -
  have "keeps (=) (case x of Returned ex \<Rightarrow> ret ex | Other_object \<Rightarrow> throw z)" for x z
    by (cases x) (simp_all add: frame_rules)
  then have "keeps (=) (checked_executor executor s ctx)"
    unfolding checked_executor_def by (intro frame_rules assms)
  then show ?thesis
    unfolding run_stage_def Let_def blocked_outcome_def
    by (intro frame_rules run_validators_frame assms)
qed

theorem run_stage_keeps_files_witness:
  "keeps (=) (run_stage example_orchestrator example_stage INGEST_CONFIRMED crashing_executor [] default_context)"
proof -
  have "keeps (=) (crashing_executor a b)" for a b
    by (simp add: crashing_executor_def frame_rules)
  then show ?thesis using run_stage_keeps_files [of crashing_executor "[]"] by simp
qed

end
