(* ===== verification/Authority.thy ===== *)
theory Authority
  imports Core Effects
begin

section \<open>Human authority layer\<close>

text \<open>
  \<open>galia2/authority.py\<close>: explicit human decisions become narrowly scoped guards.  The layer's clock
  and identifier factory are fields of the record \<open>authority_layer\<close>.  The lemmas show that the
  human guard is emitted for an exact \<open>SELECT\<close> decision only, that a decision fits one claim of one
  case, and that an authorization is worth its exact scope, target and policy.
\<close>

datatype human_decision_kind = Human_SELECT | Human_REJECT | Human_HOLD

fun human_decision_value :: "human_decision_kind \<Rightarrow> string" where
  "human_decision_value Human_SELECT = ''SELECT''"
| "human_decision_value Human_REJECT = ''REJECT''"
| "human_decision_value Human_HOLD = ''HOLD''"

definition human_decision_of :: "string \<Rightarrow> human_decision_kind option" where
  \<comment> \<open>\<open>HumanDecisionKind(text)\<close>\<close>
  "human_decision_of s = find (\<lambda>k. human_decision_value k = s) [Human_SELECT, Human_REJECT, Human_HOLD]"

record authority_scope =
  sc_case_id :: string
  sc_target_type :: string
  sc_target_ids :: "string list"

definition authority_scope_post_init :: "authority_scope \<Rightarrow> authority_scope res" where
  "authority_scope_post_init s =
     bindE (requireds [(''case_id'', sc_case_id s), (''target_type'', sc_target_type s)]) (\<lambda>_.
     bindE (unique_ids ''target_ids'' (sc_target_ids s)) (\<lambda>ids. Inr (s\<lparr>sc_target_ids := ids\<rparr>)))"

definition scope_token :: "authority_scope \<Rightarrow> string" where
  "scope_token s =
     ''case:'' @ sc_case_id s @ ''|type:'' @ sc_target_type s @ ''|targets:'' @ join '','' (sc_target_ids s)"

record promotion_authorization =
  pa_authorization_id :: string
  pa_decision_id :: string
  pa_reviewer :: string
  pa_scope :: authority_scope
  pa_target_commit :: string
  pa_evidence_snapshot :: "string list"
  pa_policy_version :: string
  pa_authorized_at :: datetime

definition promotion_authorization_post_init ::
  "promotion_authorization \<Rightarrow> promotion_authorization res" where
  "promotion_authorization_post_init a =
     bindE (requireds [(''authorization_id'', pa_authorization_id a), (''decision_id'', pa_decision_id a),
                       (''reviewer'', pa_reviewer a), (''target_commit'', pa_target_commit a),
                       (''policy_version'', pa_policy_version a)]) (\<lambda>_.
     bindE (raise_if (pa_evidence_snapshot a = [])
              (ValueError ''promotion authorization requires an evidence snapshot'')) (\<lambda>_.
     bindE (aware_field ''authorized_at'' (pa_authorized_at a)) (\<lambda>_. Inr a)))"

interpretation scope_data: data_class authority_scope_post_init
  by unfold_locales (auto simp: authority_scope_post_init_def result_simps)

interpretation authorization_data: data_class promotion_authorization_post_init
  by unfold_locales (auto simp: promotion_authorization_post_init_def result_simps)

record 'a authority_operation =
  ao_value :: 'a
  ao_receipt :: receipt

record authority_layer =
  al_policy_version :: string
  al_actor :: string
  al_clock :: "nat \<Rightarrow> datetime"
  al_id :: "string \<Rightarrow> nat \<Rightarrow> string"

definition authority_layer_init :: "authority_layer \<Rightarrow> authority_layer res" where
  "authority_layer_init l =
     bindE (requireds [(''policy_version'', al_policy_version l), (''actor'', al_actor l)]) (\<lambda>_. Inr l)"

definition authority_receipt :: "authority_layer \<Rightarrow> string \<Rightarrow> string \<Rightarrow> receipt io" where
  "authority_receipt l operation result =
     bindI (call (al_id l ''receipt'')) (\<lambda>rid.
     bindI (call (al_clock l)) (\<lambda>now.
     lift (receipt_post_init
       \<lparr>rc_receipt_id = rid, rc_operation = operation, rc_input_commit = None, rc_input_hashes = [],
        rc_output_commit = None, rc_output_hashes = [], rc_policy_version = al_policy_version l,
        rc_actor = al_actor l, rc_timestamp = now, rc_result = result\<rparr>)))"

definition place_hold :: "authority_layer \<Rightarrow> claim \<Rightarrow> claim authority_operation io" where
  "place_hold l c =
     bindI (throw_if (cl_authority_state c \<notin> {Auth_NONE, Auth_HOLD})
              (ValueError (''cannot place authority hold from '' @ authority_state_value (cl_authority_state c)))) (\<lambda>_.
     bindI (lift (claim_post_init (c\<lparr>cl_authority_state := Auth_HOLD\<rparr>))) (\<lambda>held.
     bindI (authority_receipt l ''AUTHORITY_PLACE_HOLD'' (''HOLD:'' @ cl_claim_id c)) (\<lambda>r.
     ret \<lparr>ao_value = held, ao_receipt = r\<rparr>)))"

definition validate_scope_for_claim :: "claim \<Rightarrow> authority_scope \<Rightarrow> unit res" where
  "validate_scope_for_claim c s =
     bindE (raise_if (sc_case_id s \<noteq> cl_case_id c)
              (ValueError ''authority scope case does not match claim case'')) (\<lambda>_.
     bindE (raise_if (sc_target_type s \<noteq> ''CLAIM'')
              (ValueError ''claim authority requires target_type=CLAIM'')) (\<lambda>_.
     raise_if (sc_target_ids s \<noteq> [cl_claim_id c])
       (ValueError ''authority scope must target exactly this claim'')))"

definition validate_decision :: "claim \<Rightarrow> authority_decision \<Rightarrow> authority_scope \<Rightarrow> unit res" where
  "validate_decision c d s =
     bindE (raise_if (ad_target_id d \<noteq> cl_claim_id c)
              (ValueError ''authority decision target does not match claim'')) (\<lambda>_.
     bindE (raise_if (ad_scope d \<noteq> scope_token s)
              (ValueError ''authority decision scope does not match exact structured scope'')) (\<lambda>_.
     raise_if (human_decision_of (ad_decision d) = None)
       (ValueError ''unsupported human authority decision'')))"

definition human_selection_guards ::
  "claim \<Rightarrow> authority_decision option \<Rightarrow> authority_scope \<Rightarrow> string set res" where
  "human_selection_guards c decision s =
     (case decision of None \<Rightarrow> Inr {}
      | Some d \<Rightarrow>
          bindE (validate_scope_for_claim c s) (\<lambda>_.
          bindE (validate_decision c d s) (\<lambda>_.
          if ad_decision d \<noteq> human_decision_value Human_SELECT then Inr {}
          else
            bindE (raise_if (cl_authority_state c \<noteq> Auth_HOLD)
                     (ValueError ''human selection requires claim to be in AUTHORITY_HOLD'')) (\<lambda>_.
            Inr {''human_decision_present''}))))"

definition record_human_selection ::
  "authority_layer \<Rightarrow> claim \<Rightarrow> authority_decision \<Rightarrow> authority_scope \<Rightarrow> claim authority_operation io" where
  "record_human_selection l c d s =
     bindI (lift (human_selection_guards c (Some d) s)) (\<lambda>guards.
     bindI (throw_if (''human_decision_present'' \<notin> guards)
              (ValueError ''decision does not select the target'')) (\<lambda>_.
     bindI (lift (claim_post_init (c\<lparr>cl_authority_state := Auth_HUMAN_SELECTED\<rparr>))) (\<lambda>selected.
     bindI (authority_receipt l ''AUTHORITY_HUMAN_SELECTION''
              (''SELECTED:'' @ cl_claim_id c @ '':decision='' @ ad_decision_id d)) (\<lambda>r.
     ret \<lparr>ao_value = selected, ao_receipt = r\<rparr>))))"

definition issue_promotion_authorization ::
  "authority_layer \<Rightarrow> claim \<Rightarrow> authority_decision \<Rightarrow> authority_scope \<Rightarrow> string \<Rightarrow>
     promotion_authorization authority_operation io" where
  "issue_promotion_authorization l c d s target_commit =
     bindI (lift (required ''target_commit'' target_commit)) (\<lambda>_.
     bindI (lift (validate_scope_for_claim c s)) (\<lambda>_.
     bindI (lift (validate_decision c d s)) (\<lambda>_.
     bindI (throw_if (ad_decision d \<noteq> human_decision_value Human_SELECT)
              (ValueError ''promotion authorization requires a SELECT decision'')) (\<lambda>_.
     bindI (throw_if (cl_authority_state c \<notin> {Auth_HUMAN_SELECTED, Auth_PROMOTION_READY})
              (ValueError ''claim must be human-selected before promotion authorization'')) (\<lambda>_.
     bindI (call (al_id l ''promotion-authorization'')) (\<lambda>aid.
     bindI (call (al_clock l)) (\<lambda>now.
     bindI (lift (promotion_authorization_post_init
              \<lparr>pa_authorization_id = aid, pa_decision_id = ad_decision_id d, pa_reviewer = ad_reviewer d,
               pa_scope = s, pa_target_commit = target_commit,
               pa_evidence_snapshot = ad_evidence_snapshot d, pa_policy_version = al_policy_version l,
               pa_authorized_at = now\<rparr>)) (\<lambda>a.
     bindI (authority_receipt l ''AUTHORITY_ISSUE_PROMOTION_AUTHORIZATION''
              (''AUTHORIZED:'' @ pa_authorization_id a @ '':target_commit='' @ target_commit @
               '':scope='' @ scope_token s)) (\<lambda>r.
     ret \<lparr>ao_value = a, ao_receipt = r\<rparr>)))))))))"

definition promotion_guards ::
  "authority_layer \<Rightarrow> promotion_authorization option \<Rightarrow> authority_scope \<Rightarrow> string \<Rightarrow> string set res" where
  "promotion_guards l authorization expected_scope target_commit =
     bindE (required ''target_commit'' target_commit) (\<lambda>_.
     case authorization of None \<Rightarrow> Inr {}
     | Some a \<Rightarrow>
         Inr ({''promotion_authorization_present''} \<union>
           (if pa_scope a = expected_scope \<and> pa_target_commit a = target_commit \<and>
               pa_policy_version a = al_policy_version l
            then {''authorization_matches_target''} else {})))"

subsection \<open>Exactness of scopes and decisions\<close>

definition binds_claim :: "authority_scope \<Rightarrow> claim \<Rightarrow> bool" where
  "binds_claim s c \<longleftrightarrow>
     sc_case_id s = cl_case_id c \<and> sc_target_type s = ''CLAIM'' \<and> sc_target_ids s = [cl_claim_id c]"

definition selects_claim :: "authority_decision \<Rightarrow> claim \<Rightarrow> authority_scope \<Rightarrow> bool" where
  "selects_claim d c s \<longleftrightarrow>
     binds_claim s c \<and> ad_target_id d = cl_claim_id c \<and> ad_scope d = scope_token s \<and>
     ad_decision d = ''SELECT''"

lemma human_decision_of_Some: "human_decision_of x = Some k \<longleftrightarrow> x = human_decision_value k"
  by (cases k) (auto simp: human_decision_of_def)

lemma human_decision_of_known:
  "human_decision_of x = None \<longleftrightarrow> x \<notin> {''SELECT'', ''REJECT'', ''HOLD''}"
  by (auto simp: human_decision_of_def)

lemma validate_scope_Inr [result_simps]: "validate_scope_for_claim c s = Inr u \<longleftrightarrow> binds_claim s c"
  by (auto simp: validate_scope_for_claim_def binds_claim_def result_simps)

lemma validate_decision_Inr [result_simps]:
  "validate_decision c d s = Inr u \<longleftrightarrow>
     ad_target_id d = cl_claim_id c \<and> ad_scope d = scope_token s \<and>
     ad_decision d \<in> {''SELECT'', ''REJECT'', ''HOLD''}"
  by (auto simp: validate_decision_def result_simps human_decision_of_known)

lemma authority_receipt_Inr [result_simps]:
  "authority_receipt l op res w = (Inr r, w') \<longleftrightarrow>
     \<not> blank (al_id l ''receipt'' (w_tick w)) \<and> \<not> blank op \<and> \<not> blank (al_policy_version l) \<and>
     \<not> blank (al_actor l) \<and> \<not> blank res \<and> aware (al_clock l (Suc (w_tick w))) \<and>
     r = \<lparr>rc_receipt_id = al_id l ''receipt'' (w_tick w), rc_operation = op, rc_input_commit = None,
          rc_input_hashes = [], rc_output_commit = None, rc_output_hashes = [],
          rc_policy_version = al_policy_version l, rc_actor = al_actor l,
          rc_timestamp = al_clock l (Suc (w_tick w)), rc_result = res\<rparr> \<and>
     w' = w\<lparr>w_tick := w_tick w + 2\<rparr>"
  by (auto simp: authority_receipt_def result_simps)

lemma authority_frames [frame_rules]:
  "keeps (=) (authority_receipt l op res)" "keeps (=) (place_hold l c)"
  "keeps (=) (record_human_selection l c d s)" "keeps (=) (issue_promotion_authorization l c d s t)"
  unfolding authority_receipt_def place_hold_def record_human_selection_def issue_promotion_authorization_def
  by (intro frame_rules)+

lemma human_selection_guards_present:
  "human_selection_guards c decision s = Inr {''human_decision_present''} \<longleftrightarrow>
     (\<exists>d. decision = Some d \<and> selects_claim d c s \<and> cl_authority_state c = Auth_HOLD)"
  by (auto simp: human_selection_guards_def selects_claim_def result_simps split: option.splits)

lemma human_selection_guards_cases:
  "human_selection_guards c decision s \<in> {Inr {}, Inr {''human_decision_present''}} \<or>
     (\<exists>m. human_selection_guards c decision s = Inl (ValueError m))"
  by (auto simp: human_selection_guards_def validate_scope_for_claim_def validate_decision_def
      raise_if_def bindE_def split: option.splits)

lemma record_human_selection_Inr:
  assumes "record_human_selection l c d s w = (Inr op, w')"
  shows "selects_claim d c s \<and> cl_authority_state c = Auth_HOLD \<and>
    ao_value op = c\<lparr>cl_authority_state := Auth_HUMAN_SELECTED\<rparr> \<and> rc_output_commit (ao_receipt op) = None"
proof -
  from assms obtain g where "human_selection_guards c (Some d) s = Inr g" "''human_decision_present'' \<in> g"
    and op: "ao_value op = c\<lparr>cl_authority_state := Auth_HUMAN_SELECTED\<rparr>" "rc_output_commit (ao_receipt op) = None"
    by (auto simp: record_human_selection_def result_simps)
  then have "human_selection_guards c (Some d) s = Inr {''human_decision_present''}"
    using human_selection_guards_cases [of c "Some d" s] by auto
  with op show ?thesis by (simp add: human_selection_guards_present)
qed

lemma issue_promotion_authorization_Inr:
  assumes "issue_promotion_authorization l c d s t w = (Inr op, w')"
  shows "selects_claim d c s \<and> cl_authority_state c \<in> {Auth_HUMAN_SELECTED, Auth_PROMOTION_READY} \<and>
    \<not> blank t \<and> pa_scope (ao_value op) = s \<and> pa_target_commit (ao_value op) = t \<and>
    pa_policy_version (ao_value op) = al_policy_version l \<and>
    pa_decision_id (ao_value op) = ad_decision_id d \<and>
    \<not> blank (pa_authorization_id (ao_value op)) \<and> \<not> blank (pa_policy_version (ao_value op)) \<and>
    pa_evidence_snapshot (ao_value op) = ad_evidence_snapshot d \<and> rc_output_commit (ao_receipt op) = None"
  using assms
  by (auto simp: issue_promotion_authorization_def selects_claim_def promotion_authorization_post_init_def
      result_simps)

subsection \<open>Properties\<close>

definition example_layer :: authority_layer where
  "example_layer = \<lparr>al_policy_version = ''p5-v1'', al_actor = ''ci'', al_clock = example_time, al_id = example_id\<rparr>"

definition example_scope :: authority_scope where
  "example_scope = \<lparr>sc_case_id = ''case-1'', sc_target_type = ''CLAIM'', sc_target_ids = [''claim-1'']\<rparr>"

definition example_claim :: "authority_state \<Rightarrow> claim" where
  "example_claim a = \<lparr>cl_claim_id = ''claim-1'', cl_case_id = ''case-1'', cl_subject = ''s'', cl_predicate = ''p'',
     cl_object = ''o'', cl_valid_from = None, cl_valid_to = None, cl_claim_type = DERIVED_CLAIM,
     cl_evidence_state = Ev_UNVERIFIED, cl_authority_state = a\<rparr>"

definition example_decision :: authority_decision where
  "example_decision = \<lparr>ad_decision_id = ''decision-1'', ad_target_id = ''claim-1'', ad_reviewer = ''jane'',
     ad_decision = ''SELECT'', ad_scope = scope_token example_scope, ad_evidence_snapshot = [''e1''],
     ad_timestamp = example_time 0\<rparr>"

lemma example_decision_selects: "selects_claim example_decision (example_claim a) example_scope"
  by (simp add: selects_claim_def binds_claim_def example_decision_def example_claim_def example_scope_def)

lemma example_authorization:
  "\<exists>op w'. issue_promotion_authorization example_layer (example_claim Auth_HUMAN_SELECTED) example_decision
     example_scope ''commit-2'' (quiet_world []) = (Inr op, w')"
  using example_decision_selects [of Auth_HUMAN_SELECTED]
  by (auto simp: issue_promotion_authorization_def result_simps promotion_authorization_post_init_def
      selects_claim_def)
    (simp_all add: example_layer_def example_decision_def example_claim_def example_id_def)

text \<open>C4. The guard that clears the authority hold is emitted exactly when a decision is supplied, it
  is a \<open>SELECT\<close> for this claim under the exact token of a scope that binds precisely this claim of this
  case, and the claim is in the hold; in every other situation the call returns no guard or raises.\<close>

theorem human_guard_is_exact:
  "(human_selection_guards c decision s = Inr {''human_decision_present''} \<longleftrightarrow>
     (\<exists>d. decision = Some d \<and> selects_claim d c s \<and> cl_authority_state c = Auth_HOLD)) \<and>
   (human_selection_guards c decision s \<in> {Inr {}, Inr {''human_decision_present''}} \<or>
     (\<exists>m. human_selection_guards c decision s = Inl (ValueError m)))"
  by (simp only: human_selection_guards_present human_selection_guards_cases)

text \<open>A human decision selects one claim of one case: although the scope token is free text
  built by concatenation, the same decision is never accepted for two different scopes.\<close>

theorem decision_fits_one_scope:
  assumes "human_selection_guards c (Some d) s = Inr {''human_decision_present''}"
    and "human_selection_guards c' (Some d) s' = Inr {''human_decision_present''}"
  shows "s = s' \<and> cl_claim_id c = cl_claim_id c' \<and> cl_case_id c = cl_case_id c'"
proof -
  from assms have "selects_claim d c s" "selects_claim d c' s'"
    by (simp_all add: human_selection_guards_present)
  then show ?thesis
    by (auto simp: selects_claim_def binds_claim_def scope_token_def)
qed

theorem decision_fits_one_scope_witness:
  "example_scope = example_scope \<and> cl_claim_id (example_claim Auth_HOLD) = ''claim-1''"
  using decision_fits_one_scope [of "example_claim Auth_HOLD" example_decision example_scope
      "example_claim Auth_HOLD" example_scope] example_decision_selects [of Auth_HOLD]
  by (simp add: human_selection_guards_present example_claim_def)

text \<open>A promotion authorization is issued only for a selected claim and a \<open>SELECT\<close> decision that
  fits it, and it is not transferable: the guard that it matches is given for its own scope and its own
  target commit and for no other, while its mere presence never counts as a match.\<close>

theorem authorization_is_not_transferable:
  assumes "issue_promotion_authorization l c d s t w = (Inr op, w')" "\<not> blank t'"
  shows "selects_claim d c s \<and> cl_authority_state c \<in> {Auth_HUMAN_SELECTED, Auth_PROMOTION_READY} \<and>
    rc_output_commit (ao_receipt op) = None \<and>
    promotion_guards l (Some (ao_value op)) s' t' =
      Inr (if s' = s \<and> t' = t then {''promotion_authorization_present'', ''authorization_matches_target''}
           else {''promotion_authorization_present''})"
  using issue_promotion_authorization_Inr [OF assms(1)] assms(2)
  by (auto simp: promotion_guards_def result_simps required_def)

theorem authorization_is_not_transferable_witness:
  "\<exists>a. promotion_guards example_layer (Some a) example_scope ''commit-3'' = Inr {''promotion_authorization_present''} \<and>
       promotion_guards example_layer (Some a) example_scope ''commit-2'' =
         Inr {''promotion_authorization_present'', ''authorization_matches_target''}"
proof -
  obtain op w' where "issue_promotion_authorization example_layer (example_claim Auth_HUMAN_SELECTED)
      example_decision example_scope ''commit-2'' (quiet_world []) = (Inr op, w')"
    using example_authorization by blast
  from authorization_is_not_transferable [OF this, of "''commit-3''" example_scope]
    authorization_is_not_transferable [OF this, of "''commit-2''" example_scope]
  show ?thesis by auto
qed

end
