(* ===== verification/FileSystem.thy ===== *)
theory FileSystem
  imports Effects
begin

section \<open>The file system calls of the sources\<close>

text \<open>
  \<open>pathlib\<close> and \<open>os\<close> as the stores use them: joining, existence tests, \<open>mkdir(parents=True)\<close>,
  exclusive creation with write and fsync, append, \<open>os.replace\<close>, recursive listing.  Each system call
  may fail with an \<open>OSError\<close> at the tick it is made; a failed write leaves a prefix of its data.
\<close>

subsection \<open>Paths\<close>

fun split_on :: "char \<Rightarrow> string \<Rightarrow> string list" where
  "split_on c [] = [[]]"
| "split_on c (x # xs) =
     (if x = c then [] # split_on c xs
      else (case split_on c xs of [] \<Rightarrow> [[x]] | w # ws \<Rightarrow> (x # w) # ws))"

definition parts :: "string \<Rightarrow> path" where
  \<comment> \<open>\<open>PurePosixPath(s).parts\<close> without the root\<close>
  "parts s = filter (\<lambda>c. c \<noteq> '''' \<and> c \<noteq> ''.'') (split_on CHR ''/'' s)"

fun absolute :: "string \<Rightarrow> bool" where
  "absolute [] = False"
| "absolute (c # s) = (c = CHR ''/'')"

definition subpath :: "path \<Rightarrow> string \<Rightarrow> path" where
  \<comment> \<open>\<open>path / s\<close>\<close>
  "subpath p s = (if absolute s then parts s else p @ parts s)"

definition as_posix :: "path \<Rightarrow> string" where
  "as_posix p = join ''/'' p"

definition within :: "path \<Rightarrow> path \<Rightarrow> bool" where
  "within d q \<longleftrightarrow> take (length d) q = d"

text \<open>One name, as opposed to a text that \<open>path / s\<close> takes apart.\<close>

definition plain_name :: "string \<Rightarrow> bool" where
  "plain_name s \<longleftrightarrow> s \<notin> {'''', ''.'', ''..''} \<and> CHR ''/'' \<notin> set s"

lemma split_on_no_sep: "c \<notin> set s \<Longrightarrow> split_on c s = [s]"
  by (induction s) auto

lemma subpath_plain [simp]: "plain_name s \<Longrightarrow> subpath p s = p @ [s]"
  by (cases s) (auto simp: subpath_def plain_name_def parts_def split_on_no_sep)

lemma within_append [simp]: "within d (d @ x)"
  by (simp add: within_def)

lemma within_iff: "within d q \<longleftrightarrow> (\<exists>x. q = d @ x)"
  by (auto simp: within_def) (metis append_take_drop_id)

lemma within_same_length: "within d q \<Longrightarrow> length q \<le> length d \<Longrightarrow> q = d"
  by (auto simp: within_iff)

lemma within_trans: "within a b \<Longrightarrow> within b c \<Longrightarrow> within a c"
  by (auto simp: within_iff)

lemma within_butlast: "within d q \<Longrightarrow> q \<noteq> d \<Longrightarrow> within d (butlast q)"
  by (auto simp: within_iff butlast_append)

lemma within_refl [simp]: "within p p"
  by (simp add: within_def)

lemma within_parent [simp]: "within (butlast p) p"
  by (cases p rule: rev_cases) auto

subsection \<open>Trees\<close>

definition node_at :: "fs \<Rightarrow> path \<Rightarrow> node option" where
  "node_at fs p = (if p = [] then Some Dir else map_of fs p)"

definition fs_put :: "path \<Rightarrow> node \<Rightarrow> fs \<Rightarrow> fs" where
  "fs_put p n fs = (p, n) # filter (\<lambda>e. fst e \<noteq> p) fs"

definition fs_move :: "path \<Rightarrow> path \<Rightarrow> fs \<Rightarrow> fs" where
  "fs_move s d fs =
     map (\<lambda>(q, n). (if within s q then d @ drop (length s) q else q, n))
       (filter (\<lambda>(q, n). \<not> within d q) fs)"

definition fs_wf :: "fs \<Rightarrow> bool" where
  "fs_wf fs \<longleftrightarrow> list_all (\<lambda>(p, n). p \<noteq> [] \<and> node_at fs (butlast p) = Some Dir) fs"

lemma map_of_filter_ne: "map_of (filter (\<lambda>e. fst e \<noteq> p) fs) q = (if q = p then None else map_of fs q)"
  by (induction fs) auto

lemma node_at_put: "p \<noteq> [] \<Longrightarrow> node_at (fs_put p n fs) q = (if q = p then Some n else node_at fs q)"
  by (auto simp: node_at_def fs_put_def map_of_filter_ne)

lemma map_of_move:
  assumes "\<not> within s d" "\<not> within d s"
  shows "map_of (fs_move s d fs) q =
    (if within d q then map_of fs (s @ drop (length d) q) else if within s q then None else map_of fs q)"
proof (induction fs)
  case Nil
  then show ?case by (simp add: fs_move_def)
next
  case (Cons e fs)
  obtain p n where e: "e = (p, n)" by (cases e)
  have "\<not> (within s x \<and> within d x)" for x
    using assms by (auto simp: within_def) (metis linorder_linear take_take min.absorb1)
  then have disjoint: "s @ x \<noteq> d @ y" "d @ y \<noteq> s @ x" for x y
    by (metis within_append)+
  show ?case
    using Cons.IH by (auto simp: fs_move_def e within_iff disjoint)
qed

lemma node_at_move:
  assumes "\<not> within s d" "\<not> within d s"
  shows "node_at (fs_move s d fs) q =
    (if within d q then map_of fs (s @ drop (length d) q) else if within s q then None else node_at fs q)"
  using assms by (auto simp: node_at_def map_of_move within_def)

lemma fs_wf_parent: "fs_wf fs \<Longrightarrow> map_of fs p = Some n \<Longrightarrow> p \<noteq> [] \<and> node_at fs (butlast p) = Some Dir"
  by (auto simp: fs_wf_def list_all_iff dest!: map_of_SomeD)

lemma fs_wf_absent:
  assumes "fs_wf fs" "node_at fs d = None" "within d q"
  shows "node_at fs q = None"
  using assms(3)
proof (induction q rule: rev_induct)
  case Nil
  with assms(2) show ?case by (simp add: within_def node_at_def)
next
  case (snoc x q)
  show ?case
  proof (cases "q @ [x] = d")
    case False
    with snoc.prems have "within d q" using within_butlast [of d "q @ [x]"] by simp
    with snoc.IH have "node_at fs q = None" by simp
    then show ?thesis using fs_wf_parent [OF assms(1), of "q @ [x]"]
      by (cases "map_of fs (q @ [x])") (auto simp: node_at_def)
  qed (use assms(2) in simp)
qed

subsection \<open>Resolution and tests\<close>

text \<open>\<open>..\<close> is resolved by walking the tree: the name before it must be a directory.\<close>

fun resolve_from :: "fs \<Rightarrow> path \<Rightarrow> path \<Rightarrow> path option" where
  "resolve_from fs cur [] = Some cur"
| "resolve_from fs cur (c # cs) =
     (if c = ''..'' then
        (if node_at fs cur = Some Dir then resolve_from fs (butlast cur) cs else None)
      else resolve_from fs (cur @ [c]) cs)"

definition resolve :: "fs \<Rightarrow> path \<Rightarrow> path option" where
  "resolve fs p = resolve_from fs [] p"

lemma resolve_from_plain: "''..'' \<notin> set p \<Longrightarrow> resolve_from fs cur p = Some (cur @ p)"
  by (induction p arbitrary: cur) auto

lemma resolve_plain [simp]: "''..'' \<notin> set p \<Longrightarrow> resolve fs p = Some p"
  by (simp add: resolve_def resolve_from_plain)

definition lookup :: "fs \<Rightarrow> path \<Rightarrow> node option" where
  "lookup fs p = (case resolve fs p of None \<Rightarrow> None | Some q \<Rightarrow> node_at fs q)"

lemma lookup_plain [simp]: "''..'' \<notin> set p \<Longrightarrow> lookup fs p = node_at fs p"
  by (simp add: lookup_def)

definition path_exists :: "fs \<Rightarrow> path \<Rightarrow> bool" where
  "path_exists fs p \<longleftrightarrow> lookup fs p \<noteq> None"

definition is_dir :: "fs \<Rightarrow> path \<Rightarrow> bool" where
  "is_dir fs p \<longleftrightarrow> lookup fs p = Some Dir"

definition is_file :: "fs \<Rightarrow> path \<Rightarrow> bool" where
  "is_file fs p \<longleftrightarrow> (case lookup fs p of Some (File b) \<Rightarrow> True | _ \<Rightarrow> False)"

text \<open>\<open>{p.relative_to(d).as_posix() for p in d.rglob("*") if p.is_file()}\<close>\<close>

definition files_under :: "fs \<Rightarrow> path \<Rightarrow> string set" where
  "files_under fs p =
     (case resolve fs p of None \<Rightarrow> {}
      | Some d \<Rightarrow>
         set (map (\<lambda>(q, n). as_posix (drop (length d) q))
           (filter (\<lambda>(q, n). within d q \<and> q \<noteq> d \<and> (case map_of fs q of Some (File b) \<Rightarrow> True | _ \<Rightarrow> False)) fs)))"

subsection \<open>System calls\<close>

abbreviation os_error :: "'a res" where
  "os_error \<equiv> Inl (StdError ''OSError'')"

definition sys :: "(fs \<Rightarrow> ('a \<times> fs) res) \<Rightarrow> 'a io" where
  "sys f w =
     (let v = w\<lparr>w_tick := Suc (w_tick w)\<rparr> in
      case w_fault w (w_tick w) of
        Some k \<Rightarrow> (os_error, v)
      | None \<Rightarrow> (case f (w_fs w) of Inl e \<Rightarrow> (Inl e, v) | Inr (x, fs') \<Rightarrow> (Inr x, v\<lparr>w_fs := fs'\<rparr>)))"

lemma sys_Inr [result_simps]:
  "sys f w = (Inr x, w') \<longleftrightarrow>
     w_fault w (w_tick w) = None \<and>
     (\<exists>t. f (w_fs w) = Inr (x, t) \<and> w' = w\<lparr>w_tick := Suc (w_tick w), w_fs := t\<rparr>)"
  by (auto simp: sys_def Let_def split: option.splits sum.splits prod.splits)

lemma sys_fs: "sys f w = (r, w') \<Longrightarrow> w_fs w' = w_fs w \<or> (\<exists>x. f (w_fs w) = Inr (x, w_fs w'))"
  by (auto simp: sys_def Let_def split: option.splits sum.splits prod.splits)

lemma keeps_sys:
  assumes "\<And>s. R s s" "\<And>s x t. f s = Inr (x, t) \<Longrightarrow> R s t"
  shows "keeps R (sys f)"
  by (rule keepsI) (use assms in \<open>force dest!: sys_fs\<close>)

definition read_bytes :: "path \<Rightarrow> string io" where
  "read_bytes p = sys (\<lambda>fs.
     case lookup fs p of None \<Rightarrow> Inl (StdError ''FileNotFoundError'')
     | Some Dir \<Rightarrow> Inl (StdError ''IsADirectoryError'')
     | Some (File b) \<Rightarrow> Inr (b, fs))"

definition make_dir :: "path \<Rightarrow> bool \<Rightarrow> unit io" where
  \<comment> \<open>one level of \<open>mkdir(exist_ok=True)\<close>; \<open>leaf\<close> tells the last level from a parent\<close>
  "make_dir p leaf = sys (\<lambda>fs.
     case resolve fs p of None \<Rightarrow> Inl (StdError ''FileNotFoundError'')
     | Some q \<Rightarrow>
        (case node_at fs q of
           Some Dir \<Rightarrow> Inr ((), fs)
         | Some (File b) \<Rightarrow> Inl (StdError (if leaf then ''FileExistsError'' else ''NotADirectoryError''))
         | None \<Rightarrow> if node_at fs (butlast q) = Some Dir then Inr ((), fs_put q Dir fs)
                   else Inl (StdError ''NotADirectoryError'')))"

fun make_dirs_from :: "path \<Rightarrow> path \<Rightarrow> unit io" where
  "make_dirs_from cur [] = ret ()"
| "make_dirs_from cur (c # cs) =
     bindI (make_dir (cur @ [c]) (cs = [])) (\<lambda>_. make_dirs_from (cur @ [c]) cs)"

definition mkdir_parents :: "path \<Rightarrow> unit io" where
  \<comment> \<open>\<open>p.mkdir(parents=True, exist_ok=True)\<close>\<close>
  "mkdir_parents p = make_dirs_from [] p"

definition mkdir_new :: "path \<Rightarrow> unit io" where
  \<comment> \<open>\<open>p.mkdir(parents=True, exist_ok=False)\<close>\<close>
  "mkdir_new p =
     bindI (mkdir_parents (butlast p)) (\<lambda>_.
     sys (\<lambda>fs.
       case resolve fs p of None \<Rightarrow> Inl (StdError ''FileNotFoundError'')
       | Some q \<Rightarrow>
          if node_at fs q \<noteq> None then Inl (StdError ''FileExistsError'')
          else if node_at fs (butlast q) = Some Dir then Inr ((), fs_put q Dir fs)
          else Inl (StdError ''NotADirectoryError'')))"

definition open_new :: "path \<Rightarrow> path io" where
  \<comment> \<open>\<open>os.open(p, O_WRONLY | O_CREAT | O_EXCL)\<close>; the descriptor is the resolved path\<close>
  "open_new p = sys (\<lambda>fs.
     case resolve fs p of None \<Rightarrow> Inl (StdError ''FileNotFoundError'')
     | Some q \<Rightarrow>
        if node_at fs q \<noteq> None then Inl (StdError ''FileExistsError'')
        else if node_at fs (butlast q) = Some Dir then Inr (q, fs_put q (File []) fs)
        else Inl (StdError ''FileNotFoundError''))"

definition open_append :: "path \<Rightarrow> path io" where
  \<comment> \<open>\<open>os.open(p, O_WRONLY | O_CREAT | O_APPEND)\<close>\<close>
  "open_append p = sys (\<lambda>fs.
     case resolve fs p of None \<Rightarrow> Inl (StdError ''FileNotFoundError'')
     | Some q \<Rightarrow>
        (case node_at fs q of
           Some Dir \<Rightarrow> Inl (StdError ''IsADirectoryError'')
         | Some (File b) \<Rightarrow> Inr (q, fs)
         | None \<Rightarrow> if node_at fs (butlast q) = Some Dir then Inr (q, fs_put q (File []) fs)
                   else Inl (StdError ''FileNotFoundError'')))"

definition contents :: "fs \<Rightarrow> path \<Rightarrow> string" where
  "contents fs q = (case node_at fs q of Some (File b) \<Rightarrow> b | _ \<Rightarrow> [])"

definition write_fd :: "path \<Rightarrow> string \<Rightarrow> unit io" where
  \<comment> \<open>\<open>f.write(data); f.flush()\<close> at the end of the file\<close>
  "write_fd q data w =
     (let v = w\<lparr>w_tick := Suc (w_tick w)\<rparr>; old = contents (w_fs w) q in
      case w_fault w (w_tick w) of
        Some k \<Rightarrow> (os_error, v\<lparr>w_fs := fs_put q (File (old @ take k data)) (w_fs w)\<rparr>)
      | None \<Rightarrow> (Inr (), v\<lparr>w_fs := fs_put q (File (old @ data)) (w_fs w)\<rparr>))"

definition fsync_fd :: "unit io" where
  "fsync_fd = sys (\<lambda>fs. Inr ((), fs))"

definition write_new_file :: "path \<Rightarrow> string \<Rightarrow> unit io" where
  "write_new_file p data =
     bindI (mkdir_parents (butlast p)) (\<lambda>_.
     bindI (open_new p) (\<lambda>fd.
     bindI (write_fd fd data) (\<lambda>_. fsync_fd)))"

definition append_file :: "path \<Rightarrow> string \<Rightarrow> unit io" where
  "append_file p data =
     bindI (open_append p) (\<lambda>fd. bindI (write_fd fd data) (\<lambda>_. fsync_fd))"

definition fsync_dir :: "path \<Rightarrow> unit io" where
  "fsync_dir p =
     bindI (sys (\<lambda>fs. if path_exists fs p then Inr ((), fs) else Inl (StdError ''FileNotFoundError'')))
       (\<lambda>_. fsync_fd)"

definition os_replace :: "path \<Rightarrow> path \<Rightarrow> unit io" where
  "os_replace src dst = sys (\<lambda>fs.
     case (resolve fs src, resolve fs dst) of
       (Some s, Some d) \<Rightarrow>
         (case node_at fs s of
            None \<Rightarrow> Inl (StdError ''FileNotFoundError'')
          | Some n \<Rightarrow>
             if s = d then Inr ((), fs)
             else if within s d \<or> within d s then os_error
             else if node_at fs (butlast d) \<noteq> Some Dir then Inl (StdError ''FileNotFoundError'')
             else (case (n, node_at fs d) of
                 (Dir, Some (File b)) \<Rightarrow> Inl (StdError ''NotADirectoryError'')
               | (File b, Some Dir) \<Rightarrow> Inl (StdError ''IsADirectoryError'')
               | (Dir, Some Dir) \<Rightarrow>
                   if list_ex (\<lambda>(q, n). within d q \<and> q \<noteq> d) fs then os_error
                   else Inr ((), fs_move s d fs)
               | _ \<Rightarrow> Inr ((), fs_move s d fs)))
     | _ \<Rightarrow> Inl (StdError ''FileNotFoundError''))"

end
