(* ===== verification/Json.thy ===== *)
theory Json
  imports PyTime
begin

section \<open>JSON values and their canonical text\<close>

text \<open>
  The dynamic values of the sources (what \<open>json.loads\<close> returns and the \<open>Mapping[str, Any]\<close>
  snapshots), the canonical serialisation
  \<open>json.dumps(value, sort_keys=True, separators=(",", ":"), ensure_ascii=False)\<close> that every module
  hashes and writes, and \<open>json.loads\<close>.  A dictionary is an association list in insertion order.
  Floating point numbers are not modelled: \<open>loads\<close> rejects a number with a fraction or an exponent,
  and no record of the sources has such a field.
\<close>

datatype json =
    JNull
  | JBool bool
  | JInt int
  | JStr string
  | JList "json list"
  | JObj "(string \<times> json) list"

subsection \<open>Dynamic values\<close>

definition jget :: "(string \<times> json) list \<Rightarrow> string \<Rightarrow> json" where
  \<comment> \<open>\<open>d.get(k)\<close>: \<open>None\<close> where the key is missing\<close>
  "jget d k = (case map_of d k of None \<Rightarrow> JNull | Some v \<Rightarrow> v)"

fun truthy :: "json \<Rightarrow> bool" where
  "truthy JNull = False"
| "truthy (JBool b) = b"
| "truthy (JInt i) = (i \<noteq> 0)"
| "truthy (JStr s) = (s \<noteq> [])"
| "truthy (JList vs) = (vs \<noteq> [])"
| "truthy (JObj kvs) = (kvs \<noteq> [])"

text \<open>\<open>==\<close> identifies \<open>True\<close> with 1 and \<open>False\<close> with 0; the sources compare scalars only.\<close>

fun py_eq :: "json \<Rightarrow> json \<Rightarrow> bool" where
  "py_eq (JBool b) (JInt i) = ((if b then 1 else 0) = i)"
| "py_eq (JInt i) (JBool b) = ((if b then 1 else 0) = i)"
| "py_eq v w = (v = w)"

lemma py_eq_str [simp]: "py_eq v (JStr s) \<longleftrightarrow> v = JStr s"
  by (cases v) auto

lemma py_eq_null [simp]: "py_eq v JNull \<longleftrightarrow> v = JNull"
  by (cases v) auto

subsection \<open>Writing\<close>

definition hex_char :: "nat \<Rightarrow> char" where
  "hex_char d = (if d < 10 then char_of (48 + d) else char_of (87 + d))"

definition escape_char :: "char \<Rightarrow> string" where
  "escape_char c =
     (if c = CHR 0x22 then [CHR 0x5C, CHR 0x22] else if c = CHR 0x5C then [CHR 0x5C, CHR 0x5C]
      else if code c = 10 then CHR 0x5C # ''n'' else if code c = 13 then CHR 0x5C # ''r''
      else if code c = 9 then CHR 0x5C # ''t'' else if code c = 12 then CHR 0x5C # ''f''
      else if code c = 8 then CHR 0x5C # ''b''
      else if code c < 32 then CHR 0x5C # ''u00'' @ [hex_char (code c div 16), hex_char (code c mod 16)]
      else [c])"

definition quote :: "string \<Rightarrow> string" where
  "quote s = CHR 0x22 # concat (map escape_char s) @ [CHR 0x22]"

definition write_obj :: "(string \<times> string) list \<Rightarrow> string" where
  "write_obj kts =
     ''{'' @ join '','' (map (\<lambda>(k, t). quote k @ '':'' @ t) (sort_key fst kts)) @ ''}''"

primrec dumps :: "json \<Rightarrow> string" where
  "dumps JNull = ''null''"
| "dumps (JBool b) = (if b then ''true'' else ''false'')"
| "dumps (JInt i) = show_int i"
| "dumps (JStr s) = quote s"
| "dumps (JList vs) = ''['' @ join '','' (map dumps vs) @ '']''"
| "dumps (JObj kvs) = write_obj (map (map_prod id dumps) kvs)"

subsection \<open>Reading\<close>

definition json_space :: "char \<Rightarrow> bool" where
  "json_space c \<longleftrightarrow> code c \<in> {32, 9, 10, 13}"

definition skip_ws :: "string \<Rightarrow> string" where
  "skip_ws s = dropWhile json_space s"

definition hex_val :: "char \<Rightarrow> nat option" where
  "hex_val c =
     (if 48 \<le> code c \<and> code c \<le> 57 then Some (code c - 48)
      else if 97 \<le> code c \<and> code c \<le> 102 then Some (code c - 87)
      else if 65 \<le> code c \<and> code c \<le> 70 then Some (code c - 55) else None)"

definition hex4 :: "char \<Rightarrow> char \<Rightarrow> char \<Rightarrow> char \<Rightarrow> nat option" where
  "hex4 a b c d =
     do { a \<leftarrow> hex_val a; b \<leftarrow> hex_val b; c \<leftarrow> hex_val c; d \<leftarrow> hex_val d;
          Some (((a * 16 + b) * 16 + c) * 16 + d) }"

definition utf8_encode :: "nat \<Rightarrow> string" where
  "utf8_encode n =
     (if n < 128 then [char_of n]
      else if n < 2048 then [char_of (192 + n div 64), char_of (128 + n mod 64)]
      else if n < 65536 then
        [char_of (224 + n div 4096), char_of (128 + n div 64 mod 64), char_of (128 + n mod 64)]
      else [char_of (240 + n div 262144), char_of (128 + n div 4096 mod 64),
            char_of (128 + n div 64 mod 64), char_of (128 + n mod 64)])"

definition unescape :: "char \<Rightarrow> char option" where
  "unescape e =
     (if e = CHR 0x22 \<or> e = CHR 0x5C \<or> e = CHR ''/'' then Some e
      else if e = CHR ''n'' then Some (CHR 0x0A) else if e = CHR ''r'' then Some (CHR 0x0D)
      else if e = CHR ''t'' then Some (CHR 0x09) else if e = CHR ''f'' then Some (CHR 0x0C)
      else if e = CHR ''b'' then Some (CHR 0x08) else None)"

text \<open>
  One \<open>\u\<close> escape: a code point outside the surrogates, or a high surrogate followed by the escape
  of a low one.  Python also accepts a lone surrogate, which is not a UTF-8 string: rejected here.
\<close>

fun read_unicode :: "string \<Rightarrow> (string \<times> string) option" where
  "read_unicode (a # b # c # d # r) =
     do { n \<leftarrow> hex4 a b c d;
          if n < 55296 \<or> 57344 \<le> n then Some (utf8_encode n, r)
          else if 56320 \<le> n then None
          else (case r of
              p # u # a' # b' # c' # d' # r' \<Rightarrow>
                if p = CHR 0x5C \<and> u = CHR ''u'' then
                  do { m \<leftarrow> hex4 a' b' c' d';
                       if 56320 \<le> m \<and> m < 57344
                       then Some (utf8_encode (65536 + (n - 55296) * 1024 + (m - 56320)), r') else None }
                else None
            | _ \<Rightarrow> None) }"
| "read_unicode _ = None"

lemma read_unicode_shorter: "read_unicode s = Some (t, r) \<Longrightarrow> length r < length s"
  by (induction s rule: read_unicode.induct)
    (auto simp: Let_def split: option.splits if_splits list.splits bind_splits)

function (sequential) read_string :: "string \<Rightarrow> (string \<times> string) option" where
  "read_string (c # r) =
     (if c = CHR 0x22 then Some ([], r) else if code c < 32 then None
      else if c = CHR 0x5C then
        (case r of [] \<Rightarrow> None
         | e # r' \<Rightarrow>
            if e = CHR ''u'' then
              (case read_unicode r' of None \<Rightarrow> None
               | Some (t, r'') \<Rightarrow> map_option (map_prod (append t) id) (read_string r''))
            else (case unescape e of None \<Rightarrow> None
                  | Some c' \<Rightarrow> map_option (map_prod (Cons c') id) (read_string r')))
      else map_option (map_prod (Cons c) id) (read_string r))"
| "read_string [] = None"
  by pat_completeness auto
termination
  by (relation "measure length") (auto dest!: read_unicode_shorter)

definition read_int :: "string \<Rightarrow> (int \<times> string) option" where
  "read_int s =
     (let neg = (case s of c # _ \<Rightarrow> c = CHR ''-'' | [] \<Rightarrow> False);
          t = (if neg then tl s else s);
          ds = takeWhile is_digit t; r = dropWhile is_digit t in
      if ds = [] \<or> (hd ds = CHR ''0'' \<and> length ds \<noteq> 1) then None
      else if (case r of c # _ \<Rightarrow> c \<in> {CHR ''.'', CHR ''e'', CHR ''E''} | [] \<Rightarrow> False) then None
      else Some ((if neg then - int (read_nat ds) else int (read_nat ds)), r))"

fun literal :: "string \<Rightarrow> string \<Rightarrow> string option" where
  "literal [] s = Some s"
| "literal (c # cs) (d # s) = (if c = d then literal cs s else None)"
| "literal (c # cs) [] = None"

text \<open>A later pair with the same key replaces the value in place.\<close>

fun obj_put :: "string \<Rightarrow> json \<Rightarrow> (string \<times> json) list \<Rightarrow> (string \<times> json) list" where
  "obj_put k v [] = [(k, v)]"
| "obj_put k v ((k', v') # r) = (if k = k' then (k, v) # r else (k', v') # obj_put k v r)"

definition obj_of_pairs :: "(string \<times> json) list \<Rightarrow> (string \<times> json) list" where
  "obj_of_pairs ps = foldl (\<lambda>d (k, v). obj_put k v d) [] ps"

text \<open>
  The recursive descent spends one unit of fuel per call; the length of the text is enough, because
  each call consumes a character.
\<close>

fun read_value :: "nat \<Rightarrow> string \<Rightarrow> (json \<times> string) option"
  and read_elems :: "nat \<Rightarrow> string \<Rightarrow> (json list \<times> string) option"
  and read_pairs :: "nat \<Rightarrow> string \<Rightarrow> ((string \<times> json) list \<times> string) option" where
  "read_value 0 s = None"
| "read_value (Suc n) s =
     (case s of [] \<Rightarrow> None
      | c # r \<Rightarrow>
         if c = CHR 0x22 then do { (t, r) \<leftarrow> read_string r; Some (JStr t, r) }
         else if c = CHR ''['' then
           (case skip_ws r of [] \<Rightarrow> None
            | d # r' \<Rightarrow> if d = CHR '']'' then Some (JList [], r')
                       else do { (vs, r) \<leftarrow> read_elems n (d # r'); Some (JList vs, r) })
         else if c = CHR ''{'' then
           (case skip_ws r of [] \<Rightarrow> None
            | d # r' \<Rightarrow> if d = CHR ''}'' then Some (JObj [], r')
                       else do { (ps, r) \<leftarrow> read_pairs n (d # r'); Some (JObj (obj_of_pairs ps), r) })
         else if c = CHR ''n'' then do { r \<leftarrow> literal ''ull'' r; Some (JNull, r) }
         else if c = CHR ''t'' then do { r \<leftarrow> literal ''rue'' r; Some (JBool True, r) }
         else if c = CHR ''f'' then do { r \<leftarrow> literal ''alse'' r; Some (JBool False, r) }
         else do { (i, r) \<leftarrow> read_int (c # r); Some (JInt i, r) })"
| "read_elems 0 s = None"
| "read_elems (Suc n) s =
     do { (v, r) \<leftarrow> read_value n s;
          case skip_ws r of [] \<Rightarrow> None
          | c # r \<Rightarrow> if c = CHR '']'' then Some ([v], r)
                    else if c = CHR '','' then do { (vs, r) \<leftarrow> read_elems n (skip_ws r); Some (v # vs, r) }
                    else None }"
| "read_pairs 0 s = None"
| "read_pairs (Suc n) s =
     (case s of [] \<Rightarrow> None
      | q # s \<Rightarrow>
         if q \<noteq> CHR 0x22 then None
         else do { (k, r) \<leftarrow> read_string s;
              r \<leftarrow> expect CHR '':'' (skip_ws r);
              (v, r) \<leftarrow> read_value n (skip_ws r);
              case skip_ws r of [] \<Rightarrow> None
              | c # r \<Rightarrow> if c = CHR ''}'' then Some ([(k, v)], r)
                        else if c = CHR '','' then
                          do { (ps, r) \<leftarrow> read_pairs n (skip_ws r); Some ((k, v) # ps, r) }
                        else None })"

definition loads :: "string \<Rightarrow> json option" where
  "loads s =
     (case read_value (length s) (skip_ws s) of None \<Rightarrow> None
      | Some (v, r) \<Rightarrow> if skip_ws r = [] then Some v else None)"

definition cont :: "char \<Rightarrow> bool" where
  "cont c \<longleftrightarrow> 128 \<le> code c \<and> code c < 192"

fun utf8_valid :: "string \<Rightarrow> bool" where
  "utf8_valid [] = True"
| "utf8_valid (a # r) =
     (if code a < 128 then utf8_valid r
      else if 194 \<le> code a \<and> code a \<le> 223 then
        (case r of b # r \<Rightarrow> cont b \<and> utf8_valid r | _ \<Rightarrow> False)
      else if 224 \<le> code a \<and> code a \<le> 239 then
        (case r of b # c # r \<Rightarrow>
             cont b \<and> cont c \<and> (code a = 224 \<longrightarrow> 160 \<le> code b) \<and> (code a = 237 \<longrightarrow> code b < 160) \<and>
             utf8_valid r
         | _ \<Rightarrow> False)
      else if 240 \<le> code a \<and> code a \<le> 244 then
        (case r of b # c # d # r \<Rightarrow>
             cont b \<and> cont c \<and> cont d \<and> (code a = 240 \<longrightarrow> 144 \<le> code b) \<and>
             (code a = 244 \<longrightarrow> code b < 144) \<and> utf8_valid r
         | _ \<Rightarrow> False)
      else False)"

text \<open>\<open>json.loads(raw.decode("utf-8"))\<close>.\<close>

definition loads_bytes :: "string \<Rightarrow> json option" where
  "loads_bytes b = (if utf8_valid b then loads b else None)"

subsection \<open>Reading back what was written\<close>

text \<open>Values as the code builds them: the keys of every object are listed in increasing order.\<close>

primrec canonical :: "json \<Rightarrow> bool" where
  "canonical JNull = True"
| "canonical (JBool b) = True"
| "canonical (JInt i) = True"
| "canonical (JStr s) = True"
| "canonical (JList vs) = list_all id (map canonical vs)"
| "canonical (JObj kvs) = (sorted_wrt (<) (map fst kvs) \<and> list_all snd (map (map_prod id canonical) kvs))"

text \<open>Strings.\<close>

lemma hex_val_hex_char: "d < 16 \<Longrightarrow> hex_val (hex_char d) = Some d"
  by (auto simp: hex_val_def hex_char_def code_char_of)

lemma read_unicode_control:
  assumes "code c < 32"
  shows "read_unicode (CHR ''0'' # CHR ''0'' # hex_char (code c div 16) # hex_char (code c mod 16) # r) = Some ([c], r)"
proof -
  have "hex_val CHR ''0'' = Some 0" by (simp add: hex_val_def code_def)
  then have "hex4 CHR ''0'' CHR ''0'' (hex_char (code c div 16)) (hex_char (code c mod 16)) = Some (code c)"
    using assms by (simp add: hex4_def hex_val_hex_char)
  moreover have "utf8_encode (code c) = [c]" using assms by (simp add: utf8_encode_def) (simp add: code_def)
  ultimately show ?thesis using assms by simp
qed

lemma code_inj: "code a = code b \<longleftrightarrow> a = b"
  by (simp add: code_def)

lemma read_string_escape: "read_string (escape_char c @ r) = map_option (map_prod (Cons c) id) (read_string r)"
proof -
  have named: "c = CHR 0x08 \<or> c = CHR 0x09 \<or> c = CHR 0x0A \<or> c = CHR 0x0C \<or> c = CHR 0x0D \<or>
      code c \<notin> {8, 9, 10, 12, 13}"
    using code_inj [of c "CHR 0x08"] code_inj [of c "CHR 0x09"] code_inj [of c "CHR 0x0A"]
      code_inj [of c "CHR 0x0C"] code_inj [of c "CHR 0x0D"] by (auto simp: code_def)
  consider "c = CHR 0x22" | "c = CHR 0x5C" | "c \<in> {CHR 0x08, CHR 0x09, CHR 0x0A, CHR 0x0C, CHR 0x0D}"
    | "code c < 32" "code c \<notin> {8, 9, 10, 12, 13}" | "32 \<le> code c" "c \<noteq> CHR 0x22" "c \<noteq> CHR 0x5C"
    using named by fastforce
  then show ?thesis
  proof cases
    case 4
    then have "c \<noteq> CHR 0x22" "c \<noteq> CHR 0x5C" by (auto simp: code_def)
    moreover have "(@) [c] = Cons c" by (simp add: fun_eq_iff)
    ultimately show ?thesis using 4 read_unicode_control [of c r]
      by (simp add: escape_char_def code_def del: read_unicode.simps)
  next
    case 3
    then show ?thesis by (elim insertE emptyE) (simp_all add: escape_char_def unescape_def code_def)
  next
    case 5
    then have "escape_char c = [c]" by (simp add: escape_char_def)
    with 5 show ?thesis by simp
  qed (simp_all add: escape_char_def unescape_def code_def)
qed

lemma read_string_quoted: "read_string (concat (map escape_char s) @ CHR 0x22 # r) = Some (s, r)"
  by (induction s) (simp_all add: read_string_escape)

text \<open>Numbers.\<close>

definition stops :: "string \<Rightarrow> bool" where
  \<comment> \<open>what may follow a value: nothing, or a character that continues no number\<close>
  "stops r \<longleftrightarrow> (case r of [] \<Rightarrow> True | c # _ \<Rightarrow> c = CHR '','' \<or> c = CHR '']'' \<or> c = CHR ''}'' \<or> c = newline)"

lemma stops_simps [simp]: "stops []" "stops (CHR '','' # r)" "stops (CHR '']'' # r)" "stops (CHR ''}'' # r)" "stops (newline # r)"
  by (simp_all add: stops_def)

lemma show_nat_head: "hd (show_nat n) = CHR ''0'' \<Longrightarrow> length (show_nat n) = 1"
proof (induction n rule: show_nat.induct)
  case (1 n)
  show ?case
  proof (cases "n < 10")
    case True
    then show ?thesis by (subst show_nat.simps) simp
  next
    case False
    then have "hd (show_nat n) = hd (show_nat (n div 10))" by (subst show_nat.simps) simp
    with 1 False have "length (show_nat (n div 10)) = 1" "hd (show_nat (n div 10)) = CHR ''0''" by simp_all
    then have "show_nat (n div 10) = ''0''" by (cases "show_nat (n div 10)") auto
    then have "n div 10 = read_nat ''0''" by (metis read_show_nat)
    with False show ?thesis by (simp add: read_nat_def digit_val_def code_def)
  qed
qed

lemma takeWhile_digits:
  assumes "list_all is_digit ds" "stops r"
  shows "takeWhile is_digit (ds @ r) = ds" "dropWhile is_digit (ds @ r) = r"
proof -
  have "takeWhile is_digit r = []" "dropWhile is_digit r = r"
    using assms(2) by (auto simp: stops_def is_digit_def newline_def code_def split: list.splits)
  with assms(1) show "takeWhile is_digit (ds @ r) = ds" "dropWhile is_digit (ds @ r) = r"
    by (auto simp: list_all_iff takeWhile_append dropWhile_append)
qed

lemma show_nat_first: "is_digit (hd (show_nat n))"
  using show_nat_digits [of n] by (cases "show_nat n") auto

lemma stops_no_number:
  "stops r \<Longrightarrow> \<not> (case r of c # _ \<Rightarrow> c \<in> {CHR ''.'', CHR ''e'', CHR ''E''} | [] \<Rightarrow> False)"
  by (auto simp: stops_def newline_def split: list.splits)

lemma read_int_digits:
  assumes "stops r" "neg = (case s of c # _ \<Rightarrow> c = CHR ''-'' | [] \<Rightarrow> False)"
    and "(if neg then tl s else s) = show_nat n @ r"
  shows "read_int s = Some ((if neg then - int n else int n), r)"
proof -
  have digits: "takeWhile is_digit (show_nat n @ r) = show_nat n" "dropWhile is_digit (show_nat n @ r) = r"
    using takeWhile_digits [OF show_nat_digits assms(1)] by auto
  have first: "\<not> (show_nat n = [] \<or> hd (show_nat n) = CHR ''0'' \<and> length (show_nat n) \<noteq> 1)"
    using show_nat_head [of n] by simp
  show ?thesis
    unfolding read_int_def Let_def assms(2) [symmetric] assms(3) digits
    using first stops_no_number [OF assms(1)] by (simp only: if_False read_show_nat)
qed

lemma read_int_show:
  assumes "stops r"
  shows "read_int (show_int i @ r) = Some (i, r)"
proof (cases "i < 0")
  case True
  then show ?thesis
    using read_int_digits [OF assms, of True "show_int i @ r" "nat (- i)"] by (simp add: show_int_def)
next
  case False
  obtain c t where t: "show_nat (nat i) = c # t" by (cases "show_nat (nat i)") auto
  then have "c \<noteq> CHR ''-''" using show_nat_first [of "nat i"] by (auto simp: is_digit_def code_def)
  with False t show ?thesis
    using read_int_digits [OF assms, of False "show_int i @ r" "nat i"] by (simp add: show_int_def)
qed

text \<open>Values: the fuel that suffices is the length of the text.\<close>

lemma dumps_first:
  obtains c t where "dumps v = c # t" "\<not> json_space c" "c \<noteq> CHR '']''" "c \<noteq> CHR ''}''"
proof (cases v)
  case (JInt i)
  show thesis
  proof (cases "i < 0")
    case True
    then show thesis using JInt by (intro that) (auto simp: show_int_def json_space_def code_def)
  next
    case False
    obtain c t where t: "show_nat (nat i) = c # t" by (cases "show_nat (nat i)") auto
    then have "is_digit c" using show_nat_first [of "nat i"] by simp
    with False t JInt show thesis
      by (intro that [of c t]) (auto simp: show_int_def json_space_def is_digit_def code_def)
  qed
next
  case (JBool b)
  then show thesis by (cases b) (auto intro: that simp: json_space_def code_def)
next
  case (JObj kvs)
  then show thesis by (intro that) (auto simp: write_obj_def json_space_def code_def)
next
  case (JStr t)
  then show thesis by (intro that) (auto simp: quote_def json_space_def code_def)
qed (auto intro: that simp: json_space_def code_def)

lemma skip_ws_dumps [simp]: "skip_ws (dumps v @ r) = dumps v @ r"
  by (rule dumps_first [of v]) (simp add: skip_ws_def)

lemma skip_ws_stop [simp]:
  "skip_ws (CHR '','' # r) = CHR '','' # r" "skip_ws (CHR '']'' # r) = CHR '']'' # r"
  "skip_ws (CHR ''}'' # r) = CHR ''}'' # r" "skip_ws (CHR '':'' # r) = CHR '':'' # r"
  "skip_ws (CHR 0x22 # r) = CHR 0x22 # r"
  by (simp_all add: skip_ws_def json_space_def code_def)

definition reads_back :: "json \<Rightarrow> bool" where
  "reads_back v \<longleftrightarrow>
     (\<forall>n r. length (dumps v) \<le> n \<and> stops r \<longrightarrow> read_value n (dumps v @ r) = Some (v, r))"

lemma length_dumps_pos: "0 < length (dumps v)"
  by (rule dumps_first [of v]) simp

lemma read_elems_back:
  assumes "list_all reads_back (v # vs)" "length (join '','' (map dumps (v # vs))) < n"
  shows "read_elems n (join '','' (map dumps (v # vs)) @ CHR '']'' # r) = Some (v # vs, r)"
  using assms
proof (induction vs arbitrary: v n)
  case Nil
  then show ?case by (cases n) (auto simp: reads_back_def)
next
  case (Cons u us)
  then obtain m where n: "n = Suc m" by (cases n) auto
  let ?rest = "join '','' (map dumps (u # us))"
  from Cons.prems n have len: "length (dumps v) \<le> m" "length ?rest < m"
    using length_dumps_pos [of v] by auto
  have "read_value m (dumps v @ CHR '','' # ?rest @ CHR '']'' # r) = Some (v, CHR '','' # ?rest @ CHR '']'' # r)"
    using Cons.prems(1) len(1) by (simp add: reads_back_def)
  moreover have "read_elems m (?rest @ CHR '']'' # r) = Some (u # us, r)"
    using Cons.IH [of u m] Cons.prems(1) len(2) by simp
  moreover have "skip_ws (?rest @ CHR '']'' # r) = ?rest @ CHR '']'' # r"
    by (cases us) simp_all
  ultimately show ?case using n by simp
qed

definition pair_text :: "string \<times> json \<Rightarrow> string" where
  "pair_text kv = quote (fst kv) @ '':'' @ dumps (snd kv)"

lemma read_pairs_back:
  assumes "list_all (\<lambda>kv. reads_back (snd kv)) (kv # kvs)" "length (join '','' (map pair_text (kv # kvs))) < n"
  shows "read_pairs n (join '','' (map pair_text (kv # kvs)) @ CHR ''}'' # r) = Some (kv # kvs, r)"
  using assms
proof (induction kvs arbitrary: kv n)
  case Nil
  obtain k v where kv: "kv = (k, v)" by (cases kv)
  from Nil obtain m where n: "n = Suc m" by (cases n) auto
  have "read_value m (dumps v @ CHR ''}'' # r) = Some (v, CHR ''}'' # r)"
    using Nil n kv by (simp add: reads_back_def pair_text_def)
  then show ?case using n kv by (simp add: pair_text_def quote_def read_string_quoted)
next
  case (Cons kw kws)
  obtain k v where kv: "kv = (k, v)" by (cases kv)
  from Cons.prems obtain m where n: "n = Suc m" by (cases n) auto
  let ?rest = "join '','' (map pair_text (kw # kws))"
  have "length (join '','' (map pair_text (kv # kw # kws))) = length (pair_text kv) + 1 + length ?rest" by simp
  moreover have "length (pair_text kv) = length (quote k) + 1 + length (dumps v)" by (simp add: pair_text_def kv)
  ultimately have len: "length (dumps v) \<le> m" "length ?rest < m"
    using Cons.prems(2) n by linarith+
  have "read_value m (dumps v @ CHR '','' # ?rest @ CHR ''}'' # r) = Some (v, CHR '','' # ?rest @ CHR ''}'' # r)"
    using Cons.prems(1) len(1) kv by (simp add: reads_back_def)
  moreover have "read_pairs m (?rest @ CHR ''}'' # r) = Some (kw # kws, r)"
    using Cons.IH [of kw m] Cons.prems(1) len(2) by simp
  moreover have "skip_ws (?rest @ CHR ''}'' # r) = ?rest @ CHR ''}'' # r"
    by (cases kws) (simp_all add: pair_text_def quote_def)
  moreover have "join '','' (map pair_text (kv # kw # kws)) @ CHR ''}'' # r =
      CHR 0x22 # concat (map escape_char k) @ CHR 0x22 # CHR '':'' # dumps v @ CHR '','' # ?rest @ CHR ''}'' # r"
    by (simp add: pair_text_def [of "(k, v)"] quote_def kv)
  ultimately show ?case using n by (simp only: kv) (simp add: read_string_quoted)
qed

lemma obj_put_fresh: "k \<notin> fst ` set d \<Longrightarrow> obj_put k v d = d @ [(k, v)]"
  by (induction d) auto

lemma foldl_obj_put:
  "distinct (map fst (d @ ps)) \<Longrightarrow> foldl (\<lambda>d (k, v). obj_put k v d) d ps = d @ ps"
proof (induction ps arbitrary: d)
  case (Cons p ps)
  obtain k v where p: "p = (k, v)" by (cases p)
  from Cons.prems p have "k \<notin> fst ` set d" by auto
  then have "obj_put k v d = d @ [(k, v)]" by (rule obj_put_fresh)
  with Cons.IH [of "d @ [p]"] Cons.prems p show ?case by simp
qed simp

lemma obj_of_pairs_distinct: "distinct (map fst ps) \<Longrightarrow> obj_of_pairs ps = ps"
  using foldl_obj_put [of "[]" ps] by (simp add: obj_of_pairs_def)

lemma write_obj_sorted:
  assumes "sorted_wrt (<) (map fst kvs)"
  shows "write_obj (map (map_prod id dumps) kvs) = ''{'' @ join '','' (map pair_text kvs) @ ''}''"
proof -
  have "sorted (map fst (map (map_prod id dumps) kvs))"
    using assms by (simp add: strict_sorted_iff comp_def)
  then have "sort_key fst (map (map_prod id dumps) kvs) = map (map_prod id dumps) kvs"
    by (rule sort_key_id_if_sorted)
  then show ?thesis by (simp add: write_obj_def pair_text_def [abs_def] comp_def split_def)
qed

lemma canonical_reads_back: "canonical v \<Longrightarrow> reads_back v"
proof (induction v)
  case (JList vs)
  then have all: "list_all reads_back vs" by (simp add: list_all_iff)
  show ?case unfolding reads_back_def
  proof (intro allI impI, elim conjE)
    fix n r
    assume n: "length (dumps (JList vs)) \<le> n"
    then obtain m where m: "n = Suc m" by (cases n) auto
    show "read_value n (dumps (JList vs) @ r) = Some (JList vs, r)"
    proof (cases vs)
      case Nil
      with m show ?thesis by (simp add: skip_ws_def json_space_def code_def)
    next
      case (Cons u us)
      have body: "read_elems m (join '','' (map dumps (u # us)) @ CHR '']'' # r) = Some (u # us, r)"
        using all n m unfolding Cons by (intro read_elems_back) simp_all
      obtain c t where c: "dumps u = c # t" "\<not> json_space c" "c \<noteq> CHR '']''" by (rule dumps_first)
      then obtain t' where t': "join '','' (map dumps (u # us)) @ CHR '']'' # r = c # t'"
        by (cases us) auto
      then have "skip_ws (c # t') = c # t'" using c(2) by (simp add: skip_ws_def)
      with body c(3) m show ?thesis unfolding Cons t' by (simp add: t' [simplified])
    qed
  qed
next
  case (JObj kvs)
  then have all: "list_all (\<lambda>kv. reads_back (snd kv)) kvs" and sorted: "sorted_wrt (<) (map fst kvs)"
    by (auto simp: list_all_iff)
  from sorted have distinct: "distinct (map fst kvs)" by (simp add: strict_sorted_iff)
  show ?case unfolding reads_back_def
  proof (intro allI impI, elim conjE)
    fix n r
    assume n: "length (dumps (JObj kvs)) \<le> n"
    have shape: "dumps (JObj kvs) = ''{'' @ join '','' (map pair_text kvs) @ ''}''"
      by (simp add: write_obj_sorted [OF sorted])
    from n obtain m where m: "n = Suc m" by (cases n) (simp_all only: shape, simp_all)
    show "read_value n (dumps (JObj kvs) @ r) = Some (JObj kvs, r)"
    proof (cases kvs)
      case Nil
      with m show ?thesis unfolding shape by (simp add: skip_ws_def json_space_def code_def)
    next
      case (Cons u us)
      have body: "read_pairs m (join '','' (map pair_text (u # us)) @ CHR ''}'' # r) = Some (u # us, r)"
        using all n [unfolded shape] m unfolding Cons by (intro read_pairs_back) simp_all
      obtain t' where t': "join '','' (map pair_text (u # us)) @ CHR ''}'' # r = CHR 0x22 # t'"
        by (cases us) (auto simp: pair_text_def quote_def)
      have start: "dumps (JObj kvs) @ r = CHR ''{'' # CHR 0x22 # t'"
        using t' unfolding shape unfolding Cons by simp
      show ?thesis using body m distinct unfolding start t' unfolding Cons
        by (simp add: obj_of_pairs_distinct)
    qed
  qed
next
  case (JInt i)
  obtain c t where c: "show_int i = c # t" "is_digit c \<or> c = CHR ''-''"
    using show_nat_first [of "nat i"] by (cases "i < 0"; cases "show_nat (nat i)") (auto simp: show_int_def)
  then have no: "c \<noteq> CHR 0x22" "c \<noteq> CHR ''[''" "c \<noteq> CHR ''{''" "c \<noteq> CHR ''n''" "c \<noteq> CHR ''t''" "c \<noteq> CHR ''f''"
    by (auto simp: is_digit_def code_def)
  show ?case unfolding reads_back_def
  proof (intro allI impI, elim conjE)
    fix n r
    assume "length (dumps (JInt i)) \<le> n" "stops r"
    moreover from this c obtain m where "n = Suc m" by (cases n) auto
    ultimately show "read_value n (dumps (JInt i) @ r) = Some (JInt i, r)"
      using c(1) no read_int_show [of r i] by simp
  qed
next
  case (JStr t)
  show ?case unfolding reads_back_def
  proof (intro allI impI, elim conjE)
    fix n r
    assume "length (dumps (JStr t)) \<le> n"
    then obtain m where "n = Suc m" by (cases n) (auto simp: quote_def)
    then show "read_value n (dumps (JStr t) @ r) = Some (JStr t, r)"
      by (simp add: quote_def read_string_quoted)
  qed
next
  case (JBool b)
  show ?case unfolding reads_back_def
  proof (intro allI impI, elim conjE)
    fix n r
    assume "length (dumps (JBool b)) \<le> n"
    then obtain m where "n = Suc m" by (cases n; cases b) auto
    then show "read_value n (dumps (JBool b) @ r) = Some (JBool b, r)" by (cases b) simp_all
  qed
next
  case JNull
  show ?case unfolding reads_back_def
  proof (intro allI impI, elim conjE)
    fix n r
    assume "length (dumps JNull) \<le> n"
    then obtain m where "n = Suc m" by (cases n) auto
    then show "read_value n (dumps JNull @ r) = Some (JNull, r)" by simp
  qed
qed

lemma loads_dumps_line:
  assumes "canonical v"
  shows "loads (dumps v @ [newline]) = Some v"
proof -
  from canonical_reads_back [OF assms]
  have "read_value (length (dumps v @ [newline])) (dumps v @ [newline]) = Some (v, [newline])"
    unfolding reads_back_def by (metis le_add1 length_append stops_simps(5))
  moreover have "skip_ws [newline] = []" by (simp add: skip_ws_def json_space_def newline_def code_def)
  ultimately show ?thesis by (simp add: loads_def)
qed

theorem loads_dumps:
  assumes "canonical v"
  shows "loads (dumps v) = Some v"
proof -
  from canonical_reads_back [OF assms] have "read_value (length (dumps v)) (dumps v @ []) = Some (v, [])"
    unfolding reads_back_def by (metis order_refl stops_simps(1))
  moreover have "skip_ws (dumps v) = dumps v" using skip_ws_dumps [of v "[]"] by simp
  ultimately show ?thesis by (simp add: loads_def skip_ws_def)
qed

lemma dumps_inj: "canonical v \<Longrightarrow> canonical u \<Longrightarrow> dumps v = dumps u \<Longrightarrow> v = u"
  by (metis loads_dumps option.inject)

subsection \<open>The bytes of a canonical text\<close>

text \<open>Values whose strings are well-formed UTF-8; every \<open>str\<close> the code encodes is.\<close>

primrec utf8_json :: "json \<Rightarrow> bool" where
  "utf8_json JNull = True"
| "utf8_json (JBool b) = True"
| "utf8_json (JInt i) = True"
| "utf8_json (JStr s) = utf8_valid s"
| "utf8_json (JList vs) = list_all id (map utf8_json vs)"
| "utf8_json (JObj kvs) = (list_all utf8_valid (map fst kvs) \<and> list_all snd (map (map_prod id utf8_json) kvs))"

definition ascii :: "string \<Rightarrow> bool" where
  "ascii s \<longleftrightarrow> list_all (\<lambda>c. code c < 128) s"

text \<open>A well-formed text is a sequence of ASCII characters and of multi-byte characters.\<close>

definition multibyte :: "string \<Rightarrow> bool" where
  "multibyte p \<longleftrightarrow>
     p \<noteq> [] \<and> list_all (\<lambda>c. 128 \<le> code c) p \<and> (\<forall>t. utf8_valid (p @ t) = utf8_valid t)"

lemma utf8_valid_Cons:
  assumes "utf8_valid (a # r)" "\<not> code a < 128"
  shows "\<exists>p r'. multibyte p \<and> a # r = p @ r' \<and> utf8_valid r'"
proof -
  consider "194 \<le> code a" "code a \<le> 223" | "224 \<le> code a" "code a \<le> 239" | "240 \<le> code a" "code a \<le> 244"
    using assms by (auto split: if_splits)
  then show ?thesis
  proof cases
    case 1
    with assms obtain b r' where "r = b # r'" "cont b" "utf8_valid r'" by (cases r) auto
    with 1 have "multibyte [a, b] \<and> a # r = [a, b] @ r' \<and> utf8_valid r'"
      by (simp add: multibyte_def cont_def)
    then show ?thesis by blast
  next
    case 2
    with assms obtain b c r' where "r = b # c # r'" "cont b" "cont c" "utf8_valid r'"
        "code a = 224 \<longrightarrow> 160 \<le> code b" "code a = 237 \<longrightarrow> code b < 160"
      by (cases r; cases "tl r") auto
    with 2 have "multibyte [a, b, c] \<and> a # r = [a, b, c] @ r' \<and> utf8_valid r'"
      by (simp add: multibyte_def cont_def)
    then show ?thesis by blast
  next
    case 3
    with assms obtain b c d r' where "r = b # c # d # r'" "cont b" "cont c" "cont d" "utf8_valid r'"
        "code a = 240 \<longrightarrow> 144 \<le> code b" "code a = 244 \<longrightarrow> code b < 144"
      by (cases r; cases "tl r"; cases "tl (tl r)") auto
    with 3 have "multibyte [a, b, c, d] \<and> a # r = [a, b, c, d] @ r' \<and> utf8_valid r'"
      by (simp add: multibyte_def cont_def)
    then show ?thesis by blast
  qed
qed

lemma utf8_induct [consumes 1, case_names Nil ascii multi]:
  assumes "utf8_valid s" "P []"
    and "\<And>a r. code a < 128 \<Longrightarrow> utf8_valid r \<Longrightarrow> P r \<Longrightarrow> P (a # r)"
    and "\<And>p r. multibyte p \<Longrightarrow> utf8_valid r \<Longrightarrow> P r \<Longrightarrow> P (p @ r)"
  shows "P s"
  using assms(1)
proof (induction s rule: length_induct)
  case (1 s)
  show ?case
  proof (cases s)
    case Nil
    with assms(2) show ?thesis by simp
  next
    case (Cons a r)
    show ?thesis
    proof (cases "code a < 128")
      case True
      with 1 Cons assms(3) show ?thesis by simp
    next
      case False
      with 1 Cons obtain p r' where p: "multibyte p" "s = p @ r'" "utf8_valid r'"
        using utf8_valid_Cons by metis
      moreover have "length r' < length s" using p by (simp add: multibyte_def)
      ultimately show ?thesis using 1 assms(4) by blast
    qed
  qed
qed

lemma utf8_valid_append: "utf8_valid s \<Longrightarrow> utf8_valid (s @ t) = utf8_valid t"
proof (induction s rule: utf8_induct)
  case (multi p r)
  then show ?case by (metis append_assoc multibyte_def)
qed simp_all

lemma utf8_valid_ascii: "ascii s \<Longrightarrow> utf8_valid s"
  unfolding ascii_def by (induction s) auto

lemma utf8_valid_concat: "\<forall>x \<in> set xs. utf8_valid x \<Longrightarrow> utf8_valid (concat xs)"
  by (induction xs) (auto simp: utf8_valid_append)

lemma utf8_valid_join: "utf8_valid sep \<Longrightarrow> \<forall>x \<in> set xs. utf8_valid x \<Longrightarrow> utf8_valid (join sep xs)"
  by (induction sep xs rule: join.induct) (auto simp: utf8_valid_append)

lemma code_literals:
  "code CHR 0x22 = 34" "code CHR 0x5C = 92" "code CHR ''0'' = 48" "code CHR ''b'' = 98" "code CHR ''f'' = 102"
  "code CHR ''n'' = 110" "code CHR ''r'' = 114" "code CHR ''t'' = 116" "code CHR ''u'' = 117"
  by (simp_all add: code_def)

lemma code_hex_char: "d < 16 \<Longrightarrow> 48 \<le> code (hex_char d) \<and> code (hex_char d) < 103"
  by (auto simp: hex_char_def code_char_of)

lemma escape_char_codes:
  assumes "x \<in> set (escape_char c)"
  shows "32 \<le> code x \<and> (code x < 128 \<or> x = c)"
proof -
  have "code c div 16 < 16" if "code c < 32" using that by simp
  with assms code_hex_char [of "code c div 16"] code_hex_char [of "code c mod 16"] show ?thesis
    unfolding escape_char_def by (auto simp: code_literals split: if_splits)
qed

lemma escape_char_plain: "128 \<le> code c \<Longrightarrow> escape_char c = [c]"
  by (auto simp: escape_char_def code_literals)

lemma utf8_valid_escape: "utf8_valid s \<Longrightarrow> utf8_valid (concat (map escape_char s))"
proof (induction s rule: utf8_induct)
  case (ascii a r)
  then have "ascii (escape_char a)" using escape_char_codes [of _ a] by (auto simp: ascii_def list_all_iff)
  with ascii show ?case by (simp add: utf8_valid_append utf8_valid_ascii)
next
  case (multi p r)
  have "concat (map escape_char q) = q" if "list_all (\<lambda>c. 128 \<le> code c) q" for q
    using that by (induction q) (auto simp: escape_char_plain)
  with multi have "concat (map escape_char p) = p" by (simp add: multibyte_def)
  with multi show ?case by (simp add: multibyte_def)
qed simp

lemma utf8_valid_quote: "utf8_valid s \<Longrightarrow> utf8_valid (quote s)"
  by (simp add: quote_def code_def utf8_valid_append utf8_valid_escape)

lemma digits_ascii: "list_all is_digit s \<Longrightarrow> ascii s"
  by (auto simp: ascii_def is_digit_def list_all_iff)

lemma utf8_valid_dumps: "utf8_json v \<Longrightarrow> utf8_valid (dumps v)"
proof (induction v)
  case (JInt i)
  show ?case by (auto simp: show_int_def code_def intro!: utf8_valid_ascii digits_ascii show_nat_digits)
next
  case (JList vs)
  then have "\<forall>x \<in> set (map dumps vs). utf8_valid x" by (auto simp: list_all_iff)
  then have "utf8_valid (join '','' (map dumps vs))" by (intro utf8_valid_join) (simp_all add: code_def)
  then show ?case by (simp add: code_def utf8_valid_append)
next
  case (JObj kvs)
  have "\<forall>x \<in> set (map (\<lambda>(k, t). quote k @ '':'' @ t) (sort_key fst (map (map_prod id dumps) kvs))). utf8_valid x"
    using JObj by (force simp: list_all_iff utf8_valid_append utf8_valid_quote code_def)
  then have "utf8_valid (join '','' (map (\<lambda>(k, t). quote k @ '':'' @ t) (sort_key fst (map (map_prod id dumps) kvs))))"
    by (intro utf8_valid_join) (simp_all add: code_def)
  then show ?case by (simp add: write_obj_def code_def utf8_valid_append)
qed (auto simp: code_def utf8_valid_quote)

lemma loads_bytes_dumps: "canonical v \<Longrightarrow> utf8_json v \<Longrightarrow> loads_bytes (dumps v) = Some v"
  by (simp add: loads_bytes_def utf8_valid_dumps loads_dumps)

text \<open>No control character is written, so a canonical text is one line.\<close>

definition one_line :: "string \<Rightarrow> bool" where
  "one_line s \<longleftrightarrow> list_all (\<lambda>c. 32 \<le> code c) s"

lemma one_line_Nil [simp]: "one_line []"
  by (simp add: one_line_def)

lemma one_line_append [simp]: "one_line (s @ t) \<longleftrightarrow> one_line s \<and> one_line t"
  by (simp add: one_line_def)

lemma one_line_join: "one_line sep \<Longrightarrow> \<forall>x \<in> set xs. one_line x \<Longrightarrow> one_line (join sep xs)"
  by (induction sep xs rule: join.induct) auto

lemma one_line_quote: "one_line (quote s)"
proof -
  have "one_line (escape_char c)" for c
    using escape_char_codes [of _ c] by (auto simp: one_line_def list_all_iff)
  then have "one_line (concat (map escape_char s))" by (induction s) (auto simp: one_line_def)
  then show ?thesis by (simp add: quote_def) (simp add: one_line_def code_def)
qed

lemma one_line_dumps: "one_line (dumps v)"
proof (induction v)
  case (JInt i)
  have "one_line (show_nat n)" for n
    using show_nat_digits [of n] by (auto simp: one_line_def list_all_iff is_digit_def)
  then show ?case by (auto simp: show_int_def) (simp add: one_line_def code_def)
next
  case (JList vs)
  then have "one_line (join '','' (map dumps vs))" by (intro one_line_join) (auto simp: one_line_def code_def)
  then show ?case by simp (simp add: one_line_def code_def)
next
  case (JObj kvs)
  have "\<forall>x \<in> set (map (\<lambda>(k, t). quote k @ '':'' @ t) (sort_key fst (map (map_prod id dumps) kvs))). one_line x"
    using JObj by (auto simp: one_line_quote) (simp add: one_line_def code_def)
  then have "one_line (join '','' (map (\<lambda>(k, t). quote k @ '':'' @ t) (sort_key fst (map (map_prod id dumps) kvs))))"
    by (intro one_line_join) (simp_all add: one_line_def code_def)
  then show ?case by (simp add: write_obj_def) (simp add: one_line_def code_def)
qed (auto simp: one_line_quote, auto simp: one_line_def code_def)

subsection \<open>Codecs\<close>

text \<open>
  A record written as canonical JSON and read back by a decoder.  The laws are what a store promises
  to whoever reads its files again; the components interpret the locale for the HEAD pointer, the
  manifest, the promotion envelope and the audit event.
\<close>

locale json_codec =
  fixes enc :: "'a \<Rightarrow> json" and dec :: "json \<Rightarrow> 'a res" and ok :: "'a \<Rightarrow> bool"
  assumes writes: "ok x \<Longrightarrow> canonical (enc x) \<and> utf8_json (enc x)"
    and reads: "ok x \<Longrightarrow> dec (enc x) = Inr x"
begin

lemma bytes: "ok x \<Longrightarrow> loads_bytes (dumps (enc x)) = Some (enc x)"
  using writes by (simp add: loads_bytes_dumps)

lemma text_back: "ok x \<Longrightarrow> loads (dumps (enc x)) = Some (enc x)"
  using writes by (simp add: loads_dumps)

lemma line_back: "ok x \<Longrightarrow> loads (dumps (enc x) @ [newline]) = Some (enc x)"
  using writes by (simp add: loads_dumps_line)

lemma line_utf8: "ok x \<Longrightarrow> utf8_valid (dumps (enc x)) \<and> utf8_valid (dumps (enc x) @ [newline])"
  using writes by (simp add: utf8_valid_dumps utf8_valid_append newline_def code_def)

lemma unique: "ok x \<Longrightarrow> ok y \<Longrightarrow> dumps (enc x) = dumps (enc y) \<Longrightarrow> x = y"
  using bytes [of x] bytes [of y] reads [of x] reads [of y] by (metis option.inject sum.inject(2))

end

text \<open>Access to parsed values: \<open>d[k]\<close>, and the values a data class receives.\<close>

definition item :: "json \<Rightarrow> string \<Rightarrow> json res" where
  "item d k =
     (case d of
        JObj kvs \<Rightarrow> (case map_of kvs k of None \<Rightarrow> Inl (StdError ''KeyError'') | Some v \<Rightarrow> Inr v)
      | _ \<Rightarrow> Inl (TypeError ''indices must be integers''))"

text \<open>
  A validator treats a value that is not a string like an empty one (\<open>not isinstance(value, str) or
  not value.strip()\<close>), so a field read from JSON is passed on as the empty string then.
\<close>

definition as_str :: "json \<Rightarrow> string" where
  "as_str v = (case v of JStr s \<Rightarrow> s | _ \<Rightarrow> [])"

text \<open>\<open>isinstance(value, int)\<close> holds for booleans too; anything else becomes the given invalid number.\<close>

definition as_int :: "int \<Rightarrow> json \<Rightarrow> int" where
  "as_int bad v = (case v of JInt i \<Rightarrow> i | JBool b \<Rightarrow> if b then 1 else 0 | _ \<Rightarrow> bad)"

lemma as_simps [simp]: "as_str (JStr s) = s" "as_int bad (JInt i) = i"
  by (simp_all add: as_str_def as_int_def)

definition as_datetime :: "json \<Rightarrow> datetime res" where
  "as_datetime v =
     (case v of
        JStr s \<Rightarrow> (case fromisoformat s of None \<Rightarrow> Inl (ValueError ''Invalid isoformat string'') | Some d \<Rightarrow> Inr d)
      | _ \<Rightarrow> Inl (TypeError ''fromisoformat: argument must be str''))"

text \<open>\<open>for x in value\<close>: a list, the characters of a string, the keys of a dictionary.\<close>

function characters :: "string \<Rightarrow> string list" where
  "characters [] = []"
| "characters (c # s) = (c # takeWhile cont s) # characters (dropWhile cont s)"
  by pat_completeness auto
termination
  by (relation "measure length") (auto simp: length_dropWhile_le less_Suc_eq_le)

definition iterate :: "json \<Rightarrow> json list res" where
  "iterate v =
     (case v of
        JList vs \<Rightarrow> Inr vs
      | JStr s \<Rightarrow> Inr (map JStr (characters s))
      | JObj kvs \<Rightarrow> Inr (map (\<lambda>kv. JStr (fst kv)) kvs)
      | _ \<Rightarrow> Inl (TypeError ''object is not iterable''))"

lemma iterate_list [simp]: "iterate (JList vs) = Inr vs"
  by (simp add: iterate_def)

lemma as_datetime_isoformat [simp]: "valid_datetime d \<Longrightarrow> as_datetime (JStr (isoformat d)) = Inr d"
  by (simp add: as_datetime_def fromisoformat_isoformat)

text \<open>The text an ISO timestamp is made of.\<close>

lemma ascii_isoformat: "ascii (isoformat d)"
proof -
  have "ascii (pad w n)" for w n using pad_digits by (rule digits_ascii)
  then show ?thesis
    by (auto simp: isoformat_def iso_offset_def Let_def ascii_def code_def split: option.splits)
qed

lemma utf8_valid_isoformat [simp]: "utf8_valid (isoformat d)"
  by (rule utf8_valid_ascii [OF ascii_isoformat])

lemma utf8_valid_lower_hex64: "lower_hex64 h \<Longrightarrow> utf8_valid h"
  by (rule utf8_valid_ascii) (auto simp: lower_hex64_def ascii_def list_all_iff lower_hex_digit_def)

end
