(* ===== verification/Sha256.thy ===== *)
theory Sha256
  imports Prelude "HOL-Library.Word"
begin

section \<open>SHA-256\<close>

text \<open>
  \<open>hashlib.sha256(data).hexdigest()\<close> after FIPS 180-4, on 32-bit words whose addition wraps.  What
  the components rely on is stated by the locale \<open>digest\<close>: the digest of any byte string is 64
  lower-case hexadecimal digits, so the validators of the data classes accept it and leave it
  unchanged.
\<close>

unbundle bit_operations_syntax

type_synonym w32 = "32 word"

text \<open>Eight words of a constant, written as one 256-bit number.\<close>

definition row_words :: "int \<Rightarrow> w32 list" where
  "row_words n = map (\<lambda>i. word_of_int (drop_bit (32 * (7 - i)) n)) [0..<8]"

definition round_constants :: "w32 list" where
  "round_constants = concat (map row_words
    [0x428a2f9871374491b5c0fbcfe9b5dba53956c25b59f111f1923f82a4ab1c5ed5,
     0xd807aa9812835b01243185be550c7dc372be5d7480deb1fe9bdc06a7c19bf174,
     0xe49b69c1efbe47860fc19dc6240ca1cc2de92c6f4a7484aa5cb0a9dc76f988da,
     0x983e5152a831c66db00327c8bf597fc7c6e00bf3d5a7914706ca635114292967,
     0x27b70a852e1b21384d2c6dfc53380d13650a7354766a0abb81c2c92e92722c85,
     0xa2bfe8a1a81a664bc24b8b70c76c51a3d192e819d6990624f40e3585106aa070,
     0x19a4c1161e376c082748774c34b0bcb5391c0cb34ed8aa4a5b9cca4f682e6ff3,
     0x748f82ee78a5636f84c878148cc7020890befffaa4506cebbef9a3f7c67178f2])"

definition initial_hash :: "w32 list" where
  "initial_hash = row_words
    0x6a09e667bb67ae853c6ef372a54ff53a510e527f9b05688c1f83d9ab5be0cd19"

definition rotr :: "nat \<Rightarrow> w32 \<Rightarrow> w32" where
  "rotr n x = drop_bit n x OR push_bit (32 - n) x"

definition big_sigma0 :: "w32 \<Rightarrow> w32" where
  "big_sigma0 x = rotr 2 x XOR rotr 13 x XOR rotr 22 x"

definition big_sigma1 :: "w32 \<Rightarrow> w32" where
  "big_sigma1 x = rotr 6 x XOR rotr 11 x XOR rotr 25 x"

definition small_sigma0 :: "w32 \<Rightarrow> w32" where
  "small_sigma0 x = rotr 7 x XOR rotr 18 x XOR drop_bit 3 x"

definition small_sigma1 :: "w32 \<Rightarrow> w32" where
  "small_sigma1 x = rotr 17 x XOR rotr 19 x XOR drop_bit 10 x"

definition ch :: "w32 \<Rightarrow> w32 \<Rightarrow> w32 \<Rightarrow> w32" where
  "ch x y z = (x AND y) XOR (NOT x AND z)"

definition maj :: "w32 \<Rightarrow> w32 \<Rightarrow> w32 \<Rightarrow> w32" where
  "maj x y z = (x AND y) XOR (x AND z) XOR (y AND z)"

text \<open>Padding to a multiple of 64 bytes, and the split into big-endian words and blocks.\<close>

definition length_bytes :: "nat \<Rightarrow> w32 list" where
  "length_bytes n =
     (let bits = 8 * of_nat n :: 64 word in
      map (\<lambda>i. ucast (drop_bit (8 * (7 - i)) bits AND 255)) [0..<8])"

definition pad_message :: "w32 list \<Rightarrow> w32 list" where
  "pad_message bs =
     bs @ 128 # replicate ((119 - length bs mod 64) mod 64) 0 @ length_bytes (length bs)"

fun words_of :: "w32 list \<Rightarrow> w32 list" where
  "words_of (a # b # c # d # r) =
     (push_bit 24 a OR push_bit 16 b OR push_bit 8 c OR d) # words_of r"
| "words_of _ = []"

function blocks :: "w32 list \<Rightarrow> w32 list list" where
  "blocks ws = (if length ws < 16 then [] else take 16 ws # blocks (drop 16 ws))"
  by pat_completeness auto
termination
  by (relation "measure length") auto

declare blocks.simps [simp del]

text \<open>The schedule is built backwards: the head of the list is the latest word.\<close>

fun extend_schedule :: "nat \<Rightarrow> w32 list \<Rightarrow> w32 list" where
  "extend_schedule 0 ws = ws"
| "extend_schedule (Suc k) ws =
     extend_schedule k ((small_sigma1 (ws ! 1) + ws ! 6 + small_sigma0 (ws ! 14) + ws ! 15) # ws)"

definition schedule :: "w32 list \<Rightarrow> w32 list" where
  "schedule blk = rev (extend_schedule 48 (rev blk))"

fun hash_round :: "w32 list \<Rightarrow> w32 \<times> w32 \<Rightarrow> w32 list" where
  "hash_round [a, b, c, d, e, f, g, h] (k, w) =
     (let t1 = h + big_sigma1 e + ch e f g + k + w; t2 = big_sigma0 a + maj a b c in
      [t1 + t2, a, b, c, d + t1, e, f, g])"
| "hash_round s _ = s"

definition compress :: "w32 list \<Rightarrow> w32 list \<Rightarrow> w32 list" where
  "compress s blk = map2 (+) s (foldl hash_round s (zip round_constants (schedule blk)))"

definition sha256_words :: "w32 list \<Rightarrow> w32 list" where
  "sha256_words bs = foldl compress initial_hash (blocks (words_of (pad_message bs)))"

definition nibble_char :: "nat \<Rightarrow> char" where
  "nibble_char d = (if d < 10 then char_of (48 + d) else char_of (87 + d))"

definition hex_word :: "w32 \<Rightarrow> string" where
  "hex_word x = map (\<lambda>i. nibble_char (unat (drop_bit (4 * (7 - i)) x AND 15))) [0..<8]"

definition sha256 :: "string \<Rightarrow> string" where
  "sha256 s = concat (map hex_word (sha256_words (map (\<lambda>c. of_char c) s)))"

subsection \<open>The digest is well formed\<close>

lemma length_hash_round: "length s = 8 \<Longrightarrow> length (hash_round s kw) = 8"
  by (induction s kw rule: hash_round.induct) (auto simp: Let_def)

lemma length_foldl_round: "length s = 8 \<Longrightarrow> length (foldl hash_round s kws) = 8"
  by (induction kws arbitrary: s) (auto simp: length_hash_round)

lemma length_compress: "length s = 8 \<Longrightarrow> length (compress s blk) = 8"
  by (simp add: compress_def length_foldl_round)

lemma length_foldl_compress: "length s = 8 \<Longrightarrow> length (foldl compress s bs) = 8"
  by (induction bs arbitrary: s) (auto simp: length_compress)

lemma length_sha256_words: "length (sha256_words bs) = 8"
  by (simp add: sha256_words_def length_foldl_compress initial_hash_def row_words_def)

lemma nibble_lower_hex: "d < 16 \<Longrightarrow> lower_hex_digit (nibble_char d)"
  by (auto simp: nibble_char_def lower_hex_digit_def code_char_of)

lemma nibble_bound: "unat ((x :: w32) AND 15) < 16"
proof -
  have "x AND 15 \<le> 15" by (rule word_and_le1)
  then show ?thesis by (simp add: word_le_nat_alt)
qed

lemma hex_word_ok: "length (hex_word x) = 8 \<and> list_all lower_hex_digit (hex_word x)"
  by (auto simp: hex_word_def list_all_iff intro!: nibble_lower_hex nibble_bound)

lemma concat_hex_words:
  "length (concat (map hex_word ws)) = 8 * length ws \<and> list_all lower_hex_digit (concat (map hex_word ws))"
  by (induction ws) (auto simp: hex_word_ok)

lemma sha256_lower_hex64: "lower_hex64 (sha256 s)"
  using concat_hex_words [of "sha256_words (map (\<lambda>c. of_char c) s)"]
  by (simp add: sha256_def lower_hex64_def length_sha256_words)

subsection \<open>The interface the components use\<close>

locale digest =
  fixes H :: "string \<Rightarrow> string"
  assumes lower_hex: "lower_hex64 (H s)"
begin

lemma hex [simp]: "hex64 (H s)"
  by (rule lower_hex64_hex64) (rule lower_hex)

lemma fixed [simp]: "lower (H s) = H s"
  by (rule lower_lower_hex64) (rule lower_hex)

lemma nonblank [simp]: "\<not> blank (H s)"
  by (rule hex64_not_blank) simp

lemma nonempty [simp]: "H s \<noteq> []"
  using lower_hex [of s] by (auto simp: lower_hex64_def)

lemma field_accepts [simp]: "hash_field n (H s) = Inr (H s)"
  by (simp add: hash_field_Inr)

lemma field_opt_accepts [simp]: "hash_field_opt n (Some (H s)) = Inr (Some (H s))"
  by (simp add: hash_field_opt_def)

lemma fields_accept [simp]: "mapE (hash_field n) (map H ss) = Inr (map H ss)"
  by (auto simp: mapE_hash_Inr list_all_iff)

lemma printable: "c \<in> set (H s) \<Longrightarrow> printing c"
  using lower_hex [of s] by (auto simp: lower_hex64_def list_all_iff intro: hex_digit_printing)

end

interpretation sha: digest sha256
  by unfold_locales (rule sha256_lower_hex64)

end
