(* ===== verification/LegacyAdapter.thy ===== *)
theory LegacyAdapter
  imports Authority FileSystem Json Sha256
begin

section \<open>Legacy shadow adapter\<close>

text \<open>
  \<open>galia2/legacy_adapter.py\<close>: observed legacy payloads are content-addressed, mapped to claims without
  authority and compared with the 2.0 output.  The lemmas give the comparison's verdict as one
  condition, and show that the adapter never raises on its own captures and never grants authority.
\<close>

datatype payload = Text string | Bytes string

fun to_bytes :: "payload \<Rightarrow> string" where
  "to_bytes (Bytes b) = b"
| "to_bytes (Text s) = s"

subsection \<open>The conservative text view\<close>

fun replace_crlf :: "string \<Rightarrow> string" where
  "replace_crlf (a # b # s) =
     (if code a = 13 \<and> code b = 10 then b # replace_crlf s else a # replace_crlf (b # s))"
| "replace_crlf s = s"

definition replace_cr :: "string \<Rightarrow> string" where
  "replace_cr s = map (\<lambda>c. if code c = 13 then char_of (10 :: nat) else c) s"

definition normalize_newlines :: "string \<Rightarrow> string" where
  "normalize_newlines s = replace_cr (replace_crlf s)"

definition rstrip_blanks :: "string \<Rightarrow> string" where
  "rstrip_blanks s = rev (dropWhile (\<lambda>c. code c = 32 \<or> code c = 9) (rev s))"

definition text_projection :: "string \<Rightarrow> string option" where
  "text_projection v =
     (if utf8_valid v
      then Some (strip (join [newline] (map rstrip_blanks (split_on newline (normalize_newlines v)))))
      else None)"

subsection \<open>Records\<close>

datatype legacy_diff_kind =
    BYTE_IDENTICAL | REPRESENTATION_EQUIVALENT | MATERIAL_DIFFERENCE | MISSING_LEGACY_OUTPUT
  | MISSING_GALIA2_OUTPUT

fun legacy_diff_value :: "legacy_diff_kind \<Rightarrow> string" where
  "legacy_diff_value BYTE_IDENTICAL = ''BYTE_IDENTICAL''"
| "legacy_diff_value REPRESENTATION_EQUIVALENT = ''REPRESENTATION_EQUIVALENT''"
| "legacy_diff_value MATERIAL_DIFFERENCE = ''MATERIAL_DIFFERENCE''"
| "legacy_diff_value MISSING_LEGACY_OUTPUT = ''MISSING_LEGACY_OUTPUT''"
| "legacy_diff_value MISSING_GALIA2_OUTPUT = ''MISSING_GALIA2_OUTPUT''"

record legacy_capture =
  lc_capture_id :: string
  lc_case_id :: string
  lc_input_ref :: string
  lc_output_ref :: "string option"
  lc_input_payload :: string
  lc_output_payload :: "string option"
  lc_input_hash :: string
  lc_output_hash :: "string option"
  lc_captured_at :: datetime
  lc_origin :: string

record legacy_comparison =
  lx_comparison_id :: string
  lx_case_id :: string
  lx_capture_id :: string
  lx_legacy_output_hash :: "string option"
  lx_galia2_output_hash :: "string option"
  lx_kind :: legacy_diff_kind
  lx_material :: bool
  lx_discrepancy :: "discrepancy option"

record legacy_mapped_claim =
  lm_capture_id :: string
  lm_claim :: claim
  lm_origin :: string

record 'a shadow_operation =
  so_value :: 'a
  so_receipt :: receipt

record legacy_adapter =
  la_policy_version :: string
  la_actor :: string
  la_clock :: "nat \<Rightarrow> datetime"
  la_id :: "string \<Rightarrow> nat \<Rightarrow> string"

definition legacy_adapter_init :: "legacy_adapter \<Rightarrow> legacy_adapter res" where
  "legacy_adapter_init a =
     bindE (raise_if (blank (la_policy_version a)) (ValueError ''policy_version must be non-empty'')) (\<lambda>_.
     bindE (raise_if (blank (la_actor a)) (ValueError ''actor must be non-empty'')) (\<lambda>_. Inr a))"

subsection \<open>Operations\<close>

definition legacy_receipt ::
  "legacy_adapter \<Rightarrow> string \<Rightarrow> string list \<Rightarrow> string list \<Rightarrow> string \<Rightarrow> datetime option \<Rightarrow> receipt io" where
  "legacy_receipt a operation input_hashes output_hashes result timestamp =
     bindI (call (la_id a ''receipt'')) (\<lambda>rid.
     bindI (case timestamp of None \<Rightarrow> call (la_clock a) | Some t \<Rightarrow> ret t) (\<lambda>now.
     lift (receipt_post_init
       \<lparr>rc_receipt_id = rid, rc_operation = operation, rc_input_commit = None,
        rc_input_hashes = input_hashes, rc_output_commit = None, rc_output_hashes = output_hashes,
        rc_policy_version = la_policy_version a, rc_actor = la_actor a, rc_timestamp = now,
        rc_result = result\<rparr>)))"

definition legacy_capture_op ::
  "legacy_adapter \<Rightarrow> gcase \<Rightarrow> payload \<Rightarrow> payload option \<Rightarrow> string \<Rightarrow> string option \<Rightarrow>
     legacy_capture shadow_operation io" where
  "legacy_capture_op a cs input_payload output_payload input_ref output_ref =
     bindI (throw_if (blank input_ref) (ValueError ''input_ref must be non-empty'')) (\<lambda>_.
     bindI (throw_if (output_payload \<noteq> None \<and> (case output_ref of None \<Rightarrow> True | Some r \<Rightarrow> blank r))
              (ValueError ''output_ref is required when output_payload is present'')) (\<lambda>_.
     let in_bytes = to_bytes input_payload; out_bytes = map_option to_bytes output_payload;
         in_hash = sha256 in_bytes; out_hash = map_option sha256 out_bytes in
     bindI (call (la_clock a)) (\<lambda>now.
     bindI (call (la_id a ''legacy-capture'')) (\<lambda>cid.
     bindI (legacy_receipt a ''LEGACY_SHADOW_CAPTURE'' [in_hash]
              (case out_hash of None \<Rightarrow> [] | Some h \<Rightarrow> [h]) ''CAPTURED:READ_ONLY'' (Some now)) (\<lambda>r.
     ret \<lparr>so_value = \<lparr>lc_capture_id = cid, lc_case_id = cs_case_id cs, lc_input_ref = input_ref,
            lc_output_ref = (case out_bytes of None \<Rightarrow> None | Some b \<Rightarrow> output_ref),
            lc_input_payload = in_bytes, lc_output_payload = out_bytes, lc_input_hash = in_hash,
            lc_output_hash = out_hash, lc_captured_at = now, lc_origin = ''LEGACY_SHADOW''\<rparr>,
          so_receipt = r\<rparr>)))))"

definition require_case :: "gcase \<Rightarrow> legacy_capture \<Rightarrow> unit res" where
  "require_case cs cap =
     raise_if (cs_case_id cs \<noteq> lc_case_id cap) (ValueError ''capture belongs to a different case'')"

definition map_claim ::
  "legacy_adapter \<Rightarrow> gcase \<Rightarrow> legacy_capture \<Rightarrow> string \<Rightarrow> string \<Rightarrow> string \<Rightarrow> string \<Rightarrow> date option \<Rightarrow>
     date option \<Rightarrow> legacy_mapped_claim shadow_operation io" where
  "map_claim a cs cap claim_id subject predicate object valid_from valid_to =
     bindI (lift (require_case cs cap)) (\<lambda>_.
     bindI (throw_if (lc_output_payload cap = None)
              (ValueError ''cannot map a claim from a capture with no Legacy output'')) (\<lambda>_.
     bindI (lift (claim_post_init
       \<lparr>cl_claim_id = claim_id, cl_case_id = cs_case_id cs, cl_subject = subject,
        cl_predicate = predicate, cl_object = object, cl_valid_from = valid_from, cl_valid_to = valid_to,
        cl_claim_type = DERIVED_CLAIM, cl_evidence_state = Ev_UNVERIFIED, cl_authority_state = Auth_NONE\<rparr>)) (\<lambda>c.
     bindI (legacy_receipt a ''LEGACY_SHADOW_MAP_CLAIM''
              (case lc_output_hash cap of None \<Rightarrow> [] | Some h \<Rightarrow> if h = [] then [] else [h]) []
              ''MAPPED:NON_AUTHORITATIVE'' None) (\<lambda>r.
     ret \<lparr>so_value = \<lparr>lm_capture_id = lc_capture_id cap, lm_claim = c, lm_origin = ''LEGACY_SHADOW''\<rparr>,
          so_receipt = r\<rparr>))))"

definition diff_kind :: "string option \<Rightarrow> string option \<Rightarrow> string option \<Rightarrow> legacy_diff_kind" where
  \<comment> \<open>the branches of \<open>compare\<close>: legacy bytes, their recorded hash, current bytes\<close>
  "diff_kind legacy legacy_hash current =
     (case (legacy, current) of
        (None, _) \<Rightarrow> MISSING_LEGACY_OUTPUT
      | (Some l, None) \<Rightarrow> MISSING_GALIA2_OUTPUT
      | (Some l, Some c) \<Rightarrow>
          if legacy_hash = Some (sha256 c) then BYTE_IDENTICAL
          else (case (text_projection l, text_projection c) of
              (Some lt, Some ct) \<Rightarrow> if lt = ct then REPRESENTATION_EQUIVALENT else MATERIAL_DIFFERENCE
            | _ \<Rightarrow> MATERIAL_DIFFERENCE))"

definition or_missing :: "string option \<Rightarrow> string" where
  "or_missing h = (case h of None \<Rightarrow> ''MISSING'' | Some x \<Rightarrow> if x = [] then ''MISSING'' else x)"

definition open_discrepancy ::
  "legacy_adapter \<Rightarrow> legacy_capture \<Rightarrow> string option \<Rightarrow> discrepancy io" where
  "open_discrepancy a cap current_hash =
     bindI (call (la_id a ''discrepancy'')) (\<lambda>did.
     lift (discrepancy_post_init
       \<lparr>di_discrepancy_id = did,
        di_objects = [''legacy:'' @ lc_capture_id cap @ '':'' @ or_missing (lc_output_hash cap),
                      ''galia2:'' @ or_missing current_hash],
        di_type = ''LEGACY_GALIA2_OUTPUT_DIFF'', di_materiality = ''MATERIAL'', di_state = Disc_OPEN,
        di_resolution_refs = []\<rparr>))"

definition legacy_compare ::
  "legacy_adapter \<Rightarrow> gcase \<Rightarrow> legacy_capture \<Rightarrow> payload option \<Rightarrow> legacy_comparison shadow_operation io" where
  "legacy_compare a cs cap galia2_output =
     bindI (lift (require_case cs cap)) (\<lambda>_.
     let current = map_option to_bytes galia2_output; current_hash = map_option sha256 current;
         kind = diff_kind (lc_output_payload cap) (lc_output_hash cap) current;
         material = kind \<in> {MATERIAL_DIFFERENCE, MISSING_LEGACY_OUTPUT, MISSING_GALIA2_OUTPUT} in
     bindI (call (la_id a ''legacy-diff'')) (\<lambda>xid.
     bindI (if material then bindI (open_discrepancy a cap current_hash) (\<lambda>d. ret (Some d))
            else ret None) (\<lambda>disc.
     bindI (legacy_receipt a (''LEGACY_SHADOW_COMPARE:'' @ legacy_diff_value kind)
              (List.map_filter id [lc_output_hash cap, current_hash]) []
              (if material then ''DIFF:MATERIAL'' else ''DIFF:NON_MATERIAL'') None) (\<lambda>r.
     ret \<lparr>so_value = \<lparr>lx_comparison_id = xid, lx_case_id = cs_case_id cs,
            lx_capture_id = lc_capture_id cap, lx_legacy_output_hash = lc_output_hash cap,
            lx_galia2_output_hash = current_hash, lx_kind = kind, lx_material = material,
            lx_discrepancy = disc\<rparr>,
          so_receipt = r\<rparr>))))"

lemma legacy_frames [frame_rules]:
  "keeps (=) (legacy_receipt a op ih oh res t)" "keeps (=) (legacy_capture_op a cs i p ir pr)"
  "keeps (=) (map_claim a cs cap ci su pre ob vf vt)" "keeps (=) (legacy_compare a cs cap g)"
  unfolding legacy_receipt_def legacy_capture_op_def map_claim_def legacy_compare_def open_discrepancy_def Let_def
  by (intro frame_rules)+

subsection \<open>Totality\<close>

definition legacy_works :: "legacy_adapter \<Rightarrow> bool" where
  "legacy_works a \<longleftrightarrow>
     \<not> blank (la_policy_version a) \<and> \<not> blank (la_actor a) \<and>
     (\<forall>n. \<not> blank (la_id a ''receipt'' n) \<and> \<not> blank (la_id a ''discrepancy'' n)) \<and> (\<forall>n. aware (la_clock a n))"

definition consistent_capture :: "legacy_capture \<Rightarrow> bool" where
  \<comment> \<open>the recorded hash is the digest of the recorded output, as \<open>capture\<close> builds it\<close>
  "consistent_capture cap \<longleftrightarrow> lc_output_hash cap = map_option sha256 (lc_output_payload cap)"

lemma legacy_receipt_works:
  assumes "legacy_works a" "list_all hex64 ih" "list_all hex64 oh" "\<not> blank op" "\<not> blank res"
  shows "\<exists>r. legacy_receipt a op ih oh res None w = (Inr r, w\<lparr>w_tick := w_tick w + 2\<rparr>) \<and> rc_output_commit r = None"
  using assms by (auto simp: legacy_receipt_def bindI_Inr call_Inr receipt_post_init_Inr legacy_works_def)

lemma legacy_receipt_output:
  "legacy_receipt a op ih oh res t w = (Inr r, w') \<Longrightarrow> rc_output_commit r = None \<and> receipt_ok r"
  by (auto simp: legacy_receipt_def bindI_Inr dest!: receipt_post_init_stored split: option.splits)

lemma legacy_capture_Inr:
  assumes "legacy_capture_op a cs i p ir orf w = (Inr op, w')"
  shows "consistent_capture (so_value op) \<and> lc_case_id (so_value op) = cs_case_id cs \<and>
    lc_output_payload (so_value op) = map_option to_bytes p \<and>
    lc_input_hash (so_value op) = sha256 (to_bytes i) \<and> rc_output_commit (so_receipt op) = None"
  using assms
  by (auto simp: legacy_capture_op_def consistent_capture_def Let_def bindI_Inr call_Inr throw_if_Inr
      dest!: legacy_receipt_output)

lemma open_discrepancy_works:
  assumes "legacy_works a"
  shows "\<exists>d. open_discrepancy a cap h w = (Inr d, w\<lparr>w_tick := w_tick w + 1\<rparr>)"
  using assms
  by (auto simp: open_discrepancy_def legacy_works_def bindI_Inr call_Inr discrepancy_post_init_Inr)

definition same_output :: "string \<Rightarrow> string \<Rightarrow> bool" where
  \<comment> \<open>what the comparison does not call material\<close>
  "same_output l c \<longleftrightarrow> sha256 l = sha256 c \<or> text_projection l \<noteq> None \<and> text_projection l = text_projection c"

lemma diff_kind_material:
  assumes "h = map_option sha256 l"
  shows "diff_kind l h c \<in> {MATERIAL_DIFFERENCE, MISSING_LEGACY_OUTPUT, MISSING_GALIA2_OUTPUT} \<longleftrightarrow>
    \<not> (\<exists>x y. l = Some x \<and> c = Some y \<and> same_output x y)"
  using assms by (auto simp: diff_kind_def same_output_def split: option.splits if_splits)

lemma legacy_compare_works:
  assumes "legacy_works a" "consistent_capture cap" "cs_case_id cs = lc_case_id cap"
  shows "\<exists>op w'. legacy_compare a cs cap g w = (Inr op, w') \<and> rc_output_commit (so_receipt op) = None \<and>
    lx_material (so_value op) =
      (\<not> (\<exists>x y. lc_output_payload cap = Some x \<and> map_option to_bytes g = Some y \<and> same_output x y)) \<and>
    (lx_discrepancy (so_value op) \<noteq> None \<longleftrightarrow> lx_material (so_value op)) \<and>
    lx_capture_id (so_value op) = lc_capture_id cap"
proof -
  let ?c = "map_option to_bytes g" and ?h = "lc_output_hash cap"
  define k where "k = diff_kind (lc_output_payload cap) ?h ?c"
  define m where "m \<longleftrightarrow> k \<in> {MATERIAL_DIFFERENCE, MISSING_LEGACY_OUTPUT, MISSING_GALIA2_OUTPUT}"
  define hs where "hs = List.map_filter id [?h, map_option sha256 ?c]"
  have hs: "list_all hex64 hs"
    using assms(2) by (auto simp: hs_def consistent_capture_def List.map_filter_def map_option_case split: option.splits)
  define u where "u = w\<lparr>w_tick := Suc (w_tick w)\<rparr>"
  obtain disc v where disc: "(if m then bindI (open_discrepancy a cap (map_option sha256 ?c)) (\<lambda>d. ret (Some d)) else ret None) u
      = (Inr disc, v)" and disc_m: "disc \<noteq> None \<longleftrightarrow> m"
    using open_discrepancy_works [OF assms(1), of cap "map_option sha256 ?c" u] by (cases m) auto
  have nonblank: "\<not> blank (if m then ''DIFF:MATERIAL'' else ''DIFF:NON_MATERIAL'')" by simp
  obtain r where r: "legacy_receipt a (''LEGACY_SHADOW_COMPARE:'' @ legacy_diff_value k) hs []
      (if m then ''DIFF:MATERIAL'' else ''DIFF:NON_MATERIAL'') None v = (Inr r, v\<lparr>w_tick := w_tick v + 2\<rparr>)"
      "rc_output_commit r = None"
    using legacy_receipt_works [OF assms(1) hs, of "[]" "''LEGACY_SHADOW_COMPARE:'' @ legacy_diff_value k"
        "if m then ''DIFF:MATERIAL'' else ''DIFF:NON_MATERIAL''" v] nonblank by auto
  have "m \<longleftrightarrow> \<not> (\<exists>x y. lc_output_payload cap = Some x \<and> ?c = Some y \<and> same_output x y)"
    unfolding m_def k_def using assms(2) by (intro diff_kind_material) (simp add: consistent_capture_def)
  with disc disc_m r assms(3) show ?thesis
    unfolding legacy_compare_def Let_def k_def [symmetric] m_def [symmetric] hs_def [symmetric]
    by (simp add: require_case_def call_def bindI_def u_def)
qed

text \<open>Windows line endings: every line feed is written with a carriage return before it.\<close>

definition to_crlf :: "string \<Rightarrow> string" where
  "to_crlf s = concat (map (\<lambda>c. if code c = 10 then [char_of (13 :: nat), c] else [c]) s)"

lemma replace_crlf_to_crlf: "\<forall>c \<in> set s. code c \<noteq> 13 \<Longrightarrow> replace_crlf (to_crlf s) = s"
proof (induction s)
  case Nil
  then show ?case by (simp add: to_crlf_def)
next
  case (Cons c s)
  have plain: "replace_crlf (c # t) = c # replace_crlf t" if "code c \<noteq> 13" for t
    using that by (cases t) auto
  have "to_crlf (c # s) = (if code c = 10 then [char_of (13 :: nat), c] else [c]) @ to_crlf s"
    by (simp add: to_crlf_def)
  with Cons plain show ?case by (auto simp: code_char_of)
qed

lemma normalize_to_crlf:
  assumes "\<forall>c \<in> set s. code c \<noteq> 13"
  shows "normalize_newlines (to_crlf s) = normalize_newlines s"
proof -
  have "replace_crlf t = t" if "\<forall>c \<in> set t. code c \<noteq> 13" for t
    using that by (induction t rule: replace_crlf.induct) auto
  with assms show ?thesis by (simp add: normalize_newlines_def replace_crlf_to_crlf)
qed

lemma utf8_valid_to_crlf: "utf8_valid s \<Longrightarrow> utf8_valid (to_crlf s)"
proof (induction s rule: utf8_valid.induct)
  case (2 a r)
  have cont_plain: "code b \<noteq> 10" if "cont b" for b using that by (auto simp: cont_def)
  have step: "to_crlf (c # s) = (if code c = 10 then [char_of (13 :: nat), c] else [c]) @ to_crlf s" for c s
    by (simp add: to_crlf_def)
  show ?case
  proof (cases "code a < 128")
    case True
    with 2 show ?thesis by (simp add: step code_char_of)
  next
    case False
    with 2 show ?thesis
      by (auto simp: step cont_plain split: if_splits list.splits)
  qed
qed (simp add: to_crlf_def)

lemma normalize_line:
  assumes "one_line t"
  shows "normalize_newlines (t @ [newline]) = t @ [newline]"
proof -
  have plain: "\<forall>c \<in> set (t @ [newline]). code c \<noteq> 13"
    using assms by (auto simp: one_line_def list_all_iff newline_def code_def)
  have "replace_crlf s = s" if "\<forall>c \<in> set s. code c \<noteq> 13" for s
    using that by (induction s rule: replace_crlf.induct) auto
  moreover have "replace_cr s = s" if "\<forall>c \<in> set s. code c \<noteq> 13" for s
    using that by (auto simp: replace_cr_def intro: map_idI)
  ultimately show ?thesis using plain unfolding normalize_newlines_def by metis
qed

subsection \<open>Properties\<close>

definition example_adapter :: legacy_adapter where
  "example_adapter = \<lparr>la_policy_version = ''p4-v1'', la_actor = ''ci'', la_clock = example_time, la_id = example_id\<rparr>"

definition example_case :: gcase where
  "example_case = \<lparr>cs_case_id = ''case-1'', cs_title = ''t'', cs_scope = ''s'', cs_state = Case_OPEN,
     cs_created_at = example_time 0, cs_constitution = ''v1'', cs_canonical_commit = None\<rparr>"

definition example_capture :: "string \<Rightarrow> legacy_capture" where
  "example_capture out = \<lparr>lc_capture_id = ''legacy-capture-0'', lc_case_id = ''case-1'',
     lc_input_ref = ''legacy:input'', lc_output_ref = Some ''legacy:output'', lc_input_payload = ''in'',
     lc_output_payload = Some out, lc_input_hash = sha256 ''in'', lc_output_hash = Some (sha256 out),
     lc_captured_at = example_time 0, lc_origin = ''LEGACY_SHADOW''\<rparr>"

lemma example_adapter_works: "legacy_works example_adapter"
  by (simp add: legacy_works_def example_adapter_def example_id_def)

text \<open>Comparing a captured legacy output with the 2.0 output always returns a verdict: the
  difference is material unless both outputs exist and have the same digest or the same conservative
  text view, and a discrepancy is opened precisely for material differences.  No commit is claimed.\<close>

theorem comparison_verdict:
  assumes "legacy_works a" "consistent_capture cap" "cs_case_id cs = lc_case_id cap"
  shows "\<exists>op w'. legacy_compare a cs cap g w = (Inr op, w') \<and> rc_output_commit (so_receipt op) = None \<and>
    lx_material (so_value op) =
      (\<not> (\<exists>x y. lc_output_payload cap = Some x \<and> map_option to_bytes g = Some y \<and> same_output x y)) \<and>
    (lx_discrepancy (so_value op) \<noteq> None \<longleftrightarrow> lx_material (so_value op))"
  using legacy_compare_works [OF assms, of g w] by (elim exE conjE) (intro exI conjI, assumption+)

theorem comparison_verdict_witness:
  "\<exists>op w'. legacy_compare example_adapter example_case (example_capture ''out'') None (quiet_world []) = (Inr op, w') \<and>
     lx_material (so_value op) \<and> lx_discrepancy (so_value op) \<noteq> None"
  using comparison_verdict [OF example_adapter_works, of "example_capture ''out''" example_case None "quiet_world []"]
  by (auto simp: consistent_capture_def example_capture_def example_case_def)

text \<open>Line endings alone are never a material difference: an output whose line feeds were turned
  into carriage return and line feed compares as equivalent, without a discrepancy.\<close>

theorem line_endings_not_material:
  assumes "legacy_works a" "consistent_capture cap" "cs_case_id cs = lc_case_id cap"
    and "lc_output_payload cap = Some t" "utf8_valid t" "\<forall>c \<in> set t. code c \<noteq> 13"
  shows "\<exists>op w'. legacy_compare a cs cap (Some (Text (to_crlf t))) w = (Inr op, w') \<and>
    \<not> lx_material (so_value op) \<and> lx_discrepancy (so_value op) = None"
proof -
  have "same_output t (to_crlf t)"
    using assms(5,6) by (simp add: same_output_def text_projection_def utf8_valid_to_crlf normalize_to_crlf)
  with legacy_compare_works [OF assms(1-3), of "Some (Text (to_crlf t))" w] assms(4) show ?thesis
    by fastforce
qed

theorem line_endings_not_material_witness:
  "\<exists>op w'. legacy_compare example_adapter example_case (example_capture [CHR ''a'', newline, CHR ''b''])
     (Some (Text (to_crlf [CHR ''a'', newline, CHR ''b'']))) (quiet_world []) = (Inr op, w') \<and>
     \<not> lx_material (so_value op)"
  using line_endings_not_material [OF example_adapter_works, of "example_capture [CHR ''a'', newline, CHR ''b'']"
      example_case "[CHR ''a'', newline, CHR ''b'']" "quiet_world []"]
  by (auto simp: consistent_capture_def example_capture_def example_case_def newline_def code_def)

text \<open>A claim mapped from a legacy capture carries no authority: it is an unverified derived claim
  of the given case without authority state, so the authority layer yields no human-selection guard and
  no promotion authorization for it, whatever decision is supplied.\<close>

theorem legacy_claim_without_authority:
  assumes "map_claim a cs cap ci su pre ob vf vt w = (Inr op, w')"
  shows "cl_evidence_state (lm_claim (so_value op)) = Ev_UNVERIFIED \<and>
    cl_case_id (lm_claim (so_value op)) = cs_case_id cs \<and> lc_case_id cap = cs_case_id cs \<and>
    rc_output_commit (so_receipt op) = None \<and>
    human_selection_guards (lm_claim (so_value op)) d s \<noteq> Inr {''human_decision_present''} \<and>
    (\<nexists>auth v'. issue_promotion_authorization l (lm_claim (so_value op)) d' s t v = (Inr auth, v'))"
proof -
  from assms have "lm_claim (so_value op) = \<lparr>cl_claim_id = ci, cl_case_id = cs_case_id cs, cl_subject = su,
      cl_predicate = pre, cl_object = ob, cl_valid_from = vf, cl_valid_to = vt, cl_claim_type = DERIVED_CLAIM,
      cl_evidence_state = Ev_UNVERIFIED, cl_authority_state = Auth_NONE\<rparr>" "lc_case_id cap = cs_case_id cs"
    "rc_output_commit (so_receipt op) = None"
    by (auto simp: map_claim_def bindI_Inr throw_if_Inr claim_post_init_Inr require_case_def dest!: legacy_receipt_output)
  then show ?thesis
    using issue_promotion_authorization_Inr [of l "lm_claim (so_value op)"] human_selection_guards_present [of "lm_claim (so_value op)"]
    by fastforce
qed

theorem legacy_claim_without_authority_witness:
  "\<exists>op w'. map_claim example_adapter example_case (example_capture ''out'') ''claim-1'' ''s'' ''p'' ''o'' None None (quiet_world [])
     = (Inr op, w') \<and>
     human_selection_guards (lm_claim (so_value op)) (Some example_decision) example_scope \<noteq> Inr {''human_decision_present''}"
proof -
  obtain r where "legacy_receipt example_adapter ''LEGACY_SHADOW_MAP_CLAIM'' [sha256 ''out''] [] ''MAPPED:NON_AUTHORITATIVE''
      None (quiet_world []) = (Inr r, (quiet_world [])\<lparr>w_tick := w_tick (quiet_world []) + 2\<rparr>)"
    using legacy_receipt_works [OF example_adapter_works, of "[sha256 ''out'']" "[]" "''LEGACY_SHADOW_MAP_CLAIM''"
        "''MAPPED:NON_AUTHORITATIVE''" "quiet_world []"] by auto
  then have "\<exists>op w'. map_claim example_adapter example_case (example_capture ''out'') ''claim-1'' ''s'' ''p'' ''o'' None None
      (quiet_world []) = (Inr op, w')"
    by (auto simp: map_claim_def bindI_Inr throw_if_Inr claim_post_init_Inr require_case_def example_case_def example_capture_def)
  then show ?thesis using legacy_claim_without_authority by blast
qed

end
