(* ===== verification/HashChain.thy ===== *)
theory HashChain
  imports Sha256
begin

section \<open>Hash-chained logs\<close>

text \<open>
  The audit ledger and the applied-migration history share one shape: every record carries the hash of the
  one before it and the hash of its own body.  The locale states what a record type needs for the chain
  to be tamper-evident and proves it once: two accepted logs with the same last hash are the same log, or
  their bodies exhibit a collision of SHA-256.
\<close>

fun chain_from ::
  "('e \<Rightarrow> string option) \<Rightarrow> ('e \<Rightarrow> string) \<Rightarrow> ('e \<Rightarrow> string) \<Rightarrow> string option \<Rightarrow> 'e list \<Rightarrow> bool" where
  "chain_from prev own body p [] = True"
| "chain_from prev own body p (x # xs) =
     (prev x = p \<and> own x = sha256 (body x) \<and> chain_from prev own body (Some (own x)) xs)"

definition last_hash :: "('e \<Rightarrow> string) \<Rightarrow> string option \<Rightarrow> 'e list \<Rightarrow> string option" where
  "last_hash own p xs = (if xs = [] then p else Some (own (last xs)))"

lemma last_hash_simps [simp]:
  "last_hash own p [] = p" "last_hash own p (x # xs) = last_hash own (Some (own x)) xs"
  "last_hash own p (xs @ [y]) = Some (own y)"
  by (simp_all add: last_hash_def)

lemma chain_snoc:
  "chain_from prev own body p (xs @ [y]) \<longleftrightarrow>
     chain_from prev own body p xs \<and> prev y = last_hash own p xs \<and> own y = sha256 (body y)"
  by (induction xs arbitrary: p) auto

definition collision :: "string \<Rightarrow> string \<Rightarrow> bool" where
  "collision a b \<longleftrightarrow> a \<noteq> b \<and> sha256 a = sha256 b"

locale hash_chain =
  fixes prev :: "'e \<Rightarrow> string option" and own body :: "'e \<Rightarrow> string" and ok :: "'e \<Rightarrow> bool"
  assumes body_unique: "ok x \<Longrightarrow> ok y \<Longrightarrow> body x = body y \<Longrightarrow> own x = own y \<Longrightarrow> x = y"
begin

lemma last_hash_fixes_log:
  assumes "chain_from prev own body None xs" "chain_from prev own body None ys" "list_all ok xs" "list_all ok ys"
    and "last_hash own None xs = last_hash own None ys"
  shows "xs = ys \<or> (\<exists>x \<in> set xs. \<exists>y \<in> set ys. collision (body x) (body y))"
  using assms
proof (induction xs arbitrary: ys rule: rev_induct)
  case Nil
  then show ?case by (cases ys rule: rev_cases) auto
next
  case (snoc x xs)
  then obtain zs y where ys: "ys = zs @ [y]" by (cases ys rule: rev_cases) auto
  from snoc.prems ys have own: "own x = own y" "own x = sha256 (body x)" "own y = sha256 (body y)"
    and rest: "chain_from prev own body None xs" "chain_from prev own body None zs" "list_all ok xs" "list_all ok zs"
    and ends: "ok x" "ok y" "prev x = last_hash own None xs" "prev y = last_hash own None zs"
    by (simp_all add: chain_snoc)
  show ?case
  proof (cases "body x = body y")
    case True
    with body_unique own ends have xy: "x = y" by blast
    with ends have "last_hash own None xs = last_hash own None zs" by simp
    from snoc.IH [OF rest this] show ?thesis using ys xy by auto
  next
    case False
    with own show ?thesis unfolding ys collision_def by auto
  qed
qed

lemma prefix_kept: "chain_from prev own body p (xs @ ys) \<Longrightarrow> chain_from prev own body p xs"
  by (induction xs arbitrary: p) auto

end

end
