(* ===== verification/Preflight.thy ===== *)
theory Preflight
  imports Authority StateMachine
begin

section \<open>Promotion preflight\<close>

text \<open>
  \<open>galia2/preflight.py\<close>: twelve checks of a candidate generation, its rollback target and the
  promotion authorization.  The report carries the guards of the state machine only if every check
  passed; the lemmas give the exact condition and show that the evaluation never raises on validated
  snapshots.
\<close>

definition unique_strings :: "string \<Rightarrow> bool \<Rightarrow> string list \<Rightarrow> string list res" where
  "unique_strings name allow_empty vs =
     (if \<not> allow_empty \<and> vs = [] then Inl (ValueError (name @ '' must not be empty''))
      else bindE (mapE (required name) vs) (\<lambda>_.
        if \<not> distinct vs then Inl (ValueError (name @ '' must contain unique values'')) else Inr vs))"

lemma unique_strings_Inr [result_simps]:
  "unique_strings n b vs = Inr us \<longleftrightarrow>
     us = vs \<and> distinct vs \<and> list_all (\<lambda>v. \<not> blank v) vs \<and> (b \<or> vs \<noteq> [])"
  by (auto simp: unique_strings_def result_simps)

record candidate_snapshot =
  cn_case_id :: string
  cn_target_commit :: string
  cn_parent_commit :: string
  cn_manifest_hash :: string
  cn_payload_hashes :: "string list"
  cn_lineage_complete :: bool
  cn_schema_version :: string
  cn_completed_stages :: "string list"
  cn_blocking_discrepancy_ids :: "string list"
  cn_authority_decision_id :: string

definition candidate_post_init :: "candidate_snapshot \<Rightarrow> candidate_snapshot res" where
  "candidate_post_init c =
     bindE (requireds [(''case_id'', cn_case_id c), (''target_commit'', cn_target_commit c),
                       (''parent_commit'', cn_parent_commit c)]) (\<lambda>_.
     bindE (hash_field ''manifest_hash'' (cn_manifest_hash c)) (\<lambda>mh.
     bindE (raise_if (cn_payload_hashes c = []) (ValueError ''payload_hashes must not be empty'')) (\<lambda>_.
     bindE (mapE (hash_field ''payload_hash'') (cn_payload_hashes c)) (\<lambda>phs.
     bindE (required ''schema_version'' (cn_schema_version c)) (\<lambda>_.
     bindE (unique_strings ''completed_stages'' False (cn_completed_stages c)) (\<lambda>stages.
     bindE (unique_strings ''blocking_discrepancy_ids'' True (cn_blocking_discrepancy_ids c)) (\<lambda>ids.
     bindE (required ''authority_decision_id'' (cn_authority_decision_id c)) (\<lambda>_.
     bindE (raise_if (cn_target_commit c = cn_parent_commit c)
              (ValueError ''target_commit cannot equal parent_commit'')) (\<lambda>_.
     Inr (c\<lparr>cn_manifest_hash := mh, cn_payload_hashes := phs, cn_completed_stages := stages,
            cn_blocking_discrepancy_ids := ids\<rparr>))))))))))"

record rollback_snapshot =
  rb_commit_id :: string
  rb_manifest_hash :: string
  rb_integrity_valid :: bool
  rb_schema_compatible :: bool
  rb_authority_refs_valid :: bool
  rb_known_good :: bool

definition rollback_post_init :: "rollback_snapshot \<Rightarrow> rollback_snapshot res" where
  "rollback_post_init r =
     bindE (required ''commit_id'' (rb_commit_id r)) (\<lambda>_.
     bindE (hash_field ''manifest_hash'' (rb_manifest_hash r)) (\<lambda>h. Inr (r\<lparr>rb_manifest_hash := h\<rparr>)))"

interpretation candidate_data: data_class candidate_post_init
  by unfold_locales
    (auto simp: candidate_post_init_def result_simps list_all_iff lower_lower_hex64 hex64_lower)

interpretation rollback_data: data_class rollback_post_init
  by unfold_locales (auto simp: rollback_post_init_def result_simps)

record preflight_check =
  ck_name :: string
  ck_passed :: bool
  ck_detail :: string

definition check_post_init :: "preflight_check \<Rightarrow> preflight_check res" where
  "check_post_init c =
     bindE (requireds [(''name'', ck_name c), (''detail'', ck_detail c)]) (\<lambda>_. Inr c)"

record preflight_report =
  pr_case_id :: string
  pr_target_commit :: string
  pr_passed :: bool
  pr_checks :: "preflight_check list"
  pr_guards :: "string set"
  pr_receipt :: receipt

definition failed_checks :: "preflight_report \<Rightarrow> preflight_check list" where
  "failed_checks r = filter (\<lambda>c. \<not> ck_passed c) (pr_checks r)"

record promotion_preflight =
  pp_policy_version :: string
  pp_authority_policy :: string
  pp_schema_version :: string
  pp_required_stages :: "string list"
  pp_actor :: string
  pp_clock :: "nat \<Rightarrow> datetime"
  pp_id :: "string \<Rightarrow> nat \<Rightarrow> string"

definition preflight_init :: "promotion_preflight \<Rightarrow> promotion_preflight res" where
  "preflight_init p =
     bindE (requireds [(''policy_version'', pp_policy_version p),
                       (''accepted_authority_policy_version'', pp_authority_policy p),
                       (''required_schema_version'', pp_schema_version p), (''actor'', pp_actor p)]) (\<lambda>_.
     bindE (unique_strings ''required_stages'' False (pp_required_stages p)) (\<lambda>stages.
     Inr (p\<lparr>pp_required_stages := stages\<rparr>)))"

definition authorization_matches ::
  "promotion_preflight \<Rightarrow> candidate_snapshot \<Rightarrow> promotion_authorization option \<Rightarrow> authority_scope \<Rightarrow> bool" where
  "authorization_matches p c authorization scope =
     (case authorization of None \<Rightarrow> False
      | Some a \<Rightarrow>
          sc_case_id scope = cn_case_id c \<and> pa_scope a = scope \<and> sc_case_id (pa_scope a) = cn_case_id c \<and>
          pa_target_commit a = cn_target_commit c \<and> pa_decision_id a = cn_authority_decision_id c \<and>
          pa_policy_version a = pp_authority_policy p)"

definition make_check :: "string \<times> bool \<times> string \<Rightarrow> preflight_check res" where
  "make_check = (\<lambda>(name, passed, detail).
     check_post_init \<lparr>ck_name = name, ck_passed = passed, ck_detail = detail\<rparr>)"

definition preflight_checks ::
  "promotion_preflight \<Rightarrow> candidate_snapshot \<Rightarrow> rollback_snapshot \<Rightarrow> promotion_authorization option \<Rightarrow>
     authority_scope \<Rightarrow> (string \<times> bool \<times> string) list" where
  "preflight_checks p c r authorization scope =
     [(''lineage_complete'', cn_lineage_complete c, ''candidate lineage must be complete''),
      (''schema_valid'', cn_schema_version c = pp_schema_version p,
       ''candidate schema='' @ cn_schema_version c @ ''; required='' @ pp_schema_version p),
      (''required_stages_complete'', set (pp_required_stages p) \<subseteq> set (cn_completed_stages c),
       ''all required preflight stages must be complete''),
      (''no_blocking_discrepancy'', cn_blocking_discrepancy_ids c = [],
       ''candidate must have no blocking discrepancies''),
      (''authority_decision_present'', cn_authority_decision_id c \<noteq> [],
       ''candidate must bind an authority decision''),
      (''authorization_present'', authorization \<noteq> None, ''promotion authorization must be present''),
      (''authorization_matches_target'', authorization_matches p c authorization scope,
       ''authorization must match case, scope, decision, target commit, and authority policy''),
      (''rollback_parent_match'', rb_commit_id r = cn_parent_commit c,
       ''rollback target must be the candidate parent commit''),
      (''rollback_integrity_valid'', rb_integrity_valid r, ''rollback target integrity must be verified''),
      (''rollback_schema_compatible'', rb_schema_compatible r, ''rollback target schema must be compatible''),
      (''rollback_authority_refs_valid'', rb_authority_refs_valid r,
       ''rollback target authority references must be valid''),
      (''rollback_known_good'', rb_known_good r, ''rollback target must be explicitly known-good'')]"

definition preflight_evaluate ::
  "promotion_preflight \<Rightarrow> candidate_snapshot \<Rightarrow> rollback_snapshot \<Rightarrow> promotion_authorization option \<Rightarrow>
     authority_scope \<Rightarrow> preflight_report io" where
  "preflight_evaluate p c r authorization scope =
     bindI (lift (mapE make_check (preflight_checks p c r authorization scope))) (\<lambda>checks.
     let passed = list_all ck_passed checks;
         guards = (if passed then {''preflight_passed'', ''rollback_target_verified''} else {});
         result = (if passed then ''PASS''
                   else ''FAIL:'' @ join '','' (map ck_name (filter (\<lambda>k. \<not> ck_passed k) checks))) in
     bindI (call (pp_id p ''receipt'')) (\<lambda>rid.
     bindI (call (pp_clock p)) (\<lambda>now.
     bindI (lift (receipt_post_init
       \<lparr>rc_receipt_id = rid, rc_operation = ''PROMOTION_PREFLIGHT'',
        rc_input_commit = Some (cn_target_commit c),
        rc_input_hashes = cn_manifest_hash c # cn_payload_hashes c @ [rb_manifest_hash r],
        rc_output_commit = None, rc_output_hashes = [], rc_policy_version = pp_policy_version p,
        rc_actor = pp_actor p, rc_timestamp = now, rc_result = result\<rparr>)) (\<lambda>receipt.
     ret \<lparr>pr_case_id = cn_case_id c, pr_target_commit = cn_target_commit c, pr_passed = passed,
          pr_checks = checks, pr_guards = guards, pr_receipt = receipt\<rparr>))))"

subsection \<open>The decision\<close>

definition ready_for_promotion ::
  "promotion_preflight \<Rightarrow> candidate_snapshot \<Rightarrow> rollback_snapshot \<Rightarrow> promotion_authorization option \<Rightarrow>
     authority_scope \<Rightarrow> bool" where
  \<comment> \<open>the contract of the preflight, as one condition\<close>
  "ready_for_promotion p c r authorization scope \<longleftrightarrow>
     cn_lineage_complete c \<and> cn_schema_version c = pp_schema_version p \<and>
     set (pp_required_stages p) \<subseteq> set (cn_completed_stages c) \<and>
     cn_blocking_discrepancy_ids c = [] \<and> cn_authority_decision_id c \<noteq> [] \<and>
     (\<exists>a. authorization = Some a \<and> pa_scope a = scope \<and> sc_case_id scope = cn_case_id c \<and>
        pa_target_commit a = cn_target_commit c \<and> pa_decision_id a = cn_authority_decision_id c \<and>
        pa_policy_version a = pp_authority_policy p) \<and>
     rb_commit_id r = cn_parent_commit c \<and> rb_integrity_valid r \<and> rb_schema_compatible r \<and>
     rb_authority_refs_valid r \<and> rb_known_good r"

lemma make_check_Inr [result_simps]:
  "make_check (n, b, d) = Inr k \<longleftrightarrow>
     \<not> blank n \<and> \<not> blank d \<and> k = \<lparr>ck_name = n, ck_passed = b, ck_detail = d\<rparr>"
  by (auto simp: make_check_def check_post_init_def result_simps)

lemma preflight_checks_built:
  "mapE make_check (preflight_checks p c r a s) =
     Inr (map (\<lambda>(n, b, d). \<lparr>ck_name = n, ck_passed = b, ck_detail = d\<rparr>) (preflight_checks p c r a s))"
  by (simp add: preflight_checks_def make_check_def check_post_init_def required_def)

lemma preflight_checks_all:
  "list_all (\<lambda>(n, b, d). b) (preflight_checks p c r a s) \<longleftrightarrow> ready_for_promotion p c r a s"
  unfolding preflight_checks_def ready_for_promotion_def authorization_matches_def
  by (cases a) auto

lemma checks_passed:
  "list_all ck_passed (map (\<lambda>(n, b, d). \<lparr>ck_name = n, ck_passed = b, ck_detail = d\<rparr>) xs) = list_all (\<lambda>(n, b, d). b) xs"
  by (induction xs) auto

lemma preflight_evaluate_Inr:
  assumes "preflight_evaluate p c r a s w = (Inr rep, w')"
  shows "(pr_passed rep \<longleftrightarrow> ready_for_promotion p c r a s) \<and>
    pr_guards rep = (if pr_passed rep then {''preflight_passed'', ''rollback_target_verified''} else {}) \<and>
    pr_case_id rep = cn_case_id c \<and> pr_target_commit rep = cn_target_commit c \<and>
    rc_output_commit (pr_receipt rep) = None \<and> receipt_ok (pr_receipt rep) \<and>
    rc_result (pr_receipt rep) = (if pr_passed rep then ''PASS'' else ''FAIL:'' @ join '','' (map ck_name (failed_checks rep)))"
  using assms
  by (auto simp: preflight_evaluate_def preflight_checks_built checks_passed preflight_checks_all Let_def
      failed_checks_def bindI_Inr call_Inr dest!: receipt_post_init_stored)

lemma preflight_frame [frame_rules]: "keeps (=) (preflight_evaluate p c r a s)"
  unfolding preflight_evaluate_def Let_def by (intro frame_rules)

definition preflight_works :: "promotion_preflight \<Rightarrow> bool" where
  "preflight_works p \<longleftrightarrow>
     \<not> blank (pp_policy_version p) \<and> \<not> blank (pp_actor p) \<and>
     (\<forall>n. \<not> blank (pp_id p ''receipt'' n)) \<and> (\<forall>n. aware (pp_clock p n))"

lemma preflight_evaluate_returns:
  assumes "preflight_works p" "candidate_post_init c = Inr c" "rollback_post_init r = Inr r"
  shows "\<exists>rep. preflight_evaluate p c r a s w = (Inr rep, w\<lparr>w_tick := w_tick w + 2\<rparr>)"
proof -
  from assms(2,3) have "list_all hex64 (cn_manifest_hash c # cn_payload_hashes c @ [rb_manifest_hash r])"
    "\<not> blank (cn_target_commit c)"
    by (auto simp: candidate_post_init_def rollback_post_init_def result_simps)
  then show ?thesis using assms(1)
    by (auto simp: preflight_evaluate_def preflight_checks_built Let_def bindI_Inr call_Inr
        receipt_post_init_Inr preflight_works_def)
qed

subsection \<open>Properties\<close>

definition example_preflight :: promotion_preflight where
  "example_preflight = \<lparr>pp_policy_version = ''p6-v1'', pp_authority_policy = ''p5-v1'',
     pp_schema_version = ''schema-1'', pp_required_stages = [''ingest''], pp_actor = ''ci'',
     pp_clock = example_time, pp_id = example_id\<rparr>"

definition example_hash :: string where
  "example_hash = replicate 64 CHR ''a''"

definition example_candidate :: candidate_snapshot where
  "example_candidate = \<lparr>cn_case_id = ''case-1'', cn_target_commit = ''commit-2'', cn_parent_commit = ''commit-1'',
     cn_manifest_hash = example_hash, cn_payload_hashes = [example_hash], cn_lineage_complete = True,
     cn_schema_version = ''schema-1'', cn_completed_stages = [''ingest''], cn_blocking_discrepancy_ids = [],
     cn_authority_decision_id = ''decision-1''\<rparr>"

definition example_rollback :: rollback_snapshot where
  "example_rollback = \<lparr>rb_commit_id = ''commit-1'', rb_manifest_hash = example_hash, rb_integrity_valid = True,
     rb_schema_compatible = True, rb_authority_refs_valid = True, rb_known_good = True\<rparr>"

lemma example_hash_hex: "hex64 example_hash" "lower example_hash = example_hash"
proof -
  have "lower_hex64 example_hash"
    by (simp add: lower_hex64_def example_hash_def list_all_iff lower_hex_digit_def code_def)
  then show "hex64 example_hash" "lower example_hash = example_hash"
    by (simp_all add: lower_hex64_hex64 lower_lower_hex64)
qed

lemma example_preflight_valid:
  "preflight_works example_preflight" "candidate_post_init example_candidate = Inr example_candidate"
  "rollback_post_init example_rollback = Inr example_rollback"
  by (simp_all add: preflight_works_def example_preflight_def candidate_post_init_def example_candidate_def
      rollback_post_init_def example_rollback_def required_def hash_field_def hex64_not_blank
      example_hash_hex unique_strings_def example_id_def)

text \<open>On validated snapshots the preflight always returns a report.  The report passes, and carries
  the two preflight guards, if and only if the candidate is complete and unobstructed, the authorization
  matches it exactly and the rollback target is its verified known-good parent; a failing report carries no guard
  and its receipt names the failed checks in order.\<close>

theorem preflight_decides_readiness:
  assumes "preflight_works p" "candidate_post_init c = Inr c" "rollback_post_init r = Inr r"
  shows "\<exists>rep w'. preflight_evaluate p c r a s w = (Inr rep, w') \<and> w_fs w' = w_fs w \<and>
    (pr_passed rep \<longleftrightarrow> ready_for_promotion p c r a s) \<and>
    pr_guards rep = (if ready_for_promotion p c r a s then {''preflight_passed'', ''rollback_target_verified''} else {}) \<and>
    rc_result (pr_receipt rep) = (if pr_passed rep then ''PASS'' else ''FAIL:'' @ join '','' (map ck_name (failed_checks rep)))"
proof -
  obtain rep where "preflight_evaluate p c r a s w = (Inr rep, w\<lparr>w_tick := w_tick w + 2\<rparr>)"
    using preflight_evaluate_returns [OF assms] by blast
  with preflight_evaluate_Inr [OF this] show ?thesis by auto
qed

theorem preflight_decides_readiness_witness:
  "\<exists>rep w'. preflight_evaluate example_preflight example_candidate example_rollback None example_scope (quiet_world [])
     = (Inr rep, w') \<and> pr_guards rep = {}"
  using preflight_decides_readiness [OF example_preflight_valid, of None example_scope "quiet_world []"]
  by (auto simp: ready_for_promotion_def)



end
