(* ===== verification/Generations.thy ===== *)
theory Generations
  imports Preflight LegacyAdapter
begin

section \<open>Generation records\<close>

text \<open>
  The data classes of \<open>galia2/persistence.py\<close> and their canonical files: payload entry, candidate
  manifest, promotion envelope and HEAD pointer, with the parsers the store uses to read them back.
  A message that quotes a value with \<open>repr\<close> is modelled up to the quotation.  Each record is an
  instance of \<open>json_codec\<close>: what was written is what is read, and different records have different
  bytes.
\<close>

subsection \<open>Payload entries\<close>

definition safe_payload_path :: "string \<Rightarrow> string res" where
  "safe_payload_path v =
     bindE (required ''payload path'' v) (\<lambda>_.
     bindE (raise_if (absolute v \<or> ''..'' \<in> set (parts v) \<or> v \<in> {''manifest.json'', ''promotion.json'', ''HEAD''})
              (ValueError ''unsafe payload path'')) (\<lambda>_.
     bindE (raise_if (parts v = [] \<or> list_ex (\<lambda>c. c = '''' \<or> c = ''.'') (parts v))
              (ValueError ''unsafe payload path'')) (\<lambda>_.
     let normalized = as_posix (parts v) in
     bindE (raise_if (take 8 normalized = ''payload/'')
              (ValueError ''payload paths are relative to the payload directory'')) (\<lambda>_.
     Inr normalized))))"

record payload_entry =
  pe_path :: string
  pe_sha256 :: string
  pe_byte_size :: int

definition payload_entry_post_init :: "payload_entry \<Rightarrow> payload_entry res" where
  "payload_entry_post_init e =
     bindE (safe_payload_path (pe_path e)) (\<lambda>p.
     bindE (hash_field ''sha256'' (pe_sha256 e)) (\<lambda>h.
     bindE (raise_if (pe_byte_size e < 0) (ValueError ''byte_size must be a non-negative integer'')) (\<lambda>_.
     Inr (e\<lparr>pe_path := p, pe_sha256 := h\<rparr>))))"

subsection \<open>Candidate manifest\<close>

record generation_manifest =
  gm_commit_id :: string
  gm_seq :: int
  gm_parent_commit :: string
  gm_case_id :: string
  gm_schema_version :: string
  gm_created_at :: datetime
  gm_payloads :: "payload_entry list"
  gm_authority_decision_id :: string
  gm_policy_version :: string

definition manifest_post_init :: "generation_manifest \<Rightarrow> generation_manifest res" where
  "manifest_post_init m =
     bindE (requireds [(''commit_id'', gm_commit_id m), (''parent_commit'', gm_parent_commit m),
                       (''case_id'', gm_case_id m), (''schema_version'', gm_schema_version m),
                       (''authority_decision_id'', gm_authority_decision_id m),
                       (''persistence_policy_version'', gm_policy_version m)]) (\<lambda>_.
     bindE (raise_if (gm_seq m < 1) (ValueError ''seq must be a positive integer'')) (\<lambda>_.
     bindE (raise_if (gm_commit_id m = gm_parent_commit m)
              (ValueError ''commit_id cannot equal parent_commit'')) (\<lambda>_.
     bindE (aware_field ''created_at'' (gm_created_at m)) (\<lambda>_.
     bindE (raise_if (gm_payloads m = [])
              (ValueError ''generation manifest requires at least one payload'')) (\<lambda>_.
     bindE (raise_if (\<not> distinct (map pe_path (gm_payloads m)))
              (ValueError ''payload paths must be unique'')) (\<lambda>_.
     Inr m))))))"

definition payload_json :: "payload_entry \<Rightarrow> json" where
  "payload_json p =
     JObj [(''byte_size'', JInt (pe_byte_size p)), (''path'', JStr (pe_path p)), (''sha256'', JStr (pe_sha256 p))]"

definition manifest_json :: "generation_manifest \<Rightarrow> json" where
  "manifest_json m =
     JObj [(''authority_decision_id'', JStr (gm_authority_decision_id m)),
           (''case_id'', JStr (gm_case_id m)),
           (''commit_id'', JStr (gm_commit_id m)),
           (''created_at'', JStr (isoformat (gm_created_at m))),
           (''parent_commit'', JStr (gm_parent_commit m)),
           (''payloads'', JList (map payload_json (gm_payloads m))),
           (''persistence_policy_version'', JStr (gm_policy_version m)),
           (''schema_version'', JStr (gm_schema_version m)),
           (''seq'', JInt (gm_seq m))]"

definition manifest_bytes :: "generation_manifest \<Rightarrow> string" where
  "manifest_bytes m = dumps (manifest_json m)"

definition manifest_sha256 :: "generation_manifest \<Rightarrow> string" where
  "manifest_sha256 m = sha256 (manifest_bytes m)"

subsection \<open>Promotion envelope\<close>

record promotion_envelope =
  pv_commit_id :: string
  pv_case_id :: string
  pv_manifest_hash :: string
  pv_authority_decision_id :: string
  pv_authorization_id :: string
  pv_authorization_policy :: string
  pv_preflight_receipt_id :: string
  pv_policy_version :: string
  pv_published_at :: datetime

definition envelope_post_init :: "promotion_envelope \<Rightarrow> promotion_envelope res" where
  "envelope_post_init e =
     bindE (requireds [(''commit_id'', pv_commit_id e), (''case_id'', pv_case_id e)]) (\<lambda>_.
     bindE (hash_field ''manifest_hash'' (pv_manifest_hash e)) (\<lambda>h.
     bindE (requireds [(''authority_decision_id'', pv_authority_decision_id e),
                       (''authorization_id'', pv_authorization_id e),
                       (''authorization_policy_version'', pv_authorization_policy e),
                       (''preflight_receipt_id'', pv_preflight_receipt_id e),
                       (''persistence_policy_version'', pv_policy_version e)]) (\<lambda>_.
     bindE (aware_field ''published_at'' (pv_published_at e)) (\<lambda>_.
     Inr (e\<lparr>pv_manifest_hash := h\<rparr>)))))"

definition envelope_json :: "promotion_envelope \<Rightarrow> json" where
  "envelope_json e =
     JObj [(''authority_decision_id'', JStr (pv_authority_decision_id e)),
           (''authorization_id'', JStr (pv_authorization_id e)),
           (''authorization_policy_version'', JStr (pv_authorization_policy e)),
           (''case_id'', JStr (pv_case_id e)),
           (''commit_id'', JStr (pv_commit_id e)),
           (''manifest_hash'', JStr (pv_manifest_hash e)),
           (''persistence_policy_version'', JStr (pv_policy_version e)),
           (''preflight_receipt_id'', JStr (pv_preflight_receipt_id e)),
           (''published_at'', JStr (isoformat (pv_published_at e)))]"

definition envelope_bytes :: "promotion_envelope \<Rightarrow> string" where
  "envelope_bytes e = dumps (envelope_json e)"

definition envelope_sha256 :: "promotion_envelope \<Rightarrow> string" where
  "envelope_sha256 e = sha256 (envelope_bytes e)"

subsection \<open>HEAD pointer\<close>

record head_pointer =
  hp_commit_id :: string
  hp_seq :: int
  hp_manifest_hash :: string
  hp_promotion_hash :: string

definition head_post_init :: "head_pointer \<Rightarrow> head_pointer res" where
  "head_post_init h =
     bindE (required ''commit_id'' (hp_commit_id h)) (\<lambda>_.
     bindE (raise_if (hp_seq h < 1) (ValueError ''seq must be a positive integer'')) (\<lambda>_.
     bindE (hash_field ''manifest_hash'' (hp_manifest_hash h)) (\<lambda>mh.
     bindE (hash_field ''promotion_hash'' (hp_promotion_hash h)) (\<lambda>ph.
     Inr (h\<lparr>hp_manifest_hash := mh, hp_promotion_hash := ph\<rparr>)))))"

definition head_json :: "head_pointer \<Rightarrow> json" where
  "head_json h =
     JObj [(''commit_id'', JStr (hp_commit_id h)), (''manifest_hash'', JStr (hp_manifest_hash h)),
           (''promotion_hash'', JStr (hp_promotion_hash h)), (''seq'', JInt (hp_seq h))]"

definition head_bytes :: "head_pointer \<Rightarrow> string" where
  "head_bytes h = dumps (head_json h) @ [newline]"


subsection \<open>Reading the files back\<close>

text \<open>\<open>json.loads(raw.decode("utf-8"))\<close> with its two exceptions.\<close>

definition parse_json :: "string \<Rightarrow> json res" where
  "parse_json raw =
     (if \<not> utf8_valid raw then Inl (StdError ''UnicodeDecodeError'')
      else case loads raw of None \<Rightarrow> Inl (StdError ''JSONDecodeError'') | Some v \<Rightarrow> Inr v)"

definition payload_of_json :: "json \<Rightarrow> payload_entry res" where
  \<comment> \<open>\<open>PayloadEntry(**entry)\<close>\<close>
  "payload_of_json v =
     (case v of
        JObj kvs \<Rightarrow>
          if fst ` set kvs = {''byte_size'', ''path'', ''sha256''} then
            payload_entry_post_init
              \<lparr>pe_path = as_str (jget kvs ''path''), pe_sha256 = as_str (jget kvs ''sha256''),
               pe_byte_size = as_int (-1) (jget kvs ''byte_size'')\<rparr>
          else Inl (TypeError ''unexpected or missing keyword argument'')
      | _ \<Rightarrow> Inl (TypeError ''argument after ** must be a mapping''))"

definition manifest_of_json :: "json \<Rightarrow> generation_manifest res" where
  "manifest_of_json d =
     bindE (item d ''commit_id'') (\<lambda>commit. bindE (item d ''seq'') (\<lambda>seq.
     bindE (item d ''parent_commit'') (\<lambda>parent. bindE (item d ''case_id'') (\<lambda>case_id.
     bindE (item d ''schema_version'') (\<lambda>schema.
     bindE (item d ''created_at'') (\<lambda>created. bindE (as_datetime created) (\<lambda>created.
     bindE (item d ''payloads'') (\<lambda>ps. bindE (iterate ps) (\<lambda>ps.
     bindE (mapE payload_of_json ps) (\<lambda>payloads.
     bindE (item d ''authority_decision_id'') (\<lambda>decision.
     bindE (item d ''persistence_policy_version'') (\<lambda>policy.
     manifest_post_init
       \<lparr>gm_commit_id = as_str commit, gm_seq = as_int 0 seq, gm_parent_commit = as_str parent,
        gm_case_id = as_str case_id, gm_schema_version = as_str schema, gm_created_at = created,
        gm_payloads = payloads, gm_authority_decision_id = as_str decision,
        gm_policy_version = as_str policy\<rparr>))))))))))))"

definition envelope_of_json :: "json \<Rightarrow> promotion_envelope res" where
  "envelope_of_json d =
     bindE (item d ''commit_id'') (\<lambda>commit. bindE (item d ''case_id'') (\<lambda>case_id.
     bindE (item d ''manifest_hash'') (\<lambda>mh. bindE (item d ''authority_decision_id'') (\<lambda>decision.
     bindE (item d ''authorization_id'') (\<lambda>auth.
     bindE (item d ''authorization_policy_version'') (\<lambda>auth_policy.
     bindE (item d ''preflight_receipt_id'') (\<lambda>receipt.
     bindE (item d ''persistence_policy_version'') (\<lambda>policy.
     bindE (item d ''published_at'') (\<lambda>published. bindE (as_datetime published) (\<lambda>published.
     envelope_post_init
       \<lparr>pv_commit_id = as_str commit, pv_case_id = as_str case_id, pv_manifest_hash = as_str mh,
        pv_authority_decision_id = as_str decision, pv_authorization_id = as_str auth,
        pv_authorization_policy = as_str auth_policy, pv_preflight_receipt_id = as_str receipt,
        pv_policy_version = as_str policy, pv_published_at = published\<rparr>))))))))))"

definition head_of_json :: "json \<Rightarrow> head_pointer res" where
  "head_of_json d =
     bindE (item d ''commit_id'') (\<lambda>commit. bindE (item d ''seq'') (\<lambda>seq.
     bindE (item d ''manifest_hash'') (\<lambda>mh. bindE (item d ''promotion_hash'') (\<lambda>ph.
     head_post_init
       \<lparr>hp_commit_id = as_str commit, hp_seq = as_int 0 seq, hp_manifest_hash = as_str mh,
        hp_promotion_hash = as_str ph\<rparr>))))"

definition rewrap :: "string \<Rightarrow> 'a res \<Rightarrow> 'a res" where
  \<comment> \<open>\<open>except Exception as exc: raise PersistenceValidationError(f"...: {exc}")\<close>\<close>
  "rewrap what r = (case r of Inl e \<Rightarrow> Inl (PersistenceValidationError (what @ exc_str e)) | Inr x \<Rightarrow> Inr x)"

definition manifest_from_bytes :: "string \<Rightarrow> generation_manifest res" where
  "manifest_from_bytes raw =
     rewrap ''invalid generation manifest: '' (bindE (parse_json raw) manifest_of_json)"

definition envelope_from_bytes :: "string \<Rightarrow> promotion_envelope res" where
  "envelope_from_bytes raw =
     rewrap ''invalid promotion envelope: '' (bindE (parse_json raw) envelope_of_json)"

text \<open>\<open>read_text\<close> translates line ends while decoding.\<close>

definition head_from_bytes :: "string \<Rightarrow> head_pointer res" where
  "head_from_bytes raw =
     rewrap ''invalid HEAD: ''
       (bindE (if utf8_valid raw then Inr (normalize_newlines raw) else Inl (StdError ''UnicodeDecodeError'')) (\<lambda>t.
        bindE (parse_json t) head_of_json))"

lemma rewrap_Inr [simp]: "rewrap w r = Inr x \<longleftrightarrow> r = Inr x"
  by (cases r) (auto simp: rewrap_def)

subsection \<open>Well-formed records\<close>

definition entry_ok :: "payload_entry \<Rightarrow> bool" where
  "entry_ok e \<longleftrightarrow> payload_entry_post_init e = Inr e \<and> utf8_valid (pe_path e)"

definition manifest_ok :: "generation_manifest \<Rightarrow> bool" where
  "manifest_ok m \<longleftrightarrow>
     manifest_post_init m = Inr m \<and> list_all entry_ok (gm_payloads m) \<and> valid_datetime (gm_created_at m) \<and>
     list_all utf8_valid [gm_commit_id m, gm_parent_commit m, gm_case_id m, gm_schema_version m,
       gm_authority_decision_id m, gm_policy_version m]"

definition envelope_ok :: "promotion_envelope \<Rightarrow> bool" where
  "envelope_ok e \<longleftrightarrow>
     envelope_post_init e = Inr e \<and> valid_datetime (pv_published_at e) \<and>
     list_all utf8_valid [pv_commit_id e, pv_case_id e, pv_authority_decision_id e, pv_authorization_id e,
       pv_authorization_policy e, pv_preflight_receipt_id e, pv_policy_version e]"

definition head_ok :: "head_pointer \<Rightarrow> bool" where
  "head_ok h \<longleftrightarrow> head_post_init h = Inr h \<and> utf8_valid (hp_commit_id h)"

lemma lower_fixed_hex: "hex64 h \<Longrightarrow> lower h = h \<Longrightarrow> utf8_valid h"
  using hex64_lower [of h] by (simp add: utf8_valid_lower_hex64)

lemma entry_ok_hash: "entry_ok e \<Longrightarrow> utf8_valid (pe_sha256 e)"
  by (cases e) (auto simp: entry_ok_def payload_entry_post_init_def result_simps intro: lower_fixed_hex)

lemma payload_of_payload_json: "entry_ok e \<Longrightarrow> payload_of_json (payload_json e) = Inr e"
  by (cases e) (auto simp: payload_of_json_def payload_json_def jget_def entry_ok_def)

interpretation manifest_codec: json_codec manifest_json manifest_of_json manifest_ok
proof
  fix m
  assume ok: "manifest_ok m"
  then have entries: "\<And>e. e \<in> set (gm_payloads m) \<Longrightarrow> entry_ok e" by (auto simp: manifest_ok_def list_all_iff)
  then show "canonical (manifest_json m) \<and> utf8_json (manifest_json m)"
    using ok entry_ok_hash
    by (auto simp: manifest_json_def payload_json_def list_all_iff manifest_ok_def code_def entry_ok_def intro!: utf8_valid_ascii simp: ascii_def)
  have "mapE payload_of_json (map payload_json (gm_payloads m)) = Inr (gm_payloads m)"
    using entries by (simp add: mapE_Inr list_all2_map1 payload_of_payload_json list_all2_same)
  then show "manifest_of_json (manifest_json m) = Inr m"
    using ok by (cases m) (simp add: manifest_of_json_def manifest_json_def item_def manifest_ok_def)
qed

interpretation envelope_codec: json_codec envelope_json envelope_of_json envelope_ok
proof
  fix e
  assume ok: "envelope_ok e"
  then have "utf8_valid (pv_manifest_hash e)"
    by (cases e) (auto simp: envelope_ok_def envelope_post_init_def result_simps intro: lower_fixed_hex)
  with ok show "canonical (envelope_json e) \<and> utf8_json (envelope_json e)"
    by (auto simp: envelope_json_def envelope_ok_def code_def ascii_def intro!: utf8_valid_ascii)
  show "envelope_of_json (envelope_json e) = Inr e"
    using ok by (cases e) (simp add: envelope_of_json_def envelope_json_def item_def envelope_ok_def)
qed

interpretation head_codec: json_codec head_json head_of_json head_ok
proof
  fix h
  assume ok: "head_ok h"
  then have "utf8_valid (hp_manifest_hash h)" "utf8_valid (hp_promotion_hash h)"
    by (cases h; auto simp: head_ok_def head_post_init_def result_simps intro: lower_fixed_hex)+
  with ok show "canonical (head_json h) \<and> utf8_json (head_json h)"
    by (auto simp: head_json_def head_ok_def code_def ascii_def intro!: utf8_valid_ascii)
  show "head_of_json (head_json h) = Inr h"
    using ok by (cases h) (simp add: head_of_json_def head_json_def item_def head_ok_def)
qed

lemma manifest_read_back: "manifest_ok m \<Longrightarrow> manifest_from_bytes (manifest_bytes m) = Inr m"
  by (simp add: manifest_from_bytes_def manifest_bytes_def parse_json_def manifest_codec.line_utf8
      manifest_codec.text_back manifest_codec.reads)

lemma envelope_read_back: "envelope_ok e \<Longrightarrow> envelope_from_bytes (envelope_bytes e) = Inr e"
  by (simp add: envelope_from_bytes_def envelope_bytes_def parse_json_def envelope_codec.line_utf8
      envelope_codec.text_back envelope_codec.reads)

lemma head_read_back: "head_ok h \<Longrightarrow> head_from_bytes (head_bytes h) = Inr h"
  by (simp add: head_from_bytes_def head_bytes_def parse_json_def head_codec.line_utf8
      head_codec.line_back head_codec.reads normalize_line one_line_dumps)

text \<open>Normalisation of payload paths is not stable: the text \<open>./manifest.json\<close> passes the test for reserved
  names, is normalised to \<open>manifest.json\<close> and stored so, and the entry that was written is refused when the
  manifest is read back.\<close>

theorem normalised_name_is_not_read_back:
  "payload_entry_post_init \<lparr>pe_path = ''./manifest.json'', pe_sha256 = sha256 [], pe_byte_size = 0\<rparr> =
     Inr \<lparr>pe_path = ''manifest.json'', pe_sha256 = sha256 [], pe_byte_size = 0\<rparr> \<and>
   payload_of_json (payload_json \<lparr>pe_path = ''manifest.json'', pe_sha256 = sha256 [], pe_byte_size = 0\<rparr>) =
     Inl (ValueError ''unsafe payload path'')"
  by (simp add: payload_entry_post_init_def safe_payload_path_def parts_def Let_def required_def hash_field_def
      as_posix_def payload_of_json_def payload_json_def jget_def)

interpretation envelope_data: data_class envelope_post_init
  by unfold_locales (auto simp: envelope_post_init_def result_simps)

interpretation head_data: data_class head_post_init
  by unfold_locales (auto simp: head_post_init_def result_simps)

interpretation manifest_data: data_class manifest_post_init
  by unfold_locales (auto simp: manifest_post_init_def result_simps)

lemma manifest_post_init_Inr [result_simps]:
  "manifest_post_init m = Inr m' \<longleftrightarrow>
     m' = m \<and> \<not> blank (gm_commit_id m) \<and> \<not> blank (gm_parent_commit m) \<and> \<not> blank (gm_case_id m) \<and>
     \<not> blank (gm_schema_version m) \<and> \<not> blank (gm_authority_decision_id m) \<and> \<not> blank (gm_policy_version m) \<and>
     1 \<le> gm_seq m \<and> gm_commit_id m \<noteq> gm_parent_commit m \<and> aware (gm_created_at m) \<and> gm_payloads m \<noteq> [] \<and>
     distinct (map pe_path (gm_payloads m))"
  by (auto simp: manifest_post_init_def result_simps)

lemma head_post_init_Inr [result_simps]:
  "head_post_init h = Inr h' \<longleftrightarrow>
     \<not> blank (hp_commit_id h) \<and> 1 \<le> hp_seq h \<and> hex64 (hp_manifest_hash h) \<and> hex64 (hp_promotion_hash h) \<and>
     h' = h\<lparr>hp_manifest_hash := lower (hp_manifest_hash h), hp_promotion_hash := lower (hp_promotion_hash h)\<rparr>"
  by (auto simp: head_post_init_def result_simps)

end
