(* ===== verification/FileFrames.thy ===== *)
theory FileFrames
  imports FileSystem
begin

section \<open>What the file system calls change\<close>

text \<open>
  Two preorders on file trees.  \<open>preserved_outside U\<close>: no node outside \<open>U\<close> that existed has changed or
  disappeared.  \<open>writes_only p\<close>: nothing but \<open>p\<close> changed, except that missing parents of \<open>p\<close> became
  directories.  Both hold of a call whatever system call fails; the last part states what the calls
  have done when they succeed.
\<close>

definition preserved_outside :: "path set \<Rightarrow> fs \<Rightarrow> fs \<Rightarrow> bool" where
  "preserved_outside U s t \<longleftrightarrow> (\<forall>p n. p \<notin> U \<and> node_at s p = Some n \<longrightarrow> node_at t p = Some n)"

definition writes_only :: "path \<Rightarrow> fs \<Rightarrow> fs \<Rightarrow> bool" where
  "writes_only p s t \<longleftrightarrow>
     (\<forall>q. q \<noteq> p \<longrightarrow> node_at t q = node_at s q \<or>
        node_at s q = None \<and> node_at t q = Some Dir \<and> within q p)"

interpretation outside: effect_preorder "preserved_outside U" for U
  by unfold_locales (auto simp: preserved_outside_def)

interpretation only: effect_preorder "writes_only p" for p
  by unfold_locales (auto simp: writes_only_def, metis+)

lemma preserved_outside_mono: "preserved_outside U s t \<Longrightarrow> U \<subseteq> V \<Longrightarrow> preserved_outside V s t"
  by (auto simp: preserved_outside_def)

lemma writes_only_preserves: "writes_only p s t \<Longrightarrow> preserved_outside {p} s t"
  unfolding writes_only_def preserved_outside_def by fastforce

lemma keeps_mono: "keeps R m \<Longrightarrow> (\<And>s t. R s t \<Longrightarrow> Q s t) \<Longrightarrow> keeps Q m"
  by (auto simp: keeps_def)

abbreviation plain_path :: "path \<Rightarrow> bool" where
  "plain_path p \<equiv> ''..'' \<notin> set p"

text \<open>Calls that only read.\<close>

lemma read_bytes_frame [frame_rules]: "keeps (=) (read_bytes p)"
  unfolding read_bytes_def by (rule keeps_sys) (auto split: option.splits node.splits)

lemma fsync_frame [frame_rules]: "keeps (=) fsync_fd" "keeps (=) (fsync_dir p)"
proof -
  show "keeps (=) fsync_fd" unfolding fsync_fd_def by (rule keeps_sys) auto
  then show "keeps (=) (fsync_dir p)" unfolding fsync_dir_def
    by (intro frame_rules keeps_sys) (auto split: if_splits)
qed

lemma keeps_equal: "keeps (=) m \<Longrightarrow> (\<And>s. R s s) \<Longrightarrow> keeps R m"
  unfolding keeps_def by metis

text \<open>Calls that create.\<close>

definition adds :: "path \<Rightarrow> node \<Rightarrow> fs \<Rightarrow> fs \<Rightarrow> bool" where
  "adds q n s t \<longleftrightarrow> node_at s q = None \<and> t = fs_put q n s"

lemma node_at_Nil [simp]: "node_at s [] = Some Dir"
  by (simp add: node_at_def)

lemma adds_node_at: "adds q n s t \<Longrightarrow> node_at t r = (if r = q then Some n else node_at s r)"
  by (cases "q = []") (auto simp: adds_def node_at_put)

lemma make_dir_effect:
  assumes "make_dir p leaf w = (r, w')"
  shows "w_fs w' = w_fs w \<or> (\<exists>q. resolve (w_fs w) p = Some q \<and> adds q Dir (w_fs w) (w_fs w'))"
  using assms unfolding make_dir_def
  by (auto dest!: sys_fs simp: adds_def split: option.splits node.splits if_splits)

lemma make_dir_outside: "keeps (preserved_outside U) (make_dir p leaf)"
  by (rule keepsI, drule make_dir_effect) (auto simp: preserved_outside_def adds_node_at adds_def)

lemma mkdir_outside: "keeps (preserved_outside U) (mkdir_parents p)"
proof -
  have "keeps (preserved_outside U) (make_dirs_from cur q)" for cur q
    by (induction cur q rule: make_dirs_from.induct)
      (auto intro!: outside.keeps_bind outside.keeps_pure make_dir_outside)
  then show ?thesis by (simp add: mkdir_parents_def)
qed

lemma make_dir_only:
  assumes "plain_path p" "within p q"
  shows "keeps (writes_only q) (make_dir p leaf)"
  using assms
  by (intro keepsI, drule_tac make_dir_effect) (auto simp: writes_only_def adds_node_at adds_def split: if_splits)

lemma mkdir_only:
  assumes "plain_path p" "within p q"
  shows "keeps (writes_only q) (mkdir_parents p)"
proof -
  have "keeps (writes_only q) (make_dirs_from cur r)" if "plain_path (cur @ r)" "within (cur @ r) q" for cur r
    using that
  proof (induction cur r rule: make_dirs_from.induct)
    case (2 cur c cs)
    then have "within (cur @ [c]) q" by (auto simp: within_iff)
    with 2 show ?case by (auto intro!: only.keeps_bind make_dir_only)
  qed (simp add: only.keeps_pure)
  with assms show ?thesis by (simp add: mkdir_parents_def)
qed

lemma open_new_effect:
  assumes "open_new p w = (r, w')"
  shows "w_fs w' = w_fs w \<and> (\<forall>q. r \<noteq> Inr q) \<or>
    (\<exists>q. resolve (w_fs w) p = Some q \<and> adds q (File []) (w_fs w) (w_fs w') \<and> r = Inr q)"
  using assms unfolding open_new_def sys_def
  by (auto simp: adds_def Let_def split: option.splits if_splits sum.splits)

lemma write_fd_node:
  assumes "write_fd q data w = (r, w')" "q \<noteq> []"
  shows "\<exists>k. w_fs w' = fs_put q (File (contents (w_fs w) q @ take k data)) (w_fs w) \<and> (r = Inr () \<longrightarrow> take k data = data)"
  using assms unfolding write_fd_def
  by (auto simp: Let_def split: option.splits intro: exI [of _ "length data"])

lemma write_fd_only:
  assumes "q \<noteq> []"
  shows "keeps (writes_only q) (write_fd q data)"
  by (rule keepsI, drule write_fd_node [OF _ assms]) (auto simp: writes_only_def node_at_put [OF assms])

lemma open_new_only:
  assumes "plain_path p"
  shows "keeps (writes_only p) (open_new p)"
  using assms by (intro keepsI, drule_tac open_new_effect) (auto simp: writes_only_def adds_node_at)

lemma open_new_fd:
  assumes "open_new p w = (Inr q, w')" "plain_path p"
  shows "q = p \<and> p \<noteq> [] \<and> node_at (w_fs w) p = None \<and> node_at (w_fs w') p = Some (File [])"
  using open_new_effect [OF assms(1)] assms(2) by (auto simp: adds_node_at) (auto simp: adds_def)

lemma write_new_file_only:
  assumes "plain_path p"
  shows "keeps (writes_only p) (write_new_file p data)"
proof -
  have dirs: "keeps (writes_only p) (mkdir_parents (butlast p))"
    using assms by (intro mkdir_only) (auto dest: in_set_butlastD)
  have written: "keeps (writes_only p) (bindI (write_fd fd data) (\<lambda>_. fsync_fd))" if "open_new p w = (Inr fd, w')" for fd w w'
    using open_new_fd [OF that assms]
    by (intro only.keeps_bind) (auto intro: write_fd_only keeps_equal [OF fsync_frame(1)] only.same)
  show ?thesis unfolding write_new_file_def
    by (rule only.keeps_bind [OF dirs only.keeps_bind_result [OF open_new_only [OF assms] written]])
qed

lemma write_new_file_outside: "plain_path p \<Longrightarrow> p \<in> U \<Longrightarrow> keeps (preserved_outside U) (write_new_file p data)"
  by (rule keeps_mono [OF write_new_file_only]) (auto dest!: writes_only_preserves intro: preserved_outside_mono)

text \<open>Renaming.\<close>

lemma os_replace_effect:
  assumes "os_replace s d w = (r, w')" "plain_path s" "plain_path d"
  shows "w_fs w' = w_fs w \<or> \<not> within s d \<and> \<not> within d s \<and> w_fs w' = fs_move s d (w_fs w)"
  using assms unfolding os_replace_def
  by (auto dest!: sys_fs split: option.splits node.splits if_splits)

lemma os_replace_outside:
  assumes "plain_path s" "plain_path d" "\<And>p. within s p \<or> within d p \<Longrightarrow> p \<in> U"
  shows "keeps (preserved_outside U) (os_replace s d)"
  by (rule keepsI, drule os_replace_effect [OF _ assms(1,2)])
    (use assms(3) in \<open>auto simp: preserved_outside_def node_at_move\<close>)

lemma mkdir_new_outside: "keeps (preserved_outside U) (mkdir_new p)"
proof -
  have add: "preserved_outside U s (fs_put q Dir s)" if "node_at s q = None" for s q
    using that adds_node_at [of q Dir s] by (auto simp: preserved_outside_def adds_def)
  show ?thesis unfolding mkdir_new_def
    by (intro outside.keeps_bind mkdir_outside keeps_sys)
      (auto simp: outside.same add split: option.splits if_splits)
qed

subsection \<open>What a successful call has done\<close>

lemma same_fs: "keeps (=) m \<Longrightarrow> m w = (r, w') \<Longrightarrow> w_fs w' = w_fs w"
  by (rule keeps_same)

lemma write_new_file_success:
  assumes "write_new_file p data w = (Inr u, w')" "plain_path p"
  shows "p \<noteq> [] \<and> node_at (w_fs w) p = None \<and> node_at (w_fs w') p = Some (File data)"
proof -
  from assms(1) obtain w1 fd w2 w3 where steps: "mkdir_parents (butlast p) w = (Inr (), w1)"
      "open_new p w1 = (Inr fd, w2)" "write_fd fd data w2 = (Inr (), w3)" "fsync_fd w3 = (Inr u, w')"
    by (auto simp: write_new_file_def bindI_Inr)
  from open_new_fd [OF steps(2) assms(2)] have fd: "fd = p" "p \<noteq> []" "node_at (w_fs w1) p = None"
    "node_at (w_fs w2) p = Some (File [])" by auto
  have "keeps (writes_only (butlast p)) (mkdir_parents (butlast p))"
    using assms(2) by (intro mkdir_only) (auto dest: in_set_butlastD)
  then have "writes_only (butlast p) (w_fs w) (w_fs w1)" using steps(1) by (rule keepsD)
  moreover have "p \<noteq> butlast p" using fd(2) by (cases p rule: rev_cases) auto
  ultimately have "node_at (w_fs w) p = None"
    using fd(3) unfolding writes_only_def by metis
  moreover from write_fd_node [OF steps(3)] fd have "node_at (w_fs w3) p = Some (File data)"
    by (auto simp: node_at_put contents_def)
  ultimately show ?thesis using fd(2) same_fs [OF fsync_frame(1) steps(4)] by simp
qed

lemma write_new_file_effect: "write_new_file p data w = (r, w') \<Longrightarrow> plain_path p \<Longrightarrow> writes_only p (w_fs w) (w_fs w')"
  using write_new_file_only by (blast dest: keepsD)

lemma os_replace_success:
  assumes "os_replace s d w = (Inr u, w')" "plain_path s" "plain_path d" "s \<noteq> d"
  shows "\<not> within s d \<and> \<not> within d s \<and> w_fs w' = fs_move s d (w_fs w) \<and> node_at (w_fs w) s \<noteq> None"
  using assms unfolding os_replace_def
  by (auto simp: sys_Inr split: option.splits node.splits if_splits)

lemma files_under_iff:
  assumes "plain_path d"
  shows "files_under fs d = {as_posix x | x b. x \<noteq> [] \<and> map_of fs (d @ x) = Some (File b)}" (is "?l = ?r")
proof -
  have "?l \<subseteq> ?r" using assms
    by (auto simp: files_under_def within_iff split: option.splits node.splits)
  moreover have "?r \<subseteq> ?l"
  proof
    fix n
    assume "n \<in> ?r"
    then obtain x b where x: "n = as_posix x" "x \<noteq> []" "map_of fs (d @ x) = Some (File b)" by auto
    then have "(d @ x, File b) \<in> set fs" by (auto dest: map_of_SomeD)
    with x assms show "n \<in> ?l"
      by (auto simp: files_under_def image_iff intro!: bexI [of _ "(d @ x, File b)"])
  qed
  ultimately show ?thesis by blast
qed

lemma files_under_cong:
  assumes "plain_path d" "plain_path d'" "\<And>x b. x \<noteq> [] \<Longrightarrow> map_of fs (d @ x) = Some (File b) \<longleftrightarrow> map_of fs' (d' @ x) = Some (File b)"
  shows "files_under fs d = files_under fs' d'"
  using assms by (auto simp: files_under_iff)

subsection \<open>The environment and quiet reads\<close>

lemma env_sys [env_rules]: "env_kept (sys f)"
  by (auto simp: env_kept_def sys_def Let_def split: option.splits sum.splits)

lemma env_files [env_rules]:
  "env_kept (read_bytes p)" "env_kept (make_dir p l)" "env_kept (mkdir_new p)" "env_kept (open_new p)"
  "env_kept (open_append p)" "env_kept fsync_fd" "env_kept (fsync_dir p)" "env_kept (os_replace p q)"
  "env_kept (write_fd p data)" "env_kept (mkdir_parents p)" "env_kept (write_new_file p data)"
  "env_kept (append_file p data)"
proof -
  have dirs: "env_kept (make_dirs_from cur q)" for cur q
    by (induction cur q rule: make_dirs_from.induct) (auto intro: env_rules simp: make_dir_def)
  have fd: "env_kept (write_fd q d)" for q d
    by (auto simp: env_kept_def write_fd_def Let_def split: option.splits)
  show "env_kept (read_bytes p)" "env_kept (make_dir p l)" "env_kept (mkdir_new p)" "env_kept (open_new p)"
    "env_kept (open_append p)" "env_kept fsync_fd" "env_kept (fsync_dir p)" "env_kept (os_replace p q)"
    "env_kept (write_fd p data)" "env_kept (mkdir_parents p)" "env_kept (write_new_file p data)"
    "env_kept (append_file p data)"
    unfolding read_bytes_def make_dir_def mkdir_new_def open_new_def open_append_def fsync_fd_def fsync_dir_def
      os_replace_def mkdir_parents_def write_new_file_def append_file_def
    by (auto intro!: env_rules dirs fd)
qed

lemma yields_read:
  assumes "lookup fs p = Some (File b)"
  shows "yields fs (read_bytes p) b"
  using assms by (auto simp: yields_def read_bytes_def sys_def quiet_def)

end
