(* ===== verification/FileReads.thy ===== *)
theory FileReads
  imports FileFrames
begin

section \<open>What is stored, and what a reader depends on\<close>

text \<open>
  \<open>files fs\<close> is the tree as a map from paths to contents, with the effect of each successful call on it.
  \<open>equal_inside D\<close> relates trees that agree below \<open>D\<close>; \<open>reads_within D m\<close> says that \<open>m\<close> writes nothing and
  looks at nothing else, so what it returned on one tree it returns on the other.
\<close>

subsection \<open>Contents by path\<close>

definition files :: "fs \<Rightarrow> path \<Rightarrow> string option" where
  "files fs p = (case node_at fs p of Some (File b) \<Rightarrow> Some b | _ \<Rightarrow> None)"

definition same_files :: "fs \<Rightarrow> fs \<Rightarrow> bool" where
  "same_files s t \<longleftrightarrow> files t = files s"

interpretation stored: effect_preorder same_files
  by unfold_locales (auto simp: same_files_def)

lemma files_Some: "files fs p = Some b \<longleftrightarrow> node_at fs p = Some (File b)"
  by (auto simp: files_def split: option.splits node.splits)

lemma files_lookup: "plain_path p \<Longrightarrow> files fs p = Some b \<Longrightarrow> lookup fs p = Some (File b)"
  by (simp add: files_Some)

lemma adds_dir_files: "adds q Dir s t \<Longrightarrow> same_files s t"
  by (rule same_files_def [THEN iffD2], rule ext) (auto simp: files_def adds_node_at adds_def)

lemma make_dir_files: "keeps same_files (make_dir p l)"
  by (rule keepsI, drule make_dir_effect) (use stored.same adds_dir_files in metis)

lemma mkdir_files: "keeps same_files (mkdir_parents p)" "keeps same_files (mkdir_new p)"
proof -
  have "keeps same_files (make_dirs_from cur q)" for cur q
    by (induction cur q rule: make_dirs_from.induct) (auto intro!: stored.keeps_bind stored.keeps_pure make_dir_files)
  then show parents: "keeps same_files (mkdir_parents p)" for p by (simp add: mkdir_parents_def)
  have add: "same_files s (fs_put q Dir s)" if "node_at s q = None" for s q
    using that adds_dir_files by (auto simp: adds_def)
  show "keeps same_files (mkdir_new p)" unfolding mkdir_new_def
    by (intro stored.keeps_bind parents keeps_sys) (auto simp: stored.same add split: option.splits if_splits)
qed

lemma fsync_files: "fsync_dir p w = (r, w') \<Longrightarrow> w_fs w' = w_fs w"
  using fsync_frame(2) by (rule keeps_same)

lemma write_new_file_files:
  assumes "write_new_file p data w = (Inr u, w')" "plain_path p"
  shows "files (w_fs w') = (files (w_fs w))(p \<mapsto> data)" "files (w_fs w) p = None"
proof -
  from write_new_file_success [OF assms] have new: "node_at (w_fs w) p = None" "node_at (w_fs w') p = Some (File data)"
    by simp_all
  then show "files (w_fs w) p = None" by (simp add: files_def)
  show "files (w_fs w') = (files (w_fs w))(p \<mapsto> data)"
  proof
    fix q
    show "files (w_fs w') q = ((files (w_fs w))(p \<mapsto> data)) q"
      using new(2) write_new_file_effect [OF assms] unfolding writes_only_def files_def by (cases "q = p") auto
  qed
qed

lemma os_replace_files:
  assumes "os_replace s d w = (Inr u, w')" "plain_path s" "plain_path d" "s \<noteq> d"
  shows "files (w_fs w') (d @ x) = files (w_fs w) (s @ x)"
proof -
  from os_replace_success [OF assms] have moved: "\<not> within s d" "\<not> within d s" "w_fs w' = fs_move s d (w_fs w)"
    by simp_all
  then have "d \<noteq> []" "s \<noteq> []" by (auto simp: within_def)
  with moved show ?thesis unfolding files_def by (simp add: node_at_move [OF moved(1,2)]) (simp add: node_at_def)
qed

lemma os_replace_node:
  assumes "os_replace s d w = (Inr u, w')" "plain_path s" "plain_path d" "s \<noteq> d"
  shows "node_at (w_fs w') d = node_at (w_fs w) s"
proof -
  from os_replace_success [OF assms] have moved: "\<not> within s d" "\<not> within d s" "w_fs w' = fs_move s d (w_fs w)"
    by simp_all
  then have "d \<noteq> []" "s \<noteq> []" by (auto simp: within_def)
  with moved show ?thesis by (simp add: node_at_move [OF moved(1,2)]) (simp add: node_at_def)
qed

lemma is_file_iff: "plain_path p \<Longrightarrow> is_file fs p \<longleftrightarrow> (\<exists>b. files fs p = Some b)"
  by (auto simp: is_file_def files_Some split: option.splits node.splits)

lemma files_under_files:
  assumes "plain_path d"
  shows "files_under fs d = {as_posix x | x. x \<noteq> [] \<and> files fs (d @ x) \<noteq> None}"
proof -
  have "(\<exists>b. map_of fs (d @ x) = Some (File b)) \<longleftrightarrow> files fs (d @ x) \<noteq> None" if "x \<noteq> []" for x
    using that by (auto simp: files_def node_at_def split: option.splits node.splits)
  then show ?thesis unfolding files_under_iff [OF assms] by blast
qed

subsection \<open>Agreement below a directory\<close>

definition equal_inside :: "path \<Rightarrow> fs \<Rightarrow> fs \<Rightarrow> bool" where
  "equal_inside D s t \<longleftrightarrow> (\<forall>q. within D q \<longrightarrow> node_at t q = node_at s q)"

interpretation inside: effect_preorder "equal_inside D" for D
  by unfold_locales (auto simp: equal_inside_def)

lemma writes_only_inside: "writes_only p s t \<Longrightarrow> \<not> within D p \<Longrightarrow> equal_inside D s t"
  unfolding writes_only_def equal_inside_def by (metis within_trans)

lemma write_new_file_inside: "plain_path p \<Longrightarrow> \<not> within D p \<Longrightarrow> keeps (equal_inside D) (write_new_file p data)"
  by (rule keeps_mono [OF write_new_file_only]) (auto intro: writes_only_inside)

definition apart :: "path \<Rightarrow> path \<Rightarrow> bool" where
  "apart a b \<longleftrightarrow> \<not> within a b \<and> \<not> within b a"

lemma apart_within: "apart a b \<Longrightarrow> within a q \<Longrightarrow> \<not> within b q"
  by (auto simp: apart_def within_def) (metis linorder_linear take_take min.absorb1)

lemma os_replace_inside:
  assumes "plain_path s" "plain_path d" "apart D s" "apart D d"
  shows "keeps (equal_inside D) (os_replace s d)"
  using apart_within [OF assms(3)] apart_within [OF assms(4)]
  by (intro keepsI, drule_tac os_replace_effect [OF _ assms(1,2)]) (auto simp: equal_inside_def node_at_move)

lemma mkdir_inside:
  assumes "plain_path p" "\<not> within D p"
  shows "keeps (equal_inside D) (mkdir_parents p)"
  by (rule keeps_mono [OF mkdir_only [of p p]]) (use assms in \<open>auto intro: writes_only_inside\<close>)

subsection \<open>Readers\<close>

definition reads_within :: "path \<Rightarrow> 'a io \<Rightarrow> bool" where
  "reads_within D m \<longleftrightarrow>
     (\<forall>w t. equal_inside D (w_fs w) t \<longrightarrow>
        w_fs (snd (m w)) = w_fs w \<and> m (w\<lparr>w_fs := t\<rparr>) = (fst (m w), (snd (m w))\<lparr>w_fs := t\<rparr>))"

named_theorems reader_rules \<open>computations that only read below a directory\<close>

lemma reads_withinD:
  assumes "reads_within D m" "equal_inside D (w_fs w) t" "m w = (r, w')"
  shows "w_fs w' = w_fs w" "m (w\<lparr>w_fs := t\<rparr>) = (r, w'\<lparr>w_fs := t\<rparr>)"
  using assms unfolding reads_within_def by (metis snd_conv, metis fst_conv snd_conv)

lemma reads_withinI:
  assumes "\<And>w t r w'. equal_inside D (w_fs w) t \<Longrightarrow> m w = (r, w') \<Longrightarrow> w_fs w' = w_fs w \<and> m (w\<lparr>w_fs := t\<rparr>) = (r, w'\<lparr>w_fs := t\<rparr>)"
  shows "reads_within D m"
  unfolding reads_within_def using assms by (metis prod.collapse)

lemma reads_pure [reader_rules]: "reads_within D (ret x)" "reads_within D (throw e)" "reads_within D (lift r)"
  "reads_within D (throw_if b e)" "reads_within D (call c)" "reads_within D (Pair z)"
  by (auto simp: reads_within_def throw_if_def call_def)

lemma reads_bind [reader_rules]:
  assumes "reads_within D m" "\<And>x. reads_within D (k x)"
  shows "reads_within D (bindI m k)"
proof (rule reads_withinI)
  fix w t r w'
  assume t: "equal_inside D (w_fs w) t" and run: "bindI m k w = (r, w')"
  obtain r1 v where m: "m w = (r1, v)" by (cases "m w")
  note first = reads_withinD [OF assms(1) t m]
  show "w_fs w' = w_fs w \<and> bindI m k (w\<lparr>w_fs := t\<rparr>) = (r, w'\<lparr>w_fs := t\<rparr>)"
  proof (cases r1)
    case (Inl e)
    with run m first show ?thesis by auto
  next
    case (Inr x)
    with run m have k: "k x v = (r, w')" by simp
    from t first have "equal_inside D (w_fs v) t" by simp
    from reads_withinD [OF assms(2) this k] first Inr show ?thesis by simp
  qed
qed

lemma reads_catch [reader_rules]:
  assumes "reads_within D m" "\<And>x. reads_within D (h x)"
  shows "reads_within D (catch m h)"
proof (rule reads_withinI)
  fix w t r w'
  assume t: "equal_inside D (w_fs w) t" and run: "catch m h w = (r, w')"
  obtain r1 v where m: "m w = (r1, v)" by (cases "m w")
  note first = reads_withinD [OF assms(1) t m]
  show "w_fs w' = w_fs w \<and> catch m h (w\<lparr>w_fs := t\<rparr>) = (r, w'\<lparr>w_fs := t\<rparr>)"
  proof (cases r1)
    case (Inr x)
    with run m first show ?thesis by auto
  next
    case (Inl e)
    with run m have k: "h e v = (r, w')" by simp
    from t first have "equal_inside D (w_fs v) t" by simp
    from reads_withinD [OF assms(2) this k] first Inl show ?thesis by simp
  qed
qed

lemma reads_for [reader_rules]: "(\<And>x. x \<in> set xs \<Longrightarrow> reads_within D (f x)) \<Longrightarrow> reads_within D (forI f xs)"
  by (induction xs) (auto intro: reader_rules)

lemma reads_split [reader_rules]:
  "(b \<Longrightarrow> reads_within D m) \<Longrightarrow> (\<not> b \<Longrightarrow> reads_within D n) \<Longrightarrow> reads_within D (if b then m else n)"
  "(z = None \<Longrightarrow> reads_within D m) \<Longrightarrow> (\<And>x. z = Some x \<Longrightarrow> reads_within D (k x)) \<Longrightarrow>
     reads_within D (case z of None \<Rightarrow> m | Some x \<Rightarrow> k x)"
  by (auto split: option.splits)

lemma reads_observe:
  assumes "\<And>s t. equal_inside D s t \<Longrightarrow> f t = f s"
  shows "reads_within D (observe f)"
  using assms by (auto simp: reads_within_def)

lemma reads_sys:
  assumes "\<And>s t. equal_inside D s t \<Longrightarrow> (\<exists>e. f s = Inl e \<and> f t = Inl e) \<or> (\<exists>x. f s = Inr (x, s) \<and> f t = Inr (x, t))"
  shows "reads_within D (sys f)"
proof (rule reads_withinI)
  fix w t r w'
  assume t: "equal_inside D (w_fs w) t" and run: "sys f w = (r, w')"
  show "w_fs w' = w_fs w \<and> sys f (w\<lparr>w_fs := t\<rparr>) = (r, w'\<lparr>w_fs := t\<rparr>)"
    using assms [OF t] run by (auto simp: sys_def Let_def split: option.splits)
qed

lemma equal_inside_at: "equal_inside D s t \<Longrightarrow> within D p \<Longrightarrow> node_at t p = node_at s p"
  by (simp add: equal_inside_def)

lemma equal_inside_files: "equal_inside D s t \<Longrightarrow> within D p \<Longrightarrow> files t p = files s p"
  by (simp add: files_def equal_inside_at)

lemma reads_files:
  assumes "plain_path p" "within D p"
  shows "reads_within D (read_bytes p)" "reads_within D (observe (\<lambda>fs. is_file fs p))"
    "reads_within D (observe (\<lambda>fs. is_dir fs p))" "reads_within D (observe (\<lambda>fs. path_exists fs p))"
    "reads_within D (observe (\<lambda>fs. files_under fs p))"
proof -
  note same = equal_inside_at [of D, OF _ assms(2)]
  show "reads_within D (read_bytes p)" unfolding read_bytes_def
  proof (rule reads_sys)
    fix s t
    assume "equal_inside D s t"
    from same [OF this] assms(1)
    show "(\<exists>e. (case lookup s p of None \<Rightarrow> Inl (StdError ''FileNotFoundError'')
        | Some Dir \<Rightarrow> Inl (StdError ''IsADirectoryError'') | Some (File b) \<Rightarrow> Inr (b, s)) = Inl e \<and>
      (case lookup t p of None \<Rightarrow> Inl (StdError ''FileNotFoundError'')
        | Some Dir \<Rightarrow> Inl (StdError ''IsADirectoryError'') | Some (File b) \<Rightarrow> Inr (b, t)) = Inl e) \<or>
      (\<exists>x. (case lookup s p of None \<Rightarrow> Inl (StdError ''FileNotFoundError'')
        | Some Dir \<Rightarrow> Inl (StdError ''IsADirectoryError'') | Some (File b) \<Rightarrow> Inr (b, s)) = Inr (x, s) \<and>
      (case lookup t p of None \<Rightarrow> Inl (StdError ''FileNotFoundError'')
        | Some Dir \<Rightarrow> Inl (StdError ''IsADirectoryError'') | Some (File b) \<Rightarrow> Inr (b, t)) = Inr (x, t))"
      by (auto split: option.splits node.splits)
  qed
  show "reads_within D (observe (\<lambda>fs. is_file fs p))" "reads_within D (observe (\<lambda>fs. is_dir fs p))"
    "reads_within D (observe (\<lambda>fs. path_exists fs p))"
    by (rule reads_observe, simp add: is_file_def is_dir_def path_exists_def assms(1) same)+
  show "reads_within D (observe (\<lambda>fs. files_under fs p))"
  proof (rule reads_observe)
    fix s t
    assume eq: "equal_inside D s t"
    have "files t (p @ x) = files s (p @ x)" for x
      by (rule equal_inside_files [OF eq]) (rule within_trans [OF assms(2) within_append])
    then show "files_under t p = files_under s p" by (simp add: files_under_files [OF assms(1)])
  qed
qed

lemma reads_observe_and:
  "reads_within D (observe f) \<Longrightarrow> reads_within D (observe g) \<Longrightarrow> reads_within D (observe (\<lambda>fs. f fs \<and> g fs))"
proof (rule reads_observe)
  fix s t
  assume obs: "reads_within D (observe f)" "reads_within D (observe g)" and eq: "equal_inside D s t"
  have eq': "equal_inside D (w_fs (quiet_world s)) t" using eq by simp
  show "(f t \<and> g t) = (f s \<and> g s)"
    using reads_withinD(2) [OF obs(1) eq', of "Inr (f s)" "quiet_world s"]
      reads_withinD(2) [OF obs(2) eq', of "Inr (g s)" "quiet_world s"] by simp
qed

lemma yields_inside:
  assumes "yields s m x" "reads_within D m" "equal_inside D s t"
  shows "yields t m x"
  unfolding yields_def
proof (intro allI impI)
  fix w
  assume w: "w_fs w = t \<and> quiet w"
  let ?v = "w\<lparr>w_fs := s\<rparr>"
  have "quiet ?v" using w by (simp add: quiet_def)
  moreover have "w_fs ?v = s" by simp
  ultimately obtain v' where v': "m ?v = (Inr x, v')" "w_fs v' = s" "quiet v'"
    using assms(1) unfolding yields_def by blast
  have "m (?v\<lparr>w_fs := t\<rparr>) = (Inr x, v'\<lparr>w_fs := t\<rparr>)"
    using reads_withinD(2) [OF assms(2) _ v'(1)] assms(3) by simp
  then show "\<exists>w'. m w = (Inr x, w') \<and> w_fs w' = t \<and> quiet w'" using w v'(3) by (auto simp: quiet_def)
qed

subsection \<open>What a returning computation has established\<close>

text \<open>
  \<open>ensures fs m Q\<close>: when \<open>m\<close> starts on the tree \<open>fs\<close> and returns \<open>x\<close>, the tree is still \<open>fs\<close> and \<open>Q x\<close>
  holds, whatever calls fail.  The rules walk through a computation from its first step.
\<close>

named_theorems ensures_rules \<open>partial correctness, step by step\<close>

definition ensures :: "fs \<Rightarrow> 'a io \<Rightarrow> ('a \<Rightarrow> bool) \<Rightarrow> bool" where
  "ensures fs m Q \<longleftrightarrow> (\<forall>w x w'. w_fs w = fs \<and> m w = (Inr x, w') \<longrightarrow> w_fs w' = fs \<and> Q x)"

lemma ensuresD: "ensures fs m Q \<Longrightarrow> w_fs w = fs \<Longrightarrow> m w = (Inr x, w') \<Longrightarrow> w_fs w' = fs \<and> Q x"
  by (auto simp: ensures_def)

lemma ensures_bind:
  assumes "ensures fs m P" "\<And>x. P x \<Longrightarrow> ensures fs (k x) Q"
  shows "ensures fs (bindI m k) Q"
  unfolding ensures_def bindI_Inr
proof (intro allI impI, elim conjE exE)
  fix w y w' x v
  assume start: "w_fs w = fs" "m w = (Inr x, v)" and k: "k x v = (Inr y, w')"
  from ensuresD [OF assms(1) start] have "w_fs v = fs" "P x" by simp_all
  from ensuresD [OF assms(2) [OF this(2)] this(1) k] show "w_fs w' = fs \<and> Q y" .
qed

lemma ensures_basic:
  "ensures fs (throw_if b e) (\<lambda>u. \<not> b)" "ensures fs (lift r) (\<lambda>x. r = Inr x)" "ensures fs (observe f) (\<lambda>x. x = f fs)"
  "ensures fs (call c) (\<lambda>x. True)"
  by (auto simp: ensures_def result_simps)

lemma ensures_read: "plain_path p \<Longrightarrow> ensures fs (read_bytes p) (\<lambda>b. files fs p = Some b)"
  by (auto simp: ensures_def read_bytes_def sys_Inr files_Some split: option.splits node.splits)

lemma ensures_throw_step [ensures_rules]: "(\<not> b \<Longrightarrow> ensures fs (k ()) Q) \<Longrightarrow> ensures fs (bindI (throw_if b e) k) Q"
  by (rule ensures_bind [OF ensures_basic(1)]) simp

lemma ensures_lift_step [ensures_rules]: "(\<And>x. r = Inr x \<Longrightarrow> ensures fs (k x) Q) \<Longrightarrow> ensures fs (bindI (lift r) k) Q"
  by (rule ensures_bind [OF ensures_basic(2)])

lemma ensures_observe_step [ensures_rules]: "ensures fs (k (f fs)) Q \<Longrightarrow> ensures fs (bindI (observe f) k) Q"
  by (rule ensures_bind [OF ensures_basic(3)]) simp

lemma ensures_call_step [ensures_rules]: "(\<And>x. ensures fs (k x) Q) \<Longrightarrow> ensures fs (bindI (call g) k) Q"
  by (rule ensures_bind [OF ensures_basic(4)])

lemma ensures_read_step [ensures_rules]:
  "plain_path p \<Longrightarrow> (\<And>x. files fs p = Some x \<Longrightarrow> ensures fs (k x) Q) \<Longrightarrow> ensures fs (bindI (read_bytes p) k) Q"
  by (rule ensures_bind [OF ensures_read])

lemma ensures_last [ensures_rules]:
  "(\<not> b \<Longrightarrow> Q ()) \<Longrightarrow> ensures fs (throw_if b e) Q" "(\<And>x. r = Inr x \<Longrightarrow> A x) \<Longrightarrow> ensures fs (lift r) A"
  "B z \<Longrightarrow> ensures fs (ret z) B" "B z \<Longrightarrow> ensures fs (Pair (Inr z)) B" "ensures fs (throw e) C"
  by (auto simp: ensures_def result_simps)

lemma ensures_split [ensures_rules]:
  "(b \<Longrightarrow> ensures fs m Q) \<Longrightarrow> (\<not> b \<Longrightarrow> ensures fs n Q) \<Longrightarrow> ensures fs (if b then m else n) Q"
  "(z = None \<Longrightarrow> ensures fs m Q) \<Longrightarrow> (\<And>x. z = Some x \<Longrightarrow> ensures fs (k x) Q) \<Longrightarrow>
     ensures fs (case z of None \<Rightarrow> m | Some x \<Rightarrow> k x) Q"
  by (auto split: option.splits)

lemma ensures_for:
  assumes "\<And>x. x \<in> set xs \<Longrightarrow> ensures fs (f x) (\<lambda>u. P x)"
  shows "ensures fs (forI f xs) (\<lambda>u. \<forall>x \<in> set xs. P x)"
  using assms
proof (induction xs)
  case (Cons y ys)
  have rest: "ensures fs (forI f ys) (\<lambda>u. \<forall>x \<in> set ys. P x)" using Cons by simp
  have "ensures fs (forI f ys) (\<lambda>u. \<forall>x \<in> set (y # ys). P x)" if "P y"
    unfolding ensures_def using ensuresD [OF rest] that by auto
  moreover have "ensures fs (f y) (\<lambda>u. P y)" using Cons.prems by simp
  ultimately show ?case by (auto intro: ensures_bind)
qed (auto simp: ensures_def)

lemma ensures_catch: "ensures fs m Q \<Longrightarrow> ensures fs (catch m (\<lambda>e. throw (h e))) Q"
  by (auto simp: ensures_def result_simps)

subsection \<open>Reading without failures, step by step\<close>

named_theorems yields_rules \<open>total correctness of reads without failures, step by step\<close>

lemma yields_bytes: "plain_path p \<Longrightarrow> files fs p = Some b \<Longrightarrow> yields fs (read_bytes p) b"
  by (rule yields_read) (simp add: files_Some)

lemma yields_throw_step [yields_rules]: "\<not> b \<Longrightarrow> yields fs (k ()) y \<Longrightarrow> yields fs (bindI (throw_if b e) k) y"
  by (rule yields_bind [OF yields_pure(4)])

lemma yields_lift_step [yields_rules]: "r = Inr x \<Longrightarrow> yields fs (k x) y \<Longrightarrow> yields fs (bindI (lift r) k) y"
  by (rule yields_bind [OF yields_lift])

lemma yields_observe_step [yields_rules]: "yields fs (k (f fs)) y \<Longrightarrow> yields fs (bindI (observe f) k) y"
  by (rule yields_bind [OF yields_pure(3)])

lemma yields_read_step [yields_rules]:
  "plain_path p \<Longrightarrow> files fs p = Some b \<Longrightarrow> yields fs (k b) y \<Longrightarrow> yields fs (bindI (read_bytes p) k) y"
  by (rule yields_bind [OF yields_bytes])

lemma yields_last [yields_rules]:
  "\<not> b \<Longrightarrow> yields fs (throw_if b e) ()" "r = Inr x \<Longrightarrow> yields fs (lift r) x" "yields fs (ret y) y"
  "yields fs (Pair (Inr y)) y"
  by (auto simp: yields_def)

end
