(* ===== verification/Outcomes.thy ===== *)
theory Outcomes
  imports FileReads
begin

section \<open>Outcomes under failures\<close>

text \<open>
  \<open>outcome U fs m Q\<close>: started on the tree \<open>fs\<close> with an arbitrary fault plan, where every random name
  satisfies \<open>U\<close>, \<open>m\<close> ends with a result \<open>r\<close> and a tree \<open>t\<close> such that \<open>Q r t\<close>, also when it raises: what
  an interrupted operation leaves behind is part of its specification.
\<close>

named_theorems outcome_rules \<open>outcomes, step by step\<close>

definition outcome :: "(string \<Rightarrow> bool) \<Rightarrow> fs \<Rightarrow> 'a io \<Rightarrow> ('a res \<Rightarrow> fs \<Rightarrow> bool) \<Rightarrow> bool" where
  "outcome U fs m Q \<longleftrightarrow>
     (\<forall>w r w'. w_fs w = fs \<and> (\<forall>n. U (w_uuid w n)) \<and> m w = (r, w') \<longrightarrow> Q r (w_fs w') \<and> w_uuid w' = w_uuid w)"

lemma outcomeI:
  assumes "\<And>w r w'. w_fs w = fs \<Longrightarrow> (\<And>n. U (w_uuid w n)) \<Longrightarrow> m w = (r, w') \<Longrightarrow> Q r (w_fs w')" "env_kept m"
  shows "outcome U fs m Q"
  unfolding outcome_def using assms env_keptD by blast

lemma outcomeD:
  assumes "outcome U fs m Q" "w_fs w = fs" "\<And>n. U (w_uuid w n)" "m w = (r, w')"
  shows "Q r (w_fs w') \<and> w_uuid w' = w_uuid w"
  using assms unfolding outcome_def by blast

lemma outcome_weaken:
  assumes "outcome U fs m P" "\<And>r t. P r t \<Longrightarrow> Q r t"
  shows "outcome U fs m Q"
  using assms unfolding outcome_def by blast

lemma outcome_both: "outcome U fs m P \<Longrightarrow> outcome U fs m Q \<Longrightarrow> outcome U fs m (\<lambda>r t. P r t \<and> Q r t)"
  unfolding outcome_def by blast

lemma outcome_bind:
  assumes "outcome U fs m P" "\<And>e t. P (Inl e) t \<Longrightarrow> Q (Inl e) t" "\<And>x t. P (Inr x) t \<Longrightarrow> outcome U t (k x) Q"
  shows "outcome U fs (bindI m k) Q"
  unfolding outcome_def
proof (intro allI impI, elim conjE)
  fix w r w'
  assume start: "w_fs w = fs" and names: "\<forall>n. U (w_uuid w n)" and run: "bindI m k w = (r, w')"
  obtain r1 v where m: "m w = (r1, v)" by (cases "m w")
  from outcomeD [OF assms(1) start _ m] names have first: "P r1 (w_fs v)" "w_uuid v = w_uuid w" by simp_all
  show "Q r (w_fs w') \<and> w_uuid w' = w_uuid w"
  proof (cases r1)
    case (Inl e)
    with run m first assms(2) show ?thesis by auto
  next
    case (Inr x)
    with run m have k: "k x v = (r, w')" by simp
    from first Inr have "outcome U (w_fs v) (k x) Q" by (intro assms(3)) simp
    from outcomeD [OF this refl _ k] first names show ?thesis by simp
  qed
qed

lemma outcome_reader:
  assumes "ensures fs m P" "keeps (=) m" "env_kept m" "\<And>e. Q (Inl e) fs" "\<And>x. P x \<Longrightarrow> outcome U fs (k x) Q"
  shows "outcome U fs (bindI m k) Q"
proof (rule outcome_bind)
  show "outcome U fs m (\<lambda>r t. t = fs \<and> (\<forall>x. r = Inr x \<longrightarrow> P x))"
  proof (rule outcomeI [OF _ assms(3)])
    fix w r w'
    assume start: "w_fs w = fs" and run: "m w = (r, w')"
    have "P x" if "r = Inr x" for x
      using ensuresD [OF assms(1) start] run that by simp
    with keeps_same [OF assms(2) run] start show "w_fs w' = fs \<and> (\<forall>x. r = Inr x \<longrightarrow> P x)" by simp
  qed
qed (use assms(4,5) in simp_all)

lemma outcome_catch:
  assumes "outcome U fs m P" "\<And>x t. P (Inr x) t \<Longrightarrow> Q (Inr x) t" "\<And>e t. P (Inl e) t \<Longrightarrow> outcome U t (h e) Q"
  shows "outcome U fs (catch m h) Q"
  unfolding outcome_def
proof (intro allI impI, elim conjE)
  fix w r w'
  assume start: "w_fs w = fs" and names: "\<forall>n. U (w_uuid w n)" and run: "catch m h w = (r, w')"
  obtain r1 v where m: "m w = (r1, v)" by (cases "m w")
  from outcomeD [OF assms(1) start _ m] names have first: "P r1 (w_fs v)" "w_uuid v = w_uuid w" by simp_all
  show "Q r (w_fs w') \<and> w_uuid w' = w_uuid w"
  proof (cases r1)
    case (Inr x)
    with run m first assms(2) show ?thesis by auto
  next
    case (Inl e)
    with run m have h: "h e v = (r, w')" by simp
    from first Inl have "outcome U (w_fs v) (h e) Q" by (intro assms(3)) simp
    from outcomeD [OF this refl _ h] first names show ?thesis by simp
  qed
qed

lemma outcome_last [outcome_rules]:
  "Q (Inr x) fs \<Longrightarrow> outcome U fs (ret x) Q" "Q (Inr x) fs \<Longrightarrow> outcome U fs (Pair (Inr x)) Q"
  "P (Inl e) fs \<Longrightarrow> outcome U fs (throw e) P"
  by (auto simp: outcome_def)

lemma outcome_throw_step [outcome_rules]:
  "Q (Inl e) fs \<Longrightarrow> (\<not> b \<Longrightarrow> outcome U fs (k ()) Q) \<Longrightarrow> outcome U fs (bindI (throw_if b e) k) Q"
  by (cases b) (auto simp: outcome_def)

lemma outcome_lift_step [outcome_rules]:
  "(\<And>e. r = Inl e \<Longrightarrow> Q (Inl e) fs) \<Longrightarrow> (\<And>x. r = Inr x \<Longrightarrow> outcome U fs (k x) Q) \<Longrightarrow> outcome U fs (bindI (lift r) k) Q"
  by (cases r) (auto simp: outcome_def)

lemma outcome_observe_step [outcome_rules]: "outcome U fs (k (f fs)) Q \<Longrightarrow> outcome U fs (bindI (observe f) k) Q"
  by (auto simp: outcome_def bindI_def)

lemma outcome_call_step [outcome_rules]: "(\<And>n. outcome U fs (k (g n)) Q) \<Longrightarrow> outcome U fs (bindI (call g) k) Q"
  by (rule outcome_bind [where P = "\<lambda>r t. t = fs \<and> (\<exists>n. r = Inr (g n))"]) (auto simp: outcome_def call_def)

lemma outcome_uuid_step [outcome_rules]: "(\<And>u. U u \<Longrightarrow> outcome U fs (k u) Q) \<Longrightarrow> outcome U fs (bindI uuid4 k) Q"
  by (rule outcome_bind [where P = "\<lambda>r t. t = fs \<and> (\<exists>u. U u \<and> r = Inr u)"]) (auto simp: outcome_def uuid4_def)

lemma outcome_split [outcome_rules]:
  "(b \<Longrightarrow> outcome U fs m Q) \<Longrightarrow> (\<not> b \<Longrightarrow> outcome U fs n Q) \<Longrightarrow> outcome U fs (if b then m else n) Q"
  "(z = None \<Longrightarrow> outcome U fs m Q) \<Longrightarrow> (\<And>x. z = Some x \<Longrightarrow> outcome U fs (p x) Q) \<Longrightarrow>
     outcome U fs (case z of None \<Rightarrow> m | Some x \<Rightarrow> p x) Q"
  by (auto split: option.splits)

subsection \<open>The calls that write\<close>

definition written :: "path \<Rightarrow> string \<Rightarrow> fs \<Rightarrow> unit res \<Rightarrow> fs \<Rightarrow> bool" where
  "written p data s r t \<longleftrightarrow>
     writes_only p s t \<and>
     (r = Inr () \<longrightarrow> node_at s p = None \<and> node_at t p = Some (File data) \<and> files t = (files s)(p \<mapsto> data))"

lemma outcome_write: "plain_path p \<Longrightarrow> outcome U fs (write_new_file p data) (written p data fs)"
  by (rule outcomeI)
    (auto simp: written_def intro: env_files write_new_file_effect dest: write_new_file_files(1) write_new_file_success)

definition renamed :: "path \<Rightarrow> path \<Rightarrow> fs \<Rightarrow> unit res \<Rightarrow> fs \<Rightarrow> bool" where
  "renamed s d fs r t \<longleftrightarrow> (case r of Inl e \<Rightarrow> t = fs | Inr u \<Rightarrow> apart s d \<and> t = fs_move s d fs)"

lemma outcome_replace:
  assumes "plain_path s" "plain_path d" "s \<noteq> d"
  shows "outcome U fs (os_replace s d) (renamed s d fs)"
proof (rule outcomeI)
  fix w r w'
  assume "w_fs w = fs" "os_replace s d w = (r, w')"
  moreover have "w_fs w' = w_fs w" if "r = Inl e" for e
    using calculation(2) that unfolding os_replace_def
    by (auto simp: sys_def Let_def split: option.splits sum.splits prod.splits)
  ultimately show "renamed s d fs r (w_fs w')"
    using os_replace_success [OF _ assms] by (auto simp: renamed_def apart_def split: sum.splits)
qed (rule env_files)

lemma outcome_fsync: "outcome U fs (fsync_dir p) (\<lambda>r t. t = fs)"
  by (rule outcomeI) (auto dest: fsync_files intro: env_files)

lemma outcome_fsync_step [outcome_rules]:
  "(\<And>e. Q (Inl e) fs) \<Longrightarrow> outcome U fs (k ()) Q \<Longrightarrow> outcome U fs (bindI (fsync_dir p) k) Q"
  by (rule outcome_bind [OF outcome_fsync]) auto

lemma renamed_files: "renamed s d fs (Inr u) t \<Longrightarrow> files t (d @ x) = files fs (s @ x)"
  by (auto simp: renamed_def apart_def files_def node_at_move) (auto simp: node_at_def within_def)

lemma renamed_node: "renamed s d fs (Inr u) t \<Longrightarrow> node_at t d = node_at fs s"
  by (auto simp: renamed_def apart_def node_at_move) (auto simp: node_at_def within_def)

lemma renamed_outside: "renamed s d fs r t \<Longrightarrow> \<not> within s p \<Longrightarrow> \<not> within d p \<Longrightarrow> node_at t p = node_at fs p"
  by (auto simp: renamed_def apart_def node_at_move split: sum.splits)

lemma renamed_inside: "renamed s d fs r t \<Longrightarrow> apart D s \<Longrightarrow> apart D d \<Longrightarrow> equal_inside D fs t"
  unfolding equal_inside_def using apart_within renamed_outside by metis

subsection \<open>Appending\<close>

definition appended :: "path \<Rightarrow> string \<Rightarrow> fs \<Rightarrow> unit res \<Rightarrow> fs \<Rightarrow> bool" where
  "appended p data s r t \<longleftrightarrow>
     (\<forall>q. q \<noteq> p \<longrightarrow> node_at t q = node_at s q) \<and>
     (node_at t p = node_at s p \<or> (\<exists>k. node_at t p = Some (File (contents s p @ take k data)))) \<and>
     (r = Inr () \<longrightarrow> node_at t p = Some (File (contents s p @ data)))"

lemma open_append_effect:
  assumes "open_append p w = (r, w')" "plain_path p"
  shows "(\<forall>q. q \<noteq> p \<longrightarrow> node_at (w_fs w') q = node_at (w_fs w) q) \<and> contents (w_fs w') p = contents (w_fs w) p \<and>
    (node_at (w_fs w') p = node_at (w_fs w) p \<or> node_at (w_fs w') p = Some (File [])) \<and>
    (\<forall>q. r = Inr q \<longrightarrow> q = p \<and> p \<noteq> []) \<and> (\<forall>e. r = Inl e \<longrightarrow> w_fs w' = w_fs w)"
proof -
  have "w_fs w' = w_fs w \<or> p \<noteq> [] \<and> node_at (w_fs w) p = None \<and> w_fs w' = fs_put p (File []) (w_fs w)"
    "\<forall>q. r = Inr q \<longrightarrow> q = p \<and> p \<noteq> []" "\<forall>e. r = Inl e \<longrightarrow> w_fs w' = w_fs w"
    using assms unfolding open_append_def sys_def
    by (auto simp: Let_def split: option.splits node.splits if_splits)
  then show ?thesis by (auto simp: node_at_put contents_def)
qed

lemma outcome_append:
  assumes "plain_path p"
  shows "outcome U fs (append_file p data) (appended p data fs)"
proof (rule outcomeI [OF _ env_files(12)])
  fix w r w'
  assume w: "w_fs w = fs" and run: "append_file p data w = (r, w')"
  obtain r1 v where op: "open_append p w = (r1, v)" by (cases "open_append p w")
  note opened = open_append_effect [OF op assms]
  show "appended p data fs r (w_fs w')"
  proof (cases r1)
    case (Inl e)
    with run op opened w have "r = Inl e" "w_fs w' = fs" by (simp_all add: append_file_def)
    then show ?thesis by (simp add: appended_def)
  next
    case (Inr q)
    with opened have q: "q = p" "p \<noteq> []" by auto
    obtain r2 u where wr: "write_fd p data v = (r2, u)" by (cases "write_fd p data v")
    from write_fd_node [OF wr q(2)] obtain k where
      k: "w_fs u = fs_put p (File (contents (w_fs v) p @ take k data)) (w_fs v)" "r2 = Inr () \<longrightarrow> take k data = data"
      by blast
    have "w_fs w' = w_fs u" and "r = Inr () \<longrightarrow> r2 = Inr ()"
      using run op Inr q wr fsync_frame(1) by (auto simp: append_file_def bindI_result dest: keeps_same)
    with k opened w show ?thesis unfolding appended_def node_at_put [OF q(2)] by (auto simp: node_at_put [OF q(2)])
  qed
qed

end
