(* ===== verification/AuditLedger.thy ===== *)
theory AuditLedger
  imports HashChain Generations Outcomes
begin

section \<open>Audit ledger\<close>

text \<open>
  \<open>AuditEvent\<close> and \<open>AuditLedger\<close> of \<open>galia2/recovery_audit.py\<close>: the hash-chained JSONL file, its reader,
  which accepts a file only when every record is valid, linked and hashed, and \<open>append\<close>, which reads the
  whole file before it adds one line.
\<close>

datatype audit_event_type =
    RECOVERY_INTAKE | FAILED_ATTEMPT_RETAINED | ROLLBACK_ATTEMPTED | ROLLBACK_SUCCEEDED | ROLLBACK_FAILED

fun audit_event_value :: "audit_event_type \<Rightarrow> string" where
  "audit_event_value RECOVERY_INTAKE = ''RECOVERY_INTAKE''"
| "audit_event_value FAILED_ATTEMPT_RETAINED = ''FAILED_ATTEMPT_RETAINED''"
| "audit_event_value ROLLBACK_ATTEMPTED = ''ROLLBACK_ATTEMPTED''"
| "audit_event_value ROLLBACK_SUCCEEDED = ''ROLLBACK_SUCCEEDED''"
| "audit_event_value ROLLBACK_FAILED = ''ROLLBACK_FAILED''"

definition audit_event_of :: "json \<Rightarrow> audit_event_type res" where
  \<comment> \<open>\<open>AuditEventType(data["event_type"])\<close>\<close>
  "audit_event_of v =
     (case find (\<lambda>t. v = JStr (audit_event_value t))
        [RECOVERY_INTAKE, FAILED_ATTEMPT_RETAINED, ROLLBACK_ATTEMPTED, ROLLBACK_SUCCEEDED, ROLLBACK_FAILED] of
        None \<Rightarrow> Inl (ValueError ''is not a valid AuditEventType'')
      | Some t \<Rightarrow> Inr t)"

text \<open>The references are the elements of whatever the file held, so they are JSON values.\<close>

record audit_event =
  ae_event_id :: string
  ae_event_type :: audit_event_type
  ae_actor :: string
  ae_timestamp :: datetime
  ae_policy_version :: string
  ae_affected_refs :: "json list"
  ae_details :: string
  ae_previous :: "string option"
  ae_hash :: string

definition audit_event_post_init :: "audit_event \<Rightarrow> audit_event res" where
  "audit_event_post_init e =
     bindE (requireds [(''event_id'', ae_event_id e), (''actor'', ae_actor e),
                       (''policy_version'', ae_policy_version e), (''details'', ae_details e)]) (\<lambda>_.
     bindE (aware_field ''timestamp'' (ae_timestamp e)) (\<lambda>_.
     bindE (hash_field_opt ''previous_event_hash'' (ae_previous e)) (\<lambda>p.
     bindE (hash_field ''event_hash'' (ae_hash e)) (\<lambda>h.
     Inr (e\<lparr>ae_previous := p, ae_hash := h\<rparr>)))))"

definition json_opt :: "string option \<Rightarrow> json" where
  "json_opt v = (case v of None \<Rightarrow> JNull | Some s \<Rightarrow> JStr s)"

definition opt_str :: "json \<Rightarrow> string option" where
  "opt_str v = (if v = JNull then None else Some (as_str v))"

definition audit_payload_json :: "audit_event \<Rightarrow> json" where
  "audit_payload_json e =
     JObj [(''actor'', JStr (ae_actor e)), (''affected_refs'', JList (ae_affected_refs e)),
           (''details'', JStr (ae_details e)), (''event_id'', JStr (ae_event_id e)),
           (''event_type'', JStr (audit_event_value (ae_event_type e))),
           (''policy_version'', JStr (ae_policy_version e)), (''previous_event_hash'', json_opt (ae_previous e)),
           (''timestamp'', JStr (isoformat (ae_timestamp e)))]"

definition audit_body :: "audit_event \<Rightarrow> string" where
  "audit_body e = dumps (audit_payload_json e)"

definition audit_json :: "audit_event \<Rightarrow> json" where
  \<comment> \<open>\<open>{**payload_dict(), "event_hash": event_hash}\<close>, keys sorted as the writer sorts them\<close>
  "audit_json e =
     JObj [(''actor'', JStr (ae_actor e)), (''affected_refs'', JList (ae_affected_refs e)),
           (''details'', JStr (ae_details e)), (''event_hash'', JStr (ae_hash e)), (''event_id'', JStr (ae_event_id e)),
           (''event_type'', JStr (audit_event_value (ae_event_type e))),
           (''policy_version'', JStr (ae_policy_version e)), (''previous_event_hash'', json_opt (ae_previous e)),
           (''timestamp'', JStr (isoformat (ae_timestamp e)))]"

definition audit_line :: "audit_event \<Rightarrow> string" where
  "audit_line e = dumps (audit_json e) @ [newline]"

definition audit_create ::
  "string \<Rightarrow> audit_event_type \<Rightarrow> string \<Rightarrow> datetime \<Rightarrow> string \<Rightarrow> string list \<Rightarrow> string \<Rightarrow> string option \<Rightarrow> audit_event res" where
  "audit_create event_id t actor ts policy refs details previous =
     (let e = \<lparr>ae_event_id = event_id, ae_event_type = t, ae_actor = actor, ae_timestamp = ts,
               ae_policy_version = policy, ae_affected_refs = map JStr refs, ae_details = details,
               ae_previous = previous, ae_hash = ''''\<rparr> in
      audit_event_post_init (e\<lparr>ae_hash := sha256 (audit_body e)\<rparr>))"

definition audit_of_json :: "json \<Rightarrow> audit_event res" where
  "audit_of_json d =
     bindE (item d ''event_id'') (\<lambda>event_id.
     bindE (item d ''event_type'') (\<lambda>et. bindE (audit_event_of et) (\<lambda>t.
     bindE (item d ''actor'') (\<lambda>actor.
     bindE (item d ''timestamp'') (\<lambda>ts. bindE (as_datetime ts) (\<lambda>ts.
     bindE (item d ''policy_version'') (\<lambda>policy.
     bindE (item d ''affected_refs'') (\<lambda>refs. bindE (iterate refs) (\<lambda>refs.
     bindE (item d ''details'') (\<lambda>details.
     bindE (item d ''previous_event_hash'') (\<lambda>previous.
     bindE (item d ''event_hash'') (\<lambda>h.
     audit_event_post_init
       \<lparr>ae_event_id = as_str event_id, ae_event_type = t, ae_actor = as_str actor, ae_timestamp = ts,
        ae_policy_version = as_str policy, ae_affected_refs = refs, ae_details = as_str details,
        ae_previous = opt_str previous, ae_hash = as_str h\<rparr>))))))))))))"

subsection \<open>The file\<close>

record audit_ledger =
  au_root :: path
  au_policy_version :: string
  au_actor :: string
  au_clock :: "nat \<Rightarrow> datetime"
  au_id :: "string \<Rightarrow> nat \<Rightarrow> string"

definition audit_dir :: "audit_ledger \<Rightarrow> path" where
  "audit_dir l = au_root l @ [''audit'']"

definition audit_path :: "audit_ledger \<Rightarrow> path" where
  "audit_path l = audit_dir l @ [''events.jsonl'']"

definition ledger_init :: "audit_ledger \<Rightarrow> audit_ledger io" where
  "ledger_init l =
     bindI (lift (requireds [(''policy_version'', au_policy_version l), (''actor'', au_actor l)])) (\<lambda>_.
     bindI (mkdir_parents (audit_dir l)) (\<lambda>_. ret l))"

fun splitlines :: "string \<Rightarrow> string list" where
  \<comment> \<open>\<open>bytes.splitlines()\<close>: \<open>\n\<close>, \<open>\r\<close> and \<open>\r\n\<close> end a line\<close>
  "splitlines [] = []"
| "splitlines (c # s) =
     (if c = CHR 0x0D \<and> take 1 s = [newline] then [] # splitlines (drop 1 s)
      else if c = newline \<or> c = CHR 0x0D then [] # splitlines s
      else case splitlines s of [] \<Rightarrow> [[c]] | l # ls \<Rightarrow> (c # l) # ls)"

definition rewrap_audit :: "string \<Rightarrow> 'a res \<Rightarrow> 'a res" where
  "rewrap_audit what r = (case r of Inl e \<Rightarrow> Inl (AuditValidationError (what @ exc_str e)) | Inr x \<Rightarrow> Inr x)"

definition audit_record :: "nat \<Rightarrow> string option \<Rightarrow> string \<Rightarrow> audit_event res" where
  \<comment> \<open>one round of the loop of \<open>read_events\<close>\<close>
  "audit_record n previous raw =
     bindE (raise_if (raw = []) (AuditValidationError (''empty audit record at line '' @ show_nat n))) (\<lambda>_.
     bindE (rewrap_audit (''invalid audit record at line '' @ show_nat n @ '': '') (bindE (parse_json raw) audit_of_json)) (\<lambda>e.
     bindE (raise_if (ae_previous e \<noteq> previous)
              (AuditValidationError (''audit chain break at line '' @ show_nat n))) (\<lambda>_.
     bindE (raise_if (ae_hash e \<noteq> sha256 (audit_body e))
              (AuditValidationError (''audit event hash mismatch at line '' @ show_nat n))) (\<lambda>_.
     Inr e))))"

fun audit_records :: "nat \<Rightarrow> string option \<Rightarrow> string list \<Rightarrow> audit_event list res" where
  "audit_records n previous [] = Inr []"
| "audit_records n previous (raw # lines) =
     bindE (audit_record n previous raw) (\<lambda>e.
     bindE (audit_records (Suc n) (Some (ae_hash e)) lines) (\<lambda>es. Inr (e # es)))"

definition ledger_of_bytes :: "string \<Rightarrow> audit_event list res" where
  "ledger_of_bytes raw = audit_records 1 None (splitlines raw)"

definition read_events :: "audit_ledger \<Rightarrow> audit_event list io" where
  "read_events l =
     bindI (observe (\<lambda>fs. path_exists fs (audit_path l))) (\<lambda>present.
     if \<not> present then ret []
     else bindI (read_bytes (audit_path l)) (\<lambda>raw. lift (ledger_of_bytes raw)))"

definition audit_append :: "audit_ledger \<Rightarrow> audit_event_type \<Rightarrow> string list \<Rightarrow> string \<Rightarrow> audit_event io" where
  "audit_append l t refs details =
     bindI (read_events l) (\<lambda>events.
     bindI (call (au_id l ''audit'')) (\<lambda>event_id.
     bindI (call (au_clock l)) (\<lambda>ts.
     bindI (lift (audit_create event_id t (au_actor l) ts (au_policy_version l) refs details
              (last_hash ae_hash None events))) (\<lambda>e.
     bindI (append_file (audit_path l) (audit_line e)) (\<lambda>_. ret e)))))"

subsection \<open>Well-formed events\<close>

definition event_ok :: "audit_event \<Rightarrow> bool" where
  "event_ok e \<longleftrightarrow>
     audit_event_post_init e = Inr e \<and> valid_datetime (ae_timestamp e) \<and>
     list_all utf8_valid [ae_event_id e, ae_actor e, ae_policy_version e, ae_details e] \<and>
     list_all canonical (ae_affected_refs e) \<and> list_all utf8_json (ae_affected_refs e)"

lemma audit_event_post_init_Inr [result_simps]:
  "audit_event_post_init e = Inr e' \<longleftrightarrow>
     \<not> blank (ae_event_id e) \<and> \<not> blank (ae_actor e) \<and> \<not> blank (ae_policy_version e) \<and> \<not> blank (ae_details e) \<and>
     aware (ae_timestamp e) \<and> (\<forall>h. ae_previous e = Some h \<longrightarrow> hex64 h) \<and> hex64 (ae_hash e) \<and>
     e' = e\<lparr>ae_previous := map_option lower (ae_previous e), ae_hash := lower (ae_hash e)\<rparr>"
  by (auto simp: audit_event_post_init_def result_simps)

lemma event_ok_hashes:
  assumes "event_ok e"
  shows "utf8_valid (ae_hash e)" "ae_previous e = Some h \<Longrightarrow> utf8_valid h"
  using assms by (cases e; auto simp: event_ok_def result_simps intro: lower_fixed_hex)+

lemma audit_event_of_value [simp]: "audit_event_of (JStr (audit_event_value t)) = Inr t"
  by (cases t) (simp_all add: audit_event_of_def)

lemma opt_str_json [simp]: "opt_str (json_opt v) = v"
  by (cases v) (simp_all add: opt_str_def json_opt_def)

lemma canonical_json_opt [simp]: "canonical (json_opt v)" "utf8_json (json_opt v) \<longleftrightarrow> (\<forall>s. v = Some s \<longrightarrow> utf8_valid s)"
  by (cases v; simp add: json_opt_def)+

lemma audit_event_value_ascii [simp]: "utf8_valid (audit_event_value t)"
  by (cases t) (auto intro!: utf8_valid_ascii simp: ascii_def code_def)

interpretation audit_codec: json_codec audit_json audit_of_json event_ok
proof
  fix e
  assume ok: "event_ok e"
  with event_ok_hashes [OF ok] show "canonical (audit_json e) \<and> utf8_json (audit_json e)"
    by (auto simp: audit_json_def event_ok_def list_all_iff code_def ascii_def intro!: utf8_valid_ascii)
  show "audit_of_json (audit_json e) = Inr e"
    using ok by (cases e) (simp add: audit_of_json_def audit_json_def item_def event_ok_def)
qed

lemma audit_event_value_inj: "audit_event_value s = audit_event_value t \<longleftrightarrow> s = t"
  by (cases s; cases t) simp_all

lemma isoformat_inj: "valid_datetime a \<Longrightarrow> valid_datetime b \<Longrightarrow> isoformat a = isoformat b \<Longrightarrow> a = b"
  by (metis as_datetime_isoformat sum.inject(2))

lemma json_opt_inj: "json_opt a = json_opt b \<longleftrightarrow> a = b"
  by (metis opt_str_json)

interpretation audit_chain: hash_chain ae_previous ae_hash audit_body event_ok
proof
  fix x y
  assume ok: "event_ok x" "event_ok y" and same: "audit_body x = audit_body y" "ae_hash x = ae_hash y"
  have "canonical (audit_payload_json e)" if "event_ok e" for e
    using that by (auto simp: audit_payload_json_def event_ok_def list_all_iff code_def)
  with ok same(1) have "audit_payload_json x = audit_payload_json y"
    unfolding audit_body_def by (blast intro: dumps_inj)
  with same(2) ok show "x = y"
    by (cases x; cases y)
      (auto simp: audit_payload_json_def audit_event_value_inj json_opt_inj event_ok_def dest: isoformat_inj)
qed

subsection \<open>What the reader accepts\<close>

lemma audit_record_Inr:
  "audit_record n p raw = Inr e \<Longrightarrow> ae_previous e = p \<and> ae_hash e = sha256 (audit_body e)"
  by (auto simp: audit_record_def result_simps)

lemma audit_records_chain: "audit_records n p ls = Inr es \<Longrightarrow> chain_from ae_previous ae_hash audit_body p es"
proof (induction ls arbitrary: n p es)
  case (Cons raw ls)
  then obtain e es' where "audit_record n p raw = Inr e" "audit_records (Suc n) (Some (ae_hash e)) ls = Inr es'" "es = e # es'"
    by (auto simp: result_simps)
  with Cons.IH audit_record_Inr show ?case by auto
qed simp

lemma audit_records_snoc:
  "audit_records n p ls = Inr es \<Longrightarrow> audit_record (n + length ls) (last_hash ae_hash p es) l = Inr e \<Longrightarrow>
     audit_records n p (ls @ [l]) = Inr (es @ [e])"
proof (induction ls arbitrary: n p es)
  case (Cons raw ls)
  then obtain x es' where x: "audit_record n p raw = Inr x" "audit_records (Suc n) (Some (ae_hash x)) ls = Inr es'" "es = x # es'"
    by (auto simp: result_simps)
  from Cons.IH [OF x(2)] Cons.prems(2) x show ?case by simp
qed (simp add: last_hash_def)

definition terminated :: "string \<Rightarrow> bool" where
  "terminated raw \<longleftrightarrow> raw = [] \<or> last raw = newline"

lemma splitlines_append: "terminated raw \<Longrightarrow> splitlines (raw @ s) = splitlines raw @ splitlines s"
proof (induction raw rule: splitlines.induct)
  case (2 c r)
  have cr: "CHR 0x0D \<noteq> newline" by (simp add: newline_def)
  show ?case
  proof (cases "c = CHR 0x0D \<and> take 1 r = [newline]")
    case True
    then obtain r' where r: "r = newline # r'" by (cases r) auto
    with 2(4) have "terminated r'" by (auto simp: terminated_def split: if_splits)
    with 2(1) True r show ?thesis by simp
  next
    case False
    note outer = False
    show ?thesis
    proof (cases "c = newline \<or> c = CHR 0x0D")
      case True
      from 2(4) cr have "terminated r" by (auto simp: terminated_def split: if_splits)
      moreover have "c = CHR 0x0D \<Longrightarrow> r \<noteq> []" using 2(4) cr by (auto simp: terminated_def)
      ultimately show ?thesis using 2(2) [OF outer True] outer True cr by (cases r) auto
    next
      case False
      with 2(4) have r: "terminated r" "r \<noteq> []" by (auto simp: terminated_def split: if_splits)
      have "splitlines r \<noteq> []" using r(2) by (cases r) (auto split: list.splits)
      with 2(3) [OF outer False r(1)] outer False r(2) show ?thesis by (cases "splitlines r") auto
    qed
  qed
qed simp

lemma splitlines_line: "one_line l \<Longrightarrow> l \<noteq> [] \<Longrightarrow> splitlines (l @ [newline]) = [l]"
proof (induction l)
  case (Cons c l)
  then have c: "c \<noteq> newline" "c \<noteq> CHR 0x0D" "one_line l" by (auto simp: one_line_def newline_def code_def)
  show ?case
  proof (cases "l = []")
    case True
    with c show ?thesis by (simp add: newline_def)
  next
    case False
    with Cons.IH c show ?thesis by simp
  qed
qed simp

lemma dumps_not_Nil: "dumps v \<noteq> []"
  using length_dumps_pos [of v] by auto

lemma audit_record_written:
  assumes "event_ok e" "ae_previous e = p" "ae_hash e = sha256 (audit_body e)"
  shows "audit_record n p (dumps (audit_json e)) = Inr e"
  using assms audit_codec.text_back [OF assms(1)] audit_codec.line_utf8 [OF assms(1)] audit_codec.reads [OF assms(1)]
  by (simp add: audit_record_def parse_json_def rewrap_audit_def dumps_not_Nil)

lemma ledger_extended:
  assumes "ledger_of_bytes raw = Inr es" "terminated raw"
    and "event_ok e" "ae_previous e = last_hash ae_hash None es" "ae_hash e = sha256 (audit_body e)"
  shows "ledger_of_bytes (raw @ audit_line e) = Inr (es @ [e])" "terminated (raw @ audit_line e)"
proof -
  have "splitlines (raw @ audit_line e) = splitlines raw @ [dumps (audit_json e)]"
    by (simp add: splitlines_append [OF assms(2)] audit_line_def splitlines_line one_line_dumps dumps_not_Nil)
  then show "ledger_of_bytes (raw @ audit_line e) = Inr (es @ [e])"
    using audit_records_snoc [OF assms(1) [unfolded ledger_of_bytes_def] audit_record_written [OF assms(3-5)]]
    by (simp add: ledger_of_bytes_def)
  show "terminated (raw @ audit_line e)" by (simp add: terminated_def audit_line_def)
qed

lemma audit_create_Inr:
  assumes "audit_create i t a ts pol refs d p = Inr e"
  shows "ae_hash e = sha256 (audit_body e) \<and> ae_previous e = map_option lower p \<and> ae_event_type e = t \<and>
    ae_affected_refs e = map JStr refs \<and> ae_details e = d \<and> ae_actor e = a \<and> ae_policy_version e = pol \<and>
    ae_timestamp e = ts \<and> ae_event_id e = i \<and> audit_event_post_init e = Inr e \<or> (\<exists>h. p = Some h \<and> lower h \<noteq> h)"
  using assms by (cases p) (auto simp: audit_create_def Let_def result_simps audit_body_def audit_payload_json_def)

subsection \<open>What an append leaves behind\<close>

definition ledger_texts :: "audit_ledger \<Rightarrow> bool" where
  "ledger_texts l \<longleftrightarrow>
     plain_path (au_root l) \<and> utf8_valid (au_policy_version l) \<and> utf8_valid (au_actor l) \<and>
     (\<forall>n. utf8_valid (au_id l ''audit'' n) \<and> valid_datetime (au_clock l n))"

definition ledger_holds :: "audit_ledger \<Rightarrow> fs \<Rightarrow> audit_event list \<Rightarrow> bool" where
  "ledger_holds l fs es \<longleftrightarrow>
     node_at fs (audit_path l) \<noteq> Some Dir \<and> ledger_of_bytes (contents fs (audit_path l)) = Inr es \<and>
     terminated (contents fs (audit_path l))"

definition audited ::
  "audit_ledger \<Rightarrow> audit_event_type \<Rightarrow> string list \<Rightarrow> string \<Rightarrow> fs \<Rightarrow> audit_event res \<Rightarrow> fs \<Rightarrow> bool" where
  "audited l t refs details s r u \<longleftrightarrow>
     (\<forall>q. q \<noteq> audit_path l \<longrightarrow> node_at u q = node_at s q) \<and>
     (\<exists>x. contents u (audit_path l) = contents s (audit_path l) @ x) \<and>
     (\<forall>e. r = Inr e \<longrightarrow> (\<exists>es. ledger_of_bytes (contents s (audit_path l)) = Inr es \<and>
        node_at u (audit_path l) = Some (File (contents s (audit_path l) @ audit_line e)) \<and>
        ae_event_type e = t \<and> ae_details e = details \<and> ae_affected_refs e = map JStr refs \<and> ae_actor e = au_actor l \<and>
        ae_previous e = last_hash ae_hash None es \<and> ae_hash e = sha256 (audit_body e) \<and>
        audit_event_post_init e = Inr e \<and> ae_policy_version e = au_policy_version l \<and>
        (\<exists>n. ae_event_id e = au_id l ''audit'' n) \<and> (\<exists>n. ae_timestamp e = au_clock l n)))"

lemma plain_audit_path: "plain_path (au_root l) \<Longrightarrow> plain_path (audit_path l)"
  by (simp add: audit_path_def audit_dir_def)

lemma contents_file: "node_at fs p = Some (File b) \<Longrightarrow> contents fs p = b"
  by (simp add: contents_def)

lemma read_events_ensured:
  assumes "plain_path (au_root l)"
  shows "ensures fs (read_events l) (\<lambda>es. ledger_of_bytes (contents fs (audit_path l)) = Inr es)"
  unfolding read_events_def
  by (intro ensures_rules plain_audit_path assms)
    (auto simp: path_exists_def plain_audit_path assms contents_def ledger_of_bytes_def files_Some)

lemma yields_events:
  assumes "ledger_holds l fs es" "plain_path (au_root l)"
  shows "yields fs (read_events l) es"
proof (cases "node_at fs (audit_path l)")
  case None
  with assms show ?thesis unfolding read_events_def
    by (intro yields_observe_step)
      (simp add: path_exists_def plain_audit_path ledger_holds_def contents_def ledger_of_bytes_def yields_last)
next
  case (Some n)
  with assms(1) obtain b where b: "node_at fs (audit_path l) = Some (File b)" by (cases n) (auto simp: ledger_holds_def)
  with assms have parsed: "ledger_of_bytes b = Inr es" by (simp add: ledger_holds_def contents_def)
  have "path_exists fs (audit_path l)" using b assms(2) by (simp add: path_exists_def plain_audit_path)
  then show ?thesis unfolding read_events_def using b plain_audit_path [OF assms(2)] parsed
    by (intro yields_observe_step) (simp, intro yields_read_step yields_last parsed, simp_all add: files_Some)
qed

lemma ledger_frames [frame_rules]: "keeps (=) (read_events l)"
  unfolding read_events_def by (intro frame_rules)

lemma ledger_env [env_rules]: "env_kept (read_events l)" "env_kept (audit_append l t refs d)"
  unfolding read_events_def audit_append_def by (intro env_rules env_files)+

lemma chain_hash_lower:
  assumes "chain_from ae_previous ae_hash audit_body None es"
  shows "map_option lower (last_hash ae_hash None es) = last_hash ae_hash None es"
proof (cases es rule: rev_cases)
  case (snoc xs x)
  with assms have "ae_hash x = sha256 (audit_body x)" by (simp add: chain_snoc)
  with snoc show ?thesis by simp
qed simp

lemma outcome_audit:
  assumes "plain_path (au_root l)"
  shows "outcome U fs (audit_append l t refs details) (audited l t refs details fs)"
  unfolding audit_append_def
proof (intro outcome_reader [OF read_events_ensured [OF assms] ledger_frames ledger_env(1)] outcome_call_step outcome_lift_step)
  show unchanged: "audited l t refs details fs (Inl x) fs" for x by (simp add: audited_def)
  then show "audited l t refs details fs (Inl x) fs" for x .
  fix es n m e
  assume es: "ledger_of_bytes (contents fs (audit_path l)) = Inr es"
    and e: "audit_create (au_id l ''audit'' n) t (au_actor l) (au_clock l m) (au_policy_version l) refs details
      (last_hash ae_hash None es) = Inr e"
  have "map_option lower (last_hash ae_hash None es) = last_hash ae_hash None es"
    using chain_hash_lower audit_records_chain es by (simp add: ledger_of_bytes_def)
  with audit_create_Inr [OF e] have made: "ae_hash e = sha256 (audit_body e)" "ae_previous e = last_hash ae_hash None es"
    "ae_event_type e = t" "ae_affected_refs e = map JStr refs" "ae_details e = details" "ae_actor e = au_actor l"
    "ae_policy_version e = au_policy_version l" "audit_event_post_init e = Inr e" "ae_event_id e = au_id l ''audit'' n"
    "ae_timestamp e = au_clock l m"
    by auto
  show "outcome U fs (bindI (append_file (audit_path l) (audit_line e)) (\<lambda>_. ret e)) (audited l t refs details fs)"
  proof (rule outcome_bind [OF outcome_append [OF plain_audit_path [OF assms]]])
    have tail: "\<exists>x. contents u (audit_path l) = contents fs (audit_path l) @ x"
      if "appended (audit_path l) (audit_line e) fs r u" for r u
      using that unfolding appended_def by (auto simp: contents_def)
    show "audited l t refs details fs (Inl x) u" if "appended (audit_path l) (audit_line e) fs (Inl x) u" for x u
      using that tail [OF that] by (simp add: audited_def appended_def)
    show "outcome U u (ret e) (audited l t refs details fs)" if "appended (audit_path l) (audit_line e) fs (Inr x) u" for x u
      by (rule outcome_last) (use that tail [OF that] made es in \<open>auto simp: audited_def appended_def\<close>)
  qed
qed

lemma audited_event_ok:
  assumes "audited l t refs details s (Inr e) u" "ledger_texts l" "list_all utf8_valid refs" "utf8_valid details"
  shows "event_ok e"
  using assms by (auto simp: audited_def ledger_texts_def event_ok_def list_all_iff)

lemma audited_holds:
  assumes "audited l t refs details s (Inr e) u" "ledger_texts l" "list_all utf8_valid refs" "utf8_valid details"
    and "ledger_holds l s es"
  shows "ledger_holds l u (es @ [e])"
proof -
  let ?p = "audit_path l"
  from assms(1,5) have at: "node_at u ?p = Some (File (contents s ?p @ audit_line e))"
    "ledger_of_bytes (contents s ?p) = Inr es" "terminated (contents s ?p)"
    "ae_previous e = last_hash ae_hash None es" "ae_hash e = sha256 (audit_body e)"
    by (auto simp: audited_def ledger_holds_def)
  from ledger_extended [OF at(2,3) audited_event_ok [OF assms(1-4)] at(4,5)] at(1)
  show ?thesis by (simp add: ledger_holds_def contents_def)
qed

text \<open>Without failures an append to an intact ledger returns.\<close>

definition quietly :: "world \<Rightarrow> world \<Rightarrow> bool" where
  "quietly w w' \<longleftrightarrow> quiet w' \<and> w_uuid w' = w_uuid w"

lemma quietly_run:
  assumes "yields (w_fs w) m x" "env_kept m" "quiet w"
  obtains w' where "m w = (Inr x, w')" "w_fs w' = w_fs w" "quietly w w'"
  using assms env_keptD unfolding yields_def quietly_def by metis

lemma append_file_returns:
  assumes "quiet w" "plain_path p" "p \<noteq> []" "node_at (w_fs w) (butlast p) = Some Dir" "node_at (w_fs w) p \<noteq> Some Dir"
  shows "\<exists>w'. append_file p data w = (Inr (), w')"
proof (cases "node_at (w_fs w) p")
  case None
  with assms show ?thesis
    by (simp add: append_file_def open_append_def sys_def Let_def quiet_def bindI_def write_fd_def fsync_fd_def)
next
  case (Some n)
  with assms(5) obtain b where "node_at (w_fs w) p = Some (File b)" by (cases n) auto
  with assms show ?thesis
    by (simp add: append_file_def open_append_def sys_def Let_def quiet_def bindI_def write_fd_def fsync_fd_def)
qed

lemma audit_append_returns:
  assumes "quiet w" "ledger_holds l (w_fs w) es" "plain_path (au_root l)" "node_at (w_fs w) (audit_dir l) = Some Dir"
    and "list_all (\<lambda>s. \<not> blank s) [au_policy_version l, au_actor l, details]"
    and "\<And>n. \<not> blank (au_id l ''audit'' n) \<and> aware (au_clock l n)"
  shows "\<exists>e w'. audit_append l t refs details w = (Inr e, w') \<and> quietly w w'"
proof -
  obtain v where v: "read_events l w = (Inr es, v)" "w_fs v = w_fs w" "quietly w v"
    using quietly_run [OF yields_events [OF assms(2,3)] ledger_env(1) assms(1)] by metis
  have chain: "chain_from ae_previous ae_hash audit_body None es"
    using assms(2) unfolding ledger_holds_def ledger_of_bytes_def by (blast intro: audit_records_chain)
  have "\<forall>h. last_hash ae_hash None es = Some h \<longrightarrow> hex64 h"
    using chain by (cases es rule: rev_cases) (auto simp: chain_snoc)
  then have "\<exists>e. audit_create i t (au_actor l) ts (au_policy_version l) refs details (last_hash ae_hash None es) = Inr e"
    if "\<not> blank i" "aware ts" for i ts
    using assms(5) that by (simp add: audit_create_def Let_def audit_event_post_init_Inr)
  with assms(6) obtain e where e: "audit_create (au_id l ''audit'' (w_tick v)) t (au_actor l) (au_clock l (Suc (w_tick v)))
      (au_policy_version l) refs details (last_hash ae_hash None es) = Inr e" by blast
  let ?u = "v\<lparr>w_tick := Suc (Suc (w_tick v))\<rparr>"
  have "\<exists>w'. append_file (audit_path l) (audit_line e) ?u = (Inr (), w')"
    using v(2,3) assms(2,4) plain_audit_path [OF assms(3)]
    by (intro append_file_returns) (auto simp: quietly_def quiet_def ledger_holds_def audit_path_def)
  then obtain w' where run: "append_file (audit_path l) (audit_line e) ?u = (Inr (), w')" by blast
  have "audit_append l t refs details w = (Inr e, w')"
    using v(1) e run by (simp add: audit_append_def bindI_def call_def)
  with env_keptD [OF ledger_env(2) this] assms(1) show ?thesis by (auto simp: quietly_def quiet_def)
qed

text \<open>The ledger is append-only: whatever fails during an append, no other path changes and the bytes
  that were in the file are a prefix of the bytes that are in it afterwards.\<close>

theorem audit_ledger_is_append_only:
  assumes "audit_append l t refs details w = (r, w')" "plain_path (au_root l)"
  shows "(\<exists>x. contents (w_fs w') (audit_path l) = contents (w_fs w) (audit_path l) @ x) \<and>
    (\<forall>q. q \<noteq> audit_path l \<longrightarrow> node_at (w_fs w') q = node_at (w_fs w) q)"
  using outcomeD [OF outcome_audit [OF assms(2), where U = "\<lambda>u. True"] refl _ assms(1)] by (auto simp: audited_def)

text \<open>C15. Appending to a ledger that reads as \<open>es\<close> and returning the event \<open>e\<close> makes it read as \<open>es\<close>
  followed by \<open>e\<close>, where \<open>e\<close> carries the given type, references and details and is linked to the last
  event of \<open>es\<close>.\<close>

theorem append_is_read_back:
  assumes "audit_append l t refs details w = (Inr e, w')" "ledger_holds l (w_fs w) es"
    and "ledger_texts l" "list_all utf8_valid refs" "utf8_valid details"
  shows "yields (w_fs w') (read_events l) (es @ [e]) \<and> ledger_holds l (w_fs w') (es @ [e]) \<and>
    ae_event_type e = t \<and> ae_affected_refs e = map JStr refs \<and> ae_details e = details \<and>
    ae_previous e = last_hash ae_hash None es"
proof -
  have plain: "plain_path (au_root l)" using assms(3) by (simp add: ledger_texts_def)
  have out: "audited l t refs details (w_fs w) (Inr e) (w_fs w')"
    using outcomeD [OF outcome_audit [OF plain, where U = "\<lambda>u. True"] refl _ assms(1)] by simp
  from audited_holds [OF out assms(3-5,2)] yields_events [OF _ plain]
  show ?thesis using out assms(2) by (auto simp: audited_def ledger_holds_def)
qed


subsection \<open>A concrete ledger\<close>

definition example_ledger :: audit_ledger where
  "example_ledger =
     \<lparr>au_root = [''store''], au_policy_version = ''p7-v1'', au_actor = ''galia'', au_clock = example_time,
      au_id = (\<lambda>prefix n. prefix)\<rparr>"

definition audit_disk :: fs where
  "audit_disk = [([''store''], Dir), ([''store'', ''audit''], Dir)]"

lemma example_ledger_ok: "ledger_texts example_ledger" "plain_path (au_root example_ledger)" "ledger_holds example_ledger audit_disk []"
proof -
  have "list_all utf8_valid [''p7-v1'', ''galia'', ''audit'']"
    by (auto simp: ascii_def code_def intro!: utf8_valid_ascii)
  then show "ledger_texts example_ledger"
    by (simp add: ledger_texts_def example_ledger_def del: utf8_valid.simps)
  show "plain_path (au_root example_ledger)" by (simp add: example_ledger_def)
  show "ledger_holds example_ledger audit_disk []"
    by (simp add: ledger_holds_def example_ledger_def audit_path_def audit_dir_def audit_disk_def node_at_def contents_def
        ledger_of_bytes_def terminated_def)
qed

lemma example_append:
  "\<exists>e w'. audit_append example_ledger RECOVERY_INTAKE [''c1''] ''d'' (quiet_world audit_disk) = (Inr e, w')"
proof -
  have "\<not> path_exists audit_disk [''store'', ''audit'', ''events.jsonl'']"
    by (simp add: path_exists_def audit_disk_def node_at_def)
  then show ?thesis
    by (simp add: audit_append_def read_events_def example_ledger_def audit_path_def audit_dir_def bindI_def call_def
        quiet_world_def audit_create_def Let_def audit_event_post_init_def required_def hash_field_def hash_field_opt_def
        aware_field_def append_file_def open_append_def sys_def audit_disk_def node_at_def fs_put_def write_fd_def fsync_fd_def)
qed

theorem append_is_read_back_witness:
  "\<exists>e w'. audit_append example_ledger RECOVERY_INTAKE [''c1''] ''d'' (quiet_world audit_disk) = (Inr e, w') \<and>
     yields (w_fs w') (read_events example_ledger) [e]"
proof -
  obtain e w' where run: "audit_append example_ledger RECOVERY_INTAKE [''c1''] ''d'' (quiet_world audit_disk) = (Inr e, w')"
    using example_append by blast
  have "list_all utf8_valid [''c1'']" "utf8_valid ''d''"
    by (auto simp: ascii_def code_def intro!: utf8_valid_ascii)
  with append_is_read_back [OF run _ example_ledger_ok(1)] example_ledger_ok(3) run show ?thesis by force
qed

theorem audit_ledger_is_append_only_witness:
  "node_at (w_fs (snd (audit_append example_ledger RECOVERY_INTAKE [''c1''] ''d''
     ((quiet_world audit_disk)\<lparr>w_fault := \<lambda>n. Some 5\<rparr>)))) [''store''] = Some Dir"
proof -
  have "audit_path example_ledger \<noteq> [''store'']" "node_at audit_disk [''store''] = Some Dir"
    by (simp_all add: audit_path_def audit_dir_def example_ledger_def audit_disk_def node_at_def)
  with audit_ledger_is_append_only [OF prod.collapse [symmetric] example_ledger_ok(2)] show ?thesis by simp
qed

text \<open>A record torn by an interrupted write is never repaired: nothing can be appended any more.\<close>

lemma unreadable_ledger_refuses:
  assumes "node_at (w_fs v) (audit_path l) = Some (File raw)" "ledger_of_bytes raw = Inl e" "plain_path (au_root l)"
  shows "\<exists>x v'. audit_append l t refs d v = (Inl x, v') \<and> w_fs v' = w_fs v"
proof -
  have "\<exists>x v'. read_events l v = (Inl x, v') \<and> w_fs v' = w_fs v"
    using assms plain_audit_path [OF assms(3)]
    by (auto simp: read_events_def path_exists_def bindI_def read_bytes_def sys_def Let_def split: option.splits)
  then show ?thesis by (auto simp: audit_append_def)
qed

text \<open>An interrupted append can stop the ledger for good: when the write of a record fails after one byte,
  the append raises and from then on every append raises and changes nothing.\<close>

theorem torn_append_stops_the_ledger:
  "\<exists>w'. audit_append example_ledger RECOVERY_INTAKE [''c1''] ''d''
       ((quiet_world audit_disk)\<lparr>w_fault := \<lambda>n. if n = 3 then Some 1 else None\<rparr>) = (os_error, w') \<and>
     (\<forall>v t refs d. \<exists>e v'. audit_append example_ledger t refs d (v\<lparr>w_fs := w_fs w'\<rparr>) = (Inl e, v') \<and> w_fs v' = w_fs w')"
proof -
  have places: "audit_path example_ledger = [''store'', ''audit'', ''events.jsonl'']" "plain_path (au_root example_ledger)"
    by (simp_all add: audit_path_def audit_dir_def example_ledger_def)
  have absent: "\<not> path_exists audit_disk [''store'', ''audit'', ''events.jsonl'']"
    by (simp add: path_exists_def audit_disk_def node_at_def)
  have brace: "take (Suc 0) (audit_line e) = ''{''" for e
    by (simp add: audit_line_def audit_json_def write_obj_def)
  let ?w = "(quiet_world audit_disk)\<lparr>w_fault := \<lambda>n. if n = 3 then Some 1 else None\<rparr>"
  obtain w' where w': "audit_append example_ledger RECOVERY_INTAKE [''c1''] ''d'' ?w = (os_error, w') \<and>
      node_at (w_fs w') [''store'', ''audit'', ''events.jsonl''] = Some (File ''{'')"
    using absent
    by (simp add: audit_append_def read_events_def example_ledger_def audit_path_def audit_dir_def bindI_def call_def
        quiet_world_def audit_create_def Let_def audit_event_post_init_def required_def hash_field_def hash_field_opt_def
        aware_field_def append_file_def open_append_def sys_def audit_disk_def node_at_def fs_put_def write_fd_def contents_def brace)
  obtain e where e: "ledger_of_bytes ''{'' = Inl e"
  proof -
    have "loads ''{'' = None" by code_simp
    then have "\<exists>e. parse_json ''{'' = Inl e" by (simp add: parse_json_def)
    then have "\<exists>e. audit_record 1 None ''{'' = Inl e" by (auto simp: audit_record_def rewrap_audit_def)
    moreover have "splitlines ''{'' = [''{'']" by (simp add: newline_def)
    ultimately show thesis using that by (auto simp: ledger_of_bytes_def)
  qed
  have "\<exists>x v'. audit_append example_ledger t refs d (v\<lparr>w_fs := w_fs w'\<rparr>) = (Inl x, v') \<and> w_fs v' = w_fs w'" for v t refs d
    using unreadable_ledger_refuses [OF _ e places(2), of "v\<lparr>w_fs := w_fs w'\<rparr>"] w' by (simp add: places(1))
  with w' show ?thesis by blast
qed

definition example_event :: audit_event where
  "example_event =
     (let e = \<lparr>ae_event_id = ''e1'', ae_event_type = RECOVERY_INTAKE, ae_actor = ''galia'', ae_timestamp = example_time 0,
               ae_policy_version = ''p7-v1'', ae_affected_refs = [JStr ''c1''], ae_details = ''d'', ae_previous = None,
               ae_hash = ''''\<rparr> in e\<lparr>ae_hash := sha256 (audit_body e)\<rparr>)"

lemma example_event_ledger: "event_ok example_event" "ledger_of_bytes (audit_line example_event) = Inr [example_event]"
proof -
  have "list_all utf8_valid [''e1'', ''galia'', ''p7-v1'', ''c1'', ''d'']"
    by (auto simp: ascii_def code_def intro!: utf8_valid_ascii)
  then show ok: "event_ok example_event"
    by (simp add: event_ok_def example_event_def Let_def audit_event_post_init_Inr del: utf8_valid.simps)
  have "ledger_of_bytes [] = Inr []" by (simp add: ledger_of_bytes_def)
  from ledger_extended(1) [OF this _ ok] show "ledger_of_bytes (audit_line example_event) = Inr [example_event]"
    by (simp add: terminated_def) (simp add: example_event_def Let_def audit_body_def audit_payload_json_def)
qed


end
