(* ===== verification/Persistence.thy ===== *)
theory Persistence
  imports Generations StateMachine
begin

section \<open>Generation store\<close>

text \<open>
  \<open>GenerationStore\<close> of \<open>galia2/persistence.py\<close>: staging, publication, HEAD and verification on the
  file system model, every system call a possible failure.  The store's \<open>replace_fn\<close> is
  \<open>os.replace\<close>, its default.
\<close>

record generation_store =
  gs_root :: path
  gs_policy_version :: string
  gs_actor :: string
  gs_clock :: "nat \<Rightarrow> datetime"
  gs_id :: "string \<Rightarrow> nat \<Rightarrow> string"

definition generations_dir :: "generation_store \<Rightarrow> path" where
  "generations_dir g = gs_root g @ [''generations'']"

definition staging_dir :: "generation_store \<Rightarrow> path" where
  "staging_dir g = gs_root g @ [''staging'']"

definition head_path :: "generation_store \<Rightarrow> path" where
  "head_path g = gs_root g @ [''HEAD'']"

definition store_init :: "generation_store \<Rightarrow> generation_store io" where
  "store_init g =
     bindI (lift (requireds [(''policy_version'', gs_policy_version g), (''actor'', gs_actor g)])) (\<lambda>_.
     bindI (mkdir_parents (generations_dir g)) (\<lambda>_.
     bindI (mkdir_parents (staging_dir g)) (\<lambda>_. ret g)))"

record staged_generation =
  sg_commit_id :: string
  sg_manifest :: generation_manifest
  sg_manifest_hash :: string
  sg_receipt :: receipt

definition staged_post_init :: "staged_generation \<Rightarrow> staged_generation res" where
  "staged_post_init s =
     bindE (required ''commit_id'' (sg_commit_id s)) (\<lambda>_.
     bindE (raise_if (sg_commit_id s \<noteq> gm_commit_id (sg_manifest s))
              (ValueError ''staged commit_id must match manifest'')) (\<lambda>_.
     bindE (hash_field ''manifest_hash'' (sg_manifest_hash s)) (\<lambda>h.
     bindE (raise_if (h \<noteq> manifest_sha256 (sg_manifest s))
              (ValueError ''manifest_hash does not match manifest bytes'')) (\<lambda>_.
     Inr (s\<lparr>sg_manifest_hash := h\<rparr>)))))"

record published_generation =
  pb_head :: head_pointer
  pb_manifest :: generation_manifest
  pb_promotion :: promotion_envelope
  pb_receipt :: receipt

subsection \<open>Staging\<close>

definition payload_file :: "path \<Rightarrow> payload_entry \<Rightarrow> path" where
  \<comment> \<open>\<open>directory / "payload" / Path(*PurePosixPath(entry.path).parts)\<close>\<close>
  "payload_file d e = d @ ''payload'' # parts (pe_path e)"

fun check_payload :: "(string \<times> string) list \<Rightarrow> payload_entry \<Rightarrow> unit res" where
  "check_payload payloads e =
     (case map_of payloads (pe_path e) of
        None \<Rightarrow> Inl (StdError ''KeyError'')
      | Some data \<Rightarrow>
          bindE (raise_if (int (length data) \<noteq> pe_byte_size e)
                   (PersistenceValidationError (''payload size mismatch for '' @ pe_path e))) (\<lambda>_.
          raise_if (sha256 data \<noteq> pe_sha256 e)
            (PersistenceValidationError (''payload hash mismatch for '' @ pe_path e))))"

definition validate_payloads :: "generation_manifest \<Rightarrow> (string \<times> string) list \<Rightarrow> unit res" where
  "validate_payloads m payloads =
     bindE (raise_if (fst ` set payloads \<noteq> pe_path ` set (gm_payloads m))
              (PersistenceValidationError ''payload paths do not exactly match manifest'')) (\<lambda>_.
     bindE (mapE (check_payload payloads) (gm_payloads m)) (\<lambda>_. Inr ()))"

definition wrap_publish_error :: "string \<Rightarrow> 'a io \<Rightarrow> 'a io" where
  \<comment> \<open>\<open>except Exception as exc: raise PersistencePublishError(f"...: {exc}") from exc\<close>\<close>
  "wrap_publish_error what m = catch m (\<lambda>e. throw (PersistencePublishError (what @ exc_str e)))"

definition write_payload :: "path \<Rightarrow> (string \<times> string) list \<Rightarrow> payload_entry \<Rightarrow> unit io" where
  "write_payload temp payloads e =
     (let dst = payload_file temp e in
      bindI (mkdir_parents (butlast dst)) (\<lambda>_.
      write_new_file dst (the (map_of payloads (pe_path e)))))"

definition materialize :: "generation_store \<Rightarrow> generation_manifest \<Rightarrow> (string \<times> string) list \<Rightarrow> path \<Rightarrow> path \<Rightarrow> unit io" where
  \<comment> \<open>the body of the \<open>try\<close> of \<open>stage_generation\<close>\<close>
  "materialize g m payloads temp final_stage =
     bindI (mkdir_new (temp @ [''payload''])) (\<lambda>_.
     bindI (forI (write_payload temp payloads) (gm_payloads m)) (\<lambda>_.
     bindI (write_new_file (temp @ [''manifest.json'']) (manifest_bytes m)) (\<lambda>_.
     bindI (fsync_dir (temp @ [''payload''])) (\<lambda>_.
     bindI (fsync_dir temp) (\<lambda>_.
     bindI (os_replace temp final_stage) (\<lambda>_.
     fsync_dir (staging_dir g)))))))"

definition stage_generation ::
  "generation_store \<Rightarrow> generation_manifest \<Rightarrow> (string \<times> string) list \<Rightarrow> staged_generation io" where
  "stage_generation g m payloads =
     bindI (lift (validate_payloads m payloads)) (\<lambda>_.
     bindI (throw_if (gm_policy_version m \<noteq> gs_policy_version g)
              (PersistenceValidationError ''manifest persistence policy does not match store'')) (\<lambda>_.
     let final_stage = subpath (staging_dir g) (gm_commit_id m);
         final_generation = subpath (generations_dir g) (gm_commit_id m) in
     bindI (observe (\<lambda>fs. path_exists fs final_stage \<or> path_exists fs final_generation)) (\<lambda>present.
     bindI (throw_if present (ImmutableGenerationError ''generation already exists and is immutable'')) (\<lambda>_.
     bindI uuid4 (\<lambda>u.
     let temp = subpath (staging_dir g) (''.'' @ gm_commit_id m @ ''.tmp-'' @ u) in
     bindI (wrap_publish_error ''failed to stage generation: '' (materialize g m payloads temp final_stage)) (\<lambda>_.
     bindI (call (gs_id g ''receipt'')) (\<lambda>rid.
     bindI (call (gs_clock g)) (\<lambda>now.
     bindI (lift (receipt_post_init
       \<lparr>rc_receipt_id = rid, rc_operation = ''PERSIST_STAGE_GENERATION'',
        rc_input_commit = Some (gm_parent_commit m), rc_input_hashes = map pe_sha256 (gm_payloads m),
        rc_output_commit = None, rc_output_hashes = manifest_sha256 m # map pe_sha256 (gm_payloads m),
        rc_policy_version = gs_policy_version g, rc_actor = gs_actor g, rc_timestamp = now,
        rc_result = ''STAGED:'' @ gm_commit_id m\<rparr>)) (\<lambda>receipt.
     lift (staged_post_init
       \<lparr>sg_commit_id = gm_commit_id m, sg_manifest = m, sg_manifest_hash = manifest_sha256 m,
        sg_receipt = receipt\<rparr>))))))))))"

subsection \<open>HEAD and verification\<close>

definition read_head :: "generation_store \<Rightarrow> head_pointer option io" where
  "read_head g =
     bindI (observe (\<lambda>fs. path_exists fs (head_path g))) (\<lambda>present.
     if \<not> present then ret None
     else
       bindI (catch (read_bytes (head_path g))
                (\<lambda>e. throw (PersistenceValidationError (''invalid HEAD: '' @ exc_str e)))) (\<lambda>raw.
       bindI (lift (head_from_bytes raw)) (\<lambda>h. ret (Some h))))"

definition verify_payload_file :: "path \<Rightarrow> payload_entry \<Rightarrow> unit io" where
  "verify_payload_file d e =
     bindI (observe (\<lambda>fs. is_file fs (payload_file d e))) (\<lambda>present.
     bindI (throw_if (\<not> present) (PersistenceValidationError (''payload missing: '' @ pe_path e))) (\<lambda>_.
     bindI (read_bytes (payload_file d e)) (\<lambda>data.
     throw_if (int (length data) \<noteq> pe_byte_size e \<or> sha256 data \<noteq> pe_sha256 e)
       (PersistenceValidationError (''payload integrity mismatch: '' @ pe_path e)))))"

definition verify_payload_files :: "path \<Rightarrow> generation_manifest \<Rightarrow> unit io" where
  "verify_payload_files d m = forI (verify_payload_file d) (gm_payloads m)"

definition payload_names :: "generation_manifest \<Rightarrow> string set" where
  "payload_names m = (\<lambda>e. ''payload/'' @ pe_path e) ` set (gm_payloads m)"

definition verify_published_directory ::
  "path \<Rightarrow> generation_manifest \<Rightarrow> string \<Rightarrow> string \<Rightarrow> unit io" where
  "verify_published_directory d m manifest_hash promotion_hash =
     bindI (verify_payload_files d m) (\<lambda>_.
     bindI (observe (\<lambda>fs. files_under fs d)) (\<lambda>actual.
     bindI (throw_if (actual \<noteq> {''manifest.json'', ''promotion.json''} \<union> payload_names m)
              (PersistenceValidationError ''generation contains undeclared or missing files'')) (\<lambda>_.
     bindI (read_bytes (d @ [''manifest.json''])) (\<lambda>manifest_raw.
     bindI (throw_if (sha256 manifest_raw \<noteq> manifest_hash)
              (PersistenceValidationError ''manifest hash mismatch'')) (\<lambda>_.
     bindI (read_bytes (d @ [''promotion.json''])) (\<lambda>promotion_raw.
     throw_if (sha256 promotion_raw \<noteq> promotion_hash)
       (PersistenceValidationError ''promotion envelope hash mismatch'')))))))"

definition verify_candidate_directory :: "path \<Rightarrow> generation_manifest \<Rightarrow> string \<Rightarrow> unit io" where
  "verify_candidate_directory d m expected_manifest_hash =
     bindI (observe (\<lambda>fs. is_file fs (d @ [''manifest.json'']))) (\<lambda>present.
     bindI (if \<not> present then ret None else bindI (read_bytes (d @ [''manifest.json''])) (\<lambda>b. ret (Some b))) (\<lambda>raw.
     bindI (throw_if (map_option sha256 raw \<noteq> Some expected_manifest_hash)
              (PersistenceValidationError ''candidate manifest integrity mismatch'')) (\<lambda>_.
     bindI (verify_payload_files d m) (\<lambda>_.
     bindI (observe (\<lambda>fs. files_under fs d)) (\<lambda>actual.
     throw_if (actual \<noteq> {''manifest.json''} \<union> payload_names m)
       (PersistenceValidationError ''candidate contains undeclared or missing files''))))))"

definition expect_hash :: "string \<Rightarrow> string option \<Rightarrow> string \<Rightarrow> string \<Rightarrow> unit res" where
  \<comment> \<open>\<open>if expected is not None and actual != _hash(name, expected): raise ...\<close>\<close>
  "expect_hash name expected actual msg =
     (case expected of None \<Rightarrow> Inr ()
      | Some e \<Rightarrow> bindE (hash_field name e) (\<lambda>h. raise_if (actual \<noteq> h) (PersistenceValidationError msg)))"

definition verify_generation ::
  "generation_store \<Rightarrow> string \<Rightarrow> string option \<Rightarrow> string option \<Rightarrow> generation_manifest io" where
  "verify_generation g commit_id expected_manifest expected_promotion =
     bindI (lift (required ''commit_id'' commit_id)) (\<lambda>_.
     let d = subpath (generations_dir g) commit_id in
     bindI (observe (\<lambda>fs. is_dir fs d)) (\<lambda>present.
     bindI (throw_if (\<not> present) (PersistenceValidationError ''generation not found'')) (\<lambda>_.
     bindI (observe (\<lambda>fs. is_file fs (d @ [''manifest.json'']) \<and> is_file fs (d @ [''promotion.json'']))) (\<lambda>both.
     bindI (throw_if (\<not> both)
              (PersistenceValidationError ''generation manifest or promotion envelope missing'')) (\<lambda>_.
     bindI (read_bytes (d @ [''manifest.json''])) (\<lambda>manifest_raw.
     bindI (read_bytes (d @ [''promotion.json''])) (\<lambda>promotion_raw.
     let mh = sha256 manifest_raw; ph = sha256 promotion_raw in
     bindI (lift (expect_hash ''expected_manifest_hash'' expected_manifest mh ''generation manifest hash mismatch'')) (\<lambda>_.
     bindI (lift (expect_hash ''expected_promotion_hash'' expected_promotion ph ''promotion envelope hash mismatch'')) (\<lambda>_.
     bindI (lift (manifest_from_bytes manifest_raw)) (\<lambda>m.
     bindI (lift (envelope_from_bytes promotion_raw)) (\<lambda>e.
     bindI (throw_if (gm_commit_id m \<noteq> commit_id \<or> pv_commit_id e \<noteq> commit_id)
              (PersistenceValidationError ''commit_id binding mismatch'')) (\<lambda>_.
     bindI (throw_if (pv_manifest_hash e \<noteq> mh)
              (PersistenceValidationError ''promotion envelope does not bind exact manifest'')) (\<lambda>_.
     bindI (throw_if (pv_case_id e \<noteq> gm_case_id m \<or> pv_authority_decision_id e \<noteq> gm_authority_decision_id m)
              (PersistenceValidationError ''promotion envelope identity binding mismatch'')) (\<lambda>_.
     bindI (verify_published_directory d m mh ph) (\<lambda>_. ret m)))))))))))))))"

subsection \<open>Publication\<close>

definition publish_errors ::
  "staged_generation \<Rightarrow> candidate_snapshot \<Rightarrow> preflight_report \<Rightarrow> promotion_authorization \<Rightarrow>
     authority_scope \<Rightarrow> transition_decision \<Rightarrow> (bool \<times> string) list" where
  "publish_errors staged c rep auth scope d =
     (let m = sg_manifest staged in
      [(\<not> pr_passed rep, ''preflight did not pass''),
       (pr_guards rep \<noteq> {''preflight_passed'', ''rollback_target_verified''}, ''preflight guards are not exact''),
       (pr_case_id rep \<noteq> gm_case_id m \<or> cn_case_id c \<noteq> gm_case_id m, ''case binding mismatch''),
       (pr_target_commit rep \<noteq> gm_commit_id m \<or> cn_target_commit c \<noteq> gm_commit_id m,
        ''target commit binding mismatch''),
       (cn_parent_commit c \<noteq> gm_parent_commit m, ''parent commit binding mismatch''),
       (cn_manifest_hash c \<noteq> sg_manifest_hash staged, ''candidate manifest hash mismatch''),
       (sort (cn_payload_hashes c) \<noteq> sort (map pe_sha256 (gm_payloads m)), ''candidate payload hashes mismatch''),
       (cn_schema_version c \<noteq> gm_schema_version m, ''schema binding mismatch''),
       (cn_authority_decision_id c \<noteq> gm_authority_decision_id m, ''authority decision binding mismatch''),
       (pa_decision_id auth \<noteq> gm_authority_decision_id m, ''authorization decision mismatch''),
       (pa_target_commit auth \<noteq> gm_commit_id m, ''authorization target mismatch''),
       (pa_scope auth \<noteq> scope \<or> sc_case_id scope \<noteq> gm_case_id m, ''authorization scope mismatch''),
       (td_case_id d \<noteq> gm_case_id m, ''transition case mismatch''),
       (td_from d \<noteq> PROMOTION_READY, ''transition must start at PROMOTION_READY''),
       (td_to d \<noteq> CANONICAL, ''transition must target CANONICAL''),
       (td_event d \<noteq> PROMOTION_AUTHORIZED, ''transition event must be PROMOTION_AUTHORIZED''),
       (\<not> {''promotion_authorization_present'', ''authorization_matches_target''} \<subseteq> td_satisfied d,
        ''promotion decision lacks final authority guards''),
       (\<not> td_human_boundary d, ''promotion decision must cross human boundary'')])"

definition validate_publish_bindings ::
  "staged_generation \<Rightarrow> candidate_snapshot \<Rightarrow> preflight_report \<Rightarrow> promotion_authorization \<Rightarrow>
     authority_scope \<Rightarrow> transition_decision \<Rightarrow> unit res" where
  "validate_publish_bindings staged c rep auth scope d =
     (let errors = map snd (filter fst (publish_errors staged c rep auth scope d)) in
      raise_if (errors \<noteq> []) (PersistenceValidationError (join ''; '' errors)))"

definition atomic_write_head :: "generation_store \<Rightarrow> head_pointer \<Rightarrow> unit io" where
  "atomic_write_head g h =
     bindI uuid4 (\<lambda>u.
     let tmp = subpath (gs_root g) (''.HEAD.tmp-'' @ u) in
     bindI (write_new_file tmp (head_bytes h)) (\<lambda>_.
     bindI (os_replace tmp (head_path g)) (\<lambda>_.
     fsync_dir (gs_root g))))"

definition install_generation ::
  "generation_store \<Rightarrow> staged_generation \<Rightarrow> promotion_envelope \<Rightarrow> path \<Rightarrow> path \<Rightarrow> head_pointer io" where
  \<comment> \<open>the body of the \<open>try\<close> of \<open>publish_generation\<close>\<close>
  "install_generation g staged promotion src dst =
     bindI (write_new_file (src @ [''promotion.json'']) (envelope_bytes promotion)) (\<lambda>_.
     bindI (fsync_dir src) (\<lambda>_.
     bindI (os_replace src dst) (\<lambda>_.
     bindI (fsync_dir (generations_dir g)) (\<lambda>_.
     bindI (lift (head_post_init
       \<lparr>hp_commit_id = sg_commit_id staged, hp_seq = gm_seq (sg_manifest staged),
        hp_manifest_hash = sg_manifest_hash staged, hp_promotion_hash = envelope_sha256 promotion\<rparr>)) (\<lambda>head.
     bindI (atomic_write_head g head) (\<lambda>_. ret head))))))"

definition publish_generation ::
  "generation_store \<Rightarrow> staged_generation \<Rightarrow> candidate_snapshot \<Rightarrow> preflight_report \<Rightarrow>
     promotion_authorization \<Rightarrow> authority_scope \<Rightarrow> transition_decision \<Rightarrow> published_generation io" where
  "publish_generation g staged c rep auth scope d =
     bindI (lift (validate_publish_bindings staged c rep auth scope d)) (\<lambda>_.
     bindI (read_head g) (\<lambda>current.
     case current of
       None \<Rightarrow> throw (PersistenceValidationError ''HEAD must already reference the verified parent generation'')
     | Some cur \<Rightarrow>
     bindI (throw_if (hp_commit_id cur \<noteq> gm_parent_commit (sg_manifest staged))
              (PersistenceValidationError ''current HEAD does not match manifest parent_commit'')) (\<lambda>_.
     bindI (throw_if (gm_seq (sg_manifest staged) \<noteq> hp_seq cur + 1)
              (PersistenceValidationError ''manifest seq must be exactly HEAD.seq + 1'')) (\<lambda>_.
     bindI (verify_generation g (hp_commit_id cur) (Some (hp_manifest_hash cur)) (Some (hp_promotion_hash cur))) (\<lambda>_.
     let src = subpath (staging_dir g) (sg_commit_id staged);
         dst = subpath (generations_dir g) (sg_commit_id staged) in
     bindI (observe (\<lambda>fs. is_dir fs src)) (\<lambda>staged_present.
     bindI (throw_if (\<not> staged_present) (PersistenceValidationError ''staged generation is missing'')) (\<lambda>_.
     bindI (observe (\<lambda>fs. path_exists fs dst)) (\<lambda>published_present.
     bindI (throw_if published_present (ImmutableGenerationError ''generation already exists'')) (\<lambda>_.
     bindI (verify_candidate_directory src (sg_manifest staged) (sg_manifest_hash staged)) (\<lambda>_.
     bindI (call (gs_clock g)) (\<lambda>published_at.
     bindI (lift (envelope_post_init
       \<lparr>pv_commit_id = sg_commit_id staged, pv_case_id = gm_case_id (sg_manifest staged),
        pv_manifest_hash = sg_manifest_hash staged,
        pv_authority_decision_id = gm_authority_decision_id (sg_manifest staged),
        pv_authorization_id = pa_authorization_id auth, pv_authorization_policy = pa_policy_version auth,
        pv_preflight_receipt_id = rc_receipt_id (pr_receipt rep), pv_policy_version = gs_policy_version g,
        pv_published_at = published_at\<rparr>)) (\<lambda>promotion.
     bindI (wrap_publish_error ''failed to publish generation: '' (install_generation g staged promotion src dst)) (\<lambda>head.
     bindI (call (gs_id g ''receipt'')) (\<lambda>rid.
     bindI (call (gs_clock g)) (\<lambda>now.
     bindI (lift (receipt_post_init
       \<lparr>rc_receipt_id = rid, rc_operation = ''PERSIST_PUBLISH_GENERATION'',
        rc_input_commit = Some (gm_parent_commit (sg_manifest staged)),
        rc_input_hashes = sg_manifest_hash staged # envelope_sha256 promotion # map pe_sha256 (gm_payloads (sg_manifest staged)),
        rc_output_commit = Some (sg_commit_id staged),
        rc_output_hashes = [sg_manifest_hash staged, envelope_sha256 promotion],
        rc_policy_version = gs_policy_version g, rc_actor = gs_actor g, rc_timestamp = now,
        rc_result = ''PUBLISHED:'' @ sg_commit_id staged\<rparr>)) (\<lambda>receipt.
     ret \<lparr>pb_head = head, pb_manifest = sg_manifest staged, pb_promotion = promotion,
          pb_receipt = receipt\<rparr>))))))))))))))))"

end
