(* ===== verification/Recovery.thy ===== *)
theory Recovery
  imports AuditLedger Persistence
begin

section \<open>Recovery manager\<close>

text \<open>
  \<open>RecoveryManager\<close> of \<open>galia2/recovery_audit.py\<close> over a generation store and an audit ledger: intake,
  retention of failed attempts, and the authorised rollback of HEAD to a verified ancestor.  The
  ancestor loop is recursion with fuel; \<open>Suc (length fs)\<close> rounds are always enough, because every round
  verifies a commit that has a manifest file of its own.
\<close>

datatype recovery_trigger =
    HEAD_CORRUPTION | MANIFEST_CORRUPTION | PAYLOAD_CORRUPTION | PARTIAL_COMMIT | SCHEMA_MISMATCH | DERIVATION_LOSS
  | INDEX_LOSS | EXECUTION_INTERRUPTION | LINEAGE_BREAK | AUTHORITY_RECORD_MISMATCH | OTHER_TRIGGER

fun recovery_trigger_value :: "recovery_trigger \<Rightarrow> string" where
  "recovery_trigger_value HEAD_CORRUPTION = ''HEAD_CORRUPTION''"
| "recovery_trigger_value MANIFEST_CORRUPTION = ''MANIFEST_CORRUPTION''"
| "recovery_trigger_value PAYLOAD_CORRUPTION = ''PAYLOAD_CORRUPTION''"
| "recovery_trigger_value PARTIAL_COMMIT = ''PARTIAL_COMMIT''"
| "recovery_trigger_value SCHEMA_MISMATCH = ''SCHEMA_MISMATCH''"
| "recovery_trigger_value DERIVATION_LOSS = ''DERIVATION_LOSS''"
| "recovery_trigger_value INDEX_LOSS = ''INDEX_LOSS''"
| "recovery_trigger_value EXECUTION_INTERRUPTION = ''EXECUTION_INTERRUPTION''"
| "recovery_trigger_value LINEAGE_BREAK = ''LINEAGE_BREAK''"
| "recovery_trigger_value AUTHORITY_RECORD_MISMATCH = ''AUTHORITY_RECORD_MISMATCH''"
| "recovery_trigger_value OTHER_TRIGGER = ''OTHER''"

record failed_attempt =
  fa_attempt_id :: string
  fa_case_id :: string
  fa_stage_id :: string
  fa_failure_class :: string
  fa_message :: string
  fa_input_refs :: "string list"
  fa_output_refs :: "string list"
  fa_timestamp :: datetime

definition attempt_post_init :: "failed_attempt \<Rightarrow> failed_attempt res" where
  "attempt_post_init a =
     bindE (requireds [(''attempt_id'', fa_attempt_id a), (''case_id'', fa_case_id a), (''stage_id'', fa_stage_id a),
                       (''failure_class'', fa_failure_class a), (''message'', fa_message a)]) (\<lambda>_.
     bindE (aware_field ''timestamp'' (fa_timestamp a)) (\<lambda>_. Inr a))"

definition attempt_bytes :: "failed_attempt \<Rightarrow> string" where
  "attempt_bytes a =
     dumps (JObj [(''attempt_id'', JStr (fa_attempt_id a)), (''case_id'', JStr (fa_case_id a)),
       (''failure_class'', JStr (fa_failure_class a)), (''input_refs'', JList (map JStr (fa_input_refs a))),
       (''message'', JStr (fa_message a)), (''output_refs'', JList (map JStr (fa_output_refs a))),
       (''stage_id'', JStr (fa_stage_id a)), (''timestamp'', JStr (isoformat (fa_timestamp a)))]) @ [newline]"

record recovery_intake =
  ri_recovery_id :: string
  ri_trigger :: recovery_trigger
  ri_opened_at :: datetime
  ri_head_exists :: bool
  ri_head_hash :: "string option"
  ri_head :: "head_pointer option"
  ri_head_error :: "string option"
  ri_affected_commit :: "string option"
  ri_mutation_performed :: bool

definition intake_post_init :: "recovery_intake \<Rightarrow> recovery_intake res" where
  "intake_post_init i =
     bindE (required ''recovery_id'' (ri_recovery_id i)) (\<lambda>_.
     bindE (aware_field ''opened_at'' (ri_opened_at i)) (\<lambda>_.
     bindE (hash_field_opt ''observed_head_hash'' (ri_head_hash i)) (\<lambda>h.
     bindE (raise_if (ri_mutation_performed i) (ValueError ''RecoveryIntake cannot perform mutation'')) (\<lambda>_.
     Inr (i\<lparr>ri_head_hash := h\<rparr>)))))"

record recovery_authorization =
  ra_authorization_id :: string
  ra_recovery_id :: string
  ra_reviewer :: string
  ra_target_commit :: string
  ra_head_exists :: bool
  ra_head_hash :: "string option"
  ra_policy_version :: string
  ra_authorized_at :: datetime

definition recovery_authorization_post_init :: "recovery_authorization \<Rightarrow> recovery_authorization res" where
  "recovery_authorization_post_init a =
     bindE (requireds [(''authorization_id'', ra_authorization_id a), (''recovery_id'', ra_recovery_id a),
                       (''reviewer'', ra_reviewer a), (''target_commit'', ra_target_commit a),
                       (''policy_version'', ra_policy_version a)]) (\<lambda>_.
     bindE (aware_field ''authorized_at'' (ra_authorized_at a)) (\<lambda>_.
     bindE (hash_field_opt ''expected_head_hash'' (ra_head_hash a)) (\<lambda>h.
     bindE (raise_if (ra_head_exists a \<and> h = None)
              (ValueError ''existing HEAD authorization requires expected_head_hash'')) (\<lambda>_.
     bindE (raise_if (\<not> ra_head_exists a \<and> h \<noteq> None)
              (ValueError ''missing HEAD authorization cannot include expected_head_hash'')) (\<lambda>_.
     Inr (a\<lparr>ra_head_hash := h\<rparr>))))))"

record recovery_receipt =
  rr_receipt_id :: string
  rr_recovery_id :: string
  rr_operation :: string
  rr_previous_head_hash :: "string option"
  rr_target_commit :: string
  rr_target_manifest_hash :: string
  rr_authorization_id :: string
  rr_actor :: string
  rr_timestamp :: datetime
  rr_result :: string
  rr_creates_authority :: bool

definition recovery_receipt_post_init :: "recovery_receipt \<Rightarrow> recovery_receipt res" where
  "recovery_receipt_post_init r =
     bindE (requireds [(''receipt_id'', rr_receipt_id r), (''recovery_id'', rr_recovery_id r),
                       (''operation'', rr_operation r), (''target_commit'', rr_target_commit r)]) (\<lambda>_.
     bindE (hash_field ''target_manifest_hash'' (rr_target_manifest_hash r)) (\<lambda>mh.
     bindE (hash_field_opt ''previous_head_hash'' (rr_previous_head_hash r)) (\<lambda>ph.
     bindE (requireds [(''authorization_id'', rr_authorization_id r), (''actor'', rr_actor r)]) (\<lambda>_.
     bindE (aware_field ''timestamp'' (rr_timestamp r)) (\<lambda>_.
     bindE (required ''result'' (rr_result r)) (\<lambda>_.
     bindE (raise_if (rr_creates_authority r) (ValueError ''recovery receipt cannot create authority'')) (\<lambda>_.
     Inr (r\<lparr>rr_target_manifest_hash := mh, rr_previous_head_hash := ph\<rparr>))))))))"

definition recovery_receipt_bytes :: "recovery_receipt \<Rightarrow> string" where
  "recovery_receipt_bytes r =
     dumps (JObj [(''actor'', JStr (rr_actor r)), (''authorization_id'', JStr (rr_authorization_id r)),
       (''creates_authority'', JBool (rr_creates_authority r)), (''operation'', JStr (rr_operation r)),
       (''previous_head_hash'', json_opt (rr_previous_head_hash r)), (''receipt_id'', JStr (rr_receipt_id r)),
       (''recovery_id'', JStr (rr_recovery_id r)), (''result'', JStr (rr_result r)),
       (''target_commit'', JStr (rr_target_commit r)), (''target_manifest_hash'', JStr (rr_target_manifest_hash r)),
       (''timestamp'', JStr (isoformat (rr_timestamp r)))]) @ [newline]"

subsection \<open>The manager\<close>

record recovery_manager =
  rm_store :: generation_store
  rm_audit :: audit_ledger
  rm_policy_version :: string
  rm_actor :: string
  rm_clock :: "nat \<Rightarrow> datetime"
  rm_id :: "string \<Rightarrow> nat \<Rightarrow> string"

definition attempts_dir :: "recovery_manager \<Rightarrow> path" where
  "attempts_dir m = gs_root (rm_store m) @ [''forensics'', ''attempts'']"

definition receipts_dir :: "recovery_manager \<Rightarrow> path" where
  "receipts_dir m = gs_root (rm_store m) @ [''forensics'', ''recovery_receipts'']"

definition recovery_init :: "recovery_manager \<Rightarrow> recovery_manager io" where
  "recovery_init m =
     bindI (throw_if (rm_policy_version m \<noteq> gs_policy_version (rm_store m))
              (ValueError ''recovery policy_version must match persistence store'')) (\<lambda>_.
     bindI (throw_if (rm_policy_version m \<noteq> au_policy_version (rm_audit m))
              (ValueError ''recovery policy_version must match audit ledger'')) (\<lambda>_.
     bindI (lift (required ''actor'' (rm_actor m))) (\<lambda>_.
     bindI (mkdir_parents (attempts_dir m)) (\<lambda>_.
     bindI (mkdir_parents (receipts_dir m)) (\<lambda>_. ret m)))))"

definition head_snapshot ::
  "generation_store \<Rightarrow> (bool \<times> string option \<times> head_pointer option \<times> string option) io" where
  "head_snapshot g =
     bindI (observe (\<lambda>fs. path_exists fs (head_path g))) (\<lambda>present.
     if \<not> present then ret (False, None, None, None)
     else
       bindI (read_bytes (head_path g)) (\<lambda>raw.
       bindI (attempt (read_head g)) (\<lambda>r.
       ret (case r of
              Inr head \<Rightarrow> (True, Some (sha256 raw), head, None)
            | Inl e \<Rightarrow> (True, Some (sha256 raw), None, Some (exc_class e @ '': '' @ exc_str e))))))"

definition present_refs :: "string option list \<Rightarrow> string list" where
  \<comment> \<open>\<open>tuple(v for v in (...) if v)\<close>\<close>
  "present_refs vs = filter (\<lambda>s. s \<noteq> []) (map the (filter (\<lambda>v. v \<noteq> None) vs))"

definition open_intake :: "recovery_manager \<Rightarrow> recovery_trigger \<Rightarrow> string option \<Rightarrow> recovery_intake io" where
  "open_intake m trigger affected =
     bindI (head_snapshot (rm_store m)) (\<lambda>(present, digest, head, error).
     bindI (call (rm_id m ''recovery'')) (\<lambda>rid.
     bindI (call (rm_clock m)) (\<lambda>now.
     bindI (lift (intake_post_init
       \<lparr>ri_recovery_id = rid, ri_trigger = trigger, ri_opened_at = now, ri_head_exists = present,
        ri_head_hash = digest, ri_head = head, ri_head_error = error, ri_affected_commit = affected,
        ri_mutation_performed = False\<rparr>)) (\<lambda>intake.
     bindI (audit_append (rm_audit m) RECOVERY_INTAKE (present_refs [affected, map_option hp_commit_id head])
       (''trigger='' @ recovery_trigger_value trigger @ '';head_error='' @
        (case error of Some e \<Rightarrow> if e = [] then ''NONE'' else e | None \<Rightarrow> ''NONE''))) (\<lambda>_.
     ret intake)))))"

definition retain_failed_attempt :: "recovery_manager \<Rightarrow> failed_attempt \<Rightarrow> receipt io" where
  "retain_failed_attempt m a =
     (let p = subpath (attempts_dir m) (fa_attempt_id a @ ''.json''); digest = sha256 (attempt_bytes a) in
      bindI (observe (\<lambda>fs. path_exists fs p)) (\<lambda>present.
      bindI (throw_if present
               (RecoveryValidationError ''failed attempt record already exists and is immutable'')) (\<lambda>_.
      bindI (write_new_file p (attempt_bytes a)) (\<lambda>_.
      bindI (audit_append (rm_audit m) FAILED_ATTEMPT_RETAINED [fa_attempt_id a, fa_case_id a, fa_stage_id a]
               (''failure_class='' @ fa_failure_class a @ '';sha256='' @ digest)) (\<lambda>event.
      bindI (call (rm_id m ''receipt'')) (\<lambda>rid.
      bindI (call (rm_clock m)) (\<lambda>now.
      lift (receipt_post_init
        \<lparr>rc_receipt_id = rid, rc_operation = ''RETAIN_FAILED_ATTEMPT'', rc_input_commit = None, rc_input_hashes = [],
         rc_output_commit = None, rc_output_hashes = [digest], rc_policy_version = rm_policy_version m,
         rc_actor = rm_actor m, rc_timestamp = now,
         rc_result = ''RETAINED:'' @ fa_attempt_id a @ '';audit='' @ ae_event_id event\<rparr>))))))))"

subsection \<open>Rollback\<close>

definition rollback_errors :: "recovery_manager \<Rightarrow> recovery_intake \<Rightarrow> recovery_authorization \<Rightarrow> (bool \<times> string) list" where
  "rollback_errors m i a =
     [(ra_recovery_id a \<noteq> ri_recovery_id i, ''recovery id mismatch''),
      (ra_policy_version a \<noteq> rm_policy_version m, ''policy version mismatch''),
      (ra_head_exists a \<noteq> ri_head_exists i, ''HEAD existence binding mismatch''),
      (ra_head_hash a \<noteq> ri_head_hash i, ''HEAD hash binding mismatch'')]"

definition validate_rollback_binding ::
  "recovery_manager \<Rightarrow> recovery_intake \<Rightarrow> recovery_authorization \<Rightarrow> unit res" where
  "validate_rollback_binding m i a =
     (let errors = map snd (filter fst (rollback_errors m i a)) in
      raise_if (errors \<noteq> []) (RecoveryValidationError (join ''; '' errors)))"

definition not_an_ancestor :: "unit io" where
  "not_an_ancestor = throw (RecoveryValidationError ''rollback target is not in current HEAD ancestry'')"

fun ancestor_walk :: "nat \<Rightarrow> generation_store \<Rightarrow> string \<Rightarrow> string list \<Rightarrow> string \<Rightarrow> unit io" where
  \<comment> \<open>the \<open>while\<close> of \<open>_verify_is_ancestor\<close>; \<open>seen\<close> is the set of commits visited\<close>
  "ancestor_walk 0 g target seen commit = throw (StdError ''out of fuel'')"
| "ancestor_walk (Suc n) g target seen commit =
     (if commit \<in> set seen then not_an_ancestor
      else
        bindI (verify_generation g commit None None) (\<lambda>m.
        if gm_parent_commit m = target then
          bindI (verify_generation g target None None) (\<lambda>_. ret ())
        else
          bindI (observe (\<lambda>fs. is_dir fs (subpath (generations_dir g) (gm_parent_commit m)))) (\<lambda>parent_present.
          if \<not> parent_present then not_an_ancestor
          else ancestor_walk n g target (commit # seen) (gm_parent_commit m))))"

definition verify_is_ancestor :: "generation_store \<Rightarrow> head_pointer \<Rightarrow> string \<Rightarrow> unit io" where
  "verify_is_ancestor g current target =
     bindI (observe length) (\<lambda>n. ancestor_walk (Suc n) g target [] (hp_commit_id current))"

definition write_recovery_receipt :: "recovery_manager \<Rightarrow> recovery_receipt \<Rightarrow> unit io" where
  "write_recovery_receipt m r =
     write_new_file (subpath (receipts_dir m) (rr_receipt_id r @ ''.json'')) (recovery_receipt_bytes r)"

definition rollback_target :: "generation_store \<Rightarrow> string \<Rightarrow> (generation_manifest \<times> head_pointer) io" where
  "rollback_target g commit =
     bindI (verify_generation g commit None None) (\<lambda>target.
     bindI (read_bytes (subpath (generations_dir g) (gm_commit_id target) @ [''promotion.json''])) (\<lambda>raw.
     bindI (lift (head_post_init
       \<lparr>hp_commit_id = gm_commit_id target, hp_seq = gm_seq target, hp_manifest_hash = manifest_sha256 target,
        hp_promotion_hash = sha256 raw\<rparr>)) (\<lambda>head. ret (target, head))))"

definition check_precedes :: "generation_store \<Rightarrow> head_pointer option \<Rightarrow> generation_manifest \<Rightarrow> unit io" where
  "check_precedes g current target =
     (case current of
        None \<Rightarrow> ret ()
      | Some cur \<Rightarrow>
          bindI (throw_if (gm_seq target \<ge> hp_seq cur)
                   (RecoveryValidationError ''rollback target must precede current canonical HEAD'')) (\<lambda>_.
          if gm_commit_id target \<noteq> hp_commit_id cur then verify_is_ancestor g cur (gm_commit_id target) else ret ()))"

definition swap_head_audited :: "recovery_manager \<Rightarrow> recovery_authorization \<Rightarrow> head_pointer \<Rightarrow> unit io" where
  \<comment> \<open>the \<open>try\<close> around \<open>_atomic_write_head\<close>\<close>
  "swap_head_audited m a head =
     catch (atomic_write_head (rm_store m) head) (\<lambda>e.
       bindI (audit_append (rm_audit m) ROLLBACK_FAILED [ra_target_commit a] (exc_class e @ '': '' @ exc_str e)) (\<lambda>_.
       throw (PersistencePublishError (''recovery rollback failed: '' @ exc_str e))))"

definition rollback :: "recovery_manager \<Rightarrow> recovery_intake \<Rightarrow> recovery_authorization \<Rightarrow> recovery_receipt io" where
  "rollback m i a =
     bindI (lift (validate_rollback_binding m i a)) (\<lambda>_.
     bindI (head_snapshot (rm_store m)) (\<lambda>(present, current_hash, current_head, current_error).
     bindI (throw_if (present \<noteq> ra_head_exists a \<or> current_hash \<noteq> ra_head_hash a)
              (RecoveryValidationError ''HEAD changed after recovery authorization'')) (\<lambda>_.
     bindI (rollback_target (rm_store m) (ra_target_commit a)) (\<lambda>(target, target_head).
     bindI (check_precedes (rm_store m) current_head target) (\<lambda>_.
     bindI (audit_append (rm_audit m) ROLLBACK_ATTEMPTED
              (present_refs [Some (ra_target_commit a), ri_affected_commit i])
              (''authorization='' @ ra_authorization_id a)) (\<lambda>_.
     bindI (swap_head_audited m a target_head) (\<lambda>_.
     bindI (call (rm_id m ''recovery-receipt'')) (\<lambda>rid.
     bindI (call (rm_clock m)) (\<lambda>now.
     bindI (lift (recovery_receipt_post_init
       \<lparr>rr_receipt_id = rid, rr_recovery_id = ri_recovery_id i, rr_operation = ''ROLLBACK_HEAD_TO_VERIFIED_GENERATION'',
        rr_previous_head_hash = current_hash, rr_target_commit = gm_commit_id target,
        rr_target_manifest_hash = manifest_sha256 target, rr_authorization_id = ra_authorization_id a,
        rr_actor = rm_actor m, rr_timestamp = now, rr_result = ''ROLLED_BACK_TO:'' @ gm_commit_id target,
        rr_creates_authority = False\<rparr>)) (\<lambda>receipt.
     bindI (write_recovery_receipt m receipt) (\<lambda>_.
     bindI (audit_append (rm_audit m) ROLLBACK_SUCCEEDED [gm_commit_id target, rr_receipt_id receipt]
              (''authorization='' @ ra_authorization_id a @ '';creates_authority=false'')) (\<lambda>_.
     ret receipt))))))))))))"

end
