(* ===== verification/StoreVerification.thy ===== *)
theory StoreVerification
  imports Persistence FileReads
begin

section \<open>What the verifiers of the generation store decide\<close>

text \<open>
  The places of the store, the abstract content of a staged and of a published directory
  (\<open>candidate_in\<close>, \<open>generation_in\<close>), and the proof that \<open>_verify_candidate_directory\<close> and
  \<open>verify_generation\<close> accept exactly the directories with that content.  The verifiers read below the
  directory they verify and nothing else.
\<close>

subsection \<open>Places\<close>

definition plain_store :: "generation_store \<Rightarrow> bool" where
  "plain_store g \<longleftrightarrow> plain_path (gs_root g)"

definition plain_uuids :: "world \<Rightarrow> bool" where
  "plain_uuids w \<longleftrightarrow> (\<forall>n. CHR ''/'' \<notin> set (w_uuid w n))"

definition stage_temp :: "generation_store \<Rightarrow> string \<Rightarrow> string \<Rightarrow> path" where
  "stage_temp g commit u = staging_dir g @ [''.'' @ commit @ ''.tmp-'' @ u]"

definition head_temp :: "generation_store \<Rightarrow> string \<Rightarrow> path" where
  "head_temp g u = gs_root g @ [''.HEAD.tmp-'' @ u]"

definition staged_at :: "generation_store \<Rightarrow> string \<Rightarrow> path" where
  "staged_at g commit = staging_dir g @ [commit]"

definition published_at :: "generation_store \<Rightarrow> string \<Rightarrow> path" where
  "published_at g commit = generations_dir g @ [commit]"

lemmas place_defs = stage_temp_def head_temp_def staged_at_def published_at_def staging_dir_def
  generations_dir_def head_path_def

lemma temp_name_plain:
  "CHR ''/'' \<notin> set c \<Longrightarrow> CHR ''/'' \<notin> set u \<Longrightarrow> plain_name (''.'' @ c @ ''.tmp-'' @ u)"
  "CHR ''/'' \<notin> set u \<Longrightarrow> plain_name (''.HEAD.tmp-'' @ u)"
  by (auto simp: plain_name_def)

lemma plain_name_parts: "plain_name c \<Longrightarrow> c \<noteq> ''..'' \<and> CHR ''/'' \<notin> set c"
  by (auto simp: plain_name_def)

lemma subpath_places:
  assumes "plain_name c" "CHR ''/'' \<notin> set u"
  shows "subpath (staging_dir g) c = staged_at g c" "subpath (generations_dir g) c = published_at g c"
    "subpath (staging_dir g) (''.'' @ c @ ''.tmp-'' @ u) = stage_temp g c u"
    "subpath (gs_root g) (''.HEAD.tmp-'' @ u) = head_temp g u"
  using assms temp_name_plain(1) [of c u] temp_name_plain(2) [of u] plain_name_parts [OF assms(1)]
  by (simp_all add: staged_at_def published_at_def stage_temp_def head_temp_def del: append.simps)

lemma plain_places:
  assumes "plain_store g" "plain_name c"
  shows "plain_path (staging_dir g)" "plain_path (generations_dir g)" "plain_path (head_path g)"
    "plain_path (staged_at g c)" "plain_path (published_at g c)" "plain_path (stage_temp g c u)"
    "plain_path (head_temp g u)"
  using assms by (auto simp: plain_store_def place_defs plain_name_def)

text \<open>Entries that stay inside the payload directory, as the validator leaves them.\<close>

definition entry_inside :: "payload_entry \<Rightarrow> bool" where
  "entry_inside e \<longleftrightarrow>
     plain_path (parts (pe_path e)) \<and> parts (pe_path e) \<noteq> [] \<and> pe_path e = as_posix (parts (pe_path e))"

text \<open>The parts of a joined path are the names joined: normalising twice changes nothing.\<close>

definition path_name :: "string \<Rightarrow> bool" where
  "path_name c \<longleftrightarrow> c \<noteq> '''' \<and> c \<noteq> ''.'' \<and> CHR ''/'' \<notin> set c"

lemma split_on_step: "c \<notin> set a \<Longrightarrow> split_on c (a @ c # s) = a # split_on c s"
  by (induction a) auto

lemma parts_join: "list_all path_name cs \<Longrightarrow> parts (as_posix cs) = cs"
proof (induction cs)
  case (Cons a cs)
  then show ?case
    by (cases cs) (auto simp: path_name_def as_posix_def parts_def split_on_no_sep split_on_step)
qed (simp add: as_posix_def parts_def)

lemma split_on_names: "w \<in> set (split_on c s) \<Longrightarrow> c \<notin> set w"
  by (induction s arbitrary: w) (auto split: list.splits if_splits)

lemma parts_names: "list_all path_name (parts s)"
  by (auto simp: parts_def list_all_iff path_name_def dest: split_on_names)

lemma payload_entry_inside: "payload_entry_post_init e = Inr e' \<Longrightarrow> entry_inside e'"
  by (cases e) (auto simp: entry_inside_def payload_entry_post_init_def safe_payload_path_def
      result_simps Let_def parts_join parts_names)

lemma entry_ok_inside: "entry_ok e \<Longrightarrow> entry_inside e"
  by (auto simp: entry_ok_def payload_entry_inside)

lemma plain_payload_file: "plain_path d \<Longrightarrow> entry_inside e \<Longrightarrow> plain_path (payload_file d e)"
  by (auto simp: payload_file_def entry_inside_def)

lemma payload_file_within: "within d (payload_file d e)"
  by (simp add: payload_file_def)

subsection \<open>Directory contents\<close>

definition payload_key :: "payload_entry \<Rightarrow> path" where
  "payload_key e = ''payload'' # parts (pe_path e)"

definition payloads_in :: "fs \<Rightarrow> path \<Rightarrow> generation_manifest \<Rightarrow> bool" where
  "payloads_in fs d m \<longleftrightarrow>
     (\<forall>e \<in> set (gm_payloads m). \<exists>data. files fs (d @ payload_key e) = Some data \<and>
        int (length data) = pe_byte_size e \<and> sha256 data = pe_sha256 e)"

definition candidate_in :: "fs \<Rightarrow> path \<Rightarrow> generation_manifest \<Rightarrow> string \<Rightarrow> bool" where
  "candidate_in fs d m h \<longleftrightarrow>
     (\<exists>raw. files fs (d @ [''manifest.json'']) = Some raw \<and> sha256 raw = h) \<and> payloads_in fs d m \<and>
     files_under fs d = {''manifest.json''} \<union> payload_names m"

definition expected :: "string option \<Rightarrow> string \<Rightarrow> bool" where
  "expected x actual \<longleftrightarrow> (case x of None \<Rightarrow> True | Some h \<Rightarrow> hex64 h \<and> lower h = actual)"

definition generation_in ::
  "generation_store \<Rightarrow> fs \<Rightarrow> string \<Rightarrow> string option \<Rightarrow> string option \<Rightarrow> generation_manifest \<Rightarrow> bool" where
  "generation_in g fs commit mh ph m \<longleftrightarrow>
     (let d = published_at g commit in
      \<exists>mraw praw e.
        node_at fs d = Some Dir \<and> files fs (d @ [''manifest.json'']) = Some mraw \<and>
        files fs (d @ [''promotion.json'']) = Some praw \<and> expected mh (sha256 mraw) \<and> expected ph (sha256 praw) \<and>
        manifest_from_bytes mraw = Inr m \<and> envelope_from_bytes praw = Inr e \<and>
        gm_commit_id m = commit \<and> pv_commit_id e = commit \<and> pv_manifest_hash e = sha256 mraw \<and>
        pv_case_id e = gm_case_id m \<and> pv_authority_decision_id e = gm_authority_decision_id m \<and>
        payloads_in fs d m \<and> files_under fs d = {''manifest.json'', ''promotion.json''} \<union> payload_names m)"

lemma payload_file_key: "payload_file d e = d @ payload_key e"
  by (simp add: payload_file_def payload_key_def)

lemma plain_payload_key: "entry_inside e \<Longrightarrow> plain_path (payload_key e)"
  by (auto simp: payload_key_def entry_inside_def)

lemma expect_hash_Inr [result_simps]: "expect_hash n x actual msg = Inr u \<longleftrightarrow> expected x actual"
  by (auto simp: expect_hash_def expected_def result_simps split: option.splits)

lemma entries_plain:
  assumes "list_all entry_inside (gm_payloads m)" "plain_path d" "e \<in> set (gm_payloads m)"
  shows "plain_path (payload_file d e)"
  using assms plain_payload_file by (simp add: list_all_iff)

lemma payloads_ensured:
  assumes "list_all entry_inside (gm_payloads m)" "plain_path d"
  shows "ensures fs (verify_payload_files d m) (\<lambda>u. payloads_in fs d m)"
  unfolding verify_payload_files_def payloads_in_def
proof (rule ensures_for)
  fix e
  assume "e \<in> set (gm_payloads m)"
  with assms have plain: "plain_path (payload_file d e)" by (rule entries_plain)
  show "ensures fs (verify_payload_file d e) (\<lambda>u. \<exists>data. files fs (d @ payload_key e) = Some data \<and>
      int (length data) = pe_byte_size e \<and> sha256 data = pe_sha256 e)"
    unfolding verify_payload_file_def payload_file_key [symmetric]
    by (intro ensures_rules plain) auto
qed

lemma yields_payloads:
  assumes "payloads_in fs d m" "list_all entry_inside (gm_payloads m)" "plain_path d"
  shows "yields fs (verify_payload_files d m) ()"
  unfolding verify_payload_files_def
proof (rule yields_for)
  fix e
  assume e: "e \<in> set (gm_payloads m)"
  with assms(2,3) have plain: "plain_path (payload_file d e)" by (rule entries_plain)
  from e assms(1) obtain data where data: "files fs (payload_file d e) = Some data"
    "int (length data) = pe_byte_size e" "sha256 data = pe_sha256 e"
    by (auto simp: payloads_in_def payload_file_key)
  show "yields fs (verify_payload_file d e) ()"
    unfolding verify_payload_file_def by (intro yields_rules plain data(1)) (use data plain in \<open>simp_all add: is_file_iff\<close>)
qed

subsection \<open>The candidate verifier\<close>

lemma candidate_ensured:
  assumes "list_all entry_inside (gm_payloads m)" "plain_path d"
  shows "ensures fs (verify_candidate_directory d m h) (\<lambda>u. candidate_in fs d m h)"
proof -
  have plain: "plain_path (d @ [''manifest.json''])" using assms(2) by simp
  have raw: "ensures fs (if \<not> b then ret None else bindI (read_bytes (d @ [''manifest.json''])) (\<lambda>b. ret (Some b)))
      (\<lambda>raw. \<forall>x. raw = Some x \<longrightarrow> files fs (d @ [''manifest.json'']) = Some x)" for b
    by (intro ensures_rules plain) auto
  then show ?thesis unfolding verify_candidate_directory_def candidate_in_def
    by (intro ensures_observe_step ensures_bind [OF raw] ensures_throw_step
        ensures_bind [OF payloads_ensured [OF assms]] ensures_last) auto
qed

lemma yields_candidate:
  assumes "candidate_in fs d m h" "list_all entry_inside (gm_payloads m)" "plain_path d"
  shows "yields fs (verify_candidate_directory d m h) ()"
proof -
  from assms(1) obtain raw where raw: "files fs (d @ [''manifest.json'']) = Some raw" "sha256 raw = h"
    and rest: "payloads_in fs d m" "files_under fs d = {''manifest.json''} \<union> payload_names m"
    by (auto simp: candidate_in_def)
  have plain: "plain_path (d @ [''manifest.json''])" using assms(3) by simp
  have "is_file fs (d @ [''manifest.json''])" using raw(1) plain by (simp add: is_file_iff)
  then have read: "yields fs (if \<not> is_file fs (d @ [''manifest.json'']) then ret None
      else bindI (read_bytes (d @ [''manifest.json''])) (\<lambda>b. ret (Some b))) (Some raw)"
    using raw(1) plain by (auto intro: yields_bind yields_bytes yields_rules)
  show ?thesis unfolding verify_candidate_directory_def
    by (intro yields_observe_step yields_rules yields_bind [OF read] yields_bind [OF yields_payloads [OF rest(1) assms(2,3)]])
      (use raw(2) rest(2) in simp_all)
qed

subsection \<open>The generation verifier\<close>

lemma published_ensured:
  assumes "list_all entry_inside (gm_payloads m)" "plain_path d"
  shows "ensures fs (verify_published_directory d m mh ph)
    (\<lambda>u. payloads_in fs d m \<and> files_under fs d = {''manifest.json'', ''promotion.json''} \<union> payload_names m)"
proof -
  have plain: "plain_path (d @ [''manifest.json''])" "plain_path (d @ [''promotion.json''])" using assms(2) by simp_all
  show ?thesis unfolding verify_published_directory_def
    by (intro ensures_rules plain ensures_bind [OF payloads_ensured [OF assms]]) simp_all
qed

lemma yields_published:
  assumes "list_all entry_inside (gm_payloads m)" "plain_path d" "payloads_in fs d m"
    "files_under fs d = {''manifest.json'', ''promotion.json''} \<union> payload_names m"
    "files fs (d @ [''manifest.json'']) = Some mraw" "files fs (d @ [''promotion.json'']) = Some praw"
  shows "yields fs (verify_published_directory d m (sha256 mraw) (sha256 praw)) ()"
proof -
  have plain: "plain_path (d @ [''manifest.json''])" "plain_path (d @ [''promotion.json''])" using assms(2) by simp_all
  show ?thesis unfolding verify_published_directory_def
    by (intro yields_rules plain assms(5,6) yields_bind [OF yields_payloads [OF assms(3,1,2)]]) (use assms(4-6) in simp_all)
qed

lemma payload_of_json_built: "payload_of_json v = Inr e \<Longrightarrow> \<exists>e0. payload_entry_post_init e0 = Inr e"
  by (auto simp: payload_of_json_def split: json.splits if_splits)

lemma manifest_entries_inside:
  assumes "manifest_from_bytes raw = Inr m"
  shows "list_all entry_inside (gm_payloads m)"
proof -
  from assms obtain js where "mapE payload_of_json js = Inr (gm_payloads m)"
    by (auto simp: manifest_from_bytes_def manifest_of_json_def result_simps)
  then have "\<exists>e0. payload_entry_post_init e0 = Inr e" if "e \<in> set (gm_payloads m)" for e
    using mapE_image [OF _ that] payload_of_json_built by blast
  then show ?thesis unfolding list_all_iff using payload_entry_inside by blast
qed

lemma generation_ensured:
  assumes "plain_path (published_at g commit)" "plain_name commit"
  shows "ensures fs (verify_generation g commit mh ph) (generation_in g fs commit mh ph)"
proof -
  let ?d = "published_at g commit"
  have d: "subpath (generations_dir g) commit = ?d"
    using assms(2) by (simp add: published_at_def)
  have plain: "plain_path (?d @ [''manifest.json''])" "plain_path (?d @ [''promotion.json''])"
    using assms(1) by simp_all
  note inside = published_ensured [OF manifest_entries_inside assms(1)]
  show ?thesis unfolding verify_generation_def d Let_def generation_in_def
    by (intro ensures_rules plain, rule ensures_bind [OF inside], assumption, intro ensures_rules)
      (simp add: result_simps is_dir_def assms(1))
qed

lemma yields_generation:
  assumes "generation_in g fs commit mh ph m" "plain_path (published_at g commit)" "plain_name commit"
    "\<not> blank commit"
  shows "yields fs (verify_generation g commit mh ph) m"
proof -
  let ?d = "published_at g commit"
  have d: "subpath (generations_dir g) commit = ?d"
    using assms(3) by (simp add: published_at_def)
  have plain: "plain_path (?d @ [''manifest.json''])" "plain_path (?d @ [''promotion.json''])"
    using assms(2) by simp_all
  from assms(1) [unfolded generation_in_def Let_def] obtain mraw praw e where at: "node_at fs ?d = Some Dir" "files fs (?d @ [''manifest.json'']) = Some mraw"
    "files fs (?d @ [''promotion.json'']) = Some praw"
    and hashes: "expected mh (sha256 mraw)" "expected ph (sha256 praw)"
    and read: "manifest_from_bytes mraw = Inr m" "envelope_from_bytes praw = Inr e"
    and bound: "gm_commit_id m = commit" "pv_commit_id e = commit" "pv_manifest_hash e = sha256 mraw"
      "pv_case_id e = gm_case_id m" "pv_authority_decision_id e = gm_authority_decision_id m"
    and inside: "payloads_in fs ?d m" "files_under fs ?d = {''manifest.json'', ''promotion.json''} \<union> payload_names m"
    by (elim exE conjE) (rule that)
  have tests: "is_dir fs ?d" "is_file fs (?d @ [''manifest.json''])" "is_file fs (?d @ [''promotion.json''])"
    using at plain assms(2) by (simp_all add: is_dir_def is_file_iff)
  have hash: "expect_hash n x (sha256 y) e = Inr ()" if "expected x (sha256 y)" for n x y e
    using that by (simp add: result_simps)
  have commit: "required ''commit_id'' commit = Inr commit"
    using assms(4) by (simp add: result_simps)
  show ?thesis unfolding verify_generation_def d Let_def
    by (rule yields_rules plain at(2,3) hash hashes read commit
        yields_bind [OF yields_published [OF manifest_entries_inside [OF read(1)] assms(2) inside at(2,3)]] |
      simp add: tests bound)+
qed

text \<open>Both verifiers read below the directory they verify.\<close>

lemma payloads_read:
  assumes "list_all entry_inside (gm_payloads m)" "plain_path d"
  shows "reads_within d (verify_payload_files d m)"
  unfolding verify_payload_files_def verify_payload_file_def
  by (intro reader_rules reads_files entries_plain [OF assms] payload_file_within)

lemma generation_reads:
  assumes "plain_path (published_at g commit)" "plain_name commit"
  shows "reads_within (published_at g commit) (verify_generation g commit mh ph)"
proof -
  let ?d = "published_at g commit"
  have d: "subpath (generations_dir g) commit = ?d"
    using assms(2) by (simp add: published_at_def)
  have plain: "plain_path (?d @ [''manifest.json''])" "plain_path (?d @ [''promotion.json''])"
    using assms(1) by simp_all
  have published: "reads_within ?d (verify_published_directory ?d m a b)" if "list_all entry_inside (gm_payloads m)" for m a b
    unfolding verify_published_directory_def
    by (intro reader_rules reads_files payloads_read that plain assms(1)) simp_all
  have lift_step: "reads_within D (bindI (lift r) k)" if "\<And>x. r = Inr x \<Longrightarrow> reads_within D (k x)"
    for D r and k :: "'x \<Rightarrow> 'y io"
    using that by (cases r) (auto simp: reads_within_def)
  show ?thesis unfolding verify_generation_def d Let_def
    by (intro lift_step reader_rules reads_files reads_observe_and published manifest_entries_inside plain assms(1)) simp_all
qed

end
