(* ===== verification/StoreSafety.thy ===== *)
theory StoreSafety
  imports StoreVerification
begin

section \<open>Safety of the generation store\<close>

text \<open>
  The store's contract under an arbitrary fault plan: staging changes nothing that existed; publishing
  changes nothing outside the staged directory and HEAD, and HEAD is either the old one or the complete
  new one; what was staged verifies as a candidate, and what was published verifies as a generation.
  The commit identifier is taken to be one name: \<open>staging / commit_id\<close> does not take it apart.
\<close>

subsection \<open>Staging keeps what existed\<close>

definition under :: "path set \<Rightarrow> path set" where
  "under D = {p. \<exists>d \<in> D. within d p}"

lemma under_within: "within d p \<Longrightarrow> d \<in> D \<Longrightarrow> p \<in> under D"
  by (auto simp: under_def)

lemma materialize_outside:
  assumes "plain_path temp" "plain_path final" "list_all entry_inside (gm_payloads m)"
  shows "keeps (preserved_outside (under {temp, final})) (materialize g m payloads temp final)"
proof -
  have payload: "keeps (preserved_outside (under {temp, final})) (write_payload temp payloads e)"
    if "e \<in> set (gm_payloads m)" for e
    unfolding write_payload_def Let_def using assms that
    by (intro outside.keeps_bind mkdir_outside write_new_file_outside)
      (auto simp: list_all_iff plain_payload_file under_within [OF payload_file_within])
  have sync: "keeps (preserved_outside (under {temp, final})) (fsync_dir p)" for p
    by (rule keeps_equal [OF fsync_frame(2) outside.same])
  show ?thesis unfolding materialize_def using assms
    by (intro outside.keeps_bind mkdir_new_outside outside.keeps_for payload write_new_file_outside
        os_replace_outside sync)
      (auto intro: under_within under_within [OF within_append])
qed

lemma stage_generation_run:
  assumes "stage_generation g m payloads w = (r, w')"
  shows "w_fs w' = w_fs w \<and> (\<exists>e. r = Inl e) \<or>
    (\<exists>r2 v.
       let final = subpath (staging_dir g) (gm_commit_id m);
           temp = subpath (staging_dir g) (''.'' @ gm_commit_id m @ ''.tmp-'' @ w_uuid w (w_tick w)) in
       validate_payloads m payloads = Inr () \<and>
       \<not> path_exists (w_fs w) final \<and> \<not> path_exists (w_fs w) (subpath (generations_dir g) (gm_commit_id m)) \<and>
       materialize g m payloads temp final (w\<lparr>w_tick := Suc (w_tick w)\<rparr>) = (r2, v) \<and> w_fs w' = w_fs v \<and>
       ((\<exists>s. r = Inr s) \<longrightarrow> r2 = Inr ()))"
  using assms
  by (auto simp: stage_generation_def Let_def bindI_result throw_if_result wrap_publish_error_def
      catch_result call_result uuid4_result)

definition fresh_temp :: "generation_store \<Rightarrow> string \<Rightarrow> world \<Rightarrow> bool" where
  \<comment> \<open>no directory of the drawn random name exists yet\<close>
  "fresh_temp g c w \<longleftrightarrow> (\<forall>n. node_at (w_fs w) (stage_temp g c (w_uuid w n)) = None)"

text \<open>Staging never changes what is there: whatever system call fails, every file and directory that
  existed before, HEAD and every published generation included, is the same afterwards.\<close>

theorem staging_preserves_the_store:
  assumes "stage_generation g m payloads w = (r, w')"
    and "fs_wf (w_fs w)" "plain_store g" "plain_name (gm_commit_id m)" "plain_uuids w"
    and "fresh_temp g (gm_commit_id m) w" "list_all entry_inside (gm_payloads m)"
  shows "preserved_outside {} (w_fs w) (w_fs w')"
  using stage_generation_run [OF assms(1)]
proof
  assume "w_fs w' = w_fs w \<and> (\<exists>e. r = Inl e)"
  then show ?thesis by (simp add: preserved_outside_def)
next
  let ?c = "gm_commit_id m" and ?u = "w_uuid w (w_tick w)"
  let ?temp = "stage_temp g ?c ?u" and ?final = "staged_at g ?c"
  have u: "CHR ''/'' \<notin> set ?u" using assms(5) by (simp add: plain_uuids_def)
  note places = subpath_places [OF assms(4) u, where g = g]
  assume "\<exists>r2 v. let final = subpath (staging_dir g) ?c;
           temp = subpath (staging_dir g) (''.'' @ ?c @ ''.tmp-'' @ ?u) in
       validate_payloads m payloads = Inr () \<and>
       \<not> path_exists (w_fs w) final \<and> \<not> path_exists (w_fs w) (subpath (generations_dir g) ?c) \<and>
       materialize g m payloads temp final (w\<lparr>w_tick := Suc (w_tick w)\<rparr>) = (r2, v) \<and> w_fs w' = w_fs v \<and>
       ((\<exists>s. r = Inr s) \<longrightarrow> r2 = Inr ())"
  then obtain r2 v where absent: "\<not> path_exists (w_fs w) ?final"
    and run: "materialize g m payloads ?temp ?final (w\<lparr>w_tick := Suc (w_tick w)\<rparr>) = (r2, v)" "w_fs w' = w_fs v"
    unfolding places Let_def by blast
  have "keeps (preserved_outside (under {?temp, ?final})) (materialize g m payloads ?temp ?final)"
    using plain_places [OF assms(3,4)] assms(7) by (intro materialize_outside)
  from keepsD [OF this run(1)] run(2) have kept: "preserved_outside (under {?temp, ?final}) (w_fs w) (w_fs w')"
    by simp
  have "node_at (w_fs w) ?final = None"
    using absent plain_places [OF assms(3,4)] by (simp add: path_exists_def)
  moreover have "node_at (w_fs w) ?temp = None" using assms(6) by (simp add: fresh_temp_def)
  ultimately have "node_at (w_fs w) p = None" if "p \<in> under {?temp, ?final}" for p
    using that fs_wf_absent [OF assms(2)] by (auto simp: under_def)
  with kept show ?thesis unfolding preserved_outside_def by (metis option.distinct(1))
qed

subsection \<open>What was staged is the candidate\<close>

definition candidate_files :: "generation_manifest \<Rightarrow> (string \<times> string) list \<Rightarrow> path \<Rightarrow> string option" where
  "candidate_files m payloads =
     (map_of (map (\<lambda>e. (payload_key e, the (map_of payloads (pe_path e)))) (gm_payloads m)))
       ([''manifest.json''] \<mapsto> manifest_bytes m)"

lemma write_payload_files:
  assumes "write_payload temp payloads e w = (Inr u, w')" "plain_path temp" "entry_inside e"
  shows "files (w_fs w') = (files (w_fs w))(temp @ payload_key e \<mapsto> the (map_of payloads (pe_path e)))"
    "files (w_fs w) (temp @ payload_key e) = None"
proof -
  from assms(1) obtain v where dir: "mkdir_parents (butlast (payload_file temp e)) w = (Inr (), v)"
    and new: "write_new_file (payload_file temp e) (the (map_of payloads (pe_path e))) v = (Inr u, w')"
    by (auto simp: write_payload_def Let_def bindI_Inr)
  have "files (w_fs v) = files (w_fs w)"
    using keepsD [OF mkdir_files(1) dir] by (simp add: same_files_def)
  with write_new_file_files [OF new plain_payload_file [OF assms(2,3)]]
  show "files (w_fs w') = (files (w_fs w))(temp @ payload_key e \<mapsto> the (map_of payloads (pe_path e)))"
    "files (w_fs w) (temp @ payload_key e) = None"
    by (simp_all add: payload_file_key)
qed

lemma write_payloads_files:
  assumes "forI (write_payload temp payloads) es w = (Inr u, w')" "plain_path temp" "list_all entry_inside es"
  shows "files (w_fs w') = files (w_fs w) ++
      map_of (map (\<lambda>e. (temp @ payload_key e, the (map_of payloads (pe_path e)))) es) \<and>
    (\<forall>e \<in> set es. files (w_fs w) (temp @ payload_key e) = None)"
  using assms
proof (induction es arbitrary: w)
  case (Cons e es)
  from Cons.prems(1) obtain v where e: "write_payload temp payloads e w = (Inr (), v)"
    and es: "forI (write_payload temp payloads) es v = (Inr u, w')"
    by (auto simp: bindI_Inr)
  note IH = Cons.IH [OF es Cons.prems(2)] and step = write_payload_files [OF e Cons.prems(2)]
  let ?k = "temp @ payload_key e" and ?d = "the (map_of payloads (pe_path e))"
  let ?M = "map_of (map (\<lambda>e. (temp @ payload_key e, the (map_of payloads (pe_path e)))) es)"
  from IH Cons.prems(3) have rest: "files (w_fs w') = files (w_fs v) ++ ?M"
    "\<forall>x \<in> set es. files (w_fs v) (temp @ payload_key x) = None" by simp_all
  from step Cons.prems(3) have here: "files (w_fs v) = (files (w_fs w))(?k \<mapsto> ?d)" "files (w_fs w) ?k = None"
    by simp_all
  have fresh: "\<forall>x \<in> set es. temp @ payload_key x \<noteq> ?k"
    using rest(2) here(1) by (metis fun_upd_same option.distinct(1))
  then have "?k \<notin> dom ?M" by (auto simp: dom_map_of_conv_image_fst)
  then have "files (w_fs w') = files (w_fs w) ++ ?M(?k \<mapsto> ?d)"
    using rest(1) here(1) map_add_upd_left [of ?k ?M "files (w_fs w)" ?d] map_add_upd by metis
  moreover have "?M(?k \<mapsto> ?d) = map_of (map (\<lambda>e. (temp @ payload_key e, the (map_of payloads (pe_path e)))) (e # es))"
    by simp
  moreover have "\<forall>x \<in> set es. files (w_fs w) (temp @ payload_key x) = None"
    using rest(2) here(1) fresh by simp
  ultimately show ?case using here(2) by (metis set_ConsD)
qed simp

lemma map_of_shift:
  "map_of (map (\<lambda>e. (temp @ k e, v e)) es) (temp @ x) = map_of (map (\<lambda>e. (k e, v e)) es) x"
  by (induction es) auto

lemma mkdir_new_dirs:
  assumes "mkdir_new p w = (Inr u, w')" "plain_path p"
  shows "node_at (w_fs w') p = Some Dir \<and> node_at (w_fs w') (butlast p) = Some Dir"
proof -
  from assms have "\<exists>s. node_at s p = None \<and> node_at s (butlast p) = Some Dir \<and> w_fs w' = fs_put p Dir s"
    by (auto simp: mkdir_new_def bindI_Inr sys_Inr split: if_splits)
  then obtain s where s: "node_at s p = None" "node_at s (butlast p) = Some Dir" "w_fs w' = fs_put p Dir s"
    by blast
  then have "p \<noteq> []" by auto
  with s show ?thesis by (simp add: node_at_put)
qed

lemma materialize_success:
  assumes "materialize g m payloads temp final w = (Inr u, w')"
    and "plain_path temp" "plain_path final" "temp \<noteq> final" "list_all entry_inside (gm_payloads m)"
    and "\<And>x. files (w_fs w) (temp @ x) = None"
  shows "files (w_fs w') (final @ x) = candidate_files m payloads x" "node_at (w_fs w') final = Some Dir"
proof -
  from assms(1) obtain w1 w2 w3 w4 w5 w6 where run: "mkdir_new (temp @ [''payload'']) w = (Inr (), w1)"
    "forI (write_payload temp payloads) (gm_payloads m) w1 = (Inr (), w2)"
    "write_new_file (temp @ [''manifest.json'']) (manifest_bytes m) w2 = (Inr (), w3)"
    "fsync_dir (temp @ [''payload'']) w3 = (Inr (), w4)" "fsync_dir temp w4 = (Inr (), w5)"
    "os_replace temp final w5 = (Inr (), w6)" "fsync_dir (staging_dir g) w6 = (Inr u, w')"
    by (auto simp: materialize_def bindI_Inr)
  have plain: "plain_path (temp @ [''manifest.json''])" "plain_path (temp @ [''payload''])"
    using assms(2) by simp_all
  note same = fsync_files [OF run(4)] fsync_files [OF run(5)] fsync_files [OF run(7)]
  have "files (w_fs w1) = files (w_fs w)" using keepsD [OF mkdir_files(2) run(1)] by (simp add: same_files_def)
  with write_payloads_files [OF run(2) assms(2,5)] write_new_file_files(1) [OF run(3) plain(1)] same
  have "files (w_fs w5) (temp @ x) = candidate_files m payloads x" for x
    using assms(6) by (simp add: candidate_files_def map_add_def map_of_shift split: option.splits)
  then show "files (w_fs w') (final @ x) = candidate_files m payloads x"
    using os_replace_files [OF run(6) assms(2-4)] same by simp
  have "keeps (preserved_outside (- {temp})) (forI (write_payload temp payloads) (gm_payloads m))"
    unfolding write_payload_def Let_def
    by (intro outside.keeps_for outside.keeps_bind mkdir_outside write_new_file_outside)
      (use assms(5) plain_payload_file [OF assms(2)] in \<open>auto simp: list_all_iff payload_file_def\<close>)
  from keepsD [OF this run(2)] mkdir_new_dirs [OF run(1) plain(2)]
  have "node_at (w_fs w2) temp = Some Dir" by (simp add: preserved_outside_def)
  with writes_only_preserves [OF write_new_file_effect [OF run(3) plain(1)]]
  have "node_at (w_fs w3) temp = Some Dir" by (simp add: preserved_outside_def)
  with os_replace_node [OF run(6) assms(2-4)] same show "node_at (w_fs w') final = Some Dir" by simp
qed

lemma check_payload_Inr:
  "check_payload payloads e = Inr u \<Longrightarrow>
     \<exists>data. map_of payloads (pe_path e) = Some data \<and> int (length data) = pe_byte_size e \<and> sha256 data = pe_sha256 e"
  by (auto simp: result_simps split: option.splits)

lemma payload_key_inj: "entry_inside e \<Longrightarrow> entry_inside f \<Longrightarrow> payload_key e = payload_key f \<Longrightarrow> pe_path e = pe_path f"
  by (simp add: payload_key_def entry_inside_def)

lemma as_posix_key: "entry_inside e \<Longrightarrow> as_posix (payload_key e) = ''payload/'' @ pe_path e"
  by (cases "parts (pe_path e)") (auto simp: payload_key_def entry_inside_def as_posix_def)

lemma candidate_holds:
  assumes "validate_payloads m payloads = Inr ()" "manifest_ok m" "plain_path d"
    and "\<And>x. files fs (d @ x) = candidate_files m payloads x"
  shows "candidate_in fs d m (manifest_sha256 m)"
proof -
  let ?es = "gm_payloads m" and ?D = "\<lambda>e. the (map_of payloads (pe_path e))"
  let ?L = "map (\<lambda>e. (payload_key e, ?D e)) ?es"
  from assms(2) have inside: "\<And>e. e \<in> set ?es \<Longrightarrow> entry_inside e" and dist: "distinct (map pe_path ?es)"
    by (auto simp: manifest_ok_def list_all_iff entry_ok_inside result_simps)
  have "distinct (map fst ?L)"
    using dist inside payload_key_inj by (auto simp: distinct_map inj_on_def comp_def)
  then have at: "files fs (d @ payload_key e) = Some (?D e)" if "e \<in> set ?es" for e
    using that map_of_is_SomeI [of ?L "payload_key e" "?D e"]
    by (simp add: assms(4) candidate_files_def) (simp add: payload_key_def)
  have "\<exists>data. map_of payloads (pe_path e) = Some data \<and> int (length data) = pe_byte_size e \<and> sha256 data = pe_sha256 e"
    if "e \<in> set ?es" for e
    using assms(1) that check_payload_Inr
    by (auto simp: validate_payloads_def bindE_Inr mapE_Inr list_all2_conv_all_nth in_set_conv_nth)
  then have "payloads_in fs d m" using at by (fastforce simp: payloads_in_def)
  moreover have "files fs (d @ [''manifest.json'']) = Some (manifest_bytes m)"
    by (simp add: assms(4) candidate_files_def)
  moreover have "files_under fs d = {''manifest.json''} \<union> payload_names m"
  proof -
    have "dom (candidate_files m payloads) = insert [''manifest.json''] (payload_key ` set ?es)"
      by (simp add: candidate_files_def dom_map_of_conv_image_fst image_image)
    moreover have "[] \<notin> dom (candidate_files m payloads)"
      using calculation by (auto simp: payload_key_def)
    ultimately have "{x. x \<noteq> [] \<and> files fs (d @ x) \<noteq> None} = insert [''manifest.json''] (payload_key ` set ?es)"
      unfolding assms(4) by blast
    then have "files_under fs d = as_posix ` insert [''manifest.json''] (payload_key ` set ?es)"
      unfolding files_under_files [OF assms(3)] by blast
    also have "\<dots> = {''manifest.json''} \<union> payload_names m"
      using as_posix_key inside by (auto simp: payload_names_def as_posix_def image_iff)
    finally show ?thesis .
  qed
  ultimately show ?thesis by (simp add: candidate_in_def manifest_sha256_def)
qed

lemma stage_generation_Inr:
  assumes "stage_generation g m payloads w = (Inr s, w')"
  shows "sg_commit_id s = gm_commit_id m \<and> sg_manifest s = m \<and> sg_manifest_hash s = manifest_sha256 m"
  using assms
  by (auto simp: stage_generation_def Let_def result_simps staged_post_init_def manifest_sha256_def)

lemma stage_temp_differs: "stage_temp g c u \<noteq> staged_at g c"
proof
  assume "stage_temp g c u = staged_at g c"
  then have "length (''.'' @ c @ ''.tmp-'' @ u) = length c" by (simp add: stage_temp_def staged_at_def)
  then show False by simp
qed

lemma staged_candidate:
  assumes "stage_generation g m payloads w = (Inr s, w')"
    and "fs_wf (w_fs w)" "plain_store g" "plain_name (gm_commit_id m)" "plain_uuids w"
    and "fresh_temp g (gm_commit_id m) w" "manifest_ok m"
  shows "candidate_in (w_fs w') (staged_at g (gm_commit_id m)) m (manifest_sha256 m)"
    "node_at (w_fs w') (staged_at g (gm_commit_id m)) = Some Dir"
proof -
  let ?c = "gm_commit_id m" and ?u = "w_uuid w (w_tick w)"
  let ?temp = "stage_temp g ?c ?u" and ?final = "staged_at g ?c"
  have u: "CHR ''/'' \<notin> set ?u" using assms(5) by (simp add: plain_uuids_def)
  note places = subpath_places [OF assms(4) u, where g = g]
  note plain = plain_places [OF assms(3,4)]
  have inside: "list_all entry_inside (gm_payloads m)"
    using assms(7) by (auto simp: manifest_ok_def list_all_iff entry_ok_inside)
  from stage_generation_run [OF assms(1)] obtain v where valid: "validate_payloads m payloads = Inr ()"
    and run: "materialize g m payloads ?temp ?final (w\<lparr>w_tick := Suc (w_tick w)\<rparr>) = (Inr (), v)" "w_fs w' = w_fs v"
    unfolding places Let_def by auto
  have "node_at (w_fs w) ?temp = None" using assms(6) by (simp add: fresh_temp_def)
  then have "files (w_fs (w\<lparr>w_tick := Suc (w_tick w)\<rparr>)) (?temp @ x) = None" for x
    using fs_wf_absent [OF assms(2)] by (simp add: files_def)
  note made = materialize_success [OF run(1) plain(6,4) stage_temp_differs inside this]
  show "candidate_in (w_fs w') ?final m (manifest_sha256 m)"
    using made(1) run(2) by (intro candidate_holds [OF valid assms(7) plain(4)]) simp
  show "node_at (w_fs w') ?final = Some Dir" using made(2) run(2) by simp
qed

text \<open>Staging a well-formed manifest with payloads that returns has put a directory under
  \<open>staging/<commit_id>\<close> that the store's own candidate verifier accepts with the hash the staged
  generation carries, whatever the fault plan was up to then; and the staged generation holds the
  manifest that was given.\<close>

theorem staged_candidate_verifies:
  assumes "stage_generation g m payloads w = (Inr s, w')"
    and "fs_wf (w_fs w)" "plain_store g" "plain_name (gm_commit_id m)" "plain_uuids w"
    and "fresh_temp g (gm_commit_id m) w" "manifest_ok m"
  shows "sg_manifest s = m \<and> sg_commit_id s = gm_commit_id m \<and>
    candidate_in (w_fs w') (staged_at g (gm_commit_id m)) m (sg_manifest_hash s) \<and>
    yields (w_fs w') (verify_candidate_directory (staged_at g (gm_commit_id m)) m (sg_manifest_hash s)) ()"
proof -
  have inside: "list_all entry_inside (gm_payloads m)"
    using assms(7) by (auto simp: manifest_ok_def list_all_iff entry_ok_inside)
  with staged_candidate(1) [OF assms] stage_generation_Inr [OF assms(1)] plain_places(4) [OF assms(3,4)] show ?thesis
    by (simp add: yields_candidate)
qed

subsection \<open>A concrete store\<close>

definition example_store :: generation_store where
  "example_store =
     \<lparr>gs_root = [''store''], gs_policy_version = ''p7-v1'', gs_actor = ''galia'', gs_clock = example_time,
      gs_id = (\<lambda>prefix n. prefix)\<rparr>"

definition example_bytes :: string where
  "example_bytes = ''observed''"

definition example_entry :: payload_entry where
  "example_entry = \<lparr>pe_path = ''a.json'', pe_sha256 = sha256 example_bytes, pe_byte_size = 8\<rparr>"

definition example_manifest :: generation_manifest where
  "example_manifest =
     \<lparr>gm_commit_id = ''c2'', gm_seq = 2, gm_parent_commit = ''c1'', gm_case_id = ''case'', gm_schema_version = ''v1'',
      gm_created_at = example_time 0, gm_payloads = [example_entry], gm_authority_decision_id = ''d1'',
      gm_policy_version = ''p7-v1''\<rparr>"

definition example_disk :: fs where
  "example_disk = [([''store''], Dir), ([''store'', ''staging''], Dir), ([''store'', ''generations''], Dir)]"

lemmas example_store_defs = example_store_def example_entry_def example_manifest_def example_disk_def

definition example_world :: "fs \<Rightarrow> world" where
  "example_world fs = (quiet_world fs)\<lparr>w_uuid := \<lambda>n. ''uuid''\<rparr>"

lemma example_manifest_ok: "manifest_ok example_manifest"
proof -
  have texts: "list_all utf8_valid [''a.json'', ''c1'', ''c2'', ''case'', ''v1'', ''d1'', ''p7-v1'']"
    by (auto simp: ascii_def code_def intro!: utf8_valid_ascii)
  have "payload_entry_post_init example_entry = Inr example_entry"
    by (simp add: example_entry_def payload_entry_post_init_def safe_payload_path_def parts_def Let_def
        required_def hash_field_def as_posix_def)
  then have "entry_ok example_entry" using texts by (simp add: entry_ok_def example_entry_def del: utf8_valid.simps)
  moreover have "manifest_post_init example_manifest = Inr example_manifest"
    unfolding manifest_post_init_Inr by (simp add: example_manifest_def)
  ultimately show ?thesis using texts by (simp add: manifest_ok_def example_manifest_def del: utf8_valid.simps)
qed

lemmas file_system_steps = mkdir_new_def mkdir_parents_def make_dir_def sys_def write_new_file_def open_new_def write_fd_def
  fsync_fd_def fsync_dir_def os_replace_def path_exists_def contents_def node_at_def fs_put_def fs_move_def within_def Let_def

lemma example_world_simps [simp]:
  "w_fs (example_world fs) = fs" "w_uuid (example_world fs) = (\<lambda>n. ''uuid'')" "w_fault (example_world fs) = (\<lambda>n. None)"
  by (simp_all add: example_world_def)

lemma run_cong:
  "m = m' \<Longrightarrow> w = w' \<Longrightarrow> bindI m k w = bindI m' k w'"
  "m = m' \<Longrightarrow> w = w' \<Longrightarrow> catch m h w = catch m' h w'"
  by simp_all

lemma example_stages:
  "\<exists>s w'. stage_generation example_store example_manifest [(''a.json'', example_bytes)] (example_world example_disk) = (Inr s, w')"
  by (simp add: stage_generation_def bindI_def validate_payloads_def example_store_defs staging_dir_def generations_dir_def
      quiet_world_def observe_def file_system_steps uuid4_def catch_def wrap_publish_error_def materialize_def throw_if_def
      write_payload_def payload_file_def parts_def example_bytes_def plain_name_def example_world_def call_def
      receipt_post_init_def required_def required_opt_def hash_field_def staged_post_init_def manifest_sha256_def aware_field_def cong: run_cong)

lemma example_store_plain:
  "plain_store example_store" "plain_name ''c2''" "plain_name ''c1''" "plain_uuids (example_world fs)" "manifest_ok example_manifest"
  "gm_commit_id example_manifest = ''c2''" "fs_wf example_disk" "fresh_temp example_store ''c2'' (example_world example_disk)"
  by (rule example_manifest_ok | simp add: plain_store_def example_store_defs plain_name_def plain_uuids_def
      fs_wf_def node_at_def fresh_temp_def stage_temp_def staging_dir_def)+

theorem staged_candidate_verifies_witness:
  "\<exists>s w'. stage_generation example_store example_manifest [(''a.json'', example_bytes)] (example_world example_disk) = (Inr s, w') \<and>
     yields (w_fs w') (verify_candidate_directory (staged_at example_store ''c2'') example_manifest (sg_manifest_hash s)) ()"
proof -
  obtain s w' where run: "stage_generation example_store example_manifest [(''a.json'', example_bytes)]
      (example_world example_disk) = (Inr s, w')"
    using example_stages by blast
  have "yields (w_fs w') (verify_candidate_directory (staged_at example_store ''c2'') example_manifest (sg_manifest_hash s)) ()"
    using staged_candidate_verifies [OF run] example_store_plain by simp
  with run show ?thesis by blast
qed

theorem staging_preserves_the_store_witness:
  "preserved_outside {} example_disk (w_fs (snd (stage_generation example_store example_manifest
     [(''a.json'', example_bytes)] (example_world example_disk))))"
proof -
  have inside: "list_all entry_inside (gm_payloads example_manifest)"
    using example_manifest_ok by (auto simp: manifest_ok_def list_all_iff entry_ok_inside)
  show ?thesis
    using staging_preserves_the_store [OF prod.collapse [symmetric]] example_store_plain inside
    by (metis example_world_simps(1))
qed

end
