(* ===== verification/StorePublication.thy ===== *)
theory StorePublication
  imports StoreSafety Outcomes
begin

section \<open>Publication under failures\<close>

text \<open>
  What \<open>publish_generation\<close> leaves behind under an arbitrary fault plan: HEAD is the old pointer or the
  complete new one, and the generation HEAD names verifies in either case; no other generation is
  touched.  A publication that returns has crossed the human boundary with evidence bound to exactly
  this candidate.
\<close>

subsection \<open>The places are apart\<close>

lemma within_root: "within (r @ a) (r @ b) \<longleftrightarrow> within a b"
  by (simp add: within_def)

lemma apart_root: "apart (r @ a) (r @ b) \<longleftrightarrow> apart a b"
  by (simp add: apart_def within_root)

lemma places_apart:
  "apart (published_at g c) (head_path g)" "apart (published_at g c) (head_temp g u)"
  "apart (published_at g c) (staged_at g c')" "c \<noteq> c' \<Longrightarrow> apart (published_at g c) (published_at g c')"
  "apart (staged_at g c) (head_path g)" "apart (head_temp g u) (head_path g)"
  by (simp_all add: place_defs append_assoc apart_root del: append_assoc) (simp_all add: apart_def within_def)

lemma apart_not_within: "apart a b \<Longrightarrow> \<not> within a b" "apart a b \<Longrightarrow> \<not> within b a" "apart a b \<Longrightarrow> a \<noteq> b"
  by (auto simp: apart_def)

lemma within_file: "\<not> within a (b @ x) \<Longrightarrow> \<not> within a b"
  using within_trans within_append by blast

subsection \<open>Swapping HEAD\<close>

definition head_swapped :: "generation_store \<Rightarrow> head_pointer \<Rightarrow> fs \<Rightarrow> unit res \<Rightarrow> fs \<Rightarrow> bool" where
  "head_swapped g h s r t \<longleftrightarrow>
     (\<forall>c. equal_inside (published_at g c) s t) \<and>
     (files t (head_path g) = files s (head_path g) \<or> files t (head_path g) = Some (head_bytes h)) \<and>
     (r = Inr () \<longrightarrow> files t (head_path g) = Some (head_bytes h))"

definition plain_text :: "string \<Rightarrow> bool" where
  "plain_text u \<longleftrightarrow> CHR ''/'' \<notin> set u"

lemma outcome_head:
  assumes "plain_store g"
  shows "outcome plain_text fs (atomic_write_head g h) (head_swapped g h fs)"
proof -
  have tmp: "subpath (gs_root g) (''.HEAD.tmp-'' @ u) = head_temp g u" if "plain_text u" for u
    using subpath_plain [OF temp_name_plain(2)] that by (simp add: plain_text_def head_temp_def)
  have plain: "plain_path (head_path g)" "plain_path (head_temp g u)" if "plain_text u" for u
    using assms that by (auto simp: plain_store_def place_defs plain_text_def)
  have swap: "outcome plain_text fs (bindI (write_new_file (head_temp g u) (head_bytes h)) (\<lambda>_.
      bindI (os_replace (head_temp g u) (head_path g)) (\<lambda>_. fsync_dir (gs_root g)))) (head_swapped g h fs)"
    if u: "plain_text u" for u
  proof (rule outcome_bind [OF outcome_write [OF plain(2) [OF u]]])
    have inside: "equal_inside (published_at g c) fs t" and at: "node_at t (head_path g) = node_at fs (head_path g)"
      if "written (head_temp g u) (head_bytes h) fs r t" for r t c
    proof -
      from that have w: "writes_only (head_temp g u) fs t" by (simp add: written_def)
      show "equal_inside (published_at g c) fs t"
        by (rule writes_only_inside [OF w apart_not_within(1) [OF places_apart(2)]])
      show "node_at t (head_path g) = node_at fs (head_path g)"
        using w apart_not_within [OF places_apart(6)] unfolding writes_only_def by metis
    qed
    show "head_swapped g h fs (Inl e) t" if "written (head_temp g u) (head_bytes h) fs (Inl e) t" for e t
      using inside [OF that] at [OF that] by (simp add: head_swapped_def files_def)
    show "outcome plain_text t (bindI (os_replace (head_temp g u) (head_path g)) (\<lambda>_. fsync_dir (gs_root g)))
        (head_swapped g h fs)" if made: "written (head_temp g u) (head_bytes h) fs (Inr x) t" for x t
    proof (rule outcome_bind [OF outcome_replace [OF plain(2,1) [OF u] apart_not_within(3) [OF places_apart(6)]]])
      show "head_swapped g h fs (Inl e) t'" if "renamed (head_temp g u) (head_path g) t (Inl e) t'" for e t'
        using that inside [OF made] at [OF made] by (simp add: head_swapped_def files_def renamed_def)
      show "outcome plain_text t' (fsync_dir (gs_root g)) (head_swapped g h fs)"
        if ren: "renamed (head_temp g u) (head_path g) t (Inr y) t'" for y t'
      proof -
        have "files t' (head_path g) = Some (head_bytes h)"
          using renamed_files [OF ren, of "[]"] made by (simp add: written_def)
        moreover have "equal_inside (published_at g c) fs t'" for c
          using inside [OF made] renamed_inside [OF ren places_apart(2,1)] by (rule inside.step)
        ultimately show ?thesis
          by (intro outcome_weaken [OF outcome_fsync]) (auto simp: head_swapped_def)
      qed
    qed
  qed
  show ?thesis unfolding atomic_write_head_def Let_def
  proof (rule outcome_uuid_step)
    fix u
    assume u: "plain_text u"
    show "outcome plain_text fs (bindI (write_new_file (subpath (gs_root g) (''.HEAD.tmp-'' @ u)) (head_bytes h)) (\<lambda>_.
        bindI (os_replace (subpath (gs_root g) (''.HEAD.tmp-'' @ u)) (head_path g)) (\<lambda>_. fsync_dir (gs_root g))))
        (head_swapped g h fs)"
      unfolding tmp [OF u] by (rule swap [OF u])
  qed
qed

subsection \<open>Installing a generation\<close>

lemma generation_holds:
  assumes "candidate_in fs src m (manifest_sha256 m)" "plain_path src" "plain_path (published_at g c)"
    and "files fs (src @ [''manifest.json'']) = Some (manifest_bytes m)"
    and "node_at t (published_at g c) = Some Dir"
    and "\<And>x. files t (published_at g c @ x) = ((files fs)(src @ [''promotion.json''] \<mapsto> envelope_bytes e)) (src @ x)"
    and "manifest_ok m" "envelope_ok e" "gm_commit_id m = c" "pv_commit_id e = c" "pv_case_id e = gm_case_id m"
    and "pv_manifest_hash e = manifest_sha256 m" "pv_authority_decision_id e = gm_authority_decision_id m"
  shows "generation_in g t c (Some (manifest_sha256 m)) (Some (envelope_sha256 e)) m"
proof -
  let ?d = "published_at g c"
  have at: "files t (?d @ x) = (if x = [''promotion.json''] then Some (envelope_bytes e) else files fs (src @ x))" for x
    using assms(6) by simp
  have "payloads_in t ?d m"
    using assms(1) by (simp add: candidate_in_def payloads_in_def at payload_key_def)
  moreover have "files_under t ?d = {''manifest.json'', ''promotion.json''} \<union> payload_names m"
  proof -
    have "{x. x \<noteq> [] \<and> files t (?d @ x) \<noteq> None} = insert [''promotion.json''] {x. x \<noteq> [] \<and> files fs (src @ x) \<noteq> None}"
      by (auto simp: at)
    then have "files_under t ?d = insert (as_posix [''promotion.json'']) (files_under fs src)"
      by (simp add: files_under_files [OF assms(2)] files_under_files [OF assms(3)] setcompr_eq_image)
    then show ?thesis using assms(1) by (simp add: candidate_in_def as_posix_def insert_commute)
  qed
  moreover have "files t (?d @ [''manifest.json'']) = Some (manifest_bytes m)"
    "files t (?d @ [''promotion.json'']) = Some (envelope_bytes e)"
    using at [of "[''manifest.json'']"] at [of "[''promotion.json'']"] assms(4) by simp_all
  moreover have "expected (Some (manifest_sha256 m)) (sha256 (manifest_bytes m))"
    "expected (Some (envelope_sha256 e)) (sha256 (envelope_bytes e))"
    by (simp_all add: expected_def manifest_sha256_def envelope_sha256_def)
  moreover note manifest_read_back [OF assms(7)] envelope_read_back [OF assms(8)]
  ultimately show ?thesis
    unfolding generation_in_def Let_def
    by (intro exI [of _ "manifest_bytes m"] exI [of _ "envelope_bytes e"] exI [of _ e] conjI)
      (simp_all add: assms(5,9-13) manifest_sha256_def)
qed

subsection \<open>The outcome of a publication\<close>

definition serves :: "generation_store \<Rightarrow> head_pointer \<Rightarrow> fs \<Rightarrow> bool" where
  \<comment> \<open>HEAD reads as \<open>h\<close>, and the generation it names verifies against the hashes it carries\<close>
  "serves g h fs \<longleftrightarrow>
     (\<exists>raw. files fs (head_path g) = Some raw \<and> head_from_bytes raw = Inr h) \<and>
     (\<exists>m. generation_in g fs (hp_commit_id h) (Some (hp_manifest_hash h)) (Some (hp_promotion_hash h)) m)"

definition next_head :: "staged_generation \<Rightarrow> promotion_envelope \<Rightarrow> head_pointer" where
  "next_head staged e =
     \<lparr>hp_commit_id = sg_commit_id staged, hp_seq = gm_seq (sg_manifest staged),
      hp_manifest_hash = sg_manifest_hash staged, hp_promotion_hash = envelope_sha256 e\<rparr>"

definition installed ::
  "generation_store \<Rightarrow> staged_generation \<Rightarrow> promotion_envelope \<Rightarrow> fs \<Rightarrow> head_pointer res \<Rightarrow> fs \<Rightarrow> bool" where
  "installed g staged e s r t \<longleftrightarrow>
     (\<forall>c. c \<noteq> sg_commit_id staged \<longrightarrow> equal_inside (published_at g c) s t) \<and>
     (files t (head_path g) = files s (head_path g) \<or>
      files t (head_path g) = Some (head_bytes (next_head staged e)) \<and>
      generation_in g t (sg_commit_id staged) (Some (sg_manifest_hash staged)) (Some (envelope_sha256 e))
        (sg_manifest staged)) \<and>
     (\<forall>h. r = Inr h \<longrightarrow> h = next_head staged e \<and> files t (head_path g) = Some (head_bytes h) \<and>
        generation_in g t (sg_commit_id staged) (Some (sg_manifest_hash staged)) (Some (envelope_sha256 e))
          (sg_manifest staged))"

lemma generation_in_inside:
  assumes "generation_in g s c mh ph m" "equal_inside (published_at g c) s t" "plain_path (published_at g c)"
  shows "generation_in g t c mh ph m"
proof -
  let ?d = "published_at g c"
  have at: "files t (?d @ x) = files s (?d @ x)" for x
    by (rule equal_inside_files [OF assms(2) within_append])
  have "node_at t ?d = node_at s ?d" by (rule equal_inside_at [OF assms(2) within_refl])
  moreover have "files_under t ?d = files_under s ?d" by (simp add: files_under_files [OF assms(3)] at)
  moreover have "payloads_in t ?d m' \<longleftrightarrow> payloads_in s ?d m'" for m' by (simp add: payloads_in_def at)
  ultimately show ?thesis using assms(1) unfolding generation_in_def Let_def at by simp
qed

lemma head_post_init_next:
  assumes "manifest_ok (sg_manifest staged)" "staged_post_init staged = Inr staged"
  shows "head_post_init (next_head staged e) = Inr (next_head staged e)"
  using assms
  by (cases staged) (auto simp: staged_post_init_def result_simps next_head_def manifest_ok_def envelope_sha256_def)

lemma staged_bound:
  assumes "staged_post_init s = Inr s"
  shows "gm_commit_id (sg_manifest s) = sg_commit_id s \<and> sg_manifest_hash s = manifest_sha256 (sg_manifest s)"
  using assms by (cases s) (auto simp: staged_post_init_def result_simps)

text \<open>The second half: the directory is complete in \<open>t\<close>, it is renamed, then HEAD is swapped.\<close>

lemma outcome_expose:
  assumes "plain_store g" "plain_name (sg_commit_id staged)" "staged_post_init staged = Inr staged"
    and "manifest_ok (sg_manifest staged)"
    and inside: "\<And>c. equal_inside (published_at g c) fs t" and at: "files t (head_path g) = files fs (head_path g)"
    and complete: "\<And>t'. node_at t' (published_at g (sg_commit_id staged)) = Some Dir \<Longrightarrow>
      (\<And>x. files t' (published_at g (sg_commit_id staged) @ x) = files t (staged_at g (sg_commit_id staged) @ x)) \<Longrightarrow>
      generation_in g t' (sg_commit_id staged) (Some (sg_manifest_hash staged)) (Some (envelope_sha256 e)) (sg_manifest staged)"
    and dir: "node_at t (staged_at g (sg_commit_id staged)) = Some Dir"
  shows "outcome plain_text t
    (bindI (os_replace (staged_at g (sg_commit_id staged)) (published_at g (sg_commit_id staged))) (\<lambda>_.
     bindI (fsync_dir (generations_dir g)) (\<lambda>_. bindI (lift (head_post_init (next_head staged e))) (\<lambda>head.
     bindI (atomic_write_head g head) (\<lambda>_. ret head)))))
    (installed g staged e fs)"
proof (rule outcome_bind [OF outcome_replace])
  let ?c = "sg_commit_id staged"
  let ?src = "staged_at g ?c" and ?dst = "published_at g ?c" and ?h = "next_head staged e"
  note plain = plain_places [OF assms(1,2)]
  show "plain_path ?src" "plain_path ?dst" by (rule plain)+
  show "?src \<noteq> ?dst" using apart_not_within(3) [OF places_apart(3)] by metis
  show "installed g staged e fs (Inl x) t'" if "renamed ?src ?dst t (Inl x) t'" for x t'
    using that inside at by (simp add: installed_def renamed_def)
  fix u t'
  assume ren: "renamed ?src ?dst t (Inr u) t'"
  have gen: "generation_in g t' ?c (Some (sg_manifest_hash staged)) (Some (envelope_sha256 e)) (sg_manifest staged)"
    using renamed_node [OF ren] dir renamed_files [OF ren] by (intro complete) simp_all
  have others: "equal_inside (published_at g c) fs t'" if "c \<noteq> ?c" for c
    using inside renamed_inside [OF ren places_apart(3) places_apart(4) [OF that]] by (rule inside.step)
  have head: "files t' (head_path g) = files fs (head_path g)"
    using renamed_outside [OF ren, of "head_path g"] places_apart(1,5) [of g ?c] at
    by (simp add: apart_def files_def)
  show "outcome plain_text t' (bindI (fsync_dir (generations_dir g)) (\<lambda>_. bindI (lift (head_post_init ?h)) (\<lambda>head.
      bindI (atomic_write_head g head) (\<lambda>_. ret head)))) (installed g staged e fs)"
    unfolding head_post_init_next [OF assms(4,3)]
  proof (intro outcome_fsync_step outcome_lift_step)
    show "installed g staged e fs (Inl x) t'" for x
      using others head by (simp add: installed_def)
    fix h'
    assume h': "Inr ?h = (Inr h' :: head_pointer res)"
    show "outcome plain_text t' (bindI (atomic_write_head g h') (\<lambda>_. ret h')) (installed g staged e fs)"
    proof (rule outcome_bind [OF outcome_head [OF assms(1)]])
      have final: "equal_inside (published_at g c) fs t''" if "head_swapped g h' t' r t''" "c \<noteq> ?c" for c r t''
        using others [OF that(2)] that(1) inside.step unfolding head_swapped_def by blast
      have served: "generation_in g t'' ?c (Some (sg_manifest_hash staged)) (Some (envelope_sha256 e)) (sg_manifest staged)"
        if "head_swapped g h' t' r t''" for r t''
        using generation_in_inside [OF gen _ plain(5)] that by (simp add: head_swapped_def)
      show "installed g staged e fs (Inl x) t''" if "head_swapped g h' t' (Inl x) t''" for x t''
        using final [OF that] served [OF that] that h' head by (auto simp: installed_def head_swapped_def)
      show "outcome plain_text t'' (ret h') (installed g staged e fs)" if "head_swapped g h' t' (Inr v) t''" for v t''
        using final [OF that] served [OF that] that h'
        by (intro outcome_last) (auto simp: installed_def head_swapped_def)
    qed
  qed simp
qed

lemma outcome_install:
  assumes "plain_store g" "plain_name (sg_commit_id staged)" "staged_post_init staged = Inr staged"
    and "manifest_ok (sg_manifest staged)" "envelope_ok e"
    and "pv_commit_id e = sg_commit_id staged" "pv_case_id e = gm_case_id (sg_manifest staged)"
    and "pv_manifest_hash e = sg_manifest_hash staged"
    and "pv_authority_decision_id e = gm_authority_decision_id (sg_manifest staged)"
    and "candidate_in fs (staged_at g (sg_commit_id staged)) (sg_manifest staged) (sg_manifest_hash staged)"
    and "files fs (staged_at g (sg_commit_id staged) @ [''manifest.json'']) = Some (manifest_bytes (sg_manifest staged))"
    and "node_at fs (staged_at g (sg_commit_id staged)) = Some Dir"
  shows "outcome plain_text fs
    (install_generation g staged e (staged_at g (sg_commit_id staged)) (published_at g (sg_commit_id staged)))
    (installed g staged e fs)"
proof -
  let ?c = "sg_commit_id staged"
  let ?src = "staged_at g ?c" and ?dst = "published_at g ?c" and ?h = "next_head staged e"
  note plain = plain_places [OF assms(1,2)]
  have plain_file: "plain_path (?src @ [''promotion.json''])" using plain(4) by simp
  have staged: "gm_commit_id (sg_manifest staged) = ?c" "sg_manifest_hash staged = manifest_sha256 (sg_manifest staged)"
    using staged_bound [OF assms(3)] by simp_all
  have quiet_fail: "installed g staged e fs (Inl x) t"
    if "\<And>c. equal_inside (published_at g c) fs t" "files t (head_path g) = files fs (head_path g)" for x t
    using that by (simp add: installed_def)
  show ?thesis unfolding install_generation_def
  proof (rule outcome_bind [OF outcome_write [OF plain_file]])
    have inside: "equal_inside (published_at g c) fs t" and at: "node_at t (head_path g) = node_at fs (head_path g)"
      and dir: "node_at t ?src = Some Dir"
      if "written (?src @ [''promotion.json'']) (envelope_bytes e) fs r t" for r t c
    proof -
      from that have w: "writes_only (?src @ [''promotion.json'']) fs t" by (simp add: written_def)
      have "\<not> within (published_at g c) (?src @ [''promotion.json''])"
        using apart_within [OF places_apart(3)] within_append apart_within by metis
      then show "equal_inside (published_at g c) fs t" by (rule writes_only_inside [OF w])
      have "\<not> within (head_path g) (?src @ [''promotion.json''])"
        by (rule apart_within [OF places_apart(5) within_append])
      moreover from this have "head_path g \<noteq> ?src @ [''promotion.json'']" using within_refl by metis
      ultimately show "node_at t (head_path g) = node_at fs (head_path g)"
        using w unfolding writes_only_def by metis
      show "node_at t ?src = Some Dir"
        using w assms(12) unfolding writes_only_def by (metis append_self_conv not_Cons_self option.distinct(1))
    qed
    show "installed g staged e fs (Inl x) t"
      if "written (?src @ [''promotion.json'']) (envelope_bytes e) fs (Inl x) t" for x t
      using inside [OF that] at [OF that] by (intro quiet_fail) (simp_all add: files_def)
    fix u t
    assume made: "written (?src @ [''promotion.json'']) (envelope_bytes e) fs (Inr u) t"
    show "outcome plain_text t (bindI (fsync_dir ?src) (\<lambda>_. bindI (os_replace ?src ?dst) (\<lambda>_.
        bindI (fsync_dir (generations_dir g)) (\<lambda>_. bindI (lift (head_post_init
          \<lparr>hp_commit_id = ?c, hp_seq = gm_seq (sg_manifest staged), hp_manifest_hash = sg_manifest_hash staged,
           hp_promotion_hash = envelope_sha256 e\<rparr>)) (\<lambda>head. bindI (atomic_write_head g head) (\<lambda>_. ret head))))))
      (installed g staged e fs)"
      unfolding next_head_def [symmetric]
    proof (rule outcome_fsync_step)
      have same: "files t (head_path g) = files fs (head_path g)" using at [OF made] by (simp add: files_def)
      show "installed g staged e fs (Inl x) t" for x
        using inside [OF made] same by (intro quiet_fail)
      show "outcome plain_text t (bindI (os_replace ?src ?dst) (\<lambda>_.
          bindI (fsync_dir (generations_dir g)) (\<lambda>_. bindI (lift (head_post_init ?h)) (\<lambda>head.
          bindI (atomic_write_head g head) (\<lambda>_. ret head))))) (installed g staged e fs)"
      proof (rule outcome_expose [OF assms(1-4) inside [OF made] same _ dir [OF made]])
        fix t'
        assume "node_at t' ?dst = Some Dir" "\<And>x. files t' (?dst @ x) = files t (?src @ x)"
        then show "generation_in g t' ?c (Some (sg_manifest_hash staged)) (Some (envelope_sha256 e)) (sg_manifest staged)"
          using made assms(4-11) staged unfolding staged(2)
          by (intro generation_holds [OF _ plain(4,5)]) (simp_all add: written_def)
      qed
    qed
  qed
qed

subsection \<open>Publishing\<close>

lemma head_ensured:
  assumes "plain_store g"
  shows "ensures fs (read_head g) (\<lambda>h. \<forall>x. h = Some x \<longrightarrow>
    (\<exists>raw. files fs (head_path g) = Some raw \<and> head_from_bytes raw = Inr x))"
proof -
  have plain: "plain_path (head_path g)" using assms by (simp add: plain_store_def head_path_def)
  show ?thesis unfolding read_head_def
    by (intro ensures_rules ensures_bind [OF ensures_catch [OF ensures_read [OF plain]]]) auto
qed

lemma yields_head:
  assumes "plain_store g" "files fs (head_path g) = Some raw" "head_from_bytes raw = Inr h"
  shows "yields fs (read_head g) (Some h)"
proof -
  have plain: "plain_path (head_path g)" using assms(1) by (simp add: plain_store_def head_path_def)
  have "path_exists fs (head_path g)" using files_lookup [OF plain assms(2)] by (simp add: path_exists_def)
  then show ?thesis unfolding read_head_def
    by (intro yields_observe_step) (simp, intro yields_bind [OF yields_catch [OF yields_bytes [OF plain assms(2)]]]
      yields_bind [OF yields_lift [OF assms(3)]] yields_last)
qed

lemma readers_frame [frame_rules]:
  "keeps (=) (read_head g)" "keeps (=) (verify_candidate_directory d m h)" "keeps (=) (verify_payload_files d m)"
  "keeps (=) (verify_generation g commit mh ph)"
  unfolding read_head_def verify_candidate_directory_def verify_payload_files_def verify_payload_file_def
    verify_generation_def verify_published_directory_def Let_def
  by (intro frame_rules)+

lemma readers_env [env_rules]:
  "env_kept (read_head g)" "env_kept (verify_candidate_directory d m h)" "env_kept (verify_payload_files d m)"
  "env_kept (verify_generation g commit mh ph)"
  unfolding read_head_def verify_candidate_directory_def verify_payload_files_def verify_payload_file_def
    verify_generation_def verify_published_directory_def Let_def
  by (intro env_rules env_files)+

definition publishable :: "generation_store \<Rightarrow> staged_generation \<Rightarrow> preflight_report \<Rightarrow> promotion_authorization \<Rightarrow> bool" where
  \<comment> \<open>the objects are as their constructors leave them, their texts are UTF-8, and identifiers are names\<close>
  "publishable g staged rep auth \<longleftrightarrow>
     plain_store g \<and> plain_name (sg_commit_id staged) \<and> plain_name (gm_parent_commit (sg_manifest staged)) \<and>
     staged_post_init staged = Inr staged \<and> manifest_ok (sg_manifest staged) \<and>
     list_all utf8_valid [pa_authorization_id auth, pa_policy_version auth, rc_receipt_id (pr_receipt rep),
       gs_policy_version g] \<and>
     (\<forall>n. valid_datetime (gs_clock g n))"

definition manifest_staged :: "generation_store \<Rightarrow> staged_generation \<Rightarrow> fs \<Rightarrow> bool" where
  "manifest_staged g staged fs \<longleftrightarrow>
     files fs (staged_at g (sg_commit_id staged) @ [''manifest.json'']) = Some (manifest_bytes (sg_manifest staged))"

definition publish_outcome :: "generation_store \<Rightarrow> staged_generation \<Rightarrow> fs \<Rightarrow> published_generation res \<Rightarrow> fs \<Rightarrow> bool" where
  "publish_outcome g staged s r t \<longleftrightarrow>
     (\<forall>h. serves g h s \<longrightarrow> serves g h t \<or> (\<exists>h'. serves g h' t \<and> hp_commit_id h' = sg_commit_id staged)) \<and>
     (\<forall>p. r = Inr p \<longrightarrow> serves g (pb_head p) t \<and> hp_commit_id (pb_head p) = sg_commit_id staged \<and>
        generation_in g t (sg_commit_id staged) (Some (hp_manifest_hash (pb_head p)))
          (Some (hp_promotion_hash (pb_head p))) (sg_manifest staged)) \<and>
     (\<forall>c. node_at s (published_at g c) \<noteq> None \<longrightarrow> equal_inside (published_at g c) s t)"

lemma publish_failed: "publish_outcome g staged s (Inl e) s"
  by (simp add: publish_outcome_def inside.same)

lemma envelope_built:
  assumes "envelope_post_init
       \<lparr>pv_commit_id = sg_commit_id staged, pv_case_id = gm_case_id (sg_manifest staged),
        pv_manifest_hash = sg_manifest_hash staged,
        pv_authority_decision_id = gm_authority_decision_id (sg_manifest staged),
        pv_authorization_id = pa_authorization_id auth, pv_authorization_policy = pa_policy_version auth,
        pv_preflight_receipt_id = rc_receipt_id (pr_receipt rep), pv_policy_version = gs_policy_version g,
        pv_published_at = gs_clock g n\<rparr> = Inr e"
    and "publishable g staged rep auth"
  shows "envelope_ok e" "pv_commit_id e = sg_commit_id staged" "pv_case_id e = gm_case_id (sg_manifest staged)"
    "pv_manifest_hash e = sg_manifest_hash staged"
    "pv_authority_decision_id e = gm_authority_decision_id (sg_manifest staged)"
proof -
  have hash: "lower (sg_manifest_hash staged) = sg_manifest_hash staged"
    using assms(2) staged_bound by (simp add: publishable_def manifest_sha256_def)
  have commit: "utf8_valid (sg_commit_id staged)"
    using assms(2) staged_bound by (auto simp: publishable_def manifest_ok_def)
  show "pv_commit_id e = sg_commit_id staged" "pv_case_id e = gm_case_id (sg_manifest staged)"
    "pv_manifest_hash e = sg_manifest_hash staged"
    "pv_authority_decision_id e = gm_authority_decision_id (sg_manifest staged)"
    using assms(1) hash by (auto simp: envelope_post_init_def result_simps)
  show "envelope_ok e"
    using assms commit hash
    by (auto simp: envelope_post_init_def result_simps envelope_ok_def publishable_def manifest_ok_def)
qed

lemma next_head_read:
  assumes "publishable g staged rep auth"
  shows "head_from_bytes (head_bytes (next_head staged e)) = Inr (next_head staged e)"
proof (rule head_read_back)
  show "head_ok (next_head staged e)"
    using assms head_post_init_next staged_bound
    by (auto simp: head_ok_def publishable_def manifest_ok_def) (simp add: next_head_def)
qed

lemma installed_published:
  assumes "installed g staged e s r t" "publishable g staged rep auth"
    and "files s (head_path g) = Some raw" "head_from_bytes raw = Inr cur" "hp_commit_id cur = gm_parent_commit (sg_manifest staged)"
    and "generation_in g s (hp_commit_id cur) (Some (hp_manifest_hash cur)) (Some (hp_promotion_hash cur)) m"
    and "\<not> path_exists s (published_at g (sg_commit_id staged))"
  shows "publish_outcome g staged s (Inl x) t"
    "r = Inr h \<Longrightarrow> publish_outcome g staged s (Inr \<lparr>pb_head = h, pb_manifest = m', pb_promotion = e', pb_receipt = c\<rparr>) t"
proof -
  let ?c = "sg_commit_id staged" and ?h = "next_head staged e"
  have parts: "plain_store g" "plain_name (gm_parent_commit (sg_manifest staged))" "staged_post_init staged = Inr staged"
    "manifest_ok (sg_manifest staged)"
    using assms(2) by (simp_all add: publishable_def)
  have "hp_commit_id cur \<noteq> ?c"
    using assms(5) parts(4) staged_bound [OF parts(3)] by (auto simp: manifest_ok_def result_simps)
  with assms(1) have "equal_inside (published_at g (hp_commit_id cur)) s t" by (simp add: installed_def)
  from generation_in_inside [OF assms(6) this] plain_places(5) [OF parts(1,2)] assms(5)
  have kept: "generation_in g t (hp_commit_id cur) (Some (hp_manifest_hash cur)) (Some (hp_promotion_hash cur)) m"
    by simp
  have new: "serves g ?h t" if "files t (head_path g) = Some (head_bytes ?h)"
    "generation_in g t ?c (Some (sg_manifest_hash staged)) (Some (envelope_sha256 e)) (sg_manifest staged)"
    using that next_head_read [OF assms(2)] unfolding serves_def by (simp add: next_head_def) blast
  have old: "h' = cur" if "serves g h' s" for h' using that assms(3,4) by (auto simp: serves_def)
  have served: "serves g cur t \<or> serves g ?h t"
    using assms(1,3,4) kept new unfolding installed_def by (auto simp: serves_def)
  have "node_at s (published_at g ?c) = None"
    using assms(2,7) plain_places(5) [of g ?c] by (simp add: publishable_def path_exists_def)
  then have others: "equal_inside (published_at g c) s t" if "node_at s (published_at g c) \<noteq> None" for c
    using assms(1) that unfolding installed_def by (cases "c = ?c") auto
  from served show one: "publish_outcome g staged s (Inl x) t" for x
    using old others unfolding publish_outcome_def by (auto simp: next_head_def)
  show "publish_outcome g staged s (Inr \<lparr>pb_head = h, pb_manifest = m', pb_promotion = e', pb_receipt = c\<rparr>) t"
    if "r = Inr h"
    using one new assms(1) that unfolding publish_outcome_def installed_def by (auto simp: next_head_def)
qed

lemma outcome_tail:
  assumes "publishable g staged rep auth" "manifest_staged g staged fs"
    and cur: "files fs (head_path g) = Some raw" "head_from_bytes raw = Inr cur" "hp_commit_id cur = gm_parent_commit (sg_manifest staged)"
      "generation_in g fs (hp_commit_id cur) (Some (hp_manifest_hash cur)) (Some (hp_promotion_hash cur)) m"
      "\<not> path_exists fs (published_at g (sg_commit_id staged))"
    and "candidate_in fs (staged_at g (sg_commit_id staged)) (sg_manifest staged) (sg_manifest_hash staged)"
    and "is_dir fs (staged_at g (sg_commit_id staged))"
    and envelope: "envelope_post_init
       \<lparr>pv_commit_id = sg_commit_id staged, pv_case_id = gm_case_id (sg_manifest staged),
        pv_manifest_hash = sg_manifest_hash staged,
        pv_authority_decision_id = gm_authority_decision_id (sg_manifest staged),
        pv_authorization_id = pa_authorization_id auth, pv_authorization_policy = pa_policy_version auth,
        pv_preflight_receipt_id = rc_receipt_id (pr_receipt rep), pv_policy_version = gs_policy_version g,
        pv_published_at = gs_clock g n\<rparr> = Inr e"
  shows "outcome plain_text fs
    (bindI (catch (install_generation g staged e (staged_at g (sg_commit_id staged)) (published_at g (sg_commit_id staged)))
       (\<lambda>x. throw (err x))) (\<lambda>head. bindI (call ids) (\<lambda>rid. bindI (call clock) (\<lambda>now.
     bindI (lift (rc head rid now)) (\<lambda>receipt.
     ret \<lparr>pb_head = head, pb_manifest = sg_manifest staged, pb_promotion = e, pb_receipt = receipt\<rparr>)))))
    (publish_outcome g staged fs)"
proof (rule outcome_bind [where P = "installed g staged e fs"])
  from assms(1) have parts: "plain_store g" "plain_name (sg_commit_id staged)" "staged_post_init staged = Inr staged"
    "manifest_ok (sg_manifest staged)" by (simp_all add: publishable_def)
  have "node_at fs (staged_at g (sg_commit_id staged)) = Some Dir"
    using assms(9) plain_places(4) [OF parts(1,2)] by (simp add: is_dir_def)
  from outcome_install [OF parts envelope_built [OF envelope assms(1)] assms(8) _ this] assms(2)
  have "outcome plain_text fs (install_generation g staged e (staged_at g (sg_commit_id staged))
      (published_at g (sg_commit_id staged))) (installed g staged e fs)"
    by (simp add: manifest_staged_def)
  then show "outcome plain_text fs (catch (install_generation g staged e (staged_at g (sg_commit_id staged))
      (published_at g (sg_commit_id staged))) (\<lambda>x. throw (err x))) (installed g staged e fs)"
    by (rule outcome_catch) (auto intro: outcome_last simp: installed_def)
  show "publish_outcome g staged fs (Inl x) t" if "installed g staged e fs (Inl x) t" for x t
    by (rule installed_published(1) [OF that assms(1) cur])
  show "outcome plain_text t (bindI (call ids) (\<lambda>rid. bindI (call clock) (\<lambda>now. bindI (lift (rc head rid now)) (\<lambda>receipt.
      ret \<lparr>pb_head = head, pb_manifest = sg_manifest staged, pb_promotion = e, pb_receipt = receipt\<rparr>))))
      (publish_outcome g staged fs)" if "installed g staged e fs (Inr head) t" for head t
    by (intro outcome_call_step outcome_lift_step outcome_last installed_published [OF that assms(1) cur] refl)
qed

lemma outcome_published:
  assumes "publishable g staged rep auth" "manifest_staged g staged fs"
  shows "outcome plain_text fs (publish_generation g staged c rep auth scope d) (publish_outcome g staged fs)"
proof -
  let ?c = "sg_commit_id staged" and ?m = "sg_manifest staged"
  let ?src = "staged_at g ?c" and ?dst = "published_at g ?c"
  from assms(1) have plain_store: "plain_store g" and name: "plain_name ?c" and parent: "plain_name (gm_parent_commit ?m)"
    and built: "staged_post_init staged = Inr staged" and ok: "manifest_ok ?m"
    by (simp_all add: publishable_def)
  note plain = plain_places [OF plain_store name] and plain_parent = plain_places(5) [OF plain_store parent]
  have places: "subpath (staging_dir g) ?c = ?src" "subpath (generations_dir g) ?c = ?dst"
    using name by (simp_all add: staged_at_def published_at_def)
  have entries: "list_all entry_inside (gm_payloads ?m)"
    using ok by (auto simp: manifest_ok_def list_all_iff entry_ok_inside)
  have differs: "gm_parent_commit ?m \<noteq> ?c"
    using ok staged_bound [OF built] by (auto simp: manifest_ok_def result_simps)
  show ?thesis
    unfolding publish_generation_def Let_def places wrap_publish_error_def
    apply (intro outcome_lift_step outcome_reader [OF head_ensured [OF plain_store] readers_frame(1) readers_env(1)]
      outcome_split outcome_last outcome_throw_step publish_failed
      outcome_reader [OF generation_ensured readers_frame(4) readers_env(4)] outcome_observe_step
      outcome_reader [OF candidate_ensured [OF entries plain(4)] readers_frame(2) readers_env(2)] outcome_call_step)
    subgoal using plain_parent by simp
    subgoal using parent by simp
    subgoal for x xa cur
      by (drule spec [of _ cur], drule mp, assumption, elim exE conjE, rule outcome_tail [OF assms], assumption,
          assumption, simp, assumption, assumption, assumption, simp, assumption)
    done
qed

lemma serves_yields:
  assumes "serves g h fs" "plain_store g" "plain_name (hp_commit_id h)"
  shows "yields fs (read_head g) (Some h)"
    "generation_in g fs (hp_commit_id h) mh ph m \<Longrightarrow> yields fs (verify_generation g (hp_commit_id h) mh ph) m"
proof -
  from assms(1) obtain raw where raw: "files fs (head_path g) = Some raw" "head_from_bytes raw = Inr h"
    by (auto simp: serves_def)
  then show "yields fs (read_head g) (Some h)" by (rule yields_head [OF assms(2)])
  have "\<not> blank (hp_commit_id h)"
    using raw(2) by (auto simp: head_from_bytes_def head_of_json_def result_simps)
  then show "yields fs (verify_generation g (hp_commit_id h) mh ph) m"
    if "generation_in g fs (hp_commit_id h) mh ph m"
    using yields_generation [OF that plain_places(5) [OF assms(2,3)] assms(3)] by simp
qed

lemma plain_uuids_text: "plain_uuids w \<Longrightarrow> plain_text (w_uuid w n)"
  by (simp add: plain_uuids_def plain_text_def)

text \<open>C6. Whatever calls fail while a generation is published, the store still serves: HEAD reads as a
  pointer, either the old one or one to the new commit, and the generation it names verifies against
  the hashes HEAD carries.\<close>

theorem publication_is_crash_safe:
  assumes "publish_generation g staged c rep auth scope d w = (r, w')"
    and "publishable g staged rep auth" "manifest_staged g staged (w_fs w)" "plain_uuids w"
    and "serves g h (w_fs w)" "plain_name (hp_commit_id h)"
  shows "\<exists>h' m. (h' = h \<or> hp_commit_id h' = sg_commit_id staged) \<and> yields (w_fs w') (read_head g) (Some h') \<and>
    yields (w_fs w') (verify_generation g (hp_commit_id h') (Some (hp_manifest_hash h')) (Some (hp_promotion_hash h'))) m"
proof -
  have names: "plain_store g" "plain_name (sg_commit_id staged)" using assms(2) by (simp_all add: publishable_def)
  have "publish_outcome g staged (w_fs w) r (w_fs w')"
    using outcomeD [OF outcome_published [OF assms(2,3)] refl plain_uuids_text [OF assms(4)] assms(1)] by simp
  then obtain h' where h': "h' = h \<or> hp_commit_id h' = sg_commit_id staged" "serves g h' (w_fs w')"
    using assms(5) unfolding publish_outcome_def by blast
  with names(2) assms(6) have "plain_name (hp_commit_id h')" by auto
  from serves_yields [OF h'(2) names(1) this] h' show ?thesis unfolding serves_def by blast
qed

text \<open>A publication that returns serves the new generation: HEAD is the pointer that was returned, it
  names the staged commit, and that generation verifies and yields the staged manifest.\<close>

theorem published_generation_is_served:
  assumes "publish_generation g staged c rep auth scope d w = (Inr p, w')"
    and "publishable g staged rep auth" "manifest_staged g staged (w_fs w)" "plain_uuids w"
  shows "hp_commit_id (pb_head p) = sg_commit_id staged \<and> yields (w_fs w') (read_head g) (Some (pb_head p)) \<and>
    yields (w_fs w') (verify_generation g (sg_commit_id staged) (Some (hp_manifest_hash (pb_head p)))
      (Some (hp_promotion_hash (pb_head p)))) (sg_manifest staged)"
proof -
  have names: "plain_store g" "plain_name (sg_commit_id staged)" using assms(2) by (simp_all add: publishable_def)
  have "publish_outcome g staged (w_fs w) (Inr p) (w_fs w')"
    using outcomeD [OF outcome_published [OF assms(2,3)] refl plain_uuids_text [OF assms(4)] assms(1)] by simp
  then have p: "serves g (pb_head p) (w_fs w')" "hp_commit_id (pb_head p) = sg_commit_id staged"
    "generation_in g (w_fs w') (sg_commit_id staged) (Some (hp_manifest_hash (pb_head p)))
      (Some (hp_promotion_hash (pb_head p))) (sg_manifest staged)"
    by (simp_all add: publish_outcome_def)
  from serves_yields [OF p(1) names(1)] p names(2) show ?thesis by simp
qed

text \<open>Published generations are immutable: a publication, whether it returns or is interrupted, leaves
  every path below every generation that existed exactly as it was.\<close>

theorem generations_are_immutable:
  assumes "publish_generation g staged c rep auth scope d w = (r, w')"
    and "publishable g staged rep auth" "manifest_staged g staged (w_fs w)" "plain_uuids w"
    and "node_at (w_fs w) (published_at g commit) \<noteq> None" "within (published_at g commit) p"
  shows "node_at (w_fs w') p = node_at (w_fs w) p"
proof -
  have "publish_outcome g staged (w_fs w) r (w_fs w')"
    using outcomeD [OF outcome_published [OF assms(2,3)] refl plain_uuids_text [OF assms(4)] assms(1)] by simp
  with assms(5) have "equal_inside (published_at g commit) (w_fs w) (w_fs w')" by (simp add: publish_outcome_def)
  with assms(6) show ?thesis by (simp add: equal_inside_def)
qed

lemma validate_publish_Inr:
  "validate_publish_bindings staged c rep auth scope d = Inr u \<longleftrightarrow>
     list_all (\<lambda>e. \<not> fst e) (publish_errors staged c rep auth scope d)"
  by (simp add: validate_publish_bindings_def Let_def filter_empty_conv list_all_iff)

lemma publish_Inr:
  assumes "publish_generation g staged c rep auth scope d w = (Inr p, w')"
  shows "validate_publish_bindings staged c rep auth scope d = Inr () \<and>
    (\<exists>v cur. read_head g w = (Inr (Some cur), v) \<and> hp_commit_id cur = gm_parent_commit (sg_manifest staged) \<and>
       gm_seq (sg_manifest staged) = hp_seq cur + 1 \<and>
       (\<exists>e src dst u u'. install_generation g staged e src dst u = (Inr (pb_head p), u')))"
proof -
  from assms obtain cur v k where start: "validate_publish_bindings staged c rep auth scope d = Inr ()"
    "read_head g w = (Inr cur, v)"
    by (auto simp: publish_generation_def bindI_Inr)
  with assms obtain h where h: "cur = Some h"
    by (cases cur) (auto simp: publish_generation_def)
  from assms [unfolded publish_generation_def Let_def wrap_publish_error_def bindI_Inr] start h show ?thesis
    by (auto simp: throw_if_Inr bindI_Inr catch_Inr) blast
qed

lemma install_seq: "install_generation g staged e src dst w = (Inr h, w') \<Longrightarrow> hp_seq h = gm_seq (sg_manifest staged)"
  by (auto simp: install_generation_def result_simps)

text \<open>C7. Nothing is published without evidence bound to exactly this candidate: a publication that returns
  was given a passed preflight for the manifest's case and target, an authorization for the same
  target, decision and scope, and a transition decision from PROMOTION_READY to CANONICAL that crosses
  the human boundary with both authority guards; and the new head continues the head it found.\<close>

theorem publication_needs_evidence:
  assumes "publish_generation g staged c rep auth scope d w = (Inr p, w')"
  shows "pr_passed rep \<and> pr_case_id rep = gm_case_id (sg_manifest staged) \<and>
    pr_target_commit rep = gm_commit_id (sg_manifest staged) \<and> cn_manifest_hash c = sg_manifest_hash staged \<and>
    pa_target_commit auth = gm_commit_id (sg_manifest staged) \<and> pa_scope auth = scope \<and>
    pa_decision_id auth = gm_authority_decision_id (sg_manifest staged) \<and>
    td_from d = PROMOTION_READY \<and> td_to d = CANONICAL \<and> td_human_boundary d \<and>
    {''promotion_authorization_present'', ''authorization_matches_target''} \<subseteq> td_satisfied d \<and>
    (\<exists>v cur. read_head g w = (Inr (Some cur), v) \<and> hp_commit_id cur = gm_parent_commit (sg_manifest staged) \<and>
       hp_seq (pb_head p) = hp_seq cur + 1)"
proof -
  from publish_Inr [OF assms] obtain v cur e src dst u u' where
    valid: "list_all (\<lambda>e. \<not> fst e) (publish_errors staged c rep auth scope d)"
    and cur: "read_head g w = (Inr (Some cur), v)" "hp_commit_id cur = gm_parent_commit (sg_manifest staged)"
      "gm_seq (sg_manifest staged) = hp_seq cur + 1"
    and head: "install_generation g staged e src dst u = (Inr (pb_head p), u')"
    unfolding validate_publish_Inr by blast
  have "hp_seq (pb_head p) = hp_seq cur + 1" using install_seq [OF head] cur(3) by simp
  moreover from valid have "pr_passed rep \<and> pr_case_id rep = gm_case_id (sg_manifest staged) \<and>
    pr_target_commit rep = gm_commit_id (sg_manifest staged) \<and> cn_manifest_hash c = sg_manifest_hash staged \<and>
    pa_target_commit auth = gm_commit_id (sg_manifest staged) \<and> pa_scope auth = scope \<and>
    pa_decision_id auth = gm_authority_decision_id (sg_manifest staged) \<and>
    td_from d = PROMOTION_READY \<and> td_to d = CANONICAL \<and> td_human_boundary d \<and>
    {''promotion_authorization_present'', ''authorization_matches_target''} \<subseteq> td_satisfied d"
    unfolding publish_errors_def Let_def list.pred_inject by simp
  ultimately show ?thesis using cur by blast
qed

subsection \<open>A concrete publication\<close>

definition example_parent :: generation_manifest where
  "example_parent = example_manifest\<lparr>gm_commit_id := ''c1'', gm_seq := 1, gm_parent_commit := ''c0''\<rparr>"

definition example_envelope :: promotion_envelope where
  "example_envelope =
     \<lparr>pv_commit_id = ''c1'', pv_case_id = ''case'', pv_manifest_hash = manifest_sha256 example_parent,
      pv_authority_decision_id = ''d1'', pv_authorization_id = ''a1'', pv_authorization_policy = ''p5-v1'',
      pv_preflight_receipt_id = ''r1'', pv_policy_version = ''p7-v1'', pv_published_at = example_time 0\<rparr>"

definition example_head :: head_pointer where
  "example_head =
     \<lparr>hp_commit_id = ''c1'', hp_seq = 1, hp_manifest_hash = manifest_sha256 example_parent,
      hp_promotion_hash = envelope_sha256 example_envelope\<rparr>"

definition example_store_disk :: fs where
  "example_store_disk =
     [([''store''], Dir), ([''store'', ''staging''], Dir), ([''store'', ''generations''], Dir),
      ([''store'', ''HEAD''], File (head_bytes example_head)),
      ([''store'', ''generations'', ''c1''], Dir),
      ([''store'', ''generations'', ''c1'', ''manifest.json''], File (manifest_bytes example_parent)),
      ([''store'', ''generations'', ''c1'', ''promotion.json''], File (envelope_bytes example_envelope)),
      ([''store'', ''generations'', ''c1'', ''payload''], Dir),
      ([''store'', ''generations'', ''c1'', ''payload'', ''a.json''], File example_bytes),
      ([''store'', ''staging'', ''c2''], Dir),
      ([''store'', ''staging'', ''c2'', ''manifest.json''], File (manifest_bytes example_manifest)),
      ([''store'', ''staging'', ''c2'', ''payload''], Dir),
      ([''store'', ''staging'', ''c2'', ''payload'', ''a.json''], File example_bytes)]"

definition example_receipt :: receipt where
  "example_receipt =
     \<lparr>rc_receipt_id = ''r1'', rc_operation = ''op'', rc_input_commit = None, rc_input_hashes = [], rc_output_commit = None,
      rc_output_hashes = [], rc_policy_version = ''p7-v1'', rc_actor = ''galia'', rc_timestamp = example_time 0,
      rc_result = ''ok''\<rparr>"

definition example_staged :: staged_generation where
  "example_staged =
     \<lparr>sg_commit_id = ''c2'', sg_manifest = example_manifest, sg_manifest_hash = manifest_sha256 example_manifest,
      sg_receipt = example_receipt\<rparr>"

definition example_snapshot :: candidate_snapshot where
  "example_snapshot =
     \<lparr>cn_case_id = ''case'', cn_target_commit = ''c2'', cn_parent_commit = ''c1'',
      cn_manifest_hash = manifest_sha256 example_manifest, cn_payload_hashes = [sha256 example_bytes],
      cn_lineage_complete = True, cn_schema_version = ''v1'', cn_completed_stages = [],
      cn_blocking_discrepancy_ids = [], cn_authority_decision_id = ''d1''\<rparr>"

definition example_report :: preflight_report where
  "example_report =
     \<lparr>pr_case_id = ''case'', pr_target_commit = ''c2'', pr_passed = True, pr_checks = [],
      pr_guards = {''preflight_passed'', ''rollback_target_verified''}, pr_receipt = example_receipt\<rparr>"

definition example_case_scope :: authority_scope where
  "example_case_scope = \<lparr>sc_case_id = ''case'', sc_target_type = ''CLAIM'', sc_target_ids = [''k'']\<rparr>"

definition example_promotion :: promotion_authorization where
  "example_promotion =
     \<lparr>pa_authorization_id = ''a2'', pa_decision_id = ''d1'', pa_reviewer = ''ana'', pa_scope = example_case_scope,
      pa_target_commit = ''c2'', pa_evidence_snapshot = [], pa_policy_version = ''p5-v1'',
      pa_authorized_at = example_time 0\<rparr>"

definition example_crossing :: transition_decision where
  "example_crossing =
     \<lparr>td_stage_id = ''s'', td_case_id = ''case'', td_from = PROMOTION_READY, td_event = PROMOTION_AUTHORIZED,
      td_to = CANONICAL, td_satisfied = {''promotion_authorization_present'', ''authorization_matches_target''},
      td_required = {''promotion_authorization_present'', ''authorization_matches_target''}, td_human_boundary = True\<rparr>"

lemma example_codecs:
  "manifest_ok example_parent" "envelope_ok example_envelope" "head_ok example_head"
  "staged_post_init example_staged = Inr example_staged"
proof -
  have texts: "list_all utf8_valid [''a.json'', ''c0'', ''c1'', ''c2'', ''case'', ''v1'', ''d1'', ''a1'', ''r1'', ''p5-v1'', ''p7-v1'']"
    by (auto simp: ascii_def code_def intro!: utf8_valid_ascii)
  have "list_all entry_ok (gm_payloads example_parent)"
    using example_manifest_ok by (simp add: manifest_ok_def example_parent_def)
  moreover have "manifest_post_init example_parent = Inr example_parent"
    unfolding manifest_post_init_Inr by (simp add: example_parent_def example_manifest_def)
  ultimately show "manifest_ok example_parent"
    using texts by (simp add: manifest_ok_def example_parent_def example_manifest_def del: utf8_valid.simps)
  have "envelope_post_init example_envelope = Inr example_envelope"
    by (simp add: envelope_post_init_def example_envelope_def required_def hash_field_def aware_field_def manifest_sha256_def)
  then show "envelope_ok example_envelope"
    using texts by (simp add: envelope_ok_def example_envelope_def del: utf8_valid.simps)
  have "head_post_init example_head = Inr example_head"
    by (simp add: head_post_init_Inr example_head_def manifest_sha256_def envelope_sha256_def)
  then show "head_ok example_head"
    using texts by (simp add: head_ok_def example_head_def del: utf8_valid.simps)
  show "staged_post_init example_staged = Inr example_staged"
    by (simp add: staged_post_init_def example_staged_def example_manifest_def required_def hash_field_def manifest_sha256_def)
qed

lemmas example_reads = manifest_read_back [OF example_codecs(1)] envelope_read_back [OF example_codecs(2)]
  head_read_back [OF example_codecs(3)]

lemma example_fields:
  "gm_commit_id example_parent = ''c1''" "gm_case_id example_parent = ''case''" "gm_payloads example_parent = [example_entry]"
  "gm_authority_decision_id example_parent = ''d1''"
  "gm_commit_id example_manifest = ''c2''" "gm_seq example_manifest = 2" "gm_parent_commit example_manifest = ''c1''"
  "gm_case_id example_manifest = ''case''" "gm_schema_version example_manifest = ''v1''"
  "gm_payloads example_manifest = [example_entry]" "gm_authority_decision_id example_manifest = ''d1''"
  "pe_path example_entry = ''a.json''" "pe_byte_size example_entry = int (length example_bytes)"
  "pe_sha256 example_entry = sha256 example_bytes"
  "pv_commit_id example_envelope = ''c1''" "pv_case_id example_envelope = ''case''"
  "pv_manifest_hash example_envelope = sha256 (manifest_bytes example_parent)" "pv_authority_decision_id example_envelope = ''d1''"
  "hp_commit_id example_head = ''c1''" "hp_seq example_head = 1"
  "hp_manifest_hash example_head = sha256 (manifest_bytes example_parent)"
  "hp_promotion_hash example_head = sha256 (envelope_bytes example_envelope)"
  by (simp_all add: example_parent_def example_manifest_def example_entry_def example_envelope_def example_head_def
      example_bytes_def manifest_sha256_def envelope_sha256_def)

lemma example_files:
  "files_under example_store_disk [''store'', ''generations'', ''c1''] = {''manifest.json'', ''promotion.json'', ''payload/a.json''}"
  "files_under example_store_disk [''store'', ''staging'', ''c2''] = {''manifest.json'', ''payload/a.json''}"
  by (simp_all add: files_under_def example_store_disk_def within_def as_posix_def)

lemma example_valid: "validate_publish_bindings example_staged example_snapshot example_report example_promotion example_case_scope example_crossing = Inr ()"
  unfolding validate_publish_Inr publish_errors_def Let_def list.pred_inject
  by (simp add: example_staged_def example_snapshot_def example_report_def example_promotion_def example_case_scope_def
      example_crossing_def example_fields)

lemma example_lookup:
  "map_of example_store_disk [''store'', ''HEAD''] = Some (File (head_bytes example_head))"
  "map_of example_store_disk [''store'', ''generations'', ''c1''] = Some Dir"
  "map_of example_store_disk [''store'', ''generations'', ''c2''] = None"
  "map_of example_store_disk [''store'', ''generations'', ''c1'', ''manifest.json''] = Some (File (manifest_bytes example_parent))"
  "map_of example_store_disk [''store'', ''generations'', ''c1'', ''promotion.json''] = Some (File (envelope_bytes example_envelope))"
  "map_of example_store_disk [''store'', ''generations'', ''c1'', ''payload'', ''a.json''] = Some (File example_bytes)"
  "map_of example_store_disk [''store'', ''staging'', ''c2''] = Some Dir"
  "map_of example_store_disk [''store'', ''staging'', ''c2'', ''manifest.json''] = Some (File (manifest_bytes example_manifest))"
  "map_of example_store_disk [''store'', ''staging'', ''c2'', ''payload'', ''a.json''] = Some (File example_bytes)"
  by (simp_all add: example_store_disk_def)

lemma example_generation:
  "generation_in example_store example_store_disk ''c1'' (Some (hp_manifest_hash example_head))
     (Some (hp_promotion_hash example_head)) example_parent"
  unfolding generation_in_def Let_def
  by (rule exI [of _ "manifest_bytes example_parent"], rule exI [of _ "envelope_bytes example_envelope"],
      rule exI [of _ example_envelope])
    (simp add: files_def node_at_def published_at_def generations_dir_def example_store_def example_lookup example_reads
      expected_def example_fields payloads_in_def payload_key_def parts_def example_files payload_names_def insert_commute)

lemma example_served: "serves example_store example_head example_store_disk"
  unfolding serves_def
proof
  show "\<exists>raw. files example_store_disk (head_path example_store) = Some raw \<and> head_from_bytes raw = Inr example_head"
    by (simp add: files_def node_at_def head_path_def example_store_def example_lookup example_reads)
  show "\<exists>m. generation_in example_store example_store_disk (hp_commit_id example_head)
      (Some (hp_manifest_hash example_head)) (Some (hp_promotion_hash example_head)) m"
    using example_generation by (auto simp: example_fields)
qed

lemma example_candidate_in:
  "candidate_in example_store_disk (staged_at example_store ''c2'') example_manifest (manifest_sha256 example_manifest)"
  unfolding candidate_in_def
  by (simp add: files_def node_at_def staged_at_def staging_dir_def example_store_def example_lookup manifest_sha256_def
      example_fields payloads_in_def payload_key_def parts_def example_files payload_names_def insert_commute)

definition calm :: "world \<Rightarrow> bool" where
  "calm w \<longleftrightarrow> w_fs w = example_store_disk \<and> w_fault w = (\<lambda>n. None) \<and> w_uuid w = (\<lambda>n. ''uuid'')"

lemma calm_yields:
  assumes "yields example_store_disk m x" "env_kept m" "calm w"
  shows "\<exists>w'. m w = (Inr x, w') \<and> calm w'"
proof -
  from assms(3) have "w_fs w = example_store_disk" "quiet w" by (simp_all add: calm_def quiet_def)
  with assms(1) obtain w' where w': "m w = (Inr x, w')" "w_fs w' = example_store_disk" "quiet w'"
    unfolding yields_def by blast
  with env_keptD [OF assms(2) w'(1)] assms(3) show ?thesis by (auto simp: calm_def quiet_def)
qed

lemma example_objects:
  "sg_commit_id example_staged = ''c2''" "sg_manifest example_staged = example_manifest"
  "sg_manifest_hash example_staged = sha256 (manifest_bytes example_manifest)"
  "pa_authorization_id example_promotion = ''a2''" "pa_policy_version example_promotion = ''p5-v1''"
  "rc_receipt_id (pr_receipt example_report) = ''r1''" "gs_policy_version example_store = ''p7-v1''"
  "gs_actor example_store = ''galia''" "gs_clock example_store = example_time" "gs_id example_store = (\<lambda>p n. p)"
  "gs_root example_store = [''store'']"
  by (simp_all add: example_staged_def example_promotion_def example_report_def example_receipt_def example_store_def
      manifest_sha256_def)

lemma example_publishes:
  assumes calm: "calm w0"
  shows "\<exists>p w'. publish_generation example_store example_staged example_snapshot example_report example_promotion
     example_case_scope example_crossing w0 = (Inr p, w')"
proof -
  note names = example_store_plain(1-3)
  have gen: "yields example_store_disk (verify_generation example_store ''c1'' (Some (sha256 (manifest_bytes example_parent)))
      (Some (sha256 (envelope_bytes example_envelope)))) example_parent"
    using serves_yields(2) [OF example_served names(1)] names(3) example_generation by (simp add: example_fields)
  obtain w1 where w1: "read_head example_store w0 = (Inr (Some example_head), w1)" "calm w1"
    using calm_yields [OF serves_yields(1) [OF example_served names(1)] readers_env(1) calm] names(3)
    by (auto simp: example_fields)
  obtain w2 where w2: "verify_generation example_store ''c1'' (Some (sha256 (manifest_bytes example_parent)))
      (Some (sha256 (envelope_bytes example_envelope))) w1 = (Inr example_parent, w2)" "calm w2"
    using calm_yields [OF gen readers_env(4) w1(2)] by blast
  have inside: "list_all entry_inside (gm_payloads example_manifest)"
    using example_manifest_ok by (auto simp: manifest_ok_def list_all_iff entry_ok_inside)
  have dirs: "staged_at example_store ''c2'' = [''store'', ''staging'', ''c2'']"
    "subpath (staging_dir example_store) ''c2'' = [''store'', ''staging'', ''c2'']"
    "subpath (generations_dir example_store) ''c2'' = [''store'', ''generations'', ''c2'']"
    "generations_dir example_store = [''store'', ''generations'']" "head_path example_store = [''store'', ''HEAD'']"
    using names(2) by (simp_all add: staged_at_def staging_dir_def generations_dir_def head_path_def example_objects)
  obtain w3 where w3: "verify_candidate_directory [''store'', ''staging'', ''c2''] example_manifest
      (sha256 (manifest_bytes example_manifest)) w2 = (Inr (), w3)" "calm w3"
    using calm_yields [OF yields_candidate [OF example_candidate_in inside plain_places(4) [OF names(1,2)]] readers_env(2) w2(2)]
    unfolding dirs manifest_sha256_def by blast
  have fs: "w_fs w2 = example_store_disk" "w_fs w3 = example_store_disk" "w_fault w3 = (\<lambda>n. None)" "w_uuid w3 = (\<lambda>n. ''uuid'')"
    using w2(2) w3(2) by (simp_all add: calm_def)
  show ?thesis
    unfolding publish_generation_def Let_def
    by (simp add: bindI_def example_valid w1(1) w2(1) w3(1) example_objects example_fields dirs fs throw_if_def is_dir_def
        path_exists_def node_at_def example_lookup call_def observe_def envelope_post_init_def required_def hash_field_def
        aware_field_def plain_name_def cong: run_cong)
      (simp add: bindI_def fs throw_if_def install_generation_def atomic_write_head_def catch_def wrap_publish_error_def
        file_system_steps example_store_disk_def example_objects example_fields dirs uuid4_def plain_name_def head_post_init_def
        required_def hash_field_def envelope_sha256_def call_def receipt_post_init_def required_opt_def aware_field_def
        cong: run_cong)
qed

lemma example_publishable:
  "publishable example_store example_staged example_report example_promotion"
  "manifest_staged example_store example_staged example_store_disk"
proof -
  have "list_all utf8_valid [''a2'', ''p5-v1'', ''r1'', ''p7-v1'']"
    by (auto simp: ascii_def code_def intro!: utf8_valid_ascii)
  then show "publishable example_store example_staged example_report example_promotion"
    using example_store_plain(1-3) example_codecs(4) example_manifest_ok
    by (simp add: publishable_def example_objects example_fields del: utf8_valid.simps)
  show "manifest_staged example_store example_staged example_store_disk"
    by (simp add: manifest_staged_def example_objects files_def node_at_def staged_at_def staging_dir_def example_lookup)
qed

lemma example_published:
  "\<exists>p w'. publish_generation example_store example_staged example_snapshot example_report example_promotion
     example_case_scope example_crossing (example_world example_store_disk) = (Inr p, w')"
  by (rule example_publishes) (simp add: calm_def)

theorem publication_is_crash_safe_witness:
  "\<exists>r w' h' m. publish_generation example_store example_staged example_snapshot example_report example_promotion
     example_case_scope example_crossing ((example_world example_store_disk)\<lparr>w_fault := \<lambda>n. if n = 20 then Some 3 else None\<rparr>) = (r, w') \<and>
     yields (w_fs w') (read_head example_store) (Some h') \<and>
     yields (w_fs w') (verify_generation example_store (hp_commit_id h') (Some (hp_manifest_hash h'))
       (Some (hp_promotion_hash h'))) m"
proof -
  let ?w = "(example_world example_store_disk)\<lparr>w_fault := \<lambda>n. if n = 20 then Some 3 else None\<rparr>"
  obtain r w' where run: "publish_generation example_store example_staged example_snapshot example_report
      example_promotion example_case_scope example_crossing ?w = (r, w')"
    by (metis prod.collapse)
  have "serves example_store example_head (w_fs ?w)" "plain_uuids ?w" "plain_name (hp_commit_id example_head)"
    using example_served example_store_plain(3) by (simp_all add: plain_uuids_def example_fields)
  with publication_is_crash_safe [OF run example_publishable(1)] example_publishable(2) run show ?thesis
    by fastforce
qed

theorem published_generation_is_served_witness:
  "\<exists>p w'. publish_generation example_store example_staged example_snapshot example_report example_promotion
     example_case_scope example_crossing (example_world example_store_disk) = (Inr p, w') \<and>
     yields (w_fs w') (read_head example_store) (Some (pb_head p))"
proof -
  obtain p w' where run: "publish_generation example_store example_staged example_snapshot example_report
      example_promotion example_case_scope example_crossing (example_world example_store_disk) = (Inr p, w')"
    using example_published by blast
  from published_generation_is_served [OF run example_publishable(1)] example_publishable(2) example_store_plain(4) run
  show ?thesis by auto
qed

theorem generations_are_immutable_witness:
  "\<exists>p w'. publish_generation example_store example_staged example_snapshot example_report example_promotion
     example_case_scope example_crossing (example_world example_store_disk) = (Inr p, w') \<and>
     node_at (w_fs w') [''store'', ''generations'', ''c1'', ''manifest.json''] = Some (File (manifest_bytes example_parent))"
proof -
  obtain p w' where run: "publish_generation example_store example_staged example_snapshot example_report
      example_promotion example_case_scope example_crossing (example_world example_store_disk) = (Inr p, w')"
    using example_published by blast
  have "node_at (w_fs (example_world example_store_disk)) (published_at example_store ''c1'') \<noteq> None"
    "within (published_at example_store ''c1'') [''store'', ''generations'', ''c1'', ''manifest.json'']"
    by (simp_all add: published_at_def generations_dir_def example_objects node_at_def example_lookup within_def)
  from generations_are_immutable [OF run example_publishable(1) _ _ this] example_publishable(2) example_store_plain(4) run
  show ?thesis by (auto simp: node_at_def example_lookup)
qed

theorem publication_needs_evidence_witness:
  "\<exists>p w'. publish_generation example_store example_staged example_snapshot example_report example_promotion
     example_case_scope example_crossing (example_world example_store_disk) = (Inr p, w') \<and> hp_seq (pb_head p) = 2"
proof -
  obtain p w' where run: "publish_generation example_store example_staged example_snapshot example_report
      example_promotion example_case_scope example_crossing (example_world example_store_disk) = (Inr p, w')"
    using example_published by blast
  have "yields example_store_disk (read_head example_store) (Some example_head)"
    using serves_yields(1) [OF example_served example_store_plain(1)] example_store_plain(3) by (simp add: example_fields)
  then obtain v where "read_head example_store (example_world example_store_disk) = (Inr (Some example_head), v)"
    unfolding yields_def by (metis example_world_simps(1,3) quiet_def)
  with publication_needs_evidence [OF run] run show ?thesis by (auto simp: example_fields)
qed

text \<open>Without failures the generation verifier is exact: it returns the manifest \<open>m\<close> if and only if the
  directory holds a manifest and an envelope with the expected hashes that bind each other, the declared
  payloads with their sizes and hashes, and no other file.\<close>

theorem verify_generation_decides:
  assumes "quiet w" "plain_store g" "plain_name commit" "\<not> blank commit"
  shows "fst (verify_generation g commit mh ph w) = Inr m \<longleftrightarrow> generation_in g (w_fs w) commit mh ph m"
proof
  assume "fst (verify_generation g commit mh ph w) = Inr m"
  then obtain w' where "verify_generation g commit mh ph w = (Inr m, w')" by (metis prod.collapse)
  from ensuresD [OF generation_ensured [OF plain_places(5) [OF assms(2,3)] assms(3)] refl this]
  show "generation_in g (w_fs w) commit mh ph m" by simp
next
  assume "generation_in g (w_fs w) commit mh ph m"
  from yields_generation [OF this plain_places(5) [OF assms(2,3)] assms(3,4)] assms(1)
  show "fst (verify_generation g commit mh ph w) = Inr m" unfolding yields_def by fastforce
qed

theorem verify_generation_decides_witness:
  "fst (verify_generation example_store ''c1'' (Some (hp_manifest_hash example_head)) (Some (hp_promotion_hash example_head))
     (example_world example_store_disk)) = Inr example_parent"
  using verify_generation_decides [of "example_world example_store_disk" example_store "''c1''"] example_store_plain(1,3)
    example_generation by (simp add: quiet_def)

end
