(* ===== verification/RecoverySafety.thy ===== *)
theory RecoverySafety
  imports Recovery StorePublication
begin

section \<open>Rollback: bounded, authorised, verified and crash safe\<close>

text \<open>
  The ancestor walk of \<open>_verify_is_ancestor\<close> ends and decides the relation \<open>descends\<close>; a rollback
  that returns was authorised for exactly the HEAD it replaced; and whatever fails during a rollback, no
  generation changes and HEAD is the old file or the complete pointer to the verified target.
\<close>

subsection \<open>The ancestor walk ends\<close>

text \<open>A commit the walk has verified has a manifest file of its own, so the tree bounds the walk.\<close>

definition names_commit :: "fs \<Rightarrow> string \<Rightarrow> bool" where
  "names_commit fs c \<longleftrightarrow>
     (\<exists>p raw m. (p, File raw) \<in> set fs \<and> manifest_from_bytes raw = Inr m \<and> gm_commit_id m = c)"

lemma commits_bounded:
  assumes "distinct seen" "\<forall>c \<in> set seen. names_commit fs c"
  shows "length seen \<le> length fs"
proof -
  let ?names = "\<lambda>c e. e \<in> set fs \<and> (\<exists>p raw m. e = (p, File raw) \<and> manifest_from_bytes raw = Inr m \<and> gm_commit_id m = c)"
  have "\<forall>c \<in> set seen. \<exists>e. ?names c e"
    using assms(2) unfolding names_commit_def by blast
  from bchoice [OF this] obtain f where f: "\<forall>c \<in> set seen. ?names c (f c)" by blast
  have "inj_on f (set seen)"
  proof (rule inj_onI)
    fix x y
    assume "x \<in> set seen" "y \<in> set seen" "f x = f y"
    with f have "?names x (f y)" "?names y (f y)" by metis+
    then show "x = y" by auto
  qed
  then have "card (set seen) \<le> card (set fs)" using f by (intro card_inj_on_le [of f]) auto
  then show ?thesis using card_length [of fs] distinct_card [OF assms(1)] by simp
qed

lemma read_entry: "ensures fs (read_bytes p) (\<lambda>b. \<exists>q. (q, File b) \<in> set fs)"
  by (auto simp: ensures_def read_bytes_def sys_Inr lookup_def node_at_def split: option.splits node.splits if_splits
      dest!: map_of_SomeD)

lemma ensures_unchanged: "keeps (=) m \<Longrightarrow> ensures fs m (\<lambda>u. True)"
  unfolding ensures_def using keeps_same by blast

lemma published_frame [frame_rules]: "keeps (=) (verify_published_directory d m a b)"
  unfolding verify_published_directory_def by (intro frame_rules)

lemma verified_names:
  "ensures fs (verify_generation g c mh ph) (\<lambda>m. gm_commit_id m = c \<and> names_commit fs c)"
  unfolding verify_generation_def Let_def
  by (intro ensures_lift_step ensures_observe_step ensures_throw_step ensures_bind [OF read_entry] ensures_last
      ensures_bind [OF ensures_unchanged [OF published_frame]]) (auto simp: names_commit_def)

lemma walk_fuel:
  assumes "distinct seen" "\<forall>c \<in> set seen. names_commit fs c" "length fs < length seen + n" "length fs < length seen + k"
    "w_fs w = fs"
  shows "ancestor_walk n g target seen c w = ancestor_walk k g target seen c w"
  using assms
proof (induction n arbitrary: k seen c w)
  case 0
  with commits_bounded [OF 0(1,2)] show ?case by simp
next
  case (Suc n)
  from Suc.prems(4) commits_bounded [OF Suc.prems(1,2)] obtain k' where k: "k = Suc k'" by (cases k) auto
  obtain r v where run: "verify_generation g c None None w = (r, v)" by (cases "verify_generation g c None None w")
  show ?case
  proof (cases "c \<in> set seen \<or> (\<exists>e. r = Inl e)")
    case True
    with run show ?thesis by (auto simp: k)
  next
    case False
    then obtain m where m: "r = Inr m" "c \<notin> set seen" by (cases r) auto
    from ensuresD [OF verified_names Suc.prems(5) run [unfolded m(1)]] have v: "w_fs v = fs" "names_commit fs c" by simp_all
    have "ancestor_walk n g target (c # seen) (gm_parent_commit m) v = ancestor_walk k' g target (c # seen) (gm_parent_commit m) v"
      using Suc.prems v m(2) k by (intro Suc.IH) auto
    with m run show ?thesis by (simp add: k bindI_def)
  qed
qed

subsection \<open>Ancestry\<close>

text \<open>\<open>descends g fs target n c\<close>: following verified manifests from \<open>c\<close>, the parent link after \<open>n\<close> others is the
  first to name \<open>target\<close>.\<close>

inductive descends :: "generation_store \<Rightarrow> fs \<Rightarrow> string \<Rightarrow> nat \<Rightarrow> string \<Rightarrow> bool" for g fs target where
  child: "generation_in g fs c None None m \<Longrightarrow> gm_parent_commit m = target \<Longrightarrow> descends g fs target 0 c"
| older: "generation_in g fs c None None m \<Longrightarrow> gm_parent_commit m \<noteq> target \<Longrightarrow>
    descends g fs target n (gm_parent_commit m) \<Longrightarrow> descends g fs target (Suc n) c"

inductive_cases descends_child: "descends g fs target 0 c"
inductive_cases descends_older: "descends g fs target (Suc n) c"

definition plain_parents :: "generation_store \<Rightarrow> fs \<Rightarrow> bool" where
  "plain_parents g fs \<longleftrightarrow> (\<forall>c m. generation_in g fs c None None m \<longrightarrow> plain_name (gm_parent_commit m))"

lemma generation_in_unique:
  assumes "generation_in g fs c mh ph m" "generation_in g fs c mh' ph' m'"
  shows "m = m'"
proof -
  have "\<exists>raw. files fs (published_at g c @ [''manifest.json'']) = Some raw \<and> manifest_from_bytes raw = Inr x"
    if "generation_in g fs c h p x" for h p x
    using that unfolding generation_in_def Let_def by blast
  from this [OF assms(1)] this [OF assms(2)] show ?thesis by force
qed

lemma manifest_bytes_built:
  assumes "manifest_from_bytes raw = Inr m"
  shows "manifest_post_init m = Inr m"
  using assms by (auto simp: manifest_from_bytes_def manifest_of_json_def result_simps)

lemma generation_in_named: "generation_in g fs c mh ph m \<Longrightarrow> gm_commit_id m = c \<and> \<not> blank c \<and> manifest_post_init m = Inr m"
proof -
  assume "generation_in g fs c mh ph m"
  then obtain raw where "manifest_from_bytes raw = Inr m" "gm_commit_id m = c"
    unfolding generation_in_def Let_def by blast
  with manifest_bytes_built [OF this(1)] show ?thesis by (simp add: manifest_post_init_Inr)
qed

lemma descends_unique: "descends g fs target n c \<Longrightarrow> descends g fs target k c \<Longrightarrow> n = k"
proof (induction arbitrary: k rule: descends.induct)
  case (child c m)
  from child(3) show ?case
    using child(1,2) generation_in_unique by cases blast+
next
  case (older c m n)
  from older(5) show ?case
    using older(1,2,4) generation_in_unique by cases blast+
qed

lemma walk_sound:
  assumes "plain_store g" "plain_parents g fs" "plain_name c"
  shows "ensures fs (ancestor_walk n g target seen c)
    (\<lambda>u. (\<exists>k. descends g fs target k c) \<and> (\<exists>m. generation_in g fs target None None m))"
  using assms(3)
proof (induction n arbitrary: c seen)
  case 0
  show ?case unfolding ancestor_walk.simps by (rule ensures_last)
next
  case (Suc n)
  let ?Q = "\<lambda>u. (\<exists>k. descends g fs target k c) \<and> (\<exists>m. generation_in g fs target None None m)"
  note gen = generation_ensured [OF plain_places(5) [OF assms(1)]]
  have found: "ensures fs (bindI (verify_generation g target None None) (\<lambda>_. ret ())) ?Q"
    if "generation_in g fs c None None m" "gm_parent_commit m = target" for m
  proof -
    have name: "plain_name target" using assms(2) that by (auto simp: plain_parents_def)
    have "descends g fs target 0 c" using that by (rule descends.child)
    then show ?thesis by (intro ensures_bind [OF gen [OF name name]] ensures_last) auto
  qed
  have climb: "ensures fs (ancestor_walk n g target (c # seen) (gm_parent_commit m)) ?Q"
    if "generation_in g fs c None None m" "gm_parent_commit m \<noteq> target" for m
  proof -
    have "plain_name (gm_parent_commit m)" using assms(2) that by (auto simp: plain_parents_def)
    from Suc.IH [OF this] show ?thesis
      unfolding ensures_def using descends.older [OF that] by blast
  qed
  have "ensures fs (bindI (verify_generation g c None None) (\<lambda>m.
      if gm_parent_commit m = target then bindI (verify_generation g target None None) (\<lambda>_. ret ())
      else bindI (observe (\<lambda>fs. is_dir fs (subpath (generations_dir g) (gm_parent_commit m)))) (\<lambda>parent_present.
        if \<not> parent_present then not_an_ancestor else ancestor_walk n g target (c # seen) (gm_parent_commit m)))) ?Q"
  proof (rule ensures_bind [OF gen [OF Suc.prems Suc.prems]])
    fix m
    assume m: "generation_in g fs c None None m"
    show "ensures fs (if gm_parent_commit m = target then bindI (verify_generation g target None None) (\<lambda>_. ret ())
      else bindI (observe (\<lambda>fs. is_dir fs (subpath (generations_dir g) (gm_parent_commit m)))) (\<lambda>parent_present.
        if \<not> parent_present then not_an_ancestor else ancestor_walk n g target (c # seen) (gm_parent_commit m))) ?Q"
      unfolding not_an_ancestor_def
      by (intro ensures_split ensures_observe_step ensures_last found [OF m] climb [OF m])
  qed
  then show ?case unfolding ancestor_walk.simps not_an_ancestor_def by (intro ensures_split(1) ensures_last)
qed

lemma walk_complete:
  assumes "descends g fs target k c" "k < n" "plain_store g" "plain_parents g fs" "plain_name c"
    and "generation_in g fs target None None mt" "\<And>s. s \<in> set seen \<Longrightarrow> \<exists>j > k. descends g fs target j s"
  shows "yields fs (ancestor_walk n g target seen c) ()"
  using assms
proof (induction arbitrary: n seen rule: descends.induct)
  case (child c m)
  then obtain n' where n: "n = Suc n'" by (cases n) auto
  have "c \<notin> set seen" using child descends_unique [OF descends.child [OF child(1,2)]] by fastforce
  moreover have "plain_name target" using child(1,2,5) by (auto simp: plain_parents_def)
  moreover from this have "yields fs (verify_generation g target None None) mt"
    using yields_generation [OF child(7) plain_places(5) [OF child(4)]] generation_in_named [OF child(7)] by simp
  then have "yields fs (bindI (verify_generation g target None None) (\<lambda>_. ret ())) ()"
    by (rule yields_bind) (rule yields_last)
  moreover have "yields fs (verify_generation g c None None) m"
    using yields_generation [OF child(1) plain_places(5) [OF child(4,6)] child(6)] generation_in_named [OF child(1)] by simp
  ultimately show ?case using child(2) by (auto simp: n intro: yields_bind)
next
  case (older c m k)
  then obtain n' where n: "n = Suc n'" by (cases n) auto
  have here: "descends g fs target (Suc k) c" by (rule descends.older [OF older(1-3)])
  have notin: "c \<notin> set seen" using older(10) descends_unique [OF here] by fastforce
  have name: "plain_name (gm_parent_commit m)" using older(1,7) by (auto simp: plain_parents_def)
  have "\<exists>m'. generation_in g fs (gm_parent_commit m) None None m'"
    using older(3) by cases blast+
  then have dir: "is_dir fs (subpath (generations_dir g) (gm_parent_commit m))"
    using name plain_places(5) [OF older(6) name]
    by (auto simp: is_dir_def generation_in_def Let_def published_at_def)
  have "\<exists>j > k. descends g fs target j s" if "s \<in> set (c # seen)" for s
    using that older(10) here by (auto dest: Suc_lessD)
  with older.IH [of n' "c # seen"] older(5-7,9) n name
  have rest: "yields fs (ancestor_walk n' g target (c # seen) (gm_parent_commit m)) ()" by blast
  have tail: "yields fs (bindI (observe (\<lambda>fs. is_dir fs (subpath (generations_dir g) (gm_parent_commit m)))) (\<lambda>parent_present.
      if \<not> parent_present then not_an_ancestor else ancestor_walk n' g target (c # seen) (gm_parent_commit m))) ()"
    by (intro yields_observe_step) (simp add: dir rest)
  have "yields fs (verify_generation g c None None) m"
    using yields_generation [OF older(1) plain_places(5) [OF older(6,8)] older(8)] generation_in_named [OF older(1)] by simp
  with tail notin older(2) show ?case by (auto simp: n intro: yields_bind)
qed


lemma ancestor_enough:
  assumes "length (w_fs w) < n"
  shows "verify_is_ancestor g cur target w = ancestor_walk n g target [] (hp_commit_id cur) w"
  unfolding verify_is_ancestor_def
  using walk_fuel [of "[]" "w_fs w" "Suc (length (w_fs w))" n w g target "hp_commit_id cur"] assms
  by (simp add: bindI_def del: ancestor_walk.simps)

lemma yields_ancestor:
  assumes "descends g fs target k (hp_commit_id cur)" "generation_in g fs target None None mt"
    and "plain_store g" "plain_parents g fs" "plain_name (hp_commit_id cur)"
  shows "yields fs (verify_is_ancestor g cur target) ()"
proof -
  let ?n = "Suc (k + length fs)"
  have "verify_is_ancestor g cur target w = ancestor_walk ?n g target [] (hp_commit_id cur) w" if "w_fs w = fs" for w
    using that by (intro ancestor_enough) simp
  moreover have "yields fs (ancestor_walk ?n g target [] (hp_commit_id cur)) ()"
    using assms by (intro walk_complete) auto
  ultimately show ?thesis by (simp add: yields_def del: ancestor_walk.simps)
qed

lemma ancestor_ensured:
  assumes "plain_store g" "plain_parents g fs" "plain_name (hp_commit_id cur)"
  shows "ensures fs (verify_is_ancestor g cur target)
    (\<lambda>u. (\<exists>k. descends g fs target k (hp_commit_id cur)) \<and> (\<exists>m. generation_in g fs target None None m))"
  unfolding verify_is_ancestor_def by (intro ensures_observe_step walk_sound assms)

text \<open>The ancestor loop of a rollback ends: the fuel of the definition, one round more than the tree has
  entries, gives the result that any larger fuel gives.\<close>

theorem ancestor_walk_ends:
  assumes "length (w_fs w) < n"
  shows "verify_is_ancestor g cur target w = ancestor_walk n g target [] (hp_commit_id cur) w"
  using assms by (rule ancestor_enough)

theorem ancestor_walk_ends_witness:
  "verify_is_ancestor example_store example_head ''c0'' (example_world example_store_disk) =
     ancestor_walk 100 example_store ''c0'' [] ''c1'' (example_world example_store_disk)"
  using ancestor_walk_ends [of "example_world example_store_disk" 100 example_store example_head "''c0''"]
  by (simp add: example_store_disk_def example_fields del: ancestor_walk.simps)

text \<open>C16. Without failures the ancestor check is exact: it accepts a target if and only if the target is a
  verified generation and is reached from HEAD's commit by the parent links of verified manifests.\<close>

theorem ancestry_is_decided:
  assumes "quiet w" "plain_store g" "plain_parents g (w_fs w)" "plain_name (hp_commit_id cur)"
  shows "fst (verify_is_ancestor g cur target w) = Inr () \<longleftrightarrow>
    (\<exists>k. descends g (w_fs w) target k (hp_commit_id cur)) \<and> (\<exists>m. generation_in g (w_fs w) target None None m)"
proof
  assume "fst (verify_is_ancestor g cur target w) = Inr ()"
  then obtain w' where "verify_is_ancestor g cur target w = (Inr (), w')" by (metis prod.collapse)
  from ensuresD [OF ancestor_ensured [OF assms(2-4)] refl this]
  show "(\<exists>k. descends g (w_fs w) target k (hp_commit_id cur)) \<and> (\<exists>m. generation_in g (w_fs w) target None None m)" by simp
next
  assume "(\<exists>k. descends g (w_fs w) target k (hp_commit_id cur)) \<and> (\<exists>m. generation_in g (w_fs w) target None None m)"
  then have "yields (w_fs w) (verify_is_ancestor g cur target) ()"
    using yields_ancestor assms(2-4) by blast
  with assms(1) show "fst (verify_is_ancestor g cur target w) = Inr ()" unfolding yields_def by fastforce
qed

subsection \<open>What rollback reads\<close>

lemma ensures_weaken: "ensures fs m P \<Longrightarrow> (\<And>x. P x \<Longrightarrow> Q x) \<Longrightarrow> ensures fs m Q"
  by (auto simp: ensures_def)

lemma ensures_attempt: "ensures fs m Q \<Longrightarrow> keeps (=) m \<Longrightarrow> ensures fs (attempt m) (\<lambda>r. \<forall>x. r = Inr x \<longrightarrow> Q x)"
  unfolding ensures_def attempt_Inr by (metis keeps_same)

lemma yields_attempt: "yields fs m x \<Longrightarrow> yields fs (attempt m) (Inr x)"
  unfolding yields_def by (metis attempt_run)

definition head_known :: "generation_store \<Rightarrow> fs \<Rightarrow> bool \<times> string option \<times> head_pointer option \<times> string option \<Rightarrow> bool" where
  "head_known g fs x \<longleftrightarrow> (case x of (present, h, head, error) \<Rightarrow>
     present = (files fs (head_path g) \<noteq> None) \<and> h = map_option sha256 (files fs (head_path g)) \<and>
     (\<forall>p. head = Some p \<longrightarrow> (\<exists>raw. files fs (head_path g) = Some raw \<and> head_from_bytes raw = Inr p)))"

lemma snapshot_ensured:
  assumes "plain_store g"
  shows "ensures fs (head_snapshot g) (head_known g fs)"
proof -
  have plain: "plain_path (head_path g)" using assms by (simp add: plain_store_def head_path_def)
  have absent: "files fs (head_path g) = None" if "\<not> path_exists fs (head_path g)"
    using that plain by (simp add: path_exists_def files_def)
  show ?thesis unfolding head_snapshot_def
    by (intro ensures_rules plain ensures_bind [OF ensures_attempt [OF head_ensured [OF assms] readers_frame(1)]])
      (auto simp: head_known_def absent split: sum.splits)
qed

lemma yields_snapshot:
  assumes "plain_store g" "files fs (head_path g) = Some raw" "head_from_bytes raw = Inr h"
  shows "yields fs (head_snapshot g) (True, Some (sha256 raw), Some h, None)"
proof -
  have plain: "plain_path (head_path g)" using assms(1) by (simp add: plain_store_def head_path_def)
  have "path_exists fs (head_path g)" using files_lookup [OF plain assms(2)] by (simp add: path_exists_def)
  then show ?thesis unfolding head_snapshot_def
    by (intro yields_observe_step) (simp, intro yields_read_step [OF plain assms(2)]
      yields_bind [OF yields_attempt [OF yields_head [OF assms]]], simp add: yields_last)
qed

definition target_of :: "generation_store \<Rightarrow> fs \<Rightarrow> string \<Rightarrow> generation_manifest \<Rightarrow> head_pointer \<Rightarrow> bool" where
  "target_of g fs commit mf h \<longleftrightarrow>
     generation_in g fs commit None None mf \<and>
     (\<exists>praw. files fs (published_at g commit @ [''promotion.json'']) = Some praw \<and>
        h = \<lparr>hp_commit_id = commit, hp_seq = gm_seq mf, hp_manifest_hash = manifest_sha256 mf, hp_promotion_hash = sha256 praw\<rparr>)"

lemma target_ensured:
  assumes "plain_store g" "plain_name commit"
  shows "ensures fs (rollback_target g commit) (\<lambda>(mf, h). target_of g fs commit mf h)"
  unfolding rollback_target_def
proof (intro ensures_bind [OF generation_ensured [OF plain_places(5) [OF assms] assms(2)]])
  fix mf
  assume mf: "generation_in g fs commit None None mf"
  have d: "subpath (generations_dir g) (gm_commit_id mf) = published_at g commit"
    using generation_in_named [OF mf] assms(2) by (simp add: published_at_def)
  have plain: "plain_path (published_at g commit @ [''promotion.json''])" using plain_places(5) [OF assms] by simp
  show "ensures fs (bindI (read_bytes (subpath (generations_dir g) (gm_commit_id mf) @ [''promotion.json''])) (\<lambda>raw.
     bindI (lift (head_post_init
       \<lparr>hp_commit_id = gm_commit_id mf, hp_seq = gm_seq mf, hp_manifest_hash = manifest_sha256 mf,
        hp_promotion_hash = sha256 raw\<rparr>)) (\<lambda>head. ret (mf, head)))) (\<lambda>(mf, h). target_of g fs commit mf h)"
    unfolding d
    by (intro ensures_rules plain) (use mf generation_in_named [OF mf] in \<open>auto simp: target_of_def head_post_init_Inr manifest_sha256_def\<close>)
qed

lemma precedes_ensured:
  assumes "plain_store g" "plain_parents g fs" "plain_name (hp_commit_id cur)"
  shows "ensures fs (check_precedes g (Some cur) target)
    (\<lambda>u. gm_seq target < hp_seq cur \<and>
       (gm_commit_id target = hp_commit_id cur \<or> (\<exists>k. descends g fs (gm_commit_id target) k (hp_commit_id cur))))"
  unfolding check_precedes_def option.case
  by (intro ensures_throw_step ensures_split(1) ensures_last)
    (auto intro: ensures_weaken [OF ancestor_ensured [OF assms]])


subsection \<open>What rollback leaves behind\<close>

definition aside :: "generation_store \<Rightarrow> fs \<Rightarrow> fs \<Rightarrow> bool" where
  \<comment> \<open>neither a generation nor HEAD changed\<close>
  "aside g s t \<longleftrightarrow> (\<forall>c. equal_inside (published_at g c) s t) \<and> files t (head_path g) = files s (head_path g)"

definition recoverable :: "recovery_manager \<Rightarrow> bool" where
  "recoverable m \<longleftrightarrow>
     plain_store (rm_store m) \<and> au_root (rm_audit m) = gs_root (rm_store m) \<and>
     (\<forall>n. plain_text (rm_id m ''recovery-receipt'' n))"

definition pointed :: "generation_store \<Rightarrow> string \<Rightarrow> fs \<Rightarrow> fs \<Rightarrow> bool" where
  "pointed g commit s t \<longleftrightarrow>
     (\<forall>c. equal_inside (published_at g c) s t) \<and>
     (\<exists>mf h. target_of g s commit mf h \<and> files t (head_path g) = Some (head_bytes h))"

definition rolled :: "generation_store \<Rightarrow> recovery_authorization \<Rightarrow> fs \<Rightarrow> recovery_receipt res \<Rightarrow> fs \<Rightarrow> bool" where
  "rolled g a s r t \<longleftrightarrow>
     (aside g s t \<or> pointed g (ra_target_commit a) s t) \<and>
     (\<forall>rc. r = Inr rc \<longrightarrow> pointed g (ra_target_commit a) s t \<and> rr_target_commit rc = ra_target_commit a \<and>
        rr_authorization_id rc = ra_authorization_id a \<and> map_option sha256 (files s (head_path g)) = ra_head_hash a)"

lemma aside_same: "aside g s s"
  by (simp add: aside_def inside.same)

lemma pointed_aside: "pointed g c s t \<Longrightarrow> aside g t u \<Longrightarrow> pointed g c s u"
  unfolding pointed_def aside_def using inside.step by metis

lemma aside_step: "aside g s t \<Longrightarrow> aside g t u \<Longrightarrow> aside g s u"
  unfolding aside_def using inside.step by metis

lemma target_of_aside:
  assumes "target_of g t c mf h" "aside g s t" "plain_path (published_at g c)"
  shows "target_of g s c mf h"
proof -
  have ts: "equal_inside (published_at g c) t s" using assms(2) by (simp add: aside_def equal_inside_def)
  have "files s (published_at g c @ [''promotion.json'']) = files t (published_at g c @ [''promotion.json''])"
    by (rule equal_inside_files [OF ts within_append])
  with assms(1) generation_in_inside [OF _ ts assms(3)] show ?thesis unfolding target_of_def by auto
qed

lemma pointed_after:
  assumes "aside g s t" "pointed g c t u" "plain_path (published_at g c)"
  shows "pointed g c s u"
  using assms target_of_aside [OF _ assms(1,3)] inside.step unfolding pointed_def aside_def by metis

lemma audit_aside:
  assumes "recoverable m"
  shows "outcome U fs (audit_append (rm_audit m) t refs details) (\<lambda>r u. aside (rm_store m) fs u)"
proof -
  let ?g = "rm_store m"
  have root: "audit_path (rm_audit m) = gs_root ?g @ [''audit'', ''events.jsonl'']" "plain_path (au_root (rm_audit m))"
    using assms by (simp_all add: recoverable_def audit_path_def audit_dir_def plain_store_def)
  have "aside ?g fs u" if "audited (rm_audit m) t refs details fs r u" for r u
  proof -
    have same: "node_at u q = node_at fs q" if "q \<noteq> gs_root ?g @ [''audit'', ''events.jsonl'']" for q
      using that \<open>audited (rm_audit m) t refs details fs r u\<close> root(1) by (simp add: audited_def)
    have "q \<noteq> gs_root ?g @ [''audit'', ''events.jsonl'']" if "within (published_at ?g c) q" for c q
      using that by (auto simp: published_at_def generations_dir_def within_iff)
    then have "equal_inside (published_at ?g c) fs u" for c using same by (simp add: equal_inside_def)
    moreover have "files u (head_path ?g) = files fs (head_path ?g)"
      by (simp add: files_def same head_path_def)
    ultimately show ?thesis by (simp add: aside_def)
  qed
  then show ?thesis by (rule outcome_weaken [OF outcome_audit [OF root(2)]])
qed

lemma receipt_aside:
  assumes "recoverable m" "\<exists>n. rr_receipt_id r = rm_id m ''recovery-receipt'' n"
  shows "outcome U fs (write_recovery_receipt m r) (\<lambda>x u. aside (rm_store m) fs u)"
proof -
  let ?g = "rm_store m" and ?p = "receipts_dir m @ [rr_receipt_id r @ ''.json'']"
  have id: "CHR ''/'' \<notin> set (rr_receipt_id r)" using assms by (auto simp: recoverable_def plain_text_def)
  have "plain_name (rr_receipt_id r @ ''.json'')"
    using id by (cases "rr_receipt_id r"; cases "tl (rr_receipt_id r)") (auto simp: plain_name_def)
  then have p: "subpath (receipts_dir m) (rr_receipt_id r @ ''.json'') = ?p" "plain_path ?p"
    using assms(1) by (auto simp: receipts_dir_def recoverable_def plain_store_def plain_name_def)
  have "aside ?g fs u" if "written ?p d fs x u" for d x u
  proof -
    from that have w: "writes_only ?p fs u" by (simp add: written_def)
    have "\<not> within (published_at ?g c) ?p" for c
      by (auto simp: published_at_def generations_dir_def receipts_dir_def within_iff)
    moreover have "\<not> within (head_path ?g) ?p" "head_path ?g \<noteq> ?p"
      by (auto simp: head_path_def receipts_dir_def within_iff)
    then have "node_at u (head_path ?g) = node_at fs (head_path ?g)"
      using w unfolding writes_only_def by metis
    ultimately show ?thesis using writes_only_inside [OF w] by (simp add: aside_def files_def)
  qed
  then show ?thesis unfolding write_recovery_receipt_def p
    by (rule outcome_weaken [OF outcome_write [OF p(2)]])
qed

lemma swap_outcome:
  assumes "recoverable m" "target_of (rm_store m) fs (ra_target_commit a) mf h"
  shows "outcome plain_text fs (swap_head_audited m a h) (\<lambda>r t.
    (aside (rm_store m) fs t \<or> pointed (rm_store m) (ra_target_commit a) fs t) \<and>
    (r = Inr () \<longrightarrow> pointed (rm_store m) (ra_target_commit a) fs t))"
proof -
  let ?g = "rm_store m" and ?c = "ra_target_commit a"
  have g: "plain_store ?g" using assms(1) by (simp add: recoverable_def)
  have swapped: "(aside ?g fs t \<or> pointed ?g ?c fs t) \<and> (r = Inr () \<longrightarrow> pointed ?g ?c fs t)"
    if "head_swapped ?g h fs r t" for r t
    using that assms(2) unfolding head_swapped_def aside_def pointed_def by blast
  show ?thesis unfolding swap_head_audited_def
  proof (rule outcome_catch [OF outcome_head [OF g]])
    fix e t
    assume "head_swapped ?g h fs (Inl e) t"
    from swapped [OF this] have t: "aside ?g fs t \<or> pointed ?g ?c fs t" by blast
    show "outcome plain_text t (bindI (audit_append (rm_audit m) ROLLBACK_FAILED [?c] (exc_class e @ '': '' @ exc_str e)) (\<lambda>_.
        throw (PersistencePublishError (''recovery rollback failed: '' @ exc_str e))))
      (\<lambda>r t. (aside ?g fs t \<or> pointed ?g ?c fs t) \<and> (r = Inr () \<longrightarrow> pointed ?g ?c fs t))"
      by (rule outcome_bind [OF audit_aside [OF assms(1)]], use t aside_step pointed_aside in blast,
          rule outcome_last, use t aside_step pointed_aside in blast)
  qed (use swapped in blast)
qed


lemma recovery_readers [frame_rules]:
  "keeps (=) (head_snapshot g)" "keeps (=) (rollback_target g c)" "keeps (=) (ancestor_walk n g target seen c')"
  "keeps (=) (check_precedes g current mf)"
proof -
  show walk: "keeps (=) (ancestor_walk n g target seen c')" for n target seen c'
    by (induction n arbitrary: seen c') (simp_all only: ancestor_walk.simps not_an_ancestor_def, (intro frame_rules | simp only:)+)
  show "keeps (=) (head_snapshot g)" "keeps (=) (rollback_target g c)" "keeps (=) (check_precedes g current mf)"
    unfolding head_snapshot_def rollback_target_def check_precedes_def verify_is_ancestor_def
    by (intro frame_rules walk)+
qed

lemma env_attempt [env_rules]: "env_kept m \<Longrightarrow> env_kept (attempt m)"
  by (auto simp: env_kept_def attempt_def split: prod.splits) (metis snd_conv)+

lemma recovery_env [env_rules]:
  "env_kept (head_snapshot g)" "env_kept (rollback_target g c)" "env_kept (ancestor_walk n g target seen c')"
  "env_kept (check_precedes g current mf)"
proof -
  show walk: "env_kept (ancestor_walk n g target seen c')" for n target seen c'
    by (induction n arbitrary: seen c') (simp_all only: ancestor_walk.simps not_an_ancestor_def, (intro env_rules | simp only:)+)
  show "env_kept (head_snapshot g)" "env_kept (rollback_target g c)" "env_kept (check_precedes g current mf)"
    unfolding head_snapshot_def rollback_target_def check_precedes_def verify_is_ancestor_def
    by (intro env_rules env_files walk)+
qed


lemma outcome_reader_pair:
  assumes "ensures fs m (\<lambda>(x, y). P x y)" "keeps (=) m" "env_kept m" "\<And>e. Q (Inl e) fs" "\<And>x y. P x y \<Longrightarrow> outcome U fs (k x y) Q"
  shows "outcome U fs (bindI m (\<lambda>(x, y). k x y)) Q"
  by (rule outcome_reader [where Q = Q, OF assms(1-4)]) (use assms(5) in auto)

lemma outcome_rollback_tail:
  assumes "recoverable m" "pointed (rm_store m) (ra_target_commit a) fs t"
    and "map_option sha256 (files fs (head_path (rm_store m))) = ra_head_hash a" "gm_commit_id target = ra_target_commit a"
  shows "outcome plain_text t
    (bindI (call (rm_id m ''recovery-receipt'')) (\<lambda>rid. bindI (call (rm_clock m)) (\<lambda>now.
     bindI (lift (recovery_receipt_post_init
       \<lparr>rr_receipt_id = rid, rr_recovery_id = ri_recovery_id i, rr_operation = ''ROLLBACK_HEAD_TO_VERIFIED_GENERATION'',
        rr_previous_head_hash = current_hash, rr_target_commit = gm_commit_id target,
        rr_target_manifest_hash = manifest_sha256 target, rr_authorization_id = ra_authorization_id a,
        rr_actor = rm_actor m, rr_timestamp = now, rr_result = ''ROLLED_BACK_TO:'' @ gm_commit_id target,
        rr_creates_authority = False\<rparr>)) (\<lambda>receipt.
     bindI (write_recovery_receipt m receipt) (\<lambda>_.
     bindI (audit_append (rm_audit m) ROLLBACK_SUCCEEDED [gm_commit_id target, rr_receipt_id receipt]
              (''authorization='' @ ra_authorization_id a @ '';creates_authority=false'')) (\<lambda>_.
     ret receipt)))))) (rolled (rm_store m) a fs)"
proof (intro outcome_call_step outcome_lift_step)
  let ?g = "rm_store m"
  have failed: "rolled ?g a fs (Inl e) u" if "pointed ?g (ra_target_commit a) fs u" for e u
    using that by (simp add: rolled_def)
  show "rolled ?g a fs (Inl e) t" for e by (rule failed [OF assms(2)])
  fix n k receipt
  assume made: "recovery_receipt_post_init
     \<lparr>rr_receipt_id = rm_id m ''recovery-receipt'' n, rr_recovery_id = ri_recovery_id i, rr_operation = ''ROLLBACK_HEAD_TO_VERIFIED_GENERATION'',
      rr_previous_head_hash = current_hash, rr_target_commit = gm_commit_id target,
      rr_target_manifest_hash = manifest_sha256 target, rr_authorization_id = ra_authorization_id a,
      rr_actor = rm_actor m, rr_timestamp = rm_clock m k, rr_result = ''ROLLED_BACK_TO:'' @ gm_commit_id target,
      rr_creates_authority = False\<rparr> = Inr receipt"
  then have fields: "rr_receipt_id receipt = rm_id m ''recovery-receipt'' n" "rr_target_commit receipt = ra_target_commit a"
    "rr_authorization_id receipt = ra_authorization_id a"
    using assms(4) by (auto simp: recovery_receipt_post_init_def result_simps)
  show "outcome plain_text t (bindI (write_recovery_receipt m receipt) (\<lambda>_.
      bindI (audit_append (rm_audit m) ROLLBACK_SUCCEEDED [gm_commit_id target, rr_receipt_id receipt]
              (''authorization='' @ ra_authorization_id a @ '';creates_authority=false'')) (\<lambda>_. ret receipt)))
    (rolled ?g a fs)"
  proof (rule outcome_bind [OF receipt_aside [OF assms(1)]])
    show "\<exists>n. rr_receipt_id receipt = rm_id m ''recovery-receipt'' n" using fields(1) by blast
    show "rolled ?g a fs (Inl e) u" if "aside ?g t u" for e u
      by (rule failed [OF pointed_aside [OF assms(2) that]])
    fix u
    assume u: "aside ?g t u"
    show "outcome plain_text u (bindI (audit_append (rm_audit m) ROLLBACK_SUCCEEDED [gm_commit_id target, rr_receipt_id receipt]
              (''authorization='' @ ra_authorization_id a @ '';creates_authority=false'')) (\<lambda>_. ret receipt))
      (rolled ?g a fs)"
    proof (rule outcome_bind [OF audit_aside [OF assms(1)]])
      show "rolled ?g a fs (Inl e) v" if "aside ?g u v" for e v
        by (rule failed [OF pointed_aside [OF assms(2) aside_step [OF u that]]])
      show "outcome plain_text v (ret receipt) (rolled ?g a fs)" if "aside ?g u v" for v
        using pointed_aside [OF assms(2) aside_step [OF u that]] fields(2,3) assms(3)
        by (intro outcome_last) (simp add: rolled_def)
    qed
  qed
qed

lemma outcome_rollback:
  assumes "recoverable m" "plain_name (ra_target_commit a)"
  shows "outcome plain_text fs (rollback m i a) (rolled (rm_store m) a fs)"
proof -
  let ?g = "rm_store m" and ?c = "ra_target_commit a"
  have g: "plain_store ?g" using assms(1) by (simp add: recoverable_def)
  have start: "rolled ?g a fs (Inl e) fs" for e by (simp add: rolled_def aside_same)
  have swap: "outcome plain_text fs
      (bindI (audit_append (rm_audit m) ROLLBACK_ATTEMPTED refs details) (\<lambda>_. bindI (swap_head_audited m a h) (\<lambda>_. rest)))
      (rolled ?g a fs)"
    if target: "target_of ?g fs ?c mf h" and rest: "\<And>u. pointed ?g ?c fs u \<Longrightarrow> outcome plain_text u rest (rolled ?g a fs)"
    for refs details mf h rest
  proof (rule outcome_bind [OF audit_aside [OF assms(1)]])
    show "rolled ?g a fs (Inl e) t" if "aside ?g fs t" for e t using that by (simp add: rolled_def)
    fix t
    assume t: "aside ?g fs t"
    then have "aside ?g t fs" by (simp add: aside_def equal_inside_def)
    from swap_outcome [OF assms(1) target_of_aside [OF target this plain_places(5) [OF g assms(2)]]]
    show "outcome plain_text t (bindI (swap_head_audited m a h) (\<lambda>_. rest)) (rolled ?g a fs)"
      by (rule outcome_bind)
        (use rest t aside_step pointed_after [OF t _ plain_places(5) [OF g assms(2)]] in \<open>auto simp: rolled_def\<close>)
  qed
  show ?thesis unfolding rollback_def
    apply (rule outcome_lift_step, rule start)
    apply (rule outcome_reader [OF snapshot_ensured [OF g] recovery_readers(1) recovery_env(1)], rule start)
    apply (simp only: split_paired_all prod.case)
    apply (rule outcome_throw_step, rule start)
    apply (rule outcome_reader_pair [OF target_ensured [OF g assms(2)] recovery_readers(2) recovery_env(2)], rule start)
    apply (rule outcome_reader [OF ensures_unchanged [OF recovery_readers(4)] recovery_readers(4) recovery_env(4)], rule start)
    apply (rule swap, assumption)
    apply (rule outcome_rollback_tail [OF assms(1)], assumption)
    subgoal by (simp add: head_known_def)
    subgoal by (auto simp: target_of_def dest: generation_in_named)
    done
qed


subsection \<open>Properties of rollback\<close>

lemma bindI_InrE:
  assumes "bindI m k w = (Inr y, w')"
  obtains x v where "m w = (Inr x, v)" "k x v = (Inr y, w')"
  using assms by (auto simp: bindI_Inr)

lemma rollback_Inr:
  assumes "rollback m i a w = (Inr rc, w')"
  obtains present hash current err v mf h u u' where
    "validate_rollback_binding m i a = Inr ()" "head_snapshot (rm_store m) w = (Inr (present, hash, current, err), v)"
    "present = ra_head_exists a \<and> hash = ra_head_hash a"
    "rollback_target (rm_store m) (ra_target_commit a) v = (Inr (mf, h), u)"
    "check_precedes (rm_store m) current mf u = (Inr (), u')"
  using assms unfolding rollback_def
  apply (elim bindI_InrE)
  apply (simp only: split_paired_all prod.case)
  apply (elim bindI_InrE)
  apply (simp only: split_paired_all prod.case)
  apply (elim bindI_InrE)
  apply (rule that)
  by (auto simp: result_simps)

lemma validate_rollback_Inr:
  "validate_rollback_binding m i a = Inr u \<longleftrightarrow>
     ra_recovery_id a = ri_recovery_id i \<and> ra_policy_version a = rm_policy_version m \<and>
     ra_head_exists a = ri_head_exists i \<and> ra_head_hash a = ri_head_hash i"
  by (auto simp: validate_rollback_binding_def rollback_errors_def Let_def raise_if_def)

lemma rolledD:
  assumes "rollback m i a w = (r, w')" "recoverable m" "plain_name (ra_target_commit a)" "plain_uuids w"
  shows "rolled (rm_store m) a (w_fs w) r (w_fs w')"
  using outcomeD [OF outcome_rollback [OF assms(2,3)] refl plain_uuids_text [OF assms(4)] assms(1)] by simp

lemma target_head_ok:
  assumes "target_of g fs c mf h" "manifest_ok mf"
  shows "head_from_bytes (head_bytes h) = Inr h"
proof (rule head_read_back)
  from assms(1) have h: "hp_commit_id h = gm_commit_id mf" "hp_seq h = gm_seq mf" "hp_manifest_hash h = manifest_sha256 mf"
    and "\<exists>praw. hp_promotion_hash h = sha256 praw"
    using generation_in_named by (auto simp: target_of_def)
  then obtain praw where "hp_promotion_hash h = sha256 praw" by blast
  with h assms(2) show "head_ok h"
    by (cases h) (simp add: head_ok_def manifest_ok_def manifest_post_init_Inr head_post_init_Inr manifest_sha256_def)
qed

lemma pointed_serves:
  assumes "target_of g fs c mf h" "\<forall>c. equal_inside (published_at g c) fs t" "files t (head_path g) = Some (head_bytes h)"
    and "files fs (published_at g c @ [''manifest.json'']) = Some (manifest_bytes mf)" "manifest_ok mf" "plain_path (published_at g c)"
  shows "serves g h t" "generation_in g t c (Some (hp_manifest_hash h)) (Some (hp_promotion_hash h)) mf"
proof -
  from assms(1) obtain praw where gen: "generation_in g fs c None None mf"
    and praw: "files fs (published_at g c @ [''promotion.json'']) = Some praw"
    and h: "hp_commit_id h = c" "hp_manifest_hash h = manifest_sha256 mf" "hp_promotion_hash h = sha256 praw"
    by (auto simp: target_of_def)
  have "expected (Some (sha256 x)) (sha256 x)" for x by (simp add: expected_def)
  with gen praw assms(4) have "generation_in g fs c (Some (hp_manifest_hash h)) (Some (hp_promotion_hash h)) mf"
    unfolding generation_in_def Let_def h manifest_sha256_def by (auto simp: expected_def)
  from generation_in_inside [OF this _ assms(6)] assms(2)
  show gen_t: "generation_in g t c (Some (hp_manifest_hash h)) (Some (hp_promotion_hash h)) mf" by blast
  show "serves g h t"
    using assms(3) target_head_ok [OF assms(1,5)] gen_t h(1) unfolding serves_def by auto
qed

text \<open>C13. A rollback that returns was authorised for exactly what it replaced: the authorization names this
  recovery and the manager's policy, its HEAD binding is the one observed at intake and is the state of HEAD
  when the rollback ran, and HEAD then points to the authorised target, a verified generation.\<close>

theorem rollback_is_authorised:
  assumes "rollback m i a w = (Inr rc, w')" "recoverable m" "plain_name (ra_target_commit a)" "plain_uuids w"
  shows "ra_recovery_id a = ri_recovery_id i \<and> ra_policy_version a = rm_policy_version m \<and>
    ra_head_hash a = ri_head_hash i \<and> map_option sha256 (files (w_fs w) (head_path (rm_store m))) = ra_head_hash a \<and>
    rr_authorization_id rc = ra_authorization_id a \<and> rr_target_commit rc = ra_target_commit a \<and>
    (\<exists>mf h. target_of (rm_store m) (w_fs w) (ra_target_commit a) mf h \<and>
       files (w_fs w') (head_path (rm_store m)) = Some (head_bytes h))"
proof -
  from rollback_Inr [OF assms(1)] have "validate_rollback_binding m i a = Inr ()" by blast
  with rolledD [OF assms] show ?thesis
    unfolding validate_rollback_Inr rolled_def pointed_def by blast
qed

text \<open>Whatever calls fail during a rollback, no published generation changes, and HEAD is the file it was or
  the complete pointer to the authorised target.\<close>

theorem rollback_is_crash_safe:
  assumes "rollback m i a w = (r, w')" "recoverable m" "plain_name (ra_target_commit a)" "plain_uuids w"
    and "within (published_at (rm_store m) c) p"
  shows "node_at (w_fs w') p = node_at (w_fs w) p \<and>
    (files (w_fs w') (head_path (rm_store m)) = files (w_fs w) (head_path (rm_store m)) \<or>
     (\<exists>mf h. target_of (rm_store m) (w_fs w) (ra_target_commit a) mf h \<and>
        files (w_fs w') (head_path (rm_store m)) = Some (head_bytes h)))"
proof -
  from rolledD [OF assms(1-4)] have "aside (rm_store m) (w_fs w) (w_fs w') \<or> pointed (rm_store m) (ra_target_commit a) (w_fs w) (w_fs w')"
    by (simp add: rolled_def)
  with assms(5) show ?thesis unfolding aside_def pointed_def equal_inside_def by blast
qed

text \<open>Without failures a rollback of a readable HEAD goes back: the target precedes the commit HEAD names
  and, unless it is that commit, is reached from it by the parent links of verified manifests.\<close>

theorem rollback_goes_back:
  assumes "rollback m i a w = (Inr rc, w')" "recoverable m" "plain_name (ra_target_commit a)" "quiet w"
    and "files (w_fs w) (head_path (rm_store m)) = Some raw" "head_from_bytes raw = Inr cur"
    and "plain_parents (rm_store m) (w_fs w)" "plain_name (hp_commit_id cur)"
  shows "\<exists>mf. generation_in (rm_store m) (w_fs w) (ra_target_commit a) None None mf \<and> gm_seq mf < hp_seq cur \<and>
    (ra_target_commit a = hp_commit_id cur \<or>
     (\<exists>k. descends (rm_store m) (w_fs w) (ra_target_commit a) k (hp_commit_id cur)))"
proof -
  have g: "plain_store (rm_store m)" using assms(2) by (simp add: recoverable_def)
  from rollback_Inr [OF assms(1)] obtain present hash current err v mf h u u' where
    snap: "head_snapshot (rm_store m) w = (Inr (present, hash, current, err), v)"
    and target: "rollback_target (rm_store m) (ra_target_commit a) v = (Inr (mf, h), u)"
    and check: "check_precedes (rm_store m) current mf u = (Inr (), u')"
    by metis
  from yields_snapshot [OF g assms(5,6)] assms(4) snap have current: "current = Some cur"
    unfolding yields_def by fastforce
  have v: "w_fs v = w_fs w" using ensuresD [OF snapshot_ensured [OF g] refl snap] by simp
  from ensuresD [OF target_ensured [OF g assms(3)] v target]
  have mf: "generation_in (rm_store m) (w_fs w) (ra_target_commit a) None None mf" and u: "w_fs u = w_fs w"
    by (auto simp: target_of_def)
  from ensuresD [OF precedes_ensured [OF g assms(7,8)] u check [unfolded current]] generation_in_named [OF mf] mf
  show ?thesis by auto
qed

text \<open>A rollback that returns leaves a store that serves its target: HEAD reads as a pointer to the
  authorised commit and that generation verifies against the hashes HEAD carries, given that the target's
  manifest file is as publication writes it.\<close>

theorem rolled_back_store_serves:
  assumes "rollback m i a w = (Inr rc, w')" "recoverable m" "plain_name (ra_target_commit a)" "plain_uuids w"
    and "files (w_fs w) (published_at (rm_store m) (ra_target_commit a) @ [''manifest.json'']) = Some (manifest_bytes mf)"
    and "manifest_ok mf"
  shows "\<exists>h. hp_commit_id h = ra_target_commit a \<and> yields (w_fs w') (read_head (rm_store m)) (Some h) \<and>
    yields (w_fs w') (verify_generation (rm_store m) (ra_target_commit a) (Some (hp_manifest_hash h))
      (Some (hp_promotion_hash h))) mf"
proof -
  let ?g = "rm_store m" and ?c = "ra_target_commit a"
  have g: "plain_store ?g" using assms(2) by (simp add: recoverable_def)
  from rolledD [OF assms(1-4)] obtain mf' h where
    inside: "\<forall>c. equal_inside (published_at ?g c) (w_fs w) (w_fs w')" and target: "target_of ?g (w_fs w) ?c mf' h"
    and head: "files (w_fs w') (head_path ?g) = Some (head_bytes h)"
    by (auto simp: rolled_def pointed_def)
  from target obtain raw where "files (w_fs w) (published_at ?g ?c @ [''manifest.json'']) = Some raw" "manifest_from_bytes raw = Inr mf'"
    unfolding target_of_def generation_in_def Let_def by blast
  with assms(5) manifest_read_back [OF assms(6)] have "mf' = mf" by simp
  with target have target: "target_of ?g (w_fs w) ?c mf h" by simp
  note served = pointed_serves [OF target inside head assms(5,6) plain_places(5) [OF g assms(3)]]
  have "hp_commit_id h = ?c" using target by (auto simp: target_of_def)
  with serves_yields [OF served(1) g] served(2) assms(3) show ?thesis by auto
qed


subsection \<open>A concrete rollback\<close>

text \<open>HEAD names \<open>c2\<close>, whose parent \<open>c1\<close> is a published generation; the reviewer authorises \<open>c1\<close>.\<close>

definition newer_envelope :: promotion_envelope where
  "newer_envelope = example_envelope\<lparr>pv_commit_id := ''c2'', pv_manifest_hash := manifest_sha256 example_manifest\<rparr>"

definition newer_head :: head_pointer where
  "newer_head =
     \<lparr>hp_commit_id = ''c2'', hp_seq = 2, hp_manifest_hash = manifest_sha256 example_manifest,
      hp_promotion_hash = envelope_sha256 newer_envelope\<rparr>"

definition rollback_disk :: fs where
  "rollback_disk =
     [([''store''], Dir), ([''store'', ''audit''], Dir), ([''store'', ''forensics''], Dir),
      ([''store'', ''forensics'', ''recovery_receipts''], Dir), ([''store'', ''generations''], Dir),
      ([''store'', ''HEAD''], File (head_bytes newer_head)),
      ([''store'', ''generations'', ''c1''], Dir),
      ([''store'', ''generations'', ''c1'', ''manifest.json''], File (manifest_bytes example_parent)),
      ([''store'', ''generations'', ''c1'', ''promotion.json''], File (envelope_bytes example_envelope)),
      ([''store'', ''generations'', ''c1'', ''payload''], Dir),
      ([''store'', ''generations'', ''c1'', ''payload'', ''a.json''], File example_bytes),
      ([''store'', ''generations'', ''c2''], Dir),
      ([''store'', ''generations'', ''c2'', ''manifest.json''], File (manifest_bytes example_manifest)),
      ([''store'', ''generations'', ''c2'', ''promotion.json''], File (envelope_bytes newer_envelope)),
      ([''store'', ''generations'', ''c2'', ''payload''], Dir),
      ([''store'', ''generations'', ''c2'', ''payload'', ''a.json''], File example_bytes)]"

definition example_manager :: recovery_manager where
  "example_manager =
     \<lparr>rm_store = example_store, rm_audit = example_ledger, rm_policy_version = ''p7-v1'', rm_actor = ''galia'',
      rm_clock = example_time, rm_id = (\<lambda>prefix n. prefix)\<rparr>"

definition example_intake :: recovery_intake where
  "example_intake =
     \<lparr>ri_recovery_id = ''r1'', ri_trigger = SCHEMA_MISMATCH, ri_opened_at = example_time 0, ri_head_exists = True,
      ri_head_hash = Some (sha256 (head_bytes newer_head)), ri_head = Some newer_head, ri_head_error = None,
      ri_affected_commit = Some ''c2'', ri_mutation_performed = False\<rparr>"

definition example_consent :: recovery_authorization where
  "example_consent =
     \<lparr>ra_authorization_id = ''a1'', ra_recovery_id = ''r1'', ra_reviewer = ''ana'', ra_target_commit = ''c1'',
      ra_head_exists = True, ra_head_hash = Some (sha256 (head_bytes newer_head)), ra_policy_version = ''p7-v1'',
      ra_authorized_at = example_time 0\<rparr>"

lemma rollback_lookup:
  "map_of rollback_disk [''store''] = Some Dir"
  "map_of rollback_disk [''store'', ''audit''] = Some Dir"
  "map_of rollback_disk [''store'', ''audit'', ''events.jsonl''] = None"
  "map_of rollback_disk [''store'', ''forensics''] = Some Dir"
  "map_of rollback_disk [''store'', ''forensics'', ''recovery_receipts''] = Some Dir"
  "map_of rollback_disk [''store'', ''forensics'', ''recovery_receipts'', ''recovery-receipt.json''] = None"
  "map_of rollback_disk [''store'', ''.HEAD.tmp-uuid''] = None"
  "map_of rollback_disk [''store'', ''HEAD''] = Some (File (head_bytes newer_head))"
  "map_of rollback_disk [''store'', ''generations'', ''c1''] = Some Dir"
  "map_of rollback_disk [''store'', ''generations'', ''c1'', ''manifest.json''] = Some (File (manifest_bytes example_parent))"
  "map_of rollback_disk [''store'', ''generations'', ''c1'', ''promotion.json''] = Some (File (envelope_bytes example_envelope))"
  "map_of rollback_disk [''store'', ''generations'', ''c1'', ''payload'', ''a.json''] = Some (File example_bytes)"
  "map_of rollback_disk [''store'', ''generations'', ''c2''] = Some Dir"
  "map_of rollback_disk [''store'', ''generations'', ''c2'', ''manifest.json''] = Some (File (manifest_bytes example_manifest))"
  "map_of rollback_disk [''store'', ''generations'', ''c2'', ''promotion.json''] = Some (File (envelope_bytes newer_envelope))"
  "map_of rollback_disk [''store'', ''generations'', ''c2'', ''payload'', ''a.json''] = Some (File example_bytes)"
  by (simp_all add: rollback_disk_def)

lemma rollback_files:
  "files_under rollback_disk [''store'', ''generations'', ''c1''] = {''manifest.json'', ''promotion.json'', ''payload/a.json''}"
  "files_under rollback_disk [''store'', ''generations'', ''c2''] = {''manifest.json'', ''promotion.json'', ''payload/a.json''}"
  by (simp_all add: files_under_def rollback_disk_def within_def as_posix_def)

lemma newer_codecs: "envelope_ok newer_envelope" "head_ok newer_head"
proof -
  have texts: "list_all utf8_valid [''c2'', ''case'', ''d1'', ''a1'', ''r1'', ''p5-v1'', ''p7-v1'']"
    by (auto simp: ascii_def code_def intro!: utf8_valid_ascii)
  have "envelope_post_init newer_envelope = Inr newer_envelope"
    by (simp add: envelope_post_init_def newer_envelope_def example_envelope_def required_def hash_field_def aware_field_def manifest_sha256_def)
  then show "envelope_ok newer_envelope"
    using texts by (simp add: envelope_ok_def newer_envelope_def example_envelope_def del: utf8_valid.simps)
  have "head_post_init newer_head = Inr newer_head"
    by (simp add: head_post_init_Inr newer_head_def manifest_sha256_def envelope_sha256_def)
  then show "head_ok newer_head"
    using texts by (simp add: head_ok_def newer_head_def del: utf8_valid.simps)
qed

lemmas newer_reads = envelope_read_back [OF newer_codecs(1)] head_read_back [OF newer_codecs(2)]
  manifest_read_back [OF example_store_plain(5)]

lemma newer_fields:
  "pv_commit_id newer_envelope = ''c2''" "pv_case_id newer_envelope = ''case''"
  "pv_manifest_hash newer_envelope = sha256 (manifest_bytes example_manifest)" "pv_authority_decision_id newer_envelope = ''d1''"
  "hp_commit_id newer_head = ''c2''" "hp_seq newer_head = 2" "gm_seq example_parent = 1"
  by (simp_all add: newer_envelope_def example_envelope_def newer_head_def manifest_sha256_def example_parent_def)

lemma rollback_generations:
  "generation_in example_store rollback_disk ''c1'' None None example_parent"
  "generation_in example_store rollback_disk ''c2'' None None example_manifest"
  unfolding generation_in_def Let_def
  subgoal
    by (rule exI [of _ "manifest_bytes example_parent"], rule exI [of _ "envelope_bytes example_envelope"],
        rule exI [of _ example_envelope])
      (simp add: files_def node_at_def published_at_def generations_dir_def example_objects rollback_lookup example_reads
        expected_def example_fields payloads_in_def payload_key_def parts_def rollback_files payload_names_def insert_commute)
  subgoal
    by (rule exI [of _ "manifest_bytes example_manifest"], rule exI [of _ "envelope_bytes newer_envelope"],
        rule exI [of _ newer_envelope])
      (simp add: files_def node_at_def published_at_def generations_dir_def example_objects rollback_lookup newer_reads
        expected_def example_fields newer_fields payloads_in_def payload_key_def parts_def rollback_files payload_names_def insert_commute)
  done

lemma rollback_descends: "descends example_store rollback_disk ''c1'' 0 ''c2''"
  by (rule descends.child [OF rollback_generations(2)]) (simp add: example_fields)

lemma rollback_plain_parents: "plain_parents example_store rollback_disk"
  unfolding plain_parents_def
proof (intro allI impI)
  fix c m
  assume m: "generation_in example_store rollback_disk c None None m"
  then obtain raw where "files rollback_disk (published_at example_store c @ [''manifest.json'']) = Some raw"
    unfolding generation_in_def Let_def by blast
  moreover have "c \<noteq> ''c1'' \<Longrightarrow> c \<noteq> ''c2'' \<Longrightarrow> map_of rollback_disk [''store'', ''generations'', c, ''manifest.json''] = None"
    by (simp add: rollback_disk_def)
  ultimately have "c = ''c1'' \<or> c = ''c2''"
    unfolding files_def published_at_def generations_dir_def example_objects node_at_def by fastforce
  then have "m = example_parent \<or> m = example_manifest"
    using generation_in_unique [OF m] rollback_generations by metis
  moreover have "plain_name (gm_parent_commit example_parent)" "plain_name (gm_parent_commit example_manifest)"
    by (simp_all add: example_parent_def example_fields plain_name_def)
  ultimately show "plain_name (gm_parent_commit m)" by metis
qed


lemma example_head_written:
  assumes "quiet w" "w_uuid w = (\<lambda>n. ''uuid'')" "node_at (w_fs w) [''store''] = Some Dir"
    and "node_at (w_fs w) [''store'', ''.HEAD.tmp-uuid''] = None" "node_at (w_fs w) [''store'', ''HEAD''] = Some (File x)"
  shows "\<exists>w'. atomic_write_head example_store h w = (Inr (), w') \<and> quietly w w' \<and>
    (\<forall>q. q \<noteq> [] \<and> \<not> within [''store'', ''.HEAD.tmp-uuid''] q \<and> \<not> within [''store'', ''HEAD''] q \<longrightarrow>
       node_at (w_fs w') q = node_at (w_fs w) q)"
proof -
  have places: "subpath [''store''] ''.HEAD.tmp-uuid'' = [''store'', ''.HEAD.tmp-uuid'']"
    "head_path example_store = [''store'', ''HEAD'']" "gs_root example_store = [''store'']"
    by (simp_all add: plain_name_def head_path_def example_objects)
  have apart: "\<not> within [''store'', ''.HEAD.tmp-uuid''] [''store'', ''HEAD'']"
    "\<not> within [''store'', ''HEAD''] [''store'', ''.HEAD.tmp-uuid'']" by (simp_all add: within_def)
  show ?thesis using assms
    by (simp add: atomic_write_head_def places uuid4_def bindI_def write_new_file_def mkdir_parents_def make_dir_def sys_def
        Let_def open_new_def write_fd_def fsync_fd_def os_replace_def fsync_dir_def path_exists_def quiet_def quietly_def
        node_at_put node_at_move apart contents_def within_def [of _ "[''store'']"] cong: run_cong)
qed

lemma example_receipt_written:
  assumes "quiet w" "node_at (w_fs w) [''store''] = Some Dir" "node_at (w_fs w) [''store'', ''forensics''] = Some Dir"
    "node_at (w_fs w) [''store'', ''forensics'', ''recovery_receipts''] = Some Dir"
    "node_at (w_fs w) [''store'', ''forensics'', ''recovery_receipts'', ''recovery-receipt.json''] = None"
    "rr_receipt_id rc = ''recovery-receipt''"
  shows "\<exists>w'. write_recovery_receipt example_manager rc w = (Inr (), w') \<and> quietly w w' \<and>
    (\<forall>q. q \<noteq> [''store'', ''forensics'', ''recovery_receipts'', ''recovery-receipt.json''] \<longrightarrow>
       node_at (w_fs w') q = node_at (w_fs w) q)"
proof -
  have place: "subpath (receipts_dir example_manager) ''recovery-receipt.json'' =
      [''store'', ''forensics'', ''recovery_receipts'', ''recovery-receipt.json'']"
    by (simp add: plain_name_def receipts_dir_def example_manager_def example_objects)
  show ?thesis using assms
    by (simp add: write_recovery_receipt_def place bindI_def write_new_file_def mkdir_parents_def make_dir_def sys_def
        Let_def open_new_def write_fd_def fsync_fd_def quiet_def quietly_def node_at_put contents_def cong: run_cong)
qed


lemma example_audited:
  assumes "quiet w" "w_uuid w = (\<lambda>n. ''uuid'')" "ledger_holds example_ledger (w_fs w) es" "node_at (w_fs w) [''store'', ''audit''] = Some Dir"
    and "list_all utf8_valid refs" "utf8_valid details" "\<not> blank details"
  obtains e w' where "audit_append example_ledger t refs details w = (Inr e, w')" "quiet w'" "w_uuid w' = (\<lambda>n. ''uuid'')"
    "ledger_holds example_ledger (w_fs w') (es @ [e])"
    "\<And>q. q \<noteq> [''store'', ''audit'', ''events.jsonl''] \<Longrightarrow> node_at (w_fs w') q = node_at (w_fs w) q"
proof -
  have path: "audit_path example_ledger = [''store'', ''audit'', ''events.jsonl'']" "audit_dir example_ledger = [''store'', ''audit'']"
    by (simp_all add: audit_path_def audit_dir_def example_ledger_def)
  have "node_at (w_fs w) (audit_dir example_ledger) = Some Dir" using assms(4) path by simp
  moreover have "list_all (\<lambda>s. \<not> blank s) [au_policy_version example_ledger, au_actor example_ledger, details]"
    "\<And>n. \<not> blank (au_id example_ledger ''audit'' n) \<and> aware (au_clock example_ledger n)"
    using assms(7) by (simp_all add: example_ledger_def)
  ultimately have "\<exists>e w'. audit_append example_ledger t refs details w = (Inr e, w') \<and> quietly w w'"
    by (rule audit_append_returns [OF assms(1,3) example_ledger_ok(2)])
  then obtain e w' where run: "audit_append example_ledger t refs details w = (Inr e, w')" "quietly w w'" by blast
  have out: "audited example_ledger t refs details (w_fs w) (Inr e) (w_fs w')"
    using outcomeD [OF outcome_audit [OF example_ledger_ok(2), where U = "\<lambda>u. True"] refl _ run(1)] by simp
  from that [OF run(1)] run(2) assms(2) audited_holds [OF out example_ledger_ok(1) assms(5,6,3)] out
  show thesis by (simp add: quietly_def audited_def path)
qed

lemma example_target: "yields rollback_disk (rollback_target example_store ''c1'') (example_parent, example_head)"
proof -
  have gen: "yields rollback_disk (verify_generation example_store ''c1'' None None) example_parent"
    using yields_generation [OF rollback_generations(1)] plain_places(5) [OF example_store_plain(1,3)] example_store_plain(3) by simp
  have at: "subpath (generations_dir example_store) ''c1'' @ [''promotion.json''] = [''store'', ''generations'', ''c1'', ''promotion.json'']"
    by (simp add: plain_name_def generations_dir_def example_objects)
  have head: "\<lparr>hp_commit_id = ''c1'', hp_seq = 1, hp_manifest_hash = manifest_sha256 example_parent,
      hp_promotion_hash = sha256 (envelope_bytes example_envelope)\<rparr> = example_head"
    by (simp add: example_head_def envelope_sha256_def)
  have built: "head_post_init example_head = Inr example_head" using example_codecs(3) by (simp add: head_ok_def)
  have "files rollback_disk [''store'', ''generations'', ''c1'', ''promotion.json''] = Some (envelope_bytes example_envelope)"
    by (simp add: files_def node_at_def rollback_lookup)
  from yields_read_step [OF _ this, of "\<lambda>raw. bindI (lift (head_post_init
      \<lparr>hp_commit_id = gm_commit_id example_parent, hp_seq = gm_seq example_parent, hp_manifest_hash = manifest_sha256 example_parent,
       hp_promotion_hash = sha256 raw\<rparr>)) (\<lambda>head. ret (example_parent, head))" "(example_parent, example_head)"]
  show ?thesis unfolding rollback_target_def
    by (intro yields_bind [OF gen])
      (simp add: example_fields newer_fields at head built, metis built yields_bind yields_last(3) yields_lift)
qed

lemma example_rolls:
  "\<exists>rc w'. rollback example_manager example_intake example_consent (example_world rollback_disk) = (Inr rc, w')"
proof -
  let ?w = "example_world rollback_disk" and ?head = "[''store'', ''HEAD'']"
  let ?tail = "[''store'', ''forensics'', ''recovery_receipts'', ''recovery-receipt.json'']"
  have raw: "files rollback_disk (head_path example_store) = Some (head_bytes newer_head)"
    by (simp add: files_def node_at_def head_path_def example_objects rollback_lookup)
  have start: "quiet ?w" by (simp add: quiet_def)
  have snap: "yields (w_fs ?w) (head_snapshot example_store) (True, Some (sha256 (head_bytes newer_head)), Some newer_head, None)"
    unfolding example_world_simps by (rule yields_snapshot [OF example_store_plain(1) raw head_read_back [OF newer_codecs(2)]])
  obtain w1 where w1: "head_snapshot example_store ?w = (Inr (True, Some (sha256 (head_bytes newer_head)), Some newer_head, None), w1)"
    "w_fs w1 = w_fs ?w" "quietly ?w w1"
    by (rule quietly_run [OF snap recovery_env(1) start])
  then have q1: "quiet w1" and fs1: "w_fs w1 = rollback_disk" by (simp_all add: quietly_def)
  obtain w2 where w2: "rollback_target example_store ''c1'' w1 = (Inr (example_parent, example_head), w2)"
    "w_fs w2 = rollback_disk" "quietly w1 w2"
    using quietly_run [OF _ recovery_env(2) q1] example_target fs1 by metis
  then have q2: "quiet w2" by (simp add: quietly_def)
  have "yields rollback_disk (verify_is_ancestor example_store newer_head ''c1'') ()"
    using yields_ancestor [OF _ rollback_generations(1) example_store_plain(1) rollback_plain_parents] rollback_descends
      example_store_plain(2) by (simp add: newer_fields)
  then have "yields rollback_disk (check_precedes example_store (Some newer_head) example_parent) ()"
    unfolding check_precedes_def by (simp add: newer_fields example_fields) (rule yields_throw_step, simp)
  then obtain w3 where w3: "check_precedes example_store (Some newer_head) example_parent w2 = (Inr (), w3)"
    "w_fs w3 = rollback_disk" "quietly w2 w3"
    using quietly_run [OF _ recovery_env(4) q2] w2(2) by metis
  have q3: "quiet w3" "w_uuid w3 = (\<lambda>n. ''uuid'')" using w1(3) w2(3) w3(3) by (simp_all add: quietly_def)
  have ledger: "ledger_holds example_ledger (w_fs w3) []"
    by (simp add: ledger_holds_def w3(2) audit_path_def audit_dir_def example_ledger_def node_at_def rollback_lookup contents_def
        ledger_of_bytes_def terminated_def)
  have texts: "list_all utf8_valid [''c1'', ''c2'']" "utf8_valid ''authorization=a1''"
    "list_all utf8_valid [''c1'', ''recovery-receipt'']" "utf8_valid ''authorization=a1;creates_authority=false''"
    by (auto simp: ascii_def code_def intro!: utf8_valid_ascii)
  have "node_at (w_fs w3) [''store'', ''audit''] = Some Dir" by (simp add: w3(2) node_at_def rollback_lookup)
  then obtain e4 w4 where w4: "audit_append example_ledger ROLLBACK_ATTEMPTED [''c1'', ''c2''] ''authorization=a1'' w3 = (Inr e4, w4)"
    "quiet w4" "w_uuid w4 = (\<lambda>n. ''uuid'')" "ledger_holds example_ledger (w_fs w4) [e4]"
    "\<And>q. q \<noteq> [''store'', ''audit'', ''events.jsonl''] \<Longrightarrow> node_at (w_fs w4) q = node_at rollback_disk q"
    using example_audited [OF q3 ledger _ texts(1,2)] w3(2) by auto
  note nodes = node_at_def [of rollback_disk] rollback_lookup
  have "\<exists>w'. atomic_write_head example_store example_head w4 = (Inr (), w') \<and> quietly w4 w' \<and>
    (\<forall>q. q \<noteq> [] \<and> \<not> within [''store'', ''.HEAD.tmp-uuid''] q \<and> \<not> within ?head q \<longrightarrow>
       node_at (w_fs w') q = node_at (w_fs w4) q)"
    by (rule example_head_written [OF w4(2,3), of "head_bytes newer_head"]) (simp_all add: w4(5) nodes)
  then obtain w5 where w5: "atomic_write_head example_store example_head w4 = (Inr (), w5)" "quietly w4 w5"
    "\<And>q. q \<noteq> [] \<Longrightarrow> \<not> within [''store'', ''.HEAD.tmp-uuid''] q \<Longrightarrow> \<not> within ?head q \<Longrightarrow> node_at (w_fs w5) q = node_at (w_fs w4) q"
    by metis
  let ?u = "w5\<lparr>w_tick := Suc (Suc (w_tick w5))\<rparr>"
  obtain rc where rc: "recovery_receipt_post_init
     \<lparr>rr_receipt_id = ''recovery-receipt'', rr_recovery_id = ''r1'', rr_operation = ''ROLLBACK_HEAD_TO_VERIFIED_GENERATION'',
      rr_previous_head_hash = Some (sha256 (head_bytes newer_head)), rr_target_commit = ''c1'',
      rr_target_manifest_hash = manifest_sha256 example_parent, rr_authorization_id = ''a1'', rr_actor = ''galia'',
      rr_timestamp = example_time (Suc (w_tick w5)), rr_result = ''ROLLED_BACK_TO:c1'', rr_creates_authority = False\<rparr> = Inr rc"
    and id: "rr_receipt_id rc = ''recovery-receipt''"
    by (simp add: recovery_receipt_post_init_def required_def hash_field_def hash_field_opt_def aware_field_def manifest_sha256_def)
  have "\<exists>w'. write_recovery_receipt example_manager rc ?u = (Inr (), w') \<and> quietly ?u w' \<and>
    (\<forall>q. q \<noteq> ?tail \<longrightarrow> node_at (w_fs w') q = node_at (w_fs ?u) q)"
    using w5(2) id by (intro example_receipt_written) (simp_all add: quietly_def quiet_def w5(3) w4(5) within_def nodes)
  then obtain w6 where w6: "write_recovery_receipt example_manager rc ?u = (Inr (), w6)" "quietly ?u w6"
    "\<And>q. q \<noteq> ?tail \<Longrightarrow> node_at (w_fs w6) q = node_at (w_fs w5) q"
    by auto
  have q6: "quiet w6" "w_uuid w6 = (\<lambda>n. ''uuid'')" using w4(3) w5(2) w6(2) by (simp_all add: quietly_def)
  have intact: "ledger_holds example_ledger (w_fs w6) [e4]" "node_at (w_fs w6) [''store'', ''audit''] = Some Dir"
    using w4(4) by (simp_all add: ledger_holds_def audit_path_def audit_dir_def example_ledger_def contents_def w6(3) w5(3) w4(5)
        within_def nodes)
  obtain e7 w7 where
    w7: "audit_append example_ledger ROLLBACK_SUCCEEDED [''c1'', ''recovery-receipt''] ''authorization=a1;creates_authority=false'' w6 = (Inr e7, w7)"
    by (rule example_audited [OF q6 intact texts(3,4)]) (simp, rule that)
  have "rollback example_manager example_intake example_consent ?w = (Inr rc, w7)"
    unfolding rollback_def
    by (simp add: example_manager_def example_intake_def example_consent_def validate_rollback_binding_def rollback_errors_def
        Let_def bindI_def w1(1) w2(1) w3(1) throw_if_def present_refs_def cong: run_cong)
      (simp add: bindI_def w4(1) swap_head_audited_def catch_def example_fields w5(1) call_def rc w6(1) [unfolded example_manager_def] id w7 cong: run_cong)
  then show ?thesis by blast
qed


lemma example_rollback_ok:
  "recoverable example_manager" "plain_name (ra_target_commit example_consent)" "rm_store example_manager = example_store"
  "ra_target_commit example_consent = ''c1''"
  using example_store_plain(1,3)
  by (simp_all add: recoverable_def example_manager_def example_ledger_def example_objects example_consent_def plain_text_def)

theorem rollback_is_authorised_witness:
  "\<exists>rc w'. rollback example_manager example_intake example_consent (example_world rollback_disk) = (Inr rc, w') \<and>
     rr_target_commit rc = ''c1'' \<and>
     ra_head_hash example_consent = Some (sha256 (head_bytes newer_head))"
proof -
  obtain rc w' where run: "rollback example_manager example_intake example_consent (example_world rollback_disk) = (Inr rc, w')"
    using example_rolls by blast
  from rollback_is_authorised [OF run example_rollback_ok(1,2) example_store_plain(4)] run
  show ?thesis by (auto simp: example_rollback_ok example_consent_def)
qed

theorem rollback_is_crash_safe_witness:
  "\<exists>r w'. rollback example_manager example_intake example_consent
       ((example_world rollback_disk)\<lparr>w_fault := \<lambda>n. if n = 25 then Some 3 else None\<rparr>) = (r, w') \<and>
     node_at (w_fs w') [''store'', ''generations'', ''c2'', ''manifest.json''] = Some (File (manifest_bytes example_manifest))"
proof -
  let ?w = "(example_world rollback_disk)\<lparr>w_fault := \<lambda>n. if n = 25 then Some 3 else None\<rparr>"
  obtain r w' where run: "rollback example_manager example_intake example_consent ?w = (r, w')" by (metis prod.collapse)
  have "plain_uuids ?w" by (simp add: plain_uuids_def)
  moreover have "within (published_at (rm_store example_manager) ''c2'') [''store'', ''generations'', ''c2'', ''manifest.json'']"
    by (simp add: example_rollback_ok published_at_def generations_dir_def example_objects within_def)
  ultimately have "node_at (w_fs w') [''store'', ''generations'', ''c2'', ''manifest.json''] =
      node_at (w_fs ?w) [''store'', ''generations'', ''c2'', ''manifest.json'']"
    using rollback_is_crash_safe [OF run example_rollback_ok(1,2)] by blast
  with run show ?thesis by (simp add: node_at_def rollback_lookup)
qed

theorem rollback_goes_back_witness:
  "\<exists>rc w' mf. rollback example_manager example_intake example_consent (example_world rollback_disk) = (Inr rc, w') \<and>
     generation_in example_store rollback_disk ''c1'' None None mf \<and> gm_seq mf < hp_seq newer_head \<and>
     (\<exists>k. descends example_store rollback_disk ''c1'' k ''c2'')"
proof -
  obtain rc w' where run: "rollback example_manager example_intake example_consent (example_world rollback_disk) = (Inr rc, w')"
    using example_rolls by blast
  have "quiet (example_world rollback_disk)" by (simp add: quiet_def)
  moreover have "files (w_fs (example_world rollback_disk)) (head_path (rm_store example_manager)) = Some (head_bytes newer_head)"
    by (simp add: example_rollback_ok files_def node_at_def head_path_def example_objects rollback_lookup)
  moreover note head_read_back [OF newer_codecs(2)]
  moreover have "plain_parents (rm_store example_manager) (w_fs (example_world rollback_disk))" "plain_name (hp_commit_id newer_head)"
    using rollback_plain_parents example_store_plain(2) by (simp_all add: example_rollback_ok newer_fields)
  ultimately have "\<exists>mf. generation_in (rm_store example_manager) (w_fs (example_world rollback_disk)) (ra_target_commit example_consent) None None mf \<and>
      gm_seq mf < hp_seq newer_head \<and> (ra_target_commit example_consent = hp_commit_id newer_head \<or>
      (\<exists>k. descends (rm_store example_manager) (w_fs (example_world rollback_disk)) (ra_target_commit example_consent) k (hp_commit_id newer_head)))"
    using rollback_goes_back [OF run example_rollback_ok(1,2)] by blast
  with run show ?thesis by (auto simp: example_rollback_ok newer_fields)
qed

theorem rolled_back_store_serves_witness:
  "\<exists>rc w' h. rollback example_manager example_intake example_consent (example_world rollback_disk) = (Inr rc, w') \<and>
     hp_commit_id h = ''c1'' \<and> yields (w_fs w') (read_head example_store) (Some h)"
proof -
  obtain rc w' where run: "rollback example_manager example_intake example_consent (example_world rollback_disk) = (Inr rc, w')"
    using example_rolls by blast
  have "files (w_fs (example_world rollback_disk)) (published_at (rm_store example_manager) (ra_target_commit example_consent) @ [''manifest.json'']) =
      Some (manifest_bytes example_parent)"
    by (simp add: example_rollback_ok files_def node_at_def published_at_def generations_dir_def example_objects rollback_lookup)
  from rolled_back_store_serves [OF run example_rollback_ok(1,2) example_store_plain(4) this example_codecs(1)] run
  show ?thesis by (auto simp: example_rollback_ok)
qed

theorem ancestry_is_decided_witness:
  "fst (verify_is_ancestor example_store newer_head ''c1'' (example_world rollback_disk)) = Inr ()"
  using ancestry_is_decided [of "example_world rollback_disk" example_store newer_head "''c1''"] example_store_plain(1,2)
    rollback_plain_parents rollback_descends rollback_generations(1)
  by (auto simp: quiet_def newer_fields)


end
