(* ===== verification/StoreLiveness.thy ===== *)
theory StoreLiveness
  imports RecoverySafety
begin

section \<open>What returns when nothing fails\<close>

text \<open>
  Total correctness of the writing calls in a quiet world: each returns, and the nodes it leaves are
  given.  Together they give that publication with valid evidence returns.
\<close>

definition dirs_to :: "fs \<Rightarrow> path \<Rightarrow> bool" where
  "dirs_to fs p \<longleftrightarrow> (\<forall>q. within q p \<longrightarrow> node_at fs q = Some Dir)"

definition same_nodes :: "path set \<Rightarrow> fs \<Rightarrow> fs \<Rightarrow> bool" where
  \<comment> \<open>outside \<open>U\<close> the trees agree\<close>
  "same_nodes U s t \<longleftrightarrow> (\<forall>q. q \<notin> U \<longrightarrow> node_at t q = node_at s q)"

lemma quietly_refl: "quiet w \<Longrightarrow> quietly w w"
  by (simp add: quietly_def)

lemma quietly_trans: "quietly a b \<Longrightarrow> quietly b c \<Longrightarrow> quietly a c"
  by (simp add: quietly_def)

lemma sys_returns: "quiet w \<Longrightarrow> f (w_fs w) = Inr (x, t) \<Longrightarrow> \<exists>w'. sys f w = (Inr x, w') \<and> w_fs w' = t \<and> quietly w w'"
  by (auto simp: sys_def Let_def quiet_def quietly_def)

lemma mkdir_returns:
  assumes "quiet w" "plain_path p" "dirs_to (w_fs w) p"
  shows "\<exists>w'. mkdir_parents p w = (Inr (), w') \<and> w_fs w' = w_fs w \<and> quietly w w'"
proof -
  have "\<exists>w'. make_dirs_from cur r w = (Inr (), w') \<and> w_fs w' = w_fs w \<and> quietly w w'"
    if "quiet w" "plain_path (cur @ r)" "dirs_to (w_fs w) (cur @ r)" for cur r w
    using that
  proof (induction cur r arbitrary: w rule: make_dirs_from.induct)
    case (1 cur)
    then show ?case by (auto simp: quietly_refl)
  next
    case (2 cur c cs)
    have "within (cur @ [c]) (cur @ c # cs)" by (simp add: within_def)
    then have "node_at (w_fs w) (cur @ [c]) = Some Dir" using 2(4) by (auto simp: dirs_to_def)
    then have "\<exists>v. make_dir (cur @ [c]) (cs = []) w = (Inr (), v) \<and> w_fs v = w_fs w \<and> quietly w v"
      unfolding make_dir_def by (intro sys_returns 2(2)) (use 2(3) in simp)
    then obtain v where v: "make_dir (cur @ [c]) (cs = []) w = (Inr (), v)" "w_fs v = w_fs w" "quietly w v"
      by blast
    from 2(1) [of v] 2(3,4) v obtain w' where "make_dirs_from (cur @ [c]) cs v = (Inr (), w')" "w_fs w' = w_fs v" "quietly v w'"
      by (auto simp: quietly_def)
    with v show ?case by (auto intro: quietly_trans)
  qed
  from this [of w "[]" p] assms show ?thesis by (simp add: mkdir_parents_def)
qed

lemma write_fd_returns: "quiet w \<Longrightarrow> p \<noteq> [] \<Longrightarrow>
    \<exists>w'. write_fd p data w = (Inr (), w') \<and> w_fs w' = fs_put p (File (contents (w_fs w) p @ data)) (w_fs w) \<and> quietly w w'"
  by (simp add: write_fd_def Let_def quiet_def quietly_def)

lemma write_returns:
  assumes "quiet w" "plain_path p" "p \<noteq> []" "dirs_to (w_fs w) (butlast p)" "node_at (w_fs w) p = None"
  shows "\<exists>w'. write_new_file p data w = (Inr (), w') \<and> node_at (w_fs w') p = Some (File data) \<and>
    same_nodes {p} (w_fs w) (w_fs w') \<and> quietly w w'"
proof -
  have plain: "plain_path (butlast p)" using assms(2) by (auto dest: in_set_butlastD)
  obtain w1 where w1: "mkdir_parents (butlast p) w = (Inr (), w1)" "w_fs w1 = w_fs w" "quietly w w1"
    using mkdir_returns [OF assms(1) plain assms(4)] by blast
  have "node_at (w_fs w1) (butlast p) = Some Dir" using assms(4) w1(2) by (simp add: dirs_to_def)
  then have "\<exists>w2. open_new p w1 = (Inr p, w2) \<and> w_fs w2 = fs_put p (File []) (w_fs w1) \<and> quietly w1 w2"
    unfolding open_new_def by (intro sys_returns) (use assms(2,5) w1 in \<open>simp_all add: quietly_def\<close>)
  then obtain w2 where w2: "open_new p w1 = (Inr p, w2)" "w_fs w2 = fs_put p (File []) (w_fs w1)" "quietly w1 w2"
    by blast
  obtain w3 where w3: "write_fd p data w2 = (Inr (), w3)" "w_fs w3 = fs_put p (File (contents (w_fs w2) p @ data)) (w_fs w2)" "quietly w2 w3"
    using write_fd_returns [of w2 p data, OF _ assms(3)] w2(3) by (auto simp: quietly_def)
  obtain w4 where w4: "fsync_fd w3 = (Inr (), w4)" "w_fs w4 = w_fs w3" "quietly w3 w4"
    using sys_returns [of w3 "\<lambda>fs. Inr ((), fs)"] w3(3) by (auto simp: fsync_fd_def quietly_def)
  have "node_at (w_fs w4) q = (if q = p then Some (File data) else node_at (w_fs w) q)" for q
    using w1(2) w2(2) w3(2) w4(2) by (simp add: node_at_put [OF assms(3)] contents_def)
  moreover have "write_new_file p data w = (Inr (), w4)"
    using w1(1) w2(1) w3(1) w4(1) by (simp add: write_new_file_def)
  moreover have "quietly w w4" using w1(3) w2(3) w3(3) w4(3) quietly_trans by metis
  ultimately show ?thesis by (auto simp: same_nodes_def)
qed

lemma fsync_returns:
  assumes "quiet w" "path_exists (w_fs w) p"
  shows "\<exists>w'. fsync_dir p w = (Inr (), w') \<and> w_fs w' = w_fs w \<and> quietly w w'"
proof -
  have "\<exists>v. sys (\<lambda>fs. if path_exists fs p then Inr ((), fs) else Inl (StdError ''FileNotFoundError'')) w = (Inr (), v) \<and>
    w_fs v = w_fs w \<and> quietly w v"
    by (intro sys_returns assms(1)) (use assms(2) in simp)
  then obtain v where v: "sys (\<lambda>fs. if path_exists fs p then Inr ((), fs) else Inl (StdError ''FileNotFoundError'')) w = (Inr (), v)"
    "w_fs v = w_fs w" "quietly w v"
    by blast
  then obtain u where u: "fsync_fd v = (Inr (), u)" "w_fs u = w_fs v" "quietly v u"
    using sys_returns [of v "\<lambda>fs. Inr ((), fs)"] by (auto simp: fsync_fd_def quietly_def)
  from v u show ?thesis by (auto simp: fsync_dir_def intro: quietly_trans)
qed

lemma replace_returns:
  assumes "quiet w" "plain_path s" "plain_path d" "apart s d" "node_at (w_fs w) s = Some n"
    and "node_at (w_fs w) (butlast d) = Some Dir"
    and "node_at (w_fs w) d = None \<or> (\<exists>a b. n = File a \<and> node_at (w_fs w) d = Some (File b))"
  shows "\<exists>w'. os_replace s d w = (Inr (), w') \<and> w_fs w' = fs_move s d (w_fs w) \<and> quietly w w'"
proof -
  have "s \<noteq> d" using assms(4) by (auto simp: apart_def)
  then show ?thesis unfolding os_replace_def
    by (intro sys_returns assms(1)) (use assms in \<open>auto simp: apart_def split: node.splits option.splits\<close>)
qed

lemma moved_nodes:
  assumes "apart s d"
  shows "node_at (fs_move s d fs) (d @ x) = (if s @ x = [] then None else node_at fs (s @ x))"
    "\<not> within s q \<Longrightarrow> \<not> within d q \<Longrightarrow> node_at (fs_move s d fs) q = node_at fs q"
proof -
  have ne: "s \<noteq> []" using assms by (auto simp: apart_def within_def)
  have "node_at (fs_move s d fs) (d @ x) = map_of fs (s @ x)"
    using assms by (simp add: node_at_move apart_def)
  then show "node_at (fs_move s d fs) (d @ x) = (if s @ x = [] then None else node_at fs (s @ x))"
    using ne by (simp add: node_at_def)
  show "\<not> within s q \<Longrightarrow> \<not> within d q \<Longrightarrow> node_at (fs_move s d fs) q = node_at fs q"
    using assms by (simp add: node_at_move apart_def)
qed

subsection \<open>Publication\<close>

text \<open>The store's directories are there, and neither the names it draws nor the places it fills are taken.\<close>

definition store_ready :: "generation_store \<Rightarrow> string \<Rightarrow> world \<Rightarrow> bool" where
  "store_ready g c w \<longleftrightarrow>
     dirs_to (w_fs w) (generations_dir g) \<and> dirs_to (w_fs w) (staged_at g c) \<and>
     node_at (w_fs w) (published_at g c) = None \<and> node_at (w_fs w) (staged_at g c @ [''promotion.json'']) = None \<and>
     node_at (w_fs w) (head_path g) \<noteq> Some Dir \<and> (\<forall>n. node_at (w_fs w) (head_temp g (w_uuid w n)) = None)"

lemma dirs_to_within: "dirs_to fs p \<Longrightarrow> within q p \<Longrightarrow> dirs_to fs q"
  unfolding dirs_to_def using within_trans by blast

lemma dirs_to_self: "dirs_to fs p \<Longrightarrow> node_at fs p = Some Dir"
  by (simp add: dirs_to_def)

lemma path_exists_node: "plain_path p \<Longrightarrow> node_at fs p = Some n \<Longrightarrow> path_exists fs p"
  by (simp add: path_exists_def)

lemma head_swap_returns:
  assumes "quiet w" "plain_store g" "plain_uuids w" "dirs_to (w_fs w) (gs_root g)"
    and "\<forall>n. node_at (w_fs w) (head_temp g (w_uuid w n)) = None" "node_at (w_fs w) (head_path g) \<noteq> Some Dir"
  shows "\<exists>w'. atomic_write_head g h w = (Inr (), w') \<and> quietly w w'"
proof -
  let ?u = "w_uuid w (w_tick w)" and ?v = "w\<lparr>w_tick := Suc (w_tick w)\<rparr>"
  let ?s = "head_temp g ?u" and ?d = "head_path g"
  have u: "plain_text ?u" using assms(3) by (simp add: plain_uuids_def plain_text_def)
  have place: "subpath (gs_root g) (''.HEAD.tmp-'' @ ?u) = ?s"
    using subpath_plain [OF temp_name_plain(2)] u by (simp add: plain_text_def head_temp_def)
  have plain: "plain_path ?s" "plain_path ?d" "plain_path (gs_root g)" using assms(2) by (auto simp: plain_store_def place_defs)
  have parent: "butlast ?s = gs_root g" "butlast ?d = gs_root g" by (simp_all add: head_temp_def head_path_def)
  have lengths: "?s \<noteq> []" "gs_root g \<noteq> ?s" "?d \<noteq> ?s" "\<not> within ?s (gs_root g)" "\<not> within ?d (gs_root g)"
    by (simp_all add: head_temp_def head_path_def within_def)
  have "quiet ?v" using assms(1) by (simp add: quiet_def)
  then obtain w1 where w1: "write_new_file ?s (head_bytes h) ?v = (Inr (), w1)" "node_at (w_fs w1) ?s = Some (File (head_bytes h))"
    "same_nodes {?s} (w_fs ?v) (w_fs w1)" "quietly ?v w1"
    using write_returns [of ?v ?s "head_bytes h"] plain(1) lengths(1) parent(1) assms(4,5) by auto
  have at: "node_at (w_fs w1) (gs_root g) = Some Dir" "node_at (w_fs w1) ?d = node_at (w_fs w) ?d"
    using w1(3) lengths(2,3) dirs_to_self [OF assms(4)] by (simp_all add: same_nodes_def)
  have "node_at (w_fs w1) ?d = None \<or> (\<exists>a b. File (head_bytes h) = File a \<and> node_at (w_fs w1) ?d = Some (File b))"
    using assms(6) at(2) by (cases "node_at (w_fs w) ?d") (auto, metis node.exhaust)
  moreover have "quiet w1" using w1(4) by (simp add: quietly_def)
  ultimately obtain w2 where w2: "os_replace ?s ?d w1 = (Inr (), w2)" "w_fs w2 = fs_move ?s ?d (w_fs w1)" "quietly w1 w2"
    using replace_returns [of w1 ?s ?d] plain places_apart(6) w1(2) at(1) parent(2) by metis
  have "node_at (w_fs w2) (gs_root g) = Some Dir"
    unfolding w2(2) using moved_nodes(2) [OF places_apart(6) lengths(4,5)] at(1) by simp
  moreover have "quiet w2" using w2(3) by (simp add: quietly_def)
  ultimately obtain w3 where "fsync_dir (gs_root g) w2 = (Inr (), w3)" "quietly w2 w3"
    using fsync_returns [of w2] path_exists_node [OF plain(3)] by blast
  then show ?thesis
    using w1(1,4) w2(1,3)
    by (simp add: atomic_write_head_def Let_def place uuid4_def bindI_def quietly_def del: append.simps)
qed

lemma install_returns:
  assumes quiet: "quiet w" and plain: "plain_store g" "plain_name c" "plain_uuids w" and ready: "store_ready g c w"
    and staged: "sg_commit_id staged = c" "staged_post_init staged = Inr staged" "1 \<le> gm_seq (sg_manifest staged)"
  shows "\<exists>h w'. install_generation g staged e (staged_at g c) (published_at g c) w = (Inr h, w') \<and> quietly w w'"
proof -
  let ?src = "staged_at g c" and ?dst = "published_at g c" and ?gens = "generations_dir g"
  let ?p = "?src @ [''promotion.json'']"
  from ready have dirs: "dirs_to (w_fs w) ?gens" "dirs_to (w_fs w) ?src" "node_at (w_fs w) ?dst = None" "node_at (w_fs w) ?p = None"
    and head: "node_at (w_fs w) (head_path g) \<noteq> Some Dir" "\<And>n. node_at (w_fs w) (head_temp g (w_uuid w n)) = None"
    by (simp_all add: store_ready_def)
  note places = plain_places [OF plain(1,2)]
  have apart: "apart ?src ?dst" using places_apart(3) [of g c c] by (simp add: apart_def)
  have root: "plain_path (gs_root g)" using plain(1) by (simp add: plain_store_def)
  have fields: "\<not> blank c" "hex64 (sg_manifest_hash staged)"
    using staged(1,2) by (auto simp: staged_post_init_def result_simps manifest_sha256_def)
  obtain w1 where w1: "write_new_file ?p (envelope_bytes e) w = (Inr (), w1)" "node_at (w_fs w1) ?p = Some (File (envelope_bytes e))"
    "same_nodes {?p} (w_fs w) (w_fs w1)" "quietly w w1"
    using write_returns [OF quiet, of ?p "envelope_bytes e"] places(4) dirs by auto
  have other: "node_at (w_fs w1) q = node_at (w_fs w) q" if "q \<noteq> ?p" for q
    using w1(3) that by (simp add: same_nodes_def)
  have src: "node_at (w_fs w1) ?src = Some Dir" using dirs_to_self [OF dirs(2)] other by simp
  obtain w2 where w2: "fsync_dir ?src w1 = (Inr (), w2)" "w_fs w2 = w_fs w1" "quietly w1 w2"
    using fsync_returns [OF _ path_exists_node [OF places(4) src]] w1(4) by (auto simp: quietly_def)
  have up: "butlast ?dst = ?gens" "?gens \<noteq> ?p" "?dst \<noteq> ?p" by (simp_all add: place_defs butlast_append)
  have "node_at (w_fs w2) ?src = Some Dir" "node_at (w_fs w2) (butlast ?dst) = Some Dir" "node_at (w_fs w2) ?dst = None" "quiet w2"
    using src other up dirs(3) dirs_to_self [OF dirs(1)] w2(2,3) by (simp_all add: quietly_def)
  then obtain w3 where w3: "os_replace ?src ?dst w2 = (Inr (), w3)" "w_fs w3 = fs_move ?src ?dst (w_fs w2)" "quietly w2 w3"
    using replace_returns [of w2 ?src ?dst] places(4,5) apart by metis
  have kept: "node_at (w_fs w3) q = node_at (w_fs w) q" if "\<not> within ?src q" "\<not> within ?dst q" for q
    using moved_nodes(2) [OF apart that] other [of q] that(1) w3(2) w2(2) within_append by metis
  have out: "\<not> within ?src ?gens" "\<not> within ?dst ?gens" "within (gs_root g) ?gens" "\<not> within ?src (gs_root g)" "\<not> within ?dst (gs_root g)"
    "\<not> within ?src (head_path g)" "\<not> within ?dst (head_path g)" "\<not> within ?src (head_temp g u)" "\<not> within ?dst (head_temp g u)" for u
    by (simp_all add: place_defs within_def)
  have gens: "node_at (w_fs w3) ?gens = Some Dir" using kept [OF out(1,2)] dirs_to_self [OF dirs(1)] by simp
  have "quiet w3" using w3(3) by (simp add: quietly_def)
  then obtain w4 where w4: "fsync_dir ?gens w3 = (Inr (), w4)" "w_fs w4 = w_fs w3" "quietly w3 w4"
    using fsync_returns [OF _ path_exists_node [OF places(2) gens]] by blast
  have "dirs_to (w_fs w4) (gs_root g)"
    unfolding dirs_to_def
  proof (intro allI impI)
    fix q
    assume q: "within q (gs_root g)"
    then have "\<not> within ?src q" "\<not> within ?dst q" using out(4,5) within_trans by blast+
    moreover have "node_at (w_fs w) q = Some Dir" using q dirs(1) out(3) within_trans unfolding dirs_to_def by blast
    ultimately show "node_at (w_fs w4) q = Some Dir" using kept w4(2) by simp
  qed
  moreover have env: "quiet w4" "w_uuid w4 = w_uuid w" using w1(4) w2(3) w3(3) w4(3) by (simp_all add: quietly_def)
  moreover have "plain_uuids w4" using plain(3) env(2) by (simp add: plain_uuids_def)
  moreover have "\<forall>n. node_at (w_fs w4) (head_temp g (w_uuid w4 n)) = None" "node_at (w_fs w4) (head_path g) \<noteq> Some Dir"
    using kept [OF out(8,9)] kept [OF out(6,7)] head w4(2) env(2) by simp_all
  moreover define h where "h = \<lparr>hp_commit_id = sg_commit_id staged, hp_seq = gm_seq (sg_manifest staged),
        hp_manifest_hash = lower (sg_manifest_hash staged), hp_promotion_hash = envelope_sha256 e\<rparr>"
  ultimately obtain w5 where w5: "atomic_write_head g h w4 = (Inr (), w5)" "quietly w4 w5"
    using head_swap_returns [of w4 g h] plain(1) by blast
  have "head_post_init \<lparr>hp_commit_id = sg_commit_id staged, hp_seq = gm_seq (sg_manifest staged),
        hp_manifest_hash = sg_manifest_hash staged, hp_promotion_hash = envelope_sha256 e\<rparr> = Inr h"
    unfolding head_post_init_Inr h_def using fields staged(1,3) by (simp add: envelope_sha256_def)
  then have "install_generation g staged e ?src ?dst w = (Inr h, w5)"
    using w1(1) w2(1) w3(1) w4(1) w5(1) by (simp add: install_generation_def)
  moreover have "quietly w w5" using env w5(2) by (simp add: quietly_def)
  ultimately show ?thesis by blast
qed

text \<open>Every text a record of the publication requires is there, and the clock is zoned.\<close>

definition complete_texts :: "generation_store \<Rightarrow> preflight_report \<Rightarrow> promotion_authorization \<Rightarrow> bool" where
  "complete_texts g rep auth \<longleftrightarrow>
     list_all (\<lambda>t. \<not> blank t) [pa_authorization_id auth, pa_policy_version auth, rc_receipt_id (pr_receipt rep),
       gs_policy_version g, gs_actor g] \<and>
     (\<forall>n. aware (gs_clock g n) \<and> \<not> blank (gs_id g ''receipt'' n))"

lemma entry_hash: "manifest_ok m \<Longrightarrow> e \<in> set (gm_payloads m) \<Longrightarrow> hex64 (pe_sha256 e)"
  by (auto simp: manifest_ok_def list_all_iff entry_ok_def payload_entry_post_init_def result_simps)

lemma quietly_step: "yields fs m x \<Longrightarrow> env_kept m \<Longrightarrow> quiet w \<Longrightarrow> w_fs w = fs \<Longrightarrow> w_uuid w = u \<Longrightarrow>
    \<exists>w'. m w = (Inr x, w') \<and> quiet w' \<and> w_fs w' = fs \<and> w_uuid w' = u"
  unfolding yields_def using env_keptD by metis

lemma publish_returns:
  assumes valid: "validate_publish_bindings staged c rep auth scope d = Inr ()" and ok: "publishable g staged rep auth"
    and cur: "serves g cur (w_fs w)" "hp_commit_id cur = gm_parent_commit (sg_manifest staged)" "gm_seq (sg_manifest staged) = hp_seq cur + 1"
    and cand: "candidate_in (w_fs w) (staged_at g (sg_commit_id staged)) (sg_manifest staged) (sg_manifest_hash staged)"
    and world: "store_ready g (sg_commit_id staged) w" "quiet w" "plain_uuids w" "complete_texts g rep auth"
  shows "\<exists>p w'. publish_generation g staged c rep auth scope d w = (Inr p, w') \<and> quietly w w'"
proof -
  let ?m = "sg_manifest staged" and ?k = "sg_commit_id staged" and ?fs = "w_fs w"
  from ok have plain: "plain_store g" "plain_name ?k" "plain_name (gm_parent_commit ?m)" and staged: "staged_post_init staged = Inr staged"
    and m: "manifest_ok ?m" by (simp_all add: publishable_def)
  have k: "?k = gm_commit_id ?m" "hex64 (sg_manifest_hash staged)"
    using staged by (auto simp: staged_post_init_def result_simps manifest_sha256_def)
  have fields: "\<not> blank ?k" "\<not> blank (gm_parent_commit ?m)" "\<not> blank (gm_case_id ?m)" "\<not> blank (gm_authority_decision_id ?m)" "1 \<le> gm_seq ?m"
    using m k by (auto simp: manifest_ok_def manifest_post_init_Inr)
  have inside: "list_all entry_inside (gm_payloads ?m)"
    using m by (auto simp: manifest_ok_def list_all_iff entry_ok_inside)
  have texts: "\<not> blank (pa_authorization_id auth)" "\<not> blank (pa_policy_version auth)" "\<not> blank (rc_receipt_id (pr_receipt rep))"
    "\<not> blank (gs_policy_version g)" "\<not> blank (gs_actor g)" "aware (gs_clock g n)" "\<not> blank (gs_id g ''receipt'' n)" for n
    using world(4) by (simp_all add: complete_texts_def)
  have curname: "plain_name (hp_commit_id cur)" using plain(3) cur(2) by simp
  from cur(1) obtain pm where gen: "generation_in g ?fs (hp_commit_id cur) (Some (hp_manifest_hash cur)) (Some (hp_promotion_hash cur)) pm"
    by (auto simp: serves_def)
  obtain w1 where w1: "read_head g w = (Inr (Some cur), w1)" "quiet w1" "w_fs w1 = ?fs" "w_uuid w1 = w_uuid w"
    using quietly_step [OF serves_yields(1) [OF cur(1) plain(1) curname] readers_env(1) world(2) refl refl] by blast
  obtain w2 where w2: "verify_generation g (hp_commit_id cur) (Some (hp_manifest_hash cur)) (Some (hp_promotion_hash cur)) w1 = (Inr pm, w2)"
    "quiet w2" "w_fs w2 = ?fs" "w_uuid w2 = w_uuid w"
    using quietly_step [OF serves_yields(2) [OF cur(1) plain(1) curname gen] readers_env(4) w1(2,3,4)] by blast
  obtain w3 where w3: "verify_candidate_directory (staged_at g ?k) ?m (sg_manifest_hash staged) w2 = (Inr (), w3)"
    "quiet w3" "w_fs w3 = ?fs" "w_uuid w3 = w_uuid w"
    using quietly_step [OF yields_candidate [OF cand inside plain_places(4) [OF plain(1,2)]] readers_env(2) w2(2,3,4)] by blast
  let ?w4 = "w3\<lparr>w_tick := Suc (w_tick w3)\<rparr>"
  define e where "e = \<lparr>pv_commit_id = ?k, pv_case_id = gm_case_id ?m, pv_manifest_hash = lower (sg_manifest_hash staged),
        pv_authority_decision_id = gm_authority_decision_id ?m,
        pv_authorization_id = pa_authorization_id auth, pv_authorization_policy = pa_policy_version auth,
        pv_preflight_receipt_id = rc_receipt_id (pr_receipt rep), pv_policy_version = gs_policy_version g,
        pv_published_at = gs_clock g (w_tick w3)\<rparr>"
  have e: "envelope_post_init \<lparr>pv_commit_id = ?k, pv_case_id = gm_case_id ?m, pv_manifest_hash = sg_manifest_hash staged,
        pv_authority_decision_id = gm_authority_decision_id ?m,
        pv_authorization_id = pa_authorization_id auth, pv_authorization_policy = pa_policy_version auth,
        pv_preflight_receipt_id = rc_receipt_id (pr_receipt rep), pv_policy_version = gs_policy_version g,
        pv_published_at = gs_clock g (w_tick w3)\<rparr> = Inr e"
    unfolding e_def using fields texts k(2) by (simp add: envelope_post_init_def result_simps)
  have "store_ready g ?k ?w4" "quiet ?w4" "plain_uuids ?w4"
    using world(1,3) w3(2,3,4) by (simp_all add: store_ready_def quiet_def plain_uuids_def)
  then obtain h w5 where w5: "install_generation g staged e (staged_at g ?k) (published_at g ?k) ?w4 = (Inr h, w5)" "quietly ?w4 w5"
    using install_returns [OF _ plain(1,2), of ?w4 staged e] staged fields(5) by blast
  have receipt: "\<exists>r. receipt_post_init
       \<lparr>rc_receipt_id = gs_id g ''receipt'' n, rc_operation = ''PERSIST_PUBLISH_GENERATION'',
        rc_input_commit = Some (gm_parent_commit ?m),
        rc_input_hashes = sg_manifest_hash staged # envelope_sha256 e # map pe_sha256 (gm_payloads ?m),
        rc_output_commit = Some ?k,
        rc_output_hashes = [sg_manifest_hash staged, envelope_sha256 e],
        rc_policy_version = gs_policy_version g, rc_actor = gs_actor g, rc_timestamp = gs_clock g n',
        rc_result = ''PUBLISHED:'' @ ?k\<rparr> = Inr r" for n n'
    unfolding receipt_post_init_Inr using fields texts k(2) entry_hash [OF m]
    by (simp add: envelope_sha256_def list_all_iff)
  have places: "subpath (staging_dir g) ?k = staged_at g ?k" "subpath (generations_dir g) ?k = published_at g ?k"
    using subpath_places [OF plain(2), of "[]"] by simp_all
  have tests: "is_dir ?fs (staged_at g ?k)" "\<not> path_exists ?fs (published_at g ?k)"
    using world(1) plain_places(4,5) [OF plain(1,2)] dirs_to_self by (auto simp: store_ready_def is_dir_def path_exists_def)
  obtain r where r: "receipt_post_init
       \<lparr>rc_receipt_id = gs_id g ''receipt'' (w_tick w5), rc_operation = ''PERSIST_PUBLISH_GENERATION'',
        rc_input_commit = Some (gm_parent_commit ?m),
        rc_input_hashes = sg_manifest_hash staged # envelope_sha256 e # map pe_sha256 (gm_payloads ?m),
        rc_output_commit = Some ?k,
        rc_output_hashes = [sg_manifest_hash staged, envelope_sha256 e],
        rc_policy_version = gs_policy_version g, rc_actor = gs_actor g, rc_timestamp = gs_clock g (Suc (w_tick w5)),
        rc_result = ''PUBLISHED:'' @ ?k\<rparr> = Inr r" using receipt by blast
  have "publish_generation g staged c rep auth scope d w = (Inr \<lparr>pb_head = h, pb_manifest = ?m, pb_promotion = e, pb_receipt = r\<rparr>,
      w5\<lparr>w_tick := Suc (Suc (w_tick w5))\<rparr>)"
    unfolding publish_generation_def Let_def places
    using w1 w2 w3 w5 tests e r valid cur(2,3)
    by (simp add: bindI_def call_def wrap_publish_error_def)
  moreover have "quietly w (w5\<lparr>w_tick := Suc (Suc (w_tick w5))\<rparr>)" using w5(2) w3(4) by (simp add: quietly_def quiet_def)
  ultimately show ?thesis by blast
qed

text \<open>C17. Publication is totally correct: in a world without failures, when the store serves the parent the manifest
  continues, the staged directory holds the candidate, the evidence is valid and no place is taken, the call
  returns, and from then on HEAD reads as the published pointer and the generation it names passes the verifier.\<close>

theorem publication_returns:
  assumes "validate_publish_bindings staged c rep auth scope d = Inr ()" "publishable g staged rep auth"
    and "serves g cur (w_fs w)" "hp_commit_id cur = gm_parent_commit (sg_manifest staged)" "gm_seq (sg_manifest staged) = hp_seq cur + 1"
    and "candidate_in (w_fs w) (staged_at g (sg_commit_id staged)) (sg_manifest staged) (sg_manifest_hash staged)"
    and "store_ready g (sg_commit_id staged) w" "quiet w" "plain_uuids w" "complete_texts g rep auth"
    and "manifest_staged g staged (w_fs w)"
  shows "\<exists>p w'. publish_generation g staged c rep auth scope d w = (Inr p, w') \<and> hp_commit_id (pb_head p) = sg_commit_id staged \<and>
    yields (w_fs w') (read_head g) (Some (pb_head p)) \<and>
    yields (w_fs w') (verify_generation g (sg_commit_id staged) (Some (hp_manifest_hash (pb_head p))) (Some (hp_promotion_hash (pb_head p)))) (sg_manifest staged)"
proof -
  from publish_returns [OF assms(1-10)] obtain p w' where run: "publish_generation g staged c rep auth scope d w = (Inr p, w')"
    by blast
  have names: "plain_store g" "plain_name (sg_commit_id staged)" using assms(2) by (simp_all add: publishable_def)
  from outcomeD [OF outcome_published [OF assms(2,11)] refl plain_uuids_text [OF assms(9)] run]
  have "publish_outcome g staged (w_fs w) (Inr p) (w_fs w')" by simp
  then have p: "serves g (pb_head p) (w_fs w')" "hp_commit_id (pb_head p) = sg_commit_id staged"
    "generation_in g (w_fs w') (sg_commit_id staged) (Some (hp_manifest_hash (pb_head p)))
      (Some (hp_promotion_hash (pb_head p))) (sg_manifest staged)"
    by (simp_all add: publish_outcome_def)
  from serves_yields [OF p(1) names(1)] p names(2) run show ?thesis by auto
qed

lemma dirs_to_take: "dirs_to fs p \<longleftrightarrow> list_all (\<lambda>n. node_at fs (take n p) = Some Dir) [0..<Suc (length p)]"
proof -
  have "within q p \<longleftrightarrow> (\<exists>n \<in> set [0..<Suc (length p)]. q = take n p)" for q
  proof
    assume "within q p"
    then have "q = take (length q) p" "length q \<le> length p" by (auto simp: within_iff)
    then show "\<exists>n \<in> set [0..<Suc (length p)]. q = take n p" by (intro bexI [of _ "length q"]) auto
  qed (auto simp: within_def min_absorb2)
  then show ?thesis by (simp only: dirs_to_def list_all_iff) blast
qed

lemma example_ready: "store_ready example_store ''c2'' (example_world example_store_disk)" "complete_texts example_store example_report example_promotion"
proof -
  have "[''store'', ''staging'', ''c2''] = staged_at example_store ''c2''" "[''store'', ''generations''] = generations_dir example_store"
    by (simp_all add: staged_at_def staging_dir_def generations_dir_def example_objects)
  have dirs: "dirs_to example_store_disk [''store'', ''staging'', ''c2'']" "dirs_to example_store_disk [''store'', ''generations'']"
    by (simp_all add: dirs_to_take node_at_def example_store_disk_def)
  show "store_ready example_store ''c2'' (example_world example_store_disk)"
    using dirs by (simp add: store_ready_def place_defs example_objects node_at_def example_store_disk_def)
  show "complete_texts example_store example_report example_promotion"
    by (simp add: complete_texts_def example_objects)
qed

theorem publication_returns_witness:
  "\<exists>p w'. publish_generation example_store example_staged example_snapshot example_report example_promotion
     example_case_scope example_crossing (example_world example_store_disk) = (Inr p, w') \<and>
     yields (w_fs w') (read_head example_store) (Some (pb_head p))"
proof -
  let ?w = "example_world example_store_disk"
  have "serves example_store example_head (w_fs ?w)"
    "hp_commit_id example_head = gm_parent_commit (sg_manifest example_staged)"
    "gm_seq (sg_manifest example_staged) = hp_seq example_head + 1"
    "candidate_in (w_fs ?w) (staged_at example_store (sg_commit_id example_staged)) (sg_manifest example_staged) (sg_manifest_hash example_staged)"
    "store_ready example_store (sg_commit_id example_staged) ?w" "quiet ?w" "plain_uuids ?w"
    using example_served example_candidate_in example_ready(1) example_store_plain(4)
    by (simp_all add: example_fields example_objects quiet_def manifest_sha256_def)
  from publication_returns [OF example_valid example_publishable(1) this example_ready(2)] example_publishable(2) show ?thesis
    unfolding example_world_simps by blast
qed

end
