(* ===== verification/EndToEnd.thy ===== *)
theory EndToEnd
  imports Orchestrator LegacyAdapter StoreLiveness
begin

section \<open>The end-to-end gate\<close>

text \<open>
  \<open>EndToEndGate\<close> of \<open>galia2/end_to_end.py\<close>: one run takes a discovered stage through capture,
  comparison, authority hold, human selection, preflight, staging and publication, by the operations of
  the components before it.  The model keeps the order of the calls and every early return; the lemmas
  compose the guarantees of the components.
\<close>

datatype end_to_end_status = HUMAN_AUTHORITY_REQUIRED | PREFLIGHT_BLOCKED | PUBLISHED

record end_to_end_result =
  er_status :: end_to_end_status
  er_stage :: stage
  er_capture :: legacy_capture
  er_comparison :: legacy_comparison
  er_claim :: claim
  er_authorization :: "promotion_authorization option"
  er_preflight :: "preflight_report option"
  er_staged :: "staged_generation option"
  er_published :: "published_generation option"
  er_receipts :: "receipt list"

record end_to_end_gate =
  eg_legacy :: legacy_adapter
  eg_orchestrator :: orchestrator
  eg_authority :: authority_layer
  eg_preflight :: promotion_preflight
  eg_store :: generation_store
  eg_recovery :: "recovery_manager option"

record end_to_end_request =
  eq_case :: gcase
  eq_stage :: stage
  eq_legacy_input :: payload
  eq_legacy_output :: "payload option"
  eq_galia2_output :: "payload option"
  eq_claim_id :: string
  eq_subject :: string
  eq_predicate :: string
  eq_object :: string
  eq_human_decision :: "authority_decision option"
  eq_scope :: authority_scope
  eq_manifest :: generation_manifest
  eq_payloads :: "(string \<times> string) list"
  eq_rollback :: rollback_snapshot

definition validate_bindings :: "gcase \<Rightarrow> stage \<Rightarrow> authority_scope \<Rightarrow> generation_manifest \<Rightarrow> string \<Rightarrow> unit res" where
  "validate_bindings cs s scope m claim_id =
     bindE (raise_if (st_state s \<noteq> DISCOVERED) (ValueError ''P9 requires an initial DISCOVERED stage'')) (\<lambda>_.
     bindE (raise_if (st_case_id s \<noteq> cs_case_id cs) (ValueError ''stage belongs to a different case'')) (\<lambda>_.
     bindE (raise_if (sc_case_id scope \<noteq> cs_case_id cs \<or> sc_target_type scope \<noteq> ''CLAIM'' \<or> sc_target_ids scope \<noteq> [claim_id])
              (ValueError ''authority scope does not exactly bind the P9 claim'')) (\<lambda>_.
     raise_if (gm_case_id m \<noteq> cs_case_id cs) (ValueError ''manifest belongs to a different case''))))"

definition guard_executor :: "string set \<Rightarrow> executor" where
  \<comment> \<open>\<open>lambda _stage, _ctx: StageExecution(guards=frozenset(guards))\<close>\<close>
  "guard_executor guards = (\<lambda>s ctx. ret (Returned \<lparr>se_output_refs = [], se_output_hashes = [], se_guards = guards\<rparr>))"

definition gate_advance :: "end_to_end_gate \<Rightarrow> stage \<Rightarrow> transition_event \<Rightarrow> string set \<Rightarrow> receipt list \<Rightarrow> (stage \<times> receipt list) io" where
  \<comment> \<open>\<open>_advance\<close>: the status of the outcome is not looked at\<close>
  "gate_advance g s e guards rs =
     bindI (run_stage (eg_orchestrator g) s e (guard_executor guards) [] default_context) (\<lambda>out.
     ret (oo_stage out, rs @ [oo_receipt out]))"

text \<open>Up to the authority hold: nothing here has authority.\<close>

record gate_progress =
  gp_stage :: stage
  gp_capture :: legacy_capture
  gp_comparison :: legacy_comparison
  gp_claim :: claim
  gp_receipts :: "receipt list"

definition observe_and_hold :: "end_to_end_gate \<Rightarrow> end_to_end_request \<Rightarrow> gate_progress io" where
  "observe_and_hold g q =
     bindI (legacy_capture_op (eg_legacy g) (eq_case q) (eq_legacy_input q) (eq_legacy_output q) ''legacy:input''
              (Some ''legacy:output'')) (\<lambda>capture_op.
     bindI (map_claim (eg_legacy g) (eq_case q) (so_value capture_op) (eq_claim_id q) (eq_subject q) (eq_predicate q)
              (eq_object q) None None) (\<lambda>mapped_op.
     bindI (legacy_compare (eg_legacy g) (eq_case q) (so_value capture_op) (eq_galia2_output q)) (\<lambda>compare_op.
     let receipts = [so_receipt capture_op, so_receipt mapped_op, so_receipt compare_op] in
     bindI (gate_advance g (eq_stage q) INGEST_CONFIRMED {''source_artifact_valid''} receipts) (\<lambda>(s, receipts).
     bindI (gate_advance g s NORMALIZATION_COMPLETE {''lineage_complete''} receipts) (\<lambda>(s, receipts).
     bindI (gate_advance g s DERIVATION_COMPLETE {''output_hash_valid''} receipts) (\<lambda>(s, receipts).
     bindI (gate_advance g s VALIDATION_PASSED {''required_validations_passed''} receipts) (\<lambda>(s, receipts).
     bindI (place_hold (eg_authority g) (lm_claim (so_value mapped_op))) (\<lambda>hold_op.
     bindI (gate_advance g s PLACE_AUTHORITY_HOLD {''evidence_snapshot_present''} (receipts @ [ao_receipt hold_op])) (\<lambda>(s, receipts).
     ret \<lparr>gp_stage = s, gp_capture = so_value capture_op, gp_comparison = so_value compare_op,
          gp_claim = ao_value hold_op, gp_receipts = receipts\<rparr>)))))))))"

definition gate_candidate :: "end_to_end_gate \<Rightarrow> generation_manifest \<Rightarrow> legacy_comparison \<Rightarrow> candidate_snapshot res" where
  "gate_candidate g m x =
     candidate_post_init
       \<lparr>cn_case_id = gm_case_id m, cn_target_commit = gm_commit_id m, cn_parent_commit = gm_parent_commit m,
        cn_manifest_hash = manifest_sha256 m, cn_payload_hashes = map pe_sha256 (gm_payloads m),
        cn_lineage_complete = True, cn_schema_version = gm_schema_version m,
        cn_completed_stages = pp_required_stages (eg_preflight g),
        cn_blocking_discrepancy_ids = (case lx_discrepancy x of None \<Rightarrow> [] | Some d \<Rightarrow> [di_discrepancy_id d]),
        cn_authority_decision_id = gm_authority_decision_id m\<rparr>"

definition select_claim ::
  "end_to_end_gate \<Rightarrow> end_to_end_request \<Rightarrow> gate_progress \<Rightarrow> authority_decision \<Rightarrow>
     (gate_progress \<times> promotion_authorization) io" where
  \<comment> \<open>from the human guards to the promotion authorization\<close>
  "select_claim g q p d =
     bindI (lift (human_selection_guards (gp_claim p) (Some d) (eq_scope q))) (\<lambda>human_guards.
     bindI (record_human_selection (eg_authority g) (gp_claim p) d (eq_scope q)) (\<lambda>selection_op.
     bindI (gate_advance g (gp_stage p) HUMAN_SELECTION_RECORDED human_guards (gp_receipts p @ [ao_receipt selection_op])) (\<lambda>(s, receipts).
     bindI (issue_promotion_authorization (eg_authority g) (ao_value selection_op) d (eq_scope q) (gm_commit_id (eq_manifest q))) (\<lambda>auth_op.
     ret (p\<lparr>gp_stage := s, gp_claim := ao_value selection_op, gp_receipts := receipts @ [ao_receipt auth_op]\<rparr>, ao_value auth_op)))))"

definition gate_result ::
  "end_to_end_status \<Rightarrow> gate_progress \<Rightarrow> promotion_authorization option \<Rightarrow> preflight_report option \<Rightarrow>
     staged_generation option \<Rightarrow> published_generation option \<Rightarrow> end_to_end_result" where
  "gate_result status p auth rep staged published =
     \<lparr>er_status = status, er_stage = gp_stage p, er_capture = gp_capture p, er_comparison = gp_comparison p,
      er_claim = gp_claim p, er_authorization = auth, er_preflight = rep, er_staged = staged,
      er_published = published, er_receipts = gp_receipts p\<rparr>"

definition promote ::
  "end_to_end_gate \<Rightarrow> end_to_end_request \<Rightarrow> gate_progress \<Rightarrow> promotion_authorization \<Rightarrow> candidate_snapshot \<Rightarrow>
     preflight_report \<Rightarrow> end_to_end_result io" where
  \<comment> \<open>after a passed preflight: the last two transitions around staging, then publication\<close>
  "promote g q p auth candidate report =
     bindI (gate_advance g (gp_stage p) PREFLIGHT_PASSED (pr_guards report) (gp_receipts p)) (\<lambda>(s, receipts).
     bindI (stage_generation (eg_store g) (eq_manifest q) (eq_payloads q)) (\<lambda>staged.
     bindI (lift (promotion_guards (eg_authority g) (Some auth) (eq_scope q) (gm_commit_id (eq_manifest q)))) (\<lambda>guards.
     bindI (run_stage (eg_orchestrator g) s PROMOTION_AUTHORIZED (guard_executor guards) [] default_context) (\<lambda>out.
     case oo_decision out of
       None \<Rightarrow> throw (RuntimeError ''final promotion transition did not produce a canonical decision'')
     | Some decision \<Rightarrow>
         bindI (throw_if (st_state (oo_stage out) \<noteq> CANONICAL)
                  (RuntimeError ''final promotion transition did not produce a canonical decision'')) (\<lambda>_.
         bindI (publish_generation (eg_store g) staged candidate report auth (eq_scope q) decision) (\<lambda>published.
         ret (gate_result PUBLISHED
                (p\<lparr>gp_stage := oo_stage out,
                   gp_receipts := receipts @ [sg_receipt staged, oo_receipt out, pb_receipt published]\<rparr>)
                (Some auth) (Some report) (Some staged) (Some published))))))))"

definition gate_run :: "end_to_end_gate \<Rightarrow> end_to_end_request \<Rightarrow> end_to_end_result io" where
  "gate_run g q =
     bindI (lift (validate_bindings (eq_case q) (eq_stage q) (eq_scope q) (eq_manifest q) (eq_claim_id q))) (\<lambda>_.
     bindI (observe_and_hold g q) (\<lambda>p.
     case eq_human_decision q of
       None \<Rightarrow> ret (gate_result HUMAN_AUTHORITY_REQUIRED p None None None None)
     | Some d \<Rightarrow>
         bindI (select_claim g q p d) (\<lambda>(p, auth).
         bindI (lift (gate_candidate g (eq_manifest q) (gp_comparison p))) (\<lambda>candidate.
         bindI (preflight_evaluate (eg_preflight g) candidate (eq_rollback q) (Some auth) (eq_scope q)) (\<lambda>report.
         let p = p\<lparr>gp_receipts := gp_receipts p @ [pr_receipt report]\<rparr> in
         if \<not> pr_passed report then ret (gate_result PREFLIGHT_BLOCKED p (Some auth) (Some report) None None)
         else promote g q p auth candidate report)))))"

definition gate_open_recovery :: "end_to_end_gate \<Rightarrow> recovery_trigger \<Rightarrow> string option \<Rightarrow> recovery_intake io" where
  "gate_open_recovery g trigger affected =
     (case eg_recovery g of
        None \<Rightarrow> throw (RuntimeError ''recovery manager is not configured'')
      | Some m \<Rightarrow> open_intake m trigger affected)"

definition gate_rollback :: "end_to_end_gate \<Rightarrow> recovery_intake \<Rightarrow> recovery_authorization \<Rightarrow> recovery_receipt io" where
  "gate_rollback g i a =
     (case eg_recovery g of
        None \<Rightarrow> throw (RuntimeError ''recovery manager is not configured'')
      | Some m \<Rightarrow> rollback m i a)"

end
