(* ===== verification/EndToEndSafety.thy ===== *)
theory EndToEndSafety
  imports EndToEnd
begin

section \<open>What an end-to-end run guarantees\<close>

text \<open>
  A run that publishes had a human SELECT decision bound to exactly this claim and scope, a passed
  preflight and a stage that went through every transition; a run that does not publish writes nothing;
  a run that is interrupted leaves a store that still serves.
\<close>

subsection \<open>Advancing\<close>

definition unblocked :: "stage \<Rightarrow> bool" where
  "unblocked s \<longleftrightarrow> st_dependencies s = [] \<and> st_blocking_holds s = []"

lemma guarded_stage_Inr:
  assumes "run_stage o' s e (guard_executor G) [] default_context w = (Inr out, w')"
  shows "if unblocked s
    then \<exists>d. evaluate_transition s e G = Inr d \<and> oo_decision out = Some d \<and>
           oo_stage out = s\<lparr>st_output_refs := [], st_state := td_to d\<rparr>
    else oo_stage out = s \<and> oo_decision out = None"
proof (cases "unblocked s")
  case True
  then have "advance_stage o' s e default_context \<lparr>se_output_refs = [], se_output_hashes = [], se_guards = G\<rparr> G w = (Inr out, w')"
    using assms
    by (simp add: run_stage_def Let_def unblocked_def guard_executor_def checked_executor_def attempt_def bindI_def default_context_def)
  with True show ?thesis by (auto dest: advance_stage_Inr)
next
  case False
  with assms show ?thesis
    by (auto simp: run_stage_def Let_def unblocked_def default_context_def dest!: blocked_outcome_Inr split: if_splits)
qed

lemma advance_Inr:
  assumes "gate_advance g s e G rs w = (Inr (s', rs'), w')"
  shows "if unblocked s then \<exists>d. evaluate_transition s e G = Inr d \<and> s' = s\<lparr>st_output_refs := [], st_state := td_to d\<rparr>
    else s' = s"
proof -
  from assms obtain out where "run_stage (eg_orchestrator g) s e (guard_executor G) [] default_context w = (Inr out, w')" "s' = oo_stage out"
    by (auto simp: gate_advance_def bindI_Inr)
  with guarded_stage_Inr [OF this(1)] show ?thesis by (auto split: if_splits)
qed

text \<open>The transitions a run asks for, by the state it asks from.\<close>

lemma promotion_targets:
  assumes "evaluate_transition s e G = Inr d"
  shows "st_state s = DISCOVERED \<Longrightarrow> e = INGEST_CONFIRMED \<Longrightarrow> td_to d = INGESTED"
    "st_state s = INGESTED \<Longrightarrow> e = NORMALIZATION_COMPLETE \<Longrightarrow> td_to d = NORMALIZED"
    "st_state s = NORMALIZED \<Longrightarrow> e = DERIVATION_COMPLETE \<Longrightarrow> td_to d = DERIVED"
    "st_state s = DERIVED \<Longrightarrow> e = VALIDATION_PASSED \<Longrightarrow> td_to d = VALIDATED"
    "st_state s = VALIDATED \<Longrightarrow> e = PLACE_AUTHORITY_HOLD \<Longrightarrow> td_to d = AUTHORITY_HOLD"
    "st_state s = AUTHORITY_HOLD \<Longrightarrow> e = HUMAN_SELECTION_RECORDED \<Longrightarrow> td_to d = HUMAN_SELECTED"
    "st_state s = HUMAN_SELECTED \<Longrightarrow> e = PREFLIGHT_PASSED \<Longrightarrow> td_to d = PROMOTION_READY"
    "st_state s = PROMOTION_READY \<Longrightarrow> e = PROMOTION_AUTHORIZED \<Longrightarrow> td_to d = CANONICAL"
  using assms by (auto simp: evaluate_transition_Inr transition_rule_def rule_index_def primary_rules_def)

lemma advance_blocked: "gate_advance g s e G rs w = (Inr (s', rs'), w') \<Longrightarrow> \<not> unblocked s \<Longrightarrow> s' = s"
  using advance_Inr by fastforce

lemma advance_unblocked:
  assumes "gate_advance g s e G rs w = (Inr (s', rs'), w')" "unblocked s"
  shows "\<exists>d. evaluate_transition s e G = Inr d \<and> st_state s' = td_to d \<and> unblocked s'"
  using advance_Inr [OF assms(1)] assms(2) by (auto simp: unblocked_def)

lemma guarded_frame [frame_rules]: "keeps (=) (run_stage o' s e (guard_executor G) [] default_context)"
proof -
  have exec: "keeps (=) (checked_executor (guard_executor G) s default_context)"
    unfolding checked_executor_def guard_executor_def by (simp add: keeps_def bindI_def)
  have blocked: "keeps (=) (blocked_outcome o' s e ctx reason)" for ctx reason
    unfolding blocked_outcome_def by (intro frame_rules)
  show ?thesis unfolding run_stage_def Let_def
    by (intro frame_rules exec blocked) (simp_all add: frame_rules)
qed

lemma advance_frame [frame_rules]: "keeps (=) (gate_advance g s e G rs)"
  unfolding gate_advance_def by (intro frame_rules)

subsection \<open>Phases\<close>

lemma place_hold_Inr:
  assumes "place_hold l c w = (Inr x, w')"
  shows "cl_claim_id (ao_value x) = cl_claim_id c \<and> cl_authority_state (ao_value x) = Auth_HOLD"
  using assms by (auto simp: place_hold_def bindI_Inr claim_post_init_Inr)

lemma map_claim_id:
  assumes "map_claim a cs cap i su pr ob vf vt w = (Inr x, w')"
  shows "cl_claim_id (lm_claim (so_value x)) = i"
  using assms by (auto simp: map_claim_def bindI_Inr claim_post_init_Inr)

lemma observe_Inr:
  assumes "observe_and_hold g q w = (Inr p, w')"
  shows "cl_claim_id (gp_claim p) = eq_claim_id q \<and> cl_authority_state (gp_claim p) = Auth_HOLD"
    and "\<not> unblocked (eq_stage q) \<Longrightarrow> gp_stage p = eq_stage q"
    and "unblocked (eq_stage q) \<Longrightarrow> st_state (eq_stage q) = DISCOVERED \<Longrightarrow> st_state (gp_stage p) = AUTHORITY_HOLD \<and> unblocked (gp_stage p)"
proof -
  from assms obtain cap mapped hold u0 u1 s1 r0 r1 v0 v1 s2 r2 v2 s3 r3 v3 s4 r4 v4 v5 s5 r5 r6 v6 where
    claim: "map_claim (eg_legacy g) (eq_case q) cap (eq_claim_id q) (eq_subject q) (eq_predicate q) (eq_object q) None None u0 = (Inr mapped, u1)"
      "place_hold (eg_authority g) (lm_claim (so_value mapped)) v4 = (Inr hold, v5)" "gp_claim p = ao_value hold"
    and steps: "gate_advance g (eq_stage q) INGEST_CONFIRMED {''source_artifact_valid''} r0 v0 = (Inr (s1, r1), v1)"
      "gate_advance g s1 NORMALIZATION_COMPLETE {''lineage_complete''} r1 v1 = (Inr (s2, r2), v2)"
      "gate_advance g s2 DERIVATION_COMPLETE {''output_hash_valid''} r2 v2 = (Inr (s3, r3), v3)"
      "gate_advance g s3 VALIDATION_PASSED {''required_validations_passed''} r3 v3 = (Inr (s4, r4), v4)"
      "gate_advance g s4 PLACE_AUTHORITY_HOLD {''evidence_snapshot_present''} r5 v5 = (Inr (s5, r6), v6)" "gp_stage p = s5"
    unfolding observe_and_hold_def Let_def by (auto simp: bindI_Inr)
  show "cl_claim_id (gp_claim p) = eq_claim_id q \<and> cl_authority_state (gp_claim p) = Auth_HOLD"
    using place_hold_Inr [OF claim(2)] map_claim_id [OF claim(1)] claim(3) by simp
  show "gp_stage p = eq_stage q" if "\<not> unblocked (eq_stage q)"
    using steps that advance_blocked by metis
  show "st_state (gp_stage p) = AUTHORITY_HOLD \<and> unblocked (gp_stage p)"
    if "unblocked (eq_stage q)" "st_state (eq_stage q) = DISCOVERED"
  proof -
    from advance_unblocked [OF steps(1) that(1)] promotion_targets(1) that(2)
    have s1: "st_state s1 = INGESTED" "unblocked s1" by metis+
    from advance_unblocked [OF steps(2) s1(2)] promotion_targets(2) s1(1)
    have s2: "st_state s2 = NORMALIZED" "unblocked s2" by metis+
    from advance_unblocked [OF steps(3) s2(2)] promotion_targets(3) s2(1)
    have s3: "st_state s3 = DERIVED" "unblocked s3" by metis+
    from advance_unblocked [OF steps(4) s3(2)] promotion_targets(4) s3(1)
    have s4: "st_state s4 = VALIDATED" "unblocked s4" by metis+
    from advance_unblocked [OF steps(5) s4(2)] promotion_targets(5) s4(1) steps(6)
    show ?thesis by metis
  qed
qed

lemma select_Inr:
  assumes "select_claim g q p d w = (Inr (p', auth), w')"
  shows "selects_claim d (gp_claim p) (eq_scope q) \<and> gp_comparison p' = gp_comparison p \<and> gp_capture p' = gp_capture p \<and>
    pa_scope auth = eq_scope q \<and> pa_target_commit auth = gm_commit_id (eq_manifest q) \<and> pa_decision_id auth = ad_decision_id d"
    and "\<not> unblocked (gp_stage p) \<Longrightarrow> gp_stage p' = gp_stage p"
    and "unblocked (gp_stage p) \<Longrightarrow> st_state (gp_stage p) = AUTHORITY_HOLD \<Longrightarrow> st_state (gp_stage p') = HUMAN_SELECTED \<and> unblocked (gp_stage p')"
proof -
  from assms obtain guards sel s r0 r v0 v1 u1 op v2 u where
    sel: "record_human_selection (eg_authority g) (gp_claim p) d (eq_scope q) u1 = (Inr sel, v0)"
    and step: "gate_advance g (gp_stage p) HUMAN_SELECTION_RECORDED guards r0 v0 = (Inr (s, r), v1)"
    and auth: "issue_promotion_authorization (eg_authority g) (ao_value sel) d (eq_scope q) (gm_commit_id (eq_manifest q)) v1 = (Inr op, v2)"
    and out: "p' = p\<lparr>gp_stage := s, gp_claim := ao_value sel, gp_receipts := r @ [ao_receipt op]\<rparr>" "auth = ao_value op"
    unfolding select_claim_def by (auto simp: bindI_Inr)
  show "selects_claim d (gp_claim p) (eq_scope q) \<and> gp_comparison p' = gp_comparison p \<and> gp_capture p' = gp_capture p \<and>
    pa_scope auth = eq_scope q \<and> pa_target_commit auth = gm_commit_id (eq_manifest q) \<and> pa_decision_id auth = ad_decision_id d"
    using record_human_selection_Inr [OF sel] issue_promotion_authorization_Inr [OF auth] out by simp
  show "gp_stage p' = gp_stage p" if "\<not> unblocked (gp_stage p)"
    using advance_blocked [OF step that] out by simp
  show "st_state (gp_stage p') = HUMAN_SELECTED \<and> unblocked (gp_stage p')"
    if "unblocked (gp_stage p)" "st_state (gp_stage p) = AUTHORITY_HOLD"
    using advance_unblocked [OF step that(1)] promotion_targets(6) that(2) out by fastforce
qed

lemma promote_Inr:
  assumes "promote g q p auth c rep w = (Inr res, w')"
  shows "unblocked (gp_stage p) \<and> er_status res = PUBLISHED \<and> st_state (er_stage res) = CANONICAL \<and>
    er_comparison res = gp_comparison p \<and> er_preflight res = Some rep \<and> er_authorization res = Some auth \<and>
    (\<exists>staged d published v. er_staged res = Some staged \<and> er_published res = Some published \<and>
       sg_manifest staged = eq_manifest q \<and> sg_commit_id staged = gm_commit_id (eq_manifest q) \<and>
       publish_generation (eg_store g) staged c rep auth (eq_scope q) d v = (Inr published, w'))"
proof -
  from assms obtain s r v0 v1 staged v2 guards out v3 d published where
    step: "gate_advance g (gp_stage p) PREFLIGHT_PASSED (pr_guards rep) (gp_receipts p) w = (Inr (s, r), v1)"
    and staged: "stage_generation (eg_store g) (eq_manifest q) (eq_payloads q) v1 = (Inr staged, v2)"
    and last: "run_stage (eg_orchestrator g) s PROMOTION_AUTHORIZED (guard_executor guards) [] default_context v2 = (Inr out, v3)"
      "oo_decision out = Some d" "st_state (oo_stage out) = CANONICAL"
    and pub: "publish_generation (eg_store g) staged c rep auth (eq_scope q) d v3 = (Inr published, w')"
    and res: "res = gate_result PUBLISHED
                (p\<lparr>gp_stage := oo_stage out, gp_receipts := r @ [sg_receipt staged, oo_receipt out, pb_receipt published]\<rparr>)
                (Some auth) (Some rep) (Some staged) (Some published)"
    unfolding promote_def by (auto simp: bindI_Inr throw_if_Inr split: option.splits)
  have "unblocked s" using guarded_stage_Inr [OF last(1)] last(2) by (auto split: if_splits)
  then have "unblocked (gp_stage p)" using advance_blocked [OF step] by metis
  with res last(3) pub stage_generation_Inr [OF staged] show ?thesis by (auto simp: gate_result_def)
qed

lemma gate_run_cases:
  assumes "gate_run g q w = (Inr res, w')"
  obtains (held) p where "observe_and_hold g q w = (Inr p, w')" "eq_human_decision q = None" "st_state (eq_stage q) = DISCOVERED"
      "res = gate_result HUMAN_AUTHORITY_REQUIRED p None None None None"
  | (refused) p v d p' auth u c rep where "observe_and_hold g q w = (Inr p, v)" "eq_human_decision q = Some d"
      "select_claim g q p d v = (Inr (p', auth), u)" "gate_candidate g (eq_manifest q) (gp_comparison p') = Inr c"
      "preflight_evaluate (eg_preflight g) c (eq_rollback q) (Some auth) (eq_scope q) u = (Inr rep, w')" "\<not> pr_passed rep"
      "er_status res = PREFLIGHT_BLOCKED" "er_staged res = None" "er_published res = None"
  | (promoted) p v d p' auth u c u' rep where "observe_and_hold g q w = (Inr p, v)" "eq_human_decision q = Some d"
      "select_claim g q p d v = (Inr (p', auth), u)" "gate_candidate g (eq_manifest q) (gp_comparison p') = Inr c"
      "preflight_evaluate (eg_preflight g) c (eq_rollback q) (Some auth) (eq_scope q) u = (Inr rep, u')" "pr_passed rep"
      "promote g q (p'\<lparr>gp_receipts := gp_receipts p' @ [pr_receipt rep]\<rparr>) auth c rep u' = (Inr res, w')"
proof -
  from assms have valid: "validate_bindings (eq_case q) (eq_stage q) (eq_scope q) (eq_manifest q) (eq_claim_id q) = Inr ()"
    by (auto simp: gate_run_def bindI_Inr)
  then have state: "st_state (eq_stage q) = DISCOVERED" by (auto simp: validate_bindings_def result_simps)
  from assms valid obtain p v where p: "observe_and_hold g q w = (Inr p, v)"
    by (auto simp: gate_run_def bindI_Inr)
  show thesis
  proof (cases "eq_human_decision q")
    case None
    with assms valid p state held show thesis by (simp add: gate_run_def bindI_Inr)
  next
    case (Some d)
    with assms valid p obtain p' auth u where sel: "select_claim g q p d v = (Inr (p', auth), u)"
      by (auto simp: gate_run_def bindI_Inr)
    with assms valid p Some obtain c rep u' where c: "gate_candidate g (eq_manifest q) (gp_comparison p') = Inr c"
      "preflight_evaluate (eg_preflight g) c (eq_rollback q) (Some auth) (eq_scope q) u = (Inr rep, u')"
      by (auto simp: gate_run_def bindI_Inr)
    have rest: "(let p = p'\<lparr>gp_receipts := gp_receipts p' @ [pr_receipt rep]\<rparr> in
        if \<not> pr_passed rep then ret (gate_result PREFLIGHT_BLOCKED p (Some auth) (Some rep) None None)
        else promote g q p auth c rep) u' = (Inr res, w')"
      using assms valid p Some sel c by (simp add: gate_run_def bindI_def)
    show thesis
    proof (cases "pr_passed rep")
      case True
      with rest show thesis by (intro promoted [OF p Some sel c]) (simp_all add: Let_def)
    next
      case False
      with rest have "u' = w'" "er_status res = PREFLIGHT_BLOCKED" "er_staged res = None" "er_published res = None"
        by (auto simp: Let_def gate_result_def)
      with c False show thesis by (intro refused [OF p Some sel c(1)]) simp_all
    qed
  qed
qed


lemma gate_frames [frame_rules]:
  "keeps (=) (observe_and_hold g q)" "keeps (=) (select_claim g q p d)"
  unfolding observe_and_hold_def select_claim_def Let_def split_def
  by (intro frame_rules)+

lemma install_commit: "install_generation g staged e src dst w = (Inr h, w') \<Longrightarrow> hp_commit_id h = sg_commit_id staged"
  by (auto simp: install_generation_def result_simps)

lemma gate_candidate_Inr:
  assumes "gate_candidate g m x = Inr c"
  shows "cn_case_id c = gm_case_id m \<and> cn_target_commit c = gm_commit_id m \<and> cn_parent_commit c = gm_parent_commit m \<and>
    cn_authority_decision_id c = gm_authority_decision_id m \<and> cn_schema_version c = gm_schema_version m \<and>
    (cn_blocking_discrepancy_ids c = [] \<longleftrightarrow> lx_discrepancy x = None)"
  using assms by (auto simp: gate_candidate_def candidate_post_init_def result_simps split: option.splits)

subsection \<open>Authority\<close>

text \<open>C8. Only a run with a human decision publishes: the decision is a SELECT that targets exactly the claim of
  the run under the token of its scope, it is the decision the manifest names, the legacy comparison left no
  discrepancy, the preflight passed, the stage had no open dependency or hold and is canonical, and HEAD
  names the manifest's commit.\<close>

theorem published_run_is_authorised:
  assumes "gate_run g q w = (Inr res, w')" "er_status res = PUBLISHED"
  shows "\<exists>d rep published. eq_human_decision q = Some d \<and> ad_decision d = ''SELECT'' \<and> ad_target_id d = eq_claim_id q \<and>
    ad_scope d = scope_token (eq_scope q) \<and> sc_target_ids (eq_scope q) = [eq_claim_id q] \<and>
    gm_authority_decision_id (eq_manifest q) = ad_decision_id d \<and> lx_discrepancy (er_comparison res) = None \<and>
    er_preflight res = Some rep \<and> pr_passed rep \<and> unblocked (eq_stage q) \<and> st_state (er_stage res) = CANONICAL \<and>
    er_published res = Some published \<and> hp_commit_id (pb_head published) = gm_commit_id (eq_manifest q)"
  using assms(1)
proof (cases rule: gate_run_cases)
  case (promoted p v d p' auth u c u' rep)
  note sel = select_Inr [OF promoted(3)]
  from promote_Inr [OF promoted(7)] obtain staged dec published z where
    out: "unblocked (gp_stage p')" "st_state (er_stage res) = CANONICAL" "er_comparison res = gp_comparison p'"
      "er_preflight res = Some rep" "er_published res = Some published" "sg_manifest staged = eq_manifest q"
      "sg_commit_id staged = gm_commit_id (eq_manifest q)"
    and pub: "publish_generation (eg_store g) staged c rep auth (eq_scope q) dec z = (Inr published, w')"
    by auto
  from publish_Inr [OF pub] have valid: "validate_publish_bindings staged c rep auth (eq_scope q) dec = Inr ()"
    and "\<exists>e src dst u u'. install_generation (eg_store g) staged e src dst u = (Inr (pb_head published), u')" by blast+
  then have head: "hp_commit_id (pb_head published) = sg_commit_id staged" using install_commit by blast
  from valid have "pa_decision_id auth = gm_authority_decision_id (eq_manifest q)"
    by (simp add: validate_publish_Inr publish_errors_def Let_def out(6))
  moreover have "cn_blocking_discrepancy_ids c = []"
    using preflight_evaluate_Inr [OF promoted(5)] promoted(6) by (auto simp: ready_for_promotion_def)
  then have "lx_discrepancy (gp_comparison p') = None" using gate_candidate_Inr [OF promoted(4)] by simp
  moreover have "unblocked (eq_stage q)"
    using out(1) sel(2) observe_Inr(2) [OF promoted(1)] by metis
  moreover have "cl_claim_id (gp_claim p) = eq_claim_id q" using observe_Inr(1) [OF promoted(1)] by simp
  ultimately show ?thesis
    using promoted(2,6) sel(1) out head by (auto simp: selects_claim_def binds_claim_def)
qed (use assms(2) in \<open>simp_all add: gate_result_def\<close>)

text \<open>A run without a human decision has no effect: it never changes a file, whether it returns or raises, and
  what it returns asks for human authority.  A run that returns anything but a publication has changed no
  file either.\<close>

theorem unauthorised_run_writes_nothing:
  assumes "gate_run g q w = (r, w')"
    and "eq_human_decision q = None \<or> (\<exists>res. r = Inr res \<and> er_status res \<noteq> PUBLISHED)"
  shows "w_fs w' = w_fs w \<and>
    (eq_human_decision q = None \<longrightarrow> (\<forall>res. r = Inr res \<longrightarrow> er_status res = HUMAN_AUTHORITY_REQUIRED \<and> er_published res = None))"
proof (cases "eq_human_decision q")
  case None
  have "keeps (=) (gate_run g q)" unfolding gate_run_def None by (intro frame_rules) (simp add: frame_rules)
  moreover have "er_status res = HUMAN_AUTHORITY_REQUIRED \<and> er_published res = None" if "r = Inr res" for res
    using assms(1) [unfolded that] by (cases rule: gate_run_cases) (simp_all add: None gate_result_def)
  ultimately show ?thesis using assms(1) by (blast intro: keeps_same)
next
  case (Some d)
  with assms(2) obtain res where res: "r = Inr res" "er_status res \<noteq> PUBLISHED" by auto
  from assms(1) [unfolded res(1)] have "w_fs w' = w_fs w"
  proof (cases rule: gate_run_cases)
    case (refused p v d p' auth u c rep)
    then show ?thesis
      using keeps_same [OF gate_frames(1)] keeps_same [OF gate_frames(2)] keeps_same [OF preflight_frame] by metis
  next
    case (promoted p v d p' auth u c u' rep)
    with promote_Inr [OF promoted(7)] res(2) show ?thesis by simp
  qed (simp add: Some)
  with Some show ?thesis by simp
qed


subsection \<open>Staging under failures\<close>

lemma outcome_names: "outcome U fs m Q \<Longrightarrow> (\<And>u. V u \<Longrightarrow> U u) \<Longrightarrow> outcome V fs m Q"
  unfolding outcome_def by blast

lemma outcome_unchanged: "keeps (=) m \<Longrightarrow> env_kept m \<Longrightarrow> outcome U fs m (\<lambda>r t. t = fs)"
  by (rule outcomeI) (auto dest: keeps_same)

lemma mkdir_new_inside:
  assumes "plain_path p" "\<not> within D p"
  shows "keeps (equal_inside D) (mkdir_new p)"
proof -
  have up: "plain_path (butlast p)" "\<not> within D (butlast p)"
    using assms within_trans [OF _ within_parent] by (auto dest: in_set_butlastD)
  have put: "equal_inside D s (fs_put p Dir s)" if "p \<noteq> []" for s
    using assms(2) that by (auto simp: equal_inside_def node_at_put)
  have new: "p \<noteq> []" if "node_at s p = None" for s using that by (auto simp: node_at_def)
  show ?thesis unfolding mkdir_new_def
    by (intro inside.keeps_bind mkdir_inside up keeps_sys inside.same)
      (use put new assms(1) in \<open>auto split: if_splits\<close>)
qed

lemma materialize_inside:
  assumes "plain_path temp" "plain_path final" "list_all entry_inside (gm_payloads m)" "apart D temp" "apart D final"
  shows "keeps (equal_inside D) (materialize g m payloads temp final)"
proof -
  have below: "\<not> within D (temp @ x)" for x
    using apart_within [of temp D] assms(4) by (auto simp: apart_def)
  have parents: "\<not> within D (butlast (payload_file temp e))" for e
    using below [of "payload_key e"] within_trans [OF _ within_parent] unfolding payload_file_key by blast
  have plain: "plain_path (payload_file temp e)" if "e \<in> set (gm_payloads m)" for e
    using assms(1,3) that by (auto simp: list_all_iff plain_payload_file)
  have payload: "keeps (equal_inside D) (write_payload temp payloads e)" if "e \<in> set (gm_payloads m)" for e
    unfolding write_payload_def Let_def using plain [OF that] parents below
    by (intro inside.keeps_bind mkdir_inside write_new_file_inside) (auto simp: payload_file_key dest: in_set_butlastD)
  have sync: "keeps (equal_inside D) (fsync_dir p)" for p
    by (rule keeps_equal [OF fsync_frame(2) inside.same])
  show ?thesis unfolding materialize_def using assms below
    by (intro inside.keeps_bind mkdir_new_inside inside.keeps_for payload write_new_file_inside os_replace_inside sync) auto
qed

definition stage_names :: "generation_store \<Rightarrow> string \<Rightarrow> fs \<Rightarrow> string \<Rightarrow> bool" where
  "stage_names g c fs u \<longleftrightarrow> plain_text u \<and> node_at fs (stage_temp g c u) = None"

definition staged_aside :: "generation_store \<Rightarrow> generation_manifest \<Rightarrow> fs \<Rightarrow> staged_generation res \<Rightarrow> fs \<Rightarrow> bool" where
  "staged_aside g m fs r t \<longleftrightarrow>
     aside g fs t \<and>
     (\<forall>s. r = Inr s \<longrightarrow> sg_manifest s = m \<and> sg_commit_id s = gm_commit_id m \<and> staged_post_init s = Inr s \<and> manifest_staged g s t)"

lemma stage_apart:
  "apart (published_at g c) (stage_temp g k u)" "apart (head_path g) (stage_temp g k u)"
  "apart (published_at g c) (staged_at g k)" "apart (head_path g) (staged_at g k)"
  by (simp_all add: place_defs append_assoc apart_root del: append_assoc) (simp_all add: apart_def within_def)

lemma staged_post_init_stored: "staged_post_init x = Inr s \<Longrightarrow> staged_post_init s = Inr s"
  by (cases x) (auto simp: staged_post_init_def result_simps manifest_sha256_def)

lemma stage_env [env_rules]: "env_kept (stage_generation g m payloads)"
  unfolding stage_generation_def Let_def wrap_publish_error_def materialize_def write_payload_def mkdir_new_def
  by (intro env_rules env_files env_sys)

lemma outcome_staging:
  assumes "plain_store g" "plain_name (gm_commit_id m)" "manifest_ok m" "fs_wf fs"
  shows "outcome (stage_names g (gm_commit_id m) fs) fs (stage_generation g m payloads) (staged_aside g m fs)"
proof (rule outcomeI [OF _ stage_env])
  fix w :: world and r w'
  let ?c = "gm_commit_id m" and ?u = "w_uuid w (w_tick w)"
  let ?temp = "stage_temp g ?c ?u" and ?final = "staged_at g ?c"
  assume fs: "w_fs w = fs" and names: "\<And>n. stage_names g ?c fs (w_uuid w n)" and run: "stage_generation g m payloads w = (r, w')"
  have u: "CHR ''/'' \<notin> set ?u" "node_at fs ?temp = None" using names [of "w_tick w"] by (simp_all add: stage_names_def plain_text_def)
  note places = subpath_places [OF assms(2) u(1), where g = g]
  note plain = plain_places [OF assms(1,2)]
  have plain_temp: "plain_path ?temp"
    using assms(1) u(1) by (auto simp: plain_store_def place_defs)
  have inside: "list_all entry_inside (gm_payloads m)"
    using assms(3) by (auto simp: manifest_ok_def list_all_iff entry_ok_inside)
  show "staged_aside g m fs r (w_fs w')"
    using stage_generation_run [OF run]
  proof
    assume "w_fs w' = w_fs w \<and> (\<exists>e. r = Inl e)"
    with fs show ?thesis by (auto simp: staged_aside_def aside_same)
  next
    assume "\<exists>r2 v. let final = subpath (staging_dir g) ?c; temp = subpath (staging_dir g) (''.'' @ ?c @ ''.tmp-'' @ ?u) in
        validate_payloads m payloads = Inr () \<and>
        \<not> path_exists (w_fs w) final \<and> \<not> path_exists (w_fs w) (subpath (generations_dir g) ?c) \<and>
        materialize g m payloads temp final (w\<lparr>w_tick := Suc (w_tick w)\<rparr>) = (r2, v) \<and> w_fs w' = w_fs v \<and> ((\<exists>s. r = Inr s) \<longrightarrow> r2 = Inr ())"
    then obtain r2 v where mat: "materialize g m payloads ?temp ?final (w\<lparr>w_tick := Suc (w_tick w)\<rparr>) = (r2, v)"
      "w_fs w' = w_fs v" "\<And>s. r = Inr s \<Longrightarrow> r2 = Inr ()"
      unfolding Let_def places by blast
    have step: "equal_inside D fs (w_fs w')" if "apart D ?temp" "apart D ?final" for D
      using keepsD [OF materialize_inside [OF plain_temp plain(4) inside that] mat(1)] mat(2) fs by simp
    have "equal_inside (head_path g) fs (w_fs w')" by (rule step [OF stage_apart(2,4)])
    then have "files (w_fs w') (head_path g) = files fs (head_path g)" by (rule equal_inside_files) simp
    with step [OF stage_apart(1,3)] have aside: "aside g fs (w_fs w')" by (simp add: aside_def)
    have "sg_manifest s = m \<and> sg_commit_id s = ?c \<and> staged_post_init s = Inr s \<and> manifest_staged g s (w_fs w')" if "r = Inr s" for s
    proof -
      have absent: "files (w_fs (w\<lparr>w_tick := Suc (w_tick w)\<rparr>)) (?temp @ x) = None" for x
        using fs_wf_absent [OF assms(4) u(2) within_append] fs by (simp add: files_def)
      from mat(1,3) that have "materialize g m payloads ?temp ?final (w\<lparr>w_tick := Suc (w_tick w)\<rparr>) = (Inr (), v)" by simp
      from materialize_success(1) [OF this plain_temp plain(4) stage_temp_differs inside absent, of "[''manifest.json'']"] mat(2)
      have "files (w_fs w') (?final @ [''manifest.json'']) = Some (manifest_bytes m)" by (simp add: candidate_files_def)
      moreover have "\<exists>x. staged_post_init x = Inr s"
        using run [unfolded that] by (auto simp: stage_generation_def Let_def bindI_Inr)
      ultimately show ?thesis
        using stage_generation_Inr [OF run [unfolded that]] staged_post_init_stored by (auto simp: manifest_staged_def)
    qed
    with aside show ?thesis by (simp add: staged_aside_def)
  qed
qed


subsection \<open>The store during a run\<close>

lemma gate_env [env_rules]:
  "env_kept (gate_advance g s e G rs)" "env_kept (run_stage o' s e (guard_executor G) [] default_context)"
proof -
  have executor: "env_kept (checked_executor (guard_executor G) s ctx)" for ctx
    unfolding checked_executor_def guard_executor_def by (simp add: env_kept_def bindI_def)
  have receipt: "env_kept (orchestrator_receipt o' s e ctx hs res)" for o' s ctx hs res
    unfolding orchestrator_receipt_def by (intro env_rules)
  have routed: "env_kept (route_failure o' s e k ctx ex reason)" for o' s k ctx ex reason
    unfolding route_failure_def split_def by (intro env_rules receipt)
  have advanced: "env_kept (advance_stage o' s e ctx ex gs)" for o' s ctx ex gs
    unfolding advance_stage_def split_def by (intro env_rules receipt)
  have result: "env_kept (case r of Inl x \<Rightarrow> route_failure o' s e (fst (executor_failure x)) ctx None (snd (executor_failure x))
      | Inr ex \<Rightarrow> run_validators o' s e ctx ex (rx_guards ctx \<union> se_guards ex) [])" for r o' s ctx
    by (cases r) (simp_all add: routed advanced)
  have run: "env_kept (run_stage o' s e (guard_executor G) [] default_context)" for o'
    unfolding run_stage_def Let_def blocked_outcome_def by (intro env_rules executor receipt result)
  then show "env_kept (run_stage o' s e (guard_executor G) [] default_context)" .
  show "env_kept (gate_advance g s e G rs)" unfolding gate_advance_def by (intro env_rules run)
qed

lemma operation_env [env_rules]:
  "env_kept (legacy_capture_op a cs i p ir pr)" "env_kept (map_claim a cs cap ci su pre ob vf vt)" "env_kept (legacy_compare a cs cap x)"
  "env_kept (place_hold l c)" "env_kept (record_human_selection l c d s)" "env_kept (issue_promotion_authorization l c d s t)"
  "env_kept (preflight_evaluate pf cn r au sc)"
  unfolding legacy_capture_op_def map_claim_def legacy_compare_def place_hold_def record_human_selection_def
    issue_promotion_authorization_def preflight_evaluate_def legacy_receipt_def authority_receipt_def open_discrepancy_def Let_def
  by (intro env_rules)+

lemma phase_env [env_rules]: "env_kept (observe_and_hold g q)" "env_kept (select_claim g q p d)"
  unfolding observe_and_hold_def select_claim_def Let_def split_def by (intro env_rules)+

definition gate_texts :: "end_to_end_gate \<Rightarrow> bool" where
  "gate_texts g \<longleftrightarrow>
     (\<forall>n. utf8_valid (al_id (eg_authority g) ''promotion-authorization'' n) \<and> utf8_valid (pp_id (eg_preflight g) ''receipt'' n) \<and>
       valid_datetime (gs_clock (eg_store g) n)) \<and>
     utf8_valid (al_policy_version (eg_authority g)) \<and> utf8_valid (gs_policy_version (eg_store g))"

definition still_serves :: "end_to_end_gate \<Rightarrow> string \<Rightarrow> fs \<Rightarrow> fs \<Rightarrow> bool" where
  "still_serves g commit s t \<longleftrightarrow>
     (\<forall>h. serves (eg_store g) h s \<and> plain_name (hp_commit_id h) \<longrightarrow>
        (\<exists>h'. (h' = h \<or> hp_commit_id h' = commit) \<and> serves (eg_store g) h' t))"

lemma aside_serves:
  assumes "aside g s t" "serves g h s" "plain_store g" "plain_name (hp_commit_id h)"
  shows "serves g h t"
proof -
  from assms(2) obtain raw m where head: "files s (head_path g) = Some raw" "head_from_bytes raw = Inr h"
    and gen: "generation_in g s (hp_commit_id h) (Some (hp_manifest_hash h)) (Some (hp_promotion_hash h)) m"
    by (auto simp: serves_def)
  have "generation_in g t (hp_commit_id h) (Some (hp_manifest_hash h)) (Some (hp_promotion_hash h)) m"
    using generation_in_inside [OF gen _ plain_places(5) [OF assms(3,4)]] assms(1) by (simp add: aside_def)
  with head assms(1) show ?thesis by (auto simp: serves_def aside_def)
qed

lemma aside_still: "aside (eg_store g) s t \<Longrightarrow> plain_store (eg_store g) \<Longrightarrow> still_serves g c s t"
  unfolding still_serves_def using aside_serves by blast

lemma outcome_promote:
  assumes "plain_store (eg_store g)" "plain_name (gm_commit_id (eq_manifest q))" "plain_name (gm_parent_commit (eq_manifest q))"
    and "manifest_ok (eq_manifest q)" "fs_wf fs"
    and "list_all utf8_valid [pa_authorization_id auth, pa_policy_version auth, rc_receipt_id (pr_receipt rep), gs_policy_version (eg_store g)]"
    and "\<forall>n. valid_datetime (gs_clock (eg_store g) n)"
  shows "outcome (stage_names (eg_store g) (gm_commit_id (eq_manifest q)) fs) fs (promote g q p auth c rep)
    (\<lambda>r t. still_serves g (gm_commit_id (eq_manifest q)) fs t)"
proof -
  let ?g = "eg_store g" and ?m = "eq_manifest q"
  let ?U = "stage_names ?g (gm_commit_id ?m) fs" and ?Q = "\<lambda>(r :: end_to_end_result res) t. still_serves g (gm_commit_id ?m) fs t"
  have same: "still_serves g (gm_commit_id ?m) fs t" if "aside ?g fs t" for t
    using that assms(1) by (rule aside_still)
  have publish: "outcome ?U t (bindI (publish_generation ?g staged c rep auth (eq_scope q) d) k) ?Q"
    if st: "staged_aside ?g ?m fs (Inr staged) t" and k: "\<And>x u. outcome ?U u (k x) (\<lambda>r t. t = u)" for t staged d k
  proof (rule outcome_bind [where P = "publish_outcome ?g staged t"])
    from st assms have staged: "publishable ?g staged rep auth" "manifest_staged ?g staged t" "aside ?g fs t"
      "sg_commit_id staged = gm_commit_id ?m"
      by (auto simp: staged_aside_def publishable_def)
    show "outcome ?U t (publish_generation ?g staged c rep auth (eq_scope q) d) (publish_outcome ?g staged t)"
      by (rule outcome_names [OF outcome_published [OF staged(1,2)]]) (simp add: stage_names_def)
    have kept: "still_serves g (gm_commit_id ?m) fs u" if "publish_outcome ?g staged t r u" for r u
      unfolding still_serves_def
    proof (intro allI impI, elim conjE)
      fix h
      assume "serves ?g h fs" "plain_name (hp_commit_id h)"
      then have "serves ?g h t" using aside_serves [OF staged(3) _ assms(1)] by blast
      with that staged(4) show "\<exists>h'. (h' = h \<or> hp_commit_id h' = gm_commit_id ?m) \<and> serves ?g h' u"
        unfolding publish_outcome_def by metis
    qed
    show "?Q (Inl e) u" if "publish_outcome ?g staged t (Inl e) u" for e u
      using kept [OF that] .
    show "outcome ?U u (k x) ?Q" if "publish_outcome ?g staged t (Inr x) u" for x u
      by (rule outcome_weaken [OF k]) (use kept [OF that] in simp)
  qed
  show ?thesis unfolding promote_def
  proof (rule outcome_bind [OF outcome_unchanged [OF advance_frame gate_env(1)]], goal_cases)
    case (1 e t)
    with same [OF aside_same] show ?case by simp
  next
    case (2 x t)
    then have t: "t = fs" by simp
    obtain s rs where x: "x = (s, rs)" by (cases x)
    show ?case unfolding x t prod.case
    proof (rule outcome_bind [OF outcome_staging [OF assms(1,2,4,5)]], goal_cases)
      case (1 e t)
      then show ?case using same by (simp add: staged_aside_def)
    next
      case (2 staged t)
      then have aside: "aside ?g fs t" by (simp add: staged_aside_def)
      show ?case
        apply (rule outcome_lift_step, rule same [OF aside])
        apply (rule outcome_bind [OF outcome_unchanged [OF guarded_frame gate_env(2)]])
        subgoal using same [OF aside] by simp
        apply (simp only:)
        apply (rule outcome_split(2), rule outcome_last, rule same [OF aside])
        apply (rule outcome_throw_step, rule same [OF aside])
        apply (rule publish [OF 2])
        by (simp add: outcome_def)
    qed
  qed
qed


lemma outcome_fact:
  assumes "keeps (=) m" "env_kept m" "\<And>w x w'. m w = (Inr x, w') \<Longrightarrow> P x"
    and "\<And>e. Q (Inl e) fs" "\<And>x. P x \<Longrightarrow> outcome U fs (k x) Q"
  shows "outcome U fs (bindI m k) Q"
proof (rule outcome_bind)
  show "outcome U fs m (\<lambda>r t. t = fs \<and> (\<forall>x. r = Inr x \<longrightarrow> P x))"
    by (rule outcomeI [OF _ assms(2)]) (use assms(1,3) in \<open>auto dest: keeps_same\<close>)
qed (use assms(4,5) in simp_all)

lemma still_same: "still_serves g c s s"
  by (auto simp: still_serves_def)

lemma select_texts: "gate_texts g \<Longrightarrow> select_claim g q p d w = (Inr (p', auth), w') \<Longrightarrow>
    utf8_valid (pa_authorization_id auth) \<and> utf8_valid (pa_policy_version auth)"
  by (auto simp: select_claim_def issue_promotion_authorization_def promotion_authorization_post_init_def gate_texts_def result_simps)

lemma report_texts: "gate_texts g \<Longrightarrow> preflight_evaluate (eg_preflight g) c r a s w = (Inr rep, w') \<Longrightarrow>
    utf8_valid (rc_receipt_id (pr_receipt rep))"
  by (auto simp: preflight_evaluate_def gate_texts_def Let_def result_simps)

lemma outcome_run:
  assumes "plain_store (eg_store g)" "plain_name (gm_commit_id (eq_manifest q))" "plain_name (gm_parent_commit (eq_manifest q))"
    and "manifest_ok (eq_manifest q)" "fs_wf fs" "gate_texts g"
  shows "outcome (stage_names (eg_store g) (gm_commit_id (eq_manifest q)) fs) fs (gate_run g q)
    (\<lambda>r t. still_serves g (gm_commit_id (eq_manifest q)) fs t)"
proof -
  let ?U = "stage_names (eg_store g) (gm_commit_id (eq_manifest q)) fs"
  let ?Q = "\<lambda>(r :: end_to_end_result res) t. still_serves g (gm_commit_id (eq_manifest q)) fs t"
  have promoted: "outcome ?U fs (promote g q p auth c rep) ?Q"
    if "utf8_valid (pa_authorization_id auth) \<and> utf8_valid (pa_policy_version auth)" "utf8_valid (rc_receipt_id (pr_receipt rep))"
    for p auth c rep
    by (rule outcome_promote) (use assms that in \<open>simp_all add: gate_texts_def\<close>)
  show ?thesis unfolding gate_run_def split_def Let_def
  proof (rule outcome_lift_step, rule still_same, rule outcome_fact [OF gate_frames(1) phase_env(1), where P = "\<lambda>_. True"],
      rule TrueI, rule still_same, rule outcome_split(2), rule outcome_last(1), rule still_same)
    fix p d
    show "outcome ?U fs
      (bindI (select_claim g q p d) (\<lambda>x.
       bindI (lift (gate_candidate g (eq_manifest q) (gp_comparison (fst x)))) (\<lambda>candidate.
       bindI (preflight_evaluate (eg_preflight g) candidate (eq_rollback q) (Some (snd x)) (eq_scope q)) (\<lambda>report.
       if \<not> pr_passed report then ret (gate_result PREFLIGHT_BLOCKED (fst x\<lparr>gp_receipts := gp_receipts (fst x) @ [pr_receipt report]\<rparr>)
           (Some (snd x)) (Some report) None None)
       else promote g q (fst x\<lparr>gp_receipts := gp_receipts (fst x) @ [pr_receipt report]\<rparr>) (snd x) candidate report)))) ?Q"
    proof (rule outcome_fact [OF gate_frames(2) phase_env(2), where P = "\<lambda>x. utf8_valid (pa_authorization_id (snd x)) \<and> utf8_valid (pa_policy_version (snd x))"],
        goal_cases)
      case (1 w x w')
      then show ?case using select_texts [OF assms(6)] by (metis prod.collapse)
    next
      case (3 x)
      show ?case
      proof (rule outcome_lift_step, rule still_same, rule outcome_fact [OF preflight_frame operation_env(7), where P = "\<lambda>rep. utf8_valid (rc_receipt_id (pr_receipt rep))"], goal_cases)
        case (1 c w rep w')
        then show ?case using report_texts [OF assms(6)] by blast
      next
        case (3 c rep)
        with \<open>utf8_valid (pa_authorization_id (snd x)) \<and> utf8_valid (pa_policy_version (snd x))\<close> show ?case
          by (intro outcome_split(1) outcome_last(1) still_same promoted)
      qed (rule still_same)
    qed (rule still_same)
  qed
qed

text \<open>A run is crash-safe: whichever system call fails, in whichever phase, the store afterwards serves what it
  served before or the generation of the run's manifest; its HEAD reads and the generation it names
  passes the store's verifier.\<close>

theorem gate_is_crash_safe:
  assumes "gate_run g q w = (r, w')"
    and "plain_store (eg_store g)" "plain_name (gm_commit_id (eq_manifest q))" "plain_name (gm_parent_commit (eq_manifest q))"
    and "manifest_ok (eq_manifest q)" "fs_wf (w_fs w)" "gate_texts g"
    and "\<forall>n. stage_names (eg_store g) (gm_commit_id (eq_manifest q)) (w_fs w) (w_uuid w n)"
    and "serves (eg_store g) h (w_fs w)" "plain_name (hp_commit_id h)"
  shows "\<exists>h'. (h' = h \<or> hp_commit_id h' = gm_commit_id (eq_manifest q)) \<and> yields (w_fs w') (read_head (eg_store g)) (Some h') \<and>
    (\<exists>m. yields (w_fs w') (verify_generation (eg_store g) (hp_commit_id h') (Some (hp_manifest_hash h')) (Some (hp_promotion_hash h'))) m)"
proof -
  have "still_serves g (gm_commit_id (eq_manifest q)) (w_fs w) (w_fs w')"
    using outcomeD [OF outcome_run [OF assms(2-7)] refl _ assms(1)] assms(8) by simp
  then obtain h' where h': "h' = h \<or> hp_commit_id h' = gm_commit_id (eq_manifest q)" "serves (eg_store g) h' (w_fs w')"
    using assms(9,10) unfolding still_serves_def by blast
  then have plain: "plain_name (hp_commit_id h')" using assms(3,10) by auto
  from h'(2) obtain m where "generation_in (eg_store g) (w_fs w') (hp_commit_id h') (Some (hp_manifest_hash h')) (Some (hp_promotion_hash h')) m"
    by (auto simp: serves_def)
  with serves_yields [OF h'(2) assms(2) plain] h'(1) show ?thesis by blast
qed

end
