(* ===== verification/EndToEndExamples.thy ===== *)
theory EndToEndExamples
  imports EndToEndSafety
begin

section \<open>A concrete end-to-end run\<close>

text \<open>
  A gate over a store that serves one generation, a request for the next one with a SELECT decision, and
  the run phase by phase: the hypotheses of the properties of \<open>EndToEndSafety\<close> hold of it.
\<close>

definition example_gate :: end_to_end_gate where
  "example_gate =
     \<lparr>eg_legacy = \<lparr>la_policy_version = ''p6-v1'', la_actor = ''galia'', la_clock = example_time, la_id = (\<lambda>p n. p)\<rparr>,
      eg_orchestrator = \<lparr>or_policy_version = ''p3-v1'', or_actor = ''galia'', or_clock = example_time, or_receipt_id = (\<lambda>n. ''receipt'')\<rparr>,
      eg_authority = \<lparr>al_policy_version = ''p5-v1'', al_actor = ''galia'', al_clock = example_time, al_id = (\<lambda>p n. p)\<rparr>,
      eg_preflight = \<lparr>pp_policy_version = ''p6-v1'', pp_authority_policy = ''p5-v1'', pp_schema_version = ''v1'',
        pp_required_stages = [''ingest''], pp_actor = ''galia'', pp_clock = example_time, pp_id = (\<lambda>p n. p)\<rparr>,
      eg_store = example_store, eg_recovery = None\<rparr>"

definition example_run :: "authority_decision option \<Rightarrow> string list \<Rightarrow> end_to_end_request" where
  "example_run d holds =
     \<lparr>eq_case = \<lparr>cs_case_id = ''case'', cs_title = ''t'', cs_scope = ''s'', cs_state = Case_OPEN, cs_created_at = example_time 0,
        cs_constitution = ''v1'', cs_canonical_commit = None\<rparr>,
      eq_stage = \<lparr>st_stage_id = ''stage'', st_case_id = ''case'', st_stage_type = ''t'', st_state = DISCOVERED,
        st_dependencies = [], st_input_refs = [], st_output_refs = [], st_blocking_holds = holds\<rparr>,
      eq_legacy_input = Bytes ''in'', eq_legacy_output = Some (Bytes ''out''), eq_galia2_output = Some (Bytes ''out''),
      eq_claim_id = ''k'', eq_subject = ''s'', eq_predicate = ''p'', eq_object = ''o'', eq_human_decision = d,
      eq_scope = example_case_scope, eq_manifest = example_manifest, eq_payloads = [(''a.json'', example_bytes)],
      eq_rollback = \<lparr>rb_commit_id = ''c1'', rb_manifest_hash = manifest_sha256 example_parent, rb_integrity_valid = True,
        rb_schema_compatible = True, rb_authority_refs_valid = True, rb_known_good = True\<rparr>\<rparr>"

definition example_select :: authority_decision where
  "example_select = \<lparr>ad_decision_id = ''d1'', ad_target_id = ''k'', ad_reviewer = ''ana'', ad_decision = ''SELECT'',
     ad_scope = scope_token example_case_scope, ad_evidence_snapshot = [''e''], ad_timestamp = example_time 0\<rparr>"

definition example_at :: "stage_state \<Rightarrow> stage" where
  "example_at st = \<lparr>st_stage_id = ''stage'', st_case_id = ''case'', st_stage_type = ''t'', st_state = st,
     st_dependencies = [], st_input_refs = [], st_output_refs = [], st_blocking_holds = []\<rparr>"

lemma example_at_simps [simp]:
  "st_dependencies (example_at a) = []" "st_blocking_holds (example_at a) = []" "st_state (example_at a) = a"
  "example_at a\<lparr>st_output_refs := []\<rparr> = example_at a" "example_at a\<lparr>st_state := b\<rparr> = example_at b"
  "stage_post_init (example_at a) = Inr (example_at a)" "st_stage_type (example_at a) = ''t''" "st_case_id (example_at a) = ''case''"
  "sorted_diff {} {} = []"
  by (simp_all add: example_at_def stage_post_init_Inr)

lemma example_advance:
  assumes "evaluate_transition (example_at a) e G = Inr d"
  shows "\<exists>r. run_stage (eg_orchestrator example_gate) (example_at a) e (guard_executor G) [] default_context w =
    (Inr \<lparr>oo_stage = example_at (td_to d), oo_status = ADVANCED, oo_receipt = r, oo_decision = Some d,
       oo_execution = Some \<lparr>se_output_refs = [], se_output_hashes = [], se_guards = G\<rparr>, oo_reason = []\<rparr>, w\<lparr>w_tick := w_tick w + 2\<rparr>)"
  using assms
  by (simp add: run_stage_def guard_executor_def checked_executor_def attempt_def bindI_def default_context_def advance_stage_def
      orchestrator_receipt_def call_def receipt_post_init_def required_def required_opt_def aware_field_def example_gate_def
      apply_transition_def)

lemma example_transitions:
  "\<exists>d. evaluate_transition (example_at DISCOVERED) INGEST_CONFIRMED {''source_artifact_valid''} = Inr d \<and> td_to d = INGESTED"
  "\<exists>d. evaluate_transition (example_at INGESTED) NORMALIZATION_COMPLETE {''lineage_complete''} = Inr d \<and> td_to d = NORMALIZED"
  "\<exists>d. evaluate_transition (example_at NORMALIZED) DERIVATION_COMPLETE {''output_hash_valid''} = Inr d \<and> td_to d = DERIVED"
  "\<exists>d. evaluate_transition (example_at DERIVED) VALIDATION_PASSED {''required_validations_passed''} = Inr d \<and> td_to d = VALIDATED"
  "\<exists>d. evaluate_transition (example_at VALIDATED) PLACE_AUTHORITY_HOLD {''evidence_snapshot_present''} = Inr d \<and> td_to d = AUTHORITY_HOLD"
  "\<exists>d. evaluate_transition (example_at AUTHORITY_HOLD) HUMAN_SELECTION_RECORDED {''human_decision_present''} = Inr d \<and> td_to d = HUMAN_SELECTED"
  "\<exists>d. evaluate_transition (example_at HUMAN_SELECTED) PREFLIGHT_PASSED {''preflight_passed'', ''rollback_target_verified''} = Inr d \<and> td_to d = PROMOTION_READY"
  "\<exists>d. evaluate_transition (example_at PROMOTION_READY) PROMOTION_AUTHORIZED {''promotion_authorization_present'', ''authorization_matches_target''} = Inr d \<and>
     d = \<lparr>td_stage_id = ''stage'', td_case_id = ''case'', td_from = PROMOTION_READY, td_event = PROMOTION_AUTHORIZED,
       td_to = CANONICAL, td_satisfied = {''promotion_authorization_present'', ''authorization_matches_target''},
       td_required = {''promotion_authorization_present'', ''authorization_matches_target''}, td_human_boundary = True\<rparr>"
  by (simp_all add: evaluate_transition_def transition_rule_def rule_index_def primary_rules_def forbidden_direct_transitions_def sorted_diff_def example_at_def)

lemma example_moves:
  assumes "\<exists>d. evaluate_transition (example_at a) e G = Inr d \<and> td_to d = b"
  shows "\<exists>r. \<forall>rs w. gate_advance example_gate (example_at a) e G rs w = (Inr (example_at b, rs @ [r w]), w\<lparr>w_tick := w_tick w + 2\<rparr>)"
proof -
  from assms obtain d where d: "evaluate_transition (example_at a) e G = Inr d" "td_to d = b" by blast
  obtain r where "\<And>w. run_stage (eg_orchestrator example_gate) (example_at a) e (guard_executor G) [] default_context w =
    (Inr \<lparr>oo_stage = example_at (td_to d), oo_status = ADVANCED, oo_receipt = r w, oo_decision = Some d,
       oo_execution = Some \<lparr>se_output_refs = [], se_output_hashes = [], se_guards = G\<rparr>, oo_reason = []\<rparr>, w\<lparr>w_tick := w_tick w + 2\<rparr>)"
    using example_advance [OF d(1)] by metis
  then show ?thesis using d(2) by (intro exI [of _ r]) (simp add: gate_advance_def)
qed

definition example_hold :: "authority_state \<Rightarrow> claim" where
  "example_hold a = \<lparr>cl_claim_id = ''k'', cl_case_id = ''case'', cl_subject = ''s'', cl_predicate = ''p'',
     cl_object = ''o'', cl_valid_from = None, cl_valid_to = None, cl_claim_type = DERIVED_CLAIM,
     cl_evidence_state = Ev_UNVERIFIED, cl_authority_state = a\<rparr>"

lemma example_observed:
  "\<exists>p k. observe_and_hold example_gate (example_run d []) w = (Inr p, w\<lparr>w_tick := k\<rparr>) \<and> gp_stage p = example_at AUTHORITY_HOLD \<and>
     gp_claim p = example_hold Auth_HOLD \<and> lx_discrepancy (gp_comparison p) = None"
proof -
  obtain r1 r2 r3 r4 r5 where moves:
    "\<forall>rs w. gate_advance example_gate (example_at DISCOVERED) INGEST_CONFIRMED {''source_artifact_valid''} rs w = (Inr (example_at INGESTED, rs @ [r1 w]), w\<lparr>w_tick := w_tick w + 2\<rparr>)"
    "\<forall>rs w. gate_advance example_gate (example_at INGESTED) NORMALIZATION_COMPLETE {''lineage_complete''} rs w = (Inr (example_at NORMALIZED, rs @ [r2 w]), w\<lparr>w_tick := w_tick w + 2\<rparr>)"
    "\<forall>rs w. gate_advance example_gate (example_at NORMALIZED) DERIVATION_COMPLETE {''output_hash_valid''} rs w = (Inr (example_at DERIVED, rs @ [r3 w]), w\<lparr>w_tick := w_tick w + 2\<rparr>)"
    "\<forall>rs w. gate_advance example_gate (example_at DERIVED) VALIDATION_PASSED {''required_validations_passed''} rs w = (Inr (example_at VALIDATED, rs @ [r4 w]), w\<lparr>w_tick := w_tick w + 2\<rparr>)"
    "\<forall>rs w. gate_advance example_gate (example_at VALIDATED) PLACE_AUTHORITY_HOLD {''evidence_snapshot_present''} rs w = (Inr (example_at AUTHORITY_HOLD, rs @ [r5 w]), w\<lparr>w_tick := w_tick w + 2\<rparr>)"
    using example_transitions(1-5) [THEN example_moves] by blast
  have parts: "eg_legacy example_gate = \<lparr>la_policy_version = ''p6-v1'', la_actor = ''galia'', la_clock = example_time, la_id = (\<lambda>p n. p)\<rparr>"
    "eg_authority example_gate = \<lparr>al_policy_version = ''p5-v1'', al_actor = ''galia'', al_clock = example_time, al_id = (\<lambda>p n. p)\<rparr>"
    by (simp_all add: example_gate_def)
  have start: "eq_stage (example_run d []) = example_at DISCOVERED" by (simp add: example_run_def example_at_def)
  show ?thesis unfolding observe_and_hold_def start
    by (simp add: parts moves example_run_def legacy_capture_op_def legacy_receipt_def map_claim_def legacy_compare_def
        bindI_def call_def throw_if_def require_case_def claim_post_init_def receipt_post_init_def required_def required_opt_def hash_field_def aware_field_def
        Let_def diff_kind_def List.map_filter_def place_hold_def authority_receipt_def example_hold_def cong: run_cong)
      (rule exI, rule refl)
qed

lemma example_selected:
  assumes "gp_stage p = example_at AUTHORITY_HOLD" "gp_claim p = example_hold Auth_HOLD"
  shows "\<exists>p' auth k. select_claim example_gate (example_run d []) p example_select w = (Inr (p', auth), w\<lparr>w_tick := k\<rparr>) \<and>
    gp_stage p' = example_at HUMAN_SELECTED \<and> gp_comparison p' = gp_comparison p \<and>
    pa_authorization_id auth = ''promotion-authorization'' \<and> pa_decision_id auth = ''d1'' \<and> pa_scope auth = example_case_scope \<and>
    pa_target_commit auth = ''c2'' \<and> pa_policy_version auth = ''p5-v1''"
proof -
  have step: "\<forall>rs w. \<exists>r. gate_advance example_gate (example_at AUTHORITY_HOLD) HUMAN_SELECTION_RECORDED {''human_decision_present''} rs w =
      (Inr (example_at HUMAN_SELECTED, rs @ [r]), w\<lparr>w_tick := w_tick w + 2\<rparr>)"
    using example_moves [OF example_transitions(6)] by blast
  then obtain r where moves: "\<And>rs w. gate_advance example_gate (example_at AUTHORITY_HOLD) HUMAN_SELECTION_RECORDED {''human_decision_present''} rs w =
      (Inr (example_at HUMAN_SELECTED, rs @ [r rs w]), w\<lparr>w_tick := w_tick w + 2\<rparr>)"
    by metis
  have parts: "eg_authority example_gate = \<lparr>al_policy_version = ''p5-v1'', al_actor = ''galia'', al_clock = example_time, al_id = (\<lambda>p n. p)\<rparr>"
    "eq_scope (example_run d []) = example_case_scope" "eq_manifest (example_run d []) = example_manifest"
    by (simp_all add: example_gate_def example_run_def)
  show ?thesis unfolding select_claim_def assms
    by (simp add: parts moves human_selection_guards_def human_decision_of_def record_human_selection_def issue_promotion_authorization_def validate_scope_for_claim_def
      validate_decision_def promotion_authorization_post_init_def authority_receipt_def receipt_post_init_def
      bindI_def call_def throw_if_def claim_post_init_def required_def required_opt_def aware_field_def
      example_hold_def example_select_def example_case_scope_def example_fields Let_def assms cong: run_cong)
      (rule exI, rule refl)
qed

definition example_base :: fs where
  "example_base =
     [([''store''], Dir), ([''store'', ''staging''], Dir), ([''store'', ''generations''], Dir),
      ([''store'', ''HEAD''], File (head_bytes example_head)),
      ([''store'', ''generations'', ''c1''], Dir),
      ([''store'', ''generations'', ''c1'', ''manifest.json''], File (manifest_bytes example_parent)),
      ([''store'', ''generations'', ''c1'', ''promotion.json''], File (envelope_bytes example_envelope)),
      ([''store'', ''generations'', ''c1'', ''payload''], Dir),
      ([''store'', ''generations'', ''c1'', ''payload'', ''a.json''], File example_bytes)]"

definition rested :: "world \<Rightarrow> bool" where
  "rested w \<longleftrightarrow> w_fs w = example_base \<and> w_fault w = (\<lambda>n. None) \<and> w_uuid w = (\<lambda>n. ''uuid'')"

lemma example_stages_base:
  assumes "rested w"
  shows "\<exists>s w'. stage_generation example_store example_manifest [(''a.json'', example_bytes)] w = (Inr s, w') \<and> 
    store_ready example_store ''c2'' w' \<and> quiet w' \<and> w_uuid w' = (\<lambda>n. ''uuid'')"
  using assms
  by (simp add: stage_generation_def bindI_def validate_payloads_def example_store_def example_entry_def example_manifest_def staging_dir_def generations_dir_def
      example_base_def rested_def quiet_def store_ready_def dirs_to_take staged_at_def published_at_def head_path_def head_temp_def
      observe_def file_system_steps uuid4_def catch_def wrap_publish_error_def materialize_def throw_if_def
      write_payload_def payload_file_def parts_def example_bytes_def plain_name_def call_def
      receipt_post_init_def required_def required_opt_def hash_field_def staged_post_init_def manifest_sha256_def aware_field_def cong: run_cong)

lemma example_base_nodes: "node_at example_base (''store'' # ''generations'' # x) = node_at example_store_disk (''store'' # ''generations'' # x)"
  "node_at example_base [''store'', ''HEAD''] = node_at example_store_disk [''store'', ''HEAD'']"
  by (simp_all add: node_at_def example_base_def example_store_disk_def)

lemma example_base_serves: "serves example_store example_head example_base"
proof -
  have "aside example_store example_store_disk example_base"
    by (auto simp: aside_def equal_inside_def within_iff files_def published_at_def generations_dir_def head_path_def example_objects example_base_nodes)
  then show ?thesis
    using aside_serves [OF _ example_served example_store_plain(1)] example_store_plain(3) by (simp add: example_fields)
qed

lemma example_base_wf: "fs_wf example_base"
  by (simp add: fs_wf_def example_base_def node_at_def)

lemma example_promoted:
  assumes p: "gp_stage p = example_at HUMAN_SELECTED" and w: "rested w"
    and auth: "pa_authorization_id auth = ''promotion-authorization'' \<and> pa_decision_id auth = ''d1'' \<and> pa_scope auth = example_case_scope \<and>
      pa_target_commit auth = ''c2'' \<and> pa_policy_version auth = ''p5-v1''"
    and rep: "pr_passed rep" "pr_guards rep = {''preflight_passed'', ''rollback_target_verified''}" "pr_case_id rep = ''case''" "pr_target_commit rep = ''c2''"
      "rc_receipt_id (pr_receipt rep) = ''receipt''"
    and c: "cn_case_id c = ''case''" "cn_target_commit c = ''c2''" "cn_parent_commit c = ''c1''" "cn_manifest_hash c = manifest_sha256 example_manifest"
      "cn_payload_hashes c = [sha256 example_bytes]" "cn_schema_version c = ''v1''" "cn_authority_decision_id c = ''d1''"
  shows "\<exists>res w'. promote example_gate (example_run d []) p auth c rep w = (Inr res, w') \<and> er_status res = PUBLISHED"
proof -
  have parts: "eg_authority example_gate = \<lparr>al_policy_version = ''p5-v1'', al_actor = ''galia'', al_clock = example_time, al_id = (\<lambda>p n. p)\<rparr>"
    "eg_store example_gate = example_store" "eq_scope (example_run d []) = example_case_scope" 
    "eq_manifest (example_run d []) = example_manifest" "eq_payloads (example_run d []) = [(''a.json'', example_bytes)]"
    by (simp_all add: example_gate_def example_run_def)
  obtain r1 where step1: "gate_advance example_gate (example_at HUMAN_SELECTED) PREFLIGHT_PASSED (pr_guards rep) (gp_receipts p) w
      = (Inr (example_at PROMOTION_READY, gp_receipts p @ [r1 w]), w\<lparr>w_tick := w_tick w + 2\<rparr>)"
    using example_moves [OF example_transitions(7)] rep(2) by metis
  let ?w1 = "w\<lparr>w_tick := w_tick w + 2\<rparr>"
  have w1: "rested ?w1" using w by (simp add: rested_def)
  obtain staged w2 where stage: "stage_generation example_store example_manifest [(''a.json'', example_bytes)] ?w1 = (Inr staged, w2)"
    "store_ready example_store ''c2'' w2" "quiet w2" "w_uuid w2 = (\<lambda>n. ''uuid'')"
    using example_stages_base [OF w1] by blast
  obtain dec r2 where dec: "dec = \<lparr>td_stage_id = ''stage'', td_case_id = ''case'', td_from = PROMOTION_READY, td_event = PROMOTION_AUTHORIZED,
       td_to = CANONICAL, td_satisfied = {''promotion_authorization_present'', ''authorization_matches_target''},
       td_required = {''promotion_authorization_present'', ''authorization_matches_target''}, td_human_boundary = True\<rparr>"
    and step2: "run_stage (eg_orchestrator example_gate) (example_at PROMOTION_READY) PROMOTION_AUTHORIZED (guard_executor
      {''promotion_authorization_present'', ''authorization_matches_target''}) [] default_context w2 =
    (Inr \<lparr>oo_stage = example_at (td_to dec), oo_status = ADVANCED, oo_receipt = r2, oo_decision = Some dec,
       oo_execution = Some \<lparr>se_output_refs = [], se_output_hashes = [], se_guards = {''promotion_authorization_present'', ''authorization_matches_target''}\<rparr>, oo_reason = []\<rparr>, w2\<lparr>w_tick := w_tick w2 + 2\<rparr>)"
    using example_transitions(8) example_advance by metis
  have guards: "promotion_guards (eg_authority example_gate) (Some auth) example_case_scope ''c2'' = Inr {''promotion_authorization_present'', ''authorization_matches_target''}"
    using auth by (simp add: promotion_guards_def parts required_def insert_commute)
  let ?w3 = "w2\<lparr>w_tick := w_tick w2 + 2\<rparr>"
  have names: "\<And>n. stage_names example_store ''c2'' example_base (w_uuid ?w1 n)"
    using w by (simp add: rested_def stage_names_def plain_text_def stage_temp_def staging_dir_def example_objects node_at_def example_base_def)
  have fs1: "w_fs ?w1 = example_base" using w by (simp add: rested_def)
  have aside: "staged_aside example_store example_manifest example_base (Inr staged) (w_fs w2)"
    using outcomeD [OF outcome_staging [OF example_store_plain(1) _ example_manifest_ok example_base_wf] fs1 _ stage(1)] names example_store_plain(2)
    by (simp add: example_fields)
  then have st: "sg_manifest staged = example_manifest" "sg_commit_id staged = ''c2''" "staged_post_init staged = Inr staged" 
    "manifest_staged example_store staged (w_fs w2)" "aside example_store example_base (w_fs w2)"
    by (simp_all add: staged_aside_def example_fields)
  have hash: "sg_manifest_hash staged = manifest_sha256 example_manifest"
    using stage_generation_Inr [OF stage(1)] by simp
  have serves: "serves example_store example_head (w_fs w2)"
    using aside_serves [OF st(5) example_base_serves example_store_plain(1)] example_store_plain(3) by (simp add: example_fields)
  have "fresh_temp example_store ''c2'' ?w1" "plain_uuids ?w1"
    using names w by (simp_all add: fresh_temp_def stage_names_def rested_def plain_uuids_def)
  then have cand: "candidate_in (w_fs w2) (staged_at example_store ''c2'') example_manifest (manifest_sha256 example_manifest)"
    using staged_candidate(1) [OF stage(1)] fs1 example_base_wf example_store_plain(1,2) example_manifest_ok by (simp add: example_fields)
  have texts: "list_all utf8_valid [''promotion-authorization'', ''p5-v1'', ''receipt'', ''p7-v1'']"
    by (auto simp: ascii_def code_def intro!: utf8_valid_ascii)
  have ok: "publishable example_store staged rep auth"
    using st example_store_plain(1,2,3) example_manifest_ok auth rep(5) texts
    by (simp add: publishable_def example_objects example_fields del: utf8_valid.simps)
  have complete: "complete_texts example_store rep auth"
    using auth rep(5) by (simp add: complete_texts_def example_objects)
  have valid: "validate_publish_bindings staged c rep auth example_case_scope dec = Inr ()"
    unfolding validate_publish_Inr publish_errors_def Let_def list.pred_inject
    using st(1,2) hash auth rep c dec by (simp add: example_case_scope_def example_fields)
  have w3: "w_fs ?w3 = w_fs w2" "store_ready example_store ''c2'' ?w3" "quiet ?w3" "plain_uuids ?w3"
    using stage by (simp_all add: store_ready_def quiet_def plain_uuids_def)
  obtain pub w4 where pub: "publish_generation example_store staged c rep auth example_case_scope dec ?w3 = (Inr pub, w4)"
    using publish_returns [OF valid ok, of example_head ?w3] serves cand w3 complete st(1,2) hash by (auto simp: example_fields)
  show ?thesis
    using step1 stage(1) guards step2 pub dec 
    by (simp add: promote_def p parts bindI_def example_fields throw_if_def gate_result_def)
qed

lemma example_candidate_built:
  assumes "lx_discrepancy x = None"
  shows "\<exists>c. gate_candidate example_gate example_manifest x = Inr c \<and> cn_case_id c = ''case'' \<and> cn_target_commit c = ''c2'' \<and>
    cn_parent_commit c = ''c1'' \<and> cn_manifest_hash c = manifest_sha256 example_manifest \<and> cn_payload_hashes c = [sha256 example_bytes] \<and>
    cn_schema_version c = ''v1'' \<and> cn_authority_decision_id c = ''d1'' \<and> cn_lineage_complete c \<and> cn_completed_stages c = [''ingest''] \<and>
    cn_blocking_discrepancy_ids c = []"
  using assms
  by (simp add: gate_candidate_def candidate_post_init_def unique_strings_def example_fields example_gate_def required_def hash_field_def manifest_sha256_def)

lemma example_preflight_passes:
  assumes "cn_case_id c = ''case''" "cn_target_commit c = ''c2''" "cn_parent_commit c = ''c1''" "cn_manifest_hash c = manifest_sha256 example_manifest"
    "cn_payload_hashes c = [sha256 example_bytes]" "cn_schema_version c = ''v1''" "cn_authority_decision_id c = ''d1''" "cn_lineage_complete c"
    "cn_completed_stages c = [''ingest'']" "cn_blocking_discrepancy_ids c = []"
    "pa_authorization_id auth = ''promotion-authorization'' \<and> pa_decision_id auth = ''d1'' \<and> pa_scope auth = example_case_scope \<and>
      pa_target_commit auth = ''c2'' \<and> pa_policy_version auth = ''p5-v1''"
  shows "\<exists>rep k. preflight_evaluate (eg_preflight example_gate) c (eq_rollback (example_run d [])) (Some auth) example_case_scope w
      = (Inr rep, w\<lparr>w_tick := k\<rparr>) \<and> pr_passed rep \<and>
    pr_guards rep = {''preflight_passed'', ''rollback_target_verified''} \<and> pr_case_id rep = ''case'' \<and> pr_target_commit rep = ''c2'' \<and>
    rc_receipt_id (pr_receipt rep) = ''receipt''"
  using assms
  by (simp add: preflight_evaluate_def preflight_checks_def authorization_matches_def make_check_def check_post_init_def example_gate_def example_run_def
      example_case_scope_def bindI_def call_def receipt_post_init_def required_def required_opt_def hash_field_def aware_field_def
      manifest_sha256_def Let_def cong: run_cong)
    (rule exI, rule refl)

lemma example_gate_publishes:
  assumes "rested w"
  shows "\<exists>res w'. gate_run example_gate (example_run (Some example_select) []) w = (Inr res, w') \<and> er_status res = PUBLISHED"
proof -
  let ?q = "example_run (Some example_select) []"
  have parts: "eq_scope ?q = example_case_scope" "eq_manifest ?q = example_manifest" "eq_human_decision ?q = Some example_select"
    by (simp_all add: example_run_def)
  have valid: "validate_bindings (eq_case ?q) (eq_stage ?q) (eq_scope ?q) (eq_manifest ?q) (eq_claim_id ?q) = Inr ()"
    by (simp add: validate_bindings_def example_run_def example_case_scope_def example_fields)
  obtain p k1 where p: "observe_and_hold example_gate ?q w = (Inr p, w\<lparr>w_tick := k1\<rparr>)" "gp_stage p = example_at AUTHORITY_HOLD"
    "gp_claim p = example_hold Auth_HOLD" "lx_discrepancy (gp_comparison p) = None"
    using example_observed by blast
  obtain p' auth k2 where s: "select_claim example_gate ?q p example_select (w\<lparr>w_tick := k1\<rparr>) = (Inr (p', auth), w\<lparr>w_tick := k1\<rparr>\<lparr>w_tick := k2\<rparr>)"
    "gp_stage p' = example_at HUMAN_SELECTED" "gp_comparison p' = gp_comparison p"
    and auth: "pa_authorization_id auth = ''promotion-authorization'' \<and> pa_decision_id auth = ''d1'' \<and> pa_scope auth = example_case_scope \<and>
      pa_target_commit auth = ''c2'' \<and> pa_policy_version auth = ''p5-v1''"
    using example_selected [OF p(2,3)] by blast
  obtain c where c: "gate_candidate example_gate example_manifest (gp_comparison p') = Inr c" "cn_case_id c = ''case''" "cn_target_commit c = ''c2''"
    "cn_parent_commit c = ''c1''" "cn_manifest_hash c = manifest_sha256 example_manifest" "cn_payload_hashes c = [sha256 example_bytes]"
    "cn_schema_version c = ''v1''" "cn_authority_decision_id c = ''d1''" "cn_lineage_complete c" "cn_completed_stages c = [''ingest'']"
    "cn_blocking_discrepancy_ids c = []"
    using example_candidate_built [of "gp_comparison p'"] p(4) s(3) by auto
  let ?w2 = "w\<lparr>w_tick := k1\<rparr>\<lparr>w_tick := k2\<rparr>"
  obtain rep k3 where rep: "preflight_evaluate (eg_preflight example_gate) c (eq_rollback ?q) (Some auth) example_case_scope ?w2
      = (Inr rep, ?w2\<lparr>w_tick := k3\<rparr>)" "pr_passed rep"
    "pr_guards rep = {''preflight_passed'', ''rollback_target_verified''}" "pr_case_id rep = ''case''" "pr_target_commit rep = ''c2''"
    "rc_receipt_id (pr_receipt rep) = ''receipt''"
    using example_preflight_passes [OF c(2-11) auth] by blast
  have "rested (?w2\<lparr>w_tick := k3\<rparr>)" using assms by (simp add: rested_def)
  moreover have "gp_stage (p'\<lparr>gp_receipts := gp_receipts p' @ [pr_receipt rep]\<rparr>) = example_at HUMAN_SELECTED" using s(2) by simp
  ultimately obtain res w' where "promote example_gate ?q (p'\<lparr>gp_receipts := gp_receipts p' @ [pr_receipt rep]\<rparr>) auth c rep (?w2\<lparr>w_tick := k3\<rparr>)
      = (Inr res, w')" "er_status res = PUBLISHED"
    using example_promoted [OF _ _ auth rep(2-6) c(2-8)] by blast
  then show ?thesis using p(1) s(1) c(1) rep(1,2) valid
    by (simp add: gate_run_def bindI_def parts Let_def)
qed
theorem published_run_is_authorised_witness:
  "\<exists>res w'. gate_run example_gate (example_run (Some example_select) []) (example_world example_base) = (Inr res, w') \<and>
     er_status res = PUBLISHED \<and> (\<exists>p. er_published res = Some p \<and> hp_commit_id (pb_head p) = ''c2'')"
proof -
  have "rested (example_world example_base)" by (simp add: rested_def)
  then obtain res w' where run: "gate_run example_gate (example_run (Some example_select) []) (example_world example_base) = (Inr res, w')"
    "er_status res = PUBLISHED"
    using example_gate_publishes by blast
  have "gm_commit_id (eq_manifest (example_run (Some example_select) [])) = ''c2''" by (simp add: example_run_def example_fields)
  with published_run_is_authorised [OF run] run show ?thesis by auto
qed

theorem unauthorised_run_writes_nothing_witness:
  "w_fs (snd (gate_run example_gate (example_run None []) (example_world example_base))) = example_base"
proof -
  obtain r w' where run: "gate_run example_gate (example_run None []) (example_world example_base) = (r, w')" by (metis prod.collapse)
  have "eq_human_decision (example_run None []) = None" by (simp add: example_run_def)
  with unauthorised_run_writes_nothing [OF run] run show ?thesis by simp
qed

lemma example_gate_texts: "gate_texts example_gate"
proof -
  have "list_all utf8_valid [''promotion-authorization'', ''receipt'', ''p5-v1'', ''p7-v1'']"
    by (auto simp: ascii_def code_def intro!: utf8_valid_ascii)
  then show ?thesis by (simp add: gate_texts_def example_gate_def example_objects del: utf8_valid.simps)
qed

theorem gate_is_crash_safe_witness:
  "\<exists>r w' h' m. gate_run example_gate (example_run (Some example_select) [])
       ((example_world example_base)\<lparr>w_fault := \<lambda>n. if n = 60 then Some 3 else None\<rparr>) = (r, w') \<and>
     yields (w_fs w') (read_head example_store) (Some h') \<and>
     yields (w_fs w') (verify_generation example_store (hp_commit_id h') (Some (hp_manifest_hash h')) (Some (hp_promotion_hash h'))) m"
proof -
  let ?w = "(example_world example_base)\<lparr>w_fault := \<lambda>n. if n = 60 then Some 3 else None\<rparr>" and ?q = "example_run (Some example_select) []"
  obtain r w' where run: "gate_run example_gate ?q ?w = (r, w')" by (metis prod.collapse)
  have parts: "eg_store example_gate = example_store" "eq_manifest ?q = example_manifest" "w_fs ?w = example_base"
    by (simp_all add: example_gate_def example_run_def)
  have "\<forall>n. stage_names example_store ''c2'' example_base (w_uuid ?w n)"
    by (simp add: stage_names_def plain_text_def stage_temp_def staging_dir_def example_objects node_at_def example_base_def)
  moreover have "serves example_store example_head (w_fs ?w)" "fs_wf (w_fs ?w)" using example_base_serves example_base_wf by simp_all
  moreover have "plain_name (hp_commit_id example_head)" using example_store_plain(3) by (simp add: example_fields)
  ultimately show ?thesis
    using gate_is_crash_safe [OF run, of example_head] run example_store_plain(1-3) example_manifest_ok example_gate_texts
    unfolding parts example_fields by blast
qed

end
