(* ===== verification/MigrationState.thy ===== *)
theory MigrationState
  imports Machines
begin

section \<open>The migration state machine\<close>

text \<open>
  \<open>galia2/db_deploy/migration_state.py\<close>: the local substate of a database migration, its rule table
  and \<open>transition\<close>.  The module's \<open>InvalidTransition\<close> and \<open>GuardRejected\<close> are classes of its own with the
  fields of those of \<open>state_machine.py\<close>.
\<close>

datatype migration_state =
    DRAFT | MANIFEST_VALID | CLASSIFIED | SHADOW_APPLIED | DATA_VERIFIED | DESTRUCTIVE_HOLD | HUMAN_APPROVED
  | DEPLOY_READY | DEPLOYED_VERIFIED | UNCERTAIN_EXECUTION | FORENSIC_HOLD

fun migration_state_value :: "migration_state \<Rightarrow> string" where
  "migration_state_value DRAFT = ''DRAFT''"
| "migration_state_value MANIFEST_VALID = ''MANIFEST_VALID''"
| "migration_state_value CLASSIFIED = ''CLASSIFIED''"
| "migration_state_value SHADOW_APPLIED = ''SHADOW_APPLIED''"
| "migration_state_value DATA_VERIFIED = ''DATA_VERIFIED''"
| "migration_state_value DESTRUCTIVE_HOLD = ''DESTRUCTIVE_HOLD''"
| "migration_state_value HUMAN_APPROVED = ''HUMAN_APPROVED''"
| "migration_state_value DEPLOY_READY = ''DEPLOY_READY''"
| "migration_state_value DEPLOYED_VERIFIED = ''DEPLOYED_VERIFIED''"
| "migration_state_value UNCERTAIN_EXECUTION = ''UNCERTAIN_EXECUTION''"
| "migration_state_value FORENSIC_HOLD = ''FORENSIC_HOLD''"

datatype migration_event =
    VALIDATE_MANIFEST | CLASSIFY_CHANGE | APPLY_SHADOW | VERIFY_DATA | PLACE_DESTRUCTIVE_HOLD
  | RECORD_HUMAN_APPROVAL | MARK_DEPLOY_READY | VERIFY_DEPLOYMENT | UNCERTAIN_OUTCOME | RECONCILIATION_AMBIGUOUS

fun migration_event_value :: "migration_event \<Rightarrow> string" where
  "migration_event_value VALIDATE_MANIFEST = ''VALIDATE_MANIFEST''"
| "migration_event_value CLASSIFY_CHANGE = ''CLASSIFY_CHANGE''"
| "migration_event_value APPLY_SHADOW = ''APPLY_SHADOW''"
| "migration_event_value VERIFY_DATA = ''VERIFY_DATA''"
| "migration_event_value PLACE_DESTRUCTIVE_HOLD = ''PLACE_DESTRUCTIVE_HOLD''"
| "migration_event_value RECORD_HUMAN_APPROVAL = ''RECORD_HUMAN_APPROVAL''"
| "migration_event_value MARK_DEPLOY_READY = ''MARK_DEPLOY_READY''"
| "migration_event_value VERIFY_DEPLOYMENT = ''VERIFY_DEPLOYMENT''"
| "migration_event_value UNCERTAIN_OUTCOME = ''UNCERTAIN_OUTCOME''"
| "migration_event_value RECONCILIATION_AMBIGUOUS = ''RECONCILIATION_AMBIGUOUS''"

definition migration_rules :: "((migration_state \<times> migration_event) \<times> migration_state \<times> string set) list" where
  "migration_rules =
     [((DRAFT, VALIDATE_MANIFEST), MANIFEST_VALID, {''migration_identity_valid''}),
      ((MANIFEST_VALID, CLASSIFY_CHANGE), CLASSIFIED, {''change_class_known''}),
      ((CLASSIFIED, APPLY_SHADOW), SHADOW_APPLIED, {''shadow_only'', ''migration_identity_valid''}),
      ((SHADOW_APPLIED, VERIFY_DATA), DATA_VERIFIED, {''schema_fingerprint_valid'', ''compatibility_checked''}),
      ((DATA_VERIFIED, PLACE_DESTRUCTIVE_HOLD), DESTRUCTIVE_HOLD, {''destructive_change''}),
      ((DESTRUCTIVE_HOLD, RECORD_HUMAN_APPROVAL), HUMAN_APPROVED, {''human_decision_present''}),
      ((DATA_VERIFIED, MARK_DEPLOY_READY), DEPLOY_READY, {''non_destructive'', ''preflight_passed''}),
      ((HUMAN_APPROVED, MARK_DEPLOY_READY), DEPLOY_READY, {''human_decision_present'', ''preflight_passed''}),
      ((DEPLOY_READY, VERIFY_DEPLOYMENT), DEPLOYED_VERIFIED, {''post_deploy_verified''}),
      ((UNCERTAIN_EXECUTION, RECONCILIATION_AMBIGUOUS), FORENSIC_HOLD, {''reconciliation_ambiguous''})]"

definition uncertain_sources :: "migration_state set" where
  "uncertain_sources =
     {CLASSIFIED, SHADOW_APPLIED, DATA_VERIFIED, DESTRUCTIVE_HOLD, HUMAN_APPROVED, DEPLOY_READY}"

definition migration_rule :: "migration_state \<Rightarrow> migration_event \<Rightarrow> (migration_state \<times> string set) res" where
  "migration_rule s e =
     (if e = UNCERTAIN_OUTCOME \<and> s \<in> uncertain_sources then
        Inr (UNCERTAIN_EXECUTION, {''uncertain_outcome_confirmed''})
      else
        case map_of migration_rules (s, e) of
          None \<Rightarrow> Inl (InvalidTransition (migration_event_value e @ '' is not valid from '' @ migration_state_value s))
        | Some rule \<Rightarrow> Inr rule)"

definition migration_transition :: "migration_state \<Rightarrow> migration_event \<Rightarrow> string set \<Rightarrow> migration_state res" where
  "migration_transition s e guards =
     bindE (migration_rule s e) (\<lambda>(target, needed).
     let missing = sorted_diff needed guards in
     if missing \<noteq> [] then
       Inl (GuardRejected (migration_state_value s @ '' --'' @ migration_event_value e @ ''--> '' @
              migration_state_value target @ '' rejected'') missing)
     else Inr target)"

definition migration_step :: "migration_state \<Rightarrow> migration_event \<times> string set \<Rightarrow> migration_state res" where
  "migration_step s eg = migration_transition s (fst eg) (snd eg)"

subsection \<open>Runs\<close>

fun migration_rank :: "migration_state \<Rightarrow> nat" where
  "migration_rank DRAFT = 9"
| "migration_rank MANIFEST_VALID = 8"
| "migration_rank CLASSIFIED = 7"
| "migration_rank SHADOW_APPLIED = 6"
| "migration_rank DATA_VERIFIED = 5"
| "migration_rank DESTRUCTIVE_HOLD = 4"
| "migration_rank HUMAN_APPROVED = 3"
| "migration_rank DEPLOY_READY = 2"
| "migration_rank UNCERTAIN_EXECUTION = 1"
| "migration_rank DEPLOYED_VERIFIED = 0"
| "migration_rank FORENSIC_HOLD = 0"

lemma migration_step_Inr:
  "migration_step s (e, g) = Inr t \<longleftrightarrow> (\<exists>needed. migration_rule s e = Inr (t, needed) \<and> finite needed \<and> needed \<subseteq> g)"
proof -
  have "finite needed" if "migration_rule s e = Inr (t, needed)" for t needed
    using that by (auto simp: migration_rule_def migration_rules_def split: if_splits)
  then show ?thesis
    by (cases "migration_rule s e") (auto simp: migration_step_def migration_transition_def Let_def split: if_splits)
qed

interpretation migration_ranked: ranked_machine migration_step migration_rank
proof
  fix s t and eg :: "migration_event \<times> string set"
  assume "migration_step s eg = Inr t"
  then show "migration_rank t < migration_rank s"
    by (cases eg) (auto simp: migration_step_Inr migration_rule_def migration_rules_def uncertain_sources_def split: if_splits)
qed

text \<open>What has to be offered, from each state, for a migration to become deployed and verified.\<close>

abbreviation deploy_offer :: "migration_event \<times> string set \<Rightarrow> migration_event \<times> string set \<Rightarrow> bool" where
  "deploy_offer given needed \<equiv> fst given = fst needed \<and> snd needed \<subseteq> snd given"

definition approved_tail :: "(migration_event \<times> string set) list" where
  "approved_tail =
     [(MARK_DEPLOY_READY, {''human_decision_present'', ''preflight_passed''}), (VERIFY_DEPLOYMENT, {''post_deploy_verified''})]"

definition held_tail :: "(migration_event \<times> string set) list" where
  "held_tail = (RECORD_HUMAN_APPROVAL, {''human_decision_present''}) # approved_tail"

definition verified_tails :: "(migration_event \<times> string set) list list" where
  "verified_tails =
     [[(MARK_DEPLOY_READY, {''non_destructive'', ''preflight_passed''}), (VERIFY_DEPLOYMENT, {''post_deploy_verified''})],
      (PLACE_DESTRUCTIVE_HOLD, {''destructive_change''}) # held_tail]"

definition shadow_path :: "(migration_event \<times> string set) list" where
  "shadow_path =
     [(VALIDATE_MANIFEST, {''migration_identity_valid''}), (CLASSIFY_CHANGE, {''change_class_known''}),
      (APPLY_SHADOW, {''shadow_only'', ''migration_identity_valid''}),
      (VERIFY_DATA, {''schema_fingerprint_valid'', ''compatibility_checked''})]"

fun deploy_paths :: "migration_state \<Rightarrow> (migration_event \<times> string set) list list" where
  "deploy_paths DEPLOYED_VERIFIED = [[]]"
| "deploy_paths DEPLOY_READY = [tl approved_tail]"
| "deploy_paths HUMAN_APPROVED = [approved_tail]"
| "deploy_paths DESTRUCTIVE_HOLD = [held_tail]"
| "deploy_paths DATA_VERIFIED = verified_tails"
| "deploy_paths SHADOW_APPLIED = map (\<lambda>p. drop 3 shadow_path @ p) verified_tails"
| "deploy_paths CLASSIFIED = map (\<lambda>p. drop 2 shadow_path @ p) verified_tails"
| "deploy_paths MANIFEST_VALID = map (\<lambda>p. drop 1 shadow_path @ p) verified_tails"
| "deploy_paths DRAFT = map (\<lambda>p. shadow_path @ p) verified_tails"
| "deploy_paths UNCERTAIN_EXECUTION = []"
| "deploy_paths FORENSIC_HOLD = []"

lemmas deploy_path_defs = approved_tail_def held_tail_def verified_tails_def shadow_path_def

lemma deploy_paths_step:
  "(e, n) # q \<in> set (deploy_paths s) \<longleftrightarrow> (\<exists>t. migration_rule s e = Inr (t, n) \<and> q \<in> set (deploy_paths t))"
  by (cases s; cases e; simp add: migration_rule_def migration_rules_def uncertain_sources_def deploy_path_defs; auto)

lemma run_to_deployed:
  "run_steps migration_step s es = Inr DEPLOYED_VERIFIED \<longleftrightarrow> (\<exists>p \<in> set (deploy_paths s). list_all2 deploy_offer es p)"
proof (induction es arbitrary: s)
  case Nil
  show ?case by (cases s) (simp_all add: deploy_path_defs)
next
  case (Cons eg es)
  obtain e g where eg: "eg = (e, g)" by (cases eg)
  have finite: "finite n" if "migration_rule s e = Inr (t, n)" for t n
    using that by (auto simp: migration_rule_def migration_rules_def split: if_splits)
  have "run_steps migration_step s (eg # es) = Inr DEPLOYED_VERIFIED \<longleftrightarrow>
      (\<exists>t n q. migration_rule s e = Inr (t, n) \<and> n \<subseteq> g \<and> q \<in> set (deploy_paths t) \<and> list_all2 deploy_offer es q)"
    unfolding run_steps.simps bindE_Inr eg migration_step_Inr Cons.IH using finite by blast
  also have "\<dots> \<longleftrightarrow> (\<exists>n q. (e, n) # q \<in> set (deploy_paths s) \<and> n \<subseteq> g \<and> list_all2 deploy_offer es q)"
    unfolding deploy_paths_step by blast
  also have "\<dots> \<longleftrightarrow> (\<exists>p \<in> set (deploy_paths s). list_all2 deploy_offer (eg # es) p)"
  proof
    assume "\<exists>n q. (e, n) # q \<in> set (deploy_paths s) \<and> n \<subseteq> g \<and> list_all2 deploy_offer es q"
    then obtain n q where "(e, n) # q \<in> set (deploy_paths s)" "list_all2 deploy_offer (eg # es) ((e, n) # q)"
      by (auto simp: eg)
    then show "\<exists>p \<in> set (deploy_paths s). list_all2 deploy_offer (eg # es) p" by (rule bexI [rotated])
  next
    assume "\<exists>p \<in> set (deploy_paths s). list_all2 deploy_offer (eg # es) p"
    then obtain p where p: "p \<in> set (deploy_paths s)" "list_all2 deploy_offer (eg # es) p" by blast
    then obtain n q where "p = (e, n) # q" "n \<subseteq> g" "list_all2 deploy_offer es q"
      by (auto simp: list_all2_Cons1 eg)
    with p(1) show "\<exists>n q. (e, n) # q \<in> set (deploy_paths s) \<and> n \<subseteq> g \<and> list_all2 deploy_offer es q" by blast
  qed
  finally show ?case .
qed

text \<open>C18. A migration becomes deployed and verified by exactly two kinds of run: shadow application and data
  verification, then either the direct step, offered as non-destructive with a passed preflight, or the
  hold, a recorded human approval and a step that offers the human decision again; then the verification of
  the deployment.  An execution once marked uncertain never gets there.\<close>

theorem deployed_only_by_two_paths:
  "(run_steps migration_step DRAFT es = Inr DEPLOYED_VERIFIED \<longleftrightarrow>
      (\<exists>p \<in> set verified_tails. list_all2 deploy_offer es (shadow_path @ p))) \<and>
   (\<forall>s. s \<in> {UNCERTAIN_EXECUTION, FORENSIC_HOLD} \<longrightarrow> \<not> reaches migration_step s DEPLOYED_VERIFIED)"
proof -
  have "\<not> reaches migration_step s DEPLOYED_VERIFIED" if "s \<in> {UNCERTAIN_EXECUTION, FORENSIC_HOLD}" for s
    using that run_to_deployed [of s] by (auto dest: reaches_run_steps)
  then show ?thesis using run_to_deployed [of DRAFT] by auto
qed

theorem deployed_only_by_two_paths_witness:
  "run_steps migration_step DRAFT (shadow_path @ hd verified_tails) = Inr DEPLOYED_VERIFIED \<and>
   \<not> reaches migration_step UNCERTAIN_EXECUTION DEPLOYED_VERIFIED"
proof -
  have "hd verified_tails \<in> set verified_tails" by (simp add: verified_tails_def)
  then show ?thesis
    using deployed_only_by_two_paths [of "shadow_path @ hd verified_tails"] list_all2_same [of deploy_offer] by blast
qed

end
