(* ===== verification/DbMigration.thy ===== *)
theory DbMigration
  imports Orchestrator AuditLedger Recovery
begin

section \<open>Database migrations: candidates, classification and shadow execution\<close>

text \<open>
  \<open>galia2/db_deploy\<close>: the data contracts of \<open>models.py\<close>, the classifier, the schema fingerprint, the
  shadow executor around a caller-provided \<open>apply_shadow\<close> (a parameter), the validator of its evidence,
  the receipt builder and the mapping of uncertain outcomes.  A schema descriptor is a JSON value.
\<close>

subsection \<open>Data\<close>

datatype change_class =
    ADDITIVE | COMPATIBLE_TRANSFORM | BACKFILL | RENAMING | DEPRECATION | DESTRUCTIVE | CORRECTIVE

fun change_class_value :: "change_class \<Rightarrow> string" where
  "change_class_value ADDITIVE = ''ADDITIVE''"
| "change_class_value COMPATIBLE_TRANSFORM = ''COMPATIBLE_TRANSFORM''"
| "change_class_value BACKFILL = ''BACKFILL''"
| "change_class_value RENAMING = ''RENAMING''"
| "change_class_value DEPRECATION = ''DEPRECATION''"
| "change_class_value DESTRUCTIVE = ''DESTRUCTIVE''"
| "change_class_value CORRECTIVE = ''CORRECTIVE''"

record schema_delta =
  sd_added :: "string list"
  sd_removed :: "string list"
  sd_altered :: "string list"
  sd_renamed :: "(string \<times> string) list"
  sd_backfill :: bool
  sd_corrective :: bool
  sd_compatible :: bool

definition unique_objects :: "string \<Rightarrow> string list \<Rightarrow> unit res" where
  \<comment> \<open>one round of the loop over the three object lists\<close>
  "unique_objects name vs =
     bindE (raise_if (\<not> distinct vs) (ValueError (name @ '' must contain unique values''))) (\<lambda>_.
     bindE (mapE (required name) vs) (\<lambda>_. Inr ()))"

definition rename_ends :: "string \<times> string \<Rightarrow> unit res" where
  "rename_ends st =
     bindE (required ''rename source'' (fst st)) (\<lambda>_.
     bindE (required ''rename target'' (snd st)) (\<lambda>_. Inr ()))"

definition delta_post_init :: "schema_delta \<Rightarrow> schema_delta res" where
  "delta_post_init d =
     bindE (unique_objects ''added_objects'' (sd_added d)) (\<lambda>_.
     bindE (unique_objects ''removed_objects'' (sd_removed d)) (\<lambda>_.
     bindE (unique_objects ''altered_objects'' (sd_altered d)) (\<lambda>_.
     bindE (mapE rename_ends (sd_renamed d)) (\<lambda>_.
     bindE (raise_if (\<not> distinct (map fst (sd_renamed d)) \<or> \<not> distinct (map snd (sd_renamed d)))
              (ValueError ''renamed_objects must have unique sources and targets'')) (\<lambda>_. Inr d)))))"

definition delta_empty :: "schema_delta \<Rightarrow> bool" where
  "delta_empty d \<longleftrightarrow>
     \<not> (sd_added d \<noteq> [] \<or> sd_removed d \<noteq> [] \<or> sd_altered d \<noteq> [] \<or> sd_renamed d \<noteq> [] \<or>
        sd_backfill d \<or> sd_corrective d)"

record migration_candidate =
  mc_candidate_id :: string
  mc_migration_id :: string
  mc_parent_version :: string
  mc_target_version :: string
  mc_sha256 :: string
  mc_class :: change_class
  mc_destructive :: bool
  mc_parent_receipt :: "string option"

definition candidate_checked :: "migration_candidate \<Rightarrow> migration_candidate res" where
  \<comment> \<open>\<open>MigrationCandidate.__post_init__\<close>\<close>
  "candidate_checked c =
     bindE (requireds [(''candidate_id'', mc_candidate_id c), (''migration_id'', mc_migration_id c),
                       (''parent_schema_version'', mc_parent_version c),
                       (''target_schema_version'', mc_target_version c)]) (\<lambda>_.
     bindE (hash_field ''migration_sha256'' (mc_sha256 c)) (\<lambda>h.
     bindE (hash_field_opt ''parent_receipt_sha256'' (mc_parent_receipt c)) (\<lambda>p.
     Inr (c\<lparr>mc_sha256 := h, mc_parent_receipt := p\<rparr>))))"

record migration_evidence =
  me_candidate_id :: string
  me_migration_id :: string
  me_sha256 :: string
  me_class :: change_class
  me_version_before :: string
  me_version_after :: string
  me_fingerprint_before :: string
  me_fingerprint_after :: string
  me_shadow :: string
  me_backfill :: string
  me_compatibility :: string
  me_destructive :: bool

definition evidence_post_init :: "migration_evidence \<Rightarrow> migration_evidence res" where
  "evidence_post_init e =
     bindE (requireds [(''candidate_id'', me_candidate_id e), (''migration_id'', me_migration_id e)]) (\<lambda>_.
     bindE (hash_field ''migration_sha256'' (me_sha256 e)) (\<lambda>h.
     bindE (requireds [(''schema_version_before'', me_version_before e), (''schema_version_after'', me_version_after e)]) (\<lambda>_.
     bindE (hash_field ''schema_fingerprint_before'' (me_fingerprint_before e)) (\<lambda>fb.
     bindE (hash_field ''schema_fingerprint_after'' (me_fingerprint_after e)) (\<lambda>fa.
     bindE (requireds [(''shadow_result'', me_shadow e), (''backfill_result'', me_backfill e),
                       (''compatibility_result'', me_compatibility e)]) (\<lambda>_.
     Inr (e\<lparr>me_sha256 := h, me_fingerprint_before := fb, me_fingerprint_after := fa\<rparr>)))))))"

definition evidence_json :: "migration_evidence \<Rightarrow> json" where
  "evidence_json e =
     JObj [(''backfill_result'', JStr (me_backfill e)), (''candidate_id'', JStr (me_candidate_id e)),
           (''change_class'', JStr (change_class_value (me_class e))),
           (''compatibility_result'', JStr (me_compatibility e)), (''destructive_change'', JBool (me_destructive e)),
           (''migration_id'', JStr (me_migration_id e)), (''migration_sha256'', JStr (me_sha256 e)),
           (''schema_fingerprint_after'', JStr (me_fingerprint_after e)),
           (''schema_fingerprint_before'', JStr (me_fingerprint_before e)),
           (''schema_version_after'', JStr (me_version_after e)), (''schema_version_before'', JStr (me_version_before e)),
           (''shadow_result'', JStr (me_shadow e))]"

definition evidence_sha256 :: "migration_evidence \<Rightarrow> string" where
  "evidence_sha256 e = sha256 (dumps (evidence_json e))"

subsection \<open>Classification\<close>

record classification =
  kl_class :: change_class
  kl_destructive :: bool
  kl_reasons :: "string list"

definition classify_delta :: "schema_delta \<Rightarrow> classification res" where
  "classify_delta d =
     bindE (raise_if (delta_empty d) (ValueError ''empty schema delta cannot be classified'')) (\<lambda>_.
     if sd_corrective d then
       Inr \<lparr>kl_class = CORRECTIVE, kl_destructive = (\<not> sd_compatible d),
            kl_reasons = [''corrective migration explicitly declared'']\<rparr>
     else if sd_removed d \<noteq> [] \<or> (sd_altered d \<noteq> [] \<and> \<not> sd_compatible d) then
       Inr \<lparr>kl_class = DESTRUCTIVE, kl_destructive = True,
            kl_reasons = (if sd_removed d \<noteq> [] then [''objects removed''] else []) @
              (if sd_altered d \<noteq> [] \<and> \<not> sd_compatible d then [''incompatible object alteration''] else [])\<rparr>
     else if sd_renamed d \<noteq> [] then
       Inr \<lparr>kl_class = RENAMING, kl_destructive = (\<not> sd_compatible d), kl_reasons = [''objects renamed'']\<rparr>
     else if sd_backfill d then
       Inr \<lparr>kl_class = BACKFILL, kl_destructive = (\<not> sd_compatible d), kl_reasons = [''data backfill required'']\<rparr>
     else if sd_altered d \<noteq> [] then
       Inr \<lparr>kl_class = COMPATIBLE_TRANSFORM, kl_destructive = False,
            kl_reasons = [''backward-compatible object alteration'']\<rparr>
     else if sd_added d \<noteq> [] then
       Inr \<lparr>kl_class = ADDITIVE, kl_destructive = False, kl_reasons = [''objects added'']\<rparr>
     else Inl (ValueError ''schema delta cannot be classified''))"

subsection \<open>Fingerprints, shadow execution and validation\<close>

definition schema_fingerprint :: "json \<Rightarrow> string" where
  "schema_fingerprint descriptor = sha256 (dumps descriptor)"

definition verify_schema_fingerprint :: "string \<Rightarrow> json \<Rightarrow> bool" where
  "verify_schema_fingerprint expected descriptor \<longleftrightarrow> schema_fingerprint descriptor = lower expected"

record shadow_apply_result =
  sa_after_descriptor :: json
  sa_output_ref :: string
  sa_backfill :: string
  sa_compatibility :: string

record migration_execution =
  mx_evidence :: migration_evidence
  mx_output_ref :: string

definition as_stage_execution :: "migration_execution \<Rightarrow> stage_execution" where
  "as_stage_execution x =
     \<lparr>se_output_refs = [mx_output_ref x],
      se_output_hashes = [evidence_sha256 (mx_evidence x), me_fingerprint_after (mx_evidence x)],
      se_guards = {''output_hash_valid''}\<rparr>"

type_synonym shadow_apply = "migration_candidate \<Rightarrow> shadow_apply_result returned io"

definition shadow_failure :: "pyexc \<Rightarrow> pyexc" where
  \<comment> \<open>the three \<open>except\<close> clauses\<close>
  "shadow_failure e =
     (case e of
        UncertainExecutionOutcome committed msg \<Rightarrow>
          StageExecutionFailure PERSISTENCE (''uncertain database execution outcome: '' @ exc_str e)
      | StageExecutionFailure kind msg \<Rightarrow> e
      | _ \<Rightarrow> StageExecutionFailure INTEGRITY (''shadow migration failed: '' @ exc_class e @ '': '' @ exc_str e))"

definition shadow_evidence :: "migration_candidate \<Rightarrow> string \<Rightarrow> shadow_apply_result \<Rightarrow> migration_evidence" where
  "shadow_evidence c before r =
     \<lparr>me_candidate_id = mc_candidate_id c, me_migration_id = mc_migration_id c, me_sha256 = mc_sha256 c,
      me_class = mc_class c, me_version_before = mc_parent_version c, me_version_after = mc_target_version c,
      me_fingerprint_before = before, me_fingerprint_after = schema_fingerprint (sa_after_descriptor r),
      me_shadow = ''PASS'', me_backfill = sa_backfill r, me_compatibility = sa_compatibility r,
      me_destructive = mc_destructive c\<rparr>"

definition execute_shadow :: "migration_candidate \<Rightarrow> json \<Rightarrow> shadow_apply \<Rightarrow> migration_execution io" where
  "execute_shadow c before_descriptor apply_shadow =
     (let before = schema_fingerprint before_descriptor in
      bindI (catch (apply_shadow c) (\<lambda>e. throw (shadow_failure e))) (\<lambda>r.
      case r of
        Other_object \<Rightarrow> throw (TypeError ''apply_shadow must return ShadowApplyResult'')
      | Returned result \<Rightarrow>
          bindI (throw_if (blank (sa_output_ref result)) (ValueError ''shadow output_ref must be non-empty'')) (\<lambda>_.
          bindI (lift (evidence_post_init (shadow_evidence c before result))) (\<lambda>e.
          ret \<lparr>mx_evidence = e, mx_output_ref = sa_output_ref result\<rparr>))))"

definition requires_authority_hold :: "migration_candidate \<Rightarrow> bool" where
  "requires_authority_hold c \<longleftrightarrow> mc_destructive c"

definition evidence_matches :: "migration_candidate \<Rightarrow> migration_evidence \<Rightarrow> bool" where
  "evidence_matches c e \<longleftrightarrow>
     me_candidate_id e = mc_candidate_id c \<and> me_migration_id e = mc_migration_id c \<and> me_sha256 e = mc_sha256 c \<and>
     me_class e = mc_class c \<and> me_version_before e = mc_parent_version c \<and> me_version_after e = mc_target_version c \<and>
     me_destructive e = mc_destructive c"

definition failed_validation :: "failure_kind \<Rightarrow> string \<Rightarrow> stage_validation" where
  "failed_validation kind msg = \<lparr>sv_passed = False, sv_guards = {}, sv_failure_kind = kind, sv_message = msg\<rparr>"

definition validate_execution :: "migration_candidate \<Rightarrow> migration_execution \<Rightarrow> stage_validation" where
  "validate_execution c x =
     (let e = mx_evidence x in
      if \<not> evidence_matches c e then
        failed_validation INTEGRITY ''migration evidence does not match exact candidate identity''
      else if me_shadow e \<noteq> ''PASS'' then failed_validation INTEGRITY ''shadow execution did not pass''
      else if me_compatibility e \<noteq> ''PASS'' then
        failed_validation MATERIAL_CONFLICT_KIND ''compatibility validation did not pass''
      else if me_backfill e \<notin> {''PASS'', ''NOT_REQUIRED''} then
        failed_validation INTEGRITY ''backfill validation did not pass''
      else
        \<lparr>sv_passed = True,
         sv_guards = {''required_validations_passed'', ''schema_fingerprint_valid'', ''compatibility_checked''},
         sv_failure_kind = INTEGRITY, sv_message = []\<rparr>)"

definition build_migration_receipt ::
  "migration_evidence \<Rightarrow> string \<Rightarrow> string \<Rightarrow> string \<Rightarrow> datetime \<Rightarrow> string \<Rightarrow> string option \<Rightarrow> string option \<Rightarrow> string \<Rightarrow> receipt res" where
  "build_migration_receipt e receipt_id policy_version actor timestamp operation input_commit output_commit result =
     receipt_post_init
       \<lparr>rc_receipt_id = receipt_id, rc_operation = operation, rc_input_commit = input_commit,
        rc_input_hashes = [me_sha256 e, me_fingerprint_before e], rc_output_commit = output_commit,
        rc_output_hashes = [evidence_sha256 e, me_fingerprint_after e], rc_policy_version = policy_version,
        rc_actor = actor, rc_timestamp = timestamp, rc_result = result\<rparr>"

definition recovery_trigger_for_uncertain :: "bool \<Rightarrow> recovery_trigger" where
  "recovery_trigger_for_uncertain committed = (if committed then PARTIAL_COMMIT else EXECUTION_INTERRUPTION)"

subsection \<open>What the data guarantee\<close>

lemma candidate_checked_Inr [result_simps]:
  "candidate_checked c = Inr c' \<longleftrightarrow>
     \<not> blank (mc_candidate_id c) \<and> \<not> blank (mc_migration_id c) \<and> \<not> blank (mc_parent_version c) \<and>
     \<not> blank (mc_target_version c) \<and> hex64 (mc_sha256 c) \<and> (\<forall>h. mc_parent_receipt c = Some h \<longrightarrow> hex64 h) \<and>
     c' = c\<lparr>mc_sha256 := lower (mc_sha256 c), mc_parent_receipt := map_option lower (mc_parent_receipt c)\<rparr>"
  by (auto simp: candidate_checked_def result_simps)

lemma candidate_stored: "candidate_checked c = Inr c \<Longrightarrow> lower (mc_sha256 c) = mc_sha256 c"
  by (cases c) (simp add: candidate_checked_Inr)

text \<open>The classifier is total on non-empty deltas and exact: it refuses an empty delta, and otherwise calls a
  migration destructive if and only if it is declared corrective and incompatible, or is not corrective and
  removes objects or alters, renames or backfills incompatibly.  A removal under a compatible corrective
  declaration is not destructive.\<close>

theorem classification_exact:
  "((\<exists>e. classify_delta d = Inl e) \<longleftrightarrow> delta_empty d) \<and>
   (\<forall>k. classify_delta d = Inr k \<longrightarrow>
      (kl_destructive k \<longleftrightarrow>
         (if sd_corrective d then \<not> sd_compatible d
          else sd_removed d \<noteq> [] \<or> \<not> sd_compatible d \<and> (sd_altered d \<noteq> [] \<or> sd_renamed d \<noteq> [] \<or> sd_backfill d))) \<and>
      (kl_class k = DESTRUCTIVE \<longrightarrow> kl_destructive k) \<and> kl_class k \<noteq> DEPRECATION)"
  by (auto simp: classify_delta_def delta_empty_def)

definition example_delta :: schema_delta where
  "example_delta = \<lparr>sd_added = [], sd_removed = [''orders''], sd_altered = [], sd_renamed = [], sd_backfill = False,
     sd_corrective = True, sd_compatible = True\<rparr>"

theorem classification_exact_witness:
  "\<exists>k. classify_delta example_delta = Inr k \<and> \<not> kl_destructive k"
proof -
  have "\<not> delta_empty example_delta" by (simp add: delta_empty_def example_delta_def)
  then obtain k where "classify_delta example_delta = Inr k"
    using classification_exact [of example_delta] by (cases "classify_delta example_delta") auto
  with classification_exact [of example_delta] show ?thesis by (auto simp: example_delta_def)
qed

lemma execute_shadow_cases:
  assumes "execute_shadow c b apply_shadow w = (r, w')"
  obtains (refused) e v where "apply_shadow c w = (Inl e, w')" "r = Inl (shadow_failure e)"
  | (other) "apply_shadow c w = (Inr Other_object, w')" "r = Inl (TypeError ''apply_shadow must return ShadowApplyResult'')"
  | (returned) s where "apply_shadow c w = (Inr (Returned s), w')"
      "r = bindE (raise_if (blank (sa_output_ref s)) (ValueError ''shadow output_ref must be non-empty'')) (\<lambda>_.
           bindE (evidence_post_init (shadow_evidence c (schema_fingerprint b) s)) (\<lambda>e.
           Inr \<lparr>mx_evidence = e, mx_output_ref = sa_output_ref s\<rparr>))"
proof -
  obtain r1 v where run: "apply_shadow c w = (r1, v)" by (cases "apply_shadow c w")
  show thesis
  proof (cases r1)
    case (Inl e)
    with assms run have "v = w'" "r = Inl (shadow_failure e)" by (auto simp: execute_shadow_def bindI_def)
    with refused run Inl show thesis by blast
  next
    case (Inr x)
    show thesis
    proof (cases x)
      case (Returned s)
      with assms run Inr show thesis
        by (intro returned [of s]) (auto simp: execute_shadow_def bindI_def throw_if_def raise_if_def bindE_def split: if_splits sum.splits)
    next
      case Other_object
      with assms run Inr show thesis by (intro other) (auto simp: execute_shadow_def bindI_def)
    qed
  qed
qed

lemma shadow_failure_typed: "\<exists>k m. shadow_failure e = StageExecutionFailure k m"
  by (cases e) (simp_all add: shadow_failure_def)

lemma evidence_post_init_stored:
  assumes "evidence_post_init (shadow_evidence c b s) = Inr e" "candidate_checked c = Inr c" "lower_hex64 b"
  shows "e = shadow_evidence c b s"
  using assms candidate_stored [OF assms(2)] lower_lower_hex64 [OF assms(3)]
  by (auto simp: evidence_post_init_def shadow_evidence_def result_simps schema_fingerprint_def)

text \<open>Shadow execution and its validator fit: an execution that returns carries evidence of exactly its
  candidate and of the two descriptors, and the validator passes it if and only if the caller reported
  compatibility and backfill as passed; an exception of the caller always arrives as a typed stage failure, of kind
  PERSISTENCE when the outcome is uncertain.\<close>

theorem shadow_evidence_validates:
  assumes "candidate_checked c = Inr c"
  shows "(\<forall>x. execute_shadow c b apply_shadow w = (Inr x, w') \<longrightarrow>
      (\<exists>s. apply_shadow c w = (Inr (Returned s), w') \<and> mx_evidence x = shadow_evidence c (schema_fingerprint b) s \<and>
         (sv_passed (validate_execution c x) \<longleftrightarrow> sa_compatibility s = ''PASS'' \<and> sa_backfill s \<in> {''PASS'', ''NOT_REQUIRED''}) \<and>
         verify_schema_fingerprint (me_fingerprint_after (mx_evidence x)) (sa_after_descriptor s))) \<and>
    (\<forall>e. apply_shadow c w = (Inl e, w') \<longrightarrow>
      (\<exists>k m. execute_shadow c b apply_shadow w = (Inl (StageExecutionFailure k m), w') \<and>
         (\<forall>committed msg. e = UncertainExecutionOutcome committed msg \<longrightarrow> k = PERSISTENCE)))"
proof (intro conjI allI impI)
  fix x
  assume "execute_shadow c b apply_shadow w = (Inr x, w')"
  then show "\<exists>s. apply_shadow c w = (Inr (Returned s), w') \<and> mx_evidence x = shadow_evidence c (schema_fingerprint b) s \<and>
         (sv_passed (validate_execution c x) \<longleftrightarrow> sa_compatibility s = ''PASS'' \<and> sa_backfill s \<in> {''PASS'', ''NOT_REQUIRED''}) \<and>
         verify_schema_fingerprint (me_fingerprint_after (mx_evidence x)) (sa_after_descriptor s)"
  proof (cases rule: execute_shadow_cases)
    case (returned s)
    from returned(2) have "evidence_post_init (shadow_evidence c (schema_fingerprint b) s) = Inr (mx_evidence x)"
      by (cases "evidence_post_init (shadow_evidence c (schema_fingerprint b) s)") (auto simp: raise_if_def split: if_splits)
    then have e: "mx_evidence x = shadow_evidence c (schema_fingerprint b) s"
      by (rule evidence_post_init_stored [OF _ assms]) (simp add: schema_fingerprint_def sha256_lower_hex64)
    have "evidence_matches c (mx_evidence x)" "me_shadow (mx_evidence x) = ''PASS''"
      "me_compatibility (mx_evidence x) = sa_compatibility s" "me_backfill (mx_evidence x) = sa_backfill s"
      "me_fingerprint_after (mx_evidence x) = schema_fingerprint (sa_after_descriptor s)"
      by (simp_all add: e evidence_matches_def shadow_evidence_def)
    with returned(1) e show ?thesis
      by (intro exI [of _ s])
        (simp add: validate_execution_def failed_validation_def verify_schema_fingerprint_def schema_fingerprint_def)
  qed (use shadow_failure_typed in simp_all)
next
  fix e
  assume "apply_shadow c w = (Inl e, w')"
  then have "execute_shadow c b apply_shadow w = (Inl (shadow_failure e), w')"
    by (simp add: execute_shadow_def bindI_def)
  moreover obtain k m where "shadow_failure e = StageExecutionFailure k m" using shadow_failure_typed by blast
  moreover have "k = PERSISTENCE" if "e = UncertainExecutionOutcome committed msg" for committed msg
    using that calculation(2) by (simp add: shadow_failure_def)
  ultimately show "\<exists>k m. execute_shadow c b apply_shadow w = (Inl (StageExecutionFailure k m), w') \<and>
         (\<forall>committed msg. e = UncertainExecutionOutcome committed msg \<longrightarrow> k = PERSISTENCE)" by auto
qed

definition example_migration :: migration_candidate where
  "example_migration =
     \<lparr>mc_candidate_id = ''k1'', mc_migration_id = ''m1'', mc_parent_version = ''v1'', mc_target_version = ''v2'',
      mc_sha256 = sha256 ''ALTER TABLE t'', mc_class = ADDITIVE, mc_destructive = False, mc_parent_receipt = None\<rparr>"

definition example_apply :: shadow_apply where
  "example_apply c = ret (Returned \<lparr>sa_after_descriptor = JObj [], sa_output_ref = ''shadow'', sa_backfill = ''NOT_REQUIRED'',
     sa_compatibility = ''PASS''\<rparr>)"

lemma example_migration_checked: "candidate_checked example_migration = Inr example_migration"
  by (simp add: candidate_checked_Inr example_migration_def)

theorem shadow_evidence_validates_witness:
  "\<exists>x. execute_shadow example_migration JNull example_apply (quiet_world []) = (Inr x, quiet_world []) \<and>
     sv_passed (validate_execution example_migration x)"
proof -
  have "\<exists>x. execute_shadow example_migration JNull example_apply (quiet_world []) = (Inr x, quiet_world [])"
    by (simp add: execute_shadow_def example_apply_def bindI_def evidence_post_init_def shadow_evidence_def
        example_migration_def schema_fingerprint_def required_def)
  then obtain x where "execute_shadow example_migration JNull example_apply (quiet_world []) = (Inr x, quiet_world [])" by blast
  with shadow_evidence_validates [OF example_migration_checked, of JNull example_apply "quiet_world []" "quiet_world []"]
  show ?thesis by (auto simp: example_apply_def)
qed

end
