(* ===== verification/MigrationHistory.thy ===== *)
theory MigrationHistory
  imports DbMigration
begin

section \<open>Applied-migration history\<close>

text \<open>
  \<open>galia2/db_deploy/history.py\<close>: the hash-chained records of applied migrations, the verifier of a history
  (chain, sequence, unique identities, schema lineage), the check of the migration artifacts, and the
  construction of the next record, which refuses a migration that is already there.
\<close>

subsection \<open>Records\<close>

record applied_record =
  ar_sequence :: int
  ar_migration_id :: string
  ar_sha256 :: string
  ar_version_before :: string
  ar_version_after :: string
  ar_fingerprint_after :: string
  ar_evidence_sha256 :: string
  ar_receipt_id :: string
  ar_applied_at :: datetime
  ar_previous :: "string option"
  ar_hash :: string

definition applied_post_init :: "applied_record \<Rightarrow> applied_record res" where
  "applied_post_init r =
     bindE (raise_if (ar_sequence r < 1) (ValueError ''sequence must be a positive integer'')) (\<lambda>_.
     bindE (required ''migration_id'' (ar_migration_id r)) (\<lambda>_.
     bindE (hash_field ''migration_sha256'' (ar_sha256 r)) (\<lambda>mh.
     bindE (requireds [(''schema_version_before'', ar_version_before r), (''schema_version_after'', ar_version_after r)]) (\<lambda>_.
     bindE (hash_field ''schema_fingerprint_after'' (ar_fingerprint_after r)) (\<lambda>fp.
     bindE (hash_field ''evidence_sha256'' (ar_evidence_sha256 r)) (\<lambda>eh.
     bindE (required ''receipt_id'' (ar_receipt_id r)) (\<lambda>_.
     bindE (aware_field ''applied_at'' (ar_applied_at r)) (\<lambda>_.
     bindE (hash_field_opt ''previous_record_hash'' (ar_previous r)) (\<lambda>ph.
     bindE (hash_field ''record_hash'' (ar_hash r)) (\<lambda>rh.
     Inr (r\<lparr>ar_sha256 := mh, ar_fingerprint_after := fp, ar_evidence_sha256 := eh, ar_previous := ph, ar_hash := rh\<rparr>)))))))))))"

definition applied_payload_json :: "applied_record \<Rightarrow> json" where
  "applied_payload_json r =
     JObj [(''applied_at'', JStr (isoformat (ar_applied_at r))), (''evidence_sha256'', JStr (ar_evidence_sha256 r)),
           (''migration_id'', JStr (ar_migration_id r)), (''migration_sha256'', JStr (ar_sha256 r)),
           (''previous_record_hash'', json_opt (ar_previous r)), (''receipt_id'', JStr (ar_receipt_id r)),
           (''schema_fingerprint_after'', JStr (ar_fingerprint_after r)),
           (''schema_version_after'', JStr (ar_version_after r)), (''schema_version_before'', JStr (ar_version_before r)),
           (''sequence'', JInt (ar_sequence r))]"

definition applied_body :: "applied_record \<Rightarrow> string" where
  "applied_body r = dumps (applied_payload_json r)"

definition applied_create :: "applied_record \<Rightarrow> applied_record res" where
  \<comment> \<open>\<open>AppliedMigrationRecord.create\<close>; the hash the argument carries is not looked at\<close>
  "applied_create r =
     bindE (aware_field ''applied_at'' (ar_applied_at r)) (\<lambda>_.
     bindE (hash_field ''evidence_sha256'' (ar_evidence_sha256 r)) (\<lambda>eh.
     bindE (hash_field ''migration_sha256'' (ar_sha256 r)) (\<lambda>mh.
     bindE (required ''migration_id'' (ar_migration_id r)) (\<lambda>_.
     bindE (hash_field_opt ''previous_record_hash'' (ar_previous r)) (\<lambda>ph.
     bindE (required ''receipt_id'' (ar_receipt_id r)) (\<lambda>_.
     bindE (hash_field ''schema_fingerprint_after'' (ar_fingerprint_after r)) (\<lambda>fp.
     bindE (requireds [(''schema_version_after'', ar_version_after r), (''schema_version_before'', ar_version_before r)]) (\<lambda>_.
     bindE (raise_if (ar_sequence r < 1) (ValueError ''sequence must be a positive integer'')) (\<lambda>_.
     let r' = r\<lparr>ar_sha256 := mh, ar_fingerprint_after := fp, ar_evidence_sha256 := eh, ar_previous := ph\<rparr> in
     applied_post_init (r'\<lparr>ar_hash := sha256 (applied_body r')\<rparr>))))))))))"

subsection \<open>Verification\<close>

fun verify_from :: "int \<Rightarrow> string option \<Rightarrow> string option \<Rightarrow> string list \<Rightarrow> applied_record list \<Rightarrow> unit res" where
  \<comment> \<open>the loop: expected sequence, previous hash, previous schema version, identities seen\<close>
  "verify_from n previous schema seen [] = Inr ()"
| "verify_from n previous schema seen (r # rs) =
     bindE (raise_if (ar_sequence r \<noteq> n)
              (HistoryValidationError (''sequence break: expected '' @ show_int n @ '', got '' @ show_int (ar_sequence r)))) (\<lambda>_.
     bindE (raise_if (ar_previous r \<noteq> previous)
              (HistoryValidationError (''history chain break at migration '' @ ar_migration_id r))) (\<lambda>_.
     bindE (raise_if (ar_hash r \<noteq> sha256 (applied_body r))
              (HistoryValidationError (''record hash mismatch at migration '' @ ar_migration_id r))) (\<lambda>_.
     bindE (raise_if (ar_migration_id r \<in> set seen)
              (HistoryValidationError (''duplicate applied migration_id: '' @ ar_migration_id r))) (\<lambda>_.
     bindE (raise_if (schema \<noteq> None \<and> Some (ar_version_before r) \<noteq> schema)
              (HistoryValidationError (''schema lineage break: '' @ ar_version_before r @ '' != '' @ the schema))) (\<lambda>_.
     verify_from (n + 1) (Some (ar_hash r)) (Some (ar_version_after r)) (ar_migration_id r # seen) rs)))))"

definition verify_history :: "applied_record list \<Rightarrow> applied_record list res" where
  "verify_history rs = bindE (verify_from 1 None None [] rs) (\<lambda>_. Inr rs)"

fun check_artifact :: "(string \<Rightarrow> string option) \<Rightarrow> applied_record \<Rightarrow> unit res" where
  "check_artifact hashes r =
     (case hashes (ar_migration_id r) of
        None \<Rightarrow> Inl (HistoryValidationError (''applied migration artifact missing: '' @ ar_migration_id r))
      | Some current \<Rightarrow>
          bindE (hash_field (''artifact_hashes['' @ ar_migration_id r @ '']'') current) (\<lambda>h.
          raise_if (h \<noteq> ar_sha256 r) (HistoryValidationError (''applied migration mutated: '' @ ar_migration_id r))))"

definition verify_artifact_identity :: "applied_record list \<Rightarrow> (string \<Rightarrow> string option) \<Rightarrow> unit res" where
  "verify_artifact_identity rs hashes =
     bindE (verify_history rs) (\<lambda>_. bindE (mapE (check_artifact hashes) rs) (\<lambda>_. Inr ()))"

datatype history_status = ELIGIBLE | ALREADY_APPLIED

fun history_status_value :: "history_status \<Rightarrow> string" where
  "history_status_value ELIGIBLE = ''ELIGIBLE''"
| "history_status_value ALREADY_APPLIED = ''ALREADY_APPLIED''"

record history_decision =
  hd_status :: history_status
  hd_reason :: string

definition same_identity :: "applied_record \<Rightarrow> migration_candidate \<Rightarrow> bool" where
  "same_identity r c \<longleftrightarrow>
     ar_sha256 r = mc_sha256 c \<and> ar_version_before r = mc_parent_version c \<and> ar_version_after r = mc_target_version c"

definition validate_candidate_against_history :: "migration_candidate \<Rightarrow> applied_record list \<Rightarrow> history_decision res" where
  "validate_candidate_against_history c rs =
     bindE (verify_history rs) (\<lambda>verified.
     case find (\<lambda>r. ar_migration_id r = mc_migration_id c) verified of
       Some r \<Rightarrow>
         if same_identity r c then
           Inr \<lparr>hd_status = ALREADY_APPLIED, hd_reason = ''exact migration identity already exists in applied history''\<rparr>
         else Inl (HistoryValidationError (''migration_id reused with different identity: '' @ mc_migration_id c))
     | None \<Rightarrow>
         bindE (raise_if (verified \<noteq> [] \<and> mc_parent_version c \<noteq> ar_version_after (last verified))
                  (HistoryValidationError (''candidate parent schema does not match applied history: '' @
                     mc_parent_version c @ '' != '' @ ar_version_after (last verified)))) (\<lambda>_.
         Inr \<lparr>hd_status = ELIGIBLE, hd_reason = ''candidate is new and parent schema matches applied history''\<rparr>))"

definition append_applied_record ::
  "applied_record list \<Rightarrow> migration_candidate \<Rightarrow> string \<Rightarrow> string \<Rightarrow> string \<Rightarrow> datetime \<Rightarrow> applied_record list res" where
  "append_applied_record rs c fingerprint evidence receipt_id applied_at =
     bindE (validate_candidate_against_history c rs) (\<lambda>d.
     bindE (raise_if (hd_status d \<noteq> ELIGIBLE)
              (HistoryValidationError (''cannot append migration '' @ mc_migration_id c @ '': '' @
                 history_status_value (hd_status d)))) (\<lambda>_.
     bindE (applied_create
       \<lparr>ar_sequence = int (length rs) + 1, ar_migration_id = mc_migration_id c, ar_sha256 = mc_sha256 c,
        ar_version_before = mc_parent_version c, ar_version_after = mc_target_version c,
        ar_fingerprint_after = fingerprint, ar_evidence_sha256 = evidence, ar_receipt_id = receipt_id,
        ar_applied_at = applied_at, ar_previous = last_hash ar_hash None rs, ar_hash = ''''\<rparr>) (\<lambda>r.
     Inr (rs @ [r]))))"

subsection \<open>What a verified history is\<close>

fun numbered :: "int \<Rightarrow> applied_record list \<Rightarrow> bool" where
  "numbered n [] = True"
| "numbered n (r # rs) = (ar_sequence r = n \<and> numbered (n + 1) rs)"

fun schema_linked :: "string option \<Rightarrow> applied_record list \<Rightarrow> bool" where
  "schema_linked v [] = True"
| "schema_linked v (r # rs) = ((v = None \<or> v = Some (ar_version_before r)) \<and> schema_linked (Some (ar_version_after r)) rs)"

abbreviation applied_chain :: "string option \<Rightarrow> applied_record list \<Rightarrow> bool" where
  "applied_chain \<equiv> chain_from ar_previous ar_hash applied_body"

definition history_ok :: "applied_record list \<Rightarrow> bool" where
  "history_ok rs \<longleftrightarrow>
     applied_chain None rs \<and> numbered 1 rs \<and> distinct (map ar_migration_id rs) \<and> schema_linked None rs"

lemma verify_from_Inr:
  "verify_from n p v seen rs = Inr u \<longleftrightarrow>
     applied_chain p rs \<and> numbered n rs \<and> distinct (map ar_migration_id rs) \<and>
     set (map ar_migration_id rs) \<inter> set seen = {} \<and> schema_linked v rs"
proof (induction n p v seen rs rule: verify_from.induct)
  case (2 n p v seen r rs)
  show ?case
  proof (cases "ar_sequence r = n \<and> ar_previous r = p \<and> ar_hash r = sha256 (applied_body r) \<and> ar_migration_id r \<notin> set seen \<and>
      (v = None \<or> v = Some (ar_version_before r))")
    case True
    then have "verify_from n p v seen (r # rs) =
        verify_from (n + 1) (Some (ar_hash r)) (Some (ar_version_after r)) (ar_migration_id r # seen) rs"
      by (auto simp: raise_if_def)
    with True 2 show ?thesis by auto
  next
    case False
    then have "verify_from n p v seen (r # rs) \<noteq> Inr u" by (auto simp: bindE_Inr)
    with False show ?thesis by auto
  qed
qed simp

lemma verify_history_Inr [result_simps]: "verify_history rs = Inr rs' \<longleftrightarrow> history_ok rs \<and> rs' = rs"
proof -
  have "verify_from 1 None None [] rs = Inr () \<longleftrightarrow> history_ok rs"
    unfolding verify_from_Inr history_ok_def by simp
  then show ?thesis by (cases "verify_from 1 None None [] rs") (auto simp: verify_history_def)
qed

lemma numbered_snoc: "numbered n (rs @ [r]) \<longleftrightarrow> numbered n rs \<and> ar_sequence r = n + int (length rs)"
proof (induction rs arbitrary: n)
  case (Cons a rs)
  have "n + 1 + int (length rs) = n + int (length (a # rs))" by simp
  with Cons.IH [of "n + 1"] show ?case by (simp only: append_Cons numbered.simps) blast
qed simp

lemma schema_linked_snoc:
  "schema_linked v (rs @ [r]) \<longleftrightarrow> schema_linked v rs \<and>
     (if rs = [] then v = None \<or> v = Some (ar_version_before r) else ar_version_before r = ar_version_after (last rs))"
  by (induction rs arbitrary: v) auto

lemma applied_post_init_Inr [result_simps]:
  "applied_post_init r = Inr r' \<longleftrightarrow>
     1 \<le> ar_sequence r \<and> \<not> blank (ar_migration_id r) \<and> hex64 (ar_sha256 r) \<and> \<not> blank (ar_version_before r) \<and>
     \<not> blank (ar_version_after r) \<and> hex64 (ar_fingerprint_after r) \<and> hex64 (ar_evidence_sha256 r) \<and>
     \<not> blank (ar_receipt_id r) \<and> aware (ar_applied_at r) \<and> (\<forall>h. ar_previous r = Some h \<longrightarrow> hex64 h) \<and> hex64 (ar_hash r) \<and>
     r' = r\<lparr>ar_sha256 := lower (ar_sha256 r), ar_fingerprint_after := lower (ar_fingerprint_after r),
            ar_evidence_sha256 := lower (ar_evidence_sha256 r), ar_previous := map_option lower (ar_previous r),
            ar_hash := lower (ar_hash r)\<rparr>"
  by (auto simp: applied_post_init_def result_simps)

lemma isoformat_inj_aware: "valid_datetime a \<Longrightarrow> valid_datetime b \<Longrightarrow> isoformat a = isoformat b \<Longrightarrow> a = b"
  by (rule isoformat_inj)

interpretation applied_log: hash_chain ar_previous ar_hash applied_body "\<lambda>r. valid_datetime (ar_applied_at r)"
proof
  fix x y
  assume ok: "valid_datetime (ar_applied_at x)" "valid_datetime (ar_applied_at y)"
    and same: "applied_body x = applied_body y" "ar_hash x = ar_hash y"
  have "canonical (applied_payload_json r)" for r
    by (auto simp: applied_payload_json_def code_def)
  with same(1) have "applied_payload_json x = applied_payload_json y"
    unfolding applied_body_def by (blast intro: dumps_inj)
  with same(2) ok show "x = y"
    by (cases x; cases y) (auto simp: applied_payload_json_def json_opt_inj dest: isoformat_inj)
qed

lemma applied_create_Inr:
  assumes "applied_create r = Inr r'"
  shows "ar_sequence r' = ar_sequence r \<and> ar_migration_id r' = ar_migration_id r \<and> ar_sha256 r' = lower (ar_sha256 r) \<and>
    ar_version_before r' = ar_version_before r \<and> ar_version_after r' = ar_version_after r \<and>
    ar_previous r' = map_option lower (ar_previous r) \<and> ar_hash r' = sha256 (applied_body r') \<and> applied_post_init r' = Inr r'"
proof -
  have stable: "applied_body (x\<lparr>ar_hash := h\<rparr>) = applied_body x" for x h
    by (simp add: applied_body_def applied_payload_json_def)
  define x where "x = r\<lparr>ar_sha256 := lower (ar_sha256 r), ar_fingerprint_after := lower (ar_fingerprint_after r),
      ar_evidence_sha256 := lower (ar_evidence_sha256 r), ar_previous := map_option lower (ar_previous r)\<rparr>"
  from assms have post: "applied_post_init (x\<lparr>ar_hash := sha256 (applied_body x)\<rparr>) = Inr r'"
    and hex: "hex64 (ar_sha256 r)" "hex64 (ar_fingerprint_after r)" "hex64 (ar_evidence_sha256 r)" "\<And>h. ar_previous r = Some h \<Longrightarrow> hex64 h"
    unfolding applied_create_def bindE_Inr hash_field_Inr hash_field_opt_Inr Let_def x_def by auto
  have twice: "lower (lower h) = lower h" if "hex64 h" for h
    using that by (intro lower_lower_hex64 hex64_lower)
  have prev: "map_option lower (map_option lower (ar_previous r)) = map_option lower (ar_previous r)"
    using hex(4) twice by (cases "ar_previous r") auto
  have again: "hex64 (lower h)" if "hex64 h" for h using that by (rule lower_hex64_hex64 [OF hex64_lower])
  from post prev have r': "r' = x\<lparr>ar_hash := sha256 (applied_body x)\<rparr>"
    unfolding applied_post_init_Inr by (simp add: x_def twice hex(1-3))
  have "applied_post_init r' = Inr r'"
    using post prev hex(4) again unfolding applied_post_init_Inr r' x_def by (auto simp: twice hex(1-3))
  then show ?thesis by (simp add: r' stable) (simp add: x_def)
qed

lemma validate_candidate_Inr:
  "validate_candidate_against_history c rs = Inr d \<longleftrightarrow> history_ok rs \<and>
     (case find (\<lambda>r. ar_migration_id r = mc_migration_id c) rs of
        Some r \<Rightarrow> same_identity r c \<and>
          d = \<lparr>hd_status = ALREADY_APPLIED, hd_reason = ''exact migration identity already exists in applied history''\<rparr>
      | None \<Rightarrow> (rs = [] \<or> mc_parent_version c = ar_version_after (last rs)) \<and>
          d = \<lparr>hd_status = ELIGIBLE, hd_reason = ''candidate is new and parent schema matches applied history''\<rparr>)"
  by (auto simp: validate_candidate_against_history_def result_simps split: option.splits)

lemma find_fresh: "find (\<lambda>r. ar_migration_id r = i) rs = None \<longleftrightarrow> i \<notin> set (map ar_migration_id rs)"
  by (auto simp: find_None_iff)

lemma find_snoc: "find P (xs @ [y]) = (case find P xs of Some x \<Rightarrow> Some x | None \<Rightarrow> if P y then Some y else None)"
  by (induction xs) auto

lemma history_extended:
  assumes "history_ok rs" "applied_create r = Inr r'" "ar_sequence r = int (length rs) + 1" "ar_previous r = last_hash ar_hash None rs"
    and "ar_migration_id r \<notin> set (map ar_migration_id rs)" "rs = [] \<or> ar_version_before r = ar_version_after (last rs)"
  shows "history_ok (rs @ [r'])"
proof -
  note made = applied_create_Inr [OF assms(2)]
  have "lower h = h" if "last_hash ar_hash None rs = Some h" for h
  proof (cases rs rule: rev_cases)
    case (snoc xs x)
    with assms(1) have "ar_hash x = sha256 (applied_body x)" by (simp add: history_ok_def chain_snoc)
    with that snoc show ?thesis by auto
  qed (use that in simp)
  then have "map_option lower (last_hash ar_hash None rs) = last_hash ar_hash None rs"
    by (cases "last_hash ar_hash None rs") auto
  then show ?thesis
    using assms made by (auto simp: history_ok_def chain_snoc numbered_snoc schema_linked_snoc)
qed

text \<open>Appending to a history keeps it verified and records each migration exactly once: the new history is the
  old one with one record of exactly this candidate, it verifies, the candidate is from then on found as
  already applied, and no further append of it succeeds.\<close>

theorem append_keeps_history:
  assumes "append_applied_record rs c fingerprint evidence receipt_id applied_at = Inr rs'" "candidate_checked c = Inr c"
  shows "verify_history rs = Inr rs \<and> verify_history rs' = Inr rs' \<and>
    (\<exists>r. rs' = rs @ [r] \<and> ar_migration_id r = mc_migration_id c \<and> same_identity r c) \<and>
    (\<exists>d. validate_candidate_against_history c rs' = Inr d \<and> hd_status d = ALREADY_APPLIED) \<and>
    (\<forall>fp ev i t. \<exists>e. append_applied_record rs' c fp ev i t = Inl e)"
proof -
  let ?r = "\<lparr>ar_sequence = int (length rs) + 1, ar_migration_id = mc_migration_id c, ar_sha256 = mc_sha256 c,
        ar_version_before = mc_parent_version c, ar_version_after = mc_target_version c,
        ar_fingerprint_after = fingerprint, ar_evidence_sha256 = evidence, ar_receipt_id = receipt_id,
        ar_applied_at = applied_at, ar_previous = last_hash ar_hash None rs, ar_hash = ''''\<rparr>"
  from assms(1) obtain d r where d: "validate_candidate_against_history c rs = Inr d" "hd_status d = ELIGIBLE"
    and r: "applied_create ?r = Inr r" "rs' = rs @ [r]"
    by (auto simp: append_applied_record_def result_simps)
  from d have old: "history_ok rs" and new: "mc_migration_id c \<notin> set (map ar_migration_id rs)"
    and parent: "rs = [] \<or> mc_parent_version c = ar_version_after (last rs)"
    using find_fresh [of "mc_migration_id c" rs] by (auto simp: validate_candidate_Inr split: option.splits)
  from history_extended [OF old r(1)] new parent have ok: "history_ok rs'" by (simp add: r(2))
  note made = applied_create_Inr [OF r(1)]
  with candidate_stored [OF assms(2)] have same: "ar_migration_id r = mc_migration_id c" "same_identity r c"
    by (simp_all add: same_identity_def)
  have "find (\<lambda>r. ar_migration_id r = mc_migration_id c) rs' = Some r"
    using new same(1) unfolding find_fresh [symmetric] by (simp add: r(2) find_snoc)
  with ok same have found: "validate_candidate_against_history c rs' =
      Inr \<lparr>hd_status = ALREADY_APPLIED, hd_reason = ''exact migration identity already exists in applied history''\<rparr>"
    by (simp add: validate_candidate_Inr)
  then have "\<exists>e. append_applied_record rs' c fp ev i t = Inl e" for fp ev i t
    by (simp add: append_applied_record_def)
  with old ok r(2) same found show ?thesis by (auto simp: verify_history_Inr)
qed

text \<open>The history is tamper-evident: two histories that verify and end in the same record hash are the same
  history, unless two of their records exhibit a collision of SHA-256.\<close>

theorem history_is_tamper_evident:
  assumes "verify_history xs = Inr xs" "verify_history ys = Inr ys"
    and "list_all (\<lambda>r. valid_datetime (ar_applied_at r)) (xs @ ys)"
    and "last_hash ar_hash None xs = last_hash ar_hash None ys"
  shows "xs = ys \<or> (\<exists>x \<in> set xs. \<exists>y \<in> set ys. collision (applied_body x) (applied_body y))"
  using assms by (intro applied_log.last_hash_fixes_log) (auto simp: verify_history_Inr history_ok_def)

definition example_appended :: "applied_record list res" where
  "example_appended = append_applied_record [] example_migration (sha256 ''f'') (sha256 ''e'') ''r1'' (example_time 0)"

lemma example_appends: "\<exists>r. example_appended = Inr [r] \<and> valid_datetime (ar_applied_at r)"
  by (simp add: example_appended_def append_applied_record_def validate_candidate_against_history_def verify_history_def
      applied_create_def applied_post_init_def example_migration_def required_def hash_field_opt_def aware_field_def Let_def)

theorem append_keeps_history_witness:
  "\<exists>rs. example_appended = Inr rs \<and> verify_history rs = Inr rs \<and>
     (\<exists>d. validate_candidate_against_history example_migration rs = Inr d \<and> hd_status d = ALREADY_APPLIED)"
proof -
  obtain r where "append_applied_record [] example_migration (sha256 ''f'') (sha256 ''e'') ''r1'' (example_time 0) = Inr [r]"
    using example_appends unfolding example_appended_def by blast
  from append_keeps_history [OF this example_migration_checked] this show ?thesis unfolding example_appended_def by blast
qed

theorem history_is_tamper_evident_witness:
  "\<exists>rs. example_appended = Inr rs \<and> verify_history rs = Inr rs \<and>
     (rs = rs \<or> (\<exists>x \<in> set rs. \<exists>y \<in> set rs. collision (applied_body x) (applied_body y)))"
proof -
  obtain r where r: "example_appended = Inr [r]" "valid_datetime (ar_applied_at r)" using example_appends by blast
  then obtain s where "applied_create s = Inr r" "ar_sequence s = 1" "ar_previous s = None"
    by (auto simp: example_appended_def append_applied_record_def bindE_Inr)
  then have "history_ok ([] @ [r])" by (intro history_extended) (simp_all add: history_ok_def)
  then have verified: "verify_history [r] = Inr [r]" by (simp add: verify_history_Inr)
  from history_is_tamper_evident [OF verified verified] r verified show ?thesis by auto
qed

end
