(* ===== verification/JsonValues.thy ===== *)
theory JsonValues
  imports Json
begin

section \<open>Comparing and printing JSON values\<close>

text \<open>
  What the evaluators of evidence snapshots do with values they did not validate: compare them with
  \<open>==\<close> at any depth, print them with an f-string, and ask whether they are a mapping or a digest.
\<close>

subsection \<open>Equality\<close>

text \<open>
  \<open>==\<close> on lists compares the elements in order, on dictionaries the values of the same keys in any
  order; \<open>True\<close> is 1 and \<open>False\<close> is 0 everywhere.
\<close>

lemma size_in_object: "kv \<in> set d \<Longrightarrow> size (snd kv) < size (JObj d)"
proof (induction d)
  case (Cons a d)
  then show ?case by (cases a; cases kv) auto
qed simp

lemma size_in_list: "v \<in> set vs \<Longrightarrow> size v < size (JList vs)"
  by (induction vs) auto

function json_eq :: "json \<Rightarrow> json \<Rightarrow> bool" where
  "json_eq JNull w = (w = JNull)"
| "json_eq (JBool b) w = py_eq (JBool b) w"
| "json_eq (JInt i) w = py_eq (JInt i) w"
| "json_eq (JStr s) w = (w = JStr s)"
| "json_eq (JList vs) w = (case w of JList ws \<Rightarrow> list_all2 json_eq vs ws | _ \<Rightarrow> False)"
| "json_eq (JObj d) w =
     (case w of
        JObj e \<Rightarrow> length d = length e \<and>
          list_all (\<lambda>kv. case map_of e (fst kv) of None \<Rightarrow> False | Some u \<Rightarrow> json_eq (snd kv) u) d
      | _ \<Rightarrow> False)"
  by pat_completeness auto

termination
  by (relation "measure (\<lambda>(v, w). size v)") (simp_all add: size_in_object size_in_list del: json.size)

lemma json_eq_str [simp]: "json_eq v (JStr s) \<longleftrightarrow> v = JStr s"
  by (cases v) auto

lemma json_eq_null [simp]: "json_eq v JNull \<longleftrightarrow> v = JNull"
  by (cases v) auto

lemma json_eq_int: "json_eq v (JInt i) \<longleftrightarrow> v = JInt i \<or> (\<exists>b. v = JBool b \<and> i = (if b then 1 else 0))"
  by (cases v) auto

subsection \<open>Printing\<close>

text \<open>
  \<open>str(value)\<close>, which is the \<open>repr\<close> of everything but a string.  Code points above 127 are taken to
  be printable, so they print as they are.
\<close>

definition quote_char :: char where
  "quote_char = CHR 0x27"

definition repr_char :: "char \<Rightarrow> char \<Rightarrow> string" where
  "repr_char q c =
     (if c = q \<or> c = CHR 0x5C then [CHR 0x5C, c]
      else if c = CHR 0x0A then [CHR 0x5C, CHR ''n'']
      else if c = CHR 0x0D then [CHR 0x5C, CHR ''r'']
      else if c = CHR 0x09 then [CHR 0x5C, CHR ''t'']
      else if code c < 32 \<or> code c = 127
        then [CHR 0x5C, CHR ''x'', hex_char (code c div 16), hex_char (code c mod 16)]
      else [c])"

definition repr_str :: "string \<Rightarrow> string" where
  "repr_str s =
     (let q = (if quote_char \<in> set s \<and> CHR 0x22 \<notin> set s then CHR 0x22 else quote_char) in
      [q] @ concat (map (repr_char q) s) @ [q])"

primrec py_repr :: "json \<Rightarrow> string" where
  "py_repr JNull = ''None''"
| "py_repr (JBool b) = (if b then ''True'' else ''False'')"
| "py_repr (JInt i) = show_int i"
| "py_repr (JStr s) = repr_str s"
| "py_repr (JList vs) = ''['' @ join '', '' (map py_repr vs) @ '']''"
| "py_repr (JObj d) =
     ''{'' @ join '', '' (map (\<lambda>p. repr_str (fst p) @ '': '' @ snd p) (map (map_prod id py_repr) d)) @ ''}''"

definition py_str :: "json \<Rightarrow> string" where
  "py_str v = (case v of JStr s \<Rightarrow> s | _ \<Rightarrow> py_repr v)"

lemma py_str_simps [simp]: "py_str (JStr s) = s" "py_str JNull = ''None''"
  by (simp_all add: py_str_def)

subsection \<open>Optional texts\<close>

definition opt_str :: "string option \<Rightarrow> json" where
  "opt_str v = (case v of None \<Rightarrow> JNull | Some s \<Rightarrow> JStr s)"

lemma opt_str_simps [simp]: "opt_str None = JNull" "opt_str (Some s) = JStr s"
  by (simp_all add: opt_str_def)

definition str_len :: "string \<Rightarrow> nat" where
  \<comment> \<open>\<open>len\<close> of a \<open>str\<close>: code points, not bytes\<close>
  "str_len s = length (characters s)"

subsection \<open>Shape tests\<close>

type_synonym row = "(string \<times> json) list"

definition is_mapping :: "json \<Rightarrow> bool" where
  "is_mapping v \<longleftrightarrow> (case v of JObj d \<Rightarrow> True | _ \<Rightarrow> False)"

definition mapping_or_empty :: "json \<Rightarrow> row" where
  \<comment> \<open>\<open>v if isinstance(v, Mapping) else {}\<close>\<close>
  "mapping_or_empty v = (case v of JObj d \<Rightarrow> d | _ \<Rightarrow> [])"

definition is_sha256 :: "json \<Rightarrow> bool" where
  "is_sha256 v \<longleftrightarrow> (case v of JStr s \<Rightarrow> lower_hex64 s | _ \<Rightarrow> False)"

definition state_text :: "row \<Rightarrow> string" where
  \<comment> \<open>the text of \<open>item.get("state", "STATE_MISSING")\<close>\<close>
  "state_text d = (case map_of d ''state'' of None \<Rightarrow> ''STATE_MISSING'' | Some v \<Rightarrow> py_str v)"

definition note_if :: "bool \<Rightarrow> string \<Rightarrow> string list" where
  \<comment> \<open>\<open>if condition: blockers.append(text)\<close>\<close>
  "note_if c t = (if c then [t] else [])"

fun enumerate_from :: "nat \<Rightarrow> 'a list \<Rightarrow> (nat \<times> 'a) list" where
  "enumerate_from n [] = []"
| "enumerate_from n (x # xs) = (n, x) # enumerate_from (Suc n) xs"

lemma note_if_Nil [simp]: "note_if c t = [] \<longleftrightarrow> \<not> c"
  by (simp add: note_if_def)

lemma is_mapping_iff: "is_mapping v \<longleftrightarrow> (\<exists>d. v = JObj d)"
  by (cases v) (auto simp: is_mapping_def)

lemma is_sha256_iff: "is_sha256 v \<longleftrightarrow> (\<exists>s. v = JStr s \<and> lower_hex64 s)"
  by (cases v) (auto simp: is_sha256_def)

lemma mapping_or_empty_simps [simp]: "mapping_or_empty (JObj d) = d" "mapping_or_empty JNull = []"
  by (simp_all add: mapping_or_empty_def)

lemma jget_Nil [simp]: "jget [] k = JNull"
  by (simp add: jget_def)

lemma enumerate_from_all:
  "(\<forall>p \<in> set (enumerate_from n xs). P (snd p)) \<longleftrightarrow> (\<forall>x \<in> set xs. P x)"
  by (induction xs arbitrary: n) auto

lemma length_enumerate_from [simp]: "length (enumerate_from n xs) = length xs"
  by (induction xs arbitrary: n) auto

end
