(* ===== verification/SafeDelete.thy ===== *)
theory SafeDelete
  imports JsonValues
begin

section \<open>Eligibility for deletion\<close>

text \<open>
  \<open>galia2/delete_authorization.py\<close> and \<open>galia2/safe_delete.py\<close>: the validator of a human deletion
  receipt and the gate that evaluates an evidence snapshot.  Both are total functions of JSON values
  that collect blockers; the lemmas say exactly when no blocker is left.
\<close>

subsection \<open>The authorization receipt\<close>

definition EXPECTED_DELETION_MANIFEST_SHA256 :: string where
  "EXPECTED_DELETION_MANIFEST_SHA256 = ''6cf056219fa1e036d64e21b3f571bba0f68835a23a134dc47d3982a30d8a1708''"

definition EXPECTED_FINAL_VAULT_MANIFEST_SHA256 :: string where
  "EXPECTED_FINAL_VAULT_MANIFEST_SHA256 = ''53345029a3d93b931946a2494af357a1beb2a2a989d3507eba23a028c309becf''"

definition EXPECTED_TARGET_COUNT :: nat where
  "EXPECTED_TARGET_COUNT = 27"

definition EXPECTED_SCOPE :: string where
  "EXPECTED_SCOPE = ''EXACT_27_TARGETS_IN_PROMOTED_DELETION_MANIFEST_ONLY''"

definition EXPECTED_STATE :: string where
  "EXPECTED_STATE = ''EXPLICIT_HUMAN_APPROVAL_BOUND''"

record authorization_evaluation =
  ae_authorized :: bool
  ae_blockers :: "string list"

definition evaluate_delete_authorization :: "json \<Rightarrow> authorization_evaluation" where
  "evaluate_delete_authorization receipt =
     (case receipt of
        JObj r \<Rightarrow>
          (let text_missing = (case jget r ''decision_text'' of JStr t \<Rightarrow> blank t | _ \<Rightarrow> True);
               executed = jget r ''destructive_action_executed'';
               blockers = dedup
                 (note_if (\<not> json_eq (jget r ''state'') (JStr EXPECTED_STATE)) ''AUTHORIZATION_STATE_INVALID'' @
                  note_if (\<not> truthy (jget r ''decision_id'')) ''DECISION_ID_MISSING'' @
                  note_if text_missing ''DECISION_TEXT_MISSING'' @
                  note_if (\<not> json_eq (jget r ''deletion_manifest_sha256'') (JStr EXPECTED_DELETION_MANIFEST_SHA256))
                    ''DELETION_MANIFEST_HASH_MISMATCH'' @
                  note_if (\<not> json_eq (jget r ''final_vault_manifest_sha256'') (JStr EXPECTED_FINAL_VAULT_MANIFEST_SHA256))
                    ''FINAL_VAULT_HASH_MISMATCH'' @
                  note_if (\<not> json_eq (jget r ''target_count'') (JInt (int EXPECTED_TARGET_COUNT))) ''TARGET_COUNT_MISMATCH'' @
                  note_if (\<not> json_eq (jget r ''authorized_scope'') (JStr EXPECTED_SCOPE)) ''AUTHORIZED_SCOPE_MISMATCH'' @
                  note_if (jget r ''delete_authorized'' \<noteq> JBool True) ''DELETE_AUTHORIZED_TRUE_REQUIRED'' @
                  note_if (\<not> json_eq executed (JBool False) \<and> \<not> json_eq executed JNull)
                    ''RECEIPT_MUST_PRECEDE_DESTRUCTIVE_ACTION'')
           in \<lparr>ae_authorized = (blockers = []), ae_blockers = blockers\<rparr>)
      | _ \<Rightarrow> \<lparr>ae_authorized = False, ae_blockers = [''AUTHORIZATION_RECEIPT_ABSENT'']\<rparr>)"

definition human_deletion_receipt :: "row \<Rightarrow> bool" where
  \<comment> \<open>the contract of the validator\<close>
  "human_deletion_receipt r \<longleftrightarrow>
     jget r ''state'' = JStr EXPECTED_STATE \<and> truthy (jget r ''decision_id'') \<and>
     (\<exists>t. jget r ''decision_text'' = JStr t \<and> \<not> blank t) \<and>
     jget r ''deletion_manifest_sha256'' = JStr EXPECTED_DELETION_MANIFEST_SHA256 \<and>
     jget r ''final_vault_manifest_sha256'' = JStr EXPECTED_FINAL_VAULT_MANIFEST_SHA256 \<and>
     jget r ''target_count'' = JInt (int EXPECTED_TARGET_COUNT) \<and>
     jget r ''authorized_scope'' = JStr EXPECTED_SCOPE \<and> jget r ''delete_authorized'' = JBool True \<and>
     jget r ''destructive_action_executed'' \<in> {JNull, JBool False, JInt 0}"

lemma decision_text_present:
  "\<not> (case v of JStr t \<Rightarrow> blank t | _ \<Rightarrow> True) \<longleftrightarrow> (\<exists>t. v = JStr t \<and> \<not> blank t)"
  by (cases v) auto

lemma json_eq_count: "json_eq v (JInt (int EXPECTED_TARGET_COUNT)) \<longleftrightarrow> v = JInt (int EXPECTED_TARGET_COUNT)"
  by (auto simp: json_eq_int EXPECTED_TARGET_COUNT_def)

lemma json_eq_false: "json_eq v (JBool False) \<longleftrightarrow> v \<in> {JBool False, JInt 0}"
  by (cases v) auto

lemma authorized_iff:
  "ae_authorized (evaluate_delete_authorization v) \<longleftrightarrow> (\<exists>r. v = JObj r \<and> human_deletion_receipt r)"
proof (cases v)
  case (JObj r)
  have "ae_authorized (evaluate_delete_authorization (JObj r)) \<longleftrightarrow> human_deletion_receipt r"
    by (simp add: evaluate_delete_authorization_def human_deletion_receipt_def Let_def decision_text_present
        json_eq_count json_eq_false) blast
  with JObj show ?thesis by blast
qed (simp_all add: evaluate_delete_authorization_def)

lemma authorized_no_blockers:
  "ae_authorized (evaluate_delete_authorization v) \<longleftrightarrow> ae_blockers (evaluate_delete_authorization v) = []"
  by (cases v) (simp_all add: evaluate_delete_authorization_def Let_def)

subsection \<open>The gate\<close>

definition REQUIRED_RAW_OBJECTS :: "string list" where
  "REQUIRED_RAW_OBJECTS =
     [''global_master_1_0_1'', ''santurce_research_15_003'', ''v1_30_14_003'', ''cleanup_948d41'',
      ''cleanup_upstream_5ed030'', ''ow02_checkpoint'', ''ow10_checkpoint'', ''ow21_checkpoint'']"

record transient_policy =
  tp_expected_sha256 :: string
  tp_successor_object_id :: string
  tp_successor_sha256 :: string

definition IRRECOVERABLE_TRANSIENT_POLICY :: "(string \<times> transient_policy) list" where
  "IRRECOVERABLE_TRANSIENT_POLICY =
     [(''cleanup_upstream_5ed030'',
       \<lparr>tp_expected_sha256 = ''5ed03098751c71efb5d87ec33f0f9d2894c6a7c729265eb322dfb37e9f42a4b6'',
        tp_successor_object_id = ''cleanup_948d41'',
        tp_successor_sha256 = ''948d41f220e166f6d0e816b424e3bd0f1576f9be1fc3abdc1698fa82cfe507ad''\<rparr>)]"

definition REQUIRED_CONTROL_STATES :: "(string \<times> string) list" where
  "REQUIRED_CONTROL_STATES =
     [(''ow21_discovery_audit'', ''DISCOVERY_AUDIT_COMPLETE''), (''final_vault'', ''VAULT_BUILT_VERIFIED''),
      (''clean_room_restore'', ''PASS''), (''deletion_manifest'', ''PRESENT_HASHED''),
      (''human_authorization'', ''EXPLICIT_HUMAN_APPROVAL_BOUND'')]"

record safe_delete_evaluation =
  sde_safe_to_delete :: bool
  sde_blocking_reasons :: "string list"
  sde_advisories :: "string list"

definition loss_evidence_blockers :: "string \<Rightarrow> transient_policy \<Rightarrow> row \<Rightarrow> string list" where
  \<comment> \<open>the evidence that the object was a transient whose loss changed nothing\<close>
  "loss_evidence_blockers key p i =
     note_if (\<not> json_eq (jget i ''expected_sha256'') (JStr (tp_expected_sha256 p)) \<or> \<not> is_sha256 (jget i ''expected_sha256''))
       (key @ '':EXPECTED_SHA256_MISMATCH'') @
     note_if (\<not> json_eq (jget i ''classification'') (JStr ''WORKING_TRANSIENT_NOT_CANONICAL''))
       (key @ '':CLASSIFICATION_NOT_PROVEN'') @
     note_if (jget i ''master_modified'' \<noteq> JBool False) (key @ '':MASTER_MODIFICATION_NOT_EXCLUDED'') @
     note_if (\<not> json_eq (jget i ''authority_mutations'') (JInt 0)) (key @ '':AUTHORITY_MUTATIONS_NOT_ZERO'') @
     note_if (case jget i ''knowledge_mutations'' of
                JObj k \<Rightarrow> \<not> list_all (\<lambda>field. json_eq (jget k field) (JInt 0)) [''sources'', ''evidence'', ''statements'']
              | _ \<Rightarrow> True) (key @ '':KNOWLEDGE_MUTATIONS_NOT_ZERO'') @
     note_if (\<not> json_eq (jget i ''recovery_search_state'') (JStr ''EXHAUSTIVE_NEGATIVE''))
       (key @ '':RECOVERY_SEARCH_NOT_EXHAUSTIVE_NEGATIVE'') @
     note_if (jget i ''reverse_reconstruction_accepted'' \<noteq> JBool False)
       (key @ '':REVERSE_RECONSTRUCTION_MUST_NOT_SUBSTITUTE_RAW_BYTES'') @
     note_if (\<not> is_sha256 (jget i ''evidence_record_sha256'')) (key @ '':EVIDENCE_RECORD_SHA256_INVALID_OR_MISSING'')"

definition successor_blockers :: "string \<Rightarrow> transient_policy \<Rightarrow> row \<Rightarrow> row \<Rightarrow> string list" where
  "successor_blockers key p i objects =
     (if \<not> json_eq (jget i ''successor_object_id'') (JStr (tp_successor_object_id p)) \<or>
         \<not> json_eq (jget i ''successor_sha256'') (JStr (tp_successor_sha256 p))
      then [key @ '':SUCCESSOR_BINDING_MISMATCH'']
      else note_if (case jget objects (tp_successor_object_id p) of
                      JObj s \<Rightarrow> \<not> json_eq (jget s ''state'') (JStr ''RAW_BYTES_VERIFIED'') \<or>
                                \<not> json_eq (jget s ''sha256'') (jget i ''successor_sha256'')
                    | _ \<Rightarrow> True) (key @ '':SUCCESSOR_NOT_BYTE_VERIFIED''))"

definition acceptance_blockers :: "string \<Rightarrow> row \<Rightarrow> row \<Rightarrow> string list" where
  \<comment> \<open>the separate human acceptance of the loss\<close>
  "acceptance_blockers key i controls =
     (case jget controls ''irrecoverable_transient_acceptance'' of
        JObj a \<Rightarrow>
          (if \<not> json_eq (jget a ''state'') (JStr ''EXPLICIT_HUMAN_IRRECOVERABLE_TRANSIENT_ACCEPTANCE_BOUND'')
           then [''irrecoverable_transient_acceptance:'' @ state_text a]
           else note_if (\<not> json_eq (jget a ''object_id'') (JStr key))
                  ''irrecoverable_transient_acceptance:OBJECT_ID_MISMATCH'' @
                note_if (\<not> json_eq (jget a ''expected_sha256'') (jget i ''expected_sha256''))
                  ''irrecoverable_transient_acceptance:EXPECTED_SHA256_MISMATCH'' @
                note_if (\<not> json_eq (jget a ''evidence_record_sha256'') (jget i ''evidence_record_sha256''))
                  ''irrecoverable_transient_acceptance:EVIDENCE_RECORD_HASH_MISMATCH'' @
                note_if (\<not> truthy (jget a ''decision_id''))
                  ''irrecoverable_transient_acceptance:DECISION_ID_MISSING'')
      | _ \<Rightarrow> [''irrecoverable_transient_acceptance:MISSING_CONTROL_ENTRY''])"

definition validate_irrecoverable_transient :: "string \<Rightarrow> row \<Rightarrow> row \<Rightarrow> row \<Rightarrow> string list" where
  "validate_irrecoverable_transient key i objects controls =
     (case map_of IRRECOVERABLE_TRANSIENT_POLICY key of
        None \<Rightarrow> [key @ '':IRRECOVERABLE_TRANSIENT_NOT_POLICY_ELIGIBLE'']
      | Some p \<Rightarrow> loss_evidence_blockers key p i @ successor_blockers key p i objects @ acceptance_blockers key i controls)"

definition raw_object_blockers :: "row \<Rightarrow> row \<Rightarrow> string \<Rightarrow> string list" where
  "raw_object_blockers objects controls key =
     (case jget objects key of
        JObj i \<Rightarrow>
          (if json_eq (jget i ''state'') (JStr ''RAW_BYTES_VERIFIED'')
           then note_if (\<not> is_sha256 (jget i ''sha256'')) (key @ '':INVALID_OR_MISSING_SHA256'')
           else if json_eq (jget i ''state'') (JStr ''IRRECOVERABLE_TRANSIENT_DOCUMENTED'')
           then validate_irrecoverable_transient key i objects controls
           else [key @ '':'' @ (if truthy (jget i ''state'') then py_str (jget i ''state'') else ''STATE_MISSING'')])
      | _ \<Rightarrow> [key @ '':MISSING_INVENTORY_ENTRY''])"

definition control_blockers :: "row \<Rightarrow> string \<times> string \<Rightarrow> string list" where
  "control_blockers controls = (\<lambda>(key, expected).
     case jget controls key of
       JObj c \<Rightarrow> note_if (\<not> json_eq (jget c ''state'') (JStr expected)) (key @ '':'' @ state_text c)
     | _ \<Rightarrow> [key @ '':MISSING_CONTROL_ENTRY''])"

definition manifest_blockers :: "row \<Rightarrow> string list" where
  "manifest_blockers manifest =
     (if json_eq (jget manifest ''state'') (JStr ''PRESENT_HASHED'')
      then note_if (\<not> is_sha256 (jget manifest ''sha256'')) ''deletion_manifest:INVALID_OR_MISSING_SHA256'' @
           note_if (case jget manifest ''targets'' of JList ts \<Rightarrow> ts = [] | _ \<Rightarrow> True)
             ''deletion_manifest:TARGETS_EMPTY_OR_INVALID''
      else [])"

definition target_blockers :: "row \<Rightarrow> nat \<times> json \<Rightarrow> string list" where
  "target_blockers vault_objects = (\<lambda>(index, target).
     let name = ''deletion_target_'' @ show_nat index in
     case target of
       JObj t \<Rightarrow>
         (case jget t ''sha256'' of
            JStr h \<Rightarrow>
              if \<not> lower_hex64 h then [name @ '':INVALID_OR_MISSING_SHA256'']
              else note_if (case jget vault_objects h of
                              JObj e \<Rightarrow> \<not> json_eq (jget e ''state'') (JStr ''VERIFIED_IN_FINAL_VAULT'')
                            | _ \<Rightarrow> True) (name @ '':NOT_VERIFIED_IN_FINAL_VAULT'')
          | _ \<Rightarrow> [name @ '':INVALID_OR_MISSING_SHA256''])
     | _ \<Rightarrow> [name @ '':INVALID''])"

definition targets_blockers :: "row \<Rightarrow> json \<Rightarrow> string list" where
  "targets_blockers vault_objects targets =
     (case targets of
        JList ts \<Rightarrow> concat (map (target_blockers vault_objects) (enumerate_from 0 ts))
      | _ \<Rightarrow> [])"

definition authorization_blockers :: "row \<Rightarrow> json \<Rightarrow> json \<Rightarrow> string list" where
  "authorization_blockers auth manifest_sha vault_sha =
     (if json_eq (jget auth ''state'') (JStr ''EXPLICIT_HUMAN_APPROVAL_BOUND'')
      then note_if (\<not> json_eq (jget auth ''deletion_manifest_sha256'') manifest_sha)
             ''human_authorization:DELETION_MANIFEST_HASH_MISMATCH'' @
           note_if (\<not> json_eq (jget auth ''final_vault_sha256'') vault_sha)
             ''human_authorization:FINAL_VAULT_HASH_MISMATCH'' @
           note_if (\<not> truthy (jget auth ''decision_id'')) ''human_authorization:DECISION_ID_MISSING''
      else [])"

definition advisory :: "json \<Rightarrow> string \<Rightarrow> string \<Rightarrow> string \<Rightarrow> string list" where
  "advisory section_value key expected text_value =
     (case jget (mapping_or_empty section_value) key of
        JObj e \<Rightarrow> note_if (\<not> json_eq (jget e ''state'') (JStr expected)) text_value
      | _ \<Rightarrow> [])"

definition safe_delete_advisories :: "row \<Rightarrow> string list" where
  "safe_delete_advisories snapshot =
     advisory (jget snapshot ''should_preserve'') ''historical_v1_29_binary'' ''RAW_BYTES_VERIFIED''
       ''historical_v1_29_binary:SHOULD_PRESERVE_IF_RECOVERABLE'' @
     advisory (jget snapshot ''forensic_only'') ''g28_14_003_to_15_003'' ''RESOLVED'' ''G28_REMAINS_FORENSIC_ONLY'' @
     advisory (jget snapshot ''forensic_only'') ''sqlite_3_46_1_same_writer_replay'' ''PASS''
       ''SQLITE_3_46_1_REPLAY_NOT_REQUIRED_FOR_SAFE_DELETE''"

definition safe_delete_blockers :: "row \<Rightarrow> string list" where
  "safe_delete_blockers snapshot =
     (let objects = mapping_or_empty (jget snapshot ''required_objects'');
          controls = mapping_or_empty (jget snapshot ''controls'');
          vault = mapping_or_empty (jget controls ''final_vault'');
          manifest = mapping_or_empty (jget controls ''deletion_manifest'');
          auth = mapping_or_empty (jget controls ''human_authorization'') in
      note_if (\<not> is_mapping (jget snapshot ''required_objects'')) ''REQUIRED_OBJECT_INVENTORY_MISSING'' @
      note_if (\<not> is_mapping (jget snapshot ''controls'')) ''CONTROL_STATE_INVENTORY_MISSING'' @
      concat (map (raw_object_blockers objects controls) REQUIRED_RAW_OBJECTS) @
      concat (map (control_blockers controls) REQUIRED_CONTROL_STATES) @
      note_if (json_eq (jget vault ''state'') (JStr ''VAULT_BUILT_VERIFIED'') \<and> \<not> is_sha256 (jget vault ''sha256''))
        ''final_vault:INVALID_OR_MISSING_SHA256'' @
      manifest_blockers manifest @
      note_if (\<not> is_mapping (jget snapshot ''vault_objects'') \<and> json_eq (jget manifest ''state'') (JStr ''PRESENT_HASHED''))
        ''VAULT_OBJECT_INDEX_MISSING'' @
      targets_blockers (mapping_or_empty (jget snapshot ''vault_objects'')) (jget manifest ''targets'') @
      authorization_blockers auth (jget manifest ''sha256'') (jget vault ''sha256''))"

definition evaluate_safe_delete :: "row \<Rightarrow> safe_delete_evaluation" where
  "evaluate_safe_delete snapshot =
     (let blockers = dedup (safe_delete_blockers snapshot) in
      \<lparr>sde_safe_to_delete = (blockers = []), sde_blocking_reasons = blockers,
       sde_advisories = dedup (safe_delete_advisories snapshot)\<rparr>)"

subsection \<open>When the gate opens\<close>

definition byte_verified :: "row \<Rightarrow> string \<Rightarrow> bool" where
  "byte_verified objects key \<longleftrightarrow>
     (\<exists>i. jget objects key = JObj i \<and> jget i ''state'' = JStr ''RAW_BYTES_VERIFIED'' \<and> is_sha256 (jget i ''sha256''))"

definition zero_count :: "json \<Rightarrow> bool" where
  \<comment> \<open>\<open>False == 0\<close> holds as well\<close>
  "zero_count v \<longleftrightarrow> v = JInt 0 \<or> v = JBool False"

definition documented_loss :: "transient_policy \<Rightarrow> row \<Rightarrow> bool" where
  "documented_loss p i \<longleftrightarrow>
     jget i ''state'' = JStr ''IRRECOVERABLE_TRANSIENT_DOCUMENTED'' \<and>
     jget i ''expected_sha256'' = JStr (tp_expected_sha256 p) \<and>
     jget i ''classification'' = JStr ''WORKING_TRANSIENT_NOT_CANONICAL'' \<and>
     jget i ''master_modified'' = JBool False \<and> zero_count (jget i ''authority_mutations'') \<and>
     (\<exists>k. jget i ''knowledge_mutations'' = JObj k \<and>
        (\<forall>f \<in> {''sources'', ''evidence'', ''statements''}. zero_count (jget k f))) \<and>
     jget i ''recovery_search_state'' = JStr ''EXHAUSTIVE_NEGATIVE'' \<and>
     jget i ''reverse_reconstruction_accepted'' = JBool False \<and> is_sha256 (jget i ''evidence_record_sha256'')"

definition preserved_successor :: "transient_policy \<Rightarrow> row \<Rightarrow> row \<Rightarrow> bool" where
  "preserved_successor p i objects \<longleftrightarrow>
     jget i ''successor_object_id'' = JStr (tp_successor_object_id p) \<and>
     jget i ''successor_sha256'' = JStr (tp_successor_sha256 p) \<and>
     (\<exists>s. jget objects (tp_successor_object_id p) = JObj s \<and> jget s ''state'' = JStr ''RAW_BYTES_VERIFIED'' \<and>
        jget s ''sha256'' = JStr (tp_successor_sha256 p))"

definition accepted_by_human :: "string \<Rightarrow> row \<Rightarrow> row \<Rightarrow> bool" where
  "accepted_by_human key i controls \<longleftrightarrow>
     (\<exists>a. jget controls ''irrecoverable_transient_acceptance'' = JObj a \<and>
        jget a ''state'' = JStr ''EXPLICIT_HUMAN_IRRECOVERABLE_TRANSIENT_ACCEPTANCE_BOUND'' \<and>
        jget a ''object_id'' = JStr key \<and> jget a ''expected_sha256'' = jget i ''expected_sha256'' \<and>
        jget a ''evidence_record_sha256'' = jget i ''evidence_record_sha256'' \<and> truthy (jget a ''decision_id''))"

definition accepted_loss :: "row \<Rightarrow> row \<Rightarrow> string \<Rightarrow> bool" where
  "accepted_loss objects controls key \<longleftrightarrow>
     (\<exists>i p. jget objects key = JObj i \<and> map_of IRRECOVERABLE_TRANSIENT_POLICY key = Some p \<and>
        documented_loss p i \<and> preserved_successor p i objects \<and> accepted_by_human key i controls)"

definition in_final_vault :: "row \<Rightarrow> json \<Rightarrow> bool" where
  "in_final_vault vault_index target \<longleftrightarrow>
     (\<exists>t h e. target = JObj t \<and> jget t ''sha256'' = JStr h \<and> lower_hex64 h \<and> jget vault_index h = JObj e \<and>
        jget e ''state'' = JStr ''VERIFIED_IN_FINAL_VAULT'')"

definition deletable :: "row \<Rightarrow> bool" where
  \<comment> \<open>the contract of the gate\<close>
  "deletable snapshot \<longleftrightarrow>
     (\<exists>objects controls vault_index vault manifest auth targets.
        jget snapshot ''required_objects'' = JObj objects \<and> jget snapshot ''controls'' = JObj controls \<and>
        jget snapshot ''vault_objects'' = JObj vault_index \<and>
        (\<forall>key \<in> set REQUIRED_RAW_OBJECTS. byte_verified objects key \<or> accepted_loss objects controls key) \<and>
        (\<forall>(key, expected) \<in> set REQUIRED_CONTROL_STATES.
           \<exists>c. jget controls key = JObj c \<and> jget c ''state'' = JStr expected) \<and>
        jget controls ''final_vault'' = JObj vault \<and> is_sha256 (jget vault ''sha256'') \<and>
        jget controls ''deletion_manifest'' = JObj manifest \<and> is_sha256 (jget manifest ''sha256'') \<and>
        jget manifest ''targets'' = JList targets \<and> targets \<noteq> [] \<and> (\<forall>t \<in> set targets. in_final_vault vault_index t) \<and>
        jget controls ''human_authorization'' = JObj auth \<and>
        jget auth ''deletion_manifest_sha256'' = jget manifest ''sha256'' \<and>
        jget auth ''final_vault_sha256'' = jget vault ''sha256'' \<and> truthy (jget auth ''decision_id''))"

lemma json_eq_zero: "json_eq v (JInt 0) \<longleftrightarrow> zero_count v"
  by (auto simp: json_eq_int zero_count_def)

lemma json_eq_digest: "is_sha256 w \<Longrightarrow> json_eq v w \<longleftrightarrow> v = w"
  by (auto simp: is_sha256_iff)

lemma policy_digests:
  "map_of IRRECOVERABLE_TRANSIENT_POLICY key = Some p \<Longrightarrow>
     key = ''cleanup_upstream_5ed030'' \<and> lower_hex64 (tp_expected_sha256 p) \<and> lower_hex64 (tp_successor_sha256 p)"
  by (auto simp: IRRECOVERABLE_TRANSIENT_POLICY_def lower_hex64_def lower_hex_digit_def code_def split: if_splits)

lemma knowledge_clean:
  "(case v of JObj k \<Rightarrow> \<not> list_all (\<lambda>field. zero_count (jget k field)) [''sources'', ''evidence'', ''statements'']
       | _ \<Rightarrow> True) \<longleftrightarrow> \<not>
   (\<exists>k. v = JObj k \<and> (\<forall>f \<in> {''sources'', ''evidence'', ''statements''}. zero_count (jget k f)))"
  by (cases v) (auto simp: json_eq_zero)

lemma loss_evidence_complete:
  assumes "lower_hex64 (tp_expected_sha256 p)" "jget i ''state'' = JStr ''IRRECOVERABLE_TRANSIENT_DOCUMENTED''"
  shows "loss_evidence_blockers key p i = [] \<longleftrightarrow> documented_loss p i"
  using assms
  by (simp only: loss_evidence_blockers_def documented_loss_def append_is_Nil_conv note_if_Nil knowledge_clean
      json_eq_str json_eq_zero de_Morgan_disj not_not) (auto simp: is_sha256_iff)

lemma successor_complete: "successor_blockers key p i objects = [] \<longleftrightarrow> preserved_successor p i objects"
  by (cases "jget objects (tp_successor_object_id p)") (auto simp: successor_blockers_def preserved_successor_def)

lemma acceptance_complete:
  assumes "is_sha256 (jget i ''expected_sha256'')" "is_sha256 (jget i ''evidence_record_sha256'')"
  shows "acceptance_blockers key i controls = [] \<longleftrightarrow> accepted_by_human key i controls"
  using assms
  by (cases "jget controls ''irrecoverable_transient_acceptance''")
    (auto simp: acceptance_blockers_def accepted_by_human_def json_eq_digest)

lemma transient_complete:
  assumes "jget i ''state'' = JStr ''IRRECOVERABLE_TRANSIENT_DOCUMENTED''"
  shows "validate_irrecoverable_transient key i objects controls = [] \<longleftrightarrow>
    (\<exists>p. map_of IRRECOVERABLE_TRANSIENT_POLICY key = Some p \<and> documented_loss p i \<and> preserved_successor p i objects \<and>
       accepted_by_human key i controls)"
proof (cases "map_of IRRECOVERABLE_TRANSIENT_POLICY key")
  case None
  then show ?thesis by (simp add: validate_irrecoverable_transient_def)
next
  case (Some p)
  note evidence = loss_evidence_complete [OF conjunct1 [OF conjunct2 [OF policy_digests [OF Some]]] assms]
  have "is_sha256 (jget i ''expected_sha256'') \<and> is_sha256 (jget i ''evidence_record_sha256'')" if "documented_loss p i"
    using that policy_digests [OF Some] by (auto simp: documented_loss_def is_sha256_def)
  with Some show ?thesis
    by (auto simp: validate_irrecoverable_transient_def evidence successor_complete acceptance_complete)
qed

lemma raw_object_complete:
  "raw_object_blockers objects controls key = [] \<longleftrightarrow> byte_verified objects key \<or> accepted_loss objects controls key"
proof (cases "jget objects key")
  case (JObj i)
  have loss: "accepted_loss objects controls key \<longleftrightarrow>
      jget i ''state'' = JStr ''IRRECOVERABLE_TRANSIENT_DOCUMENTED'' \<and>
      validate_irrecoverable_transient key i objects controls = []"
    using JObj transient_complete [of i key objects controls]
    by (auto simp: accepted_loss_def documented_loss_def)
  show ?thesis
    unfolding loss using JObj by (auto simp: raw_object_blockers_def byte_verified_def)
qed (simp_all add: raw_object_blockers_def byte_verified_def accepted_loss_def)

lemma control_complete:
  "control_blockers controls (key, expected) = [] \<longleftrightarrow>
     (\<exists>c. jget controls key = JObj c \<and> jget c ''state'' = JStr expected)"
  by (cases "jget controls key") (auto simp: control_blockers_def)

lemma target_complete: "target_blockers vault_index p = [] \<longleftrightarrow> in_final_vault vault_index (snd p)"
proof (cases "snd p")
  case (JObj t)
  show ?thesis
  proof (cases "jget t ''sha256''")
    case (JStr h)
    with JObj show ?thesis
      by (cases "jget vault_index h"; cases p) (auto simp: target_blockers_def in_final_vault_def Let_def)
  qed (use JObj in \<open>auto simp: target_blockers_def in_final_vault_def Let_def split: prod.splits\<close>)
qed (auto simp: target_blockers_def in_final_vault_def Let_def split: prod.splits)

lemma targets_complete:
  "targets_blockers vault_index (JList ts) = [] \<longleftrightarrow> (\<forall>t \<in> set ts. in_final_vault vault_index t)"
  by (simp add: targets_blockers_def target_complete enumerate_from_all)

lemma concat_map_Nil: "concat (map f xs) = [] \<longleftrightarrow> (\<forall>x \<in> set xs. f x = [])"
  by simp

lemma controls_complete:
  "concat (map (control_blockers controls) REQUIRED_CONTROL_STATES) = [] \<longleftrightarrow>
     (\<forall>(key, expected) \<in> set REQUIRED_CONTROL_STATES. \<exists>c. jget controls key = JObj c \<and> jget c ''state'' = JStr expected)"
  by (auto simp: control_complete)

lemma required_states:
  assumes "\<forall>(key, expected) \<in> set REQUIRED_CONTROL_STATES. \<exists>c. jget controls key = JObj c \<and> jget c ''state'' = JStr expected"
  obtains vault manifest auth where
    "jget controls ''final_vault'' = JObj vault" "jget vault ''state'' = JStr ''VAULT_BUILT_VERIFIED''"
    "jget controls ''deletion_manifest'' = JObj manifest" "jget manifest ''state'' = JStr ''PRESENT_HASHED''"
    "jget controls ''human_authorization'' = JObj auth" "jget auth ''state'' = JStr ''EXPLICIT_HUMAN_APPROVAL_BOUND''"
  using assms by (auto simp: REQUIRED_CONTROL_STATES_def)

lemma manifest_complete:
  assumes "jget manifest ''state'' = JStr ''PRESENT_HASHED''"
  shows "manifest_blockers manifest = [] \<longleftrightarrow>
    is_sha256 (jget manifest ''sha256'') \<and> (\<exists>ts. jget manifest ''targets'' = JList ts \<and> ts \<noteq> [])"
  using assms by (cases "jget manifest ''targets''") (auto simp: manifest_blockers_def)

lemma authorization_complete:
  assumes "jget auth ''state'' = JStr ''EXPLICIT_HUMAN_APPROVAL_BOUND''" "is_sha256 m" "is_sha256 v"
  shows "authorization_blockers auth m v = [] \<longleftrightarrow>
    jget auth ''deletion_manifest_sha256'' = m \<and> jget auth ''final_vault_sha256'' = v \<and> truthy (jget auth ''decision_id'')"
  using assms by (simp add: authorization_blockers_def json_eq_digest)

lemma no_blockers_deletable: "safe_delete_blockers snapshot = [] \<longleftrightarrow> deletable snapshot"
proof
  assume none: "safe_delete_blockers snapshot = []"
  then obtain objects controls where o: "jget snapshot ''required_objects'' = JObj objects"
    and c: "jget snapshot ''controls'' = JObj controls"
    by (auto simp: safe_delete_blockers_def Let_def is_mapping_iff)
  note parts = none [unfolded safe_delete_blockers_def Let_def append_is_Nil_conv note_if_Nil o c mapping_or_empty_simps
      controls_complete concat_map_Nil [of "raw_object_blockers objects controls"] raw_object_complete]
  from parts have states: "\<forall>(key, expected) \<in> set REQUIRED_CONTROL_STATES. \<exists>c. jget controls key = JObj c \<and> jget c ''state'' = JStr expected"
    by blast
  obtain vault manifest auth where
    v: "jget controls ''final_vault'' = JObj vault" "jget vault ''state'' = JStr ''VAULT_BUILT_VERIFIED''" and
    m: "jget controls ''deletion_manifest'' = JObj manifest" "jget manifest ''state'' = JStr ''PRESENT_HASHED''" and
    a: "jget controls ''human_authorization'' = JObj auth" "jget auth ''state'' = JStr ''EXPLICIT_HUMAN_APPROVAL_BOUND''"
    by (rule required_states [OF states])
  note rest = parts [unfolded v m a mapping_or_empty_simps manifest_complete [OF m(2)] json_eq_str]
  from rest obtain ts where ts: "jget manifest ''targets'' = JList ts" "ts \<noteq> []" by blast
  from rest obtain idx where idx: "jget snapshot ''vault_objects'' = JObj idx" by (auto simp: is_mapping_iff)
  have sha: "is_sha256 (jget manifest ''sha256'')" "is_sha256 (jget vault ''sha256'')" using rest by blast+
  note all = rest [unfolded ts(1) idx mapping_or_empty_simps targets_complete authorization_complete [OF a(2) sha]]
  have raw: "\<forall>key \<in> set REQUIRED_RAW_OBJECTS. byte_verified objects key \<or> accepted_loss objects controls key"
    and targets: "\<forall>t \<in> set ts. in_final_vault idx t"
    and bound: "jget auth ''deletion_manifest_sha256'' = jget manifest ''sha256''"
      "jget auth ''final_vault_sha256'' = jget vault ''sha256''" "truthy (jget auth ''decision_id'')"
    using all by - (elim conjE, assumption)+
  show "deletable snapshot"
    unfolding deletable_def
    by (intro exI [of _ objects] exI [of _ controls] exI [of _ idx] exI [of _ vault] exI [of _ manifest] exI [of _ auth]
        exI [of _ ts] conjI) fact+
next
  assume "deletable snapshot"
  then obtain objects controls idx vault manifest auth ts where
    o: "jget snapshot ''required_objects'' = JObj objects" and c: "jget snapshot ''controls'' = JObj controls" and
    idx: "jget snapshot ''vault_objects'' = JObj idx" and
    raw: "\<forall>key \<in> set REQUIRED_RAW_OBJECTS. byte_verified objects key \<or> accepted_loss objects controls key" and
    states: "\<forall>(key, expected) \<in> set REQUIRED_CONTROL_STATES. \<exists>c. jget controls key = JObj c \<and> jget c ''state'' = JStr expected" and
    v: "jget controls ''final_vault'' = JObj vault" "is_sha256 (jget vault ''sha256'')" and
    m: "jget controls ''deletion_manifest'' = JObj manifest" "is_sha256 (jget manifest ''sha256'')" and
    ts: "jget manifest ''targets'' = JList ts" "ts \<noteq> []" "\<forall>t \<in> set ts. in_final_vault idx t" and
    a: "jget controls ''human_authorization'' = JObj auth" and
    bound: "jget auth ''deletion_manifest_sha256'' = jget manifest ''sha256''"
      "jget auth ''final_vault_sha256'' = jget vault ''sha256''" "truthy (jget auth ''decision_id'')"
    unfolding deletable_def by blast
  have st: "jget vault ''state'' = JStr ''VAULT_BUILT_VERIFIED''" "jget manifest ''state'' = JStr ''PRESENT_HASHED''"
      "jget auth ''state'' = JStr ''EXPLICIT_HUMAN_APPROVAL_BOUND''"
    using required_states [OF states] v(1) m(1) a by auto
  show "safe_delete_blockers snapshot = []"
    unfolding safe_delete_blockers_def Let_def o c idx v(1) m(1) a mapping_or_empty_simps append_is_Nil_conv note_if_Nil
      controls_complete concat_map_Nil [of "raw_object_blockers objects controls"] raw_object_complete ts(1) targets_complete
      manifest_complete [OF st(2)] authorization_complete [OF st(3) m(2) v(2)]
    using raw states v(2) m(2) ts bound by (simp add: is_mapping_def)
qed

text \<open>C19. Safe deletion: the gate reports a snapshot safe to delete exactly if its contract holds.
  Every required object is byte-verified, with one exception that is documented as a bounded loss, whose
  successor is byte-verified and which a human accepted; all controls are in their required state; the
  manifest lists at least one target and every target is verified in the final vault; and the human
  approval is bound to the digests of exactly this manifest and this vault.\<close>

theorem safe_delete_is_decided: "sde_safe_to_delete (evaluate_safe_delete snapshot) \<longleftrightarrow> deletable snapshot"
  by (simp add: evaluate_safe_delete_def no_blockers_deletable Let_def)

end
