(* ===== verification/DeletionPlan.thy ===== *)
theory DeletionPlan
  imports SafeDelete Effects
begin

section \<open>Planning and executing an authorised deletion\<close>

text \<open>
  \<open>galia2/safe_delete_dry_run.py\<close> and \<open>galia2/safe_delete_execution.py\<close>: the dry-run planner, which
  compares a manifest with the live inventory, and the executor, which calls an injected adapter.  The
  adapter is a parameter: any operation on the world that returns one mapping per deletion or raises.
\<close>

subsection \<open>The plan\<close>

definition SEALED_VAULT_PREFIX :: string where
  "SEALED_VAULT_PREFIX = ''/GALIA_FINAL_VAULT_SEALED_2026-09-26/''"

record dry_run_plan =
  dp_executable :: bool
  dp_state :: string
  dp_blockers :: "string list"
  dp_targets :: "row list"

definition plan_row :: "dry_run_plan \<Rightarrow> row" where
  \<comment> \<open>\<open>as_dict\<close>\<close>
  "plan_row p =
     [(''executable'', JBool (dp_executable p)), (''state'', JStr (dp_state p)),
      (''blockers'', JList (map JStr (dp_blockers p))), (''targets'', JList (map JObj (dp_targets p)))]"

definition hashable :: "json \<Rightarrow> bool" where
  "hashable v \<longleftrightarrow> (case v of JList _ \<Rightarrow> False | JObj _ \<Rightarrow> False | _ \<Rightarrow> True)"

definition need_hashable :: "json \<Rightarrow> unit res" where
  "need_hashable v = raise_if (\<not> hashable v) (TypeError ''unhashable type'')"

text \<open>
  The inventory indexed by library id, the newest entry first: a later item replaces an earlier one
  with an equal key.
\<close>

fun live_index :: "json list \<Rightarrow> (json \<times> row) list \<Rightarrow> (json \<times> row) list res" where
  "live_index [] acc = Inr acc"
| "live_index (v # vs) acc =
     (case v of
        JObj d \<Rightarrow>
          (let k = jget d ''library_file_id'' in
           if truthy k then bindE (need_hashable k) (\<lambda>_. live_index vs ((k, d) # acc)) else live_index vs acc)
      | _ \<Rightarrow> live_index vs acc)"

fun key_lookup :: "(json \<times> row) list \<Rightarrow> json \<Rightarrow> row option" where
  "key_lookup [] k = None"
| "key_lookup ((k', d) # r) k = (if json_eq k' k then Some d else key_lookup r k)"

definition is_member :: "json \<Rightarrow> json list \<Rightarrow> bool" where
  "is_member v vs \<longleftrightarrow> list_ex (\<lambda>u. json_eq u v) vs"

definition has_prefix :: "string \<Rightarrow> json \<Rightarrow> bool" where
  \<comment> \<open>\<open>isinstance(v, str) and v.startswith(p)\<close>\<close>
  "has_prefix p v \<longleftrightarrow> (case v of JStr s \<Rightarrow> take (length p) s = p | _ \<Rightarrow> False)"

definition is_str :: "json \<Rightarrow> bool" where
  "is_str v \<longleftrightarrow> (case v of JStr s \<Rightarrow> True | _ \<Rightarrow> False)"

definition plan_target :: "nat \<Rightarrow> row \<Rightarrow> row" where
  "plan_target index t =
     [(''ordinal'', JInt (int index + 1)), (''library_file_id'', jget t ''library_file_id''),
      (''file_id'', jget t ''file_id''), (''path'', jget t ''path''), (''expected_sha256'', jget t ''sha256''),
      (''expected_size_bytes'', jget t ''size_bytes''),
      (''preserved_in_sealed_vault'', jget t ''preserved_in_sealed_vault''),
      (''operation'', JStr ''WOULD_DELETE_LIBRARY_OBJECT'')]"

definition id_check :: "json list \<Rightarrow> json \<Rightarrow> bool res" where
  \<comment> \<open>whether the library id is missing or seen before; a set test hashes the value\<close>
  "id_check seen k = (if \<not> truthy k then Inr True else bindE (need_hashable k) (\<lambda>_. Inr (is_member k seen)))"

definition live_blockers :: "string \<Rightarrow> row \<Rightarrow> row option \<Rightarrow> string list" where
  "live_blockers name t live =
     (case live of
        None \<Rightarrow> [name @ '':LIVE_OBJECT_MISSING'']
      | Some l \<Rightarrow>
          note_if (\<not> json_eq (jget l ''file_id'') (jget t ''file_id'')) (name @ '':LIVE_FILE_ID_MISMATCH'') @
          note_if (\<not> json_eq (jget l ''path'') (jget t ''path'')) (name @ '':LIVE_PATH_MISMATCH'') @
          note_if (\<not> json_eq (jget l ''size_bytes'') (jget t ''size_bytes'')) (name @ '':LIVE_SIZE_MISMATCH''))"

definition scan_target :: "(json \<times> row) list \<Rightarrow> json list \<Rightarrow> nat \<Rightarrow> row \<Rightarrow> (json list \<times> string list) res" where
  "scan_target index_live seen index t =
     (let name = ''TARGET_'' @ show_nat index; k = jget t ''library_file_id'' in
      bindE (id_check seen k) (\<lambda>bad.
      bindE (need_hashable k) (\<lambda>_.
      Inr (if bad then seen else k # seen,
           note_if bad (name @ '':LIBRARY_ID_INVALID_OR_DUPLICATE'') @
           note_if (\<not> is_str (jget t ''path'') \<or> has_prefix SEALED_VAULT_PREFIX (jget t ''path''))
             (name @ '':SEALED_VAULT_TARGET_FORBIDDEN'') @
           note_if (\<not> json_eq (jget t ''sha256'') (jget t ''preservation_sha256''))
             (name @ '':PRESERVATION_HASH_MISMATCH'') @
           note_if (\<not> has_prefix SEALED_VAULT_PREFIX (jget t ''preserved_in_sealed_vault''))
             (name @ '':SEALED_PRESERVATION_PATH_INVALID'') @
           live_blockers name t (key_lookup index_live k)))))"

fun scan_targets :: "(json \<times> row) list \<Rightarrow> json list \<Rightarrow> nat \<Rightarrow> json list \<Rightarrow> (string list \<times> row list) res" where
  "scan_targets index_live seen n [] = Inr ([], [])"
| "scan_targets index_live seen n (v # vs) =
     (case v of
        JObj t \<Rightarrow>
          bindE (scan_target index_live seen n t) (\<lambda>(seen', bs).
          bindE (scan_targets index_live seen' (Suc n) vs) (\<lambda>(bs', ts). Inr (bs @ bs', plan_target n t # ts)))
      | _ \<Rightarrow>
          bindE (scan_targets index_live seen (Suc n) vs) (\<lambda>(bs', ts).
          Inr ((''TARGET_'' @ show_nat n @ '':INVALID'') # bs', ts)))"

definition authorization_notes :: "json \<Rightarrow> string list" where
  \<comment> \<open>the validator's blockers, each marked \<open>AUTH\<close>\<close>
  "authorization_notes receipt =
     (let auth = evaluate_delete_authorization receipt in
      if ae_authorized auth then [] else map ((@) ''AUTH:'') (ae_blockers auth))"

definition build_dry_run_plan :: "row \<Rightarrow> json list \<Rightarrow> json \<Rightarrow> dry_run_plan res" where
  "build_dry_run_plan manifest live_inventory receipt =
     (let count_bad = \<not> json_eq (jget manifest ''target_count'') (JInt (int EXPECTED_TARGET_COUNT));
          listed = (case jget manifest ''targets'' of
                      JList ts \<Rightarrow> if length ts = EXPECTED_TARGET_COUNT then Some ts else None | _ \<Rightarrow> None) in
      bindE (live_index live_inventory []) (\<lambda>live.
      bindE (scan_targets live [] 0 (case listed of None \<Rightarrow> [] | Some ts \<Rightarrow> ts)) (\<lambda>(bs, ts).
      let blockers = dedup (note_if count_bad ''MANIFEST_TARGET_COUNT_MISMATCH'' @
                            note_if (listed = None) ''MANIFEST_TARGETS_INVALID'' @ bs @ authorization_notes receipt);
          executable = (blockers = []) in
      Inr \<lparr>dp_executable = executable,
           dp_state = (if executable then ''AUTHORIZED_EXECUTION_ELIGIBLE'' else ''DRY_RUN_HOLD''),
           dp_blockers = blockers, dp_targets = ts\<rparr>)))"

subsection \<open>The executor\<close>

definition EXPECTED_OPERATION :: string where
  "EXPECTED_OPERATION = ''WOULD_DELETE_LIBRARY_OBJECT''"

record execution_result =
  er_executed :: bool
  er_state :: string
  er_deleted :: "string list"
  er_blockers :: "string list"
  er_adapter_results :: "row list"

definition delete_operation :: "string \<Rightarrow> json" where
  "delete_operation library_id =
     JObj [(''operation'', JStr ''delete''),
           (''target'', JObj [(''kind'', JStr ''file''), (''library_file_id'', JStr library_id)])]"

definition library_id :: "json list \<Rightarrow> nat \<Rightarrow> json \<Rightarrow> string res" where
  \<comment> \<open>the checks of one library id against those seen before\<close>
  "library_id seen index v =
     (case v of
        JStr i \<Rightarrow>
          if i = [] then Inl (ValueError (''TARGET_'' @ show_nat index @ '':LIBRARY_FILE_ID_MISSING''))
          else if JStr i \<in> set seen then Inl (ValueError (''TARGET_'' @ show_nat index @ '':DUPLICATE_LIBRARY_FILE_ID''))
          else Inr i
      | _ \<Rightarrow> Inl (ValueError (''TARGET_'' @ show_nat index @ '':LIBRARY_FILE_ID_MISSING'')))"

fun operation_ids :: "json list \<Rightarrow> nat \<Rightarrow> json list \<Rightarrow> string list res" where
  "operation_ids seen n [] = Inr []"
| "operation_ids seen n (v # vs) =
     (case v of
        JObj t \<Rightarrow>
          bindE (raise_if (\<not> json_eq (jget t ''operation'') (JStr EXPECTED_OPERATION))
                   (ValueError (''TARGET_'' @ show_nat n @ '':OPERATION_INVALID''))) (\<lambda>_.
          bindE (library_id seen n (jget t ''library_file_id'')) (\<lambda>i.
          bindE (operation_ids (JStr i # seen) (Suc n) vs) (\<lambda>is. Inr (i # is))))
      | _ \<Rightarrow> Inl (ValueError (''TARGET_'' @ show_nat n @ '':INVALID'')))"

definition build_library_delete_operations :: "row \<Rightarrow> string list res" where
  \<comment> \<open>the library ids of the operations, in order\<close>
  "build_library_delete_operations plan =
     (case jget plan ''targets'' of
        JList targets \<Rightarrow>
          bindE (operation_ids [] 0 targets) (\<lambda>ids.
          bindE (raise_if (\<not> json_eq (jget plan ''state'') (JStr ''AUTHORIZED_EXECUTION_ELIGIBLE''))
                   (PermissionError ''PLAN_NOT_EXECUTION_ELIGIBLE'')) (\<lambda>_.
          bindE (raise_if (length ids \<noteq> EXPECTED_TARGET_COUNT) (ValueError ''TARGET_COUNT_MISMATCH'')) (\<lambda>_.
          Inr ids)))
      | _ \<Rightarrow> Inl (ValueError ''PLAN_TARGETS_INVALID''))"

type_synonym delete_adapter = "json list \<Rightarrow> row list io"

definition reported_ok :: "string \<Rightarrow> row \<Rightarrow> bool" where
  "reported_ok i result \<longleftrightarrow>
     json_eq (jget result ''status'') (JStr ''succeeded'') \<and>
     jget result ''library_file_id'' \<in> {JNull, JStr i}"

definition item_blocker :: "string \<Rightarrow> string \<Rightarrow> row \<Rightarrow> string" where
  "item_blocker name i result =
     (if json_eq (jget result ''status'') (JStr ''succeeded'') then name @ '':LIBRARY_ID_MISMATCH''
      else name @ '':DELETE_FAILED'')"

fun read_results :: "(nat \<Rightarrow> string) \<Rightarrow> nat \<Rightarrow> (string \<times> row) list \<Rightarrow> string list \<times> string list" where
  \<comment> \<open>the ids reported deleted, and the blockers\<close>
  "read_results name n [] = ([], [])"
| "read_results name n ((i, result) # r) =
     (let (ok, bad) = read_results name (Suc n) r in
      if reported_ok i result then (i # ok, bad) else (ok, item_blocker (name n) i result # bad))"

definition execution_blockers :: "row \<Rightarrow> json \<Rightarrow> bool \<Rightarrow> string list" where
  "execution_blockers plan receipt commit =
     authorization_notes receipt @
     note_if (\<not> json_eq (jget plan ''state'') (JStr ''AUTHORIZED_EXECUTION_ELIGIBLE'')) ''PLAN_NOT_EXECUTION_ELIGIBLE'' @
     note_if (jget plan ''executable'' \<noteq> JBool True) ''PLAN_EXECUTABLE_TRUE_REQUIRED'' @
     (case jget plan ''targets'' of
        JList ts \<Rightarrow> note_if (length ts \<noteq> EXPECTED_TARGET_COUNT) ''TARGET_COUNT_MISMATCH''
      | _ \<Rightarrow> [''PLAN_TARGETS_INVALID'', ''TARGET_COUNT_MISMATCH'']) @
     note_if (\<not> commit) ''COMMIT_FLAG_REQUIRED''"

definition execution_report :: "string list \<Rightarrow> row list \<Rightarrow> execution_result" where
  "execution_report ids raw =
     (let (ok, bad) = read_results (\<lambda>n. ''ADAPTER_'' @ show_nat n) 0 (zip ids raw);
          blockers = bad @ note_if (length raw \<noteq> length ids) ''ADAPTER_RESULT_COUNT_MISMATCH'' in
      \<lparr>er_executed = (blockers = []),
       er_state = (if blockers = [] then ''EXECUTED_EXACT_SCOPE'' else ''PARTIAL_OR_FAILED_EXECUTION''),
       er_deleted = ok, er_blockers = blockers, er_adapter_results = raw\<rparr>)"

definition execute_authorized_deletion ::
  "row \<Rightarrow> json \<Rightarrow> delete_adapter \<Rightarrow> bool \<Rightarrow> execution_result io" where
  "execute_authorized_deletion plan receipt adapter commit =
     (let blockers = dedup (execution_blockers plan receipt commit) in
      if blockers \<noteq> []
      then ret \<lparr>er_executed = False, er_state = ''EXECUTION_HOLD'', er_deleted = [], er_blockers = blockers,
                er_adapter_results = []\<rparr>
      else bindI (lift (build_library_delete_operations plan)) (\<lambda>ids.
           bindI (adapter (map delete_operation ids)) (\<lambda>raw.
           ret (execution_report ids raw))))"

subsection \<open>What an executable plan means\<close>

definition target_clean :: "(json \<times> row) list \<Rightarrow> row \<Rightarrow> bool" where
  "target_clean live t \<longleftrightarrow>
     truthy (jget t ''library_file_id'') \<and>
     (\<exists>s. jget t ''path'' = JStr s) \<and> \<not> has_prefix SEALED_VAULT_PREFIX (jget t ''path'') \<and>
     json_eq (jget t ''sha256'') (jget t ''preservation_sha256'') \<and>
     has_prefix SEALED_VAULT_PREFIX (jget t ''preserved_in_sealed_vault'') \<and>
     (\<exists>l. key_lookup live (jget t ''library_file_id'') = Some l \<and>
        json_eq (jget l ''file_id'') (jget t ''file_id'') \<and> json_eq (jget l ''path'') (jget t ''path'') \<and>
        json_eq (jget l ''size_bytes'') (jget t ''size_bytes''))"

fun fresh_keys :: "json list \<Rightarrow> json list \<Rightarrow> bool" where
  "fresh_keys seen [] = True"
| "fresh_keys seen (k # ks) = (\<not> is_member k seen \<and> fresh_keys (k # seen) ks)"

abbreviation target_key :: "row \<Rightarrow> json" where
  "target_key t \<equiv> jget t ''library_file_id''"

lemma is_str_iff: "is_str v \<longleftrightarrow> (\<exists>s. v = JStr s)"
  by (cases v) (auto simp: is_str_def)

lemma scan_target_clean:
  assumes "scan_target live seen n t = Inr (seen', [])"
  shows "target_clean live t \<and> \<not> is_member (target_key t) seen \<and> seen' = target_key t # seen"
  using assms
  by (auto simp: scan_target_def Let_def id_check_def need_hashable_def bindE_Inr live_blockers_def target_clean_def
      is_str_iff split: if_splits option.splits)

lemma scan_targets_clean:
  "scan_targets live seen n vs = Inr ([], ts) \<Longrightarrow>
     \<exists>ds. vs = map JObj ds \<and> ts = map2 plan_target [n..<n + length ds] ds \<and> list_all (target_clean live) ds \<and>
       fresh_keys seen (map target_key ds)"
proof (induction vs arbitrary: seen n ts)
  case (Cons v vs)
  show ?case
  proof (cases v)
    case (JObj t)
    from Cons.prems JObj obtain seen' ts' where
      here: "scan_target live seen n t = Inr (seen', [])" and
      rest: "scan_targets live seen' (Suc n) vs = Inr ([], ts')" and ts: "ts = plan_target n t # ts'"
      by (auto simp: bindE_Inr split: prod.splits)
    from scan_target_clean [OF here] have t: "target_clean live t" "\<not> is_member (target_key t) seen"
      and seen': "seen' = target_key t # seen" by blast+
    from Cons.IH [OF rest] obtain ds where ds: "vs = map JObj ds" "ts' = map2 plan_target [Suc n..<Suc n + length ds] ds"
      "list_all (target_clean live) ds" "fresh_keys seen' (map target_key ds)" by blast
    show ?thesis
      by (rule exI [of _ "t # ds"]) (simp add: JObj ds ts t seen' [symmetric] upt_conv_Cons del: upt_Suc)
  qed (use Cons.prems in \<open>auto simp: bindE_Inr split: prod.splits\<close>)
qed simp

lemma fresh_string_keys:
  "fresh_keys seen (map JStr ids) \<Longrightarrow> distinct ids \<and> (\<forall>i \<in> set ids. JStr i \<notin> set seen)"
proof (induction ids arbitrary: seen)
  case (Cons i ids)
  then have "JStr i \<notin> set seen" by (auto simp: is_member_def list_ex_iff)
  with Cons.IH [of "JStr i # seen"] Cons.prems show ?case by auto
qed simp

lemma plan_target_lookup [simp]:
  "jget (plan_target n t) ''operation'' = JStr ''WOULD_DELETE_LIBRARY_OBJECT''"
  "jget (plan_target n t) ''library_file_id'' = target_key t"
  by (simp_all add: plan_target_def jget_def)

lemma operation_ids_of_plan:
  assumes "map target_key ds = map JStr ids" "distinct ids" "[] \<notin> set ids" "\<forall>i \<in> set ids. JStr i \<notin> set seen"
  shows "operation_ids seen m (map JObj (map2 plan_target [n..<n + length ds] ds)) = Inr ids"
  using assms
proof (induction ds arbitrary: ids seen m n)
  case (Cons d ds)
  then obtain i js where ids: "ids = i # js" and d: "target_key d = JStr i" and js: "map target_key ds = map JStr js"
    by (cases ids) auto
  have "operation_ids (JStr i # seen) (Suc m) (map JObj (map2 plan_target [Suc n..<Suc n + length ds] ds)) = Inr js"
    by (rule Cons.IH [OF js]) (use Cons.prems ids in auto)
  moreover have "library_id seen m (JStr i) = Inr i" using Cons.prems ids by (auto simp: library_id_def)
  ultimately show ?case
    by (simp add: upt_conv_Cons ids d EXPECTED_OPERATION_def del: upt_Suc)
qed simp

lemma live_index_sound:
  "live_index vs acc = Inr live \<Longrightarrow> key_lookup live k = Some l \<Longrightarrow>
     key_lookup acc k = Some l \<or> (JObj l \<in> set vs \<and> json_eq (target_key l) k)"
proof (induction vs arbitrary: acc)
  case (Cons v vs)
  then show ?case
    by (cases v) (fastforce simp: Let_def bindE_Inr need_hashable_def split: if_splits)+
qed simp

lemma authorization_notes_Nil: "authorization_notes v = [] \<longleftrightarrow> ae_authorized (evaluate_delete_authorization v)"
  by (simp add: authorization_notes_def Let_def authorized_no_blockers)

lemma executable_plan:
  assumes "build_dry_run_plan manifest inventory receipt = Inr p" "dp_executable p"
  obtains ds live where
    "jget manifest ''targets'' = JList (map JObj ds)" "length ds = EXPECTED_TARGET_COUNT"
    "live_index inventory [] = Inr live" "list_all (target_clean live) ds" "fresh_keys [] (map target_key ds)"
    "ae_authorized (evaluate_delete_authorization receipt)"
    "dp_state p = ''AUTHORIZED_EXECUTION_ELIGIBLE''" "dp_targets p = map2 plan_target [0..<length ds] ds"
proof -
  obtain vs live ts where m: "jget manifest ''targets'' = JList vs" "length vs = EXPECTED_TARGET_COUNT"
    and live: "live_index inventory [] = Inr live" and scan: "scan_targets live [] 0 vs = Inr ([], ts)"
    and auth: "authorization_notes receipt = []"
    and p: "dp_state p = ''AUTHORIZED_EXECUTION_ELIGIBLE''" "dp_targets p = ts"
    using assms
    by (auto simp: build_dry_run_plan_def Let_def bindE_Inr split: json.splits if_splits prod.splits)
  from scan_targets_clean [OF scan] m live auth p show thesis
    by (auto simp: authorization_notes_Nil intro: that)
qed

lemma plan_row_lookup [simp]:
  "jget (plan_row p) ''executable'' = JBool (dp_executable p)" "jget (plan_row p) ''state'' = JStr (dp_state p)"
  "jget (plan_row p) ''targets'' = JList (map JObj (dp_targets p))"
  by (simp_all add: plan_row_def jget_def)

lemma no_execution_blockers:
  "execution_blockers plan receipt commit = [] \<longleftrightarrow>
     ae_authorized (evaluate_delete_authorization receipt) \<and> commit \<and>
     jget plan ''state'' = JStr ''AUTHORIZED_EXECUTION_ELIGIBLE'' \<and> jget plan ''executable'' = JBool True \<and>
     (\<exists>ts. jget plan ''targets'' = JList ts \<and> length ts = EXPECTED_TARGET_COUNT)"
  by (cases "jget plan ''targets''") (auto simp: execution_blockers_def authorization_notes_Nil)


lemma plan_operations:
  assumes "build_dry_run_plan manifest inventory receipt = Inr p" "dp_executable p"
    and "jget manifest ''targets'' = JList targets"
    and "map (\<lambda>v. target_key (mapping_or_empty v)) targets = map JStr ids"
  shows "distinct ids" "length ids = EXPECTED_TARGET_COUNT"
    "build_library_delete_operations (plan_row p) = Inr ids"
    "execution_blockers (plan_row p) receipt True = []"
    "\<forall>v \<in> set targets. \<exists>t l. v = JObj t \<and> JObj l \<in> set inventory \<and>
       json_eq (target_key l) (target_key t) \<and> json_eq (jget l ''path'') (jget t ''path'') \<and>
       json_eq (jget l ''file_id'') (jget t ''file_id'') \<and> json_eq (jget l ''size_bytes'') (jget t ''size_bytes'') \<and>
       \<not> has_prefix SEALED_VAULT_PREFIX (jget t ''path'') \<and>
       has_prefix SEALED_VAULT_PREFIX (jget t ''preserved_in_sealed_vault'')"
proof -
  obtain ds live where ds: "jget manifest ''targets'' = JList (map JObj ds)" "length ds = EXPECTED_TARGET_COUNT"
    and live: "live_index inventory [] = Inr live" "list_all (target_clean live) ds"
    and fresh: "fresh_keys [] (map target_key ds)"
    and auth: "ae_authorized (evaluate_delete_authorization receipt)"
    and p: "dp_state p = ''AUTHORIZED_EXECUTION_ELIGIBLE''" "dp_targets p = map2 plan_target [0..<length ds] ds"
    by (rule executable_plan [OF assms(1,2)])
  from ds assms(3,4) have targets: "targets = map JObj ds" and keys: "map target_key ds = map JStr ids"
    by (simp_all add: o_def)
  from fresh keys show dist: "distinct ids" by (metis fresh_string_keys)
  from keys ds(2) show len: "length ids = EXPECTED_TARGET_COUNT" by (metis length_map)
  have ne: "[] \<notin> set ids"
  proof
    assume "[] \<in> set ids"
    then have "JStr [] \<in> target_key ` set ds" by (metis image_eqI image_set keys)
    then obtain t where "t \<in> set ds" "target_key t = JStr []" by auto
    with live(2) show False by (auto simp: list_all_iff target_clean_def)
  qed
  have "operation_ids [] 0 (map JObj (map2 plan_target [0..<0 + length ds] ds)) = Inr ids"
    by (rule operation_ids_of_plan [OF keys dist ne]) simp
  then show "build_library_delete_operations (plan_row p) = Inr ids"
    by (simp add: build_library_delete_operations_def p len)
  show "execution_blockers (plan_row p) receipt True = []"
    using assms(2) by (simp add: no_execution_blockers auth p ds(2))
  show "\<forall>v \<in> set targets. \<exists>t l. v = JObj t \<and> JObj l \<in> set inventory \<and>
       json_eq (target_key l) (target_key t) \<and> json_eq (jget l ''path'') (jget t ''path'') \<and>
       json_eq (jget l ''file_id'') (jget t ''file_id'') \<and> json_eq (jget l ''size_bytes'') (jget t ''size_bytes'') \<and>
       \<not> has_prefix SEALED_VAULT_PREFIX (jget t ''path'') \<and>
       has_prefix SEALED_VAULT_PREFIX (jget t ''preserved_in_sealed_vault'')"
  proof
    fix v assume "v \<in> set targets"
    then obtain t where t: "v = JObj t" "t \<in> set ds" using targets by auto
    with live(2) have clean: "target_clean live t" by (simp add: list_all_iff)
    then obtain l where l: "key_lookup live (target_key t) = Some l"
      "json_eq (jget l ''file_id'') (jget t ''file_id'')" "json_eq (jget l ''path'') (jget t ''path'')"
      "json_eq (jget l ''size_bytes'') (jget t ''size_bytes'')" by (auto simp: target_clean_def)
    from live_index_sound [OF live(1) l(1)] have "JObj l \<in> set inventory \<and> json_eq (target_key l) (target_key t)" by simp
    with t(1) l clean show "\<exists>t l. v = JObj t \<and> JObj l \<in> set inventory \<and>
       json_eq (target_key l) (target_key t) \<and> json_eq (jget l ''path'') (jget t ''path'') \<and>
       json_eq (jget l ''file_id'') (jget t ''file_id'') \<and> json_eq (jget l ''size_bytes'') (jget t ''size_bytes'') \<and>
       \<not> has_prefix SEALED_VAULT_PREFIX (jget t ''path'') \<and>
       has_prefix SEALED_VAULT_PREFIX (jget t ''preserved_in_sealed_vault'')"
      unfolding target_clean_def by blast
  qed
qed

text \<open>Safe deletion: an executable plan whose manifest names its targets by strings deletes exactly
  the manifest's targets.  The ids are distinct and 27 in number; every target is a live object at the
  path, with the file id and the size the manifest states, outside the sealed vault and preserved inside
  it; and executing the plan under the same receipt is one call of the adapter with one delete operation
  per id, in the manifest's order, followed by the report on what the adapter answered.\<close>

theorem executable_plan_deletes_exact_scope:
  assumes "build_dry_run_plan manifest inventory receipt = Inr p" "dp_executable p"
    and "jget manifest ''targets'' = JList targets"
    and "map (\<lambda>v. target_key (mapping_or_empty v)) targets = map JStr ids"
  shows "distinct ids \<and> length ids = 27 \<and>
    (\<forall>v \<in> set targets. \<exists>t l. v = JObj t \<and> JObj l \<in> set inventory \<and>
       json_eq (target_key l) (target_key t) \<and> json_eq (jget l ''path'') (jget t ''path'') \<and>
       json_eq (jget l ''file_id'') (jget t ''file_id'') \<and> json_eq (jget l ''size_bytes'') (jget t ''size_bytes'') \<and>
       \<not> has_prefix SEALED_VAULT_PREFIX (jget t ''path'') \<and>
       has_prefix SEALED_VAULT_PREFIX (jget t ''preserved_in_sealed_vault'')) \<and>
    execute_authorized_deletion (plan_row p) receipt adapter True =
      bindI (adapter (map delete_operation ids)) (\<lambda>raw. ret (execution_report ids raw))"
proof (intro conjI plan_operations [OF assms])
  show "length ids = 27" using plan_operations(2) [OF assms] by (simp add: EXPECTED_TARGET_COUNT_def)
  show "execute_authorized_deletion (plan_row p) receipt adapter True =
      bindI (adapter (map delete_operation ids)) (\<lambda>raw. ret (execution_report ids raw))"
    using plan_operations(3,4) [OF assms] by (simp add: execute_authorized_deletion_def bindI_def fun_eq_iff dedup_def)
qed

subsection \<open>What an execution reports\<close>

definition deletion_permitted :: "row \<Rightarrow> json \<Rightarrow> bool \<Rightarrow> bool" where
  "deletion_permitted plan receipt commit \<longleftrightarrow>
     commit \<and> (\<exists>r. receipt = JObj r \<and> human_deletion_receipt r) \<and>
     jget plan ''state'' = JStr ''AUTHORIZED_EXECUTION_ELIGIBLE'' \<and> jget plan ''executable'' = JBool True"

lemma operation_ids_distinct:
  "operation_ids seen n vs = Inr ids \<Longrightarrow>
     distinct ids \<and> length ids = length vs \<and> (\<forall>i \<in> set ids. JStr i \<notin> set seen) \<and>
     map (\<lambda>v. target_key (mapping_or_empty v)) vs = map JStr ids"
proof (induction vs arbitrary: seen n ids)
  case (Cons v vs)
  then obtain t i js where v: "v = JObj t" and i: "library_id seen n (target_key t) = Inr i"
    and js: "operation_ids (JStr i # seen) (Suc n) vs = Inr js" and ids: "ids = i # js"
    by (auto simp: bindE_Inr split: json.splits)
  from i have "target_key t = JStr i" "JStr i \<notin> set seen" by (auto simp: library_id_def split: json.splits if_splits)
  with Cons.IH [OF js] v ids show ?case by auto
qed simp

lemma read_results_all:
  "read_results name n ps = (ok, []) \<Longrightarrow> ok = map fst ps \<and> (\<forall>(i, r) \<in> set ps. reported_ok i r)"
  by (induction name n ps arbitrary: ok rule: read_results.induct) (auto simp: Let_def split: prod.splits if_splits)

lemma report_executed:
  assumes "er_executed (execution_report ids raw)"
  shows "length raw = length ids \<and> er_deleted (execution_report ids raw) = ids \<and>
    (\<forall>(i, r) \<in> set (zip ids raw). reported_ok i r)"
proof -
  obtain ok bad where r: "read_results (\<lambda>n. ''ADAPTER_'' @ show_nat n) 0 (zip ids raw) = (ok, bad)" by fastforce
  with assms have len: "length raw = length ids" and bad: "bad = []"
    by (auto simp: execution_report_def Let_def note_if_def split: if_splits)
  from read_results_all [OF r [unfolded bad]] len r bad show ?thesis
    by (simp add: execution_report_def Let_def note_if_def)
qed

lemma execute_cases:
  assumes "execute_authorized_deletion plan receipt adapter commit w = (r, w')"
  obtains (hold) b where "r = Inr \<lparr>er_executed = False, er_state = ''EXECUTION_HOLD'', er_deleted = [],
      er_blockers = b, er_adapter_results = []\<rparr>" "w' = w" "b \<noteq> []"
  | (refused) e where "r = Inl e" "w' = w"
  | (called) ids where "deletion_permitted plan receipt commit"
      "build_library_delete_operations plan = Inr ids"
      "bindI (adapter (map delete_operation ids)) (\<lambda>raw. ret (execution_report ids raw)) w = (r, w')"
proof (cases "execution_blockers plan receipt commit = []")
  case True
  then have permitted: "deletion_permitted plan receipt commit"
    by (auto simp: no_execution_blockers deletion_permitted_def authorized_iff)
  show thesis
  proof (cases "build_library_delete_operations plan")
    case (Inl e)
    with True assms have "Inl e = r \<and> w = w'" by (simp add: execute_authorized_deletion_def Let_def bindI_def)
    with refused show thesis by blast
  next
    case (Inr ids)
    with True assms called [OF permitted Inr] show thesis by (simp add: execute_authorized_deletion_def Let_def bindI_def)
  qed
next
  case False
  with assms show thesis
    by (intro hold [of "dedup (execution_blockers plan receipt commit)"]) (auto simp: execute_authorized_deletion_def Let_def)
qed

lemma built_operations:
  assumes "build_library_delete_operations plan = Inr ids"
  shows "distinct ids \<and> length ids = 27"
proof -
  obtain ts where "operation_ids [] 0 ts = Inr ids" "length ids = EXPECTED_TARGET_COUNT"
    using assms by (auto simp: build_library_delete_operations_def bindE_Inr split: json.splits)
  from operation_ids_distinct [OF this(1)] this(2) show ?thesis by (simp add: EXPECTED_TARGET_COUNT_def)
qed

text \<open>C20. Safe deletion: without the commit flag, a valid human receipt and an eligible plan the adapter
  is not called and the world stays as it is.  Whatever the adapter does otherwise, a result that says
  \<open>executed\<close> means that it was called once with 27 distinct ids, answered with 27 results that all report
  success for their own id, and that exactly these ids are reported deleted.\<close>

theorem deletion_is_authorised:
  assumes "execute_authorized_deletion plan receipt adapter commit w = (r, w')"
  shows "(deletion_permitted plan receipt commit \<or> (w' = w \<and> (\<forall>x. r = Inr x \<longrightarrow> \<not> er_executed x \<and> er_deleted x = []))) \<and>
    (\<forall>x. r = Inr x \<and> er_executed x \<longrightarrow>
       (\<exists>raw. distinct (er_deleted x) \<and> length (er_deleted x) = 27 \<and> length raw = 27 \<and>
          adapter (map delete_operation (er_deleted x)) w = (Inr raw, w') \<and>
          (\<forall>(i, a) \<in> set (zip (er_deleted x) raw). reported_ok i a)))"
  using assms
proof (cases rule: execute_cases)
  case (called ids)
  note ids = built_operations [OF called(2)]
  have "\<exists>raw. distinct (er_deleted x) \<and> length (er_deleted x) = 27 \<and> length raw = 27 \<and>
          adapter (map delete_operation (er_deleted x)) w = (Inr raw, w') \<and>
          (\<forall>(i, a) \<in> set (zip (er_deleted x) raw). reported_ok i a)"
    if "r = Inr x" "er_executed x" for x
  proof -
    from called(3) that(1) obtain raw where raw: "adapter (map delete_operation ids) w = (Inr raw, w')"
      and x: "x = execution_report ids raw" by (auto simp: bindI_Inr)
    from report_executed [of ids raw] that(2) x have rep: "length raw = length ids" "er_deleted x = ids"
      "\<forall>(i, a) \<in> set (zip ids raw). reported_ok i a" by blast+
    show ?thesis by (rule exI [of _ raw]) (simp add: rep ids raw)
  qed
  with called(1) show ?thesis by blast
qed auto

subsection \<open>A concrete deletion\<close>

text \<open>Twenty-seven targets that agree with the inventory, a valid receipt, and an adapter that reports success.\<close>

definition example_target :: "nat \<Rightarrow> row" where
  "example_target n =
     [(''library_file_id'', JStr (show_nat n)), (''file_id'', JInt (int n)), (''path'', JStr ''/p''),
      (''size_bytes'', JInt 1), (''sha256'', JStr ''h''), (''preservation_sha256'', JStr ''h''),
      (''preserved_in_sealed_vault'', JStr SEALED_VAULT_PREFIX)]"

definition example_targets :: "json list" where
  "example_targets = map (\<lambda>n. JObj (example_target n)) [0..<27]"

definition example_manifest :: row where
  "example_manifest = [(''target_count'', JInt 27), (''targets'', JList example_targets)]"

definition example_receipt :: json where
  "example_receipt =
     JObj [(''state'', JStr EXPECTED_STATE), (''decision_id'', JStr ''D''), (''decision_text'', JStr ''delete''),
           (''deletion_manifest_sha256'', JStr EXPECTED_DELETION_MANIFEST_SHA256),
           (''final_vault_manifest_sha256'', JStr EXPECTED_FINAL_VAULT_MANIFEST_SHA256),
           (''target_count'', JInt 27), (''authorized_scope'', JStr EXPECTED_SCOPE),
           (''delete_authorized'', JBool True)]"



definition obliging :: "json list \<Rightarrow> row list io" where
  "obliging ops = ret (map (\<lambda>_. [(''status'', JStr ''succeeded'')]) ops)"

lemma example_target_lookup [simp]:
  "jget (example_target n) ''library_file_id'' = JStr (show_nat n)" "jget (example_target n) ''file_id'' = JInt (int n)"
  "jget (example_target n) ''path'' = JStr ''/p''" "jget (example_target n) ''size_bytes'' = JInt 1"
  "jget (example_target n) ''sha256'' = JStr ''h''" "jget (example_target n) ''preservation_sha256'' = JStr ''h''"
  "jget (example_target n) ''preserved_in_sealed_vault'' = JStr SEALED_VAULT_PREFIX"
  by (simp_all add: example_target_def jget_def)

abbreviation example_live :: "nat list \<Rightarrow> (json \<times> row) list" where
  "example_live ns \<equiv> rev (map (\<lambda>n. (JStr (show_nat n), example_target n)) ns)"

lemma key_lookup_string: "key_lookup kvs (JStr s) = map_of kvs (JStr s)"
  by (induction kvs "JStr s" rule: key_lookup.induct) auto

lemma example_live_index: "live_index (map (\<lambda>n. JObj (example_target n)) ns) acc = Inr (example_live ns @ acc)"
  by (induction ns arbitrary: acc) (simp_all add: need_hashable_def hashable_def)

lemma example_live_lookup:
  "distinct ns \<Longrightarrow> n \<in> set ns \<Longrightarrow> key_lookup (example_live ns) (JStr (show_nat n)) = Some (example_target n)"
  unfolding key_lookup_string
  by (rule map_of_is_SomeI) (auto simp: rev_map [symmetric] distinct_map inj_on_def show_nat_inj o_def)

lemma example_scan:
  assumes "\<And>n. n \<in> set ns \<Longrightarrow> key_lookup live (JStr (show_nat n)) = Some (example_target n)"
    and "distinct ns" "\<And>n. n \<in> set ns \<Longrightarrow> JStr (show_nat n) \<notin> set seen"
  shows "scan_targets live seen m (map (\<lambda>n. JObj (example_target n)) ns) =
    Inr ([], map2 plan_target [m..<m + length ns] (map example_target ns))"
  using assms
proof (induction ns arbitrary: seen m)
  case (Cons n ns)
  let ?k = "JStr (show_nat n)"
  have "?k \<notin> set seen" using Cons.prems(3) by simp
  then have "scan_target live seen m (example_target n) = Inr (?k # seen, [])"
    using Cons.prems(1) [of n]
    by (auto simp: scan_target_def Let_def id_check_def need_hashable_def hashable_def is_member_def list_ex_iff note_if_def
        live_blockers_def is_str_def has_prefix_def SEALED_VAULT_PREFIX_def py_eq.simps)
  moreover have "scan_targets live (?k # seen) (Suc m) (map (\<lambda>n. JObj (example_target n)) ns) =
      Inr ([], map2 plan_target [Suc m..<Suc m + length ns] (map example_target ns))"
    by (rule Cons.IH) (use Cons.prems in \<open>auto simp: show_nat_inj\<close>)
  ultimately show ?case by (simp add: upt_conv_Cons del: upt_Suc)
qed simp

definition example_plan :: dry_run_plan where
  "example_plan =
     \<lparr>dp_executable = True, dp_state = ''AUTHORIZED_EXECUTION_ELIGIBLE'', dp_blockers = [],
      dp_targets = map2 plan_target [0..<27] (map example_target [0..<27])\<rparr>"

lemma example_authorised: "authorization_notes example_receipt = []"
  by (simp add: authorization_notes_Nil authorized_iff example_receipt_def human_deletion_receipt_def jget_def
      EXPECTED_TARGET_COUNT_def)

lemma example_planned: "build_dry_run_plan example_manifest example_targets example_receipt = Inr example_plan"
proof -
  have live: "live_index example_targets [] = Inr (example_live [0..<27])"
    using example_live_index [of "[0..<27]" "[]"] by (simp only: example_targets_def append_Nil2)
  have scan: "scan_targets (example_live [0..<27]) [] 0 example_targets =
      Inr ([], map2 plan_target [0..<27] (map example_target [0..<27]))"
    using example_scan [of "[0..<27]" "example_live [0..<27]" "[]" 0] example_live_lookup [of "[0..<27]"]
    by (simp only: example_targets_def distinct_upt length_upt empty_iff not_False_eq_True add_0 diff_zero list.set(1))
  have "length example_targets = 27" by (simp only: example_targets_def length_map length_upt)
  moreover have "jget example_manifest ''target_count'' = JInt 27" "jget example_manifest ''targets'' = JList example_targets"
    by (simp_all add: example_manifest_def jget_def)
  ultimately show ?thesis
    by (simp add: build_dry_run_plan_def live scan example_authorised example_plan_def EXPECTED_TARGET_COUNT_def
        note_if_def Let_def dedup_def del: upt_Suc)
qed

definition example_ids :: "string list" where
  "example_ids = map show_nat [0..<27]"

definition success_row :: row where
  "success_row = [(''status'', JStr ''succeeded'')]"

lemma example_premises:
  "dp_executable example_plan" "jget example_manifest ''targets'' = JList example_targets"
  "map (\<lambda>v. target_key (mapping_or_empty v)) example_targets = map JStr example_ids"
proof -
  show "dp_executable example_plan" by (simp add: example_plan_def)
  show "jget example_manifest ''targets'' = JList example_targets" by (simp add: example_manifest_def jget_def)
  show "map (\<lambda>v. target_key (mapping_or_empty v)) example_targets = map JStr example_ids"
    by (simp add: example_targets_def example_ids_def del: upt_Suc)
qed

theorem executable_plan_deletes_exact_scope_witness:
  "execute_authorized_deletion (plan_row example_plan) example_receipt obliging True =
     bindI (obliging (map delete_operation example_ids)) (\<lambda>raw. ret (execution_report example_ids raw))"
  using executable_plan_deletes_exact_scope [OF example_planned example_premises, of obliging] by blast

lemma read_successes:
  "read_results name n (zip ids (map (\<lambda>_. success_row) ids)) = (ids, [])"
  by (induction ids arbitrary: n) (simp_all add: reported_ok_def success_row_def jget_def)

lemma example_execution:
  "execute_authorized_deletion (plan_row example_plan) example_receipt obliging True (quiet_world []) =
     (Inr \<lparr>er_executed = True, er_state = ''EXECUTED_EXACT_SCOPE'', er_deleted = example_ids, er_blockers = [],
           er_adapter_results = map (\<lambda>_. success_row) example_ids\<rparr>, quiet_world [])"
proof -
  have answers: "obliging (map delete_operation example_ids) = ret (map (\<lambda>_. success_row) example_ids)"
    by (simp add: obliging_def success_row_def o_def fun_eq_iff)
  note planned = plan_operations [OF example_planned example_premises]
  show ?thesis
    by (simp add: execute_authorized_deletion_def planned(3,4) dedup_def Let_def answers execution_report_def
        read_successes note_if_def)
qed

theorem deletion_is_authorised_witness:
  "deletion_permitted (plan_row example_plan) example_receipt True \<and>
   (\<exists>raw. length raw = 27 \<and> obliging (map delete_operation example_ids) (quiet_world []) = (Inr raw, quiet_world []))"
  using deletion_is_authorised [OF example_execution] by auto

end
