(* ===== verification/DeletionBatches.thy ===== *)
theory DeletionBatches
  imports DeletionPlan
begin

section \<open>Deletion in batches and its receipt\<close>

text \<open>
  \<open>galia2/safe_delete_library_batching.py\<close> and \<open>galia2/safe_delete_post_receipt.py\<close>: the executor that
  honours the limit of twenty operations per call, with a revalidation before each batch, and the check
  of the inventory afterwards.  The revalidation and the adapter are parameters.
\<close>

definition MAX_LIBRARY_OPERATIONS_PER_CALL :: nat where
  "MAX_LIBRARY_OPERATIONS_PER_CALL = 20"

definition EXPECTED_TOTAL_TARGETS :: nat where
  "EXPECTED_TOTAL_TARGETS = 27"

definition EXPECTED_BATCH_SIZES :: "nat list" where
  "EXPECTED_BATCH_SIZES = [20, 7]"

record batch_execution_result =
  be_executed :: bool
  be_state :: string
  be_completed :: "string list"
  be_deleted :: "string list"
  be_blockers :: "string list"
  be_receipts :: "row list"

function chunks :: "'a list \<Rightarrow> 'a list list" where
  \<comment> \<open>the slices \<open>targets[i:i + 20]\<close> for \<open>i\<close> in \<open>range(0, len(targets), 20)\<close>\<close>
  "chunks xs =
     (if xs = [] then []
      else take MAX_LIBRARY_OPERATIONS_PER_CALL xs # chunks (drop MAX_LIBRARY_OPERATIONS_PER_CALL xs))"
  by pat_completeness auto
termination
  by (relation "measure length") (auto simp: MAX_LIBRARY_OPERATIONS_PER_CALL_def)

declare chunks.simps [simp del]

definition make_batches :: "row list \<Rightarrow> row list list res" where
  "make_batches targets =
     bindE (raise_if (length targets \<noteq> EXPECTED_TOTAL_TARGETS) (ValueError ''TARGET_COUNT_MISMATCH'')) (\<lambda>_.
     bindE (raise_if (map length (chunks targets) \<noteq> EXPECTED_BATCH_SIZES) (ValueError ''UNEXPECTED_BATCH_SHAPE'')) (\<lambda>_.
     Inr (chunks targets)))"

fun batch_ids :: "json list \<Rightarrow> nat \<Rightarrow> row list \<Rightarrow> string list res" where
  "batch_ids seen n [] = Inr []"
| "batch_ids seen n (t # ts) =
     bindE (library_id seen n (jget t ''library_file_id'')) (\<lambda>i.
     bindE (batch_ids (JStr i # seen) (Suc n) ts) (\<lambda>is. Inr (i # is)))"

definition build_manage_library_delete_ops :: "row list \<Rightarrow> string list res" where
  \<comment> \<open>the library ids of the operations, in order\<close>
  "build_manage_library_delete_ops batch =
     bindE (raise_if (\<not> (1 \<le> length batch \<and> length batch \<le> MAX_LIBRARY_OPERATIONS_PER_CALL))
              (ValueError ''BATCH_SIZE_OUT_OF_RANGE'')) (\<lambda>_.
     batch_ids [] 0 batch)"

type_synonym revalidation = "string \<Rightarrow> row list \<Rightarrow> row io"
type_synonym batch_adapter = "string \<Rightarrow> json list \<Rightarrow> row list io"

definition batch_name :: "nat \<Rightarrow> string" where
  \<comment> \<open>\<open>f"BATCH-{ordinal:02d}"\<close>\<close>
  "batch_name ordinal = ''BATCH-'' @ pad 2 ordinal"

definition delete_receipt :: "string \<Rightarrow> string list \<Rightarrow> row list \<Rightarrow> row" where
  "delete_receipt bid ids raw =
     [(''batch_id'', JStr bid), (''phase'', JStr ''DELETE''), (''expected_count'', JInt (int (length ids))),
      (''result_count'', JInt (int (length raw))), (''results'', JList (map JObj raw))]"

definition failed_validation_receipt :: "string \<Rightarrow> row \<Rightarrow> row" where
  "failed_validation_receipt bid validation =
     [(''batch_id'', JStr bid), (''phase'', JStr ''PRE_DELETE_REVALIDATION''), (''status'', JStr ''FAIL''),
      (''details'', JObj validation)]"

definition stopped :: "string \<Rightarrow> string list \<Rightarrow> string list \<Rightarrow> string list \<Rightarrow> row list \<Rightarrow> batch_execution_result" where
  "stopped state completed deleted blockers receipts =
     \<lparr>be_executed = False, be_state = state, be_completed = completed, be_deleted = deleted,
      be_blockers = blockers, be_receipts = receipts\<rparr>"

fun run_batches ::
  "revalidation \<Rightarrow> batch_adapter \<Rightarrow> nat \<Rightarrow> row list list \<Rightarrow> string list \<Rightarrow> string list \<Rightarrow> row list \<Rightarrow>
     batch_execution_result io" where
  "run_batches revalidate adapter n [] completed deleted receipts =
     ret (if length deleted \<noteq> EXPECTED_TOTAL_TARGETS
          then stopped ''PARTIAL_OR_FAILED_EXECUTION'' completed deleted [''FINAL_DELETED_COUNT_MISMATCH''] receipts
          else \<lparr>be_executed = True, be_state = ''EXECUTED_EXACT_SCOPE'', be_completed = completed,
                be_deleted = deleted, be_blockers = [], be_receipts = receipts\<rparr>)"
| "run_batches revalidate adapter n (batch # batches) completed deleted receipts =
     (let bid = batch_name n in
      bindI (revalidate bid batch) (\<lambda>validation.
      if \<not> json_eq (jget validation ''status'') (JStr ''PASS'')
      then ret (stopped (if completed \<noteq> [] then ''PARTIAL_OR_FAILED_EXECUTION'' else ''PRE_BATCH_REVALIDATION_FAILED'')
                  completed deleted [bid @ '':REVALIDATION_FAILED'']
                  (receipts @ [failed_validation_receipt bid validation]))
      else
        bindI (lift (build_manage_library_delete_ops batch)) (\<lambda>ids.
        bindI (adapter bid (map delete_operation ids)) (\<lambda>raw.
        let receipts' = receipts @ [delete_receipt bid ids raw] in
        if length raw \<noteq> length ids
        then ret (stopped ''PARTIAL_OR_FAILED_EXECUTION'' completed deleted [bid @ '':RESULT_COUNT_MISMATCH''] receipts')
        else
          let (ok, bad) = read_results (\<lambda>k. bid @ '':ITEM_'' @ show_nat k) 0 (zip ids raw) in
          if bad \<noteq> []
          then ret (stopped ''PARTIAL_OR_FAILED_EXECUTION'' completed (deleted @ ok) bad receipts')
          else run_batches revalidate adapter (Suc n) batches (completed @ [bid]) (deleted @ ok) receipts'))))"

definition execute_batched_authorized_deletion ::
  "row list \<Rightarrow> json \<Rightarrow> revalidation \<Rightarrow> batch_adapter \<Rightarrow> bool \<Rightarrow> batch_execution_result io" where
  "execute_batched_authorized_deletion targets receipt revalidate adapter commit =
     (let blockers = authorization_notes receipt @ note_if (\<not> commit) ''COMMIT_FLAG_REQUIRED'' @
                     note_if (length targets \<noteq> EXPECTED_TOTAL_TARGETS) ''TARGET_COUNT_MISMATCH'' in
      if blockers \<noteq> [] then ret (stopped ''EXECUTION_HOLD'' [] [] (dedup blockers) [])
      else bindI (lift (make_batches targets)) (\<lambda>batches. run_batches revalidate adapter 1 batches [] [] []))"

subsection \<open>The inventory afterwards\<close>

fun all_absent :: "string list \<Rightarrow> json list \<Rightarrow> bool res" where
  \<comment> \<open>\<open>all(x not in post_ids for x in deleted)\<close>: stops at the first id still present\<close>
  "all_absent post [] = Inr True"
| "all_absent post (x # xs) =
     bindE (need_hashable x) (\<lambda>_. if x \<in> JStr ` set post then Inr False else all_absent post xs)"

definition verify_post_delete_receipt :: "row \<Rightarrow> string list \<Rightarrow> string list \<Rightarrow> string list \<Rightarrow> row res" where
  "verify_post_delete_receipt execution_result post_inventory sealed expected_sealed =
     (let listed = jget execution_result ''deleted_library_file_ids'' in
      bindE (if truthy listed then iterate listed else Inr []) (\<lambda>deleted.
      bindE (all_absent post_inventory deleted) (\<lambda>absent.
      let intact = (set sealed = set expected_sealed);
          exact = (length deleted = EXPECTED_TARGET_COUNT) in
      Inr [(''status'', JStr (if absent \<and> intact \<and> exact then ''PASS'' else ''FAIL'')),
           (''deleted_absent'', JBool absent), (''sealed_vault_intact'', JBool intact),
           (''deleted_count_exact'', JBool exact), (''deleted_count'', JInt (int (length deleted)))])))"

subsection \<open>Batches are bounded\<close>

text \<open>Library batches: twenty-seven targets are cut into their first twenty and the remaining seven,
  so every batch has between one and twenty operations, no target is lost and none is repeated; any other
  number of targets is refused.  The check of the batch shape never fires.\<close>

theorem batches_are_bounded:
  "make_batches targets =
     (if length targets = 27 then Inr [take 20 targets, drop 20 targets]
      else Inl (ValueError ''TARGET_COUNT_MISMATCH''))"
  by (auto simp: make_batches_def EXPECTED_TOTAL_TARGETS_def EXPECTED_BATCH_SIZES_def chunks.simps [of targets]
      chunks.simps [of "drop 20 targets"] chunks.simps [of "[]"] MAX_LIBRARY_OPERATIONS_PER_CALL_def)

lemma two_batches:
  "length targets = 27 \<Longrightarrow> make_batches targets = Inr [take 20 targets, drop 20 targets]"
  by (auto simp: make_batches_def EXPECTED_TOTAL_TARGETS_def EXPECTED_BATCH_SIZES_def chunks.simps [of targets]
      chunks.simps [of "drop 20 targets"] chunks.simps [of "[]"] MAX_LIBRARY_OPERATIONS_PER_CALL_def)

lemma batch_ids_of:
  "batch_ids seen n ts = Inr ids \<Longrightarrow> distinct ids \<and> map target_key ts = map JStr ids \<and> (\<forall>i \<in> set ids. JStr i \<notin> set seen)"
proof (induction ts arbitrary: seen n ids)
  case (Cons t ts)
  then obtain i js where i: "library_id seen n (target_key t) = Inr i"
    and js: "batch_ids (JStr i # seen) (Suc n) ts = Inr js" and ids: "ids = i # js"
    by (auto simp: bindE_Inr)
  from i have "target_key t = JStr i" "JStr i \<notin> set seen" by (auto simp: library_id_def split: json.splits if_splits)
  with Cons.IH [OF js] ids show ?case by auto
qed simp

text \<open>One batch of an execution that ends as executed: revalidated, deleted in one call, all successes.\<close>

definition batch_deleted ::
  "revalidation \<Rightarrow> batch_adapter \<Rightarrow> nat \<Rightarrow> row list \<Rightarrow> string list \<Rightarrow> world \<Rightarrow> world \<Rightarrow> bool" where
  "batch_deleted revalidate adapter n batch ids w w' \<longleftrightarrow>
     distinct ids \<and> map target_key batch = map JStr ids \<and>
     (\<exists>validation raw v. revalidate (batch_name n) batch w = (Inr validation, v) \<and>
        jget validation ''status'' = JStr ''PASS'' \<and>
        adapter (batch_name n) (map delete_operation ids) v = (Inr raw, w') \<and> length raw = length ids \<and>
        (\<forall>(i, a) \<in> set (zip ids raw). reported_ok i a))"

lemma batch_step:
  assumes "run_batches revalidate adapter n (batch # batches) completed deleted receipts w = (Inr x, w')"
    and "be_executed x"
  obtains ids receipts' v where "batch_deleted revalidate adapter n batch ids w v"
    "run_batches revalidate adapter (Suc n) batches (completed @ [batch_name n]) (deleted @ ids) receipts' v = (Inr x, w')"
proof -
  from assms obtain validation u where val: "revalidate (batch_name n) batch w = (Inr validation, u)"
    "jget validation ''status'' = JStr ''PASS''"
    by (auto simp: Let_def bindI_Inr stopped_def split: if_splits)
  from assms val obtain ids where ids: "build_manage_library_delete_ops batch = Inr ids"
    by (cases "build_manage_library_delete_ops batch") (auto simp: Let_def bindI_Inr)
  from assms val ids obtain raw v where raw: "adapter (batch_name n) (map delete_operation ids) u = (Inr raw, v)"
    by (auto simp: Let_def bindI_Inr)
  obtain ok bad where r: "read_results (\<lambda>k. batch_name n @ '':ITEM_'' @ show_nat k) 0 (zip ids raw) = (ok, bad)" by fastforce
  from assms val ids raw r have len: "length raw = length ids" and bad: "bad = []"
    by (auto simp: Let_def stopped_def split: if_splits)
  from read_results_all [OF r [unfolded bad]] len have ok: "ok = ids" "\<forall>(i, a) \<in> set (zip ids raw). reported_ok i a"
    by simp_all
  have built: "distinct ids \<and> map target_key batch = map JStr ids"
    using ids batch_ids_of [of "[]" 0 batch ids] by (auto simp: build_manage_library_delete_ops_def bindE_Inr)
  show thesis
  proof (rule that)
    show "batch_deleted revalidate adapter n batch ids w v"
      unfolding batch_deleted_def using built val raw len ok(2) by blast
    show "run_batches revalidate adapter (Suc n) batches (completed @ [batch_name n]) (deleted @ ids)
        (receipts @ [delete_receipt (batch_name n) ids raw]) v = (Inr x, w')"
      using assms(1) val ids raw r len bad ok(1) by (simp add: Let_def)
  qed
qed

lemma batched_cases:
  assumes "execute_batched_authorized_deletion targets receipt revalidate adapter commit w = (r, w')"
  obtains (hold) b where "r = Inr (stopped ''EXECUTION_HOLD'' [] [] b [])" "w' = w"
  | (run) "commit" "\<exists>q. receipt = JObj q \<and> human_deletion_receipt q" "length targets = 27"
      "run_batches revalidate adapter 1 [take 20 targets, drop 20 targets] [] [] [] w = (r, w')"
proof (cases "authorization_notes receipt = [] \<and> commit \<and> length targets = 27")
  case True
  then show thesis
    using assms run
    by (simp add: execute_batched_authorized_deletion_def EXPECTED_TOTAL_TARGETS_def two_batches note_if_def
        authorization_notes_Nil authorized_iff bindI_def)
next
  case False
  with assms hold show thesis
    by (auto simp: execute_batched_authorized_deletion_def EXPECTED_TOTAL_TARGETS_def Let_def split: if_splits)
qed

subsection \<open>Exactness and a late error\<close>

text \<open>C21. Library batches: without the commit flag, a valid receipt and 27 targets nothing is called and
  the world stays as it is.  A result that says \<open>executed\<close> means that the first twenty targets and then
  the remaining seven were each revalidated, deleted by one call with distinct ids and reported as
  successes, and that the ids of the targets, in order, are the ones reported deleted.\<close>

theorem batched_deletion_is_exact:
  assumes "execute_batched_authorized_deletion targets receipt revalidate adapter commit w = (r, w')"
  shows "(w' = w \<and> (\<forall>x. r = Inr x \<longrightarrow> \<not> be_executed x \<and> be_deleted x = [])) \<or>
    (commit \<and> (\<exists>q. receipt = JObj q \<and> human_deletion_receipt q) \<and> length targets = 27 \<and>
     (\<forall>x. r = Inr x \<and> be_executed x \<longrightarrow>
        (\<exists>first second v. be_deleted x = first @ second \<and>
           batch_deleted revalidate adapter 1 (take 20 targets) first w v \<and>
           batch_deleted revalidate adapter 2 (drop 20 targets) second v w')))"
  using assms
proof (cases rule: batched_cases)
  case (hold b)
  then show ?thesis by (simp add: stopped_def)
next
  case run
  have "\<exists>first second v. be_deleted x = first @ second \<and>
           batch_deleted revalidate adapter 1 (take 20 targets) first w v \<and>
           batch_deleted revalidate adapter 2 (drop 20 targets) second v w'"
    if x: "r = Inr x" "be_executed x" for x
  proof -
    obtain first rs v where first: "batch_deleted revalidate adapter 1 (take 20 targets) first w v"
      and later: "run_batches revalidate adapter (Suc 1) [drop 20 targets] ([] @ [batch_name 1]) ([] @ first) rs v = (Inr x, w')"
      by (rule batch_step [OF run(4) [unfolded x(1)] x(2)])
    obtain second rs' v' where second: "batch_deleted revalidate adapter (Suc 1) (drop 20 targets) second v v'"
      and ended: "run_batches revalidate adapter (Suc (Suc 1)) [] (([] @ [batch_name 1]) @ [batch_name (Suc 1)])
        (([] @ first) @ second) rs' v' = (Inr x, w')"
      by (rule batch_step [OF later x(2)])
    from ended have "v' = w'" "be_deleted x = first @ second" using x(2) by (auto simp: stopped_def split: if_splits)
    with first second show ?thesis by (metis Suc_1)
  qed
  with run show ?thesis by blast
qed

lemma read_results_ok:
  "\<forall>(i, a) \<in> set ps. reported_ok i a \<Longrightarrow> read_results name n ps = (map fst ps, [])"
  by (induction name n ps rule: read_results.induct) auto

lemma first_batch_runs:
  assumes "batch_deleted revalidate adapter n batch ids w v" "batch \<noteq> []" "length batch \<le> 20"
    and "build_manage_library_delete_ops batch = Inr ids"
  shows "\<exists>receipts'. run_batches revalidate adapter n (batch # batches) completed deleted receipts w =
    run_batches revalidate adapter (Suc n) batches (completed @ [batch_name n]) (deleted @ ids) receipts' v"
proof -
  from assms(1) obtain validation raw u where
    "revalidate (batch_name n) batch w = (Inr validation, u)" "jget validation ''status'' = JStr ''PASS''"
    "adapter (batch_name n) (map delete_operation ids) u = (Inr raw, v)" "length raw = length ids"
    "\<forall>(i, a) \<in> set (zip ids raw). reported_ok i a" unfolding batch_deleted_def by blast
  then show ?thesis
    by (intro exI [of _ "receipts @ [delete_receipt (batch_name n) ids raw]"])
      (simp add: assms(4) read_results_ok Let_def)
qed

text \<open>Library batches: a target of the second batch whose id is missing, or repeated within that batch,
  is detected only when the second batch is built.  The first twenty objects have been deleted by then,
  and the exception leaves the executor without the result that names them.\<close>

theorem late_error_loses_the_receipt:
  assumes "commit" "receipt = JObj q" "human_deletion_receipt q" "length targets = 27"
    and "build_manage_library_delete_ops (take 20 targets) = Inr ids"
    and "batch_deleted revalidate adapter 1 (take 20 targets) ids w v"
    and "revalidate (batch_name 2) (drop 20 targets) v = (Inr validation, u)" "jget validation ''status'' = JStr ''PASS''"
    and "build_manage_library_delete_ops (drop 20 targets) = Inl e"
  shows "execute_batched_authorized_deletion targets receipt revalidate adapter commit w = (Inl e, u)"
proof -
  have "take 20 targets \<noteq> []" "length (take 20 targets) \<le> 20" using assms(4) by auto
  then obtain rs where "run_batches revalidate adapter 1 [take 20 targets, drop 20 targets] [] [] [] w =
      run_batches revalidate adapter (Suc 1) [drop 20 targets] ([] @ [batch_name 1]) ([] @ ids) rs v"
    using first_batch_runs [OF assms(6) _ _ assms(5)] by blast
  moreover have "execute_batched_authorized_deletion targets receipt revalidate adapter commit w =
      run_batches revalidate adapter 1 [take 20 targets, drop 20 targets] [] [] [] w"
    using assms(1-4)
    by (simp add: execute_batched_authorized_deletion_def EXPECTED_TOTAL_TARGETS_def two_batches note_if_def
        authorization_notes_Nil authorized_iff bindI_def)
  moreover have "run_batches revalidate adapter (Suc 1) [drop 20 targets] ([] @ [batch_name 1]) ([] @ ids) rs v = (Inl e, u)"
    using assms(7-9) by (simp add: Let_def numeral_2_eq_2)
  ultimately show ?thesis by (simp only:)
qed

subsection \<open>Concrete batches\<close>

definition passing :: revalidation where
  "passing bid batch = ret [(''status'', JStr ''PASS'')]"

definition recording :: batch_adapter where
  \<comment> \<open>an adapter whose deletions are visible: it marks the batch in the file tree\<close>
  "recording bid ops w = (Inr (map (\<lambda>_. success_row) ops), w\<lparr>w_fs := ([bid], Dir) # w_fs w\<rparr>)"

lemma example_batch_ids:
  assumes "distinct ns" "\<And>n. n \<in> set ns \<Longrightarrow> JStr (show_nat n) \<notin> set seen"
  shows "batch_ids seen m (map example_target ns @ rest) =
    bindE (batch_ids (map (\<lambda>n. JStr (show_nat n)) (rev ns) @ seen) (m + length ns) rest)
      (\<lambda>is. Inr (map show_nat ns @ is))"
  using assms
proof (induction ns arbitrary: seen m)
  case Nil
  show ?case by (cases "batch_ids seen m rest") auto
next
  case (Cons n ns)
  have "library_id seen m (JStr (show_nat n)) = Inr (show_nat n)"
    using Cons.prems(2) [of n] by (auto simp: library_id_def)
  moreover have "batch_ids (JStr (show_nat n) # seen) (Suc m) (map example_target ns @ rest) =
    bindE (batch_ids (map (\<lambda>n. JStr (show_nat n)) (rev ns) @ JStr (show_nat n) # seen) (Suc m + length ns) rest)
      (\<lambda>is. Inr (map show_nat ns @ is))"
    by (rule Cons.IH) (use Cons.prems in \<open>auto simp: show_nat_inj\<close>)
  ultimately show ?case
    by (cases "batch_ids (map (\<lambda>n. JStr (show_nat n)) (rev ns) @ JStr (show_nat n) # seen) (Suc m + length ns) rest")
      simp_all
qed

lemma example_batch:
  assumes "Suc 0 \<le> length ns" "length ns \<le> 20" "distinct ns"
  shows "build_manage_library_delete_ops (map example_target ns) = Inr (map show_nat ns)"
  using assms example_batch_ids [of ns "[]" 0 "[]"]
  by (simp add: build_manage_library_delete_ops_def MAX_LIBRARY_OPERATIONS_PER_CALL_def raise_if_def)

lemma pass_row: "jget [(''status'', JStr ''PASS'')] ''status'' = JStr ''PASS''"
  by (simp add: jget_def)

lemma success_row_ok: "reported_ok i success_row"
  by (simp add: reported_ok_def success_row_def jget_def)

lemma recorded_batch:
  assumes "distinct ns"
  shows "batch_deleted passing recording n (map example_target ns) (map show_nat ns) w
    (w\<lparr>w_fs := ([batch_name n], Dir) # w_fs w\<rparr>)"
proof -
  have "\<forall>(i, a) \<in> set (zip (map show_nat ns) (map (\<lambda>_. success_row) ns)). reported_ok i a"
    by (auto simp: success_row_ok dest!: set_zip_rightD)
  then show ?thesis
    unfolding batch_deleted_def
    by (intro conjI exI [of _ "[(''status'', JStr ''PASS'')]"] exI [of _ "map (\<lambda>_. success_row) ns"] exI [of _ w])
      (use assms in \<open>simp_all add: passing_def recording_def pass_row distinct_map inj_on_def show_nat_inj o_def\<close>)
qed

definition bad_targets :: "row list" where
  \<comment> \<open>the last target has no id\<close>
  "bad_targets = map example_target [0..<26] @ [[]]"

lemma bad_targets_split: "take 20 bad_targets = map example_target [0..<20]" "drop 20 bad_targets = map example_target [20..<26] @ [[]]"
  by (simp_all add: bad_targets_def take_map drop_map del: upt_Suc)

definition example_decision :: row where
  "example_decision = mapping_or_empty example_receipt"

lemma example_decision: "example_receipt = JObj example_decision" "human_deletion_receipt example_decision"
proof -
  have "\<exists>r. example_receipt = JObj r \<and> human_deletion_receipt r"
    using example_authorised by (simp only: authorization_notes_Nil authorized_iff)
  then show "example_receipt = JObj example_decision" "human_deletion_receipt example_decision"
    by (metis example_decision_def mapping_or_empty_simps(1))+
qed

lemma missing_id_last:
  assumes "distinct ns" "length ns = k"
  shows "batch_ids [] 0 (map example_target ns @ [[]]) =
    Inl (ValueError (''TARGET_'' @ show_nat k @ '':LIBRARY_FILE_ID_MISSING''))"
  using example_batch_ids [of ns "[]" 0 "[[]]"] assms by (simp add: library_id_def)

theorem late_error_loses_the_receipt_witness:
  "execute_batched_authorized_deletion bad_targets example_receipt passing recording True (quiet_world []) =
     (Inl (ValueError ''TARGET_6:LIBRARY_FILE_ID_MISSING''), (quiet_world [])\<lparr>w_fs := [([batch_name 1], Dir)]\<rparr>)"
proof (rule late_error_loses_the_receipt [OF TrueI example_decision])
  show "length bad_targets = 27" by (simp add: bad_targets_def)
  show "build_manage_library_delete_ops (take 20 bad_targets) = Inr (map show_nat [0..<20])"
    unfolding bad_targets_split by (rule example_batch) simp_all
  show "batch_deleted passing recording 1 (take 20 bad_targets) (map show_nat [0..<20]) (quiet_world [])
      ((quiet_world [])\<lparr>w_fs := [([batch_name 1], Dir)]\<rparr>)"
    using recorded_batch [of "[0..<20]" 1 "quiet_world []"] unfolding bad_targets_split by simp
  show "passing (batch_name 2) (drop 20 bad_targets) ((quiet_world [])\<lparr>w_fs := [([batch_name 1], Dir)]\<rparr>) =
      (Inr [(''status'', JStr ''PASS'')], (quiet_world [])\<lparr>w_fs := [([batch_name 1], Dir)]\<rparr>)"
    by (simp add: passing_def)
  show "jget [(''status'', JStr ''PASS'')] ''status'' = JStr ''PASS''" by (simp add: jget_def)
  show "build_manage_library_delete_ops (drop 20 bad_targets) = Inl (ValueError ''TARGET_6:LIBRARY_FILE_ID_MISSING'')"
  proof -
    have "batch_ids [] 0 (drop 20 bad_targets) = Inl (ValueError (''TARGET_'' @ show_nat 6 @ '':LIBRARY_FILE_ID_MISSING''))"
      unfolding bad_targets_split by (rule missing_id_last) simp_all
    moreover have "show_nat 6 = ''6''" by code_simp
    moreover have "length (drop 20 bad_targets) = 7" by (simp add: bad_targets_def)
    ultimately show ?thesis
      by (simp add: build_manage_library_delete_ops_def MAX_LIBRARY_OPERATIONS_PER_CALL_def raise_if_def del: length_drop)
  qed
qed

lemma recorded_run:
  assumes "Suc 0 \<le> length ns" "length ns \<le> 20" "distinct ns"
  shows "\<exists>rs'. run_batches passing recording n (map example_target ns # bs) completed deleted rs w =
    run_batches passing recording (Suc n) bs (completed @ [batch_name n]) (deleted @ map show_nat ns) rs'
      (w\<lparr>w_fs := ([batch_name n], Dir) # w_fs w\<rparr>)"
proof -
  have "map example_target ns \<noteq> []" "length (map example_target ns) \<le> 20" using assms by auto
  from first_batch_runs [OF recorded_batch [OF assms(3)] this example_batch [OF assms]] show ?thesis .
qed

lemma example_batches_run:
  "\<exists>rs. execute_batched_authorized_deletion (map example_target [0..<27]) example_receipt passing recording True (quiet_world []) =
     (Inr \<lparr>be_executed = True, be_state = ''EXECUTED_EXACT_SCOPE'', be_completed = [batch_name 1, batch_name 2],
           be_deleted = map show_nat [0..<27], be_blockers = [], be_receipts = rs\<rparr>,
      (quiet_world [])\<lparr>w_fs := [([batch_name 2], Dir), ([batch_name 1], Dir)]\<rparr>)"
proof -
  let ?ts = "map example_target [0..<27]"
  have split: "take 20 ?ts = map example_target [0..<20]" "drop 20 ?ts = map example_target [20..<27]"
    by (simp_all add: take_map drop_map del: upt_Suc)
  have "[0..<27] = [0..<20] @ [20..<27::nat]" using upt_add_eq_append [of 0 20 7] by (simp del: upt_Suc)
  then have ids: "map show_nat [0..<20] @ map show_nat [20..<27] = map show_nat [0..<27]" by (simp only: map_append)
  let ?w1 = "(quiet_world [])\<lparr>w_fs := ([batch_name 1], Dir) # w_fs (quiet_world [])\<rparr>"
  have "\<exists>rs. run_batches passing recording 1 [map example_target [0..<20], map example_target [20..<27]] [] [] []
        (quiet_world []) =
      run_batches passing recording (Suc 1) [map example_target [20..<27]] ([] @ [batch_name 1])
        ([] @ map show_nat [0..<20]) rs ?w1"
    by (rule recorded_run) simp_all
  then obtain rs where first: "run_batches passing recording 1 [map example_target [0..<20], map example_target [20..<27]] [] [] []
        (quiet_world []) =
      run_batches passing recording (Suc 1) [map example_target [20..<27]] ([] @ [batch_name 1])
        ([] @ map show_nat [0..<20]) rs ?w1" ..
  have "\<exists>rs'. run_batches passing recording (Suc 1) [map example_target [20..<27]] ([] @ [batch_name 1])
        ([] @ map show_nat [0..<20]) rs ?w1 =
      run_batches passing recording (Suc (Suc 1)) [] (([] @ [batch_name 1]) @ [batch_name (Suc 1)])
        (([] @ map show_nat [0..<20]) @ map show_nat [20..<27]) rs'
        (?w1\<lparr>w_fs := ([batch_name (Suc 1)], Dir) # w_fs ?w1\<rparr>)"
    by (rule recorded_run) simp_all
  then obtain rs' where second: "run_batches passing recording (Suc 1) [map example_target [20..<27]] ([] @ [batch_name 1])
        ([] @ map show_nat [0..<20]) rs ?w1 =
      run_batches passing recording (Suc (Suc 1)) [] (([] @ [batch_name 1]) @ [batch_name (Suc 1)])
        (([] @ map show_nat [0..<20]) @ map show_nat [20..<27]) rs'
        (?w1\<lparr>w_fs := ([batch_name (Suc 1)], Dir) # w_fs ?w1\<rparr>)" ..
  have "execute_batched_authorized_deletion ?ts example_receipt passing recording True (quiet_world []) =
      run_batches passing recording 1 [take 20 ?ts, drop 20 ?ts] [] [] [] (quiet_world [])"
    by (simp add: execute_batched_authorized_deletion_def EXPECTED_TOTAL_TARGETS_def two_batches note_if_def
        example_authorised bindI_def del: upt_Suc)
  then have "execute_batched_authorized_deletion ?ts example_receipt passing recording True (quiet_world []) =
      run_batches passing recording (Suc (Suc 1)) [] (([] @ [batch_name 1]) @ [batch_name (Suc 1)])
        (([] @ map show_nat [0..<20]) @ map show_nat [20..<27]) rs'
        (?w1\<lparr>w_fs := ([batch_name (Suc 1)], Dir) # w_fs ?w1\<rparr>)"
    by (simp only: split first second)
  then show ?thesis
    by (simp add: ids EXPECTED_TOTAL_TARGETS_def numeral_2_eq_2 del: upt_Suc upt_rec_numeral)
qed

theorem batched_deletion_is_exact_witness:
  "\<exists>first second v. map show_nat [0..<27] = first @ second \<and>
     batch_deleted passing recording 1 (take 20 (map example_target [0..<27])) first (quiet_world []) v \<and>
     batch_deleted passing recording 2 (drop 20 (map example_target [0..<27])) second v
       ((quiet_world [])\<lparr>w_fs := [([batch_name 2], Dir), ([batch_name 1], Dir)]\<rparr>)"
proof -
  obtain rs where run: "execute_batched_authorized_deletion (map example_target [0..<27]) example_receipt passing recording True
      (quiet_world []) =
     (Inr \<lparr>be_executed = True, be_state = ''EXECUTED_EXACT_SCOPE'', be_completed = [batch_name 1, batch_name 2],
           be_deleted = map show_nat [0..<27], be_blockers = [], be_receipts = rs\<rparr>,
      (quiet_world [])\<lparr>w_fs := [([batch_name 2], Dir), ([batch_name 1], Dir)]\<rparr>)"
    using example_batches_run by blast
  show ?thesis using batched_deletion_is_exact [OF run] by (simp del: upt_Suc)
qed

end
