(* ===== verification/HistoricalShadow.thy ===== *)
theory HistoricalShadow
  imports JsonValues Orchestrator Authority Sha256
begin

section \<open>Historical shadow bridge\<close>

text \<open>
  \<open>galia2/historical_shadow.py\<close>: one claim of the historical store is mirrored into a stage, up to the
  authority hold and never beyond.  The store is seen through the two read operations of its protocol,
  which are parameters.
\<close>

record historical_reader =
  hr_claim_bundle :: "string \<Rightarrow> row io"
  hr_promotion_blockers :: "string \<Rightarrow> row list io"

datatype shadow_status = Shadow_AUTHORITY_HOLD | Shadow_QUARANTINED

record shadow_result =
  hs_status :: shadow_status
  hs_claim_id :: string
  hs_source_status :: string
  hs_bundle_sha256 :: string
  hs_evidence_snapshot :: "string list"
  hs_blocker_codes :: "string list"
  hs_stage :: stage
  hs_claim :: claim
  hs_receipts :: "receipt list"

definition sha256_json :: "json \<Rightarrow> string" where
  "sha256_json v = sha256 (dumps v)"

definition required_text :: "string \<Rightarrow> json \<Rightarrow> string res" where
  "required_text name v =
     (case v of JStr s \<Rightarrow> required name s | _ \<Rightarrow> Inl (ValueError (name @ '' must be a non-empty string'')))"

definition json_or :: "json \<Rightarrow> json \<Rightarrow> json" where
  \<comment> \<open>\<open>a or b\<close>\<close>
  "json_or a b = (if truthy a then a else b)"

definition evidence_entry :: "row \<Rightarrow> string res" where
  "evidence_entry row =
     bindE (required_text ''evidence_id'' (jget row ''evidence_id'')) (\<lambda>evidence_id.
     let d = json_or (json_or (jget row ''representation_content_sha256'') (jget row ''excerpt_sha256''))
                     (jget row ''content_sha256'');
         digest = (case d of JStr s \<Rightarrow> if str_len s = 64 then s else sha256_json (JObj row)
                   | _ \<Rightarrow> sha256_json (JObj row)) in
     Inr (evidence_id @ '':'' @ lower digest))"

definition evidence_snapshot :: "row list \<Rightarrow> string list res" where
  "evidence_snapshot rows = mapE evidence_entry rows"

definition source_claim :: "string \<Rightarrow> row \<Rightarrow> (row \<times> row list \<times> string) res" where
  \<comment> \<open>the checks of the bundle: claim data, evidence rows and source status\<close>
  "source_claim claim_id bundle =
     (case jget bundle ''claim'' of
        JObj source \<Rightarrow>
          (case jget bundle ''evidence'' of
             JList rows \<Rightarrow>
               if \<not> list_all is_mapping rows
               then Inl (ValueError ''claim bundle evidence must be a list of objects'')
               else
                 bindE (required_text ''source claim_id'' (jget source ''claim_id'')) (\<lambda>sid.
                 bindE (raise_if (sid \<noteq> claim_id) (ValueError ''claim bundle does not match requested claim_id'')) (\<lambda>_.
                 bindE (required_text ''source claim status'' (jget source ''status'')) (\<lambda>status.
                 bindE (raise_if (status \<notin> {''PROPOSED'', ''VALIDATED''})
                          (ValueError ''P13 accepts only non-canonical PROPOSED or VALIDATED source claims'')) (\<lambda>_.
                 Inr (source, map mapping_or_empty rows, status)))))
           | _ \<Rightarrow> Inl (ValueError ''claim bundle evidence must be a list of objects''))
      | _ \<Rightarrow> Inl (ValueError ''claim bundle is missing claim data''))"

definition mapped_claim :: "gcase \<Rightarrow> string \<Rightarrow> row \<Rightarrow> string list \<Rightarrow> claim res" where
  "mapped_claim cs claim_id source snapshot =
     (let subject = json_or (json_or (jget source ''subject_entity_id'') (jget source ''document_id''))
                            (JStr (''historical-store:'' @ claim_id));
          obj = json_or (json_or (jget source ''object_value'') (jget source ''object_entity_id''))
                        (jget source ''claim_text'') in
      bindE (required_text ''mapped subject'' subject) (\<lambda>s.
      bindE (required_text ''mapped predicate'' (jget source ''predicate'')) (\<lambda>p.
      bindE (required_text ''mapped object'' obj) (\<lambda>v.
      claim_post_init
        \<lparr>cl_claim_id = claim_id, cl_case_id = cs_case_id cs, cl_subject = s, cl_predicate = p, cl_object = v,
         cl_valid_from = None, cl_valid_to = None, cl_claim_type = DERIVED_CLAIM,
         cl_evidence_state = (if snapshot \<noteq> [] then Ev_SUPPORTED else Ev_UNVERIFIED),
         cl_authority_state = Auth_NONE\<rparr>))))"

definition source_executor :: "string \<Rightarrow> string \<Rightarrow> string set \<Rightarrow> executor" where
  "source_executor source_ref bundle_hash guards =
     (\<lambda>s ctx. ret (Returned \<lparr>se_output_refs = [source_ref], se_output_hashes = [bundle_hash], se_guards = guards\<rparr>))"

definition shadow_advance ::
  "orchestrator \<Rightarrow> string \<Rightarrow> string \<Rightarrow> transition_event \<Rightarrow> string set \<Rightarrow> stage \<times> receipt list \<Rightarrow> (stage \<times> receipt list) io" where
  \<comment> \<open>\<open>_advance\<close>: as in the gate, the status of the outcome is not looked at\<close>
  "shadow_advance o' source_ref bundle_hash e guards = (\<lambda>(s, rs).
     bindI (run_stage o' s e (source_executor source_ref bundle_hash guards) [] default_context) (\<lambda>out.
     ret (oo_stage out, rs @ [oo_receipt out])))"

definition no_evidence_validator :: validator where
  "no_evidence_validator = (\<lambda>s ex ctx. ret (Returned
     \<lparr>sv_passed = False, sv_guards = {}, sv_failure_kind = INTEGRITY,
      sv_message = ''historical claim has no evidence snapshot''\<rparr>))"

definition shadow_hold ::
  "orchestrator \<Rightarrow> authority_layer \<Rightarrow> string \<Rightarrow> string \<Rightarrow> claim \<Rightarrow> stage \<times> receipt list \<Rightarrow>
     (stage \<times> claim \<times> receipt list) io" where
  \<comment> \<open>the end of the path for a claim with evidence\<close>
  "shadow_hold o' layer source_ref bundle_hash mapped sr =
     bindI (shadow_advance o' source_ref bundle_hash VALIDATION_PASSED {''required_validations_passed''} sr) (\<lambda>(s, rs).
     bindI (place_hold layer mapped) (\<lambda>hold.
     bindI (shadow_advance o' source_ref bundle_hash PLACE_AUTHORITY_HOLD {''evidence_snapshot_present''}
              (s, rs @ [ao_receipt hold])) (\<lambda>(s, rs).
     bindI (throw_if (st_state s \<noteq> AUTHORITY_HOLD) (RuntimeError ''P13 did not terminate at AUTHORITY_HOLD'')) (\<lambda>_.
     ret (s, ao_value hold, rs)))))"

definition shadow_quarantine ::
  "orchestrator \<Rightarrow> string \<Rightarrow> string \<Rightarrow> stage \<times> receipt list \<Rightarrow> (stage \<times> receipt list) io" where
  "shadow_quarantine o' source_ref bundle_hash = (\<lambda>(s, rs).
     bindI (run_stage o' s VALIDATION_PASSED (source_executor source_ref bundle_hash {}) [no_evidence_validator]
              default_context) (\<lambda>out.
     bindI (throw_if (st_state (oo_stage out) \<noteq> QUARANTINED)
              (RuntimeError ''missing evidence did not route to QUARANTINED'')) (\<lambda>_.
     ret (oo_stage out, rs @ [oo_receipt out]))))"

definition claim_source_ref :: "string \<Rightarrow> string" where
  "claim_source_ref claim_id = ''historical-store:claim:'' @ claim_id"

definition shadow_finish ::
  "orchestrator \<Rightarrow> authority_layer \<Rightarrow> string \<Rightarrow> row \<Rightarrow> string \<Rightarrow> string list \<Rightarrow> string list \<Rightarrow> claim \<Rightarrow>
     stage \<times> receipt list \<Rightarrow> shadow_result io" where
  \<comment> \<open>from the derived stage to the result, with or without evidence\<close>
  "shadow_finish o' layer claim_id bundle status snapshot codes mapped sr =
     (let bundle_hash = sha256_json (JObj bundle); source_ref = claim_source_ref claim_id in
      if snapshot = [] then
        bindI (shadow_quarantine o' source_ref bundle_hash sr) (\<lambda>(s, rs).
        ret \<lparr>hs_status = Shadow_QUARANTINED, hs_claim_id = claim_id, hs_source_status = status,
             hs_bundle_sha256 = bundle_hash, hs_evidence_snapshot = snapshot, hs_blocker_codes = codes,
             hs_stage = s, hs_claim = mapped, hs_receipts = rs\<rparr>)
      else
        bindI (shadow_hold o' layer source_ref bundle_hash mapped sr) (\<lambda>(s, held, rs).
        ret \<lparr>hs_status = Shadow_AUTHORITY_HOLD, hs_claim_id = claim_id, hs_source_status = status,
             hs_bundle_sha256 = bundle_hash, hs_evidence_snapshot = snapshot, hs_blocker_codes = codes,
             hs_stage = s, hs_claim = held, hs_receipts = rs\<rparr>))"

definition shadow_derive :: "orchestrator \<Rightarrow> string \<Rightarrow> row \<Rightarrow> stage \<Rightarrow> (stage \<times> receipt list) io" where
  \<comment> \<open>the first three transitions\<close>
  "shadow_derive o' claim_id bundle s =
     (let bundle_hash = sha256_json (JObj bundle); source_ref = claim_source_ref claim_id in
      bindI (shadow_advance o' source_ref bundle_hash INGEST_CONFIRMED {''source_artifact_valid''} (s, [])) (\<lambda>sr.
      bindI (shadow_advance o' source_ref bundle_hash NORMALIZATION_COMPLETE {''lineage_complete''} sr) (\<lambda>sr.
      shadow_advance o' source_ref bundle_hash DERIVATION_COMPLETE {''output_hash_valid''} sr)))"

definition mirror_to_hold ::
  "orchestrator \<Rightarrow> authority_layer \<Rightarrow> historical_reader \<Rightarrow> gcase \<Rightarrow> stage \<Rightarrow> string \<Rightarrow> shadow_result io" where
  "mirror_to_hold o' layer reader cs s claim_id =
     bindI (throw_if (st_case_id s \<noteq> cs_case_id cs) (ValueError ''stage belongs to a different case'')) (\<lambda>_.
     bindI (throw_if (st_state s \<noteq> DISCOVERED) (ValueError ''P13 requires an initial DISCOVERED stage'')) (\<lambda>_.
     bindI (hr_claim_bundle reader claim_id) (\<lambda>bundle.
     bindI (lift (source_claim claim_id bundle)) (\<lambda>(source, evidence, status).
     bindI (lift (evidence_snapshot evidence)) (\<lambda>snapshot.
     bindI (hr_promotion_blockers reader claim_id) (\<lambda>blockers.
     bindI (lift (mapE (\<lambda>b. required_text ''blocker code'' (jget b ''code'')) blockers)) (\<lambda>codes.
     bindI (lift (mapped_claim cs claim_id source snapshot)) (\<lambda>mapped.
     bindI (shadow_derive o' claim_id bundle s) (\<lambda>sr.
     shadow_finish o' layer claim_id bundle status snapshot (sort codes) mapped sr)))))))))"

subsection \<open>The bridge stops at the hold\<close>

lemma run_stage_unpersisted:
  assumes "run_stage o' s e executor vs ctx w = (Inr out, w')"
  shows "rc_output_commit (oo_receipt out) = None"
proof -
  have "p3_receipt o' ctx (oo_receipt out)"
  proof (cases "sorted_diff (set (st_dependencies s)) (rx_completed ctx) \<noteq> [] \<or> st_blocking_holds s \<noteq> []")
    case True
    with assms show ?thesis by (auto simp: run_stage_def Let_def dest!: blocked_outcome_Inr split: if_splits)
  next
    case False
    obtain r v where "checked_executor executor s ctx w = (r, v)" by fastforce
    with False assms show ?thesis
      by (cases r) (auto simp: run_stage_def Let_def bindI_Inr dest!: route_failure_Inr run_validators_Inr)
  qed
  then show ?thesis by (simp add: p3_receipt_def)
qed

definition unpersisted :: "receipt list \<Rightarrow> bool" where
  "unpersisted rs \<longleftrightarrow> (\<forall>r \<in> set rs. rc_output_commit r = None)"

lemma unpersisted_simps [simp]:
  "unpersisted []" "unpersisted (rs @ [r]) \<longleftrightarrow> unpersisted rs \<and> rc_output_commit r = None"
  by (auto simp: unpersisted_def)

lemma shadow_advance_receipts:
  "shadow_advance o' ref h e g sr w = (Inr sr', w') \<Longrightarrow> unpersisted (snd sr) \<Longrightarrow> unpersisted (snd sr')"
  by (cases sr) (auto simp: shadow_advance_def bindI_Inr dest: run_stage_unpersisted)

lemma shadow_hold_Inr:
  assumes "shadow_hold o' layer ref h c sr w = (Inr (s, held, rs), w')" "unpersisted (snd sr)"
  shows "st_state s = AUTHORITY_HOLD \<and> held = c\<lparr>cl_authority_state := Auth_HOLD\<rparr> \<and> unpersisted rs"
proof -
  from assms(1) obtain s1 r1 v1 hold v2 v3 where
    first: "shadow_advance o' ref h VALIDATION_PASSED {''required_validations_passed''} sr w = (Inr (s1, r1), v1)" and
    hold: "place_hold layer c v1 = (Inr hold, v2)" and
    second: "shadow_advance o' ref h PLACE_AUTHORITY_HOLD {''evidence_snapshot_present''} (s1, r1 @ [ao_receipt hold]) v2 = (Inr (s, rs), v3)" and
    out: "st_state s = AUTHORITY_HOLD" "held = ao_value hold"
    by (auto simp: shadow_hold_def bindI_Inr throw_if_Inr split_def)
  from hold have "ao_value hold = c\<lparr>cl_authority_state := Auth_HOLD\<rparr>" "rc_output_commit (ao_receipt hold) = None"
    by (auto simp: place_hold_def result_simps)
  with shadow_advance_receipts [OF first assms(2)] shadow_advance_receipts [OF second] out show ?thesis by simp
qed

lemma shadow_quarantine_Inr:
  assumes "shadow_quarantine o' ref h sr w = (Inr (s, rs), w')" "unpersisted (snd sr)"
  shows "st_state s = QUARANTINED \<and> unpersisted rs"
  using assms by (cases sr) (auto simp: shadow_quarantine_def bindI_Inr throw_if_Inr dest: run_stage_unpersisted)

definition reads_only :: "historical_reader \<Rightarrow> bool" where
  "reads_only reader \<longleftrightarrow>
     (\<forall>c. keeps (=) (hr_claim_bundle reader c)) \<and> (\<forall>c. keeps (=) (hr_promotion_blockers reader c))"

lemma run_stage_source_frame [frame_rules]:
  assumes "\<And>v s ex ctx. v \<in> set vs \<Longrightarrow> keeps (=) (v s ex ctx)"
  shows "keeps (=) (run_stage o' s e (source_executor ref h g) vs ctx)"
proof -
  have exec: "keeps (=) (checked_executor (source_executor ref h g) s ctx)"
    unfolding checked_executor_def source_executor_def by (simp add: keeps_def bindI_def)
  have blocked: "keeps (=) (blocked_outcome o' s e ctx reason)" for reason
    unfolding blocked_outcome_def by (intro frame_rules)
  have "keeps (=) (run_validators o' s e ctx ex g' vs)" for ex g' by (rule run_validators_frame) (rule assms)
  then show ?thesis unfolding run_stage_def Let_def
    by (intro frame_rules exec blocked) (simp_all add: frame_rules)
qed

lemma shadow_frames [frame_rules]:
  "keeps (=) (shadow_advance o' ref h e g sr)" "keeps (=) (shadow_quarantine o' ref h sr)" "keeps (=) (shadow_hold o' l ref h c sr)"
proof -
  show adv: "keeps (=) (shadow_advance o' ref h e g sr)" for e g sr
    unfolding shadow_advance_def by (cases sr) (simp, intro frame_rules, simp)
  show "keeps (=) (shadow_quarantine o' ref h sr)"
    unfolding shadow_quarantine_def no_evidence_validator_def throw_if_def
    by (cases sr) (simp, intro frame_rules, auto intro: frame_rules)
  show "keeps (=) (shadow_hold o' l ref h c sr)"
    unfolding shadow_hold_def throw_if_def split_def by (intro frame_rules adv)
qed

lemma shadow_phase_frames [frame_rules]:
  "keeps (=) (shadow_derive o' cid bd s)" "keeps (=) (shadow_finish o' l cid bd st sn cd c sr)"
  unfolding shadow_derive_def shadow_finish_def Let_def split_def by (intro frame_rules)+

lemma mirror_frame:
  assumes "reads_only reader"
  shows "keeps (=) (mirror_to_hold o' l reader cs s cid)"
  using assms unfolding mirror_to_hold_def throw_if_def split_def reads_only_def
  by (intro frame_rules) blast+

lemma shadow_derive_receipts: "shadow_derive o' cid bd s w = (Inr sr, w') \<Longrightarrow> unpersisted (snd sr)"
  by (auto simp: shadow_derive_def Let_def bindI_Inr dest!: shadow_advance_receipts)

lemma shadow_finish_Inr:
  assumes "shadow_finish o' layer cid bd status snapshot codes mapped sr w = (Inr x, w')" "unpersisted (snd sr)"
  shows "hs_claim_id x = cid \<and> hs_source_status x = status \<and> hs_bundle_sha256 x = sha256_json (JObj bd) \<and>
    hs_evidence_snapshot x = snapshot \<and> hs_blocker_codes x = codes \<and> unpersisted (hs_receipts x) \<and>
    (if snapshot = [] then hs_status x = Shadow_QUARANTINED \<and> st_state (hs_stage x) = QUARANTINED \<and> hs_claim x = mapped
     else hs_status x = Shadow_AUTHORITY_HOLD \<and> st_state (hs_stage x) = AUTHORITY_HOLD \<and>
       hs_claim x = mapped\<lparr>cl_authority_state := Auth_HOLD\<rparr>)"
proof (cases "snapshot = []")
  case True
  with assms show ?thesis
    by (auto simp: shadow_finish_def Let_def bindI_Inr dest!: shadow_quarantine_Inr split: prod.splits)
next
  case False
  with assms show ?thesis
    by (auto simp: shadow_finish_def Let_def bindI_Inr dest!: shadow_hold_Inr split: prod.splits)
qed

lemma mirror_Inr:
  assumes "mirror_to_hold o' layer reader cs s cid w = (Inr x, w')"
  obtains bd source evidence mapped sr codes v where
    "source_claim cid bd = Inr (source, evidence, hs_source_status x)"
    "evidence_snapshot evidence = Inr (hs_evidence_snapshot x)"
    "mapped_claim cs cid source (hs_evidence_snapshot x) = Inr mapped" "unpersisted (snd sr)"
    "shadow_finish o' layer cid bd (hs_source_status x) (hs_evidence_snapshot x) codes mapped sr v = (Inr x, w')"
proof -
  from assms obtain bd source evidence status snapshot codes mapped sr v0 v where
    src: "source_claim cid bd = Inr (source, evidence, status)" and
    snap: "evidence_snapshot evidence = Inr snapshot" and mapped: "mapped_claim cs cid source snapshot = Inr mapped" and
    derive: "shadow_derive o' cid bd s v0 = (Inr sr, v)" and
    finish: "shadow_finish o' layer cid bd status snapshot (sort codes) mapped sr v = (Inr x, w')"
    by (auto simp: mirror_to_hold_def bindI_Inr split_def)
  note un = shadow_derive_receipts [OF derive]
  from shadow_finish_Inr [OF finish un] have "hs_source_status x = status" "hs_evidence_snapshot x = snapshot" by blast+
  with src snap mapped un finish that show thesis by blast
qed

lemma source_claim_Inr:
  "source_claim cid bd = Inr (source, evidence, status) \<Longrightarrow>
     status \<in> {''PROPOSED'', ''VALIDATED''} \<and> jget source ''claim_id'' = JStr cid \<and>
     jget bd ''claim'' = JObj source \<and> jget bd ''evidence'' = JList (map JObj evidence)"
  by (auto simp: source_claim_def required_text_def result_simps list_all_iff is_mapping_iff o_def
      intro!: map_idI [symmetric] split: json.splits if_splits) (metis mapping_or_empty_simps(1))+

lemma mapped_claim_Inr:
  "mapped_claim cs cid source snapshot = Inr c \<Longrightarrow>
     cl_claim_id c = cid \<and> cl_case_id c = cs_case_id cs \<and> cl_claim_type c = DERIVED_CLAIM \<and>
     cl_authority_state c = Auth_NONE \<and> cl_evidence_state c = (if snapshot \<noteq> [] then Ev_SUPPORTED else Ev_UNVERIFIED)"
  by (auto simp: mapped_claim_def Let_def bindE_Inr claim_post_init_Inr)

text \<open>C22. Historical shadow: mirroring a claim reads and never writes, accepts only a proposed or
  validated source claim with the requested id, and produces a derived claim of the case.  With evidence
  the stage stops at the authority hold and so does the claim; without evidence the stage is quarantined
  and the claim is unverified and without authority.  No receipt names an output commit.\<close>

theorem shadow_stops_at_hold:
  assumes "mirror_to_hold o' layer reader cs s cid w = (Inr x, w')" "reads_only reader"
  shows "w_fs w' = w_fs w \<and> hs_source_status x \<in> {''PROPOSED'', ''VALIDATED''} \<and>
    cl_claim_id (hs_claim x) = cid \<and> cl_case_id (hs_claim x) = cs_case_id cs \<and>
    cl_claim_type (hs_claim x) = DERIVED_CLAIM \<and> (\<forall>r \<in> set (hs_receipts x). rc_output_commit r = None) \<and>
    (if hs_evidence_snapshot x = []
     then hs_status x = Shadow_QUARANTINED \<and> st_state (hs_stage x) = QUARANTINED \<and>
       cl_evidence_state (hs_claim x) = Ev_UNVERIFIED \<and> cl_authority_state (hs_claim x) = Auth_NONE
     else hs_status x = Shadow_AUTHORITY_HOLD \<and> st_state (hs_stage x) = AUTHORITY_HOLD \<and>
       cl_evidence_state (hs_claim x) = Ev_SUPPORTED \<and> cl_authority_state (hs_claim x) = Auth_HOLD)"
proof -
  obtain bd source evidence mapped sr codes v where
    src: "source_claim cid bd = Inr (source, evidence, hs_source_status x)" and
    mapped: "mapped_claim cs cid source (hs_evidence_snapshot x) = Inr mapped" and un: "unpersisted (snd sr)" and
    finish: "shadow_finish o' layer cid bd (hs_source_status x) (hs_evidence_snapshot x) codes mapped sr v = (Inr x, w')"
    by (rule mirror_Inr [OF assms(1)])
  have "w_fs w' = w_fs w" using mirror_frame [OF assms(2)] assms(1) by (rule keeps_same)
  with source_claim_Inr [OF src] mapped_claim_Inr [OF mapped] shadow_finish_Inr [OF finish un] show ?thesis
    by (auto simp: unpersisted_def)
qed

subsection \<open>The bridge returns\<close>

definition authority_works :: "authority_layer \<Rightarrow> bool" where
  "authority_works l \<longleftrightarrow>
     \<not> blank (al_policy_version l) \<and> \<not> blank (al_actor l) \<and> (\<forall>n. \<not> blank (al_id l ''receipt'' n)) \<and>
     (\<forall>n. aware (al_clock l n))"

definition free_stage :: "stage \<Rightarrow> bool" where
  \<comment> \<open>a valid stage without dependencies and holds\<close>
  "free_stage s \<longleftrightarrow> stage_post_init s = Inr s \<and> st_dependencies s = [] \<and> st_blocking_holds s = []"

lemma free_stage_update [simp]:
  "free_stage (s\<lparr>st_output_refs := x, st_state := y\<rparr>) = free_stage s" "free_stage (s\<lparr>st_output_refs := x\<rparr>) = free_stage s"
  by (simp_all add: free_stage_def stage_post_init_Inr)

lemma source_executed:
  "free_stage s \<Longrightarrow> run_stage o' s e (source_executor ref h G) vs default_context w =
     run_validators o' s e default_context \<lparr>se_output_refs = [ref], se_output_hashes = [h], se_guards = G\<rparr> G vs w"
  by (simp add: run_stage_def free_stage_def source_executor_def checked_executor_def attempt_def bindI_def
      default_context_def sorted_diff_def)

lemma shadow_advance_works:
  assumes "orchestrator_works o'" "free_stage s" "hex64 h" "transition_rule (st_state s) e = Inr r" "tr_required r \<subseteq> G"
  shows "\<exists>rc. shadow_advance o' ref h e G (s, rs) w =
    (Inr (s\<lparr>st_output_refs := [ref], st_state := tr_to r\<rparr>, rs @ [rc]), w\<lparr>w_tick := w_tick w + 2\<rparr>)"
proof -
  let ?s = "s\<lparr>st_output_refs := [ref]\<rparr>"
  obtain d where d: "evaluate_transition ?s e G = Inr d" "td_to d = tr_to r"
    using assms(4,5) by (simp add: evaluate_transition_Inr)
  have valid: "stage_post_init ?s = Inr ?s" using assms(2) by (simp add: free_stage_def stage_post_init_Inr)
  obtain rc where "orchestrator_receipt o' s e default_context [h]
      (''PASS:'' @ stage_state_value (td_from d) @ ''->'' @ stage_state_value (td_to d)) w = (Inr rc, w\<lparr>w_tick := w_tick w + 2\<rparr>)"
    using orchestrator_receipt_works [OF assms(1) default_context_ok, of "[h]"] assms(3) by fastforce
  then have "advance_stage o' s e default_context \<lparr>se_output_refs = [ref], se_output_hashes = [h], se_guards = G\<rparr> G w =
      (Inr \<lparr>oo_stage = s\<lparr>st_output_refs := [ref], st_state := tr_to r\<rparr>, oo_status = ADVANCED, oo_receipt = rc,
            oo_decision = Some d, oo_execution = Some \<lparr>se_output_refs = [ref], se_output_hashes = [h], se_guards = G\<rparr>,
            oo_reason = []\<rparr>, w\<lparr>w_tick := w_tick w + 2\<rparr>)"
    using d valid by (simp add: advance_stage_def apply_transition_Inr [THEN iffD2])
  then show ?thesis by (auto simp: shadow_advance_def source_executed [OF assms(2)])
qed

lemma hold_path_rules:
  "\<exists>r. transition_rule DISCOVERED INGEST_CONFIRMED = Inr r \<and> tr_to r = INGESTED \<and> tr_required r = {''source_artifact_valid''}"
  "\<exists>r. transition_rule INGESTED NORMALIZATION_COMPLETE = Inr r \<and> tr_to r = NORMALIZED \<and> tr_required r = {''lineage_complete''}"
  "\<exists>r. transition_rule NORMALIZED DERIVATION_COMPLETE = Inr r \<and> tr_to r = DERIVED \<and> tr_required r = {''output_hash_valid''}"
  "\<exists>r. transition_rule DERIVED VALIDATION_PASSED = Inr r \<and> tr_to r = VALIDATED \<and> tr_required r = {''required_validations_passed''}"
  "\<exists>r. transition_rule VALIDATED PLACE_AUTHORITY_HOLD = Inr r \<and> tr_to r = AUTHORITY_HOLD \<and> tr_required r = {''evidence_snapshot_present''}"
  by (simp_all add: transition_rule_def rule_index_def primary_rules_def)

lemma advance_along:
  assumes "orchestrator_works o'" "free_stage s" "hex64 h" "st_state s = a"
    "\<exists>r. transition_rule a e = Inr r \<and> tr_to r = b \<and> tr_required r = G"
  shows "\<exists>rc s'. shadow_advance o' ref h e G (s, rs) w = (Inr (s', rs @ [rc]), w\<lparr>w_tick := w_tick w + 2\<rparr>) \<and>
    free_stage s' \<and> st_state s' = b"
proof -
  obtain r where r: "transition_rule (st_state s) e = Inr r" "tr_to r = b" "tr_required r \<subseteq> G" using assms(4,5) by auto
  from shadow_advance_works [OF assms(1-3) r(1,3), of ref rs w] r(2) assms(2) show ?thesis by fastforce
qed

lemma shadow_derive_works:
  assumes "orchestrator_works o'" "free_stage s" "st_state s = DISCOVERED"
  shows "\<exists>s' rs w'. shadow_derive o' cid bd s w = (Inr (s', rs), w') \<and> free_stage s' \<and> st_state s' = DERIVED"
proof -
  let ?h = "sha256_json (JObj bd)" and ?ref = "claim_source_ref cid"
  have h: "hex64 ?h" by (simp add: sha256_json_def lower_hex64_hex64 sha256_lower_hex64)
  obtain s1 r1 w1 where s1: "shadow_advance o' ?ref ?h INGEST_CONFIRMED {''source_artifact_valid''} (s, []) w = (Inr (s1, r1), w1)"
    "free_stage s1" "st_state s1 = INGESTED"
    using advance_along [OF assms(1,2) h assms(3) hold_path_rules(1)] by blast
  obtain s2 r2 w2 where s2: "shadow_advance o' ?ref ?h NORMALIZATION_COMPLETE {''lineage_complete''} (s1, r1) w1 = (Inr (s2, r2), w2)"
    "free_stage s2" "st_state s2 = NORMALIZED"
    using advance_along [OF assms(1) s1(2) h s1(3) hold_path_rules(2)] by blast
  obtain s3 r3 w3 where s3: "shadow_advance o' ?ref ?h DERIVATION_COMPLETE {''output_hash_valid''} (s2, r2) w2 = (Inr (s3, r3), w3)"
    "free_stage s3" "st_state s3 = DERIVED"
    using advance_along [OF assms(1) s2(2) h s2(3) hold_path_rules(3)] by blast
  show ?thesis
    by (intro exI [of _ s3] exI [of _ r3] exI [of _ w3]) (simp add: shadow_derive_def Let_def s1 s2 s3)
qed

lemma shadow_hold_works:
  assumes "orchestrator_works o'" "authority_works l" "free_stage s" "st_state s = DERIVED" "hex64 h"
    "claim_post_init c = Inr c" "cl_authority_state c = Auth_NONE"
  shows "\<exists>s' held rs' w'. shadow_hold o' l ref h c (s, rs) w = (Inr (s', held, rs'), w')"
proof -
  obtain s1 r1 w1 where s1: "shadow_advance o' ref h VALIDATION_PASSED {''required_validations_passed''} (s, rs) w = (Inr (s1, r1), w1)"
    "free_stage s1" "st_state s1 = VALIDATED"
    using advance_along [OF assms(1,3,5,4) hold_path_rules(4)] by blast
  have "\<exists>x. place_hold l c w1 = (Inr x, w1\<lparr>w_tick := w_tick w1 + 2\<rparr>)"
    using assms(2,6,7) by (auto simp: place_hold_def result_simps claim_post_init_Inr authority_works_def)
  then obtain hold w2 where hold: "place_hold l c w1 = (Inr hold, w2)" by blast
  obtain s3 r3 w3 where s3: "shadow_advance o' ref h PLACE_AUTHORITY_HOLD {''evidence_snapshot_present''}
      (s1, r1 @ [ao_receipt hold]) w2 = (Inr (s3, r3), w3)" "st_state s3 = AUTHORITY_HOLD"
    using advance_along [OF assms(1) s1(2) assms(5) s1(3) hold_path_rules(5)] by blast
  show ?thesis
    by (intro exI [of _ s3] exI [of _ "ao_value hold"] exI [of _ r3] exI [of _ w3]) (simp add: shadow_hold_def s1 hold s3)
qed

lemma shadow_quarantine_works:
  assumes "orchestrator_works o'" "free_stage s" "st_state s = DERIVED" "hex64 h"
  shows "\<exists>s' rs' w'. shadow_quarantine o' ref h (s, rs) w = (Inr (s', rs'), w')"
proof -
  let ?ex = "\<lparr>se_output_refs = [ref], se_output_hashes = [h], se_guards = {}\<rparr>"
  let ?s = "s\<lparr>st_output_refs := [ref]\<rparr>"
  have valid: "stage_post_init ?s = Inr ?s" using assms(2) by (simp add: free_stage_def stage_post_init_Inr)
  have "st_state ?s \<in> failure_source_states" using assms(3) by (simp add: failure_source_states_def)
  from route_failure_works [OF assms(1) default_context_ok valid this, of "Some ?ex"] assms(4)
  obtain out w' where out: "route_failure o' ?s VALIDATION_PASSED INTEGRITY default_context (Some ?ex)
      ''historical claim has no evidence snapshot'' w = (Inr out, w')" by fastforce
  from route_failure_Inr [OF out] have "st_state (oo_stage out) = QUARANTINED" by simp
  with out valid show ?thesis
    by (simp add: shadow_quarantine_def source_executed [OF assms(2)] no_evidence_validator_def)
qed

lemma mirror_works:
  assumes "orchestrator_works o'" "authority_works l" "free_stage s" "st_state s = DISCOVERED" "st_case_id s = cs_case_id cs"
    and "\<And>w. \<exists>w'. hr_claim_bundle reader cid w = (Inr bd, w')"
    and "\<And>w. \<exists>w'. hr_promotion_blockers reader cid w = (Inr blockers, w')"
    and "source_claim cid bd = Inr (source, evidence, status)" "evidence_snapshot evidence = Inr snapshot"
    and "mapE (\<lambda>b. required_text ''blocker code'' (jget b ''code'')) blockers = Inr codes"
    and "mapped_claim cs cid source snapshot = Inr mapped"
  shows "\<exists>x w'. mirror_to_hold o' l reader cs s cid w = (Inr x, w') \<and> hs_evidence_snapshot x = snapshot \<and>
    hs_blocker_codes x = sort codes \<and>
    hs_status x = (if snapshot = [] then Shadow_QUARANTINED else Shadow_AUTHORITY_HOLD)"
proof -
  let ?h = "sha256_json (JObj bd)"
  have h: "hex64 ?h" by (simp add: sha256_json_def lower_hex64_hex64 sha256_lower_hex64)
  obtain w1 where b: "hr_claim_bundle reader cid w = (Inr bd, w1)" using assms(6) by blast
  obtain w2 where bl: "hr_promotion_blockers reader cid w1 = (Inr blockers, w2)" using assms(7) by blast
  obtain s' rs w3 where d: "shadow_derive o' cid bd s w2 = (Inr (s', rs), w3)" "free_stage s'" "st_state s' = DERIVED"
    using shadow_derive_works [OF assms(1,3,4)] by blast
  have run: "mirror_to_hold o' l reader cs s cid w = shadow_finish o' l cid bd status snapshot (sort codes) mapped (s', rs) w3"
    by (simp add: mirror_to_hold_def assms(4,5,8-11) b bl d(1))
  have "\<exists>c. claim_post_init c = Inr mapped" using assms(11) by (auto simp: mapped_claim_def Let_def bindE_Inr)
  then have valid: "claim_post_init mapped = Inr mapped" "cl_authority_state mapped = Auth_NONE"
    using mapped_claim_Inr [OF assms(11)] claim_data.stable by blast+
  show ?thesis
  proof (cases "snapshot = []")
    case True
    obtain s2 r2 w4 where "shadow_quarantine o' (claim_source_ref cid) ?h (s', rs) w3 = (Inr (s2, r2), w4)"
      using shadow_quarantine_works [OF assms(1) d(2,3) h] by blast
    with True run show ?thesis by (simp add: shadow_finish_def Let_def)
  next
    case False
    obtain s2 held r2 w4 where "shadow_hold o' l (claim_source_ref cid) ?h mapped (s', rs) w3 = (Inr (s2, held, r2), w4)"
      using shadow_hold_works [OF assms(1,2) d(2,3) h valid] by blast
    with False run show ?thesis by (simp add: shadow_finish_def Let_def)
  qed
qed

text \<open>Historical shadow: with working clocks and identifier factories, a free stage of the case in
  state \<open>DISCOVERED\<close> and a store that answers with an acceptable bundle, the bridge returns: it holds the
  claim exactly if the bundle has evidence and quarantines it otherwise, and reports the blocker codes
  sorted.\<close>

theorem shadow_returns:
  assumes "orchestrator_works o'" "authority_works l" "free_stage s" "st_state s = DISCOVERED" "st_case_id s = cs_case_id cs"
    and "\<And>w. \<exists>w'. hr_claim_bundle reader cid w = (Inr bd, w')"
    and "\<And>w. \<exists>w'. hr_promotion_blockers reader cid w = (Inr blockers, w')"
    and "source_claim cid bd = Inr (source, evidence, status)" "evidence_snapshot evidence = Inr snapshot"
    and "mapE (\<lambda>b. required_text ''blocker code'' (jget b ''code'')) blockers = Inr codes"
    and "mapped_claim cs cid source snapshot = Inr mapped"
  shows "\<exists>x w'. mirror_to_hold o' l reader cs s cid w = (Inr x, w') \<and> hs_evidence_snapshot x = snapshot \<and>
    hs_blocker_codes x = sort codes \<and>
    hs_status x = (if snapshot = [] then Shadow_QUARANTINED else Shadow_AUTHORITY_HOLD)"
  using assms by (rule mirror_works)

subsection \<open>A concrete mirror\<close>

definition example_bundle :: "json list \<Rightarrow> row" where
  "example_bundle evidence =
     [(''claim'', JObj [(''claim_id'', JStr ''k''), (''status'', JStr ''PROPOSED''), (''document_id'', JStr ''doc''),
                        (''predicate'', JStr ''p''), (''claim_text'', JStr ''o'')]),
      (''evidence'', JList evidence)]"

definition example_reader :: "json list \<Rightarrow> historical_reader" where
  "example_reader evidence =
     \<lparr>hr_claim_bundle = (\<lambda>c. ret (example_bundle evidence)),
      hr_promotion_blockers = (\<lambda>c. ret [[(''code'', JStr ''NO_REVIEW'')]])\<rparr>"

definition example_evidence :: row where
  "example_evidence = [(''evidence_id'', JStr ''e1''), (''excerpt_sha256'', JStr (replicate 64 (CHR ''a'')))]"

definition shadow_case :: gcase where
  "shadow_case = \<lparr>cs_case_id = ''case'', cs_title = ''t'', cs_scope = ''s'', cs_state = Case_OPEN,
     cs_created_at = example_time 0, cs_constitution = ''v1'', cs_canonical_commit = None\<rparr>"

definition shadow_stage :: stage where
  "shadow_stage = \<lparr>st_stage_id = ''stage'', st_case_id = ''case'', st_stage_type = ''t'', st_state = DISCOVERED,
     st_dependencies = [], st_input_refs = [], st_output_refs = [], st_blocking_holds = []\<rparr>"

definition shadow_source :: row where
  "shadow_source = mapping_or_empty (jget (example_bundle []) ''claim'')"

lemma example_shadow:
  "orchestrator_works example_orchestrator" "authority_works example_layer" "free_stage shadow_stage"
  "st_state shadow_stage = DISCOVERED" "st_case_id shadow_stage = cs_case_id shadow_case"
  "\<exists>w'. hr_claim_bundle (example_reader ev) ''k'' w = (Inr (example_bundle ev), w')"
  "\<exists>w'. hr_promotion_blockers (example_reader ev) ''k'' w = (Inr [[(''code'', JStr ''NO_REVIEW'')]], w')"
  "source_claim ''k'' (example_bundle [JObj example_evidence]) = Inr (shadow_source, [example_evidence], ''PROPOSED'')"
  "evidence_snapshot [example_evidence] = Inr [''e1:'' @ replicate 64 (CHR ''a'')]"
  "mapE (\<lambda>b. required_text ''blocker code'' (jget b ''code'')) [[(''code'', JStr ''NO_REVIEW'')]] = Inr [''NO_REVIEW'']"
  "reads_only (example_reader ev)"
proof -
  show "orchestrator_works example_orchestrator" by (rule example_orchestrator_works)
  show "authority_works example_layer" by (simp add: authority_works_def example_layer_def example_id_def)
  show "free_stage shadow_stage" by (simp add: free_stage_def shadow_stage_def stage_post_init_Inr)
  show "st_state shadow_stage = DISCOVERED" "st_case_id shadow_stage = cs_case_id shadow_case"
    by (simp_all add: shadow_stage_def shadow_case_def)
  show "\<exists>w'. hr_claim_bundle (example_reader ev) ''k'' w = (Inr (example_bundle ev), w')"
    "\<exists>w'. hr_promotion_blockers (example_reader ev) ''k'' w = (Inr [[(''code'', JStr ''NO_REVIEW'')]], w')"
    by (simp_all add: example_reader_def)
  show "source_claim ''k'' (example_bundle [JObj example_evidence]) = Inr (shadow_source, [example_evidence], ''PROPOSED'')"
    by (simp add: source_claim_def example_bundle_def jget_def is_mapping_def required_text_def required_def raise_if_def
        shadow_source_def)
  have len: "str_len (replicate 64 (CHR ''a'')) = 64" by code_simp
  have low: "lower (replicate 64 (CHR ''a'')) = replicate 64 (CHR ''a'')"
    by (rule lower_lower_hex64) (simp add: lower_hex64_def list_all_iff lower_hex_digit_def code_def)
  have get: "jget example_evidence ''evidence_id'' = JStr ''e1''" "jget example_evidence ''representation_content_sha256'' = JNull"
    "jget example_evidence ''excerpt_sha256'' = JStr (replicate 64 (CHR ''a''))"
    by (simp_all add: example_evidence_def jget_def)
  have some: "truthy (JStr (replicate 64 (CHR ''a'')))" by (simp add: numeral_eq_Suc)
  show "evidence_snapshot [example_evidence] = Inr [''e1:'' @ replicate 64 (CHR ''a'')]"
    by (simp only: evidence_snapshot_def evidence_entry_def mapE.simps get required_text_def json.case json_or_def truthy.simps
        if_False some [unfolded truthy.simps] if_True not_False_eq_True Let_def len) (simp add: required_def low)
  show "mapE (\<lambda>b. required_text ''blocker code'' (jget b ''code'')) [[(''code'', JStr ''NO_REVIEW'')]] = Inr [''NO_REVIEW'']"
    by (simp add: required_text_def jget_def required_def)
  show "reads_only (example_reader ev)" by (simp add: reads_only_def example_reader_def frame_rules)
qed

lemma example_mapped:
  "mapped_claim shadow_case ''k'' shadow_source [x] = Inr
     \<lparr>cl_claim_id = ''k'', cl_case_id = ''case'', cl_subject = ''doc'', cl_predicate = ''p'', cl_object = ''o'',
      cl_valid_from = None, cl_valid_to = None, cl_claim_type = DERIVED_CLAIM, cl_evidence_state = Ev_SUPPORTED,
      cl_authority_state = Auth_NONE\<rparr>"
  by (simp add: mapped_claim_def shadow_source_def example_bundle_def jget_def json_or_def required_text_def required_def
      claim_post_init_def shadow_case_def)

theorem shadow_returns_witness:
  "\<exists>x w'. mirror_to_hold example_orchestrator example_layer (example_reader [JObj example_evidence]) shadow_case shadow_stage ''k''
      (quiet_world []) = (Inr x, w') \<and> hs_status x = Shadow_AUTHORITY_HOLD \<and> hs_blocker_codes x = [''NO_REVIEW'']"
  using shadow_returns [OF example_shadow(1-10) example_mapped, of "quiet_world []"] by auto

lemma example_mirror:
  "\<exists>x w'. mirror_to_hold example_orchestrator example_layer (example_reader [JObj example_evidence]) shadow_case shadow_stage ''k''
      (quiet_world []) = (Inr x, w') \<and> hs_evidence_snapshot x \<noteq> []"
  using mirror_works [OF example_shadow(1-10) example_mapped, of "quiet_world []"] by auto

theorem shadow_stops_at_hold_witness:
  "\<exists>x w'. mirror_to_hold example_orchestrator example_layer (example_reader [JObj example_evidence]) shadow_case shadow_stage ''k''
      (quiet_world []) = (Inr x, w') \<and> st_state (hs_stage x) = AUTHORITY_HOLD \<and> cl_authority_state (hs_claim x) = Auth_HOLD"
proof -
  obtain x w' where run: "mirror_to_hold example_orchestrator example_layer (example_reader [JObj example_evidence]) shadow_case
      shadow_stage ''k'' (quiet_world []) = (Inr x, w')" "hs_evidence_snapshot x \<noteq> []" using example_mirror by blast
  from shadow_stops_at_hold [OF run(1) example_shadow(11)] run(2) have "st_state (hs_stage x) = AUTHORITY_HOLD"
    "cl_authority_state (hs_claim x) = Auth_HOLD" by simp_all
  with run(1) show ?thesis by blast
qed

end
