(* ===== verification/ReleaseAuthority.thy ===== *)
theory ReleaseAuthority
  imports Prelude
begin

section \<open>Release authority\<close>

text \<open>
  \<open>galia2/release_authority.py\<close>: whether one exact authority scope has a single byte-authoritative
  integration base among the candidate releases.  Nothing here changes state.
\<close>

datatype release_domain = GLOBAL_MASTER | RESEARCH_CANONICAL_STATE

fun release_domain_value :: "release_domain \<Rightarrow> string" where
  "release_domain_value GLOBAL_MASTER = ''GLOBAL_MASTER''"
| "release_domain_value RESEARCH_CANONICAL_STATE = ''RESEARCH_CANONICAL_STATE''"

datatype authorization_quality =
    DIRECT_FILE_RECORD | EXPLICIT_HUMAN_TRACE_REVALIDATED | DEFECTIVE_GENERIC_CONTINUATION
  | OBSERVED_PROMOTED_STATE_ONLY | UNKNOWN_QUALITY

datatype g22_outcome =
    PASS_SINGLE_BYTE_AUTHORITATIVE_INTEGRATION_BASE
  | BLOCK_AMBIGUOUS_MULTIPLE_INTEGRATION_BASES
  | BLOCK_KNOWN_AUTHORITY_HASH_RAW_BYTES_ABSENT
  | BLOCK_NO_ELIGIBLE_INTEGRATION_BASE

record release_scope =
  rs_system_id :: string
  rs_domain :: release_domain
  rs_scope_id :: string

definition release_scope_post_init :: "release_scope \<Rightarrow> release_scope res" where
  "release_scope_post_init s =
     bindE (requireds [(''system_id'', rs_system_id s), (''scope_id'', rs_scope_id s)]) (\<lambda>_. Inr s)"

definition release_scope_token :: "release_scope \<Rightarrow> string" where
  "release_scope_token s =
     ''system:'' @ rs_system_id s @ ''|domain:'' @ release_domain_value (rs_domain s) @ ''|scope:'' @ rs_scope_id s"

record release_evidence =
  re_release_id :: string
  re_scope :: release_scope
  re_artifact_sha256 :: string
  re_quality :: authorization_quality
  re_source_evidence_ids :: "string list"
  re_scope_binding_supported :: bool
  re_raw_artifact_present :: bool
  re_historically_promoted :: bool
  re_lineage_reconciled :: bool
  re_human_selected :: bool

definition release_evidence_post_init :: "release_evidence \<Rightarrow> release_evidence res" where
  "release_evidence_post_init r =
     bindE (required ''release_id'' (re_release_id r)) (\<lambda>_.
     bindE (hash_field ''artifact_sha256'' (re_artifact_sha256 r)) (\<lambda>h.
     bindE (unique_ids ''source_evidence_ids'' (re_source_evidence_ids r)) (\<lambda>ids.
     Inr (r\<lparr>re_artifact_sha256 := h, re_source_evidence_ids := ids\<rparr>))))"

definition human_authorization_supported :: "release_evidence \<Rightarrow> bool" where
  "human_authorization_supported r \<longleftrightarrow> re_quality r \<in> {DIRECT_FILE_RECORD, EXPLICIT_HUMAN_TRACE_REVALIDATED}"

definition byte_authoritative_candidate :: "release_evidence \<Rightarrow> bool" where
  "byte_authoritative_candidate r \<longleftrightarrow>
     re_scope_binding_supported r \<and> human_authorization_supported r \<and> re_historically_promoted r \<and>
     re_raw_artifact_present r \<and> re_lineage_reconciled r \<and> re_human_selected r"

definition same_release_authority_scope :: "release_evidence \<Rightarrow> release_evidence \<Rightarrow> bool" where
  "same_release_authority_scope l r \<longleftrightarrow> re_scope l = re_scope r"

definition cross_scope_transfer_required :: "release_evidence \<Rightarrow> release_evidence \<Rightarrow> bool" where
  "cross_scope_transfer_required successor predecessor \<longleftrightarrow> \<not> same_release_authority_scope successor predecessor"

definition g22_state :: "release_evidence list \<Rightarrow> release_scope \<Rightarrow> g22_outcome" where
  "g22_state candidates target =
     (let exact = filter (\<lambda>r. re_scope_binding_supported r \<and> re_scope r = target) candidates;
          eligible = filter byte_authoritative_candidate exact in
      if length eligible = 1 then PASS_SINGLE_BYTE_AUTHORITATIVE_INTEGRATION_BASE
      else if length eligible > 1 then BLOCK_AMBIGUOUS_MULTIPLE_INTEGRATION_BASES
      else if list_ex (\<lambda>r. human_authorization_supported r \<and> re_historically_promoted r \<and> \<not> re_raw_artifact_present r) exact
      then BLOCK_KNOWN_AUTHORITY_HASH_RAW_BYTES_ABSENT
      else BLOCK_NO_ELIGIBLE_INTEGRATION_BASE)"

subsection \<open>The gate passes for one base only\<close>

definition integration_bases :: "release_evidence list \<Rightarrow> release_scope \<Rightarrow> nat set" where
  \<comment> \<open>the positions of the candidates with full authority in exactly this scope\<close>
  "integration_bases candidates target =
     {i. i < length candidates \<and> re_scope (candidates ! i) = target \<and> byte_authoritative_candidate (candidates ! i)}"

lemma eligible_count:
  "length (filter byte_authoritative_candidate
      (filter (\<lambda>r. re_scope_binding_supported r \<and> re_scope r = target) candidates)) =
   card (integration_bases candidates target)"
proof -
  have "filter byte_authoritative_candidate (filter (\<lambda>r. re_scope_binding_supported r \<and> re_scope r = target) candidates) =
      filter (\<lambda>r. re_scope r = target \<and> byte_authoritative_candidate r) candidates"
    by (auto simp: byte_authoritative_candidate_def intro: filter_cong)
  then show ?thesis by (simp add: length_filter_conv_card integration_bases_def)
qed


end
