(* ===== verification/ConflictComponents.thy ===== *)
theory ConflictComponents
  imports Prelude
begin

section \<open>Components of the conflict graph\<close>

text \<open>
  \<open>_conflict_components\<close> of \<open>galia2/authority_reconciliation.py\<close>: a depth-first search with an explicit
  stack over the pairs in conflict.  The search is shown to end and to return exactly the connected
  components.  The stack is kept with its top first; a Python set of neighbours is read in the order of
  insertion, which the result does not depend on because every component is sorted.
\<close>

type_synonym adjacency = "(string \<times> string list) list"

fun add_neighbour :: "string \<Rightarrow> string \<Rightarrow> adjacency \<Rightarrow> adjacency" where
  \<comment> \<open>\<open>adjacency.setdefault(a, set()).add(b)\<close>\<close>
  "add_neighbour a b [] = [(a, [b])]"
| "add_neighbour a b ((k, bs) # r) =
     (if k = a then (k, if b \<in> set bs then bs else bs @ [b]) # r else (k, bs) # add_neighbour a b r)"

definition adjacency_of :: "(string \<times> string) list \<Rightarrow> adjacency" where
  "adjacency_of conflicts = foldl (\<lambda>adj (a, b). add_neighbour b a (add_neighbour a b adj)) [] conflicts"

definition neighbours :: "adjacency \<Rightarrow> string \<Rightarrow> string list" where
  "neighbours adj n = (case map_of adj n of None \<Rightarrow> [] | Some bs \<Rightarrow> bs)"

definition unseen :: "adjacency \<Rightarrow> string list \<Rightarrow> nat" where
  "unseen adj seen = card (fst ` set adj - set seen)"

lemma unseen_decreases:
  assumes "n \<notin> set seen" "neighbours adj n \<noteq> []"
  shows "unseen adj (n # seen) < unseen adj seen"
proof -
  have "n \<in> fst ` set adj"
    using assms(2) by (auto simp: neighbours_def dest: map_of_SomeD intro: rev_image_eqI split: option.splits)
  with assms(1) show ?thesis unfolding unseen_def by (intro psubset_card_mono) auto
qed

function search :: "adjacency \<Rightarrow> string list \<Rightarrow> string list \<Rightarrow> string list \<Rightarrow> string list \<times> string list" where
  "search adj [] seen component = (seen, component)"
| "search adj (n # stack) seen component =
     (if n \<in> set seen then search adj stack seen component
      else search adj (rev (neighbours adj n) @ stack) (n # seen) (n # component))"
  by pat_completeness auto
termination
proof (relation "measures [\<lambda>(adj, stack, seen, c). unseen adj seen, \<lambda>(adj, stack, seen, c). length stack]", goal_cases)
  case (3 adj n stack seen component)
  show ?case
  proof (cases "neighbours adj n = []")
    case True
    have "unseen adj (n # seen) \<le> unseen adj seen" unfolding unseen_def by (intro card_mono) auto
    with True show ?thesis by auto
  next
    case False
    with 3 show ?thesis using unseen_decreases by auto
  qed
qed auto

fun collect :: "adjacency \<Rightarrow> string list \<Rightarrow> string list \<Rightarrow> string list list" where
  "collect adj [] seen = []"
| "collect adj (root # roots) seen =
     (if root \<in> set seen then collect adj roots seen
      else let (seen', component) = search adj [root] seen [] in sort component # collect adj roots seen')"

definition conflict_components :: "(string \<times> string) list \<Rightarrow> string list list" where
  "conflict_components conflicts =
     (let adj = adjacency_of conflicts in collect adj (sort (map fst adj)) [])"

subsection \<open>The graph\<close>

definition linked :: "adjacency \<Rightarrow> (string \<times> string) set" where
  "linked adj = {(u, v). v \<in> set (neighbours adj u)}"

definition closed_in :: "adjacency \<Rightarrow> string set \<Rightarrow> bool" where
  "closed_in adj X \<longleftrightarrow> (\<forall>u \<in> X. set (neighbours adj u) \<subseteq> X)"

lemma neighbours_simps:
  "neighbours [] n = []" "neighbours ((k, bs) # r) n = (if n = k then bs else neighbours r n)"
  by (simp_all add: neighbours_def)

lemma neighbours_add:
  "set (neighbours (add_neighbour a b adj) n) = set (neighbours adj n) \<union> (if n = a then {b} else {})"
proof (induction a b adj rule: add_neighbour.induct)
  case (2 a b k bs r)
  show ?case
  proof (cases "k = a")
    case True
    show ?thesis by (cases "n = a") (simp_all add: True neighbours_simps insert_absorb)
  next
    case False
    with 2 show ?thesis by (cases "n = k") (simp_all add: neighbours_simps)
  qed
qed (simp add: neighbours_simps)

lemma keys_add: "fst ` set (add_neighbour a b adj) = insert a (fst ` set adj)"
  by (induction a b adj rule: add_neighbour.induct) auto

lemma fold_graph:
  "set (neighbours (foldl (\<lambda>adj (a, b). add_neighbour b a (add_neighbour a b adj)) adj conflicts) n) =
     set (neighbours adj n) \<union> {b. (n, b) \<in> set conflicts \<or> (b, n) \<in> set conflicts}"
  "fst ` set (foldl (\<lambda>adj (a, b). add_neighbour b a (add_neighbour a b adj)) adj conflicts) =
     fst ` set adj \<union> fst ` set conflicts \<union> snd ` set conflicts"
  by (induction conflicts arbitrary: adj) (auto simp: neighbours_add keys_add split_def)

lemma linked_adjacency: "linked (adjacency_of conflicts) = set conflicts \<union> (set conflicts)\<inverse>"
  unfolding linked_def adjacency_of_def fold_graph by (auto simp: neighbours_def)

lemma adjacency_keys: "fst ` set (adjacency_of conflicts) = Field (set conflicts)"
  unfolding adjacency_of_def fold_graph by (force simp: Field_def Domain_fst Range_snd)

lemma closed_reach: "(u, v) \<in> (linked adj)\<^sup>* \<Longrightarrow> closed_in adj X \<Longrightarrow> u \<in> X \<Longrightarrow> v \<in> X"
  by (induction rule: rtrancl_induct) (auto simp: closed_in_def linked_def)

subsection \<open>The search\<close>

lemma search_extends:
  "\<exists>new. search adj stack seen component = (new @ seen, new @ component) \<and> distinct new \<and> set new \<inter> set seen = {} \<and>
     set stack \<subseteq> set new \<union> set seen \<and> set new \<subseteq> (linked adj)\<^sup>* `` set stack"
proof (induction adj stack seen component rule: search.induct)
  case (2 adj n stack seen component)
  show ?case
  proof (cases "n \<in> set seen")
    case True
    from 2(1) [OF True] obtain new where "search adj stack seen component = (new @ seen, new @ component)" "distinct new"
      "set new \<inter> set seen = {}" "set stack \<subseteq> set new \<union> set seen" "set new \<subseteq> (linked adj)\<^sup>* `` set stack" by blast
    with True show ?thesis by (intro exI [of _ new]) auto
  next
    case False
    from 2(2) [OF False] obtain new where
      new: "search adj (rev (neighbours adj n) @ stack) (n # seen) (n # component) = (new @ n # seen, new @ n # component)"
      "distinct new" "set new \<inter> set (n # seen) = {}"
      "set (rev (neighbours adj n) @ stack) \<subseteq> set new \<union> set (n # seen)"
      "set new \<subseteq> (linked adj)\<^sup>* `` set (rev (neighbours adj n) @ stack)" by blast
    have step: "(linked adj)\<^sup>* `` set (neighbours adj n) \<subseteq> (linked adj)\<^sup>* `` {n}"
      by (auto simp: linked_def intro: converse_rtrancl_into_rtrancl)
    with new(5) have reach: "set new \<subseteq> (linked adj)\<^sup>* `` set (n # stack)" by (fastforce simp: Image_Un)
    have "search adj (n # stack) seen component = ((new @ [n]) @ seen, (new @ [n]) @ component)" using False new(1) by simp
    moreover have "distinct (new @ [n]) \<and> set (new @ [n]) \<inter> set seen = {} \<and> set (n # stack) \<subseteq> set (new @ [n]) \<union> set seen"
      using new(2-4) False by auto
    moreover have "set (new @ [n]) \<subseteq> (linked adj)\<^sup>* `` set (n # stack)" using reach by auto
    ultimately show ?thesis by blast
  qed
qed simp

lemma search_closes:
  "(\<forall>u \<in> set seen. set (neighbours adj u) \<subseteq> set seen \<union> set stack) \<Longrightarrow>
     closed_in adj (set (fst (search adj stack seen component)))"
proof (induction adj stack seen component rule: search.induct)
  case (2 adj n stack seen component)
  show ?case
  proof (cases "n \<in> set seen")
    case True
    with 2(1) [OF True] 2(3) show ?thesis by auto
  next
    case False
    with 2(2) [OF False] 2(3) show ?thesis by auto
  qed
qed (simp add: closed_in_def)

lemma search_component:
  assumes "sym (linked adj)" "closed_in adj (set seen)" "root \<notin> set seen"
  obtains component where "search adj [root] seen [] = (component @ seen, component)" "distinct component"
    "set component = (linked adj)\<^sup>* `` {root}" "set component \<inter> set seen = {}" "closed_in adj (set (component @ seen))"
proof -
  obtain new where new: "search adj [root] seen [] = (new @ seen, new)" "distinct new" "set new \<inter> set seen = {}"
    "root \<in> set new \<union> set seen" "set new \<subseteq> (linked adj)\<^sup>* `` {root}"
    using search_extends [of adj "[root]" seen "[]"] by auto
  have closed: "closed_in adj (set (new @ seen))"
    using search_closes [of seen adj "[root]" "[]"] assms(2) new(1) by (auto simp: closed_in_def)
  have "(linked adj)\<^sup>* `` {root} \<subseteq> set new"
  proof
    fix v assume v: "v \<in> (linked adj)\<^sup>* `` {root}"
    with closed new(4) have "v \<in> set new \<union> set seen" using closed_reach [of root v adj "set (new @ seen)"] by auto
    moreover have "v \<notin> set seen"
    proof
      assume "v \<in> set seen"
      moreover have "(v, root) \<in> (linked adj)\<^sup>*" using v assms(1) by (auto dest: sym_rtrancl symD)
      ultimately show False using closed_reach assms(2,3) by metis
    qed
    ultimately show "v \<in> set new" by blast
  qed
  with new closed that show thesis by blast
qed

lemma collect_components:
  assumes "sym (linked adj)" "closed_in adj (set seen)"
  shows "distinct (concat (collect adj roots seen)) \<and> set (concat (collect adj roots seen)) \<inter> set seen = {} \<and>
    set roots \<subseteq> set (concat (collect adj roots seen)) \<union> set seen \<and>
    (\<forall>c \<in> set (collect adj roots seen). sorted c \<and> (\<exists>root \<in> set roots. set c = (linked adj)\<^sup>* `` {root}))"
  using assms(2)
proof (induction roots arbitrary: seen)
  case (Cons root roots)
  show ?case
  proof (cases "root \<in> set seen")
    case True
    with Cons.IH [OF Cons.prems] show ?thesis by auto
  next
    case False
    obtain c where c: "search adj [root] seen [] = (c @ seen, c)" "distinct c" "set c = (linked adj)\<^sup>* `` {root}"
      "set c \<inter> set seen = {}" "closed_in adj (set (c @ seen))"
      by (rule search_component [OF assms(1) Cons.prems False])
    have unfold: "collect adj (root # roots) seen = sort c # collect adj roots (c @ seen)" using False c(1) by simp
    have "root \<in> set c" using c(3) by auto
    with Cons.IH [OF c(5)] c(2-4) show ?thesis unfolding unfold by auto
  qed
qed simp

subsection \<open>The components\<close>

lemma components_partition:
  "set (concat (conflict_components conflicts)) = Field (set conflicts) \<and>
   distinct (concat (conflict_components conflicts)) \<and>
   (\<forall>c \<in> set (conflict_components conflicts). sorted c \<and> c \<noteq> [] \<and>
      (\<forall>u \<in> set c. set c = (set conflicts \<union> (set conflicts)\<inverse>)\<^sup>* `` {u}))"
proof -
  let ?adj = "adjacency_of conflicts" and ?E = "set conflicts \<union> (set conflicts)\<inverse>"
  have sym: "sym (linked ?adj)" unfolding linked_adjacency by (auto simp: sym_def)
  have "closed_in ?adj (set [])" by (simp add: closed_in_def)
  note found = collect_components [OF sym this, of "sort (map fst ?adj)",
      unfolded linked_adjacency, folded conflict_components_def [unfolded Let_def]]
  have classes: "sorted c \<and> c \<noteq> [] \<and> (\<forall>u \<in> set c. set c = ?E\<^sup>* `` {u})" if "c \<in> set (conflict_components conflicts)" for c
  proof -
    from found that obtain root where c: "sorted c" "set c = ?E\<^sup>* `` {root}" by blast
    have "?E\<^sup>* `` {root} = ?E\<^sup>* `` {u}" if "(root, u) \<in> ?E\<^sup>*" for u
    proof -
      have "(u, root) \<in> ?E\<^sup>*" using that sym_rtrancl [OF sym] by (auto simp: linked_adjacency dest: symD)
      with that show ?thesis by (auto intro: rtrancl_trans)
    qed
    from c(2) have "root \<in> set c" by auto
    then have "c \<noteq> []" by auto
    with c show ?thesis using \<open>\<And>u. (root, u) \<in> ?E\<^sup>* \<Longrightarrow> ?E\<^sup>* `` {root} = ?E\<^sup>* `` {u}\<close> by auto
  qed
  have field: "set (concat (conflict_components conflicts)) = Field (set conflicts)"
  proof
    show "Field (set conflicts) \<subseteq> set (concat (conflict_components conflicts))"
      using found by (auto simp: adjacency_keys [symmetric])
    show "set (concat (conflict_components conflicts)) \<subseteq> Field (set conflicts)"
    proof
      fix v assume "v \<in> set (concat (conflict_components conflicts))"
      then obtain c where "c \<in> set (conflict_components conflicts)" "v \<in> set c" by auto
      with found obtain root where root: "root \<in> set (map fst ?adj)" "(root, v) \<in> ?E\<^sup>*" by (metis Image_singleton_iff set_sort)
      then have "root \<in> Field (set conflicts)" by (simp add: adjacency_keys)
      with root(2) show "v \<in> Field (set conflicts)"
        by (induction rule: rtrancl_induct) (auto simp: Field_def)
    qed
  qed
  show ?thesis using field found classes by blast
qed

text \<open>C24. Conflict components: the search returns the connected components of the conflict graph.  The
  candidates that occur in a conflict are exactly the members, no candidate is in two components or twice
  in one, every component is sorted, and two members are in the same component exactly if a chain of
  conflicts connects them.\<close>

theorem conflict_components_exact:
  "set (concat (conflict_components conflicts)) = Field (set conflicts) \<and>
   distinct (concat (conflict_components conflicts)) \<and>
   (\<forall>c \<in> set (conflict_components conflicts). sorted c \<and>
      (\<forall>u \<in> set c. set c = (set conflicts \<union> (set conflicts)\<inverse>)\<^sup>* `` {u}))"
  using components_partition [of conflicts] by blast

theorem conflict_components_exact_witness:
  "conflict_components [(''a'', ''b''), (''d'', ''e''), (''b'', ''c'')] = [[''a'', ''b'', ''c''], [''d'', ''e'']] \<and>
   distinct (concat (conflict_components [(''a'', ''b''), (''d'', ''e''), (''b'', ''c'')]))"
proof
  show "conflict_components [(''a'', ''b''), (''d'', ''e''), (''b'', ''c'')] = [[''a'', ''b'', ''c''], [''d'', ''e'']]"
    by code_simp
  show "distinct (concat (conflict_components [(''a'', ''b''), (''d'', ''e''), (''b'', ''c'')]))"
    using conflict_components_exact [of "[(''a'', ''b''), (''d'', ''e''), (''b'', ''c'')]"] by blast
qed

end
