(* ===== verification/AuthorityReconciliation.thy ===== *)
theory AuthorityReconciliation
  imports ConflictComponents JsonValues Sha256 HashChain
begin

section \<open>Reconciliation of external authority\<close>

text \<open>
  \<open>galia2/authority_reconciliation.py\<close>: authority candidates are validated by their sealed digest, every
  pair is compared, the pairs in conflict form components, and a component is resolved only by an
  explicit human decision bound to the digests of the candidate set and of the component.

  Candidates and decisions are JSON objects.  Candidate ids are texts: the code compares, sorts and
  hashes them, and another type of id is refused here with \<open>TypeError\<close>, which is what the code does
  with mixed or unhashable ids.
\<close>

subsection \<open>Candidates\<close>

definition F22_SCHEMA :: string where
  "F22_SCHEMA = ''GALIA-F22-RECONCILIATION/2''"

definition DECISION_SCHEMA :: string where
  "DECISION_SCHEMA = ''GALIA-F22-HUMAN-DECISION/1''"

definition f22_hash :: "json \<Rightarrow> string" where
  \<comment> \<open>\<open>_hash\<close>: the digest of the canonical text and a newline\<close>
  "f22_hash v = sha256 (dumps v @ [newline])"

definition is_hash :: "json \<Rightarrow> bool" where
  "is_hash v \<longleftrightarrow> (case v of JStr s \<Rightarrow> hex64 s | _ \<Rightarrow> False)"

definition utc_time :: "json \<Rightarrow> datetime res" where
  \<comment> \<open>\<open>_dt\<close>; the offset is zero after the replacement, so \<open>astimezone\<close> changes nothing\<close>
  "utc_time v =
     (case v of
        JStr s \<Rightarrow>
          if s = [] \<or> last s \<noteq> CHR ''Z'' then Inl (ValueError ''UTC timestamp required'')
          else (case fromisoformat (butlast s @ ''+00:00'') of
                  None \<Rightarrow> Inl (ValueError ''Invalid isoformat string'') | Some d \<Rightarrow> Inr d)
      | _ \<Rightarrow> Inl (ValueError ''UTC timestamp required''))"

definition time_key :: "datetime \<Rightarrow> nat list" where
  \<comment> \<open>the order of UTC timestamps\<close>
  "time_key d = [dt_year d, dt_month d, dt_day d, dt_hour d, dt_minute d, dt_second d, dt_micro d]"

definition end_of_time :: "nat list" where
  \<comment> \<open>\<open>datetime.max\<close>\<close>
  "end_of_time = [9999, 12, 31, 23, 59, 59, 999999]"

definition required_fields :: "string list" where
  "required_fields =
     [''candidate_id'', ''provider_id'', ''scope'', ''key_id'', ''key_sha256'', ''source_artifact_sha256'',
      ''lineage_sha256'', ''valid_from_utc'', ''authority_assertion'']"

fun check_all :: "('a \<Rightarrow> bool) \<Rightarrow> ('a \<Rightarrow> pyexc) \<Rightarrow> 'a list \<Rightarrow> unit res" where
  \<comment> \<open>a loop that raises at the first element that fails the test\<close>
  "check_all ok e [] = Inr ()"
| "check_all ok e (x # xs) = (if ok x then check_all ok e xs else Inl (e x))"

definition check_assertion :: "json \<Rightarrow> unit res" where
  "check_assertion v =
     (case v of
        JList _ \<Rightarrow> Inl (TypeError ''unhashable type'')
      | JObj _ \<Rightarrow> Inl (TypeError ''unhashable type'')
      | _ \<Rightarrow> raise_if (v \<notin> {JStr ''ACTIVE'', JStr ''REVOKED''}) (ValueError ''invalid authority_assertion''))"

definition valid_until :: "row \<Rightarrow> datetime option res" where
  "valid_until c =
     (if truthy (jget c ''valid_until_utc'') then bindE (utc_time (jget c ''valid_until_utc'')) (\<lambda>d. Inr (Some d))
      else Inr None)"

definition core_row :: "row \<Rightarrow> row" where
  "core_row c =
     map (\<lambda>k. (k, jget c k))
       (filter (\<lambda>k. k \<noteq> ''candidate_sha256'') (sort (dedup (map fst c @ [''valid_until_utc'']))))"

definition candidate_core :: "row \<Rightarrow> row res" where
  "candidate_core c =
     bindE (check_all (\<lambda>k. truthy (jget c k)) (\<lambda>k. ValueError (''candidate missing '' @ k)) required_fields) (\<lambda>_.
     bindE (check_all (\<lambda>k. is_hash (jget c k)) (\<lambda>k. ValueError (k @ '' malformed''))
              [''key_sha256'', ''source_artifact_sha256'', ''lineage_sha256'']) (\<lambda>_.
     bindE (check_assertion (jget c ''authority_assertion'')) (\<lambda>_.
     bindE (utc_time (jget c ''valid_from_utc'')) (\<lambda>start.
     bindE (valid_until c) (\<lambda>end_at.
     bindE (raise_if (case end_at of None \<Rightarrow> False | Some e \<Rightarrow> time_key e \<le> time_key start)
              (ValueError ''invalid authority interval'')) (\<lambda>_.
     Inr (core_row c)))))))"

definition put_field :: "string \<Rightarrow> json \<Rightarrow> row \<Rightarrow> row" where
  \<comment> \<open>\<open>r = dict(c); r[k] = v\<close>\<close>
  "put_field k v c = obj_put k v c"

definition seal_candidate :: "row \<Rightarrow> row res" where
  "seal_candidate c =
     bindE (candidate_core c) (\<lambda>core. Inr (put_field ''candidate_sha256'' (JStr (f22_hash (JObj core))) c))"

definition validate_candidate :: "row \<Rightarrow> unit res" where
  "validate_candidate c =
     (if \<not> is_hash (jget c ''candidate_sha256'') then Inl (ValueError ''candidate hash mismatch'')
      else bindE (candidate_core c) (\<lambda>core.
           raise_if (jget c ''candidate_sha256'' \<noteq> JStr (f22_hash (JObj core))) (ValueError ''candidate hash mismatch'')))"

subsection \<open>Pairs\<close>

definition same_scope :: "row \<Rightarrow> row \<Rightarrow> bool" where
  "same_scope a b \<longleftrightarrow>
     json_eq (jget a ''provider_id'') (jget b ''provider_id'') \<and> json_eq (jget a ''scope'') (jget b ''scope'')"

definition overlaps :: "row \<Rightarrow> row \<Rightarrow> bool res" where
  "overlaps a b =
     (if \<not> same_scope a b then Inr False
      else
        bindE (valid_until a) (\<lambda>a1.
        bindE (valid_until b) (\<lambda>b1.
        bindE (utc_time (jget a ''valid_from_utc'')) (\<lambda>a0.
        bindE (utc_time (jget b ''valid_from_utc'')) (\<lambda>b0.
        let until = (\<lambda>e. case e of None \<Rightarrow> end_of_time | Some d \<Rightarrow> time_key d) in
        Inr (max (time_key a0) (time_key b0) < min (until a1) (until b1)))))))"

datatype pair_kind = Compatible | Corroborated | Conflicting

definition compare_pair :: "row \<Rightarrow> row \<Rightarrow> pair_kind res" where
  "compare_pair a b =
     (if \<not> same_scope a b then Inr Compatible
      else bindE (overlaps a b) (\<lambda>o'.
        Inr (if \<not> o' then Compatible
             else if json_eq (jget a ''key_id'') (jget b ''key_id'') \<and> json_eq (jget a ''key_sha256'') (jget b ''key_sha256'') \<and>
                     json_eq (jget a ''authority_assertion'') (jget b ''authority_assertion'')
             then Corroborated else Conflicting)))"

fun pairs :: "'a list \<Rightarrow> ('a \<times> 'a) list" where
  \<comment> \<open>every element with every later one\<close>
  "pairs [] = []"
| "pairs (x # xs) = map (Pair x) xs @ pairs xs"

definition candidate_id :: "row \<Rightarrow> string" where
  "candidate_id c = as_str (jget c ''candidate_id'')"

definition compare_pairs :: "row list \<Rightarrow> ((string \<times> string) \<times> pair_kind) list res" where
  "compare_pairs cs = mapE (\<lambda>(a, b). bindE (compare_pair a b) (\<lambda>k. Inr ((candidate_id a, candidate_id b), k))) (pairs cs)"

definition of_kind :: "pair_kind \<Rightarrow> ((string \<times> string) \<times> pair_kind) list \<Rightarrow> (string \<times> string) list" where
  "of_kind k ps = map fst (filter (\<lambda>p. snd p = k) ps)"

definition candidate_set_json :: "row list \<Rightarrow> json" where
  "candidate_set_json cs =
     JList (map (\<lambda>c. JObj [(''candidate_id'', jget c ''candidate_id''), (''candidate_sha256'', jget c ''candidate_sha256'')])
              (sort_key candidate_id cs))"

definition candidate_set_hash :: "row list \<Rightarrow> string" where
  "candidate_set_hash cs = f22_hash (candidate_set_json cs)"

definition conflict_component_hash :: "string list \<Rightarrow> row list \<Rightarrow> string" where
  "conflict_component_hash component cs = candidate_set_hash (filter (\<lambda>c. candidate_id c \<in> set component) cs)"

subsection \<open>Components and the decision\<close>

record component_record =
  co_candidate_ids :: "string list"
  co_sha256 :: string
  co_authority_state :: string

definition component_records :: "(string \<times> string) list \<Rightarrow> row list \<Rightarrow> component_record list" where
  "component_records conflicts cs =
     map (\<lambda>comp. \<lparr>co_candidate_ids = comp, co_sha256 = conflict_component_hash comp cs,
                  co_authority_state = ''AUTHORITY_UNRESOLVED''\<rparr>) (conflict_components conflicts)"

definition without_field :: "string \<Rightarrow> row \<Rightarrow> row" where
  "without_field k d = filter (\<lambda>kv. fst kv \<noteq> k) d"

definition decision_target ::
  "row \<Rightarrow> string \<Rightarrow> string list \<Rightarrow> component_record list \<Rightarrow> (string \<times> component_record) res" where
  \<comment> \<open>the checks of a human decision: the selected candidate and the component it resolves\<close>
  "decision_target d set_hash ids records =
     bindE (raise_if (jget d ''schema_version'' \<noteq> JStr DECISION_SCHEMA) (ValueError ''decision schema mismatch'')) (\<lambda>_.
     bindE (raise_if (jget d ''candidate_set_sha256'' \<noteq> JStr set_hash) (ValueError ''decision candidate set mismatch'')) (\<lambda>_.
     case jget d ''selected_candidate_id'' of
       JStr selected \<Rightarrow>
         bindE (raise_if (selected \<notin> set ids) (ValueError ''selected candidate absent'')) (\<lambda>_.
         case filter (\<lambda>r. JStr (co_sha256 r) = jget d ''conflict_component_sha256'') records of
           [r] \<Rightarrow>
             bindE (raise_if (selected \<notin> set (co_candidate_ids r)) (ValueError ''selected candidate outside conflict component'')) (\<lambda>_.
             bindE (raise_if (jget d ''decision'' \<noteq> JStr ''SELECT_AUTHORITY'') (ValueError ''explicit SELECT_AUTHORITY required'')) (\<lambda>_.
             bindE (raise_if (\<not> is_hash (jget d ''decision_sha256'')) (ValueError ''decision_sha256 malformed'')) (\<lambda>_.
             bindE (raise_if (jget d ''decision_sha256'' \<noteq> JStr (f22_hash (JObj (without_field ''decision_sha256'' d))))
                      (ValueError ''decision self-hash mismatch'')) (\<lambda>_.
             Inr (selected, r)))))
         | _ \<Rightarrow> Inl (ValueError ''decision conflict component mismatch''))
     | _ \<Rightarrow> Inl (ValueError ''selected candidate absent'')))"

definition reconciled_state :: string where
  "reconciled_state = ''RECONCILED_BY_EXPLICIT_HUMAN_DECISION''"

definition resolve_component :: "component_record \<Rightarrow> component_record list \<Rightarrow> component_record list" where
  \<comment> \<open>\<open>matching[0]["authority_state"] = ...\<close>\<close>
  "resolve_component r records =
     map (\<lambda>q. if co_sha256 q = co_sha256 r then q\<lparr>co_authority_state := reconciled_state\<rparr> else q) records"

definition id_pairs :: "(string \<times> string) list \<Rightarrow> json" where
  "id_pairs ps = JList (map (\<lambda>(a, b). JList [JStr a, JStr b]) ps)"

definition component_json :: "component_record \<Rightarrow> json" where
  "component_json r =
     JObj [(''candidate_ids'', JList (map JStr (co_candidate_ids r))), (''component_sha256'', JStr (co_sha256 r)),
           (''authority_state'', JStr (co_authority_state r))]"

definition F22_INVARIANTS :: "string list" where
  "F22_INVARIANTS =
     [''NO_AUTOMATIC_WINNER'', ''RECENCY_IS_NOT_AUTHORITY'', ''MAJORITY_IS_NOT_AUTHORITY'',
      ''SIGNATURE_VALID_IS_NOT_KEY_AUTHORITY'', ''F22_EXTERNAL_AUTHORITY_IS_NOT_GALIA_MASTER_AUTHORITY'',
      ''REJECTED_CANDIDATES_REMAIN_PRESERVED'', ''CONFLICT_HISTORY_PERSISTS_AFTER_RECONCILIATION'']"

definition reconciliation_body ::
  "row list \<Rightarrow> ((string \<times> string) \<times> pair_kind) list \<Rightarrow> string \<Rightarrow> string option \<Rightarrow> component_record list \<Rightarrow>
     string option \<Rightarrow> string option \<Rightarrow> row" where
  "reconciliation_body cs ps authority_state action_required records selected reconciled =
     [(''schema_version'', JStr F22_SCHEMA), (''control_id'', JStr ''GALIA-F22''),
      (''conflict_state'', if of_kind Conflicting ps \<noteq> [] then JStr ''CONFLICT_DETECTED'' else JNull),
      (''authority_state'', JStr authority_state), (''action_required'', opt_str action_required),
      (''candidate_set_sha256'', JStr (candidate_set_hash cs)),
      (''candidate_ids'', JList (map JStr (sort (map candidate_id cs)))),
      (''candidate_hashes'', JObj (map (\<lambda>c. (candidate_id c, jget c ''candidate_sha256'')) cs)),
      (''conflicts'', id_pairs (of_kind Conflicting ps)),
      (''conflict_components'', JList (map component_json records)),
      (''same_key_corroborations'', id_pairs (of_kind Corroborated ps)),
      (''compatible_pairs'', id_pairs (of_kind Compatible ps)),
      (''selected_candidate_id'', opt_str selected), (''reconciled_component_sha256'', opt_str reconciled),
      (''preserved_candidates'', JList (map JObj cs)), (''canonical_effect'', JStr ''NONE''),
      (''master_promotion_state'', JStr ''AUTHORITY_HOLD''), (''byte_identity_effect'', JStr ''NONE''),
      (''f5_effect'', JStr ''NONE''), (''invariants'', JList (map JStr F22_INVARIANTS))]"

definition seal_reconciliation :: "row \<Rightarrow> row" where
  "seal_reconciliation body = body @ [(''reconciliation_sha256'', JStr (f22_hash (JObj body)))]"

definition id_text :: "row \<Rightarrow> unit res" where
  "id_text c = raise_if (case jget c ''candidate_id'' of JStr _ \<Rightarrow> False | _ \<Rightarrow> True) (TypeError ''candidate ids are texts'')"

definition compared_candidates :: "row list \<Rightarrow> ((string \<times> string) \<times> pair_kind) list res" where
  \<comment> \<open>the validation of the candidates and the comparison of all pairs\<close>
  "compared_candidates cs =
     bindE (raise_if (length cs < 2) (ValueError ''F22 requires >=2 candidates'')) (\<lambda>_.
     bindE (mapE validate_candidate cs) (\<lambda>_.
     bindE (mapE id_text cs) (\<lambda>_.
     bindE (raise_if (\<not> distinct (map candidate_id cs)) (ValueError ''duplicate candidate_id'')) (\<lambda>_.
     compare_pairs cs))))"

definition reconcile :: "row list \<Rightarrow> row option \<Rightarrow> row res" where
  "reconcile cs decision =
     bindE (compared_candidates cs) (\<lambda>ps.
     let conflicts = of_kind Conflicting ps; records = component_records conflicts cs in
     case decision of
       None \<Rightarrow>
         Inr (seal_reconciliation (reconciliation_body cs ps
           (if conflicts \<noteq> [] then ''AUTHORITY_UNRESOLVED''
            else if of_kind Corroborated ps \<noteq> [] then ''SAME_KEY_CORROBORATED'' else ''NON_OVERLAPPING_COMPATIBLE'')
           (if conflicts \<noteq> [] then Some ''HUMAN_SELECTION_REQUIRED'' else None) records None None))
     | Some d \<Rightarrow>
         bindE (raise_if (conflicts = []) (ValueError ''human selection only valid for unresolved conflict'')) (\<lambda>_.
         bindE (decision_target d (candidate_set_hash cs) (map candidate_id cs) records) (\<lambda>(selected, r).
         let records' = resolve_component r records;
             unresolved = list_ex (\<lambda>q. co_authority_state q = ''AUTHORITY_UNRESOLVED'') records' in
         Inr (seal_reconciliation (reconciliation_body cs ps
           (if unresolved then ''AUTHORITY_UNRESOLVED'' else reconciled_state)
           (if unresolved then Some ''HUMAN_SELECTION_REQUIRED'' else None)
           records' (Some selected) (Some (co_sha256 r)))))))"

definition decision_row :: "row list \<Rightarrow> string \<Rightarrow> string \<Rightarrow> string \<Rightarrow> row" where
  "decision_row cs selected review component =
     (let core = [(''schema_version'', JStr DECISION_SCHEMA), (''decision'', JStr ''SELECT_AUTHORITY''),
                  (''review_id'', JStr review), (''candidate_set_sha256'', JStr (candidate_set_hash cs)),
                  (''conflict_component_sha256'', JStr component), (''selected_candidate_id'', JStr selected)]
      in core @ [(''decision_sha256'', JStr (f22_hash (JObj core)))])"

definition make_human_decision :: "row list \<Rightarrow> string \<Rightarrow> string \<Rightarrow> string option \<Rightarrow> row res" where
  "make_human_decision cs selected review component =
     bindE (compared_candidates cs) (\<lambda>ps.
     let records = filter (\<lambda>r. selected \<in> set (co_candidate_ids r)) (component_records (of_kind Conflicting ps) cs) in
     case component of
       Some h \<Rightarrow> Inr (decision_row cs selected review h)
     | None \<Rightarrow>
         (case records of
            [r] \<Rightarrow> Inr (decision_row cs selected review (co_sha256 r))
          | _ \<Rightarrow> Inl (ValueError ''selected candidate must identify exactly one conflict component'')))"

subsection \<open>A sealed candidate is valid\<close>

lemma jget_put_field: "jget (put_field k v c) k' = (if k = k' then v else jget c k')"
  unfolding put_field_def by (induction c) (auto simp: jget_def)

lemma keys_put_field: "fst ` set (put_field k v c) = insert k (fst ` set c)"
  unfolding put_field_def by (induction k v c rule: obj_put.induct) auto

lemma core_row_put_field: "core_row (put_field ''candidate_sha256'' v c) = core_row c"
proof -
  let ?keys = "\<lambda>c. filter (\<lambda>k. k \<noteq> ''candidate_sha256'') (sort (dedup (map fst (c :: row) @ [''valid_until_utc''])))"
  have "?keys (put_field ''candidate_sha256'' v c) = ?keys c"
  proof -
    have sorted: "sorted (?keys d)" and distinct: "distinct (?keys d)" for d
      by (simp_all only: filter_sort sorted_sort distinct_sort distinct_filter distinct_dedup)
    have "set (?keys d) = insert ''valid_until_utc'' (fst ` set d) - {''candidate_sha256''}" for d by auto
    then have "set (?keys (put_field ''candidate_sha256'' v c)) = set (?keys c)"
      by (simp only: keys_put_field) blast
    with sorted distinct show ?thesis by (intro sorted_distinct_set_unique)
  qed
  then show ?thesis unfolding core_row_def by (auto simp: jget_put_field intro!: map_cong)
qed

lemma check_all_cong: "(\<And>x. x \<in> set xs \<Longrightarrow> ok x = ok' x) \<Longrightarrow> check_all ok e xs = check_all ok' e xs"
  by (induction xs) auto

lemma candidate_core_put_field: "candidate_core (put_field ''candidate_sha256'' v c) = candidate_core c"
proof -
  have "check_all (\<lambda>k. truthy (jget (put_field ''candidate_sha256'' v c) k)) e required_fields =
      check_all (\<lambda>k. truthy (jget c k)) e required_fields" for e
    by (rule check_all_cong) (auto simp: required_fields_def jget_put_field)
  moreover have "check_all (\<lambda>k. is_hash (jget (put_field ''candidate_sha256'' v c) k)) e
        [''key_sha256'', ''source_artifact_sha256'', ''lineage_sha256''] =
      check_all (\<lambda>k. is_hash (jget c k)) e [''key_sha256'', ''source_artifact_sha256'', ''lineage_sha256'']" for e
    by (rule check_all_cong) (auto simp: jget_put_field)
  ultimately show ?thesis by (simp add: candidate_core_def valid_until_def jget_put_field core_row_put_field)
qed

lemma f22_hash_is_hash [simp]: "is_hash (JStr (f22_hash v))"
  by (simp add: is_hash_def f22_hash_def lower_hex64_hex64 sha256_lower_hex64)

lemma sealed_candidate_is_valid: "seal_candidate c = Inr r \<Longrightarrow> validate_candidate r = Inr ()"
  by (auto simp: seal_candidate_def bindE_Inr validate_candidate_def jget_put_field candidate_core_put_field raise_if_def)

subsection \<open>What a reconciliation says\<close>

lemma seal_lookup:
  "k \<noteq> ''reconciliation_sha256'' \<Longrightarrow> jget (seal_reconciliation b) k = jget b k"
  by (auto simp: seal_reconciliation_def jget_def map_add_def split: option.splits)

lemma body_lookup [simp]:
  "jget (reconciliation_body cs ps a q records s h) ''schema_version'' = JStr F22_SCHEMA"
  "jget (reconciliation_body cs ps a q records s h) ''conflict_state'' =
     (if of_kind Conflicting ps \<noteq> [] then JStr ''CONFLICT_DETECTED'' else JNull)"
  "jget (reconciliation_body cs ps a q records s h) ''authority_state'' = JStr a"
  "jget (reconciliation_body cs ps a q records s h) ''action_required'' = opt_str q"
  "jget (reconciliation_body cs ps a q records s h) ''candidate_set_sha256'' = JStr (candidate_set_hash cs)"
  "jget (reconciliation_body cs ps a q records s h) ''conflict_components'' = JList (map component_json records)"
  "jget (reconciliation_body cs ps a q records s h) ''selected_candidate_id'' = opt_str s"
  "jget (reconciliation_body cs ps a q records s h) ''reconciled_component_sha256'' = opt_str h"
  "jget (reconciliation_body cs ps a q records s h) ''preserved_candidates'' = JList (map JObj cs)"
  "jget (reconciliation_body cs ps a q records s h) ''canonical_effect'' = JStr ''NONE''"
  "jget (reconciliation_body cs ps a q records s h) ''master_promotion_state'' = JStr ''AUTHORITY_HOLD''"
  "jget (reconciliation_body cs ps a q records s h) ''byte_identity_effect'' = JStr ''NONE''"
  "jget (reconciliation_body cs ps a q records s h) ''f5_effect'' = JStr ''NONE''"
  by (simp_all add: reconciliation_body_def jget_def)

lemma filter_singleton:
  assumes "filter P xs = [y]"
  shows "y \<in> set xs \<and> P y \<and> (\<forall>x \<in> set xs. P x \<longrightarrow> x = y)"
proof -
  have "set (filter P xs) = {y}" by (simp add: assms)
  then show ?thesis unfolding set_filter by blast
qed

lemma decision_target_Inr:
  assumes "decision_target d set_hash ids records = Inr (selected, r)"
  shows "jget d ''schema_version'' = JStr DECISION_SCHEMA \<and> jget d ''candidate_set_sha256'' = JStr set_hash \<and>
    jget d ''selected_candidate_id'' = JStr selected \<and> selected \<in> set ids \<and> r \<in> set records \<and>
    jget d ''conflict_component_sha256'' = JStr (co_sha256 r) \<and>
    (\<forall>q \<in> set records. co_sha256 q = co_sha256 r \<longrightarrow> q = r) \<and> selected \<in> set (co_candidate_ids r) \<and>
    jget d ''decision'' = JStr ''SELECT_AUTHORITY'' \<and>
    jget d ''decision_sha256'' = JStr (f22_hash (JObj (without_field ''decision_sha256'' d)))"
proof -
  from assms have d: "jget d ''schema_version'' = JStr DECISION_SCHEMA" "jget d ''candidate_set_sha256'' = JStr set_hash"
    by (auto simp: decision_target_def bindE_Inr)
  from assms d obtain sel where sel: "jget d ''selected_candidate_id'' = JStr sel" "sel \<in> set ids"
    by (auto simp: decision_target_def bindE_Inr split: json.splits)
  from assms d sel obtain q where q: "filter (\<lambda>r. JStr (co_sha256 r) = jget d ''conflict_component_sha256'') records = [q]"
    by (auto simp: decision_target_def bindE_Inr split: list.splits)
  from assms d sel q have rest: "selected = sel" "q = r" "selected \<in> set (co_candidate_ids r)"
    "jget d ''decision'' = JStr ''SELECT_AUTHORITY''"
    "jget d ''decision_sha256'' = JStr (f22_hash (JObj (without_field ''decision_sha256'' d)))"
    by (auto simp: decision_target_def bindE_Inr)
  have "r \<in> set records \<and> JStr (co_sha256 r) = jget d ''conflict_component_sha256'' \<and>
      (\<forall>x \<in> set records. JStr (co_sha256 x) = jget d ''conflict_component_sha256'' \<longrightarrow> x = r)"
    using filter_singleton [OF q] rest(2) by blast
  with d sel rest show ?thesis by (metis json.inject(3))
qed

lemma decision_target_unique:
  assumes "decision_target d set_hash ids records = Inr (selected, r)"
  shows "filter (\<lambda>x. co_sha256 x = co_sha256 r) records = [r]"
proof -
  note t = decision_target_Inr [OF assms]
  from assms t obtain q where "filter (\<lambda>r. JStr (co_sha256 r) = jget d ''conflict_component_sha256'') records = [q]"
    by (auto simp: decision_target_def bindE_Inr split: list.splits)
  then have q: "filter (\<lambda>x. co_sha256 x = co_sha256 r) records = [q]" using t by simp
  moreover have "q = r" using filter_singleton [OF q] t by blast
  ultimately show ?thesis by simp
qed

lemma records_of: "r \<in> set (component_records conflicts cs) \<Longrightarrow>
   co_candidate_ids r \<in> set (conflict_components conflicts) \<and> co_sha256 r = conflict_component_hash (co_candidate_ids r) cs \<and>
   co_authority_state r = ''AUTHORITY_UNRESOLVED''"
  by (auto simp: component_records_def)

lemma reconcile_without_decision:
  assumes "reconcile cs None = Inr r"
  obtains ps where "compared_candidates cs = Inr ps"
    "r = seal_reconciliation (reconciliation_body cs ps
           (if of_kind Conflicting ps \<noteq> [] then ''AUTHORITY_UNRESOLVED''
            else if of_kind Corroborated ps \<noteq> [] then ''SAME_KEY_CORROBORATED'' else ''NON_OVERLAPPING_COMPATIBLE'')
           (if of_kind Conflicting ps \<noteq> [] then Some ''HUMAN_SELECTION_REQUIRED'' else None)
           (component_records (of_kind Conflicting ps) cs) None None)"
  using assms by (auto simp: reconcile_def bindE_Inr Let_def)

lemma reconcile_with_decision:
  assumes "reconcile cs (Some d) = Inr r"
  obtains ps selected q where "compared_candidates cs = Inr ps" "of_kind Conflicting ps \<noteq> []"
    "decision_target d (candidate_set_hash cs) (map candidate_id cs) (component_records (of_kind Conflicting ps) cs) = Inr (selected, q)"
    "r = (let records' = resolve_component q (component_records (of_kind Conflicting ps) cs);
              unresolved = list_ex (\<lambda>q. co_authority_state q = ''AUTHORITY_UNRESOLVED'') records' in
          seal_reconciliation (reconciliation_body cs ps (if unresolved then ''AUTHORITY_UNRESOLVED'' else reconciled_state)
            (if unresolved then Some ''HUMAN_SELECTION_REQUIRED'' else None) records' (Some selected) (Some (co_sha256 q))))"
  using assms by (auto simp: reconcile_def bindE_Inr Let_def)

lemma unresolved_others:
  assumes "q \<in> set (component_records conflicts cs)"
    "\<forall>x \<in> set (component_records conflicts cs). co_sha256 x = co_sha256 q \<longrightarrow> x = q"
  shows "list_ex (\<lambda>x. co_authority_state x = ''AUTHORITY_UNRESOLVED'') (resolve_component q (component_records conflicts cs))
    \<longleftrightarrow> (\<exists>c \<in> set (conflict_components conflicts). c \<noteq> co_candidate_ids q)"
proof -
  have "list_ex (\<lambda>x. co_authority_state x = ''AUTHORITY_UNRESOLVED'') (resolve_component q (component_records conflicts cs))
    \<longleftrightarrow> (\<exists>x \<in> set (component_records conflicts cs). co_sha256 x \<noteq> co_sha256 q)"
    by (auto simp: resolve_component_def list_ex_iff reconciled_state_def dest: records_of)
  also have "\<dots> \<longleftrightarrow> (\<exists>x \<in> set (component_records conflicts cs). x \<noteq> q)" using assms(2) by auto
  also have "\<dots> \<longleftrightarrow> (\<exists>c \<in> set (conflict_components conflicts). c \<noteq> co_candidate_ids q)"
    using assms(1) by (auto simp: component_records_def)
  finally show ?thesis .
qed

lemma reconciliation_says:
  assumes "reconcile cs decision = Inr r"
  shows "jget r ''preserved_candidates'' = JList (map JObj cs) \<and> jget r ''canonical_effect'' = JStr ''NONE'' \<and>
    jget r ''master_promotion_state'' = JStr ''AUTHORITY_HOLD'' \<and>
    (\<exists>ps. compared_candidates cs = Inr ps \<and>
      (case decision of
         None \<Rightarrow> jget r ''selected_candidate_id'' = JNull \<and>
           (of_kind Conflicting ps \<noteq> [] \<longrightarrow> jget r ''authority_state'' = JStr ''AUTHORITY_UNRESOLVED'' \<and>
              jget r ''action_required'' = JStr ''HUMAN_SELECTION_REQUIRED'')
       | Some d \<Rightarrow>
           (\<exists>selected component. component \<in> set (conflict_components (of_kind Conflicting ps)) \<and> selected \<in> set component \<and>
              jget r ''selected_candidate_id'' = JStr selected \<and> jget d ''selected_candidate_id'' = JStr selected \<and>
              jget d ''decision'' = JStr ''SELECT_AUTHORITY'' \<and>
              jget d ''candidate_set_sha256'' = JStr (candidate_set_hash cs) \<and>
              jget d ''conflict_component_sha256'' = JStr (conflict_component_hash component cs) \<and>
              jget d ''decision_sha256'' = JStr (f22_hash (JObj (without_field ''decision_sha256'' d))) \<and>
              jget r ''authority_state'' =
                JStr (if \<exists>c \<in> set (conflict_components (of_kind Conflicting ps)). c \<noteq> component
                      then ''AUTHORITY_UNRESOLVED'' else reconciled_state))))"
proof (cases decision)
  case None
  with assms obtain ps where "compared_candidates cs = Inr ps"
    "r = seal_reconciliation (reconciliation_body cs ps
           (if of_kind Conflicting ps \<noteq> [] then ''AUTHORITY_UNRESOLVED''
            else if of_kind Corroborated ps \<noteq> [] then ''SAME_KEY_CORROBORATED'' else ''NON_OVERLAPPING_COMPATIBLE'')
           (if of_kind Conflicting ps \<noteq> [] then Some ''HUMAN_SELECTION_REQUIRED'' else None)
           (component_records (of_kind Conflicting ps) cs) None None)"
    using reconcile_without_decision by blast
  with None show ?thesis by (simp add: seal_lookup)
next
  case (Some d)
  obtain ps selected q where ps: "compared_candidates cs = Inr ps"
    and target: "decision_target d (candidate_set_hash cs) (map candidate_id cs) (component_records (of_kind Conflicting ps) cs) = Inr (selected, q)"
    and r: "r = (let records' = resolve_component q (component_records (of_kind Conflicting ps) cs);
              unresolved = list_ex (\<lambda>q. co_authority_state q = ''AUTHORITY_UNRESOLVED'') records' in
          seal_reconciliation (reconciliation_body cs ps (if unresolved then ''AUTHORITY_UNRESOLVED'' else reconciled_state)
            (if unresolved then Some ''HUMAN_SELECTION_REQUIRED'' else None) records' (Some selected) (Some (co_sha256 q))))"
    using assms reconcile_with_decision unfolding Some by blast
  note t = decision_target_Inr [OF target]
  have q: "q \<in> set (component_records (of_kind Conflicting ps) cs)" using t by blast
  note rec = records_of [OF q]
  have open_iff: "list_ex (\<lambda>x. co_authority_state x = ''AUTHORITY_UNRESOLVED'') (resolve_component q (component_records (of_kind Conflicting ps) cs))
    \<longleftrightarrow> (\<exists>c \<in> set (conflict_components (of_kind Conflicting ps)). c \<noteq> co_candidate_ids q)"
    by (rule unresolved_others [OF q]) (use t in blast)
  have fields: "jget r ''preserved_candidates'' = JList (map JObj cs)" "jget r ''canonical_effect'' = JStr ''NONE''"
    "jget r ''master_promotion_state'' = JStr ''AUTHORITY_HOLD''" "jget r ''selected_candidate_id'' = JStr selected"
    "jget r ''authority_state'' = JStr (if \<exists>c \<in> set (conflict_components (of_kind Conflicting ps)). c \<noteq> co_candidate_ids q
                      then ''AUTHORITY_UNRESOLVED'' else reconciled_state)"
    unfolding r Let_def open_iff by (simp_all add: seal_lookup)
  have "\<exists>selected component. component \<in> set (conflict_components (of_kind Conflicting ps)) \<and> selected \<in> set component \<and>
              jget r ''selected_candidate_id'' = JStr selected \<and> jget d ''selected_candidate_id'' = JStr selected \<and>
              jget d ''decision'' = JStr ''SELECT_AUTHORITY'' \<and>
              jget d ''candidate_set_sha256'' = JStr (candidate_set_hash cs) \<and>
              jget d ''conflict_component_sha256'' = JStr (conflict_component_hash component cs) \<and>
              jget d ''decision_sha256'' = JStr (f22_hash (JObj (without_field ''decision_sha256'' d))) \<and>
              jget r ''authority_state'' =
                JStr (if \<exists>c \<in> set (conflict_components (of_kind Conflicting ps)). c \<noteq> component
                      then ''AUTHORITY_UNRESOLVED'' else reconciled_state)"
    by (intro exI [of _ selected] exI [of _ "co_candidate_ids q"]) (use t rec fields in \<open>simp\<close>)
  with fields ps Some show ?thesis by simp
qed

text \<open>C25. Authority reconciliation: no candidate wins by itself.  Every candidate is preserved, nothing becomes
  canonical and the master stays on hold.  Without a human decision nothing is selected and a conflict
  stays unresolved.  With one, the selected candidate is a member of one conflict component, the decision
  is an explicit selection bound by digest to this candidate set and this component, and the authority is
  reported reconciled exactly if no other component is in conflict.\<close>

theorem no_automatic_winner:
  assumes "reconcile cs decision = Inr r"
  shows "jget r ''preserved_candidates'' = JList (map JObj cs) \<and> jget r ''canonical_effect'' = JStr ''NONE'' \<and>
    jget r ''master_promotion_state'' = JStr ''AUTHORITY_HOLD'' \<and>
    (\<exists>ps. compared_candidates cs = Inr ps \<and>
      (case decision of
         None \<Rightarrow> jget r ''selected_candidate_id'' = JNull \<and>
           (of_kind Conflicting ps \<noteq> [] \<longrightarrow> jget r ''authority_state'' = JStr ''AUTHORITY_UNRESOLVED'' \<and>
              jget r ''action_required'' = JStr ''HUMAN_SELECTION_REQUIRED'')
       | Some d \<Rightarrow>
           (\<exists>selected component. component \<in> set (conflict_components (of_kind Conflicting ps)) \<and> selected \<in> set component \<and>
              jget r ''selected_candidate_id'' = JStr selected \<and> jget d ''selected_candidate_id'' = JStr selected \<and>
              jget d ''decision'' = JStr ''SELECT_AUTHORITY'' \<and>
              jget d ''candidate_set_sha256'' = JStr (candidate_set_hash cs) \<and>
              jget d ''conflict_component_sha256'' = JStr (conflict_component_hash component cs) \<and>
              jget d ''decision_sha256'' = JStr (f22_hash (JObj (without_field ''decision_sha256'' d))) \<and>
              jget r ''authority_state'' =
                JStr (if \<exists>c \<in> set (conflict_components (of_kind Conflicting ps)). c \<noteq> component
                      then ''AUTHORITY_UNRESOLVED'' else reconciled_state))))"
  using assms by (rule reconciliation_says)

subsection \<open>A decision that is made is accepted\<close>

definition component_text :: "row list \<Rightarrow> string list \<Rightarrow> string" where
  \<comment> \<open>the text whose digest identifies a component\<close>
  "component_text cs component = dumps (candidate_set_json (filter (\<lambda>c. candidate_id c \<in> set component) cs)) @ [newline]"

definition sealed :: "row \<Rightarrow> bool" where
  "sealed c \<longleftrightarrow> (\<exists>i h. jget c ''candidate_id'' = JStr i \<and> jget c ''candidate_sha256'' = JStr h)"

lemma compared_candidates_sealed:
  assumes "compared_candidates cs = Inr ps"
  shows "(\<forall>c \<in> set cs. sealed c) \<and> distinct (map candidate_id cs) \<and> compare_pairs cs = Inr ps"
proof -
  from assms obtain us vs where valid: "mapE validate_candidate cs = Inr us" and ids: "mapE id_text cs = Inr vs"
    and rest: "distinct (map candidate_id cs)" "compare_pairs cs = Inr ps"
    by (auto simp: compared_candidates_def bindE_Inr)
  have "sealed c" if "c \<in> set cs" for c
  proof -
    from valid that obtain u where "validate_candidate c = Inr u" by (auto simp: mapE_Inr list_all2_conv_all_nth in_set_conv_nth)
    then obtain h where "jget c ''candidate_sha256'' = JStr h"
      by (auto simp: validate_candidate_def is_hash_def bindE_Inr split: json.splits if_splits)
    moreover from ids that obtain u where "id_text c = Inr u" by (auto simp: mapE_Inr list_all2_conv_all_nth in_set_conv_nth)
    then obtain i where "jget c ''candidate_id'' = JStr i" by (auto simp: id_text_def split: json.splits)
    ultimately show ?thesis by (auto simp: sealed_def)
  qed
  with rest show ?thesis by blast
qed

lemma candidate_set_canonical:
  assumes "\<forall>c \<in> set cs. sealed c"
  shows "canonical (candidate_set_json cs)"
proof -
  have "canonical (JObj [(''candidate_id'', jget c ''candidate_id''), (''candidate_sha256'', jget c ''candidate_sha256'')])"
    if "c \<in> set cs" for c
    using assms that by (auto simp: sealed_def less_char_def)
  then show ?thesis by (auto simp: candidate_set_json_def list_all_iff)
qed

definition elements :: "json \<Rightarrow> json list" where
  "elements v = (case v of JList vs \<Rightarrow> vs | _ \<Rightarrow> [])"

lemma listed_ids:
  "map (\<lambda>v. as_str (jget (mapping_or_empty v) ''candidate_id'')) (elements (candidate_set_json xs)) =
     map candidate_id (sort_key candidate_id xs)"
  by (simp add: candidate_set_json_def elements_def candidate_id_def jget_def)

lemma component_text_inj:
  assumes "\<forall>c \<in> set cs. sealed c" "component_text cs A = component_text cs B" "sorted A" "distinct A" "sorted B" "distinct B"
    "set A \<subseteq> candidate_id ` set cs" "set B \<subseteq> candidate_id ` set cs"
  shows "A = B"
proof -
  let ?F = "\<lambda>X. filter (\<lambda>c. candidate_id c \<in> set X) cs"
  have canon: "canonical (candidate_set_json (?F X))" for X
    by (rule candidate_set_canonical) (use assms(1) in auto)
  have "dumps (candidate_set_json (?F A)) = dumps (candidate_set_json (?F B))"
    using assms(2) unfolding component_text_def by (rule append_same_eq [THEN iffD1])
  from dumps_inj [OF canon canon this]
  have "map candidate_id (sort_key candidate_id (?F A)) = map candidate_id (sort_key candidate_id (?F B))"
    using listed_ids [of "?F A"] listed_ids [of "?F B"] by argo
  then have "set (map candidate_id (sort_key candidate_id (?F A))) = set (map candidate_id (sort_key candidate_id (?F B)))"
    by (rule arg_cong)
  then have "candidate_id ` set (?F A) = candidate_id ` set (?F B)" unfolding list.set_map set_sort .
  moreover have "candidate_id ` set (?F X) = set X" if "set X \<subseteq> candidate_id ` set cs" for X using that by auto
  ultimately have "set A = set B" using assms(7,8) by simp
  then show ?thesis by (rule sorted_distinct_set_unique [OF assms(3-6)])
qed

lemma pairs_members: "(a, b) \<in> set (pairs xs) \<Longrightarrow> a \<in> set xs \<and> b \<in> set xs"
  by (induction xs) auto

lemma conflict_members:
  assumes "compare_pairs cs = Inr ps"
  shows "Field (set (of_kind k ps)) \<subseteq> candidate_id ` set cs"
proof -
  have "\<exists>a b. (a, b) \<in> set (pairs cs) \<and> fst p = (candidate_id a, candidate_id b)" if "p \<in> set ps" for p
    using mapE_image [OF assms [unfolded compare_pairs_def] that] by (auto simp: bindE_Inr) blast
  then have "set (of_kind k ps) \<subseteq> (candidate_id ` set cs) \<times> (candidate_id ` set cs)"
    by (fastforce simp: of_kind_def dest: pairs_members)
  then show ?thesis by (auto simp: Field_def)
qed

lemma components_members:
  "c \<in> set (conflict_components conflicts) \<Longrightarrow> sorted c \<and> distinct c \<and> set c \<subseteq> Field (set conflicts)"
  using components_partition [of conflicts] by (fastforce simp: distinct_concat_iff)

lemma distinct_components: "distinct (conflict_components conflicts)"
proof -
  have "[] \<notin> set (conflict_components conflicts)" using components_partition [of conflicts] by blast
  then have "removeAll [] (conflict_components conflicts) = conflict_components conflicts" by (rule removeAll_id)
  with components_partition [of conflicts] show ?thesis by (simp add: distinct_concat_iff)
qed

lemma decision_row_lookup [simp]:
  "jget (decision_row cs selected review h) ''schema_version'' = JStr DECISION_SCHEMA"
  "jget (decision_row cs selected review h) ''decision'' = JStr ''SELECT_AUTHORITY''"
  "jget (decision_row cs selected review h) ''candidate_set_sha256'' = JStr (candidate_set_hash cs)"
  "jget (decision_row cs selected review h) ''conflict_component_sha256'' = JStr h"
  "jget (decision_row cs selected review h) ''selected_candidate_id'' = JStr selected"
  "jget (decision_row cs selected review h) ''decision_sha256'' =
     JStr (f22_hash (JObj (without_field ''decision_sha256'' (decision_row cs selected review h))))"
  by (simp_all add: decision_row_def Let_def jget_def without_field_def)

lemma decision_row_accepted:
  assumes "filter (\<lambda>r. co_sha256 r = h) records = [q]" "selected \<in> set (co_candidate_ids q)" "selected \<in> set ids"
  shows "decision_target (decision_row cs selected review h) (candidate_set_hash cs) ids records = Inr (selected, q)"
  using assms by (simp add: decision_target_def)

lemma singleton_list: "distinct xs \<Longrightarrow> set xs = {y} \<Longrightarrow> xs = [y]"
  by (cases xs; cases "tl xs") auto

lemma unique_component:
  assumes "q \<in> set (component_records conflicts cs)"
    "\<forall>A \<in> set (conflict_components conflicts). \<forall>B \<in> set (conflict_components conflicts).
       conflict_component_hash A cs = conflict_component_hash B cs \<longrightarrow> A = B"
  shows "filter (\<lambda>r. co_sha256 r = co_sha256 q) (component_records conflicts cs) = [q]"
proof -
  let ?rs = "component_records conflicts cs"
  have "distinct ?rs"
    unfolding component_records_def distinct_map using distinct_components by (auto simp: inj_on_def)
  moreover have "set (filter (\<lambda>r. co_sha256 r = co_sha256 q) ?rs) = {q}"
    using assms by (auto simp: component_records_def)
  ultimately show ?thesis by (intro singleton_list distinct_filter)
qed

lemma made_decision:
  assumes "make_human_decision cs selected review None = Inr d"
  obtains ps q where "compared_candidates cs = Inr ps"
    "filter (\<lambda>r. selected \<in> set (co_candidate_ids r)) (component_records (of_kind Conflicting ps) cs) = [q]"
    "d = decision_row cs selected review (co_sha256 q)"
proof -
  from assms obtain ps where ps: "compared_candidates cs = Inr ps" by (auto simp: make_human_decision_def bindE_Inr)
  let ?rs = "filter (\<lambda>r. selected \<in> set (co_candidate_ids r)) (component_records (of_kind Conflicting ps) cs)"
  have d: "(case ?rs of [r] \<Rightarrow> Inr (decision_row cs selected review (co_sha256 r))
      | _ \<Rightarrow> Inl (ValueError ''selected candidate must identify exactly one conflict component'')) = Inr d"
    using assms unfolding make_human_decision_def ps by (simp add: Let_def)
  obtain q where "?rs = [q]"
  proof (cases ?rs)
    case Nil
    show ?thesis using d unfolding Nil by simp
  next
    case (Cons q qs)
    then show ?thesis using d that unfolding Cons by (cases qs) auto
  qed
  with d ps that show thesis by simp
qed

lemma made_decision_reconciles:
  assumes "make_human_decision cs selected review None = Inr d"
  shows "(\<exists>r. reconcile cs (Some d) = Inr r \<and> jget r ''selected_candidate_id'' = JStr selected) \<or>
    (\<exists>ps. compared_candidates cs = Inr ps \<and>
      (\<exists>A \<in> set (conflict_components (of_kind Conflicting ps)). \<exists>B \<in> set (conflict_components (of_kind Conflicting ps)).
         collision (component_text cs A) (component_text cs B)))"
proof -
  obtain ps q where ps: "compared_candidates cs = Inr ps"
    and q: "filter (\<lambda>r. selected \<in> set (co_candidate_ids r)) (component_records (of_kind Conflicting ps) cs) = [q]"
    and d: "d = decision_row cs selected review (co_sha256 q)"
    by (rule made_decision [OF assms])
  let ?C = "of_kind Conflicting ps"
  have mem: "q \<in> set (component_records ?C cs)" "selected \<in> set (co_candidate_ids q)" using filter_singleton [OF q] by blast+
  note sealed = compared_candidates_sealed [OF ps]
  have sub: "set A \<subseteq> candidate_id ` set cs" if "A \<in> set (conflict_components ?C)" for A
    using components_members [OF that] conflict_members [of cs ps Conflicting] sealed by blast
  show ?thesis
  proof (cases "\<forall>A \<in> set (conflict_components ?C). \<forall>B \<in> set (conflict_components ?C).
       conflict_component_hash A cs = conflict_component_hash B cs \<longrightarrow> A = B")
    case True
    have comp: "co_candidate_ids q \<in> set (conflict_components ?C)" using records_of [OF mem(1)] by blast
    then have sel: "selected \<in> set (map candidate_id cs)" using sub mem(2) by auto
    have "?C \<noteq> []"
    proof
      assume "?C = []"
      with comp show False by (simp add: conflict_components_def adjacency_of_def)
    qed
    with decision_row_accepted [OF unique_component [OF mem(1) True] mem(2) sel]
    show ?thesis by (simp add: reconcile_def ps d Let_def seal_lookup)
  next
    case False
    then obtain A B where ab: "A \<in> set (conflict_components ?C)" "B \<in> set (conflict_components ?C)"
      "conflict_component_hash A cs = conflict_component_hash B cs" "A \<noteq> B" by blast
    have "component_text cs A \<noteq> component_text cs B"
      using component_text_inj [of cs A B] sealed ab components_members [OF ab(1)] components_members [OF ab(2)]
        sub [OF ab(1)] sub [OF ab(2)] by blast
    moreover have "sha256 (component_text cs A) = sha256 (component_text cs B)"
      using ab(3) by (simp add: conflict_component_hash_def candidate_set_hash_def f22_hash_def component_text_def)
    ultimately show ?thesis using ps ab(1,2) by (auto simp: collision_def)
  qed
qed

text \<open>Authority reconciliation: a decision made for a candidate is accepted by the reconciliation of the
  same candidates, which then reports that candidate as selected, unless the texts of two different
  components exhibit a collision of SHA-256.\<close>

theorem made_decision_is_accepted:
  assumes "make_human_decision cs selected review None = Inr d"
  shows "(\<exists>r. reconcile cs (Some d) = Inr r \<and> jget r ''selected_candidate_id'' = JStr selected) \<or>
    (\<exists>ps. compared_candidates cs = Inr ps \<and>
      (\<exists>A \<in> set (conflict_components (of_kind Conflicting ps)). \<exists>B \<in> set (conflict_components (of_kind Conflicting ps)).
         collision (component_text cs A) (component_text cs B)))"
  using assms by (rule made_decision_reconciles)

subsection \<open>Examples\<close>

definition example_candidate :: "string \<Rightarrow> char \<Rightarrow> row" where
  "example_candidate i key =
     [(''candidate_id'', JStr i), (''provider_id'', JStr ''provider''), (''scope'', JStr ''scope''), (''key_id'', JStr ''key''),
      (''key_sha256'', JStr (replicate 64 key)), (''source_artifact_sha256'', JStr (replicate 64 CHR ''a'')),
      (''lineage_sha256'', JStr (replicate 64 CHR ''b'')), (''valid_from_utc'', JStr ''2024-01-01T00:00:00Z''),
      (''authority_assertion'', JStr ''ACTIVE'')]"

definition example_sealed :: "string \<Rightarrow> char \<Rightarrow> row" where
  "example_sealed i key =
     put_field ''candidate_sha256'' (JStr (f22_hash (JObj (core_row (example_candidate i key))))) (example_candidate i key)"

abbreviation example_conflict :: "row list" where
  \<comment> \<open>two providers' candidates for one scope and time, with different keys\<close>
  "example_conflict \<equiv> [example_sealed ''one'' CHR ''1'', example_sealed ''two'' CHR ''2'']"

lemma example_start: "utc_time (JStr ''2024-01-01T00:00:00Z'') =
  Inr \<lparr>dt_year = 2024, dt_month = 1, dt_day = 1, dt_hour = 0, dt_minute = 0, dt_second = 0, dt_micro = 0, dt_offset = Some 0\<rparr>"
  (is "_ = Inr ?d")
proof -
  have "valid_datetime ?d" by (simp add: valid_datetime_def days_in_month_def)
  moreover have "isoformat ?d = ''2024-01-01T00:00:00+00:00''" by code_simp
  ultimately have "fromisoformat ''2024-01-01T00:00:00+00:00'' = Some ?d" using fromisoformat_isoformat by metis
  then show ?thesis by (simp add: utc_time_def)
qed

lemma example_hashes:
  "is_hash (JStr (replicate 64 CHR ''1''))" "is_hash (JStr (replicate 64 CHR ''2''))"
  "is_hash (JStr (replicate 64 CHR ''a''))" "is_hash (JStr (replicate 64 CHR ''b''))"
  unfolding is_hash_def hex64_def json.case list_all_iff
  by (simp_all add: hex_digit_def code_def)

lemma example_core:
  assumes "key \<in> {CHR ''1'', CHR ''2''}" "i \<noteq> []"
  shows "candidate_core (example_candidate i key) = Inr (core_row (example_candidate i key))"
proof -
  have "check_all (\<lambda>k. truthy (jget (example_candidate i key) k)) e required_fields = Inr ()" for e
    using assms by (simp add: required_fields_def example_candidate_def jget_def)
  moreover have "is_hash (jget (example_candidate i key) ''key_sha256'')"
    "is_hash (jget (example_candidate i key) ''source_artifact_sha256'')"
    "is_hash (jget (example_candidate i key) ''lineage_sha256'')"
    using assms by (auto simp: example_candidate_def jget_def example_hashes)
  moreover have "jget (example_candidate i key) ''valid_from_utc'' = JStr ''2024-01-01T00:00:00Z''"
    "jget (example_candidate i key) ''valid_until_utc'' = JNull"
    "jget (example_candidate i key) ''authority_assertion'' = JStr ''ACTIVE''" by (simp_all add: example_candidate_def jget_def)
  ultimately show ?thesis
    by (simp add: candidate_core_def check_assertion_def example_start valid_until_def raise_if_def)
qed



lemma example_sealed_lookup:
  "candidate_id (example_sealed i key) = i" "jget (example_sealed i key) ''candidate_id'' = JStr i"
  "jget (example_sealed i key) ''provider_id'' = JStr ''provider''" "jget (example_sealed i key) ''scope'' = JStr ''scope''"
  "jget (example_sealed i key) ''key_id'' = JStr ''key''" "jget (example_sealed i key) ''key_sha256'' = JStr (replicate 64 key)"
  "jget (example_sealed i key) ''valid_from_utc'' = JStr ''2024-01-01T00:00:00Z''"
  "jget (example_sealed i key) ''valid_until_utc'' = JNull"
  unfolding candidate_id_def example_sealed_def jget_put_field by (simp_all add: example_candidate_def jget_def)

lemma example_pairs: "compare_pairs example_conflict = Inr [((''one'', ''two''), Conflicting)]"
  by (simp add: compare_pairs_def compare_pair_def overlaps_def same_scope_def example_sealed_lookup valid_until_def example_start
      time_key_def end_of_time_def)

lemma example_compared: "compared_candidates example_conflict = Inr [((''one'', ''two''), Conflicting)]"
proof -
  have "validate_candidate (example_sealed i key) = Inr ()" if "key \<in> {CHR ''1'', CHR ''2''}" "i \<noteq> []" for i key
    using example_core [OF that]
    by (intro sealed_candidate_is_valid [of "example_candidate i key"]) (simp add: seal_candidate_def example_sealed_def)
  then show ?thesis
    by (simp add: compared_candidates_def example_pairs example_sealed_lookup id_text_def raise_if_def)
qed

lemma example_components: "conflict_components [(''one'', ''two'')] = [[''one'', ''two'']]"
  by code_simp

lemma example_decided:
  obtains d where "make_human_decision example_conflict ''two'' ''HR-F22'' None = Inr d"
  by (simp add: make_human_decision_def example_compared of_kind_def component_records_def example_components)

theorem no_automatic_winner_witness:
  "\<exists>r. reconcile example_conflict None = Inr r \<and> jget r ''selected_candidate_id'' = JNull \<and>
     jget r ''authority_state'' = JStr ''AUTHORITY_UNRESOLVED''"
proof -
  obtain r where r: "reconcile example_conflict None = Inr r" by (simp add: reconcile_def example_compared Let_def)
  from no_automatic_winner [OF r] show ?thesis
    by (intro exI [of _ r]) (simp add: r example_compared of_kind_def)
qed

theorem made_decision_is_accepted_witness:
  "\<exists>d r. make_human_decision example_conflict ''two'' ''HR-F22'' None = Inr d \<and>
     reconcile example_conflict (Some d) = Inr r \<and> jget r ''selected_candidate_id'' = JStr ''two''"
proof -
  obtain d where d: "make_human_decision example_conflict ''two'' ''HR-F22'' None = Inr d" by (rule example_decided)
  from made_decision_is_accepted [OF d] show ?thesis
    by (simp add: d example_compared of_kind_def example_components collision_def)
qed

end
