(* ===== verification/ReconciliationBinding.thy ===== *)
theory ReconciliationBinding
  imports AuthorityReconciliation Authority
begin

section \<open>Binding a reconciliation to an authority scope\<close>

text \<open>
  \<open>galia2/reconciliation_authority_binding.py\<close>: a sealed reconciliation result is checked against the
  digests, the candidate, the provider and the scope its caller expects, and yields a binding that keeps
  the master on hold.  The result is an arbitrary JSON object; only its own digest protects it.
\<close>

definition F23_SCHEMA :: string where
  "F23_SCHEMA = ''GALIA-F23-RECONCILIATION-AUTHORITY-BINDING/1''"

record reconciliation_binding =
  rb_schema_version :: string
  rb_reconciliation_sha256 :: string
  rb_candidate_set_sha256 :: string
  rb_conflict_component_sha256 :: string
  rb_selected_candidate_id :: string
  rb_provider_id :: string
  rb_external_scope :: string
  rb_p5_scope_token :: string
  rb_authority_class :: string
  rb_canonical_effect :: string
  rb_master_promotion_state :: string
  rb_byte_identity_effect :: string
  rb_f5_effect :: string

definition as_row :: "json \<Rightarrow> row res" where
  \<comment> \<open>what an element must be for its \<open>get\<close>\<close>
  "as_row v = (case v of JObj d \<Rightarrow> Inr d | _ \<Rightarrow> Inl (StdError ''AttributeError''))"

definition rows_of :: "row \<Rightarrow> string \<Rightarrow> row list res" where
  \<comment> \<open>the elements of \<open>reconciliation.get(k, [])\<close>; texts and dictionaries iterate over texts\<close>
  "rows_of r k =
     (case map_of r k of
        None \<Rightarrow> Inr []
      | Some (JList vs) \<Rightarrow> mapE as_row vs
      | Some (JStr s) \<Rightarrow> (if s = [] then Inr [] else Inl (StdError ''AttributeError''))
      | Some (JObj d) \<Rightarrow> (if d = [] then Inr [] else Inl (StdError ''AttributeError''))
      | Some _ \<Rightarrow> Inl (TypeError ''object is not iterable''))"

definition occurs_in :: "string \<Rightarrow> string \<Rightarrow> bool" where
  \<comment> \<open>\<open>in\<close> on texts\<close>
  "occurs_in s t \<longleftrightarrow> list_ex (\<lambda>k. take (length s) (drop k t) = s) [0..<Suc (length t)]"

definition contains_id :: "string \<Rightarrow> row \<Rightarrow> bool res" where
  \<comment> \<open>\<open>s in component.get("candidate_ids", [])\<close>\<close>
  "contains_id s c =
     (case map_of c ''candidate_ids'' of
        None \<Rightarrow> Inr False
      | Some (JList vs) \<Rightarrow> Inr (JStr s \<in> set vs)
      | Some (JStr t) \<Rightarrow> Inr (occurs_in s t)
      | Some (JObj d) \<Rightarrow> Inr (s \<in> set (map fst d))
      | Some _ \<Rightarrow> Inl (TypeError ''argument is not iterable''))"

definition checked_header :: "row \<Rightarrow> string \<Rightarrow> string \<Rightarrow> string \<Rightarrow> unit res" where
  \<comment> \<open>the checks up to \<open>selected candidate binding mismatch\<close>\<close>
  "checked_header r set_hash component selected =
     bindE (raise_if (jget r ''schema_version'' \<noteq> JStr F22_SCHEMA) (ValueError ''F22 schema mismatch'')) (\<lambda>_.
     bindE (raise_if (\<not> is_hash (jget r ''reconciliation_sha256'') \<or>
              jget r ''reconciliation_sha256'' \<noteq> JStr (f22_hash (JObj (without_field ''reconciliation_sha256'' r))))
              (ValueError ''F22 reconciliation hash mismatch'')) (\<lambda>_.
     bindE (raise_if (jget r ''conflict_state'' \<noteq> JStr ''CONFLICT_DETECTED'')
              (ValueError ''F23 requires an F22 conflict reconciliation'')) (\<lambda>_.
     bindE (raise_if (jget r ''authority_state'' \<noteq> JStr reconciled_state)
              (ValueError ''F22 authority is not fully reconciled'')) (\<lambda>_.
     bindE (raise_if (jget r ''action_required'' \<noteq> JNull) (ValueError ''F22 still requires human selection'')) (\<lambda>_.
     bindE (raise_if (jget r ''candidate_set_sha256'' \<noteq> JStr set_hash) (ValueError ''candidate set binding mismatch'')) (\<lambda>_.
     bindE (raise_if (jget r ''reconciled_component_sha256'' \<noteq> JStr component)
              (ValueError ''conflict component binding mismatch'')) (\<lambda>_.
     raise_if (jget r ''selected_candidate_id'' \<noteq> JStr selected)
              (ValueError ''selected candidate binding mismatch''))))))))"

definition checked_component :: "row \<Rightarrow> string \<Rightarrow> string \<Rightarrow> unit res" where
  "checked_component r component selected =
     bindE (rows_of r ''conflict_components'') (\<lambda>rows.
     case filter (\<lambda>c. jget c ''component_sha256'' = JStr component) rows of
       [c] \<Rightarrow>
         bindE (raise_if (jget c ''authority_state'' \<noteq> JStr reconciled_state)
                  (ValueError ''component is not explicitly reconciled'')) (\<lambda>_.
         bindE (contains_id selected c) (\<lambda>found.
         raise_if (\<not> found) (ValueError ''selected candidate outside reconciled component'')))
     | _ \<Rightarrow> Inl (ValueError ''component is not explicitly reconciled''))"

definition checked_candidate :: "row \<Rightarrow> string \<Rightarrow> string \<Rightarrow> string \<Rightarrow> unit res" where
  "checked_candidate r selected provider scope =
     bindE (rows_of r ''preserved_candidates'') (\<lambda>rows.
     case filter (\<lambda>c. jget c ''candidate_id'' = JStr selected) rows of
       [c] \<Rightarrow>
         bindE (validate_candidate c) (\<lambda>_.
         bindE (raise_if (jget c ''provider_id'' \<noteq> JStr provider) (ValueError ''provider binding mismatch'')) (\<lambda>_.
         raise_if (jget c ''scope'' \<noteq> JStr scope) (ValueError ''external scope binding mismatch'')))
     | _ \<Rightarrow> Inl (ValueError ''selected candidate must be preserved exactly once''))"

definition checked_effects :: "row \<Rightarrow> unit res" where
  "checked_effects r =
     bindE (raise_if (jget r ''canonical_effect'' \<noteq> JStr ''NONE'') (ValueError ''canonical effect escalation forbidden'')) (\<lambda>_.
     bindE (raise_if (jget r ''master_promotion_state'' \<noteq> JStr ''AUTHORITY_HOLD'')
              (ValueError ''master authority hold must remain'')) (\<lambda>_.
     raise_if (jget r ''byte_identity_effect'' \<noteq> JStr ''NONE'' \<or> jget r ''f5_effect'' \<noteq> JStr ''NONE'')
              (ValueError ''upstream gate closure forbidden'')))"

definition bind_reconciliation ::
  "row \<Rightarrow> string \<Rightarrow> string \<Rightarrow> string \<Rightarrow> string \<Rightarrow> string \<Rightarrow> authority_scope \<Rightarrow> reconciliation_binding res" where
  "bind_reconciliation r set_hash component selected provider scope p5_scope =
     bindE (checked_header r set_hash component selected) (\<lambda>_.
     bindE (checked_component r component selected) (\<lambda>_.
     bindE (checked_candidate r selected provider scope) (\<lambda>_.
     bindE (checked_effects r) (\<lambda>_.
     Inr \<lparr>rb_schema_version = F23_SCHEMA, rb_reconciliation_sha256 = as_str (jget r ''reconciliation_sha256''),
          rb_candidate_set_sha256 = set_hash, rb_conflict_component_sha256 = component,
          rb_selected_candidate_id = selected, rb_provider_id = provider, rb_external_scope = scope,
          rb_p5_scope_token = scope_token p5_scope, rb_authority_class = ''EXTERNAL_AUTHORITY_ONLY'',
          rb_canonical_effect = ''NONE'', rb_master_promotion_state = ''AUTHORITY_HOLD'',
          rb_byte_identity_effect = ''NONE'', rb_f5_effect = ''NONE''\<rparr>))))"

subsection \<open>Sealed results\<close>

lemma seal_hash:
  assumes "''reconciliation_sha256'' \<notin> fst ` set body"
  shows "jget (seal_reconciliation body) ''reconciliation_sha256'' =
    JStr (f22_hash (JObj (without_field ''reconciliation_sha256'' (seal_reconciliation body))))"
proof -
  have "without_field ''reconciliation_sha256'' (seal_reconciliation body) = body"
    using assms by (force simp: without_field_def seal_reconciliation_def filter_id_conv)
  moreover have "map_of body ''reconciliation_sha256'' = None" using assms by (simp add: map_of_eq_None_iff)
  then have "jget (seal_reconciliation body) ''reconciliation_sha256'' = JStr (f22_hash (JObj body))"
    by (simp add: seal_reconciliation_def jget_def map_add_def)
  ultimately show ?thesis by simp
qed

lemma rows_of_list: "jget r k = JList (map JObj rows) \<Longrightarrow> rows_of r k = Inr rows"
proof -
  assume "jget r k = JList (map JObj rows)"
  then have "map_of r k = Some (JList (map JObj rows))" by (auto simp: jget_def split: option.splits)
  moreover have "mapE as_row (map JObj rows) = Inr rows" by (induction rows) (simp_all add: as_row_def)
  ultimately show ?thesis by (simp add: rows_of_def)
qed

lemma component_json_lookup [simp]:
  "jget [(''candidate_ids'', v), (''component_sha256'', h), (''authority_state'', a)] ''component_sha256'' = h"
  "jget [(''candidate_ids'', v), (''component_sha256'', h), (''authority_state'', a)] ''authority_state'' = a"
  by (simp_all add: jget_def)

lemma body_keys: "''reconciliation_sha256'' \<notin> fst ` set (reconciliation_body cs ps a q records s h)"
  by (simp add: reconciliation_body_def)

lemma bound_iff:
  "(\<exists>b. bind_reconciliation r set_hash component selected provider scope p5_scope = Inr b) \<longleftrightarrow>
     checked_header r set_hash component selected = Inr () \<and> checked_component r component selected = Inr () \<and>
     checked_candidate r selected provider scope = Inr () \<and> checked_effects r = Inr ()"
  by (auto simp: bind_reconciliation_def bindE_Inr)

lemma header_of_reconciliation:
  assumes "r = seal_reconciliation (reconciliation_body cs ps authority action records s h)"
  shows "checked_header r set_hash component selected = Inr () \<longleftrightarrow>
    of_kind Conflicting ps \<noteq> [] \<and> authority = reconciled_state \<and> action = None \<and> set_hash = candidate_set_hash cs \<and>
    h = Some component \<and> s = Some selected"
proof -
  have hash: "jget r ''reconciliation_sha256'' = JStr (f22_hash (JObj (without_field ''reconciliation_sha256'' r)))"
    unfolding assms by (rule seal_hash) (rule body_keys)
  have fields: "jget r ''schema_version'' = JStr F22_SCHEMA" "jget r ''authority_state'' = JStr authority"
    "jget r ''conflict_state'' = (if of_kind Conflicting ps \<noteq> [] then JStr ''CONFLICT_DETECTED'' else JNull)"
    "jget r ''action_required'' = opt_str action" "jget r ''candidate_set_sha256'' = JStr (candidate_set_hash cs)"
    "jget r ''reconciled_component_sha256'' = opt_str h" "jget r ''selected_candidate_id'' = opt_str s"
    by (simp_all add: assms seal_lookup)
  show ?thesis
    unfolding checked_header_def hash fields
    by (auto simp: bindE_Inr raise_if_def opt_str_def split: option.splits)
qed

lemma effects_of_reconciliation:
  "checked_effects (seal_reconciliation (reconciliation_body cs ps authority action records s h)) = Inr ()"
  by (simp add: checked_effects_def seal_lookup raise_if_def)

lemma component_of_reconciliation:
  assumes "filter (\<lambda>x. co_sha256 x = co_sha256 q) records = [q]" "selected \<in> set (co_candidate_ids q)"
  shows "checked_component (seal_reconciliation (reconciliation_body cs ps authority action (resolve_component q records) s h))
    (co_sha256 q) selected = Inr ()"
proof -
  let ?row = "\<lambda>x. [(''candidate_ids'', JList (map JStr (co_candidate_ids x))), (''component_sha256'', JStr (co_sha256 x)),
           (''authority_state'', JStr (co_authority_state x))]"
  let ?g = "\<lambda>x. if co_sha256 x = co_sha256 q then x\<lparr>co_authority_state := reconciled_state\<rparr> else x"
  let ?r = "seal_reconciliation (reconciliation_body cs ps authority action (resolve_component q records) s h)"
  have "rows_of ?r ''conflict_components'' = Inr (map ?row (map ?g records))"
    by (rule rows_of_list) (simp add: seal_lookup component_json_def resolve_component_def)
  moreover have "filter (\<lambda>c. jget c ''component_sha256'' = JStr (co_sha256 q)) (map ?row (map ?g records)) =
      map (?row \<circ> ?g) (filter (\<lambda>x. co_sha256 x = co_sha256 q) records)"
    unfolding filter_map map_map by (rule arg_cong [where f = "map _"], rule filter_cong) auto
  ultimately show ?thesis
    using assms by (simp add: checked_component_def contains_id_def raise_if_def)
qed

lemma one_with_id:
  assumes "distinct (map f xs)" "x \<in> set xs"
  shows "filter (\<lambda>y. f y = f x) xs = [x]"
proof -
  have "set (filter (\<lambda>y. f y = f x) xs) = {x}" using assms by (auto simp: distinct_map dest: inj_onD)
  moreover have "distinct (filter (\<lambda>y. f y = f x) xs)" using assms by (simp add: distinct_map)
  ultimately show ?thesis by (intro singleton_list)
qed

lemma candidate_of_reconciliation:
  assumes "compared_candidates cs = Inr ps" "selected \<in> set (map candidate_id cs)"
  shows "checked_candidate (seal_reconciliation (reconciliation_body cs ps' authority action records s h)) selected provider scope
      = Inr () \<longleftrightarrow>
    (\<exists>c \<in> set cs. jget c ''candidate_id'' = JStr selected \<and> jget c ''provider_id'' = JStr provider \<and> jget c ''scope'' = JStr scope)"
proof -
  let ?r = "seal_reconciliation (reconciliation_body cs ps' authority action records s h)"
  from assms(2) obtain c where c: "c \<in> set cs" "candidate_id c = selected" by auto
  note sealed = compared_candidates_sealed [OF assms(1)]
  have id_iff: "jget x ''candidate_id'' = JStr selected \<longleftrightarrow> candidate_id x = candidate_id c" if "x \<in> set cs" for x
    using sealed that c(2) by (auto simp: sealed_def candidate_id_def)
  have "filter (\<lambda>x. jget x ''candidate_id'' = JStr selected) cs = filter (\<lambda>x. candidate_id x = candidate_id c) cs"
    by (rule filter_cong) (simp_all add: id_iff)
  also have "\<dots> = [c]" using one_with_id [of candidate_id cs c] sealed c(1) by blast
  finally have one: "filter (\<lambda>x. jget x ''candidate_id'' = JStr selected) cs = [c]" .
  have rows: "rows_of ?r ''preserved_candidates'' = Inr cs" by (rule rows_of_list) (simp add: seal_lookup)
  have "validate_candidate c = Inr ()"
    using assms(1) c(1) by (auto simp: compared_candidates_def bindE_Inr mapE_Inr list_all2_conv_all_nth in_set_conv_nth)
  then have "checked_candidate ?r selected provider scope = Inr () \<longleftrightarrow>
      jget c ''provider_id'' = JStr provider \<and> jget c ''scope'' = JStr scope"
    by (simp add: checked_candidate_def rows one raise_if_def bindE_Inr)
  also have "\<dots> \<longleftrightarrow> (\<exists>x \<in> set cs. jget x ''candidate_id'' = JStr selected \<and> jget x ''provider_id'' = JStr provider \<and>
      jget x ''scope'' = JStr scope)"
    using filter_singleton [OF one] by blast
  finally show ?thesis .
qed

text \<open>C26. Binding a reconciliation: what \<open>reconcile\<close> returns is bound exactly if its authority is reconciled by
  a human decision, the caller expects its candidate set, its reconciled component and its selected
  candidate by digest and name, and that candidate names the expected provider and scope.\<close>

theorem binding_is_exact:
  assumes "reconcile cs decision = Inr r"
  shows "(\<exists>b. bind_reconciliation r set_hash component selected provider scope p5_scope = Inr b) \<longleftrightarrow>
    jget r ''authority_state'' = JStr reconciled_state \<and> jget r ''candidate_set_sha256'' = JStr set_hash \<and>
    jget r ''reconciled_component_sha256'' = JStr component \<and> jget r ''selected_candidate_id'' = JStr selected \<and>
    (\<exists>c \<in> set cs. jget c ''candidate_id'' = JStr selected \<and> jget c ''provider_id'' = JStr provider \<and>
       jget c ''scope'' = JStr scope)"
proof (cases decision)
  case None
  with assms obtain ps where r: "r = seal_reconciliation (reconciliation_body cs ps
           (if of_kind Conflicting ps \<noteq> [] then ''AUTHORITY_UNRESOLVED''
            else if of_kind Corroborated ps \<noteq> [] then ''SAME_KEY_CORROBORATED'' else ''NON_OVERLAPPING_COMPATIBLE'')
           (if of_kind Conflicting ps \<noteq> [] then Some ''HUMAN_SELECTION_REQUIRED'' else None)
           (component_records (of_kind Conflicting ps) cs) None None)"
    using reconcile_without_decision by metis
  then have "jget r ''selected_candidate_id'' = JNull" by (simp add: seal_lookup)
  then show ?thesis unfolding bound_iff header_of_reconciliation [OF r] by simp
next
  case (Some d)
  obtain ps chosen q where ps: "compared_candidates cs = Inr ps" "of_kind Conflicting ps \<noteq> []"
    and target: "decision_target d (candidate_set_hash cs) (map candidate_id cs) (component_records (of_kind Conflicting ps) cs) = Inr (chosen, q)"
    and r: "r = (let records' = resolve_component q (component_records (of_kind Conflicting ps) cs);
              unresolved = list_ex (\<lambda>q. co_authority_state q = ''AUTHORITY_UNRESOLVED'') records' in
          seal_reconciliation (reconciliation_body cs ps (if unresolved then ''AUTHORITY_UNRESOLVED'' else reconciled_state)
            (if unresolved then Some ''HUMAN_SELECTION_REQUIRED'' else None) records' (Some chosen) (Some (co_sha256 q))))"
    using assms reconcile_with_decision unfolding Some by blast
  note t = decision_target_Inr [OF target]
  define unresolved where "unresolved = list_ex (\<lambda>q. co_authority_state q = ''AUTHORITY_UNRESOLVED'')
      (resolve_component q (component_records (of_kind Conflicting ps) cs))"
  define authority where "authority = (if unresolved then ''AUTHORITY_UNRESOLVED'' else reconciled_state)"
  define action where "action = (if unresolved then Some ''HUMAN_SELECTION_REQUIRED'' else None)"
  have r: "r = seal_reconciliation (reconciliation_body cs ps authority action
      (resolve_component q (component_records (of_kind Conflicting ps) cs)) (Some chosen) (Some (co_sha256 q)))"
    unfolding r Let_def authority_def action_def unresolved_def ..
  have fields: "jget r ''authority_state'' = JStr authority" "jget r ''candidate_set_sha256'' = JStr (candidate_set_hash cs)"
    "jget r ''reconciled_component_sha256'' = JStr (co_sha256 q)" "jget r ''selected_candidate_id'' = JStr chosen"
    by (simp_all add: r seal_lookup)
  have action: "action = None \<longleftrightarrow> authority = reconciled_state"
    by (simp add: action_def authority_def reconciled_state_def)
  have component: "checked_component r (co_sha256 q) chosen = Inr ()"
    unfolding r by (rule component_of_reconciliation [OF decision_target_unique [OF target]]) (use t in blast)
  have candidate: "checked_candidate r chosen provider scope = Inr () \<longleftrightarrow>
      (\<exists>c \<in> set cs. jget c ''candidate_id'' = JStr chosen \<and> jget c ''provider_id'' = JStr provider \<and> jget c ''scope'' = JStr scope)"
    unfolding r by (rule candidate_of_reconciliation [OF ps(1)]) (use t in blast)
  have effects: "checked_effects r = Inr ()" unfolding r by (rule effects_of_reconciliation)
  show ?thesis
    unfolding bound_iff header_of_reconciliation [OF r] fields effects using component candidate ps(2) action by auto
qed

lemma example_reconciled:
  obtains d r where "make_human_decision example_conflict ''two'' ''HR-F22'' None = Inr d"
    "reconcile example_conflict (Some d) = Inr r" "jget r ''authority_state'' = JStr reconciled_state"
    "jget r ''selected_candidate_id'' = JStr ''two''" "jget r ''candidate_set_sha256'' = JStr (candidate_set_hash example_conflict)"
    "jget r ''reconciled_component_sha256'' = JStr (conflict_component_hash [''one'', ''two''] example_conflict)"
proof -
  obtain d where d: "make_human_decision example_conflict ''two'' ''HR-F22'' None = Inr d" by (rule example_decided)
  from made_decision_reconciles [OF d] obtain r where r: "reconcile example_conflict (Some d) = Inr r"
    by (auto simp: example_compared of_kind_def example_components collision_def)
  obtain ps selected q where ps: "compared_candidates example_conflict = Inr ps"
    and q: "decision_target d (candidate_set_hash example_conflict) (map candidate_id example_conflict)
        (component_records (of_kind Conflicting ps) example_conflict) = Inr (selected, q)"
    and body: "r = (let records' = resolve_component q (component_records (of_kind Conflicting ps) example_conflict);
              unresolved = list_ex (\<lambda>q. co_authority_state q = ''AUTHORITY_UNRESOLVED'') records' in
          seal_reconciliation (reconciliation_body example_conflict ps (if unresolved then ''AUTHORITY_UNRESOLVED'' else reconciled_state)
            (if unresolved then Some ''HUMAN_SELECTION_REQUIRED'' else None) records' (Some selected) (Some (co_sha256 q))))"
    by (rule reconcile_with_decision [OF r])
  from ps have ps: "of_kind Conflicting ps = [(''one'', ''two'')]" by (auto simp: example_compared of_kind_def)
  from decision_target_Inr [OF q] have "q = \<lparr>co_candidate_ids = [''one'', ''two''],
      co_sha256 = conflict_component_hash [''one'', ''two''] example_conflict, co_authority_state = ''AUTHORITY_UNRESOLVED''\<rparr>"
    by (simp add: ps component_records_def example_components)
  moreover have "jget d ''selected_candidate_id'' = JStr ''two''" using made_decision [OF d] by (metis decision_row_lookup(5))
  then have "selected = ''two''" using decision_target_Inr [OF q] by simp
  ultimately have "jget r ''authority_state'' = JStr reconciled_state" "jget r ''selected_candidate_id'' = JStr ''two''"
    "jget r ''candidate_set_sha256'' = JStr (candidate_set_hash example_conflict)"
    "jget r ''reconciled_component_sha256'' = JStr (conflict_component_hash [''one'', ''two''] example_conflict)"
    by (simp_all add: body ps component_records_def example_components resolve_component_def seal_lookup reconciled_state_def)
  with d r that show thesis by blast
qed

theorem binding_is_exact_witness:
  "\<exists>d r b. reconcile example_conflict (Some d) = Inr r \<and>
     bind_reconciliation r (candidate_set_hash example_conflict) (conflict_component_hash [''one'', ''two''] example_conflict)
       ''two'' ''provider'' ''scope'' \<lparr>sc_case_id = ''case'', sc_target_type = ''claim'', sc_target_ids = [''c1'']\<rparr> = Inr b"
proof (rule example_reconciled)
  fix d r
  assume r: "reconcile example_conflict (Some d) = Inr r" "jget r ''authority_state'' = JStr reconciled_state"
    "jget r ''selected_candidate_id'' = JStr ''two''" "jget r ''candidate_set_sha256'' = JStr (candidate_set_hash example_conflict)"
    "jget r ''reconciled_component_sha256'' = JStr (conflict_component_hash [''one'', ''two''] example_conflict)"
  have "\<exists>b. bind_reconciliation r (candidate_set_hash example_conflict) (conflict_component_hash [''one'', ''two''] example_conflict)
       ''two'' ''provider'' ''scope'' \<lparr>sc_case_id = ''case'', sc_target_type = ''claim'', sc_target_ids = [''c1'']\<rparr> = Inr b"
    unfolding binding_is_exact [OF r(1)] using r by (simp add: example_sealed_lookup)
  with r(1) show ?thesis by blast
qed

subsection \<open>What the seal does not show\<close>

definition forged_reconciliation :: row where
  \<comment> \<open>written by hand: one candidate, no comparison and no decision\<close>
  "forged_reconciliation =
     (let h = conflict_component_hash [''one''] [example_sealed ''one'' CHR ''1''] in
      seal_reconciliation (reconciliation_body [example_sealed ''one'' CHR ''1''] [((''one'', ''one''), Conflicting)] reconciled_state None
        [\<lparr>co_candidate_ids = [''one''], co_sha256 = h, co_authority_state = reconciled_state\<rparr>] (Some ''one'') (Some h)))"

lemma reconciled_pair:
  assumes "reconcile cs decision = Inr r"
  shows "2 \<le> length cs \<and> jget r ''preserved_candidates'' = JList (map JObj cs)"
proof -
  from assms obtain ps where "compared_candidates cs = Inr ps" by (auto simp: reconcile_def bindE_Inr)
  then have "2 \<le> length cs" by (auto simp: compared_candidates_def bindE_Inr raise_if_def split: if_splits)
  with reconciliation_says [OF assms] show ?thesis by blast
qed

text \<open>Binding a reconciliation: the seal shows integrity, not origin.  A result that no call of
  \<open>reconcile\<close> returns, with a single candidate and without a decision, is bound.\<close>

theorem forged_result_is_bound:
  "(\<exists>b. bind_reconciliation forged_reconciliation (candidate_set_hash [example_sealed ''one'' CHR ''1''])
      (conflict_component_hash [''one''] [example_sealed ''one'' CHR ''1'']) ''one'' ''provider'' ''scope'' p5_scope = Inr b) \<and>
   \<not> (\<exists>cs decision. reconcile cs decision = Inr forged_reconciliation)"
proof (rule conjI)
  let ?cs = "[example_sealed ''one'' CHR ''1'']"
  let ?q = "\<lparr>co_candidate_ids = [''one''], co_sha256 = conflict_component_hash [''one''] ?cs,
      co_authority_state = reconciled_state\<rparr>"
  have forged: "forged_reconciliation = seal_reconciliation (reconciliation_body ?cs [((''one'', ''one''), Conflicting)]
      reconciled_state None (resolve_component ?q [?q]) (Some ''one'') (Some (co_sha256 ?q)))"
    by (simp add: forged_reconciliation_def resolve_component_def Let_def)
  have "rows_of forged_reconciliation ''preserved_candidates'' = Inr ?cs"
    by (rule rows_of_list) (simp add: forged seal_lookup)
  moreover have "validate_candidate (example_sealed ''one'' CHR ''1'') = Inr ()"
    using example_compared by (auto simp: compared_candidates_def bindE_Inr)
  ultimately have candidate: "checked_candidate forged_reconciliation ''one'' ''provider'' ''scope'' = Inr ()"
    by (simp add: checked_candidate_def example_sealed_lookup raise_if_def)
  have component: "checked_component forged_reconciliation (conflict_component_hash [''one''] ?cs) ''one'' = Inr ()"
    using component_of_reconciliation [of ?q "[?q]" "''one''"] by (simp add: forged)
  have head_ok: "checked_header forged_reconciliation (candidate_set_hash ?cs) (conflict_component_hash [''one''] ?cs) ''one'' = Inr ()"
    unfolding header_of_reconciliation [OF forged] by (simp add: of_kind_def)
  have effects: "checked_effects forged_reconciliation = Inr ()" unfolding forged by (rule effects_of_reconciliation)
  show "\<exists>b. bind_reconciliation forged_reconciliation (candidate_set_hash ?cs)
      (conflict_component_hash [''one''] ?cs) ''one'' ''provider'' ''scope'' p5_scope = Inr b"
    unfolding bound_iff using head_ok component candidate effects by blast
  have "jget forged_reconciliation ''preserved_candidates'' = JList (map JObj ?cs)" by (simp add: forged seal_lookup)
  then show "\<not> (\<exists>cs decision. reconcile cs decision = Inr forged_reconciliation)"
    using reconciled_pair by (fastforce dest: arg_cong [where f = length])
qed

end
