(* ===== verification/RuntimeShim.thy ===== *)
theory RuntimeShim
  imports LegacyAdapter
begin

section \<open>The legacy runtime shim\<close>

text \<open>
  \<open>galia2/runtime_integration.py\<close>: the compatibility gate over the syntax tree of the legacy source, and the
  bridge that calls the legacy runtime once and captures what it saw.  \<open>ast.parse\<close> is an argument: the gate is
  modelled on the tree.  The legacy runtime is an argument too, a function of its own state.  A floating point
  number is the JSON text Python writes for it.
\<close>

subsection \<open>Syntax trees\<close>

text \<open>What the gate tells apart; everything else is \<open>OtherE\<close> or \<open>OtherS\<close> with its parts.\<close>

datatype expr =
    Name string
  | Attribute expr string
  | CallE expr "expr list" "expr list"
  | Compare expr "string list" "expr list"
  | Constant json
  | OtherE "expr list"

record parameters =
  pa_posonly :: "string list"
  pa_args :: "string list"
  pa_vararg :: "string option"
  pa_kwonly :: "string list"
  pa_kwarg :: "string option"

datatype stmt =
    ClassDef string "expr list" "stmt list"
  | FunctionDef string parameters "expr list" "stmt list"
  | IfS expr "stmt list" "stmt list"
  | Return "expr option"
  | OtherS "expr list" "stmt list"

datatype node = NE expr | NS stmt

fun expr_nodes :: "expr \<Rightarrow> expr list" where
  "expr_nodes (Name s) = [Name s]"
| "expr_nodes (Attribute e a) = Attribute e a # expr_nodes e"
| "expr_nodes (CallE f as ks) = CallE f as ks # expr_nodes f @ concat (map expr_nodes as) @ concat (map expr_nodes ks)"
| "expr_nodes (Compare l ops cs) = Compare l ops cs # expr_nodes l @ concat (map expr_nodes cs)"
| "expr_nodes (Constant v) = [Constant v]"
| "expr_nodes (OtherE es) = OtherE es # concat (map expr_nodes es)"

definition exprs_walk :: "expr list \<Rightarrow> node list" where
  "exprs_walk es = map NE (concat (map expr_nodes es))"

fun walk :: "stmt \<Rightarrow> node list" where
  \<comment> \<open>\<open>ast.walk\<close>: the node and everything below it\<close>
  "walk (ClassDef n es ss) = NS (ClassDef n es ss) # exprs_walk es @ concat (map walk ss)"
| "walk (FunctionDef n ps es ss) = NS (FunctionDef n ps es ss) # exprs_walk es @ concat (map walk ss)"
| "walk (IfS t ss us) = NS (IfS t ss us) # exprs_walk [t] @ concat (map walk ss) @ concat (map walk us)"
| "walk (Return v) = NS (Return v) # exprs_walk (case v of None \<Rightarrow> [] | Some e \<Rightarrow> [e])"
| "walk (OtherS es ss) = NS (OtherS es ss) # exprs_walk es @ concat (map walk ss)"

subsection \<open>The compatibility gate\<close>

definition EXPECTED_RUNTIME_METHODS :: "(string \<times> string list) list" where
  "EXPECTED_RUNTIME_METHODS =
     [(''__init__'', [''self'', ''path'', ''threshold'', ''kwargs'']), (''save'', [''self'']),
      (''call'', [''self'', ''c'', ''n'', ''end'', ''save'', ''frozen'']), (''write'', [''self'', ''b'']),
      (''chat'', [''self'', ''save'', ''frozen'']), (''train'', [''self'', ''save'', ''frozen'', ''dataset'']),
      (''now'', [''self'']), (''__call__'', [''self'', ''mode'', ''dataset'', ''save'', ''frozen''])]"

record compatibility_report =
  cr_source_blob_sha :: string
  cr_compatible :: bool
  cr_runtime_class_present :: bool
  cr_missing_methods :: "string list"
  cr_signature_mismatches :: "string list"
  cr_main_guard_present :: bool
  cr_call_delegates_to_model :: bool
  cr_save_gate_present :: bool
  cr_call_returns_outputs :: bool

type_synonym method_def = "parameters \<times> expr list \<times> stmt list"

definition runtime_class :: "stmt list \<Rightarrow> stmt list option" where
  \<comment> \<open>the body of the first class named \<open>Runtime\<close>\<close>
  "runtime_class tree =
     (case find (\<lambda>s. case s of ClassDef n es ss \<Rightarrow> n = ''Runtime'' | _ \<Rightarrow> False) tree of
        Some (ClassDef n es ss) \<Rightarrow> Some ss | _ \<Rightarrow> None)"

definition methods_of :: "stmt list \<Rightarrow> (string \<times> method_def) list" where
  \<comment> \<open>the later of two methods of a name first, so that lookup finds it\<close>
  "methods_of body = rev (List.map_filter (\<lambda>s. case s of FunctionDef n ps es ss \<Rightarrow> Some (n, ps, es, ss) | _ \<Rightarrow> None) body)"

definition signature_of :: "parameters \<Rightarrow> string list" where
  "signature_of ps = pa_args ps @ (case pa_kwarg ps of None \<Rightarrow> [] | Some k \<Rightarrow> [k])"

definition calls_model :: "node \<Rightarrow> bool" where
  "calls_model nd \<longleftrightarrow>
     (case nd of
        NE (CallE (Attribute (Name s) a) args ks) \<Rightarrow>
          s = ''self'' \<and> a = ''model'' \<and>
          List.map_filter (\<lambda>e. case e of Name i \<Rightarrow> Some i | _ \<Rightarrow> None) args = [''c'', ''n'', ''end'', ''frozen'']
      | _ \<Rightarrow> False)"

definition calls_save :: "node \<Rightarrow> bool" where
  "calls_save nd \<longleftrightarrow>
     (case nd of NE (CallE (Attribute (Name s) a) args ks) \<Rightarrow> s = ''self'' \<and> a = ''save'' | _ \<Rightarrow> False)"

definition gates_save :: "node \<Rightarrow> bool" where
  "gates_save nd \<longleftrightarrow>
     (case nd of NS (IfS (Name t) ss us) \<Rightarrow> t = ''save'' \<and> list_ex calls_save (walk (IfS (Name t) ss us)) | _ \<Rightarrow> False)"

definition returns_outputs :: "node \<Rightarrow> bool" where
  "returns_outputs nd \<longleftrightarrow> (case nd of NS (Return (Some (Name r))) \<Rightarrow> r = ''outputs'' | _ \<Rightarrow> False)"

definition main_guard :: "stmt \<Rightarrow> bool" where
  "main_guard s \<longleftrightarrow>
     (case s of
        IfS (Compare (Name l) [op] [Constant v]) ss us \<Rightarrow> l = ''__name__'' \<and> op = ''Eq'' \<and> v = JStr ''__main__''
      | _ \<Rightarrow> False)"

definition inspect_legacy_source :: "(string \<Rightarrow> stmt list res) \<Rightarrow> string \<Rightarrow> string \<Rightarrow> compatibility_report res" where
  "inspect_legacy_source parse source blob_sha =
     bindE (raise_if (blank blob_sha) (ValueError ''source_blob_sha must be non-empty'')) (\<lambda>_.
     bindE (parse source) (\<lambda>tree.
     let runtime = runtime_class tree;
         methods = (case runtime of None \<Rightarrow> [] | Some body \<Rightarrow> methods_of body);
         missing = sort (filter (\<lambda>n. map_of methods n = None) (map fst EXPECTED_RUNTIME_METHODS));
         mismatches = map fst (filter (\<lambda>(n, sig). case map_of methods n of None \<Rightarrow> False | Some (ps, _) \<Rightarrow> signature_of ps \<noteq> sig)
           EXPECTED_RUNTIME_METHODS);
         nodes = (case map_of methods ''call'' of None \<Rightarrow> [] | Some (ps, es, ss) \<Rightarrow> walk (FunctionDef ''call'' ps es ss));
         delegates = list_ex calls_model nodes; save_gate = list_ex gates_save nodes; returns = list_ex returns_outputs nodes;
         guard = list_ex main_guard tree in
     Inr \<lparr>cr_source_blob_sha = blob_sha,
          cr_compatible = (runtime \<noteq> None \<and> missing = [] \<and> mismatches = [] \<and> guard \<and> delegates \<and> save_gate \<and> returns),
          cr_runtime_class_present = (runtime \<noteq> None), cr_missing_methods = missing, cr_signature_mismatches = sort mismatches,
          cr_main_guard_present = guard, cr_call_delegates_to_model = delegates, cr_save_gate_present = save_gate,
          cr_call_returns_outputs = returns\<rparr>))"

subsection \<open>One observed call\<close>

definition validate_byte :: "string \<Rightarrow> json \<Rightarrow> int res" where
  "validate_byte name v =
     (case v of
        JInt i \<Rightarrow> bindE (raise_if (\<not> (0 \<le> i \<and> i \<le> 255)) (ValueError (name @ '' must be an integer byte in [0, 255]''))) (\<lambda>_. Inr i)
      | _ \<Rightarrow> Inl (ValueError (name @ '' must be an integer byte in [0, 255]'')))"

definition invocation_payload :: "json \<Rightarrow> json \<Rightarrow> json \<Rightarrow> json \<Rightarrow> json \<Rightarrow> string res" where
  "invocation_payload c n e save frozen =
     bindE (validate_byte ''c'' c) (\<lambda>_.
     bindE (if n = JNull then Inr 0 else validate_byte ''n'' n) (\<lambda>_.
     bindE (raise_if (\<exists>v \<in> set [e, save, frozen]. v \<notin> {JBool True, JBool False}) (ValueError ''end/save/frozen must be bool'')) (\<lambda>_.
     Inr (dumps (JObj [(''c'', c), (''end'', e), (''frozen'', frozen), (''n'', n), (''save'', save)])))))"

datatype legacy_scalar = SInt int | SBool bool | SFloat string | SOther

datatype legacy_result = LTuple "legacy_scalar list" | LOther

definition result_payload :: "(int \<Rightarrow> string res) \<Rightarrow> legacy_result \<Rightarrow> string res" where
  \<comment> \<open>\<open>float_text i\<close> is the text of \<open>float(i)\<close>, an error where that overflows\<close>
  "result_payload float_text result =
     (case result of
        LTuple [b, stop] \<Rightarrow>
          bindE (validate_byte ''output byte'' (case b of SInt i \<Rightarrow> JInt i | SBool x \<Rightarrow> JBool x | _ \<Rightarrow> JNull)) (\<lambda>i.
          bindE (case stop of
                   SInt s \<Rightarrow> float_text s
                 | SFloat t \<Rightarrow> Inr t
                 | _ \<Rightarrow> Inl (TypeError ''Legacy Runtime.call stop value must be numeric'')) (\<lambda>t.
          Inr (''{\"byte\":'' @ show_int i @ '',\"stop\":'' @ t @ ''}'')))
      | _ \<Rightarrow> Inl (TypeError ''Legacy Runtime.call result must be a 2-tuple (byte, stop)''))"

record runtime_bridge =
  br_adapter :: legacy_adapter
  br_legacy_blob_sha :: string

definition bridge_init :: "legacy_adapter \<Rightarrow> string \<Rightarrow> runtime_bridge res" where
  "bridge_init a blob_sha =
     bindE (raise_if (blank blob_sha) (ValueError ''legacy_blob_sha must be non-empty'')) (\<lambda>_.
     Inr \<lparr>br_adapter = a, br_legacy_blob_sha = blob_sha\<rparr>)"

record call_observation =
  ob_case_id :: string
  ob_input_payload :: string
  ob_output_payload :: string
  ob_legacy_result :: legacy_result
  ob_capture :: legacy_capture
  ob_capture_receipt :: receipt

type_synonym 'r runtime_call = "json \<Rightarrow> json \<Rightarrow> json \<Rightarrow> json \<Rightarrow> json \<Rightarrow> 'r \<Rightarrow> legacy_result res \<times> 'r"

definition capture_result ::
  "runtime_bridge \<Rightarrow> gcase \<Rightarrow> string \<Rightarrow> string \<Rightarrow> legacy_result \<Rightarrow> call_observation io" where
  "capture_result b cs inp outp result =
     bindI (legacy_capture_op (br_adapter b) cs (Bytes inp) (Some (Bytes outp))
              (''legacy-runtime:'' @ br_legacy_blob_sha b @ '':call-input'')
              (Some (''legacy-runtime:'' @ br_legacy_blob_sha b @ '':call-output''))) (\<lambda>op.
     ret \<lparr>ob_case_id = cs_case_id cs, ob_input_payload = inp, ob_output_payload = outp, ob_legacy_result = result,
          ob_capture = so_value op, ob_capture_receipt = so_receipt op\<rparr>)"

definition invoke ::
  "runtime_bridge \<Rightarrow> (int \<Rightarrow> string res) \<Rightarrow> gcase \<Rightarrow> 'r runtime_call option \<Rightarrow> json \<Rightarrow> json \<Rightarrow> json \<Rightarrow> json \<Rightarrow> json \<Rightarrow>
     'r \<Rightarrow> world \<Rightarrow> call_observation res \<times> 'r \<times> world" where
  \<comment> \<open>a runtime without \<open>call\<close> is \<open>None\<close>\<close>
  "invoke b float_text cs runtime c n e save frozen r w =
     (case runtime of
        None \<Rightarrow> (Inl (TypeError ''runtime must expose callable Runtime.call''), r, w)
      | Some call_fn \<Rightarrow>
          (case invocation_payload c n e save frozen of
             Inl x \<Rightarrow> (Inl x, r, w)
           | Inr inp \<Rightarrow>
               (case call_fn c n e save frozen r of
                  (Inl x, r') \<Rightarrow> (Inl x, r', w)
                | (Inr result, r') \<Rightarrow>
                    (case result_payload float_text result of
                       Inl x \<Rightarrow> (Inl x, r', w)
                     | Inr outp \<Rightarrow> (case capture_result b cs inp outp result w of (ob, w') \<Rightarrow> (ob, r', w'))))))"

subsection \<open>Properties\<close>

lemma references_present: "\<not> blank (''legacy-runtime:'' @ s)"
  by simp

lemma receipt_at:
  assumes "legacy_works a" "list_all hex64 ih" "list_all hex64 oh" "\<not> blank op" "\<not> blank res" "aware t"
  shows "\<exists>r. legacy_receipt a op ih oh res (Some t) w = (Inr r, w\<lparr>w_tick := w_tick w + 1\<rparr>)"
  using assms by (auto simp: legacy_receipt_def bindI_Inr call_Inr receipt_post_init_Inr legacy_works_def)

lemma capture_returns:
  assumes "legacy_works (br_adapter b)"
  shows "\<exists>ob w'. capture_result b cs inp outp result w = (Inr ob, w') \<and> ob_case_id ob = cs_case_id cs \<and>
    ob_input_payload ob = inp \<and> ob_output_payload ob = outp \<and> ob_legacy_result ob = result \<and>
    lc_input_hash (ob_capture ob) = sha256 inp \<and> lc_output_payload (ob_capture ob) = Some outp \<and>
    lc_output_hash (ob_capture ob) = Some (sha256 outp) \<and> rc_output_commit (ob_capture_receipt ob) = None"
proof -
  let ?r = "''legacy-runtime:'' @ br_legacy_blob_sha b"
  have "\<not> blank (?r @ '':call-input'')" "\<not> blank (?r @ '':call-output'')" using references_present by simp_all
  moreover have "list_all hex64 [sha256 inp]" "list_all hex64 [sha256 outp]" by (simp_all add: lower_hex64_hex64 sha256_lower_hex64)
  moreover have "aware (la_clock (br_adapter b) n)" for n using assms by (simp add: legacy_works_def)
  ultimately have "\<exists>op w'. legacy_capture_op (br_adapter b) cs (Bytes inp) (Some (Bytes outp)) (?r @ '':call-input'') (Some (?r @ '':call-output'')) w = (Inr op, w')"
    using receipt_at [OF assms, of "[sha256 inp]" "[sha256 outp]" "''LEGACY_SHADOW_CAPTURE''" "''CAPTURED:READ_ONLY''"
        "la_clock (br_adapter b) (w_tick w)" "w\<lparr>w_tick := Suc (Suc (w_tick w))\<rparr>"]
    by (auto simp: legacy_capture_op_def Let_def bindI_def call_def)
  then obtain op w' where op: "legacy_capture_op (br_adapter b) cs (Bytes inp) (Some (Bytes outp)) (?r @ '':call-input'') (Some (?r @ '':call-output'')) w = (Inr op, w')"
    by blast
  from legacy_capture_Inr [OF op] op show ?thesis by (auto simp: capture_result_def consistent_capture_def)
qed

lemma capture_frame: "keeps (=) (capture_result b cs inp outp result)"
  unfolding capture_result_def by (intro frame_rules)

text \<open>Legacy runtime shim: a legacy call is made once and observed as it is.  Whatever the arguments, the
  runtime is in the state after exactly one call with them, or untouched if they are refused, and no file
  changes; when they are valid and the call returns a well-formed result, the bridge returns that same
  result, with both payloads under their digests and a receipt that claims no commit.\<close>

theorem legacy_call_is_observed:
  assumes "legacy_works (br_adapter b)"
  shows "(\<exists>ob w'. invoke b float_text cs (Some run) c n e save frozen r w =
      (ob, if isl (invocation_payload c n e save frozen) then r else snd (run c n e save frozen r), w') \<and> w_fs w' = w_fs w) \<and>
    (\<forall>inp result r' outp. invocation_payload c n e save frozen = Inr inp \<and> run c n e save frozen r = (Inr result, r') \<and>
        result_payload float_text result = Inr outp \<longrightarrow>
      (\<exists>ob w'. invoke b float_text cs (Some run) c n e save frozen r w = (Inr ob, r', w') \<and> ob_legacy_result ob = result \<and>
        lc_input_hash (ob_capture ob) = sha256 inp \<and> lc_output_payload (ob_capture ob) = Some outp \<and>
        lc_output_hash (ob_capture ob) = Some (sha256 outp) \<and> rc_output_commit (ob_capture_receipt ob) = None))"
proof (intro conjI allI impI)
  have files: "w_fs w' = w_fs w" if "capture_result b cs inp outp result w = (ob, w')" for inp outp result ob w'
    using capture_frame that by (rule keeps_same)
  show "\<exists>ob w'. invoke b float_text cs (Some run) c n e save frozen r w =
      (ob, if isl (invocation_payload c n e save frozen) then r else snd (run c n e save frozen r), w') \<and> w_fs w' = w_fs w"
    by (auto simp: invoke_def split: sum.splits prod.splits dest: files)
next
  fix inp result r' outp
  assume "invocation_payload c n e save frozen = Inr inp \<and> run c n e save frozen r = (Inr result, r') \<and> result_payload float_text result = Inr outp"
  moreover obtain ob w' where "capture_result b cs inp outp result w = (Inr ob, w')" "ob_legacy_result ob = result"
    "lc_input_hash (ob_capture ob) = sha256 inp" "lc_output_payload (ob_capture ob) = Some outp"
    "lc_output_hash (ob_capture ob) = Some (sha256 outp)" "rc_output_commit (ob_capture_receipt ob) = None"
    using capture_returns [OF assms] by blast
  ultimately show "\<exists>ob w'. invoke b float_text cs (Some run) c n e save frozen r w = (Inr ob, r', w') \<and> ob_legacy_result ob = result \<and>
        lc_input_hash (ob_capture ob) = sha256 inp \<and> lc_output_payload (ob_capture ob) = Some outp \<and>
        lc_output_hash (ob_capture ob) = Some (sha256 outp) \<and> rc_output_commit (ob_capture_receipt ob) = None"
    by (simp add: invoke_def)
qed

definition counting_runtime :: "nat runtime_call" where
  \<comment> \<open>a runtime that counts its calls and echoes the byte\<close>
  "counting_runtime c n e save frozen k = (Inr (LTuple [SInt (as_int 0 c), SFloat ''0.5'']), Suc k)"

lemma echoed: "invocation_payload (JInt 65) JNull (JBool False) (JBool False) (JBool True) = Inr (dumps (JObj [(''c'', JInt 65), (''end'', JBool False),
    (''frozen'', JBool True), (''n'', JNull), (''save'', JBool False)]))"
  "\<exists>outp. result_payload (\<lambda>i. Inr (show_int i)) (LTuple [SInt 65, SFloat ''0.5'']) = Inr outp"
  by (simp_all add: invocation_payload_def validate_byte_def result_payload_def raise_if_def bindE_def)

theorem legacy_call_is_observed_witness:
  "\<exists>ob w'. invoke \<lparr>br_adapter = example_adapter, br_legacy_blob_sha = ''blob''\<rparr> (\<lambda>i. Inr (show_int i)) example_case (Some counting_runtime)
      (JInt 65) JNull (JBool False) (JBool False) (JBool True) 3 (quiet_world []) = (Inr ob, 4, w') \<and>
     ob_legacy_result ob = LTuple [SInt 65, SFloat ''0.5'']"
proof -
  let ?b = "\<lparr>br_adapter = example_adapter, br_legacy_blob_sha = ''blob''\<rparr>"
  have works: "legacy_works (br_adapter ?b)" using example_adapter_works by simp
  have call: "counting_runtime (JInt 65) JNull (JBool False) (JBool False) (JBool True) 3 = (Inr (LTuple [SInt 65, SFloat ''0.5'']), 4)"
    by (simp add: counting_runtime_def as_int_def)
  from echoed(2) obtain outp where out: "result_payload (\<lambda>i. Inr (show_int i)) (LTuple [SInt 65, SFloat ''0.5'']) = Inr outp" by blast
  have "\<exists>ob w'. invoke ?b (\<lambda>i. Inr (show_int i)) example_case (Some counting_runtime)
      (JInt 65) JNull (JBool False) (JBool False) (JBool True) 3 (quiet_world []) = (Inr ob, 4, w') \<and> ob_legacy_result ob = LTuple [SInt 65, SFloat ''0.5''] \<and>
      lc_output_hash (ob_capture ob) = Some (sha256 outp)"
    using legacy_call_is_observed [OF works, THEN conjunct2, rule_format, where run = counting_runtime and r = 3, OF conjI, OF echoed(1) conjI, OF call out] by blast
  then show ?thesis by blast
qed

subsection \<open>What the gate does not see\<close>

definition method_named :: "string \<Rightarrow> string list \<Rightarrow> string list \<Rightarrow> string option \<Rightarrow> stmt list \<Rightarrow> stmt" where
  "method_named name args kwonly kwarg body =
     FunctionDef name \<lparr>pa_posonly = [], pa_args = args, pa_vararg = None, pa_kwonly = kwonly, pa_kwarg = kwarg\<rparr> [] body"

definition save_call :: stmt where
  "save_call = OtherS [CallE (Attribute (Name ''self'') ''save'') [] []] []"

definition strange_call :: "stmt list" where
  \<comment> \<open>\<open>outputs = self.model(c, n, end, frozen)\<close>, then \<open>if save: pass else: self.save()\<close>, then \<open>return outputs\<close>\<close>
  "strange_call =
     [OtherS [Name ''outputs'', CallE (Attribute (Name ''self'') ''model'') [Name ''c'', Name ''n'', Name ''end'', Name ''frozen''] []] [],
      IfS (Name ''save'') [OtherS [] []] [save_call],
      Return (Some (Name ''outputs''))]"

definition strange_source :: "stmt list" where
  \<comment> \<open>\<open>call\<close> also takes a keyword-only argument without a default\<close>
  "strange_source =
     [ClassDef ''Runtime'' []
        [method_named ''__init__'' [''self'', ''path'', ''threshold''] [] (Some ''kwargs'') [], method_named ''save'' [''self''] [] None [],
         method_named ''call'' [''self'', ''c'', ''n'', ''end'', ''save'', ''frozen''] [''strict''] None strange_call,
         method_named ''write'' [''self'', ''b''] [] None [], method_named ''chat'' [''self'', ''save'', ''frozen''] [] None [],
         method_named ''train'' [''self'', ''save'', ''frozen'', ''dataset''] [] None [], method_named ''now'' [''self''] [] None [],
         method_named ''__call__'' [''self'', ''mode'', ''dataset'', ''save'', ''frozen''] [] None []],
      IfS (Compare (Name ''__name__'') [''Eq''] [Constant (JStr ''__main__'')]) [] []]"

definition strange_parameters :: parameters where
  "strange_parameters = \<lparr>pa_posonly = [], pa_args = [''self'', ''c'', ''n'', ''end'', ''save'', ''frozen''], pa_vararg = None,
     pa_kwonly = [''strict''], pa_kwarg = None\<rparr>"

lemma strange_methods:
  "map_of (methods_of (the (runtime_class strange_source))) ''call'' = Some (strange_parameters, [], strange_call)"
  "filter gates_save (walk (FunctionDef ''call'' strange_parameters [] strange_call)) = [NS (IfS (Name ''save'') [OtherS [] []] [save_call])]"
  "\<not> list_ex calls_save (concat (map walk [OtherS [] []]))"
  by code_simp+

lemma strange_report:
  "\<exists>rep. inspect_legacy_source (\<lambda>_. Inr strange_source) [] ''blob'' = Inr rep \<and> cr_compatible rep"
proof -
  have "(case inspect_legacy_source (\<lambda>_. Inr strange_source) [] ''blob'' of Inl e \<Rightarrow> False | Inr rep \<Rightarrow> cr_compatible rep)"
    by code_simp
  then show ?thesis by (auto split: sum.splits)
qed

text \<open>Legacy runtime shim: the gate accepts runtimes that do not honour the contract.  A runtime whose \<open>call\<close>
  saves exactly when it is told not to, and cannot be called without a further keyword argument, is
  reported compatible: the gate looks for a save anywhere below the test of \<open>save\<close>, the other branch
  included, and compares positional names only.\<close>

theorem incompatible_runtime_passes:
  "\<exists>rep ps. inspect_legacy_source (\<lambda>_. Inr strange_source) src ''blob'' = Inr rep \<and> cr_compatible rep \<and>
     map_of (methods_of (the (runtime_class strange_source))) ''call'' = Some (ps, [], strange_call) \<and> pa_kwonly ps = [''strict''] \<and>
     filter gates_save (walk (FunctionDef ''call'' ps [] strange_call)) = [NS (IfS (Name ''save'') [OtherS [] []] [save_call])] \<and>
     \<not> list_ex calls_save (concat (map walk [OtherS [] []]))"
proof -
  from strange_report obtain rep where rep: "inspect_legacy_source (\<lambda>_. Inr strange_source) [] ''blob'' = Inr rep" "cr_compatible rep" by blast
  have "inspect_legacy_source (\<lambda>_. Inr strange_source) src ''blob'' = inspect_legacy_source (\<lambda>_. Inr strange_source) [] ''blob''"
    by (simp only: inspect_legacy_source_def)
  then have "inspect_legacy_source (\<lambda>_. Inr strange_source) src ''blob'' = Inr rep" using rep(1) by (rule trans)
  moreover have "pa_kwonly strange_parameters = [''strict'']" by (simp add: strange_parameters_def)
  ultimately show ?thesis using rep(2) strange_methods by (intro exI conjI)
qed

end
