(* ===== verification/Relational.thy ===== *)
theory Relational
  imports JsonValues
begin

section \<open>Tables with constraints\<close>

text \<open>
  What \<open>historical_store.py\<close> uses of SQLite, as Python's \<open>sqlite3\<close> shows it: tables of rows, bound values
  with column affinity, defaults, \<open>NOT NULL\<close>, \<open>CHECK\<close>, \<open>PRIMARY KEY\<close>, \<open>UNIQUE\<close> and \<open>REFERENCES\<close>, and
  transactions that roll back.  A database is a function from table names to rows in insertion order; a
  row lists its columns in the order of the schema.

  A key with a null is not compared, for \<open>UNIQUE\<close> as for a \<open>PRIMARY KEY\<close> of texts.  A text bound to an
  integer column is refused; no operation of the store binds one.
\<close>

type_synonym db = "string \<Rightarrow> row list"

record column =
  fd_name :: string
  fd_text :: bool
  fd_not_null :: bool
  fd_default :: json

record table =
  tb_name :: string
  tb_columns :: "column list"
  tb_auto :: "string option"
  tb_keys :: "string list list"
  tb_refs :: "(string \<times> string \<times> string) list"
  tb_checks :: "(row \<Rightarrow> bool) list"

abbreviation int_of_json :: "json \<Rightarrow> int" where
  "int_of_json v \<equiv> (case v of JInt i \<Rightarrow> i | _ \<Rightarrow> 0)"

definition stored :: "column \<Rightarrow> json \<Rightarrow> json res" where
  \<comment> \<open>a bound value after the affinity of its column\<close>
  "stored c v =
     (case v of
        JNull \<Rightarrow> Inr JNull
      | JBool b \<Rightarrow> Inr (if fd_text c then JStr (show_int (if b then 1 else 0)) else JInt (if b then 1 else 0))
      | JInt i \<Rightarrow> Inr (if fd_text c then JStr (show_int i) else JInt i)
      | JStr s \<Rightarrow> if fd_text c then Inr v else Inl (StdError ''IntegrityError'')
      | _ \<Rightarrow> Inl (StdError ''ProgrammingError''))"

definition well_typed :: "column \<Rightarrow> json \<Rightarrow> bool" where
  "well_typed c v \<longleftrightarrow> (case v of JNull \<Rightarrow> True | JStr s \<Rightarrow> fd_text c | JInt i \<Rightarrow> \<not> fd_text c | _ \<Rightarrow> False)"

definition next_id :: "string \<Rightarrow> row list \<Rightarrow> int" where
  \<comment> \<open>\<open>AUTOINCREMENT\<close> over rows that are never deleted\<close>
  "next_id k rows = 1 + foldr (\<lambda>r m. max m (int_of_json (jget r k))) rows 0"

definition cell :: "table \<Rightarrow> row list \<Rightarrow> row \<Rightarrow> column \<Rightarrow> (string \<times> json) res" where
  "cell t rows vals c =
     bindE (stored c (case map_of vals (fd_name c) of None \<Rightarrow> fd_default c | Some v \<Rightarrow> v)) (\<lambda>v.
     Inr (fd_name c, if v = JNull \<and> tb_auto t = Some (fd_name c) then JInt (next_id (fd_name c) rows) else v))"

definition full_row :: "table \<Rightarrow> row list \<Rightarrow> row \<Rightarrow> row res" where
  "full_row t rows vals =
     bindE (raise_if (\<not> set (map fst vals) \<subseteq> set (map fd_name (tb_columns t))) (StdError ''OperationalError'')) (\<lambda>_.
     mapE (cell t rows vals) (tb_columns t))"

definition row_valid :: "table \<Rightarrow> row \<Rightarrow> bool" where
  \<comment> \<open>the columns in order, of the declared types, and the \<open>NOT NULL\<close> and \<open>CHECK\<close> constraints\<close>
  "row_valid t r \<longleftrightarrow>
     map fst r = map fd_name (tb_columns t) \<and>
     list_all (\<lambda>c. well_typed c (jget r (fd_name c)) \<and> (fd_not_null c \<longrightarrow> jget r (fd_name c) \<noteq> JNull)) (tb_columns t) \<and>
     list_all (\<lambda>p. p r) (tb_checks t)"

definition key_of :: "string list \<Rightarrow> row \<Rightarrow> json list" where
  "key_of key r = map (jget r) key"

definition key_free :: "row list \<Rightarrow> row \<Rightarrow> string list \<Rightarrow> bool" where
  "key_free rows r key \<longleftrightarrow> JNull \<in> set (key_of key r) \<or> key_of key r \<notin> set (map (key_of key) rows)"

definition ref_ok :: "db \<Rightarrow> row \<Rightarrow> string \<times> string \<times> string \<Rightarrow> bool" where
  "ref_ok db r ref \<longleftrightarrow> (case ref of (c, t', c') \<Rightarrow> jget r c = JNull \<or> jget r c \<in> set (map (\<lambda>x. jget x c') (db t')))"

definition find_table :: "table list \<Rightarrow> string \<Rightarrow> table res" where
  "find_table sch n =
     (case find (\<lambda>t. tb_name t = n) sch of None \<Rightarrow> Inl (StdError ''OperationalError'') | Some t \<Rightarrow> Inr t)"

definition insert_row :: "table list \<Rightarrow> string \<Rightarrow> row \<Rightarrow> db \<Rightarrow> db res" where
  \<comment> \<open>\<open>INSERT INTO n(columns) VALUES (values)\<close>\<close>
  "insert_row sch n vals db =
     bindE (find_table sch n) (\<lambda>t.
     bindE (full_row t (db n) vals) (\<lambda>r.
     bindE (raise_if (\<not> (row_valid t r \<and> list_all (key_free (db n) r) (tb_keys t) \<and> list_all (ref_ok db r) (tb_refs t)))
              (StdError ''IntegrityError'')) (\<lambda>_.
     Inr (db(n := db n @ [r])))))"

definition overwrite :: "row \<Rightarrow> row \<Rightarrow> row" where
  "overwrite new r = map (\<lambda>(k, v). (k, case map_of new k of None \<Rightarrow> v | Some v' \<Rightarrow> v')) r"

definition update_rows :: "table list \<Rightarrow> string \<Rightarrow> (row \<Rightarrow> bool) \<Rightarrow> (row \<Rightarrow> row) \<Rightarrow> db \<Rightarrow> db res" where
  \<comment> \<open>\<open>UPDATE n SET ... WHERE p\<close> of columns outside every key and reference\<close>
  "update_rows sch n p new db =
     bindE (find_table sch n) (\<lambda>t.
     bindE (raise_if (\<not> list_all (\<lambda>r. p r \<longrightarrow> row_valid t (overwrite (new r) r)) (db n)) (StdError ''IntegrityError'')) (\<lambda>_.
     Inr (db(n := map (\<lambda>r. if p r then overwrite (new r) r else r) (db n)))))"

subsection \<open>The invariant of a schema\<close>

definition rows_ok :: "table \<Rightarrow> db \<Rightarrow> bool" where
  "rows_ok t db \<longleftrightarrow>
     (\<forall>r \<in> set (db (tb_name t)). row_valid t r \<and> list_all (ref_ok db r) (tb_refs t)) \<and>
     (\<forall>key \<in> set (tb_keys t). distinct (filter (\<lambda>k. JNull \<notin> set k) (map (key_of key) (db (tb_name t)))))"

definition db_ok :: "table list \<Rightarrow> db \<Rightarrow> bool" where
  "db_ok sch db \<longleftrightarrow> (\<forall>t \<in> set sch. rows_ok t db)"

definition schema_ok :: "table list \<Rightarrow> bool" where
  "schema_ok sch \<longleftrightarrow> distinct (map tb_name sch) \<and> list_all (\<lambda>t. distinct (map fd_name (tb_columns t))) sch"

definition free_columns :: "table list \<Rightarrow> string \<Rightarrow> string set \<Rightarrow> bool" where
  \<comment> \<open>columns of a table that no key and no reference uses\<close>
  "free_columns sch n cs \<longleftrightarrow>
     (\<forall>t \<in> set sch. (tb_name t = n \<longrightarrow> (\<forall>key \<in> set (tb_keys t). set key \<inter> cs = {}) \<and> (\<forall>(c, t', c') \<in> set (tb_refs t). c \<notin> cs)) \<and>
        (\<forall>(c, t', c') \<in> set (tb_refs t). t' = n \<longrightarrow> c' \<notin> cs))"

lemma find_table_Inr: "find_table sch n = Inr t \<Longrightarrow> t \<in> set sch \<and> tb_name t = n"
  by (auto simp: find_table_def find_Some_iff split: option.splits)

lemma same_table: "schema_ok sch \<Longrightarrow> t \<in> set sch \<Longrightarrow> u \<in> set sch \<Longrightarrow> tb_name t = tb_name u \<Longrightarrow> t = u"
  by (auto simp: schema_ok_def distinct_map dest: inj_onD)

lemma insert_row_Inr:
  assumes "insert_row sch n vals db = Inr db'"
  obtains t r where "t \<in> set sch" "tb_name t = n" "full_row t (db n) vals = Inr r" "row_valid t r"
    "list_all (key_free (db n) r) (tb_keys t)" "list_all (ref_ok db r) (tb_refs t)" "db' = db(n := db n @ [r])"
  using assms by (auto simp: insert_row_def bindE_Inr dest: find_table_Inr)

lemma ref_ok_mono: "ref_ok db r ref \<Longrightarrow> (\<And>n. set (db n) \<subseteq> set (db' n)) \<Longrightarrow> ref_ok db' r ref"
  by (auto simp: ref_ok_def split: prod.splits)

lemma insert_keeps_ok:
  assumes "schema_ok sch" "db_ok sch db" "insert_row sch n vals db = Inr db'"
  shows "db_ok sch db'"
  unfolding db_ok_def
proof
  fix u assume u: "u \<in> set sch"
  from assms(3) obtain t r where t: "t \<in> set sch" "tb_name t = n" and r: "row_valid t r"
    "list_all (key_free (db n) r) (tb_keys t)" "list_all (ref_ok db r) (tb_refs t)" "db' = db(n := db n @ [r])"
    by (rule insert_row_Inr)
  have mono: "set (db m) \<subseteq> set (db' m)" for m using r(4) by auto
  have old: "rows_ok u db" using assms(2) u by (simp add: db_ok_def)
  have refs: "list_all (ref_ok db' x) (tb_refs u)" if "list_all (ref_ok db x) (tb_refs u)" for x
    using that ref_ok_mono [OF _ mono] by (auto simp: list_all_iff)
  show "rows_ok u db'"
  proof (cases "tb_name u = n")
    case True
    with same_table [OF assms(1) u t(1)] t(2) have ut: "u = t" by simp
    have "distinct (filter (\<lambda>k. JNull \<notin> set k) (map (key_of key) (db n @ [r])))" if key: "key \<in> set (tb_keys t)" for key
      using old key r(2) t(2) by (auto simp: rows_ok_def ut list_all_iff key_free_def)
    then show ?thesis using old refs r t(2) by (auto simp: rows_ok_def ut)
  next
    case False
    with old refs r(4) show ?thesis by (auto simp: rows_ok_def)
  qed
qed

lemma jget_Cons: "jget ((k', v) # r) k = (if k = k' then v else jget r k)"
  by (simp add: jget_def)

lemma overwrite_Cons:
  "overwrite new ((k, v) # r) = (k, case map_of new k of None \<Rightarrow> v | Some v' \<Rightarrow> v') # overwrite new r"
  by (simp add: overwrite_def)

lemma overwrite_lookup:
  "k \<in> fst ` set r \<Longrightarrow> jget (overwrite new r) k = (case map_of new k of None \<Rightarrow> jget r k | Some v \<Rightarrow> v)"
proof (induction r)
  case (Cons p r)
  obtain k' v where p: "p = (k', v)" by (cases p)
  show ?case
  proof (cases "k = k'")
    case True
    then show ?thesis unfolding p overwrite_Cons by (cases "map_of new k") (simp_all add: jget_Cons)
  next
    case False
    with Cons have "k \<in> fst ` set r" by (auto simp: p)
    with Cons.IH False show ?thesis unfolding p overwrite_Cons by (cases "map_of new k") (simp_all add: jget_Cons)
  qed
qed simp

lemma overwrite_untouched: "map_of new k = None \<Longrightarrow> jget (overwrite new r) k = jget r k"
  by (induction r) (auto simp: overwrite_Cons jget_Cons overwrite_def [of new "[]"])

lemma update_rows_Inr:
  assumes "update_rows sch n p new db = Inr db'"
  obtains t where "t \<in> set sch" "tb_name t = n" "\<forall>r \<in> set (db n). p r \<longrightarrow> row_valid t (overwrite (new r) r)"
    "db' = db(n := map (\<lambda>r. if p r then overwrite (new r) r else r) (db n))"
proof -
  from assms obtain t where t: "find_table sch n = Inr t" by (auto simp: update_rows_def bindE_Inr)
  have "\<forall>r \<in> set (db n). p r \<longrightarrow> row_valid t (overwrite (new r) r)"
    "db' = db(n := map (\<lambda>r. if p r then overwrite (new r) r else r) (db n))"
    using assms by (auto simp: update_rows_def t bindE_Inr list_all_iff)
  with find_table_Inr [OF t] that show thesis by blast
qed

lemma update_keeps_ok:
  assumes "schema_ok sch" "db_ok sch db" "update_rows sch n p new db = Inr db'"
    and "free_columns sch n cs" "\<And>r. fst ` set (new r) \<subseteq> cs"
  shows "db_ok sch db'"
  unfolding db_ok_def
proof
  fix u assume u: "u \<in> set sch"
  let ?f = "\<lambda>r. if p r then overwrite (new r) r else r"
  from assms(3) obtain t where t: "t \<in> set sch" "tb_name t = n" "\<forall>r \<in> set (db n). p r \<longrightarrow> row_valid t (overwrite (new r) r)"
    "db' = db(n := map ?f (db n))" by (rule update_rows_Inr)
  have keep: "jget (?f r) k = jget r k" if "k \<notin> cs" for r k
  proof -
    have "map_of (new r) k = None" using assms(5) [of r] that by (auto simp: map_of_eq_None_iff)
    then show ?thesis by (simp add: overwrite_untouched)
  qed
  have old: "rows_ok u db" using assms(2) u by (simp add: db_ok_def)
  have target: "ref_ok db' x ref" if "ref_ok db x ref" "ref \<in> set (tb_refs u)" for x ref
  proof -
    obtain c t' c' where ref: "ref = (c, t', c')" by (cases ref)
    have "(\<lambda>x. jget x c') ` set (db' t') = (\<lambda>x. jget x c') ` set (db t')"
    proof (cases "t' = n")
      case True
      with assms(4) u that(2) ref have "c' \<notin> cs" by (auto simp: free_columns_def)
      from keep [OF this] have "(\<lambda>x. jget x c') ` ?f ` set (db n) = (\<lambda>x. jget x c') ` set (db n)"
        unfolding image_image by (intro image_cong) simp_all
      then show ?thesis using True t(4) by (simp del: if_image_distrib)
    qed (simp add: t(4))
    with that(1) ref show ?thesis by (simp add: ref_ok_def)
  qed
  show "rows_ok u db'"
  proof (cases "tb_name u = n")
    case True
    with same_table [OF assms(1) u t(1)] t(2) have ut: "u = t" by simp
    have free: "set key \<inter> cs = {}" if "key \<in> set (tb_keys t)" for key using assms(4) t(1,2) that by (auto simp: free_columns_def)
    have source: "c \<notin> cs" if "(c, t', c') \<in> set (tb_refs t)" for c t' c' using assms(4) t(1,2) that by (auto simp: free_columns_def)
    have "key_of key (?f r) = key_of key r" if "key \<in> set (tb_keys t)" for key r
      unfolding key_of_def using free [OF that] by (intro map_cong) (auto simp: keep disjoint_iff)
    then have keys: "map (key_of key) (map ?f (db n)) = map (key_of key) (db n)" if "key \<in> set (tb_keys t)" for key
      using that by simp
    have "ref_ok db' (?f r) ref" if "r \<in> set (db n)" "ref \<in> set (tb_refs t)" for r ref
    proof -
      obtain c t' c' where ref: "ref = (c, t', c')" by (cases ref)
      have "ref_ok db r ref" using old that t(2) by (auto simp: rows_ok_def ut list_all_iff)
      with target that(2) ut have "ref_ok db' r ref" by blast
      with keep [OF source] that(2) ref show ?thesis by (auto simp: ref_ok_def)
    qed
    then have refs: "list_all (ref_ok db' (?f r)) (tb_refs t)" if "r \<in> set (db n)" for r
      using that by (simp add: list_all_iff)
    have valid: "row_valid t (?f r)" if "r \<in> set (db n)" for r using old t(2,3) that by (simp add: rows_ok_def ut)
    have rows: "db' (tb_name t) = map ?f (db n)" using t(2,4) by simp
    have unique: "distinct (filter (\<lambda>k. JNull \<notin> set k) (map (key_of key) (map ?f (db n))))" if "key \<in> set (tb_keys t)" for key
      unfolding keys [OF that] using old t(2) that by (simp add: rows_ok_def ut)
    show ?thesis unfolding rows_ok_def ut rows
    proof (intro conjI ballI)
      fix r assume "r \<in> set (map ?f (db n))"
      then obtain x where x: "x \<in> set (db n)" "r = ?f x" unfolding set_map by blast
      show "row_valid t r" unfolding x(2) by (rule valid [OF x(1)])
      show "list_all (ref_ok db' r) (tb_refs t)" unfolding x(2) by (rule refs [OF x(1)])
    qed (rule unique)
  next
    case False
    with old target t(4) show ?thesis by (auto simp: rows_ok_def list_all_iff)
  qed
qed

subsection \<open>Sessions\<close>

text \<open>
  A session is the open connection with the clock and the source of identifiers.  Statements fail with an
  exception and leave the database alone; a transaction undoes everything its body did when the body raises.
\<close>

record session =
  sn_db :: db
  sn_tick :: nat
  sn_now :: "nat \<Rightarrow> string"
  sn_uuid :: "nat \<Rightarrow> string"

type_synonym 'a dbop = "session \<Rightarrow> 'a res \<times> session"

definition retS :: "'a \<Rightarrow> 'a dbop" where
  "retS x s = (Inr x, s)"

definition raiseS :: "pyexc \<Rightarrow> 'a dbop" where
  "raiseS e s = (Inl e, s)"

definition liftS :: "'a res \<Rightarrow> 'a dbop" where
  "liftS r s = (r, s)"

definition bindS :: "'a dbop \<Rightarrow> ('a \<Rightarrow> 'b dbop) \<Rightarrow> 'b dbop" where
  "bindS m k s = (case m s of (Inl e, s') \<Rightarrow> (Inl e, s') | (Inr x, s') \<Rightarrow> k x s')"

definition raise_ifS :: "bool \<Rightarrow> pyexc \<Rightarrow> unit dbop" where
  "raise_ifS c e = liftS (raise_if c e)"

definition queryS :: "(db \<Rightarrow> 'a res) \<Rightarrow> 'a dbop" where
  "queryS f s = (f (sn_db s), s)"

definition statement :: "(db \<Rightarrow> db res) \<Rightarrow> unit dbop" where
  "statement f s = (case f (sn_db s) of Inl e \<Rightarrow> (Inl e, s) | Inr db \<Rightarrow> (Inr (), s\<lparr>sn_db := db\<rparr>))"

definition utc_now :: "string dbop" where
  "utc_now s = (Inr (sn_now s (sn_tick s)), s\<lparr>sn_tick := Suc (sn_tick s)\<rparr>)"

definition new_id :: "string \<Rightarrow> string dbop" where
  \<comment> \<open>\<open>f"{prefix}_{uuid.uuid4().hex}"\<close>\<close>
  "new_id prefix s = (Inr (prefix @ ''_'' @ sn_uuid s (sn_tick s)), s\<lparr>sn_tick := Suc (sn_tick s)\<rparr>)"

definition transaction :: "'a dbop \<Rightarrow> 'a dbop" where
  "transaction body s = (case body s of (Inl e, s') \<Rightarrow> (Inl e, s'\<lparr>sn_db := sn_db s\<rparr>) | (Inr x, s') \<Rightarrow> (Inr x, s'))"

fun mapS :: "('a \<Rightarrow> 'b dbop) \<Rightarrow> 'a list \<Rightarrow> 'b list dbop" where
  "mapS f [] = retS []"
| "mapS f (x # xs) = bindS (f x) (\<lambda>y. bindS (mapS f xs) (\<lambda>ys. retS (y # ys)))"

lemma session_simps [simp]:
  "retS x s = (Inr x, s)" "raiseS e s = (Inl e, s)" "liftS r s = (r, s)" "queryS f s = (f (sn_db s), s)"
  "raise_ifS c e s = (raise_if c e, s)"
  by (simp_all add: retS_def raiseS_def liftS_def queryS_def raise_ifS_def)

lemma bindS_Inr: "bindS m k s = (Inr y, s') \<longleftrightarrow> (\<exists>x v. m s = (Inr x, v) \<and> k x v = (Inr y, s'))"
  by (auto simp: bindS_def split: prod.splits sum.splits)

subsection \<open>Operations that keep a property\<close>

definition maintains :: "(db \<Rightarrow> bool) \<Rightarrow> 'a dbop \<Rightarrow> bool" where
  \<comment> \<open>the operation keeps the property, whether it returns or raises\<close>
  "maintains P m \<longleftrightarrow> (\<forall>s. P (sn_db s) \<longrightarrow> P (sn_db (snd (m s))))"

lemma maintainsD: "maintains P m \<Longrightarrow> P (sn_db s) \<Longrightarrow> P (sn_db (snd (m s)))"
  by (simp add: maintains_def)

named_theorems maintains_intros

lemma maintains_pure [maintains_intros]:
  "maintains P (retS x)" "maintains P (raiseS e)" "maintains P (liftS r)" "maintains P (queryS f)" "maintains P utc_now" "maintains P (new_id p)"
  "maintains P (raise_ifS c e)"
  by (simp_all add: maintains_def utc_now_def new_id_def)

lemma maintains_bind [maintains_intros]: "maintains P m \<Longrightarrow> (\<And>x. maintains P (k x)) \<Longrightarrow> maintains P (bindS m k)"
  unfolding maintains_def bindS_def by (fastforce split: prod.splits sum.splits)

lemma maintains_transaction [maintains_intros]: "maintains P m \<Longrightarrow> maintains P (transaction m)"
  unfolding maintains_def transaction_def by (fastforce split: prod.splits sum.splits)

lemma maintains_statement: "(\<And>db db'. P db \<Longrightarrow> f db = Inr db' \<Longrightarrow> P db') \<Longrightarrow> maintains P (statement f)"
  unfolding maintains_def statement_def by (auto split: sum.splits)

lemma maintains_mapS [maintains_intros]: "(\<And>x. maintains P (f x)) \<Longrightarrow> maintains P (mapS f xs)"
  by (induction xs) (auto intro!: maintains_intros)

lemma maintains_if [maintains_intros]: "(c \<Longrightarrow> maintains P a) \<Longrightarrow> (\<not> c \<Longrightarrow> maintains P b) \<Longrightarrow> maintains P (if c then a else b)"
  by simp

lemma maintains_case_option [maintains_intros]:
  "maintains P a \<Longrightarrow> (\<And>x. maintains P (b x)) \<Longrightarrow> maintains P (case v of None \<Rightarrow> a | Some x \<Rightarrow> b x)"
  by (cases v) auto

end
