(* ===== verification/HistoricalSchema.thy ===== *)
theory HistoricalSchema
  imports Relational
begin

section \<open>The schema of the historical store\<close>

text \<open>
  The tables of \<open>historical_store.py\<close> at schema version 3, as its \<open>CREATE TABLE\<close> and \<open>ALTER TABLE\<close>
  statements declare them.  Foreign keys are enforced (\<open>PRAGMA foreign_keys = ON\<close>).
\<close>

definition text_col :: "string \<Rightarrow> column" where
  \<comment> \<open>\<open>TEXT\<close>\<close>
  "text_col n = \<lparr>fd_name = n, fd_text = True, fd_not_null = False, fd_default = JNull\<rparr>"

definition required_col :: "string \<Rightarrow> column" where
  \<comment> \<open>\<open>TEXT NOT NULL\<close>\<close>
  "required_col n = \<lparr>fd_name = n, fd_text = True, fd_not_null = True, fd_default = JNull\<rparr>"

definition default_col :: "string \<Rightarrow> string \<Rightarrow> column" where
  \<comment> \<open>\<open>TEXT NOT NULL DEFAULT '...'\<close>\<close>
  "default_col n v = \<lparr>fd_name = n, fd_text = True, fd_not_null = True, fd_default = JStr v\<rparr>"

definition int_col :: "string \<Rightarrow> column" where
  "int_col n = \<lparr>fd_name = n, fd_text = False, fd_not_null = False, fd_default = JNull\<rparr>"

definition rowid_col :: "string \<Rightarrow> column" where
  \<comment> \<open>\<open>INTEGER PRIMARY KEY\<close>, never null\<close>
  "rowid_col n = \<lparr>fd_name = n, fd_text = False, fd_not_null = True, fd_default = JNull\<rparr>"

definition flag_col :: "string \<Rightarrow> column" where
  \<comment> \<open>\<open>INTEGER NOT NULL DEFAULT 0\<close>\<close>
  "flag_col n = \<lparr>fd_name = n, fd_text = False, fd_not_null = True, fd_default = JInt 0\<rparr>"

definition one_of :: "string \<Rightarrow> string list \<Rightarrow> row \<Rightarrow> bool" where
  \<comment> \<open>\<open>CHECK (c IN (...))\<close>; a null passes\<close>
  "one_of c vs r \<longleftrightarrow> jget r c = JNull \<or> jget r c \<in> set (map JStr vs)"

definition digest_length :: "string \<Rightarrow> row \<Rightarrow> bool" where
  \<comment> \<open>\<open>CHECK (c IS NULL OR length(c) = 64)\<close>\<close>
  "digest_length c r \<longleftrightarrow> (case jget r c of JStr s \<Rightarrow> str_len s = 64 | v \<Rightarrow> v = JNull)"

definition flag_value :: "string \<Rightarrow> row \<Rightarrow> bool" where
  \<comment> \<open>\<open>CHECK (c IN (0, 1))\<close>\<close>
  "flag_value c r \<longleftrightarrow> jget r c \<in> {JNull, JInt 0, JInt 1}"

definition not_negative :: "string \<Rightarrow> row \<Rightarrow> bool" where
  \<comment> \<open>\<open>CHECK (c IS NULL OR c >= 0)\<close>\<close>
  "not_negative c r \<longleftrightarrow> (case jget r c of JInt i \<Rightarrow> 0 \<le> i | v \<Rightarrow> v = JNull)"

definition captured_is_complete :: "row \<Rightarrow> bool" where
  "captured_is_complete r \<longleftrightarrow>
     jget r ''acquisition_state'' \<noteq> JStr ''RAW_CAPTURED'' \<or>
     jget r ''raw_artifact'' = JInt 1 \<and> jget r ''content_sha256'' \<noteq> JNull \<and> jget r ''byte_length'' \<noteq> JNull"

definition raw_is_captured :: "row \<Rightarrow> bool" where
  "raw_is_captured r \<longleftrightarrow> jget r ''acquisition_state'' = JStr ''RAW_CAPTURED'' \<or> jget r ''raw_artifact'' = JInt 0"

definition metadata_col :: column where
  "metadata_col = default_col ''metadata_json'' ''{}''"

definition created_col :: column where
  "created_col = required_col ''created_at_utc''"

definition schema_meta_table :: table where
  "schema_meta_table = \<lparr>tb_name = ''schema_meta'', tb_columns = [text_col ''key'', required_col ''value''], tb_auto = None,
     tb_keys = [[''key'']], tb_refs = [], tb_checks = []\<rparr>"

definition sources_table :: table where
  "sources_table = \<lparr>tb_name = ''sources'',
     tb_columns = [text_col ''source_id'', required_col ''source_type'', required_col ''title'', text_col ''custodian'',
       text_col ''repository'', text_col ''locator'', text_col ''url'', metadata_col, created_col],
     tb_auto = None, tb_keys = [[''source_id'']], tb_refs = [], tb_checks = []\<rparr>"

definition documents_table :: table where
  "documents_table = \<lparr>tb_name = ''documents'',
     tb_columns = [text_col ''document_id'', text_col ''source_id'', required_col ''title'', text_col ''document_date'',
       text_col ''event_date_start'', text_col ''event_date_end'', text_col ''content_sha256'', int_col ''byte_length'',
       text_col ''content_locator'', metadata_col, created_col],
     tb_auto = None, tb_keys = [[''document_id'']], tb_refs = [(''source_id'', ''sources'', ''source_id'')],
     tb_checks = [digest_length ''content_sha256'']\<rparr>"

definition ingest_runs_table :: table where
  "ingest_runs_table = \<lparr>tb_name = ''ingest_runs'',
     tb_columns = [text_col ''run_id'', text_col ''engine_version'', text_col ''prompt_version'', required_col ''input_sha256'',
       text_col ''output_sha256'', required_col ''mode'', required_col ''status'', metadata_col, created_col],
     tb_auto = None, tb_keys = [[''run_id'']], tb_refs = [],
     tb_checks = [digest_length ''input_sha256'', digest_length ''output_sha256'']\<rparr>"

definition entities_table :: table where
  "entities_table = \<lparr>tb_name = ''entities'',
     tb_columns = [text_col ''entity_id'', required_col ''entity_type'', required_col ''canonical_name'',
       default_col ''authority_status'' ''PROVISIONAL'', metadata_col, created_col],
     tb_auto = None, tb_keys = [[''entity_id'']], tb_refs = [], tb_checks = []\<rparr>"

definition entity_aliases_table :: table where
  "entity_aliases_table = \<lparr>tb_name = ''entity_aliases'',
     tb_columns = [text_col ''alias_id'', required_col ''entity_id'', required_col ''alias'', text_col ''language'',
       text_col ''valid_from'', text_col ''valid_to'', metadata_col],
     tb_auto = None, tb_keys = [[''alias_id''], [''entity_id'', ''alias'', ''language'']],
     tb_refs = [(''entity_id'', ''entities'', ''entity_id'')], tb_checks = []\<rparr>"

definition claim_statuses :: "string list" where
  "claim_statuses = [''PROPOSED'', ''VALIDATED'', ''CANONICAL'', ''REJECTED'', ''QUARANTINED'']"

definition claims_table :: table where
  "claims_table = \<lparr>tb_name = ''claims'',
     tb_columns = [text_col ''claim_id'', text_col ''document_id'', text_col ''run_id'', text_col ''subject_entity_id'',
       required_col ''predicate'', text_col ''object_entity_id'', text_col ''object_value'', required_col ''claim_text'',
       default_col ''status'' ''PROPOSED'', required_col ''created_by'', metadata_col, created_col, text_col ''promoted_at_utc''],
     tb_auto = None, tb_keys = [[''claim_id'']],
     tb_refs = [(''document_id'', ''documents'', ''document_id''), (''run_id'', ''ingest_runs'', ''run_id''),
       (''subject_entity_id'', ''entities'', ''entity_id''), (''object_entity_id'', ''entities'', ''entity_id'')],
     tb_checks = [one_of ''status'' claim_statuses]\<rparr>"

definition EVIDENCE_ROLES :: "string list" where
  "EVIDENCE_ROLES = [''supports'', ''contradicts'', ''mentions'']"

definition claim_evidence_table :: table where
  \<comment> \<open>with the column version 3 adds\<close>
  "claim_evidence_table = \<lparr>tb_name = ''claim_evidence'',
     tb_columns = [text_col ''evidence_id'', required_col ''claim_id'', required_col ''document_id'', text_col ''locator'',
       text_col ''excerpt_sha256'', required_col ''role'', metadata_col, created_col, text_col ''representation_id''],
     tb_auto = None, tb_keys = [[''evidence_id'']],
     tb_refs = [(''claim_id'', ''claims'', ''claim_id''), (''document_id'', ''documents'', ''document_id''),
       (''representation_id'', ''document_representations'', ''representation_id'')],
     tb_checks = [one_of ''role'' EVIDENCE_ROLES, digest_length ''excerpt_sha256'']\<rparr>"

definition relations_table :: table where
  "relations_table = \<lparr>tb_name = ''relations'',
     tb_columns = [text_col ''relation_id'', required_col ''subject_entity_id'', required_col ''relation_type'',
       required_col ''object_entity_id'', text_col ''valid_from'', text_col ''valid_to'', default_col ''status'' ''PROPOSED'',
       text_col ''source_claim_id'', metadata_col, created_col],
     tb_auto = None, tb_keys = [[''relation_id'']],
     tb_refs = [(''subject_entity_id'', ''entities'', ''entity_id''), (''object_entity_id'', ''entities'', ''entity_id''),
       (''source_claim_id'', ''claims'', ''claim_id'')], tb_checks = []\<rparr>"

definition events_table :: table where
  "events_table = \<lparr>tb_name = ''events'',
     tb_columns = [text_col ''event_id'', required_col ''event_type'', required_col ''label'', text_col ''event_date_start'',
       text_col ''event_date_end'', text_col ''date_precision'', text_col ''place_entity_id'',
       default_col ''status'' ''PROPOSED'', text_col ''source_claim_id'', metadata_col, created_col],
     tb_auto = None, tb_keys = [[''event_id'']],
     tb_refs = [(''place_entity_id'', ''entities'', ''entity_id''), (''source_claim_id'', ''claims'', ''claim_id'')],
     tb_checks = []\<rparr>"

definition event_participants_table :: table where
  "event_participants_table = \<lparr>tb_name = ''event_participants'',
     tb_columns = [required_col ''event_id'', required_col ''entity_id'', required_col ''role'', metadata_col],
     tb_auto = None, tb_keys = [[''event_id'', ''entity_id'', ''role'']],
     tb_refs = [(''event_id'', ''events'', ''event_id''), (''entity_id'', ''entities'', ''entity_id'')], tb_checks = []\<rparr>"

definition discrepancies_table :: table where
  "discrepancies_table = \<lparr>tb_name = ''discrepancies'',
     tb_columns = [text_col ''discrepancy_id'', required_col ''topic_key'', required_col ''description'',
       default_col ''status'' ''OPEN'', text_col ''resolution'', metadata_col, required_col ''opened_at_utc'', text_col ''resolved_at_utc''],
     tb_auto = None, tb_keys = [[''discrepancy_id'']], tb_refs = [],
     tb_checks = [one_of ''status'' [''OPEN'', ''RESOLVED'', ''CLOSED_NO_RESOLUTION'']]\<rparr>"

definition discrepancy_claims_table :: table where
  "discrepancy_claims_table = \<lparr>tb_name = ''discrepancy_claims'',
     tb_columns = [required_col ''discrepancy_id'', required_col ''claim_id'', required_col ''stance''],
     tb_auto = None, tb_keys = [[''discrepancy_id'', ''claim_id'']],
     tb_refs = [(''discrepancy_id'', ''discrepancies'', ''discrepancy_id''), (''claim_id'', ''claims'', ''claim_id'')],
     tb_checks = []\<rparr>"

definition reviews_table :: table where
  "reviews_table = \<lparr>tb_name = ''reviews'',
     tb_columns = [text_col ''review_id'', required_col ''object_type'', required_col ''object_id'', required_col ''decision'',
       required_col ''reviewer'', required_col ''rationale'', metadata_col, created_col],
     tb_auto = None, tb_keys = [[''review_id'']], tb_refs = [], tb_checks = []\<rparr>"

definition audit_log_table :: table where
  "audit_log_table = \<lparr>tb_name = ''audit_log'',
     tb_columns = [rowid_col ''audit_id'', required_col ''event_type'', text_col ''object_type'', text_col ''object_id'',
       default_col ''payload_json'' ''{}'', created_col],
     tb_auto = Some ''audit_id'', tb_keys = [[''audit_id'']], tb_refs = [], tb_checks = []\<rparr>"

definition acquisition_states :: "string list" where
  "acquisition_states = [''RAW_CAPTURED'', ''TEXT_SURROGATE'', ''REMOTE_BLOCKED'', ''LOCATOR_ONLY'', ''QUARANTINED'']"

definition representations_table :: table where
  "representations_table = \<lparr>tb_name = ''document_representations'',
     tb_columns = [text_col ''representation_id'', required_col ''document_id'', required_col ''representation_type'',
       required_col ''acquisition_state'', text_col ''mime_type'', text_col ''content_sha256'', int_col ''byte_length'',
       required_col ''locator'', text_col ''source_url'', flag_col ''raw_artifact'', flag_col ''preferred_for_review'',
       metadata_col, created_col],
     tb_auto = None, tb_keys = [[''representation_id''], [''document_id'', ''representation_type'', ''locator'']],
     tb_refs = [(''document_id'', ''documents'', ''document_id'')],
     tb_checks = [one_of ''acquisition_state'' acquisition_states, flag_value ''raw_artifact'', flag_value ''preferred_for_review'',
       digest_length ''content_sha256'', not_negative ''byte_length'', captured_is_complete, raw_is_captured]\<rparr>"

definition history_schema :: "table list" where
  "history_schema = [schema_meta_table, sources_table, documents_table, ingest_runs_table, entities_table,
     entity_aliases_table, claims_table, claim_evidence_table, relations_table, events_table, event_participants_table,
     discrepancies_table, discrepancy_claims_table, reviews_table, audit_log_table, representations_table]"

lemmas table_defs =
  schema_meta_table_def sources_table_def documents_table_def ingest_runs_table_def entities_table_def
  entity_aliases_table_def claims_table_def claim_evidence_table_def relations_table_def events_table_def
  event_participants_table_def discrepancies_table_def discrepancy_claims_table_def reviews_table_def
  audit_log_table_def representations_table_def

lemmas column_defs = text_col_def required_col_def default_col_def int_col_def rowid_col_def flag_col_def metadata_col_def created_col_def

lemma history_schema_ok: "schema_ok history_schema"
  by (simp add: schema_ok_def history_schema_def table_defs column_defs)

lemma status_columns_free:
  "free_columns history_schema ''claims'' {''status'', ''promoted_at_utc''}"
  "free_columns history_schema ''discrepancies'' {''status'', ''resolution'', ''resolved_at_utc''}"
  "free_columns history_schema ''schema_meta'' {''value''}"
  by (simp_all add: free_columns_def history_schema_def table_defs)

lemma find_history_table [simp]:
  "find_table history_schema ''claims'' = Inr claims_table"
  "find_table history_schema ''reviews'' = Inr reviews_table"
  "find_table history_schema ''audit_log'' = Inr audit_log_table"
  "find_table history_schema ''documents'' = Inr documents_table"
  "find_table history_schema ''document_representations'' = Inr representations_table"
  "find_table history_schema ''claim_evidence'' = Inr claim_evidence_table"
  "find_table history_schema ''discrepancies'' = Inr discrepancies_table"
  "find_table history_schema ''ingest_runs'' = Inr ingest_runs_table"
  "find_table history_schema ''entity_aliases'' = Inr entity_aliases_table"
  by (simp_all add: find_table_def history_schema_def table_defs)

end
