(* ===== verification/HistoricalStore.thy ===== *)
theory HistoricalStore
  imports HistoricalSchema Sha256
begin

section \<open>The operations of the historical store\<close>

text \<open>
  \<open>HistoricalStore\<close> of \<open>historical_store.py\<close> over an open connection: every registration is one transaction
  that inserts a row and an audit record; claims are proposed, given evidence, reviewed and bundled.
  Optional texts are \<open>string option\<close>, optional metadata a JSON object, bytes are strings.
\<close>

definition SCHEMA_VERSION :: int where
  "SCHEMA_VERSION = 3"

definition canonical_json :: "row option \<Rightarrow> string" where
  "canonical_json m = dumps (JObj (case m of None \<Rightarrow> [] | Some d \<Rightarrow> d))"

definition insert_into :: "string \<Rightarrow> row \<Rightarrow> unit dbop" where
  "insert_into n vals = statement (insert_row history_schema n vals)"

definition update_in :: "string \<Rightarrow> (row \<Rightarrow> bool) \<Rightarrow> (row \<Rightarrow> row) \<Rightarrow> unit dbop" where
  "update_in n p new = statement (update_rows history_schema n p new)"

definition id_or_new :: "string option \<Rightarrow> string \<Rightarrow> string dbop" where
  \<comment> \<open>\<open>given or _new_id(prefix)\<close>\<close>
  "id_or_new given prefix = (case given of None \<Rightarrow> new_id prefix | Some s \<Rightarrow> if s = [] then new_id prefix else retS s)"

definition audit :: "string \<Rightarrow> string \<Rightarrow> string \<Rightarrow> row option \<Rightarrow> unit dbop" where
  "audit event object_type object_id payload =
     bindS utc_now (\<lambda>ts.
     insert_into ''audit_log''
       [(''event_type'', JStr event), (''object_type'', JStr object_type), (''object_id'', JStr object_id),
        (''payload_json'', JStr (canonical_json payload)), (''created_at_utc'', JStr ts)])"

definition select_one :: "string \<Rightarrow> string \<Rightarrow> string \<Rightarrow> db \<Rightarrow> row option" where
  \<comment> \<open>\<open>SELECT ... FROM n WHERE k = v\<close>, \<open>fetchone\<close>\<close>
  "select_one n k v db = find (\<lambda>r. jget r k = JStr v) (db n)"

definition key_error :: pyexc where
  "key_error = StdError ''KeyError''"

subsection \<open>Sources, documents, runs and entities\<close>

definition register_source ::
  "string \<Rightarrow> string \<Rightarrow> string option \<Rightarrow> string option \<Rightarrow> string option \<Rightarrow> string option \<Rightarrow> row option \<Rightarrow> string option \<Rightarrow> string dbop" where
  "register_source source_type title custodian repository locator url metadata source_id =
     bindS (id_or_new source_id ''src'') (\<lambda>sid.
     bindS (transaction (
       bindS utc_now (\<lambda>ts.
       bindS (insert_into ''sources''
         [(''source_id'', JStr sid), (''source_type'', JStr source_type), (''title'', JStr title), (''custodian'', opt_str custodian),
          (''repository'', opt_str repository), (''locator'', opt_str locator), (''url'', opt_str url),
          (''metadata_json'', JStr (canonical_json metadata)), (''created_at_utc'', JStr ts)]) (\<lambda>_.
       audit ''source_registered'' ''source'' sid None)))) (\<lambda>_.
     retS sid))"

definition document_digest :: "string option \<Rightarrow> string option \<Rightarrow> int option \<Rightarrow> (string option \<times> int option) res" where
  \<comment> \<open>the digest and length of supplied content, or what the caller says\<close>
  "document_digest content content_sha256 byte_length =
     bindE (case content of
              None \<Rightarrow> Inr (content_sha256, byte_length)
            | Some c \<Rightarrow>
                bindE (raise_if (content_sha256 \<noteq> None \<and> content_sha256 \<noteq> Some (sha256 c))
                         (ValueError ''content_sha256 does not match supplied content'')) (\<lambda>_.
                Inr (Some (sha256 c), Some (int (length c))))) (\<lambda>(h, n).
     bindE (raise_if (case h of None \<Rightarrow> False | Some s \<Rightarrow> str_len s \<noteq> 64)
              (ValueError ''content_sha256 must be a 64-character SHA-256 hex digest'')) (\<lambda>_.
     Inr (h, n)))"

definition opt_int :: "int option \<Rightarrow> json" where
  "opt_int v = (case v of None \<Rightarrow> JNull | Some i \<Rightarrow> JInt i)"

definition register_document ::
  "string \<Rightarrow> string option \<Rightarrow> string option \<Rightarrow> string option \<Rightarrow> string option \<Rightarrow> string option \<Rightarrow> string option \<Rightarrow>
     int option \<Rightarrow> string option \<Rightarrow> row option \<Rightarrow> string option \<Rightarrow> string dbop" where
  "register_document title source_id document_date event_date_start event_date_end content content_sha256 byte_length
     content_locator metadata document_id =
     bindS (id_or_new document_id ''doc'') (\<lambda>did.
     bindS (liftS (document_digest content content_sha256 byte_length)) (\<lambda>(h, n).
     bindS (transaction (
       bindS utc_now (\<lambda>ts.
       bindS (insert_into ''documents''
         [(''document_id'', JStr did), (''source_id'', opt_str source_id), (''title'', JStr title),
          (''document_date'', opt_str document_date), (''event_date_start'', opt_str event_date_start),
          (''event_date_end'', opt_str event_date_end), (''content_sha256'', opt_str h), (''byte_length'', opt_int n),
          (''content_locator'', opt_str content_locator), (''metadata_json'', JStr (canonical_json metadata)),
          (''created_at_utc'', JStr ts)]) (\<lambda>_.
       audit ''document_registered'' ''document'' did
         (Some [(''content_sha256'', opt_str h), (''document_date'', opt_str document_date),
                (''event_date_start'', opt_str event_date_start), (''event_date_end'', opt_str event_date_end)]))))) (\<lambda>_.
     retS did)))"

definition representation_checks ::
  "string \<Rightarrow> string \<Rightarrow> string option \<Rightarrow> int option \<Rightarrow> bool \<Rightarrow> unit res" where
  "representation_checks acquisition_state locator content_sha256 byte_length raw_artifact =
     bindE (raise_if (acquisition_state \<notin> set acquisition_states) (ValueError ''Unsupported acquisition_state'')) (\<lambda>_.
     bindE (raise_if (blank locator) (ValueError ''Representation locator is required'')) (\<lambda>_.
     bindE (raise_if (case content_sha256 of None \<Rightarrow> False | Some s \<Rightarrow> str_len s \<noteq> 64)
              (ValueError ''content_sha256 must be a 64-character SHA-256 hex digest'')) (\<lambda>_.
     bindE (raise_if (case byte_length of None \<Rightarrow> False | Some i \<Rightarrow> i < 0) (ValueError ''byte_length cannot be negative'')) (\<lambda>_.
     if acquisition_state = ''RAW_CAPTURED'' then
       bindE (raise_if (\<not> raw_artifact) (ValueError ''RAW_CAPTURED requires raw_artifact=True'')) (\<lambda>_.
       raise_if (content_sha256 = None \<or> byte_length = None) (ValueError ''RAW_CAPTURED requires content_sha256 and byte_length''))
     else raise_if raw_artifact (ValueError ''Only RAW_CAPTURED may assert raw_artifact=True'')))))"

definition flag :: "bool \<Rightarrow> json" where
  "flag b = JInt (if b then 1 else 0)"

definition register_document_representation ::
  "string \<Rightarrow> string \<Rightarrow> string \<Rightarrow> string \<Rightarrow> string option \<Rightarrow> string option \<Rightarrow> int option \<Rightarrow> string option \<Rightarrow>
     bool \<Rightarrow> bool \<Rightarrow> row option \<Rightarrow> string option \<Rightarrow> string dbop" where
  "register_document_representation document_id representation_type acquisition_state locator mime_type content_sha256
     byte_length source_url raw_artifact preferred metadata representation_id =
     bindS (liftS (representation_checks acquisition_state locator content_sha256 byte_length raw_artifact)) (\<lambda>_.
     bindS (id_or_new representation_id ''repr'') (\<lambda>rid.
     bindS (transaction (
       bindS (queryS (\<lambda>db. raise_if (select_one ''documents'' ''document_id'' document_id db = None) key_error)) (\<lambda>_.
       bindS utc_now (\<lambda>ts.
       bindS (insert_into ''document_representations''
         [(''representation_id'', JStr rid), (''document_id'', JStr document_id), (''representation_type'', JStr representation_type),
          (''acquisition_state'', JStr acquisition_state), (''mime_type'', opt_str mime_type), (''content_sha256'', opt_str content_sha256),
          (''byte_length'', opt_int byte_length), (''locator'', JStr locator), (''source_url'', opt_str source_url),
          (''raw_artifact'', flag raw_artifact), (''preferred_for_review'', flag preferred),
          (''metadata_json'', JStr (canonical_json metadata)), (''created_at_utc'', JStr ts)]) (\<lambda>_.
       audit ''document_representation_registered'' ''document_representation'' rid
         (Some [(''document_id'', JStr document_id), (''representation_type'', JStr representation_type),
                (''acquisition_state'', JStr acquisition_state), (''content_sha256'', opt_str content_sha256),
                (''raw_artifact'', JBool raw_artifact)])))))) (\<lambda>_.
     retS rid)))"

definition store_ingest_run ::
  "string \<Rightarrow> string option \<Rightarrow> string \<Rightarrow> string \<Rightarrow> string option \<Rightarrow> string option \<Rightarrow> row option \<Rightarrow> string option \<Rightarrow> string dbop" where
  \<comment> \<open>the run with the digests of its input and output\<close>
  "store_ingest_run input_sha256 output_sha256 mode status engine_version prompt_version metadata run_id =
     bindS (id_or_new run_id ''run'') (\<lambda>rid.
     bindS (transaction (
       bindS utc_now (\<lambda>ts.
       bindS (insert_into ''ingest_runs''
         [(''run_id'', JStr rid), (''engine_version'', opt_str engine_version), (''prompt_version'', opt_str prompt_version),
          (''input_sha256'', JStr input_sha256), (''output_sha256'', opt_str output_sha256),
          (''mode'', JStr mode), (''status'', JStr status), (''metadata_json'', JStr (canonical_json metadata)),
          (''created_at_utc'', JStr ts)]) (\<lambda>_.
       audit ''ingest_run_recorded'' ''ingest_run'' rid
         (Some [(''engine_version'', opt_str engine_version), (''prompt_version'', opt_str prompt_version),
                (''mode'', JStr mode), (''status'', JStr status)]))))) (\<lambda>_.
     retS rid))"

definition record_ingest_run ::
  "string \<Rightarrow> string option \<Rightarrow> string \<Rightarrow> string \<Rightarrow> string option \<Rightarrow> string option \<Rightarrow> row option \<Rightarrow> string option \<Rightarrow> string dbop" where
  "record_ingest_run input_bytes output_bytes mode status engine_version prompt_version metadata run_id =
     store_ingest_run (sha256 input_bytes) (map_option sha256 output_bytes) mode status engine_version prompt_version metadata run_id"

definition create_entity :: "string \<Rightarrow> string \<Rightarrow> string \<Rightarrow> row option \<Rightarrow> string option \<Rightarrow> string dbop" where
  "create_entity entity_type canonical_name authority_status metadata entity_id =
     bindS (id_or_new entity_id ''ent'') (\<lambda>eid.
     bindS (transaction (
       bindS utc_now (\<lambda>ts.
       bindS (insert_into ''entities''
         [(''entity_id'', JStr eid), (''entity_type'', JStr entity_type), (''canonical_name'', JStr canonical_name),
          (''authority_status'', JStr authority_status), (''metadata_json'', JStr (canonical_json metadata)),
          (''created_at_utc'', JStr ts)]) (\<lambda>_.
       audit ''entity_created'' ''entity'' eid None)))) (\<lambda>_.
     retS eid))"

definition add_alias ::
  "string \<Rightarrow> string \<Rightarrow> string option \<Rightarrow> string option \<Rightarrow> string option \<Rightarrow> row option \<Rightarrow> string dbop" where
  "add_alias entity_id alias language valid_from valid_to metadata =
     bindS (new_id ''alias'') (\<lambda>aid.
     bindS (transaction (
       bindS (insert_into ''entity_aliases''
         [(''alias_id'', JStr aid), (''entity_id'', JStr entity_id), (''alias'', JStr alias), (''language'', opt_str language),
          (''valid_from'', opt_str valid_from), (''valid_to'', opt_str valid_to), (''metadata_json'', JStr (canonical_json metadata))]) (\<lambda>_.
       audit ''entity_alias_added'' ''entity'' entity_id
         (Some [(''alias'', JStr alias), (''language'', opt_str language)])))) (\<lambda>_.
     retS aid))"

subsection \<open>Claims, evidence and discrepancies\<close>

definition propose_claim ::
  "string \<Rightarrow> string \<Rightarrow> string \<Rightarrow> string option \<Rightarrow> string option \<Rightarrow> string option \<Rightarrow> string option \<Rightarrow> string option \<Rightarrow>
     row option \<Rightarrow> string option \<Rightarrow> string dbop" where
  "propose_claim predicate claim_text created_by document_id run_id subject_id object_id object_value metadata claim_id =
     bindS (id_or_new claim_id ''clm'') (\<lambda>cid.
     bindS (transaction (
       bindS utc_now (\<lambda>ts.
       bindS (insert_into ''claims''
         [(''claim_id'', JStr cid), (''document_id'', opt_str document_id), (''run_id'', opt_str run_id),
          (''subject_entity_id'', opt_str subject_id), (''predicate'', JStr predicate), (''object_entity_id'', opt_str object_id),
          (''object_value'', opt_str object_value), (''claim_text'', JStr claim_text), (''status'', JStr ''PROPOSED''),
          (''created_by'', JStr created_by), (''metadata_json'', JStr (canonical_json metadata)), (''created_at_utc'', JStr ts)]) (\<lambda>_.
       audit ''claim_proposed'' ''claim'' cid (Some [(''created_by'', JStr created_by), (''predicate'', JStr predicate)]))))) (\<lambda>_.
     retS cid))"

definition representation_of_document :: "string option \<Rightarrow> string \<Rightarrow> db \<Rightarrow> unit res" where
  "representation_of_document representation_id document_id db =
     (case representation_id of
        None \<Rightarrow> Inr ()
      | Some rid \<Rightarrow>
          (case select_one ''document_representations'' ''representation_id'' rid db of
             None \<Rightarrow> Inl key_error
           | Some r \<Rightarrow> raise_if (jget r ''document_id'' \<noteq> JStr document_id)
                        (ValueError ''Evidence representation does not belong to document_id'')))"

definition excerpt_digest :: "string option \<Rightarrow> string option \<Rightarrow> string option res" where
  "excerpt_digest excerpt excerpt_sha256 =
     (case excerpt of
        None \<Rightarrow> Inr excerpt_sha256
      | Some x \<Rightarrow>
          bindE (raise_if (excerpt_sha256 \<noteq> None \<and> excerpt_sha256 \<noteq> Some (sha256 x))
                   (ValueError ''excerpt_sha256 does not match supplied excerpt'')) (\<lambda>_. Inr (Some (sha256 x))))"

definition add_evidence ::
  "string \<Rightarrow> string \<Rightarrow> string \<Rightarrow> string option \<Rightarrow> string option \<Rightarrow> string option \<Rightarrow> string option \<Rightarrow> row option \<Rightarrow>
     string option \<Rightarrow> string dbop" where
  "add_evidence claim_id document_id role representation_id locator excerpt excerpt_sha256 metadata evidence_id =
     bindS (raise_ifS (role \<notin> set EVIDENCE_ROLES) (ValueError ''Unsupported evidence role'')) (\<lambda>_.
     bindS (queryS (representation_of_document representation_id document_id)) (\<lambda>_.
     bindS (liftS (excerpt_digest excerpt excerpt_sha256)) (\<lambda>h.
     bindS (id_or_new evidence_id ''evd'') (\<lambda>eid.
     bindS (transaction (
       bindS utc_now (\<lambda>ts.
       bindS (insert_into ''claim_evidence''
         [(''evidence_id'', JStr eid), (''claim_id'', JStr claim_id), (''document_id'', JStr document_id),
          (''representation_id'', opt_str representation_id), (''locator'', opt_str locator), (''excerpt_sha256'', opt_str h),
          (''role'', JStr role), (''metadata_json'', JStr (canonical_json metadata)), (''created_at_utc'', JStr ts)]) (\<lambda>_.
       audit ''claim_evidence_added'' ''claim'' claim_id
         (Some [(''evidence_id'', JStr eid), (''document_id'', JStr document_id),
                (''representation_id'', opt_str representation_id), (''role'', JStr role)]))))) (\<lambda>_.
     retS eid)))))"

definition open_discrepancy :: "string \<Rightarrow> string \<Rightarrow> row option \<Rightarrow> string option \<Rightarrow> string dbop" where
  "open_discrepancy topic_key description metadata discrepancy_id =
     bindS (id_or_new discrepancy_id ''disc'') (\<lambda>did.
     bindS (transaction (
       bindS utc_now (\<lambda>ts.
       bindS (insert_into ''discrepancies''
         [(''discrepancy_id'', JStr did), (''topic_key'', JStr topic_key), (''description'', JStr description),
          (''status'', JStr ''OPEN''), (''metadata_json'', JStr (canonical_json metadata)), (''opened_at_utc'', JStr ts)]) (\<lambda>_.
       audit ''discrepancy_opened'' ''discrepancy'' did (Some [(''topic_key'', JStr topic_key)]))))) (\<lambda>_.
     retS did))"

definition attach_discrepancy_claim :: "string \<Rightarrow> string \<Rightarrow> string \<Rightarrow> unit dbop" where
  "attach_discrepancy_claim discrepancy_id claim_id stance =
     transaction (
       bindS (insert_into ''discrepancy_claims''
         [(''discrepancy_id'', JStr discrepancy_id), (''claim_id'', JStr claim_id), (''stance'', JStr stance)]) (\<lambda>_.
       audit ''discrepancy_claim_attached'' ''discrepancy'' discrepancy_id
         (Some [(''claim_id'', JStr claim_id), (''stance'', JStr stance)])))"

subsection \<open>Review\<close>

definition claim_metadata :: "row \<Rightarrow> row res" where
  \<comment> \<open>\<open>json.loads(row["metadata_json"] or "{}")\<close>, and what its \<open>get\<close> needs\<close>
  "claim_metadata claim =
     (case jget claim ''metadata_json'' of
        JStr s \<Rightarrow>
          (case loads (if s = [] then ''{}'' else s) of
             Some (JObj d) \<Rightarrow> Inr d
           | Some _ \<Rightarrow> Inl (StdError ''AttributeError'')
           | None \<Rightarrow> Inl (ValueError ''JSONDecodeError''))
      | _ \<Rightarrow> Inr [])"

definition valid_types :: "json \<Rightarrow> bool" where
  \<comment> \<open>the list of required representation types is usable\<close>
  "valid_types v \<longleftrightarrow>
     (case v of JList vs \<Rightarrow> vs \<noteq> [] \<and> list_all (\<lambda>x. case x of JStr s \<Rightarrow> \<not> blank s | _ \<Rightarrow> False) vs | _ \<Rightarrow> False)"

definition type_allowed :: "json \<Rightarrow> row \<Rightarrow> bool" where
  "type_allowed types r \<longleftrightarrow> (case types of JList vs \<Rightarrow> vs = [] \<or> jget r ''representation_type'' \<in> set vs | _ \<Rightarrow> True)"

definition raw_capture :: "string \<Rightarrow> json \<Rightarrow> row \<Rightarrow> bool" where
  "raw_capture document_id types r \<longleftrightarrow>
     jget r ''document_id'' = JStr document_id \<and> jget r ''acquisition_state'' = JStr ''RAW_CAPTURED'' \<and>
     jget r ''raw_artifact'' = JInt 1 \<and> jget r ''content_sha256'' \<noteq> JNull \<and> jget r ''byte_length'' \<noteq> JNull \<and>
     type_allowed types r"

definition by_age :: "string \<Rightarrow> row \<Rightarrow> string list" where
  \<comment> \<open>\<open>ORDER BY created_at_utc, id\<close>\<close>
  "by_age k r = [as_str (jget r ''created_at_utc''), as_str (jget r k)]"

definition columns_of :: "string list \<Rightarrow> row \<Rightarrow> row" where
  "columns_of ks r = map (\<lambda>k. (k, jget r k)) ks"

definition representation_states :: "string \<Rightarrow> db \<Rightarrow> row list" where
  "representation_states document_id db =
     map (columns_of [''representation_type'', ''acquisition_state'', ''raw_artifact'', ''content_sha256'', ''byte_length'', ''locator''])
       (sort_key (by_age ''representation_id'')
          (filter (\<lambda>r. jget r ''document_id'' = JStr document_id) (db ''document_representations'')))"

definition blocker_invalid :: row where
  "blocker_invalid =
     [(''code'', JStr ''INVALID_REQUIRED_REPRESENTATION_TYPES''),
      (''message'', JStr ''Claim raw-capture gate has an invalid promotion_required_representation_types value.'')]"

definition blocker_no_document :: row where
  "blocker_no_document =
     [(''code'', JStr ''RAW_CAPTURE_REQUIRED_NO_DOCUMENT''),
      (''message'', JStr ''Claim requires raw capture before promotion but has no primary document binding.'')]"

definition blocker_raw_capture :: "string \<Rightarrow> json \<Rightarrow> db \<Rightarrow> row" where
  "blocker_raw_capture document_id types db =
     [(''code'', JStr ''RAW_CAPTURE_REQUIRED''),
      (''message'', JStr ''Claim is explicitly blocked from canonical promotion until a verified RAW_CAPTURED representation exists.''),
      (''document_id'', JStr document_id), (''required_representation_types'', types),
      (''representations'', JList (map JObj (representation_states document_id db)))]"

definition claim_blockers :: "row \<Rightarrow> row \<Rightarrow> db \<Rightarrow> row list" where
  "claim_blockers claim metadata db =
     (if \<not> truthy (jget metadata ''promotion_blocked_until_raw_capture'') then []
      else
        let types = jget metadata ''promotion_required_representation_types'';
            invalid = types \<noteq> JNull \<and> \<not> valid_types types in
        (if invalid then [blocker_invalid] else []) @
        (case jget claim ''document_id'' of
           JStr d \<Rightarrow>
             if d = [] then [blocker_no_document]
             else if invalid then []
             else if list_ex (raw_capture d types) (db ''document_representations'') then []
             else [blocker_raw_capture d types db]
         | _ \<Rightarrow> [blocker_no_document]))"

definition claim_promotion_blockers :: "string \<Rightarrow> db \<Rightarrow> row list res" where
  "claim_promotion_blockers claim_id db =
     (case select_one ''claims'' ''claim_id'' claim_id db of
        None \<Rightarrow> Inl key_error
      | Some claim \<Rightarrow> bindE (claim_metadata claim) (\<lambda>metadata. Inr (claim_blockers claim metadata db)))"

definition status_for_decision :: "string \<Rightarrow> string" where
  "status_for_decision d =
     (if d = ''VALIDATE'' then ''VALIDATED'' else if d = ''PROMOTE_CANONICAL'' then ''CANONICAL''
      else if d = ''REJECT'' then ''REJECTED'' else ''QUARANTINED'')"

definition review_decisions :: "string list" where
  "review_decisions = [''VALIDATE'', ''PROMOTE_CANONICAL'', ''REJECT'', ''QUARANTINE'']"

definition blocker_codes :: "row list \<Rightarrow> string" where
  "blocker_codes bs = join ''; '' (map (\<lambda>b. as_str (jget b ''code'')) bs)"

definition check_promotion :: "string \<Rightarrow> string \<Rightarrow> string \<Rightarrow> unit dbop" where
  \<comment> \<open>the gate of a promotion; a refusal is itself audited\<close>
  "check_promotion claim_id decision reviewer =
     (if decision \<noteq> ''PROMOTE_CANONICAL'' then retS ()
      else
        bindS (queryS (claim_promotion_blockers claim_id)) (\<lambda>blockers.
        if blockers = [] then retS ()
        else
          bindS (transaction (audit ''claim_promotion_blocked'' ''claim'' claim_id
                  (Some [(''reviewer'', JStr reviewer), (''blockers'', JList (map JObj blockers))]))) (\<lambda>_.
          raiseS (ValueError (''Claim cannot be promoted to CANONICAL: '' @ blocker_codes blockers)))))"

definition store_review :: "string \<Rightarrow> string \<Rightarrow> string \<Rightarrow> string \<Rightarrow> row option \<Rightarrow> string \<Rightarrow> unit dbop" where
  "store_review claim_id decision reviewer rationale metadata review_id =
     bindS (queryS (\<lambda>db. raise_if (select_one ''claims'' ''claim_id'' claim_id db = None) key_error)) (\<lambda>_.
     let new_status = status_for_decision decision in
     bindS (if new_status = ''CANONICAL'' then bindS utc_now (\<lambda>ts. retS (JStr ts)) else retS JNull) (\<lambda>promoted_at.
     bindS utc_now (\<lambda>ts.
     bindS (insert_into ''reviews''
       [(''review_id'', JStr review_id), (''object_type'', JStr ''claim''), (''object_id'', JStr claim_id), (''decision'', JStr decision),
        (''reviewer'', JStr reviewer), (''rationale'', JStr rationale), (''metadata_json'', JStr (canonical_json metadata)),
        (''created_at_utc'', JStr ts)]) (\<lambda>_.
     bindS (update_in ''claims'' (\<lambda>r. jget r ''claim_id'' = JStr claim_id)
       (\<lambda>r. [(''status'', JStr new_status),
             (''promoted_at_utc'', if new_status = ''CANONICAL'' then promoted_at else jget r ''promoted_at_utc'')])) (\<lambda>_.
     audit ''claim_reviewed'' ''claim'' claim_id
       (Some [(''decision'', JStr decision), (''reviewer'', JStr reviewer), (''new_status'', JStr new_status)]))))))"

definition review_claim :: "string \<Rightarrow> string \<Rightarrow> string \<Rightarrow> string \<Rightarrow> row option \<Rightarrow> string dbop" where
  "review_claim claim_id decision reviewer rationale metadata =
     bindS (raise_ifS (decision \<notin> set review_decisions) (ValueError ''Unsupported review decision'')) (\<lambda>_.
     bindS (raise_ifS (blank reviewer) (ValueError ''Human reviewer identity is required'')) (\<lambda>_.
     bindS (raise_ifS (blank rationale) (ValueError ''Review rationale is required'')) (\<lambda>_.
     bindS (check_promotion claim_id decision reviewer) (\<lambda>_.
     bindS (new_id ''rev'') (\<lambda>review_id.
     bindS (transaction (store_review claim_id decision reviewer rationale metadata review_id)) (\<lambda>_.
     retS review_id))))))"

definition resolve_discrepancy :: "string \<Rightarrow> string \<Rightarrow> string \<Rightarrow> bool \<Rightarrow> string dbop" where
  "resolve_discrepancy discrepancy_id reviewer resolution close_without_resolution =
     bindS (raise_ifS (blank reviewer) (ValueError ''Human reviewer identity is required'')) (\<lambda>_.
     bindS (raise_ifS (blank resolution) (ValueError ''Resolution rationale is required'')) (\<lambda>_.
     let status = (if close_without_resolution then ''CLOSED_NO_RESOLUTION'' else ''RESOLVED'') in
     bindS (new_id ''rev'') (\<lambda>review_id.
     bindS (transaction (
       bindS (queryS (\<lambda>db. raise_if (select_one ''discrepancies'' ''discrepancy_id'' discrepancy_id db = None) key_error)) (\<lambda>_.
       bindS utc_now (\<lambda>resolved_at.
       bindS (update_in ''discrepancies'' (\<lambda>r. jget r ''discrepancy_id'' = JStr discrepancy_id)
         (\<lambda>r. [(''status'', JStr status), (''resolution'', JStr resolution), (''resolved_at_utc'', JStr resolved_at)])) (\<lambda>_.
       bindS utc_now (\<lambda>ts.
       bindS (insert_into ''reviews''
         [(''review_id'', JStr review_id), (''object_type'', JStr ''discrepancy''), (''object_id'', JStr discrepancy_id),
          (''decision'', JStr status), (''reviewer'', JStr reviewer), (''rationale'', JStr resolution),
          (''metadata_json'', JStr ''{}''), (''created_at_utc'', JStr ts)]) (\<lambda>_.
       audit ''discrepancy_resolved'' ''discrepancy'' discrepancy_id
         (Some [(''status'', JStr status), (''reviewer'', JStr reviewer)]))))))) ) (\<lambda>_.
     retS review_id))))"

subsection \<open>Reading\<close>

definition joined :: "row list \<Rightarrow> string \<Rightarrow> json \<Rightarrow> row list" where
  \<comment> \<open>the rows a join on \<open>k = v\<close> finds; a null finds none\<close>
  "joined rows k v = filter (\<lambda>r. v \<noteq> JNull \<and> jget r k = v) rows"

definition left_joined :: "row list \<Rightarrow> string \<Rightarrow> json \<Rightarrow> row list" where
  \<comment> \<open>an outer join: one row of nulls where nothing is found\<close>
  "left_joined rows k v = (if joined rows k v = [] then [[]] else joined rows k v)"

definition evidence_view :: "row \<Rightarrow> row \<Rightarrow> row \<Rightarrow> row \<Rightarrow> row" where
  "evidence_view e d r s =
     e @
     [(''document_title'', jget d ''title''), (''document_date'', jget d ''document_date''),
      (''event_date_start'', jget d ''event_date_start''), (''event_date_end'', jget d ''event_date_end''),
      (''content_sha256'', jget d ''content_sha256''), (''representation_type'', jget r ''representation_type''),
      (''representation_acquisition_state'', jget r ''acquisition_state''), (''representation_content_sha256'', jget r ''content_sha256''),
      (''representation_byte_length'', jget r ''byte_length''), (''representation_locator'', jget r ''locator''),
      (''representation_raw_artifact'', jget r ''raw_artifact''), (''source_title'', jget s ''title''),
      (''custodian'', jget s ''custodian''), (''repository'', jget s ''repository''), (''source_locator'', jget s ''locator'')]"

definition evidence_rows :: "string \<Rightarrow> db \<Rightarrow> row list" where
  "evidence_rows claim_id db =
     concat (map (\<lambda>e.
       concat (map (\<lambda>d.
         concat (map (\<lambda>r.
           map (evidence_view e d r) (left_joined (db ''sources'') ''source_id'' (jget d ''source_id'')))
         (left_joined (db ''document_representations'') ''representation_id'' (jget e ''representation_id''))))
       (joined (db ''documents'') ''document_id'' (jget e ''document_id''))))
     (sort_key (by_age ''evidence_id'') (filter (\<lambda>e. jget e ''claim_id'' = JStr claim_id) (db ''claim_evidence''))))"

definition claim_reviews :: "string \<Rightarrow> db \<Rightarrow> row list" where
  "claim_reviews claim_id db =
     sort_key (by_age ''review_id'')
       (filter (\<lambda>r. jget r ''object_type'' = JStr ''claim'' \<and> jget r ''object_id'' = JStr claim_id) (db ''reviews''))"

definition claim_bundle :: "string \<Rightarrow> db \<Rightarrow> row res" where
  "claim_bundle claim_id db =
     (case select_one ''claims'' ''claim_id'' claim_id db of
        None \<Rightarrow> Inl key_error
      | Some claim \<Rightarrow>
          Inr [(''claim'', JObj claim), (''evidence'', JList (map JObj (evidence_rows claim_id db))),
               (''reviews'', JList (map JObj (claim_reviews claim_id db)))])"

definition health_tables :: "string list" where
  "health_tables = [''sources'', ''documents'', ''document_representations'', ''ingest_runs'', ''entities'', ''claims'',
     ''claim_evidence'', ''relations'', ''events'', ''discrepancies'', ''reviews'', ''audit_log'']"

definition health_counts :: "db \<Rightarrow> row" where
  "health_counts db = map (\<lambda>t. (t, JInt (int (length (db t))))) health_tables"

definition health :: "string \<Rightarrow> db \<Rightarrow> row" where
  \<comment> \<open>the answer of \<open>PRAGMA integrity_check\<close> is an argument\<close>
  "health integrity db =
     [(''schema_version'', JInt SCHEMA_VERSION), (''integrity_check'', JStr integrity), (''counts'', JObj (health_counts db))]"

end
