(* ===== verification/HistoricalOpening.thy ===== *)
theory HistoricalOpening
  imports HistoricalStore
begin

section \<open>Opening a historical store\<close>

text \<open>
  \<open>_migrate\<close> of \<open>historical_store.py\<close> and the three scripts it runs.  \<open>executescript\<close> commits the transaction
  that is open before it starts, so the statements of a script are durable one by one; what follows a script
  (the row of \<open>schema_meta\<close> and \<open>user_version\<close>) is one transaction.  A process may stop after any durable action.
  A file is what it declares: its objects (tables, indices, triggers and added columns), the version
  recorded in \<open>schema_meta\<close>, and \<open>user_version\<close>.
\<close>

datatype ddl = CreateTable string | CreateIndex string string | CreateTrigger string string | AddColumn string string

record store_file =
  sf_objects :: "string list"
  sf_meta :: "int option"
  sf_user_version :: int

definition ddl_target :: "ddl \<Rightarrow> string option" where
  "ddl_target s = (case s of CreateTable n \<Rightarrow> None | CreateIndex n t \<Rightarrow> Some t | CreateTrigger n t \<Rightarrow> Some t | AddColumn t c \<Rightarrow> Some t)"

definition ddl_object :: "ddl \<Rightarrow> string" where
  "ddl_object s = (case s of CreateTable n \<Rightarrow> n | CreateIndex n t \<Rightarrow> n | CreateTrigger n t \<Rightarrow> n | AddColumn t c \<Rightarrow> t @ ''.'' @ c)"

definition run_ddl :: "ddl \<Rightarrow> store_file \<Rightarrow> store_file res" where
  "run_ddl s f =
     bindE (raise_if (case ddl_target s of None \<Rightarrow> False | Some t \<Rightarrow> t \<notin> set (sf_objects f)) (StdError ''OperationalError'')) (\<lambda>_.
     bindE (raise_if (ddl_object s \<in> set (sf_objects f)) (StdError ''OperationalError'')) (\<lambda>_.
     Inr (f\<lparr>sf_objects := sf_objects f @ [ddl_object s]\<rparr>)))"

definition script_v1 :: "ddl list" where
  "script_v1 =
     map CreateTable [''schema_meta'', ''sources'', ''documents'', ''ingest_runs'', ''entities'', ''entity_aliases'', ''claims'', ''claim_evidence'',
       ''relations'', ''events'', ''event_participants'', ''discrepancies'', ''discrepancy_claims'', ''reviews'', ''audit_log''] @
     [CreateIndex ''idx_documents_source'' ''documents'', CreateIndex ''idx_claims_document'' ''claims'',
      CreateIndex ''idx_claims_subject'' ''claims'', CreateIndex ''idx_claims_status'' ''claims'',
      CreateIndex ''idx_evidence_claim'' ''claim_evidence'', CreateIndex ''idx_relations_subject'' ''relations'',
      CreateIndex ''idx_relations_object'' ''relations'', CreateIndex ''idx_events_dates'' ''events'',
      CreateIndex ''idx_discrepancies_topic'' ''discrepancies'', CreateTrigger ''audit_log_no_update'' ''audit_log'',
      CreateTrigger ''audit_log_no_delete'' ''audit_log'']"

definition script_v2 :: "ddl list" where
  "script_v2 =
     [CreateTable ''document_representations'', CreateIndex ''idx_document_representations_document'' ''document_representations'',
      CreateIndex ''idx_document_representations_state'' ''document_representations'',
      CreateIndex ''idx_document_representations_hash'' ''document_representations'']"

definition script_v3 :: "ddl list" where
  "script_v3 = [AddColumn ''claim_evidence'' ''representation_id'', CreateIndex ''idx_evidence_representation'' ''claim_evidence'']"

text \<open>A durable action: a statement of a script, or the transaction after it.\<close>

datatype action = Statement ddl | FirstVersion | NextVersion int

definition run_action :: "action \<Rightarrow> store_file \<Rightarrow> store_file res" where
  "run_action a f =
     (case a of
        Statement s \<Rightarrow> run_ddl s f
      | FirstVersion \<Rightarrow>
          bindE (raise_if (sf_meta f \<noteq> None) (StdError ''IntegrityError'')) (\<lambda>_.
          Inr (f\<lparr>sf_meta := Some 1, sf_user_version := 1\<rparr>))
      | NextVersion v \<Rightarrow> Inr (f\<lparr>sf_meta := map_option (\<lambda>_. v) (sf_meta f), sf_user_version := v\<rparr>))"

fun perform :: "action list \<Rightarrow> store_file \<Rightarrow> unit res \<times> store_file" where
  "perform [] f = (Inr (), f)"
| "perform (a # as) f = (case run_action a f of Inl e \<Rightarrow> (Inl e, f) | Inr f' \<Rightarrow> perform as f')"

definition create_schema_v1 :: "action list" where
  "create_schema_v1 = map Statement script_v1 @ [FirstVersion]"

definition migrate_v1_to_v2 :: "action list" where
  "migrate_v1_to_v2 = map Statement script_v2 @ [NextVersion 2]"

definition migrate_v2_to_v3 :: "action list" where
  "migrate_v2_to_v3 = map Statement script_v3 @ [NextVersion 3]"

definition migration :: "int \<Rightarrow> action list" where
  \<comment> \<open>the steps \<open>_migrate\<close> takes from this version on\<close>
  "migration current =
     (if current = 0 then create_schema_v1 else []) @
     (if current \<in> {0, 1} then migrate_v1_to_v2 else []) @
     (if current \<in> {0, 1, 2} then migrate_v2_to_v3 else [])"

definition migrate :: "store_file \<Rightarrow> unit res \<times> store_file" where
  "migrate f =
     (let current = sf_user_version f in
      if current > SCHEMA_VERSION then (Inl (RuntimeError ''Historical store schema is newer than supported''), f)
      else
        (case perform (migration current) f of
           (Inl e, f') \<Rightarrow> (Inl e, f')
         | (Inr _, f') \<Rightarrow>
             if current < 0 then (Inl (RuntimeError ''No migration path''), f') else (Inr (), f')))"

definition new_file :: store_file where
  "new_file = \<lparr>sf_objects = [], sf_meta = None, sf_user_version = 0\<rparr>"

definition stopped_after :: "nat \<Rightarrow> store_file" where
  \<comment> \<open>the file when the first opening stopped after so many durable actions\<close>
  "stopped_after n = snd (perform (take n (migration 0)) new_file)"

definition current_file :: store_file where
  "current_file = snd (perform (migration 0) new_file)"

subsection \<open>Which files open\<close>

lemma migration_length: "length (migration 0) = 35"
  by code_simp

lemma first_opening:
  "fst (perform (migration 0) new_file) = Inr ()" "sf_user_version (stopped_after 0) = 0" "sf_user_version (stopped_after 27) = 1"
  "sf_user_version (stopped_after 32) = 2" "sf_user_version (stopped_after 35) = 3"
  by code_simp+

lemma migration_parts:
  "migration 1 = drop 27 (migration 0)" "migration 2 = drop 32 (migration 0)" "migration 3 = []"
  by (simp_all add: migration_def create_schema_v1_def migrate_v1_to_v2_def migrate_v2_to_v3_def script_v1_def script_v2_def script_v3_def)

lemma perform_append: "perform (xs @ ys) f = (case perform xs f of (Inl e, f') \<Rightarrow> (Inl e, f') | (Inr u, f') \<Rightarrow> perform ys f')"
  by (induction xs f rule: perform.induct) (auto split: sum.splits)

lemma stopped_from:
  assumes "n \<le> m"
  shows "perform (take (m - n) (drop n (migration 0))) (stopped_after n) = (Inr (), stopped_after m)"
proof -
  obtain r f where whole: "perform (take m (migration 0)) new_file = (r, f)" by fastforce
  have "perform (take m (migration 0) @ drop m (migration 0)) new_file = perform (migration 0) new_file" by simp
  then have "fst (case (r, f) of (Inl e, f') \<Rightarrow> (Inl e, f') | (Inr u, f') \<Rightarrow> perform (drop m (migration 0)) f') = Inr ()"
    using first_opening(1) unfolding perform_append whole by simp
  then have r: "r = Inr ()" by (cases r) auto
  have "take m (migration 0) = take n (migration 0) @ take (m - n) (drop n (migration 0))" using assms by (metis le_add_diff_inverse take_add)
  with whole r have "perform (take n (migration 0) @ take (m - n) (drop n (migration 0))) new_file = (Inr (), f)" by simp
  then have "perform (take (m - n) (drop n (migration 0))) (stopped_after n) = (Inr (), f)"
    unfolding perform_append stopped_after_def by (auto split: prod.splits sum.splits)
  with whole show ?thesis by (simp add: stopped_after_def)
qed

lemma boundary_opens:
  assumes "sf_user_version (stopped_after n) = v" "v \<in> {0, 1, 2, 3}" "migration v = drop n (migration 0)" "n \<le> 35"
  shows "migrate (stopped_after n) = (Inr (), current_file)"
proof -
  have "stopped_after 35 = current_file" using migration_length by (simp add: stopped_after_def current_file_def)
  moreover have "take (35 - n) (drop n (migration 0)) = migration v" using migration_length assms(3) by simp
  ultimately show ?thesis using stopped_from [OF assms(4)] assms(1,2) by (simp add: migrate_def SCHEMA_VERSION_def) auto
qed

lemma statements_keep:
  "perform (map Statement ss) f = (Inr (), f') \<Longrightarrow> sf_user_version f' = sf_user_version f \<and> set (sf_objects f) \<union> ddl_object ` set ss \<subseteq> set (sf_objects f')"
proof (induction ss arbitrary: f)
  case (Cons s ss)
  let ?f = "f\<lparr>sf_objects := sf_objects f @ [ddl_object s]\<rparr>"
  from Cons.prems have "run_ddl s f = Inr ?f" "perform (map Statement ss) ?f = (Inr (), f')"
    by (auto simp: run_action_def run_ddl_def bindE_def raise_if_def split: sum.splits if_splits)
  with Cons.IH [of ?f] show ?case by auto
qed simp

lemma inside_fails:
  assumes "sf_user_version (stopped_after b) = v" "v \<in> {0, 1, 2}" "migration v = drop b (migration 0)"
    and "drop b (migration 0) = Statement s # map Statement ss @ rest" "b < n" "n \<le> b + Suc (length ss)"
  shows "migrate (stopped_after n) = (Inl (StdError ''OperationalError''), stopped_after n)"
proof -
  have "take (n - b) (drop b (migration 0)) = map Statement (take (n - b) (s # ss))"
    using assms(4,6) by (simp add: take_Cons' take_map)
  then have "perform (map Statement (take (n - b) (s # ss))) (stopped_after b) = (Inr (), stopped_after n)"
    using stopped_from [of b n] assms(5) by simp
  from statements_keep [OF this] have "sf_user_version (stopped_after n) = v" "ddl_object s \<in> set (sf_objects (stopped_after n))"
    using assms(1,5) by (auto simp: take_Cons')
  with assms(2-4) show ?thesis
    by (auto simp: migrate_def SCHEMA_VERSION_def run_action_def run_ddl_def raise_if_def)
qed

lemma script_starts:
  "drop 0 (migration 0) = Statement (hd script_v1) # map Statement (tl script_v1) @ FirstVersion # migration 1"
  "drop 27 (migration 0) = Statement (hd script_v2) # map Statement (tl script_v2) @ NextVersion 2 # migration 2"
  "drop 32 (migration 0) = Statement (hd script_v3) # map Statement (tl script_v3) @ NextVersion 3 # migration 3"
  by (simp_all add: migration_def create_schema_v1_def migrate_v1_to_v2_def migrate_v2_to_v3_def script_v1_def script_v2_def script_v3_def)

lemma script_lengths: "length (tl script_v1) = 25" "length (tl script_v2) = 3" "length (tl script_v3) = 1"
  by (simp_all add: script_v1_def script_v2_def script_v3_def)

text \<open>C30. Opening a historical store: what an interrupted first opening leaves.  Opening again brings the file to
  the current schema if the process stopped at one of the version boundaries, and fails at any other point:
  the statements of a script are already durable, the first of them is run again, and the file is left as it
  was, so no later opening succeeds either.\<close>

theorem interrupted_opening_is_decided:
  assumes "n \<le> length (migration 0)"
  shows "migrate (stopped_after n) =
    (if n \<in> {0, 27, 32, 35} then (Inr (), current_file) else (Inl (StdError ''OperationalError''), stopped_after n))"
proof -
  have "n \<le> 35" using assms migration_length by simp
  then consider "n \<in> {0, 27, 32, 35}" | "0 < n \<and> n \<le> 26" | "27 < n \<and> n \<le> 31" | "32 < n \<and> n \<le> 34" by fastforce
  then show ?thesis
  proof cases
    case 1
    then show ?thesis
      using boundary_opens [OF first_opening(2)] boundary_opens [OF first_opening(3)] boundary_opens [OF first_opening(4)]
        boundary_opens [OF first_opening(5)] migration_parts migration_length by auto
  next
    case 2
    with inside_fails [OF first_opening(2) _ _ script_starts(1)] script_lengths show ?thesis by simp
  next
    case 3
    with inside_fails [OF first_opening(3) _ migration_parts(1) script_starts(2)] script_lengths show ?thesis by simp
  next
    case 4
    with inside_fails [OF first_opening(4) _ migration_parts(2) script_starts(3)] script_lengths show ?thesis by simp
  qed
qed

theorem interrupted_opening_is_decided_witness:
  "migrate (stopped_after 9) = (Inl (StdError ''OperationalError''), stopped_after 9) \<and> migrate (stopped_after 27) = (Inr (), current_file)"
  using interrupted_opening_is_decided [of 9] interrupted_opening_is_decided [of 27] by (simp add: migration_length)

text \<open>The objects of an opened file are those the schema of the model has.\<close>

lemma current_file_tables:
  "sf_user_version current_file = SCHEMA_VERSION" "sf_meta current_file = Some 3"
  "list_all (\<lambda>t. tb_name t \<in> set (sf_objects current_file)) history_schema" "distinct (sf_objects current_file)"
  by code_simp+

lemma newer_schema_is_refused: "sf_user_version f > SCHEMA_VERSION \<Longrightarrow> migrate f = (Inl (RuntimeError ''Historical store schema is newer than supported''), f)"
  by (simp add: migrate_def Let_def)

lemma current_schema_is_kept: "sf_user_version f = SCHEMA_VERSION \<Longrightarrow> migrate f = (Inr (), f)"
  by (simp add: migrate_def Let_def migration_def SCHEMA_VERSION_def)

end
