(* ===== verification/HistoricalInvariant.thy ===== *)
theory HistoricalInvariant
  imports HistoricalStore
begin

section \<open>What every operation of the historical store keeps\<close>

text \<open>
  The calls of the store as one relation, its constraints as an invariant of every reachable database,
  the append-only audit log, and the rule that only an explicit human review makes a claim canonical.
\<close>

inductive store_call :: "session \<Rightarrow> session \<Rightarrow> bool" where
  \<comment> \<open>one call of a writing operation, whether it returns or raises\<close>
  "store_call s (snd (register_source ty title cust repo loc url meta sid s))"
| "store_call s (snd (register_document title src date start fin content h len loc meta did s))"
| "store_call s (snd (register_document_representation did ty st loc mime h len url raw pref meta rid s))"
| "store_call s (snd (record_ingest_run inp outp mode status eng prompt meta run s))"
| "store_call s (snd (create_entity ty name auth meta eid s))"
| "store_call s (snd (add_alias eid al lang vf vt meta s))"
| "store_call s (snd (propose_claim pred txt by did run subj obj objv meta cid s))"
| "store_call s (snd (add_evidence cid did role rid loc ex exh meta evid s))"
| "store_call s (snd (open_discrepancy topic desc meta disc s))"
| "store_call s (snd (attach_discrepancy_claim disc cid stance s))"
| "store_call s (snd (review_claim cid decision reviewer rationale meta s))"
| "store_call s (snd (resolve_discrepancy disc reviewer resolution close s))"

inductive store_run :: "session \<Rightarrow> session \<Rightarrow> bool" where
  store_refl: "store_run s s"
| store_step: "store_run s t \<Longrightarrow> store_call t u \<Longrightarrow> store_run s u"

lemmas store_operation_defs =
  register_source_def register_document_def register_document_representation_def record_ingest_run_def store_ingest_run_def create_entity_def
  add_alias_def propose_claim_def add_evidence_def open_discrepancy_def attach_discrepancy_claim_def review_claim_def
  resolve_discrepancy_def check_promotion_def store_review_def audit_def id_or_new_def Let_def

lemma maintains_case_prod [maintains_intros]: "(\<And>a b. maintains P (f a b)) \<Longrightarrow> maintains P (case p of (a, b) \<Rightarrow> f a b)"
  by (cases p) auto

text \<open>
  A property is kept by every operation if insertions keep it (of claims, only proposed ones), updates of
  discrepancies keep it, and the transaction of a review by a named reviewer keeps it.
\<close>

lemma maintains_guard: "(\<not> c \<Longrightarrow> maintains P (k ())) \<Longrightarrow> maintains P (bindS (raise_ifS c e) k)"
  by (cases c) (simp_all add: maintains_def bindS_def raise_if_def)

definition parts_keep :: "(db \<Rightarrow> bool) \<Rightarrow> bool" where
  "parts_keep P \<longleftrightarrow>
     (\<forall>n vals. n \<noteq> ''claims'' \<or> map_of vals ''status'' = Some (JStr ''PROPOSED'') \<longrightarrow> maintains P (insert_into n vals)) \<and>
     (\<forall>p new. (\<forall>r. fst ` set (new r) \<subseteq> {''status'', ''resolution'', ''resolved_at_utc''}) \<longrightarrow> maintains P (update_in ''discrepancies'' p new)) \<and>
     (\<forall>cid decision reviewer rationale meta rid. decision \<in> set review_decisions \<longrightarrow> \<not> blank reviewer \<longrightarrow>
        \<not> blank rationale \<longrightarrow> maintains P (transaction (store_review cid decision reviewer rationale meta rid)))"

lemma parts_keepD:
  assumes "parts_keep P"
  shows "n \<noteq> ''claims'' \<or> map_of vals ''status'' = Some (JStr ''PROPOSED'') \<Longrightarrow> maintains P (insert_into n vals)"
    "(\<And>r. fst ` set (new r) \<subseteq> {''status'', ''resolution'', ''resolved_at_utc''}) \<Longrightarrow> maintains P (update_in ''discrepancies'' p new)"
    "decision \<in> set review_decisions \<Longrightarrow> \<not> blank reviewer \<Longrightarrow> \<not> blank rationale \<Longrightarrow>
       maintains P (transaction (store_review cid decision reviewer rationale meta rid))"
  using assms by (simp_all add: parts_keep_def)

lemma operations_keep:
  assumes "parts_keep P"
  shows "maintains P (register_source a1 a2 a3 a4 a5 a6 a7 a8)"
    "maintains P (register_document b1 b2 b3 b4 b5 b6 b7 b8 b9 b10 b11)"
    "maintains P (register_document_representation c1 c2 c3 c4 c5 c6 c7 c8 c9 c10 c11 c12)"
    "maintains P (record_ingest_run d1 d2 d3 d4 d5 d6 d7 d8)"
    "maintains P (create_entity e1 e2 e3 e4 e5)"
    "maintains P (add_alias f1 f2 f3 f4 f5 f6)"
    "maintains P (propose_claim g1 g2 g3 g4 g5 g6 g7 g8 g9 g10)"
    "maintains P (add_evidence h1 h2 h3 h4 h5 h6 h7 h8 h9)"
    "maintains P (open_discrepancy i1 i2 i3 i4)"
    "maintains P (attach_discrepancy_claim j1 j2 j3)"
    "maintains P (resolve_discrepancy l1 l2 l3 l4)"
  unfolding store_operation_defs by (intro maintains_intros parts_keepD(1,2) [OF assms]; simp)+

lemma review_keeps:
  assumes "parts_keep P"
  shows "maintains P (review_claim k1 k2 k3 k4 k5)"
  unfolding review_claim_def check_promotion_def audit_def
  by (intro maintains_guard) (intro maintains_intros parts_keepD(1,3) [OF assms]; simp)

lemma store_call_keeps:
  assumes "parts_keep P"
    and "store_call s t" "P (sn_db s)"
  shows "P (sn_db t)"
  using assms(2)
  by cases (simp_all add: operations_keep [OF assms(1), THEN maintainsD, OF assms(3)] review_keeps [OF assms(1), THEN maintainsD, OF assms(3)])

lemma store_run_keeps:
  assumes "store_run s t" "P (sn_db s)" "\<And>s t. store_call s t \<Longrightarrow> P (sn_db s) \<Longrightarrow> P (sn_db t)"
  shows "P (sn_db t)"
  using assms by induction auto

subsection \<open>The constraints of the schema\<close>

lemma insert_keeps_constraints: "maintains (db_ok history_schema) (insert_into n vals)"
  unfolding insert_into_def by (intro maintains_statement) (rule insert_keeps_ok [OF history_schema_ok])

lemma update_keeps_constraints:
  assumes "free_columns history_schema n cs" "\<And>r. fst ` set (new r) \<subseteq> cs"
  shows "maintains (db_ok history_schema) (update_in n p new)"
  unfolding update_in_def
  by (intro maintains_statement) (rule update_keeps_ok [OF history_schema_ok _ _ assms])

lemma review_keeps_constraints: "maintains (db_ok history_schema) (store_review cid decision reviewer rationale meta rid)"
  unfolding store_review_def audit_def Let_def
  by (intro maintains_intros insert_keeps_constraints update_keeps_constraints [OF status_columns_free(1)]) auto

lemma parts_keep_constraints: "parts_keep (db_ok history_schema)"
  unfolding parts_keep_def
  by (intro conjI allI impI insert_keeps_constraints maintains_transaction review_keeps_constraints
      update_keeps_constraints [OF status_columns_free(2)]) blast

subsection \<open>The audit log\<close>

definition extends :: "row list \<Rightarrow> db \<Rightarrow> bool" where
  "extends l db \<longleftrightarrow> (\<exists>new. db ''audit_log'' = l @ new)"

lemma insert_extends: "maintains (extends l) (insert_into n vals)"
  unfolding insert_into_def by (intro maintains_statement) (auto simp: extends_def elim!: insert_row_Inr)

lemma update_extends: "n \<noteq> ''audit_log'' \<Longrightarrow> maintains (extends l) (update_in n p new)"
  unfolding update_in_def by (intro maintains_statement) (auto simp: extends_def elim!: update_rows_Inr)

lemma review_extends: "maintains (extends l) (store_review cid decision reviewer rationale meta rid)"
  unfolding store_review_def audit_def Let_def by (intro maintains_intros insert_extends update_extends) simp

lemma parts_keep_log: "parts_keep (extends l)"
  unfolding parts_keep_def
  by (intro conjI allI impI insert_extends update_extends maintains_transaction review_extends) simp

subsection \<open>Inserted rows\<close>

lemma mapE_lookup:
  assumes "mapE (cell t rows vals) cols = Inr r" "distinct (map fd_name cols)" "c \<in> set cols"
  shows "\<exists>v. cell t rows vals c = Inr (fd_name c, v) \<and> jget r (fd_name c) = v"
  using assms
proof (induction cols arbitrary: r)
  case (Cons d cols)
  from Cons.prems(1) obtain kv r' where kv: "cell t rows vals d = Inr kv" and r': "mapE (cell t rows vals) cols = Inr r'"
    and r: "r = kv # r'" by (auto simp: bindE_Inr)
  from kv obtain v where v: "kv = (fd_name d, v)" by (auto simp: cell_def bindE_Inr)
  show ?case
  proof (cases "c = d")
    case True
    with kv v r show ?thesis by (auto simp: jget_Cons)
  next
    case False
    with Cons.prems(2,3) have "c \<in> set cols" "distinct (map fd_name cols)" "fd_name d \<notin> fd_name ` set cols" by auto
    then have "fd_name c \<noteq> fd_name d" by (metis imageI)
    with Cons.IH [OF r' \<open>distinct (map fd_name cols)\<close> \<open>c \<in> set cols\<close>] r v show ?thesis by (auto simp: jget_Cons)
  qed
qed simp

lemma inserted_text:
  assumes "full_row t rows vals = Inr r" "t \<in> set history_schema" "c \<in> set (tb_columns t)" "fd_text c"
    "map_of vals (fd_name c) = Some (JStr s)"
  shows "jget r (fd_name c) = JStr s"
proof -
  have "distinct (map fd_name (tb_columns t))" using history_schema_ok assms(2) by (auto simp: schema_ok_def list_all_iff)
  moreover from assms(1) have "mapE (cell t rows vals) (tb_columns t) = Inr r" by (auto simp: full_row_def bindE_Inr)
  ultimately obtain v where v: "cell t rows vals c = Inr (fd_name c, v)" "jget r (fd_name c) = v"
    using mapE_lookup assms(3) by blast
  moreover have "cell t rows vals c = Inr (fd_name c, JStr s)" using assms(4,5) by (simp add: cell_def stored_def)
  ultimately show ?thesis by simp
qed

lemma insert_into_Inr:
  assumes "insert_into n vals s = (Inr u, s')"
  obtains t r where "t \<in> set history_schema" "tb_name t = n" "full_row t (sn_db s n) vals = Inr r"
    "s' = s\<lparr>sn_db := (sn_db s)(n := sn_db s n @ [r])\<rparr>"
  using assms by (auto simp: insert_into_def statement_def split: sum.splits elim!: insert_row_Inr)

lemma in_schema: "table_of \<in> set history_schema \<Longrightarrow> t \<in> set history_schema \<Longrightarrow> tb_name t = tb_name table_of \<Longrightarrow> t = table_of"
  using same_table [OF history_schema_ok] by blast

lemma inserted_review:
  assumes "insert_into ''reviews''
       [(''review_id'', JStr rid), (''object_type'', JStr ty), (''object_id'', JStr oid), (''decision'', JStr decision),
        (''reviewer'', JStr reviewer), (''rationale'', JStr rationale), (''metadata_json'', JStr meta), (''created_at_utc'', JStr ts)] s
      = (Inr u, s')"
  obtains r where "s' = s\<lparr>sn_db := (sn_db s)(''reviews'' := sn_db s ''reviews'' @ [r])\<rparr>"
    "jget r ''review_id'' = JStr rid" "jget r ''object_type'' = JStr ty" "jget r ''object_id'' = JStr oid"
    "jget r ''decision'' = JStr decision" "jget r ''reviewer'' = JStr reviewer" "jget r ''rationale'' = JStr rationale"
proof -
  let ?vals = "[(''review_id'', JStr rid), (''object_type'', JStr ty), (''object_id'', JStr oid), (''decision'', JStr decision),
        (''reviewer'', JStr reviewer), (''rationale'', JStr rationale), (''metadata_json'', JStr meta), (''created_at_utc'', JStr ts)]"
  from assms obtain t r where t: "t \<in> set history_schema" "tb_name t = ''reviews''"
    and r: "full_row t (sn_db s ''reviews'') ?vals = Inr r" "s' = s\<lparr>sn_db := (sn_db s)(''reviews'' := sn_db s ''reviews'' @ [r])\<rparr>"
    by (rule insert_into_Inr)
  have "t = reviews_table" using t by (intro in_schema) (simp_all add: history_schema_def reviews_table_def)
  note inserted = inserted_text [OF r(1) t(1), unfolded this]
  have "jget r ''review_id'' = JStr rid" using inserted [of "text_col ''review_id''"] by (simp add: reviews_table_def column_defs)
  moreover have "jget r k = JStr v" if "required_col k \<in> set (tb_columns reviews_table)" "map_of ?vals k = Some (JStr v)" for k v
    using inserted [OF that(1)] that(2) by (simp add: required_col_def)
  ultimately show thesis using that r(2) by (simp add: reviews_table_def)
qed

end
