(* ===== verification/HistoricalBundle.thy ===== *)
theory HistoricalBundle
  imports HistoricalInvariant "HOL-Library.Multiset"
begin

section \<open>Bundles of the historical store\<close>

text \<open>
  \<open>historical_store_bundle.py\<close>: the deterministic export of all research tables, its digest, the semantic
  snapshot without clocks and audit, and the reconstruction of a store from a bundle.  Column names of a
  bundle that the schema does not have are refused; the source splices them into the statement.
\<close>

definition BUNDLE_FORMAT :: string where
  "BUNDLE_FORMAT = ''galia-historical-store-bundle''"

definition EXPORT_TABLES :: "(string \<times> string list) list" where
  "EXPORT_TABLES =
     [(''sources'', [''source_id'']), (''ingest_runs'', [''run_id'']), (''entities'', [''entity_id'']),
      (''documents'', [''document_id'']), (''document_representations'', [''representation_id'']),
      (''entity_aliases'', [''alias_id'']), (''claims'', [''claim_id'']), (''claim_evidence'', [''evidence_id'']),
      (''relations'', [''relation_id'']), (''events'', [''event_id'']),
      (''event_participants'', [''event_id'', ''entity_id'', ''role'']), (''discrepancies'', [''discrepancy_id'']),
      (''discrepancy_claims'', [''discrepancy_id'', ''claim_id'']), (''reviews'', [''review_id'']), (''audit_log'', [''audit_id''])]"

definition sort_value :: "json \<Rightarrow> int list" where
  \<comment> \<open>the order of SQLite values: nulls, then integers, then texts by their bytes\<close>
  "sort_value v =
     (case v of JInt i \<Rightarrow> [1, i] | JStr s \<Rightarrow> 2 # map (\<lambda>c. int (code c)) s | _ \<Rightarrow> [0])"

definition order_key :: "string list \<Rightarrow> row \<Rightarrow> int list list" where
  "order_key key r = map (\<lambda>k. sort_value (jget r k)) key"

definition exported_rows :: "db \<Rightarrow> string \<times> string list \<Rightarrow> row list" where
  \<comment> \<open>\<open>SELECT * FROM t ORDER BY key\<close>\<close>
  "exported_rows db t = sort_key (order_key (snd t)) (db (fst t))"

definition bundle_version_ok :: "json \<Rightarrow> int \<Rightarrow> bool" where
  "bundle_version_ok v n \<longleftrightarrow> json_eq v (JInt n)"

definition export_bundle :: "db \<Rightarrow> row" where
  "export_bundle db =
     [(''format'', JStr BUNDLE_FORMAT), (''bundle_version'', JInt 1), (''schema_version'', JInt 3),
      (''tables'', JObj (map (\<lambda>t. (fst t, JList (map JObj (exported_rows db t)))) EXPORT_TABLES))]"

definition canonical_bytes :: "json \<Rightarrow> string" where
  "canonical_bytes v = dumps v @ [newline]"

definition bundle_sha256 :: "row \<Rightarrow> string" where
  "bundle_sha256 b = sha256 (canonical_bytes (JObj b))"

subsection \<open>The semantic snapshot\<close>

definition volatile_columns :: "string list" where
  "volatile_columns = [''created_at_utc'', ''opened_at_utc'', ''resolved_at_utc'', ''promoted_at_utc'']"

definition semantic_row :: "row \<Rightarrow> row" where
  "semantic_row r = filter (\<lambda>kv. fst kv \<notin> set volatile_columns) r"

definition semantic_snapshot :: "db \<Rightarrow> row" where
  "semantic_snapshot db =
     [(''format'', JStr ''galia-historical-store-semantic-snapshot''), (''snapshot_version'', JInt 1), (''schema_version'', JInt 3),
      (''tables'', JObj (map (\<lambda>t. (fst t, JList (map (JObj \<circ> semantic_row) (exported_rows db t))))
         (filter (\<lambda>t. fst t \<noteq> ''audit_log'') EXPORT_TABLES)))]"

definition semantic_fingerprint :: "db \<Rightarrow> string" where
  "semantic_fingerprint db = sha256 (canonical_bytes (JObj (semantic_snapshot db)))"

subsection \<open>Reconstruction\<close>

definition assert_bundle_shape :: "row \<Rightarrow> row res" where
  \<comment> \<open>the tables of a bundle of the right format\<close>
  "assert_bundle_shape b =
     bindE (raise_if (jget b ''format'' \<noteq> JStr BUNDLE_FORMAT) (ValueError ''Unknown Historical Store bundle format'')) (\<lambda>_.
     bindE (raise_if (\<not> bundle_version_ok (jget b ''bundle_version'') 1) (ValueError ''Unsupported Historical Store bundle version'')) (\<lambda>_.
     bindE (raise_if (\<not> bundle_version_ok (jget b ''schema_version'') SCHEMA_VERSION)
              (ValueError ''Historical Store bundle schema does not match runtime schema'')) (\<lambda>_.
     case jget b ''tables'' of
       JObj ts \<Rightarrow> bindE (raise_if (set (map fst ts) \<noteq> set (map fst EXPORT_TABLES)) (ValueError ''Historical Store bundle table mismatch'')) (\<lambda>_. Inr ts)
     | _ \<Rightarrow> Inl (ValueError ''Historical Store bundle tables must be an object''))))"

fun insert_rows :: "string \<Rightarrow> json list \<Rightarrow> db \<Rightarrow> db res" where
  "insert_rows n [] db = Inr db"
| "insert_rows n (v # vs) db =
     (case v of
        JObj r \<Rightarrow>
          if r = [] then Inl (ValueError ''Bundle table contains an invalid row'')
          else bindE (insert_row history_schema n r db) (insert_rows n vs)
      | _ \<Rightarrow> Inl (ValueError ''Bundle table contains an invalid row''))"

fun import_tables :: "row \<Rightarrow> string list \<Rightarrow> db \<Rightarrow> db res" where
  "import_tables tables [] db = Inr db"
| "import_tables tables (n # ns) db =
     (case jget tables n of
        JList vs \<Rightarrow> bindE (insert_rows n vs db) (import_tables tables ns)
      | _ \<Rightarrow> Inl (ValueError ''Bundle table must be a list''))"

definition foreign_key_errors :: "db \<Rightarrow> bool" where
  "foreign_key_errors db \<longleftrightarrow>
     list_ex (\<lambda>t. list_ex (\<lambda>r. \<not> list_all (ref_ok db r) (tb_refs t)) (db (tb_name t))) history_schema"

definition logically_empty :: "db \<Rightarrow> bool" where
  "logically_empty db \<longleftrightarrow> list_all (\<lambda>n. db n = []) health_tables"

definition reconstruct_bundle :: "row \<Rightarrow> string \<Rightarrow> db \<Rightarrow> unit res \<times> db" where
  \<comment> \<open>over the opened destination; the answer of \<open>PRAGMA integrity_check\<close> is an argument.  The rows are committed
     before the checks that follow the transaction.\<close>
  "reconstruct_bundle b integrity d =
     (case assert_bundle_shape b of
        Inl e \<Rightarrow> (Inl e, d)
      | Inr tables \<Rightarrow>
          if \<not> logically_empty d then (Inl (ValueError ''Destination Historical Store is not empty''), d)
          else
            (case import_tables tables (map fst EXPORT_TABLES) d of
               Inl e \<Rightarrow> (Inl e, d)
             | Inr d' \<Rightarrow>
                 if foreign_key_errors d' then (Inl (ValueError ''Reconstructed Historical Store has foreign-key errors''), d')
                 else if integrity \<noteq> ''ok'' then (Inl (ValueError ''Reconstructed Historical Store integrity check failed''), d')
                 else if bundle_sha256 (export_bundle d') \<noteq> bundle_sha256 b
                 then (Inl (ValueError ''Reconstructed Historical Store is not byte-canonical''), d')
                 else (Inr (), d')))"

subsection \<open>Inserting the rows of a valid table\<close>

lemma row_of_columns:
  assumes "distinct (map fst r)"
  shows "map (\<lambda>k. (k, jget r k)) (map fst r) = r"
proof -
  have "(fst p, jget r (fst p)) = p" if "p \<in> set r" for p
    using assms that by (cases p) (simp add: jget_def)
  then show ?thesis by (simp add: map_idI)
qed

lemma schema_facts:
  assumes "t \<in> set history_schema"
  shows "distinct (map fd_name (tb_columns t))" "\<forall>(c, t', c') \<in> set (tb_refs t). t' \<noteq> tb_name t"
    "\<forall>c \<in> set (tb_columns t). tb_auto t = Some (fd_name c) \<longrightarrow> fd_not_null c" "tb_columns t \<noteq> []"
proof -
  have "\<forall>t \<in> set history_schema. distinct (map fd_name (tb_columns t))" using history_schema_ok by (simp add: schema_ok_def list_all_iff)
  with assms show "distinct (map fd_name (tb_columns t))" by blast
  have "\<forall>t \<in> set history_schema. \<forall>(c, t', c') \<in> set (tb_refs t). t' \<noteq> tb_name t" by (simp add: history_schema_def table_defs)
  with assms show "\<forall>(c, t', c') \<in> set (tb_refs t). t' \<noteq> tb_name t" by blast
  have "\<forall>t \<in> set history_schema. \<forall>c \<in> set (tb_columns t). tb_auto t = Some (fd_name c) \<longrightarrow> fd_not_null c"
    by (simp add: history_schema_def table_defs column_defs)
  with assms show "\<forall>c \<in> set (tb_columns t). tb_auto t = Some (fd_name c) \<longrightarrow> fd_not_null c" by blast
  have "\<forall>t \<in> set history_schema. tb_columns t \<noteq> []" by (simp add: history_schema_def table_defs)
  with assms show "tb_columns t \<noteq> []" by blast
qed

lemma full_row_valid:
  assumes "t \<in> set history_schema" "row_valid t r"
  shows "full_row t rows r = Inr r"
proof -
  have names: "map fst r = map fd_name (tb_columns t)" using assms(2) by (simp add: row_valid_def)
  have "cell t rows r c = Inr (fd_name c, jget r (fd_name c))" if c: "c \<in> set (tb_columns t)" for c
  proof -
    have "fd_name c \<in> set (map fst r)" unfolding names using c by simp
    then have "map_of r (fd_name c) \<noteq> None" by (simp add: map_of_eq_None_iff)
    then obtain v where v: "map_of r (fd_name c) = Some v" by blast
    then have jv: "jget r (fd_name c) = v" by (simp add: jget_def)
    from assms(2) c have valid: "well_typed c v" "fd_not_null c \<Longrightarrow> v \<noteq> JNull"
      unfolding row_valid_def list_all_iff jv [symmetric] by blast+
    have "stored c v = Inr v" using valid(1) by (cases v) (simp_all add: stored_def well_typed_def)
    moreover have "\<not> (v = JNull \<and> tb_auto t = Some (fd_name c))" using valid(2) schema_facts(3) [OF assms(1)] c by blast
    ultimately show ?thesis using v jv by (simp add: cell_def)
  qed
  then have "mapE (cell t rows r) (tb_columns t) = Inr (map (\<lambda>c. (fd_name c, jget r (fd_name c))) (tb_columns t))"
    unfolding mapE_Inr by (simp add: list_all2_conv_all_nth)
  also have "map (\<lambda>c. (fd_name c, jget r (fd_name c))) (tb_columns t) = map (\<lambda>k. (k, jget r k)) (map fst r)"
    unfolding names by simp
  also have "\<dots> = r" by (rule row_of_columns) (simp add: names schema_facts(1) [OF assms(1)])
  finally show ?thesis using arg_cong [OF names, of set] by (simp add: full_row_def raise_if_def)
qed

lemma find_by_name: "t \<in> set history_schema \<Longrightarrow> find_table history_schema (tb_name t) = Inr t"
proof -
  assume t: "t \<in> set history_schema"
  then have "find (\<lambda>u. tb_name u = tb_name t) history_schema \<noteq> None" by (auto simp: find_None_iff)
  then obtain u where u: "find (\<lambda>u. tb_name u = tb_name t) history_schema = Some u" by blast
  then have "u \<in> set history_schema" "tb_name u = tb_name t" by (auto simp: find_Some_iff)
  with same_table [OF history_schema_ok] t have "u = t" by blast
  with u show ?thesis by (simp add: find_table_def)
qed

lemma insert_rows_valid:
  assumes t: "t \<in> set history_schema"
    and "\<forall>r \<in> set rows. row_valid t r \<and> list_all (ref_ok db r) (tb_refs t)"
    and "\<forall>key \<in> set (tb_keys t). distinct (filter (\<lambda>k. JNull \<notin> set k) (map (key_of key) (db (tb_name t) @ rows)))"
  shows "insert_rows (tb_name t) (map JObj rows) db = Inr (db(tb_name t := db (tb_name t) @ rows))"
  using assms(2,3)
proof (induction rows arbitrary: db)
  case (Cons r rows)
  let ?n = "tb_name t" and ?db = "db(tb_name t := db (tb_name t) @ [r])"
  have valid: "row_valid t r" "list_all (ref_ok db r) (tb_refs t)" using Cons.prems(1) by simp_all
  have free: "key_free (db ?n) r key" if "key \<in> set (tb_keys t)" for key
    using Cons.prems(2) that by (auto simp: key_free_def)
  have "insert_row history_schema ?n r db = Inr ?db"
    using free valid by (simp add: insert_row_def find_by_name [OF t] full_row_valid [OF t valid(1)] list_all_iff)
  moreover have "r \<noteq> []" using valid(1) schema_facts(4) [OF t] by (auto simp: row_valid_def)
  moreover have "insert_rows ?n (map JObj rows) ?db = Inr (?db(?n := ?db ?n @ rows))"
  proof (rule Cons.IH)
    have "ref_ok ?db x ref = ref_ok db x ref" if "ref \<in> set (tb_refs t)" for x ref
      using schema_facts(2) [OF t] that by (auto simp: ref_ok_def)
    then show "\<forall>r \<in> set rows. row_valid t r \<and> list_all (ref_ok ?db r) (tb_refs t)" using Cons.prems(1) by (auto simp: list_all_iff)
    show "\<forall>key \<in> set (tb_keys t). distinct (filter (\<lambda>k. JNull \<notin> set k) (map (key_of key) (?db ?n @ rows)))"
      using Cons.prems(2) by simp
  qed
  moreover have "?db(?n := ?db ?n @ rows) = db(?n := db ?n @ r # rows)" by simp
  ultimately show ?case by (simp del: fun_upd_apply)
qed simp


subsection \<open>Reconstructing an export\<close>

fun dependency_safe :: "string list \<Rightarrow> (string \<times> string list) list \<Rightarrow> bool" where
  \<comment> \<open>every table comes after the tables it refers to, and none twice\<close>
  "dependency_safe ns [] = True"
| "dependency_safe ns (t # ts) =
     (fst t \<notin> set ns \<and>
      (case find_table history_schema (fst t) of
         Inl e \<Rightarrow> False | Inr tb \<Rightarrow> tb_name tb = fst t \<and> list_all (\<lambda>(c, t', c'). t' \<in> set ns) (tb_refs tb)) \<and>
      dependency_safe (fst t # ns) ts)"

lemma export_order_safe: "dependency_safe [] EXPORT_TABLES"
  by code_simp

lemma set_exported [simp]: "set (exported_rows db t) = set (db (fst t))"
  by (simp add: exported_rows_def)

lemma ref_ok_same:
  assumes "\<And>n. n \<in> set ns \<Longrightarrow> set (db' n) = set (db n)" "t' \<in> set ns"
  shows "ref_ok db' r (c, t', c') = ref_ok db r (c, t', c')"
  using assms(1) [OF assms(2)] by (simp add: ref_ok_def)

definition exported_into :: "db \<Rightarrow> (string \<times> string list) list \<Rightarrow> db \<Rightarrow> db" where
  "exported_into src ts d = fold (\<lambda>t d. d(fst t := exported_rows src t)) ts d"

lemma exported_into_lookup:
  "distinct (map fst ts) \<Longrightarrow> exported_into src ts d n =
     (case map_of (map (\<lambda>t. (fst t, exported_rows src t)) ts) n of None \<Rightarrow> d n | Some rows \<Rightarrow> rows)"
proof (induction ts arbitrary: d)
  case (Cons t ts)
  have none: "map_of (map (\<lambda>t. (fst t, exported_rows src t)) ts) (fst t) = None"
    using Cons.prems by (simp add: map_of_eq_None_iff image_image)
  from Cons show ?case using none by (auto simp: exported_into_def split: option.splits)
qed (simp add: exported_into_def)

lemma dependency_safe_distinct: "dependency_safe ns ts \<Longrightarrow> distinct (map fst ts) \<and> set (map fst ts) \<inter> set ns = {}"
  by (induction ns ts rule: dependency_safe.induct) (auto split: sum.splits)

lemma import_export:
  assumes "db_ok history_schema src" "dependency_safe ns ts" "\<And>n. n \<in> set ns \<Longrightarrow> set (d n) = set (src n)"
    and "\<forall>t \<in> set ts. d (fst t) = [] \<and> jget tables (fst t) = JList (map JObj (exported_rows src t))"
  shows "import_tables tables (map fst ts) d = Inr (exported_into src ts d)"
  using assms(2-4)
proof (induction ts arbitrary: ns d)
  case (Cons t ts)
  from Cons.prems(1) obtain tb where find: "find_table history_schema (fst t) = Inr tb" and name: "tb_name tb = fst t"
    and refs: "\<forall>(c, t', c') \<in> set (tb_refs tb). t' \<in> set ns" and fresh: "fst t \<notin> set ns" and rest: "dependency_safe (fst t # ns) ts"
    by (auto simp: list_all_iff split: sum.splits)
  have tb: "tb \<in> set history_schema" using find_table_Inr [OF find] by simp
  let ?rows = "exported_rows src t" and ?d = "d(fst t := exported_rows src t)"
  have empty: "d (fst t) = []" using Cons.prems(3) by simp
  have ok: "rows_ok tb src" using assms(1) tb by (simp add: db_ok_def)
  have "insert_rows (tb_name tb) (map JObj ?rows) d = Inr (d(tb_name tb := d (tb_name tb) @ ?rows))"
  proof (rule insert_rows_valid [OF tb])
    show "\<forall>r \<in> set ?rows. row_valid tb r \<and> list_all (ref_ok d r) (tb_refs tb)"
    proof
      fix r assume "r \<in> set ?rows"
      then have "row_valid tb r" "list_all (ref_ok src r) (tb_refs tb)" using ok name by (auto simp: rows_ok_def)
      moreover have "ref_ok d r ref = ref_ok src r ref" if "ref \<in> set (tb_refs tb)" for ref
      proof -
        obtain c t' c' where ref: "ref = (c, t', c')" by (cases ref)
        with refs that have "t' \<in> set ns" by auto
        with Cons.prems(2) show ?thesis unfolding ref by (rule ref_ok_same)
      qed
      ultimately show "row_valid tb r \<and> list_all (ref_ok d r) (tb_refs tb)" by (simp add: list_all_iff)
    qed
    show "\<forall>key \<in> set (tb_keys tb). distinct (filter (\<lambda>k. JNull \<notin> set k) (map (key_of key) (d (tb_name tb) @ ?rows)))"
    proof
      fix key assume "key \<in> set (tb_keys tb)"
      with ok name have "distinct (filter (\<lambda>k. JNull \<notin> set k) (map (key_of key) (src (fst t))))" by (simp add: rows_ok_def)
      moreover have "mset (filter (\<lambda>k. JNull \<notin> set k) (map (key_of key) ?rows)) = mset (filter (\<lambda>k. JNull \<notin> set k) (map (key_of key) (src (fst t))))"
        by (simp add: exported_rows_def mset_filter)
      ultimately have "distinct (filter (\<lambda>k. JNull \<notin> set k) (map (key_of key) ?rows))" by (metis mset_eq_imp_distinct_iff)
      then show "distinct (filter (\<lambda>k. JNull \<notin> set k) (map (key_of key) (d (tb_name tb) @ ?rows)))" by (simp add: name empty)
    qed
  qed
  then have step: "insert_rows (fst t) (map JObj ?rows) d = Inr ?d" by (simp add: name empty)
  have "import_tables tables (map fst ts) ?d = Inr (exported_into src ts ?d)"
  proof (rule Cons.IH [OF rest])
    show "set (?d n) = set (src n)" if "n \<in> set (fst t # ns)" for n using that Cons.prems(2) by auto
    have "fst t \<notin> set (map fst ts)" using dependency_safe_distinct [OF Cons.prems(1)] by simp
    then have "\<forall>u \<in> set ts. fst u \<noteq> fst t" by (force simp: image_iff)
    then show "\<forall>u \<in> set ts. ?d (fst u) = [] \<and> jget tables (fst u) = JList (map JObj (exported_rows src u))"
      using Cons.prems(3) by auto
  qed
  with step Cons.prems(3) show ?case by (simp add: exported_into_def)
qed (simp add: exported_into_def)

lemma insert_rows_keep: "db_ok history_schema db \<Longrightarrow> insert_rows n vs db = Inr db' \<Longrightarrow> db_ok history_schema db'"
  by (induction n vs db rule: insert_rows.induct)
    (auto simp: bindE_Inr split: json.splits if_splits intro: insert_keeps_ok [OF history_schema_ok])

lemma import_keeps: "db_ok history_schema db \<Longrightarrow> import_tables tables ns db = Inr db' \<Longrightarrow> db_ok history_schema db'"
  by (induction tables ns db rule: import_tables.induct)
    (auto simp: bindE_Inr split: json.splits intro: insert_rows_keep)

lemma no_foreign_key_errors: "db_ok history_schema db \<Longrightarrow> \<not> foreign_key_errors db"
  by (auto simp: db_ok_def rows_ok_def foreign_key_errors_def list_ex_iff)


lemma map_of_keyed: "distinct (map fst ts) \<Longrightarrow> t \<in> set ts \<Longrightarrow> map_of (map (\<lambda>t. (fst t, f t)) ts) (fst t) = Some (f t)"
  by (induction ts) auto

lemma export_names_distinct: "distinct (map fst EXPORT_TABLES)"
  using dependency_safe_distinct [OF export_order_safe] by simp

definition bundle_tables :: "db \<Rightarrow> row" where
  "bundle_tables db = map (\<lambda>t. (fst t, JList (map JObj (exported_rows db t)))) EXPORT_TABLES"

lemma export_shape: "assert_bundle_shape (export_bundle db) = Inr (bundle_tables db)"
proof -
  have "map fst (bundle_tables db) = map fst EXPORT_TABLES" by (simp add: bundle_tables_def comp_def)
  then have "set (map fst (bundle_tables db)) = set (map fst EXPORT_TABLES)" by metis
  then show ?thesis
    by (simp add: assert_bundle_shape_def export_bundle_def jget_def raise_if_def bundle_version_ok_def json_eq_int SCHEMA_VERSION_def
        bundle_tables_def [symmetric])
qed

lemma rows_need_target:
  assumes "db_ok history_schema db" "t \<in> set history_schema" "c \<in> set (tb_columns t)" "fd_not_null c"
    "(fd_name c, t', c') \<in> set (tb_refs t)" "db t' = []"
  shows "db (tb_name t) = []"
proof (rule ccontr)
  assume "db (tb_name t) \<noteq> []"
  then obtain r where r: "r \<in> set (db (tb_name t))" by (meson list.set_sel(1))
  with assms(1,2) have "row_valid t r" "list_all (ref_ok db r) (tb_refs t)" by (auto simp: db_ok_def rows_ok_def)
  with assms(3-6) show False by (auto simp: row_valid_def list_all_iff ref_ok_def)
qed

lemma empty_tables:
  assumes "db_ok history_schema db" "logically_empty db" "t \<in> set EXPORT_TABLES"
  shows "db (fst t) = []"
proof -
  have "db ''entities'' = []" "db ''events'' = []" "db ''discrepancies'' = []"
    using assms(2) by (simp_all add: logically_empty_def health_tables_def)
  then have "db (tb_name entity_aliases_table) = []" "db (tb_name event_participants_table) = []" "db (tb_name discrepancy_claims_table) = []"
    using rows_need_target [OF assms(1), of entity_aliases_table "required_col ''entity_id''" "''entities''" "''entity_id''"]
      rows_need_target [OF assms(1), of event_participants_table "required_col ''event_id''" "''events''" "''event_id''"]
      rows_need_target [OF assms(1), of discrepancy_claims_table "required_col ''discrepancy_id''" "''discrepancies''" "''discrepancy_id''"]
    by (simp_all add: history_schema_def entity_aliases_table_def event_participants_table_def discrepancy_claims_table_def column_defs)
  then have "db ''entity_aliases'' = []" "db ''event_participants'' = []" "db ''discrepancy_claims'' = []"
    by (simp_all add: entity_aliases_table_def event_participants_table_def discrepancy_claims_table_def)
  with assms(2,3) show ?thesis by (auto simp: logically_empty_def health_tables_def EXPORT_TABLES_def)
qed

lemma exported_again:
  assumes "t \<in> set EXPORT_TABLES"
  shows "exported_into src EXPORT_TABLES d (fst t) = exported_rows src t"
    "exported_rows (exported_into src EXPORT_TABLES d) t = exported_rows src t"
proof -
  show rows: "exported_into src EXPORT_TABLES d (fst t) = exported_rows src t"
    by (simp add: exported_into_lookup [OF export_names_distinct] map_of_keyed [OF export_names_distinct assms])
  have "sorted (map (order_key (snd t)) (exported_rows src t))" by (simp add: exported_rows_def)
  then show "exported_rows (exported_into src EXPORT_TABLES d) t = exported_rows src t"
    unfolding exported_rows_def [of "exported_into src EXPORT_TABLES d"] rows by (rule sort_key_id_if_sorted)
qed

lemma export_again: "export_bundle (exported_into src EXPORT_TABLES d) = export_bundle src"
  by (simp add: export_bundle_def exported_again)

lemma import_of_export:
  assumes "db_ok history_schema src" "db_ok history_schema d" "logically_empty d"
  shows "import_tables (bundle_tables src) (map fst EXPORT_TABLES) d = Inr (exported_into src EXPORT_TABLES d)"
proof (rule import_export [OF assms(1) export_order_safe])
  show "\<forall>t \<in> set EXPORT_TABLES. d (fst t) = [] \<and> jget (bundle_tables src) (fst t) = JList (map JObj (exported_rows src t))"
    using empty_tables [OF assms(2,3)] by (simp add: bundle_tables_def jget_def map_of_keyed [OF export_names_distinct])
qed simp

lemma reconstruct_export:
  assumes "db_ok history_schema src" "db_ok history_schema d" "logically_empty d"
  shows "reconstruct_bundle (export_bundle src) integrity d =
      (if integrity = ''ok'' then Inr () else Inl (ValueError ''Reconstructed Historical Store integrity check failed''),
       exported_into src EXPORT_TABLES d)"
    "db_ok history_schema (exported_into src EXPORT_TABLES d)"
proof -
  show ok: "db_ok history_schema (exported_into src EXPORT_TABLES d)" by (rule import_keeps [OF assms(2) import_of_export [OF assms]])
  show "reconstruct_bundle (export_bundle src) integrity d =
      (if integrity = ''ok'' then Inr () else Inl (ValueError ''Reconstructed Historical Store integrity check failed''),
       exported_into src EXPORT_TABLES d)"
    using assms(3) no_foreign_key_errors [OF ok]
    by (simp add: reconstruct_bundle_def export_shape import_of_export [OF assms] export_again)
qed

lemma import_elsewhere: "import_tables tables ns db = Inr db' \<Longrightarrow> n \<notin> set ns \<Longrightarrow> db' n = db n"
proof (induction tables ns db rule: import_tables.induct)
  case (2 tables m ns db)
  have "insert_rows m vs db = Inr db1 \<Longrightarrow> n \<noteq> m \<Longrightarrow> db1 n = db n" for vs db1
    by (induction m vs db rule: insert_rows.induct) (auto simp: bindE_Inr split: json.splits if_splits elim!: insert_row_Inr)
  with 2 show ?case by (auto simp: bindE_Inr split: json.splits)
qed simp


end
