(* ===== verification/FileSwap.thy ===== *)
theory FileSwap
  imports StoreLiveness
begin

section \<open>Replacing a file through a temporary one\<close>

text \<open>
  The pattern of \<open>write_bundle_atomic\<close> (\<open>historical_store_bundle.py\<close>) and \<open>put_bytes\<close>
  (\<open>historical_artifacts.py\<close>): \<open>tempfile.mkstemp\<close> beside the target, write, flush and fsync, \<open>os.replace\<close>,
  a directory fsync whose failure is ignored, and a \<open>finally\<close> that removes the temporary file if it is still
  there.  \<open>mkstemp\<close> draws one name; a name that is taken is an error here, where Python draws another.
\<close>

definition finally_do :: "'a io \<Rightarrow> unit io \<Rightarrow> 'a io" where
  \<comment> \<open>\<open>try: m finally: c\<close>\<close>
  "finally_do m c = bindI (attempt m) (\<lambda>r. bindI c (\<lambda>_. lift r))"

definition mkstemp :: "string \<Rightarrow> string \<Rightarrow> path \<Rightarrow> path io" where
  "mkstemp prefix suffix dir = bindI uuid4 (\<lambda>u. open_new (dir @ [prefix @ u @ suffix]))"

definition unlink :: "path \<Rightarrow> unit io" where
  "unlink p = sys (\<lambda>fs.
     case resolve fs p of None \<Rightarrow> Inl (StdError ''FileNotFoundError'')
     | Some q \<Rightarrow>
        (case node_at fs q of
           None \<Rightarrow> Inl (StdError ''FileNotFoundError'')
         | Some Dir \<Rightarrow> Inl (StdError ''IsADirectoryError'')
         | Some (File b) \<Rightarrow> Inr ((), filter (\<lambda>e. fst e \<noteq> q) fs)))"

definition chmod :: "path \<Rightarrow> unit io" where
  \<comment> \<open>\<open>os.chmod\<close>; modes are not modelled\<close>
  "chmod p = sys (\<lambda>fs. if path_exists fs p then Inr ((), fs) else Inl (StdError ''FileNotFoundError''))"

definition remove_temp :: "path \<Rightarrow> unit io" where
  \<comment> \<open>\<open>if os.path.exists(tmp): os.unlink(tmp)\<close>\<close>
  "remove_temp tmp = bindI (observe (\<lambda>fs. path_exists fs tmp)) (\<lambda>there. if there then unlink tmp else ret ())"

definition swap_body :: "unit io \<Rightarrow> path \<Rightarrow> path \<Rightarrow> string \<Rightarrow> unit io" where
  "swap_body prepare tmp target data =
     bindI (write_fd tmp data) (\<lambda>_.
     bindI fsync_fd (\<lambda>_.
     bindI prepare (\<lambda>_.
     bindI (os_replace tmp target) (\<lambda>_.
     catch (fsync_dir (butlast target)) (\<lambda>e. ret ())))))"

definition swap_in :: "unit io \<Rightarrow> path \<Rightarrow> path \<Rightarrow> string \<Rightarrow> unit io" where
  "swap_in prepare tmp target data = finally_do (swap_body prepare tmp target data) (remove_temp tmp)"

lemma finally_result:
  "finally_do m c w = (r, w') \<longleftrightarrow>
     (\<exists>r1 v r2. m w = (r1, v) \<and> c v = (r2, w') \<and> r = (case r2 of Inl e \<Rightarrow> Inl e | Inr u \<Rightarrow> r1))"
  by (auto simp: finally_do_def bindI_def attempt_def split: prod.splits sum.splits)

lemma unlink_effect:
  assumes "unlink p w = (r, w')" "plain_path p"
  shows "w_fs w' = w_fs w \<or> w_fs w' = filter (\<lambda>e. fst e \<noteq> p) (w_fs w)"
  using assms unfolding unlink_def by (auto dest!: sys_fs split: option.splits node.splits)

lemma remove_temp_effect:
  assumes "remove_temp p w = (r, w')" "plain_path p"
  shows "w_fs w' = w_fs w \<or> w_fs w' = filter (\<lambda>e. fst e \<noteq> p) (w_fs w)"
  using assms unlink_effect unfolding remove_temp_def by (auto split: if_splits)

lemma node_at_removed: "q \<noteq> p \<Longrightarrow> node_at (filter (\<lambda>e. fst e \<noteq> p) fs) q = node_at fs q"
  by (simp add: node_at_def map_of_filter_ne)

lemma remove_temp_elsewhere:
  assumes "remove_temp p w = (r, w')" "plain_path p" "q \<noteq> p"
  shows "node_at (w_fs w') q = node_at (w_fs w) q"
  using remove_temp_effect [OF assms(1,2)] node_at_removed [OF assms(3)] by auto

lemma chmod_frame [frame_rules]: "keeps (=) (chmod p)"
  unfolding chmod_def by (rule keeps_sys) (auto split: if_splits)

lemma keeps_unchanged: "keeps (=) m \<Longrightarrow> keeps (preserved_outside U) m"
  by (erule keeps_equal) (rule outside.same)

lemma swap_outside:
  assumes "keeps (=) prepare" "plain_path tmp" "plain_path target" "tmp \<noteq> []"
  shows "keeps (preserved_outside {q. within tmp q \<or> within target q}) (swap_in prepare tmp target data)"
proof -
  let ?R = "preserved_outside {q. within tmp q \<or> within target q}"
  have written: "keeps ?R (write_fd tmp data)"
    by (rule keeps_mono [OF write_fd_only [OF assms(4)]]) (auto dest!: writes_only_preserves intro: preserved_outside_mono)
  have remove: "keeps ?R (remove_temp tmp)"
  proof (rule keepsI)
    fix w r w'
    assume run: "remove_temp tmp w = (r, w')"
    show "?R (w_fs w) (w_fs w')" unfolding preserved_outside_def
      using remove_temp_elsewhere [OF run assms(2)] within_refl by (metis (mono_tags) mem_Collect_eq)
  qed
  have replace: "keeps ?R (os_replace tmp target)" by (rule os_replace_outside [OF assms(2,3)]) auto
  have sync: "keeps ?R (catch (fsync_dir (butlast target)) (\<lambda>e. ret ()))" by (intro keeps_unchanged frame_rules)
  have "keeps ?R (swap_body prepare tmp target data)" unfolding swap_body_def
    by (intro outside.keeps_bind written replace sync keeps_unchanged [OF fsync_frame(1)] keeps_unchanged [OF assms(1)])
  then show ?thesis unfolding swap_in_def finally_do_def
    by (intro outside.keeps_bind outside.keeps_attempt remove outside.keeps_pure)
qed

lemma swap_body_target:
  assumes "swap_body prepare tmp target data w = (r, w')" "keeps (=) prepare" "plain_path tmp" "plain_path target"
    and "apart tmp target" "node_at (w_fs w) tmp = Some (File [])"
  shows "node_at (w_fs w') target = Some (File data) \<or> r \<noteq> Inr () \<and> node_at (w_fs w') target = node_at (w_fs w) target"
proof -
  have ne: "tmp \<noteq> []" "tmp \<noteq> target" using assms(5) by (auto simp: apart_def within_def)
  have moved: "w_fs x = w_fs v \<and> r2 \<noteq> Inr () \<or> node_at (w_fs x) target = node_at (w_fs v) tmp"
    if "os_replace tmp target v = (r2, x)" for r2 v x
  proof -
    have "node_at (fs_move tmp target (w_fs v)) target = node_at (w_fs v) tmp"
      using moved_nodes(1) [OF assms(5), of "w_fs v" "[]"] ne by simp
    with os_replace_effect [OF that assms(3,4)] os_replace_node [OF _ assms(3,4) ne(2), of v] that
    show ?thesis by (cases r2) auto
  qed
  have same: "w_fs y = w_fs x" if "catch (fsync_dir (butlast target)) (\<lambda>e. ret ()) x = (r3, y)" for r3 x y
    using that fsync_files by (auto simp: catch_result)
  have fd: "w_fs y = w_fs x" if "fsync_fd x = (r3, y)" for r3 x y by (rule same_fs [OF fsync_frame(1) that])
  have prep: "w_fs y = w_fs x" if "prepare x = (r3, y)" for r3 x y by (rule same_fs [OF assms(2) that])
  obtain r1 w1 where w1: "write_fd tmp data w = (r1, w1)" by fastforce
  have node: "\<exists>k. node_at (w_fs w1) tmp = Some (File (take k data)) \<and> (r1 = Inr () \<longrightarrow> take k data = data) \<and>
      node_at (w_fs w1) target = node_at (w_fs w) target"
  proof -
    from write_fd_node [OF w1 ne(1)] obtain k where k: "w_fs w1 = fs_put tmp (File (contents (w_fs w) tmp @ take k data)) (w_fs w)"
      "r1 = Inr () \<longrightarrow> take k data = data" by blast
    with ne assms(6) show ?thesis by (intro exI [of _ k]) (simp add: node_at_put contents_def)
  qed
  consider (early) "r \<noteq> Inr ()" "w_fs w' = w_fs w1"
    | (late) w3 r4 w4 where "r1 = Inr ()" "w_fs w3 = w_fs w1" "os_replace tmp target w3 = (r4, w4)" "w_fs w' = w_fs w4" "r4 \<noteq> Inr () \<longrightarrow> r \<noteq> Inr ()"
    using assms(1) w1 unfolding swap_body_def bindI_result
    by (elim disjE exE conjE) (auto dest!: fd prep same)
  then show ?thesis
  proof cases
    case early
    then show ?thesis using node by auto
  next
    case late
    then show ?thesis using node moved [OF late(3)] by auto
  qed
qed

lemma swap_target:
  assumes "swap_in prepare tmp target data w = (r, w')" "keeps (=) prepare" "plain_path tmp" "plain_path target"
    and "apart tmp target" "node_at (w_fs w) tmp = Some (File [])"
  shows "node_at (w_fs w') target = Some (File data) \<or> r \<noteq> Inr () \<and> node_at (w_fs w') target = node_at (w_fs w) target"
proof -
  from assms(1) obtain r1 v r2 where run: "swap_body prepare tmp target data w = (r1, v)" "remove_temp tmp v = (r2, w')"
    "r = (case r2 of Inl e \<Rightarrow> Inl e | Inr u \<Rightarrow> r1)" unfolding swap_in_def finally_result by blast
  have "target \<noteq> tmp" using assms(5) by (auto simp: apart_def)
  with remove_temp_elsewhere [OF run(2) assms(3)] swap_body_target [OF run(1) assms(2-6)] run(3)
  show ?thesis by (auto split: sum.splits)
qed

subsection \<open>From the temporary name on\<close>

definition replace_through_temp :: "(path \<Rightarrow> unit io) \<Rightarrow> string \<Rightarrow> path \<Rightarrow> string \<Rightarrow> unit io" where
  "replace_through_temp prepare prefix target data =
     bindI (mkstemp prefix ''.tmp'' (butlast target)) (\<lambda>tmp. swap_in (prepare tmp) tmp target data)"

lemma mkstemp_cases:
  assumes "mkstemp prefix suffix dir w = (r, w')" "plain_path dir" "2 < length prefix"
  obtains (failed) e where "r = Inl e" "w_fs w' = w_fs w"
    | (made) u where "r = Inr (dir @ [prefix @ u @ suffix])" "plain_path (dir @ [prefix @ u @ suffix])"
        "adds (dir @ [prefix @ u @ suffix]) (File []) (w_fs w) (w_fs w')"
proof -
  obtain u v where u: "uuid4 w = (Inr u, v)" "w_fs v = w_fs w" by (simp add: uuid4_def)
  let ?p = "dir @ [prefix @ u @ suffix]"
  have "prefix @ u @ suffix \<noteq> ''..''" using assms(3) by (intro notI) (drule arg_cong [of _ _ length], simp)
  with assms(2) have plain: "plain_path ?p" by auto
  have run: "open_new ?p v = (r, w')" using assms(1) u(1) by (simp add: mkstemp_def)
  show thesis
  proof (cases r)
    case (Inl e)
    with open_new_effect [OF run] plain u(2) failed show thesis by auto
  next
    case (Inr q)
    with open_new_effect [OF run] plain u(2) made [of u] show thesis by (auto simp: adds_def)
  qed
qed

lemma siblings_apart: "p \<noteq> [] \<Longrightarrow> butlast p @ [name] \<noteq> p \<Longrightarrow> apart (butlast p @ [name]) p"
  unfolding apart_def using within_same_length [of "butlast p @ [name]" p] within_same_length [of p "butlast p @ [name]"]
  by (cases p rule: rev_cases) auto

lemma replace_through_temp_target:
  assumes "replace_through_temp prepare prefix target data w = (r, w')" "\<And>p. keeps (=) (prepare p)"
    and "plain_path target" "target \<noteq> []" "2 < length prefix" "\<And>u. prefix @ u \<noteq> last target"
  shows "node_at (w_fs w') target = Some (File data) \<or> r \<noteq> Inr () \<and> node_at (w_fs w') target = node_at (w_fs w) target"
proof -
  obtain r1 v where temp: "mkstemp prefix ''.tmp'' (butlast target) w = (r1, v)" by fastforce
  have plain: "plain_path (butlast target)" using assms(3) by (auto dest: in_set_butlastD)
  from temp plain assms(5) show ?thesis
  proof (cases rule: mkstemp_cases)
    case (failed e)
    with temp assms(1) show ?thesis by (auto simp: replace_through_temp_def)
  next
    case (made u)
    let ?tmp = "butlast target @ [prefix @ u @ ''.tmp'']"
    have name: "?tmp \<noteq> target" using assms(4) assms(6) [of "u @ ''.tmp''"] by (cases target rule: rev_cases) auto
    have run: "swap_in (prepare ?tmp) ?tmp target data v = (r, w')" using temp made(1) assms(1) by (simp add: replace_through_temp_def)
    have "node_at (w_fs v) ?tmp = Some (File [])" "node_at (w_fs v) target = node_at (w_fs w) target"
      using made(3) name by (auto simp: adds_node_at)
    with swap_target [OF run assms(2) made(2) assms(3) siblings_apart [OF assms(4) name]] show ?thesis by simp
  qed
qed

lemma replace_through_temp_keeps:
  assumes run: "replace_through_temp prepare prefix target data w = (r, w')" and prepare: "\<And>p. keeps (=) (prepare p)"
    and target: "plain_path target" "2 < length prefix"
    and before: "fs_wf s" "preserved_outside {} s (w_fs w)" "node_at s q = Some n" "\<not> within target q"
  shows "node_at (w_fs w') q = Some n"
proof -
  have there: "node_at (w_fs w) q = Some n" using before(2,3) by (simp add: preserved_outside_def)
  obtain r1 v where temp: "mkstemp prefix ''.tmp'' (butlast target) w = (r1, v)" by fastforce
  have plain: "plain_path (butlast target)" using target(1) by (auto dest: in_set_butlastD)
  from temp plain target(2) show ?thesis
  proof (cases rule: mkstemp_cases)
    case (failed e)
    with temp run there show ?thesis by (auto simp: replace_through_temp_def)
  next
    case (made u)
    let ?tmp = "butlast target @ [prefix @ u @ ''.tmp'']"
    have swap: "swap_in (prepare ?tmp) ?tmp target data v = (r, w')" using temp made(1) run by (simp add: replace_through_temp_def)
    have "node_at (w_fs w) ?tmp = None" using made(3) by (simp add: adds_def)
    then have "node_at s ?tmp = None" using before(2) unfolding preserved_outside_def by (cases "node_at s ?tmp") auto
    with fs_wf_absent [OF before(1)] before(3) have apart: "\<not> within ?tmp q" by fastforce
    then have "q \<noteq> ?tmp" by auto
    with made(3) there have "node_at (w_fs v) q = Some n" by (simp add: adds_node_at)
    moreover have "preserved_outside {q. within ?tmp q \<or> within target q} (w_fs v) (w_fs w')"
      by (rule keepsD [OF swap_outside [OF prepare made(2) target(1)] swap]) simp
    ultimately show ?thesis using apart before(4) by (simp add: preserved_outside_def)
  qed
qed


subsection \<open>When nothing fails\<close>

lemma mkdir_creates:
  assumes "quiet w" "plain_path p" "\<And>q b. within q p \<Longrightarrow> node_at (w_fs w) q \<noteq> Some (File b)"
  shows "\<exists>w'. mkdir_parents p w = (Inr (), w') \<and> dirs_to (w_fs w') p \<and> quietly w w' \<and>
    (\<forall>q. \<not> within q p \<longrightarrow> node_at (w_fs w') q = node_at (w_fs w) q)"
proof -
  have "\<exists>w'. make_dirs_from cur r w = (Inr (), w') \<and> dirs_to (w_fs w') (cur @ r) \<and> quietly w w' \<and>
      (\<forall>q. \<not> within q (cur @ r) \<longrightarrow> node_at (w_fs w') q = node_at (w_fs w) q)"
    if "quiet w" "plain_path (cur @ r)" "dirs_to (w_fs w) cur" "\<And>q b. within q (cur @ r) \<Longrightarrow> node_at (w_fs w) q \<noteq> Some (File b)" for cur r w
    using that
  proof (induction cur r arbitrary: w rule: make_dirs_from.induct)
    case (1 cur)
    then show ?case by (auto simp: quietly_refl)
  next
    case (2 cur c cs)
    let ?p = "cur @ [c]"
    have inside: "within ?p (cur @ c # cs)" by (simp add: within_def)
    have parent: "node_at (w_fs w) cur = Some Dir" using 2(4) by (rule dirs_to_self)
    have "\<exists>v. make_dir ?p (cs = []) w = (Inr (), v) \<and> w_fs v = (if node_at (w_fs w) ?p = None then fs_put ?p Dir (w_fs w) else w_fs w) \<and> quietly w v"
      unfolding make_dir_def by (rule sys_returns [OF 2(2)]) (use 2(3) 2(5) [OF inside] parent in \<open>auto split: option.splits node.splits\<close>)
    then obtain v where v: "make_dir ?p (cs = []) w = (Inr (), v)" "quietly w v"
      "w_fs v = (if node_at (w_fs w) ?p = None then fs_put ?p Dir (w_fs w) else w_fs w)" by blast
    have at: "node_at (w_fs v) q = (if q = ?p then Some Dir else node_at (w_fs w) q)" for q
      using 2(5) [OF inside] v(3) by (cases "node_at (w_fs w) ?p") (auto simp: node_at_put split: node.splits, metis node.exhaust)
    have dirs: "dirs_to (w_fs v) ?p" unfolding dirs_to_def
    proof (intro allI impI)
      fix q assume "within q ?p"
      then have "q = ?p \<or> within q cur" using within_butlast by fastforce
      with at 2(4) show "node_at (w_fs v) q = Some Dir" by (auto simp: dirs_to_def)
    qed
    have "\<exists>w'. make_dirs_from ?p cs v = (Inr (), w') \<and> dirs_to (w_fs w') (?p @ cs) \<and> quietly v w' \<and>
        (\<forall>q. \<not> within q (?p @ cs) \<longrightarrow> node_at (w_fs w') q = node_at (w_fs v) q)"
      by (rule 2(1)) (use v(2) 2(3,5) dirs at in \<open>auto simp: quietly_def\<close>)
    then obtain w' where w': "make_dirs_from ?p cs v = (Inr (), w')" "dirs_to (w_fs w') (cur @ c # cs)" "quietly v w'"
      "\<forall>q. \<not> within q (cur @ c # cs) \<longrightarrow> node_at (w_fs w') q = node_at (w_fs v) q" by auto
    have "node_at (w_fs w') q = node_at (w_fs w) q" if "\<not> within q (cur @ c # cs)" for q
      using w'(4) at inside that by auto
    moreover have "make_dirs_from cur (c # cs) w = (Inr (), w')" using v(1) w'(1) by simp
    ultimately show ?case using w'(2) quietly_trans [OF v(2) w'(3)] by blast
  qed
  from this [of w "[]" p] assms show ?thesis by (simp add: mkdir_parents_def dirs_to_def within_def)
qed

lemma read_returns:
  assumes "quiet w" "plain_path p" "node_at (w_fs w) p = Some (File b)"
  shows "\<exists>w'. read_bytes p w = (Inr b, w') \<and> w_fs w' = w_fs w \<and> quietly w w'"
  unfolding read_bytes_def by (rule sys_returns [OF assms(1)]) (use assms(2,3) in simp)

lemma chmod_returns:
  assumes "quiet w" "path_exists (w_fs w) p"
  shows "\<exists>w'. chmod p w = (Inr (), w') \<and> w_fs w' = w_fs w \<and> quietly w w'"
  unfolding chmod_def by (rule sys_returns [OF assms(1)]) (use assms(2) in simp)

lemma swap_returns:
  assumes "quiet w" "plain_path tmp" "plain_path target" "apart tmp target" "node_at (w_fs w) tmp = Some (File [])"
    and "node_at (w_fs w) (butlast target) = Some Dir" "node_at (w_fs w) target \<noteq> Some Dir"
    and prepare: "\<And>w. quiet w \<Longrightarrow> path_exists (w_fs w) tmp \<Longrightarrow> \<exists>w'. prepare w = (Inr (), w') \<and> w_fs w' = w_fs w \<and> quietly w w'"
  shows "\<exists>w'. swap_in prepare tmp target data w = (Inr (), w') \<and> quietly w w'"
proof -
  have apart: "\<not> within tmp target" "\<not> within target tmp" using assms(4) by (simp_all add: apart_def)
  then have target: "tmp \<noteq> []" "target \<noteq> []" "target \<noteq> tmp" by (auto simp: within_def)
  have "\<not> within tmp (butlast target)" using apart(1) within_trans [OF _ within_parent] by blast
  moreover have "\<not> within target (butlast target)"
    using within_same_length [of target "butlast target"] target(2) by (cases target rule: rev_cases) auto
  ultimately have ne: "tmp \<noteq> []" "target \<noteq> tmp" "\<not> within tmp (butlast target)" "\<not> within target (butlast target)"
    using target by simp_all
  have other: "butlast target \<noteq> tmp" using ne(3) by auto
  obtain w1 where w1: "write_fd tmp data w = (Inr (), w1)" "w_fs w1 = fs_put tmp (File data) (w_fs w)" "quietly w w1"
    using write_fd_returns [OF assms(1) ne(1), of data] assms(5) by (auto simp: contents_def)
  obtain w2 where w2: "fsync_fd w1 = (Inr (), w2)" "w_fs w2 = w_fs w1" "quietly w1 w2"
    using sys_returns [of w1 "\<lambda>fs. Inr ((), fs)"] w1(3) by (auto simp: fsync_fd_def quietly_def)
  have at: "node_at (w_fs w2) tmp = Some (File data)" "node_at (w_fs w2) (butlast target) = Some Dir"
    "node_at (w_fs w2) target = node_at (w_fs w) target"
    using w1(2) w2(2) other ne assms(6) by (simp_all add: node_at_put)
  obtain w3 where w3: "prepare w2 = (Inr (), w3)" "w_fs w3 = w_fs w2" "quietly w2 w3"
    using prepare [of w2] w2(3) path_exists_node [OF assms(2) at(1)] by (auto simp: quietly_def)
  obtain w4 where w4: "os_replace tmp target w3 = (Inr (), w4)" "w_fs w4 = fs_move tmp target (w_fs w3)" "quietly w3 w4"
    using replace_returns [of w3 tmp target "File data"] assms(2-4,7) at w3 by (auto simp: quietly_def) (metis node.exhaust option.exhaust)
  have "node_at (w_fs w4) (butlast target) = Some Dir"
    using moved_nodes(2) [OF assms(4) ne(3,4)] at(2) w3(2) w4(2) by simp
  then have "path_exists (w_fs w4) (butlast target)" using assms(3) by (intro path_exists_node) (auto dest: in_set_butlastD)
  then obtain w5 where w5: "fsync_dir (butlast target) w4 = (Inr (), w5)" "w_fs w5 = w_fs w4" "quietly w4 w5"
    using fsync_returns [of w4 "butlast target"] w4(3) by (auto simp: quietly_def)
  have "node_at (w_fs w5) tmp = None" using assms(4) ne(1) w4(2) w5(2) by (simp add: node_at_move apart_def)
  then have "\<not> path_exists (w_fs w5) tmp" using assms(2) by (simp add: path_exists_def)
  then have "remove_temp tmp w5 = (Inr (), w5)" by (simp add: remove_temp_def)
  moreover have "swap_body prepare tmp target data w = (Inr (), w5)"
    using w1(1) w2(1) w3(1) w4(1) w5(1) by (simp add: swap_body_def)
  moreover have "quietly w w5" using w1(3) w2(3) w3(3) w4(3) w5(3) quietly_trans by metis
  ultimately show ?thesis by (auto simp: swap_in_def finally_result)
qed

lemma replace_through_temp_returns:
  assumes "quiet w" "plain_path target" "target \<noteq> []" "2 < length prefix" "\<And>u. prefix @ u \<noteq> last target"
    and "node_at (w_fs w) (butlast target) = Some Dir" "node_at (w_fs w) target \<noteq> Some Dir"
    and "\<And>n. node_at (w_fs w) (butlast target @ [prefix @ w_uuid w n @ ''.tmp'']) = None"
    and prepare: "\<And>p w. quiet w \<Longrightarrow> path_exists (w_fs w) p \<Longrightarrow> \<exists>w'. prepare p w = (Inr (), w') \<and> w_fs w' = w_fs w \<and> quietly w w'"
  shows "\<exists>w'. replace_through_temp prepare prefix target data w = (Inr (), w') \<and> quietly w w'"
proof -
  let ?u = "w_uuid w (w_tick w)" and ?v = "w\<lparr>w_tick := Suc (w_tick w)\<rparr>"
  let ?tmp = "butlast target @ [prefix @ ?u @ ''.tmp'']"
  have "prefix @ ?u @ ''.tmp'' \<noteq> ''..''" using assms(4) by (intro notI) (drule arg_cong [of _ _ length], simp)
  with assms(2) have plain: "plain_path ?tmp" by (auto dest: in_set_butlastD)
  have name: "?tmp \<noteq> target" using assms(3) assms(5) [of "?u @ ''.tmp''"] by (cases target rule: rev_cases) auto
  have "\<exists>x. open_new ?tmp ?v = (Inr ?tmp, x) \<and> w_fs x = fs_put ?tmp (File []) (w_fs ?v) \<and> quietly ?v x"
    unfolding open_new_def by (rule sys_returns) (use assms(1,6,8) plain in \<open>simp_all add: quiet_def\<close>)
  then obtain x where x: "open_new ?tmp ?v = (Inr ?tmp, x)" "w_fs x = fs_put ?tmp (File []) (w_fs w)" "quietly ?v x" by auto
  have temp: "mkstemp prefix ''.tmp'' (butlast target) w = (Inr ?tmp, x)" using x(1) by (simp add: mkstemp_def uuid4_def)
  have at: "node_at (w_fs x) q = (if q = ?tmp then Some (File []) else node_at (w_fs w) q)" for q by (simp add: x(2) node_at_put)
  have "butlast target \<noteq> ?tmp" by simp
  then obtain w' where "swap_in (prepare ?tmp) ?tmp target data x = (Inr (), w')" "quietly x w'"
    using swap_returns [OF _ plain assms(2) siblings_apart [OF assms(3) name], of x "prepare ?tmp" data] at assms(6,7) name prepare x(3)
    by (auto simp: quietly_def)
  with temp x(3) show ?thesis by (auto simp: replace_through_temp_def quietly_def)
qed


end
