(* ===== verification/HistoricalBundleFile.thy ===== *)
theory HistoricalBundleFile
  imports HistoricalBundle FileSwap
begin

section \<open>Bundles on disk\<close>

text \<open>
  \<open>write_bundle_atomic\<close> and \<open>load_bundle\<close> of \<open>historical_store_bundle.py\<close>.  A bundle is written with the keys
  of every object sorted, so what is loaded differs from what was exported in the order of keys only; the
  reconstruction does not depend on that order.  The target is a resolved absolute path.
\<close>

definition write_bundle_atomic :: "db \<Rightarrow> path \<Rightarrow> string io" where
  "write_bundle_atomic db target =
     (let payload = canonical_bytes (JObj (export_bundle db)) in
      bindI (mkdir_parents (butlast target)) (\<lambda>_.
      bindI (replace_through_temp (\<lambda>tmp. ret ()) (''.'' @ last target @ ''.'') target payload) (\<lambda>_.
      ret (sha256 payload))))"

definition load_bundle :: "path \<Rightarrow> row io" where
  "load_bundle p =
     bindI (read_bytes p) (\<lambda>raw.
     case loads_bytes raw of
       None \<Rightarrow> throw (ValueError ''JSONDecodeError'')
     | Some (JObj b) \<Rightarrow> bindI (lift (assert_bundle_shape b)) (\<lambda>_. ret b)
     | Some _ \<Rightarrow> throw (StdError ''AttributeError''))"

subsection \<open>The order of keys\<close>

primrec key_sorted :: "json \<Rightarrow> json" where
  "key_sorted JNull = JNull"
| "key_sorted (JBool b) = JBool b"
| "key_sorted (JInt i) = JInt i"
| "key_sorted (JStr s) = JStr s"
| "key_sorted (JList vs) = JList (map key_sorted vs)"
| "key_sorted (JObj kvs) = JObj (sort_key fst (map (map_prod id key_sorted) kvs))"

primrec unique_keys :: "json \<Rightarrow> bool" where
  "unique_keys JNull = True"
| "unique_keys (JBool b) = True"
| "unique_keys (JInt i) = True"
| "unique_keys (JStr s) = True"
| "unique_keys (JList vs) = list_all id (map unique_keys vs)"
| "unique_keys (JObj kvs) = (distinct (map fst kvs) \<and> list_all snd (map (map_prod id unique_keys) kvs))"

definition sorted_row :: "row \<Rightarrow> row" where
  "sorted_row r = sort_key fst (map (map_prod id key_sorted) r)"

lemma insort_map: "insort_key fst (map_prod id f x) (map (map_prod id f) ys) = map (map_prod id f) (insort_key fst x ys)"
  by (induction ys) (auto simp: map_prod_def split: prod.splits)

lemma sort_map: "sort_key fst (map (map_prod id f) xs) = map (map_prod id f) (sort_key fst xs)"
  by (induction xs) (simp_all add: insort_map [unfolded id_def] id_def)

lemma sort_again: "sort_key f (sort_key f xs) = sort_key f xs"
  by (rule sort_key_id_if_sorted) simp

lemma dumps_key_sorted: "dumps (key_sorted v) = dumps v"
proof (induction v)
  case (JList vs)
  then show ?case by (simp add: comp_def cong: map_cong)
next
  case (JObj kvs)
  have "map (map_prod id dumps \<circ> map_prod id key_sorted) kvs = map (map_prod id dumps) kvs"
    using JObj by (auto simp: map_prod_def split: prod.splits)
  then show ?case by (simp only: key_sorted.simps dumps.simps write_obj_def sort_map [symmetric] sort_again map_map)
qed simp_all

lemma canonical_key_sorted: "unique_keys v \<Longrightarrow> canonical (key_sorted v)"
proof (induction v)
  case (JObj kvs)
  let ?s = "sort_key fst (map (map_prod id key_sorted) kvs)"
  have "sorted (map fst ?s)" by simp
  moreover have "distinct (map fst ?s)"
  proof -
    have "mset (map fst ?s) = mset (map fst kvs)" by (simp add: image_mset.compositionality comp_def)
    moreover have "distinct (map fst kvs)" using JObj.prems by simp
    ultimately show ?thesis by (metis mset_eq_imp_distinct_iff)
  qed
  ultimately show ?case using JObj by (auto simp: list_all_iff strict_sorted_iff)
qed (auto simp: list_all_iff)

lemma utf8_key_sorted: "utf8_json v \<Longrightarrow> utf8_json (key_sorted v)"
  by (induction v) (auto simp: list_all_iff)

lemma sorted_row_lookup:
  assumes "distinct (map fst r)"
  shows "map_of (sorted_row r) k = map_option key_sorted (map_of r k)"
proof -
  have "map_of (map (map_prod id key_sorted) r) k = map_option key_sorted (map_of r k)"
    by (induction r) auto
  moreover have "map_of (sorted_row r) = map_of (map (map_prod id key_sorted) r)"
  proof (rule map_of_inject_set [THEN iffD2])
    have "mset (map fst (sorted_row r)) = mset (map fst r)"
      by (simp add: sorted_row_def image_mset.compositionality comp_def)
    with assms show "distinct (map fst (sorted_row r))" by (metis mset_eq_imp_distinct_iff)
    show "distinct (map fst (map (map_prod id key_sorted) r))" using assms by (simp add: comp_def)
  qed (simp add: sorted_row_def)
  ultimately show ?thesis by simp
qed

lemma sorted_row_get: "distinct (map fst r) \<Longrightarrow> jget (sorted_row r) k = key_sorted (jget r k)"
  by (simp add: jget_def sorted_row_lookup split: option.splits)

lemma sorted_row_names: "set (map fst (sorted_row r)) = set (map fst r)"
  by (simp add: sorted_row_def image_image)

lemma stored_key_sorted: "stored c (key_sorted v) = stored c v"
  by (cases v) (simp_all add: stored_def)

lemma insert_sorted_row:
  assumes "distinct (map fst r)"
  shows "insert_row sch n (sorted_row r) db = insert_row sch n r db"
proof -
  have "cell t rows (sorted_row r) = cell t rows r" for t rows
    by (rule ext) (simp add: cell_def sorted_row_lookup [OF assms] stored_key_sorted split: option.splits)
  then have "full_row t rows (sorted_row r) = full_row t rows r" for t rows
    unfolding full_row_def sorted_row_names by simp
  then show ?thesis by (simp add: insert_row_def)
qed

lemma key_sorted_row: "key_sorted (JObj r) = JObj (sorted_row r)"
  by (simp add: sorted_row_def)

lemma sorted_row_empty: "sorted_row r = [] \<longleftrightarrow> r = []"
proof -
  have "length (sorted_row r) = length r" by (simp add: sorted_row_def)
  then show ?thesis by (metis length_0_conv)
qed

lemma insert_rows_sorted: "\<forall>v \<in> set vs. unique_keys v \<Longrightarrow> insert_rows n (map key_sorted vs) db = insert_rows n vs db"
proof (induction vs arbitrary: db)
  case (Cons v vs)
  then show ?case
  proof (cases v)
    case (JObj r)
    with Cons have "insert_rows n (map key_sorted vs) db1 = insert_rows n vs db1" "distinct (map fst r)" for db1 by simp_all
    then show ?thesis unfolding JObj list.map key_sorted_row
      by (simp add: sorted_row_empty insert_sorted_row bindE_def split: sum.splits)
  qed simp_all
qed simp

lemma unique_get: "unique_keys (JObj r) \<Longrightarrow> unique_keys (jget r k)"
  by (auto simp: jget_def list_all_iff dest!: map_of_SomeD split: option.splits)

lemma import_sorted: "unique_keys (JObj ts) \<Longrightarrow> import_tables (sorted_row ts) ns db = import_tables ts ns db"
proof (induction ns arbitrary: db)
  case (Cons n ns)
  have get: "jget (sorted_row ts) n = key_sorted (jget ts n)" using Cons.prems by (intro sorted_row_get) simp
  show ?case
  proof (cases "jget ts n")
    case (JList vs)
    with unique_get [OF Cons.prems, of n] have "\<forall>v \<in> set vs. unique_keys v" by (simp add: list_all_iff)
    then show ?thesis using Cons by (simp add: get JList insert_rows_sorted bindE_def split: sum.splits)
  qed (simp_all add: get)
qed simp

lemma shape_sorted:
  assumes "unique_keys (JObj b)"
  shows "assert_bundle_shape (sorted_row b) = map_sum id sorted_row (assert_bundle_shape b)"
proof -
  have get: "jget (sorted_row b) k = key_sorted (jget b k)" for k using assms by (intro sorted_row_get) simp
  have str: "key_sorted v = JStr s \<longleftrightarrow> v = JStr s" for v s by (cases v) auto
  have version: "bundle_version_ok (key_sorted v) n = bundle_version_ok v n" for v n by (cases v) (auto simp: bundle_version_ok_def json_eq_int)
  show ?thesis
    by (cases "jget b ''tables''")
      (simp_all add: assert_bundle_shape_def get str version key_sorted_row sorted_row_names [unfolded set_map] raise_if_def bindE_def del: key_sorted.simps(6))
qed

lemma reconstruct_sorted:
  assumes "unique_keys (JObj b)"
  shows "reconstruct_bundle (sorted_row b) integrity d = reconstruct_bundle b integrity d"
proof (cases "assert_bundle_shape b")
  case (Inl e)
  then show ?thesis by (simp add: reconstruct_bundle_def shape_sorted [OF assms])
next
  case (Inr ts)
  then have "jget b ''tables'' = JObj ts"
    by (auto simp: assert_bundle_shape_def bindE_Inr split: json.splits)
  with unique_get [OF assms, of "''tables''"] have "unique_keys (JObj ts)" by simp
  note run = import_sorted [OF this]
  have digest: "bundle_sha256 (sorted_row b) = bundle_sha256 b"
    using dumps_key_sorted [of "JObj b"] unfolding bundle_sha256_def canonical_bytes_def key_sorted_row by simp
  show ?thesis by (simp add: reconstruct_bundle_def shape_sorted [OF assms] Inr run digest split: sum.split)
qed

lemma exported_table: "t \<in> set EXPORT_TABLES \<Longrightarrow> \<exists>tb \<in> set history_schema. tb_name tb = fst t"
proof -
  have "t \<in> set ts \<Longrightarrow> dependency_safe ns ts \<Longrightarrow> \<exists>tb \<in> set history_schema. tb_name tb = fst t" for ns ts
    by (induction ns ts rule: dependency_safe.induct) (auto dest!: find_table_Inr split: sum.splits)
  with export_order_safe show "t \<in> set EXPORT_TABLES \<Longrightarrow> ?thesis" by blast
qed

lemma unique_export:
  assumes "db_ok history_schema db"
  shows "unique_keys (JObj (export_bundle db))"
proof -
  have row: "unique_keys (JObj r)" if t: "t \<in> set EXPORT_TABLES" and r: "r \<in> set (exported_rows db t)" for t r
  proof -
    from t obtain tb where tb: "tb \<in> set history_schema" "tb_name tb = fst t"
      using exported_table by blast
    with assms r have valid: "row_valid tb r" by (auto simp: db_ok_def rows_ok_def)
    then have names: "map fst r = map fd_name (tb_columns tb)" by (simp add: row_valid_def)
    with schema_facts(1) [OF tb(1)] have distinct: "distinct (map fst r)" by simp
    have "unique_keys v" if kv: "(k, v) \<in> set r" for k v
    proof -
      from kv names have "k \<in> set (map fd_name (tb_columns tb))" by (metis fst_conv image_eqI set_map)
      then obtain c where c: "c \<in> set (tb_columns tb)" "fd_name c = k" by auto
      with valid distinct kv have "well_typed c v" by (auto simp: row_valid_def list_all_iff jget_def)
      then show ?thesis by (cases v) (simp_all add: well_typed_def)
    qed
    with distinct show ?thesis by (auto simp: list_all_iff)
  qed
  have "unique_keys (JObj (bundle_tables db))"
    using row export_names_distinct by (auto simp: bundle_tables_def list_all_iff comp_def)
  then show ?thesis by (simp add: export_bundle_def bundle_tables_def [symmetric])
qed


subsection \<open>Writing and loading\<close>

lemma temp_of_target: "p \<noteq> [] \<Longrightarrow> (''.'' @ last p @ ''.'') @ u \<noteq> last p"
  by (intro notI) (drule arg_cong [of _ _ length], simp)

lemma prefix_long: "plain_path p \<Longrightarrow> p \<noteq> [] \<Longrightarrow> last p \<noteq> [] \<Longrightarrow> 2 < length (''.'' @ last p @ ''.'')"
  by (cases "last p") simp_all

lemma ret_frame: "keeps (=) (ret ())"
  by (intro frame_rules)

definition saving_ready :: "path \<Rightarrow> world \<Rightarrow> bool" where
  \<comment> \<open>no system call fails, no file stands where a directory goes, the target is no directory, and the temporary
     names drawn are free\<close>
  "saving_ready target w \<longleftrightarrow>
     quiet w \<and> plain_path target \<and> target \<noteq> [] \<and> last target \<noteq> [] \<and>
     (\<forall>q b. within q (butlast target) \<longrightarrow> node_at (w_fs w) q \<noteq> Some (File b)) \<and> node_at (w_fs w) target \<noteq> Some Dir \<and>
     (\<forall>n. node_at (w_fs w) (butlast target @ [''.'' @ last target @ ''.'' @ w_uuid w n @ ''.tmp'']) = None)"

lemma saving_returns:
  assumes "saving_ready target w"
  shows "\<exists>w'. write_bundle_atomic db target w = (Inr (bundle_sha256 (export_bundle db)), w') \<and> quiet w' \<and>
    node_at (w_fs w') target = Some (File (canonical_bytes (JObj (export_bundle db))))"
proof -
  from assms have quiet: "quiet w" and plain: "plain_path target" and ne: "target \<noteq> []" "last target \<noteq> []"
    and clear: "\<And>q b. within q (butlast target) \<Longrightarrow> node_at (w_fs w) q \<noteq> Some (File b)" and place: "node_at (w_fs w) target \<noteq> Some Dir"
    and temp: "\<And>n. node_at (w_fs w) (butlast target @ [''.'' @ last target @ ''.'' @ w_uuid w n @ ''.tmp'']) = None"
    by (auto simp: saving_ready_def)
  let ?payload = "canonical_bytes (JObj (export_bundle db))"
  have plain_dir: "plain_path (butlast target)" using plain by (auto dest: in_set_butlastD)
  obtain w1 where w1: "mkdir_parents (butlast target) w = (Inr (), w1)" "dirs_to (w_fs w1) (butlast target)" "quietly w w1"
    "\<And>q. \<not> within q (butlast target) \<Longrightarrow> node_at (w_fs w1) q = node_at (w_fs w) q"
    using mkdir_creates [OF quiet plain_dir clear] by blast
  have child: "\<not> within (butlast target @ [x]) (butlast target)" for x by (auto simp: within_def)
  have "\<exists>v. replace_through_temp (\<lambda>tmp. ret ()) (''.'' @ last target @ ''.'') target ?payload w1 = (Inr (), v) \<and> quietly w1 v"
  proof (rule replace_through_temp_returns [OF _ plain ne(1) prefix_long [OF plain ne] temp_of_target [OF ne(1)]])
    show "quiet w1" using w1(3) by (simp add: quietly_def)
    show "node_at (w_fs w1) (butlast target) = Some Dir" using w1(2) by (rule dirs_to_self)
    show "node_at (w_fs w1) target \<noteq> Some Dir" using w1(4) child [of "last target"] ne(1) place by simp
    show "node_at (w_fs w1) (butlast target @ [(''.'' @ last target @ ''.'') @ w_uuid w1 n @ ''.tmp'']) = None" for n
      using w1(3,4) child temp [of n] by (simp add: quietly_def)
  qed (simp add: quietly_refl)
  then obtain v where v: "replace_through_temp (\<lambda>tmp. ret ()) (''.'' @ last target @ ''.'') target ?payload w1 = (Inr (), v)" "quietly w1 v"
    by blast
  from replace_through_temp_target [OF v(1) ret_frame plain ne(1) prefix_long [OF plain ne] temp_of_target [OF ne(1)]]
  have "node_at (w_fs v) target = Some (File ?payload)" by simp
  with w1(1) v show ?thesis by (auto simp: write_bundle_atomic_def Let_def bundle_sha256_def quietly_def)
qed

lemma loads_bytes_line: "canonical v \<Longrightarrow> utf8_json v \<Longrightarrow> loads_bytes (dumps v @ [newline]) = Some v"
  using loads_dumps_line [of v] by (simp add: loads_bytes_def utf8_valid_append utf8_valid_dumps newline_def code_def)

lemma load_saved:
  assumes "quiet w" "plain_path target" "node_at (w_fs w) target = Some (File (canonical_bytes (JObj (export_bundle db))))"
    and "db_ok history_schema db" "utf8_json (JObj (export_bundle db))"
  shows "\<exists>w'. load_bundle target w = (Inr (sorted_row (export_bundle db)), w')"
proof -
  let ?b = "export_bundle db"
  note unique = unique_export [OF assms(4)]
  have "canonical (JObj (sorted_row ?b))" "utf8_json (JObj (sorted_row ?b))"
    using canonical_key_sorted [OF unique] utf8_key_sorted [OF assms(5)] unfolding key_sorted_row .
  then have "loads_bytes (dumps (JObj (sorted_row ?b)) @ [newline]) = Some (JObj (sorted_row ?b))"
    by (rule loads_bytes_line)
  then have loaded: "loads_bytes (canonical_bytes (JObj ?b)) = Some (JObj (sorted_row ?b))"
    unfolding canonical_bytes_def using dumps_key_sorted [of "JObj ?b"] by (simp only: key_sorted_row)
  obtain w' where "read_bytes target w = (Inr (canonical_bytes (JObj ?b)), w')"
    using read_returns [OF assms(1-3)] by blast
  moreover have "assert_bundle_shape (sorted_row ?b) = Inr (sorted_row (bundle_tables db))"
    by (simp add: shape_sorted [OF unique] export_shape)
  ultimately show ?thesis by (simp add: load_bundle_def loaded)
qed


end
