(* ===== verification/HistoricalReview.thy ===== *)
theory HistoricalReview
  imports HistoricalInvariant
begin

section \<open>Reviews and promotion\<close>

text \<open>
  A claim becomes canonical only through a recorded human review, and, where its metadata ask for it, only
  once the raw capture of its document is stored.
\<close>

subsection \<open>What a review writes\<close>

definition review_row :: "string \<Rightarrow> string \<Rightarrow> string \<Rightarrow> string \<Rightarrow> row \<Rightarrow> bool" where
  "review_row claim_id decision reviewer rationale r \<longleftrightarrow>
     jget r ''object_type'' = JStr ''claim'' \<and> jget r ''object_id'' = JStr claim_id \<and> jget r ''decision'' = JStr decision \<and>
     jget r ''reviewer'' = JStr reviewer \<and> jget r ''rationale'' = JStr rationale"

definition reviewed :: "string \<Rightarrow> string \<Rightarrow> json \<Rightarrow> row \<Rightarrow> row" where
  \<comment> \<open>a row of \<open>claims\<close> after the update of a review\<close>
  "reviewed claim_id status promoted_at r =
     (if jget r ''claim_id'' = JStr claim_id
      then overwrite [(''status'', JStr status),
             (''promoted_at_utc'', if status = ''CANONICAL'' then promoted_at else jget r ''promoted_at_utc'')] r
      else r)"

lemma update_in_Inr:
  assumes "update_in n p new s = (Inr u, s')"
  shows "s' = s\<lparr>sn_db := (sn_db s)(n := map (\<lambda>r. if p r then overwrite (new r) r else r) (sn_db s n))\<rparr>"
  using assms by (auto simp: update_in_def statement_def split: sum.splits elim!: update_rows_Inr)

lemma audit_Inr:
  assumes "audit event ty oid payload s = (Inr u, s')"
  obtains a where "sn_db s' = (sn_db s)(''audit_log'' := sn_db s ''audit_log'' @ [a])" "jget a ''event_type'' = JStr event"
proof -
  let ?vals = "\<lambda>ts. [(''event_type'', JStr event), (''object_type'', JStr ty), (''object_id'', JStr oid),
        (''payload_json'', JStr (canonical_json payload)), (''created_at_utc'', JStr ts)]"
  from assms obtain ts v where now: "utc_now s = (Inr ts, v)" and ins: "insert_into ''audit_log'' (?vals ts) v = (Inr u, s')"
    by (auto simp: audit_def bindS_Inr)
  from ins obtain t r where t: "t \<in> set history_schema" "tb_name t = ''audit_log''"
    and r: "full_row t (sn_db v ''audit_log'') (?vals ts) = Inr r" "s' = v\<lparr>sn_db := (sn_db v)(''audit_log'' := sn_db v ''audit_log'' @ [r])\<rparr>"
    by (rule insert_into_Inr)
  have "t = audit_log_table" using t by (intro in_schema) (simp_all add: history_schema_def audit_log_table_def)
  with inserted_text [OF r(1) t(1), of "required_col ''event_type''"] have "jget r ''event_type'' = JStr event"
    by (simp add: audit_log_table_def column_defs)
  moreover have "sn_db v = sn_db s" using now by (auto simp: utc_now_def)
  ultimately show thesis using that r(2) by simp
qed

lemma utc_now_db: "utc_now s = (Inr ts, s') \<Longrightarrow> sn_db s' = sn_db s"
  by (auto simp: utc_now_def)

lemma transaction_failed: "transaction m s = (Inl e, s') \<Longrightarrow> sn_db s' = sn_db s"
  by (auto simp: transaction_def split: prod.splits sum.splits)

lemma transaction_Inr: "transaction m s = (Inr x, s') \<longleftrightarrow> m s = (Inr x, s')"
  by (auto simp: transaction_def split: prod.splits sum.splits)

lemma store_review_Inr:
  assumes "store_review cid decision reviewer rationale meta rid s = (Inr u, s')"
  obtains r a promoted_at where "review_row cid decision reviewer rationale r"
    "select_one ''claims'' ''claim_id'' cid (sn_db s) \<noteq> None"
    "sn_db s' = (sn_db s)(''reviews'' := sn_db s ''reviews'' @ [r],
       ''claims'' := map (reviewed cid (status_for_decision decision) promoted_at) (sn_db s ''claims''),
       ''audit_log'' := sn_db s ''audit_log'' @ [a])"
proof -
  let ?status = "status_for_decision decision"
  let ?promoted = "if ?status = ''CANONICAL'' then bindS utc_now (\<lambda>ts. retS (JStr ts)) else retS JNull"
  let ?review = "\<lambda>ts. [(''review_id'', JStr rid), (''object_type'', JStr ''claim''), (''object_id'', JStr cid), (''decision'', JStr decision),
        (''reviewer'', JStr reviewer), (''rationale'', JStr rationale), (''metadata_json'', JStr (canonical_json meta)),
        (''created_at_utc'', JStr ts)]"
  from assms obtain promoted_at ts s1 s2 s3 s4 v1 v2 where exists: "select_one ''claims'' ''claim_id'' cid (sn_db s) \<noteq> None"
    and promoted: "?promoted s = (Inr promoted_at, s1)" and now: "utc_now s1 = (Inr ts, s2)"
    and ins: "insert_into ''reviews'' (?review ts) s2 = (Inr v1, s3)"
    and upd: "update_in ''claims'' (\<lambda>r. jget r ''claim_id'' = JStr cid)
       (\<lambda>r. [(''status'', JStr ?status), (''promoted_at_utc'', if ?status = ''CANONICAL'' then promoted_at else jget r ''promoted_at_utc'')]) s3
        = (Inr v2, s4)"
    and aud: "audit ''claim_reviewed'' ''claim'' cid
       (Some [(''decision'', JStr decision), (''reviewer'', JStr reviewer), (''new_status'', JStr ?status)]) s4 = (Inr u, s')"
    by (auto simp: store_review_def bindS_Inr Let_def)
  have same: "sn_db s2 = sn_db s"
    using promoted utc_now_db [OF now] by (auto simp: bindS_Inr dest: utc_now_db split: if_splits)
  from ins obtain r where r: "s3 = s2\<lparr>sn_db := (sn_db s2)(''reviews'' := sn_db s2 ''reviews'' @ [r])\<rparr>"
    "review_row cid decision reviewer rationale r" unfolding review_row_def by (rule inserted_review) blast
  from aud obtain a where a: "sn_db s' = (sn_db s4)(''audit_log'' := sn_db s4 ''audit_log'' @ [a])" by (rule audit_Inr)
  have "sn_db s' = (sn_db s)(''reviews'' := sn_db s ''reviews'' @ [r],
       ''claims'' := map (reviewed cid ?status promoted_at) (sn_db s ''claims''), ''audit_log'' := sn_db s ''audit_log'' @ [a])"
    unfolding a update_in_Inr [OF upd] r(1) same by (simp add: reviewed_def [abs_def] same)
  with r(2) exists that show thesis by blast
qed

lemma reviewed_id: "jget (reviewed cid status at r) ''claim_id'' = jget r ''claim_id''"
  by (simp add: reviewed_def overwrite_untouched)

subsection \<open>Canonical claims\<close>

definition promoted_by_review :: "db \<Rightarrow> json \<Rightarrow> bool" where
  \<comment> \<open>a named reviewer promoted the claim and said why\<close>
  "promoted_by_review db claim_id \<longleftrightarrow>
     (\<exists>r \<in> set (db ''reviews''). \<exists>cid reviewer rationale. claim_id = JStr cid \<and>
        review_row cid ''PROMOTE_CANONICAL'' reviewer rationale r \<and> \<not> blank reviewer \<and> \<not> blank rationale)"

definition canonical_promoted :: "db \<Rightarrow> bool" where
  "canonical_promoted db \<longleftrightarrow>
     (\<forall>c \<in> set (db ''claims''). jget c ''status'' = JStr ''CANONICAL'' \<longrightarrow> promoted_by_review db (jget c ''claim_id''))"

lemma promoted_mono: "promoted_by_review db c \<Longrightarrow> set (db ''reviews'') \<subseteq> set (db' ''reviews'') \<Longrightarrow> promoted_by_review db' c"
  unfolding promoted_by_review_def by blast

lemma insert_keeps_canonical:
  assumes "n \<noteq> ''claims'' \<or> map_of vals ''status'' = Some (JStr ''PROPOSED'')"
  shows "maintains canonical_promoted (insert_into n vals)"
  unfolding insert_into_def
proof (intro maintains_statement)
  fix db db' assume P: "canonical_promoted db" and ins: "insert_row history_schema n vals db = Inr db'"
  from ins obtain t r where t: "t \<in> set history_schema" "tb_name t = n" and r: "full_row t (db n) vals = Inr r"
    and db': "db' = db(n := db n @ [r])" by (rule insert_row_Inr)
  have mono: "set (db ''reviews'') \<subseteq> set (db' ''reviews'')" using db' by auto
  show "canonical_promoted db'"
  proof (cases "n = ''claims''")
    case True
    have "t = claims_table" using t True by (intro in_schema) (simp_all add: history_schema_def claims_table_def)
    with inserted_text [OF r t(1), of "default_col ''status'' ''PROPOSED''"] assms True have "jget r ''status'' = JStr ''PROPOSED''"
      by (simp add: claims_table_def column_defs)
    with P mono show ?thesis by (auto simp: canonical_promoted_def db' True intro: promoted_mono)
  next
    case False
    with P mono show ?thesis by (auto simp: canonical_promoted_def db' intro: promoted_mono)
  qed
qed

lemma update_keeps_canonical: "maintains canonical_promoted (update_in ''discrepancies'' p new)"
  unfolding update_in_def
  by (intro maintains_statement) (auto simp: canonical_promoted_def promoted_by_review_def elim!: update_rows_Inr)

lemma review_keeps_canonical:
  assumes "decision \<in> set review_decisions" "\<not> blank reviewer" "\<not> blank rationale"
  shows "maintains canonical_promoted (transaction (store_review cid decision reviewer rationale meta rid))"
  unfolding maintains_def
proof (intro allI impI)
  fix s :: session assume P: "canonical_promoted (sn_db s)"
  obtain res s' where run: "transaction (store_review cid decision reviewer rationale meta rid) s = (res, s')"
    by (cases "transaction (store_review cid decision reviewer rationale meta rid) s") auto
  show "canonical_promoted (sn_db (snd (transaction (store_review cid decision reviewer rationale meta rid) s)))"
  proof (cases res)
    case (Inl e)
    with run transaction_failed P show ?thesis by fastforce
  next
    case (Inr u)
    with run have "store_review cid decision reviewer rationale meta rid s = (Inr u, s')" by (simp add: transaction_Inr)
    then obtain r a at where r: "review_row cid decision reviewer rationale r"
      and db: "sn_db s' = (sn_db s)(''reviews'' := sn_db s ''reviews'' @ [r],
       ''claims'' := map (reviewed cid (status_for_decision decision) at) (sn_db s ''claims''),
       ''audit_log'' := sn_db s ''audit_log'' @ [a])" by (rule store_review_Inr)
    have "promoted_by_review (sn_db s') (jget c ''claim_id'')"
      if c: "c \<in> set (sn_db s ''claims'')" and status: "jget (reviewed cid (status_for_decision decision) at c) ''status'' = JStr ''CANONICAL''" for c
    proof (cases "jget c ''claim_id'' = JStr cid \<and> decision = ''PROMOTE_CANONICAL''")
      case True
      with r assms db show ?thesis unfolding promoted_by_review_def by auto
    next
      case False
      have "jget c ''status'' = JStr ''CANONICAL''"
      proof (cases "''status'' \<in> fst ` set c \<and> jget c ''claim_id'' = JStr cid")
        case True
        with False status assms(1) show ?thesis
          by (auto simp: reviewed_def overwrite_lookup review_decisions_def status_for_decision_def split: if_splits)
      next
        case other: False
        show ?thesis
        proof (cases "''status'' \<in> fst ` set c")
          case True
          with other status show ?thesis by (simp add: reviewed_def)
        next
          case False
          then have "jget c ''status'' = JNull" "jget (overwrite new c) ''status'' = JNull" for new
            by (induction c) (auto simp: jget_def overwrite_def)
          with status show ?thesis by (simp add: reviewed_def split: if_splits)
        qed
      qed
      with P c have "promoted_by_review (sn_db s) (jget c ''claim_id'')" by (simp add: canonical_promoted_def)
      then show ?thesis by (rule promoted_mono) (auto simp: db)
    qed
    then show ?thesis unfolding run snd_conv canonical_promoted_def by (auto simp: db reviewed_id)
  qed
qed

lemma parts_keep_canonical: "parts_keep canonical_promoted"
  unfolding parts_keep_def by (intro conjI allI impI insert_keeps_canonical update_keeps_canonical review_keeps_canonical)


text \<open>Historical store: the audit log only grows.  No call changes or removes a record of it.\<close>

theorem audit_log_only_grows:
  assumes "store_run s t"
  shows "\<exists>new. sn_db t ''audit_log'' = sn_db s ''audit_log'' @ new"
proof -
  have "extends (sn_db s ''audit_log'') (sn_db t)"
  proof (rule store_run_keeps [OF assms])
    show "extends (sn_db s ''audit_log'') (sn_db s)" by (simp add: extends_def)
    show "extends (sn_db s ''audit_log'') (sn_db v)" if "store_call u v" "extends (sn_db s ''audit_log'') (sn_db u)" for u v
      using that by (rule store_call_keeps [OF parts_keep_log])
  qed
  then show ?thesis by (simp add: extends_def)
qed

text \<open>C28. Historical store: only a human review makes a claim canonical.  If no claim was canonical before a
  sequence of calls, every claim that is canonical after it has a stored review that promotes it, with a
  reviewer and a rationale that are not blank.\<close>

theorem canonical_claims_were_promoted:
  assumes "store_run s t" "\<forall>c \<in> set (sn_db s ''claims''). jget c ''status'' \<noteq> JStr ''CANONICAL''"
    and "c \<in> set (sn_db t ''claims'')" "jget c ''status'' = JStr ''CANONICAL''"
  shows "\<exists>r \<in> set (sn_db t ''reviews''). \<exists>cid reviewer rationale.
    jget c ''claim_id'' = JStr cid \<and> jget r ''object_type'' = JStr ''claim'' \<and> jget r ''object_id'' = JStr cid \<and>
    jget r ''decision'' = JStr ''PROMOTE_CANONICAL'' \<and> jget r ''reviewer'' = JStr reviewer \<and> \<not> blank reviewer \<and>
    jget r ''rationale'' = JStr rationale \<and> \<not> blank rationale"
proof -
  have "canonical_promoted (sn_db t)"
  proof (rule store_run_keeps [OF assms(1)])
    show "canonical_promoted (sn_db s)" using assms(2) by (simp add: canonical_promoted_def)
    show "canonical_promoted (sn_db v)" if "store_call u v" "canonical_promoted (sn_db u)" for u v
      using that by (rule store_call_keeps [OF parts_keep_canonical])
  qed
  with assms(3,4) show ?thesis unfolding canonical_promoted_def promoted_by_review_def review_row_def by blast
qed

subsection \<open>The gate of a promotion\<close>

lemma check_promotion_Inr:
  assumes "check_promotion cid ''PROMOTE_CANONICAL'' reviewer s = (Inr u, s')"
  shows "claim_promotion_blockers cid (sn_db s) = Inr [] \<and> s' = s"
  using assms by (auto simp: check_promotion_def bindS_Inr split: if_splits)

lemma no_blockers:
  "claim_blockers claim m db = [] \<longleftrightarrow>
     \<not> truthy (jget m ''promotion_blocked_until_raw_capture'') \<or>
     (\<exists>d. jget claim ''document_id'' = JStr d \<and> d \<noteq> [] \<and>
        (jget m ''promotion_required_representation_types'' = JNull \<or> valid_types (jget m ''promotion_required_representation_types'')) \<and>
        list_ex (raw_capture d (jget m ''promotion_required_representation_types'')) (db ''document_representations''))"
  by (auto simp: claim_blockers_def Let_def split: json.splits)

lemma captured_row:
  assumes "db_ok history_schema db" "r \<in> set (db ''document_representations'')" "raw_capture d types r"
  obtains h n where "jget r ''content_sha256'' = JStr h" "str_len h = 64" "jget r ''byte_length'' = JInt n" "0 \<le> n"
proof -
  have "representations_table \<in> set history_schema" by (simp add: history_schema_def)
  with assms(1,2) have valid: "row_valid representations_table r"
    by (auto simp: db_ok_def rows_ok_def) (auto simp: representations_table_def)
  have "digest_length ''content_sha256'' r" "not_negative ''byte_length'' r"
    using valid by (simp_all add: row_valid_def representations_table_def)
  moreover have "jget r ''content_sha256'' \<noteq> JNull" "jget r ''byte_length'' \<noteq> JNull" using assms(3) by (simp_all add: raw_capture_def)
  ultimately show thesis using that by (auto simp: digest_length_def not_negative_def split: json.splits)
qed

text \<open>C29. Historical store: a promotion is gated.  When the review that promotes a claim returns, the claim
  existed and its gate was open: either its metadata ask for no raw capture, or a representation of its
  document is stored as raw capture, of an allowed type, with a digest and a length.  Exactly the rows of that
  claim become canonical; every other claim is as before.\<close>

theorem promotion_is_gated:
  assumes "review_claim cid ''PROMOTE_CANONICAL'' reviewer rationale meta s = (Inr rid, s')"
    and "db_ok history_schema (sn_db s)"
  shows "(\<exists>claim m. select_one ''claims'' ''claim_id'' cid (sn_db s) = Some claim \<and> claim_metadata claim = Inr m \<and>
      (truthy (jget m ''promotion_blocked_until_raw_capture'') \<longrightarrow>
        (\<exists>d. jget claim ''document_id'' = JStr d \<and>
          (\<exists>r \<in> set (sn_db s ''document_representations''). \<exists>h n.
            jget r ''document_id'' = JStr d \<and> jget r ''acquisition_state'' = JStr ''RAW_CAPTURED'' \<and>
            type_allowed (jget m ''promotion_required_representation_types'') r \<and>
            jget r ''content_sha256'' = JStr h \<and> str_len h = 64 \<and> jget r ''byte_length'' = JInt n \<and> 0 \<le> n)))) \<and>
    (\<exists>at. sn_db s' ''claims'' = map (\<lambda>c. if jget c ''claim_id'' = JStr cid
        then overwrite [(''status'', JStr ''CANONICAL''), (''promoted_at_utc'', at)] c else c) (sn_db s ''claims''))"
proof -
  from assms(1) obtain v w u where gate: "check_promotion cid ''PROMOTE_CANONICAL'' reviewer s = (Inr (), v)"
    and new: "new_id ''rev'' v = (Inr rid, w)"
    and store: "store_review cid ''PROMOTE_CANONICAL'' reviewer rationale meta rid w = (Inr u, s')"
    by (auto simp: review_claim_def bindS_Inr transaction_Inr)
  note open_gate = check_promotion_Inr [OF gate]
  have same: "sn_db w = sn_db s" using new open_gate by (auto simp: new_id_def)
  from store obtain r a at where db: "sn_db s' = (sn_db w)(''reviews'' := sn_db w ''reviews'' @ [r],
       ''claims'' := map (reviewed cid (status_for_decision ''PROMOTE_CANONICAL'') at) (sn_db w ''claims''),
       ''audit_log'' := sn_db w ''audit_log'' @ [a])" by (rule store_review_Inr)
  have claims: "\<exists>at. sn_db s' ''claims'' = map (\<lambda>c. if jget c ''claim_id'' = JStr cid
        then overwrite [(''status'', JStr ''CANONICAL''), (''promoted_at_utc'', at)] c else c) (sn_db s ''claims'')"
    by (rule exI [of _ at]) (simp add: db same reviewed_def status_for_decision_def)
  from open_gate obtain claim m where claim: "select_one ''claims'' ''claim_id'' cid (sn_db s) = Some claim"
    "claim_metadata claim = Inr m" and none: "claim_blockers claim m (sn_db s) = []"
    by (auto simp: claim_promotion_blockers_def bindE_Inr split: option.splits)
  have "\<exists>d. jget claim ''document_id'' = JStr d \<and>
          (\<exists>r \<in> set (sn_db s ''document_representations''). \<exists>h n.
            jget r ''document_id'' = JStr d \<and> jget r ''acquisition_state'' = JStr ''RAW_CAPTURED'' \<and>
            type_allowed (jget m ''promotion_required_representation_types'') r \<and>
            jget r ''content_sha256'' = JStr h \<and> str_len h = 64 \<and> jget r ''byte_length'' = JInt n \<and> 0 \<le> n)"
    if "truthy (jget m ''promotion_blocked_until_raw_capture'')"
  proof -
    from none that obtain d r where d: "jget claim ''document_id'' = JStr d" and r: "r \<in> set (sn_db s ''document_representations'')"
      "raw_capture d (jget m ''promotion_required_representation_types'') r"
      unfolding no_blockers by (auto simp: list_ex_iff)
    from captured_row [OF assms(2) r] obtain h n where "jget r ''content_sha256'' = JStr h" "str_len h = 64"
      "jget r ''byte_length'' = JInt n" "0 \<le> n" .
    with d r show ?thesis unfolding raw_capture_def by blast
  qed
  with claim claims show ?thesis by blast
qed

lemma check_promotion_passed:
  assumes "check_promotion cid decision reviewer s = (Inr u, v)"
  shows "sn_db v = sn_db s"
  using assms by (auto simp: check_promotion_def bindS_def split: if_splits sum.splits list.splits prod.splits)

lemma check_promotion_failed:
  assumes failed: "check_promotion cid decision reviewer s = (Inl e, s')"
  shows "sn_db s' = sn_db s \<or>
    decision = ''PROMOTE_CANONICAL'' \<and> (\<exists>b bs. claim_promotion_blockers cid (sn_db s) = Inr (b # bs)) \<and>
    (\<exists>a. sn_db s' = (sn_db s)(''audit_log'' := sn_db s ''audit_log'' @ [a]) \<and> jget a ''event_type'' = JStr ''claim_promotion_blocked'')"
proof (cases "\<exists>b bs. decision = ''PROMOTE_CANONICAL'' \<and> claim_promotion_blockers cid (sn_db s) = Inr (b # bs)")
  case False
  have "sn_db s' = sn_db s"
  proof (cases "decision = ''PROMOTE_CANONICAL''")
    case True
    with False consider x where "claim_promotion_blockers cid (sn_db s) = Inl x" | "claim_promotion_blockers cid (sn_db s) = Inr []"
      by (cases "claim_promotion_blockers cid (sn_db s)"; cases "projr (claim_promotion_blockers cid (sn_db s))") auto
    then show ?thesis using failed True by cases (auto simp: bindS_def check_promotion_def)
  qed (use failed in \<open>auto simp: check_promotion_def\<close>)
  then show ?thesis by simp
next
  case True
  then obtain b bs where blocked: "decision = ''PROMOTE_CANONICAL''" "claim_promotion_blockers cid (sn_db s) = Inr (b # bs)" by blast
  let ?audit = "audit ''claim_promotion_blocked'' ''claim'' cid
      (Some [(''reviewer'', JStr reviewer), (''blockers'', JList (map JObj (b # bs)))])"
  obtain res v where run: "transaction ?audit s = (res, v)" by (cases "transaction ?audit s")
  have s': "s' = v" using failed blocked run by (auto simp: bindS_def check_promotion_def split: sum.splits)
  show ?thesis
  proof (cases res)
    case (Inl x)
    with run s' show ?thesis by (auto dest: transaction_failed)
  next
    case (Inr u)
    with run have "?audit s = (Inr u, v)" by (simp add: transaction_Inr)
    then obtain a where "sn_db v = (sn_db s)(''audit_log'' := sn_db s ''audit_log'' @ [a])"
      "jget a ''event_type'' = JStr ''claim_promotion_blocked''" by (rule audit_Inr)
    with blocked s' show ?thesis by blast
  qed
qed

text \<open>Historical store: a review that raises changes nothing, except that a promotion refused by its gate
  leaves one audit record of the refusal.\<close>

theorem refused_review_changes_nothing:
  assumes "review_claim cid decision reviewer rationale meta s = (Inl e, s')"
  shows "sn_db s' = sn_db s \<or>
    decision = ''PROMOTE_CANONICAL'' \<and> (\<exists>b bs. claim_promotion_blockers cid (sn_db s) = Inr (b # bs)) \<and>
    (\<exists>a. sn_db s' = (sn_db s)(''audit_log'' := sn_db s ''audit_log'' @ [a]) \<and> jget a ''event_type'' = JStr ''claim_promotion_blocked'')"
proof -
  define tail where "tail = (\<lambda>_ :: unit. bindS (new_id ''rev'') (\<lambda>review_id.
     bindS (transaction (store_review cid decision reviewer rationale meta review_id)) (\<lambda>_. retS review_id)))"
  have late: "sn_db v' = sn_db v" if "tail () v = (Inl e, v')" for v v'
    using that by (auto simp: tail_def bindS_def new_id_def split: prod.splits sum.splits dest: transaction_failed)
  have "review_claim cid decision reviewer rationale meta s =
      (if decision \<notin> set review_decisions then (Inl (ValueError ''Unsupported review decision''), s)
       else if blank reviewer then (Inl (ValueError ''Human reviewer identity is required''), s)
       else if blank rationale then (Inl (ValueError ''Review rationale is required''), s)
       else bindS (check_promotion cid decision reviewer) tail s)"
    by (auto simp: review_claim_def tail_def bindS_def raise_if_def)
  with assms consider "s' = s" | "check_promotion cid decision reviewer s = (Inl e, s')"
    | v where "check_promotion cid decision reviewer s = (Inr (), v)" "tail () v = (Inl e, s')"
    by (auto simp: bindS_def split: if_splits prod.splits sum.splits)
  then show ?thesis
  proof cases
    case 2
    then show ?thesis by (rule check_promotion_failed)
  next
    case (3 v)
    then show ?thesis by (simp add: check_promotion_passed late)
  qed simp
qed

end
