(* ===== verification/HistoricalExamples.thy ===== *)
theory HistoricalExamples
  imports HistoricalReview
begin

section \<open>A small historical store\<close>

text \<open>
  A store with one document, its raw capture and one claim whose promotion waits for such a capture; the
  theorems on the store are applied to reviews of that claim.
\<close>

definition deed_row :: row where
  "deed_row = [(''document_id'', JStr ''d1''), (''source_id'', JNull), (''title'', JStr ''Deed''), (''document_date'', JNull),
     (''event_date_start'', JNull), (''event_date_end'', JNull), (''content_sha256'', JNull), (''byte_length'', JNull),
     (''content_locator'', JNull), (''metadata_json'', JStr ''{}''), (''created_at_utc'', JStr ''T0'')]"

definition scan_row :: row where
  "scan_row = [(''representation_id'', JStr ''r1''), (''document_id'', JStr ''d1''), (''representation_type'', JStr ''scan''),
     (''acquisition_state'', JStr ''RAW_CAPTURED''), (''mime_type'', JNull), (''content_sha256'', JStr (replicate 64 CHR ''a'')),
     (''byte_length'', JInt 12), (''locator'', JStr ''artifact:1''), (''source_url'', JNull), (''raw_artifact'', JInt 1),
     (''preferred_for_review'', JInt 1), (''metadata_json'', JStr ''{}''), (''created_at_utc'', JStr ''T0'')]"

definition claim_row :: row where
  "claim_row = [(''claim_id'', JStr ''c1''), (''document_id'', JStr ''d1''), (''run_id'', JNull), (''subject_entity_id'', JNull),
     (''predicate'', JStr ''owner''), (''object_entity_id'', JNull), (''object_value'', JStr ''A''), (''claim_text'', JStr ''A owns B''),
     (''status'', JStr ''PROPOSED''), (''created_by'', JStr ''engine:1''),
     (''metadata_json'', JStr (dumps (JObj [(''promotion_blocked_until_raw_capture'', JBool True)]))),
     (''created_at_utc'', JStr ''T0''), (''promoted_at_utc'', JNull)]"

definition session_with :: "row list \<Rightarrow> session" where
  \<comment> \<open>the document and the claim, with these representations\<close>
  "session_with reps =
     \<lparr>sn_db = (\<lambda>_. [])(''documents'' := [deed_row], ''claims'' := [claim_row], ''document_representations'' := reps),
      sn_tick = 0, sn_now = (\<lambda>n. ''T1''), sn_uuid = show_nat\<rparr>"

definition promoted :: "string res \<times> session" where
  "promoted = review_claim ''c1'' ''PROMOTE_CANONICAL'' ''reviewer'' ''read the deed'' None (session_with [scan_row])"

lemma example_metadata: "claim_metadata claim_row = Inr [(''promotion_blocked_until_raw_capture'', JBool True)]"
  by code_simp

lemma promoted_result: "fst promoted = Inr ''rev_0''"
  by code_simp

lemma promoted_claims:
  "map (\<lambda>c. (jget c ''claim_id'', jget c ''status'')) (sn_db (snd promoted) ''claims'') = [(JStr ''c1'', JStr ''CANONICAL'')]"
  by code_simp

lemma example_ok: "db_ok history_schema (sn_db (session_with [scan_row]))"
  by code_simp

lemma promoted_run: "store_run (session_with [scan_row]) (snd promoted)"
  unfolding promoted_def by (intro store_step [OF store_refl] store_call.intros)

lemma promoted_pair: "review_claim ''c1'' ''PROMOTE_CANONICAL'' ''reviewer'' ''read the deed'' None (session_with [scan_row]) = (Inr ''rev_0'', snd promoted)"
  using promoted_result unfolding promoted_def by (metis prod.collapse)


theorem audit_log_only_grows_witness:
  "\<exists>new. sn_db (snd promoted) ''audit_log'' = sn_db (session_with [scan_row]) ''audit_log'' @ new"
  using audit_log_only_grows [OF promoted_run] .

theorem canonical_claims_were_promoted_witness:
  "\<exists>r \<in> set (sn_db (snd promoted) ''reviews''). jget r ''object_id'' = JStr ''c1'' \<and> jget r ''decision'' = JStr ''PROMOTE_CANONICAL''"
proof -
  from promoted_claims obtain c where c: "sn_db (snd promoted) ''claims'' = [c]" "jget c ''claim_id'' = JStr ''c1''"
    "jget c ''status'' = JStr ''CANONICAL''" by (cases "sn_db (snd promoted) ''claims''") auto
  have "\<forall>c \<in> set (sn_db (session_with [scan_row]) ''claims''). jget c ''status'' \<noteq> JStr ''CANONICAL''"
    by (simp add: session_with_def claim_row_def jget_def)
  from canonical_claims_were_promoted [OF promoted_run this _ c(3)] c show ?thesis by auto
qed

theorem promotion_is_gated_witness:
  "\<exists>r \<in> set (sn_db (session_with [scan_row]) ''document_representations''). \<exists>h. jget r ''content_sha256'' = JStr h \<and> str_len h = 64"
proof -
  have "select_one ''claims'' ''claim_id'' ''c1'' (sn_db (session_with [scan_row])) = Some claim_row"
    by (simp add: select_one_def session_with_def claim_row_def jget_def)
  with promotion_is_gated [OF promoted_pair example_ok] example_metadata
  show ?thesis by (auto simp: jget_def)
qed

lemma refused_result: "isl (fst (review_claim ''c1'' ''PROMOTE_CANONICAL'' ''reviewer'' ''read the deed'' None (session_with [])))"
  by code_simp

theorem refused_review_changes_nothing_witness:
  "\<exists>e s'. review_claim ''c1'' ''PROMOTE_CANONICAL'' ''reviewer'' ''read the deed'' None (session_with []) = (Inl e, s') \<and>
     sn_db s' ''claims'' = [claim_row]"
proof -
  obtain x s' where run: "review_claim ''c1'' ''PROMOTE_CANONICAL'' ''reviewer'' ''read the deed'' None (session_with []) = (x, s')"
    by fastforce
  with refused_result obtain e where e: "x = Inl e" by (cases x) auto
  have "sn_db s' ''claims'' = sn_db (session_with []) ''claims''"
    using refused_review_changes_nothing [OF run [unfolded e]] by (elim disjE conjE exE) (simp_all only: fun_upd_apply, simp)
  also have "\<dots> = [claim_row]" by (simp add: session_with_def)
  finally show ?thesis using run [unfolded e] by (intro exI conjI)
qed

subsection \<open>A constraint that does not hold\<close>

definition alias_row :: "string \<Rightarrow> row" where
  "alias_row i = [(''alias_id'', JStr i), (''entity_id'', JStr ''e1''), (''alias'', JStr ''Alias''), (''language'', JNull),
     (''valid_from'', JNull), (''valid_to'', JNull), (''metadata_json'', JStr ''{}'')]"

definition aliased_session :: session where
  \<comment> \<open>an entity that has the alias already\<close>
  "aliased_session =
     \<lparr>sn_db = (\<lambda>_. [])(''entities'' := [[(''entity_id'', JStr ''e1''), (''entity_type'', JStr ''person''), (''canonical_name'', JStr ''Name''),
          (''authority_status'', JStr ''PROVISIONAL''), (''metadata_json'', JStr ''{}''), (''created_at_utc'', JStr ''T0'')]],
        ''entity_aliases'' := [alias_row ''alias_x'']),
      sn_tick = 0, sn_now = (\<lambda>n. ''T1''), sn_uuid = show_nat\<rparr>"

lemma second_alias:
  "fst (add_alias ''e1'' ''Alias'' None None None None aliased_session) = Inr ''alias_0''"
  "map (\<lambda>r. (jget r ''entity_id'', jget r ''alias'')) (sn_db (snd (add_alias ''e1'' ''Alias'' None None None None aliased_session)) ''entity_aliases'') =
       [(JStr ''e1'', JStr ''Alias''), (JStr ''e1'', JStr ''Alias'')]"
  "db_ok history_schema (sn_db aliased_session)"
  by code_simp+

text \<open>Historical store: \<open>UNIQUE(entity_id, alias, language)\<close> does not make an alias unique.  An alias without a
  language is stored again when it is added again, because a key with a null is never compared.\<close>

theorem alias_is_repeated:
  "\<exists>s'. add_alias ''e1'' ''Alias'' None None None None aliased_session = (Inr ''alias_0'', s') \<and>
     db_ok history_schema (sn_db aliased_session) \<and> db_ok history_schema (sn_db s') \<and>
     map (\<lambda>r. (jget r ''entity_id'', jget r ''alias'')) (sn_db s' ''entity_aliases'') =
       [(JStr ''e1'', JStr ''Alias''), (JStr ''e1'', JStr ''Alias'')]"
proof -
  have "store_call aliased_session (snd (add_alias ''e1'' ''Alias'' None None None None aliased_session))" by (rule store_call.intros)
  from store_call_keeps [OF parts_keep_constraints this second_alias(3)]
  have ok: "db_ok history_schema (sn_db (snd (add_alias ''e1'' ''Alias'' None None None None aliased_session)))" .
  have "add_alias ''e1'' ''Alias'' None None None None aliased_session =
      (Inr ''alias_0'', snd (add_alias ''e1'' ''Alias'' None None None None aliased_session))"
    by (rule prod_eqI) (simp_all only: second_alias(1) fst_conv snd_conv)
  then show ?thesis using second_alias(3) ok second_alias(2) by (intro exI conjI)
qed

end
