(* ===== verification/HistoricalRoundtrip.thy ===== *)
theory HistoricalRoundtrip
  imports HistoricalBundleFile HistoricalExamples
begin

section \<open>Exporting a historical store and rebuilding it\<close>

text \<open>
  What a bundle of a store that satisfies its constraints is worth: it rebuilds the store.  And what a
  reconstruction that fails leaves behind.
\<close>

text \<open>Historical store bundles: exporting a store and reconstructing the bundle into an empty store succeeds,
  gives every exported table the same rows, and the rebuilt store exports to the same bundle with the same
  digest and the same semantic fingerprint.  Both stores satisfy the constraints of the schema.\<close>

theorem reconstruct_roundtrip:
  assumes "db_ok history_schema src" and "db_ok history_schema d" and "logically_empty d"
  shows "\<exists>d'. reconstruct_bundle (export_bundle src) ''ok'' d = (Inr (), d') \<and> db_ok history_schema d' \<and>
    export_bundle d' = export_bundle src \<and> semantic_fingerprint d' = semantic_fingerprint src \<and>
    (\<forall>t \<in> set EXPORT_TABLES. mset (d' (fst t)) = mset (src (fst t)))"
proof (intro exI conjI ballI)
  let ?d = "exported_into src EXPORT_TABLES d"
  show "reconstruct_bundle (export_bundle src) ''ok'' d = (Inr (), ?d)" using reconstruct_export(1) [OF assms] by simp
  show "db_ok history_schema ?d" by (rule reconstruct_export(2) [OF assms])
  show "export_bundle ?d = export_bundle src" by (rule export_again)
  have "semantic_snapshot ?d = semantic_snapshot src" by (simp add: semantic_snapshot_def exported_again)
  then show "semantic_fingerprint ?d = semantic_fingerprint src" by (simp add: semantic_fingerprint_def)
  show "mset (?d (fst t)) = mset (src (fst t))" if "t \<in> set EXPORT_TABLES" for t
    by (simp add: exported_again(1) [OF that] exported_rows_def)
qed

lemma empty_store_ok: "db_ok history_schema (\<lambda>_. [])" "logically_empty (\<lambda>_. [])"
  by (simp_all add: db_ok_def rows_ok_def logically_empty_def list_all_iff)

lemma promoted_store_ok: "db_ok history_schema (sn_db (snd promoted))"
  unfolding promoted_def by (rule store_call_keeps [OF parts_keep_constraints store_call.intros(11) example_ok])

theorem reconstruct_roundtrip_witness:
  "\<exists>d'. reconstruct_bundle (export_bundle (sn_db (snd promoted))) ''ok'' (\<lambda>_. []) = (Inr (), d') \<and>
     mset (d' ''claims'') = mset (sn_db (snd promoted) ''claims'') \<and> d' ''claims'' \<noteq> []"
proof -
  from reconstruct_roundtrip [OF promoted_store_ok empty_store_ok] obtain d' where
    d': "reconstruct_bundle (export_bundle (sn_db (snd promoted))) ''ok'' (\<lambda>_. []) = (Inr (), d')"
    "\<forall>t \<in> set EXPORT_TABLES. mset (d' (fst t)) = mset (sn_db (snd promoted) (fst t))" by blast
  have "(''claims'', [''claim_id'']) \<in> set EXPORT_TABLES" by (simp add: EXPORT_TABLES_def)
  with d'(2) have same: "mset (d' ''claims'') = mset (sn_db (snd promoted) ''claims'')" by fastforce
  moreover have "sn_db (snd promoted) ''claims'' \<noteq> []" using promoted_claims by auto
  ultimately show ?thesis using d'(1) by (metis mset_zero_iff)
qed

text \<open>C31. Historical store bundles: a bundle on disk rebuilds the store.  When no system call fails, writing the
  bundle of a store returns its digest, the file loads, although the order of its keys is another, and the
  bundle loaded reconstructs a store with the same rows in every exported table.\<close>

theorem saved_bundle_rebuilds:
  assumes "saving_ready target w" and "db_ok history_schema src" and "utf8_json (JObj (export_bundle src))"
    and "db_ok history_schema d" and "logically_empty d"
  shows "\<exists>w' v b d'. write_bundle_atomic src target w = (Inr (bundle_sha256 (export_bundle src)), w') \<and>
    load_bundle target w' = (Inr b, v) \<and> bundle_sha256 b = bundle_sha256 (export_bundle src) \<and>
    reconstruct_bundle b ''ok'' d = (Inr (), d') \<and> (\<forall>t \<in> set EXPORT_TABLES. mset (d' (fst t)) = mset (src (fst t)))"
proof -
  have plain: "plain_path target" using assms(1) by (simp add: saving_ready_def)
  from saving_returns [OF assms(1)] obtain w' where w': "write_bundle_atomic src target w = (Inr (bundle_sha256 (export_bundle src)), w')"
    "quiet w'" "node_at (w_fs w') target = Some (File (canonical_bytes (JObj (export_bundle src))))" by blast
  from load_saved [OF w'(2) plain w'(3) assms(2,3)] obtain v where v: "load_bundle target w' = (Inr (sorted_row (export_bundle src)), v)"
    by blast
  have "bundle_sha256 (sorted_row (export_bundle src)) = bundle_sha256 (export_bundle src)"
    unfolding bundle_sha256_def canonical_bytes_def key_sorted_row [symmetric] dumps_key_sorted ..
  moreover have "reconstruct_bundle (sorted_row (export_bundle src)) ''ok'' d = (Inr (), exported_into src EXPORT_TABLES d)"
    unfolding reconstruct_sorted [OF unique_export [OF assms(2)]] using reconstruct_export(1) [OF assms(2,4,5)] by simp
  moreover have "mset (exported_into src EXPORT_TABLES d (fst t)) = mset (src (fst t))" if "t \<in> set EXPORT_TABLES" for t
    by (simp add: exported_again(1) [OF that] exported_rows_def)
  ultimately show ?thesis using w'(1) v by blast
qed

lemma example_utf8: "utf8_json (JObj (export_bundle (sn_db (session_with [scan_row]))))"
  by code_simp

theorem saved_bundle_rebuilds_witness:
  "\<exists>w' v b d'. write_bundle_atomic (sn_db (session_with [scan_row])) [''bundle.json''] (quiet_world []) =
       (Inr (bundle_sha256 (export_bundle (sn_db (session_with [scan_row])))), w') \<and>
     load_bundle [''bundle.json''] w' = (Inr b, v) \<and> reconstruct_bundle b ''ok'' (\<lambda>_. []) = (Inr (), d') \<and>
     mset (d' ''claims'') = {#claim_row#}"
proof -
  have "saving_ready [''bundle.json''] (quiet_world [])" by (simp add: saving_ready_def quiet_def node_at_def)
  from saved_bundle_rebuilds [OF this example_ok example_utf8 empty_store_ok] obtain w' v b d' where
    run: "write_bundle_atomic (sn_db (session_with [scan_row])) [''bundle.json''] (quiet_world []) =
       (Inr (bundle_sha256 (export_bundle (sn_db (session_with [scan_row])))), w')"
     "load_bundle [''bundle.json''] w' = (Inr b, v)" "reconstruct_bundle b ''ok'' (\<lambda>_. []) = (Inr (), d')"
    and rows: "\<forall>t \<in> set EXPORT_TABLES. mset (d' (fst t)) = mset (sn_db (session_with [scan_row]) (fst t))" by blast
  have "(''claims'', [''claim_id'']) \<in> set EXPORT_TABLES" by (simp add: EXPORT_TABLES_def)
  with rows have "mset (d' ''claims'') = mset (sn_db (session_with [scan_row]) ''claims'')" by fastforce
  with run show ?thesis by (auto simp: session_with_def)
qed

text \<open>C32. Historical store bundles: writing is atomic.  Whichever system call fails, afterwards the target holds
  the complete bundle or what it held before, the latter only with an exception; and every other file is as
  it was.\<close>

theorem bundle_write_is_atomic:
  assumes "plain_path target" and "target \<noteq> []" and "last target \<noteq> []" and "fs_wf (w_fs w)"
    and "write_bundle_atomic db target w = (r, w')"
  shows "(files (w_fs w') target = Some (canonical_bytes (JObj (export_bundle db))) \<or> isl r \<and> files (w_fs w') target = files (w_fs w) target) \<and>
    (\<forall>q b. files (w_fs w) q = Some b \<and> \<not> within target q \<longrightarrow> files (w_fs w') q = Some b)"
proof -
  let ?payload = "canonical_bytes (JObj (export_bundle db))"
  obtain r1 w1 where dirs: "mkdir_parents (butlast target) w = (r1, w1)" by fastforce
  have same: "files (w_fs w1) = files (w_fs w)"
    using keepsD [OF mkdir_files(1) dirs] by (simp add: same_files_def)
  have kept: "preserved_outside {} (w_fs w) (w_fs w1)" by (rule keepsD [OF mkdir_outside dirs])
  show ?thesis
  proof (cases r1)
    case (Inl e)
    with assms(5) dirs same show ?thesis by (auto simp: write_bundle_atomic_def Let_def)
  next
    case (Inr u)
    obtain r2 v where swap: "replace_through_temp (\<lambda>tmp. ret ()) (''.'' @ last target @ ''.'') target ?payload w1 = (r2, v)" by fastforce
    with assms(5) dirs Inr have v: "w_fs w' = w_fs v" "r2 \<noteq> Inr () \<longrightarrow> isl r"
      by (cases r2; auto simp: write_bundle_atomic_def Let_def)+
    have "node_at (w_fs v) target = Some (File ?payload) \<or> r2 \<noteq> Inr () \<and> node_at (w_fs v) target = node_at (w_fs w1) target"
      using replace_through_temp_target [OF swap ret_frame assms(1,2) prefix_long [OF assms(1-3)] temp_of_target [OF assms(2)]] .
    then have "files (w_fs v) target = Some ?payload \<or> r2 \<noteq> Inr () \<and> files (w_fs v) target = files (w_fs w) target"
      unfolding same [symmetric] by (auto simp: files_def)
    moreover have "files (w_fs v) q = Some b" if "files (w_fs w) q = Some b" "\<not> within target q" for q b
      using replace_through_temp_keeps [OF swap ret_frame assms(1) prefix_long [OF assms(1-3)] assms(4) kept _ that(2)] that(1)
      by (simp add: files_Some)
    ultimately show ?thesis using v by auto
  qed
qed

definition fail_once :: "nat \<Rightarrow> fs \<Rightarrow> world" where
  \<comment> \<open>the system call of this tick fails\<close>
  "fail_once n fs = (quiet_world fs)\<lparr>w_fault := (\<lambda>k. if k = n then Some 3 else None)\<rparr>"

theorem bundle_write_is_atomic_witness:
  "files (w_fs (snd (write_bundle_atomic (\<lambda>_. []) [''b''] (fail_once 2 [([''b''], File ''old'')])))) [''b''] \<in>
     {Some (canonical_bytes (JObj (export_bundle (\<lambda>_. [])))), Some ''old''}"
  using bundle_write_is_atomic [of "[''b'']" "fail_once 2 [([''b''], File ''old'')]" "\<lambda>_. []", OF _ _ _ _ prod.collapse [symmetric]]
  by (auto simp: fail_once_def fs_wf_def files_def node_at_def)

subsection \<open>A reconstruction that fails\<close>

lemma import_into_empty:
  assumes "db_ok history_schema d" "logically_empty d" "import_tables tables (map fst EXPORT_TABLES) d = Inr d'" "logically_empty d'"
  shows "d' = d"
proof
  fix n
  show "d' n = d n"
  proof (cases "n \<in> set (map fst EXPORT_TABLES)")
    case True
    then obtain t where t: "t \<in> set EXPORT_TABLES" "n = fst t" unfolding set_map by blast
    show ?thesis unfolding t(2)
      by (simp only: empty_tables [OF assms(1,2) t(1)] empty_tables [OF import_keeps [OF assms(1,3)] assms(4) t(1)])
  next
    case False
    with assms(3) show ?thesis by (rule import_elsewhere)
  qed
qed

lemma failed_reconstruction_filled:
  assumes "db_ok history_schema d" "reconstruct_bundle b integrity d = (Inl e, d')" "d' \<noteq> d"
  shows "\<not> logically_empty d'"
proof
  assume empty: "logically_empty d'"
  from assms(2,3) obtain tables where "logically_empty d" "import_tables tables (map fst EXPORT_TABLES) d = Inr d'"
    by (auto simp: reconstruct_bundle_def split: sum.splits if_splits)
  with import_into_empty [OF assms(1)] empty assms(3) show False by blast
qed



end
