(* ===== verification/HistoricalArtifacts.thy ===== *)
theory HistoricalArtifacts
  imports FileSwap HistoricalInvariant
begin

section \<open>Raw artifacts of the historical store\<close>

text \<open>
  \<open>HistoricalArtifactStore\<close> of \<open>historical_artifacts.py\<close>: bytes stored under their SHA-256, and
  \<open>record_acquisition_state\<close> of \<open>historical_acquisition.py\<close>.  The root is a resolved absolute path; bytes are
  strings, so the type test of \<open>put_bytes\<close> has no counterpart.
\<close>

record artifact_receipt =
  ar_sha256 :: string
  ar_size_bytes :: int
  ar_locator :: string

fun fromhex_ok :: "string \<Rightarrow> bool" where
  \<comment> \<open>\<open>bytes.fromhex\<close> accepts: pairs of hexadecimal digits, white space between them\<close>
  "fromhex_ok [] = True"
| "fromhex_ok [c] = (code c \<in> {9, 10, 11, 12, 13, 32})"
| "fromhex_ok (c # d # cs) =
     (if code c \<in> {9, 10, 11, 12, 13, 32} then fromhex_ok (d # cs) else hex_digit c \<and> hex_digit d \<and> fromhex_ok cs)"

definition objects_dir :: "path \<Rightarrow> path" where
  "objects_dir root = root @ [''objects'', ''sha256'']"

definition artifact_store_init :: "path \<Rightarrow> unit io" where
  "artifact_store_init root = mkdir_parents (objects_dir root)"

definition validate_digest :: "string \<Rightarrow> unit res" where
  "validate_digest dg =
     bindE (raise_if (str_len dg \<noteq> 64) (ValueError ''SHA-256 digest must contain 64 hexadecimal characters'')) (\<lambda>_.
     raise_if (\<not> fromhex_ok dg) (ValueError ''SHA-256 digest is not hexadecimal''))"

definition path_for :: "path \<Rightarrow> string \<Rightarrow> path res" where
  "path_for root dg =
     bindE (validate_digest dg) (\<lambda>_. Inr (subpath (subpath (objects_dir root) (take 2 dg)) (drop 2 dg)))"

definition artifact_locator :: "string \<Rightarrow> string" where
  "artifact_locator dg = ''artifact:sha256:'' @ dg"

definition verify_artifact :: "path \<Rightarrow> string \<Rightarrow> int option \<Rightarrow> bool io" where
  "verify_artifact root dg expected_size =
     bindI (lift (path_for root dg)) (\<lambda>target.
     bindI (observe (\<lambda>fs. is_file fs target)) (\<lambda>there.
     if \<not> there then ret False
     else
       bindI (read_bytes target) (\<lambda>data.
       ret ((case expected_size of None \<Rightarrow> True | Some n \<Rightarrow> int (length data) = n) \<and> sha256 data = dg))))"

definition read_artifact :: "path \<Rightarrow> string \<Rightarrow> string io" where
  "read_artifact root dg =
     bindI (lift (path_for root dg)) (\<lambda>target.
     bindI (read_bytes target) (\<lambda>data.
     bindI (throw_if (sha256 data \<noteq> dg) (ValueError ''Historical artifact failed SHA-256 verification'')) (\<lambda>_.
     ret data)))"

definition receipt_for :: "string \<Rightarrow> artifact_receipt" where
  "receipt_for data =
     \<lparr>ar_sha256 = sha256 data, ar_size_bytes = int (length data), ar_locator = artifact_locator (sha256 data)\<rparr>"

definition put_bytes :: "path \<Rightarrow> string \<Rightarrow> artifact_receipt io" where
  "put_bytes root data =
     (let dg = sha256 data in
      bindI (lift (path_for root dg)) (\<lambda>target.
      bindI (mkdir_parents (butlast target)) (\<lambda>_.
      bindI (observe (\<lambda>fs. path_exists fs target)) (\<lambda>present.
      if present then
        bindI (read_bytes target) (\<lambda>existing.
        bindI (throw_if (sha256 existing \<noteq> dg \<or> existing \<noteq> data)
                 (ValueError ''Content-addressed artifact path exists with invalid bytes'')) (\<lambda>_.
        ret (receipt_for data)))
      else
        bindI (replace_through_temp chmod (''.'' @ dg @ ''.'') target data) (\<lambda>_.
        bindI (verify_artifact root dg (Some (int (length data)))) (\<lambda>ok.
        bindI (throw_if (\<not> ok) (ValueError ''Artifact verification failed after capture'')) (\<lambda>_.
        ret (receipt_for data))))))))"

definition capture_file :: "path \<Rightarrow> path \<Rightarrow> artifact_receipt io" where
  "capture_file root p = bindI (read_bytes p) (put_bytes root)"

definition bind_document ::
  "path \<Rightarrow> string \<Rightarrow> artifact_receipt \<Rightarrow> string \<Rightarrow> string option \<Rightarrow> string option \<Rightarrow> bool \<Rightarrow> row option \<Rightarrow> string option \<Rightarrow>
     world \<Rightarrow> session \<Rightarrow> string res \<times> world \<times> session" where
  "bind_document root document_id receipt representation_type mime_type source_url preferred metadata representation_id w s =
     (case verify_artifact root (ar_sha256 receipt) (Some (ar_size_bytes receipt)) w of
        (Inl e, w') \<Rightarrow> (Inl e, w', s)
      | (Inr ok, w') \<Rightarrow>
          if \<not> ok then (Inl (ValueError ''Cannot bind an unverified historical artifact''), w', s)
          else
            (case register_document_representation document_id representation_type ''RAW_CAPTURED'' (ar_locator receipt) mime_type
                    (Some (ar_sha256 receipt)) (Some (ar_size_bytes receipt)) source_url True preferred metadata representation_id s of
               (r, s') \<Rightarrow> (r, w', s')))"

record acquisition_receipt =
  aq_state :: string
  aq_source_url :: string
  aq_representation_type :: string
  aq_raw_artifact :: bool
  aq_note :: "string option"
  aq_locator :: "string option"
  aq_mime_type :: "string option"
  aq_content_sha256 :: "string option"
  aq_byte_length :: "int option"
  aq_preferred :: bool
  aq_representation_id :: "string option"

definition record_acquisition_state :: "string \<Rightarrow> acquisition_receipt \<Rightarrow> string option \<Rightarrow> string dbop" where
  "record_acquisition_state document_id rc representation_id =
     register_document_representation document_id (aq_representation_type rc) (aq_state rc)
       (case aq_locator rc of None \<Rightarrow> aq_source_url rc | Some l \<Rightarrow> if l = [] then aq_source_url rc else l)
       (aq_mime_type rc) (aq_content_sha256 rc) (aq_byte_length rc) (Some (aq_source_url rc)) (aq_raw_artifact rc) (aq_preferred rc)
       (map_option (\<lambda>n. [(''note'', JStr n)]) (aq_note rc))
       (case representation_id of None \<Rightarrow> aq_representation_id rc | Some i \<Rightarrow> Some i)"

subsection \<open>Where the bytes are\<close>

definition artifact_path :: "path \<Rightarrow> string \<Rightarrow> path" where
  "artifact_path root dg = objects_dir root @ [take 2 dg, drop 2 dg]"

lemma hex_name: "lower_hex64 d \<Longrightarrow> plain_name (take 2 d) \<and> plain_name (drop 2 d)"
proof -
  assume d: "lower_hex64 d"
  then have digits: "\<forall>c \<in> set d. lower_hex_digit c" and len: "length d = 64" by (auto simp: lower_hex64_def list_all_iff)
  have "\<not> lower_hex_digit CHR ''/''" "\<not> lower_hex_digit CHR ''.''" by (simp_all add: lower_hex_digit_def code_def)
  with digits have absent: "CHR ''/'' \<notin> set d" "CHR ''.'' \<notin> set d" by blast+
  have "plain_name s" if "s \<noteq> []" "set s \<subseteq> set d" for s
  proof -
    from that(2) absent have "CHR ''/'' \<notin> set s" "CHR ''.'' \<notin> set s" by blast+
    with that(1) show ?thesis by (cases s) (auto simp: plain_name_def)
  qed
  moreover have "take 2 d \<noteq> []" "drop 2 d \<noteq> []" using len by (auto simp flip: length_0_conv)
  ultimately show ?thesis by (meson set_take_subset set_drop_subset)
qed

lemma fromhex_digits: "even (length s) \<Longrightarrow> list_all lower_hex_digit s \<Longrightarrow> fromhex_ok s"
proof (induction s rule: fromhex_ok.induct)
  case (3 c d cs)
  then have "code c \<notin> {9, 10, 11, 12, 13, 32}" "hex_digit c" "hex_digit d" by (auto simp: lower_hex_digit_def hex_digit_def)
  with 3 show ?case by simp
qed simp_all

lemma ascii_length: "list_all (\<lambda>c. code c < 128) s \<Longrightarrow> str_len s = length s"
proof (induction s)
  case (Cons c s)
  then have "takeWhile cont s = []" "dropWhile cont s = s" by (cases s; auto simp: cont_def)+
  with Cons show ?case by (simp add: str_len_def)
qed (simp add: str_len_def)

lemma path_for_digest: "lower_hex64 d \<Longrightarrow> path_for root d = Inr (artifact_path root d)"
proof -
  assume d: "lower_hex64 d"
  then have "str_len d = 64" by (subst ascii_length) (auto simp: lower_hex64_def lower_hex_digit_def list_all_iff)
  moreover have "fromhex_ok d" using d by (intro fromhex_digits) (simp_all add: lower_hex64_def)
  ultimately show ?thesis using hex_name [OF d] by (simp add: path_for_def validate_digest_def raise_if_def artifact_path_def)
qed

lemma plain_artifact: "plain_path root \<Longrightarrow> plain_path (artifact_path root (sha256 data))"
  using hex_name [OF sha256_lower_hex64, of data] by (auto simp: artifact_path_def objects_dir_def plain_name_def)

subsection \<open>What verification says\<close>

lemma read_bytes_Inr:
  assumes "read_bytes p w = (Inr b, w')" "plain_path p"
  shows "node_at (w_fs w) p = Some (File b)" "w_fs w' = w_fs w"
  using assms by (auto simp: read_bytes_def sys_Inr split: option.splits node.splits)

lemma verify_frame: "keeps (=) (verify_artifact root d n)"
  unfolding verify_artifact_def by (intro frame_rules)

lemma path_for_Inr: "path_for root (sha256 data) = Inr (artifact_path root (sha256 data))"
  by (rule path_for_digest [OF sha256_lower_hex64])

lemma verify_true:
  assumes "verify_artifact root d n w = (Inr True, w')" "plain_path root"
  shows "\<exists>data. node_at (w_fs w) (artifact_path root d) = Some (File data) \<and> sha256 data = d \<and>
    (\<forall>k. n = Some k \<longrightarrow> int (length data) = k)"
proof -
  from assms(1) obtain target data v where target: "path_for root d = Inr target" and data: "read_bytes target w = (Inr data, v)"
    and ok: "case n of None \<Rightarrow> True | Some k \<Rightarrow> int (length data) = k" "sha256 data = d"
    by (auto simp: verify_artifact_def bindI_Inr split: if_splits)
  have "target = artifact_path root d" using target path_for_Inr [of root data] ok(2) by simp
  moreover have "plain_path (artifact_path root d)" using plain_artifact [OF assms(2), of data] ok(2) by simp
  ultimately show ?thesis using read_bytes_Inr [OF data] ok by (auto split: option.splits)
qed

lemma absent_node: "plain_path p \<Longrightarrow> \<not> path_exists fs p \<Longrightarrow> node_at fs p = None"
  by (auto simp: path_exists_def)

lemma artifact_path_facts: "artifact_path root d \<noteq> []" "last (artifact_path root d) = drop 2 d"
  "butlast (artifact_path root d) = objects_dir root @ [take 2 d]"
  by (simp_all add: artifact_path_def butlast_append)

lemma temp_name: "''.'' @ sha256 data @ ''.'' @ u \<noteq> last (artifact_path root (sha256 data))"
proof
  assume "''.'' @ sha256 data @ ''.'' @ u = last (artifact_path root (sha256 data))"
  then have "length (''.'' @ sha256 data @ ''.'' @ u) = length (drop 2 (sha256 data))" by (simp add: artifact_path_facts)
  then show False by simp
qed

lemma put_stores:
  assumes "put_bytes root data w = (Inr rc, w')" "plain_path root"
  shows "rc = receipt_for data" "node_at (w_fs w') (artifact_path root (sha256 data)) = Some (File data)"
proof -
  let ?p = "artifact_path root (sha256 data)"
  have plain: "plain_path ?p" by (rule plain_artifact [OF assms(2)])
  from assms(1) obtain w1 where run: "(if path_exists (w_fs w1) ?p then
        bindI (read_bytes ?p) (\<lambda>existing. bindI (throw_if (sha256 existing \<noteq> sha256 data \<or> existing \<noteq> data)
                 (ValueError ''Content-addressed artifact path exists with invalid bytes'')) (\<lambda>_. ret (receipt_for data)))
      else bindI (replace_through_temp chmod (''.'' @ sha256 data @ ''.'') ?p data) (\<lambda>_.
        bindI (verify_artifact root (sha256 data) (Some (int (length data)))) (\<lambda>ok.
        bindI (throw_if (\<not> ok) (ValueError ''Artifact verification failed after capture'')) (\<lambda>_. ret (receipt_for data))))) w1 = (Inr rc, w')"
    by (auto simp: put_bytes_def path_for_Inr bindI_Inr Let_def)
  show "rc = receipt_for data" using run by (auto simp: bindI_Inr split: if_splits)
  show "node_at (w_fs w') ?p = Some (File data)"
  proof (cases "path_exists (w_fs w1) ?p")
    case True
    with run obtain v where "read_bytes ?p w1 = (Inr data, v)" "w_fs w' = w_fs v" by (auto simp: bindI_Inr throw_if_Inr)
    with read_bytes_Inr [OF _ plain] show ?thesis by metis
  next
    case False
    with run obtain v where swap: "replace_through_temp chmod (''.'' @ sha256 data @ ''.'') ?p data w1 = (Inr (), v)"
      and rest: "(bindI (verify_artifact root (sha256 data) (Some (int (length data)))) (\<lambda>ok.
        bindI (throw_if (\<not> ok) (ValueError ''Artifact verification failed after capture'')) (\<lambda>_. ret (receipt_for data)))) v = (Inr rc, w')"
      by (auto simp: bindI_Inr)
    from rest have "w_fs w' = w_fs v" using keeps_same [OF verify_frame] by (auto simp: bindI_Inr throw_if_Inr)
    moreover have "node_at (w_fs v) ?p = Some (File data)"
      using replace_through_temp_target [OF swap chmod_frame plain artifact_path_facts(1)] temp_name by simp
    ultimately show ?thesis by simp
  qed
qed


subsection \<open>Other files, and what happens when nothing fails\<close>

lemma put_keeps_file:
  assumes "put_bytes root data w = (r, w')" "plain_path root" "fs_wf (w_fs w)" "node_at (w_fs w) q = Some (File b)"
  shows "node_at (w_fs w') q = Some (File b)"
proof -
  let ?p = "artifact_path root (sha256 data)"
  have plain: "plain_path ?p" by (rule plain_artifact [OF assms(2)])
  obtain r1 w1 where dirs: "mkdir_parents (butlast ?p) w = (r1, w1)" by fastforce
  have kept: "preserved_outside {} (w_fs w) (w_fs w1)" by (rule keepsD [OF mkdir_outside dirs])
  then have there: "node_at (w_fs w1) q = Some (File b)" using assms(4) by (simp add: preserved_outside_def)
  show ?thesis
  proof (cases r1)
    case (Inl e)
    with assms(1) dirs there show ?thesis by (simp add: put_bytes_def path_for_Inr Let_def)
  next
    case (Inr u)
    then have r1: "r1 = Inr ()" by simp
    show ?thesis
    proof (cases "path_exists (w_fs w1) ?p")
      case True
      have "keeps (=) (bindI (read_bytes ?p) (\<lambda>existing. bindI (throw_if (sha256 existing \<noteq> sha256 data \<or> existing \<noteq> data)
                 (ValueError ''Content-addressed artifact path exists with invalid bytes'')) (\<lambda>_. ret (receipt_for data))))"
        by (intro frame_rules)
      from keeps_same [OF this] assms(1) dirs r1 True there show ?thesis by (auto simp: put_bytes_def path_for_Inr Let_def)
    next
      case False
      let ?swap = "replace_through_temp chmod (''.'' @ sha256 data @ ''.'') ?p data"
      let ?check = "\<lambda>_ :: unit. bindI (verify_artifact root (sha256 data) (Some (int (length data)))) (\<lambda>ok.
        bindI (throw_if (\<not> ok) (ValueError ''Artifact verification failed after capture'')) (\<lambda>_. ret (receipt_for data)))"
      obtain r2 v where swap: "?swap w1 = (r2, v)" by fastforce
      have "node_at (w_fs w1) ?p = None" using plain False by (rule absent_node)
      then have "node_at (w_fs w) ?p = None" using kept unfolding preserved_outside_def by (cases "node_at (w_fs w) ?p") auto
      with fs_wf_absent [OF assms(3)] assms(4) have "\<not> within ?p q" by fastforce
      then have "node_at (w_fs v) q = Some (File b)"
        by (intro replace_through_temp_keeps [OF swap chmod_frame plain _ assms(3) kept assms(4)]) simp_all
      moreover have "keeps (=) (?check ())" by (intro frame_rules verify_frame)
      then have "w_fs w' = w_fs v"
        using assms(1) dirs r1 False swap keeps_same by (cases r2) (auto simp: put_bytes_def path_for_Inr Let_def)
      ultimately show ?thesis by simp
    qed
  qed
qed

definition artifact_ready :: "path \<Rightarrow> string \<Rightarrow> world \<Rightarrow> bool" where
  \<comment> \<open>no system call fails, no file stands where a directory goes, the place of the artifact is free or holds it,
     and the temporary names drawn are free\<close>
  "artifact_ready root data w \<longleftrightarrow>
     quiet w \<and> plain_path root \<and>
     (let p = artifact_path root (sha256 data) in
      (\<forall>q b. within q (butlast p) \<longrightarrow> node_at (w_fs w) q \<noteq> Some (File b)) \<and>
      node_at (w_fs w) p \<in> {None, Some (File data)} \<and>
      (\<forall>n. node_at (w_fs w) (butlast p @ [''.'' @ sha256 data @ ''.'' @ w_uuid w n @ ''.tmp'']) = None))"

lemma verify_returns:
  assumes "quiet w" "plain_path root" "node_at (w_fs w) (artifact_path root (sha256 data)) = Some (File data)"
  shows "\<exists>w'. verify_artifact root (sha256 data) (Some (int (length data))) w = (Inr True, w') \<and> w_fs w' = w_fs w \<and> quietly w w'"
proof -
  note plain = plain_artifact [OF assms(2), of data]
  from read_returns [OF assms(1) plain assms(3)] obtain w' where
    "read_bytes (artifact_path root (sha256 data)) w = (Inr data, w')" "w_fs w' = w_fs w" "quietly w w'" by blast
  then show ?thesis using assms(3) plain by (simp add: verify_artifact_def path_for_Inr is_file_def)
qed

lemma put_returns:
  assumes "artifact_ready root data w"
  shows "\<exists>w'. put_bytes root data w = (Inr (receipt_for data), w') \<and> quietly w w'"
proof -
  let ?p = "artifact_path root (sha256 data)"
  from assms have quiet: "quiet w" and root: "plain_path root" and clear: "\<And>q b. within q (butlast ?p) \<Longrightarrow> node_at (w_fs w) q \<noteq> Some (File b)"
    and place: "node_at (w_fs w) ?p \<in> {None, Some (File data)}"
    and temp: "\<And>n. node_at (w_fs w) (butlast ?p @ [''.'' @ sha256 data @ ''.'' @ w_uuid w n @ ''.tmp'']) = None"
    by (auto simp: artifact_ready_def Let_def)
  have plain: "plain_path ?p" by (rule plain_artifact [OF root])
  then have plain_dir: "plain_path (butlast ?p)" by (auto dest: in_set_butlastD)
  obtain w1 where w1: "mkdir_parents (butlast ?p) w = (Inr (), w1)" "dirs_to (w_fs w1) (butlast ?p)" "quietly w w1"
    "\<And>q. \<not> within q (butlast ?p) \<Longrightarrow> node_at (w_fs w1) q = node_at (w_fs w) q"
    using mkdir_creates [OF quiet plain_dir clear] by blast
  have child: "\<not> within (butlast ?p @ [x]) (butlast ?p)" for x by (auto simp: within_def)
  have p: "?p = butlast ?p @ [last ?p]" by (rule append_butlast_last_id [symmetric]) (rule artifact_path_facts(1))
  have place1: "node_at (w_fs w1) ?p \<in> {None, Some (File data)}" using w1(4) child p place by metis
  show ?thesis
  proof (cases "path_exists (w_fs w1) ?p")
    case True
    with place1 plain have "node_at (w_fs w1) ?p = Some (File data)" by (auto simp: path_exists_def)
    then obtain v where "read_bytes ?p w1 = (Inr data, v)" "quietly w1 v"
      using read_returns [of w1, OF _ plain] w1(3) by (auto simp: quietly_def)
    then show ?thesis using w1(1,3) True by (auto simp: put_bytes_def path_for_Inr Let_def quietly_def)
  next
    case False
    have absent: "node_at (w_fs w1) ?p \<noteq> Some Dir" using place1 by auto
    have "\<exists>v. replace_through_temp chmod (''.'' @ sha256 data @ ''.'') ?p data w1 = (Inr (), v) \<and> quietly w1 v"
    proof (rule replace_through_temp_returns [OF _ plain artifact_path_facts(1)])
      show "quiet w1" using w1(3) by (simp add: quietly_def)
      show "2 < length (''.'' @ sha256 data @ ''.'')" by simp
      show "(''.'' @ sha256 data @ ''.'') @ u \<noteq> last ?p" for u using temp_name by simp
      show "node_at (w_fs w1) (butlast ?p) = Some Dir" using w1(2) by (rule dirs_to_self)
      show "node_at (w_fs w1) ?p \<noteq> Some Dir" by (rule absent)
      show "node_at (w_fs w1) (butlast ?p @ [(''.'' @ sha256 data @ ''.'') @ w_uuid w1 n @ ''.tmp'']) = None" for n
        using w1(3,4) child temp [of n] by (simp add: quietly_def)
    qed (rule chmod_returns)
    then obtain v where v: "replace_through_temp chmod (''.'' @ sha256 data @ ''.'') ?p data w1 = (Inr (), v)" "quietly w1 v" by blast
    have "node_at (w_fs v) ?p = Some (File data)"
      using replace_through_temp_target [OF v(1) chmod_frame plain artifact_path_facts(1)] temp_name by simp
    then obtain x where "verify_artifact root (sha256 data) (Some (int (length data))) v = (Inr True, x)" "quietly v x"
      using verify_returns [of v, OF _ root] v(2) by (auto simp: quietly_def)
    then show ?thesis using w1(1,3) v False by (auto simp: put_bytes_def path_for_Inr Let_def quietly_def)
  qed
qed


end
