(* ===== verification/HistoricalIntake.thy ===== *)
theory HistoricalIntake
  imports HistoricalArtifacts HistoricalReview
begin

section \<open>Bringing material into the historical store\<close>

text \<open>
  The bridge of \<open>galia_history_bridge.py\<close>, which stores what the engine proposes, and what the intake of
  artifacts, acquisition states and analyses does to the store.
\<close>

record research_bridge =
  rb_engine_version :: string
  rb_prompt_version :: "string option"

record proposed_claim =
  pc_predicate :: string
  pc_claim_text :: string
  pc_subject :: "string option"
  pc_object :: "string option"
  pc_object_value :: "string option"
  pc_metadata :: "row option"

definition record_analysis ::
  "research_bridge \<Rightarrow> string \<Rightarrow> string \<Rightarrow> proposed_claim list \<Rightarrow> string option \<Rightarrow> string \<Rightarrow> row option \<Rightarrow> (string \<times> string list) dbop" where
  "record_analysis b input_bytes output_bytes claims document_id mode metadata =
     bindS (record_ingest_run input_bytes (Some output_bytes) mode ''COMPLETED'' (Some (rb_engine_version b)) (rb_prompt_version b)
              metadata None) (\<lambda>run_id.
     bindS (mapS (\<lambda>c. propose_claim (pc_predicate c) (pc_claim_text c) (''engine:'' @ rb_engine_version b) document_id (Some run_id)
              (pc_subject c) (pc_object c) (pc_object_value c) (pc_metadata c) None) claims) (\<lambda>ids.
     retS (run_id, ids)))"

subsection \<open>Rows that were inserted\<close>

lemma inserted_value:
  assumes "full_row t rows vals = Inr r" "t \<in> set history_schema" "c \<in> set (tb_columns t)" "tb_auto t = None"
    "map_of vals (fd_name c) = Some v" "stored c v = Inr v"
  shows "jget r (fd_name c) = v"
proof -
  have "distinct (map fd_name (tb_columns t))" using history_schema_ok assms(2) by (auto simp: schema_ok_def list_all_iff)
  moreover from assms(1) have "mapE (cell t rows vals) (tb_columns t) = Inr r" by (auto simp: full_row_def bindE_Inr)
  ultimately obtain u where u: "cell t rows vals c = Inr (fd_name c, u)" "jget r (fd_name c) = u"
    using mapE_lookup assms(3) by blast
  moreover have "cell t rows vals c = Inr (fd_name c, v)" using assms(4-6) by (simp add: cell_def)
  ultimately show ?thesis by simp
qed

lemma id_or_new_db: "id_or_new given prefix s = (Inr i, s') \<Longrightarrow> sn_db s' = sn_db s"
  by (auto simp: id_or_new_def new_id_def split: option.splits if_splits)

lemma register_representation_Inr:
  assumes "register_document_representation did ty st loc mime h len url raw pref meta rid s = (Inr i, s')"
  obtains r a where "sn_db s' = (sn_db s)(''document_representations'' := sn_db s ''document_representations'' @ [r],
      ''audit_log'' := sn_db s ''audit_log'' @ [a])"
    "jget r ''representation_id'' = JStr i" "jget r ''document_id'' = JStr did" "jget r ''representation_type'' = JStr ty"
    "jget r ''acquisition_state'' = JStr st" "jget r ''content_sha256'' = opt_str h" "jget r ''byte_length'' = opt_int len"
    "jget r ''raw_artifact'' = flag raw" "jget r ''locator'' = JStr loc"
proof -
  let ?vals = "\<lambda>ts. [(''representation_id'', JStr i), (''document_id'', JStr did), (''representation_type'', JStr ty),
          (''acquisition_state'', JStr st), (''mime_type'', opt_str mime), (''content_sha256'', opt_str h),
          (''byte_length'', opt_int len), (''locator'', JStr loc), (''source_url'', opt_str url),
          (''raw_artifact'', flag raw), (''preferred_for_review'', flag pref),
          (''metadata_json'', JStr (canonical_json meta)), (''created_at_utc'', JStr ts)]"
  from assms obtain s1 ts s2 s3 u v payload where ids: "id_or_new rid ''repr'' s = (Inr i, s1)" and now: "utc_now s1 = (Inr ts, s2)"
    and ins: "insert_into ''document_representations'' (?vals ts) s2 = (Inr u, s3)"
    and aud: "audit ''document_representation_registered'' ''document_representation'' i payload s3 = (Inr v, s')"
    by (auto simp: register_document_representation_def bindS_Inr transaction_Inr)
  from ins obtain t r where t: "t \<in> set history_schema" "tb_name t = ''document_representations''"
    and r: "full_row t (sn_db s2 ''document_representations'') (?vals ts) = Inr r"
      "s3 = s2\<lparr>sn_db := (sn_db s2)(''document_representations'' := sn_db s2 ''document_representations'' @ [r])\<rparr>"
    by (rule insert_into_Inr)
  have "t = representations_table" using t by (intro in_schema) (simp_all add: history_schema_def representations_table_def)
  note at = inserted_value [OF r(1) t(1), unfolded this]
  have auto: "tb_auto representations_table = None" by (simp add: representations_table_def)
  have required: "jget r k = JStr v" if "required_col k \<in> set (tb_columns representations_table)" "map_of (?vals ts) k = Some (JStr v)" for k v
    using at [OF that(1) auto] that(2) by (simp add: required_col_def stored_def)
  have texts: "jget r ''content_sha256'' = opt_str h" "jget r ''representation_id'' = JStr i"
    using at [of "text_col ''content_sha256''"] at [of "text_col ''representation_id''"]
    by (simp_all add: representations_table_def column_defs stored_def opt_str_def split: option.splits)
  have numbers: "jget r ''byte_length'' = opt_int len"
    using at [of "int_col ''byte_length''"]
    by (simp add: representations_table_def column_defs stored_def opt_int_def split: option.splits)
  have flags: "jget r ''raw_artifact'' = flag raw"
    using at [of "flag_col ''raw_artifact''"] by (simp add: representations_table_def column_defs stored_def flag_def)
  from aud obtain a where a: "sn_db s' = (sn_db s3)(''audit_log'' := sn_db s3 ''audit_log'' @ [a])" by (rule audit_Inr)
  have same: "sn_db s2 = sn_db s" using id_or_new_db [OF ids] utc_now_db [OF now] by simp
  have "sn_db s' = (sn_db s)(''document_representations'' := sn_db s ''document_representations'' @ [r],
      ''audit_log'' := sn_db s ''audit_log'' @ [a])" unfolding a r(2) by (simp add: same)
  from that [OF this texts(2) required required required texts(1) numbers flags required]
  show thesis by (simp add: representations_table_def)
qed

subsection \<open>Artifacts\<close>

text \<open>C34. Raw artifacts: captured bytes read back.  When nothing fails and the place is free or already holds the
  bytes, \<open>put_bytes\<close> returns the receipt of the data, and with its digest \<open>verify\<close> answers true for the size of
  the receipt and \<open>read_bytes\<close> gives the data.\<close>

theorem captured_artifact_reads_back:
  assumes "artifact_ready root data w"
  shows "\<exists>rc w' v x. put_bytes root data w = (Inr rc, w') \<and> rc = receipt_for data \<and>
    verify_artifact root (ar_sha256 rc) (Some (ar_size_bytes rc)) w' = (Inr True, v) \<and> read_artifact root (ar_sha256 rc) v = (Inr data, x)"
proof -
  from assms have root: "plain_path root" by (simp add: artifact_ready_def)
  from put_returns [OF assms] obtain w' where put: "put_bytes root data w = (Inr (receipt_for data), w')" "quiet w'"
    by (auto simp: quietly_def)
  note there = put_stores(2) [OF put(1) root]
  from verify_returns [OF put(2) root there] obtain v where v:
    "verify_artifact root (sha256 data) (Some (int (length data))) w' = (Inr True, v)" "w_fs v = w_fs w'" "quiet v"
    by (auto simp: quietly_def)
  from read_returns [OF v(3) plain_artifact [OF root]] there v(2) obtain x where
    "read_bytes (artifact_path root (sha256 data)) v = (Inr data, x)" by auto
  then have "read_artifact root (sha256 data) v = (Inr data, x)" by (simp add: read_artifact_def path_for_Inr)
  with put(1) v(1) show ?thesis by (auto simp: receipt_for_def)
qed

theorem captured_artifact_reads_back_witness:
  "\<exists>w' v x. put_bytes [''raw''] ''deed'' (quiet_world []) = (Inr (receipt_for ''deed''), w') \<and>
     verify_artifact [''raw''] (sha256 ''deed'') (Some 4) w' = (Inr True, v) \<and> read_artifact [''raw''] (sha256 ''deed'') v = (Inr ''deed'', x)"
proof -
  have "artifact_ready [''raw''] ''deed'' (quiet_world [])" by (simp add: artifact_ready_def Let_def quiet_def node_at_def artifact_path_facts)
  from captured_artifact_reads_back [OF this] show ?thesis by (auto simp: receipt_for_def)
qed

text \<open>Raw artifacts: capturing never changes a file.  Whatever the bytes, whichever system call fails, and
  whether \<open>put_bytes\<close> returns or raises, every file that was there, in the store or elsewhere, still has its
  content; so no artifact is ever overwritten.\<close>

theorem artifacts_are_never_changed:
  assumes "plain_path root" and "fs_wf (w_fs w)" and "put_bytes root data w = (r, w')" and "files (w_fs w) q = Some b"
  shows "files (w_fs w') q = Some b"
  using put_keeps_file [OF assms(3,1,2)] assms(4) by (simp add: files_Some)

theorem artifacts_are_never_changed_witness:
  "files (w_fs (snd (put_bytes [''raw''] ''deed'' (quiet_world [([''notes''], File ''x'')])))) [''notes''] = Some ''x''"
  by (rule artifacts_are_never_changed [where root = "[''raw'']" and w = "quiet_world [([''notes''], File ''x'')]" and data = "''deed''",
        OF _ _ prod.collapse [symmetric]])
    (simp_all add: fs_wf_def files_def node_at_def)

subsection \<open>Representations and the gate of a promotion\<close>

lemma no_blockers_iff:
  "claim_blockers claim metadata db = [] \<longleftrightarrow>
     (truthy (jget metadata ''promotion_blocked_until_raw_capture'') \<longrightarrow>
       (let types = jget metadata ''promotion_required_representation_types'' in
        (types = JNull \<or> valid_types types) \<and>
        (\<exists>d. jget claim ''document_id'' = JStr d \<and> d \<noteq> [] \<and> list_ex (raw_capture d types) (db ''document_representations''))))"
  by (auto simp: claim_blockers_def Let_def split: json.splits)

lemma unblocked_iff:
  "claim_promotion_blockers cid db = Inr [] \<longleftrightarrow>
     (\<exists>claim metadata. select_one ''claims'' ''claim_id'' cid db = Some claim \<and> claim_metadata claim = Inr metadata \<and>
        claim_blockers claim metadata db = [])"
  by (auto simp: claim_promotion_blockers_def bindE_Inr split: option.splits)

text \<open>Acquisition states: only a raw capture opens the gate of a promotion.  Recording a text surrogate, a
  blocked or merely located remote, or quarantined material changes the answer of the promotion gate for no
  claim of the store.\<close>

theorem surrogates_do_not_unblock:
  assumes "record_acquisition_state document_id rc rid s = (Inr i, s')" and "aq_state rc \<noteq> ''RAW_CAPTURED''"
  shows "claim_promotion_blockers cid (sn_db s') = Inr [] \<longleftrightarrow> claim_promotion_blockers cid (sn_db s) = Inr []"
proof -
  from assms(1) obtain r a where db: "sn_db s' = (sn_db s)(''document_representations'' := sn_db s ''document_representations'' @ [r],
      ''audit_log'' := sn_db s ''audit_log'' @ [a])" and state: "jget r ''acquisition_state'' = JStr (aq_state rc)"
    unfolding record_acquisition_state_def by (rule register_representation_Inr)
  have "\<not> raw_capture d types r" for d types using state assms(2) by (simp add: raw_capture_def)
  then have "claim_blockers c m (sn_db s') = [] \<longleftrightarrow> claim_blockers c m (sn_db s) = []" for c m
    unfolding no_blockers_iff Let_def by (simp add: db list_ex_iff)
  moreover have "select_one ''claims'' ''claim_id'' cid (sn_db s') = select_one ''claims'' ''claim_id'' cid (sn_db s)"
    by (simp add: db select_one_def)
  ultimately show ?thesis unfolding unblocked_iff by simp
qed

definition ready_claim :: "string \<Rightarrow> string \<Rightarrow> string \<Rightarrow> db \<Rightarrow> bool" where
  \<comment> \<open>the claim is about this document, and a raw capture of this type will do\<close>
  "ready_claim cid document_id representation_type db \<longleftrightarrow>
     (\<exists>claim metadata. select_one ''claims'' ''claim_id'' cid db = Some claim \<and> claim_metadata claim = Inr metadata \<and>
        jget claim ''document_id'' = JStr document_id \<and> document_id \<noteq> [] \<and>
        (let types = jget metadata ''promotion_required_representation_types'' in
         types = JNull \<or> valid_types types \<and> type_allowed types [(''representation_type'', JStr representation_type)]))"

text \<open>C35. Raw artifacts: binding a document.  When \<open>bind_document\<close> returns, bytes with the digest and the size
  of the receipt are in the artifact store, the new representation records both as a raw capture, and every
  claim on the document for which this type of representation is enough passes the gate of promotion.\<close>

theorem bound_capture_unblocks:
  assumes "plain_path root" and "bind_document root did rc ty mime url pref meta rid w s = (Inr i, w', s')"
  shows "(\<exists>data. files (w_fs w') (artifact_path root (ar_sha256 rc)) = Some data \<and> sha256 data = ar_sha256 rc \<and> int (length data) = ar_size_bytes rc) \<and>
    (\<exists>r \<in> set (sn_db s' ''document_representations''). jget r ''representation_id'' = JStr i \<and> jget r ''document_id'' = JStr did \<and>
       jget r ''acquisition_state'' = JStr ''RAW_CAPTURED'' \<and> jget r ''content_sha256'' = JStr (ar_sha256 rc) \<and>
       jget r ''byte_length'' = JInt (ar_size_bytes rc)) \<and>
    (\<forall>cid. ready_claim cid did ty (sn_db s) \<longrightarrow> claim_promotion_blockers cid (sn_db s') = Inr [])"
proof -
  from assms(2) have verified: "verify_artifact root (ar_sha256 rc) (Some (ar_size_bytes rc)) w = (Inr True, w')"
    and run: "register_document_representation did ty ''RAW_CAPTURED'' (ar_locator rc) mime (Some (ar_sha256 rc)) (Some (ar_size_bytes rc))
      url True pref meta rid s = (Inr i, s')"
    by (auto simp: bind_document_def split: prod.splits sum.splits if_splits)
  from run obtain r a where db: "sn_db s' = (sn_db s)(''document_representations'' := sn_db s ''document_representations'' @ [r],
      ''audit_log'' := sn_db s ''audit_log'' @ [a])"
    and r: "jget r ''representation_id'' = JStr i" "jget r ''document_id'' = JStr did" "jget r ''representation_type'' = JStr ty"
      "jget r ''acquisition_state'' = JStr ''RAW_CAPTURED''" "jget r ''content_sha256'' = opt_str (Some (ar_sha256 rc))"
      "jget r ''byte_length'' = opt_int (Some (ar_size_bytes rc))" "jget r ''raw_artifact'' = flag True"
    by (rule register_representation_Inr)
  have bytes: "\<exists>data. files (w_fs w') (artifact_path root (ar_sha256 rc)) = Some data \<and> sha256 data = ar_sha256 rc \<and> int (length data) = ar_size_bytes rc"
    using verify_true [OF verified assms(1)] keeps_same [OF verify_frame verified] by (auto simp: files_Some)
  have gate: "claim_promotion_blockers cid (sn_db s') = Inr []" if ready: "ready_claim cid did ty (sn_db s)" for cid
  proof -
    from ready obtain claim metadata where c: "select_one ''claims'' ''claim_id'' cid (sn_db s) = Some claim" "claim_metadata claim = Inr metadata"
      "jget claim ''document_id'' = JStr did" "did \<noteq> []" and types: "jget metadata ''promotion_required_representation_types'' = JNull \<or>
         valid_types (jget metadata ''promotion_required_representation_types'') \<and>
         type_allowed (jget metadata ''promotion_required_representation_types'') [(''representation_type'', JStr ty)]"
      by (auto simp: ready_claim_def Let_def)
    have "type_allowed (jget metadata ''promotion_required_representation_types'') r"
      using types r(3) by (auto simp: type_allowed_def jget_def split: json.splits)
    then have "raw_capture did (jget metadata ''promotion_required_representation_types'') r"
      using r by (simp add: raw_capture_def flag_def opt_str_def opt_int_def)
    then have "claim_blockers claim metadata (sn_db s') = []"
      unfolding no_blockers_iff Let_def using types c(3,4) by (auto simp: db)
    moreover have "select_one ''claims'' ''claim_id'' cid (sn_db s') = Some claim" using c(1) by (simp add: db select_one_def)
    ultimately show ?thesis unfolding unblocked_iff using c(2) by blast
  qed
  have "r \<in> set (sn_db s' ''document_representations'')" by (simp add: db)
  with bytes gate r show ?thesis by (auto simp: opt_str_def opt_int_def)
qed


subsection \<open>Analyses of the engine\<close>

definition engine_claim :: "string \<Rightarrow> string \<Rightarrow> row \<Rightarrow> bool" where
  "engine_claim engine run_id c \<longleftrightarrow>
     jget c ''status'' = JStr ''PROPOSED'' \<and> jget c ''created_by'' = JStr (''engine:'' @ engine) \<and> jget c ''run_id'' = JStr run_id"

definition proposes :: "(row \<Rightarrow> bool) \<Rightarrow> db \<Rightarrow> db \<Rightarrow> row list \<Rightarrow> bool" where
  \<comment> \<open>only claims with the property were added, and no review\<close>
  "proposes P db db' new \<longleftrightarrow>
     db' ''claims'' = db ''claims'' @ new \<and> db' ''reviews'' = db ''reviews'' \<and> (\<forall>c \<in> set new. P c)"

lemma failed_insert: "insert_into n vals s = (Inl e, s') \<Longrightarrow> s' = s"
  by (auto simp: insert_into_def statement_def split: sum.splits)

lemma transaction_cases:
  assumes "transaction m s = (r, s')"
  obtains (failed) e where "r = Inl e" "sn_db s' = sn_db s" | (returned) x where "r = Inr x" "m s = (Inr x, s')"
  using assms by (auto simp: transaction_def split: prod.splits sum.splits)

lemma claim_inserted:
  assumes "insert_into ''claims'' vals s = (Inr u, s')" "map_of vals ''claim_id'' = Some (JStr cid)" "map_of vals ''status'' = Some (JStr ''PROPOSED'')"
    "map_of vals ''created_by'' = Some (JStr by_whom)" "map_of vals ''run_id'' = Some (JStr run)"
  obtains c where "s' = s\<lparr>sn_db := (sn_db s)(''claims'' := sn_db s ''claims'' @ [c])\<rparr>" "jget c ''claim_id'' = JStr cid"
    "jget c ''status'' = JStr ''PROPOSED''" "jget c ''created_by'' = JStr by_whom" "jget c ''run_id'' = JStr run"
proof -
  from assms(1) obtain t c where t: "t \<in> set history_schema" "tb_name t = ''claims''"
    and c: "full_row t (sn_db s ''claims'') vals = Inr c" "s' = s\<lparr>sn_db := (sn_db s)(''claims'' := sn_db s ''claims'' @ [c])\<rparr>"
    by (rule insert_into_Inr)
  have "t = claims_table" using t by (intro in_schema) (simp_all add: history_schema_def claims_table_def)
  note inserted = inserted_text [OF c(1) t(1), unfolded this]
  show thesis
    using that [OF c(2)] inserted [of "text_col ''claim_id''"] inserted [of "default_col ''status'' ''PROPOSED''"]
      inserted [of "required_col ''created_by''"] inserted [of "text_col ''run_id''"] assms(2-5)
    by (simp add: claims_table_def column_defs)
qed

lemma propose_claim_result:
  assumes "propose_claim pred txt (''engine:'' @ engine) did (Some run) subj obj val meta cid s = (r, s')"
  shows "\<exists>new. proposes (engine_claim engine run) (sn_db s) (sn_db s') new \<and>
    (\<forall>i. r = Inr i \<longrightarrow> map (\<lambda>c. jget c ''claim_id'') new = [JStr i])"
proof -
  obtain r1 s1 where ids: "id_or_new cid ''clm'' s = (r1, s1)" by fastforce
  then obtain i where r1: "r1 = Inr i" by (auto simp: id_or_new_def new_id_def split: option.splits if_splits)
  note same = id_or_new_db [OF ids [unfolded r1]]
  let ?vals = "\<lambda>ts. [(''claim_id'', JStr i), (''document_id'', opt_str did), (''run_id'', opt_str (Some run)),
          (''subject_entity_id'', opt_str subj), (''predicate'', JStr pred), (''object_entity_id'', opt_str obj),
          (''object_value'', opt_str val), (''claim_text'', JStr txt), (''status'', JStr ''PROPOSED''),
          (''created_by'', JStr (''engine:'' @ engine)), (''metadata_json'', JStr (canonical_json meta)), (''created_at_utc'', JStr ts)]"
  let ?body = "bindS utc_now (\<lambda>ts. bindS (insert_into ''claims'' (?vals ts)) (\<lambda>_.
       audit ''claim_proposed'' ''claim'' i (Some [(''created_by'', JStr (''engine:'' @ engine)), (''predicate'', JStr pred)])))"
  from assms obtain r2 where body: "transaction ?body s1 = (r2, s')" and r: "r = (case r2 of Inl e \<Rightarrow> Inl e | Inr u \<Rightarrow> Inr i)"
    by (auto simp: propose_claim_def bindS_def ids r1 split: prod.splits sum.splits)
  from body show ?thesis
  proof (cases rule: transaction_cases)
    case (failed e)
    with same r show ?thesis by (intro exI [of _ "[]"]) (simp add: proposes_def)
  next
    case (returned x)
    then obtain ts s2 u s3 where now: "utc_now s1 = (Inr ts, s2)" and ins: "insert_into ''claims'' (?vals ts) s2 = (Inr u, s3)"
      and aud: "audit ''claim_proposed'' ''claim'' i (Some [(''created_by'', JStr (''engine:'' @ engine)), (''predicate'', JStr pred)]) s3 = (Inr x, s')"
      by (auto simp: bindS_Inr)
    from ins obtain c where c: "s3 = s2\<lparr>sn_db := (sn_db s2)(''claims'' := sn_db s2 ''claims'' @ [c])\<rparr>" "jget c ''claim_id'' = JStr i"
      "jget c ''status'' = JStr ''PROPOSED''" "jget c ''created_by'' = JStr (''engine:'' @ engine)" "jget c ''run_id'' = JStr run"
      by (rule claim_inserted [where cid = i and by_whom = "''engine:'' @ engine" and run = run]) (simp_all add: opt_str_def)
    from aud obtain a where a: "sn_db s' = (sn_db s3)(''audit_log'' := sn_db s3 ''audit_log'' @ [a])" by (rule audit_Inr)
    have "sn_db s2 = sn_db s" using same utc_now_db [OF now] by simp
    with c a r returned(1) show ?thesis by (intro exI [of _ "[c]"]) (simp add: proposes_def engine_claim_def)
  qed
qed

lemma proposes_trans: "proposes P a b new \<Longrightarrow> proposes P b c newer \<Longrightarrow> proposes P a c (new @ newer)"
  by (auto simp: proposes_def)

lemma propose_all_result:
  assumes "mapS (\<lambda>c. propose_claim (pc_predicate c) (pc_claim_text c) (''engine:'' @ engine) did (Some run)
              (pc_subject c) (pc_object c) (pc_object_value c) (pc_metadata c) None) claims s = (r, s')"
  shows "\<exists>new. proposes (engine_claim engine run) (sn_db s) (sn_db s') new \<and>
    (\<forall>ids. r = Inr ids \<longrightarrow> length ids = length claims \<and> map (\<lambda>c. jget c ''claim_id'') new = map JStr ids)"
  using assms
proof (induction claims arbitrary: s r s')
  case Nil
  then show ?case by (intro exI [of _ "[]"]) (auto simp: proposes_def)
next
  case (Cons c claims)
  let ?f = "\<lambda>c. propose_claim (pc_predicate c) (pc_claim_text c) (''engine:'' @ engine) did (Some run)
              (pc_subject c) (pc_object c) (pc_object_value c) (pc_metadata c) None"
  obtain r1 s1 where first: "?f c s = (r1, s1)" by fastforce
  from propose_claim_result [OF first] obtain new where new: "proposes (engine_claim engine run) (sn_db s) (sn_db s1) new"
    "\<forall>i. r1 = Inr i \<longrightarrow> map (\<lambda>c. jget c ''claim_id'') new = [JStr i]" by (elim exE conjE)
  show ?case
  proof (cases r1)
    case (Inl e)
    with Cons.prems first new(1) show ?thesis by (auto simp: bindS_def)
  next
    case (Inr i)
    obtain r2 s2 where rest: "mapS ?f claims s1 = (r2, s2)" by fastforce
    from Cons.IH [OF rest] obtain newer where newer: "proposes (engine_claim engine run) (sn_db s1) (sn_db s2) newer"
      "\<forall>ids. r2 = Inr ids \<longrightarrow> length ids = length claims \<and> map (\<lambda>c. jget c ''claim_id'') newer = map JStr ids" by blast
    from Cons.prems first Inr rest have "s' = s2" "r = (case r2 of Inl e \<Rightarrow> Inl e | Inr ids \<Rightarrow> Inr (i # ids))"
      by (auto simp: bindS_def split: sum.splits)
    with proposes_trans [OF new(1) newer(1)] new(2) Inr newer(2) show ?thesis
      by (intro exI [of _ "new @ newer"]) (auto split: sum.splits)
  qed
qed

lemma ingest_run_result:
  assumes "record_ingest_run inp outp mode status eng prompt meta run s = (r, s')"
  shows "sn_db s' ''claims'' = sn_db s ''claims'' \<and> sn_db s' ''reviews'' = sn_db s ''reviews''"
proof -
  have "maintains (\<lambda>db. db ''claims'' = sn_db s ''claims'' \<and> db ''reviews'' = sn_db s ''reviews'') (insert_into n vals)"
    if "n \<notin> {''claims'', ''reviews''}" for n vals
    unfolding insert_into_def using that by (intro maintains_statement) (auto elim!: insert_row_Inr)
  then have "maintains (\<lambda>db. db ''claims'' = sn_db s ''claims'' \<and> db ''reviews'' = sn_db s ''reviews'') (record_ingest_run inp outp mode status eng prompt meta run)"
    unfolding record_ingest_run_def store_ingest_run_def audit_def id_or_new_def by (intro maintains_intros) simp_all
  from maintainsD [OF this, of s] assms show ?thesis by simp
qed

text \<open>C36. Research bridge: what the engine says is only proposed.  Whether \<open>record_analysis\<close> returns or raises
  half way, the claims that were there are untouched, no review is added, and every claim it added is proposed
  and names the engine and the run; when it returns, the claims added are those whose identifiers it
  returns, one for each given.\<close>

theorem analysis_only_proposes:
  assumes "record_analysis b inp outp claims did mode meta s = (r, s')"
  shows "\<exists>new run. sn_db s' ''claims'' = sn_db s ''claims'' @ new \<and> sn_db s' ''reviews'' = sn_db s ''reviews'' \<and>
    (\<forall>c \<in> set new. engine_claim (rb_engine_version b) run c) \<and>
    (\<forall>run_id ids. r = Inr (run_id, ids) \<longrightarrow> run_id = run \<and> length ids = length claims \<and> map (\<lambda>c. jget c ''claim_id'') new = map JStr ids)"
proof -
  obtain r1 s1 where run: "record_ingest_run inp (Some outp) mode ''COMPLETED'' (Some (rb_engine_version b)) (rb_prompt_version b) meta None s = (r1, s1)"
    by fastforce
  note same = ingest_run_result [OF run]
  show ?thesis
  proof (cases r1)
    case (Inl e)
    with assms run same show ?thesis by (auto simp: record_analysis_def bindS_def)
  next
    case (Inr run_id)
    let ?f = "\<lambda>c. propose_claim (pc_predicate c) (pc_claim_text c) (''engine:'' @ rb_engine_version b) did (Some run_id)
              (pc_subject c) (pc_object c) (pc_object_value c) (pc_metadata c) None"
    obtain r2 s2 where all: "mapS ?f claims s1 = (r2, s2)" by fastforce
    from propose_all_result [OF all] obtain new where new: "proposes (engine_claim (rb_engine_version b) run_id) (sn_db s1) (sn_db s2) new"
      "\<forall>ids. r2 = Inr ids \<longrightarrow> length ids = length claims \<and> map (\<lambda>c. jget c ''claim_id'') new = map JStr ids" by blast
    from assms run Inr all have "s' = s2" "r = (case r2 of Inl e \<Rightarrow> Inl e | Inr ids \<Rightarrow> Inr (run_id, ids))"
      by (auto simp: record_analysis_def bindS_def split: sum.splits)
    with new same show ?thesis by (intro exI [of _ new] exI [of _ run_id]) (auto simp: proposes_def split: sum.splits)
  qed
qed

lemma unknown_subject:
  assumes "propose_claim pred txt by_whom did run (Some e) obj val meta cid s = (r, s')"
    and "\<forall>x \<in> set (sn_db s ''entities''). jget x ''entity_id'' \<noteq> JStr e"
  shows "isl r \<and> sn_db s' = sn_db s"
proof -
  obtain r1 s1 where ids: "id_or_new cid ''clm'' s = (r1, s1)" by fastforce
  then obtain i where r1: "r1 = Inr i" by (auto simp: id_or_new_def new_id_def split: option.splits if_splits)
  note same = id_or_new_db [OF ids [unfolded r1]]
  let ?vals = "\<lambda>ts. [(''claim_id'', JStr i), (''document_id'', opt_str did), (''run_id'', opt_str run),
          (''subject_entity_id'', opt_str (Some e)), (''predicate'', JStr pred), (''object_entity_id'', opt_str obj),
          (''object_value'', opt_str val), (''claim_text'', JStr txt), (''status'', JStr ''PROPOSED''),
          (''created_by'', JStr by_whom), (''metadata_json'', JStr (canonical_json meta)), (''created_at_utc'', JStr ts)]"
  let ?body = "bindS utc_now (\<lambda>ts. bindS (insert_into ''claims'' (?vals ts)) (\<lambda>_.
       audit ''claim_proposed'' ''claim'' i (Some [(''created_by'', JStr by_whom), (''predicate'', JStr pred)])))"
  from assms(1) obtain r2 where body: "transaction ?body s1 = (r2, s')" and r: "r = (case r2 of Inl e \<Rightarrow> Inl e | Inr u \<Rightarrow> Inr i)"
    by (auto simp: propose_claim_def bindS_def ids r1 split: prod.splits sum.splits)
  from body show ?thesis
  proof (cases rule: transaction_cases)
    case (failed e)
    with same r show ?thesis by simp
  next
    case (returned x)
    then obtain ts s2 u s3 where now: "utc_now s1 = (Inr ts, s2)" and ins: "insert_into ''claims'' (?vals ts) s2 = (Inr u, s3)"
      by (auto simp: bindS_Inr)
    have db: "sn_db s2 = sn_db s" using same utc_now_db [OF now] by simp
    from ins obtain db' where "insert_row history_schema ''claims'' (?vals ts) (sn_db s2) = Inr db'"
      by (auto simp: insert_into_def statement_def split: sum.splits)
    then obtain t c where t: "t \<in> set history_schema" "tb_name t = ''claims''" and c: "full_row t (sn_db s2 ''claims'') (?vals ts) = Inr c"
      "list_all (ref_ok (sn_db s2) c) (tb_refs t)" by (rule insert_row_Inr)
    have table: "t = claims_table" using t by (intro in_schema) (simp_all add: history_schema_def claims_table_def)
    have "jget c ''subject_entity_id'' = JStr e"
      using inserted_text [OF c(1) t(1), of "text_col ''subject_entity_id''"] by (simp add: table claims_table_def column_defs opt_str_def)
    moreover have "ref_ok (sn_db s) c (''subject_entity_id'', ''entities'', ''entity_id'')"
      using c(2) by (simp add: table db claims_table_def)
    ultimately show ?thesis using assms(2) by (auto simp: ref_ok_def)
  qed
qed

lemma stored_run:
  assumes "record_ingest_run inp outp mode status eng prompt meta run s = (Inr i, s')"
  shows "\<exists>r \<in> set (sn_db s' ''ingest_runs''). jget r ''run_id'' = JStr i \<and> jget r ''status'' = JStr status"
    "sn_db s' ''entities'' = sn_db s ''entities''"
proof -
  let ?vals = "\<lambda>ts. [(''run_id'', JStr i), (''engine_version'', opt_str eng), (''prompt_version'', opt_str prompt),
          (''input_sha256'', JStr (sha256 inp)), (''output_sha256'', opt_str (map_option sha256 outp)),
          (''mode'', JStr mode), (''status'', JStr status), (''metadata_json'', JStr (canonical_json meta)),
          (''created_at_utc'', JStr ts)]"
  from assms obtain s1 ts s2 u s3 v payload where ids: "id_or_new run ''run'' s = (Inr i, s1)" and now: "utc_now s1 = (Inr ts, s2)"
    and ins: "insert_into ''ingest_runs'' (?vals ts) s2 = (Inr u, s3)" and aud: "audit ''ingest_run_recorded'' ''ingest_run'' i payload s3 = (Inr v, s')"
    by (auto simp: record_ingest_run_def store_ingest_run_def bindS_Inr transaction_Inr)
  from ins obtain t r where t: "t \<in> set history_schema" "tb_name t = ''ingest_runs''"
    and r: "full_row t (sn_db s2 ''ingest_runs'') (?vals ts) = Inr r" "s3 = s2\<lparr>sn_db := (sn_db s2)(''ingest_runs'' := sn_db s2 ''ingest_runs'' @ [r])\<rparr>"
    by (rule insert_into_Inr)
  have "t = ingest_runs_table" using t by (intro in_schema) (simp_all add: history_schema_def ingest_runs_table_def)
  note inserted = inserted_text [OF r(1) t(1), unfolded this]
  have row: "jget r ''run_id'' = JStr i" "jget r ''status'' = JStr status"
    using inserted [of "text_col ''run_id''"] inserted [of "required_col ''status''"] by (simp_all add: ingest_runs_table_def column_defs)
  from aud obtain a where a: "sn_db s' = (sn_db s3)(''audit_log'' := sn_db s3 ''audit_log'' @ [a])" by (rule audit_Inr)
  show "\<exists>r \<in> set (sn_db s' ''ingest_runs''). jget r ''run_id'' = JStr i \<and> jget r ''status'' = JStr status"
    using row by (simp add: a r(2))
  show "sn_db s' ''entities'' = sn_db s ''entities''"
    using id_or_new_db [OF ids] utc_now_db [OF now] by (simp add: a r(2))
qed

text \<open>Research bridge: an analysis is not recorded as a whole.  The run and each claim are stored in
  transactions of their own, so when the first claim is refused, here for a subject that is not in the store,
  \<open>record_analysis\<close> raises and leaves the run it stored, marked as completed, without its claims.\<close>

theorem analysis_is_not_atomic:
  assumes "record_ingest_run inp (Some outp) mode ''COMPLETED'' (Some (rb_engine_version b)) (rb_prompt_version b) meta None s = (Inr run, s1)"
    and "pc_subject c = Some e" and "\<forall>x \<in> set (sn_db s ''entities''). jget x ''entity_id'' \<noteq> JStr e"
  shows "\<exists>err s'. record_analysis b inp outp (c # cs) did mode meta s = (Inl err, s') \<and> sn_db s' = sn_db s1 \<and>
    (\<exists>r \<in> set (sn_db s' ''ingest_runs''). jget r ''run_id'' = JStr run \<and> jget r ''status'' = JStr ''COMPLETED'')"
proof -
  obtain r s2 where propose: "propose_claim (pc_predicate c) (pc_claim_text c) (''engine:'' @ rb_engine_version b) did (Some run)
              (Some e) (pc_object c) (pc_object_value c) (pc_metadata c) None s1 = (r, s2)" by fastforce
  have "\<forall>x \<in> set (sn_db s1 ''entities''). jget x ''entity_id'' \<noteq> JStr e" using assms(3) stored_run(2) [OF assms(1)] by simp
  from unknown_subject [OF propose this] obtain err where "r = Inl err" "sn_db s2 = sn_db s1" by (cases r) auto
  with propose stored_run(1) [OF assms(1)] show ?thesis
    by (intro exI [of _ err] exI [of _ s2]) (simp add: record_analysis_def bindS_def assms(1,2))
qed

end
