(* ===== verification/HistoricalIntakeExamples.thy ===== *)
theory HistoricalIntakeExamples
  imports HistoricalIntake HistoricalExamples
begin

section \<open>Intake on a small store\<close>

text \<open>
  The theorems on acquisition, binding and analyses applied to the small historical store, and an analysis that
  stops half way.
\<close>

definition ocr_receipt :: acquisition_receipt where
  "ocr_receipt = \<lparr>aq_state = ''TEXT_SURROGATE'', aq_source_url = ''https://archive/1'', aq_representation_type = ''ocr'',
     aq_raw_artifact = False, aq_note = Some ''machine text'', aq_locator = None, aq_mime_type = None, aq_content_sha256 = None,
     aq_byte_length = None, aq_preferred = False, aq_representation_id = None\<rparr>"

lemma surrogate_recorded:
  "fst (record_acquisition_state ''d1'' ocr_receipt None (session_with [])) = Inr ''repr_0''"
  "claim_promotion_blockers ''c1'' (sn_db (session_with [])) \<noteq> Inr []"
  by code_simp+

theorem surrogates_do_not_unblock_witness:
  "\<exists>s'. record_acquisition_state ''d1'' ocr_receipt None (session_with []) = (Inr ''repr_0'', s') \<and>
     claim_promotion_blockers ''c1'' (sn_db s') \<noteq> Inr []"
proof -
  have run: "record_acquisition_state ''d1'' ocr_receipt None (session_with []) =
      (Inr ''repr_0'', snd (record_acquisition_state ''d1'' ocr_receipt None (session_with [])))"
    by (rule prod_eqI) (simp_all only: surrogate_recorded(1) fst_conv snd_conv)
  with surrogates_do_not_unblock [OF run, of "''c1''"] surrogate_recorded(2) show ?thesis by (auto simp: ocr_receipt_def)
qed

definition deed_digest :: string where
  "deed_digest = ''df75f3ea1d63370ba642bde84f53668817f063ac887beb86b8593d78cf5642b9''"

lemma deed_sha256: "sha256 ''deed'' = deed_digest"
  by code_simp

lemma capture_registered:
  "fst (register_document_representation ''d1'' ''scan'' ''RAW_CAPTURED'' (artifact_locator deed_digest) None (Some deed_digest) (Some 4) None True True
     None None (session_with [])) = Inr ''repr_0''"
  by code_simp

lemma deed_captured:
  "\<exists>w v. put_bytes [''raw''] ''deed'' (quiet_world []) = (Inr (receipt_for ''deed''), w) \<and>
     verify_artifact [''raw''] deed_digest (Some 4) w = (Inr True, v)"
proof -
  have ready: "artifact_ready [''raw''] ''deed'' (quiet_world [])"
    by (simp add: artifact_ready_def Let_def quiet_def node_at_def artifact_path_facts)
  from put_returns [OF this] obtain w where put: "put_bytes [''raw''] ''deed'' (quiet_world []) = (Inr (receipt_for ''deed''), w)" "quiet w"
    by (auto simp: quietly_def)
  have root: "plain_path [''raw'']" by simp
  from verify_returns [OF put(2) root put_stores(2) [OF put(1) root]] put(1) show ?thesis by (auto simp: deed_sha256)
qed

definition bound :: "string res \<times> world \<times> session" where
  \<comment> \<open>the deed captured and bound to its document\<close>
  "bound = bind_document [''raw''] ''d1'' (receipt_for ''deed'') ''scan'' None None True None None
     (snd (put_bytes [''raw''] ''deed'' (quiet_world []))) (session_with [])"

lemma bound_result: "fst bound = Inr ''repr_0''"
proof -
  from deed_captured obtain w v where run: "put_bytes [''raw''] ''deed'' (quiet_world []) = (Inr (receipt_for ''deed''), w)"
    "verify_artifact [''raw''] deed_digest (Some 4) w = (Inr True, v)" by blast
  show ?thesis using capture_registered
    by (auto simp: bound_def bind_document_def receipt_for_def deed_sha256 run(2) run(1) [unfolded receipt_for_def deed_sha256] split: prod.splits)
qed

lemma deed_claim_ready: "ready_claim ''c1'' ''d1'' ''scan'' (sn_db (session_with []))"
proof -
  have "select_one ''claims'' ''claim_id'' ''c1'' (sn_db (session_with [])) = Some claim_row"
    by (simp add: select_one_def session_with_def claim_row_def jget_def)
  then show ?thesis unfolding ready_claim_def using example_metadata
    by (intro exI [of _ claim_row] exI [of _ "[(''promotion_blocked_until_raw_capture'', JBool True)]"]) (simp add: claim_row_def jget_def)
qed

theorem bound_capture_unblocks_witness:
  "claim_promotion_blockers ''c1'' (sn_db (snd (snd bound))) = Inr [] \<and>
   (\<exists>data. files (w_fs (fst (snd bound))) (artifact_path [''raw''] (sha256 ''deed'')) = Some data \<and> sha256 data = sha256 ''deed'')"
proof -
  have "plain_path [''raw'']" by simp
  moreover have "bind_document [''raw''] ''d1'' (receipt_for ''deed'') ''scan'' None None True None None
     (snd (put_bytes [''raw''] ''deed'' (quiet_world []))) (session_with []) = (Inr ''repr_0'', fst (snd bound), snd (snd bound))"
    using bound_result unfolding bound_def by (metis prod.collapse)
  ultimately show ?thesis using bound_capture_unblocks deed_claim_ready by (fastforce simp: receipt_for_def)
qed

subsection \<open>Analyses\<close>

definition example_bridge :: research_bridge where
  "example_bridge = \<lparr>rb_engine_version = ''1.0'', rb_prompt_version = None\<rparr>"

definition a_claim :: "string option \<Rightarrow> proposed_claim" where
  "a_claim subject = \<lparr>pc_predicate = ''owner'', pc_claim_text = ''A owns B'', pc_subject = subject, pc_object = None,
     pc_object_value = None, pc_metadata = None\<rparr>"

theorem analysis_only_proposes_witness:
  "\<exists>new run. sn_db (snd (record_analysis example_bridge ''in'' ''out'' [a_claim None] None ''research_analysis'' None (session_with []))) ''claims'' =
       sn_db (session_with []) ''claims'' @ new \<and> (\<forall>c \<in> set new. engine_claim ''1.0'' run c)"
  using analysis_only_proposes [OF prod.collapse [symmetric], of example_bridge "''in''" "''out''" "[a_claim None]" None "''research_analysis''" None
      "session_with []"] by (auto simp: example_bridge_def)

lemma run_stored:
  "fst (store_ingest_run deed_digest (Some deed_digest) ''research_analysis'' ''COMPLETED'' (Some ''1.0'') None None None (session_with [])) = Inr ''run_0''"
  by code_simp

theorem analysis_is_not_atomic_witness:
  "\<exists>err s'. record_analysis example_bridge ''deed'' ''deed'' [a_claim (Some ''nobody''), a_claim None] None ''research_analysis'' None (session_with []) =
       (Inl err, s') \<and>
     (\<exists>r \<in> set (sn_db s' ''ingest_runs''). jget r ''run_id'' = JStr ''run_0'' \<and> jget r ''status'' = JStr ''COMPLETED'')"
proof -
  have "record_ingest_run ''deed'' (Some ''deed'') ''research_analysis'' ''COMPLETED'' (Some (rb_engine_version example_bridge))
      (rb_prompt_version example_bridge) None None (session_with []) =
    (Inr ''run_0'', snd (record_ingest_run ''deed'' (Some ''deed'') ''research_analysis'' ''COMPLETED'' (Some (rb_engine_version example_bridge))
      (rb_prompt_version example_bridge) None None (session_with [])))"
    using run_stored by (intro prod_eqI) (simp_all add: record_ingest_run_def deed_sha256 example_bridge_def)
  from analysis_is_not_atomic [OF this, of "a_claim (Some ''nobody'')" "''nobody''" "[a_claim None]" None] show ?thesis
    by (auto simp: a_claim_def session_with_def)
qed

end
