(* ===== verification/Checkpoint.thy ===== *)
theory Checkpoint
  imports FileSwap JsonValues "HOL-Library.AList"
begin

section \<open>Checkpoint lineages: documents and generations\<close>

text \<open>
  The checkpoint store of \<open>main.py\<close>: a model is saved as a generation, a tensor file with a manifest that
  names its size and digest, and a HEAD document names the current and the previous generation.  This
  theory holds the documents, their schema migrations and the validation of a generation; saving, loading
  and pruning are in \<open>CheckpointLineage\<close>.

  The array library is a parameter (\<open>array_library\<close>): tensors with a shape, trees of them, the tensor file
  format, \<open>Module.parameters\<close>, \<open>Module.update\<close> and \<open>mx.eval\<close>, of which the last two may raise.  A module has
  weights and the recurrent arrays of its layers; its parameter tree holds both.  So are the clock and the failpoint of the
  environment.  The target is an absolute path; a JSON number with a fraction is not modelled, so the
  two floats of the configuration are the JSON values that stand for them.
\<close>

record 'a layer =
  ly_states :: 'a
  ly_decaytrace :: 'a
  ly_embedtrace :: 'a

record ('a, 't) array_library =
  al_shape :: "'a \<Rightarrow> nat list"
  al_save :: "(string \<times> 'a) list \<Rightarrow> string res"
  al_load :: "string \<Rightarrow> (string \<times> 'a) list res"
  al_flatten :: "'t \<Rightarrow> (string \<times> 'a) list"
  al_unflatten :: "(string \<times> 'a) list \<Rightarrow> 't res"
  al_parameters :: "'t \<Rightarrow> 'a layer list \<Rightarrow> 't"
  al_update :: "'t \<Rightarrow> 't \<times> 'a layer list \<Rightarrow> pyexc option \<times> 't \<times> 'a layer list"
  al_eval :: "'t \<Rightarrow> 't \<Rightarrow> 'a list \<Rightarrow> pyexc option"
  al_now :: "nat \<Rightarrow> datetime"
  al_failpoint :: "string option"

record ('a, 't) model =
  md_dim :: int
  md_layercount :: int
  md_spread :: int
  md_temp :: json
  md_lr :: json
  md_lrbegin :: int
  md_lrend :: int
  md_weights :: 't
  md_optimizer :: 't
  md_layers :: "'a layer list"
  md_event :: row
  md_taint :: bool
  md_taint_source :: "string option"

subsection \<open>Constants and migrations\<close>

definition CHECKPOINT_SCHEMA_VERSION :: int where "CHECKPOINT_SCHEMA_VERSION = 3"
definition HEAD_SCHEMA_VERSION :: int where "HEAD_SCHEMA_VERSION = 3"
definition PAYLOAD_SCHEMA_VERSION :: int where "PAYLOAD_SCHEMA_VERSION = 1"
definition AUDIT_SCHEMA_VERSION :: int where "AUDIT_SCHEMA_VERSION = 1"
definition PROTOCOL_VERSION :: string where "PROTOCOL_VERSION = ''1.33''"
definition CHECKPOINT_FORMAT :: string where "CHECKPOINT_FORMAT = ''tmt-galia-checkpoint''"
definition HEAD_FORMAT :: string where "HEAD_FORMAT = ''tmt-galia-head''"
definition RECOVERY_POLICY :: string where "RECOVERY_POLICY = ''current_then_previous''"
definition CONFIG_BINDING :: string where "CONFIG_BINDING = ''full-v1.22''"
definition LEGACY_LOAD_POLICY :: string where "LEGACY_LOAD_POLICY = ''explicit-opt-in-v1.27''"

lemmas checkpoint_constants = CHECKPOINT_SCHEMA_VERSION_def HEAD_SCHEMA_VERSION_def PAYLOAD_SCHEMA_VERSION_def
  AUDIT_SCHEMA_VERSION_def PROTOCOL_VERSION_def CHECKPOINT_FORMAT_def HEAD_FORMAT_def RECOVERY_POLICY_def
  CONFIG_BINDING_def LEGACY_LOAD_POLICY_def

definition setdefault :: "string \<Rightarrow> json \<Rightarrow> row \<Rightarrow> row" where
  "setdefault k v d = (if map_of d k = None then d @ [(k, v)] else d)"

definition migrate_checkpoint_manifest_v1_to_v2 :: "row \<Rightarrow> row" where
  "migrate_checkpoint_manifest_v1_to_v2 doc =
     setdefault ''checkpoint_kind'' (JStr ''full'') (setdefault ''parent_generation'' JNull
       (obj_put ''schema_version'' (JInt 2) doc))"

definition migrate_checkpoint_manifest_v2_to_v3 :: "row \<Rightarrow> row" where
  "migrate_checkpoint_manifest_v2_to_v3 doc =
     setdefault ''config_binding'' (JStr ''unbound-legacy'') (setdefault ''model_config'' JNull
       (setdefault ''commit_seq'' (JInt 0) (setdefault ''commit_id'' JNull
         (setdefault ''protocol_version'' (JStr ''legacy'') (setdefault ''payload_schema_version'' (JInt 1)
           (obj_put ''schema_version'' (JInt 3) doc))))))"

definition migrate_head_v1_to_v2 :: "row \<Rightarrow> row" where
  "migrate_head_v1_to_v2 doc =
     (let migrated = setdefault ''recovery_policy'' (JStr RECOVERY_POLICY) (obj_put ''schema_version'' (JInt 2) doc);
          current = (case map_of migrated ''current_generation'' of None \<Rightarrow> ''unknown'' | Some v \<Rightarrow> py_str v) in
      setdefault ''commit_id'' (JStr (''legacy-'' @ current)) migrated)"

definition migrate_head_v2_to_v3 :: "row \<Rightarrow> row" where
  "migrate_head_v2_to_v3 doc =
     setdefault ''recovery_policy'' (JStr RECOVERY_POLICY) (setdefault ''commit_seq'' (JInt 0)
       (setdefault ''protocol_version'' (JStr ''legacy'') (obj_put ''schema_version'' (JInt 3) doc)))"

type_synonym migrations = "(int \<times> (row \<Rightarrow> row)) list"

definition CHECKPOINT_MANIFEST_MIGRATIONS :: migrations where
  "CHECKPOINT_MANIFEST_MIGRATIONS =
     [(1, migrate_checkpoint_manifest_v1_to_v2), (2, migrate_checkpoint_manifest_v2_to_v3)]"

definition HEAD_MIGRATIONS :: migrations where
  "HEAD_MIGRATIONS = [(1, migrate_head_v1_to_v2), (2, migrate_head_v2_to_v3)]"

text \<open>The loop of \<open>_migrate_document\<close>: each round raises or advances the version by exactly one.\<close>

function migrate_loop :: "string \<Rightarrow> int \<Rightarrow> migrations \<Rightarrow> int \<Rightarrow> row \<Rightarrow> row res" where
  "migrate_loop kind current migrations version migrated =
     (if version < current then
        (case map_of migrations version of
           None \<Rightarrow> Inl (ValueError (''No explicit '' @ kind @ '' migration registered for schema '' @
             show_int version @ '' -> '' @ show_int (version + 1)))
         | Some migrate \<Rightarrow>
             (let migrated = migrate migrated in
              if \<not> json_eq (jget migrated ''schema_version'') (JInt (version + 1))
              then Inl (ValueError (kind @ '' migration '' @ show_int version @ '' did not advance exactly one version''))
              else migrate_loop kind current migrations (version + 1) migrated))
      else Inr migrated)"
  by pat_completeness auto
termination
  by (relation "measure (\<lambda>(kind, current, migrations, version, migrated). nat (current - version))") auto

definition int_value :: "json \<Rightarrow> int option" where
  \<comment> \<open>\<open>isinstance(v, int)\<close>, which \<open>True\<close> and \<open>False\<close> are\<close>
  "int_value v = (case v of JInt i \<Rightarrow> Some i | JBool b \<Rightarrow> Some (if b then 1 else 0) | _ \<Rightarrow> None)"

definition migrate_document :: "row \<Rightarrow> string \<Rightarrow> int \<Rightarrow> migrations \<Rightarrow> (row \<times> json) res" where
  "migrate_document doc kind current migrations =
     (let version = jget doc ''schema_version'' in
      case int_value version of
        None \<Rightarrow> Inl (ValueError (kind @ '' schema_version is invalid: '' @ py_repr version))
      | Some n \<Rightarrow>
          bindE (raise_if (n < 1) (ValueError (kind @ '' schema_version is invalid: '' @ py_repr version))) (\<lambda>_.
          bindE (raise_if (current < n)
            (ValueError (''Unsupported future '' @ kind @ '' schema version: '' @ py_repr version))) (\<lambda>_.
          bindE (migrate_loop kind current migrations n doc) (\<lambda>migrated. Inr (migrated, version)))))"

declare migrate_loop.simps [simp del]

subsection \<open>Paths\<close>

text \<open>
  The code extends the text of the target path, so a generation id with a slash in it names another
  directory; \<open>base_name\<close> is \<open>os.path.basename\<close>.
\<close>

definition last_name :: "path \<Rightarrow> string" where
  "last_name p = (if p = [] then [] else last p)"

definition path_plus :: "path \<Rightarrow> string \<Rightarrow> path" where
  \<comment> \<open>the path of the text \<open>f"{target}{suffix}"\<close>\<close>
  "path_plus target suffix = butlast target @ parts (last_name target @ suffix)"

definition base_name :: "path \<Rightarrow> string \<Rightarrow> string" where
  \<comment> \<open>\<open>os.path.basename(f"{target}{suffix}")\<close>\<close>
  "base_name target suffix = last (split_on CHR ''/'' (last_name target @ suffix))"

definition lineage_head_path :: "path \<Rightarrow> path" where
  "lineage_head_path target = path_plus target ''.head.json''"

definition lineage_audit_path :: "path \<Rightarrow> path" where
  "lineage_audit_path target = path_plus target ''.audit.jsonl''"

definition checkpoint_path :: "path \<Rightarrow> string \<Rightarrow> path" where
  "checkpoint_path target generation_id = path_plus target (''.g-'' @ generation_id @ ''.safetensors'')"

definition manifest_path :: "path \<Rightarrow> string \<Rightarrow> path" where
  "manifest_path target generation_id = path_plus target (''.g-'' @ generation_id @ ''.manifest.json'')"

definition checkpoint_file :: "path \<Rightarrow> string \<Rightarrow> string" where
  "checkpoint_file target generation_id = base_name target (''.g-'' @ generation_id @ ''.safetensors'')"

subsection \<open>Reading and writing documents\<close>

text \<open>
  \<open>json.dump\<close> with its default \<open>ensure_ascii=True\<close>: the text of \<open>dumps\<close>, in which characters beyond ASCII
  stand inside strings only, with each of them as one or two \<open>\u\<close> escapes.
\<close>

definition code_point :: "string \<Rightarrow> nat" where
  "code_point u =
     (case map code u of
        [a] \<Rightarrow> a
      | [a, b] \<Rightarrow> (a - 192) * 64 + (b - 128)
      | [a, b, c] \<Rightarrow> ((a - 224) * 64 + (b - 128)) * 64 + (c - 128)
      | [a, b, c, d] \<Rightarrow> (((a - 240) * 64 + (b - 128)) * 64 + (c - 128)) * 64 + (d - 128)
      | _ \<Rightarrow> 65533)"

definition hex_escape :: "nat \<Rightarrow> string" where
  "hex_escape n =
     CHR 0x5C # ''u'' @ [hex_char (n div 4096), hex_char (n div 256 mod 16), hex_char (n div 16 mod 16), hex_char (n mod 16)]"

definition ascii_character :: "string \<Rightarrow> string" where
  "ascii_character u =
     (let n = code_point u in
      if n < 128 then u
      else if n < 65536 then hex_escape n
      else hex_escape (55296 + (n - 65536) div 1024) @ hex_escape (56320 + (n - 65536) mod 1024))"

definition ascii_dumps :: "json \<Rightarrow> string" where
  "ascii_dumps v = concat (map ascii_character (characters (dumps v)))"

definition json_load :: "path \<Rightarrow> row io" where
  "json_load p =
     bindI (read_bytes p) (\<lambda>raw.
     if \<not> utf8_valid raw then throw (StdError ''UnicodeDecodeError'')
     else
       (case loads raw of
          None \<Rightarrow> throw (StdError ''JSONDecodeError'')
        | Some (JObj d) \<Rightarrow> ret d
        | Some _ \<Rightarrow> throw (ValueError (''Expected JSON object in '' @ repr_str (CHR ''/'' # as_posix p)))))"

definition json_save_atomic :: "path \<Rightarrow> row \<Rightarrow> unit io" where
  "json_save_atomic p v =
     bindI (mkdir_parents (butlast p)) (\<lambda>_.
     replace_through_temp (\<lambda>tmp. ret ()) (''.'' @ last_name p @ ''.'') p (ascii_dumps (JObj v) @ [newline]))"

definition uuid_hex :: "string io" where
  "uuid_hex = bindI uuid4 (\<lambda>u. ret (filter (\<lambda>c. c \<noteq> CHR ''-'') u))"

definition append_audit :: "('a, 't) array_library \<Rightarrow> path \<Rightarrow> string \<Rightarrow> row \<Rightarrow> bool io" where
  "append_audit lib target event extra =
     bindI uuid_hex (\<lambda>event_id.
     bindI (call (al_now lib)) (\<lambda>now.
     let record' = [(''audit_schema_version'', JInt AUDIT_SCHEMA_VERSION), (''event_id'', JStr event_id),
                    (''timestamp_utc'', JStr (isoformat now)), (''event'', JStr event)] @ extra;
         payload = ascii_dumps (JObj record') @ [newline] in
     bindI (mkdir_parents (butlast (lineage_audit_path target))) (\<lambda>_.
     catch (bindI (append_file (lineage_audit_path target) payload) (\<lambda>_. ret True)) (\<lambda>e. ret False))))"

definition failpoint :: "('a, 't) array_library \<Rightarrow> string \<Rightarrow> unit io" where
  "failpoint lib stage =
     throw_if (al_failpoint lib = Some stage) (RuntimeError (''Simulated checkpoint failpoint: '' @ stage))"

subsection \<open>HEAD\<close>

definition nonempty_str :: "json \<Rightarrow> bool" where
  \<comment> \<open>\<open>isinstance(v, str) and v\<close>\<close>
  "nonempty_str v \<longleftrightarrow> (case v of JStr s \<Rightarrow> s \<noteq> [] | _ \<Rightarrow> False)"

definition natural_from :: "int \<Rightarrow> json \<Rightarrow> bool" where
  \<comment> \<open>\<open>isinstance(v, int) and not isinstance(v, bool) and v >= least\<close>\<close>
  "natural_from least v \<longleftrightarrow> (case v of JInt i \<Rightarrow> least \<le> i | _ \<Rightarrow> False)"

definition check_head :: "row \<Rightarrow> json \<Rightarrow> row res" where
  "check_head head original_schema =
     (let current = jget head ''current_generation''; previous = jget head ''previous_generation'';
          commit_id = jget head ''commit_id''; commit_seq = jget head ''commit_seq'';
          protocol_version = jget head ''protocol_version'' in
      bindE (raise_if (jget head ''recovery_policy'' \<noteq> JStr RECOVERY_POLICY)
        (ValueError ''Unsupported checkpoint recovery policy'')) (\<lambda>_.
      bindE (raise_if (\<not> nonempty_str current) (ValueError ''HEAD is missing current_generation'')) (\<lambda>_.
      bindE (raise_if (previous \<noteq> JNull \<and> \<not> nonempty_str previous)
        (ValueError ''HEAD previous_generation is invalid'')) (\<lambda>_.
      bindE (raise_if (previous \<noteq> JNull \<and> previous = current)
        (ValueError ''HEAD current_generation and previous_generation must differ'')) (\<lambda>_.
      bindE (raise_if (\<not> nonempty_str commit_id) (ValueError ''HEAD commit_id is invalid'')) (\<lambda>_.
      bindE (raise_if (\<not> natural_from 0 commit_seq) (ValueError ''HEAD commit_seq is invalid'')) (\<lambda>_.
      bindE (raise_if (json_eq original_schema (JInt HEAD_SCHEMA_VERSION) \<and> \<not> natural_from 1 commit_seq)
        (ValueError ''Native schema-3 HEAD commit_seq must be >= 1'')) (\<lambda>_.
      bindE (raise_if (\<not> nonempty_str protocol_version) (ValueError ''HEAD protocol_version is invalid'')) (\<lambda>_.
      Inr head)))))))))"

definition read_checkpoint_head :: "('a, 't) array_library \<Rightarrow> path \<Rightarrow> row io" where
  "read_checkpoint_head lib target =
     bindI (json_load (lineage_head_path target)) (\<lambda>raw.
     bindI (throw_if (jget raw ''format'' \<noteq> JStr HEAD_FORMAT) (ValueError ''Unknown checkpoint HEAD format'')) (\<lambda>_.
     bindI (lift (migrate_document raw ''HEAD'' HEAD_SCHEMA_VERSION HEAD_MIGRATIONS)) (\<lambda>(head, original_schema).
     bindI (if json_eq original_schema (JInt HEAD_SCHEMA_VERSION) then ret True
            else append_audit lib target ''head_schema_migrated''
                   [(''from_schema'', original_schema), (''to_schema'', JInt HEAD_SCHEMA_VERSION)]) (\<lambda>_.
     lift (check_head head original_schema)))))"

subsection \<open>Manifests\<close>

definition checkpoint_model_config :: "('a, 't) model \<Rightarrow> row" where
  \<comment> \<open>the keys in the order in which they are written\<close>
  "checkpoint_model_config m =
     [(''dim'', JInt (md_dim m)), (''layers'', JInt (md_layercount m)), (''lr'', md_lr m), (''lrbegin'', JInt (md_lrbegin m)),
      (''lrend'', JInt (md_lrend m)), (''spread'', JInt (md_spread m)), (''temp'', md_temp m)]"

definition differs :: "json option \<Rightarrow> json \<Rightarrow> bool" where
  \<comment> \<open>\<open>expected is not None and v != expected\<close>\<close>
  "differs wanted v = (case wanted of None \<Rightarrow> False | Some c \<Rightarrow> \<not> json_eq v c)"

definition check_manifest ::
  "row \<Rightarrow> path \<Rightarrow> string \<Rightarrow> json option \<Rightarrow> json option \<Rightarrow> row \<Rightarrow> row res" where
  "check_manifest config target generation_id expected_commit_id expected_commit_seq manifest =
     bindE (raise_if (\<not> json_eq (jget manifest ''payload_schema_version'') (JInt PAYLOAD_SCHEMA_VERSION))
       (ValueError ''Unsupported checkpoint payload schema version'')) (\<lambda>_.
     bindE (raise_if (jget manifest ''generation_id'' \<noteq> JStr generation_id)
       (ValueError ''Checkpoint generation ID mismatch'')) (\<lambda>_.
     bindE (raise_if (jget manifest ''checkpoint_file'' \<noteq> JStr (checkpoint_file target generation_id))
       (ValueError ''Checkpoint filename does not match manifest'')) (\<lambda>_.
     bindE (raise_if (jget manifest ''checkpoint_kind'' \<noteq> JStr ''full'')
       (ValueError ''Unsupported checkpoint kind'')) (\<lambda>_.
     bindE (raise_if (differs expected_commit_id (jget manifest ''commit_id''))
       (ValueError ''Checkpoint commit_id does not match HEAD'')) (\<lambda>_.
     bindE (raise_if (differs expected_commit_seq (jget manifest ''commit_seq''))
       (ValueError ''Checkpoint commit_seq does not match HEAD'')) (\<lambda>_.
     bindE (raise_if (jget manifest ''config_binding'' \<noteq> JStr CONFIG_BINDING)
       (ValueError ''Checkpoint lacks v1.22 full constructor/schedule binding'')) (\<lambda>_.
     bindE (raise_if (\<not> json_eq (jget manifest ''model_config'') (JObj config))
       (ValueError ''Checkpoint model/runtime configuration mismatch'')) (\<lambda>_.
     bindE (raise_if (\<not> nonempty_str (jget manifest ''protocol_version''))
       (ValueError ''Checkpoint protocol_version is invalid'')) (\<lambda>_.
     bindE (raise_if (\<not> nonempty_str (jget manifest ''commit_id'')) (ValueError ''Checkpoint commit_id is invalid'')) (\<lambda>_.
     bindE (raise_if (\<not> natural_from 1 (jget manifest ''commit_seq''))
       (ValueError ''Checkpoint commit_seq is invalid'')) (\<lambda>_.
     bindE (raise_if (jget manifest ''parent_generation'' \<noteq> JNull \<and> \<not> nonempty_str (jget manifest ''parent_generation''))
       (ValueError ''Checkpoint parent_generation is invalid'')) (\<lambda>_.
     Inr manifest))))))))))))"

definition read_generation_manifest ::
  "('a, 't) array_library \<Rightarrow> row \<Rightarrow> path \<Rightarrow> string \<Rightarrow> json option \<Rightarrow> json option \<Rightarrow> row io" where
  "read_generation_manifest lib config target generation_id expected_commit_id expected_commit_seq =
     bindI (json_load (manifest_path target generation_id)) (\<lambda>raw.
     bindI (throw_if (jget raw ''format'' \<noteq> JStr CHECKPOINT_FORMAT)
       (ValueError ''Unknown checkpoint manifest format'')) (\<lambda>_.
     bindI (lift (migrate_document raw ''checkpoint manifest'' CHECKPOINT_SCHEMA_VERSION CHECKPOINT_MANIFEST_MIGRATIONS))
       (\<lambda>(manifest, original_schema).
     bindI (if json_eq original_schema (JInt CHECKPOINT_SCHEMA_VERSION) then ret True
            else append_audit lib target ''manifest_schema_migrated''
                   [(''generation_id'', JStr generation_id), (''from_schema'', original_schema),
                    (''to_schema'', JInt CHECKPOINT_SCHEMA_VERSION)]) (\<lambda>_.
     lift (check_manifest config target generation_id expected_commit_id expected_commit_seq manifest)))))"

subsection \<open>Tensors\<close>

text \<open>
  \<open>int(text)\<close> on ASCII text: blanks around, a sign, digits with single underscores between them.
\<close>

fun digits_of :: "string \<Rightarrow> string option" where
  "digits_of [] = None"
| "digits_of [c] = (if is_digit c then Some [c] else None)"
| "digits_of (c # d # s) =
     (if \<not> is_digit c then None
      else map_option (Cons c) (digits_of (if d = CHR ''_'' then s else d # s)))"

definition py_int :: "string \<Rightarrow> int res" where
  "py_int s =
     (let t = strip s;
          negative = (t \<noteq> [] \<and> hd t = CHR ''-'');
          u = (if t \<noteq> [] \<and> (hd t = CHR ''-'' \<or> hd t = CHR ''+'') then tl t else t) in
      case digits_of u of
        None \<Rightarrow> Inl (ValueError (''invalid literal for int() with base 10: '' @ repr_str s))
      | Some ds \<Rightarrow> Inr (if negative then - int (read_nat ds) else int (read_nat ds)))"

definition starts_with :: "string \<Rightarrow> string \<Rightarrow> bool" where
  "starts_with prefix s \<longleftrightarrow> take (length prefix) s = prefix"

definition ends_with :: "string \<Rightarrow> string \<Rightarrow> bool" where
  "ends_with suffix s \<longleftrightarrow> length suffix \<le> length s \<and> drop (length s - length suffix) s = suffix"

record 'a buckets =
  bk_model :: "(string \<times> 'a) list"
  bk_opts :: "(string \<times> 'a) list"
  bk_states :: "(int \<times> 'a) list"
  bk_decaytraces :: "(int \<times> 'a) list"
  bk_embedtraces :: "(int \<times> 'a) list"

definition layer_key :: "string \<Rightarrow> int res" where
  \<comment> \<open>\<open>int(k.split(".")[1])\<close>\<close>
  "layer_key k = py_int (split_on CHR ''.'' k ! 1)"

fun sort_tensor :: "'a buckets \<Rightarrow> string \<times> 'a \<Rightarrow> 'a buckets res" where
  "sort_tensor b (k, v) =
     (if starts_with ''m.'' k then Inr (b\<lparr>bk_model := AList.update (drop 2 k) v (bk_model b)\<rparr>)
      else if starts_with ''o.'' k then Inr (b\<lparr>bk_opts := AList.update (drop 2 k) v (bk_opts b)\<rparr>)
      else if starts_with ''state.'' k then
        bindE (layer_key k) (\<lambda>i. Inr (b\<lparr>bk_states := AList.update i v (bk_states b)\<rparr>))
      else if starts_with ''decaytrace.'' k then
        bindE (layer_key k) (\<lambda>i. Inr (b\<lparr>bk_decaytraces := AList.update i v (bk_decaytraces b)\<rparr>))
      else if starts_with ''embedtrace.'' k then
        bindE (layer_key k) (\<lambda>i. Inr (b\<lparr>bk_embedtraces := AList.update i v (bk_embedtraces b)\<rparr>))
      else Inl (ValueError (''Unknown checkpoint key: '' @ repr_str k)))"

fun sort_tensors :: "'a buckets \<Rightarrow> (string \<times> 'a) list \<Rightarrow> 'a buckets res" where
  "sort_tensors b [] = Inr b"
| "sort_tensors b (kv # data) = bindE (sort_tensor b kv) (\<lambda>b. sort_tensors b data)"

definition no_tensors :: "'a buckets" where
  "no_tensors = \<lparr>bk_model = [], bk_opts = [], bk_states = [], bk_decaytraces = [], bk_embedtraces = []\<rparr>"

definition repr_shape :: "nat list \<Rightarrow> string" where
  "repr_shape ns =
     (case ns of [n] \<Rightarrow> ''('' @ show_nat n @ '',)'' | _ \<Rightarrow> ''('' @ join '', '' (map show_nat ns) @ '')'')"

definition check_shape :: "('a, 't) array_library \<Rightarrow> (string \<times> 'a) list \<Rightarrow> string \<times> 'a \<Rightarrow> unit res" where
  "check_shape lib loaded kv =
     (case map_of loaded (fst kv) of
        None \<Rightarrow> Inl (StdError ''KeyError'')
      | Some v \<Rightarrow>
          raise_if (al_shape lib v \<noteq> al_shape lib (snd kv))
            (ValueError (''Checkpoint model shape mismatch for '' @ repr_str (fst kv) @ '': '' @
               repr_shape (al_shape lib v) @ '' != '' @ repr_shape (al_shape lib (snd kv)))))"

fun eachE :: "('b \<Rightarrow> unit res) \<Rightarrow> 'b list \<Rightarrow> unit res" where
  "eachE f [] = Inr ()"
| "eachE f (x # xs) = bindE (f x) (\<lambda>_. eachE f xs)"

definition repr_ints :: "int list \<Rightarrow> string" where
  "repr_ints is = py_repr (JList (map JInt is))"

definition check_layer_keys :: "int \<Rightarrow> string \<times> (int \<times> 'a) list \<Rightarrow> unit res" where
  "check_layer_keys layercount labelled =
     (let keys = map fst (snd labelled); expected = map int [0..<nat layercount];
          missing = sort (filter (\<lambda>i. i \<notin> set keys) expected); extra = sort (filter (\<lambda>i. i \<notin> set expected) keys) in
      raise_if (missing \<noteq> [] \<or> extra \<noteq> [])
        (ValueError (''Checkpoint '' @ fst labelled @ '' schema mismatch; missing='' @ repr_ints missing @
           '', extra='' @ repr_ints extra)))"

definition check_layer_shape ::
  "('a, 't) array_library \<Rightarrow> 'a buckets \<Rightarrow> nat \<times> 'a layer \<Rightarrow> unit res" where
  "check_layer_shape lib b il =
     (let check = (\<lambda>label bucket current.
        case map_of bucket (int (fst il)) of
          None \<Rightarrow> Inl (StdError ''KeyError'')
        | Some v \<Rightarrow>
            raise_if (al_shape lib v \<noteq> al_shape lib current)
              (ValueError (''Checkpoint '' @ label @ '' shape mismatch for layer '' @ show_nat (fst il)))) in
      bindE (check ''state'' (bk_states b) (ly_states (snd il))) (\<lambda>_.
      bindE (check ''decaytrace'' (bk_decaytraces b) (ly_decaytrace (snd il))) (\<lambda>_.
      check ''embedtrace'' (bk_embedtraces b) (ly_embedtrace (snd il)))))"

record ('a, 't) loaded_parts =
  cp_model :: 't
  cp_opts :: "'t option"
  cp_states :: "(int \<times> 'a) list"
  cp_decaytraces :: "(int \<times> 'a) list"
  cp_embedtraces :: "(int \<times> 'a) list"

definition unflatten :: "('a, 't) array_library \<Rightarrow> (string \<times> 'a) list \<Rightarrow> 't res" where
  "unflatten lib items =
     (case al_unflatten lib items of
        Inl e \<Rightarrow> Inl (ValueError ''Checkpoint tree structure is invalid'')
      | Inr t \<Rightarrow> Inr t)"

definition parameters :: "('a, 't) array_library \<Rightarrow> ('a, 't) model \<Rightarrow> 't" where
  "parameters lib m = al_parameters lib (md_weights m) (md_layers m)"

definition checkpoint_parts ::
  "('a, 't) array_library \<Rightarrow> ('a, 't) model \<Rightarrow> (string \<times> 'a) list \<Rightarrow> ('a, 't) loaded_parts res" where
  "checkpoint_parts lib m data =
     bindE (sort_tensors no_tensors data) (\<lambda>b.
     let expected = al_flatten lib (parameters lib m);
         missing = sorted_diff (fst ` set expected) (fst ` set (bk_model b));
         extra = sorted_diff (fst ` set (bk_model b)) (fst ` set expected) in
     bindE (raise_if (missing \<noteq> [] \<or> extra \<noteq> [])
       (ValueError (''Checkpoint model schema mismatch; missing='' @ py_repr (JList (map JStr missing)) @
          '', extra='' @ py_repr (JList (map JStr extra))))) (\<lambda>_.
     bindE (eachE (check_shape lib (bk_model b)) expected) (\<lambda>_.
     bindE (eachE (check_layer_keys (md_layercount m))
       [(''state'', bk_states b), (''decaytrace'', bk_decaytraces b), (''embedtrace'', bk_embedtraces b)]) (\<lambda>_.
     bindE (eachE (check_layer_shape lib b) (enumerate_from 0 (md_layers m))) (\<lambda>_.
     bindE (unflatten lib (bk_model b)) (\<lambda>model_tree.
     bindE (if bk_opts b = [] then Inr None else bindE (unflatten lib (bk_opts b)) (\<lambda>t. Inr (Some t))) (\<lambda>opts_tree.
     Inr \<lparr>cp_model = model_tree, cp_opts = opts_tree, cp_states = bk_states b,
          cp_decaytraces = bk_decaytraces b, cp_embedtraces = bk_embedtraces b\<rparr>)))))))"

subsection \<open>Generations\<close>

definition file_size :: "path \<Rightarrow> nat io" where
  \<comment> \<open>\<open>os.path.getsize\<close>; the size of a directory is the one block most file systems give it\<close>
  "file_size p = sys (\<lambda>fs.
     case lookup fs p of None \<Rightarrow> Inl (StdError ''FileNotFoundError'')
     | Some Dir \<Rightarrow> Inr (4096, fs)
     | Some (File b) \<Rightarrow> Inr (length b, fs))"

definition sha256_file :: "path \<Rightarrow> string io" where
  "sha256_file p = bindI (read_bytes p) (\<lambda>b. ret (sha256 b))"

definition load_tensors :: "('a, 't) array_library \<Rightarrow> path \<Rightarrow> (string \<times> 'a) list io" where
  \<comment> \<open>\<open>mx.load(path)\<close>\<close>
  "load_tensors lib p = bindI (read_bytes p) (\<lambda>b. lift (al_load lib b))"

definition validate_generation ::
  "('a, 't) array_library \<Rightarrow> ('a, 't) model \<Rightarrow> path \<Rightarrow> string \<Rightarrow> json option \<Rightarrow> json option \<Rightarrow>
   (('a, 't) loaded_parts \<times> row) io" where
  "validate_generation lib m target generation_id expected_commit_id expected_commit_seq =
     bindI (read_generation_manifest lib (checkpoint_model_config m) target generation_id
              expected_commit_id expected_commit_seq) (\<lambda>manifest.
     let p = checkpoint_path target generation_id in
     bindI (file_size p) (\<lambda>actual_size.
     bindI (throw_if (\<not> json_eq (jget manifest ''size_bytes'') (JInt (int actual_size)))
       (ValueError (''Checkpoint size mismatch: '' @ show_nat actual_size @ '' != '' @ py_str (jget manifest ''size_bytes'')))) (\<lambda>_.
     bindI (throw_if (\<not> (case jget manifest ''sha256'' of JStr s \<Rightarrow> str_len s = 64 | _ \<Rightarrow> False))
       (ValueError ''Checkpoint manifest SHA-256 is invalid'')) (\<lambda>_.
     bindI (sha256_file p) (\<lambda>digest.
     bindI (throw_if (jget manifest ''sha256'' \<noteq> JStr digest) (ValueError ''Checkpoint SHA-256 mismatch'')) (\<lambda>_.
     bindI (load_tensors lib p) (\<lambda>data.
     bindI (lift (checkpoint_parts lib m data)) (\<lambda>cp.
     ret (cp, manifest)))))))))"

definition text_of :: "json \<Rightarrow> string" where
  "text_of v = (case v of JStr s \<Rightarrow> s | _ \<Rightarrow> [])"

definition validate_fallback_lineage :: "('a, 't) array_library \<Rightarrow> row \<Rightarrow> path \<Rightarrow> row \<Rightarrow> row io" where
  \<comment> \<open>on a HEAD that \<open>read_checkpoint_head\<close> returned, whose current generation is a string\<close>
  "validate_fallback_lineage lib config target head =
     (let previous = jget head ''previous_generation'' in
      bindI (throw_if (\<not> truthy previous) (ValueError ''HEAD has no previous_generation for fallback'')) (\<lambda>_.
      bindI (read_generation_manifest lib config target (text_of (jget head ''current_generation''))
               (Some (jget head ''commit_id'')) (Some (jget head ''commit_seq''))) (\<lambda>manifest.
      bindI (throw_if (\<not> json_eq (jget manifest ''parent_generation'') previous)
        (ValueError (''Fallback lineage mismatch: HEAD previous_generation '' @ py_repr previous @
           '' != current manifest parent_generation '' @ py_repr (jget manifest ''parent_generation'')))) (\<lambda>_.
      ret manifest))))"

end
