(* ===== verification/CheckpointLineage.thy ===== *)
theory CheckpointLineage
  imports Checkpoint
begin

section \<open>Checkpoint lineages: saving, loading and pruning\<close>

text \<open>
  The operations of \<open>Model\<close> in \<open>main.py\<close> that keep a lineage of generations at a target path.  An operation
  that also changes the model is an \<open>act\<close>: it takes the model and the world and returns the changed ones
  beside its result, also when it raises.
\<close>

type_synonym ('m, 'x) act = "'m \<Rightarrow> world \<Rightarrow> ('x res \<times> 'm) \<times> world"

definition doA :: "'x io \<Rightarrow> ('m, 'x) act" where
  "doA c m w = (case c w of (r, w') \<Rightarrow> ((r, m), w'))"

definition bindA :: "('m, 'x) act \<Rightarrow> ('x \<Rightarrow> ('m, 'y) act) \<Rightarrow> ('m, 'y) act" where
  "bindA a k m w = (case a m w of ((Inl e, m'), w') \<Rightarrow> ((Inl e, m'), w') | ((Inr x, m'), w') \<Rightarrow> k x m' w')"

definition attemptA :: "('m, 'x) act \<Rightarrow> ('m, 'x res) act" where
  "attemptA a m w = (case a m w of ((r, m'), w') \<Rightarrow> ((Inr r, m'), w'))"

definition changeA :: "('m \<Rightarrow> 'm) \<Rightarrow> ('m, unit) act" where
  "changeA f m w = ((Inr (), f m), w)"

definition viewA :: "('m \<Rightarrow> ('m, 'x) act) \<Rightarrow> ('m, 'x) act" where
  "viewA f m w = f m m w"

subsection \<open>Which generation is valid\<close>

definition validate_role ::
  "('a, 't) array_library \<Rightarrow> ('a, 't) model \<Rightarrow> path \<Rightarrow> row \<Rightarrow> string \<times> string \<Rightarrow> (('a, 't) loaded_parts \<times> row) io" where
  "validate_role lib m target head role_id =
     (if fst role_id = ''current''
      then validate_generation lib m target (snd role_id) (Some (jget head ''commit_id'')) (Some (jget head ''commit_seq''))
      else bindI (validate_fallback_lineage lib (checkpoint_model_config m) target head) (\<lambda>_.
           validate_generation lib m target (snd role_id) None None))"

definition candidates :: "row \<Rightarrow> (string \<times> string) list" where
  \<comment> \<open>the roles whose generation id is not empty, of a HEAD that \<open>_read_head\<close> returned\<close>
  "candidates head =
     filter (\<lambda>(role, g). g \<noteq> [])
       [(''current'', text_of (jget head ''current_generation'')), (''previous'', text_of (jget head ''previous_generation''))]"

definition failure_fields :: "string \<Rightarrow> string \<times> string \<Rightarrow> pyexc \<Rightarrow> row" where
  "failure_fields operation role_id e =
     [(''operation'', JStr operation), (''role'', JStr (fst role_id)), (''generation_id'', JStr (snd role_id)),
      (''error_type'', JStr (exc_class e)), (''error'', JStr (exc_str e))]"

fun first_valid ::
  "('a, 't) array_library \<Rightarrow> ('a, 't) model \<Rightarrow> path \<Rightarrow> row \<Rightarrow> (string \<times> string) list \<Rightarrow> string list \<Rightarrow> string io" where
  "first_valid lib m target head [] errors =
     bindI (append_audit lib target ''save_refused_corrupt_lineage'' [(''errors'', JList (map JStr errors))]) (\<lambda>_.
     throw (ValueError (''Existing checkpoint lineage has no valid generation; refusing save. '' @ join '' | '' errors)))"
| "first_valid lib m target head (role_id # rest) errors =
     bindI (attempt
       (bindI (validate_role lib m target head role_id) (\<lambda>_.
        if fst role_id = ''previous''
        then append_audit lib target ''save_lineage_fallback''
               [(''failed_generation'', jget head ''current_generation''), (''recovered_generation'', JStr (snd role_id))]
        else ret True))) (\<lambda>checked.
     case checked of
       Inr b \<Rightarrow> ret (snd role_id)
     | Inl e \<Rightarrow>
         bindI (append_audit lib target ''generation_validation_failed'' (failure_fields ''save'' role_id e)) (\<lambda>_.
         first_valid lib m target head rest (errors @ [snd role_id @ '': '' @ exc_str e])))"

definition current_valid_generation ::
  "('a, 't) array_library \<Rightarrow> ('a, 't) model \<Rightarrow> path \<Rightarrow> (string \<times> row) option io" where
  "current_valid_generation lib m target =
     bindI (observe (\<lambda>fs. path_exists fs (lineage_head_path target))) (\<lambda>there.
     if \<not> there then ret None
     else
       bindI (read_checkpoint_head lib target) (\<lambda>head.
       bindI (first_valid lib m target head (candidates head) []) (\<lambda>g. ret (Some (g, head)))))"

definition next_commit_seq :: "('a, 't) array_library \<Rightarrow> path \<Rightarrow> int io" where
  "next_commit_seq lib target =
     bindI (observe (\<lambda>fs. path_exists fs (lineage_head_path target))) (\<lambda>there.
     if \<not> there then ret 1
     else bindI (read_checkpoint_head lib target) (\<lambda>head. ret (as_int 0 (jget head ''commit_seq'') + 1)))"

subsection \<open>Pruning\<close>

text \<open>
  \<open>fnmatch\<close> on the characters of a pattern: \<open>*\<close>, \<open>?\<close> and sets with ranges and negation; an unclosed
  bracket stands for itself.
\<close>

fun in_set_items :: "string list \<Rightarrow> string \<Rightarrow> bool" where
  "in_set_items (a # b # c # items) x =
     (if b = ''-'' then code_point a \<le> code_point x \<and> code_point x \<le> code_point c \<or> in_set_items items x
      else x = a \<or> in_set_items (b # c # items) x)"
| "in_set_items items x = (x \<in> set items)"

definition split_set :: "string list \<Rightarrow> (string list \<times> string list) option" where
  \<comment> \<open>the items of a set and the pattern after its closing bracket\<close>
  "split_set p =
     (let start = (if p \<noteq> [] \<and> hd p = ''!'' then 1 else 0);
          start = (if start < length p \<and> p ! start = '']'' then start + 1 else start);
          j = start + length (takeWhile (\<lambda>c. c \<noteq> '']'') (drop start p)) in
      if length p \<le> j then None else Some (take j p, drop (j + 1) p))"

lemma split_set_shorter: "split_set p = Some (items, r) \<Longrightarrow> length r < length p"
  by (auto simp: split_set_def Let_def split: if_splits)

function fnmatch :: "string list \<Rightarrow> string list \<Rightarrow> bool" where
  "fnmatch [] s = (s = [])"
| "fnmatch (c # p) s =
     (if c = ''*'' then fnmatch p s \<or> (case s of [] \<Rightarrow> False | x # t \<Rightarrow> fnmatch (c # p) t)
      else if s = [] then False
      else if c = ''?'' then fnmatch p (tl s)
      else if c = ''['' then
        (case split_set p of
           None \<Rightarrow> hd s = c \<and> fnmatch p (tl s)
         | Some (items, r) \<Rightarrow>
             (if items \<noteq> [] \<and> hd items = ''!'' then \<not> in_set_items (tl items) (hd s) else in_set_items items (hd s)) \<and>
             fnmatch r (tl s))
      else hd s = c \<and> fnmatch p (tl s))"
  by pat_completeness auto
termination
  by (relation "measures [\<lambda>(p, s). length p, \<lambda>(p, s). length s]") (auto dest: split_set_shorter)

definition has_magic :: "string \<Rightarrow> bool" where
  "has_magic s \<longleftrightarrow> list_ex (\<lambda>c. c = CHR ''*'' \<or> c = CHR ''?'' \<or> c = CHR ''['') s"

definition name_matches :: "string \<Rightarrow> string \<Rightarrow> bool" where
  \<comment> \<open>a hidden name only for a hidden pattern\<close>
  "name_matches pat name \<longleftrightarrow>
     (take 1 name = ''.'' \<longrightarrow> take 1 pat = ''.'') \<and> fnmatch (characters pat) (characters name)"

definition listdir :: "fs \<Rightarrow> path \<Rightarrow> string list" where
  \<comment> \<open>the entries of a directory, none of which has a slash in its name\<close>
  "listdir fs p = filter plain_name (map (\<lambda>(q, n). last q) (filter (\<lambda>(q, n). q \<noteq> [] \<and> butlast q = p) fs))"

fun glob_from :: "fs \<Rightarrow> path \<Rightarrow> path \<Rightarrow> path list" where
  "glob_from fs cur [] = [cur]"
| "glob_from fs cur (c # cs) =
     (if has_magic c
      then concat (map (\<lambda>name. glob_from fs (cur @ [name]) cs)
             (filter (\<lambda>name. name_matches c name \<and> (cs = [] \<or> is_dir fs (cur @ [name]))) (listdir fs cur)))
      else if path_exists fs (cur @ [c]) \<and> (cs = [] \<or> is_dir fs (cur @ [c])) then glob_from fs (cur @ [c]) cs else [])"

definition path_text :: "path \<Rightarrow> string" where
  "path_text p = CHR ''/'' # as_posix p"

definition remove_if_there :: "path \<Rightarrow> unit io" where
  \<comment> \<open>\<open>if os.path.exists(p): os.unlink(p)\<close>, an \<open>OSError\<close> ignored\<close>
  "remove_if_there p = catch (remove_temp p) (\<lambda>e. ret ())"

definition prune_generations :: "path \<Rightarrow> string set \<Rightarrow> unit io" where
  "prune_generations target keep =
     (let prefix = path_text target @ ''.g-''; suffix = ''.safetensors'' in
      bindI (observe (\<lambda>fs. glob_from fs [] (path_plus target ''.g-*.safetensors''))) (\<lambda>found.
      forI (\<lambda>p.
        let name = drop (length prefix) (path_text p); generation_id = take (length name - length suffix) name in
        if \<not> ends_with suffix name \<or> generation_id \<in> keep then ret ()
        else
          bindI (remove_if_there p) (\<lambda>_.
          remove_if_there (parts (prefix @ generation_id @ ''.manifest.json'')))) found))"

subsection \<open>Saving\<close>

definition model_tensors :: "('a, 't) array_library \<Rightarrow> ('a, 't) model \<Rightarrow> (string \<times> 'a) list" where
  "model_tensors lib m =
     map (\<lambda>(k, v). (''m.'' @ k, v)) (al_flatten lib (parameters lib m)) @
     map (\<lambda>(k, v). (''o.'' @ k, v)) (al_flatten lib (md_optimizer m)) @
     concat (map (\<lambda>(i, ly). [(''state.'' @ show_nat i, ly_states ly), (''decaytrace.'' @ show_nat i, ly_decaytrace ly),
         (''embedtrace.'' @ show_nat i, ly_embedtrace ly)]) (enumerate_from 0 (md_layers m)))"

definition fill_generation ::
  "('a, 't) array_library \<Rightarrow> ('a, 't) model \<Rightarrow> path \<Rightarrow> path \<Rightarrow> path \<Rightarrow> (string \<times> 'a) list \<Rightarrow> (string \<times> nat) io" where
  "fill_generation lib m target tmp p data =
     bindI (lift (al_save lib data)) (\<lambda>bytes.
     bindI (write_fd tmp bytes) (\<lambda>_.
     bindI (fsync_dir tmp) (\<lambda>_.
     bindI (load_tensors lib tmp) (\<lambda>staged.
     bindI (lift (checkpoint_parts lib m staged)) (\<lambda>_.
     bindI (sha256_file tmp) (\<lambda>checksum.
     bindI (file_size tmp) (\<lambda>size_bytes.
     bindI (os_replace tmp p) (\<lambda>_.
     bindI (catch (fsync_dir (butlast target)) (\<lambda>e. ret ())) (\<lambda>_.
     ret (checksum, size_bytes))))))))))"

definition write_generation ::
  "('a, 't) array_library \<Rightarrow> ('a, 't) model \<Rightarrow> path \<Rightarrow> string \<Rightarrow> (string \<times> 'a) list \<Rightarrow> (string \<times> nat) io" where
  "write_generation lib m target generation_id data =
     bindI (mkstemp (''.'' @ checkpoint_file target generation_id @ ''.'') ''.safetensors'' (butlast target)) (\<lambda>tmp.
     finally_do (fill_generation lib m target tmp (checkpoint_path target generation_id) data) (remove_temp tmp))"

text \<open>The two documents of a commit, their keys in the order in which they are written.\<close>

definition opt_id :: "string option \<Rightarrow> json" where
  "opt_id g = (case g of None \<Rightarrow> JNull | Some s \<Rightarrow> JStr s)"

definition manifest_document ::
  "row \<Rightarrow> path \<Rightarrow> string \<Rightarrow> string option \<Rightarrow> string \<Rightarrow> int \<Rightarrow> string \<Rightarrow> nat \<Rightarrow> datetime \<Rightarrow> row" where
  "manifest_document config target generation_id previous commit_id commit_seq checksum size_bytes now =
     [(''checkpoint_file'', JStr (checkpoint_file target generation_id)), (''checkpoint_kind'', JStr ''full''),
      (''commit_id'', JStr commit_id), (''commit_seq'', JInt commit_seq), (''config_binding'', JStr CONFIG_BINDING),
      (''created_at_utc'', JStr (isoformat now)), (''format'', JStr CHECKPOINT_FORMAT),
      (''generation_id'', JStr generation_id), (''model_config'', JObj config), (''parent_generation'', opt_id previous),
      (''payload_schema_version'', JInt PAYLOAD_SCHEMA_VERSION), (''protocol_version'', JStr PROTOCOL_VERSION),
      (''schema_version'', JInt CHECKPOINT_SCHEMA_VERSION), (''sha256'', JStr checksum), (''size_bytes'', JInt (int size_bytes))]"

definition head_document :: "string \<Rightarrow> string option \<Rightarrow> string \<Rightarrow> int \<Rightarrow> datetime \<Rightarrow> row" where
  "head_document generation_id previous commit_id commit_seq now =
     [(''commit_id'', JStr commit_id), (''commit_seq'', JInt commit_seq), (''current_generation'', JStr generation_id),
      (''format'', JStr HEAD_FORMAT), (''previous_generation'', opt_id previous),
      (''protocol_version'', JStr PROTOCOL_VERSION), (''recovery_policy'', JStr RECOVERY_POLICY),
      (''schema_version'', JInt HEAD_SCHEMA_VERSION), (''updated_at_utc'', JStr (isoformat now))]"

definition save_refused :: "pyexc" where
  "save_refused = ValueError (''Refusing authoritative save from a legacy-unbound checkpoint. '' @
     ''The loaded state has unknown original constructor/LR schedule. '' @
     ''Load an authoritative generation before saving.'')"

definition write_head_event :: "string \<Rightarrow> string option \<Rightarrow> string \<Rightarrow> int \<Rightarrow> row" where
  "write_head_event generation_id previous commit_id commit_seq =
     [(''operation'', JStr ''save''), (''status'', JStr ''committed''), (''generation_id'', JStr generation_id),
      (''previous_generation'', opt_id previous), (''commit_id'', JStr commit_id), (''commit_seq'', JInt commit_seq)]"

definition kept_generations :: "string \<Rightarrow> (string \<times> row) option \<Rightarrow> string set" where
  "kept_generations generation_id found =
     {generation_id} \<union>
     (case found of None \<Rightarrow> {}
      | Some (previous, old_head) \<Rightarrow>
          {previous, text_of (jget old_head ''current_generation'')} \<union>
          (if truthy (jget old_head ''previous_generation'') then {text_of (jget old_head ''previous_generation'')} else {}))"

text \<open>
  \<open>save\<close>: up to \<open>commit_head\<close> nothing that a reader of the lineage looks at has changed; then the HEAD
  is replaced, and what no HEAD names any more is pruned.
\<close>

definition stage_generation ::
  "('a, 't) array_library \<Rightarrow> ('a, 't) model \<Rightarrow> path \<Rightarrow>
   (string \<times> string option \<times> string \<times> int \<times> (string \<times> row) option) io" where
  "stage_generation lib m target =
     bindI (mkdir_parents (butlast target)) (\<lambda>_.
     bindI (current_valid_generation lib m target) (\<lambda>found.
     bindI (next_commit_seq lib target) (\<lambda>commit_seq.
     bindI uuid_hex (\<lambda>commit_id.
     bindI uuid_hex (\<lambda>generation_id.
     let previous = map_option fst found in
     bindI (write_generation lib m target generation_id (model_tensors lib m)) (\<lambda>(checksum, size_bytes).
     bindI (failpoint lib ''after_generation_promote'') (\<lambda>_.
     bindI (call (al_now lib)) (\<lambda>now.
     bindI (json_save_atomic (manifest_path target generation_id)
              (manifest_document (checkpoint_model_config m) target generation_id previous commit_id commit_seq
                 checksum size_bytes now)) (\<lambda>_.
     bindI (failpoint lib ''after_manifest_promote'') (\<lambda>_.
     bindI (validate_generation lib m target generation_id (Some (JStr commit_id)) (Some (JInt commit_seq))) (\<lambda>_.
     ret (generation_id, previous, commit_id, commit_seq, found))))))))))))"

definition commit_head ::
  "('a, 't) array_library \<Rightarrow> path \<Rightarrow> string \<Rightarrow> string option \<Rightarrow> string \<Rightarrow> int \<Rightarrow> unit io" where
  "commit_head lib target generation_id previous commit_id commit_seq =
     bindI (call (al_now lib)) (\<lambda>now.
     bindI (failpoint lib ''before_head_commit'') (\<lambda>_.
     json_save_atomic (lineage_head_path target) (head_document generation_id previous commit_id commit_seq now)))"

definition finish_save ::
  "('a, 't) array_library \<Rightarrow> path \<Rightarrow> string \<Rightarrow> string option \<Rightarrow> string \<Rightarrow> int \<Rightarrow> (string \<times> row) option \<Rightarrow> unit io" where
  "finish_save lib target generation_id previous commit_id commit_seq found =
     bindI (append_audit lib target ''save_commit''
       [(''commit_id'', JStr commit_id), (''commit_seq'', JInt commit_seq), (''current_generation'', JStr generation_id),
        (''previous_generation'', opt_id previous)]) (\<lambda>_.
     bindI (failpoint lib ''after_head_commit'') (\<lambda>_.
     prune_generations target (kept_generations generation_id found)))"

definition save :: "('a, 't) array_library \<Rightarrow> path \<Rightarrow> (('a, 't) model, unit) act" where
  "save lib target = viewA (\<lambda>m.
     if md_taint m then
       bindA (doA (append_audit lib target ''save_refused_legacy_unbound_taint''
                [(''legacy_unbound_source'', opt_id (md_taint_source m))])) (\<lambda>_.
       doA (throw save_refused))
     else
       bindA (doA (stage_generation lib m target)) (\<lambda>(generation_id, previous, commit_id, commit_seq, found).
       bindA (doA (commit_head lib target generation_id previous commit_id commit_seq)) (\<lambda>_.
       bindA (changeA (\<lambda>m. m\<lparr>md_event := write_head_event generation_id previous commit_id commit_seq\<rparr>)) (\<lambda>_.
       doA (finish_save lib target generation_id previous commit_id commit_seq found)))))"

subsection \<open>Applying a checkpoint to the model\<close>

definition layer_values :: "'a layer list \<Rightarrow> 'a list" where
  "layer_values ls = map ly_states ls @ map ly_decaytrace ls @ map ly_embedtrace ls"

definition evaluate_all :: "('a, 't) array_library \<Rightarrow> ('a, 't) model \<Rightarrow> pyexc option" where
  "evaluate_all lib m = al_eval lib (parameters lib m) (md_optimizer m) (layer_values (md_layers m))"

fun set_layers ::
  "(int \<times> 'a) list \<Rightarrow> (int \<times> 'a) list \<Rightarrow> (int \<times> 'a) list \<Rightarrow> nat \<Rightarrow> 'a layer list \<Rightarrow> pyexc option \<times> 'a layer list" where
  "set_layers ss ds es i [] = (None, [])"
| "set_layers ss ds es i (ly # ls) =
     (case map_of ss (int i) of None \<Rightarrow> (Some (StdError ''KeyError''), ly # ls)
      | Some s \<Rightarrow>
         (case map_of ds (int i) of None \<Rightarrow> (Some (StdError ''KeyError''), ly\<lparr>ly_states := s\<rparr> # ls)
          | Some d \<Rightarrow>
             (case map_of es (int i) of
                None \<Rightarrow> (Some (StdError ''KeyError''), ly\<lparr>ly_states := s, ly_decaytrace := d\<rparr> # ls)
              | Some e \<Rightarrow> map_prod id (Cons \<lparr>ly_states = s, ly_decaytrace = d, ly_embedtrace = e\<rparr>) (set_layers ss ds es (Suc i) ls))))"

definition stop_at :: "('a, 't) array_library \<Rightarrow> string \<Rightarrow> pyexc option" where
  "stop_at lib stage =
     (if al_failpoint lib = Some stage then Some (RuntimeError (''Simulated checkpoint failpoint: '' @ stage)) else None)"

definition install_checkpoint ::
  "('a, 't) array_library \<Rightarrow> ('a, 't) loaded_parts \<Rightarrow> ('a, 't) model \<Rightarrow> pyexc option \<times> ('a, 't) model" where
  \<comment> \<open>the \<open>try\<close> body of \<open>_apply_checkpoint\<close>: how far it came and what stopped it\<close>
  "install_checkpoint lib cp m =
     (let (raised, weights, ls) = al_update lib (cp_model cp) (md_weights m, md_layers m);
          m = m\<lparr>md_weights := weights, md_layers := ls\<rparr> in
      if raised \<noteq> None then (raised, m) else
      if stop_at lib ''apply_after_model'' \<noteq> None then (stop_at lib ''apply_after_model'', m) else
      let m = (case cp_opts cp of None \<Rightarrow> m | Some t \<Rightarrow> m\<lparr>md_optimizer := t\<rparr>) in
      if stop_at lib ''apply_after_optimizer'' \<noteq> None then (stop_at lib ''apply_after_optimizer'', m) else
      let (raised, ls) = set_layers (cp_states cp) (cp_decaytraces cp) (cp_embedtraces cp) 0 (md_layers m);
          m = m\<lparr>md_layers := ls\<rparr> in
      if raised \<noteq> None then (raised, m) else
      if stop_at lib ''apply_after_recurrent'' \<noteq> None then (stop_at lib ''apply_after_recurrent'', m) else
      if stop_at lib ''apply_before_eval'' \<noteq> None then (stop_at lib ''apply_before_eval'', m) else
      (evaluate_all lib m, m))"

definition restore_live_checkpoint_state ::
  "('a, 't) array_library \<Rightarrow> ('a, 't) model \<Rightarrow> ('a, 't) model \<Rightarrow> pyexc option \<times> ('a, 't) model" where
  \<comment> \<open>the snapshot is the model as it was\<close>
  "restore_live_checkpoint_state lib snapshot m =
     (let (raised, weights, ls) = al_update lib (parameters lib snapshot) (md_weights m, md_layers m);
          m = m\<lparr>md_weights := weights, md_layers := ls\<rparr> in
      if raised \<noteq> None then (raised, m) else
      let m = m\<lparr>md_optimizer := md_optimizer snapshot, md_layers := md_layers snapshot\<rparr> in
      (evaluate_all lib m, m))"

definition apply_checkpoint ::
  "('a, 't) array_library \<Rightarrow> ('a, 't) loaded_parts \<Rightarrow> ('a, 't) model \<Rightarrow> unit res \<times> ('a, 't) model" where
  "apply_checkpoint lib cp m =
     (case install_checkpoint lib cp m of
        (None, m') \<Rightarrow> (Inr (), m')
      | (Some e, m') \<Rightarrow>
          (case restore_live_checkpoint_state lib m m' of
             (None, m'') \<Rightarrow> (Inl e, m'')
           | (Some _, m'') \<Rightarrow>
               (Inl (RuntimeError ''Checkpoint apply failed and in-memory rollback also failed''), m'')))"

definition applyA :: "('a, 't) array_library \<Rightarrow> ('a, 't) loaded_parts \<Rightarrow> (('a, 't) model, unit) act" where
  "applyA lib cp m w = (apply_checkpoint lib cp m, w)"

subsection \<open>Loading\<close>

definition loaded_event :: "row \<Rightarrow> string \<times> string \<Rightarrow> row \<Rightarrow> string list \<Rightarrow> row" where
  "loaded_event head role_id manifest errors =
     [(''operation'', JStr ''load''), (''status'', JStr (if fst role_id = ''previous'' then ''fallback'' else ''current'')),
      (''generation_id'', JStr (snd role_id)), (''fallback_used'', JBool (fst role_id = ''previous'')),
      (''head_commit_id'', jget head ''commit_id''), (''head_commit_seq'', jget head ''commit_seq''),
      (''manifest_schema_version'', jget manifest ''schema_version''),
      (''payload_schema_version'', jget manifest ''payload_schema_version''),
      (''model_config'', jget manifest ''model_config''), (''errors'', JList (map JStr errors))]"

definition report_loaded :: "('a, 't) array_library \<Rightarrow> path \<Rightarrow> row \<Rightarrow> string \<times> string \<Rightarrow> bool io" where
  "report_loaded lib target head role_id =
     (if fst role_id = ''previous''
      then append_audit lib target ''load_fallback''
             [(''commit_id'', jget head ''commit_id''), (''failed_generation'', jget head ''current_generation''),
              (''recovered_generation'', JStr (snd role_id))]
      else append_audit lib target ''load_current''
             [(''commit_id'', jget head ''commit_id''), (''generation_id'', JStr (snd role_id))])"

fun load_first ::
  "('a, 't) array_library \<Rightarrow> path \<Rightarrow> row \<Rightarrow> (string \<times> string) list \<Rightarrow> string list \<Rightarrow> (('a, 't) model, unit) act" where
  "load_first lib target head [] errors =
     bindA (doA (append_audit lib target ''load_failed''
              [(''commit_id'', jget head ''commit_id''), (''errors'', JList (map JStr errors))])) (\<lambda>_.
     doA (throw (ValueError (''No valid checkpoint generation is available. '' @ join '' | '' errors))))"
| "load_first lib target head (role_id # rest) errors = viewA (\<lambda>m.
     bindA (attemptA (doA (validate_role lib m target head role_id))) (\<lambda>validated.
     case validated of
       Inl e \<Rightarrow>
         bindA (doA (append_audit lib target ''generation_validation_failed'' (failure_fields ''load'' role_id e))) (\<lambda>_.
         load_first lib target head rest (errors @ [snd role_id @ '': validation: '' @ exc_str e]))
     | Inr (cp, manifest) \<Rightarrow>
         bindA (attemptA (applyA lib cp)) (\<lambda>applied.
         case applied of
           Inl e \<Rightarrow>
             bindA (doA (append_audit lib target ''generation_apply_failed_rolled_back'' (failure_fields ''load'' role_id e))) (\<lambda>_.
             load_first lib target head rest (errors @ [snd role_id @ '': apply: '' @ exc_str e]))
         | Inr _ \<Rightarrow>
             bindA (changeA (\<lambda>m. m\<lparr>md_taint := False, md_taint_source := None,
                                  md_event := loaded_event head role_id manifest errors\<rparr>)) (\<lambda>_.
             bindA (doA (report_loaded lib target head role_id)) (\<lambda>_.
             doA (ret ()))))))"

definition legacy_refused :: "pyexc" where
  "legacy_refused = ValueError (''Legacy single-file checkpoint is unbound to the v1.22 '' @
     ''constructor/LR schedule. Refusing automatic load. '' @
     ''Use allow_legacy_unbound=True only after explicit human review.'')"

definition legacy_event :: row where
  "legacy_event =
     [(''operation'', JStr ''load''), (''status'', JStr ''legacy-single-file-authorized''), (''generation_id'', JNull),
      (''fallback_used'', JBool False), (''config_binding'', JStr ''legacy-unbound''),
      (''legacy_load_policy'', JStr LEGACY_LOAD_POLICY), (''explicit_legacy_authorization'', JBool True)]"

definition load_legacy :: "('a, 't) array_library \<Rightarrow> path \<Rightarrow> bool \<Rightarrow> (('a, 't) model, unit) act" where
  "load_legacy lib target allow = viewA (\<lambda>m.
     if \<not> allow then
       bindA (doA (append_audit lib target ''load_legacy_unbound_refused''
                [(''legacy_load_policy'', JStr LEGACY_LOAD_POLICY)])) (\<lambda>_.
       doA (throw legacy_refused))
     else
       bindA (doA (load_tensors lib target)) (\<lambda>data.
       bindA (doA (lift (checkpoint_parts lib m data))) (\<lambda>cp.
       bindA (applyA lib cp) (\<lambda>_.
       bindA (changeA (\<lambda>m. m\<lparr>md_taint := True, md_taint_source := Some (path_text target), md_event := legacy_event\<rparr>)) (\<lambda>_.
       bindA (doA (append_audit lib target ''load_legacy_single_file_authorized''
                [(''legacy_load_policy'', JStr LEGACY_LOAD_POLICY)])) (\<lambda>_.
       doA (ret ())))))))"

definition load :: "('a, 't) array_library \<Rightarrow> path \<Rightarrow> bool \<Rightarrow> (('a, 't) model, unit) act" where
  "load lib target allow_legacy_unbound =
     bindA (doA (observe (\<lambda>fs. (path_exists fs (lineage_head_path target), path_exists fs target)))) (\<lambda>(head_there, legacy_there).
     if head_there then
       bindA (doA (read_checkpoint_head lib target)) (\<lambda>head. load_first lib target head (candidates head) [])
     else if \<not> legacy_there then doA (ret ())
     else load_legacy lib target allow_legacy_unbound)"

subsection \<open>Status\<close>

definition status_start :: "path \<Rightarrow> bool \<Rightarrow> bool \<Rightarrow> bool \<Rightarrow> json \<Rightarrow> bool \<Rightarrow> json list \<Rightarrow> row" where
  "status_start target head_there legacy_there loadable selected fallback generations =
     [(''logical_path'', JStr (path_text target)), (''head_present'', JBool head_there),
      (''legacy_present'', JBool legacy_there), (''loadable'', JBool loadable), (''selected_generation'', selected),
      (''fallback_required'', JBool fallback), (''generations'', JList generations)]"

definition status_entry :: "string \<times> string \<Rightarrow> row res \<Rightarrow> json" where
  "status_entry role_id checked =
     JObj ([(''role'', JStr (fst role_id)), (''generation_id'', JStr (snd role_id))] @
       (case checked of
          Inr manifest \<Rightarrow>
            [(''valid'', JBool True), (''schema_version'', jget manifest ''schema_version''),
             (''commit_id'', jget manifest ''commit_id''), (''commit_seq'', jget manifest ''commit_seq''),
             (''model_config'', jget manifest ''model_config'')]
        | Inl e \<Rightarrow> [(''valid'', JBool False), (''error'', JStr (exc_str e))]))"

fun status_roles ::
  "('a, 't) array_library \<Rightarrow> ('a, 't) model \<Rightarrow> path \<Rightarrow> row \<Rightarrow> (string \<times> string) list \<Rightarrow>
   ((string \<times> string) \<times> row res) list io" where
  "status_roles lib m target head [] = ret []"
| "status_roles lib m target head (role_id # rest) =
     bindI (attempt (validate_role lib m target head role_id)) (\<lambda>checked.
     bindI (status_roles lib m target head rest) (\<lambda>entries.
     ret ((role_id, case checked of Inl e \<Rightarrow> Inl e | Inr (cp, manifest) \<Rightarrow> Inr manifest) # entries)))"

definition checkpoint_status :: "('a, 't) array_library \<Rightarrow> ('a, 't) model \<Rightarrow> path \<Rightarrow> row io" where
  "checkpoint_status lib m target =
     bindI (observe (\<lambda>fs. (path_exists fs (lineage_head_path target), path_exists fs target))) (\<lambda>(head_there, legacy_there).
     if \<not> head_there then
       ret (status_start target False legacy_there False JNull False [] @
         [(''mode'', JStr (if legacy_there then ''legacy-unbound'' else ''empty''))] @
         (if legacy_there then
            [(''legacy_unbound_present'', JBool True), (''config_binding'', JStr ''legacy-unbound''),
             (''legacy_load_policy'', JStr LEGACY_LOAD_POLICY), (''requires_explicit_legacy_authorization'', JBool True),
             (''loadable_with_explicit_legacy_authorization'', JBool True)]
          else []))
     else
       bindI (attempt (read_checkpoint_head lib target)) (\<lambda>read.
       case read of
         Inl e \<Rightarrow>
           ret (status_start target True legacy_there False JNull False [] @
             [(''mode'', JStr ''generation''), (''head_error'', JStr (exc_str e))])
       | Inr head \<Rightarrow>
           bindI (status_roles lib m target head (candidates head)) (\<lambda>entries.
           let valid = filter (\<lambda>(role_id, checked). case checked of Inl e \<Rightarrow> False | Inr manifest \<Rightarrow> True) entries;
               selected = (case valid of [] \<Rightarrow> None | (role_id, checked) # _ \<Rightarrow> Some role_id) in
           ret (status_start target True legacy_there (selected \<noteq> None)
                  (case selected of None \<Rightarrow> JNull | Some role_id \<Rightarrow> JStr (snd role_id))
                  (case selected of None \<Rightarrow> False | Some role_id \<Rightarrow> fst role_id = ''previous'')
                  (map (\<lambda>(role_id, checked). status_entry role_id checked) entries) @
                [(''mode'', JStr ''generation''),
                 (''head'', JObj (map (\<lambda>k. (k, jget head k)) [''schema_version'', ''protocol_version'', ''commit_id'',
                     ''commit_seq'', ''current_generation'', ''previous_generation'']))]))))"

subsection \<open>The runtime around a model\<close>

text \<open>
  \<open>Runtime.__call__\<close>, with the loop it runs (\<open>train\<close> or \<open>chat\<close>) as a parameter.  The runtime passes its path
  to the audit as it is; here that is the absolute path.
\<close>

definition finallyA :: "('m, 'x) act \<Rightarrow> ('m, unit) act \<Rightarrow> ('m, 'x) act" where
  "finallyA a c = bindA (attemptA a) (\<lambda>r. bindA c (\<lambda>_. doA (lift r)))"

definition runtime_refused :: "pyexc" where
  "runtime_refused = ValueError (''Legacy-unbound override is inspection/non-authoritative mode. '' @
     ''Use --no-save. Authoritative persistence is refused.'')"

definition runtime_call ::
  "('a, 't) array_library \<Rightarrow> path \<Rightarrow> (('a, 't) model, unit) act \<Rightarrow> bool \<Rightarrow> bool \<Rightarrow> (('a, 't) model, unit) act" where
  "runtime_call lib target loop saving allow_legacy_unbound =
     bindA (load lib target allow_legacy_unbound) (\<lambda>_. viewA (\<lambda>m.
     if saving \<and> md_taint m then
       bindA (doA (append_audit lib target ''runtime_save_refused_legacy_unbound_taint''
                [(''legacy_unbound_source'', opt_id (md_taint_source m))])) (\<lambda>_.
       doA (throw runtime_refused))
     else finallyA loop (if saving then save lib target else doA (ret ()))))"

end
