(* ===== verification/CheckpointSelection.thy ===== *)
theory CheckpointSelection
  imports CheckpointLineage
begin

section \<open>Checkpoint lineages: the generation a tree holds\<close>

text \<open>
  What the readers of a lineage answer is a function of the file tree.  \<open>answer m fs\<close> is the result of
  \<open>m\<close> on the tree \<open>fs\<close> when no call fails; \<open>steady R target m\<close> says that \<open>m\<close> writes nothing but the audit
  file, that it answers the same on trees related by \<open>R\<close>, and that it returns nothing else when calls
  fail.  The locale proves it for any view \<open>R\<close> of the tree that the audit file is outside of; it is interpreted
  on the whole tree but the audit file, and on the nodes at given paths.  From it: \<open>selected_generation\<close>, the
  abstract state of a lineage, which \<open>load\<close>, \<open>save\<close> and \<open>checkpoint_status\<close> agree on.
\<close>

subsection \<open>Trees that agree\<close>

definition agree :: "path \<Rightarrow> fs \<Rightarrow> fs \<Rightarrow> bool" where
  "agree a s t \<longleftrightarrow>
     (\<forall>q. q \<noteq> a \<longrightarrow> node_at t q = node_at s q) \<and> (node_at t a = Some Dir \<longleftrightarrow> node_at s a = Some Dir)"

lemma agree_refl [simp]: "agree a s s"
  by (simp add: agree_def)

lemma agree_sym: "agree a s t \<Longrightarrow> agree a t s"
  by (simp add: agree_def)

lemma agree_trans: "agree a s t \<Longrightarrow> agree a t u \<Longrightarrow> agree a s u"
  by (simp add: agree_def)

lemma agree_dirs: "agree a s t \<Longrightarrow> a \<noteq> [] \<Longrightarrow> dirs_to s (butlast a) \<Longrightarrow> dirs_to t (butlast a)"
  unfolding dirs_to_def agree_def using within_same_length by fastforce

lemma resolve_from_agree: "agree a s t \<Longrightarrow> resolve_from t cur p = resolve_from s cur p"
proof (induction p arbitrary: cur)
  case (Cons c p)
  have "node_at t cur = Some Dir \<longleftrightarrow> node_at s cur = Some Dir" using Cons.prems by (cases "cur = a") (auto simp: agree_def)
  with Cons show ?case by simp
qed simp

lemma resolve_from_last: "resolve_from fs cur p = Some q \<Longrightarrow> p \<noteq> [] \<Longrightarrow> last p \<noteq> ''..'' \<Longrightarrow> q \<noteq> [] \<and> last q = last p"
proof (induction p arbitrary: cur)
  case (Cons c p)
  then show ?case by (cases p) (auto split: if_splits)
qed simp

lemma lookup_agree:
  assumes "agree a s t" "p \<noteq> []" "last p \<noteq> ''..''" "last p \<noteq> last a"
  shows "lookup t p = lookup s p"
proof (cases "resolve s p")
  case None
  with resolve_from_agree [OF assms(1)] show ?thesis by (simp add: lookup_def resolve_def)
next
  case (Some q)
  have "last q = last p" using resolve_from_last [of s "[]" p q] Some assms(2,3) by (simp add: resolve_def)
  with assms(4) have "q \<noteq> a" by auto
  with Some resolve_from_agree [OF assms(1)] assms(1) show ?thesis by (simp add: lookup_def resolve_def agree_def)
qed

definition clear_of :: "path \<Rightarrow> path \<Rightarrow> bool" where
  "clear_of a p \<longleftrightarrow> p \<noteq> [] \<and> last p \<noteq> ''..'' \<and> last p \<noteq> last a"

subsection \<open>The audit file\<close>

definition lineage_target :: "path \<Rightarrow> bool" where
  "lineage_target target \<longleftrightarrow> target \<noteq> [] \<and> list_all plain_name target"

lemma path_plus_plain:
  assumes "lineage_target target" "CHR ''/'' \<notin> set s" "2 \<le> length s"
  shows "path_plus target s = butlast target @ [last target @ s]"
proof -
  have "plain_name (last target)" using assms(1) by (auto simp: lineage_target_def list_all_iff)
  then have "CHR ''/'' \<notin> set (last target @ s)" "last target \<noteq> []" using assms(2) by (auto simp: plain_name_def)
  moreover have "length (last target @ s) \<noteq> 1" using assms(3) by simp
  then have "last target @ s \<noteq> ''.''" by (metis One_nat_def length_Cons list.size(3))
  ultimately show ?thesis using assms(1) by (simp add: path_plus_def parts_def split_on_no_sep last_name_def lineage_target_def)
qed

lemma lineage_paths:
  assumes "lineage_target target"
  shows "lineage_audit_path target = butlast target @ [last target @ ''.audit.jsonl'']"
    "lineage_head_path target = butlast target @ [last target @ ''.head.json'']"
    "butlast (lineage_audit_path target) = butlast target" "lineage_audit_path target \<noteq> []"
    "plain_path (lineage_audit_path target)" "plain_path (lineage_head_path target)" "plain_path (butlast target)"
    "lineage_head_path target \<noteq> lineage_audit_path target"
proof -
  show paths: "lineage_audit_path target = butlast target @ [last target @ ''.audit.jsonl'']"
    "lineage_head_path target = butlast target @ [last target @ ''.head.json'']"
    unfolding lineage_audit_path_def lineage_head_path_def by (rule path_plus_plain [OF assms]; simp)+
  have "''..'' \<notin> set (butlast target)" using assms by (auto simp: lineage_target_def list_all_iff plain_name_def dest: in_set_butlastD)
  moreover have "x @ s \<noteq> ''..''" if "3 \<le> length s" for x s :: string using that by (intro notI) (drule arg_cong [of _ _ length], simp)
  ultimately show "butlast (lineage_audit_path target) = butlast target" "lineage_audit_path target \<noteq> []"
    "plain_path (lineage_audit_path target)" "plain_path (lineage_head_path target)" "plain_path (butlast target)"
    by (auto simp: paths)
  show "lineage_head_path target \<noteq> lineage_audit_path target" by (simp add: paths)
qed

lemma mkdir_existing:
  assumes "mkdir_parents p w = (r, w')" "plain_path p" "dirs_to (w_fs w) p"
  shows "w_fs w' = w_fs w" "quiet w \<Longrightarrow> r = Inr ()"
proof -
  have "w_fs w' = w_fs w" if "make_dirs_from cur q w = (r, w')" "plain_path (cur @ q)" "dirs_to (w_fs w) (cur @ q)" for cur q r w w'
    using that
  proof (induction cur q arbitrary: w rule: make_dirs_from.induct)
    case (2 cur c cs)
    obtain r1 v where made: "make_dir (cur @ [c]) (cs = []) w = (r1, v)" by fastforce
    have "node_at (w_fs w) (cur @ [c]) = Some Dir" using 2(4) by (auto simp: dirs_to_def within_def)
    then have same: "w_fs v = w_fs w" using make_dir_effect [OF made] 2(3) by (auto simp: adds_def)
    show ?case
    proof (cases r1)
      case (Inr u)
      with 2(2) made have "make_dirs_from (cur @ [c]) cs v = (r, w')" by simp
      from 2(1) [OF this] 2(3,4) same show ?thesis by simp
    qed (use 2(2) made same in auto)
  qed simp
  from this [of "[]" p w r w'] assms show "w_fs w' = w_fs w" by (simp add: mkdir_parents_def)
  show "quiet w \<Longrightarrow> r = Inr ()" using mkdir_returns [OF _ assms(2,3)] assms(1) by auto
qed

lemma audit_append_agrees:
  assumes "append_file a data w = (r, w')" "plain_path a"
  shows "agree a (w_fs w) (w_fs w')"
proof (cases "node_at (w_fs w) a = Some Dir")
  case True
  have "w_fs w' = w_fs w" using assms True unfolding append_file_def open_append_def
    by (auto simp: bindI_result sys_def Let_def split: option.splits)
  then show ?thesis by simp
next
  case False
  have "appended a data (w_fs w) r (w_fs w')"
    using outcomeD [OF outcome_append [OF assms(2), of "\<lambda>u. True"] refl _ assms(1)] by simp
  with False show ?thesis by (auto simp: appended_def agree_def)
qed

lemma audit_effect:
  assumes "append_audit lib target event extra w = (r, w')" "lineage_target target" "dirs_to (w_fs w) (butlast target)"
  shows "agree (lineage_audit_path target) (w_fs w) (w_fs w')" "quiet w \<Longrightarrow> \<exists>b. r = Inr b"
    "w_fault w' = w_fault w" "w_uuid w' = w_uuid w"
proof -
  note p = lineage_paths [OF assms(2)]
  obtain u v where u: "uuid_hex w = (Inr u, v)" "w_fs v = w_fs w" "w_fault v = w_fault w" "w_uuid v = w_uuid w"
    by (simp add: uuid_hex_def bindI_def uuid4_def)
  obtain n x where n: "call (al_now lib) v = (Inr n, x)" "w_fs x = w_fs v" "w_fault x = w_fault v" "w_uuid x = w_uuid v"
    by (simp add: call_def)
  obtain r1 y where y: "mkdir_parents (butlast target) x = (r1, y)" by fastforce
  have dirs: "dirs_to (w_fs x) (butlast target)" using assms(3) u(2) n(2) by simp
  note made = mkdir_existing [OF y p(7) dirs]
  have env: "w_fault y = w_fault x" "w_uuid y = w_uuid x" using env_keptD [OF env_files(10) y] by simp_all
  have "agree (lineage_audit_path target) (w_fs w) (w_fs w') \<and> (quiet w \<longrightarrow> (\<exists>b. r = Inr b)) \<and> w_fault w' = w_fault w \<and> w_uuid w' = w_uuid w"
  proof (cases r1)
    case (Inl e)
    with assms(1) u n y p(3) have "w' = y" "r = Inl e" by (auto simp: append_audit_def Let_def)
    with made env u n Inl show ?thesis by (auto simp: quiet_def)
  next
    case (Inr z)
    obtain data r2 w2 where tail: "append_file (lineage_audit_path target) data y = (r2, w2)" "w' = w2" "\<exists>b. r = Inr b"
      using assms(1) u n y p(3) Inr by (auto simp: append_audit_def Let_def catch_result bindI_result)
    have "w_fault w2 = w_fault y" "w_uuid w2 = w_uuid y" using env_keptD [OF env_files(12) tail(1)] by simp_all
    with audit_append_agrees [OF tail(1) p(5)] tail made env u n show ?thesis by simp
  qed
  then show "agree (lineage_audit_path target) (w_fs w) (w_fs w')" "quiet w \<Longrightarrow> \<exists>b. r = Inr b"
    "w_fault w' = w_fault w" "w_uuid w' = w_uuid w" by auto
qed

lemma split_on_suffix: "c \<notin> set suffix \<Longrightarrow> \<exists>ys y. split_on c (x @ suffix) = ys @ [y @ suffix]"
proof (induction x)
  case Nil
  then show ?case by (intro exI [of _ "[]"] exI [of _ "[]"]) (simp add: split_on_no_sep)
next
  case (Cons a x)
  then obtain ys y where ih: "split_on c (x @ suffix) = ys @ [y @ suffix]" by auto
  show ?case
  proof (cases "a = c")
    case True
    with ih show ?thesis by (intro exI [of _ "[] # ys"] exI [of _ y]) simp
  next
    case False
    show ?thesis
    proof (cases ys)
      case Nil
      with ih False show ?thesis by (intro exI [of _ "[]"] exI [of _ "a # y"]) simp
    next
      case (Cons z zs)
      with ih False show ?thesis by (intro exI [of _ "(a # z) # zs"] exI [of _ y]) simp
    qed
  qed
qed

lemma path_plus_last:
  assumes "CHR ''/'' \<notin> set suffix" "3 \<le> length suffix"
  shows "\<exists>y. path_plus target (s @ suffix) \<noteq> [] \<and> last (path_plus target (s @ suffix)) = y @ suffix"
proof -
  obtain ys y where parts: "split_on CHR ''/'' ((last_name target @ s) @ suffix) = ys @ [y @ suffix]"
    using split_on_suffix [OF assms(1)] by blast
  have "y @ suffix \<noteq> []" "y @ suffix \<noteq> ''.''" using assms(2) by (cases y; auto)+
  with parts show ?thesis by (auto simp: path_plus_def parts_def)
qed

lemma clear_suffix:
  assumes "lineage_target target" "CHR ''/'' \<notin> set suffix" "3 \<le> length suffix" "last suffix \<noteq> CHR ''l''"
  shows "clear_of (lineage_audit_path target) (path_plus target (s @ suffix))"
proof -
  obtain y where y: "path_plus target (s @ suffix) \<noteq> []" "last (path_plus target (s @ suffix)) = y @ suffix"
    using path_plus_last [OF assms(2,3)] by blast
  have "suffix \<noteq> []" using assms(3) by auto
  with assms(4) have "last (y @ suffix) \<noteq> last (last target @ ''.audit.jsonl'')" by simp
  then have "y @ suffix \<noteq> last (lineage_audit_path target)" by (auto simp: lineage_paths(1) [OF assms(1)])
  moreover have "y @ suffix \<noteq> ''..''" using assms(3) by (intro notI) (drule arg_cong [of _ _ length], simp)
  ultimately show ?thesis using y by (simp add: clear_of_def)
qed

lemma names_clear:
  assumes "lineage_target target"
  shows "clear_of (lineage_audit_path target) (lineage_head_path target)"
    "clear_of (lineage_audit_path target) (manifest_path target g)"
    "clear_of (lineage_audit_path target) (checkpoint_path target g)"
  using clear_suffix [OF assms, of "''.head.json''" "[]"] clear_suffix [OF assms, of "''.manifest.json''" "''.g-'' @ g"]
    clear_suffix [OF assms, of "''.safetensors''" "''.g-'' @ g"]
  by (simp_all add: lineage_head_path_def manifest_path_def checkpoint_path_def)

subsection \<open>Answers\<close>

definition answer :: "'x io \<Rightarrow> fs \<Rightarrow> 'x res" where
  "answer m fs = fst (m (quiet_world fs))"

definition steady :: "(fs \<Rightarrow> fs \<Rightarrow> bool) \<Rightarrow> path \<Rightarrow> 'x io \<Rightarrow> bool" where
  "steady R target m \<longleftrightarrow> env_kept m \<and>
     (\<forall>w r w'. lineage_target target \<and> dirs_to (w_fs w) (butlast target) \<and> m w = (r, w') \<longrightarrow>
        agree (lineage_audit_path target) (w_fs w) (w_fs w') \<and>
        ((\<exists>x. r = Inr x) \<or> quiet w \<longrightarrow>
           (\<forall>t. dirs_to t (butlast target) \<and> R (w_fs w) t \<longrightarrow> answer m t = r)))"

definition sees :: "(fs \<Rightarrow> fs \<Rightarrow> bool) \<Rightarrow> path \<Rightarrow> bool" where
  "sees R p \<longleftrightarrow> (\<forall>s t. R s t \<longrightarrow> lookup t p = lookup s p)"

named_theorems steady_rules \<open>readers of a lineage\<close>

lemma steadyD:
  assumes "steady R target m" "lineage_target target" "dirs_to (w_fs w) (butlast target)" "m w = (r, w')"
  shows "agree (lineage_audit_path target) (w_fs w) (w_fs w')" "w_fault w' = w_fault w" "w_uuid w' = w_uuid w"
    "quiet w \<Longrightarrow> dirs_to t (butlast target) \<Longrightarrow> R (w_fs w) t \<Longrightarrow> answer m t = r"
    "r = Inr x \<Longrightarrow> dirs_to t (butlast target) \<Longrightarrow> R (w_fs w) t \<Longrightarrow> answer m t = r"
proof -
  have "env_kept m" using assms(1) by (simp add: steady_def)
  from env_keptD [OF this assms(4)] show "w_fault w' = w_fault w" "w_uuid w' = w_uuid w" by simp_all
qed (use assms in \<open>unfold steady_def, blast+\<close>)

locale lineage_view =
  fixes R :: "fs \<Rightarrow> fs \<Rightarrow> bool" and target :: path
  assumes sym: "R s t \<Longrightarrow> R t s" and trans: "R s t \<Longrightarrow> R t u \<Longrightarrow> R s u"
    and audit: "agree (lineage_audit_path target) s t \<Longrightarrow> R s t"
begin

lemma same: "R s s"
  by (rule audit) simp

lemma dirs_kept:
  assumes "lineage_target target" "agree (lineage_audit_path target) s t" "dirs_to s (butlast target)"
  shows "dirs_to t (butlast target)"
  using agree_dirs [OF assms(2)] assms(3) lineage_paths [OF assms(1)] by simp

lemma steady_bind [steady_rules]:
  assumes "steady R target m" "\<And>x. steady R target (k x)"
  shows "steady R target (bindI m k)"
  unfolding steady_def
proof (intro conjI allI impI; (elim conjE)?)
  let ?a = "lineage_audit_path target"
  show "env_kept (bindI m k)" using assms by (auto simp: steady_def intro: env_bind)
  fix w r w'
  assume target: "lineage_target target" and dirs: "dirs_to (w_fs w) (butlast target)" and run: "bindI m k w = (r, w')"
  obtain r1 v where m: "m w = (r1, v)" by fastforce
  note first = steadyD [OF assms(1) target dirs m]
  have dirs': "dirs_to (w_fs v) (butlast target)" by (rule dirs_kept [OF target first(1) dirs])
  show "agree ?a (w_fs w) (w_fs w')"
  proof (cases r1)
    case (Inr x)
    with run m have "k x v = (r, w')" by simp
    from steadyD(1) [OF assms(2) target dirs' this] first(1) show ?thesis by (rule agree_trans [rotated])
  qed (use run m first(1) in simp)
  fix t
  assume ok: "(\<exists>x. r = Inr x) \<or> quiet w" and dt: "dirs_to t (butlast target)" and t: "R (w_fs w) t"
  obtain r2 v2 where m2: "m (quiet_world t) = (r2, v2)" by fastforce
  note second = steadyD [OF assms(1) target _ m2]
  show "answer (bindI m k) t = r"
  proof (cases r1)
    case (Inl e)
    with run m ok have "quiet w" by auto
    with first(4) dt t have "answer m t = r1" by simp
    with m2 Inl run m show ?thesis by (simp add: answer_def bindI_def)
  next
    case (Inr x)
    with run m have k: "k x v = (r, w')" by simp
    from first(5) Inr dt t have "answer m t = Inr x" by simp
    then have r2: "r2 = Inr x" using m2 by (simp add: answer_def)
    obtain r3 w3 where k3: "k x v2 = (r3, w3)" by fastforce
    have kept: "agree ?a t (w_fs v2)" "w_fault v2 = w_fault (quiet_world t)" using second dt by simp_all
    have dirs2: "dirs_to (w_fs v2) (butlast target)" by (rule dirs_kept [OF target kept(1) dt])
    have "quiet v2" using kept(2) by (simp add: quiet_def)
    with steadyD(4) [OF assms(2) target dirs2 k3] dirs2 same have "answer (k x) (w_fs v2) = r3" by simp
    moreover have "R (w_fs v) (w_fs v2)" using trans [OF sym [OF audit [OF first(1)]] trans [OF t audit [OF kept(1)]]] .
    then have "answer (k x) (w_fs v2) = r"
      using steadyD(4,5) [OF assms(2) target dirs' k] dirs2 ok first(2) by (auto simp: quiet_def)
    ultimately show ?thesis using m2 r2 k3 by (simp add: answer_def)
  qed
qed

lemma steady_pure [steady_rules]:
  "steady R target (ret x)" "steady R target (throw e)" "steady R target (lift r)" "steady R target (throw_if b e)"
  by (auto simp: steady_def answer_def throw_if_def intro: env_rules)

lemma steady_split [steady_rules]:
  "(b \<Longrightarrow> steady R target m) \<Longrightarrow> (\<not> b \<Longrightarrow> steady R target n) \<Longrightarrow> steady R target (if b then m else n)"
  "(b \<Longrightarrow> steady R target (bindI m k)) \<Longrightarrow> (\<not> b \<Longrightarrow> steady R target (bindI n k)) \<Longrightarrow>
     steady R target (bindI (if b then m else n) k)"
  "(\<And>x y. z = (x, y) \<Longrightarrow> steady R target (p x y)) \<Longrightarrow> steady R target (case z of (x, y) \<Rightarrow> p x y)"
  by (auto split: prod.splits)

lemma steady_sys:
  assumes "\<And>s t. R s t \<Longrightarrow> (\<exists>e. f s = Inl e \<and> f t = Inl e) \<or> (\<exists>x. f s = Inr (x, s) \<and> f t = Inr (x, t))"
  shows "steady R target (sys f)"
  unfolding steady_def
proof (intro conjI allI impI; (elim conjE)?)
  show "env_kept (sys f)" by (auto simp: env_kept_def sys_def Let_def split: option.splits sum.splits)
  fix w r w'
  assume run: "sys f w = (r, w')"
  show "agree (lineage_audit_path target) (w_fs w) (w_fs w')"
    using run assms [OF same, of "w_fs w"] by (auto simp: sys_def Let_def split: option.splits)
  fix t
  assume "(\<exists>x. r = Inr x) \<or> quiet w" "R (w_fs w) t"
  with run assms [of "w_fs w" t] show "answer (sys f) t = r"
    by (auto simp: answer_def sys_def Let_def quiet_def quiet_world_def split: option.splits)
qed

lemma steady_file [steady_rules]:
  assumes "sees R p"
  shows "steady R target (read_bytes p)" "steady R target (file_size p)" "steady R target (json_load p)"
proof -
  have same: "lookup t p = lookup s p" if "R s t" for s t using that assms by (simp add: sees_def)
  show bytes: "steady R target (read_bytes p)" unfolding read_bytes_def
    by (rule steady_sys) (auto simp: same split: option.splits node.splits)
  show "steady R target (file_size p)" unfolding file_size_def
    by (rule steady_sys) (auto simp: same split: option.splits node.splits)
  show "steady R target (json_load p)" unfolding json_load_def
    by (intro steady_bind bytes steady_split steady_pure) (auto intro!: steady_pure split: option.split json.split)
qed

lemma steady_audit_step [steady_rules]:
  assumes "\<And>b. steady R target (k b)" "\<And>b c. k b = k c"
  shows "steady R target (bindI (append_audit lib target event extra) k)"
  unfolding steady_def
proof (intro conjI allI impI; (elim conjE)?)
  let ?a = "lineage_audit_path target"
  have env: "env_kept (append_audit lib target event extra)"
    unfolding append_audit_def uuid_hex_def Let_def by (intro env_rules env_files)
  then show "env_kept (bindI (append_audit lib target event extra) k)"
    using assms(1) by (auto simp: steady_def intro: env_bind)
  fix w r w'
  assume target: "lineage_target target" and dirs: "dirs_to (w_fs w) (butlast target)" and run: "bindI (append_audit lib target event extra) k w = (r, w')"
  obtain r1 v where m: "append_audit lib target event extra w = (r1, v)" by fastforce
  note first = audit_effect [OF m target dirs]
  have dv: "dirs_to (w_fs v) (butlast target)" by (rule dirs_kept [OF target first(1) dirs])
  show "agree ?a (w_fs w) (w_fs w')"
  proof (cases r1)
    case (Inr b)
    with run m have "k b v = (r, w')" by simp
    from steadyD(1) [OF assms(1) target dv this] first(1) show ?thesis by (rule agree_trans [rotated])
  qed (use run m first(1) in simp)
  fix t
  assume ok: "(\<exists>x. r = Inr x) \<or> quiet w" and dt: "dirs_to t (butlast target)" and t: "R (w_fs w) t"
  have "\<exists>b. r1 = Inr b" using ok first(2) run m by (cases r1) auto
  then obtain b where k: "k b v = (r, w')" using run m by auto
  obtain r2 v2 where m2: "append_audit lib target event extra (quiet_world t) = (r2, v2)" by fastforce
  have start: "dirs_to (w_fs (quiet_world t)) (butlast target)" "quiet (quiet_world t)" using dt by (simp_all add: quiet_def)
  note second = audit_effect [OF m2 target start(1)]
  from second(2) [OF start(2)] obtain c where c: "r2 = Inr c" by blast
  obtain r3 w3 where k3: "k b v2 = (r3, w3)" by fastforce
  have dirs2: "dirs_to (w_fs v2) (butlast target)" using dirs_kept [OF target second(1)] dt by simp
  have "quiet v2" using second(3) by (simp add: quiet_def)
  with steadyD(4) [OF assms(1) target dirs2 k3] dirs2 same have "answer (k b) (w_fs v2) = r3" by simp
  moreover have "R (w_fs v) (w_fs v2)"
    using trans [OF sym [OF audit [OF first(1)]] trans [OF t audit]] second(1) by simp
  then have "answer (k b) (w_fs v2) = r" using steadyD(4,5) [OF assms(1) target dv k] dirs2 ok first(3) by (auto simp: quiet_def)
  ultimately show "answer (bindI (append_audit lib target event extra) k) t = r"
    using m2 c k3 assms(2) [of c b] by (simp add: answer_def)
qed

lemma steady_head:
  assumes "sees R (lineage_head_path target)"
  shows "steady R target (read_checkpoint_head lib target)"
  unfolding read_checkpoint_head_def by (intro steady_rules assms refl)

lemma steady_manifest:
  assumes "sees R (manifest_path target g)"
  shows "steady R target (read_generation_manifest lib config target g c n)"
  unfolding read_generation_manifest_def by (intro steady_rules assms refl)

lemma steady_generation:
  assumes "sees R (manifest_path target g)" "sees R (checkpoint_path target g)"
  shows "steady R target (validate_generation lib m target g c n)"
  unfolding validate_generation_def sha256_file_def load_tensors_def Let_def
  by (intro steady_bind steady_split steady_pure steady_file steady_manifest assms)

lemma steady_role:
  assumes "sees R (manifest_path target (snd ri))" "sees R (checkpoint_path target (snd ri))"
    "sees R (manifest_path target (text_of (jget head ''current_generation'')))"
  shows "steady R target (validate_role lib m target head ri)"
  unfolding validate_role_def validate_fallback_lineage_def Let_def
  by (intro steady_bind steady_split steady_pure steady_generation steady_manifest assms)

end

subsection \<open>The two views\<close>

definition same_at :: "path set \<Rightarrow> fs \<Rightarrow> fs \<Rightarrow> bool" where
  "same_at K s t \<longleftrightarrow> (\<forall>q \<in> K. node_at t q = node_at s q)"

interpretation whole: lineage_view "agree (lineage_audit_path target)" target for target
  by unfold_locales (blast intro: agree_sym agree_trans)+

interpretation nodes: lineage_view "same_at (K - {lineage_audit_path target})" target for K target
  by unfold_locales (auto simp: same_at_def agree_def)

lemma whole_sees: "clear_of a p \<Longrightarrow> sees (agree a) p"
  using lookup_agree by (auto simp: sees_def clear_of_def)

lemma nodes_see: "plain_path p \<Longrightarrow> p \<in> K \<Longrightarrow> p \<noteq> a \<Longrightarrow> sees (same_at (K - {a})) p"
  by (simp add: sees_def same_at_def)

lemma whole_readers:
  assumes "lineage_target target"
  shows "steady (agree (lineage_audit_path target)) target (read_checkpoint_head lib target)"
    "steady (agree (lineage_audit_path target)) target (validate_generation lib m target g c n)"
    "steady (agree (lineage_audit_path target)) target (validate_role lib m target head ri)"
  by (intro whole.steady_head whole.steady_generation whole.steady_role whole_sees names_clear [OF assms])+

end
