(* ===== verification/CheckpointLoading.thy ===== *)
theory CheckpointLoading
  imports CheckpointSelection
begin

section \<open>Checkpoint lineages: what a load does\<close>

text \<open>
  The abstract state of a lineage is the generation its tree selects: the first of the current and the
  previous generation of the HEAD that validates.  \<open>load\<close> applies it, \<open>checkpoint_status\<close> reports it, and a
  load that fails leaves the model as it was.
\<close>

subsection \<open>The selected generation\<close>

fun pick :: "('b \<Rightarrow> 'c res) \<Rightarrow> 'b list \<Rightarrow> ('b \<times> 'c) option" where
  "pick f [] = None"
| "pick f (x # xs) = (case f x of Inl e \<Rightarrow> pick f xs | Inr y \<Rightarrow> Some (x, y))"

definition lineage_head :: "('a, 't) array_library \<Rightarrow> path \<Rightarrow> fs \<Rightarrow> row res" where
  "lineage_head lib target fs = answer (read_checkpoint_head lib target) fs"

definition role_validates ::
  "('a, 't) array_library \<Rightarrow> ('a, 't) model \<Rightarrow> path \<Rightarrow> fs \<Rightarrow> row \<Rightarrow> string \<times> string \<Rightarrow> (('a, 't) loaded_parts \<times> row) res" where
  "role_validates lib m target fs head ri = answer (validate_role lib m target head ri) fs"

definition selected_generation ::
  "('a, 't) array_library \<Rightarrow> ('a, 't) model \<Rightarrow> path \<Rightarrow> fs \<Rightarrow> ((string \<times> string) \<times> ('a, 't) loaded_parts \<times> row) option" where
  "selected_generation lib m target fs =
     (case lineage_head lib target fs of
        Inl e \<Rightarrow> None
      | Inr head \<Rightarrow> pick (role_validates lib m target fs head) (candidates head))"

lemma pick_Some: "pick f xs = Some (x, y) \<Longrightarrow> x \<in> set xs \<and> f x = Inr y"
  by (induction xs) (auto split: sum.splits)

lemma pick_cong: "(\<And>x. x \<in> set xs \<Longrightarrow> f x = g x) \<Longrightarrow> pick f xs = pick g xs"
  by (induction xs) (auto split: sum.splits)

lemma act_runs [simp]:
  "c w = (r, w') \<Longrightarrow> doA c m w = ((r, m), w')"
  "a m w = ((Inr x, m'), w') \<Longrightarrow> bindA a k m w = k x m' w'"
  "a m w = ((Inl e, m'), w') \<Longrightarrow> bindA a k m w = ((Inl e, m'), w')"
  "a m w = ((s, m'), w') \<Longrightarrow> attemptA a m w = ((Inr s, m'), w')"
  "changeA f m w = ((Inr (), f m), w)" "viewA h m w = h m m w"
  by (simp_all add: doA_def bindA_def attemptA_def changeA_def viewA_def)

lemma act_results:
  "doA c m w = ((r, m'), w') \<longleftrightarrow> c w = (r, w') \<and> m' = m"
  "bindA a k m w = ((r, m'), w') \<longleftrightarrow>
     (\<exists>e. a m w = ((Inl e, m'), w') \<and> r = Inl e) \<or> (\<exists>x m1 v. a m w = ((Inr x, m1), v) \<and> k x m1 v = ((r, m'), w'))"
  "attemptA a m w = ((s, m'), w') \<longleftrightarrow> (\<exists>r. s = Inr r \<and> a m w = ((r, m'), w'))"
  by (auto simp: doA_def bindA_def attemptA_def split: prod.splits sum.splits)

text \<open>A reader of the lineage in a world whose tree agrees with \<open>fs\<close> but for the audit file.\<close>

definition lineage_world :: "path \<Rightarrow> fs \<Rightarrow> world \<Rightarrow> bool" where
  "lineage_world target fs w \<longleftrightarrow>
     lineage_target target \<and> dirs_to fs (butlast target) \<and> agree (lineage_audit_path target) fs (w_fs w)"

lemma lineage_world_dirs: "lineage_world target fs w \<Longrightarrow> dirs_to (w_fs w) (butlast target)"
  unfolding lineage_world_def using whole.dirs_kept by blast

lemma lineage_world_here: "lineage_target target \<Longrightarrow> dirs_to (w_fs w) (butlast target) \<Longrightarrow> lineage_world target (w_fs w) w"
  by (simp add: lineage_world_def)

lemma reader_step:
  assumes "lineage_world target fs w" "steady (agree (lineage_audit_path target)) target m" "m w = (r, w')"
  shows "lineage_world target fs w'" "w_fault w' = w_fault w" "quiet w \<Longrightarrow> answer m fs = r" "r = Inr x \<Longrightarrow> answer m fs = r"
proof -
  note at = assms(1) [unfolded lineage_world_def]
  note step = steadyD [OF assms(2) conjunct1 [OF at] lineage_world_dirs [OF assms(1)] assms(3)]
  show "lineage_world target fs w'" using at step(1) agree_trans by (auto simp: lineage_world_def)
  show "w_fault w' = w_fault w" by (rule step(2))
  show "quiet w \<Longrightarrow> answer m fs = r" "r = Inr x \<Longrightarrow> answer m fs = r" using step(4,5) [where t = fs] at agree_sym by auto
qed

lemma audit_step:
  assumes "lineage_world target fs w" "append_audit lib target event extra w = (r, w')"
  shows "lineage_world target fs w'" "w_fault w' = w_fault w" "quiet w \<Longrightarrow> \<exists>b. r = Inr b"
proof -
  note at = assms(1) [unfolded lineage_world_def]
  note step = audit_effect [OF assms(2) conjunct1 [OF at] lineage_world_dirs [OF assms(1)]]
  show "lineage_world target fs w'" using at step(1) agree_trans by (auto simp: lineage_world_def)
qed (use audit_effect [OF assms(2)] lineage_world_dirs [OF assms(1)] assms(1) in \<open>auto simp: lineage_world_def\<close>)

lemma audit_quiet:
  assumes "lineage_world target fs w" "quiet w"
  shows "\<exists>b w'. append_audit lib target event extra w = (Inr b, w') \<and> lineage_world target fs w' \<and> quiet w'"
proof -
  obtain r w' where run: "append_audit lib target event extra w = (r, w')" by fastforce
  note step = audit_step [OF assms(1) run]
  from step(3) [OF assms(2)] obtain b where "r = Inr b" by blast
  with run step assms(2) show ?thesis by (simp add: quiet_def)
qed

lemma reader_quiet:
  assumes "lineage_world target fs w" "quiet w" "steady (agree (lineage_audit_path target)) target m"
  obtains w' where "m w = (answer m fs, w')" "lineage_world target fs w'" "quiet w'"
proof -
  obtain r w' where run: "m w = (r, w')" by fastforce
  note step = reader_step [OF assms(1,3) run]
  with run assms(2) that show thesis by (simp add: quiet_def)
qed

subsection \<open>Loading without failures\<close>

definition loaded_model :: "('a, 't) model \<Rightarrow> row \<Rightarrow> ('a, 't) model" where
  "loaded_model m event = m\<lparr>md_taint := False, md_taint_source := None, md_event := event\<rparr>"

lemma load_first_selects:
  assumes "lineage_world target fs w" "quiet w" "pick (role_validates lib m target fs head) ris = Some (ri, cp, man)"
    and "apply_checkpoint lib cp m = (Inr (), m1)"
  shows "\<exists>errs w'. load_first lib target head ris errors m w =
      ((Inr (), loaded_model m1 (loaded_event head ri man errs)), w') \<and> lineage_world target fs w'"
  using assms(1-3)
proof (induction ris arbitrary: errors w)
  case (Cons x ris)
  have target: "lineage_target target" using Cons.prems(1) by (simp add: lineage_world_def)
  note steady = whole_readers(3) [OF target, of lib m head x]
  obtain w1 where w1: "validate_role lib m target head x w = (role_validates lib m target fs head x, w1)"
    "lineage_world target fs w1" "quiet w1"
    using reader_quiet [OF Cons.prems(1,2) steady] unfolding role_validates_def by blast
  show ?case
  proof (cases "role_validates lib m target fs head x")
    case (Inl e)
    obtain b w2 where w2: "append_audit lib target ''generation_validation_failed'' (failure_fields ''load'' x e) w1 = (Inr b, w2)"
      "lineage_world target fs w2" "quiet w2" using audit_quiet [OF w1(2,3)] by blast
    have "pick (role_validates lib m target fs head) ris = Some (ri, cp, man)" using Cons.prems(3) Inl by simp
    from Cons.IH [OF w2(2,3) this] w1(1) w2(1) Inl show ?thesis by simp
  next
    case (Inr y)
    then have y: "x = ri" "y = (cp, man)" using Cons.prems(3) by simp_all
    have "\<exists>b w2. report_loaded lib target head x w1 = (Inr b, w2) \<and> lineage_world target fs w2"
      unfolding report_loaded_def using audit_quiet [OF w1(2,3)] by (cases "fst x = ''previous''") (simp, blast)+
    then obtain b w2 where w2: "report_loaded lib target head x w1 = (Inr b, w2)" "lineage_world target fs w2" by blast
    have "attemptA (applyA lib cp) m w1 = ((Inr (Inr ()), m1), w1)" using assms(4) by (simp add: applyA_def)
    with w1(1) w2 Inr y show ?thesis by (simp add: loaded_model_def) blast
  qed
qed simp

lemma load_first_none:
  assumes "lineage_world target fs w" "quiet w" "pick (role_validates lib m target fs head) ris = None"
  shows "\<exists>msg w'. load_first lib target head ris errors m w = ((Inl (ValueError msg), m), w') \<and> lineage_world target fs w'"
  using assms
proof (induction ris arbitrary: errors w)
  case Nil
  obtain b w1 where "append_audit lib target ''load_failed''
      [(''commit_id'', jget head ''commit_id''), (''errors'', JList (map JStr errors))] w = (Inr b, w1)"
    "lineage_world target fs w1" using audit_quiet [OF Nil(1,2)] by blast
  then show ?case by simp
next
  case (Cons x ris)
  have target: "lineage_target target" using Cons.prems(1) by (simp add: lineage_world_def)
  note steady = whole_readers(3) [OF target, of lib m head x]
  obtain w1 where w1: "validate_role lib m target head x w = (role_validates lib m target fs head x, w1)"
    "lineage_world target fs w1" "quiet w1"
    using reader_quiet [OF Cons.prems(1,2) steady] unfolding role_validates_def by blast
  obtain e where e: "role_validates lib m target fs head x = Inl e" "pick (role_validates lib m target fs head) ris = None"
    using Cons.prems(3) by (simp split: sum.splits)
  obtain b w2 where w2: "append_audit lib target ''generation_validation_failed'' (failure_fields ''load'' x e) w1 = (Inr b, w2)"
    "lineage_world target fs w2" "quiet w2" using audit_quiet [OF w1(2,3)] by blast
  from Cons.IH [OF w2(2,3) e(2)] w1(1) w2(1) e(1) show ?case by simp
qed

lemma bytes_read_there: "read_bytes p w = (Inr b, w') \<Longrightarrow> path_exists (w_fs w) p"
  by (auto simp: read_bytes_def sys_Inr path_exists_def split: option.splits)

lemma head_read_there:
  assumes "read_checkpoint_head lib target w = (Inr head, w')"
  shows "path_exists (w_fs w) (lineage_head_path target)"
  using assms unfolding read_checkpoint_head_def json_load_def bindI_Inr by (elim exE conjE) (rule bytes_read_there)

lemma load_selects:
  assumes "quiet w" "lineage_target target" "dirs_to (w_fs w) (butlast target)"
    and "selected_generation lib m target (w_fs w) = Some (ri, cp, man)" "apply_checkpoint lib cp m = (Inr (), m1)"
  shows "\<exists>event w'. load lib target allow m w = ((Inr (), loaded_model m1 event), w') \<and>
    lineage_world target (w_fs w) w'"
proof -
  note here = lineage_world_here [OF assms(2,3)]
  obtain head where head: "lineage_head lib target (w_fs w) = Inr head"
    "pick (role_validates lib m target (w_fs w) head) (candidates head) = Some (ri, cp, man)"
    using assms(4) by (auto simp: selected_generation_def split: sum.splits)
  obtain w1 where w1: "read_checkpoint_head lib target w = (Inr head, w1)" "lineage_world target (w_fs w) w1" "quiet w1"
    using reader_quiet [OF here assms(1) whole_readers(1) [OF assms(2)]] head(1) unfolding lineage_head_def by metis
  have "path_exists (w_fs w) (lineage_head_path target)" by (rule head_read_there [OF w1(1)])
  with load_first_selects [OF w1(2,3) head(2) assms(5), of "[]"] w1(1) show ?thesis by (simp add: load_def) blast
qed

lemma load_finds_nothing:
  assumes "quiet w" "lineage_target target" "dirs_to (w_fs w) (butlast target)"
    and "path_exists (w_fs w) (lineage_head_path target)" "selected_generation lib m target (w_fs w) = None"
  shows "\<exists>e w'. load lib target allow m w = ((Inl e, m), w') \<and> lineage_world target (w_fs w) w'"
proof -
  note here = lineage_world_here [OF assms(2,3)]
  obtain w1 where w1: "read_checkpoint_head lib target w = (lineage_head lib target (w_fs w), w1)"
    "lineage_world target (w_fs w) w1" "quiet w1"
    using reader_quiet [OF here assms(1) whole_readers(1) [OF assms(2)]] unfolding lineage_head_def by metis
  show ?thesis
  proof (cases "lineage_head lib target (w_fs w)")
    case (Inl e)
    with w1 assms(4) show ?thesis by (simp add: load_def)
  next
    case (Inr head)
    with assms(5) have "pick (role_validates lib m target (w_fs w) head) (candidates head) = None"
      by (simp add: selected_generation_def)
    from load_first_none [OF w1(2,3) this, of "[]"] w1(1) Inr assms(4) show ?thesis by (simp add: load_def) blast
  qed
qed

subsection \<open>All or nothing\<close>

text \<open>
  What the array library promises of \<open>Module.update\<close>: given the parameter tree of a module, it restores its
  weights, whatever tree was applied in between; and the state of a module that is alive evaluates.
\<close>

definition update_restores :: "('a, 't) array_library \<Rightarrow> ('a, 't) model \<Rightarrow> bool" where
  "update_restores lib m \<longleftrightarrow> evaluate_all lib m = None \<and>
     (\<forall>tree e weights ls ls'. al_update lib tree (md_weights m, md_layers m) = (e, weights, ls) \<longrightarrow>
        (\<exists>ls''. al_update lib (parameters lib m) (weights, ls') = (None, md_weights m, ls'')))"

lemma install_shape:
  assumes "install_checkpoint lib cp m = (e, m')"
  shows "\<exists>r weights ls t ly. al_update lib (cp_model cp) (md_weights m, md_layers m) = (r, weights, ls) \<and>
    m' = m\<lparr>md_weights := weights, md_optimizer := t, md_layers := ly\<rparr>"
proof -
  obtain r weights ls where up: "al_update lib (cp_model cp) (md_weights m, md_layers m) = (r, weights, ls)"
    by (cases "al_update lib (cp_model cp) (md_weights m, md_layers m)") auto
  obtain r2 ly where set: "set_layers (cp_states cp) (cp_decaytraces cp) (cp_embedtraces cp) 0 ls = (r2, ly)" by fastforce
  let ?opt = "(case cp_opts cp of None \<Rightarrow> md_optimizer m | Some t \<Rightarrow> t)"
  have "m' \<in> {m\<lparr>md_weights := weights, md_layers := ls\<rparr>,
      m\<lparr>md_weights := weights, md_optimizer := ?opt, md_layers := ls\<rparr>,
      m\<lparr>md_weights := weights, md_optimizer := ?opt, md_layers := ly\<rparr>}"
    using assms up set by (cases "cp_opts cp") (auto simp: install_checkpoint_def Let_def split: if_splits)
  then consider "m' = m\<lparr>md_weights := weights, md_optimizer := md_optimizer m, md_layers := ls\<rparr>"
    | ly' where "m' = m\<lparr>md_weights := weights, md_optimizer := ?opt, md_layers := ly'\<rparr>" by auto
  then show ?thesis using up by cases blast+
qed

lemma failed_apply_restores:
  assumes "apply_checkpoint lib cp m = (Inl e, m')" "update_restores lib m"
  shows "m' = m"
proof -
  obtain x m1 where install: "install_checkpoint lib cp m = (Some x, m1)"
    using assms(1) by (auto simp: apply_checkpoint_def split: prod.splits option.splits)
  from install_shape [OF this] obtain r weights ls t ly where
    up: "al_update lib (cp_model cp) (md_weights m, md_layers m) = (r, weights, ls)"
    and m1: "m1 = m\<lparr>md_weights := weights, md_optimizer := t, md_layers := ly\<rparr>" by blast
  from assms(2) up obtain ls'' where again: "al_update lib (parameters lib m) (weights, ly) = (None, md_weights m, ls'')"
    unfolding update_restores_def by blast
  have "restore_live_checkpoint_state lib m m1 = (None, m)"
    using again m1 assms(2) by (simp add: restore_live_checkpoint_state_def update_restores_def)
  with install assms(1) show ?thesis by (simp add: apply_checkpoint_def)
qed

lemma applied: "apply_checkpoint lib cp m = (Inr u, m') \<Longrightarrow> install_checkpoint lib cp m = (None, m')"
  by (auto simp: apply_checkpoint_def split: prod.splits option.splits)

definition took_generation ::
  "('a, 't) array_library \<Rightarrow> ('a, 't) model \<Rightarrow> path \<Rightarrow> fs \<Rightarrow> row \<Rightarrow> (string \<times> string) list \<Rightarrow> ('a, 't) model \<Rightarrow> bool" where
  \<comment> \<open>\<open>m'\<close> is \<open>m\<close> with one of the generations applied, in full, that validates on the tree\<close>
  "took_generation lib m target fs head ris m' \<longleftrightarrow>
     (\<exists>ri cp man m1 event. ri \<in> set ris \<and> role_validates lib m target fs head ri = Inr (cp, man) \<and>
        install_checkpoint lib cp m = (None, m1) \<and> m' = loaded_model m1 event)"

lemma took_later: "took_generation lib m target fs head ris m' \<Longrightarrow> took_generation lib m target fs head (x # ris) m'"
  unfolding took_generation_def by (metis list.set_intros(2))

lemma took_first:
  "role_validates lib m target fs head x = Inr (cp, man) \<Longrightarrow> install_checkpoint lib cp m = (None, m1) \<Longrightarrow>
     took_generation lib m target fs head (x # ris) (loaded_model m1 event)"
  unfolding took_generation_def by (metis list.set_intros(1))

lemma load_first_atomic:
  assumes "lineage_world target fs w" "update_restores lib m" "load_first lib target head ris errors m w = ((r, m'), w')"
  shows "(m' = m \<and> (\<exists>e. r = Inl e) \<or> took_generation lib m target fs head ris m') \<and> lineage_world target fs w'"
  using assms(1,3)
proof (induction ris arbitrary: errors w)
  case Nil
  then show ?case by (auto simp: act_results dest: audit_step(1))
next
  case (Cons x ris)
  have target: "lineage_target target" using Cons.prems(1) by (simp add: lineage_world_def)
  note steady = whole_readers(3) [OF target, of lib m head x]
  obtain r1 w1 where w1: "validate_role lib m target head x w = (r1, w1)" by fastforce
  note at = reader_step [OF Cons.prems(1) steady w1]
  have retry: ?case
    if audit: "append_audit lib target event extra w1 = (r2, w2)"
      and rest: "\<And>b. r2 = Inr b \<Longrightarrow> load_first lib target head ris errors' m w2 = ((r, m'), w')"
      and stop: "\<And>e. r2 = Inl e \<Longrightarrow> m' = m \<and> r = Inl e \<and> w' = w2" for event extra r2 w2 errors'
  proof (cases r2)
    case (Inl e)
    with stop audit_step(1) [OF at(1) audit] show ?thesis by simp
  next
    case (Inr b)
    from Cons.IH [OF audit_step(1) [OF at(1) audit] rest [OF Inr]] show ?thesis using took_later by blast
  qed
  show ?case
  proof (cases r1)
    case (Inl e)
    obtain r2 w2 where w2: "append_audit lib target ''generation_validation_failed'' (failure_fields ''load'' x e) w1 = (r2, w2)"
      by fastforce
    show ?thesis by (rule retry [OF w2]) (use Cons.prems(2) w1 w2 Inl in \<open>auto simp: act_results\<close>)
  next
    case (Inr y)
    obtain cp man where y: "y = (cp, man)" by fastforce
    have valid: "role_validates lib m target fs head x = Inr (cp, man)" using at(4) Inr y by (simp add: role_validates_def)
    obtain r3 m3 where ap: "apply_checkpoint lib cp m = (r3, m3)" by fastforce
    show ?thesis
    proof (cases r3)
      case (Inl e)
      have same: "m3 = m" using failed_apply_restores [OF _ assms(2)] ap Inl by simp
      obtain r2 w2 where w2: "append_audit lib target ''generation_apply_failed_rolled_back'' (failure_fields ''load'' x e) w1 = (r2, w2)"
        by fastforce
      show ?thesis by (rule retry [OF w2]) (use Cons.prems(2) w1 w2 Inr y ap Inl same in \<open>auto simp: act_results applyA_def\<close>)
    next
      case (Inr u)
      have "m' = loaded_model m3 (loaded_event head x man errors) \<and> (\<exists>r4. report_loaded lib target head x w1 = (r4, w'))"
        using Cons.prems(2) w1 \<open>r1 = Inr y\<close> y ap Inr by (auto simp: act_results applyA_def loaded_model_def)
      then have "m' = loaded_model m3 (loaded_event head x man errors)" "lineage_world target fs w'"
        using audit_step(1) [OF at(1)] by (auto simp: report_loaded_def split: if_splits)
      with took_first [OF valid applied] ap Inr show ?thesis by auto
    qed
  qed
qed

lemma load_legacy_atomic:
  assumes "lineage_world target fs w" "update_restores lib m" "load_legacy lib target allow m w = ((r, m'), w')"
  shows "(m' = m \<and> (\<exists>e. r = Inl e) \<or>
      (allow \<and> md_taint m' \<and> (\<exists>data cp m1. checkpoint_parts lib m data = Inr cp \<and> install_checkpoint lib cp m = (None, m1) \<and>
         m' = m1\<lparr>md_taint := True, md_taint_source := Some (path_text target), md_event := legacy_event\<rparr>))) \<and>
    lineage_world target fs w'"
proof (cases allow)
  case False
  then show ?thesis using assms(1,3)
    by (auto simp: load_legacy_def act_results dest: audit_step(1))
next
  case True
  have frame: "w_fs v = w_fs w" if "load_tensors lib target w = (r1, v)" for r1 v
    using that keeps_same [OF read_bytes_frame] by (auto simp: load_tensors_def bindI_result)
  have at: "lineage_world target fs v" if "w_fs v = w_fs w" for v using assms(1) that by (simp add: lineage_world_def)
  from assms(3) True consider
      (unread) v e where "load_tensors lib target w = (Inl e, v)" "m' = m" "r = Inl e" "w' = v"
    | (unsound) v data e where "load_tensors lib target w = (Inr data, v)" "m' = m" "r = Inl e" "w' = v"
    | (unapplied) v data cp e where "load_tensors lib target w = (Inr data, v)" "apply_checkpoint lib cp m = (Inl e, m')" "r = Inl e" "w' = v"
    | (taken) v data cp m1 ra where "load_tensors lib target w = (Inr data, v)" "checkpoint_parts lib m data = Inr cp"
        "apply_checkpoint lib cp m = (Inr (), m1)"
        "append_audit lib target ''load_legacy_single_file_authorized'' [(''legacy_load_policy'', JStr LEGACY_LOAD_POLICY)] v = (ra, w')"
        "m' = m1\<lparr>md_taint := True, md_taint_source := Some (path_text target), md_event := legacy_event\<rparr>"
    by (auto simp: load_legacy_def act_results applyA_def)
  then show ?thesis
  proof cases
    case unread
    with at frame show ?thesis by simp
  next
    case unsound
    with at frame show ?thesis by simp
  next
    case unapplied
    with at frame failed_apply_restores [OF unapplied(2) assms(2)] show ?thesis by simp
  next
    case taken
    have "install_checkpoint lib cp m = (None, m1)" "md_taint m'" using applied [OF taken(3)] taken(5) by simp_all
    then have "allow \<and> md_taint m' \<and> (\<exists>data cp m1. checkpoint_parts lib m data = Inr cp \<and> install_checkpoint lib cp m = (None, m1) \<and>
        m' = m1\<lparr>md_taint := True, md_taint_source := Some (path_text target), md_event := legacy_event\<rparr>)"
      using True taken(2,5) by blast
    with audit_step(1) [OF at [OF frame [OF taken(1)]] taken(4)] show ?thesis by blast
  qed
qed

lemma load_cases:
  assumes "load lib target allow m w = ((r, m'), w')" "lineage_target target" "dirs_to (w_fs w) (butlast target)"
  obtains (head) rh v where "path_exists (w_fs w) (lineage_head_path target)" "read_checkpoint_head lib target w = (rh, v)"
      "lineage_world target (w_fs w) v" "\<And>e. rh = Inl e \<Longrightarrow> r = Inl e \<and> m' = m \<and> w' = v"
      "\<And>head. rh = Inr head \<Longrightarrow> lineage_head lib target (w_fs w) = Inr head \<and>
         load_first lib target head (candidates head) [] m v = ((r, m'), w')"
    | (nothing) "\<not> path_exists (w_fs w) (lineage_head_path target)" "\<not> path_exists (w_fs w) target" "r = Inr ()" "m' = m" "w' = w"
    | (legacy) "\<not> path_exists (w_fs w) (lineage_head_path target)" "path_exists (w_fs w) target"
        "load_legacy lib target allow m w = ((r, m'), w')"
proof (cases "path_exists (w_fs w) (lineage_head_path target)")
  case True
  obtain rh v where read: "read_checkpoint_head lib target w = (rh, v)" by fastforce
  note at = reader_step [OF lineage_world_here [OF assms(2,3)] whole_readers(1) [OF assms(2)] read]
  show thesis
    by (rule head [OF True read at(1)]) (use assms(1) True read at(4) in \<open>auto simp: load_def act_results lineage_head_def\<close>)
next
  case False
  show thesis
  proof (cases "path_exists (w_fs w) target")
    case True
    from False assms(1) have "load_legacy lib target allow m w = ((r, m'), w')" using True by (auto simp: load_def act_results)
    with False True show thesis by (rule legacy)
  next
    case there: False
    from False assms(1) have "r = Inr ()" "m' = m" "w' = w" using there by (auto simp: load_def act_results)
    with False there show thesis by (rule nothing)
  qed
qed



subsection \<open>Legacy files\<close>

lemma save_tainted:
  assumes "save lib target m w = ((r, m'), w')" "md_taint m" "lineage_target target" "dirs_to (w_fs w) (butlast target)"
  shows "m' = m \<and> (\<exists>e. r = Inl e) \<and> agree (lineage_audit_path target) (w_fs w) (w_fs w')"
  using assms(1,2) by (auto simp: save_def act_results dest: audit_effect(1) [OF _ assms(3,4)])

text \<open>C37. Where there is only a legacy file, a runtime that is to save never trains on it nor overwrites it: the
  call raises, with or without the authorization to load, and changes no file but the audit.\<close>

theorem legacy_file_is_never_overwritten:
  assumes "runtime_call lib target loop True allow m w = ((r, m'), w')"
    and "lineage_target target" "dirs_to (w_fs w) (butlast target)" "update_restores lib m"
    and "\<not> path_exists (w_fs w) (lineage_head_path target)" "path_exists (w_fs w) target"
  shows "(\<exists>e. r = Inl e) \<and> agree (lineage_audit_path target) (w_fs w) (w_fs w')"
proof -
  obtain r1 m1 v where loaded: "load lib target allow m w = ((r1, m1), v)" by (metis prod.collapse)
  have legacy: "load_legacy lib target allow m w = ((r1, m1), v)"
    using loaded assms(2,3) by (cases rule: load_cases) (use assms(5,6) in auto)
  note at = load_legacy_atomic [OF lineage_world_here [OF assms(2,3)] assms(4) legacy]
  show ?thesis
  proof (cases r1)
    case (Inl e)
    with assms(1) loaded at show ?thesis by (auto simp: runtime_call_def lineage_world_def)
  next
    case (Inr u)
    with at have "md_taint m1" by auto
    with assms(1) loaded Inr obtain ra where
      ra: "append_audit lib target ''runtime_save_refused_legacy_unbound_taint'' [(''legacy_unbound_source'', opt_id (md_taint_source m1))] v = (ra, w')"
      and raised: "\<exists>e. r = Inl e" by (auto simp: runtime_call_def act_results)
    from audit_step(1) [OF conjunct2 [OF at] ra] raised show ?thesis by (simp add: lineage_world_def)
  qed
qed

subsection \<open>Documents of older schemas\<close>

lemma jget_setdefault: "jget (setdefault k v d) x = (if x = k \<and> map_of d k = None then v else jget d x)"
  by (auto simp: setdefault_def jget_def map_add_def split: option.splits)

lemma jget_put: "jget (obj_put k v d) x = (if x = k then v else jget d x)"
proof -
  have "map_of (obj_put k v d) x = (if x = k then Some v else map_of d x)"
    by (induction k v d rule: obj_put.induct) auto
  then show ?thesis by (simp add: jget_def)
qed

lemma migrated_manifest:
  assumes "migrate_document raw kind CHECKPOINT_SCHEMA_VERSION CHECKPOINT_MANIFEST_MIGRATIONS = Inr (man, v)"
  shows "man \<in> {raw, migrate_checkpoint_manifest_v2_to_v3 raw,
    migrate_checkpoint_manifest_v2_to_v3 (migrate_checkpoint_manifest_v1_to_v2 raw)}"
proof -
  have "\<exists>n. 1 \<le> n \<and> n \<le> 3 \<and> migrate_loop kind 3 CHECKPOINT_MANIFEST_MIGRATIONS n raw = Inr man"
    using assms by (auto simp: migrate_document_def Let_def CHECKPOINT_SCHEMA_VERSION_def result_simps raise_if_def not_less
        split: option.splits if_splits)
  then obtain n where n: "1 \<le> n" "n \<le> 3" "migrate_loop kind 3 CHECKPOINT_MANIFEST_MIGRATIONS n raw = Inr man" by blast
  then consider "n = 1" | "n = 2" | "n = 3" by linarith
  then show ?thesis
  proof cases
    case 1
    with n(3) show ?thesis
      by (auto simp: migrate_loop.simps [of _ _ _ "1"] migrate_loop.simps [of _ _ _ "2"] migrate_loop.simps [of _ _ _ "3"]
          CHECKPOINT_MANIFEST_MIGRATIONS_def Let_def split: if_splits)
  next
    case 2
    with n(3) show ?thesis
      by (auto simp: migrate_loop.simps [of _ _ _ "2"] migrate_loop.simps [of _ _ _ "3"]
          CHECKPOINT_MANIFEST_MIGRATIONS_def Let_def split: if_splits)
  next
    case 3
    with n(3) show ?thesis by (simp add: migrate_loop.simps [of _ _ _ "3"])
  qed
qed

lemma migrated_fields:
  assumes "migrate_document raw kind CHECKPOINT_SCHEMA_VERSION CHECKPOINT_MANIFEST_MIGRATIONS = Inr (man, v)"
  shows "jget man ''config_binding'' \<in> {jget raw ''config_binding'', JStr ''unbound-legacy''}"
    "jget man ''model_config'' \<in> {jget raw ''model_config'', JNull}"
    "jget man ''commit_seq'' \<in> {jget raw ''commit_seq'', JInt 0}"
    "jget man ''commit_id'' \<in> {jget raw ''commit_id'', JNull}"
  using migrated_manifest [OF assms]
  by (auto simp: migrate_checkpoint_manifest_v2_to_v3_def migrate_checkpoint_manifest_v1_to_v2_def jget_setdefault jget_put)

lemma check_manifest_Inr:
  assumes "check_manifest config target g c n man = Inr man'"
  shows "man' = man" "jget man ''config_binding'' = JStr CONFIG_BINDING"
    "json_eq (jget man ''model_config'') (JObj config)" "natural_from 1 (jget man ''commit_seq'')" "nonempty_str (jget man ''commit_id'')"
  using assms by (auto simp: check_manifest_def result_simps raise_if_def split: if_splits)

text \<open>C38. Migration adds no authority: a manifest is accepted only if the document on disk itself carries the full
  configuration binding, the configuration of the model, a commit id and a commit number; the values with which
  the migrations of older schemas fill them in are refused.\<close>

theorem migration_adds_no_binding:
  assumes "read_generation_manifest lib config target g c n w = (Inr man, w')"
  shows "\<exists>raw v. json_load (manifest_path target g) w = (Inr raw, v) \<and>
    jget raw ''config_binding'' = JStr CONFIG_BINDING \<and> json_eq (jget raw ''model_config'') (JObj config) \<and>
    nonempty_str (jget raw ''commit_id'') \<and> natural_from 1 (jget raw ''commit_seq'')"
proof -
  obtain raw v man1 ver where steps: "json_load (manifest_path target g) w = (Inr raw, v)"
    "migrate_document raw ''checkpoint manifest'' CHECKPOINT_SCHEMA_VERSION CHECKPOINT_MANIFEST_MIGRATIONS = Inr (man1, ver)"
    "check_manifest config target g c n man1 = Inr man"
    using assms by (auto simp: read_generation_manifest_def bindI_Inr split: prod.splits)
  note fields = migrated_fields [OF steps(2)]
  note checked = check_manifest_Inr [OF steps(3)]
  have "jget raw ''config_binding'' = JStr CONFIG_BINDING" using fields(1) checked(2) by (auto simp: CONFIG_BINDING_def)
  moreover have "json_eq (jget raw ''model_config'') (JObj config)" using fields(2) checked(3) by auto
  moreover have "natural_from 1 (jget raw ''commit_seq'')" using fields(3) checked(4) by (auto simp: natural_from_def)
  moreover have "nonempty_str (jget raw ''commit_id'')" using fields(4) checked(5) by (auto simp: nonempty_str_def)
  ultimately show ?thesis using steps(1) by blast
qed

subsection \<open>The status report\<close>

definition role_report :: "(('a, 't) loaded_parts \<times> row) res \<Rightarrow> row res" where
  "role_report v = (case v of Inl e \<Rightarrow> Inl e | Inr (cp, manifest) \<Rightarrow> Inr manifest)"

lemma status_roles_quiet:
  assumes "lineage_world target fs w" "quiet w"
  shows "\<exists>w'. status_roles lib m target head ris w =
      (Inr (map (\<lambda>ri. (ri, role_report (role_validates lib m target fs head ri))) ris), w') \<and> lineage_world target fs w'"
  using assms
proof (induction ris arbitrary: w)
  case (Cons x ris)
  have target: "lineage_target target" using Cons.prems(1) by (simp add: lineage_world_def)
  note steady = whole_readers(3) [OF target, of lib m head x]
  obtain w1 where w1: "validate_role lib m target head x w = (role_validates lib m target fs head x, w1)"
    "lineage_world target fs w1" "quiet w1"
    using reader_quiet [OF Cons.prems(1,2) steady] unfolding role_validates_def by blast
  from Cons.IH [OF w1(2,3)] w1(1) show ?case by (auto simp: role_report_def)
qed simp

lemma first_reported:
  "(case filter (\<lambda>(ri, v). case v of Inl e \<Rightarrow> False | Inr manifest \<Rightarrow> True) (map (\<lambda>ri. (ri, role_report (f ri))) ris) of
      [] \<Rightarrow> None | (ri, v) # rest \<Rightarrow> Some ri) = map_option fst (pick f ris)"
  by (induction ris) (auto simp: role_report_def split: sum.splits prod.splits)

text \<open>C39. The status report of a lineage with a HEAD agrees with what a load does: it says loadable, and names the
  generation and the fallback, exactly when the tree selects that generation.\<close>

theorem status_reports_the_selected_generation:
  assumes "quiet w" "lineage_target target" "dirs_to (w_fs w) (butlast target)"
    and "path_exists (w_fs w) (lineage_head_path target)"
  shows "\<exists>r w'. checkpoint_status lib m target w = (Inr r, w') \<and>
    jget r ''loadable'' = JBool (selected_generation lib m target (w_fs w) \<noteq> None) \<and>
    (\<forall>ri cp man. selected_generation lib m target (w_fs w) = Some (ri, cp, man) \<longrightarrow>
       jget r ''selected_generation'' = JStr (snd ri) \<and> jget r ''fallback_required'' = JBool (fst ri = ''previous''))"
proof -
  note here = lineage_world_here [OF assms(2,3)]
  obtain w1 where w1: "read_checkpoint_head lib target w = (lineage_head lib target (w_fs w), w1)"
    "lineage_world target (w_fs w) w1" "quiet w1"
    using reader_quiet [OF here assms(1) whole_readers(1) [OF assms(2)]] unfolding lineage_head_def by metis
  show ?thesis
  proof (cases "lineage_head lib target (w_fs w)")
    case (Inl e)
    with w1 assms(4) show ?thesis
      by (simp add: checkpoint_status_def bindI_def attempt_def selected_generation_def status_start_def jget_def)
  next
    case (Inr head)
    let ?f = "role_validates lib m target (w_fs w) head" and ?ris = "candidates head"
    obtain w2 where w2: "status_roles lib m target head ?ris w1 = (Inr (map (\<lambda>ri. (ri, role_report (?f ri))) ?ris), w2)"
      using status_roles_quiet [OF w1(2,3)] by blast
    have sel: "selected_generation lib m target (w_fs w) = pick ?f ?ris" using Inr by (simp add: selected_generation_def)
    show ?thesis unfolding sel using w1(1) w2 Inr assms(4) first_reported [of ?f ?ris]
      by (cases "pick ?f ?ris")
        (auto simp: checkpoint_status_def bindI_def attempt_def status_start_def jget_def Let_def)
  qed
qed

end
