(* ===== verification/CheckpointDocuments.thy ===== *)
theory CheckpointDocuments
  imports CheckpointLoading
begin

section \<open>Checkpoint lineages: documents that were written\<close>

text \<open>
  What \<open>save\<close> writes is what the readers read: the HEAD and the manifest of a commit, with ASCII names, read
  back as the documents they were, and the generation they describe validates.
\<close>

subsection \<open>ASCII documents\<close>

primrec ascii_json :: "json \<Rightarrow> bool" where
  "ascii_json JNull = True"
| "ascii_json (JBool b) = True"
| "ascii_json (JInt i) = True"
| "ascii_json (JStr s) = ascii s"
| "ascii_json (JList vs) = list_all id (map ascii_json vs)"
| "ascii_json (JObj kvs) = (list_all ascii (map fst kvs) \<and> list_all snd (map (map_prod id ascii_json) kvs))"

lemma ascii_simps [simp]: "ascii []" "ascii (c # s) \<longleftrightarrow> code c < 128 \<and> ascii s" "ascii (s @ t) \<longleftrightarrow> ascii s \<and> ascii t"
  by (simp_all add: ascii_def)

lemma ascii_concat: "\<forall>x \<in> set xs. ascii x \<Longrightarrow> ascii (concat xs)"
  by (induction xs) auto

lemma ascii_join: "ascii sep \<Longrightarrow> \<forall>x \<in> set xs. ascii x \<Longrightarrow> ascii (join sep xs)"
  by (induction sep xs rule: join.induct) auto

lemma ascii_quote: "ascii s \<Longrightarrow> ascii (quote s)"
proof -
  assume s: "ascii s"
  have "ascii (escape_char c)" if "c \<in> set s" for c
    using escape_char_codes [of _ c] s that by (fastforce simp: ascii_def list_all_iff)
  then have "ascii (concat (map escape_char s))" by (intro ascii_concat) auto
  then show ?thesis by (simp add: quote_def code_def)
qed

lemma ascii_text: "ascii_json v \<Longrightarrow> ascii (dumps v)"
proof (induction v)
  case (JInt i)
  show ?case by (auto simp: show_int_def code_def intro!: digits_ascii show_nat_digits)
next
  case (JList vs)
  then have "\<forall>x \<in> set (map dumps vs). ascii x" by (auto simp: list_all_iff)
  then have "ascii (join '','' (map dumps vs))" by (intro ascii_join) (simp_all add: code_def)
  then show ?case by (simp add: code_def)
next
  case (JObj kvs)
  have "\<forall>x \<in> set (map (\<lambda>(k, t). quote k @ '':'' @ t) (sort_key fst (map (map_prod id dumps) kvs))). ascii x"
    using JObj by (force simp: list_all_iff ascii_quote code_def)
  then have "ascii (join '','' (map (\<lambda>(k, t). quote k @ '':'' @ t) (sort_key fst (map (map_prod id dumps) kvs))))"
    by (intro ascii_join) (simp_all add: code_def)
  then show ?case by (simp add: write_obj_def code_def)
qed (auto simp: code_def ascii_quote)

lemma ascii_characters: "ascii s \<Longrightarrow> concat (map ascii_character (characters s)) = s"
proof (induction s)
  case (Cons c s)
  have "takeWhile cont s = []" "dropWhile cont s = s" using Cons.prems by (cases s; simp add: cont_def)+
  moreover have "ascii_character [c] = [c]" using Cons.prems by (simp add: ascii_character_def code_point_def Let_def)
  ultimately show ?case using Cons by simp
qed simp

lemma written_reads_back:
  assumes "canonical (JObj d)" "ascii_json (JObj d)"
  shows "loads (ascii_dumps (JObj d) @ [newline]) = Some (JObj d)" "utf8_valid (ascii_dumps (JObj d) @ [newline])"
proof -
  have same: "ascii_dumps (JObj d) = dumps (JObj d)" unfolding ascii_dumps_def by (rule ascii_characters [OF ascii_text [OF assms(2)]])
  show "loads (ascii_dumps (JObj d) @ [newline]) = Some (JObj d)" unfolding same by (rule loads_dumps_line [OF assms(1)])
  show "utf8_valid (ascii_dumps (JObj d) @ [newline])"
    unfolding same by (rule utf8_valid_ascii) (use ascii_text [OF assms(2)] in \<open>simp add: newline_def code_def del: dumps.simps\<close>)
qed

lemma load_written:
  assumes "w_fault w (w_tick w) = None" "lookup (w_fs w) p = Some (File (ascii_dumps (JObj d) @ [newline]))"
    and "canonical (JObj d)" "ascii_json (JObj d)"
  shows "json_load p w = (Inr d, w\<lparr>w_tick := Suc (w_tick w)\<rparr>)"
  using assms(1,2) written_reads_back [OF assms(3,4)]
  by (simp add: json_load_def bindI_def read_bytes_def sys_def Let_def)

lemma json_eq_same: "canonical v \<Longrightarrow> json_eq v v"
proof (induction v)
  case (JList vs)
  then show ?case by (auto simp: list_all_iff list_all2_same)
next
  case (JObj d)
  have "distinct (map fst d)" using JObj.prems strict_sorted_iff by auto
  then have "map_of d (fst kv) = Some (snd kv)" if "kv \<in> set d" for kv using that by simp
  moreover have "json_eq (snd kv) (snd kv)" if "kv \<in> set d" for kv
    using JObj.IH [of kv "snd kv"] JObj.prems that by (cases kv) (force simp: list_all_iff)
  ultimately show ?case by (auto simp: list_all_iff)
qed simp_all

subsection \<open>The documents of a commit\<close>

definition document_text :: "row \<Rightarrow> string" where
  "document_text d = ascii_dumps (JObj d) @ [newline]"

definition ascii_id :: "string \<Rightarrow> bool" where
  "ascii_id g \<longleftrightarrow> g \<noteq> [] \<and> ascii g"

lemma ascii_constants: "ascii PROTOCOL_VERSION" "ascii RECOVERY_POLICY" "ascii HEAD_FORMAT" "ascii CHECKPOINT_FORMAT" "ascii CONFIG_BINDING"
  by (simp_all add: checkpoint_constants code_def)

lemma head_document_ok:
  assumes "ascii_id g" "\<forall>p. previous = Some p \<longrightarrow> ascii_id p" "ascii_id c"
  shows "canonical (JObj (head_document g previous c n now))" "ascii_json (JObj (head_document g previous c n now))"
  using assms
  by (auto simp: head_document_def opt_id_def ascii_id_def ascii_isoformat ascii_constants code_def split: option.splits)

lemma head_document_checks:
  assumes "ascii_id g" "\<forall>p. previous = Some p \<longrightarrow> ascii_id p \<and> p \<noteq> g" "ascii_id c" "1 \<le> n"
  shows "migrate_document (head_document g previous c n now) kind HEAD_SCHEMA_VERSION HEAD_MIGRATIONS =
      Inr (head_document g previous c n now, JInt 3)"
    "check_head (head_document g previous c n now) (JInt 3) = Inr (head_document g previous c n now)"
    "jget (head_document g previous c n now) ''format'' = JStr HEAD_FORMAT"
proof -
  show "migrate_document (head_document g previous c n now) kind HEAD_SCHEMA_VERSION HEAD_MIGRATIONS =
      Inr (head_document g previous c n now, JInt 3)"
    by (simp add: migrate_document_def head_document_def jget_def int_value_def HEAD_SCHEMA_VERSION_def migrate_loop.simps Let_def)
  show "check_head (head_document g previous c n now) (JInt 3) = Inr (head_document g previous c n now)"
    using assms by (auto simp: check_head_def head_document_def jget_def Let_def nonempty_str_def natural_from_def
        opt_id_def ascii_id_def HEAD_SCHEMA_VERSION_def PROTOCOL_VERSION_def split: option.splits)
  show "jget (head_document g previous c n now) ''format'' = JStr HEAD_FORMAT"
    by (simp add: head_document_def jget_def)
qed

lemma written_head:
  assumes "lookup fs (lineage_head_path target) = Some (File (document_text (head_document g previous c n now)))"
    and "ascii_id g" "\<forall>p. previous = Some p \<longrightarrow> ascii_id p \<and> p \<noteq> g" "ascii_id c" "1 \<le> n"
  shows "lineage_head lib target fs = Inr (head_document g previous c n now)"
proof -
  have ok: "canonical (JObj (head_document g previous c n now))" "ascii_json (JObj (head_document g previous c n now))"
    using head_document_ok [of g previous c n now] assms(2-4) by auto
  have "json_load (lineage_head_path target) (quiet_world fs) =
      (Inr (head_document g previous c n now), (quiet_world fs)\<lparr>w_tick := Suc 0\<rparr>)"
    using load_written [of "quiet_world fs" "lineage_head_path target"] assms(1) ok by (simp add: document_text_def)
  with head_document_checks [OF assms(2-5), of now] show ?thesis
    by (simp add: lineage_head_def answer_def read_checkpoint_head_def bindI_def HEAD_SCHEMA_VERSION_def)
qed

definition config_ok :: "('a, 't) model \<Rightarrow> bool" where
  "config_ok m \<longleftrightarrow> canonical (md_temp m) \<and> canonical (md_lr m) \<and> ascii_json (md_temp m) \<and> ascii_json (md_lr m)"

abbreviation manifest_of ::
  "('a, 't) model \<Rightarrow> path \<Rightarrow> string \<Rightarrow> string option \<Rightarrow> string \<Rightarrow> int \<Rightarrow> string \<Rightarrow> datetime \<Rightarrow> row" where
  "manifest_of m target g previous c n b now \<equiv>
     manifest_document (checkpoint_model_config m) target g previous c n (sha256 b) (length b) now"

lemma ascii_sha256: "ascii (sha256 b)"
  using sha256_lower_hex64 [of b] by (auto simp: lower_hex64_def ascii_def list_all_iff lower_hex_digit_def)

lemma config_document: "config_ok m \<Longrightarrow> canonical (JObj (checkpoint_model_config m)) \<and> ascii_json (JObj (checkpoint_model_config m))"
  by (simp add: config_ok_def checkpoint_model_config_def code_def)

lemma manifest_document_ok:
  assumes "config_ok m" "ascii_id g" "\<forall>p. previous = Some p \<longrightarrow> ascii_id p" "ascii_id c" "ascii (checkpoint_file target g)"
  shows "canonical (JObj (manifest_of m target g previous c n b now))" "ascii_json (JObj (manifest_of m target g previous c n b now))"
  using assms config_document [OF assms(1)]
  by (auto simp: manifest_document_def opt_id_def ascii_id_def ascii_isoformat ascii_constants ascii_sha256 code_def
      split: option.splits simp del: canonical.simps(6) ascii_json.simps(6))
    (simp_all add: code_def ascii_constants ascii_isoformat ascii_sha256)

lemma manifest_document_checks:
  fixes target :: path and b :: string and now :: datetime
  assumes "config_ok m" "ascii_id g" "\<forall>p. previous = Some p \<longrightarrow> ascii_id p" "ascii_id c" "1 \<le> n"
    and ids: "ec = None \<or> ec = Some (JStr c)" "en = None \<or> en = Some (JInt n)"
    and man: "man = manifest_of m target g previous c n b now"
  shows "migrate_document man kind CHECKPOINT_SCHEMA_VERSION CHECKPOINT_MANIFEST_MIGRATIONS = Inr (man, JInt 3)"
    "check_manifest (checkpoint_model_config m) target g ec en man = Inr man"
    "jget man ''format'' = JStr CHECKPOINT_FORMAT" "jget man ''size_bytes'' = JInt (int (length b))" "jget man ''sha256'' = JStr (sha256 b)"
proof -
  show "migrate_document man kind CHECKPOINT_SCHEMA_VERSION CHECKPOINT_MANIFEST_MIGRATIONS = Inr (man, JInt 3)"
    by (simp add: man migrate_document_def manifest_document_def jget_def int_value_def CHECKPOINT_SCHEMA_VERSION_def
        migrate_loop.simps Let_def)
  have config: "json_eq (JObj (checkpoint_model_config m)) (JObj (checkpoint_model_config m))"
    by (rule json_eq_same) (use config_document [OF assms(1)] in blast)
  then show "check_manifest (checkpoint_model_config m) target g ec en man = Inr man"
    using assms(2-5) ids
    by (auto simp: man check_manifest_def manifest_document_def jget_def nonempty_str_def natural_from_def differs_def
        opt_id_def ascii_id_def PAYLOAD_SCHEMA_VERSION_def PROTOCOL_VERSION_def simp del: json_eq.simps(6) split: option.splits)
  show "jget man ''format'' = JStr CHECKPOINT_FORMAT" "jget man ''size_bytes'' = JInt (int (length b))" "jget man ''sha256'' = JStr (sha256 b)"
    by (simp_all add: man manifest_document_def jget_def)
qed

lemma str_len_ascii: "ascii s \<Longrightarrow> str_len s = length s"
proof (induction s)
  case (Cons c s)
  have "takeWhile cont s = []" "dropWhile cont s = s" using Cons.prems by (cases s; simp add: cont_def)+
  with Cons show ?case by (simp add: str_len_def)
qed (simp add: str_len_def)

lemma written_manifest:
  assumes "lookup fs (manifest_path target g) = Some (File (document_text (manifest_of m target g previous c n b now)))"
    and ok: "config_ok m" "ascii_id g" "\<forall>p. previous = Some p \<longrightarrow> ascii_id p" "ascii_id c" "1 \<le> n"
    and name: "ascii (checkpoint_file target g)"
    and ids: "ec = None \<or> ec = Some (JStr c)" "en = None \<or> en = Some (JInt n)"
  shows "read_generation_manifest lib (checkpoint_model_config m) target g ec en (quiet_world fs) =
    (Inr (manifest_of m target g previous c n b now), (quiet_world fs)\<lparr>w_tick := Suc 0\<rparr>)"
proof -
  have "json_load (manifest_path target g) (quiet_world fs) =
      (Inr (manifest_of m target g previous c n b now), (quiet_world fs)\<lparr>w_tick := Suc 0\<rparr>)"
    using load_written [of "quiet_world fs" "manifest_path target g"] assms(1) manifest_document_ok [OF ok(1-4) name]
    by (simp add: document_text_def)
  then show ?thesis using manifest_document_checks [OF ok ids refl, of target b now]
    by (simp add: read_generation_manifest_def bindI_def CHECKPOINT_SCHEMA_VERSION_def)
qed

lemma written_generation:
  assumes "lookup fs (manifest_path target g) = Some (File (document_text (manifest_of m target g previous c n b now)))"
    and "lookup fs (checkpoint_path target g) = Some (File b)" "al_load lib b = Inr data" "checkpoint_parts lib m data = Inr cp"
    and ok: "config_ok m" "ascii_id g" "\<forall>p. previous = Some p \<longrightarrow> ascii_id p" "ascii_id c" "1 \<le> n"
    and name: "ascii (checkpoint_file target g)"
    and ids: "ec = None \<or> ec = Some (JStr c)" "en = None \<or> en = Some (JInt n)"
  shows "answer (validate_generation lib m target g ec en) fs = Inr (cp, manifest_of m target g previous c n b now)"
proof -
  let ?w = "\<lambda>k. (quiet_world fs)\<lparr>w_tick := k\<rparr>"
  note checks = manifest_document_checks [OF ok ids refl, of target b now]
  note manifest = written_manifest [OF assms(1) ok name ids, of lib]
  have read: "read_bytes (checkpoint_path target g) (?w k) = (Inr b, ?w (Suc k))" for k
    using assms(2) by (simp add: read_bytes_def sys_def Let_def)
  have size: "file_size (checkpoint_path target g) (?w k) = (Inr (length b), ?w (Suc k))" for k
    using assms(2) by (simp add: file_size_def sys_def Let_def)
  have "str_len (sha256 b) = 64" using sha256_lower_hex64 [of b] by (simp add: str_len_ascii ascii_sha256 lower_hex64_def)
  then show ?thesis using manifest checks(4,5) assms(3,4)
    by (simp add: answer_def validate_generation_def bindI_def Let_def size sha256_file_def load_tensors_def read)
qed

end
