(* ===== verification/CheckpointSaving.thy ===== *)
theory CheckpointSaving
  imports CheckpointDocuments
begin

section \<open>Checkpoint lineages: what a save leaves behind\<close>

text \<open>
  What an interrupted save has done to the directory of the target, whatever calls fail and at whatever
  failpoint: \<open>siblings N\<close> relates trees that agree on the names of that directory but for those in \<open>N\<close>.
  Until the HEAD is replaced only new names appear; the HEAD is replaced in one step; pruning removes no
  generation that the old or the new HEAD names.
\<close>

subsection \<open>The directory of the target\<close>

definition siblings :: "path \<Rightarrow> string set \<Rightarrow> fs \<Rightarrow> fs \<Rightarrow> bool" where
  "siblings target N s t \<longleftrightarrow>
     (dirs_to s (butlast target) \<longrightarrow>
        dirs_to t (butlast target) \<and> (\<forall>x. x \<notin> N \<longrightarrow> node_at t (butlast target @ [x]) = node_at s (butlast target @ [x])))"

lemma siblings_refl [simp]: "siblings target N s s"
  by (simp add: siblings_def)

lemma siblings_trans: "siblings target N s t \<Longrightarrow> siblings target N t u \<Longrightarrow> siblings target N s u"
  by (simp add: siblings_def)

lemma siblings_mono: "siblings target N s t \<Longrightarrow> N \<subseteq> M \<Longrightarrow> siblings target M s t"
  by (auto simp: siblings_def)

lemma siblings_same: "same_nodes U s t \<Longrightarrow> (\<And>q. q \<in> U \<Longrightarrow> \<exists>x \<in> N. within (butlast target @ [x]) q) \<Longrightarrow> siblings target N s t"
  unfolding siblings_def dirs_to_def same_nodes_def
proof (intro impI conjI allI)
  assume same: "\<forall>q. q \<notin> U \<longrightarrow> node_at t q = node_at s q" and U: "\<And>q. q \<in> U \<Longrightarrow> \<exists>x \<in> N. within (butlast target @ [x]) q"
    and dirs: "\<forall>q. within q (butlast target) \<longrightarrow> node_at s q = Some Dir"
  have below: "length q > length (butlast target)" if "q \<in> U" for q
    using U [OF that] by (auto simp: within_iff)
  show "node_at t q = Some Dir" if "within q (butlast target)" for q
  proof -
    have "length q \<le> length (butlast target)" using that unfolding within_iff by (metis length_append le_add1)
    with below have "q \<notin> U" by fastforce
    with same dirs that show ?thesis by simp
  qed
  show "node_at t (butlast target @ [x]) = node_at s (butlast target @ [x])" if "x \<notin> N" for x
  proof -
    have "butlast target @ [x] \<notin> U"
    proof
      assume "butlast target @ [x] \<in> U"
      from U [OF this] that show False using within_same_length [of "butlast target @ [_]" "butlast target @ [x]"] by fastforce
    qed
    with same show ?thesis by simp
  qed
qed

lemma siblings_agree:
  assumes "agree (lineage_audit_path target) s t" "lineage_target target" "last target @ ''.audit.jsonl'' \<in> N"
  shows "siblings target N s t"
proof (rule siblings_same)
  show "same_nodes {lineage_audit_path target} s t" using assms(1) by (auto simp: agree_def same_nodes_def)
  show "\<exists>x \<in> N. within (butlast target @ [x]) q" if "q \<in> {lineage_audit_path target}" for q
    using that assms(3) by (intro bexI [of _ "last target @ ''.audit.jsonl''"]) (simp_all add: lineage_paths(1) [OF assms(2)])
qed

text \<open>A step that touches only the names in \<open>N\<close>, in whatever world.\<close>

definition touches :: "(string \<Rightarrow> bool) \<Rightarrow> path \<Rightarrow> string set \<Rightarrow> 'x io \<Rightarrow> bool" where
  "touches U target N m \<longleftrightarrow> (\<forall>fs. dirs_to fs (butlast target) \<longrightarrow> outcome U fs m (\<lambda>r t. siblings target N fs t))"

named_theorems touches_rules

lemma touchesD: "touches U target N m \<Longrightarrow> dirs_to fs (butlast target) \<Longrightarrow> outcome U fs m (\<lambda>r t. siblings target N fs t)"
  by (simp add: touches_def)

lemma touches_mono: "touches U target N m \<Longrightarrow> N \<subseteq> M \<Longrightarrow> touches U target M m"
  unfolding touches_def using outcome_weaken siblings_mono by metis

lemma touches_bind [touches_rules]:
  assumes "touches U target N m" "\<And>x. touches U target N (k x)"
  shows "touches U target N (bindI m k)"
  unfolding touches_def
proof (intro allI impI)
  fix fs
  assume dirs: "dirs_to fs (butlast target)"
  show "outcome U fs (bindI m k) (\<lambda>r t. siblings target N fs t)"
  proof (rule outcome_bind [OF touchesD [OF assms(1) dirs]])
    fix x t
    assume t: "siblings target N fs t"
    with dirs have "dirs_to t (butlast target)" by (simp add: siblings_def)
    from touchesD [OF assms(2) this] show "outcome U t (k x) (\<lambda>r u. siblings target N fs u)"
      by (rule outcome_weaken) (rule siblings_trans [OF t])
  qed
qed

lemma touches_attempt [touches_rules]: "touches U target N m \<Longrightarrow> touches U target N (attempt m)"
  by (fastforce simp: touches_def outcome_def attempt_def split: prod.splits)

lemma touches_catch [touches_rules]:
  assumes "touches U target N m" "\<And>e. touches U target N (h e)"
  shows "touches U target N (catch m h)"
  unfolding touches_def
proof (intro allI impI)
  fix fs
  assume dirs: "dirs_to fs (butlast target)"
  show "outcome U fs (catch m h) (\<lambda>r t. siblings target N fs t)"
  proof (rule outcome_catch [OF touchesD [OF assms(1) dirs]])
    fix e t
    assume t: "siblings target N fs t"
    with dirs have "dirs_to t (butlast target)" by (simp add: siblings_def)
    from touchesD [OF assms(2) this] show "outcome U t (h e) (\<lambda>r u. siblings target N fs u)"
      by (rule outcome_weaken) (rule siblings_trans [OF t])
  qed
qed

lemma touches_pure [touches_rules]:
  "touches U target N (ret x)" "touches U target N (throw e)" "touches U target N (lift r)" "touches U target N (throw_if b e)"
  "touches U target N (observe f)" "touches U target N (call c)" "touches U target N uuid4"
  by (auto simp: touches_def outcome_def throw_if_def call_def uuid4_def)

lemma touches_split [touches_rules]:
  "(b \<Longrightarrow> touches U target N m) \<Longrightarrow> (\<not> b \<Longrightarrow> touches U target N n) \<Longrightarrow> touches U target N (if b then m else n)"
  "(\<And>x y. z = (x, y) \<Longrightarrow> touches U target N (p x y)) \<Longrightarrow> touches U target N (case z of (x, y) \<Rightarrow> p x y)"
  by (auto split: prod.splits)

lemma touches_sum [touches_rules]:
  "(\<And>e. z = Inl e \<Longrightarrow> touches U target N (p e)) \<Longrightarrow> (\<And>x. z = Inr x \<Longrightarrow> touches U target N (q x)) \<Longrightarrow>
     touches U target N (case z of Inl e \<Rightarrow> p e | Inr x \<Rightarrow> q x)"
  by (cases z) auto

lemma touches_for [touches_rules]: "(\<And>x. x \<in> set xs \<Longrightarrow> touches U target N (f x)) \<Longrightarrow> touches U target N (forI f xs)"
  by (induction xs) (auto intro: touches_rules)

lemma touches_reads: "keeps (=) m \<Longrightarrow> env_kept m \<Longrightarrow> touches U target N m"
  unfolding touches_def by (auto intro!: outcomeI dest: keeps_same)

lemma touches_audit:
  assumes "lineage_target target" "last target @ ''.audit.jsonl'' \<in> N"
  shows "touches U target N (append_audit lib target event extra)"
  unfolding touches_def
proof (intro allI impI outcomeI)
  show "env_kept (append_audit lib target event extra)"
    unfolding append_audit_def uuid_hex_def Let_def by (intro env_rules env_files)
  fix fs w r w'
  assume "dirs_to fs (butlast target)" "w_fs w = fs" "append_audit lib target event extra w = (r, w')"
  with audit_effect(1) [OF _ assms(1)] have eff: "agree (lineage_audit_path target) fs (w_fs w')" by blast
  show "siblings target N fs (w_fs w')"
    by (rule siblings_agree [OF eff assms])
qed

lemma touches_steady:
  assumes "steady (agree (lineage_audit_path target)) target m" "lineage_target target" "last target @ ''.audit.jsonl'' \<in> N"
  shows "touches U target N m"
  unfolding touches_def
proof (intro allI impI outcomeI)
  show "env_kept m" using assms(1) by (simp add: steady_def)
  fix fs w r w'
  assume "dirs_to fs (butlast target)" "w_fs w = fs" "m w = (r, w')"
  with steadyD(1) [OF assms(1,2)] have eff: "agree (lineage_audit_path target) fs (w_fs w')" by blast
  show "siblings target N fs (w_fs w')"
    by (rule siblings_agree [OF eff assms(2,3)])
qed

lemma touches_mkdir [touches_rules]:
  assumes "lineage_target target"
  shows "touches U target N (mkdir_parents (butlast target))"
  unfolding touches_def
proof (intro allI impI outcomeI)
  fix fs w r w'
  assume "dirs_to fs (butlast target)" "w_fs w = fs" "mkdir_parents (butlast target) w = (r, w')"
  with mkdir_existing(1) [OF _ lineage_paths(7) [OF assms]] have "w_fs w' = fs" by blast
  then show "siblings target N fs (w_fs w')" by simp
qed (rule env_files)

subsection \<open>Temporary files\<close>

definition temp_names :: "path \<Rightarrow> string set" where
  "temp_names target = {''.'' @ last target @ ''.'' @ s | s. True}"

lemma touches_file:
  assumes "x \<in> N" "x \<noteq> ''..''" "plain_path (butlast target)"
  shows "touches U target N (write_fd (butlast target @ [x]) data)" "touches U target N (remove_temp (butlast target @ [x]))"
    "y \<in> N \<Longrightarrow> y \<noteq> ''..'' \<Longrightarrow> touches U target N (os_replace (butlast target @ [x]) (butlast target @ [y]))"
proof -
  let ?p = "butlast target @ [x]"
  have plain: "plain_path ?p" using assms(2,3) by simp
  have at: "siblings target N s t" if "same_nodes {?p} s t" for s t
    by (rule siblings_same [OF that]) (use assms(1) in \<open>auto intro: bexI [of _ x]\<close>)
  show "touches U target N (write_fd ?p data)" unfolding touches_def
  proof (intro allI impI outcomeI)
    fix fs w r w'
    assume "w_fs w = fs" "write_fd ?p data w = (r, w')"
    with write_fd_node [of ?p data w r w'] have "same_nodes {?p} fs (w_fs w')" by (auto simp: same_nodes_def node_at_put)
    then show "siblings target N fs (w_fs w')" by (rule at)
  qed (rule env_files)
  have "env_kept (remove_temp ?p)" unfolding remove_temp_def unlink_def by (intro env_rules)
  then show "touches U target N (remove_temp ?p)" unfolding touches_def
  proof (intro allI impI outcomeI)
    fix fs w r w'
    assume w: "w_fs w = fs" "remove_temp ?p w = (r, w')"
    then have "same_nodes {?p} fs (w_fs w')" using remove_temp_elsewhere [OF w(2) plain] by (auto simp: same_nodes_def)
    then show "siblings target N fs (w_fs w')" by (rule at)
  qed
  assume y: "y \<in> N" "y \<noteq> ''..''"
  let ?q = "butlast target @ [y]"
  have plain': "plain_path ?q" using y(2) assms(3) by simp
  show "touches U target N (os_replace ?p ?q)"
  proof (cases "x = y")
    case True
    show ?thesis unfolding touches_def
    proof (intro allI impI outcomeI)
      fix fs w r w'
      assume w: "w_fs w = fs" "os_replace ?p ?q w = (r, w')"
      have "w_fs w' = fs" using w True plain unfolding os_replace_def by (auto dest!: sys_fs split: option.splits node.splits if_splits)
      then show "siblings target N fs (w_fs w')" by simp
    qed (rule env_files)
  next
    case False
    show ?thesis unfolding touches_def
    proof (intro allI impI, rule outcome_weaken [OF outcome_replace [OF plain plain']])
      show "?p \<noteq> ?q" using False by simp
      fix fs r t
      assume "renamed ?p ?q fs r t"
      from renamed_outside [OF this] have "same_nodes {z. within ?p z \<or> within ?q z} fs t" by (auto simp: same_nodes_def)
      then show "siblings target N fs t"
        by (rule siblings_same) (use assms(1) y(1) in blast)
    qed
  qed
qed

lemma touches_mkstemp:
  assumes "\<And>u. prefix @ u @ suffix \<in> N" "2 < length prefix" "plain_path (butlast target)"
    and "\<And>u. touches U target N (k (butlast target @ [prefix @ u @ suffix]))"
  shows "touches U target N (bindI (mkstemp prefix suffix (butlast target)) k)"
  unfolding touches_def
proof (intro allI impI)
  fix fs
  assume dirs: "dirs_to fs (butlast target)"
  let ?made = "\<lambda>r t. siblings target N fs t \<and> (\<forall>p. r = Inr p \<longrightarrow> (\<exists>u. p = butlast target @ [prefix @ u @ suffix]))"
  have made: "outcome U fs (mkstemp prefix suffix (butlast target)) ?made"
  proof (rule outcomeI)
    fix w r w'
    assume w: "w_fs w = fs" "mkstemp prefix suffix (butlast target) w = (r, w')"
    from w(2) assms(3,2) show "?made r (w_fs w')"
    proof (cases rule: mkstemp_cases)
      case (made u)
      have "same_nodes {butlast target @ [prefix @ u @ suffix]} fs (w_fs w')"
        using made(3) w(1) by (auto simp: same_nodes_def adds_node_at)
      then have "siblings target N fs (w_fs w')" by (rule siblings_same) (use assms(1) [of u] within_refl in blast)
      with made(1) show ?thesis by blast
    qed (use w in simp)
  qed (auto simp: mkstemp_def intro: env_rules env_files)
  show "outcome U fs (bindI (mkstemp prefix suffix (butlast target)) k) (\<lambda>r t. siblings target N fs t)"
  proof (rule outcome_bind [OF made])
    fix p t
    assume "?made (Inr p) t"
    then obtain u where t: "siblings target N fs t" and p: "p = butlast target @ [prefix @ u @ suffix]" by blast
    with dirs have "dirs_to t (butlast target)" by (simp add: siblings_def)
    from touchesD [OF assms(4) this, of u] show "outcome U t (k p) (\<lambda>r v. siblings target N fs v)" unfolding p
      by (rule outcome_weaken) (rule siblings_trans [OF t])
  qed simp
qed

lemma touches_finally [touches_rules]:
  "touches U target N m \<Longrightarrow> touches U target N c \<Longrightarrow> touches U target N (finally_do m c)"
  unfolding finally_do_def by (intro touches_rules)

lemma touches_fsync [touches_rules]: "touches U target N fsync_fd" "touches U target N (fsync_dir p)"
  by (intro touches_reads fsync_frame env_files)+

lemma touches_json_save:
  assumes "lineage_target target" "name \<noteq> []" "name \<noteq> ''..''" "name \<in> N" "\<And>s. ''.'' @ name @ ''.'' @ s \<in> N"
  shows "touches U target N (json_save_atomic (butlast target @ [name]) v)"
proof -
  note plain = lineage_paths(7) [OF assms(1)]
  have long: "x @ s \<noteq> ''..''" if "2 < length x" for x s :: string using that by (intro notI) (drule arg_cong [of _ _ length], simp)
  have prefix: "2 < length (''.'' @ name @ ''.'')" using assms(2) by (cases name) auto
  have swap: "touches U target N (swap_in (ret ()) (butlast target @ [x]) (butlast target @ [name]) data)"
    if "x \<in> N" "x \<noteq> ''..''" for x data
    unfolding swap_in_def swap_body_def butlast_snoc
    by (intro touches_finally touches_bind touches_catch touches_fsync touches_pure(1) touches_file plain that assms(3,4))
  have temp: "(''.'' @ name @ ''.'') @ s \<in> N" "(''.'' @ name @ ''.'') @ s \<noteq> ''..''" for s
    using assms(5) [of s] long [OF prefix] by simp_all
  show ?thesis unfolding json_save_atomic_def replace_through_temp_def butlast_snoc last_name_def
    by (simp only: snoc_eq_iff_butlast last_snoc simp_thms append_is_Nil_conv if_False not_Cons_self2)
      (intro touches_bind touches_mkdir [OF assms(1)] touches_mkstemp [OF _ prefix plain] temp swap)
qed

lemma json_save_target:
  assumes "json_save_atomic (butlast target @ [name]) v w = (r, w')" "lineage_target target" "name \<noteq> []" "name \<noteq> ''..''"
    and "dirs_to (w_fs w) (butlast target)"
  shows "node_at (w_fs w') (butlast target @ [name]) = Some (File (ascii_dumps (JObj v) @ [newline])) \<or>
    r \<noteq> Inr () \<and> node_at (w_fs w') (butlast target @ [name]) = node_at (w_fs w) (butlast target @ [name])"
proof -
  note plain = lineage_paths(7) [OF assms(2)]
  let ?p = "butlast target @ [name]"
  obtain r1 v1 where dirs: "mkdir_parents (butlast target) w = (r1, v1)" by fastforce
  have same: "w_fs v1 = w_fs w" using mkdir_existing(1) [OF dirs plain assms(5)] .
  show ?thesis
  proof (cases r1)
    case (Inl e)
    with assms(1) dirs same show ?thesis by (auto simp: json_save_atomic_def)
  next
    case (Inr u)
    with assms(1) dirs have run: "replace_through_temp (\<lambda>tmp. ret ()) (''.'' @ name @ ''.'') ?p (ascii_dumps (JObj v) @ [newline]) v1 = (r, w')"
      by (simp add: json_save_atomic_def last_name_def)
    have "(''.'' @ name @ ''.'') @ u \<noteq> name" for u by (intro notI) (drule arg_cong [of _ _ length], simp)
    moreover have "2 < length (''.'' @ name @ ''.'')" using assms(3) by (cases name) auto
    moreover have "keeps (=) (ret ())" by (rule frame_rules)
    ultimately show ?thesis
      using replace_through_temp_target [OF run] plain assms(4) same by simp
  qed
qed

subsection \<open>The files of a generation\<close>

definition plain_id :: "string \<Rightarrow> bool" where
  "plain_id g \<longleftrightarrow> g \<noteq> [] \<and> CHR ''/'' \<notin> set g"

definition tensor_name :: "path \<Rightarrow> string \<Rightarrow> string" where
  "tensor_name target g = last target @ ''.g-'' @ g @ ''.safetensors''"

definition manifest_name :: "path \<Rightarrow> string \<Rightarrow> string" where
  "manifest_name target g = last target @ ''.g-'' @ g @ ''.manifest.json''"

definition head_name :: "path \<Rightarrow> string" where
  "head_name target = last target @ ''.head.json''"

definition audit_name :: "path \<Rightarrow> string" where
  "audit_name target = last target @ ''.audit.jsonl''"

lemmas file_names = tensor_name_def manifest_name_def head_name_def audit_name_def

lemma generation_paths:
  assumes "lineage_target target" "plain_id g"
  shows "checkpoint_path target g = butlast target @ [tensor_name target g]"
    "manifest_path target g = butlast target @ [manifest_name target g]"
    "checkpoint_file target g = tensor_name target g"
proof -
  have g: "CHR ''/'' \<notin> set (''.g-'' @ g @ ''.safetensors'')" "CHR ''/'' \<notin> set (''.g-'' @ g @ ''.manifest.json'')"
    using assms(2) by (auto simp: plain_id_def)
  show "checkpoint_path target g = butlast target @ [tensor_name target g]"
    "manifest_path target g = butlast target @ [manifest_name target g]"
    unfolding checkpoint_path_def manifest_path_def file_names by (rule path_plus_plain [OF assms(1)]; use g in simp)+
  have "plain_name (last target)" using assms(1) by (auto simp: lineage_target_def list_all_iff)
  with g(1) have "CHR ''/'' \<notin> set (last target @ ''.g-'' @ g @ ''.safetensors'')" by (auto simp: plain_name_def)
  then show "checkpoint_file target g = tensor_name target g"
    using assms(1) by (simp add: checkpoint_file_def base_name_def last_name_def split_on_no_sep tensor_name_def lineage_target_def)
qed

lemma dotted_name: "c \<noteq> CHR ''.'' \<Longrightarrow> CHR ''.'' # l @ CHR ''.'' # a \<noteq> l @ CHR ''.'' # c # b"
proof (induction l arbitrary: a)
  case (Cons x l)
  then show ?case by (cases "x = CHR ''.''") auto
qed simp

lemma names_apart:
  "tensor_name target g \<notin> temp_names target" "manifest_name target g \<notin> temp_names target"
  "head_name target \<notin> temp_names target" "audit_name target \<notin> temp_names target"
  "head_name target \<noteq> audit_name target" "tensor_name target g \<noteq> head_name target" "manifest_name target g \<noteq> head_name target"
  "tensor_name target g \<noteq> audit_name target" "manifest_name target g \<noteq> audit_name target"
  "tensor_name target g \<noteq> manifest_name target g'"
  "tensor_name target g = tensor_name target g' \<longleftrightarrow> g = g'" "manifest_name target g = manifest_name target g' \<longleftrightarrow> g = g'"
proof -
  show "tensor_name target g \<notin> temp_names target" "manifest_name target g \<notin> temp_names target"
    "head_name target \<notin> temp_names target" "audit_name target \<notin> temp_names target"
    using dotted_name [of _ "last target"] by (auto simp: temp_names_def file_names dest: sym)
  have "last (x @ ''.safetensors'') \<noteq> last (y @ ''.manifest.json'')" for x y :: string by simp
  then show "tensor_name target g \<noteq> manifest_name target g'"
    unfolding file_names append_assoc [symmetric] by metis
qed (simp_all add: file_names)

lemma names_plain:
  "tensor_name target g \<noteq> []" "tensor_name target g \<noteq> ''..''" "manifest_name target g \<noteq> []" "manifest_name target g \<noteq> ''..''"
  "head_name target \<noteq> []" "head_name target \<noteq> ''..''"
proof -
  have long: "x @ s \<noteq> ''..''" if "2 < length s" for x s :: string using that by (intro notI) (drule arg_cong [of _ _ length], simp)
  show "tensor_name target g \<noteq> []" "manifest_name target g \<noteq> []" "head_name target \<noteq> []" by (simp_all add: file_names)
  show "tensor_name target g \<noteq> ''..''" "manifest_name target g \<noteq> ''..''" "head_name target \<noteq> ''..''"
    unfolding file_names by (rule long, simp)+
qed

lemma temp_of: "''.'' @ tensor_name target g @ ''.'' @ s \<in> temp_names target" "''.'' @ manifest_name target g @ ''.'' @ s \<in> temp_names target"
  "''.'' @ head_name target @ ''.'' @ s \<in> temp_names target"
  by (auto simp: temp_names_def file_names)

lemma touches_generation:
  assumes "lineage_target target" "plain_id g" "tensor_name target g \<in> N" "temp_names target \<subseteq> N"
  shows "touches U target N (write_generation lib m target g data)"
proof -
  note plain = lineage_paths(7) [OF assms(1)]
  let ?prefix = "''.'' @ checkpoint_file target g @ ''.''"
  have prefix: "2 < length ?prefix" by (simp add: generation_paths(3) [OF assms(1,2)] file_names)
  have temp: "?prefix @ s \<in> N" "?prefix @ s \<noteq> ''..''" for s
    using temp_of(1) [of target g s] assms(4) generation_paths(3) [OF assms(1,2)] prefix
    by (auto dest: arg_cong [of _ _ length])
  have load: "touches U target N (load_tensors lib p)" "touches U target N (sha256_file p)" "touches U target N (file_size p)" for p
  proof -
    have bytes: "touches U target N (read_bytes p)" by (rule touches_reads [OF read_bytes_frame env_files(1)])
    show "touches U target N (load_tensors lib p)" "touches U target N (sha256_file p)"
      unfolding load_tensors_def sha256_file_def by (intro touches_bind bytes touches_pure)+
    show "touches U target N (file_size p)" unfolding file_size_def
      by (intro touches_reads keeps_sys env_sys) (auto split: option.splits node.splits)
  qed
  show ?thesis unfolding write_generation_def fill_generation_def generation_paths(1) [OF assms(1,2)]
    by (intro touches_mkstemp [OF temp(1) prefix plain] touches_finally touches_bind touches_catch touches_fsync touches_pure
        load touches_file plain temp assms(3) names_plain)
qed

lemma write_generation_result:
  assumes "write_generation lib m target g data w = (Inr x, w')" "lineage_target target" "plain_id g"
  shows "\<exists>b. al_save lib data = Inr b \<and> node_at (w_fs w') (butlast target @ [tensor_name target g]) = Some (File b)"
proof -
  note plain = lineage_paths(7) [OF assms(2)]
  let ?q = "butlast target @ [tensor_name target g]" and ?prefix = "''.'' @ checkpoint_file target g @ ''.''"
  have prefix: "2 < length ?prefix" by (simp add: generation_paths(3) [OF assms(2,3)] file_names)
  obtain tmp v where temp: "mkstemp ?prefix ''.safetensors'' (butlast target) w = (Inr tmp, v)"
    and rest: "finally_do (fill_generation lib m target tmp ?q data) (remove_temp tmp) v = (Inr x, w')"
    using assms(1) generation_paths(1) [OF assms(2,3)] by (auto simp: write_generation_def bindI_Inr)
  obtain r1 v8 r where ran: "fill_generation lib m target tmp ?q data v = (r1, v8)" and removed: "remove_temp tmp v8 = (r, w')"
    and result: "Inr x = (case r of Inl e \<Rightarrow> Inl e | Inr u \<Rightarrow> r1)" using rest unfolding finally_result by blast
  have filled: "fill_generation lib m target tmp ?q data v = (Inr x, v8)" using ran result by (cases r) auto
  obtain b v1 v2 v3 v5 v6 v7 c d n where steps: "al_save lib data = Inr b" "write_fd tmp b v = (Inr (), v1)"
      "fsync_dir tmp v1 = (Inr (), v2)" "load_tensors lib tmp v2 = (Inr c, v3)" "sha256_file tmp v3 = (Inr d, v5)"
      "file_size tmp v5 = (Inr n, v6)" "os_replace tmp ?q v6 = (Inr (), v7)"
      "catch (fsync_dir (butlast target)) (\<lambda>e. ret ()) v7 = (Inr (), v8)"
    using filled unfolding fill_generation_def bindI_Inr by (elim exE conjE) (simp add: that)
  have temp_path: "tmp \<noteq> ?q" "plain_path tmp" "node_at (w_fs v) tmp = Some (File [])" "tmp \<noteq> []"
  proof -
    from temp plain prefix have "\<exists>u. tmp = butlast target @ [?prefix @ u @ ''.safetensors''] \<and> adds tmp (File []) (w_fs w) (w_fs v) \<and> plain_path tmp"
      by (cases rule: mkstemp_cases) auto
    then obtain u where u: "tmp = butlast target @ [?prefix @ u @ ''.safetensors'']" "adds tmp (File []) (w_fs w) (w_fs v)" "plain_path tmp" by blast
    have "?prefix @ u @ ''.safetensors'' \<noteq> tensor_name target g"
      using temp_of(1) [of target g "u @ ''.safetensors''"] names_apart(1) [of target g] generation_paths(3) [OF assms(2,3)] by auto
    with u show "tmp \<noteq> ?q" "plain_path tmp" "node_at (w_fs v) tmp = Some (File [])" "tmp \<noteq> []" by (simp_all add: adds_node_at)
  qed
  have "node_at (w_fs v1) tmp = Some (File b)"
    using write_fd_node [OF steps(2) temp_path(4)] temp_path(3,4) by (auto simp: node_at_put contents_def)
  moreover have "w_fs v6 = w_fs v1"
  proof -
    have bytes: "w_fs y = w_fs x" if "read_bytes tmp x = (r, y)" for r x y using keeps_same [OF read_bytes_frame that] .
    have "w_fs v6 = w_fs v5" using steps(6) by (auto simp: file_size_def sys_Inr split: option.splits node.splits)
    moreover have "w_fs v5 = w_fs v3" using steps(5) bytes by (auto simp: sha256_file_def bindI_Inr)
    moreover have "w_fs v3 = w_fs v2" using steps(4) bytes by (auto simp: load_tensors_def bindI_Inr)
    ultimately show ?thesis using fsync_files [OF steps(3)] by simp
  qed
  ultimately have moved: "node_at (w_fs v7) ?q = Some (File b)"
    using os_replace_node [OF steps(7) temp_path(2) _ temp_path(1)] plain names_plain(2) [THEN not_sym] by simp
  have "w_fs v8 = w_fs v7" using steps(8) fsync_files by (auto simp: catch_result)
  with moved remove_temp_elsewhere [OF removed temp_path(2)] temp_path(1) steps(1) show ?thesis by auto
qed

subsection \<open>Before the commit\<close>

definition hex_of :: "string \<Rightarrow> string" where
  "hex_of u = filter (\<lambda>c. c \<noteq> CHR ''-'') u"

definition fresh_names :: "(string \<Rightarrow> bool) \<Rightarrow> path \<Rightarrow> string set" where
  \<comment> \<open>what a save may write before the commit\<close>
  "fresh_names U target =
     {audit_name target} \<union> temp_names target \<union>
     {x. \<exists>u. U u \<and> (x = tensor_name target (hex_of u) \<or> x = manifest_name target (hex_of u))}"

lemma uuid_hex_step: "uuid_hex w = (r, w') \<longleftrightarrow> r = Inr (hex_of (w_uuid w (w_tick w))) \<and> w' = w\<lparr>w_tick := Suc (w_tick w)\<rparr>"
  by (auto simp: uuid_hex_def uuid4_def hex_of_def bindI_def)

lemma touches_uuid: "(\<And>u. U u \<Longrightarrow> touches U target N (k (hex_of u))) \<Longrightarrow> touches U target N (bindI uuid_hex k)"
proof -
  assume k: "\<And>u. U u \<Longrightarrow> touches U target N (k (hex_of u))"
  have "bindI uuid_hex k = bindI uuid4 (\<lambda>u. k (hex_of u))"
    by (rule ext) (simp add: bindI_def uuid_hex_def uuid4_def hex_of_def)
  with k show ?thesis unfolding touches_def by (auto intro!: outcome_uuid_step)
qed

lemma touches_readers:
  assumes "lineage_target target" "audit_name target \<in> N"
  shows "touches U target N (read_checkpoint_head lib target)" "touches U target N (validate_generation lib m target g c n)"
    "touches U target N (validate_role lib m target head ri)" "touches U target N (first_valid lib m target head ris errs)"
    "touches U target N (current_valid_generation lib m target)" "touches U target N (next_commit_seq lib target)"
proof -
  note audit = touches_audit [OF assms(1) assms(2) [unfolded audit_name_def]]
  note readers = whole_readers [OF assms(1), THEN touches_steady, OF assms(1) assms(2) [unfolded audit_name_def]]
  show head: "touches U target N (read_checkpoint_head lib target)" and "touches U target N (validate_generation lib m target g c n)"
    and role: "touches U target N (validate_role lib m target head ri)" for head ri by (rule readers)+
  show first: "touches U target N (first_valid lib m target head ris errs)" for head ris errs
  proof (induction ris arbitrary: errs)
    case Nil
    show ?case unfolding first_valid.simps by (intro touches_rules audit)
  next
    case (Cons x ris)
    show ?case unfolding first_valid.simps by (intro touches_rules audit role Cons.IH)
  qed
  show "touches U target N (current_valid_generation lib m target)"
    unfolding current_valid_generation_def by (intro touches_rules head first)
  show "touches U target N (next_commit_seq lib target)"
    unfolding next_commit_seq_def by (intro touches_rules head)
qed

lemma fresh_in:
  "audit_name target \<in> fresh_names U target" "temp_names target \<subseteq> fresh_names U target"
  "U u \<Longrightarrow> tensor_name target (hex_of u) \<in> fresh_names U target"
  "U u \<Longrightarrow> manifest_name target (hex_of u) \<in> fresh_names U target"
  by (auto simp: fresh_names_def)

lemma touches_stage:
  assumes "lineage_target target" "\<And>u. U u \<Longrightarrow> plain_id (hex_of u)"
  shows "touches U target (fresh_names U target) (stage_generation lib m target)"
proof -
  let ?N = "fresh_names U target"
  note readers = touches_readers [OF assms(1) fresh_in(1) [of target U]]
  have written: "touches U target ?N (write_generation lib m target (hex_of u) data)"
    "touches U target ?N (json_save_atomic (manifest_path target (hex_of u)) d)" if "U u" for u data d
  proof -
    note g = assms(2) [OF that]
    show "touches U target ?N (write_generation lib m target (hex_of u) data)"
      by (rule touches_generation [OF assms(1) g fresh_in(3) fresh_in(2)]) (rule that)
    show "touches U target ?N (json_save_atomic (manifest_path target (hex_of u)) d)"
      unfolding generation_paths(2) [OF assms(1) g]
      by (rule touches_json_save [OF assms(1) names_plain(3,4) fresh_in(4)]) (use that temp_of(2) fresh_in(2) in blast)+
  qed
  have fp: "touches U target ?N (failpoint lib stage)" for stage unfolding failpoint_def by (rule touches_pure)
  have pure: "touches U target ?N (call c)" "touches U target ?N (ret x)" for c :: "nat \<Rightarrow> datetime" and x by (rule touches_pure)+
  show ?thesis unfolding stage_generation_def Let_def
    by (intro touches_bind touches_mkdir [OF assms(1)] readers touches_uuid written fp touches_split(2) pure) assumption+
qed

lemma touches_step:
  assumes "touches U target N m" "dirs_to (w_fs w) (butlast target)" "\<And>n. U (w_uuid w n)" "m w = (r, w')"
  shows "siblings target N (w_fs w) (w_fs w')" "dirs_to (w_fs w') (butlast target)" "w_uuid w' = w_uuid w"
  using outcomeD [OF touchesD [OF assms(1,2)] refl assms(3,4)] assms(2) by (auto simp: siblings_def)

lemma bindI_steps:
  assumes "bindI m k w = (Inr y, w')"
  obtains x v where "m w = (Inr x, v)" "k x v = (Inr y, w')"
  using assms by (auto simp: bindI_Inr)

lemma first_valid_in: "first_valid lib m target head ris errs w = (Inr g, w') \<Longrightarrow> g \<in> snd ` set ris"
proof (induction ris arbitrary: errs w)
  case Nil
  then show ?case by (auto simp: bindI_Inr)
next
  case (Cons x ris)
  obtain r :: "bool res" and v where rest: "(case r of Inr b \<Rightarrow> ret (snd x)
      | Inl e \<Rightarrow> bindI (append_audit lib target ''generation_validation_failed'' (failure_fields ''save'' x e))
          (\<lambda>_. first_valid lib m target head ris (errs @ [snd x @ '': '' @ exc_str e]))) v = (Inr g, w')"
    using Cons.prems unfolding first_valid.simps bindI_Inr attempt_Inr by (elim exE conjE) (rule that)
  show ?case
  proof (cases r)
    case (Inl e)
    with rest obtain b v2 where "first_valid lib m target head ris (errs @ [snd x @ '': '' @ exc_str e]) v2 = (Inr g, w')"
      by (auto simp: bindI_Inr)
    from Cons.IH [OF this] show ?thesis by simp
  qed (use rest in simp)
qed

definition follows :: "('a, 't) array_library \<Rightarrow> path \<Rightarrow> fs \<Rightarrow> (string \<times> row) option \<Rightarrow> bool" where
  \<comment> \<open>what a save found before it: nothing, or the HEAD and one of the generations it names\<close>
  "follows lib target fs found \<longleftrightarrow>
     (case found of
        None \<Rightarrow> \<not> path_exists fs (lineage_head_path target)
      | Some (g, head) \<Rightarrow> lineage_head lib target fs = Inr head \<and> g \<in> snd ` set (candidates head))"

lemma found_follows:
  assumes "current_valid_generation lib m target w = (Inr found, w')" "lineage_world target fs w" "w_fs w = fs"
  shows "follows lib target fs found"
proof (cases "path_exists fs (lineage_head_path target)")
  case False
  with assms(1,3) show ?thesis by (simp add: current_valid_generation_def follows_def)
next
  case True
  then obtain head v g v2 where steps: "read_checkpoint_head lib target w = (Inr head, v)"
    "first_valid lib m target head (candidates head) [] v = (Inr g, v2)" "found = Some (g, head)"
    using assms(1,3) by (auto simp: current_valid_generation_def bindI_Inr)
  have "lineage_target target" using assms(2) by (simp add: lineage_world_def)
  from reader_step(4) [OF assms(2) whole_readers(1) [OF this] steps(1)] have "lineage_head lib target fs = Inr head"
    by (simp add: lineage_head_def)
  with steps(3) first_valid_in [OF steps(2)] show ?thesis by (simp add: follows_def)
qed

lemma next_number:
  assumes "next_commit_seq lib target w = (Inr n, w')"
  shows "1 \<le> n"
proof (cases "path_exists (w_fs w) (lineage_head_path target)")
  case True
  then obtain head v where head: "read_checkpoint_head lib target w = (Inr head, v)" and n: "n = as_int 0 (jget head ''commit_seq'') + 1"
    using assms by (auto simp: next_commit_seq_def bindI_Inr)
  obtain raw v0 where "check_head raw v0 = Inr head"
    using head unfolding read_checkpoint_head_def split_beta by (elim bindI_steps) (simp add: that)
  then show ?thesis using n
    by (auto simp: check_head_def Let_def result_simps raise_if_def natural_from_def as_int_def split: if_splits json.splits)
qed (use assms in \<open>auto simp: next_commit_seq_def\<close>)

lemma validated_parts:
  assumes "answer (validate_generation lib m target g c n) fs = Inr (cp, man)" "lineage_target target" "dirs_to fs (butlast target)"
  shows "\<exists>b data. lookup fs (checkpoint_path target g) = Some (File b) \<and> al_load lib b = Inr data \<and> checkpoint_parts lib m data = Inr cp"
proof -
  let ?p = "checkpoint_path target g"
  obtain w' where run: "validate_generation lib m target g c n (quiet_world fs) = (Inr (cp, man), w')"
    using assms(1) by (cases "validate_generation lib m target g c n (quiet_world fs)") (simp add: answer_def)
  obtain x0 v0 x1 v1 u2 v2 u3 v3 x4 v4 u5 v5 x6 v6 x7 v7 where steps:
    "read_generation_manifest lib (checkpoint_model_config m) target g c n (quiet_world fs) = (Inr x0, v0)"
    "file_size ?p v0 = (Inr x1, v1)"
    "throw_if (\<not> json_eq (jget x0 ''size_bytes'') (JInt (int x1)))
       (ValueError (''Checkpoint size mismatch: '' @ show_nat x1 @ '' != '' @ py_str (jget x0 ''size_bytes''))) v1 = (Inr u2, v2)"
    "throw_if (\<not> (case jget x0 ''sha256'' of JStr s \<Rightarrow> str_len s = 64 | _ \<Rightarrow> False))
       (ValueError ''Checkpoint manifest SHA-256 is invalid'') v2 = (Inr u3, v3)"
    "sha256_file ?p v3 = (Inr x4, v4)"
    "throw_if (jget x0 ''sha256'' \<noteq> JStr x4) (ValueError ''Checkpoint SHA-256 mismatch'') v4 = (Inr u5, v5)"
    "load_tensors lib ?p v5 = (Inr x6, v6)" "lift (checkpoint_parts lib m x6) v6 = (Inr x7, v7)"
    "ret (x7, x0) v7 = (Inr (cp, man), w')"
    using run unfolding validate_generation_def Let_def by (elim bindI_steps) (rule that)
  have "w_fs v1 = w_fs v0" using steps(2) by (auto simp: file_size_def sys_Inr split: option.splits node.splits)
  moreover have "w_fs v4 = w_fs v3"
    using steps(5) keeps_same [OF read_bytes_frame] by (auto simp: sha256_file_def bindI_Inr)
  ultimately have same: "w_fs v5 = w_fs v0" using steps(3,4,6) by (simp add: throw_if_Inr)
  obtain b v where read: "read_bytes ?p v5 = (Inr b, v)" and data: "al_load lib b = Inr x6"
    using steps(7) by (auto simp: load_tensors_def bindI_Inr)
  have steady: "steady (agree (lineage_audit_path target)) target (read_generation_manifest lib (checkpoint_model_config m) target g c n)"
    by (intro whole.steady_manifest whole_sees names_clear [OF assms(2)])
  have "agree (lineage_audit_path target) fs (w_fs v0)"
    using steadyD(1) [OF steady assms(2) _ steps(1)] assms(3) by simp
  then have "lookup (w_fs v0) ?p = lookup fs ?p" using whole_sees [OF names_clear(3) [OF assms(2)]] by (simp add: sees_def)
  with read same have "lookup fs ?p = Some (File b)" by (auto simp: read_bytes_def sys_Inr split: option.splits node.splits)
  with data steps(8,9) show ?thesis by auto
qed

lemma stage_result:
  assumes "stage_generation lib m target w = (Inr (gid, previous, cid, seq, found), w')" "lineage_target target"
    and "dirs_to (w_fs w) (butlast target)" "\<And>n. U (w_uuid w n)" "\<And>u. U u \<Longrightarrow> plain_id (hex_of u)"
  shows "\<exists>u. U u \<and> gid = hex_of u" "\<exists>u. U u \<and> cid = hex_of u" "1 \<le> seq" "previous = map_option fst found"
    "follows lib target (w_fs w) found"
    "\<exists>x. answer (validate_generation lib m target gid (Some (JStr cid)) (Some (JInt seq))) (w_fs w') = Inr x"
    "\<exists>b. al_save lib (model_tensors lib m) = Inr b \<and> node_at (w_fs w') (butlast target @ [tensor_name target gid]) = Some (File b)"
proof -
  obtain u1 v1 f v2 n v3 c v4 g v5 z v6 y1 z1 now v7 u8 v8 y2 z2 x v9 where steps:
    "mkdir_parents (butlast target) w = (Inr u1, v1)" "current_valid_generation lib m target v1 = (Inr f, v2)"
    "next_commit_seq lib target v2 = (Inr n, v3)" "uuid_hex v3 = (Inr c, v4)" "uuid_hex v4 = (Inr g, v5)"
    "write_generation lib m target g (model_tensors lib m) v5 = (Inr z, v6)"
    "failpoint lib ''after_generation_promote'' v6 = (Inr y1, z1)" "call (al_now lib) z1 = (Inr now, v7)"
    "json_save_atomic (manifest_path target g) (manifest_document (checkpoint_model_config m) target g
       (map_option fst f) c n (fst z) (snd z) now) v7 = (Inr u8, v8)"
    "failpoint lib ''after_manifest_promote'' v8 = (Inr y2, z2)"
    "validate_generation lib m target g (Some (JStr c)) (Some (JInt n)) z2 = (Inr x, v9)"
    "ret (g, map_option fst f, c, n, f) v9 = (Inr (gid, previous, cid, seq, found), w')"
    using assms(1) unfolding stage_generation_def Let_def split_beta by (elim bindI_steps) (rule that)
  have same: "z1 = v6" "z2 = v8" "g = gid" "c = cid" "n = seq" "f = found" "v9 = w'" and previous: "previous = map_option fst found"
    using steps(7,10,12) by (auto simp: failpoint_def throw_if_Inr)
  note steps = steps(1-6,8,9,11) [unfolded same]
  show "previous = map_option fst found" "1 \<le> seq" using previous next_number [OF steps(3)] by simp_all
  let ?N = "{audit_name target}"
  note readers = touches_readers [OF assms(2), of ?N, simplified, where U = U]
  have "env_kept (mkdir_parents (butlast target))" by (rule env_files)
  from env_keptD [OF this steps(1)] have v1: "w_fs v1 = w_fs w" "w_uuid v1 = w_uuid w"
    using mkdir_existing(1) [OF steps(1) lineage_paths(7) [OF assms(2)] assms(3)] by simp_all
  with found_follows [OF steps(2)] lineage_world_here [OF assms(2), of v1] assms(3) show "follows lib target (w_fs w) found" by simp
  have at1: "dirs_to (w_fs v1) (butlast target)" "\<And>n. U (w_uuid v1 n)" using v1 assms(3,4) by simp_all
  note s2 = touches_step [OF readers(5) at1 steps(2)]
  have at2: "\<And>n. U (w_uuid v2 n)" using s2(3) at1(2) by simp
  note s3 = touches_step [OF readers(6) s2(2) at2 steps(3)]
  have at3: "\<And>n. U (w_uuid v3 n)" using s3(3) at2 by simp
  have ids: "cid = hex_of (w_uuid v3 (w_tick v3))" "gid = hex_of (w_uuid v3 (Suc (w_tick v3)))" "w_fs v5 = w_fs v3" "w_uuid v5 = w_uuid v3"
    using steps(4,5) by (auto simp: uuid_hex_step)
  then show "\<exists>u. U u \<and> gid = hex_of u" "\<exists>u. U u \<and> cid = hex_of u" using at3 by blast+
  have g: "plain_id gid" using ids(2) assms(5) at3 by simp
  obtain b where b: "al_save lib (model_tensors lib m) = Inr b" "node_at (w_fs v6) (butlast target @ [tensor_name target gid]) = Some (File b)"
    using write_generation_result [OF steps(6) assms(2) g] by blast
  have at5: "dirs_to (w_fs v5) (butlast target)" "\<And>n. U (w_uuid v5 n)" using s3(2) ids at3 by simp_all
  have "touches U target (insert (tensor_name target gid) (temp_names target)) (write_generation lib m target gid (model_tensors lib m))"
    by (rule touches_generation [OF assms(2) g]) auto
  note s6 = touches_step [OF this at5 steps(6)]
  have v7: "w_fs v7 = w_fs v6" "w_uuid v7 = w_uuid v6" using steps(7) by (auto simp: call_def)
  let ?M = "insert (manifest_name target gid) (temp_names target)"
  have "touches U target ?M (json_save_atomic (manifest_path target gid) d)" for d
    unfolding generation_paths(2) [OF assms(2) g] by (rule touches_json_save [OF assms(2) names_plain(3,4)]) (use temp_of(2) in auto)
  note s8 = touches_step [OF this _ _ steps(8)]
  have s8: "siblings target ?M (w_fs v7) (w_fs v8)" "dirs_to (w_fs v8) (butlast target)" "w_uuid v8 = w_uuid v7"
    using s8 v7 s6(2,3) at5(2) by auto
  have at8: "lineage_world target (w_fs v8) v8" by (rule lineage_world_here [OF assms(2) s8(2)])
  note valid = whole_readers(2) [OF assms(2), of lib m gid "Some (JStr cid)" "Some (JInt seq)"]
  have last: "agree (lineage_audit_path target) (w_fs v8) (w_fs w')"
    using reader_step(1) [OF at8 valid steps(9)] by (simp add: lineage_world_def)
  have "lineage_world target (w_fs w') v8"
    using whole.dirs_kept [OF assms(2) last s8(2)] last assms(2) agree_sym by (auto simp: lineage_world_def)
  from reader_step(4) [OF this valid steps(9)]
  show "\<exists>x. answer (validate_generation lib m target gid (Some (JStr cid)) (Some (JInt seq))) (w_fs w') = Inr x" by blast
  have "node_at (w_fs w') (butlast target @ [tensor_name target gid]) = node_at (w_fs v8) (butlast target @ [tensor_name target gid])"
    using last lineage_paths(1) [OF assms(2)] names_apart(8) [of target gid] by (simp add: agree_def audit_name_def)
  also have "\<dots> = Some (File b)"
    using s8(1) v7 s6(2) b(2) names_apart(1,10) by (simp add: siblings_def)
  finally show "\<exists>b. al_save lib (model_tensors lib m) = Inr b \<and> node_at (w_fs w') (butlast target @ [tensor_name target gid]) = Some (File b)"
    using b(1) by blast
qed

subsection \<open>Pruning\<close>

definition kept_names :: "path \<Rightarrow> string set \<Rightarrow> string set" where
  "kept_names target keep = {head_name target} \<union> tensor_name target ` keep \<union> manifest_name target ` keep"

lemma touches_observe: "(\<And>fs. touches U target N (k (f fs))) \<Longrightarrow> touches U target N (bindI (observe f) k)"
  unfolding touches_def by (auto intro!: outcome_observe_step)

lemma glob_in_directory:
  assumes "\<forall>c \<in> set dir. \<not> has_magic c" "p \<in> set (glob_from fs cur (dir @ [pat]))" "\<not> has_magic pat \<longrightarrow> plain_name pat"
  shows "\<exists>x. plain_name x \<and> p = cur @ dir @ [x]"
  using assms
proof (induction dir arbitrary: cur)
  case Nil
  then show ?case by (auto simp: listdir_def split: if_splits)
next
  case (Cons c dir)
  then have "p \<in> set (glob_from fs (cur @ [c]) (dir @ [pat]))" by (auto split: if_splits)
  from Cons.IH [OF _ this] Cons.prems show ?case by auto
qed

lemma path_text_snoc: "path_text (dir @ [x]) = (if dir = [] then [] else path_text dir) @ CHR ''/'' # x"
  by (induction dir rule: join.induct [of _ "''/''"]) (auto simp: path_text_def as_posix_def)

lemma text_of_parts:
  assumes "list_all plain_name dir" "x \<noteq> []" "x \<noteq> ''.''" "CHR ''/'' \<notin> set x"
  shows "parts (path_text (dir @ [x])) = dir @ [x]"
proof -
  have "list_all path_name (dir @ [x])" using assms by (auto simp: list_all_iff path_name_def plain_name_def)
  from parts_join [OF this] show ?thesis by (simp add: parts_def path_text_def)
qed

lemma touches_remove:
  "x \<in> N \<Longrightarrow> x \<noteq> ''..'' \<Longrightarrow> lineage_target target \<Longrightarrow> touches U target N (remove_if_there (butlast target @ [x]))"
  unfolding remove_if_there_def using touches_file(2) lineage_paths(7) by (intro touches_catch touches_pure) blast+

lemma pruned_name:
  assumes "lineage_target target" "plain_name x" "p = butlast target @ [x]" "ends_with ''.safetensors'' name"
    and "name = drop (length (path_text target @ ''.g-'')) (path_text p)" "g = take (length name - length ''.safetensors'') name"
  shows "name = drop (length (last target) + 3) x" "name = g @ ''.safetensors''"
    "parts ((path_text target @ ''.g-'') @ g @ ''.manifest.json'') = butlast target @ [manifest_name target g]"
proof -
  have target: "target = butlast target @ [last target]" using assms(1) by (simp add: lineage_target_def)
  let ?d = "if butlast target = [] then [] else path_text (butlast target)"
  have shown: "path_text target = ?d @ CHR ''/'' # last target" "path_text p = ?d @ CHR ''/'' # x"
    using target assms(3) path_text_snoc [of "butlast target"] by metis+
  show name: "name = drop (length (last target) + 3) x" unfolding assms(5) shown by (simp add: drop_Cons' add.commute)
  show split: "name = g @ ''.safetensors''"
    using assms(4) append_take_drop_id [of "length name - length ''.safetensors''" name] unfolding ends_with_def assms(6) by simp
  have "set g \<subseteq> set name" by (auto simp: split)
  moreover have "set name \<subseteq> set x" unfolding name by (rule set_drop_subset)
  moreover have "plain_name (last target)" "list_all plain_name (butlast target)"
    using assms(1) by (auto simp: lineage_target_def list_all_iff dest: in_set_butlastD)
  ultimately have slash: "CHR ''/'' \<notin> set (manifest_name target g)" and dir: "list_all plain_name (butlast target)"
    using assms(2) by (auto simp: plain_name_def manifest_name_def)
  have "manifest_name target g \<noteq> ''.''" by (intro notI) (drule arg_cong [of _ _ length], simp add: manifest_name_def)
  from text_of_parts [OF dir _ this slash] have "parts (path_text (butlast target @ [manifest_name target g])) = butlast target @ [manifest_name target g]"
    by (simp add: names_plain)
  moreover have "path_text (butlast target @ [manifest_name target g]) = (path_text target @ ''.g-'') @ g @ ''.manifest.json''"
    unfolding shown(1) path_text_snoc manifest_name_def by simp
  ultimately show "parts ((path_text target @ ''.g-'') @ g @ ''.manifest.json'') = butlast target @ [manifest_name target g]" by simp
qed

lemma touches_prune:
  assumes "lineage_target target" "\<forall>c \<in> set (butlast target). \<not> has_magic c"
  shows "touches U target (- kept_names target keep) (prune_generations target keep)"
proof -
  let ?N = "- kept_names target keep" and ?prefix = "path_text target @ ''.g-''"
  have step: "touches U target ?N
      (if \<not> ends_with ''.safetensors'' name \<or> g \<in> keep then ret ()
       else bindI (remove_if_there p) (\<lambda>_. remove_if_there (parts (?prefix @ g @ ''.manifest.json''))))"
    if "plain_name x" "p = butlast target @ [x]" "name = drop (length ?prefix) (path_text p)"
      "g = take (length name - length ''.safetensors'') name" for x p name g
  proof (cases "ends_with ''.safetensors'' name \<and> g \<notin> keep")
    case False
    then show ?thesis by (auto intro: touches_pure)
  next
    case True
    note name = pruned_name [OF assms(1) that(1,2) conjunct1 [OF True] that(3,4)]
    have "x \<noteq> head_name target" using name(1,2) by (auto simp: head_name_def dest: arg_cong [of _ _ length])
    moreover have "x \<noteq> manifest_name target k" for k
    proof
      assume "x = manifest_name target k"
      with name have "last (k @ ''.manifest.json'') = last (g @ ''.safetensors'')" by (simp add: manifest_name_def)
      then show False by simp
    qed
    moreover have "x \<noteq> tensor_name target k" if "k \<in> keep" for k using name(1,2) True that by (auto simp: tensor_name_def)
    ultimately have "x \<in> ?N" by (auto simp: kept_names_def)
    moreover have "manifest_name target g \<in> ?N"
      using True names_apart(7,12) names_apart(10) [THEN not_sym] by (auto simp: kept_names_def)
    moreover have "x \<noteq> ''..''" using that(1) by (simp add: plain_name_def)
    ultimately have "touches U target ?N (bindI (remove_if_there p) (\<lambda>_. remove_if_there (parts (?prefix @ g @ ''.manifest.json''))))"
      unfolding name(3) that(2) by (intro touches_bind touches_remove assms(1) names_plain)
    with True show ?thesis by simp
  qed
  have pat: "path_plus target ''.g-*.safetensors'' = butlast target @ [last target @ ''.g-*.safetensors'']"
    by (rule path_plus_plain [OF assms(1)]) simp_all
  show ?thesis unfolding prune_generations_def Let_def pat
  proof (intro touches_observe touches_for)
    fix fs p
    assume "p \<in> set (glob_from fs [] (butlast target @ [last target @ ''.g-*.safetensors'']))"
    from glob_in_directory [OF assms(2) this] obtain x where x: "plain_name x" "p = butlast target @ [x]"
      by (auto simp: has_magic_def)
    from step [OF x refl refl]
    show "touches U target ?N
      (if \<not> ends_with ''.safetensors'' (drop (length ?prefix) (path_text p)) \<or>
          take (length (drop (length ?prefix) (path_text p)) - length ''.safetensors'') (drop (length ?prefix) (path_text p)) \<in> keep
       then ret ()
       else bindI (remove_if_there p) (\<lambda>_. remove_if_there
         (parts (?prefix @ take (length (drop (length ?prefix) (path_text p)) - length ''.safetensors'') (drop (length ?prefix) (path_text p)) @
           ''.manifest.json''))))" .
  qed
qed

subsection \<open>The lineage after an interrupted save\<close>

lemma answer_same:
  assumes "steady R target m" "lineage_target target" "dirs_to s (butlast target)" "R s t" "dirs_to t (butlast target)"
  shows "answer m t = answer m s"
proof -
  obtain r w' where run: "m (quiet_world s) = (r, w')" by fastforce
  from steadyD(4) [OF assms(1,2) _ run, of t] assms(3-5) run show ?thesis by (simp add: answer_def quiet_def)
qed

definition lineage_ids :: "('a, 't) array_library \<Rightarrow> path \<Rightarrow> fs \<Rightarrow> string set" where
  \<comment> \<open>the generations that the HEAD names\<close>
  "lineage_ids lib target fs = (case lineage_head lib target fs of Inl e \<Rightarrow> {} | Inr head \<Rightarrow> snd ` set (candidates head))"

lemma head_current:
  assumes "lineage_head lib target fs = Inr head"
  shows "text_of (jget head ''current_generation'') \<in> snd ` set (candidates head)"
proof -
  obtain w' where head: "read_checkpoint_head lib target (quiet_world fs) = (Inr head, w')"
    using assms by (cases "read_checkpoint_head lib target (quiet_world fs)") (simp add: lineage_head_def answer_def)
  obtain raw v0 where "check_head raw v0 = Inr head"
    using head unfolding read_checkpoint_head_def split_beta by (elim bindI_steps) (simp add: that)
  then have "nonempty_str (jget head ''current_generation'')"
    by (auto simp: check_head_def Let_def result_simps raise_if_def split: if_splits)
  then show ?thesis by (auto simp: candidates_def nonempty_str_def text_of_def split: json.splits)
qed

lemma siblings_view:
  assumes "siblings target N s t" "dirs_to s (butlast target)" "K \<subseteq> (\<lambda>x. butlast target @ [x]) ` (- N)"
  shows "same_at (K - A) s t" "dirs_to t (butlast target)"
  using assms by (auto simp: siblings_def same_at_def)

lemma file_seen:
  assumes "lineage_target target" "x \<noteq> ''..''" "x \<noteq> audit_name target" "x \<notin> N"
  shows "sees (same_at ((\<lambda>x. butlast target @ [x]) ` (- N) - {lineage_audit_path target})) (butlast target @ [x])"
  by (rule nodes_see) (use assms lineage_paths(7) [OF assms(1)] in \<open>simp_all add: lineage_paths(1) audit_name_def\<close>)

lemma generation_seen:
  assumes "lineage_target target" "siblings target N s t" "dirs_to s (butlast target)"
    and "plain_id g" "tensor_name target g \<notin> N" "manifest_name target g \<notin> N"
  shows "answer (validate_generation lib m target g c n) t = answer (validate_generation lib m target g c n) s"
proof -
  let ?K = "(\<lambda>x. butlast target @ [x]) ` (- N)"
  have "sees (same_at (?K - {lineage_audit_path target})) (manifest_path target g)"
    "sees (same_at (?K - {lineage_audit_path target})) (checkpoint_path target g)"
    unfolding generation_paths [OF assms(1,4)] by (rule file_seen [OF assms(1)]; use assms(5,6) names_plain names_apart in simp)+
  from nodes.steady_generation [OF this] show ?thesis
    using assms(1,3) siblings_view [OF assms(2,3) order_refl] by (rule answer_same)
qed

lemma lineage_kept:
  assumes "lineage_target target" "siblings target N s t" "dirs_to s (butlast target)" "head_name target \<notin> N"
    and ids: "\<And>g. g \<in> lineage_ids lib target s \<Longrightarrow> plain_id g \<and> tensor_name target g \<notin> N \<and> manifest_name target g \<notin> N"
  shows "lineage_head lib target t = lineage_head lib target s"
    "selected_generation lib m target t = selected_generation lib m target s"
proof -
  let ?R = "same_at ((\<lambda>x. butlast target @ [x]) ` (- N) - {lineage_audit_path target})"
  have head_path: "lineage_head_path target = butlast target @ [head_name target]"
    using lineage_paths(2) [OF assms(1)] by (simp add: head_name_def)
  have "sees ?R (lineage_head_path target)"
    unfolding head_path using assms(4) names_plain names_apart by (intro file_seen assms(1)) auto
  from nodes.steady_head [OF this, of lib] show head: "lineage_head lib target t = lineage_head lib target s"
    unfolding lineage_head_def using assms(1,3) siblings_view [OF assms(2,3) order_refl] by (rule answer_same)
  show "selected_generation lib m target t = selected_generation lib m target s"
  proof (cases "lineage_head lib target s")
    case (Inr hd)
    have seen: "sees ?R (manifest_path target g)" "sees ?R (checkpoint_path target g)" if "g \<in> snd ` set (candidates hd)" for g
    proof -
      from ids [of g] that Inr have g: "plain_id g" "tensor_name target g \<notin> N" "manifest_name target g \<notin> N" by (simp_all add: lineage_ids_def)
      show "sees ?R (manifest_path target g)" "sees ?R (checkpoint_path target g)"
        unfolding generation_paths [OF assms(1) g(1)] by (rule file_seen [OF assms(1)]; use g names_plain names_apart in simp)+
    qed
    have "role_validates lib m target t hd ri = role_validates lib m target s hd ri" if "ri \<in> set (candidates hd)" for ri
      unfolding role_validates_def
      by (rule answer_same [OF nodes.steady_role assms(1,3) siblings_view [OF assms(2,3) order_refl]])
        (use seen that head_current [OF Inr] in auto)
    with Inr head show ?thesis by (simp add: selected_generation_def cong: pick_cong)
  qed (simp add: selected_generation_def head)
qed

subsection \<open>The commit\<close>

definition committed :: "('a, 't) array_library \<Rightarrow> ('a, 't) model \<Rightarrow> path \<Rightarrow> string \<Rightarrow> string option \<Rightarrow> string \<Rightarrow> int \<Rightarrow> fs \<Rightarrow> bool" where
  \<comment> \<open>the HEAD names the new generation, which validates and holds the tensors of the model\<close>
  "committed lib m target g previous c n fs \<longleftrightarrow>
     dirs_to fs (butlast target) \<and>
     (\<exists>now. node_at fs (butlast target @ [head_name target]) = Some (File (document_text (head_document g previous c n now)))) \<and>
     (\<exists>x. answer (validate_generation lib m target g (Some (JStr c)) (Some (JInt n))) fs = Inr x) \<and>
     (\<exists>b. al_save lib (model_tensors lib m) = Inr b \<and> node_at fs (butlast target @ [tensor_name target g]) = Some (File b))"

definition holds_saved_model :: "('a, 't) array_library \<Rightarrow> ('a, 't) model \<Rightarrow> path \<Rightarrow> fs \<Rightarrow> bool" where
  \<comment> \<open>the generation that the tree selects is a current one and was read from the tensors of the model\<close>
  "holds_saved_model lib m target fs \<longleftrightarrow>
     (\<exists>g cp man b data. selected_generation lib m target fs = Some ((''current'', g), cp, man) \<and>
        al_save lib (model_tensors lib m) = Inr b \<and> al_load lib b = Inr data \<and> checkpoint_parts lib m data = Inr cp)"

lemma committed_kept:
  assumes "committed lib m target g previous c n s" "lineage_target target" "plain_id g" "siblings target N s t"
    and "head_name target \<notin> N" "tensor_name target g \<notin> N" "manifest_name target g \<notin> N"
  shows "committed lib m target g previous c n t"
proof -
  have dirs: "dirs_to s (butlast target)" using assms(1) by (simp add: committed_def)
  note same = generation_seen [OF assms(2,4) dirs assms(3,6,7)]
  from assms(1,4-7) show ?thesis by (auto simp: committed_def siblings_def same)
qed

lemma committed_selects:
  assumes "committed lib m target g previous c n fs" "lineage_target target" "plain_id g"
    and "ascii_id g" "\<forall>p. previous = Some p \<longrightarrow> ascii_id p \<and> p \<noteq> g" "ascii_id c" "1 \<le> n"
  shows "holds_saved_model lib m target fs"
proof -
  obtain now cp man b where at: "node_at fs (butlast target @ [head_name target]) = Some (File (document_text (head_document g previous c n now)))"
    "answer (validate_generation lib m target g (Some (JStr c)) (Some (JInt n))) fs = Inr (cp, man)"
    "al_save lib (model_tensors lib m) = Inr b" "node_at fs (butlast target @ [tensor_name target g]) = Some (File b)"
    and dirs: "dirs_to fs (butlast target)" using assms(1) by (auto simp: committed_def)
  note plain = lineage_paths(7) [OF assms(2)]
  have "lookup fs (lineage_head_path target) = node_at fs (butlast target @ [head_name target])"
    using lineage_paths(2,6) [OF assms(2)] by (simp add: head_name_def)
  with written_head [OF _ assms(4-7)] at(1) have head: "lineage_head lib target fs = Inr (head_document g previous c n now)" by simp
  obtain rest where cands: "candidates (head_document g previous c n now) = (''current'', g) # rest"
    using assms(4) by (simp add: candidates_def head_document_def jget_def text_of_def ascii_id_def)
  have "role_validates lib m target fs (head_document g previous c n now) (''current'', g) = Inr (cp, man)"
    using at(2) by (simp add: role_validates_def validate_role_def head_document_def jget_def)
  with head cands have selected: "selected_generation lib m target fs = Some ((''current'', g), cp, man)"
    by (simp add: selected_generation_def)
  have "lookup fs (checkpoint_path target g) = Some (File b)"
    using at(4) plain names_plain(2) [of target g, THEN not_sym] by (simp add: generation_paths [OF assms(2,3)])
  with validated_parts [OF at(2) assms(2) dirs] obtain data where "al_load lib b = Inr data" "checkpoint_parts lib m data = Inr cp" by auto
  with selected at(3) show ?thesis by (auto simp: holds_saved_model_def)
qed

lemma commit_step:
  assumes "commit_head lib target g previous c n w = (r, w')" "lineage_target target" "dirs_to (w_fs w) (butlast target)"
  shows "siblings target (insert (head_name target) (temp_names target)) (w_fs w) (w_fs w') \<and>
    ((\<exists>now. node_at (w_fs w') (butlast target @ [head_name target]) = Some (File (document_text (head_document g previous c n now)))) \<or>
     r \<noteq> Inr () \<and> siblings target (temp_names target) (w_fs w) (w_fs w'))"
proof -
  have head_path: "lineage_head_path target = butlast target @ [head_name target]"
    using lineage_paths(2) [OF assms(2)] by (simp add: head_name_def)
  have "(r \<noteq> Inr () \<and> w_fs w' = w_fs w) \<or>
      (\<exists>now k. json_save_atomic (butlast target @ [head_name target]) (head_document g previous c n now) (w\<lparr>w_tick := k\<rparr>) = (r, w'))"
    using assms(1) by (auto simp: commit_head_def bindI_result call_result failpoint_def throw_if_result head_path split: if_splits)
  then show ?thesis
  proof (elim disjE exE)
    fix now k
    let ?v = "w\<lparr>w_tick := k\<rparr>"
    assume run: "json_save_atomic (butlast target @ [head_name target]) (head_document g previous c n now) ?v = (r, w')"
    have "touches (\<lambda>u. True) target (insert (head_name target) (temp_names target)) (json_save_atomic (butlast target @ [head_name target]) d)" for d
      by (rule touches_json_save [OF assms(2) names_plain(5,6)]) (use temp_of(3) in auto)
    from touches_step(1) [OF this _ _ run] assms(3)
    have all: "siblings target (insert (head_name target) (temp_names target)) (w_fs w) (w_fs w')" by simp
    from json_save_target [OF run assms(2) names_plain(5,6)] assms(3)
    have "node_at (w_fs w') (butlast target @ [head_name target]) = Some (File (document_text (head_document g previous c n now))) \<or>
      r \<noteq> Inr () \<and> node_at (w_fs w') (butlast target @ [head_name target]) = node_at (w_fs w) (butlast target @ [head_name target])"
      by (simp add: document_text_def)
    then show ?thesis
    proof
      assume "r \<noteq> Inr () \<and> node_at (w_fs w') (butlast target @ [head_name target]) = node_at (w_fs w) (butlast target @ [head_name target])"
      moreover from this all have "siblings target (temp_names target) (w_fs w) (w_fs w')" unfolding siblings_def by (metis insert_iff)
      ultimately show ?thesis using all by blast
    qed (use all in blast)
  qed simp
qed

lemma touches_finish:
  assumes "lineage_target target" "\<forall>c \<in> set (butlast target). \<not> has_magic c"
  shows "touches U target (- kept_names target (kept_generations g found)) (finish_save lib target g previous c n found)"
proof -
  have "audit_name target \<notin> kept_names target keep" for keep
    using names_apart(5,8,9) by (auto simp: kept_names_def dest: sym)
  then show ?thesis unfolding finish_save_def failpoint_def
    by (intro touches_bind touches_audit touches_pure touches_prune assms) (simp add: audit_name_def)
qed

subsection \<open>Interrupted saves\<close>

definition good_ids :: "('a, 't) array_library \<Rightarrow> path \<Rightarrow> fs \<Rightarrow> (nat \<Rightarrow> string) \<Rightarrow> bool" where
  \<comment> \<open>random ids are new; those in use are ASCII names without a slash\<close>
  "good_ids lib target fs ids \<longleftrightarrow>
     (\<forall>n. ascii_id (hex_of (ids n)) \<and> plain_id (hex_of (ids n)) \<and> hex_of (ids n) \<notin> lineage_ids lib target fs) \<and>
     (\<forall>g \<in> lineage_ids lib target fs. ascii_id g \<and> plain_id g)"

lemma follows_ids: "follows lib target fs found \<Longrightarrow> map_option fst found = Some p \<Longrightarrow> p \<in> lineage_ids lib target fs"
  by (auto simp: follows_def lineage_ids_def)

lemma save_cases:
  assumes "save lib target m w = ((r, m'), w')"
  obtains (refused) ra where "append_audit lib target ''save_refused_legacy_unbound_taint''
        [(''legacy_unbound_source'', opt_id (md_taint_source m))] w = (ra, w')" "r \<noteq> Inr ()"
    | (unstaged) e where "stage_generation lib m target w = (Inl e, w')" "r \<noteq> Inr ()"
    | (staged) g previous c n found v rc v2 where "stage_generation lib m target w = (Inr (g, previous, c, n, found), v)"
        "commit_head lib target g previous c n v = (rc, v2)"
        "rc \<noteq> Inr () \<Longrightarrow> r \<noteq> Inr () \<and> w' = v2" "rc = Inr () \<Longrightarrow> finish_save lib target g previous c n found v2 = (r, w')"
proof (cases "md_taint m")
  case True
  with assms refused show thesis by (auto simp: save_def act_results)
next
  case False
  obtain rs v where stage: "stage_generation lib m target w = (rs, v)" by fastforce
  show thesis
  proof (cases rs)
    case (Inl e)
    with assms False stage have "stage_generation lib m target w = (Inl e, w')" "r \<noteq> Inr ()" by (auto simp: save_def)
    then show thesis by (rule unstaged)
  next
    case (Inr x)
    obtain g previous c n found where x: "x = (g, previous, c, n, found)" by (cases x) auto
    obtain rc v2 where commit: "commit_head lib target g previous c n v = (rc, v2)" by fastforce
    from assms False stage Inr x commit show thesis
      by (intro staged [OF _ commit]) (auto simp: save_def act_results)
  qed
qed

lemma fresh_names_unseen:
  assumes "good_ids lib target fs ids" "lineage_target target" "dirs_to fs (butlast target)"
    and "siblings target (fresh_names (\<lambda>u. u \<in> range ids) target) fs t"
  shows "lineage_head lib target t = lineage_head lib target fs \<and>
    (\<forall>m. selected_generation lib m target t = selected_generation lib m target fs)"
proof -
  let ?F = "fresh_names (\<lambda>u. u \<in> range ids) target"
  have "plain_id g \<and> tensor_name target g \<notin> ?F \<and> manifest_name target g \<notin> ?F" if "g \<in> lineage_ids lib target fs" for g
    using assms(1) that names_apart names_apart(10) [THEN not_sym] by (auto simp: good_ids_def fresh_names_def)
  moreover have "head_name target \<notin> ?F" using names_apart names_apart(6,7) [THEN not_sym] by (auto simp: fresh_names_def)
  ultimately show ?thesis using lineage_kept [OF assms(2,4,3)] by blast
qed

lemma staged_save:
  assumes "stage_generation lib m target w = (Inr (g, previous, c, n, found), v)" "commit_head lib target g previous c n v = (rc, v2)"
    and target: "lineage_target target" "dirs_to (w_fs w) (butlast target)" "good_ids lib target (w_fs w) (w_uuid w)"
  shows "siblings target (fresh_names (\<lambda>u. u \<in> range (w_uuid w)) target) (w_fs w) (w_fs v2) \<and> rc \<noteq> Inr () \<or>
      committed lib m target g previous c n (w_fs v2)" "plain_id g"
    "committed lib m target g previous c n fs \<Longrightarrow> holds_saved_model lib m target fs"
proof -
  let ?U = "\<lambda>u. u \<in> range (w_uuid w)" and ?F = "fresh_names (\<lambda>u. u \<in> range (w_uuid w)) target"
  have U: "\<And>n. ?U (w_uuid w n)" "\<And>u. ?U u \<Longrightarrow> plain_id (hex_of u) \<and> ascii_id (hex_of u) \<and> hex_of u \<notin> lineage_ids lib target (w_fs w)"
    "\<And>g. g \<in> lineage_ids lib target (w_fs w) \<Longrightarrow> ascii_id g"
    using target(3) by (auto simp: good_ids_def)
  have "touches ?U target ?F (stage_generation lib m target)" by (rule touches_stage [OF target(1)]) (use U(2) in blast)
  note at_stage = touches_step [OF this target(2) U(1) assms(1)]
  note staged = stage_result [where U = ?U, OF assms(1) target(1,2) U(1) conjunct1 [OF U(2)]]
  note at_commit = commit_step [OF assms(2) target(1) at_stage(2)]
  from staged(1,2) obtain ug uc where ids: "?U ug" "g = hex_of ug" "?U uc" "c = hex_of uc" by blast
  show g: "plain_id g" using U(2) ids by simp
  have ascii: "ascii_id g" "ascii_id c" using U(2) ids by simp_all
  have p: "\<forall>p. previous = Some p \<longrightarrow> ascii_id p \<and> p \<noteq> g"
    using follows_ids [OF staged(5)] U(2,3) ids staged(4) by auto
  show "holds_saved_model lib m target fs" if "committed lib m target g previous c n fs"
    by (rule committed_selects [OF that target(1) g ascii(1) p ascii(2) staged(3)])
  let ?N = "insert (head_name target) (temp_names target)"
  have same: "siblings target ?N (w_fs v) (w_fs v2)" using at_commit by blast
  have apart: "tensor_name target g \<notin> ?N" "manifest_name target g \<notin> ?N" using names_apart by auto
  from at_commit
  show "siblings target ?F (w_fs w) (w_fs v2) \<and> rc \<noteq> Inr () \<or> committed lib m target g previous c n (w_fs v2)"
  proof (elim conjE disjE)
    assume "siblings target (temp_names target) (w_fs v) (w_fs v2)" "rc \<noteq> Inr ()"
    with siblings_trans [OF at_stage(1)] siblings_mono [OF _ fresh_in(2)] show ?thesis by blast
  next
    assume "\<exists>now. node_at (w_fs v2) (butlast target @ [head_name target]) = Some (File (document_text (head_document g previous c n now)))"
    moreover have "dirs_to (w_fs v2) (butlast target)"
      "node_at (w_fs v2) (butlast target @ [tensor_name target g]) = node_at (w_fs v) (butlast target @ [tensor_name target g])"
      using same at_stage(2) apart(1) by (simp_all add: siblings_def)
    ultimately show ?thesis
      using staged(6,7) by (simp add: committed_def generation_seen [OF target(1) same at_stage(2) g apart])
  qed
qed

text \<open>C9. A save, whatever call fails and at whatever failpoint it stops, leaves the lineage as it was for every
  reader, and then it raises, or the tree selects as its current generation the one that holds the saved
  tensors; a save that returns has done the latter.\<close>

theorem save_is_crash_safe:
  assumes "save lib target m w = ((r, m'), w')" "lineage_target target" "dirs_to (w_fs w) (butlast target)"
    and "\<forall>c \<in> set (butlast target). \<not> has_magic c" "good_ids lib target (w_fs w) (w_uuid w)"
  shows "holds_saved_model lib m target (w_fs w') \<or>
    r \<noteq> Inr () \<and> lineage_head lib target (w_fs w') = lineage_head lib target (w_fs w) \<and>
      (\<forall>m2. selected_generation lib m2 target (w_fs w') = selected_generation lib m2 target (w_fs w))"
  using assms(1)
proof (cases rule: save_cases)
  case (refused ra)
  have "siblings target (fresh_names (\<lambda>u. u \<in> range (w_uuid w)) target) (w_fs w) (w_fs w')"
    by (rule siblings_agree [OF audit_effect(1) [OF refused(1) assms(2,3)] assms(2) fresh_in(1) [unfolded audit_name_def]])
  with fresh_names_unseen [OF assms(5,2,3)] refused(2) show ?thesis by blast
next
  case (unstaged e)
  have "touches (\<lambda>u. u \<in> range (w_uuid w)) target (fresh_names (\<lambda>u. u \<in> range (w_uuid w)) target) (stage_generation lib m target)"
    by (rule touches_stage [OF assms(2)]) (use assms(5) in \<open>auto simp: good_ids_def\<close>)
  from touches_step(1) [OF this assms(3) rangeI unstaged(1)] fresh_names_unseen [OF assms(5,2,3)] unstaged(2) show ?thesis by blast
next
  case (staged g previous c n found v rc v2)
  note saved = staged_save [OF staged(1,2) assms(2,3,5)]
  show ?thesis
  proof (cases "committed lib m target g previous c n (w_fs v2)")
    case False
    with saved(1) staged(3) fresh_names_unseen [OF assms(5,2,3)] show ?thesis by blast
  next
    case there: True
    have "siblings target (- kept_names target (kept_generations g found)) (w_fs v2) (w_fs w')"
    proof (cases "rc = Inr ()")
      case True
      with there touches_step(1) [OF touches_finish [OF assms(2,4), where U = "\<lambda>u. True"] _ _ staged(4)] show ?thesis
        by (simp add: committed_def)
    qed (use staged(3) in simp)
    from committed_kept [OF there assms(2) saved(2) this] have "committed lib m target g previous c n (w_fs w')"
      by (simp add: kept_names_def kept_generations_def)
    from saved(3) [OF this] show ?thesis ..
  qed
qed

subsection \<open>The generations a save leaves alone\<close>

lemma named_are_kept: "follows lib target fs found \<Longrightarrow> lineage_ids lib target fs \<subseteq> kept_generations g found"
proof (cases found)
  case None
  assume "follows lib target fs found"
  with None have gone: "\<not> path_exists fs (lineage_head_path target)" by (simp add: follows_def)
  obtain r w' where run: "read_checkpoint_head lib target (quiet_world fs) = (r, w')" by fastforce
  with gone head_read_there [of lib target "quiet_world fs"] have "\<exists>e. r = Inl e" by (cases r) auto
  with run show ?thesis by (auto simp: lineage_ids_def lineage_head_def answer_def)
next
  case (Some x)
  obtain p head where x: "x = (p, head)" by fastforce
  assume "follows lib target fs found"
  then show ?thesis
    by (auto simp: Some x follows_def lineage_ids_def kept_generations_def candidates_def text_of_def truthy.simps split: json.splits if_splits)
qed

lemma save_until_pruning:
  assumes "save lib target m w = ((r, m'), w')" "lineage_target target" "dirs_to (w_fs w) (butlast target)"
    and "good_ids lib target (w_fs w) (w_uuid w)"
  obtains v g previous c n found where
    "siblings target (insert (head_name target) (fresh_names (\<lambda>u. u \<in> range (w_uuid w)) target)) (w_fs w) (w_fs v)"
    "v = w' \<or> follows lib target (w_fs w) found \<and> finish_save lib target g previous c n found v = (r, w')"
proof -
  let ?U = "\<lambda>u. u \<in> range (w_uuid w)" and ?F = "fresh_names (\<lambda>u. u \<in> range (w_uuid w)) target"
  have plain: "\<And>u. ?U u \<Longrightarrow> plain_id (hex_of u)" using assms(4) by (auto simp: good_ids_def)
  note stage = touches_step [OF touches_stage [where U = ?U, OF assms(2) plain] assms(3) rangeI]
  note wider = siblings_mono [OF _ subset_insertI]
  from assms(1) show thesis
  proof (cases rule: save_cases)
    case (refused ra)
    have "siblings target ?F (w_fs w) (w_fs w')"
      by (rule siblings_agree [OF audit_effect(1) [OF refused(1) assms(2,3)] assms(2) fresh_in(1) [unfolded audit_name_def]])
    from that [OF wider [OF this]] show thesis by blast
  next
    case (unstaged e)
    from that [OF wider [OF stage(1) [OF _ unstaged(1)]]] show thesis by blast
  next
    case (staged g previous c n found v rc v2)
    have "siblings target (insert (head_name target) ?F) (w_fs v) (w_fs v2)"
      by (rule siblings_mono [OF conjunct1 [OF commit_step [OF staged(2) assms(2) stage(2) [OF _ staged(1)]]]]) (use fresh_in(2) in blast)+
    from that [OF siblings_trans [OF wider [OF stage(1) [OF _ staged(1)]] this]] show thesis
      using staged(3,4) stage_result(5) [where U = ?U, OF staged(1) assms(2,3) rangeI plain] by blast
  qed
qed

text \<open>C12. A save, whatever call fails, changes no generation that the HEAD names when it starts: each of them
  validates afterwards exactly as before, for every model, also after pruning.\<close>

theorem save_keeps_named_generations:
  assumes "save lib target m w = ((r, m'), w')" "lineage_target target" "dirs_to (w_fs w) (butlast target)"
    and "\<forall>c \<in> set (butlast target). \<not> has_magic c" "good_ids lib target (w_fs w) (w_uuid w)"
    and "k \<in> lineage_ids lib target (w_fs w)"
  shows "answer (validate_generation lib m2 target k c n) (w_fs w') = answer (validate_generation lib m2 target k c n) (w_fs w)"
proof -
  let ?F = "insert (head_name target) (fresh_names (\<lambda>u. u \<in> range (w_uuid w)) target)"
  have k: "plain_id k" "tensor_name target k \<notin> ?F" "manifest_name target k \<notin> ?F"
    using assms(5,6) names_apart names_apart(10) [THEN not_sym] by (auto simp: good_ids_def fresh_names_def)
  obtain v g previous ci ni found where v: "siblings target ?F (w_fs w) (w_fs v)"
    "v = w' \<or> follows lib target (w_fs w) found \<and> finish_save lib target g previous ci ni found v = (r, w')"
    by (rule save_until_pruning [OF assms(1-3,5)])
  note same = generation_seen [OF assms(2) v(1) assms(3) k]
  from v(2) show ?thesis
  proof
    assume finish: "follows lib target (w_fs w) found \<and> finish_save lib target g previous ci ni found v = (r, w')"
    let ?N = "- kept_names target (kept_generations g found)"
    have names: "tensor_name target k \<notin> ?N" "manifest_name target k \<notin> ?N"
      using subsetD [OF named_are_kept [OF conjunct1 [OF finish]] assms(6)] by (auto simp: kept_names_def)
    have dirs: "dirs_to (w_fs v) (butlast target)" using v(1) assms(3) by (simp add: siblings_def)
    have "siblings target ?N (w_fs v) (w_fs w')"
      by (rule touches_step(1) [OF touches_finish [OF assms(2,4), where U = "\<lambda>u. True"] dirs TrueI conjunct2 [OF finish]])
    from generation_seen [OF assms(2) this dirs k(1) names] show ?thesis by (rule trans) (rule same)
  next
    assume "v = w'"
    from same [unfolded this] show ?thesis .
  qed
qed

end
