(* ===== verification/CheckpointExamples.thy ===== *)
theory CheckpointExamples
  imports CheckpointSaving
begin

section \<open>Checkpoint lineages: an example\<close>

text \<open>
  A lineage with one generation of a model with one layer, under an array library whose tensors are texts,
  whose trees are association lists and whose tensor files are lists of assignments: the hypotheses of the
  properties of lineages hold there together.
\<close>

subsection \<open>An array library\<close>

definition text_tensors :: "(string \<times> string) list \<Rightarrow> string" where
  "text_tensors items = concat (map (\<lambda>(k, v). k @ ''='' @ v @ '';'') items)"

definition tensors_of :: "string \<Rightarrow> (string \<times> string) list res" where
  "tensors_of b = Inr (map (\<lambda>s. case split_on CHR ''='' s of [k, v] \<Rightarrow> (k, v) | _ \<Rightarrow> ([], [])) (butlast (split_on CHR '';'' b)))"

definition layer_arrays :: "string layer list \<Rightarrow> (string \<times> string) list" where
  "layer_arrays ls = concat (map (\<lambda>(i, l). [(''l.'' @ show_nat i @ ''.s'', ly_states l)]) (enumerate_from 0 ls))"

definition update_text ::
  "(string \<times> string) list \<Rightarrow> (string \<times> string) list \<times> string layer list \<Rightarrow>
   pyexc option \<times> (string \<times> string) list \<times> string layer list" where
  "update_text t m = (None, map (\<lambda>(k, v). (k, case map_of t k of None \<Rightarrow> v | Some u \<Rightarrow> u)) (fst m), snd m)"

definition text_library :: "(string, (string \<times> string) list) array_library" where
  "text_library =
     \<lparr>al_shape = \<lambda>v. [length v], al_save = \<lambda>items. Inr (text_tensors items), al_load = tensors_of, al_flatten = \<lambda>t. t,
      al_unflatten = Inr, al_parameters = \<lambda>t ls. t @ layer_arrays ls, al_update = update_text,
      al_eval = \<lambda>p t vs. None, al_now = example_time, al_failpoint = None\<rparr>"

lemmas library_defs = text_library_def text_tensors_def tensors_of_def layer_arrays_def update_text_def

subsection \<open>A model and its lineage\<close>

definition small_model :: "string \<Rightarrow> string \<Rightarrow> (string, (string \<times> string) list) model" where
  "small_model weight state =
     \<lparr>md_dim = 1, md_layercount = 1, md_spread = 1, md_temp = JInt 1, md_lr = JInt 1, md_lrbegin = 0, md_lrend = 1,
      md_weights = [(''w'', weight)], md_optimizer = [],
      md_layers = [\<lparr>ly_states = state, ly_decaytrace = ''d'', ly_embedtrace = ''e''\<rparr>],
      md_event = [], md_taint = False, md_taint_source = None\<rparr>"

abbreviation fresh_model :: "(string, (string \<times> string) list) model" where
  "fresh_model \<equiv> small_model ''0'' ''-''"

definition saved_bytes :: string where
  "saved_bytes = text_tensors (model_tensors text_library (small_model ''7'' ''s''))"

definition run_path :: path where "run_path = [''ck'', ''m'']"

definition saved_tree :: fs where
  "saved_tree =
     [([''ck''], Dir),
      (lineage_head_path run_path, File (document_text (head_document ''g1'' None ''c1'' 1 (example_time 0)))),
      (manifest_path run_path ''g1'',
        File (document_text (manifest_of fresh_model run_path ''g1'' None ''c1'' 1 saved_bytes (example_time 0)))),
      (checkpoint_path run_path ''g1'', File saved_bytes)]"

definition saved_parts :: "(string, (string \<times> string) list) loaded_parts" where
  "saved_parts =
     \<lparr>cp_model = [(''w'', ''7''), (''l.0.s'', ''s'')], cp_opts = None, cp_states = [(0, ''s'')],
      cp_decaytraces = [(0, ''d'')], cp_embedtraces = [(0, ''e'')]\<rparr>"

lemma run_target: "lineage_target run_path"
  by (simp add: run_path_def lineage_target_def plain_name_def)

lemma run_paths:
  "lineage_head_path run_path = [''ck'', ''m.head.json'']"
  "manifest_path run_path ''g1'' = [''ck'', ''m.g-g1.manifest.json'']"
  "checkpoint_path run_path ''g1'' = [''ck'', ''m.g-g1.safetensors'']"
  "checkpoint_file run_path ''g1'' = ''m.g-g1.safetensors''"
  by (simp_all add: run_path_def lineage_head_path_def manifest_path_def checkpoint_path_def checkpoint_file_def
      path_plus_def parts_def last_name_def base_name_def subpath_def)

lemma saved_dirs: "dirs_to saved_tree (butlast run_path)"
proof -
  have "within q [''ck''] \<Longrightarrow> q = [] \<or> q = [''ck'']" for q :: path by (cases q) (auto simp: within_def)
  then show ?thesis by (auto simp: dirs_to_def run_path_def saved_tree_def node_at_def)
qed

lemma saved_lookups:
  "lookup saved_tree (lineage_head_path run_path) =
     Some (File (document_text (head_document ''g1'' None ''c1'' 1 (example_time 0))))"
  "lookup saved_tree (manifest_path run_path ''g1'') =
     Some (File (document_text (manifest_of fresh_model run_path ''g1'' None ''c1'' 1 saved_bytes (example_time 0))))"
  "lookup saved_tree (checkpoint_path run_path ''g1'') = Some (File saved_bytes)"
  by (simp_all add: saved_tree_def run_paths node_at_def)

lemma digit_zero: "digit_char 0 = CHR ''0''"
  by code_simp

lemma layer_zero: "py_int ''0'' = Inr 0"
  by (simp add: py_int_def strip_def space1_def code_def is_digit_def read_nat_def digit_val_def Let_def)

lemma saved_data:
  "al_load text_library saved_bytes =
     Inr [(''m.w'', ''7''), (''m.l.0.s'', ''s''), (''state.0'', ''s''), (''decaytrace.0'', ''d''), (''embedtrace.0'', ''e'')]"
  by (simp add: saved_bytes_def library_defs small_model_def model_tensors_def parameters_def show_nat.simps digit_zero)

lemma saved_checkpoint:
  "checkpoint_parts text_library fresh_model
     [(''m.w'', ''7''), (''m.l.0.s'', ''s''), (''state.0'', ''s''), (''decaytrace.0'', ''d''), (''embedtrace.0'', ''e'')] =
   Inr saved_parts"
  by (simp add: checkpoint_parts_def no_tensors_def starts_with_def layer_key_def layer_zero digit_zero Let_def library_defs
      small_model_def parameters_def show_nat.simps saved_parts_def check_shape_def check_layer_keys_def check_layer_shape_def
      unflatten_def)

lemma saved_head: "lineage_head text_library run_path saved_tree = Inr (head_document ''g1'' None ''c1'' 1 (example_time 0))"
  by (rule written_head [OF saved_lookups(1)]) (simp_all add: ascii_id_def code_def)

lemma saved_validates:
  "role_validates text_library fresh_model run_path saved_tree (head_document ''g1'' None ''c1'' 1 (example_time 0)) (''current'', ''g1'') =
     Inr (saved_parts, manifest_of fresh_model run_path ''g1'' None ''c1'' 1 saved_bytes (example_time 0))"
proof -
  have "answer (validate_generation text_library fresh_model run_path ''g1'' (Some (JStr ''c1'')) (Some (JInt 1))) saved_tree =
      Inr (saved_parts, manifest_of fresh_model run_path ''g1'' None ''c1'' 1 saved_bytes (example_time 0))"
    by (rule written_generation [OF saved_lookups(2,3) saved_data saved_checkpoint])
      (simp_all add: config_ok_def small_model_def ascii_id_def code_def run_paths)
  then show ?thesis by (simp add: role_validates_def validate_role_def head_document_def jget_def)
qed

lemma saved_selection:
  "selected_generation text_library fresh_model run_path saved_tree =
     Some ((''current'', ''g1''), saved_parts, manifest_of fresh_model run_path ''g1'' None ''c1'' 1 saved_bytes (example_time 0))"
proof -
  have "candidates (head_document ''g1'' None ''c1'' 1 (example_time 0)) = [(''current'', ''g1'')]"
    by (simp add: candidates_def head_document_def jget_def text_of_def opt_id_def)
  then show ?thesis by (simp add: selected_generation_def saved_head saved_validates)
qed

lemma saved_applies:
  "apply_checkpoint text_library saved_parts fresh_model =
     (Inr (), (small_model ''7'' ''s'')\<lparr>md_taint := False, md_taint_source := None\<rparr>)"
  by (simp add: apply_checkpoint_def install_checkpoint_def saved_parts_def small_model_def library_defs stop_at_def evaluate_all_def Let_def)

lemma text_update_restores: "update_restores text_library fresh_model"
  by (auto simp: update_restores_def library_defs small_model_def evaluate_all_def parameters_def)

subsection \<open>Witnesses\<close>



definition legacy_tree :: fs where
  "legacy_tree = [([''ck''], Dir), (run_path, File saved_bytes)]"

theorem legacy_file_is_never_overwritten_witness:
  "\<exists>e m' w'. runtime_call text_library run_path (doA (ret ())) True True fresh_model (quiet_world legacy_tree) = ((Inl e, m'), w') \<and>
    agree (lineage_audit_path run_path) legacy_tree (w_fs w')"
proof -
  obtain r m' w' where run: "runtime_call text_library run_path (doA (ret ())) True True fresh_model (quiet_world legacy_tree) = ((r, m'), w')"
    by (metis prod.collapse)
  have "dirs_to legacy_tree (butlast run_path)"
  proof -
    have "within q [''ck''] \<Longrightarrow> q = [] \<or> q = [''ck'']" for q :: path by (cases q) (auto simp: within_def)
    then show ?thesis by (auto simp: dirs_to_def run_path_def legacy_tree_def node_at_def)
  qed
  moreover have "\<not> path_exists legacy_tree (lineage_head_path run_path)" "path_exists legacy_tree run_path"
    unfolding run_paths by (simp_all add: path_exists_def legacy_tree_def run_path_def node_at_def)
  ultimately show ?thesis
    using legacy_file_is_never_overwritten [OF run run_target _ text_update_restores] run by auto
qed

theorem status_reports_the_selected_generation_witness:
  "\<exists>r w'. checkpoint_status text_library fresh_model run_path (quiet_world saved_tree) = (Inr r, w') \<and>
    jget r ''loadable'' = JBool True \<and> jget r ''selected_generation'' = JStr ''g1''"
proof -
  have "path_exists saved_tree (lineage_head_path run_path)" by (simp add: path_exists_def saved_lookups)
  with status_reports_the_selected_generation [of "quiet_world saved_tree" run_path text_library fresh_model] run_target saved_dirs
  show ?thesis by (auto simp: quiet_def saved_selection)
qed

theorem migration_adds_no_binding_witness:
  "\<exists>raw v. json_load (manifest_path run_path ''g1'') (quiet_world saved_tree) = (Inr raw, v) \<and>
    jget raw ''config_binding'' = JStr CONFIG_BINDING \<and> natural_from 1 (jget raw ''commit_seq'')"
proof -
  have "read_generation_manifest text_library (checkpoint_model_config fresh_model) run_path ''g1'' (Some (JStr ''c1'')) (Some (JInt 1))
      (quiet_world saved_tree) =
    (Inr (manifest_of fresh_model run_path ''g1'' None ''c1'' 1 saved_bytes (example_time 0)), (quiet_world saved_tree)\<lparr>w_tick := Suc 0\<rparr>)"
    by (rule written_manifest [OF saved_lookups(2)])
      (simp_all add: config_ok_def small_model_def ascii_id_def code_def run_paths)
  from migration_adds_no_binding [OF this] show ?thesis by blast
qed

lemma example_ids: "good_ids text_library run_path saved_tree (example_id ''uuid'')"
proof -
  have "candidates (head_document ''g1'' None ''c1'' 1 (example_time 0)) = [(''current'', ''g1'')]"
    by (simp add: candidates_def head_document_def jget_def text_of_def opt_id_def)
  then have "lineage_ids text_library run_path saved_tree = {''g1''}" by (simp add: lineage_ids_def saved_head)
  moreover have "ascii_id (hex_of (example_id ''uuid'' n))" "plain_id (hex_of (example_id ''uuid'' n))" "hex_of (example_id ''uuid'' n) \<noteq> ''g1''" for n
  proof -
    have "c \<in> set (show_nat n) \<Longrightarrow> is_digit c" for c using show_nat_digits [of n] by (simp add: list_all_iff)
    then have "c \<in> set (hex_of (show_nat n)) \<Longrightarrow> code c < 128 \<and> c \<noteq> CHR ''/''" for c
      by (fastforce simp: hex_of_def is_digit_def code_def)
    moreover have "hex_of (example_id ''uuid'' n) = ''uuid'' @ hex_of (show_nat n)" by (simp add: hex_of_def example_id_def)
    ultimately show "ascii_id (hex_of (example_id ''uuid'' n))" "plain_id (hex_of (example_id ''uuid'' n))"
      "hex_of (example_id ''uuid'' n) \<noteq> ''g1''"
      by (auto simp: ascii_id_def plain_id_def ascii_def list_all_iff code_def)
  qed
  ultimately show ?thesis by (simp add: good_ids_def ascii_id_def plain_id_def code_def)
qed

theorem save_is_crash_safe_witness:
  "\<exists>r m' w'. save text_library run_path (small_model ''7'' ''s'') ((quiet_world saved_tree)\<lparr>w_fault := \<lambda>n. if n = 9 then Some 0 else None\<rparr>) = ((r, m'), w') \<and>
    (holds_saved_model text_library (small_model ''7'' ''s'') run_path (w_fs w') \<or>
     r \<noteq> Inr () \<and> lineage_head text_library run_path (w_fs w') = lineage_head text_library run_path saved_tree)"
proof -
  let ?w = "(quiet_world saved_tree)\<lparr>w_fault := \<lambda>n. if n = 9 then Some 0 else None\<rparr>"
  obtain r m' w' where run: "save text_library run_path (small_model ''7'' ''s'') ?w = ((r, m'), w')" by (metis prod.collapse)
  have "\<forall>c \<in> set (butlast run_path). \<not> has_magic c" by (simp add: run_path_def has_magic_def)
  from save_is_crash_safe [OF run run_target _ this] run saved_dirs example_ids show ?thesis by auto
qed

theorem save_keeps_named_generations_witness:
  "\<exists>r m' w'. save text_library run_path (small_model ''7'' ''s'') (quiet_world saved_tree) = ((r, m'), w') \<and>
    answer (validate_generation text_library fresh_model run_path ''g1'' None None) (w_fs w') =
    answer (validate_generation text_library fresh_model run_path ''g1'' None None) saved_tree"
proof -
  obtain r m' w' where run: "save text_library run_path (small_model ''7'' ''s'') (quiet_world saved_tree) = ((r, m'), w')"
    by (metis prod.collapse)
  have "\<forall>c \<in> set (butlast run_path). \<not> has_magic c" by (simp add: run_path_def has_magic_def)
  moreover have "''g1'' \<in> lineage_ids text_library run_path saved_tree"
    by (simp add: lineage_ids_def saved_head candidates_def head_document_def jget_def text_of_def)
  ultimately show ?thesis
    using save_keeps_named_generations [OF run run_target, of "''g1''" fresh_model None None] run saved_dirs example_ids by auto
qed

subsection \<open>A target with brackets\<close>

definition bracketed_tree :: fs where
  "bracketed_tree =
     [([''ck''], Dir), ([''ck'', ''run[1].g-old.safetensors''], File ''a''), ([''ck'', ''run[1].g-new.safetensors''], File ''b''),
      ([''ck'', ''run1.g-current.safetensors''], File ''c'')]"


end
