(* ===== verification/Spec2Isabelle.thy ===== *)
theory Spec2Isabelle
  imports EndToEndExamples MigrationState MigrationHistory DeletionBatches HistoricalShadow ReleaseAuthority ReconciliationBinding
    RuntimeShim HistoricalOpening HistoricalRoundtrip HistoricalIntakeExamples CheckpointExamples
begin

text \<open>
  A verification development for GALIA: the 2.0 control plane, the Python package \<open>src/galia2\<close>, and the
  historical store and the checkpoint lineage of the runtime beside it.  The control plane is a pipeline that takes a research artefact through guarded stages to a published, immutable generation, with human
  authority at the boundary, an audit trail, recovery, database migrations, an authority reconciliation
  and a guarded deletion of superseded files.

  \<^bold>\<open>The program and its parts.\<close>  A \<^emph>\<open>stage\<close> moves through a state machine; the \<^emph>\<open>orchestrator\<close> runs an
  executor and validators and asks the machine for the transition; the \<^emph>\<open>authority layer\<close> turns human
  decisions into guards and promotion authorizations; the \<^emph>\<open>preflight\<close> turns snapshots of the candidate
  and of the rollback target into guards; the \<^emph>\<open>generation store\<close> stages, verifies and publishes
  directories of payloads and moves HEAD; the \<^emph>\<open>audit ledger\<close> is an append-only hash chain; \<^emph>\<open>recovery\<close>
  opens intakes and rolls HEAD back; the \<^emph>\<open>end-to-end gate\<close> composes all of them.  Beside this path stand
  the Legacy adapter, the historical shadow bridge, database migrations, the deletion tools, the release
  gate and the authority reconciliation.

  \<^bold>\<open>Theories.\<close>
  \<^item> \<open>Prelude\<close>, \<open>PyTime\<close>, \<open>Json\<close>, \<open>JsonValues\<close>, \<open>Sha256\<close>: results as sums with the exceptions of the sources,
    required texts and digests, dates and timestamps, \<open>json.dumps\<close> with sorted keys and \<open>json.loads\<close>,
    \<open>==\<close> and \<open>str\<close> of dynamic values, SHA-256 on 32-bit words.
  \<^item> \<open>Effects\<close>, \<open>FileSystem\<close>, \<open>FileFrames\<close>, \<open>FileReads\<close>, \<open>Outcomes\<close>: operations with effects are functions
    of a world (a file tree, a counter of the calls made outside, what clocks and id sources answer at each, and
    which system call fails) that give a result and the world after.  \<open>FileFrames\<close> and \<open>FileReads\<close> say what the calls leave alone.
  \<^item> \<open>Machines\<close>: the locale of guarded machines (runs, ranks, finiteness), interpreted on the stage machine
    and on the migration machine.
  \<^item> \<open>Core\<close> (\<open>core.py\<close>): the data model; every \<open>__post_init__\<close> is an operation that accepts or raises, and
    the locale \<open>data_class\<close> of \<open>Prelude\<close> (acceptance is idempotent) is interpreted on each.
  \<^item> \<open>StateMachine\<close> (\<open>state_machine.py\<close>), \<open>Orchestrator\<close> (\<open>orchestrator.py\<close>), \<open>Authority\<close> (\<open>authority.py\<close>),
    \<open>Preflight\<close> (\<open>preflight.py\<close>), \<open>LegacyAdapter\<close> (\<open>legacy_adapter.py\<close>).
  \<^item> \<open>Generations\<close>, \<open>Persistence\<close> (\<open>persistence.py\<close>): manifests, envelopes and HEAD with their readers; staging,
    verification and publication.  \<open>StoreVerification\<close>, \<open>StoreSafety\<close>, \<open>StorePublication\<close>, \<open>StoreLiveness\<close> prove
    what verification decides, that staging leaves the store alone, that a crash at any point of a
    publication leaves a store that serves the old or the new generation, and that publication returns.
  \<^item> \<open>HashChain\<close>, \<open>AuditLedger\<close>, \<open>Recovery\<close>, \<open>RecoverySafety\<close> (\<open>recovery_audit.py\<close>): the hash chain as a locale, interpreted
    on the audit ledger and on the migration history; intakes, retained attempts and rollback.
  \<^item> \<open>EndToEnd\<close>, \<open>EndToEndSafety\<close>, \<open>EndToEndExamples\<close> (\<open>end_to_end.py\<close>): the gate and its guarantees over all
    components, with a concrete run.
  \<^item> \<open>DbMigration\<close>, \<open>MigrationState\<close>, \<open>MigrationHistory\<close> (\<open>galia2/db_deploy\<close>): classification of schema deltas,
    shadow execution, the migration machine and the applied-migration history.
  \<^item> \<open>SafeDelete\<close>, \<open>DeletionPlan\<close>, \<open>DeletionBatches\<close> (\<open>delete_authorization.py\<close>, \<open>safe_delete*.py\<close>): the blockers of
    a deletion, the plan, and its execution in one call or in two batches.
  \<^item> \<open>HistoricalShadow\<close> (\<open>historical_shadow.py\<close>), \<open>ReleaseAuthority\<close> (\<open>release_authority.py\<close>).
  \<^item> \<open>ConflictComponents\<close>, \<open>AuthorityReconciliation\<close> (\<open>authority_reconciliation.py\<close>), \<open>ReconciliationBinding\<close>
    (\<open>reconciliation_authority_binding.py\<close>): candidates, their conflict graph, the human decision and the
    binding of a result to a scope.
  \<^item> \<open>RuntimeShim\<close> (\<open>runtime_integration.py\<close>): the compatibility gate over the syntax tree of the legacy source, and
    the bridge that calls a legacy runtime once and captures what it saw.
  \<^item> \<open>Relational\<close>, \<open>HistoricalSchema\<close>, \<open>HistoricalStore\<close>, \<open>HistoricalOpening\<close> (\<open>historical_store.py\<close>): tables with
    constraints and sessions with transactions, the sixteen tables, every operation of the store, and its
    migrations with an interruption at any point.  \<open>HistoricalInvariant\<close>, \<open>HistoricalReview\<close>, \<open>HistoricalExamples\<close>
    prove what every run of operations keeps, that claims become canonical only by a recorded human review
    behind the raw-capture gate, and what a refused review leaves.
  \<^item> \<open>HistoricalBundle\<close>, \<open>FileSwap\<close>, \<open>HistoricalBundleFile\<close>, \<open>HistoricalRoundtrip\<close> (\<open>historical_store_bundle.py\<close>): export,
    digest, reconstruction, the replacement of a file through a temporary one, and the round trip.
  \<^item> \<open>HistoricalArtifacts\<close>, \<open>HistoricalIntake\<close>, \<open>HistoricalIntakeExamples\<close> (\<open>historical_artifacts.py\<close>,
    \<open>historical_acquisition.py\<close>, \<open>galia_history_bridge.py\<close>): content-addressed capture, binding, acquisition states
    and the recording of what the engine proposes.

  \<^item> \<open>Checkpoint\<close>, \<open>CheckpointLineage\<close> (\<open>main.py\<close>): the documents of a lineage of checkpoints, their schema
    migrations and the validation of a generation; \<open>save\<close>, \<open>load\<close>, \<open>checkpoint_status\<close>, pruning, and the gate of
    \<open>Runtime.__call__\<close>.  \<open>CheckpointSelection\<close> and \<open>CheckpointLoading\<close> prove that what the readers answer is a
    function of the file tree (a locale over the views of the tree), the generation that the tree selects, and
    that a load applies it or leaves the model as it was; \<open>CheckpointDocuments\<close> and \<open>CheckpointSaving\<close> that an
    interrupted save leaves the old lineage or the complete new generation, and that pruning spares every generation
    a HEAD named; \<open>CheckpointExamples\<close> gives a lineage on which all of it holds.

  \<^bold>\<open>Correspondence.\<close>  Records and datatypes carry the names of the classes, operations the names of the
  functions; a prefix tells apart equal field names.  An exception is a value \<open>Inl e\<close> of type \<open>pyexc\<close>; a
  step with effects has type \<open>io\<close>.  Executors, validators, clocks, id generators, deletion adapters, readers of the
  historical store and the shadow engine of a migration are arguments, because the program receives them
  from its caller; theorems that need them to answer say so.

  \<^bold>\<open>What is shown.\<close>  Invariants: the store, the ledger and the migration history stay well formed under every
  operation, at every prefix of its effects.  Safety: a canonical stage, a publication, a rollback, a
  deletion and a reconciliation each need exactly the evidence and the human decision the code names.
  Exact decisions: each gate accepts if and only if the stated condition holds.  Liveness: a well-formed
  run returns.  Tamper evidence: two logs with the same last digest are equal or exhibit a SHA-256
  collision.  Errors: where the code raises late, loses a receipt, or accepts what it cannot read back.

  \<^bold>\<open>Bounds and fuel.\<close>  The JSON reader spends one unit of fuel per call and starts with the length of its
  text; every call consumes a character, and reading back what was written is proved with that fuel.  The
  walk over ancestors has as much fuel as there are generation directories; it visits none twice.  The
  search for conflict components needs no fuel: unvisited nodes decrease, then the stack.

  \<^bold>\<open>Simplifications.\<close>  A \<open>str\<close> is its UTF-8 text, one byte a character; \<open>fromisoformat\<close> reads the shapes
  \<open>isoformat\<close> writes; floating point numbers in JSON are rejected; candidate ids of a reconciliation are
  texts.  A file tree has files and directories only.

  \<^bold>\<open>Not modelled.\<close>  Of SQLite: pragmas, locking between connections, and the SQL text itself; a statement is the
  operation on rows it stands for, and the constraints of a table are checked as SQLite checks them.  The
  parser behind the compatibility gate (\<open>ast.parse\<close>) and the text of floating point numbers are arguments.  Of
  \<open>main.py\<close> the checkpoint lineage and its gate are modelled over an abstract array library; the layers, the training and chat loops
  and \<open>benchmark.py\<close> are arithmetic of that library.  Pilots, tools and dashboards
  under \<open>pilots\<close> and \<open>tools\<close> are scripts of input and output.
\<close>

end
